(* ===== verification/Prelude.thy ===== *)
theory Prelude
  imports Main "HOL-Library.Word"
begin

text \<open>
  What every theory of the development shares: the Python exceptions as values, the
  sequencing of fallible computations, little-endian byte strings, and the collections of
  facts that drive the component proofs.

  \<^item> \<open>ok_simps\<close>: equations of the shape "this computation returns \<open>x\<close> iff ..."; with
    \<open>simp add: ok_simps\<close> a successful run of a gadget unfolds into what it read and checked.
  \<^item> \<open>fq_eval\<close>: equations that reduce field arithmetic to integer arithmetic.
\<close>

section \<open>Exceptions and fallible results\<close>

named_theorems ok_simps "success of a computation, as an equivalence"
named_theorems fq_eval "field arithmetic as integer arithmetic"

text \<open>
  One constructor per exception class the code raises. An \<open>assert c, E(..)\<close> statement raises
  \<open>AssertionError\<close> whatever its message object is, also when the message is a
  \<open>ConstraintUnsatFailure\<close>; a \<open>raise ConstraintUnsatFailure(..)\<close> raises that class itself.
\<close>

datatype error =
    AssertionError
  | ConstraintUnsatFailure
  | LookupUnsatFailure
  | LookupAmbiguousFailure
  | OverflowError
  | ValueError
  | TypeError
  | IndexError
  | KeyError
  | ZeroDivisionError
  | NotImplementedError
  | UnboundLocalError
  | AttributeError

type_synonym 'a result = "error + 'a"

definition rbind :: "'a result \<Rightarrow> ('a \<Rightarrow> 'b result) \<Rightarrow> 'b result" where
  "rbind m f = (case m of Inl e \<Rightarrow> Inl e | Inr x \<Rightarrow> f x)"

definition raise_unless :: "error \<Rightarrow> bool \<Rightarrow> unit result" where
  "raise_unless e b = (if b then Inr () else Inl e)"

definition assert_that :: "bool \<Rightarrow> unit result" where
  "assert_that b = raise_unless AssertionError b"

fun rmap :: "('a \<Rightarrow> 'b result) \<Rightarrow> 'a list \<Rightarrow> 'b list result" where
  "rmap f [] = Inr []"
| "rmap f (x # xs) = rbind (f x) (\<lambda>y. rbind (rmap f xs) (\<lambda>ys. Inr (y # ys)))"

fun riter :: "('a \<Rightarrow> unit result) \<Rightarrow> 'a list \<Rightarrow> unit result" where
  "riter f [] = Inr ()"
| "riter f (x # xs) = rbind (f x) (\<lambda>_. riter f xs)"

lemma rbind_simps [simp]:
  "rbind (Inr x) f = f x"
  "rbind (Inl e) f = Inl e"
  by (simp_all add: rbind_def)

lemma rbind_assoc [simp]: "rbind (rbind m f) g = rbind m (\<lambda>x. rbind (f x) g)"
  by (cases m) simp_all

lemma rbind_ok [ok_simps]: "rbind m f = Inr y \<longleftrightarrow> (\<exists>x. m = Inr x \<and> f x = Inr y)"
  by (cases m) simp_all

lemma rbind_error: "rbind m f = Inl e \<longleftrightarrow> m = Inl e \<or> (\<exists>x. m = Inr x \<and> f x = Inl e)"
  by (cases m) simp_all

lemma raise_unless_ok [ok_simps]: "raise_unless e b = Inr u \<longleftrightarrow> b"
  by (simp add: raise_unless_def)

lemma assert_that_ok [ok_simps]: "assert_that b = Inr u \<longleftrightarrow> b"
  by (simp add: assert_that_def raise_unless_def)

lemma assert_that_simps [simp]:
  "assert_that True = Inr ()"
  "assert_that False = Inl AssertionError"
  "raise_unless e True = Inr ()"
  "raise_unless e False = Inl e"
  by (simp_all add: assert_that_def raise_unless_def)

lemma riter_ok [ok_simps]: "riter f xs = Inr u \<longleftrightarrow> (\<forall>x\<in>set xs. f x = Inr ())"
  by (induction xs) (auto simp: rbind_ok)

lemma rmap_ok:
  "rmap f xs = Inr ys \<longleftrightarrow> length ys = length xs \<and> (\<forall>i<length xs. f (xs ! i) = Inr (ys ! i))"
proof (induction xs arbitrary: ys)
  case Nil
  then show ?case by auto
next
  case (Cons x xs)
  show ?case
    by (cases ys) (auto simp: rbind_ok Cons.IH nth_Cons split: nat.splits)
qed

section \<open>Little-endian byte strings\<close>

text \<open>
  Python's \<open>int.to_bytes(n, "little")\<close> and \<open>int.from_bytes(bs, "little")\<close>. A byte is an
  \<open>int\<close> in \<open>0..255\<close>. \<open>to_bytes\<close> raises \<open>OverflowError\<close> for a negative value or one that
  does not fit.
\<close>

fun le_bytes :: "nat \<Rightarrow> int \<Rightarrow> int list" where
  "le_bytes 0 x = []"
| "le_bytes (Suc n) x = x mod 256 # le_bytes n (x div 256)"

fun le_val :: "int list \<Rightarrow> int" where
  "le_val [] = 0"
| "le_val (b # bs) = b + 256 * le_val bs"

definition is_byte :: "int \<Rightarrow> bool" where
  "is_byte b \<longleftrightarrow> 0 \<le> b \<and> b < 256"

definition to_bytes_le :: "int \<Rightarrow> nat \<Rightarrow> int list result" where
  "to_bytes_le x n = (if 0 \<le> x \<and> x < 256 ^ n then Inr (le_bytes n x) else Inl OverflowError)"

lemma length_le_bytes [simp]: "length (le_bytes n x) = n"
  by (induction n arbitrary: x) simp_all

lemma is_byte_mod [simp]: "is_byte (x mod 256)"
  by (simp add: is_byte_def)

lemma le_bytes_is_byte: "b \<in> set (le_bytes n x) \<Longrightarrow> is_byte b"
  by (induction n arbitrary: x) auto

lemma le_bytes_nth: "i < n \<Longrightarrow> le_bytes n x ! i = x div 256 ^ i mod 256"
proof (induction n arbitrary: x i)
  case 0
  then show ?case by simp
next
  case (Suc n)
  show ?case
  proof (cases i)
    case 0
    then show ?thesis by simp
  next
    case (Suc j)
    with Suc.IH [of j "x div 256"] Suc.prems show ?thesis
      by (simp add: zdiv_zmult2_eq)
  qed
qed

lemma le_val_le_bytes [simp]: "le_val (le_bytes n x) = x mod 256 ^ n"
proof (induction n arbitrary: x)
  case 0
  then show ?case by simp
next
  case (Suc n)
  have "x mod (256 * 256 ^ n) = x mod 256 + 256 * (x div 256 mod 256 ^ n)"
    by (simp add: zmod_zmult2_eq)
  then show ?case using Suc by simp
qed

lemma le_val_nonneg: "(\<And>b. b \<in> set bs \<Longrightarrow> is_byte b) \<Longrightarrow> 0 \<le> le_val bs"
  by (induction bs) (auto simp: is_byte_def)

lemma le_val_bound: "(\<And>b. b \<in> set bs \<Longrightarrow> is_byte b) \<Longrightarrow> le_val bs < 256 ^ length bs"
proof (induction bs)
  case Nil
  then show ?case by simp
next
  case (Cons b bs)
  then have "le_val bs + 1 \<le> 256 ^ length bs" and "is_byte b"
    by force+
  then show ?case by (simp add: is_byte_def)
qed

lemma le_val_append: "le_val (xs @ ys) = le_val xs + 256 ^ length xs * le_val ys"
  by (induction xs) (simp_all add: algebra_simps)

lemma le_bytes_le_val:
  "(\<And>b. b \<in> set bs \<Longrightarrow> is_byte b) \<Longrightarrow> le_bytes (length bs) (le_val bs) = bs"
  by (induction bs) (auto simp: is_byte_def)

lemma take_le_bytes: "take k (le_bytes n x) = le_bytes (min k n) x"
  by (rule nth_equalityI) (auto simp: le_bytes_nth)

lemma drop_le_bytes: "drop k (le_bytes n x) = le_bytes (n - k) (x div 256 ^ k)"
proof (rule nth_equalityI)
  fix i
  assume i: "i < length (drop k (le_bytes n x))"
  have "x div 256 ^ (k + i) = x div 256 ^ k div 256 ^ i"
    by (simp add: power_add zdiv_zmult2_eq)
  with i show "drop k (le_bytes n x) ! i = le_bytes (n - k) (x div 256 ^ k) ! i"
    by (simp add: le_bytes_nth)
qed simp

lemma le_bytes_mod: "n \<le> m \<Longrightarrow> le_bytes n (x mod 256 ^ m) = le_bytes n x"
proof (induction n arbitrary: x m)
  case 0
  then show ?case by simp
next
  case (Suc n)
  then obtain k where m: "m = Suc k" by (cases m) auto
  have "x mod 256 ^ m mod 256 = x mod 256" and "x mod 256 ^ m div 256 = x div 256 mod 256 ^ k"
    by (simp_all add: m zmod_zmult2_eq mod_mod_cancel)
  with Suc m show ?case by simp
qed

lemma le_bytes_append: "le_bytes (m + n) x = le_bytes m x @ le_bytes n (x div 256 ^ m)"
  using append_take_drop_id [of m "le_bytes (m + n) x"]
  by (simp add: take_le_bytes drop_le_bytes)

lemma to_bytes_le_ok [ok_simps]:
  "to_bytes_le x n = Inr bs \<longleftrightarrow> 0 \<le> x \<and> x < 256 ^ n \<and> bs = le_bytes n x"
  by (auto simp: to_bytes_le_def)

lemma int_div_le: "0 \<le> x \<Longrightarrow> 0 < m \<Longrightarrow> x div m \<le> (x::int)"
proof -
  assume "0 \<le> x" "0 < m"
  then have "0 \<le> x div m" "1 \<le> m" by (simp_all add: pos_imp_zdiv_nonneg_iff)
  then have "x div m * 1 \<le> x div m * m" by (intro mult_left_mono)
  also have "\<dots> \<le> x" using mod_div_mult_eq [of x m] pos_mod_sign [OF \<open>0 < m\<close>, of x] by linarith
  finally show ?thesis by simp
qed

lemma int_div_lt: "a < c * b \<Longrightarrow> 0 < b \<Longrightarrow> a div b < (c::int)"
proof (rule ccontr)
  assume a: "a < c * b" "0 < b" "\<not> a div b < c"
  then have "c * b \<le> a div b * b" by (intro mult_right_mono) simp_all
  also have "\<dots> \<le> a" using mod_div_mult_eq [of a b] pos_mod_sign [OF a(2), of a] by linarith
  finally show False using a(1) by simp
qed

lemma two_level_carry:
  fixes l h m :: int
  shows "l + h * m = l mod m + (h + l div m) mod m * m + (h + l div m) div m * (m * m)"
proof -
  have "l + h * m = l mod m + (h + l div m) * m"
    using mod_div_mult_eq [of l m] by (simp add: algebra_simps)
  also have "(h + l div m) * m = ((h + l div m) mod m + (h + l div m) div m * m) * m"
    by (simp only: mod_div_mult_eq)
  finally show ?thesis by (simp only: distrib_right mult.assoc add.assoc)
qed

text \<open>Digits in a positional system determine the number: used to split words into limbs.\<close>

lemma base_split_unique:
  fixes a b c d m :: int
  assumes "0 \<le> a" "a < m" "0 \<le> c" "c < m" "a + b * m = c + d * m"
  shows "a = c" "b = d"
proof -
  have "(a + b * m) mod m = a" and "(a + b * m) div m = b"
    and "(c + d * m) mod m = c" and "(c + d * m) div m = d"
    using assms(1-4) by simp_all
  with assms(5) show "a = c" "b = d" by metis+
qed

end
