(* ===== verification/Tags.thy ===== *)
theory Tags
  imports Prelude
begin

text \<open>
  The tags of \<^verbatim>\<open>src/zkevm_specs/evm_circuit/table.py\<close>: one datatype per \<open>IntEnum\<close> class, with the
  numbering of its members. In the tables a tag appears as the field element of its number.
\<close>

datatype fixed_table_tag =
    F_Range5 | F_Range16 | F_Range32 | F_Range64 | F_Range256 | F_Range512 | F_Range1024 |
    F_Range24_576 | F_SignByte | F_BitwiseAnd | F_BitwiseOr | F_BitwiseXor |
    F_ResponsibleOpcode | F_Pow2 | F_OpcodeConstantGas | F_PrecompileInfo

primrec ftag_int :: "fixed_table_tag \<Rightarrow> int" where
  "ftag_int F_Range5 = 1"
| "ftag_int F_Range16 = 2"
| "ftag_int F_Range32 = 3"
| "ftag_int F_Range64 = 4"
| "ftag_int F_Range256 = 5"
| "ftag_int F_Range512 = 6"
| "ftag_int F_Range1024 = 7"
| "ftag_int F_Range24_576 = 8"
| "ftag_int F_SignByte = 9"
| "ftag_int F_BitwiseAnd = 10"
| "ftag_int F_BitwiseOr = 11"
| "ftag_int F_BitwiseXor = 12"
| "ftag_int F_ResponsibleOpcode = 13"
| "ftag_int F_Pow2 = 14"
| "ftag_int F_OpcodeConstantGas = 15"
| "ftag_int F_PrecompileInfo = 16"

definition all_fixed_table_tags :: "fixed_table_tag list" where
  "all_fixed_table_tags = [
    F_Range5, F_Range16, F_Range32, F_Range64, F_Range256, F_Range512, F_Range1024,
    F_Range24_576, F_SignByte, F_BitwiseAnd, F_BitwiseOr, F_BitwiseXor, F_ResponsibleOpcode,
    F_Pow2, F_OpcodeConstantGas, F_PrecompileInfo]"

definition range_table_tag :: "int \<Rightarrow> fixed_table_tag result" where
  "range_table_tag r =
     (if r = 5 then Inr F_Range5
      else if r = 16 then Inr F_Range16
      else if r = 32 then Inr F_Range32
      else if r = 64 then Inr F_Range64
      else if r = 256 then Inr F_Range256
      else if r = 512 then Inr F_Range512
      else if r = 1024 then Inr F_Range1024
      else if r = 24576 then Inr F_Range24_576
      else Inl ValueError)"

datatype block_context_field_tag =
    BC_Coinbase | BC_GasLimit | BC_Number | BC_Timestamp | BC_PrevRandao | BC_BaseFee |
    BC_ChainId | BC_HistoryHash | BC_WithdrawalRoot

primrec bc_int :: "block_context_field_tag \<Rightarrow> int" where
  "bc_int BC_Coinbase = 1"
| "bc_int BC_GasLimit = 2"
| "bc_int BC_Number = 3"
| "bc_int BC_Timestamp = 4"
| "bc_int BC_PrevRandao = 5"
| "bc_int BC_BaseFee = 6"
| "bc_int BC_ChainId = 7"
| "bc_int BC_HistoryHash = 8"
| "bc_int BC_WithdrawalRoot = 9"

datatype tx_context_field_tag =
    TC_Nonce | TC_Gas | TC_GasPrice | TC_CallerAddress | TC_CalleeAddress | TC_IsCreate |
    TC_Value | TC_CallDataLength | TC_CallDataGasCost | TC_TxInvalid | TC_AccessListGasCost |
    TC_TxSignHash | TC_CallData

primrec tc_int :: "tx_context_field_tag \<Rightarrow> int" where
  "tc_int TC_Nonce = 1"
| "tc_int TC_Gas = 2"
| "tc_int TC_GasPrice = 3"
| "tc_int TC_CallerAddress = 4"
| "tc_int TC_CalleeAddress = 5"
| "tc_int TC_IsCreate = 6"
| "tc_int TC_Value = 7"
| "tc_int TC_CallDataLength = 8"
| "tc_int TC_CallDataGasCost = 9"
| "tc_int TC_TxInvalid = 10"
| "tc_int TC_AccessListGasCost = 11"
| "tc_int TC_TxSignHash = 12"
| "tc_int TC_CallData = 13"

datatype bytecode_field_tag =
    BF_Header | BF_Byte

primrec bf_int :: "bytecode_field_tag \<Rightarrow> int" where
  "bf_int BF_Header = 1"
| "bf_int BF_Byte = 2"

datatype rw =
    RW_Read | RW_Write

primrec rw_int :: "rw \<Rightarrow> int" where
  "rw_int RW_Read = 0"
| "rw_int RW_Write = 1"

datatype target =
    T_Start | T_TxAccessListAccount | T_TxAccessListAccountStorage | T_TxRefund | T_Account |
    T_AccountStorage | T_CallContext | T_Stack | T_Memory | T_TxLog | T_TxReceipt

primrec target_int :: "target \<Rightarrow> int" where
  "target_int T_Start = 1"
| "target_int T_TxAccessListAccount = 2"
| "target_int T_TxAccessListAccountStorage = 3"
| "target_int T_TxRefund = 4"
| "target_int T_Account = 5"
| "target_int T_AccountStorage = 6"
| "target_int T_CallContext = 7"
| "target_int T_Stack = 8"
| "target_int T_Memory = 9"
| "target_int T_TxLog = 10"
| "target_int T_TxReceipt = 11"

datatype account_field_tag =
    AF_Nonce | AF_Balance | AF_CodeHash | AF_NonExisting

primrec af_int :: "account_field_tag \<Rightarrow> int" where
  "af_int AF_Nonce = 1"
| "af_int AF_Balance = 2"
| "af_int AF_CodeHash = 3"
| "af_int AF_NonExisting = 4"

datatype call_context_field_tag =
    CC_RwCounterEndOfReversion | CC_CallerId | CC_TxId | CC_Depth | CC_CallerAddress |
    CC_CalleeAddress | CC_CallDataOffset | CC_CallDataLength | CC_ReturnDataOffset |
    CC_ReturnDataLength | CC_Value | CC_IsSuccess | CC_IsPersistent | CC_IsStatic | CC_IsRoot |
    CC_IsCreate | CC_CodeHash | CC_LastCalleeId | CC_LastCalleeReturnDataOffset |
    CC_LastCalleeReturnDataLength | CC_ProgramCounter | CC_StackPointer | CC_GasLeft |
    CC_MemorySize | CC_ReversibleWriteCounter

primrec cc_int :: "call_context_field_tag \<Rightarrow> int" where
  "cc_int CC_RwCounterEndOfReversion = 1"
| "cc_int CC_CallerId = 2"
| "cc_int CC_TxId = 3"
| "cc_int CC_Depth = 4"
| "cc_int CC_CallerAddress = 5"
| "cc_int CC_CalleeAddress = 6"
| "cc_int CC_CallDataOffset = 7"
| "cc_int CC_CallDataLength = 8"
| "cc_int CC_ReturnDataOffset = 9"
| "cc_int CC_ReturnDataLength = 10"
| "cc_int CC_Value = 11"
| "cc_int CC_IsSuccess = 12"
| "cc_int CC_IsPersistent = 13"
| "cc_int CC_IsStatic = 14"
| "cc_int CC_IsRoot = 15"
| "cc_int CC_IsCreate = 16"
| "cc_int CC_CodeHash = 17"
| "cc_int CC_LastCalleeId = 18"
| "cc_int CC_LastCalleeReturnDataOffset = 19"
| "cc_int CC_LastCalleeReturnDataLength = 20"
| "cc_int CC_ProgramCounter = 21"
| "cc_int CC_StackPointer = 22"
| "cc_int CC_GasLeft = 23"
| "cc_int CC_MemorySize = 24"
| "cc_int CC_ReversibleWriteCounter = 25"

datatype tx_log_field_tag =
    TL_Address | TL_Topic | TL_Data | TL_TopicLength | TL_DataLength

primrec tl_int :: "tx_log_field_tag \<Rightarrow> int" where
  "tl_int TL_Address = 1"
| "tl_int TL_Topic = 2"
| "tl_int TL_Data = 3"
| "tl_int TL_TopicLength = 4"
| "tl_int TL_DataLength = 5"

datatype tx_receipt_field_tag =
    TR_PostStateOrStatus | TR_CumulativeGasUsed | TR_LogLength

primrec tr_int :: "tx_receipt_field_tag \<Rightarrow> int" where
  "tr_int TR_PostStateOrStatus = 1"
| "tr_int TR_CumulativeGasUsed = 2"
| "tr_int TR_LogLength = 3"

datatype copy_data_type_tag =
    CD_Bytecode | CD_Memory | CD_TxCalldata | CD_TxLog | CD_RlcAcc

primrec cd_int :: "copy_data_type_tag \<Rightarrow> int" where
  "cd_int CD_Bytecode = 1"
| "cd_int CD_Memory = 2"
| "cd_int CD_TxCalldata = 3"
| "cd_int CD_TxLog = 4"
| "cd_int CD_RlcAcc = 5"

datatype mpt_proof_type =
    MPT_NonceMod | MPT_BalanceMod | MPT_CodeHashMod | MPT_NonExistingAccountProof |
    MPT_AccountDeleteMod | MPT_StorageMod | MPT_NonExistingStorageProof | MPT_WithdrawalMod

primrec mpt_int :: "mpt_proof_type \<Rightarrow> int" where
  "mpt_int MPT_NonceMod = 1"
| "mpt_int MPT_BalanceMod = 2"
| "mpt_int MPT_CodeHashMod = 3"
| "mpt_int MPT_NonExistingAccountProof = 4"
| "mpt_int MPT_AccountDeleteMod = 5"
| "mpt_int MPT_StorageMod = 6"
| "mpt_int MPT_NonExistingStorageProof = 7"
| "mpt_int MPT_WithdrawalMod = 8"

datatype ecc_op_tag =
    EC_Add | EC_Mul | EC_Pairing

primrec ec_int :: "ecc_op_tag \<Rightarrow> int" where
  "ec_int EC_Add = 1"
| "ec_int EC_Mul = 2"
| "ec_int EC_Pairing = 3"

text \<open>The targets whose writes are undone when a call reverts.\<close>

definition write_with_reversion :: "target \<Rightarrow> bool" where
  "write_with_reversion t \<longleftrightarrow>
     t \<in> {T_TxAccessListAccount, T_TxAccessListAccountStorage, T_Account, T_AccountStorage,
          T_TxRefund}"

primrec from_account_field_tag :: "account_field_tag \<Rightarrow> mpt_proof_type" where
  "from_account_field_tag AF_Nonce = MPT_NonceMod"
| "from_account_field_tag AF_Balance = MPT_BalanceMod"
| "from_account_field_tag AF_CodeHash = MPT_CodeHashMod"
| "from_account_field_tag AF_NonExisting = MPT_NonExistingAccountProof"

lemma all_fixed_table_tags_complete: "t \<in> set all_fixed_table_tags"
  by (cases t) (simp_all add: all_fixed_table_tags_def)

lemma ftag_int_bounds: "0 < ftag_int t \<and> ftag_int t \<le> 16"
  by (cases t) simp_all

lemma ftag_int_inject [simp]: "ftag_int s = ftag_int t \<longleftrightarrow> s = t"
  by (cases s; cases t) simp_all

end
