(* ===== verification/Params.thy ===== *)
theory Params
  imports Prelude
begin

text \<open>
  The constants of \<^verbatim>\<open>src/zkevm_specs/util/param.py\<close>, by their source names: widths in bytes,
  gas costs and limits. They are abbreviations, so the simplifier sees the numbers.
\<close>

abbreviation (input) MAX_U64 :: int where
  "MAX_U64 \<equiv> 2 ^ 64 - 1"

abbreviation (input) MAX_N_BYTES :: nat where
  "MAX_N_BYTES \<equiv> 31"

abbreviation (input) MAX_MEMORY_SIZE :: int where
  "MAX_MEMORY_SIZE \<equiv> 137438953440"

abbreviation (input) N_BYTES_ACCOUNT_ADDRESS :: nat where
  "N_BYTES_ACCOUNT_ADDRESS \<equiv> 20"

abbreviation (input) N_BYTES_MEMORY_ADDRESS :: nat where
  "N_BYTES_MEMORY_ADDRESS \<equiv> 5"

abbreviation (input) N_BYTES_MEMORY_WORD_SIZE :: nat where
  "N_BYTES_MEMORY_WORD_SIZE \<equiv> 4"

abbreviation (input) N_BYTES_GAS :: nat where
  "N_BYTES_GAS \<equiv> 8"

abbreviation (input) N_BYTES_PROGRAM_COUNTER :: nat where
  "N_BYTES_PROGRAM_COUNTER \<equiv> 8"

abbreviation (input) N_BYTES_U64 :: nat where
  "N_BYTES_U64 \<equiv> 8"

abbreviation (input) N_BYTES_WORD :: nat where
  "N_BYTES_WORD \<equiv> 32"

abbreviation (input) N_BYTES_STACK :: nat where
  "N_BYTES_STACK \<equiv> 2"

abbreviation (input) GAS_COST_ZERO :: int where
  "GAS_COST_ZERO \<equiv> 0"

abbreviation (input) GAS_COST_ONE :: int where
  "GAS_COST_ONE \<equiv> 1"

abbreviation (input) GAS_COST_QUICK :: int where
  "GAS_COST_QUICK \<equiv> 2"

abbreviation (input) GAS_COST_FASTEST :: int where
  "GAS_COST_FASTEST \<equiv> 3"

abbreviation (input) GAS_COST_FAST :: int where
  "GAS_COST_FAST \<equiv> 5"

abbreviation (input) GAS_COST_MID :: int where
  "GAS_COST_MID \<equiv> 8"

abbreviation (input) GAS_COST_SLOW :: int where
  "GAS_COST_SLOW \<equiv> 10"

abbreviation (input) GAS_COST_EXT :: int where
  "GAS_COST_EXT \<equiv> 20"

abbreviation (input) GAS_COST_EXP_PER_BYTE :: int where
  "GAS_COST_EXP_PER_BYTE \<equiv> 50"

abbreviation (input) GAS_COST_SHA3 :: int where
  "GAS_COST_SHA3 \<equiv> 30"

abbreviation (input) GAS_COST_CREATE :: int where
  "GAS_COST_CREATE \<equiv> 32000"

abbreviation (input) GAS_COST_CREATE2 :: int where
  "GAS_COST_CREATE2 \<equiv> 32000"

abbreviation (input) GAS_COST_SELF_DESTRUCT :: int where
  "GAS_COST_SELF_DESTRUCT \<equiv> 5000"

abbreviation (input) GAS_COST_COPY :: int where
  "GAS_COST_COPY \<equiv> 3"

abbreviation (input) GAS_COST_COPY_SHA3 :: int where
  "GAS_COST_COPY_SHA3 \<equiv> 6"

abbreviation (input) GAS_COST_TX :: int where
  "GAS_COST_TX \<equiv> 21000"

abbreviation (input) GAS_COST_LOG :: int where
  "GAS_COST_LOG \<equiv> 375"

abbreviation (input) GAS_COST_LOGDATA :: int where
  "GAS_COST_LOGDATA \<equiv> 8"

abbreviation (input) GAS_COST_CREATION_TX :: int where
  "GAS_COST_CREATION_TX \<equiv> 53000"

abbreviation (input) GAS_COST_TX_CALL_DATA_PER_NON_ZERO_BYTE :: int where
  "GAS_COST_TX_CALL_DATA_PER_NON_ZERO_BYTE \<equiv> 16"

abbreviation (input) GAS_COST_TX_CALL_DATA_PER_ZERO_BYTE :: int where
  "GAS_COST_TX_CALL_DATA_PER_ZERO_BYTE \<equiv> 4"

abbreviation (input) GAS_COST_WARM_ACCESS :: int where
  "GAS_COST_WARM_ACCESS \<equiv> 100"

abbreviation (input) GAS_COST_ACCOUNT_COLD_ACCESS :: int where
  "GAS_COST_ACCOUNT_COLD_ACCESS \<equiv> 2600"

abbreviation (input) EXTRA_GAS_COST_ACCOUNT_COLD_ACCESS :: int where
  "EXTRA_GAS_COST_ACCOUNT_COLD_ACCESS \<equiv> GAS_COST_ACCOUNT_COLD_ACCESS - GAS_COST_WARM_ACCESS"

abbreviation (input) GAS_COST_CALL_WITH_VALUE :: int where
  "GAS_COST_CALL_WITH_VALUE \<equiv> 9000"

abbreviation (input) GAS_COST_NEW_ACCOUNT :: int where
  "GAS_COST_NEW_ACCOUNT \<equiv> 25000"

abbreviation (input) GAS_STIPEND_CALL_WITH_VALUE :: int where
  "GAS_STIPEND_CALL_WITH_VALUE \<equiv> 2300"

abbreviation (input) GAS_COST_ACCESS_LIST_ADDRESS :: int where
  "GAS_COST_ACCESS_LIST_ADDRESS \<equiv> 2400"

abbreviation (input) GAS_COST_ACCESS_LIST_STORAGE :: int where
  "GAS_COST_ACCESS_LIST_STORAGE \<equiv> 1900"

abbreviation (input) GAS_COST_CODE_DEPOSIT :: int where
  "GAS_COST_CODE_DEPOSIT \<equiv> 200"

abbreviation (input) GAS_COST_SSTORE_SENTRY_EIP2200 :: int where
  "GAS_COST_SSTORE_SENTRY_EIP2200 \<equiv> 2300"

abbreviation (input) GAS_COST_INITCODE_WORD :: int where
  "GAS_COST_INITCODE_WORD \<equiv> 2"

abbreviation (input) MAX_REFUND_QUOTIENT_OF_GAS_USED :: int where
  "MAX_REFUND_QUOTIENT_OF_GAS_USED \<equiv> 5"

abbreviation (input) MEMORY_EXPANSION_QUAD_DENOMINATOR :: int where
  "MEMORY_EXPANSION_QUAD_DENOMINATOR \<equiv> 512"

abbreviation (input) MEMORY_EXPANSION_LINEAR_COEFF :: int where
  "MEMORY_EXPANSION_LINEAR_COEFF \<equiv> 3"

abbreviation (input) MAX_N_BYTES_COPY_TO_MEMORY :: nat where
  "MAX_N_BYTES_COPY_TO_MEMORY \<equiv> 32"

abbreviation (input) MAX_N_BYTES_COPY_CODE_TO_MEMORY :: nat where
  "MAX_N_BYTES_COPY_CODE_TO_MEMORY \<equiv> 32"

abbreviation (input) COLD_SLOAD_COST :: int where
  "COLD_SLOAD_COST \<equiv> 2100"

abbreviation (input) WARM_STORAGE_READ_COST :: int where
  "WARM_STORAGE_READ_COST \<equiv> 100"

abbreviation (input) SLOAD_GAS :: int where
  "SLOAD_GAS \<equiv> 100"

abbreviation (input) SSTORE_SET_GAS :: int where
  "SSTORE_SET_GAS \<equiv> 20000"

abbreviation (input) SSTORE_RESET_GAS :: int where
  "SSTORE_RESET_GAS \<equiv> 2900"

abbreviation (input) SSTORE_CLEARS_SCHEDULE :: int where
  "SSTORE_CLEARS_SCHEDULE \<equiv> 4800"

abbreviation (input) MAX_COPY_BYTES :: nat where
  "MAX_COPY_BYTES \<equiv> 32"

abbreviation (input) MAX_CODE_SIZE :: int where
  "MAX_CODE_SIZE \<equiv> 24576"

abbreviation (input) MAX_INIT_CODE_SIZE :: int where
  "MAX_INIT_CODE_SIZE \<equiv> MAX_CODE_SIZE * 2"

abbreviation (input) CALL_CREATE_DEPTH :: int where
  "CALL_CREATE_DEPTH \<equiv> 1024"

abbreviation (input) PUBLIC_INPUTS_BLOCK_LEN :: int where
  "PUBLIC_INPUTS_BLOCK_LEN \<equiv> (8 + 256) * 2"

abbreviation (input) PUBLIC_INPUTS_EXTRA_LEN :: int where
  "PUBLIC_INPUTS_EXTRA_LEN \<equiv> 3 * 2"

abbreviation (input) PUBLIC_INPUTS_TX_LEN :: int where
  "PUBLIC_INPUTS_TX_LEN \<equiv> 10"

abbreviation (input) INVALID_FIRST_BYTE_CONTRACT_CODE :: int where
  "INVALID_FIRST_BYTE_CONTRACT_CODE \<equiv> 239"

abbreviation (input) EcrecoverGas :: int where
  "EcrecoverGas \<equiv> 3000"

abbreviation (input) Sha256BaseGas :: int where
  "Sha256BaseGas \<equiv> 60"

abbreviation (input) Sha256PerWordGas :: int where
  "Sha256PerWordGas \<equiv> 12"

abbreviation (input) Ripemd160BaseGas :: int where
  "Ripemd160BaseGas \<equiv> 600"

abbreviation (input) Ripemd160PerWordGas :: int where
  "Ripemd160PerWordGas \<equiv> 120"

abbreviation (input) IdentityBaseGas :: int where
  "IdentityBaseGas \<equiv> 15"

abbreviation (input) IdentityPerWordGas :: int where
  "IdentityPerWordGas \<equiv> 3"

abbreviation (input) Bn254AddGas :: int where
  "Bn254AddGas \<equiv> 150"

abbreviation (input) Bn254ScalarMulGas :: int where
  "Bn254ScalarMulGas \<equiv> 6000"

abbreviation (input) Bn254PairingBaseGas :: int where
  "Bn254PairingBaseGas \<equiv> 45000"

abbreviation (input) Bn254PairingPerPointGas :: int where
  "Bn254PairingPerPointGas \<equiv> 34000"

abbreviation (input) BigModExpBaseGas :: int where
  "BigModExpBaseGas \<equiv> 0"

abbreviation (input) Blake2fBaseGas :: int where
  "Blake2fBaseGas \<equiv> 0"

abbreviation (input) TxGas :: int where
  "TxGas \<equiv> 21000"

abbreviation (input) TxGasContractCreation :: int where
  "TxGasContractCreation \<equiv> 53000"

abbreviation (input) TxDataNonZeroGasEIP2028 :: int where
  "TxDataNonZeroGasEIP2028 \<equiv> 16"

abbreviation (input) TxDataZeroGas :: int where
  "TxDataZeroGas \<equiv> 4"

abbreviation (input) InitCodeWordGas :: int where
  "InitCodeWordGas \<equiv> 2"

end
