(* ===== verification/Opcode.thy ===== *)
theory Opcode
  imports Params
begin

text \<open>
  \<^verbatim>\<open>src/zkevm_specs/evm_circuit/opcode.py\<close>: the opcodes and their properties. \<open>Opcode\<close> is an
  \<open>IntEnum\<close>, its members are integers that the gadgets subtract and compare with field
  elements, so a member is an abbreviation of its integer; \<open>valid_opcodes\<close> lists them.
\<close>

section \<open>Members\<close>

type_synonym opcode = int

abbreviation (input) Opcode_STOP :: opcode where "Opcode_STOP \<equiv> 0"
abbreviation (input) Opcode_ADD :: opcode where "Opcode_ADD \<equiv> 1"
abbreviation (input) Opcode_MUL :: opcode where "Opcode_MUL \<equiv> 2"
abbreviation (input) Opcode_SUB :: opcode where "Opcode_SUB \<equiv> 3"
abbreviation (input) Opcode_DIV :: opcode where "Opcode_DIV \<equiv> 4"
abbreviation (input) Opcode_SDIV :: opcode where "Opcode_SDIV \<equiv> 5"
abbreviation (input) Opcode_MOD :: opcode where "Opcode_MOD \<equiv> 6"
abbreviation (input) Opcode_SMOD :: opcode where "Opcode_SMOD \<equiv> 7"
abbreviation (input) Opcode_ADDMOD :: opcode where "Opcode_ADDMOD \<equiv> 8"
abbreviation (input) Opcode_MULMOD :: opcode where "Opcode_MULMOD \<equiv> 9"
abbreviation (input) Opcode_EXP :: opcode where "Opcode_EXP \<equiv> 10"
abbreviation (input) Opcode_SIGNEXTEND :: opcode where "Opcode_SIGNEXTEND \<equiv> 11"
abbreviation (input) Opcode_LT :: opcode where "Opcode_LT \<equiv> 16"
abbreviation (input) Opcode_GT :: opcode where "Opcode_GT \<equiv> 17"
abbreviation (input) Opcode_SLT :: opcode where "Opcode_SLT \<equiv> 18"
abbreviation (input) Opcode_SGT :: opcode where "Opcode_SGT \<equiv> 19"
abbreviation (input) Opcode_EQ :: opcode where "Opcode_EQ \<equiv> 20"
abbreviation (input) Opcode_ISZERO :: opcode where "Opcode_ISZERO \<equiv> 21"
abbreviation (input) Opcode_AND :: opcode where "Opcode_AND \<equiv> 22"
abbreviation (input) Opcode_OR :: opcode where "Opcode_OR \<equiv> 23"
abbreviation (input) Opcode_XOR :: opcode where "Opcode_XOR \<equiv> 24"
abbreviation (input) Opcode_NOT :: opcode where "Opcode_NOT \<equiv> 25"
abbreviation (input) Opcode_BYTE :: opcode where "Opcode_BYTE \<equiv> 26"
abbreviation (input) Opcode_SHL :: opcode where "Opcode_SHL \<equiv> 27"
abbreviation (input) Opcode_SHR :: opcode where "Opcode_SHR \<equiv> 28"
abbreviation (input) Opcode_SAR :: opcode where "Opcode_SAR \<equiv> 29"
abbreviation (input) Opcode_SHA3 :: opcode where "Opcode_SHA3 \<equiv> 32"
abbreviation (input) Opcode_ADDRESS :: opcode where "Opcode_ADDRESS \<equiv> 48"
abbreviation (input) Opcode_BALANCE :: opcode where "Opcode_BALANCE \<equiv> 49"
abbreviation (input) Opcode_ORIGIN :: opcode where "Opcode_ORIGIN \<equiv> 50"
abbreviation (input) Opcode_CALLER :: opcode where "Opcode_CALLER \<equiv> 51"
abbreviation (input) Opcode_CALLVALUE :: opcode where "Opcode_CALLVALUE \<equiv> 52"
abbreviation (input) Opcode_CALLDATALOAD :: opcode where "Opcode_CALLDATALOAD \<equiv> 53"
abbreviation (input) Opcode_CALLDATASIZE :: opcode where "Opcode_CALLDATASIZE \<equiv> 54"
abbreviation (input) Opcode_CALLDATACOPY :: opcode where "Opcode_CALLDATACOPY \<equiv> 55"
abbreviation (input) Opcode_CODESIZE :: opcode where "Opcode_CODESIZE \<equiv> 56"
abbreviation (input) Opcode_CODECOPY :: opcode where "Opcode_CODECOPY \<equiv> 57"
abbreviation (input) Opcode_GASPRICE :: opcode where "Opcode_GASPRICE \<equiv> 58"
abbreviation (input) Opcode_EXTCODESIZE :: opcode where "Opcode_EXTCODESIZE \<equiv> 59"
abbreviation (input) Opcode_EXTCODECOPY :: opcode where "Opcode_EXTCODECOPY \<equiv> 60"
abbreviation (input) Opcode_RETURNDATASIZE :: opcode where "Opcode_RETURNDATASIZE \<equiv> 61"
abbreviation (input) Opcode_RETURNDATACOPY :: opcode where "Opcode_RETURNDATACOPY \<equiv> 62"
abbreviation (input) Opcode_EXTCODEHASH :: opcode where "Opcode_EXTCODEHASH \<equiv> 63"
abbreviation (input) Opcode_BLOCKHASH :: opcode where "Opcode_BLOCKHASH \<equiv> 64"
abbreviation (input) Opcode_COINBASE :: opcode where "Opcode_COINBASE \<equiv> 65"
abbreviation (input) Opcode_TIMESTAMP :: opcode where "Opcode_TIMESTAMP \<equiv> 66"
abbreviation (input) Opcode_NUMBER :: opcode where "Opcode_NUMBER \<equiv> 67"
abbreviation (input) Opcode_PREVRANDAO :: opcode where "Opcode_PREVRANDAO \<equiv> 68"
abbreviation (input) Opcode_GASLIMIT :: opcode where "Opcode_GASLIMIT \<equiv> 69"
abbreviation (input) Opcode_CHAINID :: opcode where "Opcode_CHAINID \<equiv> 70"
abbreviation (input) Opcode_SELFBALANCE :: opcode where "Opcode_SELFBALANCE \<equiv> 71"
abbreviation (input) Opcode_BASEFEE :: opcode where "Opcode_BASEFEE \<equiv> 72"
abbreviation (input) Opcode_POP :: opcode where "Opcode_POP \<equiv> 80"
abbreviation (input) Opcode_MLOAD :: opcode where "Opcode_MLOAD \<equiv> 81"
abbreviation (input) Opcode_MSTORE :: opcode where "Opcode_MSTORE \<equiv> 82"
abbreviation (input) Opcode_MSTORE8 :: opcode where "Opcode_MSTORE8 \<equiv> 83"
abbreviation (input) Opcode_SLOAD :: opcode where "Opcode_SLOAD \<equiv> 84"
abbreviation (input) Opcode_SSTORE :: opcode where "Opcode_SSTORE \<equiv> 85"
abbreviation (input) Opcode_JUMP :: opcode where "Opcode_JUMP \<equiv> 86"
abbreviation (input) Opcode_JUMPI :: opcode where "Opcode_JUMPI \<equiv> 87"
abbreviation (input) Opcode_PC :: opcode where "Opcode_PC \<equiv> 88"
abbreviation (input) Opcode_MSIZE :: opcode where "Opcode_MSIZE \<equiv> 89"
abbreviation (input) Opcode_GAS :: opcode where "Opcode_GAS \<equiv> 90"
abbreviation (input) Opcode_JUMPDEST :: opcode where "Opcode_JUMPDEST \<equiv> 91"
abbreviation (input) Opcode_PUSH0 :: opcode where "Opcode_PUSH0 \<equiv> 95"
abbreviation (input) Opcode_PUSH1 :: opcode where "Opcode_PUSH1 \<equiv> 96"
abbreviation (input) Opcode_PUSH2 :: opcode where "Opcode_PUSH2 \<equiv> 97"
abbreviation (input) Opcode_PUSH3 :: opcode where "Opcode_PUSH3 \<equiv> 98"
abbreviation (input) Opcode_PUSH4 :: opcode where "Opcode_PUSH4 \<equiv> 99"
abbreviation (input) Opcode_PUSH5 :: opcode where "Opcode_PUSH5 \<equiv> 100"
abbreviation (input) Opcode_PUSH6 :: opcode where "Opcode_PUSH6 \<equiv> 101"
abbreviation (input) Opcode_PUSH7 :: opcode where "Opcode_PUSH7 \<equiv> 102"
abbreviation (input) Opcode_PUSH8 :: opcode where "Opcode_PUSH8 \<equiv> 103"
abbreviation (input) Opcode_PUSH9 :: opcode where "Opcode_PUSH9 \<equiv> 104"
abbreviation (input) Opcode_PUSH10 :: opcode where "Opcode_PUSH10 \<equiv> 105"
abbreviation (input) Opcode_PUSH11 :: opcode where "Opcode_PUSH11 \<equiv> 106"
abbreviation (input) Opcode_PUSH12 :: opcode where "Opcode_PUSH12 \<equiv> 107"
abbreviation (input) Opcode_PUSH13 :: opcode where "Opcode_PUSH13 \<equiv> 108"
abbreviation (input) Opcode_PUSH14 :: opcode where "Opcode_PUSH14 \<equiv> 109"
abbreviation (input) Opcode_PUSH15 :: opcode where "Opcode_PUSH15 \<equiv> 110"
abbreviation (input) Opcode_PUSH16 :: opcode where "Opcode_PUSH16 \<equiv> 111"
abbreviation (input) Opcode_PUSH17 :: opcode where "Opcode_PUSH17 \<equiv> 112"
abbreviation (input) Opcode_PUSH18 :: opcode where "Opcode_PUSH18 \<equiv> 113"
abbreviation (input) Opcode_PUSH19 :: opcode where "Opcode_PUSH19 \<equiv> 114"
abbreviation (input) Opcode_PUSH20 :: opcode where "Opcode_PUSH20 \<equiv> 115"
abbreviation (input) Opcode_PUSH21 :: opcode where "Opcode_PUSH21 \<equiv> 116"
abbreviation (input) Opcode_PUSH22 :: opcode where "Opcode_PUSH22 \<equiv> 117"
abbreviation (input) Opcode_PUSH23 :: opcode where "Opcode_PUSH23 \<equiv> 118"
abbreviation (input) Opcode_PUSH24 :: opcode where "Opcode_PUSH24 \<equiv> 119"
abbreviation (input) Opcode_PUSH25 :: opcode where "Opcode_PUSH25 \<equiv> 120"
abbreviation (input) Opcode_PUSH26 :: opcode where "Opcode_PUSH26 \<equiv> 121"
abbreviation (input) Opcode_PUSH27 :: opcode where "Opcode_PUSH27 \<equiv> 122"
abbreviation (input) Opcode_PUSH28 :: opcode where "Opcode_PUSH28 \<equiv> 123"
abbreviation (input) Opcode_PUSH29 :: opcode where "Opcode_PUSH29 \<equiv> 124"
abbreviation (input) Opcode_PUSH30 :: opcode where "Opcode_PUSH30 \<equiv> 125"
abbreviation (input) Opcode_PUSH31 :: opcode where "Opcode_PUSH31 \<equiv> 126"
abbreviation (input) Opcode_PUSH32 :: opcode where "Opcode_PUSH32 \<equiv> 127"
abbreviation (input) Opcode_DUP1 :: opcode where "Opcode_DUP1 \<equiv> 128"
abbreviation (input) Opcode_DUP2 :: opcode where "Opcode_DUP2 \<equiv> 129"
abbreviation (input) Opcode_DUP3 :: opcode where "Opcode_DUP3 \<equiv> 130"
abbreviation (input) Opcode_DUP4 :: opcode where "Opcode_DUP4 \<equiv> 131"
abbreviation (input) Opcode_DUP5 :: opcode where "Opcode_DUP5 \<equiv> 132"
abbreviation (input) Opcode_DUP6 :: opcode where "Opcode_DUP6 \<equiv> 133"
abbreviation (input) Opcode_DUP7 :: opcode where "Opcode_DUP7 \<equiv> 134"
abbreviation (input) Opcode_DUP8 :: opcode where "Opcode_DUP8 \<equiv> 135"
abbreviation (input) Opcode_DUP9 :: opcode where "Opcode_DUP9 \<equiv> 136"
abbreviation (input) Opcode_DUP10 :: opcode where "Opcode_DUP10 \<equiv> 137"
abbreviation (input) Opcode_DUP11 :: opcode where "Opcode_DUP11 \<equiv> 138"
abbreviation (input) Opcode_DUP12 :: opcode where "Opcode_DUP12 \<equiv> 139"
abbreviation (input) Opcode_DUP13 :: opcode where "Opcode_DUP13 \<equiv> 140"
abbreviation (input) Opcode_DUP14 :: opcode where "Opcode_DUP14 \<equiv> 141"
abbreviation (input) Opcode_DUP15 :: opcode where "Opcode_DUP15 \<equiv> 142"
abbreviation (input) Opcode_DUP16 :: opcode where "Opcode_DUP16 \<equiv> 143"
abbreviation (input) Opcode_SWAP1 :: opcode where "Opcode_SWAP1 \<equiv> 144"
abbreviation (input) Opcode_SWAP2 :: opcode where "Opcode_SWAP2 \<equiv> 145"
abbreviation (input) Opcode_SWAP3 :: opcode where "Opcode_SWAP3 \<equiv> 146"
abbreviation (input) Opcode_SWAP4 :: opcode where "Opcode_SWAP4 \<equiv> 147"
abbreviation (input) Opcode_SWAP5 :: opcode where "Opcode_SWAP5 \<equiv> 148"
abbreviation (input) Opcode_SWAP6 :: opcode where "Opcode_SWAP6 \<equiv> 149"
abbreviation (input) Opcode_SWAP7 :: opcode where "Opcode_SWAP7 \<equiv> 150"
abbreviation (input) Opcode_SWAP8 :: opcode where "Opcode_SWAP8 \<equiv> 151"
abbreviation (input) Opcode_SWAP9 :: opcode where "Opcode_SWAP9 \<equiv> 152"
abbreviation (input) Opcode_SWAP10 :: opcode where "Opcode_SWAP10 \<equiv> 153"
abbreviation (input) Opcode_SWAP11 :: opcode where "Opcode_SWAP11 \<equiv> 154"
abbreviation (input) Opcode_SWAP12 :: opcode where "Opcode_SWAP12 \<equiv> 155"
abbreviation (input) Opcode_SWAP13 :: opcode where "Opcode_SWAP13 \<equiv> 156"
abbreviation (input) Opcode_SWAP14 :: opcode where "Opcode_SWAP14 \<equiv> 157"
abbreviation (input) Opcode_SWAP15 :: opcode where "Opcode_SWAP15 \<equiv> 158"
abbreviation (input) Opcode_SWAP16 :: opcode where "Opcode_SWAP16 \<equiv> 159"
abbreviation (input) Opcode_LOG0 :: opcode where "Opcode_LOG0 \<equiv> 160"
abbreviation (input) Opcode_LOG1 :: opcode where "Opcode_LOG1 \<equiv> 161"
abbreviation (input) Opcode_LOG2 :: opcode where "Opcode_LOG2 \<equiv> 162"
abbreviation (input) Opcode_LOG3 :: opcode where "Opcode_LOG3 \<equiv> 163"
abbreviation (input) Opcode_LOG4 :: opcode where "Opcode_LOG4 \<equiv> 164"
abbreviation (input) Opcode_CREATE :: opcode where "Opcode_CREATE \<equiv> 240"
abbreviation (input) Opcode_CALL :: opcode where "Opcode_CALL \<equiv> 241"
abbreviation (input) Opcode_CALLCODE :: opcode where "Opcode_CALLCODE \<equiv> 242"
abbreviation (input) Opcode_RETURN :: opcode where "Opcode_RETURN \<equiv> 243"
abbreviation (input) Opcode_DELEGATECALL :: opcode where "Opcode_DELEGATECALL \<equiv> 244"
abbreviation (input) Opcode_CREATE2 :: opcode where "Opcode_CREATE2 \<equiv> 245"
abbreviation (input) Opcode_STATICCALL :: opcode where "Opcode_STATICCALL \<equiv> 250"
abbreviation (input) Opcode_REVERT :: opcode where "Opcode_REVERT \<equiv> 253"
abbreviation (input) Opcode_SELFDESTRUCT :: opcode where "Opcode_SELFDESTRUCT \<equiv> 255"

definition valid_opcodes :: "opcode list" where
  "valid_opcodes = [
    Opcode_STOP, Opcode_ADD, Opcode_MUL, Opcode_SUB, Opcode_DIV, Opcode_SDIV, Opcode_MOD,
    Opcode_SMOD, Opcode_ADDMOD, Opcode_MULMOD, Opcode_EXP, Opcode_SIGNEXTEND, Opcode_LT,
    Opcode_GT, Opcode_SLT, Opcode_SGT, Opcode_EQ, Opcode_ISZERO, Opcode_AND, Opcode_OR,
    Opcode_XOR, Opcode_NOT, Opcode_BYTE, Opcode_SHL, Opcode_SHR, Opcode_SAR, Opcode_SHA3,
    Opcode_ADDRESS, Opcode_BALANCE, Opcode_ORIGIN, Opcode_CALLER, Opcode_CALLVALUE,
    Opcode_CALLDATALOAD, Opcode_CALLDATASIZE, Opcode_CALLDATACOPY, Opcode_CODESIZE,
    Opcode_CODECOPY, Opcode_GASPRICE, Opcode_EXTCODESIZE, Opcode_EXTCODECOPY,
    Opcode_RETURNDATASIZE, Opcode_RETURNDATACOPY, Opcode_EXTCODEHASH, Opcode_BLOCKHASH,
    Opcode_COINBASE, Opcode_TIMESTAMP, Opcode_NUMBER, Opcode_PREVRANDAO, Opcode_GASLIMIT,
    Opcode_CHAINID, Opcode_SELFBALANCE, Opcode_BASEFEE, Opcode_POP, Opcode_MLOAD,
    Opcode_MSTORE, Opcode_MSTORE8, Opcode_SLOAD, Opcode_SSTORE, Opcode_JUMP, Opcode_JUMPI,
    Opcode_PC, Opcode_MSIZE, Opcode_GAS, Opcode_JUMPDEST, Opcode_PUSH0, Opcode_PUSH1,
    Opcode_PUSH2, Opcode_PUSH3, Opcode_PUSH4, Opcode_PUSH5, Opcode_PUSH6, Opcode_PUSH7,
    Opcode_PUSH8, Opcode_PUSH9, Opcode_PUSH10, Opcode_PUSH11, Opcode_PUSH12, Opcode_PUSH13,
    Opcode_PUSH14, Opcode_PUSH15, Opcode_PUSH16, Opcode_PUSH17, Opcode_PUSH18, Opcode_PUSH19,
    Opcode_PUSH20, Opcode_PUSH21, Opcode_PUSH22, Opcode_PUSH23, Opcode_PUSH24, Opcode_PUSH25,
    Opcode_PUSH26, Opcode_PUSH27, Opcode_PUSH28, Opcode_PUSH29, Opcode_PUSH30, Opcode_PUSH31,
    Opcode_PUSH32, Opcode_DUP1, Opcode_DUP2, Opcode_DUP3, Opcode_DUP4, Opcode_DUP5,
    Opcode_DUP6, Opcode_DUP7, Opcode_DUP8, Opcode_DUP9, Opcode_DUP10, Opcode_DUP11,
    Opcode_DUP12, Opcode_DUP13, Opcode_DUP14, Opcode_DUP15, Opcode_DUP16, Opcode_SWAP1,
    Opcode_SWAP2, Opcode_SWAP3, Opcode_SWAP4, Opcode_SWAP5, Opcode_SWAP6, Opcode_SWAP7,
    Opcode_SWAP8, Opcode_SWAP9, Opcode_SWAP10, Opcode_SWAP11, Opcode_SWAP12, Opcode_SWAP13,
    Opcode_SWAP14, Opcode_SWAP15, Opcode_SWAP16, Opcode_LOG0, Opcode_LOG1, Opcode_LOG2,
    Opcode_LOG3, Opcode_LOG4, Opcode_CREATE, Opcode_CALL, Opcode_CALLCODE, Opcode_RETURN,
    Opcode_DELEGATECALL, Opcode_CREATE2, Opcode_STATICCALL, Opcode_REVERT, Opcode_SELFDESTRUCT]"

text \<open>The constructor call \<open>Opcode(n)\<close>: a member, or \<open>ValueError\<close>.\<close>

definition to_opcode :: "int \<Rightarrow> opcode result" where
  "to_opcode n = (if n \<in> set valid_opcodes then Inr n else Inl ValueError)"

section \<open>Opcode information\<close>

record opcode_info =
  info_min_stack_pointer :: int
  info_max_stack_pointer :: int
  info_constant_gas_cost :: int
  info_has_dynamic_gas :: bool

definition OpcodeInfo :: "int \<Rightarrow> int \<Rightarrow> int \<Rightarrow> bool \<Rightarrow> opcode_info" where
  "OpcodeInfo mn mx gas dyn =
     \<lparr>info_min_stack_pointer = mn, info_max_stack_pointer = mx,
      info_constant_gas_cost = gas, info_has_dynamic_gas = dyn\<rparr>"

definition OPCODE_INFO_MAP :: "(opcode \<times> opcode_info) list" where
  "OPCODE_INFO_MAP = [
    (Opcode_STOP, OpcodeInfo 0 1024 GAS_COST_ZERO False),
    (Opcode_ADD, OpcodeInfo (-1) 1022 GAS_COST_FASTEST False),
    (Opcode_MUL, OpcodeInfo (-1) 1022 GAS_COST_FAST False),
    (Opcode_SUB, OpcodeInfo (-1) 1022 GAS_COST_FASTEST False),
    (Opcode_DIV, OpcodeInfo (-1) 1022 GAS_COST_FAST False),
    (Opcode_SDIV, OpcodeInfo (-1) 1022 GAS_COST_FAST False),
    (Opcode_MOD, OpcodeInfo (-1) 1022 GAS_COST_FAST False),
    (Opcode_SMOD, OpcodeInfo (-1) 1022 GAS_COST_FAST False),
    (Opcode_ADDMOD, OpcodeInfo (-2) 1021 GAS_COST_MID False),
    (Opcode_MULMOD, OpcodeInfo (-2) 1021 GAS_COST_MID False),
    (Opcode_EXP, OpcodeInfo (-1) 1022 GAS_COST_ZERO True),
    (Opcode_SIGNEXTEND, OpcodeInfo (-1) 1022 GAS_COST_FAST False),
    (Opcode_LT, OpcodeInfo (-1) 1022 GAS_COST_FASTEST False),
    (Opcode_GT, OpcodeInfo (-1) 1022 GAS_COST_FASTEST False),
    (Opcode_SLT, OpcodeInfo (-1) 1022 GAS_COST_FASTEST False),
    (Opcode_SGT, OpcodeInfo (-1) 1022 GAS_COST_FASTEST False),
    (Opcode_EQ, OpcodeInfo (-1) 1022 GAS_COST_FASTEST False),
    (Opcode_ISZERO, OpcodeInfo 0 1023 GAS_COST_FASTEST False),
    (Opcode_AND, OpcodeInfo (-1) 1022 GAS_COST_FASTEST False),
    (Opcode_OR, OpcodeInfo (-1) 1022 GAS_COST_FASTEST False),
    (Opcode_XOR, OpcodeInfo (-1) 1022 GAS_COST_FASTEST False),
    (Opcode_NOT, OpcodeInfo 0 1023 GAS_COST_FASTEST False),
    (Opcode_BYTE, OpcodeInfo (-1) 1022 GAS_COST_FASTEST False),
    (Opcode_SHL, OpcodeInfo (-1) 1022 GAS_COST_FASTEST False),
    (Opcode_SHR, OpcodeInfo (-1) 1022 GAS_COST_FASTEST False),
    (Opcode_SAR, OpcodeInfo (-1) 1022 GAS_COST_FASTEST False),
    (Opcode_SHA3, OpcodeInfo (-1) 1022 GAS_COST_SHA3 True),
    (Opcode_ADDRESS, OpcodeInfo 1 1024 GAS_COST_QUICK False),
    (Opcode_BALANCE, OpcodeInfo 0 1023 GAS_COST_WARM_ACCESS True),
    (Opcode_ORIGIN, OpcodeInfo 1 1024 GAS_COST_QUICK False),
    (Opcode_CALLER, OpcodeInfo 1 1024 GAS_COST_QUICK False),
    (Opcode_CALLVALUE, OpcodeInfo 1 1024 GAS_COST_QUICK False),
    (Opcode_CALLDATALOAD, OpcodeInfo 0 1023 GAS_COST_FASTEST False),
    (Opcode_CALLDATASIZE, OpcodeInfo 1 1024 GAS_COST_QUICK False),
    (Opcode_CALLDATACOPY, OpcodeInfo (-3) 1021 GAS_COST_FASTEST True),
    (Opcode_CODESIZE, OpcodeInfo 1 1024 GAS_COST_QUICK False),
    (Opcode_CODECOPY, OpcodeInfo (-3) 1021 GAS_COST_FASTEST True),
    (Opcode_GASPRICE, OpcodeInfo 1 1024 GAS_COST_QUICK False),
    (Opcode_EXTCODESIZE, OpcodeInfo 0 1023 GAS_COST_WARM_ACCESS True),
    (Opcode_EXTCODECOPY, OpcodeInfo (-4) 1020 GAS_COST_WARM_ACCESS True),
    (Opcode_RETURNDATASIZE, OpcodeInfo 1 1024 GAS_COST_QUICK False),
    (Opcode_RETURNDATACOPY, OpcodeInfo (-3) 1021 GAS_COST_FASTEST True),
    (Opcode_EXTCODEHASH, OpcodeInfo 0 1023 GAS_COST_WARM_ACCESS True),
    (Opcode_BLOCKHASH, OpcodeInfo 0 1023 GAS_COST_EXT False),
    (Opcode_COINBASE, OpcodeInfo 1 1024 GAS_COST_QUICK False),
    (Opcode_TIMESTAMP, OpcodeInfo 1 1024 GAS_COST_QUICK False),
    (Opcode_NUMBER, OpcodeInfo 1 1024 GAS_COST_QUICK False),
    (Opcode_PREVRANDAO, OpcodeInfo 1 1024 GAS_COST_QUICK False),
    (Opcode_GASLIMIT, OpcodeInfo 1 1024 GAS_COST_QUICK False),
    (Opcode_CHAINID, OpcodeInfo 1 1024 GAS_COST_QUICK False),
    (Opcode_SELFBALANCE, OpcodeInfo 1 1024 GAS_COST_FAST False),
    (Opcode_BASEFEE, OpcodeInfo 1 1024 GAS_COST_QUICK False),
    (Opcode_POP, OpcodeInfo (-1) 1023 GAS_COST_QUICK False),
    (Opcode_MLOAD, OpcodeInfo 0 1023 GAS_COST_FASTEST True),
    (Opcode_MSTORE, OpcodeInfo (-2) 1022 GAS_COST_FASTEST True),
    (Opcode_MSTORE8, OpcodeInfo (-2) 1022 GAS_COST_FASTEST True),
    (Opcode_SLOAD, OpcodeInfo 0 1023 GAS_COST_ZERO True),
    (Opcode_SSTORE, OpcodeInfo (-2) 1022 GAS_COST_ZERO True),
    (Opcode_JUMP, OpcodeInfo (-1) 1023 GAS_COST_MID False),
    (Opcode_JUMPI, OpcodeInfo (-2) 1022 GAS_COST_SLOW False),
    (Opcode_PC, OpcodeInfo 1 1024 GAS_COST_QUICK False),
    (Opcode_MSIZE, OpcodeInfo 1 1024 GAS_COST_QUICK False),
    (Opcode_GAS, OpcodeInfo 1 1024 GAS_COST_QUICK False),
    (Opcode_JUMPDEST, OpcodeInfo 0 1024 GAS_COST_ONE False),
    (Opcode_PUSH0, OpcodeInfo 1 1024 GAS_COST_QUICK False),
    (Opcode_PUSH1, OpcodeInfo 1 1024 GAS_COST_FASTEST False),
    (Opcode_PUSH2, OpcodeInfo 1 1024 GAS_COST_FASTEST False),
    (Opcode_PUSH3, OpcodeInfo 1 1024 GAS_COST_FASTEST False),
    (Opcode_PUSH4, OpcodeInfo 1 1024 GAS_COST_FASTEST False),
    (Opcode_PUSH5, OpcodeInfo 1 1024 GAS_COST_FASTEST False),
    (Opcode_PUSH6, OpcodeInfo 1 1024 GAS_COST_FASTEST False),
    (Opcode_PUSH7, OpcodeInfo 1 1024 GAS_COST_FASTEST False),
    (Opcode_PUSH8, OpcodeInfo 1 1024 GAS_COST_FASTEST False),
    (Opcode_PUSH9, OpcodeInfo 1 1024 GAS_COST_FASTEST False),
    (Opcode_PUSH10, OpcodeInfo 1 1024 GAS_COST_FASTEST False),
    (Opcode_PUSH11, OpcodeInfo 1 1024 GAS_COST_FASTEST False),
    (Opcode_PUSH12, OpcodeInfo 1 1024 GAS_COST_FASTEST False),
    (Opcode_PUSH13, OpcodeInfo 1 1024 GAS_COST_FASTEST False),
    (Opcode_PUSH14, OpcodeInfo 1 1024 GAS_COST_FASTEST False),
    (Opcode_PUSH15, OpcodeInfo 1 1024 GAS_COST_FASTEST False),
    (Opcode_PUSH16, OpcodeInfo 1 1024 GAS_COST_FASTEST False),
    (Opcode_PUSH17, OpcodeInfo 1 1024 GAS_COST_FASTEST False),
    (Opcode_PUSH18, OpcodeInfo 1 1024 GAS_COST_FASTEST False),
    (Opcode_PUSH19, OpcodeInfo 1 1024 GAS_COST_FASTEST False),
    (Opcode_PUSH20, OpcodeInfo 1 1024 GAS_COST_FASTEST False),
    (Opcode_PUSH21, OpcodeInfo 1 1024 GAS_COST_FASTEST False),
    (Opcode_PUSH22, OpcodeInfo 1 1024 GAS_COST_FASTEST False),
    (Opcode_PUSH23, OpcodeInfo 1 1024 GAS_COST_FASTEST False),
    (Opcode_PUSH24, OpcodeInfo 1 1024 GAS_COST_FASTEST False),
    (Opcode_PUSH25, OpcodeInfo 1 1024 GAS_COST_FASTEST False),
    (Opcode_PUSH26, OpcodeInfo 1 1024 GAS_COST_FASTEST False),
    (Opcode_PUSH27, OpcodeInfo 1 1024 GAS_COST_FASTEST False),
    (Opcode_PUSH28, OpcodeInfo 1 1024 GAS_COST_FASTEST False),
    (Opcode_PUSH29, OpcodeInfo 1 1024 GAS_COST_FASTEST False),
    (Opcode_PUSH30, OpcodeInfo 1 1024 GAS_COST_FASTEST False),
    (Opcode_PUSH31, OpcodeInfo 1 1024 GAS_COST_FASTEST False),
    (Opcode_PUSH32, OpcodeInfo 1 1024 GAS_COST_FASTEST False),
    (Opcode_DUP1, OpcodeInfo 1 1023 GAS_COST_FASTEST False),
    (Opcode_DUP2, OpcodeInfo 1 1022 GAS_COST_FASTEST False),
    (Opcode_DUP3, OpcodeInfo 1 1021 GAS_COST_FASTEST False),
    (Opcode_DUP4, OpcodeInfo 1 1020 GAS_COST_FASTEST False),
    (Opcode_DUP5, OpcodeInfo 1 1019 GAS_COST_FASTEST False),
    (Opcode_DUP6, OpcodeInfo 1 1018 GAS_COST_FASTEST False),
    (Opcode_DUP7, OpcodeInfo 1 1017 GAS_COST_FASTEST False),
    (Opcode_DUP8, OpcodeInfo 1 1016 GAS_COST_FASTEST False),
    (Opcode_DUP9, OpcodeInfo 1 1015 GAS_COST_FASTEST False),
    (Opcode_DUP10, OpcodeInfo 1 1014 GAS_COST_FASTEST False),
    (Opcode_DUP11, OpcodeInfo 1 1013 GAS_COST_FASTEST False),
    (Opcode_DUP12, OpcodeInfo 1 1012 GAS_COST_FASTEST False),
    (Opcode_DUP13, OpcodeInfo 1 1011 GAS_COST_FASTEST False),
    (Opcode_DUP14, OpcodeInfo 1 1010 GAS_COST_FASTEST False),
    (Opcode_DUP15, OpcodeInfo 1 1009 GAS_COST_FASTEST False),
    (Opcode_DUP16, OpcodeInfo 1 1008 GAS_COST_FASTEST False),
    (Opcode_SWAP1, OpcodeInfo 0 1022 GAS_COST_FASTEST False),
    (Opcode_SWAP2, OpcodeInfo 0 1021 GAS_COST_FASTEST False),
    (Opcode_SWAP3, OpcodeInfo 0 1020 GAS_COST_FASTEST False),
    (Opcode_SWAP4, OpcodeInfo 0 1019 GAS_COST_FASTEST False),
    (Opcode_SWAP5, OpcodeInfo 0 1018 GAS_COST_FASTEST False),
    (Opcode_SWAP6, OpcodeInfo 0 1017 GAS_COST_FASTEST False),
    (Opcode_SWAP7, OpcodeInfo 0 1016 GAS_COST_FASTEST False),
    (Opcode_SWAP8, OpcodeInfo 0 1015 GAS_COST_FASTEST False),
    (Opcode_SWAP9, OpcodeInfo 0 1014 GAS_COST_FASTEST False),
    (Opcode_SWAP10, OpcodeInfo 0 1013 GAS_COST_FASTEST False),
    (Opcode_SWAP11, OpcodeInfo 0 1012 GAS_COST_FASTEST False),
    (Opcode_SWAP12, OpcodeInfo 0 1011 GAS_COST_FASTEST False),
    (Opcode_SWAP13, OpcodeInfo 0 1010 GAS_COST_FASTEST False),
    (Opcode_SWAP14, OpcodeInfo 0 1009 GAS_COST_FASTEST False),
    (Opcode_SWAP15, OpcodeInfo 0 1008 GAS_COST_FASTEST False),
    (Opcode_SWAP16, OpcodeInfo 0 1007 GAS_COST_FASTEST False),
    (Opcode_LOG0, OpcodeInfo (-2) 1022 GAS_COST_ZERO True),
    (Opcode_LOG1, OpcodeInfo (-3) 1021 GAS_COST_ZERO True),
    (Opcode_LOG2, OpcodeInfo (-4) 1020 GAS_COST_ZERO True),
    (Opcode_LOG3, OpcodeInfo (-5) 1019 GAS_COST_ZERO True),
    (Opcode_LOG4, OpcodeInfo (-6) 1018 GAS_COST_ZERO True),
    (Opcode_CREATE, OpcodeInfo (-2) 1021 GAS_COST_CREATE True),
    (Opcode_CALL, OpcodeInfo (-6) 1017 GAS_COST_WARM_ACCESS True),
    (Opcode_CALLCODE, OpcodeInfo (-6) 1017 GAS_COST_WARM_ACCESS True),
    (Opcode_RETURN, OpcodeInfo (-2) 1022 GAS_COST_ZERO True),
    (Opcode_DELEGATECALL, OpcodeInfo (-5) 1018 GAS_COST_WARM_ACCESS True),
    (Opcode_CREATE2, OpcodeInfo (-3) 1020 GAS_COST_CREATE2 True),
    (Opcode_STATICCALL, OpcodeInfo (-5) 1018 GAS_COST_WARM_ACCESS True),
    (Opcode_REVERT, OpcodeInfo (-2) 1022 GAS_COST_ZERO True),
    (Opcode_SELFDESTRUCT, OpcodeInfo (-1) 1023 GAS_COST_SELF_DESTRUCT True)]"

definition opcode_info_of :: "opcode \<Rightarrow> opcode_info result" where
  "opcode_info_of opc =
     (case map_of OPCODE_INFO_MAP opc of Some i \<Rightarrow> Inr i | None \<Rightarrow> Inl KeyError)"

definition max_stack_pointer :: "opcode \<Rightarrow> int result" where
  "max_stack_pointer opc = rbind (opcode_info_of opc) (\<lambda>i. Inr (info_max_stack_pointer i))"

definition min_stack_pointer :: "opcode \<Rightarrow> int result" where
  "min_stack_pointer opc = rbind (opcode_info_of opc) (\<lambda>i. Inr (info_min_stack_pointer i))"

definition constant_gas_cost :: "opcode \<Rightarrow> int result" where
  "constant_gas_cost opc = rbind (opcode_info_of opc) (\<lambda>i. Inr (info_constant_gas_cost i))"

definition has_dynamic_gas :: "opcode \<Rightarrow> bool result" where
  "has_dynamic_gas opc = rbind (opcode_info_of opc) (\<lambda>i. Inr (info_has_dynamic_gas i))"

section \<open>Classes of opcodes\<close>

definition is_push :: "opcode \<Rightarrow> bool" where
  "is_push opc \<longleftrightarrow> Opcode_PUSH0 \<le> opc \<and> opc \<le> Opcode_PUSH32"

definition is_push_with_data :: "opcode \<Rightarrow> bool" where
  "is_push_with_data opc \<longleftrightarrow> Opcode_PUSH1 \<le> opc \<and> opc \<le> Opcode_PUSH32"

definition is_dup :: "opcode \<Rightarrow> bool" where
  "is_dup opc \<longleftrightarrow> Opcode_DUP1 \<le> opc \<and> opc \<le> Opcode_DUP16"

definition is_swap :: "opcode \<Rightarrow> bool" where
  "is_swap opc \<longleftrightarrow> Opcode_SWAP1 \<le> opc \<and> opc \<le> Opcode_SWAP16"

definition get_push_size :: "int \<Rightarrow> int" where
  "get_push_size opc = (if opc \<in> {Opcode_PUSH1..Opcode_PUSH32} then opc - Opcode_PUSH0 else 0)"

definition invalid_opcodes :: "int list" where
  "invalid_opcodes = filter (\<lambda>opc. opc \<notin> set valid_opcodes) [0..255]"

text \<open>
  The stack pointer counts down from 1024. An opcode overflows the stack at the pointers below
  its \<open>min_stack_pointer\<close> and underflows it at those above its \<open>max_stack_pointer\<close>. The lists
  range over the members, each of which has an entry in \<open>OPCODE_INFO_MAP\<close>.
\<close>

definition stack_overflow_pairs :: "(opcode \<times> int) list" where
  "stack_overflow_pairs =
     concat (map (\<lambda>(opc, i). if info_min_stack_pointer i > 0
                    then map (\<lambda>sp. (opc, sp)) [0..info_min_stack_pointer i - 1] else [])
       OPCODE_INFO_MAP)"

definition stack_underflow_pairs :: "(opcode \<times> int) list" where
  "stack_underflow_pairs =
     concat (map (\<lambda>(opc, i). if info_max_stack_pointer i < 1024
                    then map (\<lambda>sp. (opc, sp + 1)) [info_max_stack_pointer i..1023] else [])
       OPCODE_INFO_MAP)"

definition constant_gas_cost_pairs :: "(opcode \<times> int) list" where
  "constant_gas_cost_pairs =
     concat (map (\<lambda>(opc, i). if \<not> info_has_dynamic_gas i \<and> info_constant_gas_cost i > 0
                    then [(opc, info_constant_gas_cost i)] else [])
       OPCODE_INFO_MAP)"

definition state_write_opcodes :: "opcode list" where
  "state_write_opcodes =
     [Opcode_SSTORE, Opcode_LOG0, Opcode_LOG1, Opcode_LOG2, Opcode_LOG3, Opcode_LOG4,
      Opcode_CREATE, Opcode_CALL, Opcode_CREATE2, Opcode_SELFDESTRUCT]"

definition call_opcodes :: "opcode list" where
  "call_opcodes = [Opcode_CALL, Opcode_CALLCODE, Opcode_DELEGATECALL, Opcode_STATICCALL]"

definition ether_transfer_opcdes :: "opcode list" where
  "ether_transfer_opcdes = [Opcode_CALL, Opcode_CALLCODE]"

definition create_opcodes :: "opcode list" where
  "create_opcodes = [Opcode_CREATE, Opcode_CREATE2]"

definition jump_opcodes :: "opcode list" where
  "jump_opcodes = [Opcode_JUMP, Opcode_JUMPI]"

section \<open>Facts about the tables\<close>

lemma opcode_info_keys: "map fst OPCODE_INFO_MAP = valid_opcodes"
  by (simp add: OPCODE_INFO_MAP_def valid_opcodes_def)

lemma distinct_valid_opcodes: "distinct valid_opcodes"
  by (simp add: valid_opcodes_def)

lemma valid_opcodes_byte: "opc \<in> set valid_opcodes \<Longrightarrow> 0 \<le> opc \<and> opc < 256"
  by (auto simp: valid_opcodes_def)

lemma opcode_info_of_member:
  assumes "opc \<in> set valid_opcodes"
  obtains i where "opcode_info_of opc = Inr i" "(opc, i) \<in> set OPCODE_INFO_MAP"
proof -
  have "opc \<in> fst ` set OPCODE_INFO_MAP"
    using assms opcode_info_keys by (metis set_map)
  then obtain i where i: "map_of OPCODE_INFO_MAP opc = Some i"
    by (metis map_of_eq_None_iff not_None_eq)
  with that show ?thesis
    by (simp add: opcode_info_of_def map_of_SomeD)
qed

lemma to_opcode_ok [ok_simps]: "to_opcode n = Inr opc \<longleftrightarrow> opc = n \<and> n \<in> set valid_opcodes"
  by (auto simp: to_opcode_def)

end
