(* ===== verification/Execution_State.thy ===== *)
theory Execution_State
  imports Opcode
begin

text \<open>
  \<^verbatim>\<open>src/zkevm_specs/evm_circuit/execution_state.py\<close>: the results a step of the EVM can have, the
  opcodes each is responsible for, and which of them end a call.
\<close>

datatype (plugins only: ) execution_state =
    ES_BeginTx | ES_EndTx | ES_EndBlock | ES_STOP | ES_ADD | ES_MUL | ES_SDIV_SMOD |
    ES_ADDMOD | ES_MULMOD | ES_EXP | ES_SIGNEXTEND | ES_CMP | ES_SCMP | ES_ISZERO |
    ES_BITWISE | ES_NOT | ES_BYTE | ES_SHL_SHR | ES_SAR | ES_SHA3 | ES_ADDRESS | ES_BALANCE |
    ES_ORIGIN | ES_CALLER | ES_CALLVALUE | ES_CALLDATALOAD | ES_CALLDATASIZE |
    ES_CALLDATACOPY | ES_CODESIZE | ES_CODECOPY | ES_GASPRICE | ES_EXTCODESIZE |
    ES_EXTCODECOPY | ES_RETURNDATASIZE | ES_RETURNDATACOPY | ES_EXTCODEHASH | ES_BLOCKHASH |
    ES_BlockCtx | ES_SELFBALANCE | ES_POP | ES_MEMORY | ES_SLOAD | ES_SSTORE | ES_JUMP |
    ES_JUMPI | ES_PC | ES_MSIZE | ES_GAS | ES_JUMPDEST | ES_PUSH | ES_DUP | ES_SWAP | ES_LOG |
    ES_CREATE | ES_CALL_OP | ES_RETURN | ES_CREATE2 | ES_REVERT | ES_SELFDESTRUCT |
    ES_ErrorInvalidOpcode | ES_ErrorGasUintOverflow | ES_ErrorStack | ES_ErrorWriteProtection |
    ES_ErrorDepth | ES_ErrorInsufficientBalance | ES_ErrorContractAddressCollision |
    ES_ErrorInvalidCreationCode | ES_ErrorNonceUintOverflow | ES_ErrorMaxCodeSizeExceeded |
    ES_ErrorInvalidJump | ES_ErrorReturnDataOutOfBound | ES_ErrorOutOfGasConstant |
    ES_ErrorOutOfGasStaticMemoryExpansion | ES_ErrorOutOfGasDynamicMemoryExpansion |
    ES_ErrorOutOfGasMemoryCopy | ES_ErrorOutOfGasAccountAccess | ES_ErrorOutOfGasCodeStore |
    ES_ErrorOutOfGasLOG | ES_ErrorOutOfGasEXP | ES_ErrorOutOfGasSHA3 |
    ES_ErrorOutOfGasSloadSstore | ES_ErrorOutOfGasCall | ES_ErrorOutOfGasCREATE |
    ES_ErrorOutOfGasSELFDESTRUCT | ES_ErrorOutOfGasPrecompile | ES_ECRECOVER | ES_SHA256 |
    ES_RIPEMD160 | ES_DATACOPY | ES_BIGMODEXP | ES_BN254_ADD | ES_BN254_SCALAR_MUL |
    ES_BN254_PAIRING | ES_BLAKE2F

text \<open>The members are numbered from 1 in the order of the class (\<open>auto()\<close>).\<close>

primrec es_int :: "execution_state \<Rightarrow> int" where
  "es_int ES_BeginTx = 1"
| "es_int ES_EndTx = 2"
| "es_int ES_EndBlock = 3"
| "es_int ES_STOP = 4"
| "es_int ES_ADD = 5"
| "es_int ES_MUL = 6"
| "es_int ES_SDIV_SMOD = 7"
| "es_int ES_ADDMOD = 8"
| "es_int ES_MULMOD = 9"
| "es_int ES_EXP = 10"
| "es_int ES_SIGNEXTEND = 11"
| "es_int ES_CMP = 12"
| "es_int ES_SCMP = 13"
| "es_int ES_ISZERO = 14"
| "es_int ES_BITWISE = 15"
| "es_int ES_NOT = 16"
| "es_int ES_BYTE = 17"
| "es_int ES_SHL_SHR = 18"
| "es_int ES_SAR = 19"
| "es_int ES_SHA3 = 20"
| "es_int ES_ADDRESS = 21"
| "es_int ES_BALANCE = 22"
| "es_int ES_ORIGIN = 23"
| "es_int ES_CALLER = 24"
| "es_int ES_CALLVALUE = 25"
| "es_int ES_CALLDATALOAD = 26"
| "es_int ES_CALLDATASIZE = 27"
| "es_int ES_CALLDATACOPY = 28"
| "es_int ES_CODESIZE = 29"
| "es_int ES_CODECOPY = 30"
| "es_int ES_GASPRICE = 31"
| "es_int ES_EXTCODESIZE = 32"
| "es_int ES_EXTCODECOPY = 33"
| "es_int ES_RETURNDATASIZE = 34"
| "es_int ES_RETURNDATACOPY = 35"
| "es_int ES_EXTCODEHASH = 36"
| "es_int ES_BLOCKHASH = 37"
| "es_int ES_BlockCtx = 38"
| "es_int ES_SELFBALANCE = 39"
| "es_int ES_POP = 40"
| "es_int ES_MEMORY = 41"
| "es_int ES_SLOAD = 42"
| "es_int ES_SSTORE = 43"
| "es_int ES_JUMP = 44"
| "es_int ES_JUMPI = 45"
| "es_int ES_PC = 46"
| "es_int ES_MSIZE = 47"
| "es_int ES_GAS = 48"
| "es_int ES_JUMPDEST = 49"
| "es_int ES_PUSH = 50"
| "es_int ES_DUP = 51"
| "es_int ES_SWAP = 52"
| "es_int ES_LOG = 53"
| "es_int ES_CREATE = 54"
| "es_int ES_CALL_OP = 55"
| "es_int ES_RETURN = 56"
| "es_int ES_CREATE2 = 57"
| "es_int ES_REVERT = 58"
| "es_int ES_SELFDESTRUCT = 59"
| "es_int ES_ErrorInvalidOpcode = 60"
| "es_int ES_ErrorGasUintOverflow = 61"
| "es_int ES_ErrorStack = 62"
| "es_int ES_ErrorWriteProtection = 63"
| "es_int ES_ErrorDepth = 64"
| "es_int ES_ErrorInsufficientBalance = 65"
| "es_int ES_ErrorContractAddressCollision = 66"
| "es_int ES_ErrorInvalidCreationCode = 67"
| "es_int ES_ErrorNonceUintOverflow = 68"
| "es_int ES_ErrorMaxCodeSizeExceeded = 69"
| "es_int ES_ErrorInvalidJump = 70"
| "es_int ES_ErrorReturnDataOutOfBound = 71"
| "es_int ES_ErrorOutOfGasConstant = 72"
| "es_int ES_ErrorOutOfGasStaticMemoryExpansion = 73"
| "es_int ES_ErrorOutOfGasDynamicMemoryExpansion = 74"
| "es_int ES_ErrorOutOfGasMemoryCopy = 75"
| "es_int ES_ErrorOutOfGasAccountAccess = 76"
| "es_int ES_ErrorOutOfGasCodeStore = 77"
| "es_int ES_ErrorOutOfGasLOG = 78"
| "es_int ES_ErrorOutOfGasEXP = 79"
| "es_int ES_ErrorOutOfGasSHA3 = 80"
| "es_int ES_ErrorOutOfGasSloadSstore = 81"
| "es_int ES_ErrorOutOfGasCall = 82"
| "es_int ES_ErrorOutOfGasCREATE = 83"
| "es_int ES_ErrorOutOfGasSELFDESTRUCT = 84"
| "es_int ES_ErrorOutOfGasPrecompile = 85"
| "es_int ES_ECRECOVER = 86"
| "es_int ES_SHA256 = 87"
| "es_int ES_RIPEMD160 = 88"
| "es_int ES_DATACOPY = 89"
| "es_int ES_BIGMODEXP = 90"
| "es_int ES_BN254_ADD = 91"
| "es_int ES_BN254_SCALAR_MUL = 92"
| "es_int ES_BN254_PAIRING = 93"
| "es_int ES_BLAKE2F = 94"

lemma es_int_bounds: "0 < es_int s \<and> es_int s \<le> 94"
  by (cases s) simp_all

definition all_execution_states :: "execution_state list" where
  "all_execution_states = [
    ES_BeginTx, ES_EndTx, ES_EndBlock, ES_STOP, ES_ADD, ES_MUL, ES_SDIV_SMOD, ES_ADDMOD,
    ES_MULMOD, ES_EXP, ES_SIGNEXTEND, ES_CMP, ES_SCMP, ES_ISZERO, ES_BITWISE, ES_NOT, ES_BYTE,
    ES_SHL_SHR, ES_SAR, ES_SHA3, ES_ADDRESS, ES_BALANCE, ES_ORIGIN, ES_CALLER, ES_CALLVALUE,
    ES_CALLDATALOAD, ES_CALLDATASIZE, ES_CALLDATACOPY, ES_CODESIZE, ES_CODECOPY, ES_GASPRICE,
    ES_EXTCODESIZE, ES_EXTCODECOPY, ES_RETURNDATASIZE, ES_RETURNDATACOPY, ES_EXTCODEHASH,
    ES_BLOCKHASH, ES_BlockCtx, ES_SELFBALANCE, ES_POP, ES_MEMORY, ES_SLOAD, ES_SSTORE, ES_JUMP,
    ES_JUMPI, ES_PC, ES_MSIZE, ES_GAS, ES_JUMPDEST, ES_PUSH, ES_DUP, ES_SWAP, ES_LOG,
    ES_CREATE, ES_CALL_OP, ES_RETURN, ES_CREATE2, ES_REVERT, ES_SELFDESTRUCT,
    ES_ErrorInvalidOpcode, ES_ErrorGasUintOverflow, ES_ErrorStack, ES_ErrorWriteProtection,
    ES_ErrorDepth, ES_ErrorInsufficientBalance, ES_ErrorContractAddressCollision,
    ES_ErrorInvalidCreationCode, ES_ErrorNonceUintOverflow, ES_ErrorMaxCodeSizeExceeded,
    ES_ErrorInvalidJump, ES_ErrorReturnDataOutOfBound, ES_ErrorOutOfGasConstant,
    ES_ErrorOutOfGasStaticMemoryExpansion, ES_ErrorOutOfGasDynamicMemoryExpansion,
    ES_ErrorOutOfGasMemoryCopy, ES_ErrorOutOfGasAccountAccess, ES_ErrorOutOfGasCodeStore,
    ES_ErrorOutOfGasLOG, ES_ErrorOutOfGasEXP, ES_ErrorOutOfGasSHA3,
    ES_ErrorOutOfGasSloadSstore, ES_ErrorOutOfGasCall, ES_ErrorOutOfGasCREATE,
    ES_ErrorOutOfGasSELFDESTRUCT, ES_ErrorOutOfGasPrecompile, ES_ECRECOVER, ES_SHA256,
    ES_RIPEMD160, ES_DATACOPY, ES_BIGMODEXP, ES_BN254_ADD, ES_BN254_SCALAR_MUL,
    ES_BN254_PAIRING, ES_BLAKE2F]"

lemma all_execution_states_nth: "all_execution_states ! nat (es_int s - 1) = s"
  by (cases s) (simp_all add: all_execution_states_def)

lemma es_int_inject [simp]: "es_int s = es_int t \<longleftrightarrow> s = t"
  by (metis all_execution_states_nth)

lemma all_execution_states_complete: "s \<in> set all_execution_states"
  by (cases s) (simp_all add: all_execution_states_def)

instantiation execution_state :: equal
begin

definition equal_execution_state :: "execution_state \<Rightarrow> execution_state \<Rightarrow> bool" where
  "equal_execution_state a b \<longleftrightarrow> es_int a = es_int b"

instance
  by standard (simp add: equal_execution_state_def)

end

section \<open>Responsible opcodes\<close>

text \<open>
  \<open>responsible_opcode\<close> returns opcodes, or pairs of an opcode and an auxiliary value (the stack
  pointers of the stack errors).
\<close>

definition responsible_opcode :: "execution_state \<Rightarrow> opcode list + (opcode \<times> int) list" where
  "responsible_opcode s =
     (case s of
       ES_STOP \<Rightarrow> Inl [Opcode_STOP]
     | ES_ADD \<Rightarrow> Inl [Opcode_ADD, Opcode_SUB]
     | ES_MUL \<Rightarrow> Inl [Opcode_MUL, Opcode_DIV, Opcode_MOD]
     | ES_SDIV_SMOD \<Rightarrow> Inl [Opcode_SDIV, Opcode_SMOD]
     | ES_ADDMOD \<Rightarrow> Inl [Opcode_ADDMOD]
     | ES_MULMOD \<Rightarrow> Inl [Opcode_MULMOD]
     | ES_EXP \<Rightarrow> Inl [Opcode_EXP]
     | ES_SIGNEXTEND \<Rightarrow> Inl [Opcode_SIGNEXTEND]
     | ES_CMP \<Rightarrow> Inl [Opcode_LT, Opcode_GT, Opcode_EQ]
     | ES_SCMP \<Rightarrow> Inl [Opcode_SLT, Opcode_SGT]
     | ES_ISZERO \<Rightarrow> Inl [Opcode_ISZERO]
     | ES_BITWISE \<Rightarrow> Inl [Opcode_AND, Opcode_OR, Opcode_XOR]
     | ES_NOT \<Rightarrow> Inl [Opcode_NOT]
     | ES_BYTE \<Rightarrow> Inl [Opcode_BYTE]
     | ES_SHL_SHR \<Rightarrow> Inl [Opcode_SHL, Opcode_SHR]
     | ES_SAR \<Rightarrow> Inl [Opcode_SAR]
     | ES_SHA3 \<Rightarrow> Inl [Opcode_SHA3]
     | ES_ADDRESS \<Rightarrow> Inl [Opcode_ADDRESS]
     | ES_BALANCE \<Rightarrow> Inl [Opcode_BALANCE]
     | ES_ORIGIN \<Rightarrow> Inl [Opcode_ORIGIN]
     | ES_CALLER \<Rightarrow> Inl [Opcode_CALLER]
     | ES_CALLVALUE \<Rightarrow> Inl [Opcode_CALLVALUE]
     | ES_CALLDATALOAD \<Rightarrow> Inl [Opcode_CALLDATALOAD]
     | ES_CALLDATASIZE \<Rightarrow> Inl [Opcode_CALLDATASIZE]
     | ES_CALLDATACOPY \<Rightarrow> Inl [Opcode_CALLDATACOPY]
     | ES_CODESIZE \<Rightarrow> Inl [Opcode_CODESIZE]
     | ES_CODECOPY \<Rightarrow> Inl [Opcode_CODECOPY]
     | ES_GASPRICE \<Rightarrow> Inl [Opcode_GASPRICE]
     | ES_EXTCODESIZE \<Rightarrow> Inl [Opcode_EXTCODESIZE]
     | ES_EXTCODECOPY \<Rightarrow> Inl [Opcode_EXTCODECOPY]
     | ES_RETURNDATASIZE \<Rightarrow> Inl [Opcode_RETURNDATASIZE]
     | ES_RETURNDATACOPY \<Rightarrow> Inl [Opcode_RETURNDATACOPY]
     | ES_EXTCODEHASH \<Rightarrow> Inl [Opcode_EXTCODEHASH]
     | ES_BLOCKHASH \<Rightarrow> Inl [Opcode_BLOCKHASH]
     | ES_BlockCtx \<Rightarrow> Inl [
          Opcode_COINBASE, Opcode_TIMESTAMP, Opcode_NUMBER, Opcode_PREVRANDAO, Opcode_GASLIMIT,
          Opcode_BASEFEE, Opcode_CHAINID]
     | ES_SELFBALANCE \<Rightarrow> Inl [Opcode_SELFBALANCE]
     | ES_POP \<Rightarrow> Inl [Opcode_POP]
     | ES_MEMORY \<Rightarrow> Inl [Opcode_MLOAD, Opcode_MSTORE, Opcode_MSTORE8]
     | ES_SLOAD \<Rightarrow> Inl [Opcode_SLOAD]
     | ES_SSTORE \<Rightarrow> Inl [Opcode_SSTORE]
     | ES_JUMP \<Rightarrow> Inl [Opcode_JUMP]
     | ES_JUMPI \<Rightarrow> Inl [Opcode_JUMPI]
     | ES_PC \<Rightarrow> Inl [Opcode_PC]
     | ES_MSIZE \<Rightarrow> Inl [Opcode_MSIZE]
     | ES_GAS \<Rightarrow> Inl [Opcode_GAS]
     | ES_JUMPDEST \<Rightarrow> Inl [Opcode_JUMPDEST]
     | ES_PUSH \<Rightarrow> Inl [
          Opcode_PUSH0, Opcode_PUSH1, Opcode_PUSH2, Opcode_PUSH3, Opcode_PUSH4, Opcode_PUSH5,
          Opcode_PUSH6, Opcode_PUSH7, Opcode_PUSH8, Opcode_PUSH9, Opcode_PUSH10, Opcode_PUSH11,
          Opcode_PUSH12, Opcode_PUSH13, Opcode_PUSH14, Opcode_PUSH15, Opcode_PUSH16,
          Opcode_PUSH17, Opcode_PUSH18, Opcode_PUSH19, Opcode_PUSH20, Opcode_PUSH21,
          Opcode_PUSH22, Opcode_PUSH23, Opcode_PUSH24, Opcode_PUSH25, Opcode_PUSH26,
          Opcode_PUSH27, Opcode_PUSH28, Opcode_PUSH29, Opcode_PUSH30, Opcode_PUSH31,
          Opcode_PUSH32]
     | ES_DUP \<Rightarrow> Inl [
          Opcode_DUP1, Opcode_DUP2, Opcode_DUP3, Opcode_DUP4, Opcode_DUP5, Opcode_DUP6,
          Opcode_DUP7, Opcode_DUP8, Opcode_DUP9, Opcode_DUP10, Opcode_DUP11, Opcode_DUP12,
          Opcode_DUP13, Opcode_DUP14, Opcode_DUP15, Opcode_DUP16]
     | ES_SWAP \<Rightarrow> Inl [
          Opcode_SWAP1, Opcode_SWAP2, Opcode_SWAP3, Opcode_SWAP4, Opcode_SWAP5, Opcode_SWAP6,
          Opcode_SWAP7, Opcode_SWAP8, Opcode_SWAP9, Opcode_SWAP10, Opcode_SWAP11,
          Opcode_SWAP12, Opcode_SWAP13, Opcode_SWAP14, Opcode_SWAP15, Opcode_SWAP16]
     | ES_LOG \<Rightarrow> Inl [
          Opcode_LOG0, Opcode_LOG1, Opcode_LOG2, Opcode_LOG3, Opcode_LOG4]
     | ES_CREATE \<Rightarrow> Inl [Opcode_CREATE]
     | ES_CALL_OP \<Rightarrow> Inl [
          Opcode_CALL, Opcode_CALLCODE, Opcode_DELEGATECALL, Opcode_STATICCALL]
     | ES_RETURN \<Rightarrow> Inl [Opcode_RETURN]
     | ES_CREATE2 \<Rightarrow> Inl [Opcode_CREATE2]
     | ES_REVERT \<Rightarrow> Inl [Opcode_REVERT]
     | ES_SELFDESTRUCT \<Rightarrow> Inl [Opcode_SELFDESTRUCT]
     | ES_ErrorInvalidOpcode \<Rightarrow> Inl invalid_opcodes
     | ES_ErrorStack \<Rightarrow> Inr (stack_overflow_pairs @ stack_underflow_pairs)
     | ES_ErrorWriteProtection \<Rightarrow> Inl state_write_opcodes
     | _ \<Rightarrow> Inl [])"

definition opcode_aux_pairs :: "opcode list + (opcode \<times> int) list \<Rightarrow> (opcode \<times> int) list" where
  "opcode_aux_pairs r = (case r of Inl os \<Rightarrow> map (\<lambda>opc. (opc, 0)) os | Inr ps \<Rightarrow> ps)"

section \<open>Halting\<close>

definition halts_in_success :: "execution_state \<Rightarrow> bool" where
  "halts_in_success s \<longleftrightarrow> s \<in> {ES_STOP, ES_RETURN, ES_SELFDESTRUCT}"

definition halts_in_exception :: "execution_state \<Rightarrow> bool" where
  "halts_in_exception s \<longleftrightarrow> s \<in> {
    ES_ErrorInvalidOpcode, ES_ErrorGasUintOverflow, ES_ErrorStack, ES_ErrorWriteProtection,
    ES_ErrorDepth, ES_ErrorInsufficientBalance, ES_ErrorContractAddressCollision,
    ES_ErrorInvalidCreationCode, ES_ErrorMaxCodeSizeExceeded, ES_ErrorInvalidJump,
    ES_ErrorReturnDataOutOfBound, ES_ErrorOutOfGasConstant,
    ES_ErrorOutOfGasStaticMemoryExpansion, ES_ErrorOutOfGasDynamicMemoryExpansion,
    ES_ErrorOutOfGasMemoryCopy, ES_ErrorOutOfGasAccountAccess, ES_ErrorOutOfGasCodeStore,
    ES_ErrorOutOfGasLOG, ES_ErrorOutOfGasEXP, ES_ErrorOutOfGasSHA3,
    ES_ErrorOutOfGasSloadSstore, ES_ErrorOutOfGasCall, ES_ErrorOutOfGasCREATE,
    ES_ErrorOutOfGasSELFDESTRUCT}"

definition halts :: "execution_state \<Rightarrow> bool" where
  "halts s \<longleftrightarrow> halts_in_success s \<or> halts_in_exception s \<or> s = ES_REVERT"

definition precompile_execution_states :: "execution_state list" where
  "precompile_execution_states = [
    ES_ECRECOVER, ES_SHA256, ES_RIPEMD160, ES_DATACOPY, ES_BIGMODEXP, ES_BN254_ADD,
    ES_BN254_SCALAR_MUL, ES_BN254_PAIRING, ES_BLAKE2F]"

end
