(* ===== verification/Precompile.thy ===== *)
theory Precompile
  imports Execution_State Params
begin

text \<open>
  \<^verbatim>\<open>src/zkevm_specs/evm_circuit/precompile.py\<close>: the precompiled contracts, with the address, the
  execution state and the base gas cost of each.
\<close>

datatype precompile =
    PC_ECRECOVER | PC_SHA256 | PC_RIPEMD160 | PC_DATACOPY | PC_BIGMODEXP | PC_BN254ADD |
    PC_BN254SCALARMUL | PC_BN254PAIRING | PC_BLAKE2F

primrec precompile_int :: "precompile \<Rightarrow> int" where
  "precompile_int PC_ECRECOVER = 1"
| "precompile_int PC_SHA256 = 2"
| "precompile_int PC_RIPEMD160 = 3"
| "precompile_int PC_DATACOPY = 4"
| "precompile_int PC_BIGMODEXP = 5"
| "precompile_int PC_BN254ADD = 6"
| "precompile_int PC_BN254SCALARMUL = 7"
| "precompile_int PC_BN254PAIRING = 8"
| "precompile_int PC_BLAKE2F = 9"

definition valid_precompiles :: "precompile list" where
  "valid_precompiles = [
    PC_ECRECOVER, PC_SHA256, PC_RIPEMD160, PC_DATACOPY, PC_BIGMODEXP, PC_BN254ADD,
    PC_BN254SCALARMUL, PC_BN254PAIRING, PC_BLAKE2F]"

text \<open>\<open>Precompile(n)\<close>: the member with number \<open>n\<close>, or \<open>ValueError\<close>.\<close>

definition to_precompile :: "int \<Rightarrow> precompile result" where
  "to_precompile n =
     (case filter (\<lambda>p. precompile_int p = n) valid_precompiles of
        [] \<Rightarrow> Inl ValueError | p # _ \<Rightarrow> Inr p)"

record precompile_info =
  pi_base_gas :: int
  pi_execution_state :: execution_state

definition PrecompileInfo :: "int \<Rightarrow> execution_state \<Rightarrow> precompile_info" where
  "PrecompileInfo gas es = \<lparr>pi_base_gas = gas, pi_execution_state = es\<rparr>"

primrec PRECOMPILE_INFO_MAP :: "precompile \<Rightarrow> precompile_info" where
  "PRECOMPILE_INFO_MAP PC_ECRECOVER = PrecompileInfo EcrecoverGas ES_ECRECOVER"
| "PRECOMPILE_INFO_MAP PC_SHA256 = PrecompileInfo Sha256BaseGas ES_SHA256"
| "PRECOMPILE_INFO_MAP PC_RIPEMD160 = PrecompileInfo Ripemd160BaseGas ES_RIPEMD160"
| "PRECOMPILE_INFO_MAP PC_DATACOPY = PrecompileInfo IdentityBaseGas ES_DATACOPY"
| "PRECOMPILE_INFO_MAP PC_BIGMODEXP = PrecompileInfo BigModExpBaseGas ES_BIGMODEXP"
| "PRECOMPILE_INFO_MAP PC_BN254ADD = PrecompileInfo Bn254AddGas ES_BN254_ADD"
| "PRECOMPILE_INFO_MAP PC_BN254SCALARMUL = PrecompileInfo Bn254ScalarMulGas ES_BN254_SCALAR_MUL"
| "PRECOMPILE_INFO_MAP PC_BN254PAIRING = PrecompileInfo Bn254PairingBaseGas ES_BN254_PAIRING"
| "PRECOMPILE_INFO_MAP PC_BLAKE2F = PrecompileInfo Blake2fBaseGas ES_BLAKE2F"

definition precompile_info_pairs :: "(execution_state \<times> precompile \<times> int) list" where
  "precompile_info_pairs =
     map (\<lambda>p. (pi_execution_state (PRECOMPILE_INFO_MAP p), p, pi_base_gas (PRECOMPILE_INFO_MAP p)))
       valid_precompiles"

lemma valid_precompiles_complete: "p \<in> set valid_precompiles"
  by (cases p) (simp_all add: valid_precompiles_def)

lemma to_precompile_ok [ok_simps]: "to_precompile n = Inr p \<longleftrightarrow> precompile_int p = n"
  by (cases p) (auto simp: to_precompile_def valid_precompiles_def)

lemma to_precompile_total: "1 \<le> n \<Longrightarrow> n \<le> 9 \<Longrightarrow> \<exists>p. to_precompile n = Inr p"
proof -
  assume "1 \<le> n" "n \<le> 9"
  then have "n = 1 \<or> n = 2 \<or> n = 3 \<or> n = 4 \<or> n = 5 \<or> n = 6 \<or> n = 7 \<or> n = 8 \<or> n = 9"
    by presburger
  then show ?thesis
    by (elim disjE) (simp_all add: to_precompile_def valid_precompiles_def)
qed

end
