(* ===== verification/Field.thy ===== *)
theory Field
  imports Prelude
begin

text \<open>
  The field type of \<^verbatim>\<open>src/zkevm_specs/util/arithmetic.py\<close>: class \<open>FQ\<close>, the elements of the
  BN254 scalar field. \<open>FQ\<close> inherits its operators from \<open>bn128.FQ\<close> of the package py_ecc;
  the source fixes the modulus, so an element is a residue (attribute \<open>n\<close>, here \<open>fq_n\<close>) and
  \<open>+\<close>, \<open>-\<close>, \<open>*\<close> are the arithmetic of residues. The one operation whose algorithm lies
  outside the source, modular inversion (\<open>py_ecc.utils.prime_field_inv\<close>), stays a parameter
  \<open>pfi\<close> of the definitions that use it, with its documented behaviour as the hypothesis
  \<open>prime_field_inv_spec\<close>.
\<close>

definition fq_modulus :: int where
  "fq_modulus = 21888242871839275222246405745257275088548364400416034343698204186575808495617"

lemma fq_modulus_pos [simp]: "0 < fq_modulus"
  by (simp add: fq_modulus_def)

typedef fq = "{0..<fq_modulus}"
  morphisms fq_n Abs_fq
  by (intro exI [of _ 0]) simp

setup_lifting type_definition_fq

lift_definition FQ :: "int \<Rightarrow> fq" is "\<lambda>x. x mod fq_modulus"
  by simp

instantiation fq :: comm_ring_1
begin

lift_definition zero_fq :: fq is 0
  by simp

lift_definition one_fq :: fq is 1
  by (simp add: fq_modulus_def)

lift_definition plus_fq :: "fq \<Rightarrow> fq \<Rightarrow> fq" is "\<lambda>x y. (x + y) mod fq_modulus"
  by simp

lift_definition minus_fq :: "fq \<Rightarrow> fq \<Rightarrow> fq" is "\<lambda>x y. (x - y) mod fq_modulus"
  by simp

lift_definition uminus_fq :: "fq \<Rightarrow> fq" is "\<lambda>x. (- x) mod fq_modulus"
  by simp

lift_definition times_fq :: "fq \<Rightarrow> fq \<Rightarrow> fq" is "\<lambda>x y. (x * y) mod fq_modulus"
  by simp

instance
proof
  fix a b c :: fq
  show "a * b * c = a * (b * c)"
    by transfer (simp add: mod_simps ac_simps)
  show "(a + b) * c = a * c + b * c"
    by transfer (simp add: mod_simps algebra_simps)
  show "a + b + c = a + (b + c)"
    by transfer (simp add: mod_simps ac_simps)
  show "a - b = a + - b"
    by transfer (simp add: mod_simps)
  show "- a + a = 0"
    by transfer (simp add: mod_simps)
  show "(0::fq) \<noteq> 1"
    by transfer simp
qed (transfer, simp add: ac_simps)+

end

instantiation fq :: equal
begin

definition equal_fq :: "fq \<Rightarrow> fq \<Rightarrow> bool" where
  "equal_fq a b \<longleftrightarrow> fq_n a = fq_n b"

instance
  by standard (simp add: equal_fq_def fq_n_inject)

end

section \<open>Elements and integers\<close>

lemma fq_n_bounds: "0 \<le> fq_n a" "fq_n a < fq_modulus"
  using fq_n [of a] by simp_all

lemma fq_n_nonneg [simp]: "0 \<le> fq_n a"
  by (rule fq_n_bounds)

lemma fq_n_lt [simp]: "fq_n a < fq_modulus"
  by (rule fq_n_bounds)

lemma fq_eq_iff: "a = b \<longleftrightarrow> fq_n a = fq_n b"
  by (simp add: fq_n_inject)

lemma fq_n_FQ [simp, fq_eval]: "fq_n (FQ x) = x mod fq_modulus"
  by transfer simp

lemma FQ_fq_n [simp]: "FQ (fq_n a) = a"
  by transfer simp

lemma fq_n_arith [fq_eval]:
  "fq_n 0 = 0"
  "fq_n 1 = 1"
  "fq_n (a + b) = (fq_n a + fq_n b) mod fq_modulus"
  "fq_n (a - b) = (fq_n a - fq_n b) mod fq_modulus"
  "fq_n (- a) = (- fq_n a) mod fq_modulus"
  "fq_n (a * b) = (fq_n a * fq_n b) mod fq_modulus"
  by (transfer, simp)+

lemma fq_n_0 [simp]: "fq_n 0 = 0" and fq_n_1 [simp]: "fq_n 1 = 1"
  by (simp_all add: fq_n_arith)

lemma FQ_arith:
  "FQ 0 = 0"
  "FQ 1 = 1"
  "FQ (x + y) = FQ x + FQ y"
  "FQ (x - y) = FQ x - FQ y"
  "FQ (- x) = - FQ x"
  "FQ (x * y) = FQ x * FQ y"
  by (transfer, simp add: mod_simps fq_modulus_def)+

lemma FQ_0 [simp]: "FQ 0 = 0" and FQ_1 [simp]: "FQ 1 = 1"
  by (simp_all add: FQ_arith)

lemma FQ_power: "FQ (x ^ k) = FQ x ^ k"
  by (induction k) (simp_all add: FQ_arith)

lemma FQ_of_nat: "FQ (int k) = of_nat k"
  by (induction k) (simp_all add: FQ_arith)

lemma FQ_of_int: "FQ x = of_int x"
proof (cases "0 \<le> x")
  case True
  then show ?thesis using FQ_of_nat [of "nat x"] by simp
next
  case False
  then have "FQ (- (- x)) = - FQ (int (nat (- x)))" by (simp add: FQ_arith)
  also have "\<dots> = - of_nat (nat (- x))" by (simp only: FQ_of_nat)
  finally show ?thesis using False by simp
qed

lemma FQ_eq_iff: "FQ x = FQ y \<longleftrightarrow> x mod fq_modulus = y mod fq_modulus"
  by (simp add: fq_eq_iff)

lemma FQ_inject:
  "0 \<le> x \<Longrightarrow> x < fq_modulus \<Longrightarrow> 0 \<le> y \<Longrightarrow> y < fq_modulus \<Longrightarrow> FQ x = FQ y \<longleftrightarrow> x = y"
  by (simp add: FQ_eq_iff)

lemma fq_n_FQ_small: "0 \<le> x \<Longrightarrow> x < fq_modulus \<Longrightarrow> fq_n (FQ x) = x"
  by simp

lemma fq_n_numeral [simp, fq_eval]: "fq_n (numeral k) = numeral k mod fq_modulus"
  using fq_n_FQ [of "numeral k"] by (simp only: FQ_of_int of_int_numeral)

lemma FQ_numeral: "FQ (numeral k) = numeral k"
  by (simp add: FQ_of_int)

text \<open>Everything the circuits call a number of at most 31 bytes lies below the modulus.\<close>

lemma pow248_lt_modulus: "(256::int) ^ 31 < fq_modulus"
  by (simp add: fq_modulus_def)

lemma lt_modulus_trans: "x < 256 ^ k \<Longrightarrow> k \<le> 31 \<Longrightarrow> x < fq_modulus"
proof -
  assume x: "x < 256 ^ k" and k: "k \<le> 31"
  from k have "(256::int) ^ k \<le> 256 ^ 31" by (intro power_increasing) simp_all
  with x pow248_lt_modulus show ?thesis by linarith
qed

text \<open>Sums and products that stay below the modulus are computed as integers.\<close>

lemma fq_n_add_small: "fq_n a + fq_n b < fq_modulus \<Longrightarrow> fq_n (a + b) = fq_n a + fq_n b"
  by (simp add: fq_n_arith)

lemma fq_n_mult_small: "fq_n a * fq_n b < fq_modulus \<Longrightarrow> fq_n (a * b) = fq_n a * fq_n b"
  by (simp add: fq_n_arith)

lemma fq_n_diff_small: "fq_n b \<le> fq_n a \<Longrightarrow> fq_n (a - b) = fq_n a - fq_n b"
  using fq_n_lt [of a] fq_n_nonneg [of b]
  by (simp add: fq_n_arith mod_pos_pos_trivial del: fq_n_lt fq_n_nonneg)

section \<open>Booleans as field elements\<close>

definition fq_of_bool :: "bool \<Rightarrow> fq" where
  "fq_of_bool b = FQ (if b then 1 else 0)"

lemma fq_of_bool_simps [simp]:
  "fq_of_bool True = 1"
  "fq_of_bool False = 0"
  by (simp_all add: fq_of_bool_def)

lemma fq_of_bool_eq [simp]:
  "fq_of_bool b = 1 \<longleftrightarrow> b"
  "fq_of_bool b = 0 \<longleftrightarrow> \<not> b"
  "1 = fq_of_bool b \<longleftrightarrow> b"
  "0 = fq_of_bool b \<longleftrightarrow> \<not> b"
  "fq_of_bool b = fq_of_bool c \<longleftrightarrow> b = c"
  by (cases b; cases c; simp)+

lemma fq_of_bool_mult [simp]: "fq_of_bool b * fq_of_bool c = fq_of_bool (b \<and> c)"
  by (cases b; cases c) simp_all

lemma one_minus_fq_of_bool [simp]: "1 - fq_of_bool b = fq_of_bool (\<not> b)"
  by (cases b) simp_all

lemma fq_of_bool_mult_eq_0 [simp]: "fq_of_bool b * x = 0 \<longleftrightarrow> (b \<longrightarrow> x = 0)"
  by (cases b) simp_all

lemma fq_n_fq_of_bool [simp]: "fq_n (fq_of_bool b) = (if b then 1 else 0)"
  by (cases b) simp_all

definition is_bool_fq :: "fq \<Rightarrow> bool" where
  "is_bool_fq x \<longleftrightarrow> x = 0 \<or> x = 1"

lemma is_bool_fqE: "is_bool_fq x \<Longrightarrow> \<exists>b. x = fq_of_bool b"
  by (auto simp: is_bool_fq_def intro: exI [of _ True] exI [of _ False])

section \<open>Inversion and division\<close>

text \<open>
  \<open>FQ.inv\<close> calls \<open>prime_field_inv(n, field_modulus)\<close>, and the inherited \<open>/\<close> multiplies by
  the same inverse. The documented behaviour of \<open>prime_field_inv\<close> is that it returns an
  inverse modulo its second argument; it is stated for the residues prime to the modulus.
\<close>

definition prime_field_inv_spec :: "(int \<Rightarrow> int \<Rightarrow> int) \<Rightarrow> bool" where
  "prime_field_inv_spec pfi \<longleftrightarrow>
     (\<forall>a. 0 \<le> a \<longrightarrow> a < fq_modulus \<longrightarrow> coprime a fq_modulus \<longrightarrow>
          (pfi a fq_modulus * a) mod fq_modulus = 1)"

definition fq_inv :: "(int \<Rightarrow> int \<Rightarrow> int) \<Rightarrow> fq \<Rightarrow> fq" where
  "fq_inv pfi a = FQ (pfi (fq_n a) fq_modulus)"

definition fq_div :: "(int \<Rightarrow> int \<Rightarrow> int) \<Rightarrow> fq \<Rightarrow> fq \<Rightarrow> fq" where
  "fq_div pfi a b = a * fq_inv pfi b"

lemma fq_inv_mult:
  assumes "prime_field_inv_spec pfi" "coprime (fq_n d) fq_modulus"
  shows "fq_inv pfi d * d = 1"
proof -
  have "(pfi (fq_n d) fq_modulus * fq_n d) mod fq_modulus = 1"
    using assms by (simp add: prime_field_inv_spec_def)
  then show ?thesis
    by (simp add: fq_inv_def fq_eq_iff fq_n_arith mod_simps)
qed

lemma fq_div_mult:
  assumes "prime_field_inv_spec pfi" "coprime (fq_n d) fq_modulus"
  shows "fq_div pfi a d * d = a"
  using fq_inv_mult [OF assms] by (simp add: fq_div_def mult.assoc)

lemma fq_div_eq:
  assumes "prime_field_inv_spec pfi" "coprime (fq_n d) fq_modulus" "q * d = a"
  shows "fq_div pfi a d = q"
proof -
  have "fq_div pfi a d = q * (fq_inv pfi d * d)"
    by (simp add: fq_div_def assms(3) [symmetric] algebra_simps)
  then show ?thesis by (simp add: fq_inv_mult [OF assms(1,2)])
qed

lemma odd_fq_modulus: "odd fq_modulus"
  by (simp add: fq_modulus_def)

lemma coprime_pow2: "coprime ((2::int) ^ k) fq_modulus"
  using odd_fq_modulus by simp

lemma coprime_fq_pow2: "(2::int) ^ k < fq_modulus \<Longrightarrow> coprime (fq_n (FQ (2 ^ k))) fq_modulus"
  using odd_fq_modulus by simp

text \<open>
  The hypothesis can be met: B\'ezout's coefficients give such an inverse. This instance serves the
  witnesses only; no theorem depends on it.
\<close>

definition bezout_inv :: "int \<Rightarrow> int \<Rightarrow> int" where
  "bezout_inv a m = fst (bezw (nat a) (nat m))"

lemma bezout_inv_spec: "prime_field_inv_spec bezout_inv"
  unfolding prime_field_inv_spec_def
proof (intro allI impI)
  fix a :: int
  assume a: "0 \<le> a" "a < fq_modulus" "coprime a fq_modulus"
  let ?w = "bezw (nat a) (nat fq_modulus)"
  have m: "0 \<le> fq_modulus" by (simp add: order_less_imp_le)
  have "fst ?w * int (nat a) + snd ?w * int (nat fq_modulus) = int (gcd (nat a) (nat fq_modulus))"
    using bezw_aux [of "nat a" "nat fq_modulus"] by (simp only:)
  moreover have "int (gcd (nat a) (nat fq_modulus)) = 1"
    using a m by (simp add: gcd_int_def coprime_iff_gcd_eq_1)
  ultimately have eq: "fst ?w * a = 1 - snd ?w * fq_modulus"
    using a m by simp
  have "(1 - snd ?w * fq_modulus) mod fq_modulus = 1 mod fq_modulus"
    by (metis mod_mult_self1 diff_add_cancel)
  moreover have "1 mod fq_modulus = 1"
    by (simp add: fq_modulus_def)
  ultimately show "(bezout_inv a fq_modulus * a) mod fq_modulus = 1"
    by (simp only: bezout_inv_def eq)
qed

end
