(* ===== verification/Arithmetic.thy ===== *)
theory Arithmetic
  imports Field Params
begin

text \<open>
  The rest of \<^verbatim>\<open>src/zkevm_specs/util/arithmetic.py\<close>: linear combinations of bytes, the class
  \<open>RLC\<close>, 256-bit words as a pair of 128-bit halves (class \<open>Word\<close>, and \<open>WordOrValue\<close>), and the
  word arithmetic the circuits share, \<open>add_words\<close> and \<open>mul_add_words\<close>. The lemmas relate each
  operation to arithmetic on the integers the words stand for.
\<close>

section \<open>Linear combinations and RLC\<close>

fun linear_combine_bytes :: "fq list \<Rightarrow> fq \<Rightarrow> bool \<Rightarrow> fq result" where
  "linear_combine_bytes [] base range_check = Inr 0"
| "linear_combine_bytes (limb # limbs) base range_check =
     rbind (linear_combine_bytes limbs base range_check) (\<lambda>acc.
     rbind (if range_check then assert_that (fq_n limb < 256) else Inr ()) (\<lambda>_.
     Inr (acc * base + limb)))"

record rlc =
  rlc_int_value :: int
  rlc_value :: fq
  rlc_le_bytes :: "int list"

definition RLC_of_bytes :: "int list \<Rightarrow> fq \<Rightarrow> nat \<Rightarrow> rlc result" where
  "RLC_of_bytes value randomness n_bytes =
     (if length value > n_bytes then Inl ValueError
      else let bs = value @ replicate (n_bytes - length value) 0 in
        rbind (linear_combine_bytes (map FQ bs) randomness True) (\<lambda>v.
        Inr \<lparr>rlc_int_value = le_val bs, rlc_value = v, rlc_le_bytes = bs\<rparr>))"

definition RLC_of_int :: "int \<Rightarrow> fq \<Rightarrow> nat \<Rightarrow> rlc result" where
  "RLC_of_int value randomness n_bytes =
     rbind (to_bytes_le value n_bytes) (\<lambda>bs. RLC_of_bytes bs randomness n_bytes)"

definition rstrip_zeros :: "int list \<Rightarrow> int list" where
  "rstrip_zeros bs = rev (dropWhile (\<lambda>b. b = 0) (rev bs))"

section \<open>Words\<close>

datatype word256 = WordLH (lo: fq) (hi: fq)

definition word_of_tuple :: "fq \<Rightarrow> fq \<Rightarrow> word256 result" where
  "word_of_tuple l h =
     rbind (assert_that (fq_n l < 256 ^ 16 \<and> fq_n h < 256 ^ 16)) (\<lambda>_. Inr (WordLH l h))"

definition bytes_to_fq :: "int list \<Rightarrow> fq result" where
  "bytes_to_fq value =
     rbind (assert_that (length value \<le> MAX_N_BYTES)) (\<lambda>_. Inr (FQ (le_val value)))"

definition word_of_bytes :: "int list \<Rightarrow> word256 result" where
  "word_of_bytes value =
     rbind (assert_that (length value = 32)) (\<lambda>_.
     rbind (bytes_to_fq (take 16 value)) (\<lambda>l.
     rbind (bytes_to_fq (drop 16 value)) (\<lambda>h.
     Inr (WordLH l h))))"

definition word_of_int256 :: "int \<Rightarrow> word256 result" where
  "word_of_int256 value =
     rbind (assert_that (value < 256 ^ 32)) (\<lambda>_.
     rbind (to_bytes_le value 32) word_of_bytes)"

definition from_lo :: "fq \<Rightarrow> word256 result" where
  "from_lo l = word_of_tuple l (FQ 0)"

definition int_value :: "word256 \<Rightarrow> int" where
  "int_value w = fq_n (lo w) + fq_n (hi w) * 2 ^ 128"

definition word_plus :: "word256 \<Rightarrow> word256 \<Rightarrow> word256 result" where
  "word_plus v w = word_of_tuple (lo v + lo w) (hi v + hi w)"

definition word_select :: "word256 \<Rightarrow> fq \<Rightarrow> word256 result" where
  "word_select w selector = word_of_tuple (selector * lo w) (selector * hi w)"

definition to_lo_hi :: "word256 \<Rightarrow> fq \<times> fq" where
  "to_lo_hi w = (lo w, hi w)"

definition to_64s :: "word256 \<Rightarrow> (fq \<times> fq \<times> fq \<times> fq) result" where
  "to_64s w =
     rbind (to_bytes_le (fq_n (lo w)) 16) (\<lambda>lo_bytes.
     rbind (to_bytes_le (fq_n (hi w)) 16) (\<lambda>hi_bytes.
     rbind (bytes_to_fq (take 8 lo_bytes)) (\<lambda>a0.
     rbind (bytes_to_fq (drop 8 lo_bytes)) (\<lambda>a1.
     rbind (bytes_to_fq (take 8 hi_bytes)) (\<lambda>a2.
     rbind (bytes_to_fq (drop 8 hi_bytes)) (\<lambda>a3.
     Inr (a0, a1, a2, a3)))))))"

definition to_le_bytes :: "word256 \<Rightarrow> fq list result" where
  "to_le_bytes w =
     rbind (to_bytes_le (fq_n (lo w)) 16) (\<lambda>l.
     rbind (to_bytes_le (fq_n (hi w)) 16) (\<lambda>h.
     Inr (map FQ (l @ h))))"

text \<open>\<open>WordOrValue\<close>: the flag \<open>is_word\<close> is the constructor.\<close>

datatype word_or_value = WordV word256 | ValueV fq

fun wov_word :: "word_or_value \<Rightarrow> word256" where
  "wov_word (WordV w) = w"
| "wov_word (ValueV x) = WordLH x 0"

fun wov_value :: "word_or_value \<Rightarrow> fq result" where
  "wov_value (WordV w) = Inl AssertionError"
| "wov_value (ValueV x) = Inr x"

lemma wov_value_ok [ok_simps]: "wov_value v = Inr x \<longleftrightarrow> v = ValueV x"
  by (cases v) auto

section \<open>Word arithmetic\<close>

definition sum_values :: "fq list \<Rightarrow> fq" where
  "sum_values xs = sum_list xs"

definition add_words :: "word256 list \<Rightarrow> (word256 \<times> fq) result" where
  "add_words addends =
     (if addends = [] then Inl ValueError
      else let
        los = map lo addends; his = map hi addends;
        carry_lo = fq_n (sum_values los) div 2 ^ 128;
        sum_lo = fq_n (sum_values los) mod 2 ^ 128;
        total_hi = fq_n (sum_values his + FQ carry_lo);
        carry_hi = total_hi div 2 ^ 128;
        sum_hi = total_hi mod 2 ^ 128
      in rbind (word_of_tuple (FQ sum_lo) (FQ sum_hi)) (\<lambda>w. Inr (w, FQ carry_hi)))"

text \<open>
  The schoolbook product of two words in 64-bit limbs, as \<open>mul_add_words\<close> of arithmetic.py and
  of the class \<open>Instruction\<close> both compute it: the partial sums \<open>t0\<close> to \<open>t3\<close>, the two carries,
  the value they call overflow, and the two equations that relate them.
\<close>

definition mul_add_words ::
  "(int \<Rightarrow> int \<Rightarrow> int) \<Rightarrow> word256 \<Rightarrow> word256 \<Rightarrow> word256 \<Rightarrow> word256 \<Rightarrow>
   (fq \<times> (fq \<times> fq) \<times> (fq \<times> fq) list) result" where
  "mul_add_words pfi a b c d =
     rbind (to_64s a) (\<lambda>(a0, a1, a2, a3).
     rbind (to_64s b) (\<lambda>(b0, b1, b2, b3).
     let c_lo = lo c; c_hi = hi c; d_lo = lo d; d_hi = hi d;
       t0 = a0 * b0;
       t1 = a0 * b1 + a1 * b0;
       t2 = a0 * b2 + a1 * b1 + a2 * b0;
       t3 = a0 * b3 + a1 * b2 + a2 * b1 + a3 * b0;
       carry_lo = fq_div pfi (t0 + t1 * FQ (2 ^ 64) + c_lo - d_lo) (FQ (2 ^ 128));
       carry_hi = fq_div pfi (t2 + t3 * FQ (2 ^ 64) + c_hi + carry_lo - d_hi) (FQ (2 ^ 128));
       overflow = carry_hi + a1 * b3 + a2 * b2 + a3 * b1 + a2 * b3 + a3 * b2 + a3 * b3;
       constraint1 = (t0 + t1 * FQ (2 ^ 64) + c_lo, d_lo + carry_lo * FQ (2 ^ 128));
       constraint2 = (t2 + t3 * FQ (2 ^ 64) + c_hi + carry_lo, d_hi + carry_hi * FQ (2 ^ 128))
     in Inr (overflow, (carry_lo, carry_hi), [constraint1, constraint2])))"

section \<open>Sign and absolute value of 256-bit integers\<close>

definition int_is_neg :: "int \<Rightarrow> int" where
  "int_is_neg x = x div 2 ^ 255"

definition get_int_neg :: "int \<Rightarrow> int" where
  "get_int_neg x = (if x = 0 then 0 else 2 ^ 256 - x)"

definition get_int_abs :: "int \<Rightarrow> int" where
  "get_int_abs x = (if int_is_neg x \<noteq> 0 then get_int_neg x else x)"

section \<open>Well-formed words\<close>

text \<open>
  A word is well formed when both halves fit 128 bits, what the checks of the constructor
  enforce. Well-formed words are in bijection with the integers below \<open>2 ^ 256\<close>.
\<close>

definition word_ok :: "word256 \<Rightarrow> bool" where
  "word_ok w \<longleftrightarrow> fq_n (lo w) < 2 ^ 128 \<and> fq_n (hi w) < 2 ^ 128"

definition word_of :: "int \<Rightarrow> word256" where
  "word_of v = WordLH (FQ (v mod 2 ^ 128)) (FQ (v div 2 ^ 128))"

definition to_u256 :: "word256 \<Rightarrow> 256 word" where
  "to_u256 w = word_of_int (int_value w)"

lemma pow_256 [simp]:
  "(256::int) ^ 16 = 2 ^ 128" "(256::int) ^ 32 = 2 ^ 256" "(256::int) ^ 9 = 2 ^ 72" "(256::int) ^ 8 = 2 ^ 64"
  by simp_all

lemma lt_pow128: "x < 2 ^ 128 \<Longrightarrow> x < fq_modulus"
  by (simp add: fq_modulus_def)

lemma lt_pow64: "x < 2 ^ 64 \<Longrightarrow> x < fq_modulus"
  by (simp add: fq_modulus_def)

lemma word_of_tuple_ok [ok_simps]:
  "word_of_tuple l h = Inr w \<longleftrightarrow> w = WordLH l h \<and> word_ok w"
  by (auto simp: word_of_tuple_def word_ok_def ok_simps)

lemma from_lo_ok [ok_simps]: "from_lo l = Inr w \<longleftrightarrow> w = WordLH l 0 \<and> fq_n l < 2 ^ 128"
  by (auto simp: from_lo_def word_of_tuple_ok word_ok_def)

lemma bytes_to_fq_ok [ok_simps]:
  "bytes_to_fq bs = Inr x \<longleftrightarrow> length bs \<le> 31 \<and> x = FQ (le_val bs)"
  by (auto simp: bytes_to_fq_def ok_simps)

lemma word_of_ok:
  assumes "0 \<le> v" "v < 2 ^ 256"
  shows "word_ok (word_of v)" "int_value (word_of v) = v"
proof -
  have "v div 2 ^ 128 < 2 ^ 128"
    using assms by (simp add: div_less_iff_less_mult)
  moreover have "v mod 2 ^ 128 < 2 ^ 128"
    by simp
  moreover have "0 \<le> v div 2 ^ 128"
    using assms by (simp add: pos_imp_zdiv_nonneg_iff)
  ultimately have "fq_n (FQ (v mod 2 ^ 128)) = v mod 2 ^ 128"
    and "fq_n (FQ (v div 2 ^ 128)) = v div 2 ^ 128"
    and h: "v div 2 ^ 128 < 2 ^ 128"
    by (simp_all only: fq_n_FQ mod_pos_pos_trivial lt_pow128 pos_mod_sign zero_less_power
        zero_less_numeral)
  then show "word_ok (word_of v)" "int_value (word_of v) = v"
    by (simp_all only: word_ok_def word_of_def word256.sel int_value_def h
        pos_mod_bound zero_less_power zero_less_numeral mod_div_mult_eq conj_absorb)
qed

lemma int_value_nonneg: "0 \<le> int_value w"
  by (simp add: int_value_def)

lemma int_value_lt: "word_ok w \<Longrightarrow> int_value w < 2 ^ 256"
  by (simp add: word_ok_def int_value_def)

lemma int_value_inject:
  "word_ok v \<Longrightarrow> word_ok w \<Longrightarrow> int_value v = int_value w \<longleftrightarrow> v = w"
proof
  assume ok: "word_ok v" "word_ok w" and eq: "int_value v = int_value w"
  have "fq_n (lo v) = fq_n (lo w)" "fq_n (hi v) = fq_n (hi w)"
    using base_split_unique [of "fq_n (lo v)" "2 ^ 128" "fq_n (lo w)" "fq_n (hi v)" "fq_n (hi w)"]
      ok eq by (simp_all add: word_ok_def int_value_def)
  then show "v = w" by (simp add: fq_eq_iff word256.expand)
qed simp

lemma word_of_int_value: "word_ok w \<Longrightarrow> word_of (int_value w) = w"
  using int_value_inject int_value_lt int_value_nonneg word_of_ok by blast

lemma to_u256_inject:
  assumes "word_ok v" "word_ok w"
  shows "to_u256 v = to_u256 w \<longleftrightarrow> v = w"
proof -
  have "uint (to_u256 x) = int_value x" if "word_ok x" for x
    using that int_value_lt [OF that] int_value_nonneg [of x]
    by (simp add: to_u256_def uint_word_of_int)
  then show ?thesis
    using assms int_value_inject by metis
qed

lemma uint_to_u256: "word_ok w \<Longrightarrow> uint (to_u256 w) = int_value w"
  using int_value_lt int_value_nonneg by (simp add: to_u256_def uint_word_of_int)

lemma word_of_int256_ok [ok_simps]:
  "word_of_int256 v = Inr w \<longleftrightarrow> 0 \<le> v \<and> v < 2 ^ 256 \<and> w = word_of v"
proof -
  have halves: "word_of_bytes (le_bytes 32 v) = Inr (word_of v)" if "0 \<le> v" "v < 2 ^ 256"
  proof -
    have "v div 2 ^ 128 mod 2 ^ 128 = v div 2 ^ 128"
      using that by (simp add: div_less_iff_less_mult pos_imp_zdiv_nonneg_iff)
    then show ?thesis
      by (simp add: word_of_bytes_def bytes_to_fq_def take_le_bytes drop_le_bytes word_of_def
          del: le_bytes.simps)
  qed
  show ?thesis
    by (auto simp: word_of_int256_def rbind_ok assert_that_ok to_bytes_le_ok halves
        simp del: le_bytes.simps)
qed

lemma word_of_int256_Inr:
  "0 \<le> v \<Longrightarrow> v < 2 ^ 256 \<Longrightarrow> word_of_int256 v = Inr (word_of v)"
  by (simp add: word_of_int256_ok)

lemma word_of_0: "word_of 0 = WordLH 0 0"
  by (simp add: word_of_def)

section \<open>Limbs and bytes of a word\<close>

lemma to_64s_ok:
  "to_64s w = Inr (a0, a1, a2, a3) \<longleftrightarrow>
     word_ok w \<and>
     a0 = FQ (fq_n (lo w) mod 2 ^ 64) \<and> a1 = FQ (fq_n (lo w) div 2 ^ 64) \<and>
     a2 = FQ (fq_n (hi w) mod 2 ^ 64) \<and> a3 = FQ (fq_n (hi w) div 2 ^ 64)"
proof -
  have small: "x div 18446744073709551616 mod 18446744073709551616 = x div 18446744073709551616"
    if "0 \<le> x" "x < 340282366920938463463374607431768211456" for x :: int
    using that by (simp add: div_less_iff_less_mult pos_imp_zdiv_nonneg_iff)
  show ?thesis
    by (auto simp: to_64s_def rbind_ok to_bytes_le_ok bytes_to_fq_ok take_le_bytes drop_le_bytes
        word_ok_def small simp del: le_bytes.simps)
qed

lemma to_64s_limbs:
  assumes "to_64s w = Inr (a0, a1, a2, a3)"
  shows "word_ok w"
    and "fq_n a0 < 2 ^ 64" "fq_n a1 < 2 ^ 64" "fq_n a2 < 2 ^ 64" "fq_n a3 < 2 ^ 64"
    and "fq_n (lo w) = fq_n a0 + fq_n a1 * 2 ^ 64"
    and "fq_n (hi w) = fq_n a2 + fq_n a3 * 2 ^ 64"
proof -
  have div: "0 \<le> x div 2 ^ 64" "x div 2 ^ 64 < 2 ^ 64" if "0 \<le> x" "x < 2 ^ 128" for x :: int
    using that by (simp_all add: div_less_iff_less_mult pos_imp_zdiv_nonneg_iff)
  have n: "fq_n (FQ (x mod 2 ^ 64)) = x mod 2 ^ 64" "fq_n (FQ (x div 2 ^ 64)) = x div 2 ^ 64"
    if "0 \<le> x" "x < 2 ^ 128" for x :: int
    using div [OF that] lt_pow64 [of "x mod 2 ^ 64"] lt_pow64 [of "x div 2 ^ 64"]
    by (simp_all only: fq_n_FQ mod_pos_pos_trivial pos_mod_sign pos_mod_bound zero_less_power
        zero_less_numeral)
  from assms have ok: "word_ok w" and eqs:
    "a0 = FQ (fq_n (lo w) mod 2 ^ 64)" "a1 = FQ (fq_n (lo w) div 2 ^ 64)"
    "a2 = FQ (fq_n (hi w) mod 2 ^ 64)" "a3 = FQ (fq_n (hi w) div 2 ^ 64)"
    by (simp_all add: to_64s_ok)
  have l: "fq_n (lo w) < 2 ^ 128" "fq_n (hi w) < 2 ^ 128"
    using ok by (simp_all add: word_ok_def)
  note lims = eqs n [OF fq_n_nonneg l(1)] n [OF fq_n_nonneg l(2)]
  show "word_ok w" by (rule ok)
  show "fq_n a0 < 2 ^ 64" "fq_n a1 < 2 ^ 64" "fq_n a2 < 2 ^ 64" "fq_n a3 < 2 ^ 64"
    unfolding lims using div [OF fq_n_nonneg l(1)] div [OF fq_n_nonneg l(2)]
    by (simp_all only: pos_mod_bound zero_less_power zero_less_numeral)
  show "fq_n (lo w) = fq_n a0 + fq_n a1 * 2 ^ 64" "fq_n (hi w) = fq_n a2 + fq_n a3 * 2 ^ 64"
    unfolding lims by (simp_all only: mod_div_mult_eq)
qed

lemma to_64s_total: "word_ok w \<Longrightarrow> \<exists>a0 a1 a2 a3. to_64s w = Inr (a0, a1, a2, a3)"
  by (simp add: to_64s_ok)

lemma to_le_bytes_ok [ok_simps]:
  "to_le_bytes w = Inr bs \<longleftrightarrow> word_ok w \<and> bs = map FQ (le_bytes 32 (int_value w))"
proof -
  have split: "le_bytes 32 (l + h * 340282366920938463463374607431768211456) =
      le_bytes 16 l @ le_bytes 16 h"
    if "0 \<le> l" "l < 340282366920938463463374607431768211456" for l h
  proof -
    have "(l + h * 2 ^ 128) div 2 ^ 128 = h"
      using that by simp
    moreover have "le_bytes 16 ((l + h * 2 ^ 128) mod 256 ^ 16) = le_bytes 16 (l + h * 2 ^ 128)"
      by (rule le_bytes_mod) simp
    moreover have "(l + h * 2 ^ 128) mod 2 ^ 128 = l"
      using that by simp
    ultimately show ?thesis
      using le_bytes_append [of 16 16 "l + h * 2 ^ 128"]
      by (simp del: le_bytes.simps)
  qed
  show ?thesis
    by (auto simp: to_le_bytes_def rbind_ok to_bytes_le_ok word_ok_def int_value_def split
        simp del: le_bytes.simps)
qed

section \<open>Addition\<close>

lemma fq_n_sum_list_small:
  assumes "\<forall>x\<in>set xs. fq_n x < 2 ^ 128" "length xs < 2 ^ 100"
  shows "fq_n (sum_list xs) = (\<Sum>x\<leftarrow>xs. fq_n x)"
    and "(\<Sum>x\<leftarrow>xs. fq_n x) \<le> int (length xs) * (2 ^ 128 - 1)"
proof -
  have "fq_n (sum_list xs) = (\<Sum>x\<leftarrow>xs. fq_n x) \<and>
      (\<Sum>x\<leftarrow>xs. fq_n x) \<le> int (length xs) * (2 ^ 128 - 1)"
    using assms
  proof (induction xs)
    case Nil
    then show ?case by simp
  next
    case (Cons x xs)
    have IH: "fq_n (sum_list xs) = (\<Sum>x\<leftarrow>xs. fq_n x)"
      "(\<Sum>x\<leftarrow>xs. fq_n x) \<le> int (length xs) * (2 ^ 128 - 1)"
      using Cons by simp_all
    have x: "fq_n x \<le> 2 ^ 128 - 1" using Cons.prems by simp
    have "int (length xs) < 2 ^ 100" using Cons.prems by simp
    then have "int (length xs) * (2 ^ 128 - 1) \<le> 2 ^ 100 * (2 ^ 128 - 1)"
      by (intro mult_right_mono) simp_all
    with IH x have "fq_n x + fq_n (sum_list xs) < fq_modulus"
      by (simp add: fq_modulus_def)
    then show ?case
      using IH x by (simp add: fq_n_add_small algebra_simps)
  qed
  then show "fq_n (sum_list xs) = (\<Sum>x\<leftarrow>xs. fq_n x)"
    and "(\<Sum>x\<leftarrow>xs. fq_n x) \<le> int (length xs) * (2 ^ 128 - 1)" by simp_all
qed

lemma add_words_value:
  assumes ok: "\<forall>w\<in>set ws. word_ok w" and len: "ws \<noteq> []" "length ws < 2 ^ 100"
  obtains s c where "add_words ws = Inr (s, c)" "word_ok s"
    "int_value s + fq_n c * 2 ^ 256 = (\<Sum>w\<leftarrow>ws. int_value w)"
proof -
  define L where "L = (\<Sum>w\<leftarrow>ws. fq_n (lo w))"
  define H where "H = (\<Sum>w\<leftarrow>ws. fq_n (hi w))"
  have los: "fq_n (sum_list (map lo ws)) = L" "L \<le> int (length ws) * (2 ^ 128 - 1)"
    and his: "fq_n (sum_list (map hi ws)) = H" "H \<le> int (length ws) * (2 ^ 128 - 1)"
    using fq_n_sum_list_small [of "map lo ws"] fq_n_sum_list_small [of "map hi ws"] ok len
    by (auto simp: word_ok_def L_def H_def o_def)
  have nonneg: "0 \<le> L" "0 \<le> H"
    unfolding L_def H_def by (auto intro!: sum_list_nonneg)
  have lenb: "int (length ws) * (2 ^ 128 - 1) \<le> 2 ^ 100 * (2 ^ 128 - 1)"
    using len(2) by (intro mult_right_mono) simp_all
  have cl: "0 \<le> L div 2 ^ 128" "L div 2 ^ 128 \<le> L"
    using nonneg by (simp_all add: pos_imp_zdiv_nonneg_iff int_div_le)
  have hc: "fq_n (sum_list (map hi ws) + FQ (L div 2 ^ 128)) = H + L div 2 ^ 128"
    using cl lenb los(2) his by (simp add: fq_n_arith fq_modulus_def nonneg)
  let ?T = "H + L div 2 ^ 128"
  have T: "0 \<le> ?T div 2 ^ 128" "?T div 2 ^ 128 \<le> ?T" "?T < fq_modulus"
    using nonneg cl his(2) los(2) lenb
    by (simp_all add: pos_imp_zdiv_nonneg_iff int_div_le fq_modulus_def)
  have c: "fq_n (FQ (?T div 2 ^ 128)) = ?T div 2 ^ 128"
    using T by (simp only: fq_n_FQ mod_pos_pos_trivial)
  have m: "fq_n (FQ (x mod 2 ^ 128)) = x mod 2 ^ 128" for x
    using lt_pow128 [of "x mod 2 ^ 128"]
    by (simp only: fq_n_FQ mod_pos_pos_trivial pos_mod_sign pos_mod_bound zero_less_power
        zero_less_numeral)
  let ?s = "WordLH (FQ (L mod 2 ^ 128)) (FQ (?T mod 2 ^ 128))"
  have s: "word_ok ?s"
    by (simp only: word_ok_def word256.sel m pos_mod_bound zero_less_power zero_less_numeral
        conj_absorb)
  have "(\<Sum>w\<leftarrow>ws. int_value w) = L + H * 2 ^ 128"
    by (simp add: int_value_def L_def H_def sum_list_addf sum_list_mult_const)
  also have "\<dots> = L mod 2 ^ 128 + ?T mod 2 ^ 128 * 2 ^ 128 + ?T div 2 ^ 128 * 2 ^ 256"
    using two_level_carry [of L H "2 ^ 128"] by simp
  finally have val: "int_value ?s + fq_n (FQ (?T div 2 ^ 128)) * 2 ^ 256 = (\<Sum>w\<leftarrow>ws. int_value w)"
    by (simp only: int_value_def word256.sel m c)
  have "add_words ws = Inr (?s, FQ (?T div 2 ^ 128))"
    using len(1) s unfolding add_words_def Let_def sum_values_def los(1) hc
    by (simp add: rbind_ok word_of_tuple_ok)
  with s val that show ?thesis by blast
qed

end
