(* ===== verification/Table.thy ===== *)
theory Table
  imports Tags Precompile Arithmetic
begin

text \<open>
  \<^verbatim>\<open>src/zkevm_specs/evm_circuit/table.py\<close>: the rows of the lookup tables, the fixed table, the
  class \<open>Tables\<close> and its lookups.

  A table is a set of rows, as in the source. A lookup takes the rows that agree with the query
  on every key that is given: it raises \<open>LookupUnsatFailure\<close> when there is none,
  \<open>LookupAmbiguousFailure\<close> when there are several, and returns the row otherwise. A key of type
  \<open>Word\<close> or \<open>WordOrValue\<close> is compared by its two halves, so \<open>wov_word\<close> is what a row offers
  to the comparison. (Python identifies two rows that differ only in the flag \<open>is_word\<close> of a
  value; a set of the model has one of them.)
\<close>

unbundle bit_operations_syntax

section \<open>Rows\<close>

record fixed_row =
  fx_tag :: fq
  fx_value0 :: fq
  fx_value1 :: fq
  fx_value2 :: fq

definition FixedTableRow :: "fq \<Rightarrow> fq \<Rightarrow> fq \<Rightarrow> fq \<Rightarrow> fixed_row" where
  "FixedTableRow t a b c = \<lparr>fx_tag = t, fx_value0 = a, fx_value1 = b, fx_value2 = c\<rparr>"

record block_row =
  bk_field_tag :: fq
  bk_block_number_or_zero :: fq
  bk_value :: word_or_value

record tx_row =
  tx_tx_id :: fq
  tx_field_tag :: fq
  tx_call_data_index_or_zero :: fq
  tx_value :: word_or_value

record withdrawal_row =
  wd_id :: fq
  wd_validator_id :: fq
  wd_address :: fq
  wd_amount :: fq

record bytecode_row =
  bc_bytecode_hash :: word256
  bc_field_tag :: fq
  bc_index :: fq
  bc_is_code :: fq
  bc_value :: fq

record rw_row =
  rw_rw_counter :: fq
  rw_rw :: fq
  rw_key0 :: fq
  rw_id :: fq
  rw_address :: fq
  rw_field_tag :: fq
  rw_storage_key :: word256
  rw_value :: word_or_value
  rw_value_prev :: word_or_value
  rw_aux0 :: word256

record mpt_row =
  mp_address :: fq
  mp_proof_type :: fq
  mp_storage_key :: word256
  mp_root :: word256
  mp_root_prev :: word256
  mp_value :: word256
  mp_value_prev :: word256

record copy_circuit_row =
  cc_q_step :: fq
  cc_is_first :: fq
  cc_is_last :: fq
  cc_id :: word_or_value
  cc_tag :: fq
  cc_addr :: fq
  cc_src_addr_end :: fq
  cc_bytes_left :: fq
  cc_value :: fq
  cc_rlc_acc :: fq
  cc_is_code :: fq
  cc_is_pad :: fq
  cc_rw_counter :: fq
  cc_rwc_inc_left :: fq
  cc_is_memory :: fq
  cc_is_bytecode :: fq
  cc_is_tx_calldata :: fq
  cc_is_tx_log :: fq
  cc_is_rlc_acc :: fq

record copy_row =
  cp_is_first :: fq
  cp_src_id :: word_or_value
  cp_src_tag :: fq
  cp_dst_id :: word_or_value
  cp_dst_tag :: fq
  cp_src_addr :: fq
  cp_src_addr_end :: fq
  cp_dst_addr :: fq
  cp_length :: fq
  cp_rlc_acc :: fq
  cp_rw_counter :: fq
  cp_rwc_inc :: fq

record keccak_row =
  kc_state_tag :: fq
  kc_input_rlc :: fq
  kc_input_len :: fq
  kc_output :: word256

record exp_circuit_row =
  ec_q_usable :: fq
  ec_is_step :: fq
  ec_identifier :: fq
  ec_is_last :: fq
  ec_base :: word256
  ec_exponent :: word256
  ec_exponentiation :: word256
  ec_a :: word256
  ec_b :: word256
  ec_c :: word256
  ec_d :: word256
  ec_q :: word256
  ec_r :: fq

record exp_row =
  ex_is_step :: fq
  ex_identifier :: fq
  ex_is_last :: fq
  ex_base_limb0 :: fq
  ex_base_limb1 :: fq
  ex_base_limb2 :: fq
  ex_base_limb3 :: fq
  ex_exponent :: word256
  ex_exponentiation :: word256

record sig_row =
  sg_msg_hash :: word256
  sg_sig_v :: fq
  sg_sig_r :: word256
  sg_sig_s :: word256
  sg_recovered_addr :: fq
  sg_is_valid :: fq

record ecc_row =
  el_op_type :: fq
  el_px :: word256
  el_py :: word256
  el_qx :: word256
  el_qy :: word256
  el_input_rlc :: fq
  el_out_x :: fq
  el_out_y :: fq
  el_is_valid :: fq

section \<open>The fixed table\<close>

definition int_range :: "nat \<Rightarrow> int list" where
  "int_range n = map int [0..<n]"

definition range_rows :: "fixed_table_tag \<Rightarrow> nat \<Rightarrow> fixed_row list" where
  "range_rows t n = map (\<lambda>i. FixedTableRow (FQ (ftag_int t)) (FQ i) 0 0) (int_range n)"

definition byte_pair_rows :: "fixed_table_tag \<Rightarrow> (int \<Rightarrow> int \<Rightarrow> int) \<Rightarrow> fixed_row list" where
  "byte_pair_rows t f =
     map (\<lambda>(l, r). FixedTableRow (FQ (ftag_int t)) (FQ l) (FQ r) (FQ (f l r)))
       (List.product (int_range 256) (int_range 256))"

primrec table_assignments :: "fixed_table_tag \<Rightarrow> fixed_row list" where
  "table_assignments F_Range5 = range_rows F_Range5 5"
| "table_assignments F_Range16 = range_rows F_Range16 16"
| "table_assignments F_Range32 = range_rows F_Range32 32"
| "table_assignments F_Range64 = range_rows F_Range64 64"
| "table_assignments F_Range256 = range_rows F_Range256 256"
| "table_assignments F_Range512 = range_rows F_Range512 512"
| "table_assignments F_Range1024 = range_rows F_Range1024 1024"
| "table_assignments F_Range24_576 = range_rows F_Range24_576 24576"
| "table_assignments F_SignByte =
     map (\<lambda>i. FixedTableRow (FQ (ftag_int F_SignByte)) (FQ i) (FQ (drop_bit 7 i * 0xFF)) 0)
       (int_range 256)"
| "table_assignments F_BitwiseAnd = byte_pair_rows F_BitwiseAnd (AND)"
| "table_assignments F_BitwiseOr = byte_pair_rows F_BitwiseOr (OR)"
| "table_assignments F_BitwiseXor = byte_pair_rows F_BitwiseXor (XOR)"
| "table_assignments F_ResponsibleOpcode =
     concat (map (\<lambda>es. map (\<lambda>(opc, aux).
         FixedTableRow (FQ (ftag_int F_ResponsibleOpcode)) (FQ (es_int es)) (FQ opc) (FQ aux))
       (opcode_aux_pairs (responsible_opcode es))) all_execution_states)"
| "table_assignments F_OpcodeConstantGas =
     map (\<lambda>(opc, gas). FixedTableRow (FQ (ftag_int F_OpcodeConstantGas)) (FQ opc) (FQ gas) 0)
       constant_gas_cost_pairs"
| "table_assignments F_Pow2 =
     map (\<lambda>v. FixedTableRow (FQ (ftag_int F_Pow2)) (FQ v)
           (if v < 128 then FQ (2 ^ nat v) else 0)
           (if v < 128 then 0 else FQ (2 ^ nat (v - 128))))
       (int_range 256)"
| "table_assignments F_PrecompileInfo =
     map (\<lambda>(es, p, gas). FixedTableRow (FQ (ftag_int F_PrecompileInfo))
           (FQ (es_int es)) (FQ (precompile_int p)) (FQ gas))
       precompile_info_pairs"

definition fixed_table :: "fixed_row set" where
  "fixed_table = set (concat (map table_assignments all_fixed_table_tags))"

section \<open>Lookups\<close>

definition lookup :: "('r \<Rightarrow> bool) \<Rightarrow> 'r set \<Rightarrow> 'r result" where
  "lookup matched table =
     (let matched_rows = Set.filter matched table
      in if matched_rows = {} then Inl LookupUnsatFailure
         else if is_singleton matched_rows then Inr (the_elem matched_rows)
         else Inl LookupAmbiguousFailure)"

definition key_matches :: "'a option \<Rightarrow> 'a \<Rightarrow> bool" where
  "key_matches key v = (case key of None \<Rightarrow> True | Some k \<Rightarrow> k = v)"

text \<open>
  The class \<open>Tables\<close>. The attributes of the last five tables exist only when the constructor
  got them.
\<close>

record tables =
  block_table :: "block_row set"
  tx_table :: "tx_row set"
  withdrawal_table :: "withdrawal_row set"
  bytecode_table :: "bytecode_row set"
  rw_table :: "rw_row set"
  copy_table :: "copy_row set option"
  keccak_table :: "keccak_row set option"
  exp_table :: "exp_row set option"
  sig_table :: "sig_row set option"
  ecc_table :: "ecc_row set option"

definition attribute :: "'a option \<Rightarrow> 'a result" where
  "attribute x = (case x of None \<Rightarrow> Inl AttributeError | Some y \<Rightarrow> Inr y)"

fun convert_copy_rows :: "copy_circuit_row list \<Rightarrow> copy_row list result" where
  "convert_copy_rows [] = Inr []"
| "convert_copy_rows (row # rest) =
     (if cc_is_first row = 1
      then case rest of
          [] \<Rightarrow> Inl AssertionError
        | next_row # _ \<Rightarrow>
            rbind (assert_that (cc_q_step next_row = 0)) (\<lambda>_.
            rbind (convert_copy_rows rest) (\<lambda>rows.
            Inr (\<lparr>cp_is_first = cc_is_first row, cp_src_id = cc_id row, cp_src_tag = cc_tag row,
                  cp_dst_id = cc_id next_row, cp_dst_tag = cc_tag next_row,
                  cp_src_addr = cc_addr row, cp_src_addr_end = cc_src_addr_end row,
                  cp_dst_addr = cc_addr next_row, cp_length = cc_bytes_left row,
                  cp_rlc_acc = cc_rlc_acc row, cp_rw_counter = cc_rw_counter row,
                  cp_rwc_inc = cc_rwc_inc_left row\<rparr> # rows)))
      else convert_copy_rows rest)"

definition convert_copy_circuit_to_table :: "copy_circuit_row list \<Rightarrow> copy_row set result" where
  "convert_copy_circuit_to_table rows = rbind (convert_copy_rows rows) (\<lambda>rs. Inr (set rs))"

definition exp_table_row :: "exp_circuit_row \<Rightarrow> exp_row result" where
  "exp_table_row row =
     rbind (to_64s (ec_base row)) (\<lambda>(b0, b1, b2, b3).
     Inr \<lparr>ex_is_step = FQ 1, ex_identifier = ec_identifier row, ex_is_last = ec_is_last row,
          ex_base_limb0 = b0, ex_base_limb1 = b1, ex_base_limb2 = b2, ex_base_limb3 = b3,
          ex_exponent = ec_exponent row, ex_exponentiation = ec_exponentiation row\<rparr>)"

definition convert_exp_circuit_to_table :: "exp_circuit_row list \<Rightarrow> exp_row set result" where
  "convert_exp_circuit_to_table rows = rbind (rmap exp_table_row rows) (\<lambda>rs. Inr (set rs))"

definition option_result :: "('a \<Rightarrow> 'b result) \<Rightarrow> 'a option \<Rightarrow> 'b option result" where
  "option_result f x =
     (case x of None \<Rightarrow> Inr None | Some y \<Rightarrow> rbind (f y) (\<lambda>z. Inr (Some z)))"

definition make_tables ::
  "block_row set \<Rightarrow> tx_row set \<Rightarrow> withdrawal_row set \<Rightarrow> bytecode_row set \<Rightarrow> rw_row set \<Rightarrow>
   copy_circuit_row list option \<Rightarrow> keccak_row list option \<Rightarrow> exp_circuit_row list option \<Rightarrow>
   sig_row list option \<Rightarrow> ecc_row list option \<Rightarrow> tables result" where
  "make_tables bt tt wt bct rwt copy_circuit keccaks exp_circuit sigs eccs =
     rbind (option_result convert_copy_circuit_to_table copy_circuit) (\<lambda>ct.
     rbind (option_result convert_exp_circuit_to_table exp_circuit) (\<lambda>et.
     Inr \<lparr>block_table = bt, tx_table = tt, withdrawal_table = wt, bytecode_table = bct,
          rw_table = rwt, copy_table = ct, keccak_table = map_option set keccaks,
          exp_table = et, sig_table = map_option set sigs, ecc_table = map_option set eccs\<rparr>))"

definition fixed_lookup_table :: "fq \<Rightarrow> fq \<Rightarrow> fq \<Rightarrow> fq \<Rightarrow> fixed_row result" where
  "fixed_lookup_table tag value0 value1 value2 =
     (let row = FixedTableRow tag value0 value1 value2
      in if row \<notin> fixed_table then Inl LookupUnsatFailure else Inr row)"

definition block_lookup :: "tables \<Rightarrow> fq \<Rightarrow> fq \<Rightarrow> block_row result" where
  "block_lookup T field_tag block_number =
     lookup (\<lambda>r. field_tag = bk_field_tag r \<and> block_number = bk_block_number_or_zero r)
       (block_table T)"

definition tx_lookup :: "tables \<Rightarrow> fq \<Rightarrow> fq \<Rightarrow> fq \<Rightarrow> tx_row result" where
  "tx_lookup T tx_id field_tag call_data_index =
     lookup (\<lambda>r. tx_id = tx_tx_id r \<and> field_tag = tx_field_tag r \<and>
               call_data_index = tx_call_data_index_or_zero r)
       (tx_table T)"

definition withdrawal_lookup :: "tables \<Rightarrow> fq \<Rightarrow> fq \<Rightarrow> fq \<Rightarrow> fq \<Rightarrow> withdrawal_row result" where
  "withdrawal_lookup T wid validator_id address amount =
     lookup (\<lambda>r. wid = wd_id r \<and> validator_id = wd_validator_id r \<and> address = wd_address r \<and>
               amount = wd_amount r)
       (withdrawal_table T)"

record bytecode_query =
  qb_bytecode_hash :: word256
  qb_field_tag :: fq
  qb_index :: fq
  qb_is_code :: "fq option"

definition bytecode_matches :: "bytecode_query \<Rightarrow> bytecode_row \<Rightarrow> bool" where
  "bytecode_matches q r \<longleftrightarrow>
     qb_bytecode_hash q = bc_bytecode_hash r \<and> qb_field_tag q = bc_field_tag r \<and>
     qb_index q = bc_index r \<and> key_matches (qb_is_code q) (bc_is_code r)"

definition bytecode_lookup_table :: "tables \<Rightarrow> bytecode_query \<Rightarrow> bytecode_row result" where
  "bytecode_lookup_table T q = lookup (bytecode_matches q) (bytecode_table T)"

record rw_query =
  q_rw_counter :: fq
  q_rw :: fq
  q_key0 :: fq
  q_id :: "fq option"
  q_address :: "fq option"
  q_field_tag :: "fq option"
  q_storage_key :: "word256 option"
  q_value :: "word256 option"
  q_value_prev :: "word256 option"
  q_aux0 :: "word256 option"

definition rw_matches :: "rw_query \<Rightarrow> rw_row \<Rightarrow> bool" where
  "rw_matches q r \<longleftrightarrow>
     q_rw_counter q = rw_rw_counter r \<and> q_rw q = rw_rw r \<and> q_key0 q = rw_key0 r \<and>
     key_matches (q_id q) (rw_id r) \<and> key_matches (q_address q) (rw_address r) \<and>
     key_matches (q_field_tag q) (rw_field_tag r) \<and>
     key_matches (q_storage_key q) (rw_storage_key r) \<and>
     key_matches (q_value q) (wov_word (rw_value r)) \<and>
     key_matches (q_value_prev q) (wov_word (rw_value_prev r)) \<and>
     key_matches (q_aux0 q) (rw_aux0 r)"

definition rw_lookup_table :: "tables \<Rightarrow> rw_query \<Rightarrow> rw_row result" where
  "rw_lookup_table T q = lookup (rw_matches q) (rw_table T)"

record copy_query =
  qc_src_id :: word_or_value
  qc_src_tag :: fq
  qc_dst_id :: word_or_value
  qc_dst_tag :: fq
  qc_src_addr :: fq
  qc_src_addr_end :: fq
  qc_dst_addr :: fq
  qc_length :: fq
  qc_rw_counter :: fq

definition copy_matches :: "copy_query \<Rightarrow> copy_row \<Rightarrow> bool" where
  "copy_matches q r \<longleftrightarrow>
     wov_word (qc_src_id q) = wov_word (cp_src_id r) \<and> qc_src_tag q = cp_src_tag r \<and>
     wov_word (qc_dst_id q) = wov_word (cp_dst_id r) \<and> qc_dst_tag q = cp_dst_tag r \<and>
     qc_src_addr q = cp_src_addr r \<and> qc_src_addr_end q = cp_src_addr_end r \<and>
     qc_dst_addr q = cp_dst_addr r \<and> qc_length q = cp_length r \<and>
     qc_rw_counter q = cp_rw_counter r"

text \<open>When the bytes go to a log, the log id and the field tag are packed into the address.\<close>

definition log_dst_addr :: "copy_query \<Rightarrow> fq option \<Rightarrow> fq result" where
  "log_dst_addr q log_id =
     (if qc_dst_tag q = FQ (cd_int CD_TxLog)
      then case log_id of
          None \<Rightarrow> Inl AssertionError
        | Some l \<Rightarrow> Inr (qc_dst_addr q + FQ (tl_int TL_Data * 2 ^ 32) + FQ (fq_n l * 2 ^ 48))
      else Inr (qc_dst_addr q))"

definition copy_lookup_table :: "tables \<Rightarrow> copy_query \<Rightarrow> fq option \<Rightarrow> copy_row result" where
  "copy_lookup_table T q log_id =
     rbind (log_dst_addr q log_id) (\<lambda>dst_addr.
     rbind (attribute (copy_table T)) (\<lambda>table.
     lookup (copy_matches (q\<lparr>qc_dst_addr := dst_addr\<rparr>)) table))"

definition keccak_lookup_table :: "tables \<Rightarrow> fq \<Rightarrow> fq \<Rightarrow> keccak_row result" where
  "keccak_lookup_table T len value_rlc =
     rbind (attribute (keccak_table T)) (\<lambda>table.
     lookup (\<lambda>r. FQ 2 = kc_state_tag r \<and> len = kc_input_len r \<and> value_rlc = kc_input_rlc r) table)"

definition exp_lookup_table ::
  "tables \<Rightarrow> fq \<Rightarrow> fq \<Rightarrow> fq \<times> fq \<times> fq \<times> fq \<Rightarrow> word256 \<Rightarrow> exp_row result" where
  "exp_lookup_table T ident is_last base_limbs exponent =
     rbind (attribute (exp_table T)) (\<lambda>table.
     lookup (\<lambda>r. FQ 1 = ex_is_step r \<and> ident = ex_identifier r \<and> is_last = ex_is_last r \<and>
                 base_limbs = (ex_base_limb0 r, ex_base_limb1 r, ex_base_limb2 r, ex_base_limb3 r) \<and>
                 exponent = ex_exponent r) table)"

definition sig_lookup_table ::
  "tables \<Rightarrow> word256 \<Rightarrow> fq \<Rightarrow> word256 \<Rightarrow> word256 \<Rightarrow> fq \<Rightarrow> fq \<Rightarrow> sig_row result" where
  "sig_lookup_table T msg_hash sig_v sig_r sig_s recovered_addr is_valid =
     rbind (attribute (sig_table T)) (\<lambda>table.
     lookup (\<lambda>r. msg_hash = sg_msg_hash r \<and> sig_v = sg_sig_v r \<and> sig_r = sg_sig_r r \<and>
                 sig_s = sg_sig_s r \<and> recovered_addr = sg_recovered_addr r \<and>
                 is_valid = sg_is_valid r) table)"

definition ecc_lookup_table ::
  "tables \<Rightarrow> fq \<Rightarrow> word256 \<Rightarrow> word256 \<Rightarrow> word256 \<Rightarrow> word256 \<Rightarrow> fq \<Rightarrow> fq \<Rightarrow> fq \<Rightarrow> fq \<Rightarrow> ecc_row result" where
  "ecc_lookup_table T op_type px py qx qy input_rlc outx outy is_valid =
     rbind (attribute (ecc_table T)) (\<lambda>table.
     lookup (\<lambda>r. op_type = el_op_type r \<and> px = el_px r \<and> py = el_py r \<and> qx = el_qx r \<and>
                 qy = el_qy r \<and> input_rlc = el_input_rlc r \<and> outx = el_out_x r \<and>
                 outy = el_out_y r \<and> is_valid = el_is_valid r) table)"

end
