(* ===== verification/Lookup.thy ===== *)
theory Lookup
  imports Table
begin

text \<open>
  The contract of a table lookup, as the locale \<open>table_lookup\<close>, with its interpretations on
  the lookups of the class \<open>Tables\<close>, and the contents of the fixed table, tag by tag.
\<close>

unbundle bit_operations_syntax

section \<open>The contract of a lookup\<close>

locale table_lookup =
  fixes look :: "'q \<Rightarrow> 'r result"
    and rows :: "'r set"
    and matches :: "'q \<Rightarrow> 'r \<Rightarrow> bool"
  assumes look_found: "look q = Inr r \<longleftrightarrow> {x\<in>rows. matches q x} = {r}"
    and look_none: "look q = Inl LookupUnsatFailure \<longleftrightarrow> {x\<in>rows. matches q x} = {}"
    and look_error: "look q = Inl e \<Longrightarrow> e = LookupUnsatFailure \<or> e = LookupAmbiguousFailure"
begin

lemma look_member: "look q = Inr r \<Longrightarrow> r \<in> rows \<and> matches q r"
  by (auto simp: look_found)

lemma look_only: "look q = Inr r \<Longrightarrow> x \<in> rows \<Longrightarrow> matches q x \<Longrightarrow> x = r"
  by (auto simp: look_found)

lemma look_iff: "look q = Inr r \<longleftrightarrow> r \<in> rows \<and> matches q r \<and> (\<forall>x\<in>rows. matches q x \<longrightarrow> x = r)"
  by (auto simp: look_found)

text \<open>A query with more keys finds the same row, as long as that row agrees with them.\<close>

lemma look_refine:
  assumes "look q = Inr r" "matches q' r" "\<And>x. matches q' x \<Longrightarrow> matches q x"
  shows "look q' = Inr r"
  using assms by (auto simp: look_iff)

lemma look_ambiguous:
  "look q = Inl LookupAmbiguousFailure \<longleftrightarrow>
     (\<exists>x\<in>rows. \<exists>y\<in>rows. matches q x \<and> matches q y \<and> x \<noteq> y)"
proof
  assume amb: "look q = Inl LookupAmbiguousFailure"
  then have "{x\<in>rows. matches q x} \<noteq> {}" using look_none [of q] by auto
  then obtain x where x: "x \<in> rows" "matches q x" by auto
  moreover have "{x\<in>rows. matches q x} \<noteq> {x}" using amb look_found [of q x] by auto
  ultimately show "\<exists>x\<in>rows. \<exists>y\<in>rows. matches q x \<and> matches q y \<and> x \<noteq> y" by auto
next
  assume two: "\<exists>x\<in>rows. \<exists>y\<in>rows. matches q x \<and> matches q y \<and> x \<noteq> y"
  have "look q \<noteq> Inr r" for r
    using two look_only [of q r] by blast
  moreover have "look q \<noteq> Inl LookupUnsatFailure"
    using two by (auto simp: look_none)
  ultimately show "look q = Inl LookupAmbiguousFailure"
    using look_error [of q] by (cases "look q") auto
qed

end

lemma lookup_found: "lookup P T = Inr r \<longleftrightarrow> {x\<in>T. P x} = {r}"
proof -
  have f: "Set.filter P T = {x\<in>T. P x}" by auto
  have s: "is_singleton M \<and> the_elem M = r \<longleftrightarrow> M = {r}" for M :: "'a set"
    by (metis is_singletonI is_singleton_the_elem the_elem_eq)
  have "lookup P T = Inr r \<longleftrightarrow>
      {x\<in>T. P x} \<noteq> {} \<and> is_singleton {x\<in>T. P x} \<and> the_elem {x\<in>T. P x} = r"
    unfolding lookup_def Let_def f by (simp split: if_split)
  also have "\<dots> \<longleftrightarrow> {x\<in>T. P x} = {r}"
    unfolding s by (metis insert_not_empty)
  finally show ?thesis .
qed

lemma lookup_none: "lookup P T = Inl LookupUnsatFailure \<longleftrightarrow> {x\<in>T. P x} = {}"
proof -
  have f: "Set.filter P T = {x\<in>T. P x}" by auto
  show ?thesis
    unfolding lookup_def Let_def f by auto
qed

lemma lookup_error: "lookup P T = Inl e \<Longrightarrow> e = LookupUnsatFailure \<or> e = LookupAmbiguousFailure"
  by (auto simp: lookup_def Let_def split: if_splits)

interpretation any_table: table_lookup "\<lambda>P. lookup P T" T "\<lambda>P. P" for T
  by unfold_locales (auto simp: lookup_found lookup_none dest: lookup_error)

interpretation rw_tab: table_lookup "rw_lookup_table T" "rw_table T" rw_matches for T
  by unfold_locales (auto simp: rw_lookup_table_def lookup_found lookup_none dest: lookup_error)

interpretation bytecode_tab:
    table_lookup "bytecode_lookup_table T" "bytecode_table T" bytecode_matches for T
  by unfold_locales
    (auto simp: bytecode_lookup_table_def lookup_found lookup_none dest: lookup_error)

lemma attribute_ok [ok_simps]: "attribute x = Inr y \<longleftrightarrow> x = Some y"
  by (cases x) (auto simp: attribute_def)

lemma key_matches_simps [simp]:
  "key_matches None v"
  "key_matches (Some k) v \<longleftrightarrow> k = v"
  by (simp_all add: key_matches_def)

section \<open>Contents of the fixed table\<close>

lemma FixedTableRow_inject [simp]:
  "FixedTableRow t a b c = FixedTableRow t' a' b' c' \<longleftrightarrow> t = t' \<and> a = a' \<and> b = b' \<and> c = c'"
  by (simp add: FixedTableRow_def)

lemma set_int_range: "i \<in> set (int_range n) \<longleftrightarrow> 0 \<le> i \<and> i < int n"
  unfolding int_range_def set_map set_upt
  by (metis atLeast0LessThan image_eqI imageE lessThan_iff nat_0_le of_nat_0_le_iff of_nat_less_iff)

lemma table_assignments_tag:
  "r \<in> set (table_assignments t) \<Longrightarrow> fx_tag r = FQ (ftag_int t)"
  by (cases t)
    (auto simp: range_rows_def byte_pair_rows_def FixedTableRow_def simp del: ftag_int.simps)

lemma FQ_ftag_inject: "FQ (ftag_int s) = FQ (ftag_int t) \<longleftrightarrow> s = t"
  using ftag_int_bounds [of s] ftag_int_bounds [of t]
  by (subst FQ_inject) (auto simp: fq_modulus_def)

lemma mem_fixed_table:
  "FixedTableRow (FQ (ftag_int t)) a b c \<in> fixed_table \<longleftrightarrow>
     FixedTableRow (FQ (ftag_int t)) a b c \<in> set (table_assignments t)" (is "?r \<in> _ \<longleftrightarrow> _")
proof
  assume "?r \<in> fixed_table"
  then obtain s where "?r \<in> set (table_assignments s)" by (auto simp: fixed_table_def)
  moreover from table_assignments_tag [OF this] have "s = t"
    by (simp add: FixedTableRow_def FQ_ftag_inject)
  ultimately show "?r \<in> set (table_assignments t)" by simp
next
  assume "?r \<in> set (table_assignments t)"
  then show "?r \<in> fixed_table"
    using all_fixed_table_tags_complete [of t] by (auto simp: fixed_table_def)
qed

lemma FQ_in_range:
  "(\<exists>i\<in>set (int_range n). a = FQ i \<and> Q i) \<longleftrightarrow> fq_n a < int n \<and> Q (fq_n a)"
  if "int n \<le> fq_modulus"
proof
  assume "\<exists>i\<in>set (int_range n). a = FQ i \<and> Q i"
  then show "fq_n a < int n \<and> Q (fq_n a)"
    using that by (auto simp: set_int_range)
next
  assume "fq_n a < int n \<and> Q (fq_n a)"
  then show "\<exists>i\<in>set (int_range n). a = FQ i \<and> Q i"
    by (intro bexI [of _ "fq_n a"]) (auto simp: set_int_range)
qed

lemma range_row_mem:
  "FixedTableRow (FQ (ftag_int t)) a b c \<in> set (range_rows t n) \<longleftrightarrow> fq_n a < int n \<and> b = 0 \<and> c = 0"
  if "int n \<le> fq_modulus"
  using FQ_in_range [OF that, of a "\<lambda>_. b = 0 \<and> c = 0"]
  by (auto simp: range_rows_def simp del: ftag_int.simps)

lemma byte_pair_row_mem:
  "FixedTableRow (FQ (ftag_int t)) a b c \<in> set (byte_pair_rows t f) \<longleftrightarrow>
     fq_n a < 256 \<and> fq_n b < 256 \<and> c = FQ (f (fq_n a) (fq_n b))"
proof -
  have m: "int 256 \<le> fq_modulus" by (simp add: fq_modulus_def)
  have "FixedTableRow (FQ (ftag_int t)) a b c \<in> set (byte_pair_rows t f) \<longleftrightarrow>
      (\<exists>l\<in>set (int_range 256). a = FQ l \<and> (\<exists>r\<in>set (int_range 256). b = FQ r \<and> c = FQ (f l r)))"
    unfolding byte_pair_rows_def set_map set_product
    by (simp add: image_iff split_beta)
  also have "\<dots> \<longleftrightarrow> fq_n a < 256 \<and> fq_n b < 256 \<and> c = FQ (f (fq_n a) (fq_n b))"
    unfolding FQ_in_range [OF m] by simp
  finally show ?thesis .
qed

lemma fixed_range256:
  "FixedTableRow (FQ (ftag_int F_Range256)) a b c \<in> fixed_table \<longleftrightarrow> fq_n a < 256 \<and> b = 0 \<and> c = 0"
  unfolding mem_fixed_table table_assignments.simps
  by (subst range_row_mem) (simp_all add: fq_modulus_def)

lemma fixed_range:
  assumes "range_table_tag k = Inr t"
  shows "FixedTableRow (FQ (ftag_int t)) a b c \<in> fixed_table \<longleftrightarrow> fq_n a < k \<and> b = 0 \<and> c = 0"
proof -
  have "int (nat k) \<le> fq_modulus" "0 \<le> k"
    using assms by (auto simp: range_table_tag_def fq_modulus_def split: if_splits)
  moreover have "table_assignments t = range_rows t (nat k)"
    using assms by (auto simp: range_table_tag_def split: if_splits)
  ultimately show ?thesis
    unfolding mem_fixed_table by (simp add: range_row_mem)
qed

lemma fixed_sign_byte:
  "FixedTableRow (FQ (ftag_int F_SignByte)) a b c \<in> fixed_table \<longleftrightarrow>
     fq_n a < 256 \<and> b = FQ (if fq_n a \<ge> 128 then 255 else 0) \<and> c = 0"
proof -
  have m: "int 256 \<le> fq_modulus" by (simp add: fq_modulus_def)
  have s: "drop_bit 7 i * 0xFF = (if i \<ge> 128 then 255 else 0)" if "0 \<le> i" "i < 256" for i :: int
  proof (cases "i \<ge> 128")
    case True
    with that have "i div 128 = 1" by (simp add: div_pos_pos_trivial int_div_pos_eq [of i 128 1 "i - 128"])
    with True show ?thesis by (simp add: drop_bit_eq_div)
  next
    case False
    with that show ?thesis by (simp add: drop_bit_eq_div)
  qed
  have "FixedTableRow (FQ (ftag_int F_SignByte)) a b c \<in> fixed_table \<longleftrightarrow>
      (\<exists>i\<in>set (int_range 256). a = FQ i \<and> (b = FQ (drop_bit 7 i * 0xFF) \<and> c = 0))"
    unfolding mem_fixed_table by (auto simp del: ftag_int.simps)
  also have "\<dots> \<longleftrightarrow> fq_n a < 256 \<and> b = FQ (if fq_n a \<ge> 128 then 255 else 0) \<and> c = 0"
    unfolding FQ_in_range [OF m] using s [OF fq_n_nonneg, of a] by auto
  finally show ?thesis .
qed

lemma fixed_pow2:
  "FixedTableRow (FQ (ftag_int F_Pow2)) a b c \<in> fixed_table \<longleftrightarrow>
     fq_n a < 256 \<and> b = (if fq_n a < 128 then FQ (2 ^ nat (fq_n a)) else 0) \<and>
     c = (if fq_n a < 128 then 0 else FQ (2 ^ nat (fq_n a - 128)))"
proof -
  have m: "int 256 \<le> fq_modulus" by (simp add: fq_modulus_def)
  have "FixedTableRow (FQ (ftag_int F_Pow2)) a b c \<in> fixed_table \<longleftrightarrow>
      (\<exists>v\<in>set (int_range 256). a = FQ v \<and>
         (b = (if v < 128 then FQ (2 ^ nat v) else 0) \<and>
          c = (if v < 128 then 0 else FQ (2 ^ nat (v - 128)))))"
    unfolding mem_fixed_table by (auto simp del: ftag_int.simps)
  then show ?thesis
    unfolding FQ_in_range [OF m] by simp
qed

lemma fixed_bitwise:
  "FixedTableRow (FQ (ftag_int F_BitwiseAnd)) a b c \<in> fixed_table \<longleftrightarrow>
     fq_n a < 256 \<and> fq_n b < 256 \<and> c = FQ (fq_n a AND fq_n b)"
  "FixedTableRow (FQ (ftag_int F_BitwiseOr)) a b c \<in> fixed_table \<longleftrightarrow>
     fq_n a < 256 \<and> fq_n b < 256 \<and> c = FQ (fq_n a OR fq_n b)"
  "FixedTableRow (FQ (ftag_int F_BitwiseXor)) a b c \<in> fixed_table \<longleftrightarrow>
     fq_n a < 256 \<and> fq_n b < 256 \<and> c = FQ (fq_n a XOR fq_n b)"
  unfolding mem_fixed_table table_assignments.simps byte_pair_row_mem by (rule refl)+

lemma fixed_responsible_opcode:
  "FixedTableRow (FQ (ftag_int F_ResponsibleOpcode)) (FQ (es_int es)) b c \<in> fixed_table \<longleftrightarrow>
     (\<exists>(opc, aux)\<in>set (opcode_aux_pairs (responsible_opcode es)). b = FQ opc \<and> c = FQ aux)"
proof -
  have inj: "FQ (es_int s) = FQ (es_int es) \<longleftrightarrow> s = es" for s
    using es_int_bounds [of s] es_int_bounds [of es] es_int_inject [of s es]
    by (subst FQ_inject) (auto simp: fq_modulus_def)
  have "FixedTableRow (FQ (ftag_int F_ResponsibleOpcode)) (FQ (es_int es)) b c \<in> fixed_table \<longleftrightarrow>
      (\<exists>s\<in>set all_execution_states. s = es \<and>
        (\<exists>(opc, aux)\<in>set (opcode_aux_pairs (responsible_opcode s)). b = FQ opc \<and> c = FQ aux))"
    unfolding mem_fixed_table table_assignments.simps set_concat set_map
    by (simp add: image_iff split_beta inj [symmetric] eq_commute [of "FQ (es_int es)"]
        del: ftag_int.simps es_int.simps)
  then show ?thesis
    using all_execution_states_complete [of es] by blast
qed

lemma fixed_constant_gas:
  "FixedTableRow (FQ (ftag_int F_OpcodeConstantGas)) a b c \<in> fixed_table \<longleftrightarrow>
     (\<exists>(opc, gas)\<in>set constant_gas_cost_pairs. a = FQ opc \<and> b = FQ gas) \<and> c = 0"
  unfolding mem_fixed_table table_assignments.simps set_map
  by (simp add: image_iff split_beta del: ftag_int.simps) blast

lemma fixed_precompile_info:
  "FixedTableRow (FQ (ftag_int F_PrecompileInfo)) a b c \<in> fixed_table \<longleftrightarrow>
     (\<exists>(es, p, gas)\<in>set precompile_info_pairs.
        a = FQ (es_int es) \<and> b = FQ (precompile_int p) \<and> c = FQ gas)"
  unfolding mem_fixed_table table_assignments.simps set_map
  by (simp add: image_iff split_beta del: ftag_int.simps es_int.simps precompile_int.simps)

lemma fixed_lookup_table_ok [ok_simps]:
  "fixed_lookup_table t a b c = Inr r \<longleftrightarrow>
     FixedTableRow t a b c \<in> fixed_table \<and> r = FixedTableRow t a b c"
  by (auto simp: fixed_lookup_table_def Let_def)

end
