(* ===== verification/Mul_Add.thy ===== *)
theory Mul_Add
  imports Arithmetic
begin

text \<open>
  The multiplication gadget: what the two field equations and the 9-byte range checks on the
  carries of \<open>mul_add_words\<close> say about the integers. The schoolbook identity is proved for an
  arbitrary limb base; the field equations become integer equations because both sides stay below
  the modulus.
\<close>

section \<open>The schoolbook identity\<close>

lemma schoolbook:
  fixes m :: int
  assumes lo: "a0 * b0 + (a0 * b1 + a1 * b0) * m + cl = dl + k0 * (m * m)"
    and hi: "a0 * b2 + a1 * b1 + a2 * b0 + (a0 * b3 + a1 * b2 + a2 * b1 + a3 * b0) * m + ch + k0
        = dh + k1 * (m * m)"
  shows "(a0 + a1 * m + (a2 + a3 * m) * (m * m)) * (b0 + b1 * m + (b2 + b3 * m) * (m * m))
      + (cl + ch * (m * m))
    = dl + dh * (m * m)
      + (k1 + (a1 * b3 + a2 * b2 + a3 * b1) + (a2 * b3 + a3 * b2) * m + a3 * b3 * (m * m))
        * (m * m * (m * m))"
  using lo hi by algebra

lemma limb_product:
  fixes x y :: int
  assumes "0 \<le> x" "x < 2 ^ 64" "0 \<le> y" "y < 2 ^ 64"
  shows "0 \<le> x * y" "x * y \<le> (2 ^ 64 - 1) * (2 ^ 64 - 1)"
proof -
  show "0 \<le> x * y" using assms by simp
  show "x * y \<le> (2 ^ 64 - 1) * (2 ^ 64 - 1)"
    by (rule mult_mono) (use assms in simp_all)
qed

lemma weighted_sum_zero:
  fixes k p q r s t u m n :: int
  assumes "0 \<le> k" "0 \<le> p" "0 \<le> q" "0 \<le> r" "0 \<le> s" "0 \<le> t" "0 \<le> u" "0 < m" "0 < n"
  shows "k + p + q + r + s + t + u = 0 \<longleftrightarrow> k + (p + q + r) + (s + t) * m + u * n = 0"
  using assms by (simp add: add_nonneg_eq_0_iff conj_assoc)

lemma carry_bound:
  fixes k m d s :: int
  assumes "d + k * m = s" "0 \<le> d" "d < m" "0 \<le> s" "0 < m"
  shows "k = s div m" "d = s mod m"
  using assms by auto

section \<open>The gadget\<close>

text \<open>The integer values of the partial sums, as functions of the limbs.\<close>

definition partial_lo :: "fq \<Rightarrow> fq \<Rightarrow> fq \<Rightarrow> fq \<Rightarrow> fq \<Rightarrow> int" where
  "partial_lo a0 a1 b0 b1 c_lo =
     fq_n a0 * fq_n b0 + (fq_n a0 * fq_n b1 + fq_n a1 * fq_n b0) * 2 ^ 64 + fq_n c_lo"

definition partial_hi ::
  "fq \<Rightarrow> fq \<Rightarrow> fq \<Rightarrow> fq \<Rightarrow> fq \<Rightarrow> fq \<Rightarrow> fq \<Rightarrow> fq \<Rightarrow> fq \<Rightarrow> int" where
  "partial_hi a0 a1 a2 a3 b0 b1 b2 b3 c_hi =
     fq_n a0 * fq_n b2 + fq_n a1 * fq_n b1 + fq_n a2 * fq_n b0
     + (fq_n a0 * fq_n b3 + fq_n a1 * fq_n b2 + fq_n a2 * fq_n b1 + fq_n a3 * fq_n b0) * 2 ^ 64
     + fq_n c_hi"

lemma FQ_hom: "a + b = FQ (fq_n a + fq_n b)" "a * b = FQ (fq_n a * fq_n b)"
  by (simp_all add: FQ_arith)

lemma partial_lo_fq:
  assumes "fq_n a0 < 2 ^ 64" "fq_n a1 < 2 ^ 64" "fq_n b0 < 2 ^ 64" "fq_n b1 < 2 ^ 64"
    "fq_n c_lo < 2 ^ 128"
  shows "a0 * b0 + (a0 * b1 + a1 * b0) * FQ (2 ^ 64) + c_lo = FQ (partial_lo a0 a1 b0 b1 c_lo)"
    and "0 \<le> partial_lo a0 a1 b0 b1 c_lo" "partial_lo a0 a1 b0 b1 c_lo < 2 ^ 200"
proof -
  show "a0 * b0 + (a0 * b1 + a1 * b0) * FQ (2 ^ 64) + c_lo = FQ (partial_lo a0 a1 b0 b1 c_lo)"
    by (simp only: partial_lo_def FQ_arith FQ_fq_n)
  show "0 \<le> partial_lo a0 a1 b0 b1 c_lo" "partial_lo a0 a1 b0 b1 c_lo < 2 ^ 200"
    using limb_product [of "fq_n a0" "fq_n b0"] limb_product [of "fq_n a0" "fq_n b1"]
      limb_product [of "fq_n a1" "fq_n b0"] assms
    by (simp_all add: partial_lo_def)
qed

lemma partial_hi_fq:
  assumes "fq_n a0 < 2 ^ 64" "fq_n a1 < 2 ^ 64" "fq_n a2 < 2 ^ 64" "fq_n a3 < 2 ^ 64"
    "fq_n b0 < 2 ^ 64" "fq_n b1 < 2 ^ 64" "fq_n b2 < 2 ^ 64" "fq_n b3 < 2 ^ 64"
    "fq_n c_hi < 2 ^ 128"
  shows "a0 * b2 + a1 * b1 + a2 * b0 + (a0 * b3 + a1 * b2 + a2 * b1 + a3 * b0) * FQ (2 ^ 64) + c_hi
      = FQ (partial_hi a0 a1 a2 a3 b0 b1 b2 b3 c_hi)"
    and "0 \<le> partial_hi a0 a1 a2 a3 b0 b1 b2 b3 c_hi"
      "partial_hi a0 a1 a2 a3 b0 b1 b2 b3 c_hi < 2 ^ 199"
proof -
  show "a0 * b2 + a1 * b1 + a2 * b0 + (a0 * b3 + a1 * b2 + a2 * b1 + a3 * b0) * FQ (2 ^ 64) + c_hi
      = FQ (partial_hi a0 a1 a2 a3 b0 b1 b2 b3 c_hi)"
    by (simp only: partial_hi_def FQ_arith FQ_fq_n)
  show "0 \<le> partial_hi a0 a1 a2 a3 b0 b1 b2 b3 c_hi"
      "partial_hi a0 a1 a2 a3 b0 b1 b2 b3 c_hi < 2 ^ 199"
    using limb_product [of "fq_n a0" "fq_n b2"] limb_product [of "fq_n a1" "fq_n b1"]
      limb_product [of "fq_n a2" "fq_n b0"] limb_product [of "fq_n a0" "fq_n b3"]
      limb_product [of "fq_n a1" "fq_n b2"] limb_product [of "fq_n a2" "fq_n b1"]
      limb_product [of "fq_n a3" "fq_n b0"] assms
    by (simp_all add: partial_hi_def)
qed

text \<open>
  A range-checked carry turns a field equation \<open>carry * 2 ^ 128 = s - d\<close> into an equation of
  integers.
\<close>

lemma carry_equation:
  assumes pfi: "prime_field_inv_spec pfi"
    and c: "c = fq_div pfi (FQ s - d) (FQ (2 ^ 128))"
    and rng: "fq_n c < 2 ^ 72" "fq_n d < 2 ^ 128" "0 \<le> s" "s < 2 ^ 201"
  shows "s = fq_n d + fq_n c * 2 ^ 128"
proof -
  have "c * FQ (2 ^ 128) = FQ s - d"
    using c fq_div_mult [OF pfi coprime_fq_pow2, of 128 "FQ s - d"] by (simp add: fq_modulus_def)
  then have "FQ s = d + c * FQ (2 ^ 128)" by simp
  also have "\<dots> = FQ (fq_n d + fq_n c * 2 ^ 128)" by (simp only: FQ_arith FQ_fq_n)
  finally show ?thesis
    using rng by (simp add: FQ_inject fq_modulus_def)
qed

lemma carry_computed:
  assumes pfi: "prime_field_inv_spec pfi"
    and s: "s = fq_n d + k * 2 ^ 128"
  shows "fq_div pfi (FQ s - d) (FQ (2 ^ 128)) = FQ k"
proof (rule fq_div_eq [OF pfi coprime_fq_pow2])
  show "(2::int) ^ 128 < fq_modulus" by (simp add: fq_modulus_def)
  show "FQ k * FQ (2 ^ 128) = FQ s - d" by (simp only: s FQ_arith FQ_fq_n add_diff_cancel_left')
qed

lemma overflow_zero:
  assumes "fq_n a1 < 2 ^ 64" "fq_n a2 < 2 ^ 64" "fq_n a3 < 2 ^ 64"
    "fq_n b1 < 2 ^ 64" "fq_n b2 < 2 ^ 64" "fq_n b3 < 2 ^ 64" "fq_n k < 2 ^ 72"
  shows "k + a1 * b3 + a2 * b2 + a3 * b1 + a2 * b3 + a3 * b2 + a3 * b3 = 0 \<longleftrightarrow>
    fq_n k + (fq_n a1 * fq_n b3 + fq_n a2 * fq_n b2 + fq_n a3 * fq_n b1)
      + (fq_n a2 * fq_n b3 + fq_n a3 * fq_n b2) * 2 ^ 64 + fq_n a3 * fq_n b3 * (2 ^ 64 * 2 ^ 64) = 0"
proof -
  note prods = limb_product [of "fq_n a1" "fq_n b3"] limb_product [of "fq_n a2" "fq_n b2"]
    limb_product [of "fq_n a3" "fq_n b1"] limb_product [of "fq_n a2" "fq_n b3"]
    limb_product [of "fq_n a3" "fq_n b2"] limb_product [of "fq_n a3" "fq_n b3"]
  let ?s = "fq_n k + fq_n a1 * fq_n b3 + fq_n a2 * fq_n b2 + fq_n a3 * fq_n b1
    + fq_n a2 * fq_n b3 + fq_n a3 * fq_n b2 + fq_n a3 * fq_n b3"
  have "k + a1 * b3 + a2 * b2 + a3 * b1 + a2 * b3 + a3 * b2 + a3 * b3 = FQ ?s"
    by (simp only: FQ_arith FQ_fq_n)
  moreover have "FQ ?s = 0 \<longleftrightarrow> ?s = 0"
    using prods assms FQ_inject [of ?s 0] by (simp add: fq_modulus_def)
  moreover have "?s = 0 \<longleftrightarrow> fq_n k + (fq_n a1 * fq_n b3 + fq_n a2 * fq_n b2 + fq_n a3 * fq_n b1)
      + (fq_n a2 * fq_n b3 + fq_n a3 * fq_n b2) * 2 ^ 64 + fq_n a3 * fq_n b3 * (2 ^ 64 * 2 ^ 64) = 0"
    by (rule weighted_sum_zero) simp_all
  ultimately show ?thesis by simp
qed

lemma rbind_first: "rbind m f = Inr y \<Longrightarrow> \<exists>x. m = Inr x"
  by (cases m) simp_all

lemma mul_add_words_limbs:
  assumes "mul_add_words pfi a b c d = Inr r"
  obtains a0 a1 a2 a3 b0 b1 b2 b3 where
    "to_64s a = Inr (a0, a1, a2, a3)" "to_64s b = Inr (b0, b1, b2, b3)"
proof -
  obtain A where A: "to_64s a = Inr A"
    using rbind_first [OF assms [unfolded mul_add_words_def]] by blast
  obtain a0 a1 a2 a3 where A': "A = (a0, a1, a2, a3)" by (cases A)
  obtain B where B: "to_64s b = Inr B"
    using rbind_first [OF assms [unfolded mul_add_words_def A A' rbind_simps prod.case]] by blast
  obtain b0 b1 b2 b3 where B': "B = (b0, b1, b2, b3)" by (cases B)
  show thesis using that A A' B B' by blast
qed

text \<open>
  Soundness: if the carries pass the 9-byte range checks, \<open>a * b + c\<close> is \<open>d\<close> plus a multiple of
  \<open>2 ^ 256\<close>, and the returned overflow is zero exactly when that multiple is zero.
\<close>

lemma mul_add_words_sound:
  assumes pfi: "prime_field_inv_spec pfi"
    and ok: "word_ok c" "word_ok d"
    and run: "mul_add_words pfi a b c d = Inr (ov, (cl, ch), eqs)"
    and rng: "fq_n cl < 2 ^ 72" "fq_n ch < 2 ^ 72"
  shows "\<exists>k\<ge>0. int_value a * int_value b + int_value c = int_value d + k * 2 ^ 256 \<and> (ov = 0 \<longleftrightarrow> k = 0)"
proof -
  obtain a0 a1 a2 a3 b0 b1 b2 b3 where a: "to_64s a = Inr (a0, a1, a2, a3)"
    and b: "to_64s b = Inr (b0, b1, b2, b3)"
    by (rule mul_add_words_limbs [OF run])
  note la = to_64s_limbs [OF a] and lb = to_64s_limbs [OF b]
  have c: "fq_n (lo c) < 2 ^ 128" "fq_n (hi c) < 2 ^ 128"
    and d: "fq_n (lo d) < 2 ^ 128" "fq_n (hi d) < 2 ^ 128"
    using ok by (simp_all add: word_ok_def)
  let ?X = "partial_lo a0 a1 b0 b1 (lo c)"
  let ?Y = "partial_hi a0 a1 a2 a3 b0 b1 b2 b3 (hi c)"
  note X = partial_lo_fq [OF la(2,3) lb(2,3) c(1)]
  note Y = partial_hi_fq [OF la(2-5) lb(2-5) c(2)]
  from run have cl: "cl = fq_div pfi (FQ ?X - lo d) (FQ (2 ^ 128))"
    and ch: "ch = fq_div pfi (FQ ?Y + cl - hi d) (FQ (2 ^ 128))"
    and ov: "ov = ch + a1 * b3 + a2 * b2 + a3 * b1 + a2 * b3 + a3 * b2 + a3 * b3"
    unfolding mul_add_words_def a b rbind_simps prod.case Let_def sum.inject prod.inject X(1) Y(1)
    by (elim conjE, simp only:)+
  have eqX: "?X = fq_n (lo d) + fq_n cl * 2 ^ 128"
    by (rule carry_equation [OF pfi cl rng(1) d(1) X(2)]) (use X(3) in simp)
  have "FQ ?Y + cl = FQ (?Y + fq_n cl)" by (simp add: FQ_arith)
  with ch have ch': "ch = fq_div pfi (FQ (?Y + fq_n cl) - hi d) (FQ (2 ^ 128))" by simp
  have eqY: "?Y + fq_n cl = fq_n (hi d) + fq_n ch * 2 ^ 128"
    by (rule carry_equation [OF pfi ch' rng(2) d(2)]) (use Y(2,3) rng(1) in simp_all)
  let ?k = "fq_n ch + (fq_n a1 * fq_n b3 + fq_n a2 * fq_n b2 + fq_n a3 * fq_n b1)
      + (fq_n a2 * fq_n b3 + fq_n a3 * fq_n b2) * 2 ^ 64 + fq_n a3 * fq_n b3 * (2 ^ 64 * 2 ^ 64)"
  have m: "(2::int) ^ 128 = 2 ^ 64 * 2 ^ 64" "(2::int) ^ 256 = 2 ^ 64 * 2 ^ 64 * (2 ^ 64 * 2 ^ 64)"
    by simp_all
  have "int_value a * int_value b + int_value c = int_value d + ?k * 2 ^ 256"
    unfolding int_value_def la(6,7) lb(6,7) m
    by (rule schoolbook)
      (use eqX eqY in \<open>simp_all only: partial_lo_def partial_hi_def m add.assoc\<close>)
  moreover have "ov = 0 \<longleftrightarrow> ?k = 0"
    unfolding ov by (rule overflow_zero [OF la(3-5) lb(3-5) rng(2)])
  moreover have "0 \<le> ?k" by simp
  ultimately show ?thesis by blast
qed

text \<open>
  Completeness: for words that satisfy \<open>a * b + c = d\<close> modulo \<open>2 ^ 256\<close> the carries the gadget
  computes do pass the range checks, and both equations hold.
\<close>

lemma mul_add_words_complete:
  assumes pfi: "prime_field_inv_spec pfi"
    and ok: "word_ok a" "word_ok b" "word_ok c" "word_ok d"
    and eq: "(int_value a * int_value b + int_value c) mod 2 ^ 256 = int_value d"
  obtains ov cl ch eqs where "mul_add_words pfi a b c d = Inr (ov, (cl, ch), eqs)"
    "fq_n cl < 2 ^ 72" "fq_n ch < 2 ^ 72" "\<forall>(l, r)\<in>set eqs. l = r"
proof -
  obtain a0 a1 a2 a3 where a: "to_64s a = Inr (a0, a1, a2, a3)"
    using to_64s_total [OF ok(1)] by blast
  obtain b0 b1 b2 b3 where b: "to_64s b = Inr (b0, b1, b2, b3)"
    using to_64s_total [OF ok(2)] by blast
  note la = to_64s_limbs [OF a] and lb = to_64s_limbs [OF b]
  have c: "fq_n (lo c) < 2 ^ 128" "fq_n (hi c) < 2 ^ 128"
    and d: "fq_n (lo d) < 2 ^ 128" "fq_n (hi d) < 2 ^ 128"
    using ok by (simp_all add: word_ok_def)
  let ?X = "partial_lo a0 a1 b0 b1 (lo c)"
  let ?Y = "partial_hi a0 a1 a2 a3 b0 b1 b2 b3 (hi c)"
  note X = partial_lo_fq [OF la(2,3) lb(2,3) c(1)]
  note Y = partial_hi_fq [OF la(2-5) lb(2-5) c(2)]
  define k0 where "k0 = ?X div 2 ^ 128"
  define k1 where "k1 = (?Y + k0) div 2 ^ 128"
  have k0: "0 \<le> k0" "k0 < 2 ^ 72"
    using X(2,3) by (simp_all add: k0_def pos_imp_zdiv_nonneg_iff div_less_iff_less_mult)
  have k1: "0 \<le> k1" "k1 < 2 ^ 72"
    using Y(2,3) k0 by (simp_all add: k1_def pos_imp_zdiv_nonneg_iff div_less_iff_less_mult)
  have n: "fq_n (FQ k0) = k0" "fq_n (FQ k1) = k1"
    using k0 k1 by (simp_all add: fq_modulus_def)
  have m: "(2::int) ^ 128 = 2 ^ 64 * 2 ^ 64" "(2::int) ^ 256 = 2 ^ 64 * 2 ^ 64 * (2 ^ 64 * 2 ^ 64)"
    by simp_all
  have X': "?X = ?X mod 2 ^ 128 + k0 * 2 ^ 128" and Y': "?Y + k0 = (?Y + k0) mod 2 ^ 128 + k1 * 2 ^ 128"
    unfolding k0_def k1_def by (simp_all only: mod_div_mult_eq)
  define k where "k = k1 + (fq_n a1 * fq_n b3 + fq_n a2 * fq_n b2 + fq_n a3 * fq_n b1)
      + (fq_n a2 * fq_n b3 + fq_n a3 * fq_n b2) * 2 ^ 64 + fq_n a3 * fq_n b3 * (2 ^ 64 * 2 ^ 64)"
  have prod: "int_value a * int_value b + int_value c
      = ?X mod 2 ^ 128 + (?Y + k0) mod 2 ^ 128 * 2 ^ 128 + k * 2 ^ 256"
    unfolding int_value_def la(6,7) lb(6,7) m k_def
    by (rule schoolbook)
      (use X' Y' in \<open>simp_all only: partial_lo_def partial_hi_def m add.assoc\<close>)
  have rng: "0 \<le> ?X mod 2 ^ 128" "?X mod 2 ^ 128 < 2 ^ 128"
      "0 \<le> (?Y + k0) mod 2 ^ 128" "(?Y + k0) mod 2 ^ 128 < 2 ^ 128"
    by simp_all
  have "(int_value a * int_value b + int_value c) mod 2 ^ 256
      = (?X mod 2 ^ 128 + (?Y + k0) mod 2 ^ 128 * 2 ^ 128) mod 2 ^ 256"
    unfolding prod by (simp only: mod_mult_self1)
  also have "\<dots> = ?X mod 2 ^ 128 + (?Y + k0) mod 2 ^ 128 * 2 ^ 128"
    by (rule mod_pos_pos_trivial) (use rng in simp_all)
  finally have "fq_n (lo d) + fq_n (hi d) * 2 ^ 128 = ?X mod 2 ^ 128 + (?Y + k0) mod 2 ^ 128 * 2 ^ 128"
    using eq by (simp only: int_value_def)
  then have dl: "fq_n (lo d) = ?X mod 2 ^ 128" and dh: "fq_n (hi d) = (?Y + k0) mod 2 ^ 128"
    using base_split_unique [OF fq_n_nonneg d(1) rng(1,2)] by blast+
  have cl: "fq_div pfi (FQ ?X - lo d) (FQ (2 ^ 128)) = FQ k0"
    by (rule carry_computed [OF pfi]) (use X' dl in simp)
  have "FQ ?Y + FQ k0 = FQ (?Y + k0)" by (simp only: FQ_arith)
  then have ch: "fq_div pfi (FQ ?Y + FQ k0 - hi d) (FQ (2 ^ 128)) = FQ k1"
    using carry_computed [OF pfi, of "?Y + k0" "hi d" k1] Y' dh by simp
  have eqX: "FQ ?X = lo d + FQ k0 * FQ (2 ^ 128)"
    by (subst X', subst dl [symmetric]) (simp only: FQ_arith FQ_fq_n)
  have eqY: "FQ ?Y + FQ k0 = hi d + FQ k1 * FQ (2 ^ 128)"
  proof -
    have "FQ ?Y + FQ k0 = FQ (fq_n (hi d) + k1 * 2 ^ 128)"
      unfolding dh Y' [symmetric] by (simp only: FQ_arith)
    then show ?thesis by (simp only: FQ_arith FQ_fq_n)
  qed
  let ?ov = "FQ k1 + a1 * b3 + a2 * b2 + a3 * b1 + a2 * b3 + a3 * b2 + a3 * b3"
  have "mul_add_words pfi a b c d = Inr (?ov, (FQ k0, FQ k1),
      [(FQ ?X, lo d + FQ k0 * FQ (2 ^ 128)), (FQ ?Y + FQ k0, hi d + FQ k1 * FQ (2 ^ 128))])"
    unfolding mul_add_words_def a b
    by (simp only: rbind_simps prod.case Let_def X(1) Y(1) cl ch)
  then show thesis
    by (rule that) (use n k0 k1 eqX eqY in simp_all)
qed

end
