(* ===== verification/Step.thy ===== *)
theory Step
  imports Lookup Mul_Add
begin

text \<open>
  The state of a step (\<^verbatim>\<open>src/zkevm_specs/evm_circuit/step.py\<close>), the object the gadgets work on
  (the fields of class \<open>Instruction\<close> in \<^verbatim>\<open>src/zkevm_specs/evm_circuit/instruction.py\<close>) and the way its
  methods are sequenced. A method reads the tables and the two steps, which never change, and
  moves four offsets; it is a function of the object's constant part \<open>I\<close> that threads the
  offsets and may raise.
\<close>

section \<open>Step state\<close>

text \<open>\<open>aux_data\<close> has no fixed type in the source: what the gadgets store there is one of these.\<close>

datatype aux_data = AuxNone | AuxFQ fq | AuxInt int | AuxWord word256 | AuxSeq "aux_data list"

record step_state =
  ss_execution_state :: execution_state
  ss_rw_counter :: fq
  ss_call_id :: fq
  ss_is_root :: bool
  ss_is_create :: bool
  ss_code_hash :: word256
  ss_program_counter :: fq
  ss_stack_pointer :: fq
  ss_gas_left :: fq
  ss_memory_word_size :: fq
  ss_reversible_write_counter :: fq
  ss_log_id :: fq
  ss_aux_data :: aux_data

text \<open>The constructor with its default arguments.\<close>

definition StepState :: "execution_state \<Rightarrow> int \<Rightarrow> step_state" where
  "StepState es rwc =
     \<lparr>ss_execution_state = es, ss_rw_counter = FQ rwc, ss_call_id = FQ 0, ss_is_root = False,
      ss_is_create = False, ss_code_hash = WordLH 0 0, ss_program_counter = FQ 0,
      ss_stack_pointer = FQ 1024, ss_gas_left = FQ 0, ss_memory_word_size = FQ 0,
      ss_reversible_write_counter = FQ 0, ss_log_id = FQ 0, ss_aux_data = AuxNone\<rparr>"

section \<open>The object of the gadgets\<close>

text \<open>
  What the gadgets call outside the source: modular inversion (py_ecc), Keccak-256 (eth_utils)
  and the RLP encoding of an address and a nonce (rlp). Byte strings are lists of integers.
\<close>

record externals =
  ext_prime_field_inv :: "int \<Rightarrow> int \<Rightarrow> int"
  ext_keccak :: "int list \<Rightarrow> int list"
  ext_rlp_encode :: "int list \<Rightarrow> int \<Rightarrow> int list"

record instruction =
  i_tables :: tables
  i_curr :: step_state
  i_next :: step_state
  i_is_first_step :: bool
  i_is_last_step :: bool
  i_ext :: externals

record offsets =
  rw_counter_offset :: int
  program_counter_offset :: int
  stack_pointer_offset :: int
  log_index_offset :: int

definition offsets0 :: offsets where
  "offsets0 = \<lparr>rw_counter_offset = 0, program_counter_offset = 0, stack_pointer_offset = 0,
               log_index_offset = 0\<rparr>"

section \<open>Sequencing\<close>

type_synonym 'a instr = "offsets \<Rightarrow> ('a \<times> offsets) result"

definition iret :: "'a \<Rightarrow> 'a instr" where
  "iret x = (\<lambda>s. Inr (x, s))"

definition ibind :: "'a instr \<Rightarrow> ('a \<Rightarrow> 'b instr) \<Rightarrow> 'b instr" where
  "ibind m f = (\<lambda>s. rbind (m s) (\<lambda>(x, s'). f x s'))"

definition ithen :: "unit instr \<Rightarrow> 'b instr \<Rightarrow> 'b instr" where
  "ithen m k = ibind m (\<lambda>_. k)"

definition ilift :: "'a result \<Rightarrow> 'a instr" where
  "ilift r = (\<lambda>s. rbind r (\<lambda>x. Inr (x, s)))"

fun imap :: "('a \<Rightarrow> 'b instr) \<Rightarrow> 'a list \<Rightarrow> 'b list instr" where
  "imap f [] = iret []"
| "imap f (x # xs) = ibind (f x) (\<lambda>y. ibind (imap f xs) (\<lambda>ys. iret (y # ys)))"

definition iiter :: "('a \<Rightarrow> unit instr) \<Rightarrow> 'a list \<Rightarrow> unit instr" where
  "iiter f xs = ibind (imap f xs) (\<lambda>_. iret ())"

definition iassert :: "bool \<Rightarrow> unit instr" where
  "iassert b = ilift (assert_that b)"

lemma iret_ok [ok_simps]: "iret x s = Inr (y, s') \<longleftrightarrow> y = x \<and> s' = s"
  by (auto simp: iret_def)

lemma ibind_ok [ok_simps]:
  "ibind m f s = Inr (y, s') \<longleftrightarrow> (\<exists>x t. m s = Inr (x, t) \<and> f x t = Inr (y, s'))"
  by (auto simp: ibind_def rbind_ok)

lemma ithen_ok [ok_simps]:
  "ithen m k s = Inr (y, s') \<longleftrightarrow> (\<exists>t. m s = Inr ((), t) \<and> k t = Inr (y, s'))"
  by (auto simp: ithen_def ibind_ok)

lemma ilift_ok [ok_simps]: "ilift r s = Inr (y, s') \<longleftrightarrow> r = Inr y \<and> s' = s"
  by (auto simp: ilift_def rbind_ok)

lemma iassert_ok [ok_simps]: "iassert b s = Inr (u, s') \<longleftrightarrow> b \<and> s' = s"
  by (auto simp: iassert_def ilift_ok assert_that_ok)

lemma ibind_simps [simp]:
  "ibind (iret x) f = f x"
  "ibind (ilift (Inr x)) f = f x"
  "ithen (iret ()) k = k"
  by (simp_all add: ibind_def ithen_def iret_def ilift_def)

lemma ibind_assoc: "ibind (ibind m f) g = ibind m (\<lambda>x. ibind (f x) g)"
  by (auto simp: ibind_def fun_eq_iff rbind_def split: sum.splits)

end
