(* ===== verification/Instruction.thy ===== *)
theory Instruction
  imports Step
begin

text \<open>
  The methods of class \<open>Instruction\<close> (\<^verbatim>\<open>src/zkevm_specs/evm_circuit/instruction.py\<close>) that do not
  touch the tables: constraints, the transition of the step state, comparisons, range checks and
  word arithmetic. A method with the name of another definition gets the prefix \<open>instr_\<close>.
\<close>

section \<open>Constraints\<close>

definition constrain_zero :: "fq \<Rightarrow> unit instr" where
  "constrain_zero value = iassert (value = 0)"

definition constrain_not_zero :: "fq \<Rightarrow> unit instr" where
  "constrain_not_zero value = iassert (value \<noteq> 0)"

definition constrain_zero_word :: "word256 \<Rightarrow> unit instr" where
  "constrain_zero_word value = iassert (lo value = 0 \<and> hi value = 0)"

definition constrain_not_zero_word :: "word256 \<Rightarrow> unit instr" where
  "constrain_not_zero_word value = iassert (lo value \<noteq> 0 \<or> hi value \<noteq> 0)"

definition constrain_equal :: "fq \<Rightarrow> fq \<Rightarrow> unit instr" where
  "constrain_equal lhs rhs = iassert (lhs = rhs)"

definition constrain_equal_word :: "word256 \<Rightarrow> word256 \<Rightarrow> unit instr" where
  "constrain_equal_word lhs rhs = iassert (lo lhs = lo rhs \<and> hi lhs = hi rhs)"

definition constrain_in :: "fq \<Rightarrow> fq list \<Rightarrow> unit instr" where
  "constrain_in lhs rhs = iassert (lhs \<in> set rhs)"

definition constrain_in_word :: "word256 \<Rightarrow> word256 list \<Rightarrow> unit instr" where
  "constrain_in_word lhs rhs = iassert (lhs \<in> set rhs)"

definition constrain_bool :: "fq \<Rightarrow> unit instr" where
  "constrain_bool num = iassert (num = 0 \<or> num = 1)"

definition range_check :: "fq \<Rightarrow> nat \<Rightarrow> int list instr" where
  "range_check value n_bytes =
     ithen (iassert (n_bytes \<le> MAX_N_BYTES))
       (ilift (case to_bytes_le (fq_n value) n_bytes of
          Inl e \<Rightarrow> Inl ConstraintUnsatFailure | Inr bs \<Rightarrow> Inr bs))"

definition constrain_gas_left_not_underflow :: "fq \<Rightarrow> unit instr" where
  "constrain_gas_left_not_underflow gas_left =
     ibind (range_check gas_left N_BYTES_GAS) (\<lambda>_. iret ())"

section \<open>Transitions\<close>

definition constrain_execution_state_transition :: "instruction \<Rightarrow> unit instr" where
  "constrain_execution_state_transition I =
     (let curr = ss_execution_state (i_curr I); nxt = ss_execution_state (i_next I) in
      ithen
        (if curr = ES_EndTx then iassert (nxt \<in> {ES_BeginTx, ES_EndBlock})
         else if curr = ES_EndBlock then iassert (nxt = ES_EndBlock)
         else iret ())
        (if nxt = ES_BeginTx then iassert (curr = ES_EndTx)
         else if nxt = ES_EndTx then iassert (halts curr \<or> curr = ES_BeginTx)
         else if nxt = ES_EndBlock then iassert (curr \<in> {ES_EndTx, ES_EndBlock})
         else iret ()))"

datatype transition = Same | SameWord | Delta fq | To fq | ToWord word256

datatype state_key =
    K_rw_counter | K_call_id | K_is_root | K_is_create | K_code_hash | K_program_counter |
    K_stack_pointer | K_gas_left | K_memory_word_size | K_reversible_write_counter | K_log_id

text \<open>\<open>getattr(step, key)\<close>; the two booleans are converted to field elements.\<close>

primrec state_attr :: "state_key \<Rightarrow> step_state \<Rightarrow> word_or_value" where
  "state_attr K_rw_counter st = ValueV (ss_rw_counter st)"
| "state_attr K_call_id st = ValueV (ss_call_id st)"
| "state_attr K_is_root st = ValueV (fq_of_bool (ss_is_root st))"
| "state_attr K_is_create st = ValueV (fq_of_bool (ss_is_create st))"
| "state_attr K_code_hash st = WordV (ss_code_hash st)"
| "state_attr K_program_counter st = ValueV (ss_program_counter st)"
| "state_attr K_stack_pointer st = ValueV (ss_stack_pointer st)"
| "state_attr K_gas_left st = ValueV (ss_gas_left st)"
| "state_attr K_memory_word_size st = ValueV (ss_memory_word_size st)"
| "state_attr K_reversible_write_counter st = ValueV (ss_reversible_write_counter st)"
| "state_attr K_log_id st = ValueV (ss_log_id st)"

text \<open>
  A field element has no \<open>lo\<close> and \<open>hi\<close>, and a \<open>Word\<close> no \<open>expr\<close>: a transition of the wrong
  kind raises \<open>AttributeError\<close>.
\<close>

fun transition_check :: "transition \<Rightarrow> word_or_value \<Rightarrow> word_or_value \<Rightarrow> unit result" where
  "transition_check Same (ValueV x) (ValueV x') = assert_that (x' = x)"
| "transition_check SameWord (WordV x) (WordV x') =
     assert_that (lo x' = lo x \<and> hi x' = hi x)"
| "transition_check (Delta d) (ValueV x) (ValueV x') = assert_that (x' = x + d)"
| "transition_check (To v) (ValueV x) (ValueV x') = assert_that (x' = v)"
| "transition_check (ToWord w) (WordV x) (WordV x') =
     assert_that (lo x' = lo w \<and> hi x' = hi w)"
| "transition_check _ _ _ = Inl AttributeError"

definition constrain_step_state_transition ::
  "instruction \<Rightarrow> (state_key \<times> transition) list \<Rightarrow> unit instr" where
  "constrain_step_state_transition I kwargs =
     ilift (riter (\<lambda>(key, t).
       transition_check t (state_attr key (i_curr I)) (state_attr key (i_next I))) kwargs)"

definition step_state_transition_to_new_context ::
  "instruction \<Rightarrow> transition \<Rightarrow> transition \<Rightarrow> transition \<Rightarrow> transition \<Rightarrow> transition \<Rightarrow> transition \<Rightarrow>
   transition \<Rightarrow> transition \<Rightarrow> unit instr" where
  "step_state_transition_to_new_context I rw_counter call_id is_root is_create code_hash gas_left
     reversible_write_counter log_id =
     constrain_step_state_transition I
       [(K_rw_counter, rw_counter), (K_call_id, call_id), (K_is_root, is_root),
        (K_is_create, is_create), (K_code_hash, code_hash), (K_gas_left, gas_left),
        (K_reversible_write_counter, reversible_write_counter), (K_log_id, log_id),
        (K_program_counter, To (FQ 0)), (K_stack_pointer, To (FQ 1024)),
        (K_memory_word_size, To (FQ 0))]"

section \<open>Values\<close>

definition is_zero :: "fq \<Rightarrow> fq" where
  "is_zero value = fq_of_bool (value = 0)"

definition is_equal :: "fq \<Rightarrow> fq \<Rightarrow> fq" where
  "is_equal lhs rhs = is_zero (lhs - rhs)"

definition is_u64_overflow :: "fq \<Rightarrow> fq" where
  "is_u64_overflow lhs = fq_of_bool (fq_n lhs > MAX_U64)"

definition is_memory_overflow :: "fq \<Rightarrow> fq" where
  "is_memory_overflow lhs = fq_of_bool (fq_n lhs > MAX_MEMORY_SIZE)"

definition is_zero_word :: "word256 \<Rightarrow> fq" where
  "is_zero_word w = is_zero (sum_values [lo w, hi w])"

definition is_equal_word :: "word256 \<Rightarrow> word256 \<Rightarrow> fq" where
  "is_equal_word lhs rhs = is_zero_word (WordLH (lo lhs - lo rhs) (hi lhs - hi rhs))"

definition continuous_selectors :: "fq \<Rightarrow> nat \<Rightarrow> fq list" where
  "continuous_selectors value n = map (\<lambda>i. fq_of_bool (int i < fq_n value)) [0..<n]"

text \<open>\<open>select\<close> and \<open>select_word\<close> differ only in the type of the branches.\<close>

definition select :: "fq \<Rightarrow> 'a \<Rightarrow> 'a \<Rightarrow> 'a instr" where
  "select condition when_true when_false =
     ithen (iassert (condition = 0 \<or> condition = 1))
       (iret (if condition = 1 then when_true else when_false))"

definition pair_select :: "fq \<Rightarrow> fq \<Rightarrow> fq \<Rightarrow> fq \<times> fq" where
  "pair_select value lhs rhs = (fq_of_bool (value = lhs), fq_of_bool (value = rhs))"

definition multiple_select :: "fq \<Rightarrow> fq list \<Rightarrow> fq list" where
  "multiple_select value options = map (\<lambda>opt. fq_of_bool (value = opt)) options"

definition constant_divmod :: "fq \<Rightarrow> fq \<Rightarrow> nat \<Rightarrow> (fq \<times> fq) instr" where
  "constant_divmod numerator denominator n_bytes =
     (if fq_n denominator = 0 then ilift (Inl ZeroDivisionError)
      else let quotient = fq_n numerator div fq_n denominator;
               remainder = fq_n numerator mod fq_n denominator in
        ibind (range_check (FQ quotient) n_bytes) (\<lambda>_. iret (FQ quotient, FQ remainder)))"

definition compare :: "fq \<Rightarrow> fq \<Rightarrow> nat \<Rightarrow> (fq \<times> fq) instr" where
  "compare lhs rhs n_bytes =
     ithen (iassert (n_bytes \<le> MAX_N_BYTES))
    (ithen (iassert (fq_n lhs < 256 ^ n_bytes))
    (ithen (iassert (fq_n rhs < 256 ^ n_bytes))
     (iret (fq_of_bool (fq_n lhs < fq_n rhs), fq_of_bool (fq_n lhs = fq_n rhs)))))"

definition compare_word :: "word256 \<Rightarrow> word256 \<Rightarrow> (fq \<times> fq) instr" where
  "compare_word lhs rhs =
     ibind (compare (hi lhs) (hi rhs) 16) (\<lambda>(hi_lt, hi_eq).
     ibind (compare (lo lhs) (lo rhs) 16) (\<lambda>(lo_lt, lo_eq).
     iret (hi_lt + hi_eq * lo_lt, hi_eq * lo_eq)))"

definition precompile :: "fq \<Rightarrow> fq" where
  "precompile address = (case to_precompile (fq_n address) of Inl e \<Rightarrow> FQ 0 | Inr p \<Rightarrow> FQ 1)"

definition instr_min :: "fq \<Rightarrow> fq \<Rightarrow> nat \<Rightarrow> fq instr" where
  "instr_min lhs rhs n_bytes =
     ibind (compare lhs rhs n_bytes) (\<lambda>(lt, eq). select lt lhs rhs)"

definition instr_max :: "fq \<Rightarrow> fq \<Rightarrow> nat \<Rightarrow> fq instr" where
  "instr_max lhs rhs n_bytes =
     ibind (compare lhs rhs n_bytes) (\<lambda>(lt, eq). select lt rhs lhs)"

text \<open>The method \<open>bytes_to_fq\<close>; its keyword \<open>constrained\<close> is never given in the source.\<close>

definition instr_bytes_to_fq :: "fq list \<Rightarrow> fq instr" where
  "instr_bytes_to_fq value =
     ithen (ilift (raise_unless ValueError (\<forall>b\<in>set value. fq_n b < 256)))
    (ithen (iassert (length value \<le> MAX_N_BYTES))
     (iret (FQ (le_val (map fq_n value)))))"

definition word_to_fq :: "word256 \<Rightarrow> nat \<Rightarrow> fq instr" where
  "word_to_fq word n_bytes =
     ibind (ilift (to_le_bytes word)) (\<lambda>word_le_bytes.
     if sum_list (drop n_bytes word_le_bytes) \<noteq> 0 then ilift (Inl ConstraintUnsatFailure)
     else instr_bytes_to_fq (take n_bytes word_le_bytes))"

definition is_neg_word :: "word256 \<Rightarrow> fq instr" where
  "is_neg_word word =
     ibind (compare (FQ 0x7FFFFFFFFFFFFFFFFFFFFFFFFFFFFFFF) (hi word) 16) (\<lambda>(lt, eq). iret lt)"

definition instr_byte_size :: "word256 \<Rightarrow> fq instr" where
  "instr_byte_size word =
     ibind (ilift (to_le_bytes word)) (\<lambda>bs.
     iret (FQ (int (length (rstrip_zeros (map fq_n bs))))))"

definition address_to_word :: "fq \<Rightarrow> word256 instr" where
  "address_to_word addr =
     ibind (ilift (to_bytes_le (fq_n addr) 32)) (\<lambda>addr_bytes.
     ithen (constrain_zero (FQ (sum_list (drop N_BYTES_ACCOUNT_ADDRESS addr_bytes))))
       (ilift (word_of_bytes addr_bytes)))"

definition word_to_address :: "word256 \<Rightarrow> fq instr" where
  "word_to_address word = word_to_fq word N_BYTES_ACCOUNT_ADDRESS"

definition word_to_u64 :: "word256 \<Rightarrow> fq instr" where
  "word_to_u64 word = word_to_fq word 8"

section \<open>Word arithmetic\<close>

definition abs_word :: "word256 \<Rightarrow> (word256 \<times> fq) instr" where
  "abs_word x =
     ibind (is_neg_word x) (\<lambda>is_neg.
     ibind (if is_neg = 0 then iret x else ilift (word_of_int256 (2 ^ 256 - int_value x))) (\<lambda>x_abs.
     let x_abs_lo = lo x_abs; x_abs_hi = hi x_abs; x_lo = lo x; x_hi = hi x;
       carry_lo = (fq_n x_lo + fq_n x_abs_lo) div 2 ^ 128;
       sum_lo = (fq_n x_lo + fq_n x_abs_lo) mod 2 ^ 128;
       carry_hi = (fq_n x_hi + fq_n x_abs_hi + carry_lo) div 2 ^ 128;
       sum_hi = (fq_n x_hi + fq_n x_abs_hi + carry_lo) mod 2 ^ 128 in
     ithen (constrain_zero ((x_abs_lo - x_lo) * (1 - is_neg)))
    (ithen (constrain_zero ((x_abs_hi - x_hi) * (1 - is_neg)))
    (ithen (constrain_zero
       (FQ sum_lo + FQ carry_lo * FQ (2 ^ 128) - sum_values [x_lo, x_abs_lo]))
    (ithen (constrain_zero
       (FQ sum_hi + FQ carry_hi * FQ (2 ^ 128) - FQ carry_lo - sum_values [x_hi, x_abs_hi]))
    (ithen (constrain_zero (FQ (sum_lo + sum_hi) * is_neg))
    (ithen (constrain_zero (FQ (1 - carry_hi) * is_neg))
     (iret (x_abs, is_neg)))))))))"

definition sub_word :: "word256 \<Rightarrow> word256 \<Rightarrow> (word256 \<times> fq) instr" where
  "sub_word minuend subtrahend =
     (let minuend_lo = lo minuend; minuend_hi = hi minuend;
        subtrahend_lo = lo subtrahend; subtrahend_hi = hi subtrahend;
        borrow_lo = fq_n minuend_lo < fq_n subtrahend_lo;
        borrow_lo_int = (if borrow_lo then 1 else 0);
        diff_lo = minuend_lo - subtrahend_lo + FQ (if borrow_lo then 2 ^ 128 else 0);
        borrow_hi = fq_n minuend_hi < fq_n subtrahend_hi + borrow_lo_int;
        diff_hi = minuend_hi - subtrahend_hi - FQ borrow_lo_int +
                  FQ (if borrow_hi then 2 ^ 128 else 0) in
      ibind (ilift (word_of_tuple diff_lo diff_hi)) (\<lambda>w. iret (w, fq_of_bool borrow_hi)))"

definition mul_word_by_u64 :: "word256 \<Rightarrow> fq \<Rightarrow> word256 instr" where
  "mul_word_by_u64 multiplicand multiplier =
     (let product_lo = fq_n (lo multiplicand * multiplier) mod 2 ^ 128;
        quotient_lo = fq_n (lo multiplicand * multiplier) div 2 ^ 128;
        product_hi = fq_n (hi multiplicand * multiplier + FQ quotient_lo) mod 2 ^ 128;
        quotient_hi = fq_n (hi multiplicand * multiplier + FQ quotient_lo) div 2 ^ 128 in
      ithen (constrain_zero (FQ quotient_hi))
        (ilift (word_of_tuple (FQ product_lo) (FQ product_hi))))"

text \<open>
  The method \<open>mul_add_words\<close> computes the carries, the overflow and the two equations with the
  formulas of \<open>mul_add_words\<close> in arithmetic.py, then checks them.
\<close>

definition instr_mul_add_words ::
  "instruction \<Rightarrow> word256 \<Rightarrow> word256 \<Rightarrow> word256 \<Rightarrow> word256 \<Rightarrow> fq instr" where
  "instr_mul_add_words I a b c d =
     ibind (ilift (mul_add_words (ext_prime_field_inv (i_ext I)) a b c d))
       (\<lambda>(overflow, (carry_lo, carry_hi), constraints).
     ibind (range_check carry_lo 9) (\<lambda>_.
     ibind (range_check carry_hi 9) (\<lambda>_.
     ithen (iiter (\<lambda>(l, r). constrain_equal l r) constraints)
       (iret overflow))))"

definition mul_add_words_512 ::
  "instruction \<Rightarrow> word256 \<Rightarrow> word256 \<Rightarrow> word256 \<Rightarrow> word256 \<Rightarrow> word256 \<Rightarrow> unit instr" where
  "mul_add_words_512 I a b c d e =
     ibind (ilift (to_64s a)) (\<lambda>(a0, a1, a2, a3).
     ibind (ilift (to_64s b)) (\<lambda>(b0, b1, b2, b3).
     let c_lo = lo c; c_hi = hi c; d_lo = lo d; d_hi = hi d; e_lo = lo e; e_hi = hi e;
       pfi = ext_prime_field_inv (i_ext I);
       t0 = a0 * b0;
       t1 = a0 * b1 + a1 * b0;
       t2 = a0 * b2 + a1 * b1 + a2 * b0;
       t3 = a0 * b3 + a1 * b2 + a2 * b1 + a3 * b0;
       t4 = a1 * b3 + a2 * b2 + a3 * b1;
       t5 = a2 * b3 + a3 * b2;
       t6 = a3 * b3;
       carry_0 = fq_div pfi (t0 + t1 * FQ (2 ^ 64) + c_lo - e_lo) (FQ (2 ^ 128));
       carry_1 = fq_div pfi (t2 + t3 * FQ (2 ^ 64) + c_hi + carry_0 - e_hi) (FQ (2 ^ 128));
       carry_2 = fq_div pfi (t4 + t5 * FQ (2 ^ 64) + carry_1 - d_lo) (FQ (2 ^ 128)) in
     ibind (range_check carry_0 9) (\<lambda>_.
     ibind (range_check carry_1 9) (\<lambda>_.
     ibind (range_check carry_2 9) (\<lambda>_.
     ithen (constrain_equal (t0 + t1 * FQ (2 ^ 64) + c_lo) (e_lo + carry_0 * FQ (2 ^ 128)))
    (ithen (constrain_equal (t2 + t3 * FQ (2 ^ 64) + c_hi + carry_0)
        (e_hi + carry_1 * FQ (2 ^ 128)))
    (ithen (constrain_equal (t4 + t5 * FQ (2 ^ 64) + carry_1) (d_lo + carry_2 * FQ (2 ^ 128)))
     (constrain_equal (t6 + carry_2) d_hi))))))))"

definition safe_mul :: "fq \<Rightarrow> fq \<Rightarrow> fq \<times> fq" where
  "safe_mul x y = (x * y, is_u64_overflow (x * y))"

definition to_word_size :: "fq \<Rightarrow> fq" where
  "to_word_size sz =
     (if fq_n sz > MAX_U64 - 31 then FQ (MAX_U64 div 32 + 1) else FQ ((fq_n sz + 31) div 32))"

end
