(* ===== verification/Instruction_Lookup.thy ===== *)
theory Instruction_Lookup
  imports Instruction
begin

text \<open>
  The methods of class \<open>Instruction\<close> that look into the tables: block, transaction, bytecode and
  read-write lookups, the stack, memory, call context, account state, balances and the access
  lists; the step transitions that need lookups; memory expansion. A method that takes a
  \<open>ReversionInfo\<close> advances its counter, so the model returns the new object with the result.
\<close>

section \<open>Fixed, block, transaction and bytecode tables\<close>

definition fixed_lookup :: "fixed_table_tag \<Rightarrow> fq \<Rightarrow> fq \<Rightarrow> fq \<Rightarrow> fixed_row instr" where
  "fixed_lookup tag value0 value1 value2 =
     ilift (fixed_lookup_table (FQ (ftag_int tag)) value0 value1 value2)"

definition range_lookup :: "fq \<Rightarrow> int \<Rightarrow> unit instr" where
  "range_lookup value r =
     ibind (ilift (range_table_tag r)) (\<lambda>tag.
     ibind (fixed_lookup tag value 0 0) (\<lambda>_. iret ()))"

definition byte_range_lookup :: "fq \<Rightarrow> unit instr" where
  "byte_range_lookup value = range_lookup value 256"

definition pow2_lookup :: "fq \<Rightarrow> fq \<Rightarrow> fq \<Rightarrow> unit instr" where
  "pow2_lookup value pow_lo128 pow_hi128 =
     ibind (fixed_lookup F_Pow2 value pow_lo128 pow_hi128) (\<lambda>_. iret ())"

definition sign_byte_lookup :: "fq \<Rightarrow> fq \<Rightarrow> unit instr" where
  "sign_byte_lookup value sign_byte =
     ibind (fixed_lookup F_SignByte value sign_byte 0) (\<lambda>_. iret ())"

definition block_context_lookup_word ::
  "instruction \<Rightarrow> block_context_field_tag \<Rightarrow> fq \<Rightarrow> word_or_value instr" where
  "block_context_lookup_word I field_tag block_number =
     ibind (ilift (block_lookup (i_tables I) (FQ (bc_int field_tag)) block_number)) (\<lambda>r.
     iret (bk_value r))"

definition block_context_lookup ::
  "instruction \<Rightarrow> block_context_field_tag \<Rightarrow> fq \<Rightarrow> fq instr" where
  "block_context_lookup I field_tag block_number =
     ibind (block_context_lookup_word I field_tag block_number) (\<lambda>v. ilift (wov_value v))"

definition tx_context_lookup_word ::
  "instruction \<Rightarrow> fq \<Rightarrow> tx_context_field_tag \<Rightarrow> word_or_value instr" where
  "tx_context_lookup_word I tx_id field_tag =
     ibind (ilift (tx_lookup (i_tables I) tx_id (FQ (tc_int field_tag)) (FQ 0))) (\<lambda>r.
     iret (tx_value r))"

definition tx_context_lookup :: "instruction \<Rightarrow> fq \<Rightarrow> tx_context_field_tag \<Rightarrow> fq instr" where
  "tx_context_lookup I tx_id field_tag =
     ibind (tx_context_lookup_word I tx_id field_tag) (\<lambda>v. ilift (wov_value v))"

definition tx_calldata_lookup :: "instruction \<Rightarrow> fq \<Rightarrow> fq \<Rightarrow> fq instr" where
  "tx_calldata_lookup I tx_id call_data_index =
     ibind (ilift (tx_lookup (i_tables I) tx_id (FQ (tc_int TC_CallData)) call_data_index)) (\<lambda>r.
     ilift (wov_value (tx_value r)))"

definition tx_gas_price :: "instruction \<Rightarrow> fq \<Rightarrow> word256 instr" where
  "tx_gas_price I tx_id =
     ibind (tx_context_lookup_word I tx_id TC_GasPrice) (\<lambda>v. iret (wov_word v))"

definition bytecode_lookup :: "instruction \<Rightarrow> word256 \<Rightarrow> fq \<Rightarrow> fq option \<Rightarrow> fq instr" where
  "bytecode_lookup I bytecode_hash index is_code =
     ibind (ilift (bytecode_lookup_table (i_tables I)
       \<lparr>qb_bytecode_hash = bytecode_hash, qb_field_tag = FQ (bf_int BF_Byte), qb_index = index,
        qb_is_code = is_code\<rparr>)) (\<lambda>r. iret (bc_value r))"

definition bytecode_lookup_pair :: "instruction \<Rightarrow> word256 \<Rightarrow> fq \<Rightarrow> (fq \<times> fq) instr" where
  "bytecode_lookup_pair I bytecode_hash index =
     ibind (ilift (bytecode_lookup_table (i_tables I)
       \<lparr>qb_bytecode_hash = bytecode_hash, qb_field_tag = FQ (bf_int BF_Byte), qb_index = index,
        qb_is_code = None\<rparr>)) (\<lambda>r. iret (bc_value r, bc_is_code r))"

definition bytecode_length :: "instruction \<Rightarrow> word256 \<Rightarrow> fq instr" where
  "bytecode_length I bytecode_hash =
     ibind (ilift (bytecode_lookup_table (i_tables I)
       \<lparr>qb_bytecode_hash = bytecode_hash, qb_field_tag = FQ (bf_int BF_Header), qb_index = FQ 0,
        qb_is_code = Some (FQ 0)\<rparr>)) (\<lambda>r. iret (bc_value r))"

definition responsible_opcode_lookup :: "instruction \<Rightarrow> fq \<Rightarrow> fq \<Rightarrow> unit instr" where
  "responsible_opcode_lookup I opc aux =
     ibind (fixed_lookup F_ResponsibleOpcode (FQ (es_int (ss_execution_state (i_curr I)))) opc aux)
       (\<lambda>_. iret ())"

definition opcode_lookup_at :: "instruction \<Rightarrow> fq \<Rightarrow> bool \<Rightarrow> fq instr" where
  "opcode_lookup_at I index is_code =
     bytecode_lookup I (ss_code_hash (i_curr I)) index (Some (fq_of_bool is_code))"

definition opcode_lookup :: "instruction \<Rightarrow> bool \<Rightarrow> fq instr" where
  "opcode_lookup I is_code = (\<lambda>s.
     let index = ss_program_counter (i_curr I) + FQ (program_counter_offset s) in
     opcode_lookup_at I index is_code
       (s\<lparr>program_counter_offset := program_counter_offset s + 1\<rparr>))"

section \<open>The read-write table\<close>

text \<open>The optional arguments of \<open>rw_lookup\<close>; all are absent in \<open>no_args\<close>.\<close>

record rw_args =
  a_id :: "fq option"
  a_address :: "fq option"
  a_field_tag :: "fq option"
  a_storage_key :: "word256 option"
  a_value :: "word_or_value option"
  a_value_prev :: "word_or_value option"
  a_aux0 :: "word256 option"
  a_rw_counter :: "fq option"

definition no_args :: rw_args where
  "no_args = \<lparr>a_id = None, a_address = None, a_field_tag = None, a_storage_key = None,
              a_value = None, a_value_prev = None, a_aux0 = None, a_rw_counter = None\<rparr>"

definition rw_query_of :: "fq \<Rightarrow> rw \<Rightarrow> target \<Rightarrow> rw_args \<Rightarrow> rw_query" where
  "rw_query_of rw_counter rw tag args =
     \<lparr>q_rw_counter = rw_counter, q_rw = FQ (rw_int rw), q_key0 = FQ (target_int tag),
      q_id = a_id args, q_address = a_address args, q_field_tag = a_field_tag args,
      q_storage_key = a_storage_key args, q_value = map_option wov_word (a_value args),
      q_value_prev = map_option wov_word (a_value_prev args), q_aux0 = a_aux0 args\<rparr>"

definition rw_lookup :: "instruction \<Rightarrow> rw \<Rightarrow> target \<Rightarrow> rw_args \<Rightarrow> rw_row instr" where
  "rw_lookup I rw tag args = (\<lambda>s.
     case a_rw_counter args of
       Some c \<Rightarrow> ilift (rw_lookup_table (i_tables I) (rw_query_of c rw tag args)) s
     | None \<Rightarrow>
         let c = ss_rw_counter (i_curr I) + FQ (rw_counter_offset s) in
         ilift (rw_lookup_table (i_tables I) (rw_query_of c rw tag args))
           (s\<lparr>rw_counter_offset := rw_counter_offset s + 1\<rparr>))"

record reversion_info =
  rw_counter_end_of_reversion :: fq
  is_persistent :: fq
  reversible_write_counter :: fq

definition rw_counter_of_reversion :: "reversion_info \<Rightarrow> fq \<times> reversion_info" where
  "rw_counter_of_reversion r =
     (rw_counter_end_of_reversion r - reversible_write_counter r,
      r\<lparr>reversible_write_counter := reversible_write_counter r + 1\<rparr>)"

definition state_write ::
  "instruction \<Rightarrow> target \<Rightarrow> rw_args \<Rightarrow> reversion_info option \<Rightarrow>
   (rw_row \<times> reversion_info option) instr" where
  "state_write I tag args rinfo =
     ithen (iassert (write_with_reversion tag))
    (ibind (rw_lookup I RW_Write tag (args\<lparr>a_rw_counter := None\<rparr>)) (\<lambda>row.
     case rinfo of
       None \<Rightarrow> iret (row, None)
     | Some r \<Rightarrow>
         if is_persistent r = FQ 0 then
           let (rw_counter, r') = rw_counter_of_reversion r in
           ibind (ilift (rw_lookup_table (i_tables I)
             \<lparr>q_rw_counter = rw_counter, q_rw = FQ (rw_int RW_Write),
              q_key0 = FQ (target_int tag), q_id = Some (rw_id row),
              q_address = Some (rw_address row), q_field_tag = Some (rw_field_tag row),
              q_storage_key = Some (rw_storage_key row),
              q_value = Some (wov_word (rw_value_prev row)),
              q_value_prev = Some (wov_word (rw_value row)), q_aux0 = Some (rw_aux0 row)\<rparr>))
             (\<lambda>_. iret (row, Some r'))
         else iret (row, Some r)))"

definition state_read :: "instruction \<Rightarrow> target \<Rightarrow> rw_args \<Rightarrow> rw_row instr" where
  "state_read I tag args = rw_lookup I RW_Read tag (args\<lparr>a_rw_counter := None\<rparr>)"

section \<open>Call context, logs and receipts\<close>

definition call_context_lookup_word ::
  "instruction \<Rightarrow> call_context_field_tag \<Rightarrow> rw \<Rightarrow> fq option \<Rightarrow> word_or_value instr" where
  "call_context_lookup_word I field_tag rw call_id =
     (let cid = (case call_id of None \<Rightarrow> ss_call_id (i_curr I) | Some c \<Rightarrow> c) in
      ibind (rw_lookup I rw T_CallContext
        (no_args\<lparr>a_id := Some cid, a_address := Some (FQ (cc_int field_tag))\<rparr>)) (\<lambda>row.
      iret (rw_value row)))"

definition call_context_lookup ::
  "instruction \<Rightarrow> call_context_field_tag \<Rightarrow> rw \<Rightarrow> fq option \<Rightarrow> fq instr" where
  "call_context_lookup I field_tag rw call_id =
     ibind (call_context_lookup_word I field_tag rw call_id) (\<lambda>v. ilift (wov_value v))"

definition tx_log_lookup_word ::
  "instruction \<Rightarrow> fq \<Rightarrow> fq \<Rightarrow> tx_log_field_tag \<Rightarrow> int \<Rightarrow> word_or_value instr" where
  "tx_log_lookup_word I tx_id log_id field_tag index =
     ibind (rw_lookup I RW_Write T_TxLog
       (no_args\<lparr>a_id := Some tx_id,
          a_address := Some (FQ (index + tl_int field_tag * 2 ^ 32 + fq_n log_id * 2 ^ 48)),
          a_field_tag := Some (FQ 0), a_storage_key := Some (WordLH 0 0)\<rparr>)) (\<lambda>row.
     iret (rw_value row))"

definition tx_log_lookup ::
  "instruction \<Rightarrow> fq \<Rightarrow> fq \<Rightarrow> tx_log_field_tag \<Rightarrow> int \<Rightarrow> fq instr" where
  "tx_log_lookup I tx_id log_id field_tag index =
     ibind (tx_log_lookup_word I tx_id log_id field_tag index) (\<lambda>v. ilift (wov_value v))"

definition tx_receipt_read ::
  "instruction \<Rightarrow> fq \<Rightarrow> tx_receipt_field_tag \<Rightarrow> fq option \<Rightarrow> fq instr" where
  "tx_receipt_read I tx_id field_tag rw_counter =
     ibind (rw_lookup I RW_Read T_TxReceipt
       (no_args\<lparr>a_id := Some tx_id, a_address := Some (FQ 0),
          a_field_tag := Some (FQ (tr_int field_tag)), a_storage_key := Some (WordLH 0 0),
          a_rw_counter := rw_counter\<rparr>)) (\<lambda>row.
     ilift (wov_value (rw_value row)))"

definition tx_receipt_write :: "instruction \<Rightarrow> fq \<Rightarrow> tx_receipt_field_tag \<Rightarrow> fq instr" where
  "tx_receipt_write I tx_id field_tag =
     ibind (rw_lookup I RW_Write T_TxReceipt
       (no_args\<lparr>a_id := Some tx_id, a_address := Some (FQ 0),
          a_field_tag := Some (FQ (tr_int field_tag)), a_storage_key := Some (WordLH 0 0)\<rparr>)) (\<lambda>row.
     ilift (wov_value (rw_value row)))"

definition rw_table_start_lookup :: "instruction \<Rightarrow> fq \<Rightarrow> unit instr" where
  "rw_table_start_lookup I counter =
     ibind (rw_lookup I RW_Read T_Start (no_args\<lparr>a_rw_counter := Some counter\<rparr>)) (\<lambda>_. iret ())"

definition instr_reversion_info :: "instruction \<Rightarrow> fq option \<Rightarrow> reversion_info instr" where
  "instr_reversion_info I call_id =
     ibind (call_context_lookup I CC_RwCounterEndOfReversion RW_Read call_id) (\<lambda>end_rev.
     ibind (call_context_lookup I CC_IsPersistent RW_Read call_id) (\<lambda>persistent.
     iret \<lparr>rw_counter_end_of_reversion = end_rev, is_persistent = persistent,
           reversible_write_counter =
             (case call_id of None \<Rightarrow> ss_reversible_write_counter (i_curr I) | Some _ \<Rightarrow> FQ 0)\<rparr>))"

section \<open>Stack and memory\<close>

definition stack_lookup :: "instruction \<Rightarrow> rw \<Rightarrow> fq \<Rightarrow> word256 instr" where
  "stack_lookup I rw offset =
     ibind (rw_lookup I rw T_Stack
       (no_args\<lparr>a_id := Some (ss_call_id (i_curr I)),
          a_address := Some (ss_stack_pointer (i_curr I) + offset)\<rparr>)) (\<lambda>row.
     iret (wov_word (rw_value row)))"

definition stack_pop :: "instruction \<Rightarrow> word256 instr" where
  "stack_pop I = (\<lambda>s.
     stack_lookup I RW_Read (FQ (stack_pointer_offset s))
       (s\<lparr>stack_pointer_offset := stack_pointer_offset s + 1\<rparr>))"

definition stack_push :: "instruction \<Rightarrow> word256 instr" where
  "stack_push I = (\<lambda>s.
     let s' = s\<lparr>stack_pointer_offset := stack_pointer_offset s - 1\<rparr> in
     stack_lookup I RW_Write (FQ (stack_pointer_offset s')) s')"

definition memory_lookup :: "instruction \<Rightarrow> rw \<Rightarrow> fq \<Rightarrow> fq option \<Rightarrow> fq instr" where
  "memory_lookup I rw memory_address call_id =
     (let cid = (case call_id of None \<Rightarrow> ss_call_id (i_curr I) | Some c \<Rightarrow> c) in
      ibind (rw_lookup I rw T_Memory
        (no_args\<lparr>a_id := Some cid, a_address := Some memory_address\<rparr>)) (\<lambda>row.
      ilift (wov_value (rw_value row))))"

section \<open>Transaction refund, accounts and storage\<close>

definition tx_refund_read :: "instruction \<Rightarrow> fq \<Rightarrow> fq instr" where
  "tx_refund_read I tx_id =
     ibind (rw_lookup I RW_Read T_TxRefund (no_args\<lparr>a_id := Some tx_id\<rparr>)) (\<lambda>row.
     ilift (wov_value (rw_value row)))"

definition tx_refund_write ::
  "instruction \<Rightarrow> fq \<Rightarrow> reversion_info option \<Rightarrow> ((fq \<times> fq) \<times> reversion_info option) instr" where
  "tx_refund_write I tx_id rinfo =
     ibind (state_write I T_TxRefund (no_args\<lparr>a_id := Some tx_id\<rparr>) rinfo) (\<lambda>(row, rinfo').
     ibind (ilift (wov_value (rw_value row))) (\<lambda>v.
     ibind (ilift (wov_value (rw_value_prev row))) (\<lambda>v_prev.
     iret ((v, v_prev), rinfo'))))"

definition account_read_word ::
  "instruction \<Rightarrow> fq \<Rightarrow> account_field_tag \<Rightarrow> word_or_value instr" where
  "account_read_word I account_address account_field_tag =
     ibind (rw_lookup I RW_Read T_Account
       (no_args\<lparr>a_address := Some account_address,
          a_field_tag := Some (FQ (af_int account_field_tag))\<rparr>)) (\<lambda>row.
     iret (rw_value row))"

definition account_read :: "instruction \<Rightarrow> fq \<Rightarrow> account_field_tag \<Rightarrow> fq instr" where
  "account_read I account_address account_field_tag =
     ibind (account_read_word I account_address account_field_tag) (\<lambda>v. ilift (wov_value v))"

definition account_write_word ::
  "instruction \<Rightarrow> fq \<Rightarrow> account_field_tag \<Rightarrow> reversion_info option \<Rightarrow>
   ((word_or_value \<times> word_or_value) \<times> reversion_info option) instr" where
  "account_write_word I account_address account_field_tag rinfo =
     ibind (state_write I T_Account
       (no_args\<lparr>a_address := Some account_address,
          a_field_tag := Some (FQ (af_int account_field_tag))\<rparr>) rinfo) (\<lambda>(row, rinfo').
     iret ((rw_value row, rw_value_prev row), rinfo'))"

definition account_write ::
  "instruction \<Rightarrow> fq \<Rightarrow> account_field_tag \<Rightarrow> reversion_info option \<Rightarrow>
   ((fq \<times> fq) \<times> reversion_info option) instr" where
  "account_write I account_address account_field_tag rinfo =
     ibind (account_write_word I account_address account_field_tag rinfo) (\<lambda>((v, v_prev), rinfo').
     ibind (ilift (wov_value v)) (\<lambda>x.
     ibind (ilift (wov_value v_prev)) (\<lambda>x_prev.
     iret ((x, x_prev), rinfo'))))"

definition add_balance ::
  "instruction \<Rightarrow> fq \<Rightarrow> word256 list \<Rightarrow> reversion_info option \<Rightarrow>
   ((word256 \<times> word256) \<times> reversion_info option) instr" where
  "add_balance I account_address values rinfo =
     ibind (account_write_word I account_address AF_Balance rinfo) (\<lambda>((b, b_prev), rinfo').
     let balance = wov_word b; balance_prev = wov_word b_prev in
     ibind (ilift (add_words (balance_prev # values))) (\<lambda>(result, carry).
     ithen (constrain_equal_word balance result)
    (ithen (constrain_zero carry)
     (iret ((balance, balance_prev), rinfo')))))"

definition sub_balance ::
  "instruction \<Rightarrow> fq \<Rightarrow> word256 list \<Rightarrow> reversion_info option \<Rightarrow>
   ((word256 \<times> word256) \<times> reversion_info option) instr" where
  "sub_balance I account_address values rinfo =
     ibind (account_write_word I account_address AF_Balance rinfo) (\<lambda>((b, b_prev), rinfo').
     let balance = wov_word b; balance_prev = wov_word b_prev in
     ibind (ilift (add_words (balance # values))) (\<lambda>(result, carry).
     ithen (constrain_equal_word balance_prev result)
    (ithen (constrain_zero carry)
     (iret ((balance, balance_prev), rinfo')))))"

definition account_storage_read ::
  "instruction \<Rightarrow> fq \<Rightarrow> word256 \<Rightarrow> fq \<Rightarrow> word256 instr" where
  "account_storage_read I account_address storage_key tx_id =
     ibind (rw_lookup I RW_Read T_AccountStorage
       (no_args\<lparr>a_id := Some tx_id, a_address := Some account_address,
          a_storage_key := Some storage_key\<rparr>)) (\<lambda>row.
     iret (wov_word (rw_value row)))"

definition account_storage_write ::
  "instruction \<Rightarrow> fq \<Rightarrow> word256 \<Rightarrow> fq \<Rightarrow> reversion_info option \<Rightarrow>
   ((word256 \<times> word256 \<times> word256) \<times> reversion_info option) instr" where
  "account_storage_write I account_address storage_key tx_id rinfo =
     ibind (state_write I T_AccountStorage
       (no_args\<lparr>a_id := Some tx_id, a_address := Some account_address,
          a_storage_key := Some storage_key\<rparr>) rinfo) (\<lambda>(row, rinfo').
     iret ((wov_word (rw_value row), wov_word (rw_value_prev row), rw_aux0 row), rinfo'))"

definition add_account_to_access_list ::
  "instruction \<Rightarrow> fq \<Rightarrow> fq \<Rightarrow> reversion_info option \<Rightarrow> (fq \<times> reversion_info option) instr" where
  "add_account_to_access_list I tx_id account_address rinfo =
     ibind (state_write I T_TxAccessListAccount
       (no_args\<lparr>a_id := Some tx_id, a_address := Some account_address,
          a_value := Some (ValueV (FQ 1))\<rparr>) rinfo) (\<lambda>(row, rinfo').
     ibind (ilift (wov_value (rw_value_prev row))) (\<lambda>v. iret (v, rinfo')))"

text \<open>The source returns \<open>value_prev\<close> for an account and \<open>value\<close> for a storage slot.\<close>

definition read_account_to_access_list :: "instruction \<Rightarrow> fq \<Rightarrow> fq \<Rightarrow> fq instr" where
  "read_account_to_access_list I tx_id account_address =
     ibind (state_read I T_TxAccessListAccount
       (no_args\<lparr>a_id := Some tx_id, a_address := Some account_address\<rparr>)) (\<lambda>row.
     ilift (wov_value (rw_value_prev row)))"

definition add_account_storage_to_access_list ::
  "instruction \<Rightarrow> fq \<Rightarrow> fq \<Rightarrow> word256 \<Rightarrow> reversion_info option \<Rightarrow>
   (fq \<times> reversion_info option) instr" where
  "add_account_storage_to_access_list I tx_id account_address storage_key rinfo =
     ibind (state_write I T_TxAccessListAccountStorage
       (no_args\<lparr>a_id := Some tx_id, a_address := Some account_address,
          a_storage_key := Some storage_key, a_value := Some (ValueV (FQ 1))\<rparr>) rinfo)
       (\<lambda>(row, rinfo').
     ibind (ilift (wov_value (rw_value_prev row))) (\<lambda>v. iret (v, rinfo')))"

definition read_account_storage_to_access_list ::
  "instruction \<Rightarrow> fq \<Rightarrow> fq \<Rightarrow> word256 \<Rightarrow> fq instr" where
  "read_account_storage_to_access_list I tx_id account_address storage_key =
     ibind (state_read I T_TxAccessListAccountStorage
       (no_args\<lparr>a_id := Some tx_id, a_address := Some account_address,
          a_storage_key := Some storage_key\<rparr>)) (\<lambda>row.
     ilift (wov_value (rw_value row)))"

definition transfer_with_gas_fee ::
  "instruction \<Rightarrow> fq \<Rightarrow> fq \<Rightarrow> word256 \<Rightarrow> word256 \<Rightarrow> reversion_info option \<Rightarrow>
   (((word256 \<times> word256) \<times> (word256 \<times> word256)) \<times> reversion_info option) instr" where
  "transfer_with_gas_fee I sender_address receiver_address value gas_fee rinfo =
     ibind (sub_balance I sender_address [value, gas_fee] rinfo) (\<lambda>(sender_pair, r1).
     ibind (add_balance I receiver_address [value] r1) (\<lambda>(receiver_pair, r2).
     iret ((sender_pair, receiver_pair), r2)))"

definition transfer ::
  "instruction \<Rightarrow> fq \<Rightarrow> fq \<Rightarrow> word256 \<Rightarrow> reversion_info option \<Rightarrow>
   (((word256 \<times> word256) \<times> (word256 \<times> word256)) \<times> reversion_info option) instr" where
  "transfer I sender_address receiver_address value rinfo =
     ibind (sub_balance I sender_address [value] rinfo) (\<lambda>(sender_pair, r1).
     ibind (add_balance I receiver_address [value] r1) (\<lambda>(receiver_pair, r2).
     iret ((sender_pair, receiver_pair), r2)))"

section \<open>Step transitions\<close>

definition step_state_transition_to_restored_context ::
  "instruction \<Rightarrow> int \<Rightarrow> fq \<Rightarrow> fq \<Rightarrow> fq \<Rightarrow> fq option \<Rightarrow> unit instr" where
  "step_state_transition_to_restored_context I rw_counter_delta return_data_offset
     return_data_length gas_left caller_id =
     (let delta = rw_counter_delta + 11 + (if caller_id = None then 1 else 0);
        curr = i_curr I in
      ibind (case caller_id of
               None \<Rightarrow> call_context_lookup I CC_CallerId RW_Read None
             | Some c \<Rightarrow> iret c) (\<lambda>caller.
      ibind (imap (\<lambda>field_tag. call_context_lookup_word I field_tag RW_Read (Some caller))
          [CC_IsRoot, CC_IsCreate, CC_CodeHash, CC_ProgramCounter, CC_StackPointer, CC_GasLeft,
           CC_MemorySize, CC_ReversibleWriteCounter]) (\<lambda>fields.
      ithen (iiter (\<lambda>(field_tag, expected_value).
          ibind (call_context_lookup I field_tag RW_Write (Some caller)) (\<lambda>v.
          constrain_equal v expected_value))
          [(CC_LastCalleeId, ss_call_id curr),
           (CC_LastCalleeReturnDataOffset, return_data_offset),
           (CC_LastCalleeReturnDataLength, return_data_length)])
     (let rwc = (if halts_in_success (ss_execution_state curr)
                 then ss_reversible_write_counter curr else FQ 0) in
      ibind (ilift (wov_value (fields ! 0))) (\<lambda>is_root.
      ibind (ilift (wov_value (fields ! 1))) (\<lambda>is_create.
      ibind (ilift (wov_value (fields ! 3))) (\<lambda>program_counter.
      ibind (ilift (wov_value (fields ! 4))) (\<lambda>stack_pointer.
      ibind (ilift (wov_value (fields ! 5))) (\<lambda>caller_gas_left.
      ibind (ilift (wov_value (fields ! 6))) (\<lambda>memory_size.
      ibind (ilift (wov_value (fields ! 7))) (\<lambda>caller_rwc.
      constrain_step_state_transition I
        [(K_rw_counter, Delta (FQ delta)), (K_call_id, To caller), (K_is_root, To is_root),
         (K_is_create, To is_create), (K_code_hash, ToWord (wov_word (fields ! 2))),
         (K_program_counter, To program_counter), (K_stack_pointer, To stack_pointer),
         (K_gas_left, To (caller_gas_left + gas_left)), (K_memory_word_size, To memory_size),
         (K_reversible_write_counter, To (caller_rwc + rwc))])))))))))))"

text \<open>
  The keyword arguments of \<open>step_state_transition_in_same_context\<close>; \<open>same_context\<close> holds the
  defaults.
\<close>

record same_context_args =
  sc_rw_counter :: transition
  sc_program_counter :: transition
  sc_stack_pointer :: transition
  sc_memory_word_size :: transition
  sc_reversible_write_counter :: transition
  sc_dynamic_gas_cost :: fq
  sc_log_id :: transition

definition same_context :: same_context_args where
  "same_context = \<lparr>sc_rw_counter = Same, sc_program_counter = Same, sc_stack_pointer = Same,
     sc_memory_word_size = Same, sc_reversible_write_counter = Same, sc_dynamic_gas_cost = FQ 0,
     sc_log_id = Same\<rparr>"

definition step_state_transition_in_same_context ::
  "instruction \<Rightarrow> fq \<Rightarrow> same_context_args \<Rightarrow> unit instr" where
  "step_state_transition_in_same_context I opc args =
     ithen (responsible_opcode_lookup I opc (FQ 0))
    (ibind (ilift (rbind (to_opcode (fq_n opc)) constant_gas_cost)) (\<lambda>constant_cost.
     let gas_cost = FQ constant_cost + sc_dynamic_gas_cost args in
     ithen (constrain_gas_left_not_underflow (ss_gas_left (i_curr I) - gas_cost))
       (constrain_step_state_transition I
         [(K_rw_counter, sc_rw_counter args), (K_program_counter, sc_program_counter args),
          (K_stack_pointer, sc_stack_pointer args), (K_gas_left, Delta (- gas_cost)),
          (K_memory_word_size, sc_memory_word_size args),
          (K_reversible_write_counter, sc_reversible_write_counter args),
          (K_log_id, sc_log_id args), (K_call_id, Same), (K_is_root, Same),
          (K_is_create, Same), (K_code_hash, SameWord)])))"

definition constrain_error_state :: "instruction \<Rightarrow> int \<Rightarrow> unit instr" where
  "constrain_error_state I rw_counter_delta =
     (let delta = rw_counter_delta + 1 in
      ibind (call_context_lookup I CC_IsSuccess RW_Read None) (\<lambda>is_success.
      ithen (constrain_equal is_success (FQ 0))
     (let is_to_end_tx = is_equal (FQ (es_int (ss_execution_state (i_next I))))
                                  (FQ (es_int ES_EndTx)) in
      ithen (constrain_equal (fq_of_bool (ss_is_root (i_curr I))) is_to_end_tx)
        (if ss_is_root (i_curr I) then
           constrain_step_state_transition I
             [(K_rw_counter, Delta (FQ delta)), (K_call_id, Same)]
         else
           step_state_transition_to_restored_context I delta (FQ 0) (FQ 0) (FQ 0) None))))"

end
