(* ===== verification/Instruction_Memory.thy ===== *)
theory Instruction_Memory
  imports Instruction_Lookup
begin

text \<open>
  The rest of class \<open>Instruction\<close> (\<^verbatim>\<open>src/zkevm_specs/evm_circuit/instruction.py\<close>): memory sizes and
  their gas, contract addresses, and the lookups into the tables of the other circuits.
\<close>

section \<open>Memory expansion\<close>

definition memory_offset_and_length :: "word256 \<Rightarrow> word256 \<Rightarrow> (fq \<times> fq) instr" where
  "memory_offset_and_length offset_word length_word =
     ibind (word_to_fq length_word N_BYTES_MEMORY_ADDRESS) (\<lambda>len.
     if is_zero len = 1 then iret (FQ 0, FQ 0)
     else ibind (word_to_fq offset_word N_BYTES_MEMORY_ADDRESS) (\<lambda>offset. iret (offset, len)))"

definition memory_gas_cost :: "fq \<Rightarrow> fq instr" where
  "memory_gas_cost memory_size =
     ibind (constant_divmod (memory_size * memory_size) (FQ MEMORY_EXPANSION_QUAD_DENOMINATOR)
       N_BYTES_GAS) (\<lambda>(quadratic_cost, _).
     iret (quadratic_cost + memory_size * FQ MEMORY_EXPANSION_LINEAR_COEFF))"

definition memory_expansion_to :: "instruction \<Rightarrow> fq \<Rightarrow> (fq \<times> fq) instr" where
  "memory_expansion_to I next_memory_size =
     ibind (memory_gas_cost (ss_memory_word_size (i_curr I))) (\<lambda>cost.
     ibind (memory_gas_cost next_memory_size) (\<lambda>cost_next.
     iret (next_memory_size, cost_next - cost)))"

definition memory_expansion :: "instruction \<Rightarrow> fq \<Rightarrow> fq \<Rightarrow> (fq \<times> fq) instr" where
  "memory_expansion I offset len =
     ibind (if len \<noteq> FQ 0
            then constant_divmod (len + offset + FQ 31) (FQ 32) N_BYTES_MEMORY_WORD_SIZE
            else iret (FQ 0, FQ 0)) (\<lambda>(memory_size, _).
     ibind (instr_max (ss_memory_word_size (i_curr I)) memory_size N_BYTES_MEMORY_WORD_SIZE)
       (\<lambda>next_memory_size.
     memory_expansion_to I next_memory_size))"

definition memory_expansion_dynamic_length ::
  "instruction \<Rightarrow> fq \<Rightarrow> fq \<Rightarrow> (fq \<times> fq) option \<Rightarrow> (fq \<times> fq) instr" where
  "memory_expansion_dynamic_length I cd_offset cd_length rd =
     ibind (constant_divmod (cd_offset + cd_length + FQ 31) (FQ 32) N_BYTES_MEMORY_WORD_SIZE)
       (\<lambda>(cd_memory_size, _).
     ibind (instr_max (ss_memory_word_size (i_curr I)) cd_memory_size N_BYTES_MEMORY_WORD_SIZE)
       (\<lambda>next_memory_size.
     ibind (case rd of
              None \<Rightarrow> iret next_memory_size
            | Some (rd_offset, rd_length) \<Rightarrow>
                ibind (constant_divmod (rd_offset + rd_length + FQ 31) (FQ 32)
                  N_BYTES_MEMORY_WORD_SIZE) (\<lambda>(rd_memory_size, _).
                instr_max next_memory_size rd_memory_size N_BYTES_MEMORY_WORD_SIZE))
       (\<lambda>next_size.
     memory_expansion_to I next_size)))"

definition memory_copier_gas_cost :: "fq \<Rightarrow> fq \<Rightarrow> int \<Rightarrow> fq instr" where
  "memory_copier_gas_cost len memory_expansion_gas_cost gas_cost_copy =
     ibind (constant_divmod (len + FQ 31) (FQ 32) N_BYTES_MEMORY_WORD_SIZE) (\<lambda>(word_size, _).
     let gas_cost = word_size * FQ gas_cost_copy + memory_expansion_gas_cost in
     ibind (range_check gas_cost N_BYTES_GAS) (\<lambda>_. iret gas_cost))"

section \<open>Memory size of an opcode\<close>

definition calc_mem_size64_with_uint :: "word256 \<Rightarrow> fq \<Rightarrow> (fq \<times> fq) instr" where
  "calc_mem_size64_with_uint offset_word length64 =
     (if length64 = FQ 0 then iret (FQ 0, FQ 0)
      else ibind (word_to_fq offset_word MAX_N_BYTES) (\<lambda>offset.
        if is_u64_overflow offset = FQ 1 then iret (FQ 0, FQ 1)
        else ibind (word_to_fq offset_word N_BYTES_MEMORY_ADDRESS) (\<lambda>offset64.
          let val = offset64 + length64 in
          iret (val, fq_of_bool (fq_n val < fq_n offset64)))))"

definition calc_mem_size64 :: "word256 \<Rightarrow> word256 \<Rightarrow> (fq \<times> fq) instr" where
  "calc_mem_size64 offset len_word =
     ibind (word_to_fq len_word MAX_N_BYTES) (\<lambda>len.
     if is_u64_overflow len = FQ 1 then iret (FQ 0, FQ 1)
     else calc_mem_size64_with_uint offset len)"

text \<open>
  \<open>memory_size\<close> tests the sums of the opcode selectors; at most one selector is 1, so a sum is 1
  when the opcode is one of those it adds up. An opcode outside all of them falls through, and
  the method returns \<open>None\<close>.
\<close>

definition memory_size_pops :: "instruction \<Rightarrow> nat \<Rightarrow> unit instr" where
  "memory_size_pops I n = iiter (\<lambda>_. ibind (stack_pop I) (\<lambda>_. iret ())) [0..<n]"

definition memory_size_after :: "instruction \<Rightarrow> nat \<Rightarrow> (fq \<times> fq) instr" where
  "memory_size_after I n =
     ithen (memory_size_pops I n)
    (ibind (stack_pop I) (\<lambda>offset.
     ibind (stack_pop I) (\<lambda>len.
     calc_mem_size64 offset len)))"

definition memory_size_call :: "instruction \<Rightarrow> bool \<Rightarrow> (fq \<times> fq) instr" where
  "memory_size_call I has_value =
     ithen (memory_size_pops I (if has_value then 3 else 2))
    (ibind (stack_pop I) (\<lambda>cd_offset.
     ibind (stack_pop I) (\<lambda>cd_length.
     ibind (stack_pop I) (\<lambda>rd_offset.
     ibind (stack_pop I) (\<lambda>rd_length.
     ibind (calc_mem_size64 rd_offset rd_length) (\<lambda>(x, overflow).
     if overflow = FQ 1 then iret (FQ 0, FQ 1)
     else ibind (calc_mem_size64 cd_offset cd_length) (\<lambda>(y, overflow').
       if overflow' = FQ 1 then iret (FQ 0, FQ 1)
       else if fq_n x > fq_n y then iret (x, FQ 0) else iret (y, FQ 0))))))))"

definition memory_size :: "instruction \<Rightarrow> fq \<Rightarrow> (fq \<times> fq) option instr" where
  "memory_size I opc =
     (let some = (\<lambda>m. ibind m (\<lambda>r. iret (Some r))) in
      if opc \<in> FQ ` {Opcode_SHA3, Opcode_RETURN, Opcode_REVERT, Opcode_LOG0, Opcode_LOG1,
           Opcode_LOG2, Opcode_LOG3, Opcode_LOG4}
      then some (memory_size_after I 0)
      else if opc \<in> FQ ` {Opcode_CALLDATACOPY, Opcode_RETURNDATACOPY, Opcode_CODECOPY}
      then some (memory_size_after I 1)
      else if opc = FQ Opcode_EXTCODECOPY then some (memory_size_after I 2)
      else if opc = FQ Opcode_MLOAD
      then some (ibind (stack_pop I) (\<lambda>offset. calc_mem_size64_with_uint offset (FQ 32)))
      else if opc \<in> FQ ` {Opcode_MSTORE8, Opcode_MSTORE}
      then some (ibind (stack_pop I) (\<lambda>offset.
                 ibind (stack_pop I) (\<lambda>_. calc_mem_size64_with_uint offset (FQ 32))))
      else if opc \<in> FQ ` {Opcode_CREATE, Opcode_CREATE2}
      then some (ibind (stack_pop I) (\<lambda>_.
                 ibind (stack_pop I) (\<lambda>offset.
                 ibind (stack_pop I) (\<lambda>sz.
                 ithen (memory_size_pops I (if opc = FQ Opcode_CREATE2 then 1 else 0))
                   (calc_mem_size64 offset sz)))))
      else if opc \<in> FQ ` {Opcode_DELEGATECALL, Opcode_STATICCALL, Opcode_CALL, Opcode_CALLCODE}
      then some (memory_size_call I (opc \<in> FQ ` {Opcode_CALL, Opcode_CALLCODE}))
      else iret None)"

section \<open>Contract addresses\<close>

definition to_bytes_be :: "int \<Rightarrow> nat \<Rightarrow> int list result" where
  "to_bytes_be x n = rbind (to_bytes_le x n) (\<lambda>bs. Inr (rev bs))"

definition last_20_be :: "int list \<Rightarrow> fq" where
  "last_20_be bs = FQ (le_val (take 20 (rev bs)))"

definition generate_contract_address :: "instruction \<Rightarrow> fq \<Rightarrow> fq \<Rightarrow> fq instr" where
  "generate_contract_address I address nonce =
     ibind (ilift (to_bytes_be (fq_n address) 20)) (\<lambda>addr.
     iret (last_20_be (ext_keccak (i_ext I) (ext_rlp_encode (i_ext I) addr (fq_n nonce)))))"

definition generate_CREAET2_contract_address ::
  "instruction \<Rightarrow> fq \<Rightarrow> word256 \<Rightarrow> word256 \<Rightarrow> fq instr" where
  "generate_CREAET2_contract_address I address salt code_hash =
     ibind (ilift (to_bytes_be (fq_n address) 20)) (\<lambda>addr.
     ibind (ilift (to_bytes_le (int_value salt) 32)) (\<lambda>salt_bytes.
     ibind (ilift (to_bytes_le (int_value code_hash) 32)) (\<lambda>hash_bytes.
     iret (last_20_be (ext_keccak (i_ext I) ([0xff] @ addr @ salt_bytes @ hash_bytes))))))"

section \<open>Tables of the other circuits\<close>

definition copy_lookup :: "instruction \<Rightarrow> copy_query \<Rightarrow> fq option \<Rightarrow> (fq \<times> fq) instr" where
  "copy_lookup I q log_id =
     ibind (ilift (copy_lookup_table (i_tables I) q log_id)) (\<lambda>r.
     iret (cp_rwc_inc r, cp_rlc_acc r))"

definition keccak_lookup :: "instruction \<Rightarrow> fq \<Rightarrow> fq \<Rightarrow> word256 instr" where
  "keccak_lookup I len value_rlc =
     ibind (ilift (keccak_lookup_table (i_tables I) len value_rlc)) (\<lambda>r. iret (kc_output r))"

definition exp_lookup ::
  "instruction \<Rightarrow> fq \<Rightarrow> fq \<Rightarrow> fq \<times> fq \<times> fq \<times> fq \<Rightarrow> word256 \<Rightarrow> word256 instr" where
  "exp_lookup I ident is_last base_limbs exponent =
     ibind (ilift (exp_lookup_table (i_tables I) ident is_last base_limbs exponent)) (\<lambda>r.
     iret (ex_exponentiation r))"

definition sig_lookup ::
  "instruction \<Rightarrow> word256 \<Rightarrow> fq \<Rightarrow> word256 \<Rightarrow> word256 \<Rightarrow> fq \<Rightarrow> fq \<Rightarrow> unit instr" where
  "sig_lookup I msg_hash sig_v sig_r sig_s recovered_addr is_valid =
     ibind (ilift (sig_lookup_table (i_tables I) msg_hash sig_v sig_r sig_s recovered_addr
       is_valid)) (\<lambda>_. iret ())"

definition ecc_lookup ::
  "instruction \<Rightarrow> fq \<Rightarrow> word256 \<Rightarrow> word256 \<Rightarrow> word256 \<Rightarrow> word256 \<Rightarrow> fq \<Rightarrow> fq \<Rightarrow> fq \<Rightarrow> fq \<Rightarrow>
   unit instr" where
  "ecc_lookup I op_type px py qx qy input_rlc outx outy is_valid =
     ibind (ilift (ecc_lookup_table (i_tables I) op_type px py qx qy input_rlc outx outy
       is_valid)) (\<lambda>_. iret ())"

end
