(* ===== verification/Instruction_Facts.thy ===== *)
theory Instruction_Facts
  imports Instruction_Memory
begin

text \<open>
  What a successful call of a method of class \<open>Instruction\<close> means, method by method: the
  equations of the collection \<open>ok_simps\<close>. With them a successful run of a gadget unfolds into
  the rows it read, the values it compared and the transition it imposed. The predicates
  \<open>stack_value\<close>, \<open>opcode_at\<close>, \<open>context_value\<close>, \<open>memory_value\<close> name the rows; \<open>in_same_context\<close>
  and \<open>moves\<close> the transition.
\<close>

section \<open>Constraints and values\<close>

lemma constrain_ok [ok_simps]:
  "constrain_zero v s = Inr (u, s') \<longleftrightarrow> v = 0 \<and> s' = s"
  "constrain_not_zero v s = Inr (u, s') \<longleftrightarrow> v \<noteq> 0 \<and> s' = s"
  "constrain_zero_word w s = Inr (u, s') \<longleftrightarrow> w = WordLH 0 0 \<and> s' = s"
  "constrain_not_zero_word w s = Inr (u, s') \<longleftrightarrow> w \<noteq> WordLH 0 0 \<and> s' = s"
  "constrain_equal x y s = Inr (u, s') \<longleftrightarrow> x = y \<and> s' = s"
  "constrain_equal_word w w' s = Inr (u, s') \<longleftrightarrow> w = w' \<and> s' = s"
  "constrain_in x xs s = Inr (u, s') \<longleftrightarrow> x \<in> set xs \<and> s' = s"
  "constrain_in_word w ws s = Inr (u, s') \<longleftrightarrow> w \<in> set ws \<and> s' = s"
  "constrain_bool x s = Inr (u, s') \<longleftrightarrow> is_bool_fq x \<and> s' = s"
  by (auto simp: constrain_zero_def constrain_not_zero_def constrain_zero_word_def
      constrain_not_zero_word_def constrain_equal_def constrain_equal_word_def constrain_in_def
      constrain_in_word_def constrain_bool_def iassert_ok is_bool_fq_def intro: word256.expand)

lemma range_check_ok [ok_simps]:
  "range_check v n s = Inr (bs, s') \<longleftrightarrow>
     n \<le> 31 \<and> fq_n v < 256 ^ n \<and> bs = le_bytes n (fq_n v) \<and> s' = s"
  by (auto simp: range_check_def ithen_ok iassert_ok ilift_ok to_bytes_le_def)

lemma select_ok [ok_simps]:
  "select c x y s = Inr (z, s') \<longleftrightarrow> is_bool_fq c \<and> z = (if c = 1 then x else y) \<and> s' = s"
  by (auto simp: select_def ithen_ok iassert_ok iret_ok is_bool_fq_def)

lemma is_bool_fq_of_bool [simp]: "is_bool_fq (fq_of_bool b)" "is_bool_fq 0" "is_bool_fq 1"
  by (auto simp: is_bool_fq_def)

lemma is_zero_simp: "is_zero x = fq_of_bool (x = 0)"
  by (simp add: is_zero_def)

lemma is_equal_simp: "is_equal x y = fq_of_bool (x = y)"
  by (simp add: is_equal_def is_zero_def)

lemma constant_divmod_ok [ok_simps]:
  "constant_divmod x y n s = Inr (qr, s') \<longleftrightarrow>
     fq_n y \<noteq> 0 \<and> n \<le> 31 \<and> fq_n x div fq_n y < 256 ^ n \<and>
     qr = (FQ (fq_n x div fq_n y), FQ (fq_n x mod fq_n y)) \<and> s' = s"
proof (cases "fq_n y = 0")
  case True
  then show ?thesis by (simp add: constant_divmod_def ilift_ok)
next
  case False
  then have "0 < fq_n y" using fq_n_nonneg [of y] by linarith
  then have "0 \<le> fq_n x div fq_n y" "fq_n x div fq_n y < fq_modulus"
    using int_div_le [of "fq_n x" "fq_n y"] fq_n_lt [of x]
    by (simp_all add: pos_imp_zdiv_nonneg_iff del: fq_n_lt)
  with False show ?thesis
    by (auto simp: constant_divmod_def Let_def ibind_ok range_check_ok iret_ok)
qed

lemma compare_ok [ok_simps]:
  "compare x y n s = Inr (r, s') \<longleftrightarrow>
     n \<le> 31 \<and> fq_n x < 256 ^ n \<and> fq_n y < 256 ^ n \<and>
     r = (fq_of_bool (fq_n x < fq_n y), fq_of_bool (fq_n x = fq_n y)) \<and> s' = s"
  by (auto simp: compare_def ithen_ok iassert_ok iret_ok)

lemma int_value_less:
  assumes "word_ok v" "word_ok w"
  shows "int_value v < int_value w \<longleftrightarrow>
    fq_n (hi v) < fq_n (hi w) \<or> fq_n (hi v) = fq_n (hi w) \<and> fq_n (lo v) < fq_n (lo w)"
proof -
  have lt: "int_value v < int_value w" if "word_ok v" "fq_n (hi v) < fq_n (hi w)" for v w
  proof -
    have "(fq_n (hi v) + 1) * 2 ^ 128 \<le> fq_n (hi w) * 2 ^ 128"
      using that(2) by (intro mult_right_mono) simp_all
    with that(1) fq_n_nonneg [of "lo w"] show ?thesis
      by (simp add: word_ok_def int_value_def algebra_simps del: fq_n_nonneg)
  qed
  have "int_value v < int_value w \<longleftrightarrow> fq_n (lo v) < fq_n (lo w)" if "fq_n (hi v) = fq_n (hi w)"
    using that by (simp add: int_value_def)
  with lt [OF assms(1)] lt [OF assms(2), of v] show ?thesis
    by (metis linorder_less_linear order_less_asym)
qed

lemma compare_word_ok [ok_simps]:
  "compare_word v w s = Inr (r, s') \<longleftrightarrow>
     word_ok v \<and> word_ok w \<and>
     r = (fq_of_bool (int_value v < int_value w), fq_of_bool (v = w)) \<and> s' = s"
proof -
  have sum: "fq_of_bool (fq_n (hi v) < fq_n (hi w)) +
      fq_of_bool (hi v = hi w \<and> fq_n (lo v) < fq_n (lo w)) =
      fq_of_bool (fq_n (hi v) < fq_n (hi w) \<or> hi v = hi w \<and> fq_n (lo v) < fq_n (lo w))"
    by (cases "fq_n (hi v) < fq_n (hi w)") auto
  have eq: "v = w \<longleftrightarrow> hi v = hi w \<and> lo v = lo w"
    by (auto intro: word256.expand)
  show ?thesis
    by (auto simp: compare_word_def ibind_ok compare_ok iret_ok word_ok_def int_value_less
        fq_eq_iff [symmetric] sum eq)
qed

lemma max_ok [ok_simps]:
  "instr_max x y n s = Inr (z, s') \<longleftrightarrow>
     n \<le> 31 \<and> fq_n x < 256 ^ n \<and> fq_n y < 256 ^ n \<and>
     z = (if fq_n x < fq_n y then y else x) \<and> s' = s"
  by (auto simp: instr_max_def ibind_ok compare_ok select_ok)

lemma min_ok [ok_simps]:
  "instr_min x y n s = Inr (z, s') \<longleftrightarrow>
     n \<le> 31 \<and> fq_n x < 256 ^ n \<and> fq_n y < 256 ^ n \<and>
     z = (if fq_n x < fq_n y then x else y) \<and> s' = s"
  by (auto simp: instr_min_def ibind_ok compare_ok select_ok)


section \<open>Bytes and words\<close>

lemma map_fq_n_FQ_bytes: "(\<And>b. b \<in> set bs \<Longrightarrow> is_byte b) \<Longrightarrow> map fq_n (map FQ bs) = bs"
proof (induction bs)
  case (Cons b bs)
  then have "0 \<le> b" "b < 256" by (simp_all add: is_byte_def)
  with Cons show ?case by (simp add: fq_modulus_def)
qed simp

lemma sum_bytes_small:
  assumes "\<forall>b\<in>set bs. is_byte b" "length bs \<le> 32"
  shows "0 \<le> sum_list bs \<and> sum_list bs < fq_modulus \<and> (sum_list bs = 0 \<longleftrightarrow> le_val bs = 0)"
proof -
  have "0 \<le> sum_list bs \<and> 0 \<le> le_val bs \<and> sum_list bs \<le> 256 * int (length bs) \<and>
      (sum_list bs = 0 \<longleftrightarrow> le_val bs = 0)"
    using assms(1)
  proof (induction bs)
    case (Cons b bs)
    then show ?case by (simp add: is_byte_def) linarith
  qed simp
  then show ?thesis using assms(2) by (auto simp: fq_modulus_def)
qed

lemma sum_list_FQ: "sum_list (map FQ bs) = FQ (sum_list bs)"
  by (induction bs) (simp_all add: FQ_arith)

lemma instr_bytes_to_fq_ok [ok_simps]:
  "instr_bytes_to_fq bs s = Inr (x, s') \<longleftrightarrow>
     (\<forall>b\<in>set bs. fq_n b < 256) \<and> length bs \<le> 31 \<and> x = FQ (le_val (map fq_n bs)) \<and> s' = s"
  by (auto simp: instr_bytes_to_fq_def ithen_ok ilift_ok iassert_ok iret_ok raise_unless_ok)

lemma word_to_fq_ok [ok_simps]:
  assumes "n \<le> 31"
  shows "word_to_fq w n s = Inr (x, s') \<longleftrightarrow>
     word_ok w \<and> int_value w < 256 ^ n \<and> x = FQ (int_value w) \<and> s' = s"
proof (cases "word_ok w")
  case False
  then show ?thesis by (simp add: word_to_fq_def ibind_ok ilift_ok to_le_bytes_ok)
next
  case ok: True
  let ?v = "int_value w" and ?bs = "le_bytes 32 (int_value w)"
  have v: "0 \<le> ?v" "?v < 2 ^ 256" by (rule int_value_nonneg, rule int_value_lt [OF ok])
  have run: "word_to_fq w n s = (if sum_list (drop n (map FQ ?bs)) \<noteq> 0
      then ilift (Inl ConstraintUnsatFailure) s
      else instr_bytes_to_fq (take n (map FQ ?bs)) s)"
    using ok by (simp add: word_to_fq_def ibind_def ilift_def to_le_bytes_ok [THEN iffD2]
        del: le_bytes.simps)
  have d: "drop n ?bs = le_bytes (32 - n) (?v div 256 ^ n)" by (rule drop_le_bytes)
  have t: "take n ?bs = le_bytes n ?v" using assms by (simp add: take_le_bytes min_def)
  have q: "0 \<le> ?v div 256 ^ n" "?v div 256 ^ n < 256 ^ (32 - n)"
  proof -
    have "(256::int) ^ 32 = 256 ^ (32 - n) * 256 ^ n"
      using assms by (simp flip: power_add)
    with v(2) have "?v < 256 ^ (32 - n) * 256 ^ n" by simp
    then show "?v div 256 ^ n < 256 ^ (32 - n)"
      by (rule int_div_lt) simp
    show "0 \<le> ?v div 256 ^ n" using v by (simp add: pos_imp_zdiv_nonneg_iff)
  qed
  have "sum_list (drop n (map FQ ?bs)) = FQ (sum_list (drop n ?bs))"
    by (simp only: drop_map sum_list_FQ)
  moreover have "0 \<le> sum_list (drop n ?bs) \<and> sum_list (drop n ?bs) < fq_modulus \<and>
      (sum_list (drop n ?bs) = 0 \<longleftrightarrow> le_val (drop n ?bs) = 0)"
    by (rule sum_bytes_small) (auto simp: d le_bytes_is_byte simp del: le_bytes.simps)
  moreover have "le_val (drop n ?bs) = ?v div 256 ^ n"
    using q by (simp add: d del: le_bytes.simps)
  ultimately have "sum_list (drop n (map FQ ?bs)) = 0 \<longleftrightarrow> ?v div 256 ^ n = 0"
    by (simp add: fq_eq_iff)
  also have "\<dots> \<longleftrightarrow> ?v < 256 ^ n"
  proof
    assume "?v div 256 ^ n = 0"
    then show "?v < 256 ^ n"
      using mod_div_mult_eq [of ?v "256 ^ n"] pos_mod_bound [of "256 ^ n" ?v] by simp
  qed (use v in simp)
  finally have top: "sum_list (drop n (map FQ ?bs)) = 0 \<longleftrightarrow> ?v < 256 ^ n" .
  define cs where "cs = take n (map FQ ?bs)"
  have cs: "map fq_n cs = le_bytes n ?v"
    unfolding cs_def take_map t by (rule map_fq_n_FQ_bytes) (rule le_bytes_is_byte)
  then have len: "length cs = n" by (metis length_le_bytes length_map)
  have "\<forall>b\<in>set (map fq_n cs). b < 256"
    unfolding cs using le_bytes_is_byte by (auto simp: is_byte_def)
  then have small: "\<forall>b\<in>set cs. fq_n b < 256" by simp
  have bytes: "instr_bytes_to_fq cs s = Inr (x, s') \<longleftrightarrow> x = FQ (?v mod 256 ^ n) \<and> s' = s"
    unfolding instr_bytes_to_fq_ok cs len le_val_le_bytes using assms small by blast
  have m: "?v < 256 ^ n \<Longrightarrow> ?v mod 256 ^ n = ?v" using v by simp
  show ?thesis
    unfolding run top cs_def [symmetric] using ok m bytes
    by (cases "?v < 256 ^ n") (simp_all add: ilift_def)
qed


lemma is_neg_word_ok [ok_simps]:
  "is_neg_word w s = Inr (x, s') \<longleftrightarrow>
     fq_n (hi w) < 2 ^ 128 \<and> x = fq_of_bool (2 ^ 127 \<le> fq_n (hi w)) \<and> s' = s"
  by (auto simp: is_neg_word_def ibind_ok compare_ok iret_ok fq_modulus_def
      intro!: arg_cong [where f = fq_of_bool])

lemma high_bit: "word_ok w \<Longrightarrow> 2 ^ 127 \<le> fq_n (hi w) \<longleftrightarrow> 2 ^ 255 \<le> int_value w"
  unfolding word_ok_def int_value_def using fq_n_nonneg [of "lo w"]
  by (simp del: fq_n_nonneg) linarith

lemma int_value_zero: "int_value w = 0 \<longleftrightarrow> w = WordLH 0 0"
proof
  assume "int_value w = 0"
  then have "fq_n (lo w) = 0 \<and> fq_n (hi w) = 0"
    using fq_n_nonneg [of "lo w"] fq_n_nonneg [of "hi w"] unfolding int_value_def
    by (simp del: fq_n_nonneg)
  then have "lo w = 0" "hi w = 0" by (simp_all add: fq_eq_iff)
  then show "w = WordLH 0 0" by (cases w) simp
qed (simp add: int_value_def)

lemma word_ok_simps [simp]: "word_ok (WordLH 0 0)" "int_value (WordLH 0 0) = 0"
  by (simp_all add: word_ok_def int_value_def)

lemma word_ok_FQ:
  assumes "0 \<le> x" "x < 2 ^ 128" "0 \<le> y" "y < 2 ^ 128"
  shows "word_ok (WordLH (FQ x) (FQ y))" "int_value (WordLH (FQ x) (FQ y)) = x + y * 2 ^ 128"
  using assms lt_pow128 [of x] lt_pow128 [of y]
  by (simp_all only: word_ok_def int_value_def word256.sel fq_n_FQ mod_pos_pos_trivial conj_absorb)

lemma word_halves:
  assumes "word_ok w"
  shows "0 \<le> fq_n (lo w)" "fq_n (lo w) < 2 ^ 128" "0 \<le> fq_n (hi w)" "fq_n (hi w) < 2 ^ 128"
  using assms unfolding word_ok_def by simp_all

text \<open>
  A sum of two 128-bit numbers and a carry never reaches the modulus, so the constraints of
  \<open>abs_word\<close> on sums hold by construction, and the two on the products with \<open>is_neg\<close> carry
  the meaning.
\<close>

lemma word_neg_sum:
  assumes "word_ok x" "0 < int_value x"
  defines "y \<equiv> word_of (2 ^ 256 - int_value x)"
  shows "(fq_n (lo x) + fq_n (lo y)) mod 2 ^ 128 = 0"
    and "(fq_n (hi x) + fq_n (hi y) + (fq_n (lo x) + fq_n (lo y)) div 2 ^ 128) mod 2 ^ 128 = 0"
    and "(fq_n (hi x) + fq_n (hi y) + (fq_n (lo x) + fq_n (lo y)) div 2 ^ 128) div 2 ^ 128 = 1"
proof -
  have y: "word_ok y" "int_value y = 2 ^ 256 - int_value x"
    using word_of_ok [of "2 ^ 256 - int_value x"] assms(2) int_value_lt [OF assms(1)]
    unfolding y_def by auto
  define L where "L = fq_n (lo x) + fq_n (lo y)"
  define H where "H = fq_n (hi x) + fq_n (hi y) + L div 2 ^ 128"
  have "L + (fq_n (hi x) + fq_n (hi y)) * 2 ^ 128 = 2 ^ 256"
    using y(2) unfolding int_value_def L_def by simp
  moreover have "L = L mod 2 ^ 128 + L div 2 ^ 128 * 2 ^ 128" by (simp only: mod_div_mult_eq)
  ultimately have eq: "L mod 2 ^ 128 + H * 2 ^ 128 = 0 + 2 ^ 128 * 2 ^ 128"
    unfolding H_def by simp
  have "L mod 2 ^ 128 = 0" "H = 2 ^ 128"
    using base_split_unique [of "L mod 2 ^ 128" "2 ^ 128" 0 H "2 ^ 128", OF _ _ _ _ eq] by simp_all
  then show "(fq_n (lo x) + fq_n (lo y)) mod 2 ^ 128 = 0"
    and "(fq_n (hi x) + fq_n (hi y) + (fq_n (lo x) + fq_n (lo y)) div 2 ^ 128) mod 2 ^ 128 = 0"
    and "(fq_n (hi x) + fq_n (hi y) + (fq_n (lo x) + fq_n (lo y)) div 2 ^ 128) div 2 ^ 128 = 1"
    unfolding L_def [symmetric] H_def [symmetric] by simp_all
qed

lemma split_sum_fq:
  "FQ ((x + y) mod m) + FQ ((x + y) div m) * FQ m = FQ x + FQ y"
  unfolding FQ_arith [symmetric] by (simp only: mod_div_mult_eq)

lemma abs_word_ok:
  assumes ok: "word_ok x"
  shows "abs_word x s = Inr (r, s') \<longleftrightarrow>
    r = (word_of (if 2 ^ 255 \<le> int_value x then 2 ^ 256 - int_value x else int_value x),
         fq_of_bool (2 ^ 255 \<le> int_value x)) \<and> s' = s"
proof (cases "2 ^ 255 \<le> int_value x")
  case False
  have "fq_n (hi x) < 2 ^ 128" "\<not> 2 ^ 127 \<le> fq_n (hi x)"
    using ok False by (simp_all only: word_ok_def high_bit) simp_all
  then have neg: "is_neg_word x t = Inr (0, t)" for t
    by (simp add: is_neg_word_ok)
  have "abs_word x s = Inr ((x, 0), s)"
    by (simp add: abs_word_def ibind_def neg iret_def ithen_def constrain_zero_def iassert_def
        ilift_def split_sum_fq sum_values_def FQ_arith(3))
  with False show ?thesis
    by (auto simp: word_of_int_value [OF ok])
next
  case True
  have "fq_n (hi x) < 2 ^ 128" "2 ^ 127 \<le> fq_n (hi x)"
    using ok True by (simp_all only: word_ok_def high_bit)
  then have neg: "is_neg_word x t = Inr (1, t)" for t
    by (simp add: is_neg_word_ok)
  have pos: "0 < int_value x" using True by simp
  define y where "y = word_of (2 ^ 256 - int_value x)"
  have y: "word_of_int256 (2 ^ 256 - int_value x) = Inr y"
    using pos int_value_lt [OF ok] by (simp add: word_of_int256_ok y_def)
  define M :: int where "M = 2 ^ 128"
  note sums = word_neg_sum [OF ok pos, folded y_def M_def]
  have "abs_word x s = Inr ((y, 1), s)"
    unfolding abs_word_def ibind_def neg rbind_simps prod.case one_neq_zero if_False ilift_def y
      Let_def M_def [symmetric]
    using split_sum_fq [of "fq_n (lo x)" "fq_n (lo y)" M]
      split_sum_fq [of "fq_n (hi x) + fq_n (hi y)" "(fq_n (lo x) + fq_n (lo y)) div M" M]
    by (simp add: sums ithen_def ibind_def constrain_zero_def iassert_def iret_def
        ilift_def sum_values_def FQ_arith(3))
  with True y_def show ?thesis by auto
qed

end
