(* ===== verification/Word_Gadgets.thy ===== *)
theory Word_Gadgets
  imports Instruction_Facts
begin

text \<open>
  The word arithmetic of class \<open>Instruction\<close> against the integers: subtraction with borrow,
  multiplication by a 64-bit number, the multiply-add gadget modulo \<open>2 ^ 256\<close> and the 512-bit one.
\<close>

section \<open>Subtraction\<close>

lemma sub_word_ok:
  assumes ok: "word_ok a" "word_ok b"
  shows "sub_word a b s = Inr (r, s') \<longleftrightarrow>
    r = (word_of ((int_value a - int_value b) mod 2 ^ 256), fq_of_bool (int_value a < int_value b)) \<and>
    s' = s"
proof -
  define M :: int where "M = 2 ^ 128"
  define bl where "bl \<longleftrightarrow> fq_n (lo a) < fq_n (lo b)"
  define bi where "bi = (if bl then 1 else 0 :: int)"
  define bh where "bh \<longleftrightarrow> fq_n (hi a) < fq_n (hi b) + bi"
  define dl where "dl = fq_n (lo a) - fq_n (lo b) + (if bl then M else 0)"
  define dh where "dh = fq_n (hi a) - fq_n (hi b) - bi + (if bh then M else 0)"
  note ha = word_halves [OF ok(1), folded M_def] and hb = word_halves [OF ok(2), folded M_def]
  have rl: "0 \<le> dl" "dl < M" and rh: "0 \<le> dh" "dh < M"
    using ha hb unfolding dl_def dh_def bl_def bh_def bi_def
    by (auto simp: M_def simp del: fq_n_nonneg)
  have fl: "lo a - lo b + FQ (if bl then M else 0) = FQ dl"
    unfolding dl_def by (simp only: FQ_arith FQ_fq_n)
  have fh: "hi a - hi b - FQ bi + FQ (if bh then M else 0) = FQ dh"
    unfolding dh_def by (simp only: FQ_arith FQ_fq_n)
  note w = word_ok_FQ [OF rl [unfolded M_def] rh [unfolded M_def], folded M_def]
  have MM: "(2::int) ^ 256 = M * M" by (simp add: M_def)
  have "dl + dh * M = int_value a - int_value b + (if bh then M * M else 0)"
    unfolding dl_def dh_def int_value_def M_def [symmetric] bi_def by (auto simp: algebra_simps)
  then have val: "int_value (WordLH (FQ dl) (FQ dh)) =
      int_value a - int_value b + (if bh then M * M else 0)"
    by (simp only: w)
  have lt: "bh \<longleftrightarrow> int_value a < int_value b"
    unfolding int_value_less [OF ok] bh_def bi_def bl_def by auto
  have "int_value (WordLH (FQ dl) (FQ dh)) = (int_value a - int_value b) mod 2 ^ 256"
  proof -
    have "int_value (WordLH (FQ dl) (FQ dh)) = int_value (WordLH (FQ dl) (FQ dh)) mod 2 ^ 256"
      using int_value_nonneg int_value_lt [OF w(1)] by (simp del: w)
    also have "\<dots> = (int_value a - int_value b) mod 2 ^ 256"
      unfolding val MM by (cases bh) simp_all
    finally show ?thesis .
  qed
  then have word: "WordLH (FQ dl) (FQ dh) = word_of ((int_value a - int_value b) mod 2 ^ 256)"
    using word_of_int_value [OF w(1)] by simp
  have "word_of_tuple (FQ dl) (FQ dh) = Inr (WordLH (FQ dl) (FQ dh))"
    using w(1) by (simp add: word_of_tuple_ok)
  then show ?thesis
    unfolding sub_word_def Let_def M_def [symmetric] bl_def [symmetric] bi_def [symmetric]
      bh_def [symmetric] fl fh
    by (auto simp: ibind_ok ilift_ok iret_ok word lt)
qed

section \<open>Multiplication by a 64-bit number\<close>

lemma mul_word_by_u64_ok:
  assumes ok: "word_ok a" "fq_n m < 2 ^ 64"
  shows "mul_word_by_u64 a m s = Inr (r, s') \<longleftrightarrow>
    int_value a * fq_n m < 2 ^ 256 \<and> r = word_of (int_value a * fq_n m) \<and> s' = s"
proof -
  define M :: int where "M = 2 ^ 128"
  have M: "0 < M" "M * 2 ^ 65 < fq_modulus" by (simp_all add: M_def fq_modulus_def)
  have bound: "0 \<le> x * fq_n m" "x * fq_n m \<le> (M - 1) * (2 ^ 64 - 1)" if "0 \<le> x" "x < M" for x
  proof -
    show "0 \<le> x * fq_n m" using that by simp
    show "x * fq_n m \<le> (M - 1) * (2 ^ 64 - 1)"
      by (rule mult_mono) (use that ok M in simp_all)
  qed
  note ha = word_halves [OF ok(1), folded M_def]
  note bl = bound [OF ha(1,2)] and bh = bound [OF ha(3,4)]
  define L where "L = fq_n (lo a) * fq_n m"
  define H where "H = fq_n (hi a) * fq_n m + L div M"
  have ql: "0 \<le> L div M" "L div M \<le> L"
    using M bl unfolding L_def by (simp_all add: pos_imp_zdiv_nonneg_iff int_div_le)
  have big: "(M - 1) * (2 ^ 64 - 1) + (M - 1) * (2 ^ 64 - 1) < fq_modulus"
    by (simp add: M_def fq_modulus_def)
  have nl: "fq_n (lo a * m) = L"
    unfolding L_def by (rule fq_n_mult_small) (use bl big in linarith)
  have nq: "fq_n (FQ (L div M)) = L div M"
    by (rule fq_n_FQ_small) (use ql bl big L_def in linarith)+
  have nh: "fq_n (hi a * m + FQ (L div M)) = H"
  proof -
    have "fq_n (hi a * m) = fq_n (hi a) * fq_n m"
      by (rule fq_n_mult_small) (use bh big in linarith)
    then show ?thesis
      unfolding H_def using fq_n_add_small [of "hi a * m" "FQ (L div M)"] nq ql bl bh big L_def
      by linarith
  qed
  have H: "0 \<le> H" "H div M \<le> H" "0 \<le> H div M"
    using bh ql M unfolding H_def by (simp_all add: int_div_le pos_imp_zdiv_nonneg_iff)
  have "H < fq_modulus" using nh fq_n_lt [of "hi a * m + FQ (L div M)"] by simp
  then have hz: "FQ (H div M) = 0 \<longleftrightarrow> H div M = 0"
    using FQ_inject [of "H div M" 0] H by simp
  have total: "int_value a * fq_n m = L mod M + H mod M * M + H div M * (M * M)"
    using two_level_carry [of L "fq_n (hi a) * fq_n m" M]
    unfolding int_value_def L_def H_def M_def [symmetric] by (simp add: algebra_simps)
  have r: "0 \<le> L mod M" "L mod M < M" "0 \<le> H mod M" "H mod M < M" using M by simp_all
  note w = word_ok_FQ [OF r [unfolded M_def], folded M_def]
  have tuple: "word_of_tuple (FQ (L mod M)) (FQ (H mod M)) = Inr (WordLH (FQ (L mod M)) (FQ (H mod M)))"
    using w(1) by (simp add: word_of_tuple_ok)
  have MM: "(2::int) ^ 256 = M * M" by (simp add: M_def)
  have zero: "H div M = 0 \<longleftrightarrow> int_value a * fq_n m < 2 ^ 256"
  proof
    assume "H div M = 0"
    then have "int_value a * fq_n m = int_value (WordLH (FQ (L mod M)) (FQ (H mod M)))"
      using total by (simp only: w mult_zero_left add_0_right)
    then show "int_value a * fq_n m < 2 ^ 256" using int_value_lt [OF w(1)] by simp
  next
    assume lt: "int_value a * fq_n m < 2 ^ 256"
    show "H div M = 0"
    proof (rule ccontr)
      assume "H div M \<noteq> 0"
      then have "1 * (M * M) \<le> H div M * (M * M)" using H M by (intro mult_right_mono) simp_all
      moreover have "0 \<le> H mod M * M" using r M by simp
      ultimately show False using lt total r unfolding MM by linarith
    qed
  qed
  have word: "WordLH (FQ (L mod M)) (FQ (H mod M)) = word_of (int_value a * fq_n m)" if "H div M = 0"
    using that total word_of_int_value [OF w(1)] by (simp only: w mult_zero_left add_0_right)
  show ?thesis
    unfolding mul_word_by_u64_def Let_def M_def [symmetric] nl nh
    using word by (auto simp: ithen_ok constrain_ok ilift_ok tuple hz zero)
qed

section \<open>Multiply and add\<close>

lemma iiter_equal_ok: "iiter (\<lambda>(l, r). constrain_equal l r) xs s = Inr (u, s') \<longleftrightarrow>
    (\<forall>(l, r)\<in>set xs. l = r) \<and> s' = s"
  by (induction xs arbitrary: s) (auto simp: iiter_def ok_simps split: prod.splits)

lemma instr_mul_add_words_sound:
  assumes pfi: "prime_field_inv_spec (ext_prime_field_inv (i_ext I))"
    and ok: "word_ok c" "word_ok d"
    and run: "instr_mul_add_words I a b c d s = Inr (ov, s')"
  shows "s' = s \<and> word_ok a \<and> word_ok b \<and>
    (\<exists>k\<ge>0. int_value a * int_value b + int_value c = int_value d + k * 2 ^ 256 \<and> (ov = 0 \<longleftrightarrow> k = 0))"
proof -
  from run obtain cl ch eqs where
    m: "mul_add_words (ext_prime_field_inv (i_ext I)) a b c d = Inr (ov, (cl, ch), eqs)"
    and r: "fq_n cl < 256 ^ 9" "fq_n ch < 256 ^ 9" and s: "s' = s"
    unfolding instr_mul_add_words_def
    by (auto simp: ibind_ok ilift_ok ithen_ok iret_ok range_check_ok iiter_equal_ok)
  obtain a0 a1 a2 a3 b0 b1 b2 b3 where "to_64s a = Inr (a0, a1, a2, a3)"
    "to_64s b = Inr (b0, b1, b2, b3)"
    by (rule mul_add_words_limbs [OF m])
  then show ?thesis
    using mul_add_words_sound [OF pfi ok m] r s to_64s_limbs(1) by simp
qed

lemma instr_mul_add_words_complete:
  assumes pfi: "prime_field_inv_spec (ext_prime_field_inv (i_ext I))"
    and ok: "word_ok a" "word_ok b" "word_ok c" "word_ok d"
    and eq: "(int_value a * int_value b + int_value c) mod 2 ^ 256 = int_value d"
  shows "\<exists>ov. instr_mul_add_words I a b c d s = Inr (ov, s)"
proof -
  obtain ov cl ch eqs where "mul_add_words (ext_prime_field_inv (i_ext I)) a b c d =
      Inr (ov, (cl, ch), eqs)" "fq_n cl < 2 ^ 72" "fq_n ch < 2 ^ 72" "\<forall>(l, r)\<in>set eqs. l = r"
    using mul_add_words_complete [OF pfi ok eq] by blast
  then have "instr_mul_add_words I a b c d s = Inr (ov, s)"
    unfolding instr_mul_add_words_def
    by (simp add: ibind_ok ilift_ok ithen_ok iret_ok range_check_ok iiter_equal_ok)
  then show ?thesis ..
qed

section \<open>The 512-bit product\<close>

text \<open>The schoolbook product with nothing dropped: four equations between limbs add up to it.\<close>

lemma schoolbook_512:
  fixes m :: int
  assumes "a0 * b0 + (a0 * b1 + a1 * b0) * m + cl = el + k0 * (m * m)"
    and "a0 * b2 + a1 * b1 + a2 * b0 + (a0 * b3 + a1 * b2 + a2 * b1 + a3 * b0) * m + ch + k0
        = eh + k1 * (m * m)"
    and "a1 * b3 + a2 * b2 + a3 * b1 + (a2 * b3 + a3 * b2) * m + k1 = dl + k2 * (m * m)"
    and "a3 * b3 + k2 = dh"
  shows "(a0 + a1 * m + (a2 + a3 * m) * (m * m)) * (b0 + b1 * m + (b2 + b3 * m) * (m * m))
      + (cl + ch * (m * m))
    = (dl + dh * (m * m)) * (m * m * (m * m)) + (el + eh * (m * m))"
  using assms by algebra

definition partial_top :: "fq \<Rightarrow> fq \<Rightarrow> fq \<Rightarrow> fq \<Rightarrow> fq \<Rightarrow> fq \<Rightarrow> int" where
  "partial_top a1 a2 a3 b1 b2 b3 =
     fq_n a1 * fq_n b3 + fq_n a2 * fq_n b2 + fq_n a3 * fq_n b1
     + (fq_n a2 * fq_n b3 + fq_n a3 * fq_n b2) * 2 ^ 64"

lemma partial_top_fq:
  assumes "fq_n a1 < 2 ^ 64" "fq_n a2 < 2 ^ 64" "fq_n a3 < 2 ^ 64"
    "fq_n b1 < 2 ^ 64" "fq_n b2 < 2 ^ 64" "fq_n b3 < 2 ^ 64"
  shows "a1 * b3 + a2 * b2 + a3 * b1 + (a2 * b3 + a3 * b2) * FQ (2 ^ 64)
      = FQ (partial_top a1 a2 a3 b1 b2 b3)"
    and "0 \<le> partial_top a1 a2 a3 b1 b2 b3" "partial_top a1 a2 a3 b1 b2 b3 < 2 ^ 199"
proof -
  show "a1 * b3 + a2 * b2 + a3 * b1 + (a2 * b3 + a3 * b2) * FQ (2 ^ 64)
      = FQ (partial_top a1 a2 a3 b1 b2 b3)"
    by (simp only: partial_top_def FQ_arith FQ_fq_n)
  show "0 \<le> partial_top a1 a2 a3 b1 b2 b3" "partial_top a1 a2 a3 b1 b2 b3 < 2 ^ 199"
    using limb_product [of "fq_n a1" "fq_n b3"] limb_product [of "fq_n a2" "fq_n b2"]
      limb_product [of "fq_n a3" "fq_n b1"] limb_product [of "fq_n a2" "fq_n b3"]
      limb_product [of "fq_n a3" "fq_n b2"] assms
    by (simp_all add: partial_top_def)
qed

lemma ilift_Inr: "ibind (ilift (Inr x)) f = f x"
  by simp

lemma ibind_ilift: "ibind (ilift m) f s = Inr r \<longleftrightarrow> (\<exists>x. m = Inr x \<and> f x s = Inr r)"
  by (cases m) (auto simp: ibind_def ilift_def)

lemma mul_add_words_512_sound:
  assumes pfi: "prime_field_inv_spec (ext_prime_field_inv (i_ext I))"
    and ok: "word_ok c" "word_ok d" "word_ok e"
    and run: "mul_add_words_512 I a b c d e s = Inr (u, s')"
  shows "s' = s \<and> word_ok a \<and> word_ok b \<and>
    int_value a * int_value b + int_value c = int_value d * 2 ^ 256 + int_value e"
proof -
  obtain A where A: "to_64s a = Inr A"
    using run unfolding mul_add_words_512_def ibind_ilift by blast
  obtain a0 a1 a2 a3 where "A = (a0, a1, a2, a3)" by (cases A)
  with A have a: "to_64s a = Inr (a0, a1, a2, a3)" by simp
  obtain B where B: "to_64s b = Inr B"
    using run unfolding mul_add_words_512_def a ilift_Inr prod.case ibind_ilift by blast
  obtain b0 b1 b2 b3 where "B = (b0, b1, b2, b3)" by (cases B)
  with B have b: "to_64s b = Inr (b0, b1, b2, b3)" by simp
  note la = to_64s_limbs [OF a] and lb = to_64s_limbs [OF b]
  note c = word_halves(2,4) [OF ok(1)] and d = word_halves(2,4) [OF ok(2)]
    and e = word_halves(2,4) [OF ok(3)]
  let ?X = "partial_lo a0 a1 b0 b1 (lo c)" and ?Y = "partial_hi a0 a1 a2 a3 b0 b1 b2 b3 (hi c)"
    and ?Z = "partial_top a1 a2 a3 b1 b2 b3" and ?pfi = "ext_prime_field_inv (i_ext I)"
  note X = partial_lo_fq [OF la(2,3) lb(2,3) c(1)]
  note Y = partial_hi_fq [OF la(2-5) lb(2-5) c(2)]
  note Z = partial_top_fq [OF la(3-5) lb(3-5)]
  define k0 where "k0 = fq_div ?pfi (FQ ?X - lo e) (FQ (2 ^ 128))"
  define k1 where "k1 = fq_div ?pfi (FQ ?Y + k0 - hi e) (FQ (2 ^ 128))"
  define k2 where "k2 = fq_div ?pfi (FQ ?Z + k1 - lo d) (FQ (2 ^ 128))"
  have "ibind (range_check k0 9) (\<lambda>_. ibind (range_check k1 9) (\<lambda>_. ibind (range_check k2 9) (\<lambda>_.
      ithen (constrain_equal (FQ ?X) (lo e + k0 * FQ (2 ^ 128)))
     (ithen (constrain_equal (FQ ?Y + k0) (hi e + k1 * FQ (2 ^ 128)))
     (ithen (constrain_equal (FQ ?Z + k1) (lo d + k2 * FQ (2 ^ 128)))
       (constrain_equal (a3 * b3 + k2) (hi d))))))) s = Inr (u, s')"
    using run
    by (simp only: mul_add_words_512_def a b ilift_Inr Let_def X(1) Y(1) Z(1)
        k0_def [symmetric] k1_def [symmetric] k2_def [symmetric] prod.case)
  then have r: "fq_n k0 < 2 ^ 72" "fq_n k1 < 2 ^ 72" "fq_n k2 < 2 ^ 72" and s: "s' = s"
    and top: "a3 * b3 + k2 = hi d"
    by (simp_all add: ok_simps)
  have eqX: "?X = fq_n (lo e) + fq_n k0 * 2 ^ 128"
    by (rule carry_equation [OF pfi k0_def r(1) e(1) X(2)]) (use X(3) in simp)
  have k1: "k1 = fq_div ?pfi (FQ (?Y + fq_n k0) - hi e) (FQ (2 ^ 128))"
    unfolding k1_def by (simp only: FQ_arith FQ_fq_n)
  have eqY: "?Y + fq_n k0 = fq_n (hi e) + fq_n k1 * 2 ^ 128"
    by (rule carry_equation [OF pfi k1 r(2) e(2)]) (use Y(2,3) r(1) in simp_all)
  have k2: "k2 = fq_div ?pfi (FQ (?Z + fq_n k1) - lo d) (FQ (2 ^ 128))"
    unfolding k2_def by (simp only: FQ_arith FQ_fq_n)
  have eqZ: "?Z + fq_n k1 = fq_n (lo d) + fq_n k2 * 2 ^ 128"
    by (rule carry_equation [OF pfi k2 r(3) d(1)]) (use Z(2,3) r(2) in simp_all)
  have "fq_n (a3 * b3) = fq_n a3 * fq_n b3" "fq_n a3 * fq_n b3 \<le> (2 ^ 64 - 1) * (2 ^ 64 - 1)"
    using limb_product [of "fq_n a3" "fq_n b3"] la(5) lb(5)
    by (simp_all add: fq_n_mult_small fq_modulus_def)
  then have eqT: "fq_n a3 * fq_n b3 + fq_n k2 = fq_n (hi d)"
    using top r(3) fq_n_add_small [of "a3 * b3" k2] by (simp add: fq_modulus_def)
  have m: "(2::int) ^ 128 = 2 ^ 64 * 2 ^ 64" "(2::int) ^ 256 = 2 ^ 64 * 2 ^ 64 * (2 ^ 64 * 2 ^ 64)"
    by simp_all
  have "int_value a * int_value b + int_value c = int_value d * 2 ^ 256 + int_value e"
    unfolding int_value_def la(6,7) lb(6,7) m
    by (rule schoolbook_512)
      (use eqX eqY eqZ eqT in \<open>simp_all only: partial_lo_def partial_hi_def partial_top_def m add.assoc\<close>)
  with la(1) lb(1) s show ?thesis by simp
qed

lemma mul_add_words_512_complete:
  assumes pfi: "prime_field_inv_spec (ext_prime_field_inv (i_ext I))"
    and ok: "word_ok a" "word_ok b" "word_ok c" "word_ok d" "word_ok e"
    and eq: "int_value a * int_value b + int_value c = int_value d * 2 ^ 256 + int_value e"
  shows "mul_add_words_512 I a b c d e s = Inr ((), s)"
proof -
  obtain a0 a1 a2 a3 where a: "to_64s a = Inr (a0, a1, a2, a3)"
    using to_64s_total [OF ok(1)] by blast
  obtain b0 b1 b2 b3 where b: "to_64s b = Inr (b0, b1, b2, b3)"
    using to_64s_total [OF ok(2)] by blast
  note la = to_64s_limbs [OF a] and lb = to_64s_limbs [OF b]
  note c = word_halves(2,4) [OF ok(3)] and d = word_halves [OF ok(4)] and e = word_halves [OF ok(5)]
  define M :: int where "M = 2 ^ 128"
  have M: "0 < M" by (simp add: M_def)
  define X where "X = partial_lo a0 a1 b0 b1 (lo c)"
  define Y where "Y = partial_hi a0 a1 a2 a3 b0 b1 b2 b3 (hi c)"
  define Z where "Z = partial_top a1 a2 a3 b1 b2 b3"
  note fX = partial_lo_fq [OF la(2,3) lb(2,3) c(1), folded X_def]
  note fY = partial_hi_fq [OF la(2-5) lb(2-5) c(2), folded Y_def]
  note fZ = partial_top_fq [OF la(3-5) lb(3-5), folded Z_def]
  define k0 where "k0 = X div M"
  define k1 where "k1 = (Y + k0) div M"
  define k2 where "k2 = (Z + k1) div M"
  have lt: "x < 2 ^ 72 * M" if "x < 2 ^ 200" for x :: int using that by (simp add: M_def)
  have k0: "0 \<le> k0" "k0 < 2 ^ 72"
    unfolding k0_def using fX(2) M by (simp add: pos_imp_zdiv_nonneg_iff, intro int_div_lt lt fX(3) M)
  have Yk: "0 \<le> Y + k0" "Y + k0 < 2 ^ 200" using fY(2,3) k0 by simp_all
  have k1: "0 \<le> k1" "k1 < 2 ^ 72"
    unfolding k1_def using Yk M by (simp add: pos_imp_zdiv_nonneg_iff, intro int_div_lt lt Yk M)
  have Zk: "0 \<le> Z + k1" "Z + k1 < 2 ^ 200" using fZ(2,3) k1 by simp_all
  have k2: "0 \<le> k2" "k2 < 2 ^ 72"
    unfolding k2_def using Zk M by (simp add: pos_imp_zdiv_nonneg_iff, intro int_div_lt lt Zk M)
  have n: "fq_n (FQ k0) = k0" "fq_n (FQ k1) = k1" "fq_n (FQ k2) = k2"
    using k0 k1 k2 by (simp_all add: fq_modulus_def)
  have eX: "X = X mod M + k0 * M" and eY: "Y + k0 = (Y + k0) mod M + k1 * M"
    and eZ: "Z + k1 = (Z + k1) mod M + k2 * M"
    unfolding k0_def k1_def k2_def by (simp_all only: mod_div_mult_eq)
  have m: "M = 2 ^ 64 * 2 ^ 64" "(2::int) ^ 128 = 2 ^ 64 * 2 ^ 64"
      "(2::int) ^ 256 = 2 ^ 64 * 2 ^ 64 * (2 ^ 64 * 2 ^ 64)"
    by (simp_all add: M_def)
  define T where "T = fq_n a3 * fq_n b3 + k2"
  have "int_value a * int_value b + int_value c
      = ((Z + k1) mod M + T * M) * (M * M) + (X mod M + (Y + k0) mod M * M)"
    unfolding int_value_def la(6,7) lb(6,7) m(2) m(1)
    by (rule schoolbook_512)
      (use eX eY eZ T_def in \<open>simp_all only: X_def Y_def Z_def partial_lo_def partial_hi_def
        partial_top_def m add.assoc\<close>)
  then have sum: "(X mod M + (Y + k0) mod M * M) + ((Z + k1) mod M + T * M) * (M * M)
      = (fq_n (lo e) + fq_n (hi e) * M) + (fq_n (lo d) + fq_n (hi d) * M) * (M * M)"
    using eq unfolding m(3) by (simp only: int_value_def m(2) m(1) [symmetric] add.commute)
  have low: "0 \<le> x + y * M" "x + y * M < M * M" if "0 \<le> x" "x < M" "0 \<le> y" "y < M" for x y
  proof -
    show "0 \<le> x + y * M" using that M by simp
    have "y * M \<le> (M - 1) * M" using that M by (intro mult_right_mono) simp_all
    then show "x + y * M < M * M" using that by (simp add: algebra_simps)
  qed
  have mods: "0 \<le> x mod M" "x mod M < M" for x using M by simp_all
  note d' = d [folded M_def] and e' = e [folded M_def]
  have lowr: "X mod M + (Y + k0) mod M * M = fq_n (lo e) + fq_n (hi e) * M"
    and topr: "(Z + k1) mod M + T * M = fq_n (lo d) + fq_n (hi d) * M"
    by (rule base_split_unique [OF low [OF mods mods] low [OF e'] sum])+
  note lows = base_split_unique [OF mods e'(1,2) lowr] and tops = base_split_unique [OF mods d'(1,2) topr]
  let ?pfi = "ext_prime_field_inv (i_ext I)"
  have K0: "fq_div ?pfi (FQ X - lo e) (FQ (2 ^ 128)) = FQ k0"
    by (rule carry_computed [OF pfi]) (use eX lows(1) M_def in metis)
  have "FQ Y + FQ k0 = FQ (Y + k0)" "FQ Z + FQ k1 = FQ (Z + k1)" by (simp_all only: FQ_arith)
  moreover have "fq_div ?pfi (FQ (Y + k0) - hi e) (FQ (2 ^ 128)) = FQ k1"
    by (rule carry_computed [OF pfi]) (use eY lows(2) M_def in metis)
  moreover have "fq_div ?pfi (FQ (Z + k1) - lo d) (FQ (2 ^ 128)) = FQ k2"
    by (rule carry_computed [OF pfi]) (use eZ tops(1) M_def in metis)
  ultimately have K1: "fq_div ?pfi (FQ Y + FQ k0 - hi e) (FQ (2 ^ 128)) = FQ k1"
    and K2: "fq_div ?pfi (FQ Z + FQ k1 - lo d) (FQ (2 ^ 128)) = FQ k2" by simp_all
  have E: "FQ X = lo e + FQ k0 * FQ M" "FQ Y + FQ k0 = hi e + FQ k1 * FQ M"
    "FQ Z + FQ k1 = lo d + FQ k2 * FQ M" "a3 * b3 + FQ k2 = hi d"
    using arg_cong [OF eX [unfolded lows(1)], of FQ] arg_cong [OF eY [unfolded lows(2)], of FQ]
      arg_cong [OF eZ [unfolded tops(1)], of FQ] arg_cong [OF tops(2) [unfolded T_def], of FQ]
    by (simp_all only: FQ_arith FQ_fq_n)
  have R: "range_check (FQ k) 9 t = Inr (le_bytes 9 k, t)" if "fq_n (FQ k) = k" "k < 2 ^ 72" for k t
    using that by (simp add: range_check_ok del: fq_n_FQ le_bytes.simps)
  show ?thesis
    by (simp only: mul_add_words_512_def a b ilift_Inr Let_def fX(1) fY(1) fZ(1) K0 K1 K2 prod.case,
        simp only: ibind_def ithen_def R n k0 k1 k2 rbind_simps M_def [symmetric] E prod.case
          constrain_equal_def iassert_def assert_that_simps ilift_def refl)
qed

section \<open>The gadgets as equations\<close>

text \<open>For well-formed words, when each gadget succeeds and what it returns.\<close>

definition product_overflow ::
  "instruction \<Rightarrow> word256 \<Rightarrow> word256 \<Rightarrow> word256 \<Rightarrow> word256 \<Rightarrow> fq" where
  "product_overflow I a b c d =
     (case mul_add_words (ext_prime_field_inv (i_ext I)) a b c d of
        Inl e \<Rightarrow> 0 | Inr (ov, r) \<Rightarrow> ov)"

lemma instr_mul_add_words_overflow:
  "instr_mul_add_words I a b c d s = Inr (ov, s') \<Longrightarrow> ov = product_overflow I a b c d"
  unfolding instr_mul_add_words_def product_overflow_def
  by (auto simp: ibind_ok ilift_ok ithen_ok iret_ok)

lemma instr_mul_add_words_ok:
  assumes pfi: "prime_field_inv_spec (ext_prime_field_inv (i_ext I))"
    and ok: "word_ok a" "word_ok b" "word_ok c" "word_ok d"
  shows "instr_mul_add_words I a b c d s = Inr (ov, s') \<longleftrightarrow>
    (int_value a * int_value b + int_value c) mod 2 ^ 256 = int_value d \<and>
    ov = product_overflow I a b c d \<and> s' = s"
proof
  assume run: "instr_mul_add_words I a b c d s = Inr (ov, s')"
  from instr_mul_add_words_sound [OF pfi ok(3,4) run]
  obtain k where s: "s' = s" and k: "int_value a * int_value b + int_value c = int_value d + k * 2 ^ 256"
    by blast
  have "(int_value a * int_value b + int_value c) mod 2 ^ 256 = int_value d"
    unfolding k using int_value_nonneg int_value_lt [OF ok(4)]
    by (simp only: mod_mult_self1 mod_pos_pos_trivial)
  with s instr_mul_add_words_overflow [OF run] show
    "(int_value a * int_value b + int_value c) mod 2 ^ 256 = int_value d \<and>
     ov = product_overflow I a b c d \<and> s' = s" by simp
next
  assume a: "(int_value a * int_value b + int_value c) mod 2 ^ 256 = int_value d \<and>
     ov = product_overflow I a b c d \<and> s' = s"
  obtain ov' where "instr_mul_add_words I a b c d s = Inr (ov', s)"
    using instr_mul_add_words_complete [OF pfi ok] a by blast
  with instr_mul_add_words_overflow a show "instr_mul_add_words I a b c d s = Inr (ov, s')" by blast
qed

lemma product_overflow_zero:
  assumes pfi: "prime_field_inv_spec (ext_prime_field_inv (i_ext I))"
    and ok: "word_ok a" "word_ok b" "word_ok c" "word_ok d"
    and eq: "(int_value a * int_value b + int_value c) mod 2 ^ 256 = int_value d"
  shows "product_overflow I a b c d = 0 \<longleftrightarrow> int_value a * int_value b + int_value c = int_value d"
proof -
  have run: "instr_mul_add_words I a b c d offsets0 = Inr (product_overflow I a b c d, offsets0)"
    using eq by (simp add: instr_mul_add_words_ok [OF pfi ok])
  show ?thesis
    using instr_mul_add_words_sound [OF pfi ok(3,4) run] by auto
qed

lemma mul_add_words_512_ok:
  assumes pfi: "prime_field_inv_spec (ext_prime_field_inv (i_ext I))"
    and ok: "word_ok a" "word_ok b" "word_ok c" "word_ok d" "word_ok e"
  shows "mul_add_words_512 I a b c d e s = Inr (u, s') \<longleftrightarrow>
    int_value a * int_value b + int_value c = int_value d * 2 ^ 256 + int_value e \<and> s' = s"
  using mul_add_words_512_sound [OF pfi ok(3-5), of a b s u s']
    mul_add_words_512_complete [OF pfi ok, of s] by auto

end
