(* ===== verification/Row_Facts.thy ===== *)
theory Row_Facts
  imports Word_Gadgets
begin

text \<open>
  The rows a gadget reads and the transition it imposes, as predicates over the constant part of
  the object: \<open>opcode_at\<close>, \<open>stack_value\<close>, \<open>context_value\<close> and \<open>memory_value\<close> say which value a
  lookup at an offset finds; \<open>advances\<close> is the usual step within a call. The equations of
  \<open>ok_simps\<close> turn the successful lookups of a gadget into these predicates.
\<close>

section \<open>Rows\<close>

definition rw_row_at :: "instruction \<Rightarrow> fq \<Rightarrow> rw \<Rightarrow> target \<Rightarrow> rw_args \<Rightarrow> rw_row \<Rightarrow> bool" where
  "rw_row_at I c rw tag args row \<longleftrightarrow>
     rw_lookup_table (i_tables I) (rw_query_of c rw tag args) = Inr row"

definition rw_value_at :: "instruction \<Rightarrow> int \<Rightarrow> rw \<Rightarrow> target \<Rightarrow> rw_args \<Rightarrow> word_or_value \<Rightarrow> bool" where
  "rw_value_at I k rw tag args v \<longleftrightarrow>
     (\<exists>row. rw_row_at I (ss_rw_counter (i_curr I) + FQ k) rw tag args row \<and> v = rw_value row)"

definition stack_value :: "instruction \<Rightarrow> int \<Rightarrow> rw \<Rightarrow> int \<Rightarrow> word256 \<Rightarrow> bool" where
  "stack_value I k rw j w \<longleftrightarrow>
     (\<exists>v. rw_value_at I k rw T_Stack
        (no_args\<lparr>a_id := Some (ss_call_id (i_curr I)),
           a_address := Some (ss_stack_pointer (i_curr I) + FQ j)\<rparr>) v \<and> w = wov_word v)"

definition context_value ::
  "instruction \<Rightarrow> int \<Rightarrow> rw \<Rightarrow> fq \<Rightarrow> call_context_field_tag \<Rightarrow> word_or_value \<Rightarrow> bool" where
  "context_value I k rw cid tag v \<longleftrightarrow>
     rw_value_at I k rw T_CallContext
       (no_args\<lparr>a_id := Some cid, a_address := Some (FQ (cc_int tag))\<rparr>) v"

definition memory_value :: "instruction \<Rightarrow> int \<Rightarrow> rw \<Rightarrow> fq \<Rightarrow> fq \<Rightarrow> fq \<Rightarrow> bool" where
  "memory_value I k rw cid addr b \<longleftrightarrow>
     rw_value_at I k rw T_Memory (no_args\<lparr>a_id := Some cid, a_address := Some addr\<rparr>) (ValueV b)"

definition code_value :: "instruction \<Rightarrow> word256 \<Rightarrow> fq \<Rightarrow> bool \<Rightarrow> fq \<Rightarrow> bool" where
  "code_value I hash index is_code v \<longleftrightarrow>
     (\<exists>r. bytecode_lookup_table (i_tables I)
        \<lparr>qb_bytecode_hash = hash, qb_field_tag = FQ (bf_int BF_Byte), qb_index = index,
         qb_is_code = Some (fq_of_bool is_code)\<rparr> = Inr r \<and> v = bc_value r)"

definition opcode_at :: "instruction \<Rightarrow> int \<Rightarrow> bool \<Rightarrow> fq \<Rightarrow> bool" where
  "opcode_at I k is_code v \<longleftrightarrow>
     code_value I (ss_code_hash (i_curr I)) (ss_program_counter (i_curr I) + FQ k) is_code v"

text \<open>The tables are functional: what a lookup finds is determined.\<close>

lemma rw_value_at_unique: "rw_value_at I k rw tag args v \<Longrightarrow> rw_value_at I k rw tag args w \<Longrightarrow> v = w"
  by (auto simp: rw_value_at_def rw_row_at_def)

lemma stack_value_unique: "stack_value I k rw j v \<Longrightarrow> stack_value I k rw j w \<Longrightarrow> v = w"
  by (auto simp: stack_value_def dest: rw_value_at_unique)

lemma code_value_unique: "code_value I h i b v \<Longrightarrow> code_value I h i b w \<Longrightarrow> v = w"
  by (auto simp: code_value_def)

lemma rw_lookup_ok [ok_simps]:
  assumes "a_rw_counter args = None"
  shows "rw_lookup I rw tag args s = Inr (row, s') \<longleftrightarrow>
    rw_row_at I (ss_rw_counter (i_curr I) + FQ (rw_counter_offset s)) rw tag args row \<and>
    s' = s\<lparr>rw_counter_offset := rw_counter_offset s + 1\<rparr>"
  using assms by (auto simp: rw_lookup_def Let_def ilift_ok rw_row_at_def)

lemma no_args_counter [simp]:
  "a_rw_counter no_args = None"
  by (simp add: no_args_def)

lemma stack_lookup_ok:
  "stack_lookup I rw (FQ j) s = Inr (w, s') \<longleftrightarrow>
     stack_value I (rw_counter_offset s) rw j w \<and>
     s' = s\<lparr>rw_counter_offset := rw_counter_offset s + 1\<rparr>"
  by (auto simp: stack_lookup_def stack_value_def rw_value_at_def ibind_ok rw_lookup_ok iret_ok)

lemma stack_pop_ok [ok_simps]:
  "stack_pop I s = Inr (w, s') \<longleftrightarrow>
     stack_value I (rw_counter_offset s) RW_Read (stack_pointer_offset s) w \<and>
     s' = s\<lparr>rw_counter_offset := rw_counter_offset s + 1,
            stack_pointer_offset := stack_pointer_offset s + 1\<rparr>"
  by (auto simp: stack_pop_def stack_lookup_ok)

lemma stack_push_ok [ok_simps]:
  "stack_push I s = Inr (w, s') \<longleftrightarrow>
     stack_value I (rw_counter_offset s) RW_Write (stack_pointer_offset s - 1) w \<and>
     s' = s\<lparr>rw_counter_offset := rw_counter_offset s + 1,
            stack_pointer_offset := stack_pointer_offset s - 1\<rparr>"
  by (auto simp: stack_push_def Let_def stack_lookup_ok)

lemma opcode_lookup_at_ok [ok_simps]:
  "opcode_lookup_at I index is_code s = Inr (v, s') \<longleftrightarrow>
     code_value I (ss_code_hash (i_curr I)) index is_code v \<and> s' = s"
  by (auto simp: opcode_lookup_at_def bytecode_lookup_def code_value_def ibind_ok ilift_ok iret_ok)

lemma opcode_lookup_ok [ok_simps]:
  "opcode_lookup I is_code s = Inr (v, s') \<longleftrightarrow>
     opcode_at I (program_counter_offset s) is_code v \<and>
     s' = s\<lparr>program_counter_offset := program_counter_offset s + 1\<rparr>"
  by (auto simp: opcode_lookup_def opcode_at_def Let_def opcode_lookup_at_ok)

lemma call_context_lookup_word_ok [ok_simps]:
  "call_context_lookup_word I tag rw cid s = Inr (v, s') \<longleftrightarrow>
     context_value I (rw_counter_offset s) rw
       (case cid of None \<Rightarrow> ss_call_id (i_curr I) | Some c \<Rightarrow> c) tag v \<and>
     s' = s\<lparr>rw_counter_offset := rw_counter_offset s + 1\<rparr>"
  by (auto simp: call_context_lookup_word_def context_value_def rw_value_at_def Let_def ibind_ok
      rw_lookup_ok iret_ok simp del: cc_int.simps split: option.split)

lemma call_context_lookup_ok [ok_simps]:
  "call_context_lookup I tag rw cid s = Inr (x, s') \<longleftrightarrow>
     context_value I (rw_counter_offset s) rw
       (case cid of None \<Rightarrow> ss_call_id (i_curr I) | Some c \<Rightarrow> c) tag (ValueV x) \<and>
     s' = s\<lparr>rw_counter_offset := rw_counter_offset s + 1\<rparr>"
  by (auto simp: call_context_lookup_def ibind_ok ilift_ok call_context_lookup_word_ok wov_value_ok)

lemma memory_lookup_ok [ok_simps]:
  "memory_lookup I rw addr cid s = Inr (b, s') \<longleftrightarrow>
     memory_value I (rw_counter_offset s) rw
       (case cid of None \<Rightarrow> ss_call_id (i_curr I) | Some c \<Rightarrow> c) addr b \<and>
     s' = s\<lparr>rw_counter_offset := rw_counter_offset s + 1\<rparr>"
  by (auto simp: memory_lookup_def memory_value_def rw_value_at_def Let_def ibind_ok
      rw_lookup_ok ilift_ok wov_value_ok split: option.split)

lemma fixed_lookup_ok [ok_simps]:
  "fixed_lookup t a b c s = Inr (r, s') \<longleftrightarrow>
     FixedTableRow (FQ (ftag_int t)) a b c \<in> fixed_table \<and>
     r = FixedTableRow (FQ (ftag_int t)) a b c \<and> s' = s"
  by (auto simp: fixed_lookup_def ilift_ok fixed_lookup_table_ok simp del: ftag_int.simps)

lemma pow2_lookup_ok [ok_simps]:
  "pow2_lookup v l h s = Inr (u, s') \<longleftrightarrow>
     FixedTableRow (FQ (ftag_int F_Pow2)) v l h \<in> fixed_table \<and> s' = s"
  by (auto simp: pow2_lookup_def ibind_ok fixed_lookup_ok iret_ok simp del: ftag_int.simps)

lemma sign_byte_lookup_ok [ok_simps]:
  "sign_byte_lookup v sb s = Inr (u, s') \<longleftrightarrow>
     FixedTableRow (FQ (ftag_int F_SignByte)) v sb 0 \<in> fixed_table \<and> s' = s"
  by (auto simp: sign_byte_lookup_def ibind_ok fixed_lookup_ok iret_ok simp del: ftag_int.simps)

lemma responsible_opcode_lookup_ok [ok_simps]:
  "responsible_opcode_lookup I opc aux s = Inr (u, s') \<longleftrightarrow>
     (\<exists>(c, x)\<in>set (opcode_aux_pairs (responsible_opcode (ss_execution_state (i_curr I)))).
        opc = FQ c \<and> aux = FQ x) \<and> s' = s"
  by (auto simp: responsible_opcode_lookup_def ibind_ok fixed_lookup_ok iret_ok
      fixed_responsible_opcode simp del: ftag_int.simps es_int.simps)

section \<open>Transitions\<close>

text \<open>What a transition says of a field element.\<close>

fun moves :: "transition \<Rightarrow> fq \<Rightarrow> fq \<Rightarrow> bool" where
  "moves Same x y \<longleftrightarrow> y = x"
| "moves (Delta d) x y \<longleftrightarrow> y = x + d"
| "moves (To v) x y \<longleftrightarrow> y = v"
| "moves _ x y \<longleftrightarrow> False"

lemma transition_check_value [ok_simps]:
  "transition_check t (ValueV x) (ValueV y) = Inr u \<longleftrightarrow> moves t x y"
  by (cases t) (simp_all add: assert_that_ok)

lemma transition_check_word [ok_simps]:
  "transition_check SameWord (WordV v) (WordV w) = Inr u \<longleftrightarrow> w = v"
  "transition_check (ToWord x) (WordV v) (WordV w) = Inr u \<longleftrightarrow> w = x"
  by (auto simp: assert_that_ok intro: word256.expand)

lemma constrain_step_state_transition_ok [ok_simps]:
  "constrain_step_state_transition I kwargs s = Inr (u, s') \<longleftrightarrow>
     (\<forall>(key, t)\<in>set kwargs. transition_check t (state_attr key (i_curr I)) (state_attr key (i_next I)) = Inr ()) \<and>
     s' = s"
  by (auto simp: constrain_step_state_transition_def ilift_ok riter_ok)

text \<open>
  The step within a call: the call data stay, the counters move as the arguments say, and the gas
  left pays the constant and the dynamic cost of the opcode and still fits 64 bits.
\<close>

definition in_same_context :: "instruction \<Rightarrow> fq \<Rightarrow> same_context_args \<Rightarrow> bool" where
  "in_same_context I opc args \<longleftrightarrow>
     (let c = i_curr I; n = i_next I in
      (\<exists>(o', x)\<in>set (opcode_aux_pairs (responsible_opcode (ss_execution_state c))).
         opc = FQ o' \<and> 0 = FQ x) \<and>
      (\<exists>cost. rbind (to_opcode (fq_n opc)) constant_gas_cost = Inr cost \<and>
         fq_n (ss_gas_left c - (FQ cost + sc_dynamic_gas_cost args)) < 2 ^ 64 \<and>
         ss_gas_left n = ss_gas_left c - (FQ cost + sc_dynamic_gas_cost args)) \<and>
      moves (sc_rw_counter args) (ss_rw_counter c) (ss_rw_counter n) \<and>
      moves (sc_program_counter args) (ss_program_counter c) (ss_program_counter n) \<and>
      moves (sc_stack_pointer args) (ss_stack_pointer c) (ss_stack_pointer n) \<and>
      moves (sc_memory_word_size args) (ss_memory_word_size c) (ss_memory_word_size n) \<and>
      moves (sc_reversible_write_counter args) (ss_reversible_write_counter c)
        (ss_reversible_write_counter n) \<and>
      moves (sc_log_id args) (ss_log_id c) (ss_log_id n) \<and>
      ss_call_id n = ss_call_id c \<and> ss_is_root n = ss_is_root c \<and>
      ss_is_create n = ss_is_create c \<and> ss_code_hash n = ss_code_hash c)"

lemma step_state_transition_in_same_context_ok [ok_simps]:
  "step_state_transition_in_same_context I opc args s = Inr (u, s') \<longleftrightarrow>
     in_same_context I opc args \<and> s' = s"
proof -
  have g: "constrain_gas_left_not_underflow g t = Inr (v, t') \<longleftrightarrow> fq_n g < 2 ^ 64 \<and> t' = t"
    for g t v t'
    by (auto simp: constrain_gas_left_not_underflow_def ibind_ok range_check_ok iret_ok)
  show ?thesis
    unfolding step_state_transition_in_same_context_def in_same_context_def Let_def
    by (auto simp: ithen_ok ibind_ok ilift_ok g responsible_opcode_lookup_ok
        constrain_step_state_transition_ok transition_check_value transition_check_word
        simp del: transition_check.simps)
qed

text \<open>
  The same step with the gas as an integer: the gas left before is the cost plus the gas left
  after, so the cost was covered.
\<close>

definition advances :: "instruction \<Rightarrow> int \<Rightarrow> same_context_args \<Rightarrow> bool" where
  "advances I cost args \<longleftrightarrow>
     (let c = i_curr I; n = i_next I in
      fq_n (ss_gas_left c) = fq_n (ss_gas_left n) + cost \<and> fq_n (ss_gas_left n) < 2 ^ 64 \<and>
      moves (sc_rw_counter args) (ss_rw_counter c) (ss_rw_counter n) \<and>
      moves (sc_program_counter args) (ss_program_counter c) (ss_program_counter n) \<and>
      moves (sc_stack_pointer args) (ss_stack_pointer c) (ss_stack_pointer n) \<and>
      moves (sc_memory_word_size args) (ss_memory_word_size c) (ss_memory_word_size n) \<and>
      moves (sc_reversible_write_counter args) (ss_reversible_write_counter c)
        (ss_reversible_write_counter n) \<and>
      moves (sc_log_id args) (ss_log_id c) (ss_log_id n) \<and>
      ss_call_id n = ss_call_id c \<and> ss_is_root n = ss_is_root c \<and>
      ss_is_create n = ss_is_create c \<and> ss_code_hash n = ss_code_hash c)"

definition within_call :: "transition \<Rightarrow> transition \<Rightarrow> transition \<Rightarrow> same_context_args" where
  "within_call rw pc sp =
     same_context\<lparr>sc_rw_counter := rw, sc_program_counter := pc, sc_stack_pointer := sp\<rparr>"

lemma within_call_fold [ok_simps]:
  "same_context\<lparr>sc_rw_counter := rw, sc_program_counter := pc, sc_stack_pointer := sp\<rparr> =
     within_call rw pc sp"
  by (simp add: within_call_def)

lemma gas_paid:
  assumes "0 \<le> k" "k < 2 ^ 200"
  shows "fq_n (g - FQ k) < 2 ^ 64 \<and> g' = g - FQ k \<longleftrightarrow> fq_n g = fq_n g' + k \<and> fq_n g' < 2 ^ 64"
proof
  assume a: "fq_n (g - FQ k) < 2 ^ 64 \<and> g' = g - FQ k"
  have k: "fq_n (FQ k) = k"
    by (rule fq_n_FQ_small) (use assms in \<open>simp_all add: fq_modulus_def\<close>)
  have "g = g' + FQ k" using a by simp
  moreover have "fq_n (g' + FQ k) = fq_n g' + k"
    using fq_n_add_small [of g' "FQ k"] a k assms by (simp add: fq_modulus_def)
  ultimately show "fq_n g = fq_n g' + k \<and> fq_n g' < 2 ^ 64" using a by simp
next
  assume a: "fq_n g = fq_n g' + k \<and> fq_n g' < 2 ^ 64"
  have "g = FQ (fq_n g)" by simp
  also have "\<dots> = g' + FQ k" using a by (simp add: FQ_arith)
  finally show "fq_n (g - FQ k) < 2 ^ 64 \<and> g' = g - FQ k" using a by simp
qed

lemma in_same_context_advances:
  assumes resp: "opcode_aux_pairs (responsible_opcode (ss_execution_state (i_curr I))) = map (\<lambda>c. (c, 0)) ops"
    and all_costs: "list_all (\<lambda>c. c \<in> set valid_opcodes \<and> constant_gas_cost c = Inr cost) ops"
    and dyn: "sc_dynamic_gas_cost args = FQ d"
    and bounds: "0 \<le> cost + d" "cost + d < 2 ^ 200"
  shows "in_same_context I opc args \<longleftrightarrow> (\<exists>c\<in>set ops. opc = FQ c) \<and> advances I (cost + d) args"
proof -
  have costs: "c \<in> set ops \<Longrightarrow> c \<in> set valid_opcodes \<and> constant_gas_cost c = Inr cost" for c
    using all_costs by (simp add: list_all_iff)
  have n: "fq_n (FQ c) = c" if "c \<in> set ops" for c
  proof (rule fq_n_FQ_small)
    show "0 \<le> c" "c < fq_modulus"
      using valid_opcodes_byte [of c] costs [OF that] by (simp_all add: fq_modulus_def)
  qed
  have ops: "(\<exists>(c, x)\<in>set (map (\<lambda>c. (c, 0)) ops). opc = FQ c \<and> 0 = FQ x) \<longleftrightarrow> (\<exists>c\<in>set ops. opc = FQ c)"
    by auto
  show ?thesis
  proof (cases "\<exists>c\<in>set ops. opc = FQ c")
    case True
    then obtain c where c: "c \<in> set ops" "opc = FQ c" by blast
    have "rbind (to_opcode (fq_n opc)) constant_gas_cost = Inr k \<longleftrightarrow> k = cost" for k
      using costs [OF c(1)] n [OF c(1)] by (auto simp: c(2) to_opcode_def simp del: fq_n_FQ)
    then show ?thesis
      using True gas_paid [OF bounds, of "ss_gas_left (i_curr I)" "ss_gas_left (i_next I)"]
      unfolding in_same_context_def advances_def Let_def resp ops dyn FQ_arith by auto
  next
    case False
    then show ?thesis unfolding in_same_context_def Let_def resp ops by blast
  qed
qed

lemma within_call_advances:
  assumes resp: "opcode_aux_pairs (responsible_opcode (ss_execution_state (i_curr I))) = map (\<lambda>c. (c, 0)) ops"
    and costs: "list_all (\<lambda>c. c \<in> set valid_opcodes \<and> constant_gas_cost c = Inr cost) ops"
    and bounds: "0 \<le> cost" "cost < 2 ^ 200"
  shows "in_same_context I opc (within_call rw pc sp) \<longleftrightarrow>
    (\<exists>c\<in>set ops. opc = FQ c) \<and> advances I cost (within_call rw pc sp)"
  using in_same_context_advances [OF resp costs, where d = 0 and args = "within_call rw pc sp"] bounds
  by (simp add: within_call_def same_context_def)

section \<open>Acceptance of a gadget\<close>

text \<open>
  \<open>succeeds m s\<close>: the method \<open>m\<close> raises nothing from the offsets \<open>s\<close>. A gadget accepts its step
  when it succeeds from the initial offsets. The equations follow the sequencing.
\<close>

definition succeeds :: "'a instr \<Rightarrow> offsets \<Rightarrow> bool" where
  "succeeds m s = (case m s of Inl e \<Rightarrow> False | Inr r \<Rightarrow> True)"

definition accepted :: "unit instr \<Rightarrow> bool" where
  "accepted m = succeeds m offsets0"

lemma succeeds_iff: "succeeds m s \<longleftrightarrow> (\<exists>x t. m s = Inr (x, t))"
  by (auto simp: succeeds_def split: sum.splits)

lemma succeeds_simps [ok_simps]:
  "succeeds (ibind m f) s \<longleftrightarrow> (\<exists>x t. m s = Inr (x, t) \<and> succeeds (f x) t)"
  "succeeds (ithen k g) s \<longleftrightarrow> (\<exists>t. k s = Inr ((), t) \<and> succeeds g t)"
  "succeeds (iret y) s"
  "succeeds (step_state_transition_in_same_context I opc args) s \<longleftrightarrow> in_same_context I opc args"
  "succeeds (constrain_step_state_transition I kwargs) s \<longleftrightarrow>
     (\<forall>(key, t)\<in>set kwargs. transition_check t (state_attr key (i_curr I)) (state_attr key (i_next I)) = Inr ())"
  by (auto simp: succeeds_iff ok_simps)

lemma accepted_iff: "accepted m \<longleftrightarrow> (\<exists>s. m offsets0 = Inr ((), s))"
  by (simp add: accepted_def succeeds_iff)

lemma offsets0_simps [simp]:
  "rw_counter_offset offsets0 = 0"
  "program_counter_offset offsets0 = 0"
  "stack_pointer_offset offsets0 = 0"
  by (simp_all add: offsets0_def)

text \<open>
  Stack rows hold 256-bit words: both halves of the value fit 128 bits. The state circuit
  imposes it on the rows of the read-write table.
\<close>

definition stack_words_ok :: "instruction \<Rightarrow> bool" where
  "stack_words_ok I \<longleftrightarrow>
     (\<forall>r\<in>rw_table (i_tables I). rw_key0 r = FQ (target_int T_Stack) \<longrightarrow> word_ok (wov_word (rw_value r)))"

lemma stack_value_word_ok:
  assumes "stack_words_ok I" "stack_value I k rw j w"
  shows "word_ok w"
proof -
  from assms(2) obtain row args where row: "rw_row_at I (ss_rw_counter (i_curr I) + FQ k) rw T_Stack args row"
    and w: "w = wov_word (rw_value row)"
    by (auto simp: stack_value_def rw_value_at_def)
  then have "row \<in> rw_table (i_tables I)" "rw_key0 row = FQ (target_int T_Stack)"
    using rw_tab.look_member unfolding rw_row_at_def
    by (fastforce simp: rw_matches_def rw_query_of_def simp del: target_int.simps)+
  with assms(1) w show ?thesis by (auto simp: stack_words_ok_def)
qed

text \<open>
  For rows that hold words, the equations of the stack operations carry the well-formedness of
  the value, so that with \<open>conj_cong\<close> it is at hand for what the gadget computes next.
\<close>

lemma stack_pop_wf:
  assumes "stack_words_ok I"
  shows "stack_pop I s = Inr (w, s') \<longleftrightarrow>
     word_ok w \<and> stack_value I (rw_counter_offset s) RW_Read (stack_pointer_offset s) w \<and>
     s' = s\<lparr>rw_counter_offset := rw_counter_offset s + 1,
            stack_pointer_offset := stack_pointer_offset s + 1\<rparr>"
  using stack_value_word_ok [OF assms] by (auto simp: stack_pop_ok)

lemma stack_push_wf:
  assumes "stack_words_ok I"
  shows "stack_push I s = Inr (w, s') \<longleftrightarrow>
     word_ok w \<and> stack_value I (rw_counter_offset s) RW_Write (stack_pointer_offset s - 1) w \<and>
     s' = s\<lparr>rw_counter_offset := rw_counter_offset s + 1,
            stack_pointer_offset := stack_pointer_offset s - 1\<rparr>"
  using stack_value_word_ok [OF assms] by (auto simp: stack_push_ok)

text \<open>Distinct small constants are distinct field elements.\<close>

lemma pow200_lt_modulus: "x < 2 ^ 200 \<Longrightarrow> x < fq_modulus"
  by (simp add: fq_modulus_def)

lemma FQ_small_inject:
  "0 \<le> x \<Longrightarrow> x < 2 ^ 200 \<Longrightarrow> 0 \<le> y \<Longrightarrow> y < 2 ^ 200 \<Longrightarrow> FQ x = FQ y \<longleftrightarrow> x = y"
  by (intro FQ_inject pow200_lt_modulus)

lemma FQ_constants [simp]:
  "(numeral m :: int) < 2 ^ 200 \<Longrightarrow> (numeral n :: int) < 2 ^ 200 \<Longrightarrow>
     FQ (numeral m) = FQ (numeral n) \<longleftrightarrow> (numeral m :: int) = numeral n"
  by (rule FQ_small_inject) simp_all

lemma FQ_constants_0_1 [simp]:
  assumes "(numeral m :: int) < 2 ^ 200"
  shows "FQ (numeral m) = 1 \<longleftrightarrow> (numeral m :: int) = 1" "1 = FQ (numeral m) \<longleftrightarrow> (numeral m :: int) = 1"
    and "FQ (numeral m) \<noteq> 0" "0 \<noteq> FQ (numeral m)"
proof -
  have "FQ (numeral m) = FQ 1 \<longleftrightarrow> (numeral m :: int) = 1" "FQ (numeral m) = FQ 0 \<longleftrightarrow> (numeral m :: int) = 0"
    by (rule FQ_small_inject; use assms in simp)+
  then show "FQ (numeral m) = 1 \<longleftrightarrow> (numeral m :: int) = 1" "1 = FQ (numeral m) \<longleftrightarrow> (numeral m :: int) = 1"
    and "FQ (numeral m) \<noteq> 0" "0 \<noteq> FQ (numeral m)" by auto
qed

text \<open>A gadget that starts with the opcode: its case is fixed before the rest is looked at.\<close>

lemma accepted_opcode:
  "accepted (ibind (opcode_lookup I True) f) \<longleftrightarrow>
     (\<exists>opc. opcode_at I 0 True opc \<and> succeeds (f opc) (offsets0\<lparr>program_counter_offset := 1\<rparr>))"
  by (simp add: accepted_def succeeds_simps opcode_lookup_ok)

lemma if_fq_of_bool: "(if b then 1 else 0) = fq_of_bool b"
  by simp

section \<open>Words of the stack as 256-bit words\<close>

lemma to_u256_zero: "word_ok w \<Longrightarrow> to_u256 w = 0 \<longleftrightarrow> w = WordLH 0 0"
  using to_u256_inject [of w "WordLH 0 0"] by (simp add: to_u256_def)

lemma is_zero_word_ok: "word_ok w \<Longrightarrow> is_zero_word w = fq_of_bool (to_u256 w = 0)"
proof -
  assume ok: "word_ok w"
  have "fq_n (lo w + hi w) = fq_n (lo w) + fq_n (hi w)"
    by (rule fq_n_add_small) (use ok in \<open>simp add: word_ok_def fq_modulus_def\<close>)
  then have "lo w + hi w = 0 \<longleftrightarrow> lo w = 0 \<and> hi w = 0"
    by (simp add: fq_eq_iff add_nonneg_eq_0_iff)
  then show ?thesis
    unfolding is_zero_word_def is_zero_def sum_values_def to_u256_zero [OF ok]
    by (cases w) simp
qed

lemma word_ok_bool [simp]: "word_ok (WordLH (fq_of_bool b) 0)"
  by (cases b) (simp_all add: word_ok_def)

lemma to_u256_bool:
  assumes "word_ok w"
  shows "WordLH (fq_of_bool b) 0 = w \<longleftrightarrow> to_u256 w = of_bool b"
    and "w = WordLH (fq_of_bool b) 0 \<longleftrightarrow> to_u256 w = of_bool b"
proof -
  have "to_u256 (WordLH (fq_of_bool b) 0) = of_bool b"
    by (cases b) (simp_all add: to_u256_def int_value_def)
  then show "WordLH (fq_of_bool b) 0 = w \<longleftrightarrow> to_u256 w = of_bool b"
    and "w = WordLH (fq_of_bool b) 0 \<longleftrightarrow> to_u256 w = of_bool b"
    using to_u256_inject [OF assms word_ok_bool [of b]] by auto
qed

lemma from_lo_bool [simp]: "from_lo (fq_of_bool b) = Inr (WordLH (fq_of_bool b) 0)"
  by (cases b) (simp_all add: from_lo_ok)

lemma to_u256_less:
  "word_ok v \<Longrightarrow> word_ok w \<Longrightarrow> to_u256 v < to_u256 w \<longleftrightarrow> int_value v < int_value w"
  by (simp add: word_less_def uint_to_u256)

lemma to_u256_sless:
  assumes "word_ok v" "word_ok w"
  shows "to_u256 v <s to_u256 w \<longleftrightarrow>
    (if (2 ^ 255 \<le> int_value v) = (2 ^ 255 \<le> int_value w) then int_value v < int_value w
     else 2 ^ 255 \<le> int_value v)"
proof -
  have top_half: "odd (x div 2 ^ 255)" if "2 ^ 255 \<le> x" "x < 2 ^ 256" for x :: int
  proof -
    have "x div 2 ^ 255 = 1"
      using that by (intro int_div_pos_eq [of _ _ 1 "x - 2 ^ 255"]) simp_all
    then show ?thesis by simp
  qed
  have s: "sint (to_u256 x) = (if 2 ^ 255 \<le> int_value x then int_value x - 2 ^ 256 else int_value x)"
    if ok: "word_ok x" for x
  proof -
    have "sint (to_u256 x) = signed_take_bit 255 (int_value x)"
      using uint_to_u256 [OF ok] by (simp add: sint_uint)
    also have "\<dots> = (if 2 ^ 255 \<le> int_value x then int_value x - 2 ^ 256 else int_value x)"
      using int_value_nonneg [of x] int_value_lt [OF ok] top_half [of "int_value x"]
      by (simp add: signed_take_bit_eq_take_bit_minus take_bit_int_eq_self bit_iff_odd_drop_bit
          drop_bit_eq_div)
    finally show ?thesis .
  qed
  show ?thesis
    using int_value_nonneg [of v] int_value_nonneg [of w] int_value_lt [OF assms(1)]
      int_value_lt [OF assms(2)]
    by (simp add: word_sless_alt s [OF assms(1)] s [OF assms(2)] split: if_splits)
qed

section \<open>The bytes of a word\<close>

text \<open>The list \<open>to_le_bytes\<close> returns, as integers and as field elements.\<close>

definition word_byte :: "word256 \<Rightarrow> nat \<Rightarrow> int" where
  "word_byte w i = int_value w div 256 ^ i mod 256"

lemma word_byte_bounds [simp]: "0 \<le> word_byte w i" "word_byte w i < 256"
  by (simp_all add: word_byte_def)

lemma fq_n_word_byte [simp]: "fq_n (FQ (word_byte w i)) = word_byte w i"
  by (rule fq_n_FQ_small, simp, rule less_trans [OF word_byte_bounds(2)]) (simp add: fq_modulus_def)

lemma le_bytes_word: "i < 32 \<Longrightarrow> map FQ (le_bytes 32 (int_value w)) ! i = FQ (word_byte w i)"
  by (simp add: le_bytes_nth word_byte_def del: le_bytes.simps)

lemma le_bytes_word_nth: "i < 32 \<Longrightarrow> le_bytes 32 (int_value w) ! i = word_byte w i"
  by (simp add: le_bytes_nth word_byte_def del: le_bytes.simps)

lemma word_byte_mod [simp]: "word_byte w i mod fq_modulus = word_byte w i"
  using fq_n_word_byte [of w i] by simp

lemma FQ_word_byte [simp]:
  "FQ (word_byte w i) = 0 \<longleftrightarrow> word_byte w i = 0"
  "FQ (word_byte w i) = FQ (word_byte v j) \<longleftrightarrow> word_byte w i = word_byte v j"
  using fq_n_word_byte [of w i] fq_n_word_byte [of v j] by (auto simp: fq_eq_iff simp del: fq_n_word_byte)

lemma le_bytes_word_list: "map FQ (le_bytes 32 (int_value w)) = map (\<lambda>i. FQ (word_byte w i)) [0..<32]"
  by (rule nth_equalityI) (simp_all add: le_bytes_nth word_byte_def del: le_bytes.simps)

lemma instr_bytes_to_fq_le_bytes:
  "n \<le> 31 \<Longrightarrow> instr_bytes_to_fq (map FQ (le_bytes n v)) = iret (FQ (v mod 256 ^ n))"
proof
  fix s
  assume n: "n \<le> 31"
  have cs: "map fq_n (map FQ (le_bytes n v)) = le_bytes n v"
    by (rule map_fq_n_FQ_bytes) (rule le_bytes_is_byte)
  have "\<forall>b\<in>set (map fq_n (map FQ (le_bytes n v))). b < 256"
    unfolding cs using le_bytes_is_byte by (auto simp: is_byte_def)
  then have "\<forall>b\<in>set (map FQ (le_bytes n v)). fq_n b < 256" by simp
  then have "instr_bytes_to_fq (map FQ (le_bytes n v)) s = Inr (FQ (v mod 256 ^ n), s)"
    unfolding instr_bytes_to_fq_ok cs le_val_le_bytes length_map length_le_bytes using n by blast
  then show "instr_bytes_to_fq (map FQ (le_bytes n v)) s = iret (FQ (v mod 256 ^ n)) s"
    by (simp add: iret_def)
qed

lemma word_byte_top:
  assumes "word_ok w"
  shows "128 \<le> word_byte w 31 \<longleftrightarrow> 2 ^ 255 \<le> int_value w"
    and "word_byte w 31 = 0 \<longleftrightarrow> int_value w < 256 ^ 31"
proof -
  let ?q = "int_value w div 256 ^ 31"
  have q: "0 \<le> ?q" "?q < 256"
    using int_value_nonneg [of w] int_value_lt [OF assms]
    by (simp_all add: pos_imp_zdiv_nonneg_iff int_div_lt)
  then have b: "word_byte w 31 = ?q" by (simp add: word_byte_def)
  have m: "int_value w = int_value w mod 256 ^ 31 + ?q * 256 ^ 31" "0 \<le> int_value w mod 256 ^ 31"
    "int_value w mod 256 ^ 31 < 256 ^ 31"
    by (simp_all only: mod_div_mult_eq pos_mod_sign pos_mod_bound zero_less_power zero_less_numeral)
  show "128 \<le> word_byte w 31 \<longleftrightarrow> 2 ^ 255 \<le> int_value w" unfolding b using m q by simp linarith
  show "word_byte w 31 = 0 \<longleftrightarrow> int_value w < 256 ^ 31" unfolding b using m q by simp linarith
qed

lemma word_byte_bits: "word_byte w i = take_bit 8 (drop_bit (8 * i) (int_value w))"
  by (simp add: word_byte_def take_bit_eq_mod drop_bit_eq_div power_mult)

lemma int_value_bytes_eq:
  fixes x y :: int
  assumes "0 \<le> x" "x < 2 ^ 256" "0 \<le> y" "y < 2 ^ 256"
  shows "x = y \<longleftrightarrow> (\<forall>i<32. x div 256 ^ i mod 256 = y div 256 ^ i mod 256)"
proof
  assume "\<forall>i<32. x div 256 ^ i mod 256 = y div 256 ^ i mod 256"
  then have "le_bytes 32 x = le_bytes 32 y"
    by (intro nth_equalityI) (simp_all add: le_bytes_nth del: le_bytes.simps)
  then have "le_val (le_bytes 32 x) = le_val (le_bytes 32 y)" by (rule arg_cong)
  then show "x = y" using assms by (simp del: le_bytes.simps)
qed simp

text \<open>A relation between the bytes of words is the relation between the words.\<close>

lemma bytewise_u256:
  fixes f :: "int \<Rightarrow> int \<Rightarrow> int" and g :: "256 word \<Rightarrow> 256 word \<Rightarrow> 256 word"
  assumes ok: "word_ok a" "word_ok b" "word_ok c"
    and u: "\<And>x y. uint (g x y) = f (uint x) (uint y)"
    and bits: "\<And>n x y. f (take_bit n x) (take_bit n y) = take_bit n (f x y)"
      "\<And>n x y. f (drop_bit n x) (drop_bit n y) = drop_bit n (f x y)"
  shows "(\<forall>i<32. word_byte c i = f (word_byte a i) (word_byte b i)) \<longleftrightarrow>
    to_u256 c = g (to_u256 a) (to_u256 b)"
proof -
  let ?r = "f (int_value a) (int_value b)"
  have r: "?r = uint (g (to_u256 a) (to_u256 b))"
    using uint_to_u256 [OF ok(1)] uint_to_u256 [OF ok(2)] by (simp add: u)
  have "0 \<le> ?r" "?r < 2 ^ 256"
    using uint_bounded [of "g (to_u256 a) (to_u256 b)"] by (simp_all only: r uint_ge_0) simp
  then have "int_value c = ?r \<longleftrightarrow> (\<forall>i<32. int_value c div 256 ^ i mod 256 = ?r div 256 ^ i mod 256)"
    using int_value_nonneg [of c] int_value_lt [OF ok(3)] by (intro int_value_bytes_eq)
  moreover have "?r div 256 ^ i mod 256 = f (word_byte a i) (word_byte b i)" for i
    unfolding word_byte_bits bits by (simp add: take_bit_eq_mod drop_bit_eq_div power_mult)
  moreover have "int_value c = ?r \<longleftrightarrow> to_u256 c = g (to_u256 a) (to_u256 b)"
    using uint_to_u256 [OF ok(3)] by (simp add: r word_uint_eq_iff)
  ultimately show ?thesis by (simp add: word_byte_def)
qed

lemma iiter_ok:
  assumes "\<And>x s u s'. x \<in> set xs \<Longrightarrow> f x s = Inr (u, s') \<longleftrightarrow> P x \<and> s' = s"
  shows "iiter f xs s = Inr (u, s') \<longleftrightarrow> (\<forall>x\<in>set xs. P x) \<and> s' = s"
proof -
  have "imap f xs s = Inr (us, s') \<longleftrightarrow> (\<forall>x\<in>set xs. P x) \<and> us = replicate (length xs) () \<and> s' = s" for us s'
    using assms by (induction xs arbitrary: s us) (auto simp: ibind_ok iret_ok)
  then show ?thesis by (auto simp: iiter_def ibind_ok iret_ok)
qed

end
