(* ===== verification/Sample.thy ===== *)
theory Sample
  imports Row_Facts
begin

text \<open>
  Concrete steps for the witnesses: one byte of code, a list of stack rows, and two step states
  that differ by the usual advance. The lemmas say what the lookups of such a step find.
\<close>

text \<open>A stack row: read or written, the offset from the stack pointer and the value.\<close>

type_synonym stack_access = "rw \<times> int \<times> word256"

definition sample_row :: "nat \<Rightarrow> stack_access \<Rightarrow> rw_row" where
  "sample_row k acc = (case acc of (a, p, w) \<Rightarrow>
     \<lparr>rw_rw_counter = FQ (100 + int k), rw_rw = FQ (rw_int a), rw_key0 = FQ (target_int T_Stack),
      rw_id = FQ 1, rw_address = FQ (1000 + p), rw_field_tag = 0, rw_storage_key = WordLH 0 0,
      rw_value = WordV w, rw_value_prev = WordV (WordLH 0 0), rw_aux0 = WordLH 0 0\<rparr>)"

definition sample_rows :: "stack_access list \<Rightarrow> rw_row set" where
  "sample_rows accs = set (map (\<lambda>k. sample_row k (accs ! k)) [0..<length accs])"

definition sample_code :: "int \<Rightarrow> bytecode_row" where
  "sample_code opc =
     \<lparr>bc_bytecode_hash = WordLH 7 0, bc_field_tag = FQ (bf_int BF_Byte), bc_index = FQ 0,
      bc_is_code = 1, bc_value = FQ opc\<rparr>"

definition sample_tables :: "int \<Rightarrow> stack_access list \<Rightarrow> tables" where
  "sample_tables opc accs =
     \<lparr>block_table = {}, tx_table = {}, withdrawal_table = {}, bytecode_table = {sample_code opc},
      rw_table = sample_rows accs, copy_table = None, keccak_table = None, exp_table = None,
      sig_table = None, ecc_table = None\<rparr>"

definition sample_state :: "execution_state \<Rightarrow> step_state" where
  "sample_state es =
     (StepState es 100)\<lparr>ss_call_id := 1, ss_code_hash := WordLH 7 0, ss_stack_pointer := FQ 1000,
        ss_gas_left := FQ 100\<rparr>"

definition sample_ext :: externals where
  "sample_ext = \<lparr>ext_prime_field_inv = bezout_inv, ext_keccak = (\<lambda>_. replicate 32 0),
     ext_rlp_encode = (\<lambda>a n. a @ [n])\<rparr>"

text \<open>The step at \<open>es\<close> that runs \<open>opc\<close>, makes these stack accesses and pays \<open>cost\<close>.\<close>

definition sample_step :: "execution_state \<Rightarrow> int \<Rightarrow> stack_access list \<Rightarrow> int \<Rightarrow> int \<Rightarrow> instruction" where
  "sample_step es opc accs cost sp =
     \<lparr>i_tables = sample_tables opc accs, i_curr = sample_state es,
      i_next = (sample_state ES_STOP)\<lparr>ss_rw_counter := FQ (100 + int (length accs)),
         ss_program_counter := 1, ss_stack_pointer := FQ (1000 + sp), ss_gas_left := FQ (100 - cost)\<rparr>,
      i_is_first_step = False, i_is_last_step = False, i_ext = sample_ext\<rparr>"

lemma sample_simps [simp]:
  "ss_execution_state (i_curr (sample_step es opc accs cost sp)) = es"
  "i_ext (sample_step es opc accs cost sp) = sample_ext"
  "ext_prime_field_inv sample_ext = bezout_inv"
  "rw_table (i_tables (sample_step es opc accs cost sp)) = sample_rows accs"
  by (simp_all add: sample_step_def sample_state_def StepState_def sample_ext_def sample_tables_def)

lemma sample_rows_mem:
  "r \<in> sample_rows accs \<longleftrightarrow> (\<exists>k<length accs. r = sample_row k (accs ! k))"
  by (auto simp: sample_rows_def)

lemma sample_words_ok:
  "stack_words_ok (sample_step es opc accs cost sp) \<longleftrightarrow> (\<forall>(a, p, w)\<in>set accs. word_ok w)"
proof -
  have "rw_key0 (sample_row k acc) = FQ (target_int T_Stack)"
    "wov_word (rw_value (sample_row k acc)) = snd (snd acc)" for k acc
    by (simp_all add: sample_row_def split_beta)
  note row = this
  have "stack_words_ok (sample_step es opc accs cost sp) \<longleftrightarrow>
      (\<forall>k<length accs. word_ok (snd (snd (accs ! k))))"
    unfolding stack_words_ok_def sample_simps Ball_def sample_rows_mem
    using row by (metis (lifting))
  then show ?thesis by (simp add: all_set_conv_all_nth split_beta)
qed

lemma sample_opcode: "opcode_at (sample_step es opc accs cost sp) 0 True (FQ opc)"
  unfolding opcode_at_def code_value_def bytecode_tab.look_iff
  by (simp add: sample_step_def sample_tables_def sample_code_def bytecode_matches_def
      sample_state_def StepState_def)

lemma sample_stack:
  assumes k: "k < length accs" and acc: "accs ! k = (a, p, w)" and small: "length accs < 1000"
  shows "stack_value (sample_step es opc accs cost sp) (int k) a p w"
proof -
  let ?I = "sample_step es opc accs cost sp"
  have inj: "FQ (100 + int k) = FQ (100 + int j) \<longleftrightarrow> k = j" if "j < length accs" for j
    using that k small by (subst FQ_small_inject) auto
  have q: "rw_matches (rw_query_of (ss_rw_counter (i_curr ?I) + FQ (int k)) a T_Stack
      (no_args\<lparr>a_id := Some (ss_call_id (i_curr ?I)),
        a_address := Some (ss_stack_pointer (i_curr ?I) + FQ p)\<rparr>)) (sample_row j acc') \<longleftrightarrow>
      FQ (100 + int k) = FQ (100 + int j) \<and> FQ (rw_int a) = FQ (rw_int (fst acc')) \<and>
      FQ (1000 + p) = FQ (1000 + fst (snd acc'))" for j acc'
    by (simp add: sample_step_def rw_matches_def rw_query_of_def sample_row_def sample_state_def
        StepState_def no_args_def FQ_arith split_beta)
  have "rw_row_at ?I (ss_rw_counter (i_curr ?I) + FQ (int k)) a T_Stack
      (no_args\<lparr>a_id := Some (ss_call_id (i_curr ?I)),
        a_address := Some (ss_stack_pointer (i_curr ?I) + FQ p)\<rparr>) (sample_row k (accs ! k))"
    using k unfolding rw_row_at_def rw_tab.look_iff sample_rows_mem
    by (auto simp only: q sample_simps sample_rows_mem inj acc fst_conv snd_conv)
  then show ?thesis
    unfolding stack_value_def rw_value_at_def by (force simp: sample_row_def acc)
qed

lemma sample_advances:
  assumes "0 \<le> cost" "cost \<le> 100" "length accs < 1000"
  shows "advances (sample_step es opc accs cost sp) cost
    (within_call (Delta (FQ (int (length accs)))) (Delta 1) (Delta (FQ sp)))"
  using assms
  by (simp add: advances_def sample_step_def sample_state_def StepState_def within_call_def
      same_context_def fq_modulus_def FQ_arith(3) flip: FQ_arith(4))

text \<open>The usual shapes of a step: one, two or three operands and a result.\<close>

definition unary_step :: "execution_state \<Rightarrow> int \<Rightarrow> word256 \<Rightarrow> word256 \<Rightarrow> int \<Rightarrow> instruction" where
  "unary_step es opc a c cost = sample_step es opc [(RW_Read, 0, a), (RW_Write, 0, c)] cost 0"

definition binary_step ::
  "execution_state \<Rightarrow> int \<Rightarrow> word256 \<Rightarrow> word256 \<Rightarrow> word256 \<Rightarrow> int \<Rightarrow> instruction" where
  "binary_step es opc a b c cost =
     sample_step es opc [(RW_Read, 0, a), (RW_Read, 1, b), (RW_Write, 1, c)] cost 1"

definition ternary_step ::
  "execution_state \<Rightarrow> int \<Rightarrow> word256 \<Rightarrow> word256 \<Rightarrow> word256 \<Rightarrow> word256 \<Rightarrow> int \<Rightarrow> instruction" where
  "ternary_step es opc a b c d cost =
     sample_step es opc [(RW_Read, 0, a), (RW_Read, 1, b), (RW_Read, 2, c), (RW_Write, 2, d)] cost 2"

lemma sample_word [simp]:
  assumes "0 \<le> x" "x < 2 ^ 256"
  shows "word_ok (word_of x)" "int_value (word_of x) = x" "to_u256 (word_of x) = word_of_int x"
  using word_of_ok [OF assms] by (simp_all add: to_u256_def)

lemma unary_step_facts:
  "ss_execution_state (i_curr (unary_step es opc a c cost)) = es"
  "ext_prime_field_inv (i_ext (unary_step es opc a c cost)) = bezout_inv"
  "stack_words_ok (unary_step es opc a c cost) \<longleftrightarrow> word_ok a \<and> word_ok c"
  "opcode_at (unary_step es opc a c cost) 0 True (FQ opc)"
  "stack_value (unary_step es opc a c cost) 0 RW_Read 0 a"
  "stack_value (unary_step es opc a c cost) 1 RW_Write 0 c"
  "0 \<le> cost \<Longrightarrow> cost \<le> 100 \<Longrightarrow>
     advances (unary_step es opc a c cost) cost (within_call (Delta (FQ 2)) (Delta (FQ 1)) Same)"
  using sample_stack [of 0 "[(RW_Read, 0, a), (RW_Write, 0, c)]"]
    sample_stack [of 1 "[(RW_Read, 0, a), (RW_Write, 0, c)]"]
    sample_advances [of cost "[(RW_Read, 0, a), (RW_Write, 0, c)]" es opc 0]
  unfolding unary_step_def
  by (simp_all add: sample_words_ok sample_opcode advances_def within_call_def same_context_def)

lemma binary_step_facts:
  "ss_execution_state (i_curr (binary_step es opc a b c cost)) = es"
  "ext_prime_field_inv (i_ext (binary_step es opc a b c cost)) = bezout_inv"
  "stack_words_ok (binary_step es opc a b c cost) \<longleftrightarrow> word_ok a \<and> word_ok b \<and> word_ok c"
  "opcode_at (binary_step es opc a b c cost) 0 True (FQ opc)"
  "stack_value (binary_step es opc a b c cost) 0 RW_Read 0 a"
  "stack_value (binary_step es opc a b c cost) 1 RW_Read 1 b"
  "stack_value (binary_step es opc a b c cost) 2 RW_Write 1 c"
  "0 \<le> cost \<Longrightarrow> cost \<le> 100 \<Longrightarrow>
     advances (binary_step es opc a b c cost) cost
       (within_call (Delta (FQ 3)) (Delta (FQ 1)) (Delta (FQ 1)))"
  using sample_stack [of 0 "[(RW_Read, 0, a), (RW_Read, 1, b), (RW_Write, 1, c)]"]
    sample_stack [of 1 "[(RW_Read, 0, a), (RW_Read, 1, b), (RW_Write, 1, c)]"]
    sample_stack [of 2 "[(RW_Read, 0, a), (RW_Read, 1, b), (RW_Write, 1, c)]"]
    sample_advances [of cost "[(RW_Read, 0, a), (RW_Read, 1, b), (RW_Write, 1, c)]" es opc 1]
  unfolding binary_step_def
  by (simp_all add: sample_words_ok sample_opcode)

lemma ternary_step_facts:
  "ss_execution_state (i_curr (ternary_step es opc a b c d cost)) = es"
  "ext_prime_field_inv (i_ext (ternary_step es opc a b c d cost)) = bezout_inv"
  "stack_words_ok (ternary_step es opc a b c d cost) \<longleftrightarrow>
     word_ok a \<and> word_ok b \<and> word_ok c \<and> word_ok d"
  "opcode_at (ternary_step es opc a b c d cost) 0 True (FQ opc)"
  "stack_value (ternary_step es opc a b c d cost) 0 RW_Read 0 a"
  "stack_value (ternary_step es opc a b c d cost) 1 RW_Read 1 b"
  "stack_value (ternary_step es opc a b c d cost) 2 RW_Read 2 c"
  "stack_value (ternary_step es opc a b c d cost) 3 RW_Write 2 d"
  "0 \<le> cost \<Longrightarrow> cost \<le> 100 \<Longrightarrow>
     advances (ternary_step es opc a b c d cost) cost
       (within_call (Delta (FQ 4)) (Delta (FQ 1)) (Delta (FQ 2)))"
  using sample_stack [of 0 "[(RW_Read, 0, a), (RW_Read, 1, b), (RW_Read, 2, c), (RW_Write, 2, d)]"]
    sample_stack [of 1 "[(RW_Read, 0, a), (RW_Read, 1, b), (RW_Read, 2, c), (RW_Write, 2, d)]"]
    sample_stack [of 2 "[(RW_Read, 0, a), (RW_Read, 1, b), (RW_Read, 2, c), (RW_Write, 2, d)]"]
    sample_stack [of 3 "[(RW_Read, 0, a), (RW_Read, 1, b), (RW_Read, 2, c), (RW_Write, 2, d)]"]
    sample_advances [of cost "[(RW_Read, 0, a), (RW_Read, 1, b), (RW_Read, 2, c), (RW_Write, 2, d)]" es opc 2]
  unfolding ternary_step_def
  by (simp_all add: sample_words_ok sample_opcode)

end
