(* ===== verification/Exec_Compare.thy ===== *)
theory Exec_Compare
  imports Sample
begin

text \<open>
  The gadgets of \<^verbatim>\<open>src/zkevm_specs/evm_circuit/execution\<close> for addition and subtraction, comparisons
  and the bytewise operations: add_sub.py, iszero.py, comparator.py, slt_sgt.py, not_.py,
  bitwise.py, byte.py. Each is followed by the theorem that says which steps it accepts, in terms
  of the EVM's operation on 256-bit words.
\<close>

unbundle bit_operations_syntax

section \<open>Definitions\<close>

definition add_sub :: "instruction \<Rightarrow> unit instr" where
  "add_sub I =
     ibind (opcode_lookup I True) (\<lambda>opc.
     let (is_sub, _) = pair_select opc (FQ Opcode_SUB) (FQ Opcode_ADD) in
     ibind (stack_pop I) (\<lambda>a.
     ibind (stack_pop I) (\<lambda>b.
     ibind (stack_push I) (\<lambda>c.
     ibind (select is_sub c a) (\<lambda>addend.
     ibind (ilift (add_words [addend, b])) (\<lambda>(total, carry).
     ibind (select is_sub a c) (\<lambda>expected.
     ithen (constrain_equal_word total expected)
       (step_state_transition_in_same_context I opc
         (same_context\<lparr>sc_rw_counter := Delta (FQ 3), sc_program_counter := Delta (FQ 1),
            sc_stack_pointer := Delta (FQ 1)\<rparr>)))))))))"

definition iszero :: "instruction \<Rightarrow> unit instr" where
  "iszero I =
     ibind (opcode_lookup I True) (\<lambda>opc.
     ibind (stack_pop I) (\<lambda>value.
     ibind (ilift (from_lo (is_zero_word value))) (\<lambda>result.
     ibind (stack_push I) (\<lambda>pushed.
     ithen (constrain_equal_word result pushed)
       (step_state_transition_in_same_context I opc
         (same_context\<lparr>sc_rw_counter := Delta (FQ 2), sc_program_counter := Delta (FQ 1),
            sc_stack_pointer := Same\<rparr>))))))"

definition cmp :: "instruction \<Rightarrow> unit instr" where
  "cmp I =
     ibind (opcode_lookup I True) (\<lambda>opc.
     let is_eq = is_equal opc (FQ Opcode_EQ); is_gt = is_equal opc (FQ Opcode_GT) in
     ibind (stack_pop I) (\<lambda>a.
     ibind (stack_pop I) (\<lambda>b.
     ibind (stack_push I) (\<lambda>c.
     let (aa, bb) = (if is_gt = 1 then (b, a) else (a, b)) in
     ibind (compare (lo aa) (lo bb) 16) (\<lambda>(lt_lo, eq_lo).
     ibind (compare (hi aa) (hi bb) 16) (\<lambda>(lt_hi, eq_hi).
     ibind (select lt_hi (FQ 1) (eq_hi * lt_lo)) (\<lambda>lt.
     let eq = eq_lo * eq_hi; result = (if is_eq = 1 then eq else lt) in
     ibind (ilift (from_lo result)) (\<lambda>w.
     ithen (constrain_equal_word w c)
       (step_state_transition_in_same_context I opc
         (same_context\<lparr>sc_rw_counter := Delta (FQ 3), sc_program_counter := Delta (FQ 1),
            sc_stack_pointer := Delta (FQ 1)\<rparr>))))))))))"

definition scmp :: "instruction \<Rightarrow> unit instr" where
  "scmp I =
     ibind (opcode_lookup I True) (\<lambda>opc.
     let (is_sgt, _) = pair_select opc (FQ Opcode_SGT) (FQ Opcode_SLT) in
     ibind (stack_pop I) (\<lambda>a.
     ibind (stack_pop I) (\<lambda>b.
     ibind (stack_push I) (\<lambda>c.
     let aa = (if is_sgt = 1 then b else a); bb = (if is_sgt = 1 then a else b) in
     ibind (ilift (to_le_bytes aa)) (\<lambda>a8s.
     ibind (ilift (to_le_bytes bb)) (\<lambda>b8s.
     ibind (ilift (to_le_bytes c)) (\<lambda>c8s.
     ithen (iassert (c8s ! 31 = 0))
    (ibind (instr_bytes_to_fq (take 31 c8s)) (\<lambda>cc.
     ibind (compare (lo aa) (lo bb) 16) (\<lambda>(a_lt_b_lo, _).
     ibind (compare (hi aa) (hi bb) 16) (\<lambda>(a_lt_b_hi, a_eq_b_hi).
     ibind (select (a_eq_b_hi * a_lt_b_lo) (FQ 1) (FQ 0)) (\<lambda>inner.
     ibind (select a_lt_b_hi (FQ 1) inner) (\<lambda>a_lt_b.
     ithen
       (if fq_n (a8s ! 31) \<ge> 128 \<and> fq_n (b8s ! 31) < 128 then constrain_equal cc (FQ 1)
        else if fq_n (b8s ! 31) \<ge> 128 \<and> fq_n (a8s ! 31) < 128 then constrain_equal cc (FQ 0)
        else constrain_equal cc a_lt_b)
       (step_state_transition_in_same_context I opc
         (same_context\<lparr>sc_rw_counter := Delta (FQ 3), sc_program_counter := Delta (FQ 1),
            sc_stack_pointer := Delta (FQ 1)\<rparr>)))))))))))))))"

definition not_opcode :: "instruction \<Rightarrow> unit instr" where
  "not_opcode I =
     ibind (opcode_lookup I True) (\<lambda>opc.
     ibind (stack_pop I) (\<lambda>a.
     ibind (ilift (to_le_bytes a)) (\<lambda>a_le_bytes.
     ibind (stack_push I) (\<lambda>b.
     ibind (ilift (to_le_bytes b)) (\<lambda>b_le_bytes.
     ithen (iiter (\<lambda>i. ibind (fixed_lookup F_BitwiseXor (a_le_bytes ! i) (b_le_bytes ! i) (FQ 255))
         (\<lambda>_. iret ())) [0..<32])
       (step_state_transition_in_same_context I opc
         (same_context\<lparr>sc_rw_counter := Delta (FQ 2), sc_program_counter := Delta (FQ 1),
            sc_stack_pointer := Same\<rparr>)))))))"

text \<open>\<open>FixedTableTag(n)\<close>: the member with number \<open>n\<close>, or \<open>ValueError\<close>.\<close>

definition to_fixed_table_tag :: "int \<Rightarrow> fixed_table_tag result" where
  "to_fixed_table_tag n =
     (case filter (\<lambda>t. ftag_int t = n) all_fixed_table_tags of
        [] \<Rightarrow> Inl ValueError | t # _ \<Rightarrow> Inr t)"

definition bitwise :: "instruction \<Rightarrow> unit instr" where
  "bitwise I =
     ibind (opcode_lookup I True) (\<lambda>opc.
     ibind (stack_pop I) (\<lambda>a.
     ibind (stack_pop I) (\<lambda>b.
     ibind (stack_push I) (\<lambda>c.
     ibind (ilift (to_le_bytes a)) (\<lambda>a8s.
     ibind (ilift (to_le_bytes b)) (\<lambda>b8s.
     ibind (ilift (to_le_bytes c)) (\<lambda>c8s.
     let tag = ftag_int F_BitwiseAnd + (fq_n opc - Opcode_AND) in
     ithen (iiter (\<lambda>idx.
         ibind (ilift (to_fixed_table_tag tag)) (\<lambda>t.
         ibind (fixed_lookup t (a8s ! idx) (b8s ! idx) (c8s ! idx)) (\<lambda>_. iret ()))) [0..<32])
       (step_state_transition_in_same_context I opc
         (same_context\<lparr>sc_rw_counter := Delta (FQ 3), sc_program_counter := Delta (FQ 1),
            sc_stack_pointer := Delta (FQ 1)\<rparr>)))))))))"

definition byte :: "instruction \<Rightarrow> unit instr" where
  "byte I =
     ibind (opcode_lookup I True) (\<lambda>opc.
     ibind (stack_pop I) (\<lambda>a.
     ibind (stack_pop I) (\<lambda>b.
     ibind (stack_push I) (\<lambda>c.
     ibind (ilift (to_le_bytes a)) (\<lambda>index.
     ibind (ilift (to_le_bytes b)) (\<lambda>value.
     let is_msb_sum_zero = is_zero (sum_list (tl index));
       is_byte_selected = map (\<lambda>idx. is_equal (index ! 0) (FQ (31 - int idx))) [0..<32];
       selected_byte = sum_list (map (\<lambda>(cell, is_selected). is_selected * is_msb_sum_zero * cell)
         (zip value is_byte_selected)) in
     ibind (ilift (from_lo selected_byte)) (\<lambda>w.
     ithen (constrain_equal_word w c)
       (step_state_transition_in_same_context I opc
         (same_context\<lparr>sc_rw_counter := Delta (FQ 3), sc_program_counter := Delta (FQ 1),
            sc_stack_pointer := Delta (FQ 1)\<rparr>)))))))))"

section \<open>Addition and subtraction\<close>

lemma add_words_two:
  assumes "word_ok a" "word_ok b"
  shows "\<exists>c. add_words [a, b] = Inr (word_of ((int_value a + int_value b) mod 2 ^ 256), c)"
proof -
  obtain s c where s: "add_words [a, b] = Inr (s, c)" "word_ok s"
    "int_value s + fq_n c * 2 ^ 256 = (\<Sum>w\<leftarrow>[a, b]. int_value w)"
    by (rule add_words_value [of "[a, b]"]) (use assms in auto)
  have "(int_value a + int_value b) mod 2 ^ 256 = (int_value s + fq_n c * 2 ^ 256) mod 2 ^ 256"
    using s(3) by simp
  also have "\<dots> = int_value s"
    using int_value_nonneg int_value_lt [OF s(2)] by (simp only: mod_mult_self1 mod_pos_pos_trivial)
  finally show ?thesis
    using s(1) word_of_int_value [OF s(2)] by metis
qed

lemma word_of_mod_eq:
  assumes "word_ok w"
  shows "word_of (x mod 2 ^ 256) = w \<longleftrightarrow> to_u256 w = word_of_int x"
    and "w = word_of (x mod 2 ^ 256) \<longleftrightarrow> to_u256 w = word_of_int x"
proof -
  have r: "0 \<le> x mod 2 ^ 256" "x mod 2 ^ 256 < 2 ^ 256" by simp_all
  have "uint (word_of_int x :: 256 word) = x mod 2 ^ 256" by (simp add: uint_word_of_int)
  then have "to_u256 w = word_of_int x \<longleftrightarrow> int_value w = x mod 2 ^ 256"
    using uint_to_u256 [OF assms] by (metis word_uint_eqI)
  also have "\<dots> \<longleftrightarrow> w = word_of (x mod 2 ^ 256)"
    using word_of_ok [OF r] word_of_int_value [OF assms] by metis
  finally show "w = word_of (x mod 2 ^ 256) \<longleftrightarrow> to_u256 w = word_of_int x"
    and "word_of (x mod 2 ^ 256) = w \<longleftrightarrow> to_u256 w = word_of_int x" by auto
qed

lemma opcodes_ADD:
  "opcode_aux_pairs (responsible_opcode ES_ADD) = map (\<lambda>c. (c, 0)) [Opcode_ADD, Opcode_SUB]"
  by (simp add: opcode_aux_pairs_def responsible_opcode_def)

lemma cost_ADD:
  "list_all (\<lambda>c. c \<in> set valid_opcodes \<and> constant_gas_cost c = Inr 3) [Opcode_ADD, Opcode_SUB]"
  by code_simp

lemma add_words_sum:
  assumes "word_ok a" "word_ok b" "word_ok c"
  shows "(\<exists>k. add_words [a, b] = Inr (c, k)) \<longleftrightarrow> to_u256 c = to_u256 a + to_u256 b"
proof -
  have "(\<exists>k. add_words [a, b] = Inr (c, k)) \<longleftrightarrow> word_of ((int_value a + int_value b) mod 2 ^ 256) = c"
    using add_words_two [OF assms(1,2)] by auto
  also have "\<dots> \<longleftrightarrow> to_u256 c = to_u256 a + to_u256 b"
    unfolding word_of_mod_eq(1) [OF assms(3)] by (simp add: to_u256_def)
  finally show ?thesis .
qed

text \<open>
  C12: For a step whose stack rows hold 256-bit words, the gadget of ADD and SUB accepts
  exactly when the opcode is ADD or SUB, the rows of the stack are two reads and a write
  whose words satisfy c = a + b (or c = a - b) modulo 2^256, and the step advances by three
  rows, one byte, one stack slot and three gas.
\<close>

lemma add_sub_accepts:
  assumes es: "ss_execution_state (i_curr I) = ES_ADD" and wf: "stack_words_ok I"
  shows "accepted (add_sub I) \<longleftrightarrow>
    (\<exists>opc a b c. opcode_at I 0 True opc \<and> stack_value I 0 RW_Read 0 a \<and>
       stack_value I 1 RW_Read 1 b \<and> stack_value I 2 RW_Write 1 c \<and>
       (opc = FQ Opcode_ADD \<and> to_u256 c = to_u256 a + to_u256 b \<or>
        opc = FQ Opcode_SUB \<and> to_u256 c = to_u256 a - to_u256 b) \<and>
       advances I 3 (within_call (Delta (FQ 3)) (Delta (FQ 1)) (Delta (FQ 1))))"
proof -
  have ctx: "in_same_context I opc (within_call r p q) \<longleftrightarrow>
      (opc = 1 \<or> opc = FQ 3) \<and> advances I 3 (within_call r p q)" for opc r p q
    using within_call_advances [OF _ cost_ADD, of I] opcodes_ADD by (simp add: es)
  have "accepted (add_sub I) \<longleftrightarrow>
    (\<exists>opc a b c. opcode_at I 0 True opc \<and> stack_value I 0 RW_Read 0 a \<and>
       stack_value I 1 RW_Read 1 b \<and> stack_value I 2 RW_Write 1 c \<and>
       (opc = FQ Opcode_ADD \<and> (\<exists>k. add_words [a, b] = Inr (c, k)) \<or>
        opc = FQ Opcode_SUB \<and> (\<exists>k. add_words [c, b] = Inr (a, k))) \<and>
       advances I 3 (within_call (Delta (FQ 3)) (Delta (FQ 1)) (Delta (FQ 1))))"
    unfolding accepted_def add_sub_def
    by (simp add: ok_simps pair_select_def Let_def ctx, rule iff_exI, rule conj_cong [OF refl],
      rename_tac opc, case_tac "opc = FQ 3"; auto)
  also have "\<dots> \<longleftrightarrow>
    (\<exists>opc a b c. opcode_at I 0 True opc \<and> stack_value I 0 RW_Read 0 a \<and>
       stack_value I 1 RW_Read 1 b \<and> stack_value I 2 RW_Write 1 c \<and>
       (opc = FQ Opcode_ADD \<and> to_u256 c = to_u256 a + to_u256 b \<or>
        opc = FQ Opcode_SUB \<and> to_u256 a = to_u256 c + to_u256 b) \<and>
       advances I 3 (within_call (Delta (FQ 3)) (Delta (FQ 1)) (Delta (FQ 1))))"
    by (intro iff_exI conj_cong disj_cong refl add_words_sum stack_value_word_ok [OF wf])
  finally show ?thesis
    by (simp add: eq_diff_eq) (simp only: eq_commute)
qed

lemma add_sub_accepts_witness:
  "accepted (add_sub (binary_step ES_ADD Opcode_ADD (word_of 3) (word_of (2 ^ 256 - 1)) (word_of 2) 3))"
proof -
  note I = binary_step_facts [where es = ES_ADD and opc = Opcode_ADD
    and a = "word_of 3" and b = "word_of (2 ^ 256 - 1)" and c = "word_of 2" and cost = 3]
  have c: "0 \<le> (3::int)" "3 \<le> (100::int)" by simp_all
  have wf: "word_ok (word_of 3) \<and> word_ok (word_of (2 ^ 256 - 1)) \<and> word_ok (word_of 2)" by simp
  have "to_u256 (word_of 2) = to_u256 (word_of 3) + to_u256 (word_of (2 ^ 256 - 1))" by simp
  with I(4-7) I(8) [OF c] show ?thesis
    unfolding add_sub_accepts [OF I(1) I(3) [THEN iffD2, OF wf]] by blast
qed

section \<open>Comparisons\<close>

lemma opcodes_ISZERO:
  "opcode_aux_pairs (responsible_opcode ES_ISZERO) = map (\<lambda>c. (c, 0)) [Opcode_ISZERO]"
  by (simp add: opcode_aux_pairs_def responsible_opcode_def)

lemma cost_ISZERO:
  "list_all (\<lambda>c. c \<in> set valid_opcodes \<and> constant_gas_cost c = Inr 3) [Opcode_ISZERO]"
  by code_simp

text \<open>
  The gadget of ISZERO accepts exactly when the written word is 1 if the word read is
  zero and 0 otherwise, with the usual advance and three gas.
\<close>

lemma iszero_accepts:
  assumes es: "ss_execution_state (i_curr I) = ES_ISZERO" and wf: "stack_words_ok I"
  shows "accepted (iszero I) \<longleftrightarrow>
    (\<exists>a c. opcode_at I 0 True (FQ Opcode_ISZERO) \<and> stack_value I 0 RW_Read 0 a \<and>
       stack_value I 1 RW_Write 0 c \<and> to_u256 c = of_bool (to_u256 a = 0) \<and>
       advances I 3 (within_call (Delta (FQ 2)) (Delta (FQ 1)) Same))"
proof -
  have ctx: "in_same_context I opc (within_call r p q) \<longleftrightarrow>
      opc = FQ Opcode_ISZERO \<and> advances I 3 (within_call r p q)" for opc r p q
    using within_call_advances [OF _ cost_ISZERO, of I] opcodes_ISZERO by (simp add: es)
  have "accepted (iszero I) \<longleftrightarrow>
    (\<exists>a c. opcode_at I 0 True (FQ Opcode_ISZERO) \<and> stack_value I 0 RW_Read 0 a \<and>
       stack_value I 1 RW_Write 0 c \<and> from_lo (is_zero_word a) = Inr c \<and>
       advances I 3 (within_call (Delta (FQ 2)) (Delta (FQ 1)) Same))"
    unfolding accepted_def iszero_def
    by (simp add: ok_simps ctx del: from_lo_ok) blast
  also have "\<dots> \<longleftrightarrow>
    (\<exists>a c. opcode_at I 0 True (FQ Opcode_ISZERO) \<and> stack_value I 0 RW_Read 0 a \<and>
       stack_value I 1 RW_Write 0 c \<and> to_u256 c = of_bool (to_u256 a = 0) \<and>
       advances I 3 (within_call (Delta (FQ 2)) (Delta (FQ 1)) Same))"
    using stack_value_word_ok [OF wf]
    by (intro iff_exI conj_cong refl) (simp add: is_zero_word_ok to_u256_bool(1))
  finally show ?thesis .
qed

lemma iszero_accepts_witness:
  "accepted (iszero (unary_step ES_ISZERO Opcode_ISZERO (word_of 0) (word_of 1) 3))"
proof -
  note I = unary_step_facts [where es = ES_ISZERO and opc = Opcode_ISZERO
    and a = "word_of 0" and c = "word_of 1" and cost = 3]
  have c: "0 \<le> (3::int)" "3 \<le> (100::int)" by simp_all
  have wf: "word_ok (word_of 0) \<and> word_ok (word_of 1)" by simp
  have "to_u256 (word_of 1) = of_bool (to_u256 (word_of 0) = 0)" by simp
  with I(4-6) I(7) [OF c] show ?thesis
    unfolding iszero_accepts [OF I(1) I(3) [THEN iffD2, OF wf]] by blast
qed

lemma opcodes_CMP:
  "opcode_aux_pairs (responsible_opcode ES_CMP) = map (\<lambda>c. (c, 0)) [Opcode_LT, Opcode_GT, Opcode_EQ]"
  by (simp add: opcode_aux_pairs_def responsible_opcode_def)

lemma cost_CMP:
  "list_all (\<lambda>c. c \<in> set valid_opcodes \<and> constant_gas_cost c = Inr 3) [Opcode_LT, Opcode_GT, Opcode_EQ]"
  by code_simp

text \<open>The two halves compared from the top give the comparison of the words.\<close>

lemma compare_run:
  "n \<le> 31 \<Longrightarrow> fq_n x < 256 ^ n \<Longrightarrow> fq_n y < 256 ^ n \<Longrightarrow>
     compare x y n = iret (fq_of_bool (fq_n x < fq_n y), fq_of_bool (fq_n x = fq_n y))"
  by (simp add: compare_def iassert_def fun_eq_iff ithen_def ibind_def ilift_def)

lemma select_run: "select (fq_of_bool b) x y = iret (if b then x else y)"
  by (simp add: select_def iassert_def fun_eq_iff ithen_def ibind_def ilift_def)

lemma compare_halves:
  assumes ok: "word_ok a" "word_ok b"
  shows "compare (lo a) (lo b) 16 = iret (fq_of_bool (fq_n (lo a) < fq_n (lo b)), fq_of_bool (lo a = lo b))"
    and "compare (hi a) (hi b) 16 = iret (fq_of_bool (fq_n (hi a) < fq_n (hi b)), fq_of_bool (hi a = hi b))"
    and "(if fq_n (hi a) < fq_n (hi b) then 1 else fq_of_bool (hi a = hi b \<and> fq_n (lo a) < fq_n (lo b))) =
      fq_of_bool (to_u256 a < to_u256 b)"
    and "lo a = lo b \<and> hi a = hi b \<longleftrightarrow> to_u256 a = to_u256 b"
proof -
  show "compare (lo a) (lo b) 16 = iret (fq_of_bool (fq_n (lo a) < fq_n (lo b)), fq_of_bool (lo a = lo b))"
    and "compare (hi a) (hi b) 16 = iret (fq_of_bool (fq_n (hi a) < fq_n (hi b)), fq_of_bool (hi a = hi b))"
    using ok by (simp_all add: compare_run word_ok_def fq_eq_iff)
  show "(if fq_n (hi a) < fq_n (hi b) then 1 else fq_of_bool (hi a = hi b \<and> fq_n (lo a) < fq_n (lo b))) =
      fq_of_bool (to_u256 a < to_u256 b)"
    unfolding to_u256_less [OF ok] int_value_less [OF ok] by (simp add: fq_eq_iff)
  show "lo a = lo b \<and> hi a = hi b \<longleftrightarrow> to_u256 a = to_u256 b"
    unfolding to_u256_inject [OF ok] by (auto intro: word256.expand)
qed

text \<open>
  C13: The gadget of LT, GT and EQ accepts exactly when the written word is the truth value
  of the unsigned comparison of the 256-bit words the opcode names.
\<close>

lemma cmp_accepts:
  assumes es: "ss_execution_state (i_curr I) = ES_CMP" and wf: "stack_words_ok I"
  shows "accepted (cmp I) \<longleftrightarrow>
    (\<exists>opc a b c. opcode_at I 0 True opc \<and> stack_value I 0 RW_Read 0 a \<and>
       stack_value I 1 RW_Read 1 b \<and> stack_value I 2 RW_Write 1 c \<and>
       (opc = FQ Opcode_LT \<and> to_u256 c = of_bool (to_u256 a < to_u256 b) \<or>
        opc = FQ Opcode_GT \<and> to_u256 c = of_bool (to_u256 a > to_u256 b) \<or>
        opc = FQ Opcode_EQ \<and> to_u256 c = of_bool (to_u256 a = to_u256 b)) \<and>
       advances I 3 (within_call (Delta (FQ 3)) (Delta (FQ 1)) (Delta (FQ 1))))"
proof -
  have ctx: "in_same_context I opc (within_call r p q) \<longleftrightarrow>
      (opc = FQ Opcode_LT \<or> opc = FQ Opcode_GT \<or> opc = FQ Opcode_EQ) \<and> advances I 3 (within_call r p q)"
    for opc r p q
    using within_call_advances [OF _ cost_CMP, of I] opcodes_CMP by (simp add: es)
  have "accepted (cmp I) \<longleftrightarrow>
    (\<exists>opc a b c. opcode_at I 0 True opc \<and> stack_value I 0 RW_Read 0 a \<and>
       stack_value I 1 RW_Read 1 b \<and> stack_value I 2 RW_Write 1 c \<and>
       (opc = FQ Opcode_LT \<and> WordLH (fq_of_bool (to_u256 a < to_u256 b)) 0 = c \<or>
        opc = FQ Opcode_GT \<and> WordLH (fq_of_bool (to_u256 a > to_u256 b)) 0 = c \<or>
        opc = FQ Opcode_EQ \<and> WordLH (fq_of_bool (to_u256 a = to_u256 b)) 0 = c) \<and>
       advances I 3 (within_call (Delta (FQ 3)) (Delta (FQ 1)) (Delta (FQ 1))))"
    unfolding accepted_def cmp_def
    by (simp add: ok_simps is_equal_simp Let_def ctx stack_pop_wf [OF wf] stack_push_wf [OF wf]
        compare_halves select_run if_distrib [where f = "case_prod _"]
        del: stack_pop_ok stack_push_ok cong: conj_cong if_cong,
      rule iff_exI, rule conj_cong [OF refl], rename_tac opc,
      case_tac "opc = FQ 20"; case_tac "opc = FQ 17";
      auto dest: stack_value_word_ok [OF wf])
  also have "\<dots> \<longleftrightarrow>
    (\<exists>opc a b c. opcode_at I 0 True opc \<and> stack_value I 0 RW_Read 0 a \<and>
       stack_value I 1 RW_Read 1 b \<and> stack_value I 2 RW_Write 1 c \<and>
       (opc = FQ Opcode_LT \<and> to_u256 c = of_bool (to_u256 a < to_u256 b) \<or>
        opc = FQ Opcode_GT \<and> to_u256 c = of_bool (to_u256 a > to_u256 b) \<or>
        opc = FQ Opcode_EQ \<and> to_u256 c = of_bool (to_u256 a = to_u256 b)) \<and>
       advances I 3 (within_call (Delta (FQ 3)) (Delta (FQ 1)) (Delta (FQ 1))))"
    by (intro iff_exI conj_cong disj_cong refl to_u256_bool(1) stack_value_word_ok [OF wf])
  finally show ?thesis .
qed

lemma cmp_accepts_witness:
  "accepted (cmp (binary_step ES_CMP Opcode_GT (word_of 5) (word_of 4) (word_of 1) 3))"
proof -
  note I = binary_step_facts [where es = ES_CMP and opc = Opcode_GT
    and a = "word_of 5" and b = "word_of 4" and c = "word_of 1" and cost = 3]
  have c: "0 \<le> (3::int)" "3 \<le> (100::int)" by simp_all
  have wf: "word_ok (word_of 5) \<and> word_ok (word_of 4) \<and> word_ok (word_of 1)" by simp
  have "to_u256 (word_of 1) = of_bool (to_u256 (word_of 5) > to_u256 (word_of 4))" by simp
  with I(4-7) I(8) [OF c] show ?thesis
    unfolding cmp_accepts [OF I(1) I(3) [THEN iffD2, OF wf]] by blast
qed

lemma opcodes_SCMP:
  "opcode_aux_pairs (responsible_opcode ES_SCMP) = map (\<lambda>c. (c, 0)) [Opcode_SLT, Opcode_SGT]"
  by (simp add: opcode_aux_pairs_def responsible_opcode_def)

lemma cost_SCMP:
  "list_all (\<lambda>c. c \<in> set valid_opcodes \<and> constant_gas_cost c = Inr 3) [Opcode_SLT, Opcode_SGT]"
  by code_simp

text \<open>The pushed value is read as 31 bytes below a zero byte.\<close>

lemma low_bytes_bool:
  assumes "word_ok c"
  shows "word_byte c 31 = 0 \<and> FQ (int_value c mod 256 ^ 31) = fq_of_bool p \<longleftrightarrow> to_u256 c = of_bool p"
proof -
  have m: "0 \<le> int_value c mod 256 ^ 31" "int_value c mod 256 ^ 31 < fq_modulus"
    using pow248_lt_modulus pos_mod_bound [of "256 ^ 31" "int_value c"] by simp_all
  have "FQ (int_value c mod 256 ^ 31) = FQ (of_bool p) \<longleftrightarrow> int_value c mod 256 ^ 31 = of_bool p"
    by (rule FQ_inject [OF m]) (simp_all add: fq_modulus_def)
  moreover have "FQ (of_bool p) = fq_of_bool p" by (cases p) simp_all
  moreover have "int_value c < 256 ^ 31 \<and> int_value c mod 256 ^ 31 = of_bool p \<longleftrightarrow> int_value c = of_bool p"
    using int_value_nonneg [of c] by (cases p) auto
  moreover have "int_value c = of_bool p \<longleftrightarrow> to_u256 c = of_bool p"
  proof -
    have "uint (of_bool p :: 256 word) = of_bool p" by (cases p) simp_all
    then show ?thesis using uint_to_u256 [OF assms] by (metis word_uint_eqI)
  qed
  ultimately show ?thesis unfolding word_byte_top(2) [OF assms] by simp
qed

text \<open>The sign test on the top bytes, then the unsigned comparison.\<close>

lemma signed_compare:
  assumes ok: "word_ok a" "word_ok b"
  shows "(if 128 \<le> word_byte a 31 \<and> word_byte b 31 < 128 then cc = 1
      else if 128 \<le> word_byte b 31 \<and> word_byte a 31 < 128 then cc = 0
      else cc = fq_of_bool (to_u256 a < to_u256 b)) \<longleftrightarrow>
    cc = fq_of_bool (to_u256 a <s to_u256 b)"
  unfolding to_u256_sless [OF ok] to_u256_less [OF ok] word_byte_top(1) [OF ok(1), symmetric]
    word_byte_top(1) [OF ok(2), symmetric]
  by (cases "128 \<le> word_byte a 31"; cases "128 \<le> word_byte b 31") auto

text \<open>
  The gadget of SLT and SGT accepts exactly when the written word is the truth value of
  the comparison of the words as two-s complement integers.
\<close>

lemma scmp_accepts:
  assumes es: "ss_execution_state (i_curr I) = ES_SCMP" and wf: "stack_words_ok I"
  shows "accepted (scmp I) \<longleftrightarrow>
    (\<exists>opc a b c. opcode_at I 0 True opc \<and> stack_value I 0 RW_Read 0 a \<and>
       stack_value I 1 RW_Read 1 b \<and> stack_value I 2 RW_Write 1 c \<and>
       (opc = FQ Opcode_SLT \<and> to_u256 c = of_bool (to_u256 a <s to_u256 b) \<or>
        opc = FQ Opcode_SGT \<and> to_u256 c = of_bool (to_u256 b <s to_u256 a)) \<and>
       advances I 3 (within_call (Delta (FQ 3)) (Delta (FQ 1)) (Delta (FQ 1))))"
proof -
  have ctx: "in_same_context I opc (within_call r p q) \<longleftrightarrow>
      (opc = FQ Opcode_SLT \<or> opc = FQ Opcode_SGT) \<and> advances I 3 (within_call r p q)" for opc r p q
    using within_call_advances [OF _ cost_SCMP, of I] opcodes_SCMP by (simp add: es)
  have check: "(if P then constrain_equal cc x else if Q then constrain_equal cc y else constrain_equal cc z) s = Inr (u, s') \<longleftrightarrow>
      (if P then cc = x else if Q then cc = y else cc = z) \<and> s' = s" for P Q cc x y z s u s'
    by (simp add: constrain_ok)
  have "accepted (scmp I) \<longleftrightarrow>
    (\<exists>opc. opcode_at I 0 True opc \<and> (\<exists>a b c. stack_value I 0 RW_Read 0 a \<and>
       stack_value I 1 RW_Read 1 b \<and> stack_value I 2 RW_Write 1 c \<and>
       (opc = FQ Opcode_SLT \<and> (word_byte c 31 = 0 \<and>
          FQ (int_value c mod 256 ^ 31) = fq_of_bool (to_u256 a <s to_u256 b)) \<or>
        opc = FQ Opcode_SGT \<and> (word_byte c 31 = 0 \<and>
          FQ (int_value c mod 256 ^ 31) = fq_of_bool (to_u256 b <s to_u256 a))) \<and>
       advances I 3 (within_call (Delta (FQ 3)) (Delta (FQ 1)) (Delta (FQ 1)))))"
    unfolding scmp_def accepted_opcode
    by (rule iff_exI, rule conj_cong [OF refl], rename_tac opc, case_tac "opc = FQ Opcode_SGT";
        simp add: ok_simps pair_select_def Let_def stack_pop_wf [OF wf] stack_push_wf [OF wf] ctx
          compare_halves select_run if_fq_of_bool le_bytes_word_nth take_map take_le_bytes
          instr_bytes_to_fq_le_bytes check signed_compare
          del: stack_pop_ok stack_push_ok le_bytes.simps cong: conj_cong if_cong split del: if_split;
        auto dest: stack_value_word_ok [OF wf])
  also have "\<dots> \<longleftrightarrow>
    (\<exists>opc. opcode_at I 0 True opc \<and> (\<exists>a b c. stack_value I 0 RW_Read 0 a \<and>
       stack_value I 1 RW_Read 1 b \<and> stack_value I 2 RW_Write 1 c \<and>
       (opc = FQ Opcode_SLT \<and> to_u256 c = of_bool (to_u256 a <s to_u256 b) \<or>
        opc = FQ Opcode_SGT \<and> to_u256 c = of_bool (to_u256 b <s to_u256 a)) \<and>
       advances I 3 (within_call (Delta (FQ 3)) (Delta (FQ 1)) (Delta (FQ 1)))))"
    by (intro iff_exI conj_cong disj_cong refl low_bytes_bool stack_value_word_ok [OF wf])
  finally show ?thesis by blast
qed

lemma scmp_accepts_witness:
  "accepted (scmp (binary_step ES_SCMP Opcode_SLT (word_of (2 ^ 256 - 1)) (word_of 4) (word_of 1) 3))"
proof -
  note I = binary_step_facts [where es = ES_SCMP and opc = Opcode_SLT
    and a = "word_of (2 ^ 256 - 1)" and b = "word_of 4" and c = "word_of 1" and cost = 3]
  have c: "0 \<le> (3::int)" "3 \<le> (100::int)" by simp_all
  have wf: "word_ok (word_of (2 ^ 256 - 1)) \<and> word_ok (word_of 4) \<and> word_ok (word_of 1)" by simp
  have "to_u256 (word_of 1) = of_bool (to_u256 (word_of (2 ^ 256 - 1)) <s to_u256 (word_of 4))" by simp
  with I(4-7) I(8) [OF c] show ?thesis
    unfolding scmp_accepts [OF I(1) I(3) [THEN iffD2, OF wf]] by blast
qed

section \<open>Bytewise operations\<close>

lemma opcodes_NOT:
  "opcode_aux_pairs (responsible_opcode ES_NOT) = map (\<lambda>c. (c, 0)) [Opcode_NOT]"
  by (simp add: opcode_aux_pairs_def responsible_opcode_def)

lemma cost_NOT:
  "list_all (\<lambda>c. c \<in> set valid_opcodes \<and> constant_gas_cost c = Inr 3) [Opcode_NOT]"
  by code_simp

lemma byte_xor_bound: "0 \<le> x \<Longrightarrow> x < 256 \<Longrightarrow> 0 \<le> y \<Longrightarrow> y < 256 \<Longrightarrow> 0 \<le> x XOR y \<and> x XOR y < (256::int)"
  using XOR_upper [of x 8 y] by simp

lemma xor_bytes_255:
  assumes ok: "word_ok a" "word_ok b"
  shows "(\<forall>i<32. FQ 255 = FQ (word_byte a i XOR word_byte b i)) \<longleftrightarrow> to_u256 b = NOT (to_u256 a)"
proof -
  define m where "m = word_of (2 ^ 256 - 1)"
  have m: "word_ok m" "int_value m = 2 ^ 256 - 1"
    unfolding m_def by (rule word_of_ok; simp)+
  have mb: "word_byte m i = 255" if "i < 32" for i
  proof -
    have "(2::int) ^ 256 - 1 = mask 256" by (simp add: mask_eq_exp_minus_1)
    then have "word_byte m i = take_bit 8 (drop_bit (8 * i) (mask 256))"
      unfolding word_byte_bits m by simp
    also have "\<dots> = mask 8" using that
      by (intro bit_eqI) (auto simp: bit_take_bit_iff bit_drop_bit_eq bit_mask_iff)
    finally show ?thesis by (simp add: mask_eq_exp_minus_1)
  qed
  have "FQ 255 = FQ (word_byte a i XOR word_byte b i) \<longleftrightarrow> word_byte m i = word_byte a i XOR word_byte b i"
    if "i < 32" for i
    unfolding mb [OF that] using byte_xor_bound [of "word_byte a i" "word_byte b i"]
    by (intro FQ_inject) (simp_all add: fq_modulus_def)
  then have "(\<forall>i<32. FQ 255 = FQ (word_byte a i XOR word_byte b i)) \<longleftrightarrow>
      to_u256 m = to_u256 a XOR to_u256 b"
    using bytewise_u256 [OF ok m(1), of "(XOR)" "(XOR)"]
    by (simp add: uint_xor)
  also have "to_u256 m = -1" by (simp add: to_u256_def m(2))
  also have "-1 = to_u256 a XOR to_u256 b \<longleftrightarrow> to_u256 b = NOT (to_u256 a)"
  proof
    assume "-1 = to_u256 a XOR to_u256 b"
    then have "to_u256 a XOR -1 = to_u256 a XOR (to_u256 a XOR to_u256 b)" by simp
    then show "to_u256 b = NOT (to_u256 a)" by (simp add: xor.assoc [symmetric] del: xor.assoc)
  qed simp
  finally show ?thesis .
qed

text \<open>
  The gadget of NOT accepts exactly when the written word is the bitwise complement of
  the word read: the 32 lookups in the fixed table of XOR rows determine it.
\<close>

lemma not_accepts:
  assumes es: "ss_execution_state (i_curr I) = ES_NOT" and wf: "stack_words_ok I"
  shows "accepted (not_opcode I) \<longleftrightarrow>
    (\<exists>a b. opcode_at I 0 True (FQ Opcode_NOT) \<and> stack_value I 0 RW_Read 0 a \<and>
       stack_value I 1 RW_Write 0 b \<and> to_u256 b = NOT (to_u256 a) \<and>
       advances I 3 (within_call (Delta (FQ 2)) (Delta (FQ 1)) Same))"
proof -
  have ctx: "in_same_context I opc (within_call r p q) \<longleftrightarrow>
      opc = FQ Opcode_NOT \<and> advances I 3 (within_call r p q)" for opc r p q
    using within_call_advances [OF _ cost_NOT, of I] opcodes_NOT by (simp add: es)
  have loop: "iiter (\<lambda>i. ibind (fixed_lookup F_BitwiseXor (map FQ (le_bytes 32 (int_value a)) ! i)
        (map FQ (le_bytes 32 (int_value b)) ! i) (FQ 255)) (\<lambda>_. iret ())) [0..<32] s = Inr (u, s') \<longleftrightarrow>
      (\<forall>i<32. FQ 255 = FQ (word_byte a i XOR word_byte b i)) \<and> s' = s" for a b s u s'
    by (subst iiter_ok [where P = "\<lambda>i. FQ 255 = FQ (word_byte a i XOR word_byte b i)"])
      (auto simp: ibind_ok fixed_lookup_ok iret_ok fixed_bitwise le_bytes_word
        simp del: ftag_int.simps le_bytes.simps nth_map)
  show ?thesis
    unfolding not_opcode_def accepted_opcode
    by (simp add: ok_simps stack_pop_wf [OF wf] stack_push_wf [OF wf] ctx loop xor_bytes_255
        del: stack_pop_ok stack_push_ok le_bytes.simps cong: conj_cong)
      (auto dest: stack_value_word_ok [OF wf])
qed

lemma not_accepts_witness:
  "accepted (not_opcode (unary_step ES_NOT Opcode_NOT (word_of 1) (word_of (2 ^ 256 - 2)) 3))"
proof -
  note I = unary_step_facts [where es = ES_NOT and opc = Opcode_NOT
    and a = "word_of 1" and c = "word_of (2 ^ 256 - 2)" and cost = 3]
  have c: "0 \<le> (3::int)" "3 \<le> (100::int)" by simp_all
  have wf: "word_ok (word_of 1) \<and> word_ok (word_of (2 ^ 256 - 2))" by simp
  have "to_u256 (word_of (2 ^ 256 - 2)) = NOT (to_u256 (word_of 1))" by simp
  with I(4-6) I(7) [OF c] show ?thesis
    unfolding not_accepts [OF I(1) I(3) [THEN iffD2, OF wf]] by blast
qed

lemma opcodes_BITWISE:
  "opcode_aux_pairs (responsible_opcode ES_BITWISE) = map (\<lambda>c. (c, 0)) [Opcode_AND, Opcode_OR, Opcode_XOR]"
  by (simp add: opcode_aux_pairs_def responsible_opcode_def)

lemma cost_BITWISE:
  "list_all (\<lambda>c. c \<in> set valid_opcodes \<and> constant_gas_cost c = Inr 3) [Opcode_AND, Opcode_OR, Opcode_XOR]"
  by code_simp

lemma to_fixed_table_tag_bitwise [simp]:
  "to_fixed_table_tag 10 = Inr F_BitwiseAnd"
  "to_fixed_table_tag 11 = Inr F_BitwiseOr"
  "to_fixed_table_tag 12 = Inr F_BitwiseXor"
  by (simp_all add: to_fixed_table_tag_def all_fixed_table_tags_def)

lemma byte_op_bound:
  assumes "0 \<le> x" "x < 256" "0 \<le> y" "y < (256::int)"
  shows "0 \<le> x AND y" "x AND y < 256" "0 \<le> x OR y" "x OR y < 256" "0 \<le> x XOR y" "x XOR y < 256"
  using assms AND_upper1 [of x y] OR_upper [of x 8 y] XOR_upper [of x 8 y] by simp_all

text \<open>A row of a bitwise table for the bytes of three words.\<close>

lemma byte_row_word:
  assumes f: "0 \<le> f (word_byte a i) (word_byte b i)" "f (word_byte a i) (word_byte b i) < 256"
  shows "FQ (word_byte c i) = FQ (f (word_byte a i) (word_byte b i)) \<longleftrightarrow>
    word_byte c i = f (word_byte a i) (word_byte b i)"
  using f word_byte_bounds [of c i] by (intro FQ_small_inject) (simp_all del: word_byte_bounds)

lemma bitwise_loop:
  assumes t: "\<And>x y z. FixedTableRow (FQ (ftag_int t)) x y z \<in> fixed_table \<longleftrightarrow>
      fq_n x < 256 \<and> fq_n y < 256 \<and> z = FQ (f (fq_n x) (fq_n y))"
    and f: "\<And>i. 0 \<le> f (word_byte a i) (word_byte b i) \<and> f (word_byte a i) (word_byte b i) < 256"
  shows "iiter (\<lambda>i. ibind (fixed_lookup t (map FQ (le_bytes 32 (int_value a)) ! i)
        (map FQ (le_bytes 32 (int_value b)) ! i) (map FQ (le_bytes 32 (int_value c)) ! i)) (\<lambda>_. iret ()))
      [0..<32] s = Inr (u, s') \<longleftrightarrow>
      (\<forall>i<32. word_byte c i = f (word_byte a i) (word_byte b i)) \<and> s' = s"
  by (subst iiter_ok [where P = "\<lambda>i. word_byte c i = f (word_byte a i) (word_byte b i)"])
    (use f byte_row_word [of f a _ b c] in \<open>auto simp: ibind_ok fixed_lookup_ok iret_ok t le_bytes_word
        simp del: ftag_int.simps le_bytes.simps nth_map FQ_word_byte\<close>)

lemma bitwise_loops:
  "iiter (\<lambda>i. ibind (fixed_lookup F_BitwiseAnd (map FQ (le_bytes 32 (int_value a)) ! i)
        (map FQ (le_bytes 32 (int_value b)) ! i) (map FQ (le_bytes 32 (int_value c)) ! i)) (\<lambda>_. iret ()))
      [0..<32] s = Inr (u, s') \<longleftrightarrow> (\<forall>i<32. word_byte c i = word_byte a i AND word_byte b i) \<and> s' = s"
  "iiter (\<lambda>i. ibind (fixed_lookup F_BitwiseOr (map FQ (le_bytes 32 (int_value a)) ! i)
        (map FQ (le_bytes 32 (int_value b)) ! i) (map FQ (le_bytes 32 (int_value c)) ! i)) (\<lambda>_. iret ()))
      [0..<32] s = Inr (u, s') \<longleftrightarrow> (\<forall>i<32. word_byte c i = word_byte a i OR word_byte b i) \<and> s' = s"
  "iiter (\<lambda>i. ibind (fixed_lookup F_BitwiseXor (map FQ (le_bytes 32 (int_value a)) ! i)
        (map FQ (le_bytes 32 (int_value b)) ! i) (map FQ (le_bytes 32 (int_value c)) ! i)) (\<lambda>_. iret ()))
      [0..<32] s = Inr (u, s') \<longleftrightarrow> (\<forall>i<32. word_byte c i = word_byte a i XOR word_byte b i) \<and> s' = s"
  by (rule bitwise_loop; simp add: fixed_bitwise byte_op_bound del: ftag_int.simps)+

lemma bytewise_ops:
  assumes "word_ok a" "word_ok b" "word_ok c"
  shows "(\<forall>i<32. word_byte c i = word_byte a i AND word_byte b i) \<longleftrightarrow> to_u256 c = to_u256 a AND to_u256 b"
    and "(\<forall>i<32. word_byte c i = word_byte a i OR word_byte b i) \<longleftrightarrow> to_u256 c = to_u256 a OR to_u256 b"
    and "(\<forall>i<32. word_byte c i = word_byte a i XOR word_byte b i) \<longleftrightarrow> to_u256 c = to_u256 a XOR to_u256 b"
  by (rule bytewise_u256 [OF assms]; simp add: uint_and uint_or uint_xor)+

text \<open>
  C14: The gadget of AND, OR and XOR accepts exactly when the written word is the bitwise
  operation of the opcode on the two words read.
\<close>

lemma bitwise_accepts:
  assumes es: "ss_execution_state (i_curr I) = ES_BITWISE" and wf: "stack_words_ok I"
  shows "accepted (bitwise I) \<longleftrightarrow>
    (\<exists>opc. opcode_at I 0 True opc \<and> (\<exists>a b c. stack_value I 0 RW_Read 0 a \<and>
       stack_value I 1 RW_Read 1 b \<and> stack_value I 2 RW_Write 1 c \<and>
       (opc = FQ Opcode_AND \<and> to_u256 c = to_u256 a AND to_u256 b \<or>
        opc = FQ Opcode_OR \<and> to_u256 c = to_u256 a OR to_u256 b \<or>
        opc = FQ Opcode_XOR \<and> to_u256 c = to_u256 a XOR to_u256 b) \<and>
       advances I 3 (within_call (Delta (FQ 3)) (Delta (FQ 1)) (Delta (FQ 1)))))"
proof -
  have ctx: "in_same_context I opc (within_call r p q) \<longleftrightarrow>
      (opc = FQ Opcode_AND \<or> opc = FQ Opcode_OR \<or> opc = FQ Opcode_XOR) \<and> advances I 3 (within_call r p q)"
    for opc r p q
    using within_call_advances [OF _ cost_BITWISE, of I] opcodes_BITWISE by (simp add: es)
  show ?thesis
    unfolding bitwise_def accepted_opcode
    by (rule iff_exI, rule conj_cong [OF refl], rename_tac opc,
        case_tac "opc = FQ 22"; case_tac "opc = FQ 23"; case_tac "opc = FQ 24";
        simp add: ok_simps stack_pop_wf [OF wf] stack_push_wf [OF wf] ctx bitwise_loops bytewise_ops
          fq_modulus_def
          del: stack_pop_ok stack_push_ok le_bytes.simps nth_map cong: conj_cong;
        auto dest: stack_value_word_ok [OF wf])
qed

lemma bitwise_accepts_witness:
  "accepted (bitwise (binary_step ES_BITWISE Opcode_XOR (word_of 6) (word_of 5) (word_of 3) 3))"
proof -
  note I = binary_step_facts [where es = ES_BITWISE and opc = Opcode_XOR
    and a = "word_of 6" and b = "word_of 5" and c = "word_of 3" and cost = 3]
  have c: "0 \<le> (3::int)" "3 \<le> (100::int)" by simp_all
  have wf: "word_ok (word_of 6) \<and> word_ok (word_of 5) \<and> word_ok (word_of 3)" by simp
  have "to_u256 (word_of 3) = to_u256 (word_of 6) XOR to_u256 (word_of 5)" by simp
  with I(4-7) I(8) [OF c] show ?thesis
    unfolding bitwise_accepts [OF I(1) I(3) [THEN iffD2, OF wf]] by blast
qed

section \<open>Selecting a byte\<close>

lemma opcodes_BYTE:
  "opcode_aux_pairs (responsible_opcode ES_BYTE) = map (\<lambda>c. (c, 0)) [Opcode_BYTE]"
  by (simp add: opcode_aux_pairs_def responsible_opcode_def)

lemma cost_BYTE:
  "list_all (\<lambda>c. c \<in> set valid_opcodes \<and> constant_gas_cost c = Inr 3) [Opcode_BYTE]"
  by code_simp

text \<open>The bytes above the lowest are all zero iff the word is below 256.\<close>

lemma high_bytes_zero:
  assumes "word_ok w"
  shows "sum_list (tl (map FQ (le_bytes 32 (int_value w)))) = 0 \<longleftrightarrow> int_value w < 256"
proof -
  let ?bs = "le_bytes 31 (int_value w div 256)"
  have q: "0 \<le> int_value w div 256" "int_value w div 256 < 256 ^ 31"
    using int_value_nonneg [of w] int_value_lt [OF assms]
    by (simp_all add: pos_imp_zdiv_nonneg_iff int_div_lt)
  have "tl (le_bytes 32 (int_value w)) = ?bs"
    using drop_le_bytes [of 1 32 "int_value w"] by (simp add: drop_Suc del: le_bytes.simps)
  then have "sum_list (tl (map FQ (le_bytes 32 (int_value w)))) = FQ (sum_list ?bs)"
    by (simp only: map_tl [symmetric] sum_list_FQ)
  moreover have "0 \<le> sum_list ?bs \<and> sum_list ?bs < fq_modulus \<and> (sum_list ?bs = 0 \<longleftrightarrow> le_val ?bs = 0)"
    by (rule sum_bytes_small) (auto simp: le_bytes_is_byte simp del: le_bytes.simps)
  moreover have "le_val ?bs = int_value w div 256" using q by (simp del: le_bytes.simps)
  moreover have "int_value w div 256 = 0 \<longleftrightarrow> int_value w < 256"
    using int_value_nonneg [of w] by (auto simp: zdiv_eq_0_iff)
  ultimately show ?thesis by (simp add: fq_eq_iff)
qed

lemma selected_byte:
  assumes "word_ok a"
  shows "sum_list (map (\<lambda>(cell, is_selected). is_selected * fq_of_bool (int_value a < 256) * cell)
      (zip (map FQ (le_bytes 32 (int_value b)))
        (map (\<lambda>idx. fq_of_bool (FQ (word_byte a 0) = FQ (31 - int idx))) [0..<32]))) =
    (if int_value a < 32 then FQ (word_byte b (31 - nat (int_value a))) else 0)"
proof -
  have sel: "FQ (word_byte a 0) = FQ (31 - int i) \<and> int_value a < 256 \<longleftrightarrow> int_value a = 31 - int i"
    if "i < 32" for i
  proof -
    have "FQ (word_byte a 0) = FQ (31 - int i) \<longleftrightarrow> word_byte a 0 = 31 - int i"
      using that word_byte_bounds [of a 0] by (intro FQ_small_inject) (simp_all del: word_byte_bounds)
    then show ?thesis using that int_value_nonneg [of a] by (auto simp: word_byte_def)
  qed
  have "sum_list (map (\<lambda>(cell, is_selected). is_selected * fq_of_bool (int_value a < 256) * cell)
      (zip (map FQ (le_bytes 32 (int_value b)))
        (map (\<lambda>idx. fq_of_bool (FQ (word_byte a 0) = FQ (31 - int idx))) [0..<32]))) =
      sum_list (map (\<lambda>i. fq_of_bool (FQ (word_byte a 0) = FQ (31 - int i) \<and> int_value a < 256) *
        FQ (word_byte b i)) [0..<32])"
    unfolding le_bytes_word_list zip_map_map map_map
    by (simp add: o_def zip_same_conv_map)
  also have "\<dots> = sum_list (map (\<lambda>i. if i = 31 - nat (int_value a) \<and> int_value a < 32
      then FQ (word_byte b i) else 0) [0..<32])"
    using sel int_value_nonneg [of a] by (intro arg_cong [where f = sum_list] map_cong refl) auto
  also have "\<dots> = (if int_value a < 32 then FQ (word_byte b (31 - nat (int_value a))) else 0)"
    using int_value_nonneg [of a]
    by (auto simp: interv_sum_list_conv_sum_set_nat sum.delta)
  finally show ?thesis .
qed

lemma byte_u256:
  assumes "word_ok b" "word_ok c" "i < 32"
  shows "WordLH (FQ (word_byte b i)) 0 = c \<longleftrightarrow> to_u256 c = drop_bit (8 * i) (to_u256 b) AND 255"
proof -
  have lt: "word_byte b i < 2 ^ 128" by (rule less_trans [OF word_byte_bounds(2)]) simp
  have w: "word_ok (WordLH (FQ (word_byte b i)) 0)" "int_value (WordLH (FQ (word_byte b i)) 0) = word_byte b i"
    using word_ok_FQ [of "word_byte b i" 0] lt by simp_all
  have "uint (drop_bit (8 * i) (to_u256 b) AND 255) = word_byte b i"
    unfolding uint_and unsigned_drop_bit_eq uint_to_u256 [OF assms(1)] word_byte_bits
    using int_value_nonneg [of b] int_value_lt [OF assms(1)]
    by (simp add: take_bit_eq_mask [of 8] mask_eq_exp_minus_1 take_bit_int_eq_self)
  moreover have "WordLH (FQ (word_byte b i)) 0 = c \<longleftrightarrow> int_value c = word_byte b i"
    using int_value_inject [OF w(1) assms(2)] w(2) by metis
  ultimately show ?thesis
    using uint_to_u256 [OF assms(2)] by (simp add: word_uint_eq_iff)
qed

text \<open>
  The gadget of BYTE accepts exactly when the written word is byte a of b counted from
  the most significant one, and zero for a of 32 and more.
\<close>

lemma byte_accepts:
  assumes es: "ss_execution_state (i_curr I) = ES_BYTE" and wf: "stack_words_ok I"
  shows "accepted (byte I) \<longleftrightarrow>
    (\<exists>a b c. opcode_at I 0 True (FQ Opcode_BYTE) \<and> stack_value I 0 RW_Read 0 a \<and>
       stack_value I 1 RW_Read 1 b \<and> stack_value I 2 RW_Write 1 c \<and>
       to_u256 c = (if to_u256 a < 32
         then drop_bit (8 * (31 - unat (to_u256 a))) (to_u256 b) AND 255 else 0) \<and>
       advances I 3 (within_call (Delta (FQ 3)) (Delta (FQ 1)) (Delta (FQ 1))))"
proof -
  have ctx: "in_same_context I opc (within_call r p q) \<longleftrightarrow>
      opc = FQ Opcode_BYTE \<and> advances I 3 (within_call r p q)" for opc r p q
    using within_call_advances [OF _ cost_BYTE, of I] opcodes_BYTE by (simp add: es)
  have res: "from_lo (if int_value a < 32 then FQ (word_byte b (31 - nat (int_value a))) else 0) = Inr c \<longleftrightarrow>
      to_u256 c = (if to_u256 a < 32
         then drop_bit (8 * (31 - unat (to_u256 a))) (to_u256 b) AND 255 else 0)"
    if ok: "word_ok a" "word_ok b" "word_ok c" for a b c
  proof -
    have a: "to_u256 a < 32 \<longleftrightarrow> int_value a < 32" "unat (to_u256 a) = nat (int_value a)"
      using uint_to_u256 [OF ok(1)] by (simp_all add: word_less_def unat_eq_nat_uint)
    have b: "word_byte b i < 2 ^ 128" for i by (rule less_trans [OF word_byte_bounds(2)]) simp
    have "31 - nat (int_value a) < 32" by linarith
    then show ?thesis
      using byte_u256 [OF ok(2,3), of "31 - nat (int_value a)"] b to_u256_zero [OF ok(3)]
      by (auto simp: a from_lo_ok)
  qed
  show ?thesis
    unfolding byte_def accepted_opcode
    by (simp add: ok_simps Let_def stack_pop_wf [OF wf] stack_push_wf [OF wf] ctx
        is_zero_simp is_equal_simp high_bytes_zero le_bytes_word selected_byte res
        del: stack_pop_ok stack_push_ok from_lo_ok le_bytes.simps nth_map cong: conj_cong split del: if_split)
      (blast dest: stack_value_word_ok [OF wf])
qed

lemma byte_accepts_witness:
  "accepted (byte (binary_step ES_BYTE Opcode_BYTE (word_of 30) (word_of 0x1234) (word_of 0x12) 3))"
proof -
  note I = binary_step_facts [where es = ES_BYTE and opc = Opcode_BYTE
    and a = "word_of 30" and b = "word_of 0x1234" and c = "word_of 0x12" and cost = 3]
  have c: "0 \<le> (3::int)" "3 \<le> (100::int)" by simp_all
  have wf: "word_ok (word_of 30) \<and> word_ok (word_of 0x1234) \<and> word_ok (word_of 0x12)" by simp
  have "to_u256 (word_of 0x12) = (if to_u256 (word_of 30) < 32 then drop_bit (8 * (31 - unat (to_u256 (word_of 30)))) (to_u256 (word_of 0x1234)) AND 255 else 0)" by simp
  with I(4-7) I(8) [OF c] show ?thesis
    unfolding byte_accepts [OF I(1) I(3) [THEN iffD2, OF wf]] by blast
qed

end
