(* ===== verification/Word_Results.thy ===== *)
theory Word_Results
  imports Row_Facts
begin

text \<open>
  Words that a gadget computes against the words it reads: selection by a bit, the truth of a
  word as an integer, quotients and remainders, and the overflow of an exact product.
\<close>

section \<open>Selected words\<close>

declare word_of_0 [simp]

lemma word_select_bit [simp]:
  "word_ok w \<Longrightarrow> word_select w 1 = Inr w"
  "word_select w 0 = Inr (WordLH 0 0)"
  by (simp_all add: word_select_def word_of_tuple_ok word_ok_def)

lemma word_plus_zero [simp]:
  "word_ok w \<Longrightarrow> word_plus w (WordLH 0 0) = Inr w"
  "word_ok w \<Longrightarrow> word_plus (WordLH 0 0) w = Inr w"
  by (simp_all add: word_plus_def word_of_tuple_ok word_ok_def)

lemma word_select_bool [simp]:
  "word_ok w \<Longrightarrow> word_select w (fq_of_bool b) = Inr (if b then w else WordLH 0 0)"
  by (cases b) simp_all

lemma word_ok_if [simp]: "word_ok w \<Longrightarrow> word_ok (if b then w else WordLH 0 0)"
  by simp

lemma word_or_zero_eq:
  "w = (if b then w else WordLH 0 0) \<longleftrightarrow> b \<or> w = WordLH 0 0"
  "(if b then w else WordLH 0 0) = w \<longleftrightarrow> b \<or> w = WordLH 0 0"
  "word_ok v \<Longrightarrow> v = (if b then w else WordLH 0 0) \<longleftrightarrow> (if b then v = w else int_value v = 0)"
  by (auto simp: int_value_zero)

lemma if_Inr: "(if b then x else y) = Inr r \<longleftrightarrow> b \<and> x = Inr r \<or> \<not> b \<and> y = Inr r"
  by simp

lemma sum_zero_bytes: "sum_list (map FQ (le_bytes n 0)) = 0"
  by (induction n) simp_all

lemma int_value_neg [simp]: "\<not> int_value w < 0"
  by (simp add: not_less int_value_nonneg)

lemma int_value_mod [simp]: "word_ok w \<Longrightarrow> int_value w mod 2 ^ 256 = int_value w"
  using int_value_nonneg [of w] int_value_lt [of w] by simp

text \<open>A word of the stack against a computed 256-bit word, as integers.\<close>

lemma to_u256_eq: "word_ok c \<Longrightarrow> to_u256 c = v \<longleftrightarrow> int_value c = uint v"
  by (simp add: word_uint_eq_iff uint_to_u256)

lemma to_u256_eq_0: "word_ok c \<Longrightarrow> to_u256 c = 0 \<longleftrightarrow> int_value c = 0"
  by (simp add: to_u256_eq)

lemma uint_u256_ops:
  assumes "word_ok a" "word_ok b"
  shows "uint (to_u256 a * to_u256 b) = int_value a * int_value b mod 2 ^ 256"
    and "uint (to_u256 a + to_u256 b) = (int_value a + int_value b) mod 2 ^ 256"
    and "uint (to_u256 a div to_u256 b) = int_value a div int_value b"
    and "uint (to_u256 a mod to_u256 b) = int_value a mod int_value b"
  using assms by (simp_all add: uint_word_ariths uint_div uint_mod uint_to_u256)

lemma is_zero_word_int: "word_ok w \<Longrightarrow> is_zero_word w = fq_of_bool (int_value w = 0)"
  by (simp add: is_zero_word_ok to_u256_eq_0)

text \<open>A quotient and a remainder of one word by another overflow nothing.\<close>

lemma product_overflow_exact:
  assumes pfi: "prime_field_inv_spec (ext_prime_field_inv (i_ext I))"
    and ok: "word_ok a" "word_ok b" "word_ok c" "word_ok d"
    and eq: "int_value a * int_value b + int_value c = int_value d"
  shows "product_overflow I a b c d = 0"
proof -
  have "(int_value a * int_value b + int_value c) mod 2 ^ 256 = int_value d"
    unfolding eq using int_value_nonneg [of d] int_value_lt [OF ok(4)] by simp
  then show ?thesis using product_overflow_zero [OF pfi ok] eq by simp
qed

lemma product_overflow_rest:
  assumes pfi: "prime_field_inv_spec (ext_prime_field_inv (i_ext I))"
    and ok: "word_ok q" "word_ok b" "word_ok d" and le: "int_value b * int_value q \<le> int_value d"
  shows "product_overflow I q b (word_of (int_value d - int_value b * int_value q)) d = 0"
proof (rule product_overflow_exact [OF pfi ok(1,2) _ ok(3)])
  have "0 \<le> int_value b * int_value q" using int_value_nonneg by simp
  then have r: "0 \<le> int_value d - int_value b * int_value q"
    "int_value d - int_value b * int_value q < 2 ^ 256"
    using le int_value_lt [OF ok(3)] by linarith+
  note w = word_of_ok [OF r]
  show "word_ok (word_of (int_value d - int_value b * int_value q))" by (rule w)
  show "int_value q * int_value b + int_value (word_of (int_value d - int_value b * int_value q)) = int_value d"
    unfolding w by (simp add: mult.commute)
qed

lemma int_div_unique:
  assumes "0 \<le> d" "0 \<le> (b::int)"
  shows "q = d div b \<longleftrightarrow> (if b = 0 then q = 0 else b * q \<le> d \<and> d - b * q < b)"
proof (cases "b = 0")
  case False
  then have "0 < b" using assms by simp
  show ?thesis
  proof
    assume q: "q = d div b"
    have "b * q = d - d mod b" unfolding q by (rule minus_mod_eq_mult_div [symmetric])
    then show "if b = 0 then q = 0 else b * q \<le> d \<and> d - b * q < b"
      using \<open>0 < b\<close> pos_mod_bound [of b d] pos_mod_sign [of b d] by auto
  next
    assume "if b = 0 then q = 0 else b * q \<le> d \<and> d - b * q < b"
    then show "q = d div b"
      using \<open>0 < b\<close> int_div_pos_eq [of d b q "d - b * q"] by simp
  qed
qed simp

lemma word_rest_ok:
  assumes "word_ok d" "int_value b * int_value q \<le> int_value d"
  shows "int_value d - int_value b * int_value q < 2 ^ 256"
proof -
  have "0 \<le> int_value b * int_value q" using int_value_nonneg by simp
  then show ?thesis using int_value_lt [OF assms(1)] by linarith
qed

lemma fq_inv_FQ:
  assumes "prime_field_inv_spec pfi" "(2::int) ^ k < fq_modulus"
  shows "FQ (2 ^ k) * fq_inv pfi (FQ (2 ^ k)) = 1"
  using fq_inv_mult [OF assms(1) coprime_fq_pow2 [OF assms(2)]] by (simp add: mult.commute)

lemma int_value_pos: "0 < int_value w \<longleftrightarrow> int_value w \<noteq> 0"
  using int_value_nonneg [of w] by auto

lemma word_div_mod_bounds:
  assumes "word_ok a"
  shows "0 \<le> int_value a div int_value n" "int_value a div int_value n < 2 ^ 256"
    and "0 \<le> int_value a mod int_value n" "int_value a mod int_value n < 2 ^ 256"
proof -
  have q: "0 \<le> int_value a div int_value n" "int_value a div int_value n \<le> int_value a"
    by (cases "int_value n = 0"; simp add: pos_imp_zdiv_nonneg_iff int_div_le int_value_pos int_value_nonneg)+
  have r: "0 \<le> int_value a mod int_value n" "int_value a mod int_value n \<le> int_value a"
    by (cases "int_value n = 0"; simp add: int_value_pos int_value_nonneg zmod_le_nonneg_dividend)+
  show "0 \<le> int_value a div int_value n" "int_value a div int_value n < 2 ^ 256"
    "0 \<le> int_value a mod int_value n" "int_value a mod int_value n < 2 ^ 256"
    using q r int_value_lt [OF assms] by linarith+
qed

lemma add_words_carry:
  assumes "word_ok a" "word_ok b"
  shows "add_words [a, b] = Inr (r, c) \<longleftrightarrow>
    r = word_of ((int_value a + int_value b) mod 2 ^ 256) \<and> c = FQ ((int_value a + int_value b) div 2 ^ 256)"
proof -
  obtain s k where s: "add_words [a, b] = Inr (s, k)" "word_ok s"
    "int_value s + fq_n k * 2 ^ 256 = (\<Sum>w\<leftarrow>[a, b]. int_value w)"
    by (rule add_words_value [of "[a, b]"]) (use assms in auto)
  then have sum: "int_value a + int_value b = int_value s + fq_n k * 2 ^ 256" by simp
  have "(int_value a + int_value b) mod 2 ^ 256 = int_value s" "(int_value a + int_value b) div 2 ^ 256 = fq_n k"
    unfolding sum using int_value_nonneg [of s] int_value_lt [OF s(2)]
    by (simp_all only: mod_mult_self1 mod_pos_pos_trivial div_mult_self1 div_pos_pos_trivial)
  then show ?thesis using s(1) word_of_int_value [OF s(2)] by auto
qed

lemma fq_two: "(1::fq) + 1 = FQ 2"
  using FQ_arith(3) [of 1 1] by simp

lemma mod_neg: "0 < m \<Longrightarrow> \<not> x mod m < (0::int)"
  by (simp add: not_less)

end
