(* ===== verification/Exec_MulDiv.thy ===== *)
theory Exec_MulDiv
  imports Exec_Compare Word_Results
begin

text \<open>
  The gadgets of \<^verbatim>\<open>src/zkevm_specs/evm_circuit/execution\<close> for multiplication, division and
  remainders: mul_div_mod.py, addmod.py and mulmod.py. The parts that compute a
  witness and the parts that constrain it are kept apart as in the source.
\<close>

section \<open>MUL, DIV, MOD\<close>

definition mul_div_mod_witness ::
  "fq \<Rightarrow> fq \<Rightarrow> word256 \<Rightarrow> word256 \<Rightarrow> word256 \<Rightarrow> (word256 \<times> word256 \<times> word256 \<times> word256) result" where
  "mul_div_mod_witness is_mul is_div pop1 pop2 push =
     (if is_mul = 1 then
        rbind (word_of_int256 0) (\<lambda>c. Inr (pop1, pop2, c, push))
      else if is_div = 1 then
        rbind (word_of_int256 (int_value pop1 - int_value pop2 * int_value push)) (\<lambda>c.
        Inr (push, pop2, c, pop1))
      else if int_value pop2 = 0 then
        rbind (word_of_int256 0) (\<lambda>a. Inr (a, pop2, pop1, pop1))
      else
        rbind (word_of_int256 ((int_value pop1 - int_value push) div int_value pop2)) (\<lambda>a.
        Inr (a, pop2, push, pop1)))"

definition mul_div_mod :: "instruction \<Rightarrow> unit instr" where
  "mul_div_mod I =
     ibind (opcode_lookup I True) (\<lambda>opc.
     let inv = fq_inv (ext_prime_field_inv (i_ext I));
       is_mul = (FQ Opcode_DIV - opc) * (FQ Opcode_MOD - opc) * inv (FQ 8);
       is_div = (opc - FQ Opcode_MUL) * (FQ Opcode_MOD - opc) * inv (FQ 4);
       is_mod = (opc - FQ Opcode_MUL) * (opc - FQ Opcode_DIV) * inv (FQ 8) in
     ibind (stack_pop I) (\<lambda>pop1.
     ibind (stack_pop I) (\<lambda>pop2.
     ibind (stack_push I) (\<lambda>push.
     ibind (ilift (mul_div_mod_witness is_mul is_div pop1 pop2 push)) (\<lambda>(a, b, c, d).
     let divisor_is_zero = is_zero_word b in
     ibind (instr_mul_add_words I a b c d) (\<lambda>overflow.
     ibind (select is_mul a d) (\<lambda>w1.
     ithen (constrain_equal_word pop1 w1)
    (ithen (constrain_equal_word pop2 b)
    (ibind (ilift (word_select d is_mul)) (\<lambda>s1.
     ibind (ilift (word_select a (is_div * (1 - divisor_is_zero)))) (\<lambda>s2.
     ibind (ilift (word_plus s1 s2)) (\<lambda>s12.
     ibind (ilift (word_select c (is_mod * (1 - divisor_is_zero)))) (\<lambda>s3.
     ibind (ilift (word_plus s12 s3)) (\<lambda>w2.
     ithen (constrain_equal_word push w2)
    (ibind (ilift (to_le_bytes c)) (\<lambda>c_bytes.
     ithen (constrain_zero (is_mul * sum_values c_bytes))
    (ibind (compare_word c b) (\<lambda>(lt, _).
     ithen (constrain_zero ((1 - is_mul) * (1 - divisor_is_zero) * (1 - lt)))
    (ithen (constrain_zero ((1 - is_mul) * overflow))
       (step_state_transition_in_same_context I opc
         (same_context\<lparr>sc_rw_counter := Delta (FQ 3), sc_program_counter := Delta (FQ 1),
            sc_stack_pointer := Delta (FQ 1)\<rparr>)))))))))))))))))))))"

section \<open>ADDMOD\<close>

definition lt_u256 :: "word256 \<Rightarrow> word256 \<Rightarrow> fq instr" where
  "lt_u256 a b =
     ibind (compare (lo a) (lo b) 16) (\<lambda>(a_lt_b_lo, _).
     ibind (compare (hi a) (hi b) 16) (\<lambda>(a_lt_b_hi, a_eq_b_hi).
     ibind (select (a_eq_b_hi * a_lt_b_lo) (FQ 1) (FQ 0)) (\<lambda>inner.
     select a_lt_b_hi (FQ 1) inner)))"

definition addmod_witness ::
  "word256 \<Rightarrow> word256 \<Rightarrow> word256 \<Rightarrow> word256 \<Rightarrow> (int \<times> int \<times> int \<times> word256) result" where
  "addmod_witness a b n pushed_r =
     (if int_value n = 0 then
        let a_reduced = int_value a in
        rbind (word_of_int256 ((a_reduced + int_value b) mod 2 ^ 256)) (\<lambda>r.
        Inr (a_reduced, 0, 0, r))
      else
        let a_reduced = int_value a mod int_value n;
          k = int_value a div int_value n;
          d = (a_reduced + int_value b) div int_value n in
        Inr (a_reduced, k, d, pushed_r))"

text \<open>The checks of \<open>addmod\<close> once the witness is chosen.\<close>

definition addmod_checks ::
  "instruction \<Rightarrow> word256 \<Rightarrow> word256 \<Rightarrow> word256 \<Rightarrow> word256 \<Rightarrow> int \<times> int \<times> int \<times> word256 \<Rightarrow> unit instr" where
  "addmod_checks I a b n pushed_r = (\<lambda>(a_reduced, k, d, r).
     ibind (ilift (word_of_int256 k)) (\<lambda>k_word.
     ibind (ilift (word_of_int256 a_reduced)) (\<lambda>a_reduced_word.
     ibind (instr_mul_add_words I k_word n a_reduced_word a) (\<lambda>overflow.
     ithen (constrain_zero overflow)
    (ibind (ilift (add_words [a_reduced_word, b])) (\<lambda>(a_reduced_plus_b, overflow2).
     ibind (ilift (word_of_int256 d)) (\<lambda>d_word.
     ibind (ilift (if int_value n > 0 then from_lo overflow2 else word_of_int256 0)) (\<lambda>high.
     ithen (mul_add_words_512 I d_word n r high a_reduced_plus_b)
    (let n_is_zero = is_zero_word n in
     ibind (lt_u256 r n) (\<lambda>r_lt_n.
     ibind (lt_u256 a_reduced_word n) (\<lambda>a_reduced_lt_n.
     ithen (constrain_zero (FQ 2 - (a_reduced_lt_n + r_lt_n + FQ 2 * n_is_zero)))
       (iassert (int_value pushed_r = fq_n (FQ (int_value r) * (1 - n_is_zero)))))))))))))))"

definition addmod_body :: "instruction \<Rightarrow> word256 \<Rightarrow> word256 \<Rightarrow> word256 \<Rightarrow> word256 \<Rightarrow> unit instr" where
  "addmod_body I a b n pushed_r =
     ibind (ilift (addmod_witness a b n pushed_r)) (addmod_checks I a b n pushed_r)"

definition addmod :: "instruction \<Rightarrow> unit instr" where
  "addmod I =
     ibind (opcode_lookup I True) (\<lambda>opc.
     ithen (constrain_equal opc (FQ Opcode_ADDMOD))
    (ibind (stack_pop I) (\<lambda>a.
     ibind (stack_pop I) (\<lambda>b.
     ibind (stack_pop I) (\<lambda>n.
     ibind (stack_push I) (\<lambda>pushed_r.
     ithen (addmod_body I a b n pushed_r)
       (step_state_transition_in_same_context I opc
         (same_context\<lparr>sc_rw_counter := Delta (FQ 4), sc_program_counter := Delta (FQ 1),
            sc_stack_pointer := Delta (FQ 2)\<rparr>))))))))"

text \<open>
  The last check compares an integer with the product of an integer and a field element: the
  product is a field element, so the comparison is with its residue.
\<close>

section \<open>MULMOD\<close>

definition mod_witness :: "word256 \<Rightarrow> word256 \<Rightarrow> (word256 \<times> int) result" where
  "mod_witness a n =
     (if int_value n = 0 then rbind (word_of_int256 0) (\<lambda>z. Inr (z, 0))
      else Inr (a, int_value a div int_value n))"

definition mod_gadget :: "instruction \<Rightarrow> word256 \<Rightarrow> word256 \<Rightarrow> word256 \<Rightarrow> unit instr" where
  "mod_gadget I a n r =
     ibind (ilift (mod_witness a n)) (\<lambda>(a_or_zero, k).
     ibind (ilift (word_of_int256 k)) (\<lambda>k_word.
     ibind (instr_mul_add_words I k_word n r a_or_zero) (\<lambda>_.
     let eq = is_equal_word a a_or_zero in
     ibind (compare_word r n) (\<lambda>(lt, _).
     let n_is_zero = is_zero_word n; a_or_is_zero = is_zero_word a_or_zero in
     ithen (constrain_zero ((FQ 1 - eq) * (FQ 1 - n_is_zero * a_or_is_zero)))
       (constrain_zero (FQ 1 - lt - n_is_zero))))))"

text \<open>The checks of \<open>mulmod\<close> once the witness \<open>a_reduced\<close> and \<open>k\<close> is chosen.\<close>

definition mulmod_checks ::
  "instruction \<Rightarrow> word256 \<Rightarrow> word256 \<Rightarrow> word256 \<Rightarrow> word256 \<Rightarrow> int \<Rightarrow> int \<Rightarrow> unit instr" where
  "mulmod_checks I a b n r a_reduced k =
     (let a_reduced_times_b = a_reduced * int_value b in
     ibind (ilift (word_of_int256 (a_reduced_times_b mod 2 ^ 256))) (\<lambda>e.
     ibind (ilift (word_of_int256 (a_reduced_times_b div 2 ^ 256))) (\<lambda>d.
     ithen (iassert (a_reduced_times_b = k * int_value n + int_value r))
    (ibind (ilift (word_of_int256 a_reduced)) (\<lambda>a_reduced_word.
     ithen (mod_gadget I a n a_reduced_word)
    (ibind (ilift (word_of_int256 0)) (\<lambda>zero_word.
     ithen (mul_add_words_512 I a_reduced_word b zero_word d e)
    (ibind (ilift (word_of_int256 k)) (\<lambda>k_word.
     ithen (mul_add_words_512 I k_word n r d e)
    (let n_is_zero = is_zero_word n in
     ibind (compare_word r n) (\<lambda>(lt, _).
     constrain_zero (FQ 1 - lt - n_is_zero))))))))))))"

definition mulmod :: "instruction \<Rightarrow> unit instr" where
  "mulmod I =
     ibind (opcode_lookup I True) (\<lambda>opc.
     ithen (constrain_equal opc (FQ Opcode_MULMOD))
    (ibind (stack_pop I) (\<lambda>a.
     ibind (stack_pop I) (\<lambda>b.
     ibind (stack_pop I) (\<lambda>n.
     ibind (stack_push I) (\<lambda>r.
     let a_reduced = (if int_value n = 0 then 0 else int_value a mod int_value n);
       k = (if int_value n = 0 then 0 else (a_reduced * int_value b) div int_value n) in
     ithen (mulmod_checks I a b n r a_reduced k)
       (step_state_transition_in_same_context I opc
         (same_context\<lparr>sc_rw_counter := Delta (FQ 4), sc_program_counter := Delta (FQ 1),
            sc_stack_pointer := Delta (FQ 2)\<rparr>))))))))"

section \<open>Multiplication, division and remainder\<close>

text \<open>The flags of the three opcodes are bits.\<close>

lemma mul_div_mod_flags:
  assumes pfi: "prime_field_inv_spec pfi"
  shows "(FQ 4 - FQ 2) * (FQ 6 - FQ 2) * fq_inv pfi (FQ 8) = 1"
    and "(FQ 4 - FQ 2) * (FQ 6 - FQ 4) * fq_inv pfi (FQ 4) = 1"
    and "(FQ 6 - FQ 2) * (FQ 6 - FQ 4) * fq_inv pfi (FQ 8) = 1"
    and "(FQ 4 - FQ 4) * x = 0" "(FQ 6 - FQ 6) * x = 0" "(FQ 2 - FQ 2) * x = 0"
proof -
  have i: "FQ 8 * fq_inv pfi (FQ 8) = 1" "FQ 4 * fq_inv pfi (FQ 4) = 1"
    using fq_inv_FQ [OF pfi, of 3] fq_inv_FQ [OF pfi, of 2] by (simp_all add: fq_modulus_def)
  show "(FQ 4 - FQ 2) * (FQ 6 - FQ 2) * fq_inv pfi (FQ 8) = 1"
    and "(FQ 4 - FQ 2) * (FQ 6 - FQ 4) * fq_inv pfi (FQ 4) = 1"
    and "(FQ 6 - FQ 2) * (FQ 6 - FQ 4) * fq_inv pfi (FQ 8) = 1"
    using i by (simp_all flip: FQ_arith(4,6))
qed simp_all

text \<open>What the checks on a quotient and on a remainder say.\<close>

lemma div_checks:
  assumes "word_ok a" "word_ok b" "word_ok c"
  shows "int_value b * int_value c \<le> int_value a \<and> (int_value b = 0 \<longrightarrow> c = WordLH 0 0) \<and>
      (int_value b = 0 \<or> int_value a - int_value b * int_value c < int_value b) \<longleftrightarrow>
    to_u256 c = to_u256 a div to_u256 b"
  using int_div_unique [of "int_value a" "int_value b" "int_value c"] assms
  by (auto simp: to_u256_eq uint_u256_ops int_value_nonneg int_value_zero)

lemma mod_checks:
  assumes ok: "word_ok a" "word_ok b" "word_ok c"
  defines "q \<equiv> (int_value a - int_value c) div int_value b"
  shows "int_value b = 0 \<and> WordLH 0 0 = c \<or> int_value b \<noteq> 0 \<and> 0 \<le> q \<and> q < 2 ^ 256 \<and>
      (q * int_value b + int_value c) mod 2 ^ 256 = int_value a \<and>
      q * int_value b + int_value c = int_value a \<and> int_value c < int_value b \<longleftrightarrow>
    to_u256 c = (if to_u256 b = 0 then 0 else to_u256 a mod to_u256 b)"
proof (cases "int_value b = 0")
  case True
  then show ?thesis using ok by (auto simp: to_u256_eq int_value_zero)
next
  case False
  then have b: "0 < int_value b" using int_value_nonneg [of b] by simp
  have "0 \<le> q \<and> q < 2 ^ 256 \<and> (q * int_value b + int_value c) mod 2 ^ 256 = int_value a \<and>
      q * int_value b + int_value c = int_value a \<and> int_value c < int_value b \<longleftrightarrow>
      int_value c = int_value a mod int_value b"
  proof
    assume c: "int_value c = int_value a mod int_value b"
    have q: "q = int_value a div int_value b"
      unfolding q_def c minus_mod_eq_mult_div using b by simp
    moreover have "int_value a div int_value b \<le> int_value a"
      using b int_value_nonneg by (simp add: int_div_le)
    moreover have "0 \<le> int_value a div int_value b"
      using b int_value_nonneg by (simp add: pos_imp_zdiv_nonneg_iff)
    ultimately show "0 \<le> q \<and> q < 2 ^ 256 \<and> (q * int_value b + int_value c) mod 2 ^ 256 = int_value a \<and>
        q * int_value b + int_value c = int_value a \<and> int_value c < int_value b"
      using b int_value_lt [OF ok(1)] int_value_mod [OF ok(1)] by (simp add: c)
  next
    assume "0 \<le> q \<and> q < 2 ^ 256 \<and> (q * int_value b + int_value c) mod 2 ^ 256 = int_value a \<and>
        q * int_value b + int_value c = int_value a \<and> int_value c < int_value b"
    then show "int_value c = int_value a mod int_value b"
      using int_mod_pos_eq [of "int_value a" "int_value b" q "int_value c"] int_value_nonneg [of c]
      by (simp add: mult.commute)
  qed
  with False show ?thesis using ok by (simp add: to_u256_eq uint_u256_ops)
qed

lemma opcodes_MUL:
  "opcode_aux_pairs (responsible_opcode ES_MUL) = map (\<lambda>c. (c, 0)) [Opcode_MUL, Opcode_DIV, Opcode_MOD]"
  by (simp add: opcode_aux_pairs_def responsible_opcode_def)

lemma cost_MUL:
  "list_all (\<lambda>c. c \<in> set valid_opcodes \<and> constant_gas_cost c = Inr 5) [Opcode_MUL, Opcode_DIV, Opcode_MOD]"
  by code_simp

text \<open>
  C15: The gadget of MUL, DIV and MOD accepts exactly when the written word is the product
  modulo 2^256, the quotient (0 for divisor 0) or the remainder (0 for divisor 0), as the
  opcode says, with the usual advance and five gas.
\<close>

lemma mul_div_mod_accepts:
  assumes es: "ss_execution_state (i_curr I) = ES_MUL" and wf: "stack_words_ok I"
    and pfi: "prime_field_inv_spec (ext_prime_field_inv (i_ext I))"
  shows "accepted (mul_div_mod I) \<longleftrightarrow>
    (\<exists>opc. opcode_at I 0 True opc \<and> (\<exists>a b c. stack_value I 0 RW_Read 0 a \<and>
       stack_value I 1 RW_Read 1 b \<and> stack_value I 2 RW_Write 1 c \<and>
       (opc = FQ Opcode_MUL \<and> to_u256 c = to_u256 a * to_u256 b \<or>
        opc = FQ Opcode_DIV \<and> to_u256 c = to_u256 a div to_u256 b \<or>
        opc = FQ Opcode_MOD \<and> to_u256 c = (if to_u256 b = 0 then 0 else to_u256 a mod to_u256 b)) \<and>
       advances I 5 (within_call (Delta (FQ 3)) (Delta (FQ 1)) (Delta (FQ 1)))))"
proof -
  have ctx: "in_same_context I opc (within_call r p q) \<longleftrightarrow>
      (opc = FQ Opcode_MUL \<or> opc = FQ Opcode_DIV \<or> opc = FQ Opcode_MOD) \<and> advances I 5 (within_call r p q)"
    for opc r p q
    using within_call_advances [OF _ cost_MUL, of I] opcodes_MUL by (simp add: es)
  note run = ok_simps Let_def stack_pop_wf [OF wf] stack_push_wf [OF wf] ctx mul_div_mod_flags [OF pfi]
    mul_div_mod_witness_def word_of_int256_Inr instr_mul_add_words_ok [OF pfi] sum_values_def
    is_zero_word_int product_overflow_rest [OF pfi] word_rest_ok [simplified] int_value_nonneg
    word_or_zero_eq int_value_mod [simplified]
  have "accepted (mul_div_mod I) \<longleftrightarrow>
    (\<exists>opc. opcode_at I 0 True opc \<and> (\<exists>a. word_ok a \<and> stack_value I 0 RW_Read 0 a \<and>
       (\<exists>b. word_ok b \<and> stack_value I 1 RW_Read 1 b \<and>
       (\<exists>c. word_ok c \<and> stack_value I 2 RW_Write 1 c \<and>
       (opc = FQ Opcode_MUL \<and> int_value c = int_value a * int_value b mod 2 ^ 256 \<or>
        opc = FQ Opcode_DIV \<and> (int_value b * int_value c \<le> int_value a \<and> (int_value b = 0 \<longrightarrow> c = WordLH 0 0) \<and>
          (int_value b = 0 \<or> int_value a - int_value b * int_value c < int_value b)) \<or>
        opc = FQ Opcode_MOD \<and> (int_value b = 0 \<and> WordLH 0 0 = c \<or> int_value b \<noteq> 0 \<and>
          0 \<le> (int_value a - int_value c) div int_value b \<and> (int_value a - int_value c) div int_value b < 2 ^ 256 \<and>
          ((int_value a - int_value c) div int_value b * int_value b + int_value c) mod 2 ^ 256 = int_value a \<and>
          (int_value a - int_value c) div int_value b * int_value b + int_value c = int_value a \<and>
          int_value c < int_value b)) \<and>
       advances I 5 (within_call (Delta (FQ 3)) (Delta (FQ 1)) (Delta (FQ 1)))))))"
    unfolding mul_div_mod_def accepted_opcode
    apply (rule iff_exI, rule conj_cong [OF refl], rename_tac opc)
    apply (case_tac "opc = FQ 4")
     apply (simp add: run 
        del: stack_pop_ok stack_push_ok le_bytes.simps cong: conj_cong if_cong split del: if_split)
    apply (case_tac "opc = FQ 6")
     apply (simp add: run if_Inr word_of_ok [simplified] conj_disj_distribR ex_disj_distrib
        product_overflow_zero [OF pfi, simplified]
        del: stack_pop_ok stack_push_ok le_bytes.simps cong: conj_cong if_cong split del: if_split)
    apply (case_tac "opc = FQ 2")
     apply (simp_all add: run sum_zero_bytes del: stack_pop_ok stack_push_ok le_bytes.simps cong: conj_cong if_cong split del: if_split)
     apply (intro iff_exI conj_cong refl, metis)
    done
  also have "\<dots> \<longleftrightarrow> (\<exists>opc. opcode_at I 0 True opc \<and> (\<exists>a. word_ok a \<and> stack_value I 0 RW_Read 0 a \<and>
       (\<exists>b. word_ok b \<and> stack_value I 1 RW_Read 1 b \<and>
       (\<exists>c. word_ok c \<and> stack_value I 2 RW_Write 1 c \<and>
       (opc = FQ Opcode_MUL \<and> to_u256 c = to_u256 a * to_u256 b \<or>
        opc = FQ Opcode_DIV \<and> to_u256 c = to_u256 a div to_u256 b \<or>
        opc = FQ Opcode_MOD \<and> to_u256 c = (if to_u256 b = 0 then 0 else to_u256 a mod to_u256 b)) \<and>
       advances I 5 (within_call (Delta (FQ 3)) (Delta (FQ 1)) (Delta (FQ 1)))))))"
    by (intro iff_exI conj_cong disj_cong refl div_checks mod_checks)
      (simp add: to_u256_eq uint_u256_ops)
  finally show ?thesis
    using stack_value_word_ok [OF wf] by (simp only: ex_simps cong: conj_cong) blast
qed

lemma mul_div_mod_accepts_witness:
  "accepted (mul_div_mod (binary_step ES_MUL Opcode_DIV (word_of 100) (word_of 7) (word_of 14) 5))"
proof -
  note I = binary_step_facts [where es = ES_MUL and opc = Opcode_DIV
    and a = "word_of 100" and b = "word_of 7" and c = "word_of 14" and cost = 5]
  have c: "0 \<le> (5::int)" "5 \<le> (100::int)" by simp_all
  have wf: "word_ok (word_of 100) \<and> word_ok (word_of 7) \<and> word_ok (word_of 14)" by simp
  have p: "prime_field_inv_spec (ext_prime_field_inv (i_ext (binary_step ES_MUL Opcode_DIV (word_of 100) (word_of 7) (word_of 14) 5)))"
    unfolding I(2) by (rule bezout_inv_spec)
  have "to_u256 (word_of 14) = to_u256 (word_of 100) div to_u256 (word_of 7)" by simp
  with I(4-7) I(8) [OF c] show ?thesis
    unfolding mul_div_mod_accepts [OF I(1) I(3) [THEN iffD2, OF wf] p] by blast
qed

section \<open>Sum and remainder\<close>

lemma lt_u256_ok [ok_simps]:
  assumes ok: "word_ok a" "word_ok b"
  shows "lt_u256 a b s = Inr (x, s') \<longleftrightarrow> x = fq_of_bool (int_value a < int_value b) \<and> s' = s"
proof -
  have i: "ibind (iret u) g = g u" for u :: 'u and g :: "'u \<Rightarrow> 'v instr"
    by (simp add: ibind_def iret_def)
  have "lt_u256 a b = iret (fq_of_bool (to_u256 a < to_u256 b))"
    unfolding lt_u256_def compare_halves [OF ok] i prod.case fq_of_bool_mult FQ_1 FQ_0 if_fq_of_bool select_run
    using compare_halves (3) [OF ok] by simp
  then show ?thesis by (auto simp: iret_ok to_u256_less [OF ok])
qed

text \<open>The quotient and the carry of the sum of a residue and a word.\<close>

lemma addmod_bounds:
  assumes ok: "word_ok a" "word_ok b" and n: "int_value n \<noteq> 0"
  defines "t \<equiv> int_value a mod int_value n + int_value b"
  shows "0 \<le> t" "0 \<le> t div int_value n" "t div int_value n < 2 ^ 256" "0 \<le> t div 2 ^ 256" "t div 2 ^ 256 < 2"
proof -
  have pos: "0 < int_value n" using n by (simp add: int_value_pos)
  have m: "0 \<le> int_value a mod int_value n" "int_value a mod int_value n < int_value n"
    using pos by simp_all
  note b = int_value_nonneg [of b] int_value_lt [OF ok(2)]
  show t: "0 \<le> t" unfolding t_def using m b by simp
  then show "0 \<le> t div int_value n" "0 \<le> t div 2 ^ 256" using pos by (simp_all add: pos_imp_zdiv_nonneg_iff)
  have "int_value b \<le> int_value b * int_value n" using pos b mult_left_mono [of 1 "int_value n" "int_value b"] by simp
  then have "t < (int_value b + 1) * int_value n" unfolding t_def using m(2) by (simp add: algebra_simps)
  then have "t div int_value n < int_value b + 1" using pos by (rule int_div_lt)
  then show "t div int_value n < 2 ^ 256" using b by linarith
  have "t < 2 * 2 ^ 256" unfolding t_def using word_div_mod_bounds(4) [OF ok(1), of n] b by linarith
  then show "t div 2 ^ 256 < 2" by (rule int_div_lt) simp
qed

lemma addmod_carry:
  assumes "word_ok a" "word_ok b" "int_value n \<noteq> 0"
  defines "k \<equiv> (int_value a mod int_value n + int_value b) div 2 ^ 256"
  shows "k mod fq_modulus = k" "k < 2 ^ 128" "word_ok (WordLH (FQ k) 0)" "int_value (WordLH (FQ k) 0) = k"
proof -
  have k: "0 \<le> k" "k < 2" using addmod_bounds(4,5) [OF assms(1-3)] by (simp_all add: k_def)
  then show "k mod fq_modulus = k" "k < 2 ^ 128" by (simp_all add: fq_modulus_def)
  show "word_ok (WordLH (FQ k) 0)" "int_value (WordLH (FQ k) 0) = k"
    using word_ok_FQ [of k 0] k by simp_all
qed

lemma two_bits: "FQ 2 = 1 + fq_of_bool b \<longleftrightarrow> b"
  by (cases b) (simp_all add: fq_two del: one_add_one)

lemma residue_mod_modulus: "0 \<le> x \<Longrightarrow> x = x mod fq_modulus \<longleftrightarrow> x < fq_modulus"
  by (metis fq_modulus_pos mod_pos_pos_trivial pos_mod_bound)

text \<open>What the checks on the residue of a sum say.\<close>

lemma addmod_check:
  assumes ok: "word_ok a" "word_ok b" "word_ok n" "word_ok r"
  defines "t \<equiv> int_value a mod int_value n + int_value b"
  shows "int_value n = 0 \<and> int_value r = 0 \<or> int_value n \<noteq> 0 \<and>
      t div int_value n * int_value n + int_value r = t \<and> int_value r < int_value n \<and>
      int_value r = int_value r mod fq_modulus \<longleftrightarrow>
    uint (to_u256 r) = (if to_u256 n = 0 then 0
      else (uint (to_u256 a) + uint (to_u256 b)) mod uint (to_u256 n)) \<and>
    uint (to_u256 r) < fq_modulus"
proof (cases "int_value n = 0")
  case True
  then show ?thesis using ok by (auto simp: to_u256_eq_0 uint_to_u256)
next
  case False
  then have n: "0 < int_value n" by (simp add: int_value_pos)
  have t: "t mod int_value n = (int_value a + int_value b) mod int_value n"
    unfolding t_def by (simp add: mod_simps)
  have "t div int_value n * int_value n = t - t mod int_value n"
    by (rule minus_mod_eq_div_mult [symmetric])
  then have "t div int_value n * int_value n + int_value r = t \<and> int_value r < int_value n \<longleftrightarrow>
      int_value r = t mod int_value n"
    using pos_mod_bound [OF n, of t] by auto
  with False show ?thesis
    using ok by (auto simp: to_u256_eq_0 uint_to_u256 t residue_mod_modulus int_value_nonneg)
qed

lemma opcodes_ADDMOD:
  "opcode_aux_pairs (responsible_opcode ES_ADDMOD) = map (\<lambda>c. (c, 0)) [Opcode_ADDMOD]"
  by (simp add: opcode_aux_pairs_def responsible_opcode_def)

lemma cost_ADDMOD:
  "list_all (\<lambda>c. c \<in> set valid_opcodes \<and> constant_gas_cost c = Inr 8) [Opcode_ADDMOD]"
  by code_simp

lemma addmod_body_ok:
  assumes pfi: "prime_field_inv_spec (ext_prime_field_inv (i_ext I))"
    and ok: "word_ok a" "word_ok b" "word_ok n" "word_ok r"
  defines "t \<equiv> int_value a mod int_value n + int_value b"
  shows "addmod_body I a b n r s = Inr (u, s') \<longleftrightarrow>
    (int_value n = 0 \<and> int_value r = 0 \<or> int_value n \<noteq> 0 \<and>
     t div int_value n * int_value n + int_value r = t \<and> int_value r < int_value n \<and>
     int_value r = int_value r mod fq_modulus) \<and> s' = s"
proof (cases "int_value n = 0")
  case True
  have "addmod_witness a b n r =
      Inr (int_value a, 0, 0, word_of ((int_value a + int_value b) mod 2 ^ 256))"
    using True by (simp add: addmod_witness_def Let_def word_of_int256_Inr)
  then show ?thesis
    using True ok word_of_ok [of "(int_value a + int_value b) mod 2 ^ 256"]
    by (simp add: addmod_body_def addmod_checks_def Let_def ok_simps word_of_int256_Inr word_of_int_value int_value_lt [simplified]
        int_value_nonneg instr_mul_add_words_ok [OF pfi] mul_add_words_512_ok [OF pfi] is_zero_word_int
        product_overflow_zero [OF pfi, simplified] add_words_carry int_value_mod [simplified] mod_neg
        del: one_add_one cong: conj_cong)
next
  case False
  have w: "addmod_witness a b n r =
      Inr (int_value a mod int_value n, int_value a div int_value n, t div int_value n, r)"
    using False by (simp add: addmod_witness_def Let_def t_def)
  note q = word_div_mod_bounds [OF ok(1), of n] and d = addmod_bounds [OF ok(1,2) False, folded t_def]
    and c = addmod_carry [OF ok(1,2) False, folded t_def]
  note words = word_of_ok [OF q(1,2)] word_of_ok [OF q(3,4)] word_of_ok [OF d(2,3)]
    word_of_ok [of "t mod 2 ^ 256"]
  have k: "int_value a div int_value n * int_value n + int_value a mod int_value n = int_value a" by simp
  have am: "int_value a mod int_value n < int_value n" using False by (simp add: int_value_pos)
  show ?thesis
    unfolding addmod_body_def w addmod_checks_def Let_def
    using False ok q d c words k am
    by (simp add: ok_simps word_of_int256_Inr int_value_pos instr_mul_add_words_ok [OF pfi]
        mul_add_words_512_ok [OF pfi] is_zero_word_int product_overflow_zero [OF pfi, simplified]
        add_words_carry int_value_mod [simplified] two_bits fq_two flip: t_def
        del: one_add_one div_mult_mod_eq cong: conj_cong)
qed

text \<open>
  C16: The gadget of ADDMOD accepts exactly when the written word is (a + b) mod n over
  unbounded integers, 0 for n = 0, and is below the field modulus: the final assertion
  compares an integer with a field residue, so a correct result of modulus size or more is
  refused.
\<close>

lemma addmod_accepts:
  assumes es: "ss_execution_state (i_curr I) = ES_ADDMOD" and wf: "stack_words_ok I"
    and pfi: "prime_field_inv_spec (ext_prime_field_inv (i_ext I))"
  shows "accepted (addmod I) \<longleftrightarrow>
    (\<exists>a b n r. opcode_at I 0 True (FQ Opcode_ADDMOD) \<and> stack_value I 0 RW_Read 0 a \<and>
       stack_value I 1 RW_Read 1 b \<and> stack_value I 2 RW_Read 2 n \<and> stack_value I 3 RW_Write 2 r \<and>
       uint (to_u256 r) = (if to_u256 n = 0 then 0
         else (uint (to_u256 a) + uint (to_u256 b)) mod uint (to_u256 n)) \<and>
       uint (to_u256 r) < fq_modulus \<and>
       advances I 8 (within_call (Delta (FQ 4)) (Delta (FQ 1)) (Delta (FQ 2))))"
proof -
  have ctx: "in_same_context I opc (within_call r p q) \<longleftrightarrow>
      opc = FQ Opcode_ADDMOD \<and> advances I 8 (within_call r p q)"
    for opc r p q
    using within_call_advances [OF _ cost_ADDMOD, of I] opcodes_ADDMOD by (simp add: es)
  have "accepted (addmod I) \<longleftrightarrow>
    (opcode_at I 0 True (FQ Opcode_ADDMOD) \<and> (\<exists>a. word_ok a \<and> stack_value I 0 RW_Read 0 a \<and>
       (\<exists>b. word_ok b \<and> stack_value I 1 RW_Read 1 b \<and> (\<exists>n. word_ok n \<and> stack_value I 2 RW_Read 2 n \<and>
       (\<exists>r. word_ok r \<and> stack_value I 3 RW_Write 2 r \<and>
       (int_value n = 0 \<and> int_value r = 0 \<or> int_value n \<noteq> 0 \<and>
          (int_value a mod int_value n + int_value b) div int_value n * int_value n + int_value r
            = int_value a mod int_value n + int_value b \<and> int_value r < int_value n \<and>
          int_value r = int_value r mod fq_modulus) \<and>
       advances I 8 (within_call (Delta (FQ 4)) (Delta (FQ 1)) (Delta (FQ 2))))))))"
    unfolding addmod_def accepted_opcode
    by (simp add: ok_simps stack_pop_wf [OF wf] stack_push_wf [OF wf] ctx addmod_body_ok [OF pfi]
        del: stack_pop_ok stack_push_ok cong: conj_cong if_cong split del: if_split)
  also have "\<dots> \<longleftrightarrow> (opcode_at I 0 True (FQ Opcode_ADDMOD) \<and> (\<exists>a. word_ok a \<and> stack_value I 0 RW_Read 0 a \<and>
       (\<exists>b. word_ok b \<and> stack_value I 1 RW_Read 1 b \<and> (\<exists>n. word_ok n \<and> stack_value I 2 RW_Read 2 n \<and>
       (\<exists>r. word_ok r \<and> stack_value I 3 RW_Write 2 r \<and>
       (uint (to_u256 r) = (if to_u256 n = 0 then 0
          else (uint (to_u256 a) + uint (to_u256 b)) mod uint (to_u256 n)) \<and>
        uint (to_u256 r) < fq_modulus) \<and>
       advances I 8 (within_call (Delta (FQ 4)) (Delta (FQ 1)) (Delta (FQ 2))))))))"
    by (intro iff_exI conj_cong refl addmod_check)
  finally show ?thesis using stack_value_word_ok [OF wf] by blast
qed

lemma addmod_accepts_witness:
  "accepted (addmod (ternary_step ES_ADDMOD Opcode_ADDMOD (word_of (2 ^ 256 - 1)) (word_of 2) (word_of 5) (word_of 2) 8))"
proof -
  note I = ternary_step_facts [where es = ES_ADDMOD and opc = Opcode_ADDMOD
    and a = "word_of (2 ^ 256 - 1)" and b = "word_of 2" and c = "word_of 5" and d = "word_of 2" and cost = 8]
  have c: "0 \<le> (8::int)" "8 \<le> (100::int)" by simp_all
  have wf: "word_ok (word_of (2 ^ 256 - 1)) \<and> word_ok (word_of 2) \<and> word_ok (word_of 5) \<and> word_ok (word_of 2)" by simp
  have p: "prime_field_inv_spec (ext_prime_field_inv (i_ext (ternary_step ES_ADDMOD Opcode_ADDMOD (word_of (2 ^ 256 - 1)) (word_of 2) (word_of 5) (word_of 2) 8)))"
    unfolding I(2) by (rule bezout_inv_spec)
  have "uint (to_u256 (word_of 2)) = (if to_u256 (word_of 5) = 0 then 0
      else (uint (to_u256 (word_of (2 ^ 256 - 1))) + uint (to_u256 (word_of 2))) mod uint (to_u256 (word_of 5)))"
    "uint (to_u256 (word_of 2)) < fq_modulus" by (simp_all add: fq_modulus_def)
  with I(4-8) I(9) [OF c] show ?thesis
    unfolding addmod_accepts [OF I(1) I(3) [THEN iffD2, OF wf] p] by blast
qed

section \<open>Product and remainder\<close>

lemma opcodes_MULMOD:
  "opcode_aux_pairs (responsible_opcode ES_MULMOD) = map (\<lambda>c. (c, 0)) [Opcode_MULMOD]"
  by (simp add: opcode_aux_pairs_def responsible_opcode_def)

lemma cost_MULMOD:
  "list_all (\<lambda>c. c \<in> set valid_opcodes \<and> constant_gas_cost c = Inr 8) [Opcode_MULMOD]"
  by code_simp

text \<open>The reduction of the first factor always succeeds.\<close>

lemma is_equal_word_ok: "is_equal_word w w = 1"
  by (simp add: is_equal_word_def is_zero_word_def is_zero_def sum_values_def)

lemma mod_gadget_ok:
  assumes pfi: "prime_field_inv_spec (ext_prime_field_inv (i_ext I))" and ok: "word_ok a" "word_ok n"
  shows "mod_gadget I a n (word_of (if int_value n = 0 then 0 else int_value a mod int_value n)) s = Inr (u, s') \<longleftrightarrow> s' = s"
proof (cases "int_value n = 0")
  case True
  then show ?thesis
    using ok by (simp add: mod_gadget_def mod_witness_def word_of_int256_Inr ok_simps Let_def is_zero_word_int
      instr_mul_add_words_ok [OF pfi])
next
  case False
  note b = word_div_mod_bounds [OF ok(1), of n]
  show ?thesis
    using False ok word_of_ok [OF b(1,2)] word_of_ok [OF b(3,4)] b
    by (simp add: mod_gadget_def mod_witness_def word_of_int256_Inr ok_simps Let_def is_zero_word_int is_equal_word_ok
      instr_mul_add_words_ok [OF pfi] int_value_pos int_value_mod [simplified])
qed

text \<open>What the checks on the residue of a product say.\<close>

lemma mulmod_check:
  assumes ok: "word_ok a" "word_ok b" "word_ok n" "word_ok r"
  defines "t \<equiv> if int_value n = 0 then 0 else int_value a mod int_value n"
    and "k \<equiv> if int_value n = 0 then 0 else int_value a mod int_value n * int_value b div int_value n"
  shows "0 \<le> t * int_value b div 2 ^ 256 \<and> t * int_value b div 2 ^ 256 < 2 ^ 256 \<and>
      t * int_value b = k * int_value n + int_value r \<and> 0 \<le> t \<and> t < 2 ^ 256 \<and> 0 \<le> k \<and> k < 2 ^ 256 \<and>
      (\<not> int_value r < int_value n) = (int_value n = 0) \<longleftrightarrow>
    uint (to_u256 r) = (if to_u256 n = 0 then 0
      else (uint (to_u256 a) * uint (to_u256 b)) mod uint (to_u256 n))"
proof (cases "int_value n = 0")
  case True
  then show ?thesis
    using ok by (simp add: t_def k_def to_u256_eq_0 uint_to_u256 int_value_nonneg)
next
  case False
  then have n: "0 < int_value n" by (simp add: int_value_pos)
  have t: "t = int_value a mod int_value n" and k: "k = t * int_value b div int_value n"
    using False by (simp_all add: t_def k_def)
  have tb: "0 \<le> t" "t < int_value n" "t < 2 ^ 256"
    using n word_div_mod_bounds(4) [OF ok(1), of n] by (simp_all add: t)
  note b = int_value_nonneg [of b] int_value_lt [OF ok(2)]
  have p: "0 \<le> t * int_value b" using tb b by simp
  have "t * int_value b \<le> t * 2 ^ 256" using tb b by (intro mult_left_mono) simp_all
  also have "\<dots> < 2 ^ 256 * 2 ^ 256" using tb by (intro mult_strict_right_mono) simp_all
  finally have hi: "t * int_value b div 2 ^ 256 < 2 ^ 256" by (rule int_div_lt) simp
  have "t * int_value b \<le> int_value n * int_value b" using tb b by (intro mult_right_mono) simp_all
  then have "t * int_value b < (int_value b + 1) * int_value n" using n by (simp add: algebra_simps)
  then have "k < int_value b + 1" unfolding k using n by (rule int_div_lt)
  then have kb: "0 \<le> k" "k < 2 ^ 256" using n p b unfolding k by (simp_all add: pos_imp_zdiv_nonneg_iff)
  have m: "k * int_value n = t * int_value b - t * int_value b mod int_value n"
    unfolding k by (rule minus_mod_eq_div_mult [symmetric])
  have "t * int_value b mod int_value n = int_value a * int_value b mod int_value n"
    unfolding t by (simp add: mod_simps)
  then have "t * int_value b = k * int_value n + int_value r \<and> int_value r < int_value n \<longleftrightarrow>
      int_value r = int_value a * int_value b mod int_value n"
    unfolding m using pos_mod_bound [OF n, of "int_value a * int_value b"] by auto
  moreover have "0 \<le> t * int_value b div 2 ^ 256" using p by (simp add: pos_imp_zdiv_nonneg_iff)
  ultimately have "0 \<le> t * int_value b div 2 ^ 256 \<and> t * int_value b div 2 ^ 256 < 2 ^ 256 \<and>
      t * int_value b = k * int_value n + int_value r \<and> 0 \<le> t \<and> t < 2 ^ 256 \<and> 0 \<le> k \<and> k < 2 ^ 256 \<and>
      (\<not> int_value r < int_value n) = (int_value n = 0) \<longleftrightarrow>
      int_value r = int_value a * int_value b mod int_value n"
    using False tb hi kb by blast
  then show ?thesis
    using False ok by (simp only: to_u256_eq_0 uint_to_u256 if_False simp_thms)
qed

lemma mulmod_checks_ok:
  assumes pfi: "prime_field_inv_spec (ext_prime_field_inv (i_ext I))"
    and ok: "word_ok a" "word_ok b" "word_ok n" "word_ok r"
    and t: "t = (if int_value n = 0 then 0 else int_value a mod int_value n)"
  shows "mulmod_checks I a b n r t k s = Inr (u, s') \<longleftrightarrow>
    (0 \<le> t * int_value b div 2 ^ 256 \<and> t * int_value b div 2 ^ 256 < 2 ^ 256 \<and>
     t * int_value b = k * int_value n + int_value r \<and> 0 \<le> t \<and> t < 2 ^ 256 \<and> 0 \<le> k \<and> k < 2 ^ 256 \<and>
     (\<not> int_value r < int_value n) = (int_value n = 0)) \<and> s' = s"
proof -
  have m: "mod_gadget I a n (word_of t) s = Inr (v, s') \<longleftrightarrow> s' = s" for s v s'
    unfolding t by (rule mod_gadget_ok [OF pfi ok(1,3)])
  show ?thesis
    using ok unfolding mulmod_checks_def Let_def
    by (simp add: ok_simps m mul_add_words_512_ok [OF pfi] is_zero_word_int word_of_ok [simplified]
        del: one_add_one cong: conj_cong) blast
qed

text \<open>
  C17: The gadget of MULMOD accepts exactly when the written word is (a * b) mod n over
  unbounded integers and 0 for n = 0.
\<close>

lemma mulmod_accepts:
  assumes es: "ss_execution_state (i_curr I) = ES_MULMOD" and wf: "stack_words_ok I"
    and pfi: "prime_field_inv_spec (ext_prime_field_inv (i_ext I))"
  shows "accepted (mulmod I) \<longleftrightarrow>
    (\<exists>a b n r. opcode_at I 0 True (FQ Opcode_MULMOD) \<and> stack_value I 0 RW_Read 0 a \<and>
       stack_value I 1 RW_Read 1 b \<and> stack_value I 2 RW_Read 2 n \<and> stack_value I 3 RW_Write 2 r \<and>
       uint (to_u256 r) = (if to_u256 n = 0 then 0
         else (uint (to_u256 a) * uint (to_u256 b)) mod uint (to_u256 n)) \<and>
       advances I 8 (within_call (Delta (FQ 4)) (Delta (FQ 1)) (Delta (FQ 2))))"
proof -
  have ctx: "in_same_context I opc (within_call r p q) \<longleftrightarrow>
      opc = FQ Opcode_MULMOD \<and> advances I 8 (within_call r p q)"
    for opc r p q
    using within_call_advances [OF _ cost_MULMOD, of I] opcodes_MULMOD by (simp add: es)
  have "accepted (mulmod I) \<longleftrightarrow>
    opcode_at I 0 True (FQ Opcode_MULMOD) \<and> (\<exists>a. word_ok a \<and> stack_value I 0 RW_Read 0 a \<and>
       (\<exists>b. word_ok b \<and> stack_value I 1 RW_Read 1 b \<and> (\<exists>n. word_ok n \<and> stack_value I 2 RW_Read 2 n \<and>
       (\<exists>r. word_ok r \<and> stack_value I 3 RW_Write 2 r \<and>
       (let t = if int_value n = 0 then 0 else int_value a mod int_value n;
          k = if int_value n = 0 then 0 else int_value a mod int_value n * int_value b div int_value n in
        0 \<le> t * int_value b div 2 ^ 256 \<and> t * int_value b div 2 ^ 256 < 2 ^ 256 \<and>
        t * int_value b = k * int_value n + int_value r \<and> 0 \<le> t \<and> t < 2 ^ 256 \<and> 0 \<le> k \<and> k < 2 ^ 256 \<and>
        (\<not> int_value r < int_value n) = (int_value n = 0)) \<and>
       advances I 8 (within_call (Delta (FQ 4)) (Delta (FQ 1)) (Delta (FQ 2)))))))"
    unfolding mulmod_def accepted_opcode Let_def
    by (simp add: ok_simps stack_pop_wf [OF wf] stack_push_wf [OF wf] ctx mulmod_checks_ok [OF pfi _ _ _ _ refl]
        del: stack_pop_ok stack_push_ok cong: conj_cong if_cong split del: if_split)
  also have "\<dots> \<longleftrightarrow>
    opcode_at I 0 True (FQ Opcode_MULMOD) \<and> (\<exists>a. word_ok a \<and> stack_value I 0 RW_Read 0 a \<and>
       (\<exists>b. word_ok b \<and> stack_value I 1 RW_Read 1 b \<and> (\<exists>n. word_ok n \<and> stack_value I 2 RW_Read 2 n \<and>
       (\<exists>r. word_ok r \<and> stack_value I 3 RW_Write 2 r \<and>
       uint (to_u256 r) = (if to_u256 n = 0 then 0
         else (uint (to_u256 a) * uint (to_u256 b)) mod uint (to_u256 n)) \<and>
       advances I 8 (within_call (Delta (FQ 4)) (Delta (FQ 1)) (Delta (FQ 2)))))))"
    unfolding Let_def by (intro iff_exI conj_cong refl mulmod_check)
  finally show ?thesis using stack_value_word_ok [OF wf] by blast
qed

lemma mulmod_accepts_witness:
  "accepted (mulmod (ternary_step ES_MULMOD Opcode_MULMOD (word_of 9) (word_of 8) (word_of 5) (word_of 2) 8))"
proof -
  note I = ternary_step_facts [where es = ES_MULMOD and opc = Opcode_MULMOD
    and a = "word_of 9" and b = "word_of 8" and c = "word_of 5" and d = "word_of 2" and cost = 8]
  have c: "0 \<le> (8::int)" "8 \<le> (100::int)" by simp_all
  have wf: "word_ok (word_of 9) \<and> word_ok (word_of 8) \<and> word_ok (word_of 5) \<and> word_ok (word_of 2)" by simp
  have p: "prime_field_inv_spec (ext_prime_field_inv (i_ext (ternary_step ES_MULMOD Opcode_MULMOD (word_of 9) (word_of 8) (word_of 5) (word_of 2) 8)))"
    unfolding I(2) by (rule bezout_inv_spec)
  have "uint (to_u256 (word_of 2)) = (if to_u256 (word_of 5) = 0 then 0 else (uint (to_u256 (word_of 9)) * uint (to_u256 (word_of 8))) mod uint (to_u256 (word_of 5)))" by simp
  with I(4-8) I(9) [OF c] show ?thesis
    unfolding mulmod_accepts [OF I(1) I(3) [THEN iffD2, OF wf] p] by blast
qed

end
