(* ===== verification/Exec_Shift.thy ===== *)
theory Exec_Shift
  imports Exec_MulDiv
begin

text \<open>
  The gadgets of \<^verbatim>\<open>src/zkevm_specs/evm_circuit/execution\<close> for shifts, sign extension and
  exponentiation: shl_shr.py, sar.py, signextend.py and exp.py, with the witnesses they compute.
\<close>

section \<open>SHL, SHR\<close>

record shift_witness =
  sw_is_shl :: fq
  sw_shf0 :: fq
  sw_shift :: word256
  sw_dividend :: word256
  sw_divisor :: word256
  sw_quotient :: word256
  sw_remainder :: word256

definition shl_shr_gen_witness :: "fq \<Rightarrow> word256 \<Rightarrow> word256 \<Rightarrow> word256 \<Rightarrow> shift_witness result" where
  "shl_shr_gen_witness opc pop1 pop2 push =
     (let is_shl = FQ Opcode_SHR - opc in
      rbind (to_le_bytes pop1) (\<lambda>shift_le_bytes.
      let shf0 = shift_le_bytes ! 0; shf_lt256 = sum_list shift_le_bytes - shf0 in
      rbind (word_of_int256 (if shf_lt256 = 0 then 2 ^ nat (fq_n shf0) else 0)) (\<lambda>divisor.
      if fq_n is_shl = 1 then
        rbind (word_of_int256 0) (\<lambda>zero.
        Inr \<lparr>sw_is_shl = is_shl, sw_shf0 = shf0, sw_shift = pop1, sw_dividend = push, sw_divisor = divisor,
             sw_quotient = pop2, sw_remainder = zero\<rparr>)
      else
        rbind (word_of_int256 (int_value pop2 - int_value push * int_value divisor)) (\<lambda>remainder.
        Inr \<lparr>sw_is_shl = is_shl, sw_shf0 = shf0, sw_shift = pop1, sw_dividend = pop2, sw_divisor = divisor,
             sw_quotient = push, sw_remainder = remainder\<rparr>))))"

definition shl_shr_check_words ::
  "fq \<Rightarrow> fq list \<Rightarrow> fq \<Rightarrow> shift_witness \<Rightarrow> word256 \<Rightarrow> word256 \<Rightarrow> word256 \<Rightarrow> unit instr" where
  "shl_shr_check_words is_shr shift_le_bytes divisor_is_zero w pop1 pop2 push =
     ithen (constrain_equal_word pop1 (sw_shift w))
    (ibind (ilift (word_select (sw_quotient w) (sw_is_shl w))) (\<lambda>q.
     ibind (ilift (word_select (sw_dividend w) is_shr)) (\<lambda>d.
     ibind (ilift (word_plus q d)) (\<lambda>popped.
     ithen (constrain_equal_word pop2 popped)
    (ibind (ilift (word_select (sw_dividend w) (sw_is_shl w))) (\<lambda>d.
     ibind (ilift (word_select (sw_quotient w) (is_shr * (1 - divisor_is_zero)))) (\<lambda>q.
     ibind (ilift (word_plus d q)) (\<lambda>pushed.
     ithen (constrain_equal_word push pushed)
    (ithen (constrain_zero (sw_shf0 w - shift_le_bytes ! 0))
    (ibind (ilift (word_select (sw_shift w) (1 - divisor_is_zero))) (\<lambda>s.
     ibind (ilift (from_lo (shift_le_bytes ! 0))) (\<lambda>low.
     ibind (ilift (word_select low (1 - divisor_is_zero))) (\<lambda>s'.
     constrain_equal_word s s')))))))))))))"

definition shl_shr_check_witness ::
  "instruction \<Rightarrow> shift_witness \<Rightarrow> word256 \<Rightarrow> word256 \<Rightarrow> word256 \<Rightarrow> unit instr" where
  "shl_shr_check_witness I w pop1 pop2 push =
     (let is_shr = 1 - sw_is_shl w in
      ibind (ilift (to_le_bytes (sw_shift w))) (\<lambda>shift_le_bytes.
      let shf_lt256 = is_zero (sum_values (tl shift_le_bytes)); divisor_is_zero = is_zero_word (sw_divisor w) in
      ithen (shl_shr_check_words is_shr shift_le_bytes divisor_is_zero w pop1 pop2 push)
     (ithen (constrain_zero (1 - divisor_is_zero - shf_lt256))
     (ibind (compare_word (sw_remainder w) (sw_divisor w)) (\<lambda>(remainder_lt_divisor, _).
      ithen (constrain_zero ((1 - divisor_is_zero) * (1 - remainder_lt_divisor)))
     (let remainder_is_zero = is_zero_word (sw_remainder w) in
      ithen (constrain_zero (sw_is_shl w * (1 - remainder_is_zero)))
     (ibind (instr_mul_add_words I (sw_quotient w) (sw_divisor w) (sw_remainder w) (sw_dividend w)) (\<lambda>overflow.
      ithen (constrain_zero (is_shr * overflow))
        (if 1 - divisor_is_zero = 1
         then pow2_lookup (sw_shf0 w) (lo (sw_divisor w)) (hi (sw_divisor w))
         else iret ())))))))))"

definition shl_shr :: "instruction \<Rightarrow> unit instr" where
  "shl_shr I =
     ibind (opcode_lookup I True) (\<lambda>opc.
     ibind (stack_pop I) (\<lambda>pop1.
     ibind (stack_pop I) (\<lambda>pop2.
     ibind (stack_push I) (\<lambda>push.
     ibind (ilift (shl_shr_gen_witness opc pop1 pop2 push)) (\<lambda>w.
     ithen (shl_shr_check_witness I w pop1 pop2 push)
       (step_state_transition_in_same_context I opc
         (within_call (Delta (FQ 3)) (Delta (FQ 1)) (Delta (FQ 1)))))))))"

section \<open>SAR\<close>

record sar_witness =
  rw_a64s :: "fq list"
  rw_b64s :: "fq list"
  rw_a64s_lo :: "fq list"
  rw_a64s_hi :: "fq list"
  rw_shf_div64 :: fq
  rw_shf_mod64 :: fq
  rw_p_lo :: fq
  rw_p_hi :: fq
  rw_p_top :: fq

definition sar_gen_witness :: "word256 \<Rightarrow> word256 \<Rightarrow> sar_witness result" where
  "sar_gen_witness shift a =
     (let is_neg = int_is_neg (int_value a) in
      rbind (to_le_bytes shift) (\<lambda>shift_le_bytes.
      let shf0 = shift_le_bytes ! 0; shf_div64 = fq_n shf0 div 64; shf_mod64 = fq_n shf0 mod 64;
        p_lo = 2 ^ nat shf_mod64; p_hi = 2 ^ nat (64 - shf_mod64);
        p_top = is_neg * (MAX_U64 + 1 - p_hi);
        shf_lt256 = sum_list shift_le_bytes - shf0 in
      rbind (to_64s a) (\<lambda>(a0, a1, a2, a3).
      let a64s = [a0, a1, a2, a3];
        a64s_lo = map (\<lambda>x. FQ (fq_n x mod p_lo)) a64s;
        a64s_hi = map (\<lambda>x. FQ (fq_n x div p_lo)) a64s;
        ones = FQ (if is_neg \<noteq> 0 then MAX_U64 else 0);
        n = 3 - nat shf_div64;
        b64s = (if shf_lt256 = 0 \<and> shf_div64 < 4
          then map (\<lambda>k. if k < n then a64s_hi ! (k + nat shf_div64) + a64s_lo ! (k + nat shf_div64 + 1) * FQ p_hi
                         else if k = n then a64s_hi ! 3 + FQ p_top else ones) [0..<4]
          else replicate 4 ones) in
      Inr \<lparr>rw_a64s = a64s, rw_b64s = b64s, rw_a64s_lo = a64s_lo, rw_a64s_hi = a64s_hi,
           rw_shf_div64 = FQ shf_div64, rw_shf_mod64 = FQ shf_mod64, rw_p_lo = FQ p_lo, rw_p_hi = FQ p_hi,
           rw_p_top = FQ p_top\<rparr>)))"

text \<open>The four limbs: \<open>a\<close> and \<open>b\<close> as 64-bit limbs, and each limb of \<open>a\<close> split at the shift.\<close>

definition sar_check_limb :: "sar_witness \<Rightarrow> fq list \<Rightarrow> fq list \<Rightarrow> nat \<Rightarrow> unit instr" where
  "sar_check_limb w a_le_bytes b_le_bytes idx =
     (let offset = idx * N_BYTES_U64 in
      ibind (instr_bytes_to_fq (take N_BYTES_U64 (drop offset a_le_bytes))) (\<lambda>x.
      ithen (constrain_equal (rw_a64s w ! idx) x)
     (ibind (instr_bytes_to_fq (take N_BYTES_U64 (drop offset b_le_bytes))) (\<lambda>y.
      ithen (constrain_equal (rw_b64s w ! idx) y)
     (ithen (constrain_equal (rw_a64s w ! idx) (rw_a64s_lo w ! idx + rw_a64s_hi w ! idx * rw_p_lo w))
     (ibind (compare (rw_a64s_lo w ! idx) (rw_p_lo w) 16) (\<lambda>(lt_lo, _).
      ithen (constrain_equal lt_lo (FQ 1))
     (ibind (compare (rw_a64s_hi w ! idx) (rw_p_hi w) 16) (\<lambda>(lt_hi, _).
      constrain_equal lt_hi (FQ 1))))))))))"

text \<open>The limbs of the result, selected by the number of whole limbs of the shift.\<close>

definition sar_check_merge :: "sar_witness \<Rightarrow> fq \<Rightarrow> fq \<Rightarrow> unit instr" where
  "sar_check_merge w is_neg shf_lt256 =
     (let d = rw_shf_div64 w; h = (\<lambda>i. rw_a64s_hi w ! i); m = (\<lambda>i. rw_a64s_hi w ! i + rw_a64s_lo w ! (i + 1) * rw_p_hi w);
        top = h 3 + rw_p_top w; ones = is_neg * FQ MAX_U64;
        eq0 = shf_lt256 * is_zero d; eq1 = shf_lt256 * is_zero (d - 1);
        eq2 = shf_lt256 * is_zero (d - FQ 2); eq3 = shf_lt256 * is_zero (d - FQ 3) in
      ithen (constrain_equal (rw_b64s w ! 0)
        (m 0 * eq0 + m 1 * eq1 + m 2 * eq2 + top * eq3 + ones * (1 - eq0 - eq1 - eq2 - eq3)))
     (ithen (constrain_equal (rw_b64s w ! 1)
        (m 1 * eq0 + m 2 * eq1 + top * eq2 + ones * (1 - eq0 - eq1 - eq2)))
     (ithen (constrain_equal (rw_b64s w ! 2) (m 2 * eq0 + top * eq1 + ones * (1 - eq0 - eq1)))
      (constrain_equal (rw_b64s w ! 3) (top * eq0 + ones * (1 - eq0))))))"

definition sar_check_shift :: "sar_witness \<Rightarrow> fq list \<Rightarrow> fq list \<Rightarrow> fq \<Rightarrow> unit instr" where
  "sar_check_shift w shift_le_bytes a_le_bytes is_neg =
     ibind (compare (rw_shf_div64 w) (FQ 4) 1) (\<lambda>(shf_div64_lt_4, _).
     ithen (constrain_equal shf_div64_lt_4 (FQ 1))
    (ibind (compare (rw_shf_mod64 w) (FQ 64) 1) (\<lambda>(shf_mod64_lt_64, _).
     ithen (constrain_equal shf_mod64_lt_64 (FQ 1))
    (ithen (constrain_equal (shift_le_bytes ! 0) (rw_shf_mod64 w + rw_shf_div64 w * FQ 64))
    (ithen (constrain_bool is_neg)
    (ibind (instr_bytes_to_fq (drop 31 a_le_bytes)) (\<lambda>top_byte.
     ibind (select is_neg (FQ 255) (FQ 0)) (\<lambda>sign_byte.
     ithen (sign_byte_lookup top_byte sign_byte)
    (ithen (constrain_equal (rw_p_top w) (is_neg * (FQ (MAX_U64 + 1) - rw_p_hi w)))
    (ithen (pow2_lookup (rw_shf_mod64 w) (rw_p_lo w) (FQ 0))
     (pow2_lookup (FQ 64 - rw_shf_mod64 w) (rw_p_hi w) (FQ 0))))))))))))"

definition sar_check_witness :: "word256 \<Rightarrow> word256 \<Rightarrow> word256 \<Rightarrow> sar_witness \<Rightarrow> unit instr" where
  "sar_check_witness shift a b w =
     ibind (ilift (to_le_bytes a)) (\<lambda>a_le_bytes.
     ibind (ilift (to_le_bytes b)) (\<lambda>b_le_bytes.
     ibind (ilift (to_le_bytes shift)) (\<lambda>shift_le_bytes.
     ibind (compare (FQ 127) (a_le_bytes ! 31) 1) (\<lambda>(is_neg, _).
     let shf_lt256 = is_zero (sum_values (tl shift_le_bytes)) in
     ithen (iiter (sar_check_limb w a_le_bytes b_le_bytes) [0..<4])
    (ithen (sar_check_merge w is_neg shf_lt256)
      (sar_check_shift w shift_le_bytes a_le_bytes is_neg))))))"

definition sar :: "instruction \<Rightarrow> unit instr" where
  "sar I =
     ibind (opcode_lookup I True) (\<lambda>opc.
     ibind (stack_pop I) (\<lambda>shift.
     ibind (stack_pop I) (\<lambda>a.
     ibind (stack_push I) (\<lambda>b.
     ibind (ilift (sar_gen_witness shift a)) (\<lambda>w.
     ithen (sar_check_witness shift a b w)
       (step_state_transition_in_same_context I opc
         (within_call (Delta (FQ 3)) (Delta (FQ 1)) (Delta (FQ 1)))))))))"

section \<open>SIGNEXTEND\<close>

text \<open>
  The comparisons of the source are calls of \<open>is_equal\<close>, which returns a flag and constrains
  nothing; they are the lists that \<open>let _\<close> drops.
\<close>

definition signextend :: "instruction \<Rightarrow> unit instr" where
  "signextend I =
     ibind (opcode_lookup I True) (\<lambda>opc.
     ibind (stack_pop I) (\<lambda>index.
     ibind (stack_pop I) (\<lambda>value.
     ibind (stack_push I) (\<lambda>result.
     ibind (ilift (to_le_bytes index)) (\<lambda>index_le_bytes.
     ibind (ilift (to_le_bytes value)) (\<lambda>value_le_bytes.
     ibind (ilift (to_le_bytes result)) (\<lambda>result_le_bytes.
     let is_msb_sum_zero = is_zero (sum_list (drop 1 index_le_bytes));
       i0 = fq_n (index_le_bytes ! 0);
       sign_byte = (if i0 < 31 then FQ (fq_n (value_le_bytes ! nat i0) div 2 ^ 7 * 0xFF) else FQ 0);
       selectors = map (\<lambda>i. fq_of_bool (i0 \<ge> int i)) [0..<31];
       is_byte_selected = map (\<lambda>i. fq_of_bool (i0 = int i)) [0..<31];
       is_selected = map (\<lambda>i. is_byte_selected ! i * is_msb_sum_zero) [0..<31];
       selected_byte = sum_list (map (\<lambda>i. value_le_bytes ! i * is_selected ! i) [0..<31]);
       _ = map (\<lambda>i. is_equal (is_selected ! i + (if i > 0 then selectors ! (i - 1) else FQ 0)) (selectors ! i)) [0..<31] in
     ithen (sign_byte_lookup selected_byte sign_byte)
    (let _ = map (\<lambda>idx. if idx = 0 then is_equal (result_le_bytes ! idx) (value_le_bytes ! idx)
           else is_equal (result_le_bytes ! idx)
             (if selectors ! (idx - 1) = FQ 1 then sign_byte else value_le_bytes ! idx)) [0..<32] in
     step_state_transition_in_same_context I opc
       (within_call (Delta (FQ 3)) (Delta (FQ 1)) (Delta (FQ 1)))))))))))"

section \<open>EXP\<close>

definition exp_by_table :: "instruction \<Rightarrow> word256 \<Rightarrow> word256 \<Rightarrow> word256 \<Rightarrow> unit instr" where
  "exp_by_table I base exponent exponentiation =
     ibind (ilift (to_64s base)) (\<lambda>base_limbs.
     ibind (\<lambda>s. Inr (ss_rw_counter (i_curr I) + FQ (rw_counter_offset s), s)) (\<lambda>identifier.
     let single_step = is_zero (hi exponent) * is_equal (lo exponent) (FQ 2) in
     ibind (exp_lookup I identifier single_step base_limbs exponent) (\<lambda>res.
     ibind (ilift (word_of_tuple (FQ 2) 0)) (\<lambda>two.
     ibind (exp_lookup I identifier 1 base_limbs two) (\<lambda>int_res.
     ibind (ilift (word_of_int256 0)) (\<lambda>zero.
     ibind (instr_mul_add_words I base base zero int_res) (\<lambda>_.
     constrain_equal_word res exponentiation)))))))"

definition exp_opcode :: "instruction \<Rightarrow> unit instr" where
  "exp_opcode I =
     ibind (opcode_lookup I True) (\<lambda>opc.
     ibind (stack_pop I) (\<lambda>base.
     ibind (stack_pop I) (\<lambda>exponent.
     ibind (stack_push I) (\<lambda>exponentiation.
     let exponent_is_zero = is_zero (hi exponent) * is_zero (lo exponent);
       exponent_is_one = is_zero (hi exponent) * is_equal (lo exponent) 1 in
     ithen (if exponent_is_zero = 1
            then ithen (constrain_equal (lo exponentiation) 1) (constrain_zero (hi exponentiation))
            else if exponent_is_one = 1
            then ithen (constrain_equal (lo exponentiation) (lo base)) (constrain_equal (hi exponentiation) (hi base))
            else exp_by_table I base exponent exponentiation)
    (ibind (instr_byte_size exponent) (\<lambda>exponent_byte_size.
     step_state_transition_in_same_context I opc
       ((within_call (Delta (FQ 3)) (Delta (FQ 1)) (Delta (FQ 1)))
         \<lparr>sc_dynamic_gas_cost := FQ GAS_COST_EXP_PER_BYTE * exponent_byte_size\<rparr>)))))))"

end
