(* ===== verification/Constraint_System.thy ===== *)
theory Constraint_System
  imports Arithmetic
begin

text \<open>
  The class \<open>ConstraintSystem\<close> of \<^verbatim>\<open>src/zkevm_specs/util/constraint_system.py\<close>: the checks
  the row circuits make, multiplied by the condition of the enclosing \<open>with\<close> block when there is
  one. An object of the class is a record with the condition; a \<open>with cs.condition(c)\<close> block is
  \<open>cs_with\<close>, which sets the condition, runs the body and clears it again. The test \<open>if self.cond\<close>
  of the source is a test for \<open>None\<close>: a field element has no truth value of its own, so also
  the element 0 counts as a condition.
\<close>

record constraint_system =
  cs_cond :: "fq option"

definition new_constraint_system :: constraint_system where
  "new_constraint_system = \<lparr>cs_cond = None\<rparr>"

definition cs_eval :: "constraint_system \<Rightarrow> fq \<Rightarrow> fq" where
  "cs_eval cs e = (case cs_cond cs of Some c \<Rightarrow> c * e | None \<Rightarrow> e)"

definition cs_constrain_equal :: "constraint_system \<Rightarrow> fq \<Rightarrow> fq \<Rightarrow> unit result" where
  "cs_constrain_equal cs lhs rhs = assert_that (cs_eval cs (lhs - rhs) = 0)"

definition cs_constrain_equal_word :: "constraint_system \<Rightarrow> word256 \<Rightarrow> word256 \<Rightarrow> unit result" where
  "cs_constrain_equal_word cs lhs rhs =
     assert_that (cs_eval cs (lo lhs - lo rhs) = 0 \<and> cs_eval cs (hi lhs - hi rhs) = 0)"

definition cs_constrain_zero :: "constraint_system \<Rightarrow> fq \<Rightarrow> unit result" where
  "cs_constrain_zero cs value = assert_that (cs_eval cs value = 0)"

definition cs_constrain_zero_word :: "constraint_system \<Rightarrow> word256 \<Rightarrow> unit result" where
  "cs_constrain_zero_word cs value =
     assert_that (cs_eval cs (lo value) = 0 \<and> cs_eval cs (hi value) = 0)"

definition cs_constrain_bool :: "constraint_system \<Rightarrow> fq \<Rightarrow> unit result" where
  "cs_constrain_bool cs value = assert_that (cs_eval cs value \<in> {0, 1})"

definition cs_is_zero :: "fq \<Rightarrow> fq" where
  "cs_is_zero value = fq_of_bool (value = 0)"

definition cs_is_equal :: "fq \<Rightarrow> fq \<Rightarrow> fq" where
  "cs_is_equal lhs rhs = cs_is_zero (lhs - rhs)"

definition cs_range_check :: "fq \<Rightarrow> nat \<Rightarrow> int list result" where
  "cs_range_check value n_bytes =
     rbind (assert_that (n_bytes \<le> MAX_N_BYTES)) (\<lambda>_.
     case to_bytes_le (fq_n value) n_bytes of
       Inl e \<Rightarrow> Inl (if e = OverflowError then ConstraintUnsatFailure else e)
     | Inr bs \<Rightarrow> Inr bs)"

definition cs_condition :: "constraint_system \<Rightarrow> fq \<Rightarrow> constraint_system result" where
  "cs_condition cs cond =
     rbind (assert_that (cs_cond cs = None)) (\<lambda>_. Inr (cs\<lparr>cs_cond := Some cond\<rparr>))"

definition cs_exit :: "constraint_system \<Rightarrow> constraint_system" where
  "cs_exit cs = cs\<lparr>cs_cond := None\<rparr>"

definition cs_with ::
  "constraint_system \<Rightarrow> fq \<Rightarrow> (constraint_system \<Rightarrow> unit result) \<Rightarrow> constraint_system result" where
  "cs_with cs cond body =
     rbind (cs_condition cs cond) (\<lambda>cs'.
     rbind (body cs') (\<lambda>_. Inr (cs_exit cs')))"

section \<open>What a check says\<close>

text \<open>
  Outside a block the checks are equations; under a condition they are equations multiplied by
  it, so a condition 0 switches them off and a condition 1 leaves them as they are.
\<close>

lemma cs_eval_simps [simp]:
  "cs_eval new_constraint_system e = e"
  "cs_eval \<lparr>cs_cond = None\<rparr> e = e"
  "cs_eval \<lparr>cs_cond = Some c\<rparr> e = c * e"
  by (simp_all add: cs_eval_def new_constraint_system_def)

lemma cs_constrain_ok [ok_simps]:
  "cs_constrain_equal cs l r = Inr u \<longleftrightarrow> cs_eval cs (l - r) = 0"
  "cs_constrain_equal_word cs v w = Inr u \<longleftrightarrow> cs_eval cs (lo v - lo w) = 0 \<and> cs_eval cs (hi v - hi w) = 0"
  "cs_constrain_zero cs l = Inr u \<longleftrightarrow> cs_eval cs l = 0"
  "cs_constrain_zero_word cs v = Inr u \<longleftrightarrow> cs_eval cs (lo v) = 0 \<and> cs_eval cs (hi v) = 0"
  "cs_constrain_bool cs l = Inr u \<longleftrightarrow> cs_eval cs l = 0 \<or> cs_eval cs l = 1"
  by (simp_all add: cs_constrain_equal_def cs_constrain_equal_word_def cs_constrain_zero_def
      cs_constrain_zero_word_def cs_constrain_bool_def assert_that_ok)

lemma cs_range_check_ok [ok_simps]:
  "cs_range_check v n = Inr bs \<longleftrightarrow> n \<le> 31 \<and> fq_n v < 256 ^ n \<and> bs = le_bytes n (fq_n v)"
  by (auto simp: cs_range_check_def rbind_ok assert_that_ok to_bytes_le_def)

text \<open>An error of a range check is the failure of the constraint, or of the assertion on the width.\<close>

lemma cs_range_check_error:
  "cs_range_check v n = Inl e \<longleftrightarrow>
     (if n \<le> 31 then e = ConstraintUnsatFailure \<and> 256 ^ n \<le> fq_n v else e = AssertionError)"
  by (auto simp: cs_range_check_def to_bytes_le_def)

lemma cs_with_ok [ok_simps]:
  "cs_with cs c body = Inr cs' \<longleftrightarrow>
     cs = new_constraint_system \<and> cs' = cs \<and> body \<lparr>cs_cond = Some c\<rparr> = Inr ()"
  by (cases cs) (auto simp: cs_with_def cs_condition_def cs_exit_def new_constraint_system_def
      rbind_ok assert_that_ok)

lemma cs_is_equal_simp [simp]: "cs_is_equal a b = fq_of_bool (a = b)" "cs_is_zero a = fq_of_bool (a = 0)"
  by (simp_all add: cs_is_equal_def cs_is_zero_def)

lemma cs_nested_condition: "cs_cond cs \<noteq> None \<Longrightarrow> cs_with cs c body = Inl AssertionError"
  by (cases "cs_cond cs") (simp_all add: cs_with_def cs_condition_def)

end
