(* ===== verification/Row_Chain.thy ===== *)
theory Row_Chain
  imports Prelude
begin

text \<open>
  Tables whose constraints relate a row to the next one. The row circuits check every pair
  \<open>rows[i]\<close>, \<open>rows[(i + 1) % n]\<close>; the locales here turn such a check into a property of a whole run
  of rows, once backwards (a row is right when its successor is) and once forwards (the next row
  is right when this one is). Each circuit interprets them on its own pair check.
\<close>

definition cyclic_ok :: "('r \<Rightarrow> 'r \<Rightarrow> bool) \<Rightarrow> 'r list \<Rightarrow> bool" where
  "cyclic_ok pair rows \<longleftrightarrow> (\<forall>i<length rows. pair (rows ! i) (rows ! ((i + 1) mod length rows)))"

text \<open>A list of rows every pair of which is fine, and whose last row is fine whatever comes next.\<close>

fun closed_chain :: "('r \<Rightarrow> 'r \<Rightarrow> bool) \<Rightarrow> 'r list \<Rightarrow> bool" where
  "closed_chain pair [] = True"
| "closed_chain pair [r] = (\<forall>r'. pair r r')"
| "closed_chain pair (r # r' # rows) = (pair r r' \<and> closed_chain pair (r' # rows))"

lemma closed_chain_append:
  "closed_chain pair xs \<Longrightarrow> closed_chain pair ys \<Longrightarrow> closed_chain pair (xs @ ys)"
proof (induction pair xs rule: closed_chain.induct)
  case (2 pair r)
  then show ?case by (cases ys) simp_all
qed simp_all

lemma closed_chain_replicate: "(\<And>r'. pair r r') \<Longrightarrow> closed_chain pair (replicate n r)"
proof (induction n)
  case (Suc n)
  then show ?case by (cases n) auto
qed simp

lemma closed_chain_nth:
  "closed_chain pair rows \<Longrightarrow> i < length rows \<Longrightarrow>
     (if Suc i < length rows then pair (rows ! i) (rows ! Suc i) else \<forall>r'. pair (rows ! i) r')"
proof (induction pair rows arbitrary: i rule: closed_chain.induct)
  case (3 pair r r' rows)
  show ?case
  proof (cases i)
    case 0
    then show ?thesis using "3.prems" by simp
  next
    case (Suc m)
    then show ?thesis using "3.IH" [of m] "3.prems" by (cases "m < length rows") simp_all
  qed
qed simp_all

lemma closed_chain_cyclic:
  assumes "closed_chain pair rows" shows "cyclic_ok pair rows"
  unfolding cyclic_ok_def
proof (intro allI impI)
  fix i assume i: "i < length rows"
  show "pair (rows ! i) (rows ! ((i + 1) mod length rows))"
    using closed_chain_nth [OF assms i] by (cases "Suc i < length rows") simp_all
qed

lemma cyclic_ok_Suc: "cyclic_ok pair rows \<Longrightarrow> Suc i < length rows \<Longrightarrow> pair (rows ! i) (rows ! Suc i)"
  unfolding cyclic_ok_def by (metis Suc_eq_plus1 Suc_lessD mod_less)

lemma cyclic_ok_pair: "cyclic_ok pair rows \<Longrightarrow> i < length rows \<Longrightarrow> \<exists>r'\<in>set rows. pair (rows ! i) r'"
  unfolding cyclic_ok_def using mod_less_divisor [of "length rows" "i + 1"] nth_mem by (metis gr_zeroI less_zeroE)

text \<open>Runs that end in a closing row: what holds there is carried back to the first row.\<close>

locale backward_run =
  fixes pair :: "'r \<Rightarrow> 'r \<Rightarrow> bool" and final :: "'r \<Rightarrow> bool" and good :: "'r \<Rightarrow> bool"
  assumes final_good: "pair r r' \<Longrightarrow> final r \<Longrightarrow> good r"
    and good_back: "pair r r' \<Longrightarrow> \<not> final r \<Longrightarrow> good r' \<Longrightarrow> good r"
begin

lemma run_good:
  assumes "\<And>k. i \<le> k \<Longrightarrow> k < j \<Longrightarrow> pair (rows ! k) (rows ! Suc k)"
    and "pair (rows ! j) r'" "final (rows ! j)" "i \<le> j"
  shows "good (rows ! i)"
  using assms(1,4)
proof (induction "j - i" arbitrary: i)
  case 0
  then show ?case using final_good assms(2,3) by simp
next
  case (Suc k)
  then have i: "i < j" "Suc i \<le> j" "k = j - Suc i" by simp_all
  have "good (rows ! Suc i)"
    by (rule Suc.hyps(1) [OF i(3)]) (use Suc.prems i in simp_all)
  with Suc.prems(1) [of i] i show ?case using good_back final_good by blast
qed

end

text \<open>
  Runs that begin with an opening row: a ghost state, updated from row to row, stays in relation
  with the rows.
\<close>

locale forward_run =
  fixes pair :: "'r \<Rightarrow> 'r \<Rightarrow> bool" and inside :: "'r \<Rightarrow> bool"
    and upd :: "'s \<Rightarrow> 'r \<Rightarrow> 's" and rel :: "'s \<Rightarrow> 'r \<Rightarrow> bool"
  assumes forth: "pair r r' \<Longrightarrow> inside r' \<Longrightarrow> rel s r \<Longrightarrow> rel (upd s r') r'"
begin

lemma run_rel:
  assumes "\<And>k. i \<le> k \<Longrightarrow> k < j \<Longrightarrow> pair (rows ! k) (rows ! Suc k) \<and> inside (rows ! Suc k)"
    and "rel s (rows ! i)" "i \<le> j"
  shows "rel (foldl upd s (map (\<lambda>k. rows ! k) [Suc i..<Suc j])) (rows ! j)"
  using assms(1,3)
proof (induction "j - i" arbitrary: j)
  case 0
  then show ?case using assms(2) by simp
next
  case (Suc k)
  then obtain m where j: "j = Suc m" "i \<le> m" "k = m - i" by (cases j) simp_all
  have r: "rel (foldl upd s (map (\<lambda>k. rows ! k) [Suc i..<Suc m])) (rows ! m)"
    by (rule Suc.hyps(1) [OF j(3)]) (use Suc.prems j in simp_all)
  have "pair (rows ! m) (rows ! Suc m)" "inside (rows ! Suc m)"
    using Suc.prems(1) [of m] j by simp_all
  from forth [OF this r] show ?case
    using j(1,2) by (simp add: upt_Suc_append del: upt_Suc)
qed

end

end
