(* ===== verification/Exp_Circuit.thy ===== *)
theory Exp_Circuit
  imports Constraint_System Row_Chain Mul_Add Table
begin

text \<open>
  The exponentiation circuit, \<^verbatim>\<open>src/zkevm_specs/exp_circuit.py\<close>: the constraints on two
  adjacent rows (\<open>verify_step\<close>) and their check over the whole table, cyclically
  (\<open>verify_exp_circuit\<close>); and the class \<open>ExpCircuit\<close> of \<^verbatim>\<open>evm_circuit/typing.py\<close>, which
  lays out the rows of an exponentiation by squaring. Each \<open>with cs.condition(..)\<close> block of
  \<open>verify_step\<close> is a definition of its own.

  Soundness: a run of steps that ends in a last step computes the power of the base; it needs
  the quotients of the parity check to be below \<open>2 ^ 255\<close>, since the code drops the overflow of
  that check. Completeness: the rows that \<open>add_event\<close> lays out are accepted.
\<close>

section \<open>The constraints\<close>

definition exp_mul_add_check ::
  "(int \<Rightarrow> int \<Rightarrow> int) \<Rightarrow> constraint_system \<Rightarrow> word256 \<Rightarrow> word256 \<Rightarrow> word256 \<Rightarrow> word256 \<Rightarrow> unit result" where
  "exp_mul_add_check pfi cs a b c d =
     rbind (mul_add_words pfi a b c d) (\<lambda>(overflow, (carry_lo, carry_hi), additional_constraints).
     rbind (cs_range_check carry_lo 9) (\<lambda>_.
     rbind (cs_range_check carry_hi 9) (\<lambda>_.
     riter (\<lambda>(lhs, rhs). cs_constrain_equal cs lhs rhs) additional_constraints)))"

definition exp_transition_checks :: "exp_circuit_row \<Rightarrow> exp_circuit_row \<Rightarrow> constraint_system \<Rightarrow> unit result" where
  "exp_transition_checks row0 row1 cs =
     rbind (cs_constrain_equal_word cs (ec_base row0) (ec_base row1)) (\<lambda>_.
     rbind (cs_constrain_equal_word cs (ec_a row0) (ec_d row1)) (\<lambda>_.
     cs_constrain_equal cs (ec_identifier row0) (ec_identifier row1)))"

definition exp_step_checks ::
  "(int \<Rightarrow> int \<Rightarrow> int) \<Rightarrow> exp_circuit_row \<Rightarrow> constraint_system \<Rightarrow> unit result" where
  "exp_step_checks pfi row0 cs =
     rbind (cs_constrain_bool cs (ec_is_last row0)) (\<lambda>_.
     rbind (cs_constrain_bool cs (ec_r row0)) (\<lambda>_.
     rbind (exp_mul_add_check pfi cs (ec_a row0) (ec_b row0) (ec_c row0) (ec_d row0)) (\<lambda>_.
     rbind (cs_constrain_equal_word cs (ec_exponentiation row0) (ec_d row0)) (\<lambda>_.
     rbind (cs_constrain_zero_word cs (ec_c row0)) (\<lambda>_.
     rbind (word_of_int256 2) (\<lambda>two.
     rbind (from_lo (ec_r row0)) (\<lambda>r.
     exp_mul_add_check pfi cs two (ec_q row0) r (ec_exponent row0))))))))"

definition exp_odd_checks :: "exp_circuit_row \<Rightarrow> exp_circuit_row \<Rightarrow> constraint_system \<Rightarrow> unit result" where
  "exp_odd_checks row0 row1 cs =
     rbind (cs_constrain_equal cs (lo (ec_exponent row1)) (lo (ec_exponent row0) - 1)) (\<lambda>_.
     rbind (cs_constrain_equal cs (hi (ec_exponent row1)) (hi (ec_exponent row0))) (\<lambda>_.
     cs_constrain_equal_word cs (ec_base row0) (ec_b row0)))"

definition exp_even_checks :: "exp_circuit_row \<Rightarrow> exp_circuit_row \<Rightarrow> constraint_system \<Rightarrow> unit result" where
  "exp_even_checks row0 row1 cs =
     rbind (cs_constrain_equal cs (lo (ec_exponent row1)) (lo (ec_q row0))) (\<lambda>_.
     rbind (cs_constrain_equal cs (hi (ec_exponent row1)) (hi (ec_q row0))) (\<lambda>_.
     cs_constrain_equal_word cs (ec_a row0) (ec_b row0)))"

definition exp_last_checks :: "exp_circuit_row \<Rightarrow> constraint_system \<Rightarrow> unit result" where
  "exp_last_checks row0 cs =
     rbind (cs_constrain_equal cs (lo (ec_exponent row0)) (FQ 2)) (\<lambda>_.
     rbind (cs_constrain_zero cs (hi (ec_exponent row0))) (\<lambda>_.
     rbind (cs_constrain_equal_word cs (ec_base row0) (ec_a row0)) (\<lambda>_.
     cs_constrain_equal_word cs (ec_base row0) (ec_b row0))))"

definition exp_verify_step ::
  "(int \<Rightarrow> int \<Rightarrow> int) \<Rightarrow> constraint_system \<Rightarrow> exp_circuit_row \<Rightarrow> exp_circuit_row \<Rightarrow> constraint_system result" where
  "exp_verify_step pfi cs row0 row1 =
     rbind (cs_with cs (ec_is_step row0 * (1 - ec_is_last row0)) (exp_transition_checks row0 row1)) (\<lambda>cs.
     rbind (cs_with cs (ec_is_step row0) (exp_step_checks pfi row0)) (\<lambda>cs.
     rbind (cs_with cs (ec_is_step row0 * (1 - ec_is_last row0) * ec_r row0) (exp_odd_checks row0 row1)) (\<lambda>cs.
     rbind (cs_with cs (ec_is_step row0 * (1 - ec_is_last row0) * (1 - ec_r row0)) (exp_even_checks row0 row1)) (\<lambda>cs.
     cs_with cs (ec_is_last row0) (exp_last_checks row0)))))"

fun exp_verify_rows ::
  "(int \<Rightarrow> int \<Rightarrow> int) \<Rightarrow> exp_circuit_row list \<Rightarrow> constraint_system \<Rightarrow> nat list \<Rightarrow> unit result" where
  "exp_verify_rows pfi rows cs [] = Inr ()"
| "exp_verify_rows pfi rows cs (i # is) =
     rbind (exp_verify_step pfi cs (rows ! i) (rows ! ((i + 1) mod length rows))) (\<lambda>cs.
     exp_verify_rows pfi rows cs is)"

definition verify_exp_circuit :: "(int \<Rightarrow> int \<Rightarrow> int) \<Rightarrow> exp_circuit_row list \<Rightarrow> unit result" where
  "verify_exp_circuit pfi rows =
     exp_verify_rows pfi rows new_constraint_system [0..<length rows]"

section \<open>The layout of an exponentiation\<close>

text \<open>
  \<open>_exp_by_squaring\<close> appends the multiplications to its list argument; here it returns the value
  with the steps in the order of appending. Its recursion halves the exponent, which is a
  non-negative integer.
\<close>

function exp_by_squaring :: "int \<Rightarrow> nat \<Rightarrow> int \<times> (int \<times> int \<times> int) list" where
  "exp_by_squaring base exponent =
     (if exponent = 0 then (1, [])
      else if exponent = 1 then (base, [])
      else let (exp1, steps) = exp_by_squaring base (exponent div 2);
        exp2 = (exp1 * exp1) mod 2 ^ 256;
        steps = steps @ [(exp1, exp1, exp2)] in
        if exponent mod 2 = 0 then (exp2, steps)
        else let exp = (base * exp2) mod 2 ^ 256 in (exp, steps @ [(exp2, base, exp)]))"
  by pat_completeness auto
termination by (relation "measure snd") auto

declare exp_by_squaring.simps [simp del]

definition exp_step_row ::
  "fq \<Rightarrow> fq \<Rightarrow> word256 \<Rightarrow> word256 \<Rightarrow> word256 \<Rightarrow> word256 \<Rightarrow> word256 \<Rightarrow> word256 \<Rightarrow> word256 \<Rightarrow> word256 \<Rightarrow> fq \<Rightarrow> exp_circuit_row" where
  "exp_step_row identifier is_last base exponent exponentiation a b c d quot rem =
     \<lparr>ec_q_usable = 1, ec_is_step = 1, ec_identifier = identifier, ec_is_last = is_last,
      ec_base = base, ec_exponent = exponent, ec_exponentiation = exponentiation,
      ec_a = a, ec_b = b, ec_c = c, ec_d = d, ec_q = quot, ec_r = rem\<rparr>"

fun exp_append_steps ::
  "word256 \<Rightarrow> nat \<Rightarrow> (int \<times> int \<times> int) list \<Rightarrow> fq \<Rightarrow> exp_circuit_row list result" where
  "exp_append_steps base exponent [] identifier = Inr []"
| "exp_append_steps base exponent ((a, b, d) # steps) identifier =
     rbind (word_of_int256 (int exponent)) (\<lambda>exponent_word.
     rbind (word_of_int256 d) (\<lambda>d_word.
     rbind (word_of_int256 a) (\<lambda>a_word.
     rbind (word_of_int256 b) (\<lambda>b_word.
     rbind (word_of_int256 0) (\<lambda>zero.
     rbind (word_of_int256 (int (exponent div 2))) (\<lambda>q_word.
     rbind (exp_append_steps base (if exponent mod 2 = 0 then exponent div 2 else exponent - 1) steps identifier) (\<lambda>rows.
     Inr (exp_step_row identifier (fq_of_bool (steps = [])) base exponent_word d_word a_word b_word zero
       d_word q_word (FQ (int (exponent mod 2))) # rows))))))))"

definition exp_add_event :: "exp_circuit_row list \<Rightarrow> int \<Rightarrow> nat \<Rightarrow> fq \<Rightarrow> exp_circuit_row list result" where
  "exp_add_event rows base exponent identifier =
     (let (exponentiation, steps) = exp_by_squaring base exponent in
      rbind (word_of_int256 base) (\<lambda>base_word.
      rbind (exp_append_steps base_word exponent (rev steps) identifier) (\<lambda>new. Inr (rows @ new))))"

definition exp_dummy_row :: exp_circuit_row where
  "exp_dummy_row =
     \<lparr>ec_q_usable = 1, ec_is_step = 0, ec_identifier = 0, ec_is_last = 0,
      ec_base = WordLH 1 0, ec_exponent = WordLH 1 0, ec_exponentiation = WordLH 1 0,
      ec_a = WordLH 1 0, ec_b = WordLH 1 0, ec_c = WordLH 0 0, ec_d = WordLH 1 0,
      ec_q = WordLH 0 0, ec_r = 1\<rparr>"

definition exp_fill_dummy_events :: "nat \<Rightarrow> exp_circuit_row list \<Rightarrow> exp_circuit_row list" where
  "exp_fill_dummy_events max_exp_steps rows =
     rows @ replicate (max_exp_steps * 7 - length rows) exp_dummy_row"


section \<open>What one pair of rows says\<close>

definition exp_row_words_ok :: "exp_circuit_row \<Rightarrow> bool" where
  "exp_row_words_ok row \<longleftrightarrow>
     list_all word_ok [ec_base row, ec_exponent row, ec_exponentiation row, ec_a row, ec_b row,
       ec_c row, ec_d row, ec_q row]"

lemma mul_add_words_range:
  assumes pfi: "prime_field_inv_spec pfi" and ok: "word_ok a" "word_ok b" "word_ok c" "word_ok d"
  shows "(\<exists>ov cl ch eqs. mul_add_words pfi a b c d = Inr (ov, (cl, ch), eqs) \<and> fq_n cl < 2 ^ 72 \<and>
      fq_n ch < 2 ^ 72 \<and> (\<forall>(l, r)\<in>set eqs. l = r)) \<longleftrightarrow>
    (int_value a * int_value b + int_value c) mod 2 ^ 256 = int_value d"
    (is "?L = ?R")
proof
  assume ?L
  then obtain k where "int_value a * int_value b + int_value c = int_value d + k * 2 ^ 256"
    using mul_add_words_sound [OF pfi ok(3,4)] by blast
  then show ?R
    using int_value_nonneg int_value_lt [OF ok(4)] by (simp only: mod_mult_self1 mod_pos_pos_trivial)
next
  assume eq: ?R
  obtain ov cl ch eqs where "mul_add_words pfi a b c d = Inr (ov, (cl, ch), eqs)"
    "fq_n cl < 2 ^ 72" "fq_n ch < 2 ^ 72" "\<forall>(l, r)\<in>set eqs. l = r"
    by (rule mul_add_words_complete [OF pfi ok eq])
  then show ?L by blast
qed

text \<open>The range checks alone already force the product: the two equations hold by construction.\<close>

lemma mul_add_words_eqs:
  assumes pfi: "prime_field_inv_spec pfi" and ok: "word_ok a" "word_ok b" "word_ok c" "word_ok d"
    and run: "mul_add_words pfi a b c d = Inr (ov, (cl, ch), eqs)" "fq_n cl < 2 ^ 72" "fq_n ch < 2 ^ 72"
  shows "\<forall>(l, r)\<in>set eqs. l = r"
proof -
  obtain k where "int_value a * int_value b + int_value c = int_value d + k * 2 ^ 256"
    using mul_add_words_sound [OF pfi ok(3,4) run] by blast
  then have eq: "(int_value a * int_value b + int_value c) mod 2 ^ 256 = int_value d"
    using int_value_nonneg int_value_lt [OF ok(4)] by (simp only: mod_mult_self1 mod_pos_pos_trivial)
  obtain ov' cl' ch' eqs' where 1: "mul_add_words pfi a b c d = Inr (ov', (cl', ch'), eqs')"
    and "fq_n cl' < 2 ^ 72" "fq_n ch' < 2 ^ 72" and 2: "\<forall>(l, r)\<in>set eqs'. l = r"
    by (rule mul_add_words_complete [OF pfi ok eq])
  have "eqs = eqs'" using 1 run(1) by simp
  with 2 show ?thesis by (simp only:)
qed

lemma exp_mul_add_check_ok [ok_simps]:
  assumes pfi: "prime_field_inv_spec pfi" and ok: "word_ok a" "word_ok b" "word_ok c" "word_ok d"
  shows "exp_mul_add_check pfi cs a b c d = Inr u \<longleftrightarrow>
    (int_value a * int_value b + int_value c) mod 2 ^ 256 = int_value d"
proof -
  have "exp_mul_add_check pfi cs a b c d = Inr u \<longleftrightarrow>
    (\<exists>ov cl ch eqs. mul_add_words pfi a b c d = Inr (ov, (cl, ch), eqs) \<and> fq_n cl < 2 ^ 72 \<and>
      fq_n ch < 2 ^ 72 \<and> (\<forall>(l, r)\<in>set eqs. l = r))"
    using mul_add_words_eqs [OF pfi ok]
    by (fastforce simp: exp_mul_add_check_def ok_simps cs_eval_def split: option.splits)
  then show ?thesis using mul_add_words_range [OF pfi ok] by simp
qed

lemma word_eq_diff: "lo v - lo w = 0 \<and> hi v - hi w = 0 \<longleftrightarrow> v = w"
  by (cases v; cases w) simp

lemma int_value_parity: "odd (int_value w) \<Longrightarrow> 1 \<le> fq_n (lo w)"
proof -
  assume "odd (int_value w)"
  then have "fq_n (lo w) \<noteq> 0" by (auto simp: int_value_def)
  then show ?thesis using fq_n_nonneg [of "lo w"] by linarith
qed

lemma word_pred:
  assumes ok: "word_ok v" "word_ok w" and odd: "odd (int_value w)"
  shows "lo v - (lo w - 1) = 0 \<and> hi v - hi w = 0 \<longleftrightarrow> int_value v = int_value w - 1"
proof -
  let ?w = "WordLH (lo w - 1) (hi w)"
  have l: "fq_n (lo w - 1) = fq_n (lo w) - 1"
    using fq_n_diff_small [of 1 "lo w"] int_value_parity [OF odd] by simp
  then have ok': "word_ok ?w" and val: "int_value ?w = int_value w - 1"
    using ok(2) by (simp_all add: word_ok_def int_value_def)
  have "lo v - (lo w - 1) = 0 \<and> hi v - hi w = 0 \<longleftrightarrow> v = ?w" by (cases v) simp
  then show ?thesis using int_value_inject [OF ok(1) ok'] val by simp
qed

definition exp_row_value :: "exp_circuit_row \<Rightarrow> bool \<Rightarrow> bool \<Rightarrow> bool" where
  "exp_row_value row0 fin od \<longleftrightarrow>
     ec_is_last row0 = fq_of_bool fin \<and> ec_r row0 = fq_of_bool od \<and>
     (int_value (ec_a row0) * int_value (ec_b row0)) mod 2 ^ 256 = int_value (ec_d row0) \<and>
     ec_exponentiation row0 = ec_d row0 \<and> ec_c row0 = WordLH 0 0 \<and>
     (2 * int_value (ec_q row0) + of_bool od) mod 2 ^ 256 = int_value (ec_exponent row0)"

definition exp_row_next :: "exp_circuit_row \<Rightarrow> exp_circuit_row \<Rightarrow> bool \<Rightarrow> bool \<Rightarrow> bool" where
  "exp_row_next row0 row1 fin od \<longleftrightarrow>
     (if fin then ec_exponent row0 = WordLH (FQ 2) 0 \<and> ec_base row0 = ec_a row0 \<and> ec_base row0 = ec_b row0
      else ec_base row0 = ec_base row1 \<and> ec_a row0 = ec_d row1 \<and> ec_identifier row0 = ec_identifier row1 \<and>
        (if od then int_value (ec_exponent row1) = int_value (ec_exponent row0) - 1 \<and> ec_base row0 = ec_b row0
         else ec_exponent row1 = ec_q row0 \<and> ec_a row0 = ec_b row0))"

lemma word_of_small [simp]: "int_value (WordLH 0 0) = 0" "int_value (WordLH 1 0) = 1"
  "word_ok (WordLH 0 0)" "word_ok (WordLH 1 0)" "int_value (WordLH (FQ 2) 0) = 2" "word_ok (WordLH (FQ 2) 0)"
  by (simp_all add: int_value_def word_ok_def fq_modulus_def)

lemma odd_mod_pow: "odd ((2 * q + 1) mod (2 ^ 256) :: int)"
  by (simp add: dvd_mod_iff)

lemma exp_row_value_odd: "exp_row_value row0 fin True \<Longrightarrow> odd (int_value (ec_exponent row0))"
  unfolding exp_row_value_def by (metis odd_mod_pow of_bool_eq(2))

lemma exp_conditional_checks:
  "exp_transition_checks row0 row1 \<lparr>cs_cond = Some (fq_of_bool b)\<rparr> = Inr () \<longleftrightarrow>
     (b \<longrightarrow> ec_base row0 = ec_base row1 \<and> ec_a row0 = ec_d row1 \<and> ec_identifier row0 = ec_identifier row1)"
  "exp_even_checks row0 row1 \<lparr>cs_cond = Some (fq_of_bool b)\<rparr> = Inr () \<longleftrightarrow>
     (b \<longrightarrow> ec_exponent row1 = ec_q row0 \<and> ec_a row0 = ec_b row0)"
  "exp_last_checks row0 \<lparr>cs_cond = Some (fq_of_bool b)\<rparr> = Inr () \<longleftrightarrow>
     (b \<longrightarrow> ec_exponent row0 = WordLH (FQ 2) 0 \<and> ec_base row0 = ec_a row0 \<and> ec_base row0 = ec_b row0)"
  by (cases "ec_exponent row0", cases b; auto simp: exp_transition_checks_def exp_even_checks_def
      exp_last_checks_def ok_simps word256.expand)+

lemma exp_odd_checks_ok:
  assumes "word_ok (ec_exponent row0)" "word_ok (ec_exponent row1)" "b \<longrightarrow> odd (int_value (ec_exponent row0))"
  shows "exp_odd_checks row0 row1 \<lparr>cs_cond = Some (fq_of_bool b)\<rparr> = Inr () \<longleftrightarrow>
    (b \<longrightarrow> int_value (ec_exponent row1) = int_value (ec_exponent row0) - 1 \<and> ec_base row0 = ec_b row0)"
  using assms word_pred [OF assms(2,1)]
  by (cases b) (auto simp: exp_odd_checks_def ok_simps word256.expand)

lemma exp_step_checks_ok:
  assumes pfi: "prime_field_inv_spec pfi" and ok: "exp_row_words_ok row0"
  shows "exp_step_checks pfi row0 \<lparr>cs_cond = Some 1\<rparr> = Inr () \<longleftrightarrow> (\<exists>fin od. exp_row_value row0 fin od)"
proof (cases "is_bool_fq (ec_is_last row0) \<and> is_bool_fq (ec_r row0)")
  case False
  then show ?thesis
    by (auto simp: ok_simps exp_step_checks_def is_bool_fq_def exp_row_value_def fq_of_bool_def)
next
  case True
  then obtain fin od where fin: "ec_is_last row0 = fq_of_bool fin" and od: "ec_r row0 = fq_of_bool od"
    using is_bool_fqE by blast
  have b: "fq_of_bool x = 0 \<or> fq_of_bool x = 1" "WordLH (fq_of_bool x) 0 = word_of (of_bool x)" for x
    by (cases x; simp add: word_of_def)+
  note w = ok [unfolded exp_row_words_ok_def list.pred_inject]
  have "exp_step_checks pfi row0 \<lparr>cs_cond = Some 1\<rparr> = Inr () \<longleftrightarrow> exp_row_value row0 fin od"
    using w unfolding exp_step_checks_def exp_row_value_def
    by (cases "ec_c row0", cases od)
      (auto simp: ok_simps exp_mul_add_check_ok [OF pfi] fin b word_of_ok [simplified] word256.expand od)
  moreover have "(\<exists>fin od. exp_row_value row0 fin od) \<longleftrightarrow> exp_row_value row0 fin od"
    by (auto simp: exp_row_value_def fin od)
  ultimately show ?thesis by simp
qed

lemma exp_live_row:
  assumes pfi: "prime_field_inv_spec pfi"
    and ok: "exp_row_words_ok row0" "exp_row_words_ok row1" and step: "ec_is_step row0 = 1"
  shows "exp_verify_step pfi new_constraint_system row0 row1 = Inr cs \<longleftrightarrow>
    cs = new_constraint_system \<and> (\<exists>fin od. exp_row_value row0 fin od \<and> exp_row_next row0 row1 fin od)"
proof (cases "\<exists>fin od. exp_row_value row0 fin od")
  case False
  then show ?thesis
    by (simp add: exp_verify_step_def ok_simps exp_step_checks_ok [OF pfi ok(1)] step)
next
  case True
  then obtain fin od where v: "exp_row_value row0 fin od" by blast
  then have fin: "ec_is_last row0 = fq_of_bool fin" and od: "ec_r row0 = fq_of_bool od"
    by (simp_all add: exp_row_value_def)
  have uniq: "exp_row_value row0 fin' od' \<longleftrightarrow> fin' = fin \<and> od' = od" for fin' od'
    using v by (auto simp: exp_row_value_def)
  have w: "word_ok (ec_exponent row0)" "word_ok (ec_exponent row1)"
    using ok by (simp_all add: exp_row_words_ok_def)
  have par: "\<not> fin \<and> od \<longrightarrow> odd (int_value (ec_exponent row0))"
    using exp_row_value_odd [of row0 fin] v by (cases od) auto
  show ?thesis
    by (auto simp: exp_verify_step_def ok_simps exp_step_checks_ok [OF pfi ok(1)] step fin od uniq
        exp_conditional_checks exp_odd_checks_ok [OF w par] exp_row_next_def)
qed

section \<open>Soundness\<close>

lemma exp_verify_step_cs:
  "exp_verify_step pfi cs row0 row1 = Inr cs' \<Longrightarrow> cs = new_constraint_system \<and> cs' = new_constraint_system"
  by (auto simp: exp_verify_step_def ok_simps)

definition exp_pair_ok :: "(int \<Rightarrow> int \<Rightarrow> int) \<Rightarrow> exp_circuit_row \<Rightarrow> exp_circuit_row \<Rightarrow> bool" where
  "exp_pair_ok pfi row0 row1 \<longleftrightarrow>
     exp_verify_step pfi new_constraint_system row0 row1 = Inr new_constraint_system"

lemma verify_exp_circuit_ok:
  "verify_exp_circuit pfi rows = Inr () \<longleftrightarrow> cyclic_ok (exp_pair_ok pfi) rows"
proof -
  have "exp_verify_rows pfi rows new_constraint_system is = Inr () \<longleftrightarrow>
    (\<forall>i\<in>set is. exp_pair_ok pfi (rows ! i) (rows ! ((i + 1) mod length rows)))" for "is"
  proof (induction "is")
    case (Cons i "is")
    have "exp_verify_rows pfi rows new_constraint_system (i # is) = Inr () \<longleftrightarrow>
      exp_pair_ok pfi (rows ! i) (rows ! ((i + 1) mod length rows)) \<and>
      exp_verify_rows pfi rows new_constraint_system is = Inr ()"
      using exp_verify_step_cs by (simp add: rbind_ok exp_pair_ok_def) blast
    then show ?case using Cons by simp
  qed simp
  then show ?thesis by (auto simp: verify_exp_circuit_def cyclic_ok_def)
qed

text \<open>
  A row is right when its result is a power of the base with an exponent congruent to the one of
  the row; with quotients below \<open>2 ^ 255\<close> it is the exponent of the row itself.
\<close>

definition exp_power :: "bool \<Rightarrow> exp_circuit_row \<Rightarrow> bool" where
  "exp_power exact row \<longleftrightarrow>
     (\<exists>n. int n mod 2 ^ 256 = int_value (ec_exponent row) \<and> (exact \<longrightarrow> int n < 2 ^ 256) \<and>
        int_value (ec_exponentiation row) = int_value (ec_base row) ^ n mod 2 ^ 256 \<and>
        ec_exponentiation row = ec_d row)"

definition exp_run_pair :: "bool \<Rightarrow> exp_circuit_row \<Rightarrow> exp_circuit_row \<Rightarrow> bool" where
  "exp_run_pair exact row0 row1 \<longleftrightarrow>
     exp_row_words_ok row0 \<and> (exact \<longrightarrow> int_value (ec_q row0) < 2 ^ 255) \<and>
     (\<exists>fin od. exp_row_value row0 fin od \<and> exp_row_next row0 row1 fin od)"

lemma exp_power_final:
  assumes "exp_run_pair exact r r'" "ec_is_last r = 1"
  shows "exp_power exact r"
proof -
  from assms obtain od where v: "exp_row_value r True od" "exp_row_next r r' True od"
    by (auto simp: exp_run_pair_def exp_row_value_def)
  show ?thesis
    unfolding exp_power_def
    by (rule exI [of _ 2]) (use v in \<open>auto simp: exp_row_value_def exp_row_next_def power2_eq_square\<close>)
qed

lemma exp_power_back:
  assumes p: "exp_run_pair exact r r'" and nf: "ec_is_last r \<noteq> 1" and good: "exp_power exact r'"
  shows "exp_power exact r"
proof -
  from p nf obtain od where v: "exp_row_value r False od" "exp_row_next r r' False od"
    by (auto simp: exp_run_pair_def exp_row_value_def)
  from p have ok: "exp_row_words_ok r" and q: "exact \<Longrightarrow> int_value (ec_q r) < 2 ^ 255"
    by (simp_all add: exp_run_pair_def)
  from good obtain n where n: "int n mod 2 ^ 256 = int_value (ec_exponent r')"
    "exact \<Longrightarrow> int n < 2 ^ 256" "int_value (ec_d r') = int_value (ec_base r') ^ n mod 2 ^ 256"
    unfolding exp_power_def by (elim exE conjE) (rule that, simp_all)
  have ex: "int_value (ec_exponent r) < 2 ^ 256"
    using ok int_value_lt by (simp add: exp_row_words_ok_def)
  show ?thesis
  proof (cases od)
    case True
    have e: "int_value (ec_exponent r) = int_value (ec_exponent r') + 1"
      and d: "int_value (ec_d r) = int_value (ec_d r') * int_value (ec_base r') mod 2 ^ 256"
      and eq: "ec_base r = ec_base r'" "ec_exponentiation r = ec_d r"
      using v True by (auto simp: exp_row_value_def exp_row_next_def)
    have "int (Suc n) mod 2 ^ 256 = int_value (ec_exponent r)"
      using n(1) e ex int_value_nonneg [of "ec_exponent r'"] mod_add_left_eq [of "int n" "2 ^ 256" 1]
      by (simp add: add.commute)
    moreover have "exact \<Longrightarrow> int (Suc n) < 2 ^ 256"
      using n(1,2) e ex by simp
    moreover have "int_value (ec_d r) = int_value (ec_base r) ^ Suc n mod 2 ^ 256"
      unfolding d n(3) eq power_Suc by (simp only: mod_mult_left_eq mod_mult_right_eq mult.commute)
    ultimately show ?thesis unfolding exp_power_def eq by blast
  next
    case False
    have e: "int_value (ec_exponent r) = (2 * int_value (ec_exponent r')) mod 2 ^ 256"
      and d: "int_value (ec_d r) = int_value (ec_d r') * int_value (ec_d r') mod 2 ^ 256"
      and eq: "ec_base r = ec_base r'" "ec_exponentiation r = ec_d r" "ec_exponent r' = ec_q r"
      using v False by (auto simp: exp_row_value_def exp_row_next_def)
    have "int (2 * n) mod 2 ^ 256 = int_value (ec_exponent r)"
      unfolding e n(1) [symmetric] by (simp add: mod_mult_right_eq)
    moreover have "exact \<Longrightarrow> int (2 * n) < 2 ^ 256"
      using n(1,2) q eq(3) by simp
    moreover have "int_value (ec_d r) = int_value (ec_base r) ^ (2 * n) mod 2 ^ 256"
      unfolding d n(3) eq mult_2 power_add by (simp only: mod_mult_eq)
    ultimately show ?thesis unfolding exp_power_def eq by blast
  qed
qed

interpretation exp_run: backward_run "exp_run_pair exact" "\<lambda>r. ec_is_last r = 1" "exp_power exact" for exact
  by unfold_locales (blast intro: exp_power_final exp_power_back)+

lemma exp_pair_run:
  assumes pfi: "prime_field_inv_spec pfi" and ok: "exp_pair_ok pfi r r'"
    and live: "exp_row_words_ok r" "exp_row_words_ok r'" "ec_is_step r = 1"
    and q: "exact \<longrightarrow> int_value (ec_q r) < 2 ^ 255"
  shows "exp_run_pair exact r r'"
  using ok exp_live_row [OF pfi live] live q by (simp add: exp_pair_ok_def exp_run_pair_def)

lemma exp_circuit_power:
  assumes pfi: "prime_field_inv_spec pfi" and ver: "verify_exp_circuit pfi rows = Inr ()"
    and words: "\<forall>r\<in>set rows. exp_row_words_ok r"
    and ij: "i \<le> j" "j < length rows" and last: "ec_is_last (rows ! j) = 1"
    and step: "\<forall>k\<in>{i..j}. ec_is_step (rows ! k) = 1"
    and q: "\<forall>k\<in>{i..j}. exact \<longrightarrow> int_value (ec_q (rows ! k)) < 2 ^ 255"
  shows "exp_power exact (rows ! i)"
proof -
  have cyc: "cyclic_ok (exp_pair_ok pfi) rows" using ver by (simp add: verify_exp_circuit_ok)
  have "exp_run_pair exact (rows ! k) (rows ! Suc k)" if "i \<le> k" "k < j" for k
    by (rule exp_pair_run [OF pfi cyclic_ok_Suc [OF cyc]]) (use that ij words step q in simp_all)
  moreover obtain r' where "r' \<in> set rows" "exp_pair_ok pfi (rows ! j) r'"
    using cyclic_ok_pair [OF cyc ij(2)] by blast
  then have "exp_run_pair exact (rows ! j) r'"
    by (intro exp_pair_run [OF pfi]) (use ij words step q in simp_all)
  ultimately show ?thesis by (rule exp_run.run_good [OF _ _ last ij(1)])
qed

text \<open>
  C25: A run of step rows of an accepted exponentiation table that ends in a last step, with
  quotients below 2^255, claims the true power: the result of its first row is base to the
  exponent modulo 2^256.
\<close>

lemma exp_circuit_sound:
  assumes "prime_field_inv_spec pfi" "verify_exp_circuit pfi rows = Inr ()"
    and "\<forall>r\<in>set rows. exp_row_words_ok r"
    and "i \<le> j" "j < length rows" "ec_is_last (rows ! j) = 1"
    and "\<forall>k\<in>{i..j}. ec_is_step (rows ! k) = 1 \<and> int_value (ec_q (rows ! k)) < 2 ^ 255"
  shows "int_value (ec_exponentiation (rows ! i)) =
    int_value (ec_base (rows ! i)) ^ nat (int_value (ec_exponent (rows ! i))) mod 2 ^ 256"
proof -
  have "exp_power True (rows ! i)"
    by (rule exp_circuit_power [OF assms(1-6)]) (use assms(7) in auto)
  then obtain n where "int n mod 2 ^ 256 = int_value (ec_exponent (rows ! i))" "int n < 2 ^ 256"
    "int_value (ec_exponentiation (rows ! i)) = int_value (ec_base (rows ! i)) ^ n mod 2 ^ 256"
    by (auto simp: exp_power_def)
  moreover from this have "nat (int_value (ec_exponent (rows ! i))) = n" by simp
  ultimately show ?thesis by (simp only:)
qed

text \<open>
  Without the bound on the quotients the exponent is only known modulo \<open>2 ^ 256\<close>. That is enough
  for an odd base, whose powers have a period dividing \<open>2 ^ 256\<close>.
\<close>

lemma odd_power_pow2: "odd (b::int) \<Longrightarrow> b ^ 2 ^ k mod 2 ^ Suc k = 1"
proof (induction k)
  case 0
  then show ?case by (simp add: mod_2_eq_odd)
next
  case (Suc k)
  then obtain c where c: "b ^ 2 ^ k = 1 + c * 2 ^ Suc k"
    by (metis mod_div_mult_eq add.commute)
  have "b ^ 2 ^ Suc k = (b ^ 2 ^ k) ^ 2" by (simp add: power_mult [symmetric] mult.commute)
  also have "\<dots> = 1 + (c + c * c * 2 ^ k) * 2 ^ Suc (Suc k)"
    unfolding c by (simp add: power2_eq_square algebra_simps)
  finally show ?case by (simp add: mod_mult_self1 del: power_Suc)
qed

lemma power_period:
  fixes b m :: int
  assumes "b ^ p mod m = 1"
  shows "b ^ k mod m = b ^ (k mod p) mod m"
proof -
  have "1 mod m = 1" using assms by (metis mod_mod_trivial)
  then have one: "(b ^ p) ^ (k div p) mod m = 1"
    using power_mod [of "b ^ p" m "k div p"] assms by simp
  have "b ^ k = (b ^ p) ^ (k div p) * b ^ (k mod p)"
    by (simp only: power_mult [symmetric] power_add [symmetric] mult_div_mod_eq)
  then have "b ^ k mod m = ((b ^ p) ^ (k div p) mod m * b ^ (k mod p)) mod m"
    by (simp only: mod_mult_left_eq)
  then show ?thesis by (simp only: one mult_1)
qed

lemma odd_power_cong:
  assumes "odd (b::int)" "n mod 2 ^ 256 = m mod 2 ^ 256"
  shows "b ^ n mod 2 ^ 256 = b ^ m mod 2 ^ 256"
proof -
  have one: "b ^ 2 ^ 256 mod 2 ^ 256 = 1"
  proof -
    have "b ^ 2 ^ 256 mod 2 ^ Suc 256 mod 2 ^ 256 = 1 mod 2 ^ 256"
      by (simp only: odd_power_pow2 [OF assms(1)])
    moreover have "(2::int) ^ 256 dvd 2 ^ Suc 256" by (simp only: power_Suc dvd_triv_right)
    ultimately show ?thesis by (simp only: mod_mod_cancel) simp
  qed
  have red: "b ^ k mod 2 ^ 256 = b ^ (k mod 2 ^ 256) mod 2 ^ 256" for k
    by (rule power_period [OF one])
  show ?thesis unfolding red [of n] red [of m] assms(2) ..
qed

text \<open>
  For an odd base the same holds without the bound on the quotients.
\<close>

lemma exp_circuit_sound_odd:
  assumes "prime_field_inv_spec pfi" "verify_exp_circuit pfi rows = Inr ()"
    and "\<forall>r\<in>set rows. exp_row_words_ok r"
    and "i \<le> j" "j < length rows" "ec_is_last (rows ! j) = 1"
    and "\<forall>k\<in>{i..j}. ec_is_step (rows ! k) = 1"
    and "odd (int_value (ec_base (rows ! i)))"
  shows "int_value (ec_exponentiation (rows ! i)) =
    int_value (ec_base (rows ! i)) ^ nat (int_value (ec_exponent (rows ! i))) mod 2 ^ 256"
proof -
  have "exp_power False (rows ! i)"
    by (rule exp_circuit_power [OF assms(1-7)]) simp
  then obtain n where n: "int n mod 2 ^ 256 = int_value (ec_exponent (rows ! i))"
    and v: "int_value (ec_exponentiation (rows ! i)) = int_value (ec_base (rows ! i)) ^ n mod 2 ^ 256"
    by (auto simp: exp_power_def)
  have "n mod 2 ^ 256 = nat (int_value (ec_exponent (rows ! i))) mod 2 ^ 256"
    unfolding n [symmetric] by (simp add: nat_mod_distrib)
  then show ?thesis unfolding v by (rule odd_power_cong [OF assms(8)])
qed

section \<open>Completeness\<close>

lemma exp_by_squaring_value:
  assumes b: "0 \<le> b" "b < 2 ^ 256"
  shows "fst (exp_by_squaring b e) = b ^ e mod 2 ^ 256"
proof (induction e rule: less_induct)
  case (less e)
  show ?case
  proof (cases "e < 2")
    case True
    then have "e = 0 \<or> e = 1" by auto
    then show ?thesis using b by (subst exp_by_squaring.simps) auto
  next
    case False
    obtain v st where vs: "exp_by_squaring b (e div 2) = (v, st)" by (cases "exp_by_squaring b (e div 2)")
    have v: "v = b ^ (e div 2) mod 2 ^ 256" using less.IH [of "e div 2"] vs False by simp
    have w: "v * v mod 2 ^ 256 = b ^ (2 * (e div 2)) mod 2 ^ 256"
      unfolding v mult_2 power_add by (simp only: mod_mult_eq)
    show ?thesis
    proof (cases "even e")
      case True
      then have "fst (exp_by_squaring b e) = v * v mod 2 ^ 256"
        by (subst exp_by_squaring.simps) (use False vs in \<open>simp add: Let_def\<close>)
      with w True show ?thesis by simp
    next
      case odd: False
      then have e: "e = Suc (2 * (e div 2))" by simp
      from odd have "fst (exp_by_squaring b e) = b * (v * v mod 2 ^ 256) mod 2 ^ 256"
        by (subst exp_by_squaring.simps) (use False vs in \<open>simp add: Let_def odd_iff_mod_2_eq_one\<close>)
      also have "\<dots> = b ^ Suc (2 * (e div 2)) mod 2 ^ 256"
        unfolding w power_Suc by (simp only: mod_mult_right_eq)
      finally show ?thesis using e by simp
    qed
  qed
qed

lemma exp_row_final:
  assumes pfi: "prime_field_inv_spec pfi" and ok: "exp_row_words_ok r" and step: "ec_is_step r = 1"
    and v: "exp_row_value r True od" "exp_row_next r r True od"
  shows "exp_pair_ok pfi r r'"
proof -
  have "exp_odd_checks r r' \<lparr>cs_cond = Some 0\<rparr> = Inr ()"
    by (simp add: exp_odd_checks_def ok_simps)
  moreover have "ec_is_last r = 1" "ec_r r = fq_of_bool od" using v by (simp_all add: exp_row_value_def)
  ultimately show ?thesis
    using v exp_conditional_checks(1,2) [of r r' False] exp_conditional_checks(3) [of r True]
    by (auto simp: exp_pair_ok_def exp_verify_step_def ok_simps exp_step_checks_ok [OF pfi ok] step exp_row_next_def)
qed

text \<open>The row of one multiplication \<open>a * b = d\<close> of an exponentiation with base \<open>x\<close>.\<close>

definition exp_generated ::
  "int \<Rightarrow> nat \<Rightarrow> fq \<Rightarrow> exp_circuit_row \<Rightarrow> bool" where
  "exp_generated x e identifier r \<longleftrightarrow>
     exp_row_words_ok r \<and> ec_is_step r = 1 \<and> ec_identifier r = identifier \<and> ec_base r = word_of x \<and>
     ec_exponent r = word_of (int e) \<and> ec_exponentiation r = word_of (x ^ e mod 2 ^ 256) \<and>
     ec_d r = ec_exponentiation r"

definition exp_layout :: "(int \<Rightarrow> int \<Rightarrow> int) \<Rightarrow> int \<Rightarrow> nat \<Rightarrow> fq \<Rightarrow> exp_circuit_row list \<Rightarrow> bool" where
  "exp_layout pfi x e identifier rows \<longleftrightarrow>
     closed_chain (exp_pair_ok pfi) rows \<and>
     (if e < 2 then rows = [] else rows \<noteq> [] \<and> exp_generated x e identifier (hd rows))"

lemma closed_chain_Cons:
  "closed_chain pair (r # rows) \<longleftrightarrow>
     (if rows = [] then \<forall>r'. pair r r' else pair r (hd rows) \<and> closed_chain pair rows)"
  by (cases rows) simp_all

lemma exp_double:
  assumes pfi: "prime_field_inv_spec pfi" and x: "0 \<le> x" "x < 2 ^ 256" and h: "1 \<le> h" "2 * h < 2 ^ 256"
    and v: "v = x ^ h mod 2 ^ 256"
    and rows: "exp_append_steps (word_of x) h steps identifier = Inr rows" "exp_layout pfi x h identifier rows"
    and nil: "steps = [] \<longleftrightarrow> h < 2"
  shows "\<exists>rows'. exp_append_steps (word_of x) (2 * h) ((v, v, v * v mod 2 ^ 256) # steps) identifier = Inr rows' \<and>
    exp_layout pfi x (2 * h) identifier rows'"
proof -
  have rng: "0 \<le> v" "v < 2 ^ 256" "int (2 * h) < 2 ^ 256" "int h < 2 ^ 256"
    using v h by simp_all
  have d: "0 \<le> v * v mod 2 ^ 256" "v * v mod 2 ^ 256 < 2 ^ 256" by simp_all
  have pw: "v * v mod 2 ^ 256 = x ^ (2 * h) mod 2 ^ 256"
    unfolding v mult_2 power_add by (simp only: mod_mult_eq)
  define r where "r = exp_step_row identifier (fq_of_bool (steps = [])) (word_of x) (word_of (int (2 * h)))
    (word_of (v * v mod 2 ^ 256)) (word_of v) (word_of v) (word_of 0) (word_of (v * v mod 2 ^ 256)) (word_of (int h)) 0"
  have run: "exp_append_steps (word_of x) (2 * h) ((v, v, v * v mod 2 ^ 256) # steps) identifier = Inr (r # rows)"
    using rng d rows(1) by (simp add: rbind_ok word_of_int256_ok r_def)
  note ok = word_of_ok [OF x] word_of_ok [OF rng(1,2)] word_of_ok [OF d] word_of_ok [OF _ rng(3)] word_of_ok [OF _ rng(4)]
  have gen: "exp_generated x (2 * h) identifier r"
    using ok unfolding exp_generated_def r_def [unfolded pw] exp_row_words_ok_def
    by (simp add: exp_step_row_def pw [symmetric, simplified] word_of_0)
  have val: "exp_row_value r (steps = []) False"
    using ok rng(3) by (simp add: exp_row_value_def r_def exp_step_row_def word_of_0)
  have rok: "exp_row_words_ok r" "ec_is_step r = 1" using gen by (simp_all add: exp_generated_def)
  have "closed_chain (exp_pair_ok pfi) (r # rows)"
  proof (cases "h < 2")
    case True
    then have "h = 1" using h by simp
    then have "exp_row_next r r True False"
      using v x nil by (simp add: exp_row_next_def r_def exp_step_row_def word_of_def)
    then show ?thesis
      using exp_row_final [OF pfi rok] val rows(2) True nil by (auto simp: closed_chain_Cons exp_layout_def)
  next
    case False
    then have ne: "rows \<noteq> []" and g: "exp_generated x h identifier (hd rows)"
      and c: "closed_chain (exp_pair_ok pfi) rows"
      using rows(2) by (simp_all add: exp_layout_def)
    have "exp_row_next r (hd rows) False False"
      using g v by (simp add: exp_row_next_def r_def exp_step_row_def exp_generated_def)
    then have "exp_pair_ok pfi r (hd rows)"
      using exp_live_row [OF pfi rok(1) _ rok(2), of "hd rows"] g val nil False
      by (auto simp: exp_pair_ok_def exp_generated_def)
    then show ?thesis using ne c by (simp add: closed_chain_Cons)
  qed
  then show ?thesis using run gen h by (auto simp: exp_layout_def)
qed

lemma exp_odd_step:
  assumes pfi: "prime_field_inv_spec pfi" and x: "0 \<le> x" "x < 2 ^ 256" and h: "1 \<le> h" "2 * h + 1 < 2 ^ 256"
    and v: "v = x ^ (2 * h) mod 2 ^ 256"
    and rows: "exp_append_steps (word_of x) (2 * h) steps identifier = Inr rows" "exp_layout pfi x (2 * h) identifier rows"
    and ne: "steps \<noteq> []"
  shows "\<exists>rows'. exp_append_steps (word_of x) (2 * h + 1) ((v, x, x * v mod 2 ^ 256) # steps) identifier = Inr rows' \<and>
    exp_layout pfi x (2 * h + 1) identifier rows'"
proof -
  have rng: "0 \<le> v" "v < 2 ^ 256" "int (2 * h + 1) < 2 ^ 256" "int h < 2 ^ 256" "int (2 * h) < 2 ^ 256"
    using v h by simp_all
  have d: "0 \<le> x * v mod 2 ^ 256" "x * v mod 2 ^ 256 < 2 ^ 256" by simp_all
  have pw: "x * v mod 2 ^ 256 = x ^ (2 * h + 1) mod 2 ^ 256"
    unfolding v by (simp only: mod_mult_right_eq power_add power_one_right mult.commute)
  define r where "r = exp_step_row identifier (fq_of_bool (steps = [])) (word_of x) (word_of (int (2 * h + 1)))
    (word_of (x * v mod 2 ^ 256)) (word_of v) (word_of x) (word_of 0) (word_of (x * v mod 2 ^ 256)) (word_of (int h)) 1"
  have run: "exp_append_steps (word_of x) (2 * h + 1) ((v, x, x * v mod 2 ^ 256) # steps) identifier = Inr (r # rows)"
    using rng d x rows(1) by (simp add: rbind_ok word_of_int256_ok r_def)
  note ok = word_of_ok [OF x] word_of_ok [OF rng(1,2)] word_of_ok [OF d] word_of_ok [OF _ rng(3)]
    word_of_ok [OF _ rng(4)] word_of_ok [OF _ rng(5)]
  have gen: "exp_generated x (2 * h + 1) identifier r"
    using ok unfolding exp_generated_def r_def [unfolded pw] exp_row_words_ok_def
    by (simp add: exp_step_row_def pw [symmetric, simplified] word_of_0)
  have val: "exp_row_value r False True"
    using ok rng(3) ne by (simp add: exp_row_value_def r_def exp_step_row_def word_of_0 mult.commute)
  have rok: "exp_row_words_ok r" "ec_is_step r = 1" using gen by (simp_all add: exp_generated_def)
  have ne': "rows \<noteq> []" and g: "exp_generated x (2 * h) identifier (hd rows)"
    and c: "closed_chain (exp_pair_ok pfi) rows"
    using rows(2) h by (simp_all add: exp_layout_def)
  have "exp_row_next r (hd rows) False True"
    using g v ok by (simp add: exp_row_next_def r_def exp_step_row_def exp_generated_def)
  then have "exp_pair_ok pfi r (hd rows)"
    using exp_live_row [OF pfi rok(1) _ rok(2), of "hd rows"] g val
    by (auto simp: exp_pair_ok_def exp_generated_def)
  then have "closed_chain (exp_pair_ok pfi) (r # rows)" using ne' c by (simp add: closed_chain_Cons)
  then show ?thesis using run gen h by (auto simp: exp_layout_def)
qed

lemma exp_append_steps_layout:
  assumes pfi: "prime_field_inv_spec pfi" and x: "0 \<le> x" "x < 2 ^ 256" and e: "e < 2 ^ 256"
  shows "\<exists>rows. exp_append_steps (word_of x) e (rev (snd (exp_by_squaring x e))) identifier = Inr rows \<and>
    exp_layout pfi x e identifier rows \<and> (snd (exp_by_squaring x e) = [] \<longleftrightarrow> e < 2)"
  using e
proof (induction e rule: less_induct)
  case (less e)
  show ?case
  proof (cases "e < 2")
    case True
    then have "snd (exp_by_squaring x e) = []" by (subst exp_by_squaring.simps) auto
    then show ?thesis using True by (simp add: exp_layout_def)
  next
    case False
    define h where "h = e div 2"
    have h: "1 \<le> h" "2 * h < 2 ^ 256" "h < e" "h < 2 ^ 256" using False less.prems by (simp_all add: h_def)
    obtain v st where vs: "exp_by_squaring x h = (v, st)" by (cases "exp_by_squaring x h")
    have v: "v = x ^ h mod 2 ^ 256" using exp_by_squaring_value [OF x, of h] vs by simp
    from less.IH [OF h(3,4)] vs obtain rows where r: "exp_append_steps (word_of x) h (rev st) identifier = Inr rows"
      "exp_layout pfi x h identifier rows" and n: "rev st = [] \<longleftrightarrow> h < 2" by auto
    from exp_double [OF pfi x h(1,2) v r n] obtain rows' where
      r': "exp_append_steps (word_of x) (2 * h) ((v, v, v * v mod 2 ^ 256) # rev st) identifier = Inr rows'"
      "exp_layout pfi x (2 * h) identifier rows'" by blast
    show ?thesis
    proof (cases "even e")
      case True
      then have "2 * h = e" by (simp add: h_def)
      moreover have "snd (exp_by_squaring x e) = st @ [(v, v, v * v mod 2 ^ 256)]"
        by (subst exp_by_squaring.simps) (use True False vs in \<open>simp add: h_def Let_def\<close>)
      ultimately show ?thesis using r' False by (simp del: exp_append_steps.simps)
    next
      case odd: False
      then have e2: "2 * h + 1 = e" by (simp add: h_def)
      let ?w = "v * v mod 2 ^ 256"
      have w: "?w = x ^ (2 * h) mod 2 ^ 256"
        unfolding v mult_2 power_add by (simp only: mod_mult_eq)
      have "snd (exp_by_squaring x e) = st @ [(v, v, ?w), (?w, x, x * ?w mod 2 ^ 256)]"
        by (subst exp_by_squaring.simps) (use odd False vs in \<open>simp add: h_def Let_def odd_iff_mod_2_eq_one\<close>)
      moreover have "2 * h + 1 < 2 ^ 256" using e2 less.prems by simp
      ultimately show ?thesis
        using exp_odd_step [OF pfi x h(1) _ w r'] e2 False by (simp del: exp_append_steps.simps)
    qed
  qed
qed

text \<open>Any number of events, followed by the padding rows, is accepted.\<close>

definition exp_add_events :: "(int \<times> nat \<times> fq) list \<Rightarrow> exp_circuit_row list result" where
  "exp_add_events events =
     foldl (\<lambda>m (base, exponent, identifier). rbind m (\<lambda>rows. exp_add_event rows base exponent identifier)) (Inr []) events"

lemma exp_add_event_layout:
  assumes pfi: "prime_field_inv_spec pfi" and x: "0 \<le> x" "x < 2 ^ 256" and e: "e < 2 ^ 256"
    and c: "closed_chain (exp_pair_ok pfi) rows"
  shows "\<exists>new. exp_add_event rows x e identifier = Inr (rows @ new) \<and>
    closed_chain (exp_pair_ok pfi) (rows @ new) \<and> exp_layout pfi x e identifier new"
proof -
  obtain new where "exp_append_steps (word_of x) e (rev (snd (exp_by_squaring x e))) identifier = Inr new"
    "exp_layout pfi x e identifier new"
    using exp_append_steps_layout [OF pfi x e] by blast
  moreover from this have "closed_chain (exp_pair_ok pfi) (rows @ new)"
    using closed_chain_append [OF c] by (simp add: exp_layout_def)
  ultimately show ?thesis
    using x by (auto simp: exp_add_event_def rbind_ok word_of_int256_ok split: prod.splits)
qed

lemma exp_dummy_pair:
  assumes pfi: "prime_field_inv_spec pfi"
  shows "exp_pair_ok pfi exp_dummy_row r'"
proof -
  have w: "WordLH 1 0 = word_of 1" by (simp add: word_of_def)
  show ?thesis
    by (simp add: exp_pair_ok_def exp_verify_step_def ok_simps exp_dummy_row_def exp_transition_checks_def
        exp_step_checks_def exp_odd_checks_def exp_even_checks_def exp_last_checks_def
        exp_mul_add_check_ok [OF pfi] word_of_ok [simplified])
qed

definition exp_event_ok :: "int \<times> nat \<times> fq \<Rightarrow> bool" where
  "exp_event_ok event \<longleftrightarrow> (case event of (base, exponent, identifier) \<Rightarrow>
     0 \<le> base \<and> base < 2 ^ 256 \<and> exponent < 2 ^ 256)"

lemma exp_add_events_layout:
  assumes pfi: "prime_field_inv_spec pfi" and ok: "\<forall>ev\<in>set events. exp_event_ok ev"
  shows "\<exists>rows. exp_add_events events = Inr rows \<and> closed_chain (exp_pair_ok pfi) rows \<and>
    (\<forall>(base, exponent, identifier)\<in>set events. 2 \<le> exponent \<longrightarrow>
       (\<exists>r\<in>set rows. exp_generated base exponent identifier r))"
  using ok
proof (induction events rule: rev_induct)
  case Nil
  then show ?case by (simp add: exp_add_events_def)
next
  case (snoc ev events)
  obtain x e i where ev: "ev = (x, e, i)" by (cases ev)
  from snoc.prems ev have x: "0 \<le> x" "x < 2 ^ 256" "e < 2 ^ 256" by (simp_all add: exp_event_ok_def)
  from snoc obtain rows where r: "exp_add_events events = Inr rows" "closed_chain (exp_pair_ok pfi) rows"
    "\<forall>(base, exponent, identifier)\<in>set events. 2 \<le> exponent \<longrightarrow>
       (\<exists>r\<in>set rows. exp_generated base exponent identifier r)" by auto
  obtain new where n: "exp_add_event rows x e i = Inr (rows @ new)"
    "closed_chain (exp_pair_ok pfi) (rows @ new)" "exp_layout pfi x e i new"
    using exp_add_event_layout [OF pfi x r(2)] by blast
  have "exp_add_events (events @ [ev]) = Inr (rows @ new)"
    using r(1) n(1) by (simp add: exp_add_events_def ev)
  moreover have "2 \<le> e \<longrightarrow> (\<exists>r\<in>set (rows @ new). exp_generated x e i r)"
    using n(3) hd_in_set [of new] by (auto simp: exp_layout_def)
  ultimately show ?case using n(2) r(3) ev by fastforce
qed

text \<open>
  C26: The rows that add_event lays out for any list of exponentiations in range, padded by
  fill_dummy_events, are accepted, and for every exponent of two and more they hold a step
  row with the power modulo 2^256.
\<close>

lemma exp_circuit_complete:
  assumes "prime_field_inv_spec pfi"
    and "\<forall>(base, exponent, identifier)\<in>set events. 0 \<le> base \<and> base < 2 ^ 256 \<and> exponent < 2 ^ 256"
  shows "\<exists>rows. exp_add_events events = Inr rows \<and>
    verify_exp_circuit pfi (exp_fill_dummy_events max_exp_steps rows) = Inr () \<and>
    (\<forall>(base, exponent, identifier)\<in>set events. 2 \<le> exponent \<longrightarrow>
       (\<exists>r\<in>set rows. ec_is_step r = 1 \<and> ec_identifier r = identifier \<and> ec_base r = word_of base \<and>
          ec_exponent r = word_of (int exponent) \<and>
          ec_exponentiation r = word_of (base ^ exponent mod 2 ^ 256)))"
proof -
  obtain rows where rows: "exp_add_events events = Inr rows" "closed_chain (exp_pair_ok pfi) rows"
    "\<forall>(base, exponent, identifier)\<in>set events. 2 \<le> exponent \<longrightarrow>
       (\<exists>r\<in>set rows. exp_generated base exponent identifier r)"
    using exp_add_events_layout [OF assms(1), of events] assms(2) by (auto simp: exp_event_ok_def)
  have "verify_exp_circuit pfi (exp_fill_dummy_events max_exp_steps rows) = Inr ()"
    unfolding verify_exp_circuit_ok exp_fill_dummy_events_def
    by (intro closed_chain_cyclic closed_chain_append rows(2) closed_chain_replicate exp_dummy_pair assms(1))
  then show ?thesis using rows(1,3) by (fastforce simp: exp_generated_def)
qed

text \<open>
  The dropped overflow of the parity check: a trace whose first quotient is \<open>2 + 2 ^ 255\<close> claims
  that the fourth power of two is zero, and the circuit accepts it.
\<close>

lemma pow2_mod_zero: "256 \<le> n \<Longrightarrow> (2::int) ^ n mod 2 ^ 256 = 0"
  by (simp only: le_imp_power_dvd dvd_imp_mod_0)

text \<open>
  C27: The parity check of the exponentiation circuit drops its overflow: with the quotient
  2 + 2^255 a table is accepted whose first step claims that 2 to the 4 is 0.
\<close>

lemma exp_circuit_parity_overflow:
  assumes pfi: "prime_field_inv_spec pfi"
  shows "\<exists>rows. verify_exp_circuit pfi rows = Inr () \<and>
    ec_is_step (hd rows) = 1 \<and> ec_base (hd rows) = word_of 2 \<and> ec_exponent (hd rows) = word_of 4 \<and>
    ec_exponentiation (hd rows) = word_of 0"
proof -
  define e :: nat where "e = 2 ^ 255 + 2"
  have e: "e < 2 ^ 256" "256 \<le> e" "\<not> e < 2" "int e = 2 ^ 255 + 2" by (simp_all add: e_def)
  obtain rows where rows: "exp_layout pfi 2 e 0 rows"
    using exp_append_steps_layout [OF pfi _ _ e(1), of 2 0] by auto
  define r where "r = exp_step_row 0 0 (word_of 2) (word_of 4) (word_of 0) (word_of 0) (word_of 0) (word_of 0)
    (word_of 0) (word_of (2 ^ 255 + 2)) 0"
  have ok: "exp_row_words_ok r" "ec_is_step r = 1"
    by (simp_all add: r_def exp_step_row_def exp_row_words_ok_def word_of_ok)
  from rows e(3) have ne: "rows \<noteq> []" and g: "exp_generated 2 e 0 (hd rows)"
    and c: "closed_chain (exp_pair_ok pfi) rows" by (simp_all add: exp_layout_def)
  have z: "(2::int) ^ e mod 2 ^ 256 = 0" by (rule pow2_mod_zero [OF e(2)])
  have "exp_row_value r False False"
    by (simp add: r_def exp_step_row_def exp_row_value_def word_of_ok word_of_0)
  moreover have "exp_row_next r (hd rows) False False"
    using g unfolding exp_generated_def z e(4) by (simp add: r_def exp_step_row_def exp_row_next_def)
  ultimately have "exp_pair_ok pfi r (hd rows)"
    using exp_live_row [OF pfi ok(1) _ ok(2), of "hd rows"] g
    by (auto simp: exp_pair_ok_def exp_generated_def)
  then have "verify_exp_circuit pfi (r # rows) = Inr ()"
    unfolding verify_exp_circuit_ok using ne c by (intro closed_chain_cyclic) (simp add: closed_chain_Cons)
  then show ?thesis by (intro exI [of _ "r # rows"]) (simp add: r_def exp_step_row_def)
qed

section \<open>A concrete table\<close>

definition exp_sample :: "exp_circuit_row list" where
  "exp_sample =
     [exp_step_row 0 0 (word_of 3) (word_of 3) (word_of 27) (word_of 9) (word_of 3) (word_of 0) (word_of 27) (word_of 1) 1,
      exp_step_row 0 1 (word_of 3) (word_of 2) (word_of 9) (word_of 3) (word_of 3) (word_of 0) (word_of 9) (word_of 1) 0]"

lemma exp_sample_accepted: "verify_exp_circuit bezout_inv exp_sample = Inr ()"
proof -
  have s: "exp_add_events [(3, 3, 0)] = Inr exp_sample"
    by (simp add: exp_add_events_def exp_add_event_def exp_by_squaring.simps [of 3] word_of_int256_Inr
        exp_sample_def)
  obtain rows where "exp_add_events [(3, 3, 0)] = Inr rows" "closed_chain (exp_pair_ok bezout_inv) rows"
    using exp_add_events_layout [OF bezout_inv_spec, of "[(3, 3, 0)]"] by (auto simp: exp_event_ok_def)
  then show ?thesis using s closed_chain_cyclic by (simp add: verify_exp_circuit_ok)
qed

lemma exp_sample_words: "\<forall>r\<in>set exp_sample. exp_row_words_ok r"
  by (simp add: exp_sample_def exp_step_row_def exp_row_words_ok_def word_of_ok)

lemma exp_circuit_sound_witness:
  "int_value (ec_exponentiation (exp_sample ! 0)) =
    int_value (ec_base (exp_sample ! 0)) ^ nat (int_value (ec_exponent (exp_sample ! 0))) mod 2 ^ 256"
  by (rule exp_circuit_sound [OF bezout_inv_spec exp_sample_accepted exp_sample_words, of 0 1])
    (auto simp: exp_sample_def exp_step_row_def word_of_ok nth_Cons split: nat.splits)

lemma exp_circuit_sound_odd_witness:
  "int_value (ec_exponentiation (exp_sample ! 0)) =
    int_value (ec_base (exp_sample ! 0)) ^ nat (int_value (ec_exponent (exp_sample ! 0))) mod 2 ^ 256"
  by (rule exp_circuit_sound_odd [OF bezout_inv_spec exp_sample_accepted exp_sample_words, of 0 1])
    (auto simp: exp_sample_def exp_step_row_def word_of_ok nth_Cons split: nat.splits)

lemma exp_circuit_complete_witness:
  "\<exists>rows. exp_add_events [(2, 5, 7), (10, 1, 8)] = Inr rows \<and>
    verify_exp_circuit bezout_inv (exp_fill_dummy_events 1 rows) = Inr ()"
  using exp_circuit_complete [OF bezout_inv_spec, of "[(2, 5, 7), (10, 1, 8)]" 1] by auto

lemma exp_circuit_parity_overflow_witness:
  "\<exists>rows. verify_exp_circuit bezout_inv rows = Inr () \<and>
    ec_is_step (hd rows) = 1 \<and> ec_base (hd rows) = word_of 2 \<and> ec_exponent (hd rows) = word_of 4 \<and>
    ec_exponentiation (hd rows) = word_of 0"
  by (rule exp_circuit_parity_overflow [OF bezout_inv_spec])

end
