(* ===== verification/Exp_Compose.thy ===== *)
theory Exp_Compose
  imports Exec_Shift Exp_Circuit Sample
begin

text \<open>
  EXP with its table: what the gadget of EXP accepts when \<open>exp_table\<close> is made from the rows of a
  table that the exponentiation circuit accepts, and what it charges.
\<close>

section \<open>The size of the exponent\<close>

lemma rstrip_zeros_snoc: "rstrip_zeros (bs @ [b]) = (if b = 0 then rstrip_zeros bs else bs @ [b])"
  by (simp add: rstrip_zeros_def)

lemma rstrip_zeros_le_val: "le_val (rstrip_zeros bs) = le_val bs"
  by (induction bs rule: rev_induct) (simp_all add: rstrip_zeros_snoc le_val_append rstrip_zeros_def)

lemma rstrip_zeros_take: "rstrip_zeros bs = take (length (rstrip_zeros bs)) bs \<and> length (rstrip_zeros bs) \<le> length bs"
  by (induction bs rule: rev_induct) (auto simp: rstrip_zeros_snoc rstrip_zeros_def)

lemma rstrip_zeros_last: "rstrip_zeros bs \<noteq> [] \<Longrightarrow> last (rstrip_zeros bs) \<noteq> 0"
  by (induction bs rule: rev_induct) (auto simp: rstrip_zeros_snoc rstrip_zeros_def)

definition byte_length :: "int \<Rightarrow> nat \<Rightarrow> bool" where
  "byte_length n k \<longleftrightarrow> n < 256 ^ k \<and> (if k = 0 then True else 256 ^ (k - 1) \<le> n)"

lemma rstrip_le_bytes_length:
  assumes "0 \<le> n" "n < 256 ^ m"
  shows "byte_length n (length (rstrip_zeros (le_bytes m n)))" "length (rstrip_zeros (le_bytes m n)) \<le> m"
proof -
  let ?k = "length (rstrip_zeros (le_bytes m n))"
  have k: "?k \<le> m" "rstrip_zeros (le_bytes m n) = le_bytes ?k n"
    using rstrip_zeros_take [of "le_bytes m n"] by (auto simp: take_le_bytes)
  have "n mod 256 ^ ?k = n mod 256 ^ m"
    using rstrip_zeros_le_val [of "le_bytes m n"] k(2) by (metis le_val_le_bytes)
  then have "n mod 256 ^ ?k = n" using assms by simp
  then have "n < 256 ^ ?k" by (metis pos_mod_bound zero_less_numeral zero_less_power)
  moreover have "256 ^ (?k - 1) \<le> n" if "?k \<noteq> 0"
  proof -
    have "last (le_bytes ?k n) \<noteq> 0" using rstrip_zeros_last [of "le_bytes m n"] k(2) that by auto
    then have "n div 256 ^ (?k - 1) mod 256 \<noteq> 0"
      using that by (simp add: last_conv_nth le_bytes_nth flip: length_greater_0_conv)
    then show ?thesis using assms(1) by (metis div_pos_pos_trivial linorder_not_le mod_0)
  qed
  ultimately show "byte_length n ?k" by (simp add: byte_length_def)
  show "?k \<le> m" by (rule k(1))
qed

section \<open>The table of the circuit\<close>

text \<open>
  Every row that claims an exponent of two or more opens a run of step rows that ends in a last
  step, with quotients below 2^255.
\<close>

definition exp_runs_closed :: "exp_circuit_row list \<Rightarrow> bool" where
  "exp_runs_closed rows \<longleftrightarrow>
     (\<forall>i<length rows. 2 \<le> int_value (ec_exponent (rows ! i)) \<longrightarrow>
        (\<exists>j<length rows. i \<le> j \<and> ec_is_last (rows ! j) = 1 \<and>
           (\<forall>k\<in>{i..j}. ec_is_step (rows ! k) = 1 \<and> int_value (ec_q (rows ! k)) < 2 ^ 255)))"

lemma to_64s_inject: "to_64s v = Inr x \<Longrightarrow> to_64s w = Inr x \<Longrightarrow> v = w"
  using to_64s_limbs(6,7) [of v] to_64s_limbs(6,7) [of w]
  by (cases x) (auto intro!: word256.expand simp: fq_eq_iff)

lemma exp_lookup_row:
  assumes T: "convert_exp_circuit_to_table rows = Inr T" "exp_table (i_tables I) = Some T"
    and base: "to_64s base = Inr limbs"
    and run: "exp_lookup I ident is_last limbs e s = Inr (res, s')"
  shows "\<exists>r\<in>set rows. ec_identifier r = ident \<and> ec_base r = base \<and> ec_exponent r = e \<and> ec_exponentiation r = res"
proof -
  obtain x where x: "x \<in> T" "limbs = (ex_base_limb0 x, ex_base_limb1 x, ex_base_limb2 x, ex_base_limb3 x)"
    "ident = ex_identifier x" "e = ex_exponent x" "res = ex_exponentiation x"
    using run T(2) by (auto simp: exp_lookup_def exp_lookup_table_def ok_simps any_table.look_iff)
  obtain rs where rs: "rmap exp_table_row rows = Inr rs" "T = set rs"
    using T(1) by (auto simp: convert_exp_circuit_to_table_def rbind_ok)
  then obtain i where i: "i < length rows" "exp_table_row (rows ! i) = Inr x"
    using x(1) by (auto simp: rmap_ok in_set_conv_nth)
  have "ec_identifier (rows ! i) = ident" "ec_exponent (rows ! i) = e" "ec_exponentiation (rows ! i) = res"
    "to_64s (ec_base (rows ! i)) = Inr limbs"
    using i(2) x by (auto simp: exp_table_row_def rbind_ok)
  then show ?thesis using to_64s_inject base i(1) by (metis nth_mem)
qed

lemma exp_opcode_runs:
  assumes run: "accepted (exp_opcode I)" and wf: "stack_words_ok I"
  obtains opc base exponent res where "opcode_at I 0 True opc" "stack_value I 0 RW_Read 0 base"
    "stack_value I 1 RW_Read 1 exponent" "stack_value I 2 RW_Write 1 res"
    "word_ok base" "word_ok exponent" "word_ok res"
    "(if int_value exponent = 0 then int_value res = 1
     else if int_value exponent = 1 then res = base
     else \<exists>s. succeeds (exp_by_table I base exponent res) s)"
    "in_same_context I opc ((within_call (Delta (FQ 3)) (Delta (FQ 1)) (Delta (FQ 1)))
         \<lparr>sc_dynamic_gas_cost := FQ (50 * int (length (rstrip_zeros (le_bytes 32 (int_value exponent)))))\<rparr>)"
proof -
  have zero: "is_zero (hi w) * is_zero (lo w) = 1 \<longleftrightarrow> int_value w = 0" for w
    unfolding int_value_zero by (cases w) (auto simp: is_zero_simp)
  have one: "is_zero (hi w) * is_equal (lo w) 1 = 1 \<longleftrightarrow> int_value w = 1" if "word_ok w" for w
    using int_value_inject [OF that, of "WordLH 1 0"]
    by (cases w) (auto simp: is_zero_simp is_equal_simp word_ok_def)
  have bytes: "map (fq_n \<circ> FQ) (le_bytes 32 x) = le_bytes 32 x" for x
    using map_fq_n_FQ_bytes [of "le_bytes 32 x"] le_bytes_is_byte by simp
  obtain opc base exponent res t where found: "opcode_at I 0 True opc" "word_ok base" "stack_value I 0 RW_Read 0 base"
      "word_ok exponent" "stack_value I 1 RW_Read 1 exponent" "word_ok res" "stack_value I 2 RW_Write 1 res"
    and val: "(if is_zero (hi exponent) * is_zero (lo exponent) = 1
       then ithen (constrain_equal (lo res) 1) (constrain_zero (hi res))
       else if is_zero (hi exponent) * is_equal (lo exponent) 1 = 1
       then ithen (constrain_equal (lo res) (lo base)) (constrain_equal (hi res) (hi base))
       else exp_by_table I base exponent res)
         (offsets0\<lparr>program_counter_offset := 1, rw_counter_offset := 3, stack_pointer_offset := 1\<rparr>) = Inr ((), t)"
    and step: "in_same_context I opc ((within_call (Delta (FQ 3)) (Delta (FQ 1)) (Delta (FQ 1)))
         \<lparr>sc_dynamic_gas_cost := FQ 50 * FQ (int (length (rstrip_zeros (le_bytes 32 (int_value exponent)))))\<rparr>)"
    using run unfolding accepted_def exp_opcode_def
    by (simp add: ok_simps Let_def stack_pop_wf [OF wf] stack_push_wf [OF wf] instr_byte_size_def bytes
        del: stack_pop_ok stack_push_ok le_bytes.simps cong: conj_cong if_cong split del: if_split) blast
  show ?thesis
  proof (rule that [OF found(1,3,5,7,2,4,6)])
    show "if int_value exponent = 0 then int_value res = 1
      else if int_value exponent = 1 then res = base else \<exists>s. succeeds (exp_by_table I base exponent res) s"
      using val unfolding zero one [OF found(4)]
      by (auto simp: ok_simps int_value_def succeeds_iff intro: word256.expand split: if_splits)
    show "in_same_context I opc ((within_call (Delta (FQ 3)) (Delta (FQ 1)) (Delta (FQ 1)))
         \<lparr>sc_dynamic_gas_cost := FQ (50 * int (length (rstrip_zeros (le_bytes 32 (int_value exponent)))))\<rparr>)"
      using step by (simp only: FQ_arith)
  qed
qed

lemma exp_by_table_row:
  assumes T: "convert_exp_circuit_to_table rows = Inr T" "exp_table (i_tables I) = Some T"
    and run: "succeeds (exp_by_table I base exponent res) s"
  shows "\<exists>r\<in>set rows. ec_base r = base \<and> ec_exponent r = exponent \<and> ec_exponentiation r = res"
proof -
  obtain limbs ident is_last t t' where "to_64s base = Inr limbs"
      "exp_lookup I ident is_last limbs exponent t = Inr (res, t')"
    using run unfolding exp_by_table_def succeeds_iff by (simp add: ok_simps Let_def) blast
  from exp_lookup_row [OF T this] show ?thesis by blast
qed

lemma exp_closed_value:
  assumes "prime_field_inv_spec pfi" "verify_exp_circuit pfi rows = Inr ()" "list_all exp_row_words_ok rows"
    and "exp_runs_closed rows" "r \<in> set rows" "2 \<le> int_value (ec_exponent r)"
  shows "int_value (ec_exponentiation r) = int_value (ec_base r) ^ nat (int_value (ec_exponent r)) mod 2 ^ 256"
proof -
  obtain i where i: "i < length rows" "r = rows ! i" using assms(5) by (auto simp: in_set_conv_nth)
  obtain j where j: "j < length rows" "i \<le> j" "ec_is_last (rows ! j) = 1"
    "\<forall>k\<in>{i..j}. ec_is_step (rows ! k) = 1 \<and> int_value (ec_q (rows ! k)) < 2 ^ 255"
    using assms(4,6) i by (auto simp: exp_runs_closed_def)
  have "exp_power True (rows ! i)"
    by (rule exp_circuit_power [OF assms(1,2) _ j(2,1,3)]) (use assms(3) j(4) in \<open>auto simp: list_all_iff\<close>)
  then obtain n where "int n mod 2 ^ 256 = int_value (ec_exponent r)" "int n < 2 ^ 256"
    "int_value (ec_exponentiation r) = int_value (ec_base r) ^ n mod 2 ^ 256"
    by (auto simp: exp_power_def i)
  moreover from this have "nat (int_value (ec_exponent r)) = n" by simp
  ultimately show ?thesis by (simp only:)
qed

lemma opcodes_EXP: "opcode_aux_pairs (responsible_opcode ES_EXP) = map (\<lambda>c. (c, 0)) [Opcode_EXP]"
  by (simp add: opcode_aux_pairs_def responsible_opcode_def)

lemma cost_EXP: "list_all (\<lambda>c. c \<in> set valid_opcodes \<and> constant_gas_cost c = Inr 0) [Opcode_EXP]"
  by code_simp

text \<open>
  C4: EXP over its table: let exp_table be converted from rows that the exponentiation
  circuit accepts, whose words have halves below 2^128 and in which every row with an
  exponent of two or more opens a run, up to a last step, of rows with is_step 1 and
  quotients below 2^255 (exp_runs_closed; the circuit does not enforce either: see
  exp_table_forgets_is_step and exp_circuit_parity_overflow). Then a step of EXP on stack
  rows of 256-bit words that the gadget accepts pushes base to the exponent modulo 2^256,
  and pays 50 gas for every byte of the exponent and nothing more.
\<close>

theorem exp_computes_power:
  assumes "ss_execution_state (i_curr I) = ES_EXP" "stack_words_ok I"
    and "prime_field_inv_spec pfi" "verify_exp_circuit pfi rows = Inr ()" "list_all exp_row_words_ok rows"
    and "exp_runs_closed rows" "convert_exp_circuit_to_table rows = Inr T" "exp_table (i_tables I) = Some T"
    and "accepted (exp_opcode I)"
  shows "\<exists>base exponent res k. stack_value I 0 RW_Read 0 base \<and> stack_value I 1 RW_Read 1 exponent \<and>
    stack_value I 2 RW_Write 1 res \<and>
    int_value res = int_value base ^ nat (int_value exponent) mod 2 ^ 256 \<and>
    byte_length (int_value exponent) k \<and>
    advances I (50 * int k) (within_call (Delta (FQ 3)) (Delta (FQ 1)) (Delta (FQ 1)))"
proof -
  obtain opc base exponent res where ok: "opcode_at I 0 True opc" "stack_value I 0 RW_Read 0 base"
    "stack_value I 1 RW_Read 1 exponent" "stack_value I 2 RW_Write 1 res"
    "word_ok base" "word_ok exponent" "word_ok res"
    and val: "if int_value exponent = 0 then int_value res = 1
     else if int_value exponent = 1 then res = base
     else \<exists>s. succeeds (exp_by_table I base exponent res) s"
    and step: "in_same_context I opc ((within_call (Delta (FQ 3)) (Delta (FQ 1)) (Delta (FQ 1)))
         \<lparr>sc_dynamic_gas_cost := FQ (50 * int (length (rstrip_zeros (le_bytes 32 (int_value exponent)))))\<rparr>)"
    by (rule exp_opcode_runs [OF assms(9,2)])
  let ?k = "length (rstrip_zeros (le_bytes 32 (int_value exponent)))"
  have n: "0 \<le> int_value exponent" "int_value exponent < 256 ^ 32"
    using int_value_nonneg [of exponent] int_value_lt [OF ok(6)] by simp_all
  note k = rstrip_le_bytes_length [OF n]
  have "int_value res = int_value base ^ nat (int_value exponent) mod 2 ^ 256"
  proof (cases "int_value exponent = 0 \<or> int_value exponent = 1")
    case True
    then show ?thesis using val int_value_lt [OF ok(5)] int_value_nonneg [of base] by auto
  next
    case False
    then obtain r where "r \<in> set rows" "ec_base r = base" "ec_exponent r = exponent" "ec_exponentiation r = res"
      using val exp_by_table_row [OF assms(7,8)] by (auto simp del: One_nat_def) blast
    then show ?thesis using exp_closed_value [OF assms(3-6)] False n by force
  qed
  moreover have "advances I (0 + 50 * int ?k) ((within_call (Delta (FQ 3)) (Delta (FQ 1)) (Delta (FQ 1)))
         \<lparr>sc_dynamic_gas_cost := FQ (50 * int ?k)\<rparr>)"
    using step k(2) in_same_context_advances [of I "[Opcode_EXP]" 0 _ "50 * int ?k"] opcodes_EXP cost_EXP assms(1)
    by simp
  then have "advances I (50 * int ?k) (within_call (Delta (FQ 3)) (Delta (FQ 1)) (Delta (FQ 1)))"
    by (simp add: advances_def)
  ultimately show ?thesis using ok(2-4) k(1) by blast
qed

section \<open>Concrete steps of EXP\<close>

text \<open>3 to the e, as a step whose table holds the converted rows.\<close>

definition exp_sample_step :: "exp_row set \<Rightarrow> int \<Rightarrow> int \<Rightarrow> instruction" where
  "exp_sample_step T e res =
     (binary_step ES_EXP Opcode_EXP (word_of 3) (word_of e) (word_of res) 50)
       \<lparr>i_tables := (sample_tables Opcode_EXP [(RW_Read, 0, word_of 3), (RW_Read, 1, word_of e), (RW_Write, 1, word_of res)])
         \<lparr>exp_table := Some T\<rparr>\<rparr>"

definition sample_exp_row :: "int \<Rightarrow> int \<Rightarrow> int \<Rightarrow> exp_row" where
  "sample_exp_row e res fin =
     \<lparr>ex_is_step = 1, ex_identifier = FQ 103, ex_is_last = FQ fin, ex_base_limb0 = FQ 3, ex_base_limb1 = 0,
      ex_base_limb2 = 0, ex_base_limb3 = 0, ex_exponent = word_of e, ex_exponentiation = word_of res\<rparr>"

lemma limbs_of_3: "to_64s (word_of 3) = Inr (FQ 3, 0, 0, 0)"
  by (simp add: to_64s_ok word_of_ok) (simp add: word_of_def fq_modulus_def)

lemma exp_sample_step_facts:
  fixes T e res
  defines "I \<equiv> exp_sample_step T e res"
  assumes "0 \<le> e" "e < 2 ^ 256" "0 \<le> res" "res < 2 ^ 256"
  shows "ss_execution_state (i_curr I) = ES_EXP" "exp_table (i_tables I) = Some T" "stack_words_ok I"
    "opcode_at I 0 True (FQ Opcode_EXP)" "stack_value I 0 RW_Read 0 (word_of 3)"
    "stack_value I 1 RW_Read 1 (word_of e)" "stack_value I 2 RW_Write 1 (word_of res)"
    "advances I 50 (within_call (Delta (FQ 3)) (Delta (FQ 1)) (Delta (FQ 1)))"
    "ss_rw_counter (i_curr I) = FQ 100" "prime_field_inv_spec (ext_prime_field_inv (i_ext I))"
proof -
  let ?J = "binary_step ES_EXP Opcode_EXP (word_of 3) (word_of e) (word_of res) 50"
  note J = binary_step_facts [where es = ES_EXP and opc = Opcode_EXP and a = "word_of 3" and b = "word_of e"
    and c = "word_of res" and cost = 50]
  have same: "i_curr I = i_curr ?J" "i_next I = i_next ?J" "i_ext I = i_ext ?J" "i_tables I = (i_tables ?J)\<lparr>exp_table := Some T\<rparr>"
    by (simp_all add: I_def exp_sample_step_def binary_step_def sample_step_def)
  show "ss_execution_state (i_curr I) = ES_EXP" using J(1) same by simp
  show "exp_table (i_tables I) = Some T" using same by simp
  show "ss_rw_counter (i_curr I) = FQ 100"
    unfolding same by (simp add: binary_step_def sample_step_def sample_state_def StepState_def)
  show "prime_field_inv_spec (ext_prime_field_inv (i_ext I))" using J(2) bezout_inv_spec same by simp
  have "stack_words_ok ?J" using J(3) assms by (simp add: word_of_ok)
  then show "stack_words_ok I" by (simp add: stack_words_ok_def same)
  show "opcode_at I 0 True (FQ Opcode_EXP)"
    using J(4) by (simp add: opcode_at_def code_value_def bytecode_lookup_table_def same)
  have "stack_value I k a p w \<longleftrightarrow> stack_value ?J k a p w" for k a p w
    by (simp add: stack_value_def rw_value_at_def rw_row_at_def rw_lookup_table_def same)
  then show "stack_value I 0 RW_Read 0 (word_of 3)"
    "stack_value I 1 RW_Read 1 (word_of e)" "stack_value I 2 RW_Write 1 (word_of res)"
    using J(5-7) by simp_all
  show "advances I 50 (within_call (Delta (FQ 3)) (Delta (FQ 1)) (Delta (FQ 1)))"
    using J(8) by (simp add: advances_def same)
qed

definition sample_exp_table :: "int \<Rightarrow> int \<Rightarrow> exp_row set" where
  "sample_exp_table e res = {sample_exp_row e res 0, sample_exp_row 2 9 1}"

lemma sample_exp_found:
  assumes "exp_table (i_tables I) = Some (sample_exp_table e res)"
  shows "exp_lookup I (FQ 103) 0 (FQ 3, 0, 0, 0) (word_of e) s = Inr (word_of res, s)"
    and "exp_lookup I (FQ 103) 1 (FQ 3, 0, 0, 0) (word_of 2) s = Inr (word_of 9, s)"
  by (auto simp: exp_lookup_def exp_lookup_table_def ok_simps any_table.look_iff assms sample_exp_table_def
      sample_exp_row_def)

lemma byte_length_one: "2 \<le> e \<Longrightarrow> e < 256 \<Longrightarrow> byte_length e k \<Longrightarrow> k = 1"
proof -
  assume e: "2 \<le> e" "e < 256" and k: "byte_length e k"
  have "k \<noteq> 0" using e k by (intro notI) (simp add: byte_length_def)
  moreover have "\<not> 2 \<le> k"
  proof
    assume "2 \<le> k"
    then have "(256::int) ^ 1 \<le> 256 ^ (k - 1)" by (intro power_increasing) simp_all
    then show False using e k \<open>k \<noteq> 0\<close> by (simp add: byte_length_def)
  qed
  ultimately show "k = 1" by simp
qed

lemma sample_exp_accepted:
  assumes e: "3 \<le> e" "e < 256" and res: "0 \<le> res" "res < 2 ^ 256"
  shows "accepted (exp_opcode (exp_sample_step (sample_exp_table e res) e res))"
proof -
  let ?I = "exp_sample_step (sample_exp_table e res) e res"
  have e256: "0 \<le> e" "e < 2 ^ 256" "e < 256 ^ 32" using e by simp_all
  note I = exp_sample_step_facts [OF e256(1,2) res, of "sample_exp_table e res"]
  have len: "length (rstrip_zeros (le_bytes 32 e)) = 1"
    by (rule byte_length_one) (use e rstrip_le_bytes_length [OF e256(1,3)] in auto)
  have bytes: "map (fq_n \<circ> FQ) (le_bytes 32 x) = le_bytes 32 x" for x
    using map_fq_n_FQ_bytes [of "le_bytes 32 x"] le_bytes_is_byte by simp
  have step: "in_same_context ?I (FQ Opcode_EXP) ((within_call (Delta (FQ 3)) (Delta (FQ 1)) (Delta (FQ 1)))
         \<lparr>sc_dynamic_gas_cost := FQ 50\<rparr>)"
    using I(8) in_same_context_advances [of ?I "[Opcode_EXP]" 0 _ 50] opcodes_EXP cost_EXP I(1)
    by (simp add: advances_def)
  have two: "word_of_tuple (FQ 2) 0 = Inr (word_of 2)"
    by (simp add: word_of_tuple_def word_of_def fq_modulus_def)
  have "word_of e = WordLH (FQ e) 0" using e by (simp add: word_of_def)
  then have not_small: "is_zero (hi (word_of e)) * is_zero (lo (word_of e)) = 0"
    "is_zero (hi (word_of e)) * is_equal (lo (word_of e)) 1 = 0"
    "is_zero (hi (word_of e)) * is_equal (lo (word_of e)) (FQ 2) = 0"
    using e by (simp_all add: is_zero_simp is_equal_simp fq_eq_iff fq_modulus_def)
  let ?s = "offsets0\<lparr>program_counter_offset := 1, rw_counter_offset := 3, stack_pointer_offset := 1\<rparr>"
  have words: "word_ok (word_of 3)" "word_ok (word_of e)" "word_ok (word_of 9)" "word_ok (WordLH 0 0)" "word_ok (word_of res)"
    using e res by (simp_all add: word_of_ok)
  have square: "instr_mul_add_words ?I (word_of 3) (word_of 3) (WordLH 0 0) (word_of 9) ?s =
      Inr (product_overflow ?I (word_of 3) (word_of 3) (WordLH 0 0) (word_of 9), ?s)"
    by (subst instr_mul_add_words_ok [OF I(10) words(1,1,4,3)]) (simp add: word_of_ok)
  note found = sample_exp_found [OF I(2)]
  have ident: "ss_rw_counter (i_curr ?I) + FQ (rw_counter_offset ?s) = FQ 103"
    unfolding I(9) using FQ_arith(3) [of 100 3] by simp
  have table: "exp_by_table ?I (word_of 3) (word_of e) (word_of res) ?s = Inr ((), ?s)"
    unfolding exp_by_table_def
    by (simp add: ok_simps limbs_of_3 Let_def ident [simplified] found [simplified] not_small two [simplified] square)
  have run: "opcode_lookup ?I True offsets0 = Inr (FQ Opcode_EXP, offsets0\<lparr>program_counter_offset := 1\<rparr>)"
    "stack_pop ?I (offsets0\<lparr>program_counter_offset := 1\<rparr>) =
       Inr (word_of 3, offsets0\<lparr>program_counter_offset := 1, rw_counter_offset := 1, stack_pointer_offset := 1\<rparr>)"
    "stack_pop ?I (offsets0\<lparr>program_counter_offset := 1, rw_counter_offset := 1, stack_pointer_offset := 1\<rparr>) =
       Inr (word_of e, offsets0\<lparr>program_counter_offset := 1, rw_counter_offset := 2, stack_pointer_offset := 2\<rparr>)"
    "stack_push ?I (offsets0\<lparr>program_counter_offset := 1, rw_counter_offset := 2, stack_pointer_offset := 2\<rparr>) =
       Inr (word_of res, ?s)"
    "instr_byte_size (word_of e) ?s = Inr (FQ 1, ?s)"
    using I(4-7) words len word_of_ok(2) [OF e256(1,2)]
    by (simp_all add: ok_simps instr_byte_size_def bytes del: le_bytes.simps)
  have "in_same_context ?I (FQ Opcode_EXP) ((within_call (Delta (FQ 3)) (Delta (FQ 1)) (Delta (FQ 1)))
         \<lparr>sc_dynamic_gas_cost := FQ GAS_COST_EXP_PER_BYTE * FQ 1\<rparr>)"
    using step by simp
  then have "step_state_transition_in_same_context ?I (FQ Opcode_EXP) ((within_call (Delta (FQ 3)) (Delta (FQ 1)) (Delta (FQ 1)))
         \<lparr>sc_dynamic_gas_cost := FQ GAS_COST_EXP_PER_BYTE * FQ 1\<rparr>) ?s = Inr ((), ?s)"
    by (simp only: step_state_transition_in_same_context_ok simp_thms)
  with run table show ?thesis
    unfolding accepted_def exp_opcode_def
    by (simp add: succeeds_iff ibind_def ithen_def not_small)
qed

text \<open>Two rows as the circuit has them, for 3 to the e; the claim of the first row is a parameter.\<close>

definition power_rows :: "fq \<Rightarrow> int \<Rightarrow> int \<Rightarrow> int \<Rightarrow> exp_circuit_row list" where
  "power_rows step e res d =
     [(exp_step_row (FQ 103) 0 (word_of 3) (word_of e) (word_of res) (word_of (d div 3)) (word_of 3) (word_of 0)
         (word_of d) (word_of (e div 2)) (FQ (e mod 2)))\<lparr>ec_is_step := step\<rparr>,
      (exp_step_row (FQ 103) 1 (word_of 3) (word_of 2) (word_of 9) (word_of 3) (word_of 3) (word_of 0)
         (word_of 9) (word_of 1) 0)\<lparr>ec_is_step := step\<rparr>]"

lemma power_rows_table: "convert_exp_circuit_to_table (power_rows step e res d) = Inr (sample_exp_table e res)"
  by (simp add: convert_exp_circuit_to_table_def power_rows_def exp_table_row_def exp_step_row_def limbs_of_3
      sample_exp_table_def sample_exp_row_def)

lemma true_rows_accepted: "verify_exp_circuit bezout_inv (power_rows 1 3 27 27) = Inr ()"
proof -
  have s: "exp_add_events [(3, 3, FQ 103)] = Inr (power_rows 1 3 27 27)"
    by (simp add: exp_add_events_def exp_add_event_def exp_by_squaring.simps [of 3] word_of_int256_Inr
        power_rows_def exp_step_row_def)
  obtain rows where "exp_add_events [(3, 3, FQ 103)] = Inr rows" "closed_chain (exp_pair_ok bezout_inv) rows"
    using exp_add_events_layout [OF bezout_inv_spec, of "[(3, 3, FQ 103)]"] by (auto simp: exp_event_ok_def)
  then show ?thesis using s closed_chain_cyclic by (simp add: verify_exp_circuit_ok)
qed

lemma power_rows_words:
  "list_all exp_row_words_ok (power_rows step 3 27 27)" "list_all exp_row_words_ok (power_rows step 5 7 27)"
  by (simp_all add: power_rows_def exp_step_row_def exp_row_words_ok_def word_of_ok)

lemma true_rows_closed: "exp_runs_closed (power_rows 1 3 27 27)"
  by (auto simp: exp_runs_closed_def power_rows_def exp_step_row_def nth_Cons word_of_ok
      intro!: exI [of _ 1] split: nat.splits)

lemma exp_computes_power_witness:
  "\<exists>res. stack_value (exp_sample_step (sample_exp_table 3 27) 3 27) 2 RW_Write 1 res \<and> word_ok (word_of 27)"
  using exp_computes_power [OF exp_sample_step_facts(1,3) bezout_inv_spec true_rows_accepted power_rows_words(1)
      true_rows_closed power_rows_table exp_sample_step_facts(2) sample_exp_accepted]
  by (auto simp: word_of_ok)

lemma idle_pair:
  assumes pfi: "prime_field_inv_spec pfi" and r: "r \<in> set (power_rows 0 5 7 27)"
  shows "exp_pair_ok pfi r r'"
proof -
  have two: "lo (word_of 2) = FQ 2" "hi (word_of 2) = 0" by (simp_all add: word_of_def)
  show ?thesis
    using r
    by (auto simp: two power_rows_def exp_step_row_def exp_pair_ok_def exp_verify_step_def ok_simps exp_transition_checks_def
      exp_step_checks_def exp_odd_checks_def exp_even_checks_def exp_last_checks_def
      exp_mul_add_check_ok [OF pfi] word_of_ok [simplified])
qed

text \<open>
  C5: The conversion of the exponentiation rows to \<open>exp_table\<close> marks every row as a step, also those
  whose own column \<open>is_step\<close> is 0 and whose claim the circuit does not check: a step of EXP is
  accepted that pushes 7 for 3 to the 5, over a table whose rows verify_exp_circuit accepts.
\<close>

text \<open>
  C11: The conversion of the exponentiation rows to exp_table marks every row as a step,
  also those whose own is_step is 0 and whose claim the circuit does not check: a step of
  EXP is accepted that pushes 7 for 3 to the 5 over a table whose rows verify_exp_circuit
  accepts.
\<close>

theorem exp_table_forgets_is_step:
  "\<exists>rows T I. verify_exp_circuit bezout_inv rows = Inr () \<and> list_all exp_row_words_ok rows \<and>
    list_all (\<lambda>r. ec_is_step r = 0) rows \<and> convert_exp_circuit_to_table rows = Inr T \<and>
    exp_table (i_tables I) = Some T \<and> accepted (exp_opcode I) \<and>
    stack_value I 0 RW_Read 0 (word_of 3) \<and> stack_value I 1 RW_Read 1 (word_of 5) \<and>
    stack_value I 2 RW_Write 1 (word_of 7)"
proof (intro exI conjI)
  show "verify_exp_circuit bezout_inv (power_rows 0 5 7 27) = Inr ()"
    unfolding verify_exp_circuit_ok cyclic_ok_def
    using idle_pair [OF bezout_inv_spec] by simp
  show "list_all exp_row_words_ok (power_rows 0 5 7 27)" by (rule power_rows_words(2))
  show "list_all (\<lambda>r. ec_is_step r = 0) (power_rows 0 5 7 27)" by (simp add: power_rows_def)
  show "convert_exp_circuit_to_table (power_rows 0 5 7 27) = Inr (sample_exp_table 5 7)" by (rule power_rows_table)
  let ?I = "exp_sample_step (sample_exp_table 5 7) 5 7"
  note I = exp_sample_step_facts [of 5 7 "sample_exp_table 5 7"]
  show "exp_table (i_tables ?I) = Some (sample_exp_table 5 7)" using I(2) by simp
  show "accepted (exp_opcode ?I)" by (rule sample_exp_accepted) simp_all
  show "stack_value ?I 0 RW_Read 0 (word_of 3)" using I(5) by simp
  show "stack_value ?I 1 RW_Read 1 (word_of 5)" using I(6) by simp
  show "stack_value ?I 2 RW_Write 1 (word_of 7)" using I(7) by simp
qed

end
