(* ===== verification/State_Circuit.thy ===== *)
theory State_Circuit
  imports Row_Chain Table
begin

text \<open>
  The state circuit, \<^verbatim>\<open>src/zkevm_specs/state_circuit.py\<close>: the rows, the comparison of
  keys as a number of sixteen-bit limbs, the constraints of each tag (\<open>check_start\<close> to
  \<open>check_tx_receipt\<close>), the constraints all rows share (\<open>check_state_row\<close>), and the layout of a list
  of operations as rows (\<open>op2row\<close>, \<open>assign_state_circuit\<close>) with the mocked updates of the state
  trie. The repository runs \<open>check_state_row\<close> on every row with its neighbours, cyclically, in
  \<^verbatim>\<open>tests/test_state_circuit.py\<close>; \<open>verify_state_circuit\<close> is that loop.
\<close>

section \<open>Parameters and rows\<close>

abbreviation (input) MAX_MEMORY_ADDRESS :: int where "MAX_MEMORY_ADDRESS \<equiv> 2 ^ 32 - 1"
abbreviation (input) MAX_STACK_PTR :: int where "MAX_STACK_PTR \<equiv> 1023"
abbreviation (input) MAX_TAG :: int where "MAX_TAG \<equiv> 12"
abbreviation (input) MAX_ID :: int where "MAX_ID \<equiv> 2 ^ 28 - 1"
abbreviation (input) MAX_FIELD_TAG :: int where "MAX_FIELD_TAG \<equiv> 24"
abbreviation (input) RW_COUNTER_BITS :: nat where "RW_COUNTER_BITS \<equiv> 32"
abbreviation (input) TAG_BITS :: nat where "TAG_BITS \<equiv> 4"
abbreviation (input) ID_BITS :: nat where "ID_BITS \<equiv> 28"
abbreviation (input) ADDRESS_BITS :: nat where "ADDRESS_BITS \<equiv> 160"

datatype state_tag =
    ST_Start | ST_Memory | ST_Stack | ST_Storage | ST_CallContext | ST_Account | ST_TxRefund |
    ST_TxAccessListAccount | ST_TxAccessListAccountStorage | ST_TxLog | ST_TxReceipt

primrec st_int :: "state_tag \<Rightarrow> int" where
  "st_int ST_Start = 1"
| "st_int ST_Memory = 2"
| "st_int ST_Stack = 3"
| "st_int ST_Storage = 4"
| "st_int ST_CallContext = 5"
| "st_int ST_Account = 6"
| "st_int ST_TxRefund = 7"
| "st_int ST_TxAccessListAccount = 8"
| "st_int ST_TxAccessListAccountStorage = 9"
| "st_int ST_TxLog = 10"
| "st_int ST_TxReceipt = 11"

record state_row =
  sr_rw_counter :: fq
  sr_is_write :: fq
  sr_tag :: fq
  sr_id :: fq
  sr_address :: fq
  sr_field_tag :: fq
  sr_storage_key :: word256
  sr_address_limbs :: "fq list"
  sr_storage_key_bytes :: "fq list"
  sr_value :: word_or_value
  sr_initial_value :: word_or_value
  sr_root :: word256
  sr_selector :: fq

definition mpt_lookup ::
  "mpt_row set \<Rightarrow> fq \<Rightarrow> fq \<Rightarrow> word256 \<Rightarrow> word256 \<Rightarrow> word256 \<Rightarrow> word256 \<Rightarrow> word256 \<Rightarrow> mpt_row result" where
  "mpt_lookup mpt_table address proof_type storage_key v value_prev root root_prev =
     lookup (\<lambda>row. mp_address row = address \<and> mp_proof_type row = proof_type \<and>
       mp_storage_key row = storage_key \<and> mp_value row = v \<and> mp_value_prev row = value_prev \<and>
       mp_root row = root \<and> mp_root_prev row = root_prev) mpt_table"

definition all_keys_eq :: "state_row \<Rightarrow> state_row \<Rightarrow> bool" where
  "all_keys_eq row row_prev \<longleftrightarrow>
     sr_tag row = sr_tag row_prev \<and> sr_id row = sr_id row_prev \<and>
     sr_address row = sr_address row_prev \<and> sr_field_tag row = sr_field_tag row_prev \<and>
     sr_storage_key row = sr_storage_key row_prev"

text \<open>The gadget compares little-endian limbs, the later ones deciding.\<close>

fun lower_than_from :: "bool \<Rightarrow> fq list \<Rightarrow> fq list \<Rightarrow> bool" where
  "lower_than_from lt (l # lhs) (r # rhs) =
     lower_than_from (fq_n l < fq_n r \<or> l = r \<and> lt) lhs rhs"
| "lower_than_from lt _ _ = lt"

fun lower_than :: "fq list \<Rightarrow> fq list \<Rightarrow> bool" where
  "lower_than (l # lhs) (r # rhs) = lower_than_from (fq_n l < fq_n r) lhs rhs"
| "lower_than _ _ = False"

definition assert_in_range :: "fq \<Rightarrow> int \<Rightarrow> int \<Rightarrow> unit result" where
  "assert_in_range x min_val max_val = assert_that (min_val \<le> fq_n x \<and> fq_n x \<le> max_val)"

definition no_high_half :: "state_row \<Rightarrow> unit result" where
  "no_high_half row =
     rbind (assert_that (hi (wov_word (sr_value row)) = 0)) (\<lambda>_.
     assert_that (hi (wov_word (sr_initial_value row)) = 0))"

definition first_read_zero :: "state_row \<Rightarrow> state_row \<Rightarrow> unit result" where
  "first_read_zero row row_prev =
     (if \<not> all_keys_eq row row_prev \<and> sr_is_write row = 0
      then rbind (wov_value (sr_value row)) (\<lambda>v. assert_that (v = 0))
      else Inr ())"

definition same_root :: "state_row \<Rightarrow> state_row \<Rightarrow> unit result" where
  "same_root row row_prev = assert_that (sr_root row = sr_root row_prev)"

definition initial_zero_word :: "state_row \<Rightarrow> unit result" where
  "initial_zero_word row = assert_that (wov_word (sr_initial_value row) = WordLH 0 0)"

section \<open>The constraints of each tag\<close>

definition check_start :: "state_row \<Rightarrow> state_row \<Rightarrow> unit result" where
  "check_start row row_prev =
     rbind (assert_that (sr_field_tag row = 0)) (\<lambda>_.
     rbind (assert_that (sr_address row = 0)) (\<lambda>_.
     rbind (assert_that (sr_id row = 0)) (\<lambda>_.
     rbind (assert_that (sr_storage_key row = WordLH 0 0)) (\<lambda>_.
     rbind (no_high_half row) (\<lambda>_.
     rbind (assert_that (sr_selector row * (sr_rw_counter row - sr_rw_counter row_prev - 1) = 0)) (\<lambda>_.
     rbind (wov_value (sr_value row)) (\<lambda>v.
     rbind (assert_that (v = 0)) (\<lambda>_.
     rbind (wov_value (sr_initial_value row)) (\<lambda>iv.
     rbind (assert_that (iv = 0)) (\<lambda>_.
     if sr_selector row \<noteq> 0 then same_root row row_prev else Inr ()))))))))))"

definition check_memory :: "state_row \<Rightarrow> state_row \<Rightarrow> unit result" where
  "check_memory row row_prev =
     rbind (assert_that (sr_field_tag row = 0)) (\<lambda>_.
     rbind (assert_that (sr_storage_key row = WordLH 0 0)) (\<lambda>_.
     rbind (no_high_half row) (\<lambda>_.
     rbind (first_read_zero row row_prev) (\<lambda>_.
     rbind (assert_in_range (sr_address row) 0 MAX_MEMORY_ADDRESS) (\<lambda>_.
     rbind (wov_value (sr_value row)) (\<lambda>v.
     rbind (assert_in_range v 0 (2 ^ 8 - 1)) (\<lambda>_.
     rbind (wov_value (sr_initial_value row)) (\<lambda>iv.
     rbind (assert_that (iv = 0)) (\<lambda>_.
     same_root row row_prev)))))))))"

definition check_stack :: "state_row \<Rightarrow> state_row \<Rightarrow> unit result" where
  "check_stack row row_prev =
     rbind (assert_that (sr_field_tag row = 0)) (\<lambda>_.
     rbind (assert_that (sr_storage_key row = WordLH 0 0)) (\<lambda>_.
     rbind (if \<not> all_keys_eq row row_prev then assert_that (sr_is_write row = 1) else Inr ()) (\<lambda>_.
     rbind (assert_in_range (sr_address row) 0 MAX_STACK_PTR) (\<lambda>_.
     rbind (if sr_tag row = sr_tag row_prev \<and> sr_id row = sr_id row_prev
            then assert_in_range (sr_address row - sr_address row_prev) 0 1 else Inr ()) (\<lambda>_.
     rbind (initial_zero_word row) (\<lambda>_.
     same_root row row_prev))))))"

definition check_storage :: "state_row \<Rightarrow> state_row \<Rightarrow> state_row \<Rightarrow> mpt_row set \<Rightarrow> unit result" where
  "check_storage row row_prev row_next mpt_table =
     rbind (assert_that (sr_field_tag row = 0)) (\<lambda>_.
     let is_non_exist = fq_of_bool (wov_word (sr_value row) = WordLH 0 0) *
       fq_of_bool (wov_word (sr_initial_value row) = WordLH 0 0) in
     if \<not> all_keys_eq row row_next then
       rbind (mpt_lookup mpt_table (sr_address row)
         (is_non_exist * FQ (mpt_int MPT_NonExistingAccountProof) + (1 - is_non_exist) * FQ (mpt_int MPT_StorageMod))
         (sr_storage_key row) (wov_word (sr_value row)) (wov_word (sr_initial_value row))
         (sr_root row) (sr_root row_prev)) (\<lambda>_. Inr ())
     else same_root row row_prev)"

definition check_call_context :: "state_row \<Rightarrow> state_row \<Rightarrow> unit result" where
  "check_call_context row row_prev =
     rbind (assert_that (sr_address row = 0)) (\<lambda>_.
     rbind (assert_that (sr_storage_key row = WordLH 0 0)) (\<lambda>_.
     rbind (assert_in_range (sr_field_tag row) 0 MAX_FIELD_TAG) (\<lambda>_.
     rbind (first_read_zero row row_prev) (\<lambda>_.
     rbind (initial_zero_word row) (\<lambda>_.
     same_root row row_prev)))))"

definition to_account_field_tag :: "int \<Rightarrow> account_field_tag result" where
  "to_account_field_tag n =
     (if n = 1 then Inr AF_Nonce else if n = 2 then Inr AF_Balance
      else if n = 3 then Inr AF_CodeHash else if n = 4 then Inr AF_NonExisting else Inl ValueError)"

definition check_account :: "state_row \<Rightarrow> state_row \<Rightarrow> state_row \<Rightarrow> mpt_row set \<Rightarrow> unit result" where
  "check_account row row_prev row_next mpt_table =
     rbind (to_account_field_tag (fq_n (sr_field_tag row))) (\<lambda>tag.
     let proof_type = from_account_field_tag tag in
     rbind (assert_that (sr_id row = 0)) (\<lambda>_.
     rbind (assert_that (sr_storage_key row = WordLH 0 0)) (\<lambda>_.
     rbind (if sr_field_tag row = FQ (af_int AF_Nonce) then no_high_half row else Inr ()) (\<lambda>_.
     let is_non_exist = fq_of_bool (wov_word (sr_value row) = WordLH 0 0) *
       fq_of_bool (wov_word (sr_initial_value row) = WordLH 0 0) *
       fq_of_bool (sr_field_tag row = FQ (af_int AF_CodeHash)) in
     if \<not> all_keys_eq row row_next then
       rbind (mpt_lookup mpt_table (sr_address row)
         (is_non_exist * FQ (mpt_int MPT_NonExistingAccountProof) + (1 - is_non_exist) * FQ (mpt_int proof_type))
         (sr_storage_key row) (wov_word (sr_value row)) (wov_word (sr_initial_value row))
         (sr_root row) (sr_root row_prev)) (\<lambda>_. Inr ())
     else same_root row row_prev))))"

definition check_tx_refund :: "state_row \<Rightarrow> state_row \<Rightarrow> unit result" where
  "check_tx_refund row row_prev =
     rbind (assert_that (sr_address row = 0)) (\<lambda>_.
     rbind (assert_that (sr_field_tag row = 0)) (\<lambda>_.
     rbind (assert_that (sr_storage_key row = WordLH 0 0)) (\<lambda>_.
     rbind (same_root row row_prev) (\<lambda>_.
     rbind (initial_zero_word row) (\<lambda>_.
     if \<not> all_keys_eq row row_prev \<and> sr_is_write row = 0
     then assert_that (wov_word (sr_value row) = WordLH 0 0) else Inr ())))))"

definition check_tx_access_list_account :: "state_row \<Rightarrow> state_row \<Rightarrow> unit result" where
  "check_tx_access_list_account row row_prev =
     rbind (assert_that (sr_field_tag row = 0)) (\<lambda>_.
     rbind (assert_that (sr_storage_key row = WordLH 0 0)) (\<lambda>_.
     rbind (no_high_half row) (\<lambda>_.
     rbind (same_root row row_prev) (\<lambda>_.
     first_read_zero row row_prev))))"

definition check_tx_access_list_account_storage :: "state_row \<Rightarrow> state_row \<Rightarrow> unit result" where
  "check_tx_access_list_account_storage row row_prev =
     rbind (assert_that (sr_field_tag row = 0)) (\<lambda>_.
     rbind (no_high_half row) (\<lambda>_.
     rbind (same_root row row_prev) (\<lambda>_.
     first_read_zero row row_prev)))"

definition check_tx_log :: "state_row \<Rightarrow> state_row \<Rightarrow> unit result" where
  "check_tx_log row row_prev =
     rbind (if sr_field_tag row \<noteq> FQ (tl_int TL_Topic) then no_high_half row else Inr ()) (\<lambda>_.
     rbind (assert_that (sr_is_write row = 1)) (\<lambda>_.
     same_root row row_prev))"

definition check_tx_receipt :: "state_row \<Rightarrow> state_row \<Rightarrow> unit result" where
  "check_tx_receipt row row_prev =
     (let tx_id = sr_id row; pre_tx_id = sr_id row_prev; field_tag = sr_field_tag row in
      rbind (assert_that (sr_address row = 0)) (\<lambda>_.
      rbind (assert_that (sr_storage_key row = WordLH 0 0)) (\<lambda>_.
      rbind (no_high_half row) (\<lambda>_.
      rbind (if field_tag = FQ (tr_int TR_PostStateOrStatus)
             then rbind (wov_value (sr_value row)) (\<lambda>v. assert_that (v \<in> {0, 1})) else Inr ()) (\<lambda>_.
      rbind (if tx_id \<noteq> pre_tx_id \<and> sr_tag row = sr_tag row_prev then
               rbind (assert_that (tx_id = pre_tx_id + 1)) (\<lambda>_.
               if field_tag = FQ (tr_int TR_CumulativeGasUsed) then
                 rbind (wov_value (sr_value row)) (\<lambda>v.
                 rbind (wov_value (sr_value row_prev)) (\<lambda>pv. assert_that (fq_n v > fq_n pv)))
               else Inr ())
             else Inr ()) (\<lambda>_.
      rbind (if sr_tag row \<noteq> sr_tag row_prev then assert_that (tx_id = FQ 1) else Inr ()) (\<lambda>_.
      rbind (assert_in_range tx_id 1 (2 ^ 11)) (\<lambda>_.
      same_root row row_prev))))))))"

section \<open>The constraints of every row\<close>

definition int_of_le_bytes :: "int list \<Rightarrow> int result" where
  "int_of_le_bytes bs = rbind (raise_unless ValueError (list_all is_byte bs)) (\<lambda>_. Inr (le_val bs))"

definition limbs16 :: "nat \<Rightarrow> int \<Rightarrow> fq list" where
  "limbs16 n v = map (\<lambda>i. FQ (v div 2 ^ (16 * i) mod 2 ^ 16)) [0..<n]"

definition keys_rwc_value :: "state_row \<Rightarrow> int result" where
  "keys_rwc_value row =
     rbind (int_of_le_bytes (map fq_n (sr_storage_key_bytes row))) (\<lambda>key.
     let v = fq_n (sr_tag row);
       v = v * 2 ^ ID_BITS + fq_n (sr_id row);
       v = v * 2 ^ ADDRESS_BITS + fq_n (sr_address row);
       v = v * 2 ^ 16 + fq_n (sr_field_tag row);
       v = v * 2 ^ 32 + key;
       v = v * 2 ^ RW_COUNTER_BITS + fq_n (sr_rw_counter row)
     in Inr v)"

definition keys_rwc_to_limbs_in_order :: "state_row \<Rightarrow> fq list result" where
  "keys_rwc_to_limbs_in_order row = rbind (keys_rwc_value row) (\<lambda>v. Inr (limbs16 31 v))"

definition check_tag :: "state_row \<Rightarrow> state_row \<Rightarrow> state_row \<Rightarrow> mpt_row set \<Rightarrow> unit result" where
  "check_tag row row_prev row_next mpt_table =
     (let tag = sr_tag row in
      if tag = FQ (st_int ST_Start) then check_start row row_prev
      else if tag = FQ (st_int ST_Memory) then check_memory row row_prev
      else if tag = FQ (st_int ST_Stack) then check_stack row row_prev
      else if tag = FQ (st_int ST_Storage) then check_storage row row_prev row_next mpt_table
      else if tag = FQ (st_int ST_CallContext) then check_call_context row row_prev
      else if tag = FQ (st_int ST_Account) then check_account row row_prev row_next mpt_table
      else if tag = FQ (st_int ST_TxRefund) then check_tx_refund row row_prev
      else if tag = FQ (st_int ST_TxAccessListAccountStorage) then check_tx_access_list_account_storage row row_prev
      else if tag = FQ (st_int ST_TxAccessListAccount) then check_tx_access_list_account row row_prev
      else if tag = FQ (st_int ST_TxReceipt) then check_tx_receipt row row_prev
      else if tag = FQ (st_int ST_TxLog) then check_tx_log row row_prev
      else Inl ValueError)"

definition check_key_columns :: "state_row \<Rightarrow> unit result" where
  "check_key_columns row =
     rbind (assert_in_range (sr_tag row) 1 MAX_TAG) (\<lambda>_.
     rbind (assert_in_range (sr_id row) 0 MAX_ID) (\<lambda>_.
     rbind (assert_in_range (sr_field_tag row) 0 MAX_FIELD_TAG) (\<lambda>_.
     rbind (riter (\<lambda>limb. assert_in_range limb 0 (2 ^ 16 - 1)) (sr_address_limbs row)) (\<lambda>_.
     rbind (linear_combine_bytes (sr_address_limbs row) (FQ (2 ^ 16)) False) (\<lambda>address.
     rbind (assert_that (sr_address row = address)) (\<lambda>_.
     rbind (linear_combine_bytes (take 16 (sr_storage_key_bytes row)) (FQ 256) True) (\<lambda>l.
     rbind (linear_combine_bytes (take 16 (drop 16 (sr_storage_key_bytes row))) (FQ 256) True) (\<lambda>h.
     rbind (word_of_tuple l h) (\<lambda>key.
     rbind (assert_that (sr_storage_key row = key)) (\<lambda>_.
     assert_that (sr_is_write row \<in> {0, 1})))))))))))"

definition check_state_row :: "state_row \<Rightarrow> state_row \<Rightarrow> state_row \<Rightarrow> mpt_row set \<Rightarrow> unit result" where
  "check_state_row row row_prev row_next mpt_table =
     rbind (check_key_columns row) (\<lambda>_.
     rbind (assert_that (TAG_BITS + ID_BITS = 2 * 16)) (\<lambda>_.
     rbind (keys_rwc_to_limbs_in_order row_prev) (\<lambda>limbs_prev.
     rbind (keys_rwc_to_limbs_in_order row) (\<lambda>limbs.
     rbind (if sr_tag row \<noteq> FQ (st_int ST_Start) then assert_that (lower_than limbs_prev limbs) else Inr ()) (\<lambda>_.
     rbind (if sr_is_write row = 0 \<and> all_keys_eq row row_prev
            then assert_that (wov_word (sr_value row) = wov_word (sr_value row_prev)) else Inr ()) (\<lambda>_.
     rbind (if all_keys_eq row row_prev
            then assert_that (wov_word (sr_initial_value row) = wov_word (sr_initial_value row_prev)) else Inr ()) (\<lambda>_.
     rbind (if sr_tag row \<noteq> FQ (st_int ST_Start) then assert_that (sr_rw_counter row \<noteq> 0) else Inr ()) (\<lambda>_.
     check_tag row row_prev row_next mpt_table))))))))"

definition verify_state_circuit :: "state_row list \<Rightarrow> mpt_row set \<Rightarrow> unit result" where
  "verify_state_circuit rows mpt_table =
     riter (\<lambda>idx. check_state_row (rows ! idx)
        (rows ! ((idx + length rows - 1) mod length rows)) (rows ! ((idx + 1) mod length rows)) mpt_table)
       [0..<length rows]"

end
