(* ===== verification/Combine_Bytes.thy ===== *)
theory Combine_Bytes
  imports Arithmetic
begin

text \<open>
  What \<open>linear_combine_bytes\<close> computes when its base is a number: the value of the limbs in that
  base, as a field element; and how numbers are compared limb by limb.
\<close>

fun limbs_val :: "int \<Rightarrow> int list \<Rightarrow> int" where
  "limbs_val b [] = 0"
| "limbs_val b (x # xs) = x + b * limbs_val b xs"

lemma limbs_val_256: "limbs_val 256 xs = le_val xs"
  by (induction xs) simp_all

lemma fq_n_FQ_byte: "is_byte b \<Longrightarrow> fq_n (FQ b) = b"
  by (simp add: is_byte_def fq_modulus_def)

lemma fq_n_le_bytes: "map fq_n (map FQ (le_bytes n x)) = le_bytes n x"
  using le_bytes_is_byte [of _ n x] fq_n_FQ_byte by (auto intro!: map_idI simp del: fq_n_FQ)

lemma linear_combine_bytes_ok [ok_simps]:
  "linear_combine_bytes xs (FQ b) rc = Inr x \<longleftrightarrow>
     (rc \<longrightarrow> (\<forall>l\<in>set xs. fq_n l < 256)) \<and> x = FQ (limbs_val b (map fq_n xs))"
proof (induction xs arbitrary: x)
  case Nil
  then show ?case by auto
next
  case (Cons l xs)
  have "FQ (limbs_val b (map fq_n xs)) * FQ b + l = FQ (limbs_val b (map fq_n (l # xs)))"
    by (simp add: FQ_arith mult.commute add.commute)
  then show ?case unfolding linear_combine_bytes.simps rbind_ok Cons.IH
    by (auto simp: assert_that_ok split: if_splits)
qed

lemma limbs_val_bounds:
  assumes "0 < b" "\<forall>x\<in>set xs. 0 \<le> x \<and> x < b"
  shows "0 \<le> limbs_val b xs \<and> limbs_val b xs < b ^ length xs"
  using assms(2)
proof (induction xs)
  case (Cons x xs)
  then have "limbs_val b xs + 1 \<le> b ^ length xs" "0 \<le> limbs_val b xs" by simp_all
  then have "b * (limbs_val b xs + 1) \<le> b * b ^ length xs" using assms(1) by (simp only: mult_left_mono order.strict_implies_order)
  with Cons show ?case using assms(1) \<open>0 \<le> limbs_val b xs\<close> by (simp add: algebra_simps)
qed simp

lemma digit_less:
  fixes b :: int
  assumes "0 \<le> x" "x < b" "0 \<le> y" "y < b"
  shows "x + b * u < y + b * v \<longleftrightarrow> u < v \<or> u = v \<and> x < y"
    and "x + b * u = y + b * v \<longleftrightarrow> u = v \<and> x = y"
proof -
  have less: "x + b * u < y + b * v" if "u < v" "0 \<le> x" "x < b" "0 \<le> y" for x y u v
  proof -
    have "u + 1 \<le> v" using that by simp
    then have "b * (u + 1) \<le> b * v" using assms by (intro mult_left_mono) simp_all
    then show ?thesis using that by (simp add: algebra_simps)
  qed
  show "x + b * u < y + b * v \<longleftrightarrow> u < v \<or> u = v \<and> x < y"
    using less [of u v x y] less [of v u y x] assms by (cases u v rule: linorder_cases) auto
  show "x + b * u = y + b * v \<longleftrightarrow> u = v \<and> x = y"
    using less [of u v x y] less [of v u y x] assms by (cases u v rule: linorder_cases) auto
qed

end
