(* ===== verification/State_Order.thy ===== *)
theory State_Order
  imports State_Circuit Combine_Bytes
begin

text \<open>
  What the ordering check of the state circuit says: the limbs of a row represent a number, and
  the gadget compares these numbers. The number puts the tag, the call, the address and the field
  tag above the storage key, but leaves the key only 32 bits of room, so keys of 32 bits and more
  run into the columns above.
\<close>

section \<open>The comparison of limbs\<close>

definition limbs_ok :: "fq list \<Rightarrow> bool" where
  "limbs_ok xs \<longleftrightarrow> (\<forall>x\<in>set xs. fq_n x < 2 ^ 16)"

lemma lower_than_from_iff:
  assumes "length xs = length ys" "limbs_ok xs" "limbs_ok ys"
  shows "lower_than_from lt xs ys \<longleftrightarrow>
    limbs_val (2 ^ 16) (map fq_n xs) < limbs_val (2 ^ 16) (map fq_n ys) \<or>
    limbs_val (2 ^ 16) (map fq_n xs) = limbs_val (2 ^ 16) (map fq_n ys) \<and> lt"
  using assms
proof (induction lt xs ys rule: lower_than_from.induct)
  case (1 lt l lhs r rhs)
  have d: "0 \<le> fq_n l" "fq_n l < 2 ^ 16" "0 \<le> fq_n r" "fq_n r < 2 ^ 16"
    using 1 by (simp_all add: limbs_ok_def)
  have IH: "lower_than_from (fq_n l < fq_n r \<or> l = r \<and> lt) lhs rhs \<longleftrightarrow>
    limbs_val (2 ^ 16) (map fq_n lhs) < limbs_val (2 ^ 16) (map fq_n rhs) \<or>
    limbs_val (2 ^ 16) (map fq_n lhs) = limbs_val (2 ^ 16) (map fq_n rhs) \<and> (fq_n l < fq_n r \<or> l = r \<and> lt)"
    using 1 by (simp add: limbs_ok_def)
  show ?case
    unfolding lower_than_from.simps(1) IH list.map limbs_val.simps digit_less [OF d] by (simp only: fq_eq_iff [of l r]) blast
qed auto

lemma lower_than_iff:
  assumes "length xs = length ys" "limbs_ok xs" "limbs_ok ys"
  shows "lower_than xs ys \<longleftrightarrow> limbs_val (2 ^ 16) (map fq_n xs) < limbs_val (2 ^ 16) (map fq_n ys)"
proof (cases xs)
  case Nil
  then show ?thesis using assms by simp
next
  case (Cons x xs')
  then obtain y ys' where ys: "ys = y # ys'" using assms(1) by (cases ys) simp_all
  have "lower_than xs ys \<longleftrightarrow> lower_than_from False xs ys"
    unfolding Cons ys by simp
  then show ?thesis using lower_than_from_iff [OF assms] by simp
qed

lemma limbs16_Suc: "limbs16 (Suc n) v = FQ (v mod 2 ^ 16) # limbs16 n (v div 2 ^ 16)"
proof -
  have "v div 2 ^ (16 * Suc i) = v div 2 ^ 16 div 2 ^ (16 * i)" for i
    by (simp only: mult_Suc_right power_add) (rule zdiv_zmult2_eq, simp)
  then show ?thesis
    unfolding limbs16_def by (simp only: upt_rec [of 0 "Suc n"] map_Suc_upt [symmetric]) (simp add: comp_def)
qed

lemma limbs16_val: "0 \<le> v \<Longrightarrow> limbs_val (2 ^ 16) (map fq_n (limbs16 n v)) = v mod 2 ^ (16 * n)"
proof (induction n arbitrary: v)
  case 0
  then show ?case by (simp add: limbs16_def)
next
  case (Suc n)
  have d: "fq_n (FQ (v mod 2 ^ 16)) = v mod 2 ^ 16"
    using pos_mod_bound [of "2 ^ 16" v] by (simp add: fq_modulus_def)
  have "v mod 2 ^ (16 * Suc n) = v mod (2 ^ 16 * 2 ^ (16 * n))" by (simp add: power_add)
  also have "\<dots> = 2 ^ 16 * (v div 2 ^ 16 mod 2 ^ (16 * n)) + v mod 2 ^ 16"
    by (rule zmod_zmult2_eq) simp
  finally show ?case
    using Suc.IH [of "v div 2 ^ 16"] Suc.prems unfolding limbs16_Suc list.map limbs_val.simps d
    by (simp add: pos_imp_zdiv_nonneg_iff)
qed

lemma limbs16_ok: "limbs_ok (limbs16 n v)"
proof -
  have "fq_n (FQ (w mod 2 ^ 16)) < 2 ^ 16" for w
    using pos_mod_bound [of "2 ^ 16" w] by (simp add: fq_modulus_def)
  then show ?thesis by (auto simp: limbs_ok_def limbs16_def simp del: fq_n_FQ)
qed

lemma lower_than_limbs16:
  assumes "0 \<le> v" "v < 2 ^ 496" "0 \<le> w" "w < 2 ^ 496"
  shows "lower_than (limbs16 31 v) (limbs16 31 w) \<longleftrightarrow> v < w"
proof -
  have "limbs_val (2 ^ 16) (map fq_n (limbs16 31 x)) = x" if "0 \<le> x" "x < 2 ^ 496" for x
    using limbs16_val [OF that(1), of 31] that by simp
  then show ?thesis
    using lower_than_iff [OF _ limbs16_ok limbs16_ok, of 31 v 31 w] assms by (simp add: limbs16_def)
qed

section \<open>Rows as numbers\<close>

text \<open>The tuples of limbs and bytes have the lengths their types give.\<close>

definition state_row_shape :: "state_row \<Rightarrow> bool" where
  "state_row_shape row \<longleftrightarrow> length (sr_address_limbs row) = 10 \<and> length (sr_storage_key_bytes row) = 32"

definition row_base :: "state_row \<Rightarrow> int" where
  "row_base r = ((fq_n (sr_tag r) * 2 ^ 28 + fq_n (sr_id r)) * 2 ^ 160 + fq_n (sr_address r)) * 2 ^ 16
     + fq_n (sr_field_tag r)"

definition row_prefix :: "state_row \<Rightarrow> int" where
  "row_prefix r = row_base r * 2 ^ 32 + int_value (sr_storage_key r)"

definition row_order :: "state_row \<Rightarrow> int" where
  "row_order r = row_prefix r * 2 ^ 32 + fq_n (sr_rw_counter r)"

text \<open>What the column checks say of the keys of a row.\<close>

definition row_columns_ok :: "state_row \<Rightarrow> bool" where
  "row_columns_ok r \<longleftrightarrow>
     1 \<le> fq_n (sr_tag r) \<and> fq_n (sr_tag r) \<le> 12 \<and> fq_n (sr_id r) < 2 ^ 28 \<and>
     fq_n (sr_address r) < 2 ^ 160 \<and> fq_n (sr_field_tag r) \<le> 24 \<and> word_ok (sr_storage_key r) \<and>
     int_value (sr_storage_key r) = le_val (map fq_n (sr_storage_key_bytes r)) \<and>
     (\<forall>b\<in>set (sr_storage_key_bytes r). fq_n b < 256) \<and> (sr_is_write r = 0 \<or> sr_is_write r = 1)"

lemma key_columns_ok:
  assumes shape: "state_row_shape r" and run: "check_key_columns r = Inr ()"
  shows "row_columns_ok r"
proof -
  let ?bs = "map fq_n (sr_storage_key_bytes r)" and ?as = "map fq_n (sr_address_limbs r)"
  from run have tags: "1 \<le> fq_n (sr_tag r)" "fq_n (sr_tag r) \<le> 12" "fq_n (sr_id r) < 2 ^ 28"
      "fq_n (sr_field_tag r) \<le> 24" "sr_is_write r = 0 \<or> sr_is_write r = 1"
    and limbs: "\<forall>x\<in>set ?as. 0 \<le> x \<and> x < 2 ^ 16" and addr: "sr_address r = FQ (limbs_val (2 ^ 16) ?as)"
    and lows: "\<forall>b\<in>set (take 16 (sr_storage_key_bytes r)). fq_n b < 256"
    and highs: "\<forall>b\<in>set (take 16 (drop 16 (sr_storage_key_bytes r))). fq_n b < 256"
    and key: "sr_storage_key r = WordLH (FQ (le_val (map fq_n (take 16 (sr_storage_key_bytes r)))))
        (FQ (le_val (map fq_n (take 16 (drop 16 (sr_storage_key_bytes r))))))" "word_ok (sr_storage_key r)"
    unfolding check_key_columns_def assert_in_range_def
    by (auto simp: ok_simps limbs_val_256)
  have len: "length ?as = 10" "length ?bs = 32" using shape by (simp_all add: state_row_shape_def)
  have "0 \<le> limbs_val (2 ^ 16) ?as \<and> limbs_val (2 ^ 16) ?as < (2 ^ 16) ^ length ?as"
    by (rule limbs_val_bounds [OF _ limbs]) simp
  then have a: "fq_n (sr_address r) < 2 ^ 160"
    unfolding addr len by (simp add: fq_modulus_def)
  have split: "sr_storage_key_bytes r = take 16 (sr_storage_key_bytes r) @ take 16 (drop 16 (sr_storage_key_bytes r))"
    using len by simp
  have bytes: "\<forall>b\<in>set (sr_storage_key_bytes r). fq_n b < 256"
    by (subst split) (use lows highs in auto)
  have half: "fq_n (FQ (le_val (map fq_n bs))) = le_val (map fq_n bs)"
    if "\<forall>b\<in>set bs. fq_n b < 256" "length bs = 16" for bs
    using limbs_val_bounds [of 256 "map fq_n bs"] that by (simp add: limbs_val_256 fq_modulus_def)
  have "le_val ?bs = le_val (map fq_n (take 16 (sr_storage_key_bytes r)))
      + 256 ^ 16 * le_val (map fq_n (take 16 (drop 16 (sr_storage_key_bytes r))))"
    using len le_val_append [of "map fq_n (take 16 (sr_storage_key_bytes r))"
        "map fq_n (take 16 (drop 16 (sr_storage_key_bytes r)))"] split
    by (simp only: map_append [symmetric]) simp
  then have "int_value (sr_storage_key r) = le_val ?bs"
    unfolding key(1) int_value_def using half [OF lows] half [OF highs] len by simp
  then show ?thesis using tags a bytes key(2) by (simp add: row_columns_ok_def)
qed

lemma keys_rwc_value_ok:
  assumes "row_columns_ok r"
  shows "keys_rwc_value r = Inr (row_order r)"
proof -
  have "list_all is_byte (map fq_n (sr_storage_key_bytes r))"
    using assms by (auto simp: row_columns_ok_def list_all_iff is_byte_def)
  then show ?thesis
    using assms by (simp add: keys_rwc_value_def int_of_le_bytes_def row_order_def row_prefix_def row_base_def
        row_columns_ok_def Let_def)
qed

lemma row_order_bounds:
  assumes "row_columns_ok r"
  shows "0 \<le> row_base r" "row_base r < 2 ^ 208" "0 \<le> row_prefix r" "row_prefix r < 2 ^ 257"
    "0 \<le> row_order r" "row_order r < 2 ^ 496"
proof -
  have c: "fq_n (sr_tag r) \<le> 12" "fq_n (sr_id r) < 2 ^ 28" "fq_n (sr_address r) < 2 ^ 160" "fq_n (sr_field_tag r) \<le> 24"
    "int_value (sr_storage_key r) < 2 ^ 256"
    using assms int_value_lt [of "sr_storage_key r"] by (simp_all add: row_columns_ok_def)
  show b: "0 \<le> row_base r" "row_base r < 2 ^ 208"
    unfolding row_base_def using c by simp_all
  show p: "0 \<le> row_prefix r" "row_prefix r < 2 ^ 257"
    unfolding row_prefix_def using b c(5) int_value_nonneg [of "sr_storage_key r"] by simp_all
  show "0 \<le> row_order r" "row_order r < 2 ^ 496"
    unfolding row_order_def using p fq_n_lt [of "sr_rw_counter r"] by (simp_all add: fq_modulus_def)
qed

text \<open>Accepted rows: the columns are in range and, but for the rows of tag \<open>Start\<close>, in order.\<close>

lemma state_row_columns:
  "check_state_row r p nx mpt = Inr () \<Longrightarrow> state_row_shape r \<Longrightarrow> row_columns_ok r"
  using key_columns_ok by (auto simp: check_state_row_def rbind_ok)

lemma state_row_order:
  assumes "check_state_row r p nx mpt = Inr ()" "row_columns_ok r" "row_columns_ok p" "sr_tag r \<noteq> 1"
  shows "row_order p < row_order r"
proof -
  have "lower_than (limbs16 31 (row_order p)) (limbs16 31 (row_order r))"
    using assms by (auto simp: check_state_row_def rbind_ok keys_rwc_to_limbs_in_order_def keys_rwc_value_ok
        assert_that_ok split: if_splits)
  then show ?thesis
    using lower_than_limbs16 row_order_bounds(5,6) assms(2,3) by simp
qed

end
