(* ===== verification/Access_Log.thy ===== *)
theory Access_Log
  imports Main
begin

text \<open>
  Logs of reads and writes grouped by the cell they access and, within a cell, sorted by time. A
  log whose neighbouring entries agree (a read repeats the value of the entry before it in the same
  cell, a first read has the initial value) is a correct history of a memory: every read has the
  value of the latest earlier write to its cell.
\<close>

definition latest_write :: "nat set \<Rightarrow> (nat \<Rightarrow> 'k) \<Rightarrow> (nat \<Rightarrow> int) \<Rightarrow> (nat \<Rightarrow> bool) \<Rightarrow> nat \<Rightarrow> nat \<Rightarrow> bool" where
  "latest_write log key time wr i j \<longleftrightarrow>
     j \<in> log \<and> wr j \<and> key j = key i \<and> time j < time i \<and>
     (\<forall>k\<in>log. wr k \<and> key k = key i \<and> time k < time i \<longrightarrow> time k \<le> time j)"

definition no_earlier_write :: "nat set \<Rightarrow> (nat \<Rightarrow> 'k) \<Rightarrow> (nat \<Rightarrow> int) \<Rightarrow> (nat \<Rightarrow> bool) \<Rightarrow> nat \<Rightarrow> bool" where
  "no_earlier_write log key time wr i \<longleftrightarrow> (\<forall>k\<in>log. wr k \<and> key k = key i \<longrightarrow> time i \<le> time k)"

locale access_log =
  fixes log :: "nat set" and key :: "nat \<Rightarrow> 'k" and time :: "nat \<Rightarrow> int" and wr :: "nat \<Rightarrow> bool"
    and val :: "nat \<Rightarrow> 'v" and fresh :: "nat \<Rightarrow> bool"
  assumes grouped: "i \<in> log \<Longrightarrow> j \<in> log \<Longrightarrow> i \<le> m \<Longrightarrow> m \<le> j \<Longrightarrow> key i = key j \<Longrightarrow> m \<in> log \<and> key m = key j"
    and timed: "i \<in> log \<Longrightarrow> j \<in> log \<Longrightarrow> i < j \<Longrightarrow> key i = key j \<Longrightarrow> time i < time j"
    and repeat: "i \<in> log \<Longrightarrow> Suc i \<in> log \<Longrightarrow> key i = key (Suc i) \<Longrightarrow> \<not> wr (Suc i) \<Longrightarrow> val (Suc i) = val i"
    and first: "i \<in> log \<Longrightarrow> \<not> wr i \<Longrightarrow> (\<And>j. Suc j = i \<Longrightarrow> j \<notin> log \<or> key j \<noteq> key i) \<Longrightarrow> fresh i"
begin

lemma earlier_index: "i \<in> log \<Longrightarrow> j \<in> log \<Longrightarrow> key i = key j \<Longrightarrow> time i < time j \<Longrightarrow> i < j"
  using timed by (metis less_asym less_linear)

lemma previous_entry:
  assumes "i \<in> log" "j \<in> log" "key i = key j" "i < j"
  obtains m where "j = Suc m" "m \<in> log" "key m = key j" "i \<le> m"
proof -
  obtain m where m: "j = Suc m" using assms(4) by (cases j) simp_all
  with assms grouped [of i j m] show thesis using that by simp
qed

text \<open>The entry a read takes its value from.\<close>

lemma read_value:
  assumes "i \<in> log" "\<not> wr i"
  shows "(\<exists>j. latest_write log key time wr i j \<and> val i = val j) \<or>
    no_earlier_write log key time wr i \<and> (\<exists>j\<in>log. key j = key i \<and> \<not> wr j \<and> fresh j \<and> val j = val i)"
  using assms
proof (induction i rule: less_induct)
  case (less i)
  show ?case
  proof (cases "\<exists>j. Suc j = i \<and> j \<in> log \<and> key j = key i")
    case False
    then have "fresh i" using first [OF less.prems] by blast
    moreover have "no_earlier_write log key time wr i"
      unfolding no_earlier_write_def
    proof (intro ballI impI)
      fix k assume k: "k \<in> log" "wr k \<and> key k = key i"
      show "time i \<le> time k"
      proof (rule ccontr)
        assume "\<not> time i \<le> time k"
        then have "k < i" using earlier_index [OF k(1) less.prems(1)] k(2) by simp
        then show False using previous_entry [OF k(1) less.prems(1)] k(2) False by blast
      qed
    qed
    ultimately show ?thesis using less.prems by blast
  next
    case True
    then obtain p where p: "Suc p = i" "p \<in> log" "key p = key i" by blast
    have v: "val i = val p" using repeat [of p] p less.prems by simp
    have t: "time p < time i" using timed [OF p(2) less.prems(1)] p by simp
    have before: "time k < time i \<longleftrightarrow> k = p \<or> time k < time p" if "k \<in> log" "key k = key i" for k
    proof (cases "k < p")
      case True
      then show ?thesis using timed [OF that(1) p(2)] that p(3) t by simp
    next
      case False
      then show ?thesis
        using timed [OF p(2) that(1)] timed [OF less.prems(1) that(1)] that p t
        by (cases "k = p"; cases "k = i") auto
    qed
    show ?thesis
    proof (cases "wr p")
      case True
      have "latest_write log key time wr i p"
        unfolding latest_write_def using p True t before by force
      then show ?thesis using v by blast
    next
      case False
      have eq: "latest_write log key time wr i j \<longleftrightarrow> latest_write log key time wr p j" for j
        unfolding latest_write_def using before False p(3) by metis
      have eq': "no_earlier_write log key time wr i \<longleftrightarrow> no_earlier_write log key time wr p"
        unfolding no_earlier_write_def using before False p(3) by (metis not_le)
      show ?thesis using less.IH [of p] p False v eq eq' by auto
    qed
  qed
qed

end

end
