(* ===== verification/State_Consistency.thy ===== *)
theory State_Consistency
  imports State_Order Access_Log
begin

text \<open>
  What a table the state circuit accepts says about memory and stack: every read returns the value
  of the latest write to the same cell, and a read with no earlier write is a memory read of zero.
  The rows of tag \<open>Start\<close> have to come first and the counters have to fit 32 bits, neither of
  which the circuit checks. For rows with storage keys the same does not hold: the order lets
  accesses to two cells interleave, and a read can forget a write.
\<close>

section \<open>Accepted tables\<close>

definition start_rows_first :: "state_row list \<Rightarrow> bool" where
  "start_rows_first rows \<longleftrightarrow>
     (\<forall>i j. i < j \<longrightarrow> j < length rows \<longrightarrow> sr_tag (rows ! j) = FQ 1 \<longrightarrow> sr_tag (rows ! i) = FQ 1)"

definition state_rows_ok :: "state_row list \<Rightarrow> bool" where
  "state_rows_ok rows \<longleftrightarrow>
     (\<forall>r\<in>set rows. state_row_shape r \<and> fq_n (sr_rw_counter r) < 2 ^ 32) \<and> start_rows_first rows"

definition state_table_ok :: "state_row list \<Rightarrow> mpt_row set \<Rightarrow> bool" where
  "state_table_ok rows mpt \<longleftrightarrow> verify_state_circuit rows mpt = Inr () \<and> state_rows_ok rows"

lemma verify_state_circuit_ok:
  "verify_state_circuit rows mpt = Inr () \<longleftrightarrow>
     (\<forall>i<length rows. check_state_row (rows ! i) (rows ! ((i + length rows - 1) mod length rows))
        (rows ! ((i + 1) mod length rows)) mpt = Inr ())"
  by (auto simp: verify_state_circuit_def riter_ok)

lemma previous_index: "Suc i < n \<Longrightarrow> (Suc i + n - 1) mod n = i"
  by simp

lemma state_columns:
  assumes "verify_state_circuit rows mpt = Inr ()" "\<forall>r\<in>set rows. state_row_shape r" "i < length rows"
  shows "row_columns_ok (rows ! i)"
  using assms state_row_columns [of "rows ! i"] nth_mem [of i rows] unfolding verify_state_circuit_ok by blast

lemma state_check_Suc:
  assumes "verify_state_circuit rows mpt = Inr ()" "Suc i < length rows"
  shows "\<exists>nx. check_state_row (rows ! Suc i) (rows ! i) nx mpt = Inr ()"
  using assms previous_index [OF assms(2)] unfolding verify_state_circuit_ok by metis

lemma state_order_step:
  assumes "verify_state_circuit rows mpt = Inr ()" "\<forall>r\<in>set rows. state_row_shape r"
    and "Suc i < length rows" "sr_tag (rows ! Suc i) \<noteq> 1"
  shows "row_order (rows ! i) < row_order (rows ! Suc i)"
  using state_check_Suc [OF assms(1,3)] state_row_order state_columns [OF assms(1,2)] assms(3,4)
  by (metis Suc_lessD)

lemma state_order:
  assumes ver: "verify_state_circuit rows mpt = Inr ()" and sh: "\<forall>r\<in>set rows. state_row_shape r"
    and ij: "i < j" "j < length rows" and ns: "\<And>m. i < m \<Longrightarrow> m \<le> j \<Longrightarrow> sr_tag (rows ! m) \<noteq> 1"
  shows "row_order (rows ! i) < row_order (rows ! j)"
  using ij ns
proof (induction j)
  case (Suc j)
  have step: "row_order (rows ! j) < row_order (rows ! Suc j)"
    by (rule state_order_step [OF ver sh]) (use Suc.prems in simp_all)
  show ?case
  proof (cases "i = j")
    case False
    then have "row_order (rows ! i) < row_order (rows ! j)" using Suc by simp
    then show ?thesis using step by simp
  qed (use step in simp)
qed simp

text \<open>The order cannot close a cycle, so the table has a row of tag \<open>Start\<close>.\<close>

text \<open>
  C23: A table with rows, each with the numbers of limbs and bytes that its type has, that
  the state circuit accepts has a Start row: the order of the other rows cannot close the
  cycle from the last row to the first.
\<close>

lemma state_has_start:
  assumes ver: "verify_state_circuit rows mpt = Inr ()" and sh: "\<forall>r\<in>set rows. state_row_shape r"
    and ne: "rows \<noteq> []"
  shows "\<exists>r\<in>set rows. sr_tag r = FQ (st_int ST_Start)"
proof (rule ccontr)
  assume "\<not> ?thesis"
  then have ns: "sr_tag (rows ! m) \<noteq> 1" if "m < length rows" for m using that by simp
  let ?n = "length rows"
  have n: "0 < ?n" "(0 + ?n - 1) mod ?n = ?n - 1" using ne by simp_all
  have c: "check_state_row (rows ! 0) (rows ! (?n - 1)) (rows ! (1 mod ?n)) mpt = Inr ()"
    using ver n unfolding verify_state_circuit_ok by (metis add_0)
  have "row_order (rows ! (?n - 1)) < row_order (rows ! 0)"
    by (rule state_row_order [OF c]) (use state_columns [OF ver sh] ns n in simp_all)
  moreover have "row_order (rows ! 0) < row_order (rows ! (?n - 1))" if "?n - 1 \<noteq> 0"
    by (rule state_order [OF ver sh]) (use that n(1) in \<open>simp_all add: ns\<close>)
  ultimately show False by (cases "?n - 1 = 0") simp_all
qed

section \<open>The log of memory and stack\<close>

definition low_log :: "state_row list \<Rightarrow> mpt_row set \<Rightarrow> nat set" where
  "low_log rows mpt =
     (if state_table_ok rows mpt then {i. i < length rows \<and> (sr_tag (rows ! i) = FQ 2 \<or> sr_tag (rows ! i) = FQ 3)}
      else {})"

definition cell_of :: "state_row \<Rightarrow> fq \<times> fq \<times> fq" where
  "cell_of r = (sr_tag r, sr_id r, sr_address r)"

lemma low_tags [simp]: "FQ 2 \<noteq> 1" "FQ 3 \<noteq> 1" "FQ 2 \<noteq> FQ 3" "fq_n (FQ 2) = 2" "fq_n (FQ 3) = 3"
  by (simp_all add: fq_eq_iff fq_modulus_def)

lemma state_row_checks:
  assumes "check_state_row r p nx mpt = Inr ()"
  shows "check_tag r p nx mpt = Inr ()"
    and "all_keys_eq r p \<Longrightarrow> sr_is_write r = 0 \<Longrightarrow> wov_word (sr_value r) = wov_word (sr_value p)"
    and "all_keys_eq r p \<Longrightarrow> wov_word (sr_initial_value r) = wov_word (sr_initial_value p)"
    and "sr_tag r \<noteq> FQ 1 \<Longrightarrow> sr_rw_counter r \<noteq> 0"
  using assms by (auto simp: check_state_row_def rbind_ok assert_that_ok split: if_splits)

lemma check_tag_low:
  assumes "check_state_row r p nx mpt = Inr ()"
  shows "sr_tag r = FQ 2 \<Longrightarrow> check_memory r p = Inr ()" "sr_tag r = FQ 3 \<Longrightarrow> check_stack r p = Inr ()"
  using state_row_checks(1) [OF assms] low_tags(3) [THEN not_sym] by (simp_all add: check_tag_def Let_def)

lemma low_row_keys:
  assumes "check_state_row r p nx mpt = Inr ()" "sr_tag r = FQ 2 \<or> sr_tag r = FQ 3"
  shows "sr_field_tag r = 0" "sr_storage_key r = WordLH 0 0"
  using check_tag_low [OF assms(1)] assms(2)
  by (auto simp: check_memory_def check_stack_def rbind_ok assert_that_ok)

lemma low_row_prefix:
  assumes "check_state_row r p nx mpt = Inr ()" "sr_tag r = FQ 2 \<or> sr_tag r = FQ 3"
  shows "row_prefix r = row_base r * 2 ^ 32"
  using low_row_keys [OF assms] by (simp add: row_prefix_def int_value_def)

lemma row_base_cell:
  assumes "row_columns_ok r" "row_columns_ok s"
  shows "row_base r = row_base s \<longleftrightarrow> cell_of r = cell_of s \<and> sr_field_tag r = sr_field_tag s"
proof -
  let ?a = "\<lambda>r. fq_n (sr_tag r) * 2 ^ 28 + fq_n (sr_id r)"
  have split: "row_base r = fq_n (sr_field_tag r) + 2 ^ 16 * (fq_n (sr_address r) + 2 ^ 160 * (fq_n (sr_id r) + 2 ^ 28 * fq_n (sr_tag r)))" for r
    by (simp add: row_base_def)
  show ?thesis
    unfolding split using assms unfolding row_columns_ok_def cell_of_def
    by (subst digit_less(2), simp, simp, simp, simp)
      (subst digit_less(2), simp, simp, simp, simp, subst digit_less(2), simp, simp, simp, simp, auto simp: fq_eq_iff)
qed

lemma prefix_of_order:
  assumes "fq_n (sr_rw_counter r) < 2 ^ 32" "fq_n (sr_rw_counter s) < 2 ^ 32"
  shows "row_order r < row_order s \<longleftrightarrow>
    row_prefix r < row_prefix s \<or> row_prefix r = row_prefix s \<and> fq_n (sr_rw_counter r) < fq_n (sr_rw_counter s)"
proof -
  have split: "row_order r = fq_n (sr_rw_counter r) + 2 ^ 32 * row_prefix r" for r
    by (simp add: row_order_def)
  show ?thesis unfolding split by (rule digit_less(1)) (use assms in simp_all)
qed

lemma tag_decides:
  fixes t u i j a b f g :: int
  assumes "t + 1 \<le> u" "i < 2 ^ 28" "a < 2 ^ 160" "f \<le> 24" "0 \<le> j" "0 \<le> b" "0 \<le> g"
  shows "((t * 2 ^ 28 + i) * 2 ^ 160 + a) * 2 ^ 16 + f < ((u * 2 ^ 28 + j) * 2 ^ 160 + b) * 2 ^ 16 + g"
  using assms by simp

text \<open>
  Between two accesses to one cell of memory or stack there are only accesses to that cell: a row
  in between has the same prefix, so its tag is not larger, so its storage key is zero as well.
\<close>

lemma low_log_facts:
  assumes "i \<in> low_log rows mpt"
  shows "verify_state_circuit rows mpt = Inr ()" "\<forall>r\<in>set rows. state_row_shape r"
    "\<forall>j<length rows. fq_n (sr_rw_counter (rows ! j)) < 2 ^ 32" "start_rows_first rows"
    "i < length rows" "sr_tag (rows ! i) = FQ 2 \<or> sr_tag (rows ! i) = FQ 3" "sr_tag (rows ! i) \<noteq> 1"
    "\<And>m. m < length rows \<Longrightarrow> m \<in> low_log rows mpt \<longleftrightarrow> sr_tag (rows ! m) = FQ 2 \<or> sr_tag (rows ! m) = FQ 3"
    "\<And>m. m < length rows \<Longrightarrow> row_columns_ok (rows ! m)"
    "\<And>m. i \<le> m \<Longrightarrow> m < length rows \<Longrightarrow> sr_tag (rows ! m) \<noteq> 1"
    "\<exists>p nx. check_state_row (rows ! i) p nx mpt = Inr ()"
proof -
  show ver: "verify_state_circuit rows mpt = Inr ()" and sh: "\<forall>r\<in>set rows. state_row_shape r"
    and "\<forall>j<length rows. fq_n (sr_rw_counter (rows ! j)) < 2 ^ 32" and st: "start_rows_first rows"
    and i: "i < length rows" and t: "sr_tag (rows ! i) = FQ 2 \<or> sr_tag (rows ! i) = FQ 3"
    and "\<And>m. m < length rows \<Longrightarrow> m \<in> low_log rows mpt \<longleftrightarrow> sr_tag (rows ! m) = FQ 2 \<or> sr_tag (rows ! m) = FQ 3"
    using assms by (auto simp: low_log_def state_table_ok_def state_rows_ok_def split: if_splits)
  show n1: "sr_tag (rows ! i) \<noteq> 1" using t by auto
  show "\<And>m. m < length rows \<Longrightarrow> row_columns_ok (rows ! m)" by (rule state_columns [OF ver sh])
  show "\<And>m. i \<le> m \<Longrightarrow> m < length rows \<Longrightarrow> sr_tag (rows ! m) \<noteq> 1"
    using st n1 unfolding start_rows_first_def by (metis FQ_1 le_neq_implies_less)
  show "\<exists>p nx. check_state_row (rows ! i) p nx mpt = Inr ()"
    using ver i unfolding verify_state_circuit_ok by blast
qed

lemma low_log_order:
  assumes "i \<in> low_log rows mpt" "i < j" "j < length rows"
  shows "row_prefix (rows ! i) < row_prefix (rows ! j) \<or>
    row_prefix (rows ! i) = row_prefix (rows ! j) \<and>
    fq_n (sr_rw_counter (rows ! i)) < fq_n (sr_rw_counter (rows ! j))"
proof -
  note f = low_log_facts [OF assms(1)]
  have "row_order (rows ! i) < row_order (rows ! j)"
    by (rule state_order [OF f(1,2) assms(2,3)]) (use f(10) assms in simp_all)
  then show ?thesis using prefix_of_order f(3) assms by simp
qed

lemma low_log_prefix:
  assumes "i \<in> low_log rows mpt"
  shows "row_prefix (rows ! i) = row_base (rows ! i) * 2 ^ 32" "sr_field_tag (rows ! i) = 0"
  using low_log_facts(6,11) [OF assms] low_row_prefix low_row_keys(1) by blast+

lemma low_log_grouped:
  assumes i: "i \<in> low_log rows mpt" and j: "j \<in> low_log rows mpt" and m: "i \<le> m" "m \<le> j"
    and cell: "cell_of (rows ! i) = cell_of (rows ! j)"
  shows "m \<in> low_log rows mpt \<and> cell_of (rows ! m) = cell_of (rows ! j)"
proof -
  note f = low_log_facts [OF i]
  have mn: "m < length rows" using m low_log_facts(5) [OF j] by simp
  have pi: "row_prefix (rows ! i) = row_base (rows ! i) * 2 ^ 32" "sr_field_tag (rows ! i) = 0"
    using low_log_prefix [OF i] by simp_all
  have base: "row_base (rows ! i) = row_base (rows ! j)"
    using row_base_cell [OF f(9) f(9), of i j] cell low_log_prefix(2) [OF i] low_log_prefix(2) [OF j]
      f(5) low_log_facts(5) [OF j] by simp
  then have pij: "row_prefix (rows ! i) = row_prefix (rows ! j)"
    using pi low_log_prefix(1) [OF j] by simp
  have pim: "row_prefix (rows ! i) \<le> row_prefix (rows ! m)"
    using low_log_order [OF i, of m] m mn by (cases "i = m") auto
  have tm: "row_prefix (rows ! m) \<le> row_prefix (rows ! j)"
  proof (cases "m = j")
    case False
    have "row_order (rows ! m) < row_order (rows ! j)"
      by (rule state_order [OF f(1,2)]) (use False m low_log_facts(5) [OF j] f(10) in simp_all)
    then show ?thesis using prefix_of_order f(3) mn low_log_facts(5) [OF j] by auto
  qed simp
  have pm: "row_prefix (rows ! m) = row_base (rows ! i) * 2 ^ 32" using pim tm pij pi by simp
  have "row_base (rows ! m) * 2 ^ 32 \<le> row_base (rows ! i) * 2 ^ 32"
    using pm int_value_nonneg [of "sr_storage_key (rows ! m)"] by (simp add: row_prefix_def)
  then have le: "row_base (rows ! m) \<le> row_base (rows ! i)" by simp
  have tag: "fq_n (sr_tag (rows ! m)) \<le> fq_n (sr_tag (rows ! i))"
  proof (rule ccontr)
    assume "\<not> ?thesis"
    then have "fq_n (sr_tag (rows ! i)) + 1 \<le> fq_n (sr_tag (rows ! m))" by simp
    moreover have "row_columns_ok (rows ! i)" using f(5,9) by simp
    ultimately have "row_base (rows ! i) < row_base (rows ! m)"
      unfolding row_base_def row_columns_ok_def by (elim conjE) (rule tag_decides, simp_all)
    then show False using le by simp
  qed
  have cm: "row_columns_ok (rows ! m)" using f(9) mn by simp
  have t1: "fq_n (sr_tag (rows ! m)) \<noteq> 1" using f(10) [OF m(1) mn] by (simp add: fq_eq_iff)
  have "fq_n (sr_tag (rows ! i)) \<le> 3" using f(6) by (auto simp: fq_modulus_def)
  then have "fq_n (sr_tag (rows ! m)) = 2 \<or> fq_n (sr_tag (rows ! m)) = 3"
    using cm tag t1 unfolding row_columns_ok_def by linarith
  then have low: "m \<in> low_log rows mpt"
    using f(8) [OF mn] by (auto simp: fq_eq_iff [of _ "FQ _"] fq_modulus_def)
  have "row_base (rows ! m) = row_base (rows ! j)"
    using pm low_log_prefix(1) [OF low] base by simp
  then show ?thesis
    using row_base_cell [OF cm f(9), of j] low low_log_facts(5) [OF j] by simp
qed

lemma low_log_previous:
  assumes i: "i \<in> low_log rows mpt"
  obtains p nx where "i = Suc p" "check_state_row (rows ! i) (rows ! p) nx mpt = Inr ()"
proof (cases i)
  case 0
  note f = low_log_facts [OF i]
  have "rows \<noteq> []" using f(5) by auto
  then obtain m where "m < length rows" "sr_tag (rows ! m) = 1"
    using state_has_start [OF f(1,2)] by (auto simp: in_set_conv_nth)
  then show thesis using f(10) [of m] 0 by simp
next
  case (Suc p)
  then show thesis using that state_check_Suc low_log_facts(1,5) [OF i] by blast
qed

lemma low_log_keys_eq:
  assumes i: "i \<in> low_log rows mpt" and p: "i = Suc p" "check_state_row (rows ! i) (rows ! p) nx mpt = Inr ()"
  shows "all_keys_eq (rows ! i) (rows ! p) \<longleftrightarrow> p \<in> low_log rows mpt \<and> cell_of (rows ! p) = cell_of (rows ! i)"
proof -
  note f = low_log_facts [OF i]
  have pn: "p < length rows" using f(5) p by simp
  have "sr_field_tag (rows ! m) = 0 \<and> sr_storage_key (rows ! m) = WordLH 0 0" if "m \<in> low_log rows mpt" for m
    using low_log_facts(6,11) [OF that] low_row_keys by blast
  then have "all_keys_eq (rows ! i) (rows ! p) \<longleftrightarrow> cell_of (rows ! p) = cell_of (rows ! i)" if "p \<in> low_log rows mpt"
    using i that by (simp add: all_keys_eq_def cell_of_def) metis
  moreover have "p \<in> low_log rows mpt" if "all_keys_eq (rows ! i) (rows ! p)"
    using that f(6) f(8) [OF pn] by (simp add: all_keys_eq_def)
  ultimately show ?thesis by blast
qed

lemma low_log_first:
  assumes i: "i \<in> low_log rows mpt" and rd: "sr_is_write (rows ! i) \<noteq> 1"
    and new: "\<And>j. Suc j = i \<Longrightarrow> j \<notin> low_log rows mpt \<or> cell_of (rows ! j) \<noteq> cell_of (rows ! i)"
  shows "sr_tag (rows ! i) = FQ 2 \<and> wov_word (sr_value (rows ! i)) = WordLH 0 0"
proof -
  obtain p nx where p: "i = Suc p" and c: "check_state_row (rows ! i) (rows ! p) nx mpt = Inr ()"
    by (rule low_log_previous [OF i])
  have ne: "\<not> all_keys_eq (rows ! i) (rows ! p)"
    using low_log_keys_eq [OF i p c] new p by simp
  have w0: "sr_is_write (rows ! i) = 0"
    using low_log_facts(5,9) [OF i] rd by (auto simp: row_columns_ok_def)
  have "sr_tag (rows ! i) \<noteq> FQ 3"
    using check_tag_low(2) [OF c] ne rd by (auto simp: check_stack_def rbind_ok assert_that_ok)
  then have t: "sr_tag (rows ! i) = FQ 2" using low_log_facts(6) [OF i] by blast
  have "check_memory (rows ! i) (rows ! p) = Inr ()" by (rule check_tag_low(1) [OF c t])
  then have "wov_value (sr_value (rows ! i)) = Inr 0"
    using ne w0 by (auto simp: check_memory_def first_read_zero_def rbind_ok assert_that_ok)
  then show ?thesis using t by (cases "sr_value (rows ! i)") simp_all
qed

interpretation low: access_log "low_log rows mpt" "\<lambda>i. cell_of (rows ! i)" "\<lambda>i. fq_n (sr_rw_counter (rows ! i))"
  "\<lambda>i. sr_is_write (rows ! i) = 1" "\<lambda>i. wov_word (sr_value (rows ! i))"
  "\<lambda>i. sr_tag (rows ! i) = FQ 2 \<and> wov_word (sr_value (rows ! i)) = WordLH 0 0" for rows mpt
proof unfold_locales
  fix i j m
  assume a: "i \<in> low_log rows mpt" "j \<in> low_log rows mpt" "cell_of (rows ! i) = cell_of (rows ! j)"
  show "m \<in> low_log rows mpt \<and> cell_of (rows ! m) = cell_of (rows ! j)" if "i \<le> m" "m \<le> j"
    by (rule low_log_grouped [OF a(1,2) that a(3)])
  show "fq_n (sr_rw_counter (rows ! i)) < fq_n (sr_rw_counter (rows ! j))" if "i < j"
  proof -
    have "row_base (rows ! i) = row_base (rows ! j)"
      using row_base_cell low_log_facts(5,9) [OF a(1)] low_log_facts(5,9) [OF a(2)] low_log_prefix(2) a by metis
    then have "row_prefix (rows ! i) = row_prefix (rows ! j)" using low_log_prefix(1) a(1,2) by metis
    then show ?thesis using low_log_order [OF a(1) that low_log_facts(5) [OF a(2)]] by simp
  qed
next
  fix i
  assume a: "i \<in> low_log rows mpt" "Suc i \<in> low_log rows mpt" "cell_of (rows ! i) = cell_of (rows ! Suc i)"
    "\<not> sr_is_write (rows ! Suc i) = 1"
  obtain nx where c: "check_state_row (rows ! Suc i) (rows ! i) nx mpt = Inr ()"
    using low_log_previous [OF a(2)] by blast
  have "all_keys_eq (rows ! Suc i) (rows ! i)"
    using low_log_keys_eq [OF a(2) refl c] a by simp
  moreover have "sr_is_write (rows ! Suc i) = 0"
    using low_log_facts(5,9) [OF a(2)] a(4) by (auto simp: row_columns_ok_def)
  ultimately show "wov_word (sr_value (rows ! Suc i)) = wov_word (sr_value (rows ! i))"
    by (rule state_row_checks(2) [OF c])
next
  fix i
  assume "i \<in> low_log rows mpt" "\<not> sr_is_write (rows ! i) = 1"
    "\<And>j. Suc j = i \<Longrightarrow> j \<notin> low_log rows mpt \<or> cell_of (rows ! j) \<noteq> cell_of (rows ! i)"
  then show "sr_tag (rows ! i) = FQ 2 \<and> wov_word (sr_value (rows ! i)) = WordLH 0 0"
    by (rule low_log_first)
qed

section \<open>Memory and stack are consistent\<close>

definition earlier_write :: "state_row list \<Rightarrow> nat \<Rightarrow> nat \<Rightarrow> bool" where
  "earlier_write rows i j \<longleftrightarrow>
     j < length rows \<and> sr_is_write (rows ! j) = 1 \<and> all_keys_eq (rows ! j) (rows ! i) \<and>
     fq_n (sr_rw_counter (rows ! j)) < fq_n (sr_rw_counter (rows ! i))"

lemma low_log_same_keys:
  assumes i: "i \<in> low_log rows mpt"
  shows "j < length rows \<and> all_keys_eq (rows ! j) (rows ! i) \<longleftrightarrow>
    j \<in> low_log rows mpt \<and> cell_of (rows ! j) = cell_of (rows ! i)"
proof -
  have zero: "sr_field_tag (rows ! m) = 0 \<and> sr_storage_key (rows ! m) = WordLH 0 0" if "m \<in> low_log rows mpt" for m
    using low_log_facts(6,11) [OF that] low_row_keys by blast
  have "j < length rows \<and> all_keys_eq (rows ! j) (rows ! i) \<longleftrightarrow> cell_of (rows ! j) = cell_of (rows ! i)"
    if "j \<in> low_log rows mpt"
    using zero [OF i] zero [OF that] low_log_facts(5) [OF that] by (simp add: all_keys_eq_def cell_of_def)
  moreover have "j \<in> low_log rows mpt" if "j < length rows" "all_keys_eq (rows ! j) (rows ! i)"
    using that low_log_facts(6,8) [OF i] by (simp add: all_keys_eq_def)
  ultimately show ?thesis by blast
qed

lemma earlier_write_log:
  assumes "i \<in> low_log rows mpt"
  shows "earlier_write rows i j \<longleftrightarrow>
    j \<in> low_log rows mpt \<and> sr_is_write (rows ! j) = 1 \<and> cell_of (rows ! j) = cell_of (rows ! i) \<and>
    fq_n (sr_rw_counter (rows ! j)) < fq_n (sr_rw_counter (rows ! i))"
  unfolding earlier_write_def using low_log_same_keys [OF assms] by blast

lemma low_log_read:
  assumes i: "i \<in> low_log rows mpt" and rd: "sr_is_write (rows ! i) = 0"
  shows "(\<exists>j. earlier_write rows i j \<and>
      (\<forall>k. earlier_write rows i k \<longrightarrow> fq_n (sr_rw_counter (rows ! k)) \<le> fq_n (sr_rw_counter (rows ! j))) \<and>
      wov_word (sr_value (rows ! i)) = wov_word (sr_value (rows ! j))) \<or>
    (\<forall>j. \<not> earlier_write rows i j) \<and> sr_tag (rows ! i) = FQ 2 \<and> wov_word (sr_value (rows ! i)) = WordLH 0 0"
proof -
  have "sr_is_write (rows ! i) \<noteq> 1" using rd by simp
  from low.read_value [OF i this] show ?thesis
  proof (elim disjE exE conjE bexE)
    fix j assume "latest_write (low_log rows mpt) (\<lambda>i. cell_of (rows ! i)) (\<lambda>i. fq_n (sr_rw_counter (rows ! i)))
        (\<lambda>i. sr_is_write (rows ! i) = 1) i j" "wov_word (sr_value (rows ! i)) = wov_word (sr_value (rows ! j))"
    then show ?thesis unfolding earlier_write_log [OF i] latest_write_def by blast
  next
    fix j assume "no_earlier_write (low_log rows mpt) (\<lambda>i. cell_of (rows ! i)) (\<lambda>i. fq_n (sr_rw_counter (rows ! i)))
        (\<lambda>i. sr_is_write (rows ! i) = 1) i" "cell_of (rows ! j) = cell_of (rows ! i)" "sr_tag (rows ! j) = FQ 2"
      "wov_word (sr_value (rows ! j)) = WordLH 0 0" "wov_word (sr_value (rows ! j)) = wov_word (sr_value (rows ! i))"
    then show ?thesis unfolding earlier_write_log [OF i] no_earlier_write_def by (auto simp: cell_of_def)
  qed
qed

lemma state_low_log:
  "verify_state_circuit rows mpt = Inr () \<Longrightarrow>
   \<forall>r\<in>set rows. state_row_shape r \<and> fq_n (sr_rw_counter r) < 2 ^ 32 \<Longrightarrow> start_rows_first rows \<Longrightarrow>
   i < length rows \<Longrightarrow> sr_tag (rows ! i) = FQ 2 \<or> sr_tag (rows ! i) = FQ 3 \<Longrightarrow> i \<in> low_log rows mpt"
  by (simp add: low_log_def state_table_ok_def state_rows_ok_def)

text \<open>
  C19: Memory is consistent: in a table the state circuit accepts, with the Start rows first
  and counters of 32 bits, a memory read returns the value of the latest earlier write to
  its address in its call, and zero when there is none.
\<close>

lemma state_memory_consistent:
  assumes "verify_state_circuit rows mpt = Inr ()"
    and "\<forall>r\<in>set rows. state_row_shape r \<and> fq_n (sr_rw_counter r) < 2 ^ 32" "start_rows_first rows"
    and "i < length rows" "sr_tag (rows ! i) = FQ (st_int ST_Memory)" "sr_is_write (rows ! i) = 0"
  shows "(\<exists>j. earlier_write rows i j \<and>
      (\<forall>k. earlier_write rows i k \<longrightarrow> fq_n (sr_rw_counter (rows ! k)) \<le> fq_n (sr_rw_counter (rows ! j))) \<and>
      wov_word (sr_value (rows ! i)) = wov_word (sr_value (rows ! j))) \<or>
    (\<forall>j. \<not> earlier_write rows i j) \<and> wov_word (sr_value (rows ! i)) = WordLH 0 0"
  using low_log_read [OF state_low_log [OF assms(1-4)] assms(6)] assms(5) by auto

text \<open>
  C20: The stack is consistent: in such a table a stack read is preceded by a write to its
  slot and returns the value of the latest one.
\<close>

lemma state_stack_consistent:
  assumes "verify_state_circuit rows mpt = Inr ()"
    and "\<forall>r\<in>set rows. state_row_shape r \<and> fq_n (sr_rw_counter r) < 2 ^ 32" "start_rows_first rows"
    and "i < length rows" "sr_tag (rows ! i) = FQ (st_int ST_Stack)" "sr_is_write (rows ! i) = 0"
  shows "\<exists>j. earlier_write rows i j \<and>
      (\<forall>k. earlier_write rows i k \<longrightarrow> fq_n (sr_rw_counter (rows ! k)) \<le> fq_n (sr_rw_counter (rows ! j))) \<and>
      wov_word (sr_value (rows ! i)) = wov_word (sr_value (rows ! j))"
  using low_log_read [OF state_low_log [OF assms(1-4)] assms(6)] assms(5) low_tags(3) by auto

end
