(* ===== verification/State_Assign.thy ===== *)
theory State_Assign
  imports State_Consistency
begin

text \<open>
  The layout of a list of operations as rows of the state circuit: the classes \<open>StartOp\<close> to
  \<open>TxReceiptOp\<close>, \<open>op2row\<close>, the mocked updates of the state trie and \<open>assign_state_circuit\<close> of
  \<^verbatim>\<open>src/zkevm_specs/state_circuit.py\<close>. The columns of a laid-out row decode to the keys of
  its operation.
\<close>

section \<open>Operations\<close>

text \<open>
  The field tag is an integer; \<open>_mock_mpt_updates\<close> asks whether it is a member of
  \<open>AccountFieldTag\<close>, so a member is kept as such.
\<close>

datatype op_field_tag = AccountTag account_field_tag | OtherTag int

primrec field_tag_int :: "op_field_tag \<Rightarrow> int" where
  "field_tag_int (AccountTag t) = af_int t"
| "field_tag_int (OtherTag n) = n"

record operation =
  op_rw_counter :: int
  op_rw :: rw
  op_tag :: int
  op_id :: int
  op_address :: int
  op_field_tag :: op_field_tag
  op_storage_key :: int
  op_value :: word_or_value
  op_initial_value :: word_or_value
  op_selector :: int
  op_is_start :: bool

definition StartOp :: "int \<Rightarrow> rw \<Rightarrow> int \<Rightarrow> operation" where
  "StartOp rw_counter rw selector =
     \<lparr>op_rw_counter = rw_counter, op_rw = rw, op_tag = st_int ST_Start, op_id = 0, op_address = 0,
      op_field_tag = OtherTag 0, op_storage_key = 0, op_value = ValueV (FQ 0),
      op_initial_value = ValueV (FQ 0), op_selector = selector, op_is_start = True\<rparr>"

definition state_op ::
  "int \<Rightarrow> rw \<Rightarrow> state_tag \<Rightarrow> int \<Rightarrow> int \<Rightarrow> op_field_tag \<Rightarrow> int \<Rightarrow> word_or_value \<Rightarrow> word_or_value \<Rightarrow> operation" where
  "state_op rw_counter rw tag i addr field_tag key v initial_value =
     \<lparr>op_rw_counter = rw_counter, op_rw = rw, op_tag = st_int tag, op_id = i, op_address = addr,
      op_field_tag = field_tag, op_storage_key = key, op_value = v,
      op_initial_value = initial_value, op_selector = 1, op_is_start = False\<rparr>"

definition MemoryOp :: "int \<Rightarrow> rw \<Rightarrow> int \<Rightarrow> int \<Rightarrow> int \<Rightarrow> operation" where
  "MemoryOp rw_counter rw call_id mem_addr v =
     state_op rw_counter rw ST_Memory call_id mem_addr (OtherTag 0) 0 (ValueV (FQ v)) (ValueV (FQ 0))"

definition StackOp :: "int \<Rightarrow> rw \<Rightarrow> int \<Rightarrow> int \<Rightarrow> word256 \<Rightarrow> operation" where
  "StackOp rw_counter rw call_id stack_ptr v =
     state_op rw_counter rw ST_Stack call_id stack_ptr (OtherTag 0) 0 (WordV v) (ValueV (FQ 0))"

definition StorageOp :: "int \<Rightarrow> rw \<Rightarrow> int \<Rightarrow> int \<Rightarrow> int \<Rightarrow> word256 \<Rightarrow> word256 \<Rightarrow> operation" where
  "StorageOp rw_counter rw tx_id addr key v committed_value =
     state_op rw_counter rw ST_Storage tx_id addr (OtherTag 0) key (WordV v) (WordV committed_value)"

definition CallContextOp :: "int \<Rightarrow> rw \<Rightarrow> int \<Rightarrow> call_context_field_tag \<Rightarrow> word_or_value \<Rightarrow> operation" where
  "CallContextOp rw_counter rw call_id field_tag v =
     state_op rw_counter rw ST_CallContext call_id 0 (OtherTag (cc_int field_tag)) 0 v (ValueV (FQ 0))"

definition AccountOp :: "int \<Rightarrow> rw \<Rightarrow> int \<Rightarrow> account_field_tag \<Rightarrow> word_or_value \<Rightarrow> word_or_value \<Rightarrow> operation" where
  "AccountOp rw_counter rw addr field_tag v committed_value =
     state_op rw_counter rw ST_Account 0 addr (AccountTag field_tag) 0 v committed_value"

definition TxRefundOp :: "int \<Rightarrow> rw \<Rightarrow> int \<Rightarrow> word_or_value \<Rightarrow> operation" where
  "TxRefundOp rw_counter rw tx_id v =
     state_op rw_counter rw ST_TxRefund tx_id 0 (OtherTag 0) 0 v (ValueV (FQ 0))"

definition TxAccessListAccountOp :: "int \<Rightarrow> rw \<Rightarrow> int \<Rightarrow> int \<Rightarrow> fq \<Rightarrow> operation" where
  "TxAccessListAccountOp rw_counter rw tx_id addr v =
     state_op rw_counter rw ST_TxAccessListAccount tx_id addr (OtherTag 0) 0 (ValueV v) (ValueV (FQ 0))"

definition TxAccessListAccountStorageOp :: "int \<Rightarrow> rw \<Rightarrow> int \<Rightarrow> int \<Rightarrow> int \<Rightarrow> fq \<Rightarrow> operation" where
  "TxAccessListAccountStorageOp rw_counter rw tx_id addr key v =
     state_op rw_counter rw ST_TxAccessListAccountStorage tx_id addr (OtherTag 0) key (ValueV v) (ValueV (FQ 0))"

definition TxLogOp :: "int \<Rightarrow> rw \<Rightarrow> int \<Rightarrow> int \<Rightarrow> tx_log_field_tag \<Rightarrow> int \<Rightarrow> word_or_value \<Rightarrow> operation" where
  "TxLogOp rw_counter rw tx_id log_id field_tag index v =
     state_op rw_counter rw ST_TxLog tx_id log_id (OtherTag (tl_int field_tag)) index v (ValueV (FQ 0))"

definition TxReceiptOp :: "int \<Rightarrow> rw \<Rightarrow> int \<Rightarrow> tx_receipt_field_tag \<Rightarrow> fq \<Rightarrow> operation" where
  "TxReceiptOp rw_counter rw tx_id field_tag v =
     state_op rw_counter rw ST_TxReceipt tx_id 0 (OtherTag (tr_int field_tag)) 0 (ValueV v) (ValueV (FQ 0))"

section \<open>Rows of operations\<close>

definition op2row :: "operation \<Rightarrow> word256 \<Rightarrow> state_row result" where
  "op2row oper root =
     rbind (to_bytes_le (op_address oper) 20) (\<lambda>address_bytes.
     rbind (word_of_int256 (op_storage_key oper)) (\<lambda>storage_key.
     rbind (to_bytes_le (op_storage_key oper) 32) (\<lambda>key_bytes.
     Inr \<lparr>sr_rw_counter = FQ (op_rw_counter oper),
          sr_is_write = (if op_rw oper = RW_Read then FQ 0 else FQ 1),
          sr_tag = FQ (op_tag oper), sr_id = FQ (op_id oper), sr_address = FQ (op_address oper),
          sr_field_tag = FQ (field_tag_int (op_field_tag oper)), sr_storage_key = storage_key,
          sr_address_limbs = map (\<lambda>i. FQ (address_bytes ! (2 * i) + 2 ^ 8 * address_bytes ! (2 * i + 1))) [0..<10],
          sr_storage_key_bytes = map FQ key_bytes,
          sr_value = op_value oper, sr_initial_value = op_initial_value oper, sr_root = root,
          sr_selector = FQ (op_selector oper)\<rparr>)))"

type_synonym mpt_key = "fq \<times> fq \<times> fq \<times> fq"

definition mpt_key_of :: "operation \<Rightarrow> mpt_key option result" where
  "mpt_key_of oper =
     (if op_tag oper \<noteq> st_int ST_Account \<and> op_tag oper \<noteq> st_int ST_Storage then Inr None
      else rbind (word_of_int256 (op_storage_key oper)) (\<lambda>storage_key.
        Inr (Some (FQ (op_address oper), FQ (field_tag_int (op_field_tag oper)), lo storage_key, hi storage_key))))"

text \<open>The dictionary is kept in the order of insertion; keys are inserted once.\<close>

fun mock_updates_from :: "int \<Rightarrow> (mpt_key \<times> mpt_row) list \<Rightarrow> operation list \<Rightarrow> (mpt_key \<times> mpt_row) list result" where
  "mock_updates_from root mpt_map [] = Inr mpt_map"
| "mock_updates_from root mpt_map (oper # ops) =
     rbind (mpt_key_of oper) (\<lambda>key.
     case key of
       None \<Rightarrow> mock_updates_from root mpt_map ops
     | Some mpt_key \<Rightarrow>
         if map_of mpt_map mpt_key \<noteq> None then mock_updates_from root mpt_map ops
         else
           let proof_type = (case op_field_tag oper of AccountTag t \<Rightarrow> from_account_field_tag t
               | OtherTag n \<Rightarrow> MPT_StorageMod);
             new_root = (if op_is_start oper then root else root + 5) in
           rbind (word_of_int256 (op_storage_key oper)) (\<lambda>storage_key.
           rbind (word_of_int256 new_root) (\<lambda>new_word.
           rbind (word_of_int256 root) (\<lambda>root_word.
           rbind (word_of_int256 (int_value (wov_word (op_value oper)))) (\<lambda>v.
           rbind (word_of_int256 (int_value (wov_word (op_initial_value oper)))) (\<lambda>iv.
           mock_updates_from new_root
             (mpt_map @ [(mpt_key, \<lparr>mp_address = FQ (op_address oper), mp_proof_type = FQ (mpt_int proof_type),
                mp_storage_key = storage_key, mp_root = new_word, mp_root_prev = root_word,
                mp_value = v, mp_value_prev = iv\<rparr>)]) ops))))))"

definition mock_mpt_updates :: "operation list \<Rightarrow> (mpt_key \<times> mpt_row) list result" where
  "mock_mpt_updates ops = mock_updates_from 3 [] ops"

definition mpt_table_from_ops :: "operation list \<Rightarrow> mpt_row set result" where
  "mpt_table_from_ops ops = rbind (mock_mpt_updates ops) (\<lambda>m. Inr (set (map snd m)))"

text \<open>Every root that is not given is the next one given, and after the last one the final root.\<close>

fun fill_roots :: "word256 \<Rightarrow> word256 option list \<Rightarrow> word256 list" where
  "fill_roots final [] = []"
| "fill_roots final (maybe_root # roots) =
     (let rest = fill_roots final roots;
        root = (case rest of [] \<Rightarrow> final | r # _ \<Rightarrow> r) in
      (case maybe_root of None \<Rightarrow> root | Some r \<Rightarrow> r) # rest)"

definition assign_state_circuit :: "operation list \<Rightarrow> state_row list result" where
  "assign_state_circuit ops =
     rbind (mock_mpt_updates ops) (\<lambda>mpt_updates.
     rbind (rmap mpt_key_of ops) (\<lambda>mpt_keys.
     let updates = map (\<lambda>key. case key of None \<Rightarrow> None | Some k \<Rightarrow> map_of mpt_updates k) mpt_keys;
       roots = map (map_option mp_root_prev) updates in
     rbind (word_of_int256 (3 + 5 * int (length mpt_updates))) (\<lambda>final_root.
     let roots = fill_roots final_root (roots @ [Some final_root]) in
     rmap (\<lambda>(oper, root). op2row oper root) (zip ops (tl roots)))))"

section \<open>Laid-out rows decode to their operations\<close>

lemma pair_bytes:
  assumes "0 \<le> x" "i < 10"
  shows "le_bytes 20 x ! (2 * i) + 2 ^ 8 * le_bytes 20 x ! (2 * i + 1) = x div 2 ^ (16 * i) mod 2 ^ 16"
proof -
  have p: "(256::int) ^ (2 * i) = 2 ^ (16 * i)" "(256::int) ^ (2 * i + 1) = 2 ^ (16 * i) * 2 ^ 8"
    by (simp_all add: power_mult)
  have "x div 256 ^ (2 * i) mod 256 + 2 ^ 8 * (x div 256 ^ (2 * i + 1) mod 256) = x div 2 ^ (16 * i) mod 2 ^ 16"
    unfolding p by (simp add: zdiv_zmult2_eq zmod_zmult2_eq [of 256 _ 256, simplified])
  then show ?thesis using assms by (simp add: le_bytes_nth)
qed

definition laid_row :: "operation \<Rightarrow> word256 \<Rightarrow> state_row" where
  "laid_row oper root =
     \<lparr>sr_rw_counter = FQ (op_rw_counter oper), sr_is_write = fq_of_bool (op_rw oper = RW_Write),
      sr_tag = FQ (op_tag oper), sr_id = FQ (op_id oper), sr_address = FQ (op_address oper),
      sr_field_tag = FQ (field_tag_int (op_field_tag oper)), sr_storage_key = word_of (op_storage_key oper),
      sr_address_limbs = limbs16 10 (op_address oper),
      sr_storage_key_bytes = map FQ (le_bytes 32 (op_storage_key oper)),
      sr_value = op_value oper, sr_initial_value = op_initial_value oper, sr_root = root,
      sr_selector = FQ (op_selector oper)\<rparr>"

lemma op2row_ok:
  "op2row oper root = Inr row \<longleftrightarrow>
     0 \<le> op_address oper \<and> op_address oper < 2 ^ 160 \<and> 0 \<le> op_storage_key oper \<and>
     op_storage_key oper < 2 ^ 256 \<and> row = laid_row oper root"
proof -
  have limbs: "map (\<lambda>i. FQ (le_bytes 20 x ! (2 * i) + 2 ^ 8 * le_bytes 20 x ! (2 * i + 1))) [0..<10] = limbs16 10 x"
    if "0 \<le> x" for x
    unfolding limbs16_def by (rule map_cong [OF refl]) (simp only: pair_bytes [OF that] set_upt atLeastLessThan_iff)
  have wr: "(if op_rw oper = RW_Read then FQ 0 else FQ 1) = fq_of_bool (op_rw oper = RW_Write)"
    by (cases "op_rw oper") simp_all
  show ?thesis
    unfolding op2row_def rbind_ok to_bytes_le_ok word_of_int256_ok laid_row_def wr
    using limbs by (auto simp: simp del: le_bytes.simps)
qed

definition operation_ok :: "operation \<Rightarrow> bool" where
  "operation_ok oper \<longleftrightarrow>
     1 \<le> op_tag oper \<and> op_tag oper \<le> 12 \<and> 0 \<le> op_id oper \<and> op_id oper < 2 ^ 28 \<and>
     0 \<le> op_address oper \<and> op_address oper < 2 ^ 160 \<and>
     0 \<le> field_tag_int (op_field_tag oper) \<and> field_tag_int (op_field_tag oper) \<le> 24 \<and>
     0 \<le> op_storage_key oper \<and> op_storage_key oper < 2 ^ 256"

lemma laid_row_facts:
  assumes "operation_ok oper"
  shows "state_row_shape (laid_row oper root)" "check_key_columns (laid_row oper root) = Inr ()"
    "fq_n (sr_tag (laid_row oper root)) = op_tag oper" "fq_n (sr_id (laid_row oper root)) = op_id oper"
    "fq_n (sr_address (laid_row oper root)) = op_address oper"
    "fq_n (sr_field_tag (laid_row oper root)) = field_tag_int (op_field_tag oper)"
    "int_value (sr_storage_key (laid_row oper root)) = op_storage_key oper"
proof -
  note ok = assms [unfolded operation_ok_def]
  note key = word_of_ok [of "op_storage_key oper"]
  show shape: "state_row_shape (laid_row oper root)"
    by (simp add: state_row_shape_def laid_row_def limbs16_def del: le_bytes.simps)
  show n: "fq_n (sr_tag (laid_row oper root)) = op_tag oper" "fq_n (sr_id (laid_row oper root)) = op_id oper"
    "fq_n (sr_address (laid_row oper root)) = op_address oper"
    "fq_n (sr_field_tag (laid_row oper root)) = field_tag_int (op_field_tag oper)"
    "int_value (sr_storage_key (laid_row oper root)) = op_storage_key oper"
    using ok key by (simp_all add: laid_row_def fq_modulus_def)
  have limbs: "\<forall>x\<in>set (limbs16 10 (op_address oper)). fq_n x < 2 ^ 16"
    using limbs16_ok [of 10 "op_address oper"] by (simp add: limbs_ok_def)
  have addr: "limbs_val (2 ^ 16) (map fq_n (limbs16 10 (op_address oper))) = op_address oper"
    using limbs16_val [of "op_address oper" 10] ok by simp
  let ?bs = "map FQ (le_bytes 32 (op_storage_key oper))"
  have byte: "fq_n b < 256" if mem: "b \<in> set ?bs" for b
  proof -
    obtain x where x: "x \<in> set (le_bytes 32 (op_storage_key oper))" "b = FQ x"
      using mem by (auto simp del: le_bytes.simps)
    have "is_byte x" by (rule le_bytes_is_byte [OF x(1)])
    then show ?thesis using x(2) fq_n_FQ_byte [of x] by (simp add: is_byte_def)
  qed
  have low: "take 16 ?bs = map FQ (le_bytes 16 (op_storage_key oper))"
    and high: "take 16 (drop 16 ?bs) = map FQ (le_bytes 16 (op_storage_key oper div 2 ^ 128))"
    by (simp_all add: take_map drop_map take_le_bytes drop_le_bytes del: le_bytes.simps)
  note val = fq_n_le_bytes
  have dv: "op_storage_key oper div 2 ^ 128 < 2 ^ 128"
    using ok by (intro int_div_lt) simp_all
  have lows: "le_val (map fq_n (take 16 ?bs)) = op_storage_key oper mod 2 ^ 128"
    unfolding low val by simp
  have highs: "le_val (map fq_n (take 16 (drop 16 ?bs))) = op_storage_key oper div 2 ^ 128"
    unfolding high val using ok dv by (simp add: pos_imp_zdiv_nonneg_iff)
  have t: "\<forall>l\<in>set (take 16 ?bs). fq_n l < 256" "\<forall>l\<in>set (take 16 (drop 16 ?bs)). fq_n l < 256"
    using byte in_set_takeD in_set_dropD by metis+
  have fields: "sr_address_limbs (laid_row oper root) = limbs16 10 (op_address oper)"
    "sr_storage_key_bytes (laid_row oper root) = ?bs" "sr_storage_key (laid_row oper root) = word_of (op_storage_key oper)"
    "sr_address (laid_row oper root) = FQ (op_address oper)"
    "sr_is_write (laid_row oper root) = 0 \<or> sr_is_write (laid_row oper root) = 1"
    by (simp_all add: laid_row_def fq_of_bool_def)
  have lc: "linear_combine_bytes (limbs16 10 (op_address oper)) (FQ (2 ^ 16)) False = Inr (FQ (op_address oper))"
    "linear_combine_bytes (take 16 ?bs) (FQ 256) True = Inr (FQ (op_storage_key oper mod 2 ^ 128))"
    "linear_combine_bytes (take 16 (drop 16 ?bs)) (FQ 256) True = Inr (FQ (op_storage_key oper div 2 ^ 128))"
    unfolding linear_combine_bytes_ok limbs_val_256 addr lows highs using t by simp_all
  have wt: "word_of_tuple (FQ (op_storage_key oper mod 2 ^ 128)) (FQ (op_storage_key oper div 2 ^ 128)) =
      Inr (word_of (op_storage_key oper))"
    using key ok by (simp add: word_of_tuple_ok word_of_def)
  have ranges: "assert_in_range (sr_tag (laid_row oper root)) 1 12 = Inr ()"
    "assert_in_range (sr_id (laid_row oper root)) 0 (2 ^ 28 - 1) = Inr ()"
    "assert_in_range (sr_field_tag (laid_row oper root)) 0 24 = Inr ()"
    "riter (\<lambda>limb. assert_in_range limb 0 (2 ^ 16 - 1)) (limbs16 10 (op_address oper)) = Inr ()"
    using ok limbs by (auto simp: assert_in_range_def assert_that_ok riter_ok n)
  show "check_key_columns (laid_row oper root) = Inr ()"
    unfolding check_key_columns_def fields(1-4) ranges rbind_simps lc wt
    using fields(5) by auto
qed

text \<open>
  C24: Laying out an operation in range and reading its row back: the row passes the column
  checks, and its columns give back tag, id, address, field tag, storage key, direction and
  value.
\<close>

lemma op2row_decodes:
  assumes "op2row oper root = Inr row"
    and "1 \<le> op_tag oper" "op_tag oper \<le> 12" "0 \<le> op_id oper" "op_id oper < 2 ^ 28"
    and "0 \<le> field_tag_int (op_field_tag oper)" "field_tag_int (op_field_tag oper) \<le> 24"
  shows "state_row_shape row \<and> check_key_columns row = Inr () \<and>
    fq_n (sr_tag row) = op_tag oper \<and> fq_n (sr_id row) = op_id oper \<and> fq_n (sr_address row) = op_address oper \<and>
    fq_n (sr_field_tag row) = field_tag_int (op_field_tag oper) \<and>
    int_value (sr_storage_key row) = op_storage_key oper \<and>
    (sr_is_write row = 1 \<longleftrightarrow> op_rw oper = RW_Write) \<and> sr_value row = op_value oper"
proof -
  have ok: "operation_ok oper" and row: "row = laid_row oper root"
    using assms by (simp_all add: op2row_ok operation_ok_def)
  show ?thesis
    unfolding row using laid_row_facts [OF ok] by (simp add: laid_row_def)
qed

end
