(* ===== verification/State_Sample.thy ===== *)
theory State_Sample
  imports State_Assign
begin

text \<open>
  Concrete tables of the state circuit, laid out from operations: a history of memory and stack,
  which witnesses the theorems on their consistency, and a history of the storage access list that
  the circuit accepts although a read returns zero after a write of one.
\<close>

definition op_order :: "operation \<Rightarrow> int" where
  "op_order oper =
     ((((op_tag oper * 2 ^ 28 + op_id oper) * 2 ^ 160 + op_address oper) * 2 ^ 16
        + field_tag_int (op_field_tag oper)) * 2 ^ 32 + op_storage_key oper) * 2 ^ 32 + op_rw_counter oper"

definition operation_timed :: "operation \<Rightarrow> bool" where
  "operation_timed oper \<longleftrightarrow> operation_ok oper \<and> 0 < op_rw_counter oper \<and> op_rw_counter oper < 2 ^ 32"

definition op_keys :: "operation \<Rightarrow> int \<times> int \<times> int \<times> int \<times> int" where
  "op_keys oper = (op_tag oper, op_id oper, op_address oper, field_tag_int (op_field_tag oper), op_storage_key oper)"

lemma laid_row_rwc:
  assumes "operation_timed oper"
  shows "fq_n (sr_rw_counter (laid_row oper root)) = op_rw_counter oper" "sr_rw_counter (laid_row oper root) \<noteq> 0"
  using assms by (simp_all add: operation_timed_def laid_row_def fq_eq_iff fq_modulus_def)

lemma laid_row_order:
  assumes "operation_timed oper"
  shows "row_order (laid_row oper root) = op_order oper"
proof -
  have ok: "operation_ok oper" using assms by (simp add: operation_timed_def)
  show ?thesis
    unfolding row_order_def row_prefix_def row_base_def op_order_def laid_row_facts [OF ok] laid_row_rwc(1) [OF assms] ..
qed

lemma laid_row_keys_eq:
  assumes "operation_ok x" "operation_ok y"
  shows "all_keys_eq (laid_row x root) (laid_row y root') \<longleftrightarrow> op_keys x = op_keys y"
proof -
  have "word_ok (sr_storage_key (laid_row z r))" if "operation_ok z" for z r
    using key_columns_ok laid_row_facts(1,2) [OF that] by (metis row_columns_ok_def)
  then show ?thesis
    using assms unfolding all_keys_eq_def op_keys_def
    by (simp add: fq_eq_iff laid_row_facts int_value_inject [symmetric])
qed

lemma laid_row_tag:
  "operation_ok x \<Longrightarrow> sr_tag (laid_row x root) = FQ (st_int t) \<longleftrightarrow> op_tag x = st_int t"
  unfolding fq_eq_iff laid_row_facts(3) by (cases t) (simp_all add: fq_modulus_def)

lemma laid_row_accepted:
  assumes x: "operation_timed x" and y: "operation_timed y"
  shows "check_state_row (laid_row x root) (laid_row y root') nx mpt = Inr () \<longleftrightarrow>
    (op_tag x \<noteq> 1 \<longrightarrow> op_order y < op_order x) \<and>
    (op_rw x = RW_Read \<and> op_keys x = op_keys y \<longrightarrow> wov_word (op_value x) = wov_word (op_value y)) \<and>
    (op_keys x = op_keys y \<longrightarrow> wov_word (op_initial_value x) = wov_word (op_initial_value y)) \<and>
    check_tag (laid_row x root) (laid_row y root') nx mpt = Inr ()"
proof -
  have ok: "operation_ok x" "operation_ok y" using x y by (simp_all add: operation_timed_def)
  have cols: "row_columns_ok (laid_row x root)" "row_columns_ok (laid_row y root')"
    using ok laid_row_facts(1,2) key_columns_ok by blast+
  have t: "sr_tag (laid_row x root) = FQ 1 \<longleftrightarrow> op_tag x = 1"
    using laid_row_tag [OF ok(1), of root ST_Start] by simp
  have lt: "lower_than (limbs16 31 (row_order (laid_row y root'))) (limbs16 31 (row_order (laid_row x root))) \<longleftrightarrow>
      op_order y < op_order x"
    using lower_than_limbs16 row_order_bounds(5,6) [OF cols(1)] row_order_bounds(5,6) [OF cols(2)]
    by (simp add: laid_row_order x y)
  have w: "sr_is_write (laid_row x root) = 0 \<longleftrightarrow> op_rw x = RW_Read"
    by (cases "op_rw x") (simp_all add: laid_row_def)
  have vals: "sr_value (laid_row x root) = op_value x" "sr_initial_value (laid_row x root) = op_initial_value x"
    for x root by (simp_all add: laid_row_def)
  show ?thesis
    using t lt w laid_row_rwc(2) [OF x]
    by (auto simp: check_state_row_def laid_row_facts(2) [OF ok(1)] keys_rwc_to_limbs_in_order_def
        keys_rwc_value_ok [OF cols(1)] keys_rwc_value_ok [OF cols(2)] rbind_ok assert_that_ok vals
        laid_row_keys_eq [OF ok] simp del: FQ_1 split: if_splits)
qed

definition laid_pair_ok :: "mpt_row set \<Rightarrow> word256 \<Rightarrow> operation \<Rightarrow> operation \<Rightarrow> operation \<Rightarrow> bool" where
  "laid_pair_ok mpt root y x z \<longleftrightarrow>
     (op_tag x \<noteq> 1 \<longrightarrow> op_order y < op_order x) \<and>
     (op_rw x = RW_Read \<and> op_keys x = op_keys y \<longrightarrow> wov_word (op_value x) = wov_word (op_value y)) \<and>
     (op_keys x = op_keys y \<longrightarrow> wov_word (op_initial_value x) = wov_word (op_initial_value y)) \<and>
     check_tag (laid_row x root) (laid_row y root) (laid_row z root) mpt = Inr ()"

lemma laid_table_accepted:
  assumes timed: "list_all operation_timed ops"
    and pairs: "list_all (\<lambda>(y, x, z). laid_pair_ok mpt root y x z) (zip (last ops # ops) (zip ops (rotate1 ops)))"
  shows "verify_state_circuit (map (\<lambda>x. laid_row x root) ops) mpt = Inr ()"
  unfolding verify_state_circuit_ok length_map
proof (intro allI impI)
  fix i assume i: "i < length ops"
  let ?n = "length ops"
  let ?y = "ops ! ((i + ?n - 1) mod ?n)" and ?z = "ops ! ((i + 1) mod ?n)"
  have idx: "(i + ?n - 1) mod ?n < ?n" "(i + 1) mod ?n < ?n" using i by (auto intro!: mod_less_divisor)
  have prev: "(last ops # ops) ! i = ?y"
  proof (cases i)
    case 0
    then show ?thesis using i by (simp add: last_conv_nth)
  next
    case (Suc j)
    then show ?thesis using i by simp
  qed
  have "rotate1 ops ! i = ?z"
    using i by (simp add: nth_rotate1)
  with prev have "zip (last ops # ops) (zip ops (rotate1 ops)) ! i = (?y, ops ! i, ?z)" using i by simp
  moreover have "i < length (zip (last ops # ops) (zip ops (rotate1 ops)))" using i by simp
  ultimately have "laid_pair_ok mpt root ?y (ops ! i) ?z"
    using pairs unfolding list_all_length by (metis (no_types, lifting) case_prod_conv)
  moreover have "operation_timed (ops ! i)" "operation_timed ?y"
    using timed i idx by (simp_all add: list_all_length)
  ultimately show "check_state_row (map (\<lambda>x. laid_row x root) ops ! i)
      (map (\<lambda>x. laid_row x root) ops ! ((i + ?n - 1) mod ?n)) (map (\<lambda>x. laid_row x root) ops ! ((i + 1) mod ?n)) mpt = Inr ()"
    using i idx by (simp add: laid_row_accepted laid_pair_ok_def)
qed

section \<open>A history of memory and stack\<close>

definition state_sample_ops :: "operation list" where
  "state_sample_ops =
     [StartOp 1 RW_Read 0, MemoryOp 1 RW_Write 1 0 42, MemoryOp 4 RW_Read 1 0 42, MemoryOp 5 RW_Read 1 1 0,
      StackOp 2 RW_Write 1 1023 (word_of 7), StackOp 3 RW_Read 1 1023 (word_of 7)]"

definition state_sample :: "state_row list" where
  "state_sample = map (\<lambda>oper. laid_row oper (word_of 3)) state_sample_ops"

lemma state_sample_timed: "list_all operation_timed state_sample_ops"
  by (simp add: state_sample_ops_def operation_timed_def operation_ok_def StartOp_def MemoryOp_def StackOp_def state_op_def)

lemma state_sample_rows: "\<forall>r\<in>set state_sample. state_row_shape r \<and> fq_n (sr_rw_counter r) < 2 ^ 32"
proof -
  have "state_row_shape (laid_row x root) \<and> fq_n (sr_rw_counter (laid_row x root)) < 2 ^ 32" if "operation_timed x" for x root
    using that laid_row_facts(1) [of x root] laid_row_rwc(1) [OF that] by (simp add: operation_timed_def)
  then show ?thesis
    using state_sample_timed by (auto simp: state_sample_def list_all_iff)
qed

text \<open>The table the repository lays out for these operations is this one.\<close>

lemma state_sample_assigned: "assign_state_circuit state_sample_ops = Inr state_sample"
  by (simp add: assign_state_circuit_def mock_mpt_updates_def state_sample_ops_def mpt_key_of_def StartOp_def
      MemoryOp_def StackOp_def state_op_def rbind_ok word_of_int256_Inr op2row_ok state_sample_def)

lemmas operation_defs = StartOp_def MemoryOp_def StackOp_def TxAccessListAccountStorageOp_def state_op_def

lemmas laid_check_simps = check_tag_def Let_def laid_row_def check_start_def check_memory_def check_stack_def
  check_tx_access_list_account_storage_def no_high_half_def first_read_zero_def all_keys_eq_def
  assert_in_range_def same_root_def initial_zero_word_def rbind_simps fq_eq_iff fq_modulus_def word_of_def
  operation_defs

lemma state_sample_accepted: "verify_state_circuit state_sample {} = Inr ()"
  unfolding state_sample_def
  by (rule laid_table_accepted [OF state_sample_timed])
    (simp add: state_sample_ops_def laid_pair_ok_def op_order_def op_keys_def laid_check_simps del: le_bytes.simps)

lemma state_sample_start: "start_rows_first state_sample"
  by (auto simp: start_rows_first_def state_sample_def state_sample_ops_def laid_row_def operation_defs nth_Cons
      fq_eq_iff fq_modulus_def split: nat.splits)

lemma state_memory_consistent_witness:
  "(\<exists>j. earlier_write state_sample 2 j \<and>
      (\<forall>k. earlier_write state_sample 2 k \<longrightarrow>
         fq_n (sr_rw_counter (state_sample ! k)) \<le> fq_n (sr_rw_counter (state_sample ! j))) \<and>
      wov_word (sr_value (state_sample ! 2)) = wov_word (sr_value (state_sample ! j))) \<or>
    (\<forall>j. \<not> earlier_write state_sample 2 j) \<and> wov_word (sr_value (state_sample ! 2)) = WordLH 0 0"
  by (rule state_memory_consistent [OF state_sample_accepted state_sample_rows state_sample_start])
    (simp_all add: state_sample_def state_sample_ops_def laid_row_def operation_defs)

lemma state_stack_consistent_witness:
  "\<exists>j. earlier_write state_sample 5 j \<and>
      (\<forall>k. earlier_write state_sample 5 k \<longrightarrow>
         fq_n (sr_rw_counter (state_sample ! k)) \<le> fq_n (sr_rw_counter (state_sample ! j))) \<and>
      wov_word (sr_value (state_sample ! 5)) = wov_word (sr_value (state_sample ! j))"
  by (rule state_stack_consistent [OF state_sample_accepted state_sample_rows state_sample_start])
    (simp_all add: state_sample_def state_sample_ops_def laid_row_def operation_defs)

lemma state_has_start_witness: "\<exists>r\<in>set state_sample. sr_tag r = FQ (st_int ST_Start)"
  by (rule state_has_start [OF state_sample_accepted]) (use state_sample_rows in \<open>auto simp: state_sample_def state_sample_ops_def\<close>)

lemma op2row_decodes_witness:
  "\<exists>row. op2row (StorageOp 7 RW_Write 1 305419896 5398 (word_of 789) (word_of 0)) (word_of 3) = Inr row \<and>
    fq_n (sr_address row) = 305419896 \<and> int_value (sr_storage_key row) = 5398"
proof -
  let ?o = "StorageOp 7 RW_Write 1 305419896 5398 (word_of 789) (word_of 0)"
  have r: "op2row ?o (word_of 3) = Inr (laid_row ?o (word_of 3))"
    by (simp add: op2row_ok StorageOp_def state_op_def)
  then show ?thesis
    using op2row_decodes [OF r] by (simp add: StorageOp_def state_op_def)
qed

section \<open>A storage access list that forgets\<close>

text \<open>
  The cells (address 1, key 0) and (address 0, key \<open>2 ^ 48\<close>) have the same number in the order, so
  a row of the second may stand between two rows of the first; the third row then counts as a first
  access of its cell, and must be zero.
\<close>

definition forgetful_ops :: "operation list" where
  "forgetful_ops =
     [StartOp 1 RW_Read 0, TxAccessListAccountStorageOp 1 RW_Write 1 1 0 1,
      TxAccessListAccountStorageOp 2 RW_Read 1 0 (2 ^ 48) 0, TxAccessListAccountStorageOp 3 RW_Read 1 1 0 0]"

definition forgetful_rows :: "state_row list" where
  "forgetful_rows = map (\<lambda>oper. laid_row oper (word_of 3)) forgetful_ops"

lemma forgetful_assigned: "assign_state_circuit forgetful_ops = Inr forgetful_rows"
  by (simp add: assign_state_circuit_def mock_mpt_updates_def forgetful_ops_def mpt_key_of_def operation_defs
      rbind_ok word_of_int256_Inr op2row_ok forgetful_rows_def)

lemma forgetful_timed: "list_all operation_timed forgetful_ops"
  by (simp add: forgetful_ops_def operation_timed_def operation_ok_def operation_defs)

lemma forgetful_accepted: "verify_state_circuit forgetful_rows {} = Inr ()"
  unfolding forgetful_rows_def
  by (rule laid_table_accepted [OF forgetful_timed])
    (simp add: forgetful_ops_def laid_pair_ok_def op_order_def op_keys_def laid_check_simps del: le_bytes.simps)

text \<open>
  C21: The order of the state circuit leaves a storage key 32 of its 256 bits: a table laid
  out from four operations is accepted although its last row reads zero from a storage
  access list cell in which an earlier row, the only write to it, put one.
\<close>

lemma state_access_list_forgets:
  "\<exists>ops rows. assign_state_circuit ops = Inr rows \<and> verify_state_circuit rows {} = Inr () \<and>
    start_rows_first rows \<and> list_all (\<lambda>r. fq_n (sr_rw_counter r) < 2 ^ 32) rows \<and>
    sr_tag (rows ! 3) = FQ (st_int ST_TxAccessListAccountStorage) \<and> sr_is_write (rows ! 3) = 0 \<and>
    sr_value (rows ! 3) = ValueV 0 \<and> sr_value (rows ! 1) = ValueV 1 \<and>
    {j. earlier_write rows 3 j} = {1}"
proof (intro exI conjI)
  show "assign_state_circuit forgetful_ops = Inr forgetful_rows" by (rule forgetful_assigned)
  show "verify_state_circuit forgetful_rows {} = Inr ()" by (rule forgetful_accepted)
  show "start_rows_first forgetful_rows"
    by (auto simp: start_rows_first_def forgetful_rows_def forgetful_ops_def laid_row_def operation_defs nth_Cons
        fq_eq_iff fq_modulus_def split: nat.splits)
  show "list_all (\<lambda>r. fq_n (sr_rw_counter r) < 2 ^ 32) forgetful_rows"
    by (simp add: forgetful_rows_def forgetful_ops_def laid_row_def operation_defs fq_modulus_def)
  have "earlier_write forgetful_rows 3 1"
    by (simp add: earlier_write_def forgetful_rows_def forgetful_ops_def laid_row_def operation_defs all_keys_eq_def
        fq_modulus_def)
  moreover have "j = 1" if e: "earlier_write forgetful_rows 3 j" for j
  proof -
    from e have "j < 4" "sr_is_write (forgetful_rows ! j) = 1"
      by (simp_all add: earlier_write_def forgetful_rows_def forgetful_ops_def)
    then show "j = 1"
      by (auto simp: forgetful_rows_def forgetful_ops_def laid_row_def operation_defs nth_Cons split: nat.splits)
  qed
  ultimately show "{j. earlier_write forgetful_rows 3 j} = {1}" by blast
qed (simp_all add: forgetful_rows_def forgetful_ops_def laid_row_def operation_defs)

text \<open>A field tag that the call context needs and the circuit refuses: the largest is 25, the bound 24.\<close>

text \<open>
  C22: Every row of the call context with field tag ReversibleWriteCounter is refused with
  an assertion error: the tag is 25 and the bound of the range check 24.
\<close>

lemma state_call_context_refused:
  "check_state_row (laid_row (CallContextOp rw_counter rw call_id CC_ReversibleWriteCounter v) root) row_prev row_next mpt =
     Inl AssertionError"
proof -
  let ?r = "laid_row (CallContextOp rw_counter rw call_id CC_ReversibleWriteCounter v) root"
  have "fq_n (sr_field_tag ?r) = 25"
    by (simp add: laid_row_def CallContextOp_def state_op_def fq_modulus_def)
  then have f: "assert_in_range (sr_field_tag ?r) 0 24 = Inl AssertionError"
    by (simp add: assert_in_range_def)
  have "assert_in_range x a b = Inr () \<or> assert_in_range x a b = Inl AssertionError" for x a b
    by (simp add: assert_in_range_def assert_that_def raise_unless_def)
  then have "check_key_columns ?r = Inl AssertionError"
    unfolding check_key_columns_def by (metis f rbind_simps)
  then show ?thesis by (simp add: check_state_row_def)
qed

end
