(* ===== verification/Hash.thy ===== *)
theory Hash
  imports Arithmetic
begin

text \<open>
  Keccak-256 as the code uses it (\<^verbatim>\<open>src/zkevm_specs/util/hash.py\<close>). The function itself is that of
  a library, so it is a parameter: a function from bytes to bytes.
\<close>

type_synonym hash_fun = "int list \<Rightarrow> int list"

definition from_bytes_be :: "int list \<Rightarrow> int" where
  "from_bytes_be bs = le_val (rev bs)"

definition EMPTY_HASH :: "hash_fun \<Rightarrow> int" where
  "EMPTY_HASH keccak256 = from_bytes_be (keccak256 [])"

text \<open>The source gives the hash of the empty string a second name, and that of the empty trie.\<close>

definition EMPTY_CODE_HASH :: "hash_fun \<Rightarrow> int" where
  "EMPTY_CODE_HASH keccak256 = EMPTY_HASH keccak256"

definition EMPTY_TRIE_HASH :: "hash_fun \<Rightarrow> int" where
  "EMPTY_TRIE_HASH keccak256 = from_bytes_be (keccak256 [0x80])"

end
