(* ===== verification/Bytecode_Circuit.thy ===== *)
theory Bytecode_Circuit
  imports Row_Chain Combine_Bytes Hash Table Opcode
begin

text \<open>
  The bytecode circuit, \<^verbatim>\<open>src/zkevm_specs/bytecode_circuit.py\<close>: the constraints on two
  adjacent rows, the layout of bytecodes as rows, the push table and the Keccak table; and what
  these take from \<^verbatim>\<open>evm_circuit/typing.py\<close>: the analysis of code and push data
  (\<open>init_is_code\<close>), the rows of a bytecode (\<open>Bytecode.table_assignments\<close>) and \<open>KeccakCircuit\<close>.
  The hash is a parameter, a function from bytes to bytes. The repository runs the constraints on
  every row and its successor, cyclically, in \<^verbatim>\<open>tests/test_bytecode_circuit.py\<close>.
\<close>

section \<open>Rows and constraints\<close>

record bytecode_circuit_row =
  br_q_first :: fq
  br_q_last :: fq
  br_hash :: word256
  br_tag :: fq
  br_index :: fq
  br_value :: fq
  br_is_code :: fq
  br_push_data_left :: fq
  br_value_rlc :: fq
  br_length :: fq
  br_push_data_size :: fq

definition check_header_to_byte :: "bytecode_circuit_row \<Rightarrow> bytecode_circuit_row \<Rightarrow> unit result" where
  "check_header_to_byte cur nxt =
     rbind (assert_that (br_length nxt = br_length cur)) (\<lambda>_.
     rbind (assert_that (br_index nxt = 0)) (\<lambda>_.
     rbind (assert_that (br_is_code nxt = 1)) (\<lambda>_.
     rbind (assert_that (br_hash nxt = br_hash cur)) (\<lambda>_.
     assert_that (br_value_rlc nxt = br_value nxt)))))"

definition check_header_to_header :: "hash_fun \<Rightarrow> bytecode_circuit_row \<Rightarrow> unit result" where
  "check_header_to_header keccak256 cur =
     rbind (assert_that (br_length cur = 0)) (\<lambda>_.
     rbind (word_of_int256 (EMPTY_HASH keccak256)) (\<lambda>empty_word.
     assert_that (br_hash cur = empty_word)))"

definition check_byte_to_byte :: "bytecode_circuit_row \<Rightarrow> bytecode_circuit_row \<Rightarrow> fq \<Rightarrow> unit result" where
  "check_byte_to_byte cur nxt r =
     rbind (assert_that (br_length nxt = br_length cur)) (\<lambda>_.
     rbind (assert_that (br_index nxt = br_index cur + 1)) (\<lambda>_.
     rbind (assert_that (br_hash nxt = br_hash cur)) (\<lambda>_.
     rbind (assert_that (br_value_rlc nxt = br_value_rlc cur * r + br_value nxt)) (\<lambda>_.
     if br_is_code cur = 1 then assert_that (br_push_data_left nxt = br_push_data_size cur)
     else assert_that (br_push_data_left nxt = br_push_data_left cur - 1)))))"

definition check_byte_to_header :: "bytecode_circuit_row \<Rightarrow> keccak_row set \<Rightarrow> unit result" where
  "check_byte_to_header cur kt =
     rbind (assert_that (br_index cur + 1 = br_length cur)) (\<lambda>_.
     assert_that (\<lparr>kc_state_tag = FQ 2, kc_input_rlc = br_value_rlc cur, kc_input_len = br_length cur,
       kc_output = br_hash cur\<rparr> \<in> kt))"

definition check_bytecode_row ::
  "hash_fun \<Rightarrow> bytecode_circuit_row \<Rightarrow> bytecode_circuit_row \<Rightarrow> (fq \<times> fq) list \<Rightarrow> keccak_row set \<Rightarrow> fq \<Rightarrow> unit result" where
  "check_bytecode_row keccak256 cur nxt push_table kt keccak_randomness =
     rbind (if br_q_first cur = 1 then assert_that (br_tag cur = FQ (bf_int BF_Header)) else Inr ()) (\<lambda>_.
     rbind (if br_q_last cur = 0 then
         rbind (if br_tag cur = FQ (bf_int BF_Header) then
             rbind (assert_that (br_value cur = br_length cur)) (\<lambda>_.
             rbind (assert_that (br_index cur = 0)) (\<lambda>_.
             rbind (if br_tag nxt = FQ (bf_int BF_Byte) then check_header_to_byte cur nxt else Inr ()) (\<lambda>_.
             if br_tag nxt = FQ (bf_int BF_Header) then check_header_to_header keccak256 cur else Inr ())))
           else Inr ()) (\<lambda>_.
         if br_tag cur = FQ (bf_int BF_Byte) then
           rbind (assert_that ((br_value cur, br_push_data_size cur) \<in> set push_table)) (\<lambda>_.
           rbind (assert_that (br_is_code cur = fq_of_bool (br_push_data_left cur = 0))) (\<lambda>_.
           rbind (if br_tag nxt = FQ (bf_int BF_Byte) then check_byte_to_byte cur nxt keccak_randomness else Inr ()) (\<lambda>_.
           if br_tag nxt = FQ (bf_int BF_Header) then check_byte_to_header cur kt else Inr ())))
         else Inr ())
       else Inr ()) (\<lambda>_.
     if br_q_last cur = 1 then
       rbind (assert_that (br_tag cur = FQ (bf_int BF_Header))) (\<lambda>_. check_header_to_header keccak256 cur)
     else Inr ()))"

definition assign_push_table :: "(fq \<times> fq) list" where
  "assign_push_table = map (\<lambda>i. (FQ i, FQ (get_push_size i))) [0..255]"

definition verify_bytecode_circuit ::
  "hash_fun \<Rightarrow> bytecode_circuit_row list \<Rightarrow> keccak_row set \<Rightarrow> fq \<Rightarrow> unit result" where
  "verify_bytecode_circuit keccak256 rows kt r =
     riter (\<lambda>idx. check_bytecode_row keccak256 (rows ! idx) (rows ! ((idx + 1) mod length rows))
       assign_push_table kt r) [0..<length rows]"

section \<open>Bytecodes and their rows\<close>

fun init_is_code_from :: "int \<Rightarrow> int list \<Rightarrow> bool list" where
  "init_is_code_from push_data_left [] = []"
| "init_is_code_from push_data_left (b # code) =
     (push_data_left = 0) #
     init_is_code_from (if push_data_left = 0 then get_push_size b else push_data_left - 1) code"

definition init_is_code :: "int list \<Rightarrow> bool list" where
  "init_is_code code = init_is_code_from 0 code"

definition bytecode_hash :: "hash_fun \<Rightarrow> int list \<Rightarrow> int" where
  "bytecode_hash keccak256 code = from_bytes_be (keccak256 code)"

definition bytecode_table_assignments :: "hash_fun \<Rightarrow> int list \<Rightarrow> bool list \<Rightarrow> bytecode_row list result" where
  "bytecode_table_assignments keccak256 code is_code =
     rbind (word_of_int256 (bytecode_hash keccak256 code)) (\<lambda>hash.
     rbind (assert_that (length code = length is_code)) (\<lambda>_.
     Inr (\<lparr>bc_bytecode_hash = hash, bc_field_tag = FQ (bf_int BF_Header), bc_index = FQ 0, bc_is_code = FQ 0,
           bc_value = FQ (int (length code))\<rparr> #
         map (\<lambda>(i, c, b). \<lparr>bc_bytecode_hash = hash, bc_field_tag = FQ (bf_int BF_Byte), bc_index = FQ (int i),
             bc_is_code = fq_of_bool c, bc_value = FQ b\<rparr>) (zip [0..<length code] (zip is_code code)))))"

text \<open>
  \<open>UnrolledBytecode\<close> pairs the bytes with these rows. The layout keeps the offset, the push data
  still to come and the accumulator, and stops when the circuit is full.
\<close>

type_synonym unrolled_bytecode = "int list \<times> bytecode_row list"

fun assign_unrolled ::
  "nat \<Rightarrow> fq \<Rightarrow> nat \<Rightarrow> bool \<Rightarrow> int \<Rightarrow> fq \<Rightarrow> nat \<Rightarrow> bytecode_row list \<Rightarrow> bytecode_circuit_row list" where
  "assign_unrolled k r len first push_left value_rlc offset [] = []"
| "assign_unrolled k r len first push_left value_rlc offset (row # rows) =
     (if offset = 2 ^ k then [] else
      let size = (if first then 0 else get_push_size (fq_n (bc_value row)));
        left' = (if first then push_left else if push_left = 0 then size else push_left - 1);
        rlc = (if first then value_rlc else value_rlc * r + bc_value row) in
      \<lparr>br_q_first = fq_of_bool (offset = 0), br_q_last = fq_of_bool (offset = 2 ^ k - 1),
       br_hash = bc_bytecode_hash row, br_tag = bc_field_tag row, br_index = bc_index row,
       br_value = bc_value row, br_is_code = bc_is_code row, br_push_data_left = FQ push_left,
       br_value_rlc = rlc, br_length = FQ (int len), br_push_data_size = FQ size\<rparr> #
      assign_unrolled k r len False left' rlc (Suc offset) rows)"

definition bytecode_padding_row :: "word256 \<Rightarrow> nat \<Rightarrow> nat \<Rightarrow> bytecode_circuit_row" where
  "bytecode_padding_row empty_word k idx =
     \<lparr>br_q_first = fq_of_bool (idx = 0), br_q_last = fq_of_bool (idx = 2 ^ k - 1), br_hash = empty_word,
      br_tag = FQ (bf_int BF_Header), br_index = FQ 0, br_value = FQ 0, br_is_code = FQ 0,
      br_push_data_left = FQ 0, br_value_rlc = FQ 0, br_length = FQ 0, br_push_data_size = FQ 0\<rparr>"

fun assign_bytecodes :: "nat \<Rightarrow> fq \<Rightarrow> nat \<Rightarrow> unrolled_bytecode list \<Rightarrow> bytecode_circuit_row list" where
  "assign_bytecodes k r offset [] = []"
| "assign_bytecodes k r offset ((bs, rows) # bytecodes) =
     (let new = assign_unrolled k r (length bs) True 0 0 offset rows in
      if offset + length new = 2 ^ k then new
      else new @ assign_bytecodes k r (offset + length new) bytecodes)"

definition assign_bytecode_circuit ::
  "hash_fun \<Rightarrow> nat \<Rightarrow> unrolled_bytecode list \<Rightarrow> fq \<Rightarrow> bytecode_circuit_row list result" where
  "assign_bytecode_circuit keccak256 k bytecodes keccak_randomness =
     (let rows = assign_bytecodes k keccak_randomness 0 bytecodes in
      if length rows = 2 ^ k then Inr rows
      else rbind (word_of_int256 (EMPTY_HASH keccak256)) (\<lambda>empty_word.
        Inr (rows @ map (bytecode_padding_row empty_word k) [length rows..<2 ^ k])))"

definition keccak_circuit_add :: "hash_fun \<Rightarrow> int list \<Rightarrow> fq \<Rightarrow> keccak_row result" where
  "keccak_circuit_add keccak256 data r =
     rbind (word_of_int256 (from_bytes_be (keccak256 data))) (\<lambda>output.
     rbind (RLC_of_bytes (rev data) r (length data)) (\<lambda>acc_input.
     Inr \<lparr>kc_state_tag = FQ 2, kc_input_rlc = rlc_value acc_input, kc_input_len = FQ (int (length data)),
          kc_output = output\<rparr>))"

definition assign_keccak_table :: "hash_fun \<Rightarrow> int list list \<Rightarrow> fq \<Rightarrow> keccak_row set result" where
  "assign_keccak_table keccak256 bytecodes keccak_randomness =
     rbind (rmap (\<lambda>bytecode. keccak_circuit_add keccak256 bytecode keccak_randomness) bytecodes) (\<lambda>rows.
     Inr (set rows))"

section \<open>Code and push data\<close>

definition push_left :: "int list \<Rightarrow> int" where
  "push_left code = foldl (\<lambda>left b. if left = 0 then get_push_size b else left - 1) 0 code"

lemma push_left_snoc: "push_left (code @ [b]) = (if push_left code = 0 then get_push_size b else push_left code - 1)"
  by (simp add: push_left_def)

lemma get_push_size_range: "0 \<le> get_push_size b \<and> get_push_size b \<le> 32"
  by (auto simp: get_push_size_def)

lemma push_left_range: "0 \<le> push_left code \<and> push_left code \<le> 32"
proof (induction code rule: rev_induct)
  case (snoc b code)
  then show ?case using get_push_size_range [of b] by (auto simp: push_left_snoc)
qed (simp add: push_left_def)

lemma init_is_code_from_nth:
  "i < length code \<Longrightarrow> init_is_code_from left code ! i \<longleftrightarrow>
     foldl (\<lambda>left b. if left = 0 then get_push_size b else left - 1) left (take i code) = 0"
proof (induction code arbitrary: left i)
  case (Cons b code)
  then show ?case by (cases i) simp_all
qed simp

lemma init_is_code_nth: "i < length code \<Longrightarrow> init_is_code code ! i \<longleftrightarrow> push_left (take i code) = 0"
  by (simp add: init_is_code_def push_left_def init_is_code_from_nth)

lemma length_init_is_code [simp]: "length (init_is_code code) = length code"
proof -
  have "length (init_is_code_from left code) = length code" for left
    by (induction code arbitrary: left) simp_all
  then show ?thesis by (simp add: init_is_code_def)
qed

text \<open>The accumulated combination of the bytes, first byte first.\<close>

definition rlc_be :: "fq \<Rightarrow> int list \<Rightarrow> fq" where
  "rlc_be r bs = foldl (\<lambda>acc b. acc * r + FQ b) 0 bs"

lemma rlc_be_snoc: "rlc_be r (bs @ [b]) = rlc_be r bs * r + FQ b"
  by (simp add: rlc_be_def)

lemma rlc_be_linear: "list_all is_byte bs \<Longrightarrow> linear_combine_bytes (map FQ (rev bs)) r True = Inr (rlc_be r bs)"
proof (induction bs rule: rev_induct)
  case (snoc b bs)
  then show ?case by (simp add: rlc_be_snoc is_byte_def fq_modulus_def)
qed (simp add: rlc_be_def)

lemma keccak_circuit_add_ok:
  assumes "list_all is_byte data"
  shows "keccak_circuit_add keccak256 data r = Inr row \<longleftrightarrow>
    (\<exists>out. word_of_int256 (from_bytes_be (keccak256 data)) = Inr out \<and>
      row = \<lparr>kc_state_tag = FQ 2, kc_input_rlc = rlc_be r data, kc_input_len = FQ (int (length data)), kc_output = out\<rparr>)"
  using rlc_be_linear [OF assms, of r] by (auto simp: keccak_circuit_add_def RLC_of_bytes_def rbind_ok Let_def)

section \<open>Soundness\<close>

lemma bytecode_tags [simp]: "FQ (bf_int BF_Header) = 1" "FQ (bf_int BF_Byte) = FQ 2" "(1::fq) \<noteq> FQ 2" "FQ 2 \<noteq> (1::fq)"
  by (simp_all add: fq_eq_iff fq_modulus_def)

lemma push_table_mem: "(x, y) \<in> set assign_push_table \<longleftrightarrow> (\<exists>b. is_byte b \<and> x = FQ b \<and> y = FQ (get_push_size b))"
  by (auto simp: assign_push_table_def is_byte_def)

definition bytecode_pair_ok ::
  "hash_fun \<Rightarrow> keccak_row set \<Rightarrow> fq \<Rightarrow> bytecode_circuit_row \<Rightarrow> bytecode_circuit_row \<Rightarrow> bool" where
  "bytecode_pair_ok keccak256 kt r cur nxt \<longleftrightarrow>
     check_bytecode_row keccak256 cur nxt assign_push_table kt r = Inr ()"

lemma verify_bytecode_ok:
  "verify_bytecode_circuit keccak256 rows kt r = Inr () \<longleftrightarrow>
     cyclic_ok (bytecode_pair_ok keccak256 kt r) rows"
  by (auto simp: verify_bytecode_circuit_def riter_ok cyclic_ok_def bytecode_pair_ok_def)

text \<open>What a byte row says of itself, and what the rows of one bytecode say up to a row.\<close>

definition byte_row :: "bytecode_circuit_row \<Rightarrow> bool" where
  "byte_row row \<longleftrightarrow>
     br_tag row = FQ (bf_int BF_Byte) \<and> is_byte (fq_n (br_value row)) \<and>
     br_push_data_size row = FQ (get_push_size (fq_n (br_value row))) \<and>
     br_is_code row = fq_of_bool (br_push_data_left row = 0)"

definition bytes_upto :: "word256 \<Rightarrow> fq \<Rightarrow> fq \<Rightarrow> int list \<Rightarrow> bytecode_circuit_row \<Rightarrow> bool" where
  "bytes_upto hash len r bs row \<longleftrightarrow>
     byte_row row \<and> bs \<noteq> [] \<and> list_all is_byte bs \<and> br_value row = FQ (last bs) \<and>
     br_hash row = hash \<and> br_length row = len \<and> br_index row = FQ (int (length bs) - 1) \<and>
     br_value_rlc row = rlc_be r bs \<and> br_push_data_left row = FQ (push_left (butlast bs))"

lemma byte_row_self:
  assumes "bytecode_pair_ok keccak256 kt r row nxt" "br_tag row = FQ (bf_int BF_Byte)" "br_q_last row = 0"
  shows "byte_row row"
proof -
  from assms have p: "(br_value row, br_push_data_size row) \<in> set assign_push_table"
    and c: "br_is_code row = fq_of_bool (br_push_data_left row = 0)"
    by (auto simp: bytecode_pair_ok_def check_bytecode_row_def rbind_ok assert_that_ok split: if_splits)
  from p obtain b where "is_byte b" "br_value row = FQ b" "br_push_data_size row = FQ (get_push_size b)"
    unfolding push_table_mem by blast
  moreover from this have "fq_n (br_value row) = b" by (simp add: is_byte_def fq_modulus_def)
  ultimately show ?thesis using assms(2) c by (simp add: byte_row_def)
qed

lemma FQ_small_zero: "0 \<le> x \<Longrightarrow> x \<le> 32 \<Longrightarrow> FQ x = 0 \<longleftrightarrow> x = 0"
  by (simp add: fq_eq_iff fq_modulus_def)

lemma bytes_upto_step:
  assumes p: "bytecode_pair_ok keccak256 kt r row nxt" and last: "br_q_last row = 0" and nxt: "byte_row nxt"
    and upto: "bytes_upto hash len r bs row"
  shows "bytes_upto hash len r (bs @ [fq_n (br_value nxt)]) nxt"
proof -
  from upto have row: "byte_row row" "bs \<noteq> []" "br_value row = FQ (last bs)" "list_all is_byte bs" by (simp_all add: bytes_upto_def)
  have "check_byte_to_byte row nxt r = Inr ()"
    using p last nxt row(1) by (auto simp: bytecode_pair_ok_def check_bytecode_row_def byte_row_def rbind_ok split: if_splits)
  then have c: "br_length nxt = br_length row" "br_index nxt = br_index row + 1" "br_hash nxt = br_hash row"
    "br_value_rlc nxt = br_value_rlc row * r + br_value nxt"
    "br_push_data_left nxt = (if br_is_code row = 1 then br_push_data_size row else br_push_data_left row - 1)"
    by (auto simp: check_byte_to_byte_def rbind_ok assert_that_ok split: if_splits)
  have b: "fq_n (br_value row) = last bs"
    using row(2-4) last_in_set [OF row(2)] fq_n_FQ_byte [of "last bs"] by (simp add: list_all_iff)
  have left: "br_is_code row = 1 \<longleftrightarrow> push_left (butlast bs) = 0"
    using upto push_left_range [of "butlast bs"] FQ_small_zero by (auto simp: bytes_upto_def byte_row_def)
  have snoc: "push_left bs = (if push_left (butlast bs) = 0 then get_push_size (last bs) else push_left (butlast bs) - 1)"
    using push_left_snoc [of "butlast bs" "last bs"] row(2) by simp
  have "br_push_data_left nxt = FQ (push_left bs)"
    unfolding c(5) left snoc using row(1) upto b by (simp add: byte_row_def bytes_upto_def FQ_arith)
  then show ?thesis
    using upto c nxt unfolding bytes_upto_def by (simp add: rlc_be_snoc FQ_arith byte_row_def)
qed

interpretation bytes_run: forward_run
  "\<lambda>row nxt. bytecode_pair_ok keccak256 kt r row nxt \<and> br_q_last row = 0" byte_row
  "\<lambda>bs row. bs @ [fq_n (br_value row)]" "bytes_upto hash len r" for keccak256 kt r hash len
  by unfold_locales (blast intro: bytes_upto_step)

definition bytecode_table_ok ::
  "hash_fun \<Rightarrow> keccak_row set \<Rightarrow> fq \<Rightarrow> bytecode_circuit_row list \<Rightarrow> bool" where
  "bytecode_table_ok keccak256 kt r rows \<longleftrightarrow>
     cyclic_ok (bytecode_pair_ok keccak256 kt r) rows \<and>
     (\<forall>row\<in>set rows. br_tag row \<in> {FQ (bf_int BF_Header), FQ (bf_int BF_Byte)}) \<and>
     (\<forall>i<length rows. br_q_last (rows ! i) = fq_of_bool (i = length rows - 1))"

lemma bytecode_table_pair:
  assumes "bytecode_table_ok keccak256 kt r rows" "Suc k < length rows"
  shows "bytecode_pair_ok keccak256 kt r (rows ! k) (rows ! Suc k)" "br_q_last (rows ! k) = 0"
  using assms cyclic_ok_Suc [of _ rows k] by (auto simp: bytecode_table_ok_def)

lemma bytecode_last_header:
  assumes ok: "bytecode_table_ok keccak256 kt r rows" and n: "0 < length rows"
  shows "br_tag (rows ! (length rows - 1)) = 1"
proof -
  have l: "length rows - 1 < length rows" using n by simp
  then obtain r' where "bytecode_pair_ok keccak256 kt r (rows ! (length rows - 1)) r'"
    using ok cyclic_ok_pair unfolding bytecode_table_ok_def by blast
  moreover have "br_q_last (rows ! (length rows - 1)) = 1" using ok l by (simp add: bytecode_table_ok_def)
  ultimately show ?thesis
    by (auto simp: bytecode_pair_ok_def check_bytecode_row_def rbind_ok assert_that_ok)
qed

text \<open>A byte after row \<open>i\<close> opens a run of byte rows that a header ends.\<close>

lemma bytecode_run_end:
  assumes ok: "bytecode_table_ok keccak256 kt r rows"
    and i: "Suc i < length rows" "br_tag (rows ! Suc i) = FQ 2"
  obtains m where "Suc i \<le> m" "Suc m < length rows" "br_tag (rows ! Suc m) = 1"
    "\<And>k. i < k \<Longrightarrow> k \<le> m \<Longrightarrow> byte_row (rows ! k)"
proof -
  let ?P = "\<lambda>k. i < k \<and> k < length rows \<and> br_tag (rows ! k) = 1"
  have ex: "?P (length rows - 1)"
    using i(1) bytecode_last_header [OF ok] by (cases rows) auto
  define e where "e = (LEAST k. ?P k)"
  have e: "?P e" unfolding e_def by (rule LeastI [of ?P, OF ex])
  then have "e \<noteq> Suc i" using i(2) by auto
  then obtain m where m: "e = Suc m" "Suc i \<le> m" using e by (cases e) auto
  have "byte_row (rows ! k)" if k: "i < k" "k \<le> m" for k
  proof -
    have "\<not> ?P k" unfolding e_def [symmetric] by (rule not_less_Least) (use k m e_def in simp)
    then have "br_tag (rows ! k) = FQ 2"
      using k m e ok nth_mem [of k rows] by (auto simp: bytecode_table_ok_def)
    then show ?thesis
      using byte_row_self [of keccak256 kt r "rows ! k" "rows ! Suc k"] bytecode_table_pair [OF ok, of k] k m e by simp
  qed
  then show thesis using that m e by simp
qed

lemma bytecode_run_open:
  assumes ok: "bytecode_table_ok keccak256 kt r rows" and i: "Suc i < length rows"
    and t: "br_tag (rows ! i) = 1" "byte_row (rows ! Suc i)"
  shows "bytes_upto (br_hash (rows ! i)) (br_length (rows ! i)) r [fq_n (br_value (rows ! Suc i))] (rows ! Suc i)"
proof -
  have "check_header_to_byte (rows ! i) (rows ! Suc i) = Inr ()"
    using bytecode_table_pair [OF ok i] t
    by (auto simp: bytecode_pair_ok_def check_bytecode_row_def byte_row_def rbind_ok split: if_splits)
  then show ?thesis
    using t by (auto simp: check_header_to_byte_def rbind_ok assert_that_ok bytes_upto_def byte_row_def
        rlc_be_def push_left_def)
qed

definition run_bytes :: "bytecode_circuit_row list \<Rightarrow> nat \<Rightarrow> nat \<Rightarrow> int list" where
  "run_bytes rows i j = map (\<lambda>k. fq_n (br_value (rows ! k))) [Suc i..<Suc j]"

lemma length_run_bytes [simp]: "length (run_bytes rows i j) = j - i"
  by (simp add: run_bytes_def del: upt_Suc)

lemma nth_run_bytes: "j < m - i \<Longrightarrow> run_bytes rows i m ! j = fq_n (br_value (rows ! (Suc i + j)))"
  by (simp add: run_bytes_def del: upt_Suc)

lemma take_run_bytes: "j < m - i \<Longrightarrow> butlast (run_bytes rows i (Suc i + j)) = take j (run_bytes rows i m)"
proof -
  assume "j < m - i"
  then have "take j (run_bytes rows i m) = map (\<lambda>k. fq_n (br_value (rows ! k))) [Suc i..<Suc i + j]"
    by (simp add: run_bytes_def take_map take_upt del: upt_Suc)
  then show ?thesis by (simp add: run_bytes_def)
qed

lemma bytecode_run_upto:
  assumes ok: "bytecode_table_ok keccak256 kt r rows" and t: "br_tag (rows ! i) = 1" and m: "Suc m < length rows"
    and run: "\<And>k. i < k \<Longrightarrow> k \<le> m \<Longrightarrow> byte_row (rows ! k)" and j: "Suc i \<le> j" "j \<le> m"
  shows "bytes_upto (br_hash (rows ! i)) (br_length (rows ! i)) r (run_bytes rows i j) (rows ! j)"
proof -
  have steps: "(bytecode_pair_ok keccak256 kt r (rows ! k) (rows ! Suc k) \<and> br_q_last (rows ! k) = 0) \<and>
      byte_row (rows ! Suc k)" if "Suc i \<le> k" "k < j" for k
    using bytecode_table_pair [OF ok, of k] run [of "Suc k"] that m j by simp
  have fold: "foldl (\<lambda>bs row. bs @ [fq_n (br_value row)]) xs (map (\<lambda>k. rows ! k) ks) =
      xs @ map (\<lambda>k. fq_n (br_value (rows ! k))) ks" for xs ks
    by (induction ks arbitrary: xs) simp_all
  have "run_bytes rows i j =
      [fq_n (br_value (rows ! Suc i))] @ map (\<lambda>k. fq_n (br_value (rows ! k))) [Suc (Suc i)..<Suc j]"
    using j(1) by (simp add: run_bytes_def upt_conv_Cons del: upt_Suc)
  moreover have "bytes_upto (br_hash (rows ! i)) (br_length (rows ! i)) r [fq_n (br_value (rows ! Suc i))] (rows ! Suc i)"
    by (rule bytecode_run_open [OF ok _ t]) (use run j m in simp_all)
  from bytes_run.run_rel [OF steps this j(1)] have
    "bytes_upto (br_hash (rows ! i)) (br_length (rows ! i)) r
      (foldl (\<lambda>bs row. bs @ [fq_n (br_value row)]) [fq_n (br_value (rows ! Suc i))] (map (\<lambda>k. rows ! k) [Suc (Suc i)..<Suc j]))
      (rows ! j)" .
  ultimately show ?thesis unfolding fold by simp
qed

text \<open>
  A header followed by a byte opens a run of byte rows up to the next header, which exists as the
  last row is one. The run unrolls a string of bytes of the claimed length with its code flags, and
  the Keccak table relates the combination of these bytes to the claimed hash.
\<close>

definition unrolls :: "bytecode_circuit_row list \<Rightarrow> nat \<Rightarrow> int list \<Rightarrow> bool" where
  "unrolls rows i bs \<longleftrightarrow>
     (\<forall>j<length bs. let row = rows ! (Suc i + j) in
       br_tag row = FQ (bf_int BF_Byte) \<and> br_hash row = br_hash (rows ! i) \<and> br_index row = FQ (int j) \<and>
       br_value row = FQ (bs ! j) \<and> br_is_code row = fq_of_bool (init_is_code bs ! j))"

lemma bytecode_run_unrolls:
  assumes upto: "\<And>j. Suc i \<le> j \<Longrightarrow> j \<le> m \<Longrightarrow> bytes_upto (br_hash (rows ! i)) len r (run_bytes rows i j) (rows ! j)"
  shows "unrolls rows i (run_bytes rows i m)"
  unfolding unrolls_def Let_def
proof (intro allI impI)
  let ?bs = "run_bytes rows i m"
  fix j assume "j < length ?bs"
  then have j: "j < m - i" by simp
  let ?row = "rows ! (Suc i + j)"
  have u: "bytes_upto (br_hash (rows ! i)) len r (run_bytes rows i (Suc i + j)) ?row"
    by (rule upto) (use j in simp_all)
  have "br_push_data_left ?row = FQ (push_left (take j ?bs))"
    using u take_run_bytes [OF j] by (simp add: bytes_upto_def)
  then have "br_is_code ?row = fq_of_bool (init_is_code ?bs ! j)"
    using u init_is_code_nth [of j ?bs] j FQ_small_zero push_left_range [of "take j ?bs"]
    by (simp add: bytes_upto_def byte_row_def)
  moreover have "br_value ?row = FQ (?bs ! j)" unfolding nth_run_bytes [OF j] by simp
  ultimately show "br_tag ?row = FQ (bf_int BF_Byte) \<and> br_hash ?row = br_hash (rows ! i) \<and>
      br_index ?row = FQ (int j) \<and> br_value ?row = FQ (?bs ! j) \<and>
      br_is_code ?row = fq_of_bool (init_is_code ?bs ! j)"
    using u by (simp add: bytes_upto_def byte_row_def)
qed

text \<open>
  C28: In an accepted bytecode table whose tags are Header and Byte and whose fixed column
  q_last marks the last row, a header followed by a byte opens a run of byte rows up to the
  next header that unrolls a string of bytes of the claimed length, each byte flagged as
  code exactly when the analysis of push data says so, and the Keccak table relates the
  combination of these bytes and their number to the claimed hash.
\<close>

lemma bytecode_circuit_sound:
  assumes "verify_bytecode_circuit keccak256 rows kt r = Inr ()"
    and "\<forall>row\<in>set rows. br_tag row \<in> {FQ (bf_int BF_Header), FQ (bf_int BF_Byte)}"
    and "\<forall>i<length rows. br_q_last (rows ! i) = fq_of_bool (i = length rows - 1)"
    and i: "Suc i < length rows" "br_tag (rows ! i) = FQ (bf_int BF_Header)" "br_tag (rows ! Suc i) = FQ (bf_int BF_Byte)"
  shows "\<exists>bs. bs \<noteq> [] \<and> list_all is_byte bs \<and> Suc (i + length bs) < length rows \<and>
    br_length (rows ! i) = FQ (int (length bs)) \<and> unrolls rows i bs \<and>
    br_tag (rows ! (Suc (i + length bs))) = FQ (bf_int BF_Header) \<and>
    \<lparr>kc_state_tag = FQ 2, kc_input_rlc = rlc_be r bs, kc_input_len = FQ (int (length bs)),
      kc_output = br_hash (rows ! i)\<rparr> \<in> kt"
proof -
  have ok: "bytecode_table_ok keccak256 kt r rows"
    using assms(1-3) by (simp add: bytecode_table_ok_def verify_bytecode_ok)
  obtain m where m: "Suc i \<le> m" "Suc m < length rows" "br_tag (rows ! Suc m) = 1"
    and run: "\<And>k. i < k \<Longrightarrow> k \<le> m \<Longrightarrow> byte_row (rows ! k)"
    using bytecode_run_end [OF ok i(1)] i(3) by auto
  have t: "br_tag (rows ! i) = 1" using i(2) by simp
  note upto = bytecode_run_upto [OF ok t m(2) run]
  let ?bs = "run_bytes rows i m"
  have u: "bytes_upto (br_hash (rows ! i)) (br_length (rows ! i)) r ?bs (rows ! m)"
    by (rule upto) (use m in simp_all)
  have "check_byte_to_header (rows ! m) kt = Inr ()"
    using bytecode_table_pair [OF ok m(2)] m(3) run [of m] m(1)
    by (auto simp: bytecode_pair_ok_def check_bytecode_row_def byte_row_def rbind_ok split: if_splits)
  then have h: "br_index (rows ! m) + 1 = br_length (rows ! m)"
    "\<lparr>kc_state_tag = FQ 2, kc_input_rlc = br_value_rlc (rows ! m), kc_input_len = br_length (rows ! m),
       kc_output = br_hash (rows ! m)\<rparr> \<in> kt"
    by (simp_all add: check_byte_to_header_def rbind_ok assert_that_ok)
  have L: "br_length (rows ! i) = FQ (int (length ?bs))"
    using h(1) u by (simp add: bytes_upto_def FQ_arith)
  moreover have "unrolls rows i ?bs" by (rule bytecode_run_unrolls) (rule upto)
  moreover have "Suc (i + length ?bs) = Suc m" using m(1) by simp
  ultimately show ?thesis
    using u h(2) m by (intro exI [of _ ?bs]) (simp add: bytes_upto_def)
qed

end
