(* ===== verification/Bytecode_Sample.thy ===== *)
theory Bytecode_Sample
  imports Bytecode_Circuit
begin

text \<open>
  Concrete tables of the bytecode circuit: the rows of a push of one byte, laid out by the model of
  the assignment, which witness the soundness theorem; and rows with a tag the enum does not have,
  which let a table claim bytes for a hash the Keccak table does not hold.
\<close>

definition sample_keccak :: hash_fun where
  "sample_keccak bs = replicate 31 0 @ [int (length bs)]"

definition sample_push :: "int list" where
  "sample_push = [0x60, 0x01]"

definition sample_hash :: "nat \<Rightarrow> word256" where
  "sample_hash n = word_of (int n)"

definition bytecode_sample :: "bytecode_circuit_row list" where
  "bytecode_sample =
     (case bytecode_table_assignments sample_keccak sample_push (init_is_code sample_push) of Inl _ \<Rightarrow> []
      | Inr rows \<Rightarrow> (case assign_bytecode_circuit sample_keccak 2 [(sample_push, rows)] (FQ 3) of
          Inl _ \<Rightarrow> [] | Inr rows \<Rightarrow> rows))"

definition bytecode_sample_keccak :: "keccak_row set" where
  "bytecode_sample_keccak =
     (case assign_keccak_table sample_keccak [sample_push] (FQ 3) of Inl _ \<Rightarrow> {} | Inr kt \<Rightarrow> kt)"

lemma le_val_zeros: "le_val (replicate n 0) = 0"
  by (induction n) simp_all

lemma sample_keccak_word:
  "length bs < 256 \<Longrightarrow> word_of_int256 (from_bytes_be (sample_keccak bs)) = Inr (word_of (int (length bs)))"
  by (simp add: sample_keccak_def from_bytes_be_def word_of_int256_Inr le_val_zeros)

lemma sample_keccak_empty: "from_bytes_be (sample_keccak []) = 0"
  by (simp add: sample_keccak_def from_bytes_be_def le_val_zeros)

lemma bytecode_sample_rows:
  "map br_tag bytecode_sample = [1, FQ 2, FQ 2, 1]"
  "map br_q_last bytecode_sample = [0, 0, 0, 1]"
  by (simp_all add: bytecode_sample_def assign_bytecode_circuit_def sample_push_def init_is_code_def bytecode_table_assignments_def
     sample_keccak_word bytecode_hash_def EMPTY_HASH_def get_push_size_def bytecode_padding_row_def Let_def fq_modulus_def
     upt_conv_Cons)

lemma sample_push_keccak:
  "keccak_circuit_add sample_keccak sample_push (FQ 3) =
     Inr \<lparr>kc_state_tag = FQ 2, kc_input_rlc = FQ 0x121, kc_input_len = FQ 2, kc_output = word_of 2\<rparr>"
  unfolding sample_push_def
  by (subst keccak_circuit_add_ok) (simp_all add: is_byte_def sample_keccak_word rlc_be_def fq_eq_iff fq_n_arith fq_modulus_def)

lemma bytecode_sample_keccak_rows:
  "bytecode_sample_keccak = {\<lparr>kc_state_tag = FQ 2, kc_input_rlc = FQ 0x121, kc_input_len = FQ 2, kc_output = word_of 2\<rparr>}"
  by (simp add: bytecode_sample_keccak_def assign_keccak_table_def sample_push_keccak)

lemmas check_bytecode_defs = check_bytecode_row_def check_header_to_byte_def check_header_to_header_def
  check_byte_to_byte_def check_byte_to_header_def

lemma sample_push_table: "(FQ 96, 1) \<in> set assign_push_table" "(1, 0) \<in> set assign_push_table"
  unfolding push_table_mem
  by (rule exI [of _ 96], simp add: is_byte_def get_push_size_def)
    (rule exI [of _ 1], simp add: is_byte_def get_push_size_def)

lemma bytecode_sample_accepted:
  "verify_bytecode_circuit sample_keccak bytecode_sample bytecode_sample_keccak (FQ 3) = Inr ()"
  by (simp add: bytecode_sample_def assign_bytecode_circuit_def sample_push_def init_is_code_def bytecode_table_assignments_def
     sample_keccak_word bytecode_hash_def EMPTY_HASH_def get_push_size_def bytecode_padding_row_def Let_def fq_modulus_def
     upt_conv_Cons verify_bytecode_circuit_def bytecode_sample_keccak_rows check_bytecode_defs
     sample_push_table fq_eq_iff fq_n_arith)

lemma bytecode_circuit_sound_witness:
  "verify_bytecode_circuit sample_keccak bytecode_sample bytecode_sample_keccak (FQ 3) = Inr () \<and>
   (\<exists>bs. bs \<noteq> [] \<and> unrolls bytecode_sample 0 bs \<and>
     \<lparr>kc_state_tag = FQ 2, kc_input_rlc = rlc_be (FQ 3) bs, kc_input_len = FQ (int (length bs)),
       kc_output = br_hash (bytecode_sample ! 0)\<rparr> \<in> bytecode_sample_keccak)"
proof (intro conjI bytecode_sample_accepted)
  have n: "length bytecode_sample = 4"
    using arg_cong [OF bytecode_sample_rows(1), of length] by simp
  have t: "br_tag (bytecode_sample ! i) = [1, FQ 2, FQ 2, 1] ! i" "br_q_last (bytecode_sample ! i) = [0, 0, 0, 1] ! i"
    if "i < 4" for i
    using that n nth_map [of i bytecode_sample br_tag] nth_map [of i bytecode_sample br_q_last] bytecode_sample_rows
    by simp_all
  have "set (map br_tag bytecode_sample) \<subseteq> {FQ (bf_int BF_Header), FQ (bf_int BF_Byte)}"
    unfolding bytecode_sample_rows by simp
  then have tags: "\<forall>row\<in>set bytecode_sample. br_tag row \<in> {FQ (bf_int BF_Header), FQ (bf_int BF_Byte)}"
    by auto
  have last: "\<forall>i<length bytecode_sample. br_q_last (bytecode_sample ! i) = fq_of_bool (i = length bytecode_sample - 1)"
    unfolding n by (auto simp: t less_Suc_eq numeral_eq_Suc)
  from bytecode_circuit_sound [OF bytecode_sample_accepted tags last, of 0]
  show "\<exists>bs. bs \<noteq> [] \<and> unrolls bytecode_sample 0 bs \<and>
     \<lparr>kc_state_tag = FQ 2, kc_input_rlc = rlc_be (FQ 3) bs, kc_input_len = FQ (int (length bs)),
       kc_output = br_hash (bytecode_sample ! 0)\<rparr> \<in> bytecode_sample_keccak"
    using n t by auto
qed

section \<open>Rows of an unknown tag\<close>

text \<open>
  The constraints are guarded by the tags of two rows, and nothing confines the tag column to the
  two values of the enum. A row of tag 3 after a byte is neither a byte nor a header, so the last
  byte is not checked against the length and the Keccak table.
\<close>

definition forged_row :: "word256 \<Rightarrow> fq \<Rightarrow> int \<Rightarrow> bytecode_circuit_row" where
  "forged_row hash tag b =
     \<lparr>br_q_first = 0, br_q_last = 0, br_hash = hash, br_tag = tag, br_index = 0, br_value = FQ b, br_is_code = 1,
      br_push_data_left = 0, br_value_rlc = FQ b, br_length = 1, br_push_data_size = FQ (get_push_size b)\<rparr>"

definition forged_bytecode :: "hash_fun \<Rightarrow> word256 \<Rightarrow> int \<Rightarrow> bytecode_circuit_row list" where
  "forged_bytecode keccak256 hash b =
     [(forged_row hash (FQ (bf_int BF_Header)) 1)\<lparr>br_q_first := 1, br_is_code := 0\<rparr>,
      forged_row hash (FQ (bf_int BF_Byte)) b,
      forged_row hash (FQ 3) b,
      bytecode_padding_row (word_of (EMPTY_HASH keccak256)) 2 3]"

text \<open>
  C29: Nothing confines the tag column to its two values: for every hash and every byte a
  table is accepted whose header row claims that hash for a code of that byte although the
  Keccak table is empty, because a row of tag 3 follows the byte.
\<close>

lemma bytecode_tag_escapes_hash:
  "list_all (\<lambda>b. verify_bytecode_circuit sample_keccak (forged_bytecode sample_keccak hash b) {} r = Inr ()) [0..255]"
proof -
  have "verify_bytecode_circuit sample_keccak (forged_bytecode sample_keccak hash b) {} r = Inr ()" if "is_byte b" for b
  proof -
    have "(FQ b, FQ (get_push_size b)) \<in> set assign_push_table" using that unfolding push_table_mem by blast
    then show ?thesis
      by (simp add: verify_bytecode_circuit_def forged_bytecode_def forged_row_def upt_conv_Cons check_bytecode_defs
          bytecode_padding_row_def EMPTY_HASH_def sample_keccak_empty word_of_int256_Inr fq_eq_iff fq_modulus_def)
  qed
  then show ?thesis by (simp add: list_all_iff is_byte_def)
qed

end
