(* ===== verification/Rw_Dictionary.thy ===== *)
theory Rw_Dictionary
  imports Table
begin

text \<open>
  The class \<open>RWDictionary\<close> of \<^verbatim>\<open>src/zkevm_specs/evm_circuit/typing.py\<close>: a counter and the rows
  of the read-write table written so far. Every method appends one row under the current counter;
  a write that may be reverted also appends the row of its reversion, under the counter given and
  without advancing the counter. Identifiers and addresses are the field elements the methods turn
  them into; a value is a word or a field element, and the methods assert which of the two a field
  holds.
\<close>

record rw_dictionary =
  rd_rw_counter :: int
  rd_rws :: "rw_row list"

definition new_rw_dictionary :: "int \<Rightarrow> rw_dictionary" where
  "new_rw_dictionary rw_counter = \<lparr>rd_rw_counter = rw_counter, rd_rws = []\<rparr>"

text \<open>The keyword arguments of \<open>_append\<close>, \<open>_state_read\<close> and \<open>_state_write\<close>, with their defaults.\<close>

record rw_fields =
  rf_id :: fq
  rf_address :: fq
  rf_field_tag :: fq
  rf_storage_key :: word256
  rf_value :: word_or_value
  rf_value_prev :: word_or_value
  rf_aux0 :: word256

definition rw_defaults :: rw_fields where
  "rw_defaults = \<lparr>rf_id = 0, rf_address = 0, rf_field_tag = 0, rf_storage_key = WordLH 0 0,
     rf_value = WordV (WordLH 0 0), rf_value_prev = WordV (WordLH 0 0), rf_aux0 = WordLH 0 0\<rparr>"

definition rd_row :: "int \<Rightarrow> rw \<Rightarrow> target \<Rightarrow> rw_fields \<Rightarrow> rw_row" where
  "rd_row rw_counter rw tag f =
     \<lparr>rw_rw_counter = FQ rw_counter, rw_rw = FQ (rw_int rw), rw_key0 = FQ (target_int tag), rw_id = rf_id f,
      rw_address = rf_address f, rw_field_tag = rf_field_tag f, rw_storage_key = rf_storage_key f,
      rw_value = rf_value f, rw_value_prev = rf_value_prev f, rw_aux0 = rf_aux0 f\<rparr>"

definition rd_append :: "rw \<Rightarrow> target \<Rightarrow> rw_fields \<Rightarrow> int option \<Rightarrow> rw_dictionary \<Rightarrow> rw_dictionary" where
  "rd_append rw tag f rw_counter d =
     (case rw_counter of
        None \<Rightarrow> d\<lparr>rd_rw_counter := rd_rw_counter d + 1,
                  rd_rws := rd_rws d @ [rd_row (rd_rw_counter d) rw tag f]\<rparr>
      | Some c \<Rightarrow> d\<lparr>rd_rws := rd_rws d @ [rd_row c rw tag f]\<rparr>)"

definition rd_state_read :: "target \<Rightarrow> rw_fields \<Rightarrow> rw_dictionary \<Rightarrow> rw_dictionary" where
  "rd_state_read tag f d = rd_append RW_Read tag f None d"

definition rd_state_write :: "target \<Rightarrow> rw_fields \<Rightarrow> int option \<Rightarrow> rw_dictionary \<Rightarrow> rw_dictionary" where
  "rd_state_write tag f rw_counter_of_reversion d =
     (let d = rd_append RW_Write tag f None d in
      case rw_counter_of_reversion of
        None \<Rightarrow> d
      | Some c \<Rightarrow> rd_append RW_Write tag (f\<lparr>rf_value := rf_value_prev f, rf_value_prev := rf_value f\<rparr>) (Some c) d)"

section \<open>The methods\<close>

definition rd_stack_read :: "fq \<Rightarrow> fq \<Rightarrow> word256 \<Rightarrow> rw_dictionary \<Rightarrow> rw_dictionary" where
  "rd_stack_read call_id stack_pointer value d =
     rd_append RW_Read T_Stack (rw_defaults\<lparr>rf_id := call_id, rf_address := stack_pointer, rf_value := WordV value\<rparr>) None d"

definition rd_stack_write :: "fq \<Rightarrow> fq \<Rightarrow> word256 \<Rightarrow> rw_dictionary \<Rightarrow> rw_dictionary" where
  "rd_stack_write call_id stack_pointer value d =
     rd_append RW_Write T_Stack (rw_defaults\<lparr>rf_id := call_id, rf_address := stack_pointer, rf_value := WordV value\<rparr>) None d"

definition rd_memory_read :: "fq \<Rightarrow> fq \<Rightarrow> fq \<Rightarrow> rw_dictionary \<Rightarrow> rw_dictionary" where
  "rd_memory_read call_id memory_address byte d =
     rd_append RW_Read T_Memory (rw_defaults\<lparr>rf_id := call_id, rf_address := memory_address, rf_value := ValueV byte\<rparr>) None d"

definition rd_memory_write :: "fq \<Rightarrow> fq \<Rightarrow> fq \<Rightarrow> rw_dictionary \<Rightarrow> rw_dictionary" where
  "rd_memory_write call_id memory_address byte d =
     rd_append RW_Write T_Memory (rw_defaults\<lparr>rf_id := call_id, rf_address := memory_address, rf_value := ValueV byte\<rparr>) None d"

fun is_word_value :: "word_or_value \<Rightarrow> bool" where
  "is_word_value (WordV w) = True"
| "is_word_value (ValueV v) = False"

definition call_context_sanity :: "call_context_field_tag \<Rightarrow> word_or_value \<Rightarrow> unit result" where
  "call_context_sanity field_tag value =
     assert_that (is_word_value value \<longleftrightarrow> field_tag \<in> {CC_CallerAddress, CC_CalleeAddress, CC_Value, CC_CodeHash})"

definition rd_call_context_read ::
  "fq \<Rightarrow> call_context_field_tag \<Rightarrow> word_or_value \<Rightarrow> rw_dictionary \<Rightarrow> rw_dictionary result" where
  "rd_call_context_read call_id field_tag value d =
     rbind (call_context_sanity field_tag value) (\<lambda>_.
     Inr (rd_append RW_Read T_CallContext
       (rw_defaults\<lparr>rf_id := call_id, rf_address := FQ (cc_int field_tag), rf_value := value\<rparr>) None d))"

definition rd_call_context_write ::
  "fq \<Rightarrow> call_context_field_tag \<Rightarrow> word_or_value \<Rightarrow> rw_dictionary \<Rightarrow> rw_dictionary result" where
  "rd_call_context_write call_id field_tag value d =
     rbind (call_context_sanity field_tag value) (\<lambda>_.
     Inr (rd_append RW_Write T_CallContext
       (rw_defaults\<lparr>rf_id := call_id, rf_address := FQ (cc_int field_tag), rf_value := value\<rparr>) None d))"

definition rd_tx_log_write ::
  "fq \<Rightarrow> int \<Rightarrow> tx_log_field_tag \<Rightarrow> int \<Rightarrow> word_or_value \<Rightarrow> rw_dictionary \<Rightarrow> rw_dictionary result" where
  "rd_tx_log_write tx_id log_id field_tag index value d =
     rbind (assert_that (is_word_value value \<longleftrightarrow> field_tag \<in> {TL_Address, TL_Topic})) (\<lambda>_.
     Inr (rd_append RW_Write T_TxLog
       (rw_defaults\<lparr>rf_id := tx_id, rf_address := FQ (index + tl_int field_tag * 2 ^ 32 + log_id * 2 ^ 48),
          rf_value := value\<rparr>) None d))"

definition rd_tx_receipt_read :: "fq \<Rightarrow> tx_receipt_field_tag \<Rightarrow> fq \<Rightarrow> rw_dictionary \<Rightarrow> rw_dictionary" where
  "rd_tx_receipt_read tx_id field_tag value d =
     rd_append RW_Read T_TxReceipt
       (rw_defaults\<lparr>rf_id := tx_id, rf_field_tag := FQ (tr_int field_tag), rf_value := ValueV value\<rparr>) None d"

definition rd_tx_receipt_write :: "fq \<Rightarrow> tx_receipt_field_tag \<Rightarrow> fq \<Rightarrow> rw_dictionary \<Rightarrow> rw_dictionary" where
  "rd_tx_receipt_write tx_id field_tag value d =
     rd_append RW_Write T_TxReceipt
       (rw_defaults\<lparr>rf_id := tx_id, rf_field_tag := FQ (tr_int field_tag), rf_value := ValueV value\<rparr>) None d"

definition rd_tx_refund_read :: "fq \<Rightarrow> fq \<Rightarrow> rw_dictionary \<Rightarrow> rw_dictionary" where
  "rd_tx_refund_read tx_id refund d =
     rd_append RW_Read T_TxRefund
       (rw_defaults\<lparr>rf_id := tx_id, rf_value := ValueV refund, rf_value_prev := ValueV refund\<rparr>) None d"

definition rd_tx_refund_write :: "fq \<Rightarrow> fq \<Rightarrow> fq \<Rightarrow> int option \<Rightarrow> rw_dictionary \<Rightarrow> rw_dictionary" where
  "rd_tx_refund_write tx_id refund refund_prev rw_counter_of_reversion d =
     rd_state_write T_TxRefund
       (rw_defaults\<lparr>rf_id := tx_id, rf_value := ValueV refund, rf_value_prev := ValueV refund_prev\<rparr>)
       rw_counter_of_reversion d"

definition rd_tx_access_list_account_write ::
  "fq \<Rightarrow> fq \<Rightarrow> bool \<Rightarrow> bool \<Rightarrow> int option \<Rightarrow> rw_dictionary \<Rightarrow> rw_dictionary" where
  "rd_tx_access_list_account_write tx_id account_address value value_prev rw_counter_of_reversion d =
     rd_state_write T_TxAccessListAccount
       (rw_defaults\<lparr>rf_id := tx_id, rf_address := account_address, rf_value := ValueV (fq_of_bool value),
          rf_value_prev := ValueV (fq_of_bool value_prev)\<rparr>)
       rw_counter_of_reversion d"

definition rd_tx_access_list_account_read :: "fq \<Rightarrow> fq \<Rightarrow> bool \<Rightarrow> rw_dictionary \<Rightarrow> rw_dictionary" where
  "rd_tx_access_list_account_read tx_id account_address value d =
     rd_state_read T_TxAccessListAccount
       (rw_defaults\<lparr>rf_id := tx_id, rf_address := account_address, rf_value := ValueV (fq_of_bool value),
          rf_value_prev := ValueV (fq_of_bool value)\<rparr>) d"

definition rd_tx_access_list_account_storage_write ::
  "fq \<Rightarrow> fq \<Rightarrow> word256 \<Rightarrow> bool \<Rightarrow> bool \<Rightarrow> int option \<Rightarrow> rw_dictionary \<Rightarrow> rw_dictionary" where
  "rd_tx_access_list_account_storage_write tx_id account_address storage_key value value_prev rw_counter_of_reversion d =
     rd_state_write T_TxAccessListAccountStorage
       (rw_defaults\<lparr>rf_id := tx_id, rf_address := account_address, rf_storage_key := storage_key,
          rf_value := ValueV (fq_of_bool value), rf_value_prev := ValueV (fq_of_bool value_prev)\<rparr>)
       rw_counter_of_reversion d"

definition rd_tx_access_list_account_storage_read ::
  "fq \<Rightarrow> fq \<Rightarrow> word256 \<Rightarrow> bool \<Rightarrow> rw_dictionary \<Rightarrow> rw_dictionary" where
  "rd_tx_access_list_account_storage_read tx_id account_address storage_key value d =
     rd_state_read T_TxAccessListAccountStorage
       (rw_defaults\<lparr>rf_id := tx_id, rf_address := account_address, rf_storage_key := storage_key,
          rf_value := ValueV (fq_of_bool value), rf_value_prev := ValueV (fq_of_bool value)\<rparr>) d"

definition rd_account_read :: "fq \<Rightarrow> account_field_tag \<Rightarrow> word_or_value \<Rightarrow> rw_dictionary \<Rightarrow> rw_dictionary" where
  "rd_account_read account_address field_tag value d =
     rd_append RW_Read T_Account
       (rw_defaults\<lparr>rf_address := account_address, rf_field_tag := FQ (af_int field_tag),
          rf_value := value, rf_value_prev := value\<rparr>) None d"

definition rd_account_write ::
  "fq \<Rightarrow> account_field_tag \<Rightarrow> word_or_value \<Rightarrow> word_or_value \<Rightarrow> int option \<Rightarrow> rw_dictionary \<Rightarrow> rw_dictionary" where
  "rd_account_write account_address field_tag value value_prev rw_counter_of_reversion d =
     rd_state_write T_Account
       (rw_defaults\<lparr>rf_address := account_address, rf_field_tag := FQ (af_int field_tag),
          rf_value := value, rf_value_prev := value_prev\<rparr>)
       rw_counter_of_reversion d"

definition rd_account_storage_read ::
  "fq \<Rightarrow> word256 \<Rightarrow> word256 \<Rightarrow> fq \<Rightarrow> word256 \<Rightarrow> rw_dictionary \<Rightarrow> rw_dictionary" where
  "rd_account_storage_read account_address storage_key value tx_id value_committed d =
     rd_append RW_Read T_AccountStorage
       (rw_defaults\<lparr>rf_id := tx_id, rf_address := account_address, rf_storage_key := storage_key,
          rf_value := WordV value, rf_value_prev := WordV value, rf_aux0 := value_committed\<rparr>) None d"

definition rd_account_storage_write ::
  "fq \<Rightarrow> word256 \<Rightarrow> word256 \<Rightarrow> word256 \<Rightarrow> fq \<Rightarrow> word256 \<Rightarrow> int option \<Rightarrow> rw_dictionary \<Rightarrow> rw_dictionary" where
  "rd_account_storage_write account_address storage_key value value_prev tx_id value_committed rw_counter_of_reversion d =
     rd_state_write T_AccountStorage
       (rw_defaults\<lparr>rf_id := tx_id, rf_address := account_address, rf_storage_key := storage_key,
          rf_value := WordV value, rf_value_prev := WordV value_prev, rf_aux0 := value_committed\<rparr>)
       rw_counter_of_reversion d"

end
