(* ===== verification/Copy_Circuit.thy ===== *)
theory Copy_Circuit
  imports Constraint_System Row_Chain Rw_Dictionary Lookup
begin

text \<open>
  The copy circuit, \<^verbatim>\<open>src/zkevm_specs/copy_circuit.py\<close>: the constraints on a row and its two
  successors (\<open>verify_row\<close> and \<open>verify_step\<close>), the lookups of a row, and their check over the
  table (\<open>verify_copy_table\<close>); and the class \<open>CopyCircuit\<close> of \<^verbatim>\<open>evm_circuit/typing.py\<close>, which
  lays out a copy as alternating read and write rows and records its memory and log accesses in an
  \<open>RWDictionary\<close>. Each \<open>with cs.condition(..)\<close> block is a definition of its own.
\<close>

section \<open>The constraints\<close>

definition copy_lt :: "fq \<Rightarrow> fq \<Rightarrow> nat \<Rightarrow> fq result" where
  "copy_lt lhs rhs n_bytes =
     rbind (assert_that (n_bytes \<le> MAX_N_BYTES)) (\<lambda>_.
     rbind (assert_that (fq_n lhs < 256 ^ n_bytes)) (\<lambda>_.
     rbind (assert_that (fq_n rhs < 256 ^ n_bytes)) (\<lambda>_.
     Inr (fq_of_bool (fq_n lhs < fq_n rhs)))))"

definition copy_flag_check :: "constraint_system \<Rightarrow> copy_circuit_row \<Rightarrow> fq \<Rightarrow> copy_data_type_tag \<Rightarrow> unit result" where
  "copy_flag_check cs row flag tag = cs_constrain_equal cs flag (cs_is_zero (cc_tag row - FQ (cd_int tag)))"

definition copy_row_checks :: "constraint_system \<Rightarrow> copy_circuit_row \<Rightarrow> unit result" where
  "copy_row_checks cs row0 =
     rbind (cs_constrain_bool cs (cc_is_first row0)) (\<lambda>_.
     rbind (cs_constrain_bool cs (cc_is_last row0)) (\<lambda>_.
     rbind (cs_constrain_zero cs ((1 - cc_q_step row0) * cc_is_first row0)) (\<lambda>_.
     rbind (cs_constrain_zero cs (cc_q_step row0 * cc_is_last row0)) (\<lambda>_.
     rbind (copy_flag_check cs row0 (cc_is_memory row0) CD_Memory) (\<lambda>_.
     rbind (copy_flag_check cs row0 (cc_is_bytecode row0) CD_Bytecode) (\<lambda>_.
     rbind (copy_flag_check cs row0 (cc_is_tx_calldata row0) CD_TxCalldata) (\<lambda>_.
     rbind (copy_flag_check cs row0 (cc_is_tx_log row0) CD_TxLog) (\<lambda>_.
     copy_flag_check cs row0 (cc_is_rlc_acc row0) CD_RlcAcc))))))))"

definition copy_step_transition :: "copy_circuit_row \<Rightarrow> copy_circuit_row \<Rightarrow> constraint_system \<Rightarrow> unit result" where
  "copy_step_transition row0 row2 cs =
     rbind (cs_constrain_equal_word cs (wov_word (cc_id row0)) (wov_word (cc_id row2))) (\<lambda>_.
     rbind (cs_constrain_equal cs (cc_tag row0) (cc_tag row2)) (\<lambda>_.
     rbind (cs_constrain_equal cs (cc_addr row0 + 1) (cc_addr row2)) (\<lambda>_.
     cs_constrain_equal cs (cc_src_addr_end row0) (cc_src_addr_end row2))))"

definition copy_rw_diff :: "copy_circuit_row \<Rightarrow> fq" where
  "copy_rw_diff row = (1 - cc_is_pad row) * (cc_is_memory row + cc_is_tx_log row)"

definition copy_row_transition :: "copy_circuit_row \<Rightarrow> copy_circuit_row \<Rightarrow> constraint_system \<Rightarrow> unit result" where
  "copy_row_transition row0 row1 cs =
     rbind (cs_constrain_equal cs (cc_rw_counter row0 + copy_rw_diff row0) (cc_rw_counter row1)) (\<lambda>_.
     rbind (cs_constrain_equal cs (cc_rwc_inc_left row0 - copy_rw_diff row0) (cc_rwc_inc_left row1)) (\<lambda>_.
     cs_constrain_equal cs (cc_rlc_acc row0) (cc_rlc_acc row1)))"

definition copy_verify_row ::
  "constraint_system \<Rightarrow> copy_circuit_row \<Rightarrow> copy_circuit_row \<Rightarrow> copy_circuit_row \<Rightarrow> constraint_system result" where
  "copy_verify_row cs row0 row1 row2 =
     rbind (copy_row_checks cs row0) (\<lambda>_.
     rbind (cs_with cs (1 - (cc_is_last row0 + cc_is_last row1)) (copy_step_transition row0 row2)) (\<lambda>cs.
     rbind (cs_with cs (1 - cc_is_last row0) (copy_row_transition row0 row1)) (\<lambda>cs.
     rbind (cs_with cs (cc_is_last row0)
       (\<lambda>cs. cs_constrain_equal cs (cc_rwc_inc_left row0) (copy_rw_diff row0))) (\<lambda>cs.
     cs_with cs (cc_is_last row0 * cc_is_rlc_acc row0)
       (\<lambda>cs. cs_constrain_equal cs (cc_rlc_acc row0) (cc_value row0))))))"

definition copy_read_checks ::
  "copy_circuit_row \<Rightarrow> copy_circuit_row \<Rightarrow> copy_circuit_row \<Rightarrow> constraint_system \<Rightarrow> unit result" where
  "copy_read_checks row0 row1 row2 cs =
     rbind (cs_constrain_zero cs (cc_is_last row1 * (1 - cc_bytes_left row0))) (\<lambda>_.
     rbind (cs_constrain_zero cs ((1 - cc_is_last row1) * (cc_bytes_left row0 - cc_bytes_left row2 - 1))) (\<lambda>_.
     rbind (cs_constrain_zero cs (cc_is_pad row0 * cc_value row0)) (\<lambda>_.
     rbind (if cc_is_tx_log row0 = 0
            then rbind (copy_lt (cc_addr row0) (cc_src_addr_end row0) N_BYTES_MEMORY_ADDRESS) (\<lambda>lt.
              cs_constrain_equal cs (1 - lt) (cc_is_pad row0))
            else Inr ()) (\<lambda>_.
     cs_constrain_zero cs (cc_is_pad row1)))))"

definition copy_verify_step ::
  "constraint_system \<Rightarrow> copy_circuit_row \<Rightarrow> copy_circuit_row \<Rightarrow> copy_circuit_row \<Rightarrow> fq \<Rightarrow> constraint_system result" where
  "copy_verify_step cs row0 row1 row2 r =
     rbind (cs_with cs (cc_q_step row0) (copy_read_checks row0 row1 row2)) (\<lambda>cs.
     rbind (cs_with cs (cc_q_step row0 * (1 - cc_is_rlc_acc row1))
       (\<lambda>cs. cs_constrain_equal cs (cc_value row0) (cc_value row1))) (\<lambda>cs.
     rbind (cs_with cs (cc_q_step row0 * cc_is_first row0)
       (\<lambda>cs. cs_constrain_equal cs (cc_value row0) (cc_value row1))) (\<lambda>cs.
     cs_with cs ((1 - cc_q_step row0) * (1 - cc_is_last row0) * cc_is_rlc_acc row0)
       (\<lambda>cs. cs_constrain_equal cs (cc_value row2) (cc_value row0 * r + cc_value row1)))))"

definition copy_rw_query :: "copy_circuit_row \<Rightarrow> fq \<Rightarrow> target \<Rightarrow> fq \<Rightarrow> rw_query" where
  "copy_rw_query row rw tag ident =
     \<lparr>q_rw_counter = cc_rw_counter row, q_rw = rw, q_key0 = FQ (target_int tag), q_id = Some ident,
      q_address = Some (cc_addr row), q_field_tag = None, q_storage_key = None, q_value = None,
      q_value_prev = None, q_aux0 = None\<rparr>"

definition copy_rw_check :: "tables \<Rightarrow> constraint_system \<Rightarrow> copy_circuit_row \<Rightarrow> fq \<Rightarrow> target \<Rightarrow> unit result" where
  "copy_rw_check T cs row rw tag =
     rbind (wov_value (cc_id row)) (\<lambda>id.
     rbind (rw_lookup_table T (copy_rw_query row rw tag id)) (\<lambda>found.
     rbind (wov_value (rw_value found)) (\<lambda>val.
     cs_constrain_equal cs val (cc_value row))))"

definition copy_bytecode_check :: "tables \<Rightarrow> constraint_system \<Rightarrow> copy_circuit_row \<Rightarrow> unit result" where
  "copy_bytecode_check T cs row =
     rbind (bytecode_lookup_table T
       \<lparr>qb_bytecode_hash = wov_word (cc_id row), qb_field_tag = FQ (bf_int BF_Byte), qb_index = cc_addr row,
        qb_is_code = Some (cc_is_code row)\<rparr>) (\<lambda>found.
     cs_constrain_equal cs (bc_value found) (cc_value row))"

definition copy_calldata_check :: "tables \<Rightarrow> constraint_system \<Rightarrow> copy_circuit_row \<Rightarrow> unit result" where
  "copy_calldata_check T cs row =
     rbind (wov_value (cc_id row)) (\<lambda>id.
     rbind (tx_lookup T id (FQ (tc_int TC_CallData)) (cc_addr row)) (\<lambda>found.
     rbind (wov_value (tx_value found)) (\<lambda>val.
     cs_constrain_equal cs val (cc_value row))))"

definition copy_lookups :: "tables \<Rightarrow> constraint_system \<Rightarrow> copy_circuit_row \<Rightarrow> unit result" where
  "copy_lookups T cs row =
     rbind (if cc_is_memory row = 1 \<and> cc_is_pad row = 0 then copy_rw_check T cs row (1 - cc_q_step row) T_Memory else Inr ()) (\<lambda>_.
     rbind (if cc_is_bytecode row = 1 \<and> cc_is_pad row = 0 then copy_bytecode_check T cs row else Inr ()) (\<lambda>_.
     rbind (if cc_is_tx_calldata row = 1 \<and> cc_is_pad row = 0 then copy_calldata_check T cs row else Inr ()) (\<lambda>_.
     if cc_is_tx_log row = 1 then copy_rw_check T cs row (FQ (rw_int RW_Write)) T_TxLog else Inr ())))"

fun copy_verify_rows ::
  "tables \<Rightarrow> fq \<Rightarrow> copy_circuit_row list \<Rightarrow> constraint_system \<Rightarrow> nat list \<Rightarrow> unit result" where
  "copy_verify_rows T r table cs [] = Inr ()"
| "copy_verify_rows T r table cs (i # is) =
     (let row0 = table ! i; row1 = table ! ((i + 1) mod length table); row2 = table ! ((i + 2) mod length table) in
      rbind (copy_verify_row cs row0 row1 row2) (\<lambda>cs.
      rbind (copy_verify_step cs row0 row1 row2 r) (\<lambda>cs.
      rbind (copy_lookups T cs row0) (\<lambda>_.
      copy_verify_rows T r table cs is))))"

definition verify_copy_table :: "copy_circuit_row list \<Rightarrow> tables \<Rightarrow> fq \<Rightarrow> unit result" where
  "verify_copy_table table T r = copy_verify_rows T r table new_constraint_system [0..<length table]"

section \<open>The layout of a copy\<close>

text \<open>
  The source is a mapping from offsets to bytes, or to pairs of a byte and its code flag when one of
  the two sides is bytecode. Addresses are integers; \<open>id\<close> is already a word or a value.
\<close>

datatype copy_datum = Plain fq | With_Code fq fq

record copy_layout =
  cl_rows :: "copy_circuit_row list"
  cl_rw_dict :: rw_dictionary

record copy_append_args =
  ca_is_write :: bool
  ca_is_first :: bool
  ca_is_last :: bool
  ca_id :: word_or_value
  ca_tag :: copy_data_type_tag
  ca_addr :: int
  ca_value :: fq
  ca_is_code :: fq
  ca_is_pad :: bool
  ca_src_addr_end :: int
  ca_bytes_left :: int
  ca_log_id :: int

definition copy_append_access :: "copy_append_args \<Rightarrow> rw_dictionary \<Rightarrow> (int \<times> rw_dictionary) result" where
  "copy_append_access a d =
     (if ca_tag a = CD_Memory then
        if ca_is_write a then
          rbind (wov_value (ca_id a)) (\<lambda>id. Inr (ca_addr a, rd_memory_write id (FQ (ca_addr a)) (ca_value a) d))
        else if \<not> ca_is_pad a then
          rbind (wov_value (ca_id a)) (\<lambda>id. Inr (ca_addr a, rd_memory_read id (FQ (ca_addr a)) (ca_value a) d))
        else Inr (ca_addr a, d)
      else if ca_tag a = CD_TxLog then
        rbind (assert_that (ca_is_write a)) (\<lambda>_.
        rbind (wov_value (ca_id a)) (\<lambda>id.
        rbind (rd_tx_log_write id (ca_log_id a) TL_Data (ca_addr a) (ValueV (ca_value a)) d) (\<lambda>d.
        Inr (ca_addr a + tl_int TL_Data * 2 ^ 32 + ca_log_id a * 2 ^ 48, d))))
      else Inr (ca_addr a, d))"

definition copy_append_row :: "copy_append_args \<Rightarrow> copy_layout \<Rightarrow> copy_layout result" where
  "copy_append_row a l =
     (let rw_counter = rd_rw_counter (cl_rw_dict l) in
      rbind (copy_append_access a (cl_rw_dict l)) (\<lambda>(addr, d).
      Inr (l\<lparr>cl_rw_dict := d, cl_rows := cl_rows l @
        [\<lparr>cc_q_step = fq_of_bool (\<not> ca_is_write a), cc_is_first = fq_of_bool (ca_is_first a),
          cc_is_last = fq_of_bool (ca_is_last a), cc_id = ca_id a, cc_tag = FQ (cd_int (ca_tag a)),
          cc_addr = FQ addr, cc_src_addr_end = FQ (ca_src_addr_end a), cc_bytes_left = FQ (ca_bytes_left a),
          cc_value = ca_value a, cc_rlc_acc = 0, cc_is_code = ca_is_code a, cc_is_pad = fq_of_bool (ca_is_pad a),
          cc_rw_counter = FQ rw_counter, cc_rwc_inc_left = 0,
          cc_is_memory = fq_of_bool (ca_tag a = CD_Memory), cc_is_bytecode = fq_of_bool (ca_tag a = CD_Bytecode),
          cc_is_tx_calldata = fq_of_bool (ca_tag a = CD_TxCalldata), cc_is_tx_log = fq_of_bool (ca_tag a = CD_TxLog),
          cc_is_rlc_acc = fq_of_bool (ca_tag a = CD_RlcAcc)\<rparr>]\<rparr>)))"

record copy_args =
  ct_src_id :: word_or_value
  ct_src_tag :: copy_data_type_tag
  ct_dst_id :: word_or_value
  ct_dst_tag :: copy_data_type_tag
  ct_src_addr :: int
  ct_src_addr_end :: int
  ct_dst_addr :: int
  ct_copy_length :: int
  ct_log_id :: int

definition copy_read_datum :: "copy_args \<Rightarrow> (int \<Rightarrow> copy_datum option) \<Rightarrow> int \<Rightarrow> (bool \<times> fq \<times> fq) result" where
  "copy_read_datum a src_data i =
     (if ct_src_addr a + i < ct_src_addr_end a then
        case src_data (ct_src_addr a + i) of
          None \<Rightarrow> Inl AssertionError
        | Some datum \<Rightarrow>
            if ct_src_tag a = CD_Bytecode \<or> ct_dst_tag a = CD_Bytecode
            then (case datum of With_Code v c \<Rightarrow> Inr (False, v, c) | Plain v \<Rightarrow> Inl TypeError)
            else (case datum of Plain v \<Rightarrow> Inr (False, v, 0) | With_Code v c \<Rightarrow> Inl TypeError)
      else Inr (True, 0, 0))"

definition copy_one ::
  "fq \<Rightarrow> copy_args \<Rightarrow> (int \<Rightarrow> copy_datum option) \<Rightarrow> int \<Rightarrow> fq \<Rightarrow> copy_layout \<Rightarrow> (fq \<times> copy_layout) result" where
  "copy_one r a src_data i rlc_acc l =
     rbind (copy_read_datum a src_data i) (\<lambda>(is_pad, value, is_code).
     rbind (copy_append_row
       \<lparr>ca_is_write = False, ca_is_first = i = 0, ca_is_last = False, ca_id = ct_src_id a, ca_tag = ct_src_tag a,
        ca_addr = ct_src_addr a + i, ca_value = value, ca_is_code = is_code, ca_is_pad = is_pad,
        ca_src_addr_end = ct_src_addr_end a, ca_bytes_left = ct_copy_length a - i, ca_log_id = 0\<rparr> l) (\<lambda>l.
     let rlc_acc = (if ct_dst_tag a = CD_RlcAcc then rlc_acc * r + value else rlc_acc) in
     rbind (copy_append_row
       \<lparr>ca_is_write = True, ca_is_first = False, ca_is_last = i = ct_copy_length a - 1, ca_id = ct_dst_id a,
        ca_tag = ct_dst_tag a, ca_addr = ct_dst_addr a + i,
        ca_value = (if ct_dst_tag a = CD_RlcAcc then rlc_acc else value), ca_is_code = is_code, ca_is_pad = False,
        ca_src_addr_end = 0, ca_bytes_left = 0, ca_log_id = ct_log_id a\<rparr> l) (\<lambda>l.
     Inr (rlc_acc, l))))"

fun copy_loop ::
  "fq \<Rightarrow> copy_args \<Rightarrow> (int \<Rightarrow> copy_datum option) \<Rightarrow> int list \<Rightarrow> fq \<Rightarrow> copy_layout \<Rightarrow> (fq \<times> copy_layout) result" where
  "copy_loop r a src_data [] rlc_acc l = Inr (rlc_acc, l)"
| "copy_loop r a src_data (i # is) rlc_acc l =
     rbind (copy_one r a src_data i rlc_acc l) (\<lambda>(rlc_acc, l). copy_loop r a src_data is rlc_acc l)"

definition copy_finish_row :: "copy_data_type_tag \<Rightarrow> int \<Rightarrow> fq \<Rightarrow> copy_circuit_row \<Rightarrow> copy_circuit_row" where
  "copy_finish_row dst_tag rw_counter rlc_acc row =
     (let row = row\<lparr>cc_rwc_inc_left := FQ rw_counter - cc_rw_counter row\<rparr> in
      if dst_tag = CD_RlcAcc then row\<lparr>cc_rlc_acc := rlc_acc\<rparr> else row)"

definition copy_circuit_copy ::
  "fq \<Rightarrow> copy_args \<Rightarrow> (int \<Rightarrow> copy_datum option) \<Rightarrow> copy_layout \<Rightarrow> copy_layout result" where
  "copy_circuit_copy r a src_data l =
     rbind (copy_loop r a src_data [0..ct_copy_length a - 1] 0 \<lparr>cl_rows = [], cl_rw_dict = cl_rw_dict l\<rparr>) (\<lambda>(rlc_acc, new).
     Inr \<lparr>cl_rows = cl_rows l @ map (copy_finish_row (ct_dst_tag a) (rd_rw_counter (cl_rw_dict new)) rlc_acc) (cl_rows new),
          cl_rw_dict = cl_rw_dict new\<rparr>)"

end
