(* ===== verification/Copy_Sound.thy ===== *)
theory Copy_Sound
  imports Copy_Circuit
begin

text \<open>
  Soundness of the copy circuit: in an accepted table an event of \<open>n\<close> steps copies \<open>n\<close> values from
  consecutive addresses of the source to consecutive addresses of the destination, zero beyond the
  end of the source, or accumulates them; every access is in the table of its kind, and the event
  uses as many counters of the read-write table as it claims.
\<close>

definition copy_triple_ok ::
  "tables \<Rightarrow> fq \<Rightarrow> copy_circuit_row \<Rightarrow> copy_circuit_row \<Rightarrow> copy_circuit_row \<Rightarrow> bool" where
  "copy_triple_ok T r row0 row1 row2 \<longleftrightarrow>
     copy_verify_row new_constraint_system row0 row1 row2 = Inr new_constraint_system \<and>
     copy_verify_step new_constraint_system row0 row1 row2 r = Inr new_constraint_system \<and>
     copy_lookups T new_constraint_system row0 = Inr ()"

lemma copy_verify_row_cs: "copy_verify_row cs row0 row1 row2 = Inr cs' \<Longrightarrow> cs' = new_constraint_system \<and> cs = cs'"
  by (auto simp: copy_verify_row_def ok_simps)

lemma copy_verify_step_cs: "copy_verify_step cs row0 row1 row2 r = Inr cs' \<Longrightarrow> cs' = new_constraint_system \<and> cs = cs'"
  by (auto simp: copy_verify_step_def ok_simps)

lemma copy_verify_rows_ok:
  "copy_verify_rows T r table new_constraint_system is = Inr u \<longleftrightarrow>
     (\<forall>i\<in>set is. copy_triple_ok T r (table ! i) (table ! ((i + 1) mod length table)) (table ! ((i + 2) mod length table)))"
proof (induction "is")
  case (Cons i "is")
  then show ?case
    by (auto simp: Let_def rbind_ok copy_triple_ok_def dest: copy_verify_row_cs copy_verify_step_cs)
qed simp

lemma verify_copy_table_ok:
  "verify_copy_table table T r = Inr () \<longleftrightarrow>
     (\<forall>i<length table. copy_triple_ok T r (table ! i) (table ! ((i + 1) mod length table)) (table ! ((i + 2) mod length table)))"
  by (simp add: verify_copy_table_def copy_verify_rows_ok Ball_def)

section \<open>One row\<close>

lemma copy_lt_ok: "copy_lt a b n = Inr l \<longleftrightarrow>
    n \<le> 31 \<and> fq_n a < 256 ^ n \<and> fq_n b < 256 ^ n \<and> l = fq_of_bool (fq_n a < fq_n b)"
  by (auto simp: copy_lt_def rbind_ok assert_that_ok)

definition copy_flags_ok :: "copy_circuit_row \<Rightarrow> bool" where
  "copy_flags_ok row \<longleftrightarrow>
     cc_is_memory row = fq_of_bool (cc_tag row = FQ (cd_int CD_Memory)) \<and>
     cc_is_bytecode row = fq_of_bool (cc_tag row = FQ (cd_int CD_Bytecode)) \<and>
     cc_is_tx_calldata row = fq_of_bool (cc_tag row = FQ (cd_int CD_TxCalldata)) \<and>
     cc_is_tx_log row = fq_of_bool (cc_tag row = FQ (cd_int CD_TxLog)) \<and>
     cc_is_rlc_acc row = fq_of_bool (cc_tag row = FQ (cd_int CD_RlcAcc))"

lemma copy_row_checks_ok:
  assumes "copy_row_checks new_constraint_system row = Inr u"
  shows "copy_flags_ok row"
  using assms by (auto simp: copy_row_checks_def copy_flag_check_def ok_simps copy_flags_ok_def)

lemma copy_triple_flags: "copy_triple_ok T r row0 row1 row2 \<Longrightarrow> copy_flags_ok row0"
  by (auto simp: copy_triple_ok_def copy_verify_row_def rbind_ok intro: copy_row_checks_ok)

lemma copy_triple_next_row:
  assumes "copy_triple_ok T r row0 row1 row2" "cc_is_last row0 = 0"
  shows "cc_rw_counter row1 = cc_rw_counter row0 + copy_rw_diff row0"
    "cc_rwc_inc_left row1 = cc_rwc_inc_left row0 - copy_rw_diff row0"
    "cc_rlc_acc row1 = cc_rlc_acc row0"
  using assms by (auto simp: copy_triple_ok_def copy_verify_row_def copy_row_transition_def ok_simps)

lemma copy_triple_next_step:
  assumes "copy_triple_ok T r row0 row1 row2" "cc_is_last row0 = 0" "cc_is_last row1 = 0"
  shows "wov_word (cc_id row2) = wov_word (cc_id row0)" "cc_tag row2 = cc_tag row0"
    "cc_addr row2 = cc_addr row0 + 1" "cc_src_addr_end row2 = cc_src_addr_end row0"
  using assms by (auto simp: copy_triple_ok_def copy_verify_row_def copy_step_transition_def ok_simps word256.expand)

lemma copy_triple_last:
  assumes "copy_triple_ok T r row0 row1 row2" "cc_is_last row0 = 1"
  shows "cc_rwc_inc_left row0 = copy_rw_diff row0"
    "cc_tag row0 = FQ (cd_int CD_RlcAcc) \<Longrightarrow> cc_rlc_acc row0 = cc_value row0"
  using assms copy_triple_flags [OF assms(1)]
  by (auto simp: copy_triple_ok_def copy_verify_row_def ok_simps copy_flags_ok_def)

lemma copy_triple_read:
  assumes ok: "copy_triple_ok T r row0 row1 row2" and q: "cc_q_step row0 = 1"
  shows "cc_is_last row0 = 0" "cc_is_pad row1 = 0"
    "cc_is_last row1 = 1 \<Longrightarrow> cc_bytes_left row0 = 1"
    "cc_is_last row1 = 0 \<Longrightarrow> cc_bytes_left row0 = cc_bytes_left row2 + 1"
    "cc_is_pad row0 * cc_value row0 = 0"
    "cc_is_rlc_acc row1 = 0 \<or> cc_is_first row0 = 1 \<Longrightarrow> cc_value row1 = cc_value row0"
  using assms
  by (auto simp: copy_triple_ok_def copy_verify_row_def copy_row_checks_def copy_verify_step_def copy_read_checks_def
      ok_simps algebra_simps)

lemma one_minus_bool: "1 - x = fq_of_bool b \<Longrightarrow> x = fq_of_bool (\<not> b)"
  by (cases b) (simp_all add: algebra_simps)

lemma copy_triple_pad:
  assumes ok: "copy_triple_ok T r row0 row1 row2" and q: "cc_q_step row0 = 1"
    and t: "cc_tag row0 \<noteq> FQ (cd_int CD_TxLog)"
  shows "fq_n (cc_addr row0) < 256 ^ 5" "fq_n (cc_src_addr_end row0) < 256 ^ 5"
    "cc_is_pad row0 = fq_of_bool (\<not> fq_n (cc_addr row0) < fq_n (cc_src_addr_end row0))"
proof -
  have "cc_is_tx_log row0 = 0" using copy_triple_flags [OF ok] t by (simp add: copy_flags_ok_def)
  then have "copy_lt (cc_addr row0) (cc_src_addr_end row0) 5 = Inr (1 - cc_is_pad row0)"
    using ok q by (auto simp: copy_triple_ok_def copy_verify_step_def copy_read_checks_def rbind_ok cs_with_ok
        cs_constrain_ok algebra_simps)
  then show "fq_n (cc_addr row0) < 256 ^ 5" "fq_n (cc_src_addr_end row0) < 256 ^ 5"
    "cc_is_pad row0 = fq_of_bool (\<not> fq_n (cc_addr row0) < fq_n (cc_src_addr_end row0))"
    using one_minus_bool by (auto simp: copy_lt_ok)
qed

lemma copy_triple_write:
  assumes "copy_triple_ok T r row0 row1 row2" "cc_q_step row0 = 0" "cc_is_last row0 = 0"
    "cc_tag row0 = FQ (cd_int CD_RlcAcc)"
  shows "cc_value row2 = cc_value row0 * r + cc_value row1"
  using assms copy_triple_flags [OF assms(1)]
  by (auto simp: copy_triple_ok_def copy_verify_step_def ok_simps copy_flags_ok_def)

text \<open>The cell a row reads or writes is in the table of its kind, with the value of the row.\<close>

definition rw_cell :: "tables \<Rightarrow> copy_circuit_row \<Rightarrow> fq \<Rightarrow> target \<Rightarrow> bool" where
  "rw_cell T row rw tag \<longleftrightarrow>
     (\<exists>e\<in>rw_table T. rw_rw_counter e = cc_rw_counter row \<and> rw_rw e = rw \<and> rw_key0 e = FQ (target_int tag) \<and>
        cc_id row = ValueV (rw_id e) \<and> rw_address e = cc_addr row \<and> rw_value e = ValueV (cc_value row))"

definition copy_cell :: "tables \<Rightarrow> copy_circuit_row \<Rightarrow> bool" where
  "copy_cell T row \<longleftrightarrow>
     (if cc_tag row = FQ (cd_int CD_TxLog) then rw_cell T row (FQ (rw_int RW_Write)) T_TxLog
      else if cc_is_pad row \<noteq> 0 then True
      else if cc_tag row = FQ (cd_int CD_Memory) then rw_cell T row (1 - cc_q_step row) T_Memory
      else if cc_tag row = FQ (cd_int CD_Bytecode) then
        \<exists>e\<in>bytecode_table T. bc_bytecode_hash e = wov_word (cc_id row) \<and> bc_field_tag e = FQ (bf_int BF_Byte) \<and>
          bc_index e = cc_addr row \<and> bc_is_code e = cc_is_code row \<and> bc_value e = cc_value row
      else if cc_tag row = FQ (cd_int CD_TxCalldata) then
        \<exists>e\<in>tx_table T. cc_id row = ValueV (tx_tx_id e) \<and> tx_field_tag e = FQ (tc_int TC_CallData) \<and>
          tx_call_data_index_or_zero e = cc_addr row \<and> tx_value e = ValueV (cc_value row)
      else True)"

lemma copy_rw_check_cell: "copy_rw_check T new_constraint_system row rw tag = Inr () \<Longrightarrow> rw_cell T row rw tag"
  by (fastforce simp: copy_rw_check_def rbind_ok wov_value_ok cs_constrain_ok rw_cell_def copy_rw_query_def rw_matches_def
      dest: rw_tab.look_member)

lemma copy_tag_inject: "FQ (cd_int x) = FQ (cd_int y) \<longleftrightarrow> x = y"
  by (cases x; cases y) (simp_all add: fq_eq_iff fq_modulus_def)

lemma copy_triple_cell:
  assumes "copy_triple_ok T r row0 row1 row2"
  shows "copy_cell T row0"
proof -
  have l: "copy_lookups T new_constraint_system row0 = Inr ()" using assms by (simp add: copy_triple_ok_def)
  note f = copy_triple_flags [OF assms, unfolded copy_flags_ok_def]
  consider "cc_tag row0 = FQ (cd_int CD_TxLog)"
    | "cc_is_pad row0 = 0" "cc_tag row0 = FQ (cd_int CD_Memory)"
    | "cc_is_pad row0 = 0" "cc_tag row0 = FQ (cd_int CD_Bytecode)"
    | "cc_is_pad row0 = 0" "cc_tag row0 = FQ (cd_int CD_TxCalldata)"
    | "copy_cell T row0"
    by (cases "copy_cell T row0", blast) (auto simp: copy_cell_def split: if_splits)
  then show ?thesis
  proof cases
    case 1
    then show ?thesis using l f copy_rw_check_cell by (simp add: copy_lookups_def rbind_ok copy_cell_def)
  next
    case 2
    then show ?thesis using l f copy_rw_check_cell by (simp add: copy_lookups_def rbind_ok copy_cell_def fq_eq_iff fq_modulus_def)
  next
    case 3
    then have "copy_bytecode_check T new_constraint_system row0 = Inr ()" using l f by (simp add: copy_lookups_def rbind_ok)
    then obtain e where e: "bytecode_lookup_table T \<lparr>qb_bytecode_hash = wov_word (cc_id row0),
        qb_field_tag = FQ (bf_int BF_Byte), qb_index = cc_addr row0, qb_is_code = Some (cc_is_code row0)\<rparr> = Inr e"
      "bc_value e = cc_value row0"
      by (auto simp: copy_bytecode_check_def rbind_ok cs_constrain_ok)
    have "e \<in> bytecode_table T" "bc_bytecode_hash e = wov_word (cc_id row0)" "bc_field_tag e = FQ (bf_int BF_Byte)"
      "bc_index e = cc_addr row0" "bc_is_code e = cc_is_code row0"
      using any_table.look_member [OF e(1) [unfolded bytecode_lookup_table_def]] by (simp_all add: bytecode_matches_def)
    then show ?thesis using 3 e(2) unfolding copy_cell_def by (auto simp: fq_eq_iff fq_modulus_def)
  next
    case 4
    then have "copy_calldata_check T new_constraint_system row0 = Inr ()" using l f by (simp add: copy_lookups_def rbind_ok)
    then obtain i e where e: "cc_id row0 = ValueV i" "tx_lookup T i (FQ (tc_int TC_CallData)) (cc_addr row0) = Inr e"
      "tx_value e = ValueV (cc_value row0)"
      by (auto simp: copy_calldata_check_def rbind_ok wov_value_ok cs_constrain_ok)
    have "e \<in> tx_table T" "tx_tx_id e = i" "tx_field_tag e = FQ (tc_int TC_CallData)"
      "tx_call_data_index_or_zero e = cc_addr row0"
      using any_table.look_member [OF e(2) [unfolded tx_lookup_def]] by simp_all
    then show ?thesis using 4 e(1,3) unfolding copy_cell_def by (auto simp: copy_tag_inject simp del: cd_int.simps)
  qed
qed

section \<open>A copy event\<close>

text \<open>
  The selector \<open>q_step\<close> alternates, so an event is \<open>n\<close> pairs of a read and a write row; the last
  row of the event is its last write row.
\<close>

definition read_row :: "copy_circuit_row list \<Rightarrow> nat \<Rightarrow> nat \<Rightarrow> copy_circuit_row" where
  "read_row rows i k = rows ! (i + 2 * k)"

definition write_row :: "copy_circuit_row list \<Rightarrow> nat \<Rightarrow> nat \<Rightarrow> copy_circuit_row" where
  "write_row rows i k = rows ! (i + 2 * k + 1)"

definition copy_event :: "copy_circuit_row list \<Rightarrow> nat \<Rightarrow> nat \<Rightarrow> bool" where
  "copy_event rows i n \<longleftrightarrow>
     0 < n \<and> i + 2 * n \<le> length rows \<and> cc_is_first (read_row rows i 0) = 1 \<and>
     (\<forall>k<n. cc_q_step (read_row rows i k) = 1 \<and> cc_q_step (write_row rows i k) = 0 \<and>
        cc_is_last (write_row rows i k) = fq_of_bool (Suc k = n))"

text \<open>The accumulated combination of the first values, and the counters they use.\<close>

definition copied_rlc :: "fq \<Rightarrow> copy_circuit_row list \<Rightarrow> nat \<Rightarrow> nat \<Rightarrow> fq" where
  "copied_rlc r rows i k = foldl (\<lambda>acc v. acc * r + v) 0 (map (\<lambda>j. cc_value (read_row rows i j)) [0..<k])"

definition counted :: "copy_circuit_row \<Rightarrow> nat" where
  "counted row = (if cc_is_pad row = 0 \<and> cc_tag row \<in> {FQ (cd_int CD_Memory), FQ (cd_int CD_TxLog)} then 1 else 0)"

definition counters_used :: "copy_circuit_row list \<Rightarrow> nat \<Rightarrow> nat \<Rightarrow> nat" where
  "counters_used rows i m = (\<Sum>j<m. counted (rows ! (i + j)))"

lemma event_triple:
  assumes ok: "verify_copy_table rows T r = Inr ()" and ev: "copy_event rows i n" and m: "m < 2 * n"
  shows "copy_triple_ok T r (rows ! (i + m)) (rows ! ((i + m + 1) mod length rows)) (rows ! ((i + m + 2) mod length rows))"
proof -
  have "i + m < length rows" using ev m by (simp add: copy_event_def)
  then show ?thesis using ok unfolding verify_copy_table_ok by blast
qed

lemma event_read:
  assumes ok: "verify_copy_table rows T r = Inr ()" and ev: "copy_event rows i n" and k: "k < n"
  obtains r2 where "copy_triple_ok T r (read_row rows i k) (write_row rows i k) r2"
    "Suc k < n \<Longrightarrow> r2 = read_row rows i (Suc k)"
proof -
  have l: "i + 2 * n \<le> length rows" using ev by (simp add: copy_event_def)
  have "(i + 2 * k + 1) mod length rows = i + 2 * k + 1" using l k by simp
  moreover have "Suc k < n \<Longrightarrow> (i + 2 * k + 2) mod length rows = i + 2 * Suc k" using l k by simp
  ultimately show thesis
    using that [of "rows ! ((i + 2 * k + 2) mod length rows)"] event_triple [OF ok ev, of "2 * k"] k
    by (simp add: read_row_def write_row_def)
qed

lemma event_write:
  assumes ok: "verify_copy_table rows T r = Inr ()" and ev: "copy_event rows i n" and k: "k < n"
  obtains r1 r2 where "copy_triple_ok T r (write_row rows i k) r1 r2"
    "Suc k < n \<Longrightarrow> r1 = read_row rows i (Suc k)" "Suc k < n \<Longrightarrow> r2 = write_row rows i (Suc k)"
proof -
  have l: "i + 2 * n \<le> length rows" using ev by (simp add: copy_event_def)
  have "Suc k < n \<Longrightarrow> (i + 2 * k + 1 + 1) mod length rows = i + 2 * Suc k"
    "Suc k < n \<Longrightarrow> (i + 2 * k + 1 + 2) mod length rows = i + 2 * Suc k + 1" using l k by simp_all
  then show thesis
    using that [OF event_triple [OF ok ev, of "2 * k + 1", unfolded add.assoc [symmetric], folded write_row_def]] k
    by (simp add: read_row_def write_row_def)
qed

lemma event_step:
  assumes ok: "verify_copy_table rows T r = Inr ()" and ev: "copy_event rows i n" and k: "Suc k < n"
  shows "wov_word (cc_id (read_row rows i (Suc k))) = wov_word (cc_id (read_row rows i k))"
    "cc_tag (read_row rows i (Suc k)) = cc_tag (read_row rows i k)"
    "cc_addr (read_row rows i (Suc k)) = cc_addr (read_row rows i k) + 1"
    "cc_src_addr_end (read_row rows i (Suc k)) = cc_src_addr_end (read_row rows i k)"
    "cc_bytes_left (read_row rows i k) = cc_bytes_left (read_row rows i (Suc k)) + 1"
    "wov_word (cc_id (write_row rows i (Suc k))) = wov_word (cc_id (write_row rows i k))"
    "cc_tag (write_row rows i (Suc k)) = cc_tag (write_row rows i k)"
    "cc_addr (write_row rows i (Suc k)) = cc_addr (write_row rows i k) + 1"
    "cc_tag (write_row rows i k) = FQ (cd_int CD_RlcAcc) \<Longrightarrow>
       cc_value (write_row rows i (Suc k)) = cc_value (write_row rows i k) * r + cc_value (read_row rows i (Suc k))"
proof -
  have q: "cc_q_step (read_row rows i k) = 1" "cc_q_step (write_row rows i k) = 0" "cc_is_last (write_row rows i k) = 0"
    and q': "cc_q_step (read_row rows i (Suc k)) = 1"
    using ev k by (simp_all add: copy_event_def)
  obtain r2 where rd: "copy_triple_ok T r (read_row rows i k) (write_row rows i k) r2" "r2 = read_row rows i (Suc k)"
    using event_read [OF ok ev, of k] k Suc_lessD by metis
  obtain r1 r3 where wr: "copy_triple_ok T r (write_row rows i k) r1 r3" "r1 = read_row rows i (Suc k)" "r3 = write_row rows i (Suc k)"
    using event_write [OF ok ev, of k] k Suc_lessD by metis
  obtain r4 where nx: "copy_triple_ok T r (read_row rows i (Suc k)) (write_row rows i (Suc k)) r4"
    using event_read [OF ok ev k] by metis
  note rd' = rd(1) [unfolded rd(2)] and wr' = wr(1) [unfolded wr(2,3)]
  show "wov_word (cc_id (read_row rows i (Suc k))) = wov_word (cc_id (read_row rows i k))"
    "cc_tag (read_row rows i (Suc k)) = cc_tag (read_row rows i k)"
    "cc_addr (read_row rows i (Suc k)) = cc_addr (read_row rows i k) + 1"
    "cc_src_addr_end (read_row rows i (Suc k)) = cc_src_addr_end (read_row rows i k)"
    using copy_triple_next_step [OF rd' copy_triple_read(1) [OF rd' q(1)] q(3)] by simp_all
  show "cc_bytes_left (read_row rows i k) = cc_bytes_left (read_row rows i (Suc k)) + 1"
    by (rule copy_triple_read(4) [OF rd' q(1,3)])
  show "wov_word (cc_id (write_row rows i (Suc k))) = wov_word (cc_id (write_row rows i k))"
    "cc_tag (write_row rows i (Suc k)) = cc_tag (write_row rows i k)"
    "cc_addr (write_row rows i (Suc k)) = cc_addr (write_row rows i k) + 1"
    using copy_triple_next_step [OF wr' q(3) copy_triple_read(1) [OF nx q']] by simp_all
  show "cc_value (write_row rows i (Suc k)) = cc_value (write_row rows i k) * r + cc_value (read_row rows i (Suc k))"
    if "cc_tag (write_row rows i k) = FQ (cd_int CD_RlcAcc)"
    by (rule copy_triple_write [OF wr' q(2,3) that])
qed

lemma event_columns:
  assumes ok: "verify_copy_table rows T r = Inr ()" and ev: "copy_event rows i n"
  shows "k < n \<Longrightarrow>
    wov_word (cc_id (read_row rows i k)) = wov_word (cc_id (read_row rows i 0)) \<and>
    cc_tag (read_row rows i k) = cc_tag (read_row rows i 0) \<and>
    cc_addr (read_row rows i k) = cc_addr (read_row rows i 0) + FQ (int k) \<and>
    cc_src_addr_end (read_row rows i k) = cc_src_addr_end (read_row rows i 0) \<and>
    wov_word (cc_id (write_row rows i k)) = wov_word (cc_id (write_row rows i 0)) \<and>
    cc_tag (write_row rows i k) = cc_tag (write_row rows i 0) \<and>
    cc_addr (write_row rows i k) = cc_addr (write_row rows i 0) + FQ (int k)"
proof (induction k)
  case (Suc k)
  then show ?case using event_step [OF ok ev Suc.prems] by (simp add: FQ_arith)
qed simp

lemma event_bytes_left:
  assumes ok: "verify_copy_table rows T r = Inr ()" and ev: "copy_event rows i n"
  shows "m < n \<Longrightarrow> cc_bytes_left (read_row rows i (n - Suc m)) = FQ (int (Suc m))"
proof (induction m)
  case 0
  then have q: "cc_q_step (read_row rows i (n - 1)) = 1" "cc_is_last (write_row rows i (n - 1)) = 1"
    using ev by (simp_all add: copy_event_def)
  from 0 obtain r2 where "copy_triple_ok T r (read_row rows i (n - 1)) (write_row rows i (n - 1)) r2"
    using event_read [OF ok ev, of "n - 1"] by auto
  from copy_triple_read(3) [OF this q(1,2)] show ?case by simp
next
  case (Suc m)
  then have "Suc (n - Suc (Suc m)) < n" "Suc (n - Suc (Suc m)) = n - Suc m" by simp_all
  then show ?case using event_step(5) [OF ok ev, of "n - Suc (Suc m)"] Suc FQ_arith(3) [of 1 "int (Suc m)"] by (simp add: add.commute)
qed

lemma event_pad:
  assumes ok: "verify_copy_table rows T r = Inr ()" and ev: "copy_event rows i n" and k: "k < n"
    and t: "cc_tag (read_row rows i 0) \<noteq> FQ (cd_int CD_TxLog)"
  shows "cc_is_pad (read_row rows i k) =
      fq_of_bool (\<not> fq_n (cc_addr (read_row rows i k)) < fq_n (cc_src_addr_end (read_row rows i 0)))"
    "cc_is_pad (read_row rows i k) = 0 \<or> cc_value (read_row rows i k) = 0"
    "cc_is_pad (write_row rows i k) = 0"
proof -
  have q: "cc_q_step (read_row rows i k) = 1" using ev k by (simp add: copy_event_def)
  obtain r2 where rd: "copy_triple_ok T r (read_row rows i k) (write_row rows i k) r2"
    using event_read [OF ok ev k] by auto
  note c = event_columns [OF ok ev k]
  have t': "cc_tag (read_row rows i k) \<noteq> FQ (cd_int CD_TxLog)" using t c by argo
  show p: "cc_is_pad (read_row rows i k) =
      fq_of_bool (\<not> fq_n (cc_addr (read_row rows i k)) < fq_n (cc_src_addr_end (read_row rows i 0)))"
    using copy_triple_pad(3) [OF rd q t'] c by simp
  then show "cc_is_pad (read_row rows i k) = 0 \<or> cc_value (read_row rows i k) = 0"
    using copy_triple_read(5) [OF rd q] by (auto split: if_splits)
  show "cc_is_pad (write_row rows i k) = 0" by (rule copy_triple_read(2) [OF rd q])
qed

lemma event_value:
  assumes ok: "verify_copy_table rows T r = Inr ()" and ev: "copy_event rows i n"
  shows "k < n \<Longrightarrow> cc_value (write_row rows i k) =
    (if cc_tag (write_row rows i 0) = FQ (cd_int CD_RlcAcc) then copied_rlc r rows i (Suc k)
     else cc_value (read_row rows i k))"
proof (induction k)
  case 0
  obtain r2 where rd: "copy_triple_ok T r (read_row rows i 0) (write_row rows i 0) r2"
    using event_read [OF ok ev 0] by auto
  show ?case using copy_triple_read(6) [OF rd] ev 0 by (simp add: copy_event_def copied_rlc_def)
next
  case (Suc k)
  note c = event_columns [OF ok ev Suc.prems] event_columns [OF ok ev, of k]
  show ?case
  proof (cases "cc_tag (write_row rows i 0) = FQ (cd_int CD_RlcAcc)")
    case True
    then have "cc_value (write_row rows i (Suc k)) = cc_value (write_row rows i k) * r + cc_value (read_row rows i (Suc k))"
      using event_step(9) [OF ok ev Suc.prems] c Suc.prems by (metis Suc_lessD)
    then show ?thesis using Suc True by (simp add: copied_rlc_def)
  next
    case False
    obtain r2 where rd: "copy_triple_ok T r (read_row rows i (Suc k)) (write_row rows i (Suc k)) r2"
      using event_read [OF ok ev Suc.prems] by auto
    obtain r1 r3 where wr: "copy_triple_ok T r (write_row rows i (Suc k)) r1 r3"
      by (rule event_write [OF ok ev Suc.prems])
    have "cc_is_rlc_acc (write_row rows i (Suc k)) = 0"
      using copy_triple_flags [OF wr] False c(1) by (simp add: copy_flags_ok_def)
    then show ?thesis using copy_triple_read(6) [OF rd] ev Suc.prems False by (simp add: copy_event_def)
  qed
qed

lemma event_cells:
  assumes ok: "verify_copy_table rows T r = Inr ()" and ev: "copy_event rows i n" and k: "k < n"
  shows "copy_cell T (read_row rows i k)" "copy_cell T (write_row rows i k)"
  using event_read [OF ok ev k] event_write [OF ok ev k] copy_triple_cell by metis+

lemma event_counters:
  assumes ok: "verify_copy_table rows T r = Inr ()" and ev: "copy_event rows i n"
    and t: "cc_tag (read_row rows i 0) \<noteq> FQ (cd_int CD_TxLog)"
  shows "m < 2 * n \<Longrightarrow> copy_rw_diff (rows ! (i + m)) = FQ (int (counted (rows ! (i + m))))"
    "m < 2 * n \<Longrightarrow> cc_is_last (rows ! (i + m)) = fq_of_bool (Suc m = 2 * n)"
proof -
  assume m: "m < 2 * n"
  let ?row = "rows ! (i + m)"
  define k where "k = m div 2"
  have k: "k < n" and mk: "m = 2 * k \<and> ?row = read_row rows i k \<or> m = 2 * k + 1 \<and> ?row = write_row rows i k"
    using m unfolding k_def read_row_def write_row_def by (simp, cases "even m") (auto elim!: evenE oddE)
  have "cc_is_pad ?row = 0 \<or> cc_is_pad ?row = 1"
    using mk event_pad [OF ok ev k t] by (auto split: if_splits)
  moreover have "copy_flags_ok ?row" using copy_triple_flags [OF event_triple [OF ok ev m]] .
  ultimately show "copy_rw_diff ?row = FQ (int (counted ?row))"
    by (auto simp: copy_rw_diff_def counted_def copy_flags_ok_def copy_tag_inject simp del: cd_int.simps)
  have "cc_is_last (read_row rows i k) = 0"
    using event_read [OF ok ev k] copy_triple_read(1) ev k unfolding copy_event_def by metis
  moreover have "cc_is_last (write_row rows i k) = fq_of_bool (Suc k = n)" using ev k by (simp add: copy_event_def)
  moreover have "Suc (2 * k) \<noteq> 2 * n" by presburger
  ultimately show "cc_is_last ?row = fq_of_bool (Suc m = 2 * n)" using mk by auto
qed

lemma event_rw_counter:
  assumes ok: "verify_copy_table rows T r = Inr ()" and ev: "copy_event rows i n"
    and t: "cc_tag (read_row rows i 0) \<noteq> FQ (cd_int CD_TxLog)"
  shows "m < 2 * n \<Longrightarrow>
    cc_rw_counter (rows ! (i + m)) = cc_rw_counter (rows ! i) + FQ (int (counters_used rows i m)) \<and>
    cc_rwc_inc_left (rows ! i) = cc_rwc_inc_left (rows ! (i + m)) + FQ (int (counters_used rows i m)) \<and>
    cc_rlc_acc (rows ! (i + m)) = cc_rlc_acc (rows ! i)"
proof (induction m)
  case (Suc m)
  then have m: "m < 2 * n" "Suc m \<noteq> 2 * n" and l: "(i + m + 1) mod length rows = i + Suc m"
    using ev by (simp_all add: copy_event_def)
  note d = event_counters [OF ok ev t m(1)]
  from d(2) m(2) have z: "cc_is_last (rows ! (i + m)) = 0" by simp
  from copy_triple_next_row [OF event_triple [OF ok ev m(1), unfolded l] z] d(1) Suc.IH [OF m(1)]
  show ?case by (simp add: counters_used_def FQ_arith add.commute)
qed (simp add: counters_used_def)

lemma event_end:
  assumes ok: "verify_copy_table rows T r = Inr ()" and ev: "copy_event rows i n"
    and t: "cc_tag (read_row rows i 0) \<noteq> FQ (cd_int CD_TxLog)"
  shows "cc_rwc_inc_left (rows ! i) = FQ (int (counters_used rows i (2 * n)))"
    "cc_tag (write_row rows i 0) = FQ (cd_int CD_RlcAcc) \<Longrightarrow> cc_rlc_acc (rows ! i) = copied_rlc r rows i n"
proof -
  obtain k where n: "n = Suc k" using ev by (cases n) (simp_all add: copy_event_def)
  have m: "2 * k + 1 < 2 * n" and row: "rows ! (i + (2 * k + 1)) = write_row rows i k"
    using n by (simp_all add: write_row_def)
  obtain r1 r2 where wr: "copy_triple_ok T r (write_row rows i k) r1 r2" using event_write [OF ok ev, of k] n by auto
  have last: "cc_is_last (write_row rows i k) = 1" using ev n by (simp add: copy_event_def)
  note e = event_rw_counter [OF ok ev t m, unfolded row] and d = event_counters(1) [OF ok ev t m, unfolded row]
  show "cc_rwc_inc_left (rows ! i) = FQ (int (counters_used rows i (2 * n)))"
    using e d copy_triple_last(1) [OF wr last] by (simp add: counters_used_def FQ_arith n row [simplified] add.commute)
  show "cc_rlc_acc (rows ! i) = copied_rlc r rows i n" if rlc: "cc_tag (write_row rows i 0) = FQ (cd_int CD_RlcAcc)"
  proof -
    have "cc_tag (write_row rows i k) = FQ (cd_int CD_RlcAcc)" using event_columns [OF ok ev, of k] rlc n by simp
    then show ?thesis using copy_triple_last(2) [OF wr last] e event_value [OF ok ev, of k] rlc n by simp
  qed
qed

text \<open>
  What an event copies: the rows of step \<open>k\<close> access address \<open>k\<close> of the source and of the
  destination, under the counters that the earlier accesses leave; the source is read as zero from
  its end on; and the destination receives what is read, or the accumulated combination.
\<close>

definition copies_step :: "tables \<Rightarrow> fq \<Rightarrow> copy_circuit_row list \<Rightarrow> nat \<Rightarrow> nat \<Rightarrow> bool" where
  "copies_step T r rows i k \<longleftrightarrow>
     (let src = read_row rows i 0; dst = write_row rows i 0; rd = read_row rows i k; wr = write_row rows i k in
       wov_word (cc_id rd) = wov_word (cc_id src) \<and> cc_tag rd = cc_tag src \<and>
       cc_addr rd = cc_addr src + FQ (int k) \<and>
       cc_rw_counter rd = cc_rw_counter src + FQ (int (counters_used rows i (2 * k))) \<and>
       cc_is_pad rd = fq_of_bool (\<not> fq_n (cc_addr rd) < fq_n (cc_src_addr_end src)) \<and>
       (cc_is_pad rd = 1 \<longrightarrow> cc_value rd = 0) \<and> copy_cell T rd \<and>
       wov_word (cc_id wr) = wov_word (cc_id dst) \<and> cc_tag wr = cc_tag dst \<and>
       cc_addr wr = cc_addr dst + FQ (int k) \<and>
       cc_rw_counter wr = cc_rw_counter src + FQ (int (counters_used rows i (2 * k + 1))) \<and>
       cc_is_pad wr = 0 \<and> copy_cell T wr \<and>
       cc_value wr = (if cc_tag dst = FQ (cd_int CD_RlcAcc) then copied_rlc r rows i (Suc k) else cc_value rd))"

definition copies :: "tables \<Rightarrow> fq \<Rightarrow> copy_circuit_row list \<Rightarrow> nat \<Rightarrow> nat \<Rightarrow> bool" where
  "copies T r rows i n \<longleftrightarrow> (\<forall>k<n. copies_step T r rows i k)"

text \<open>
  C30: In an accepted copy table an event of n steps copies n values from consecutive source
  addresses, read as zero from the end of the source on, to consecutive destination
  addresses or accumulates them; every access that is not padding is in the table of its
  kind under the counter that the earlier accesses leave, and the event claims exactly its
  length, its number of counters and its accumulated value.
\<close>

lemma copy_circuit_sound:
  assumes ok: "verify_copy_table rows T r = Inr ()" and ev: "copy_event rows i n"
    and t: "cc_tag (read_row rows i 0) \<noteq> FQ (cd_int CD_TxLog)"
  shows "copies T r rows i n \<and> cc_bytes_left (read_row rows i 0) = FQ (int n) \<and>
    cc_rwc_inc_left (read_row rows i 0) = FQ (int (counters_used rows i (2 * n))) \<and>
    (cc_tag (write_row rows i 0) = FQ (cd_int CD_RlcAcc) \<longrightarrow> cc_rlc_acc (read_row rows i 0) = copied_rlc r rows i n)"
proof (intro conjI)
  have first: "rows ! i = read_row rows i 0" by (simp add: read_row_def)
  have "copies_step T r rows i k" if k: "k < n" for k
  proof -
    have c: "cc_rw_counter (read_row rows i k) = cc_rw_counter (read_row rows i 0) + FQ (int (counters_used rows i (2 * k)))"
      "cc_rw_counter (write_row rows i k) = cc_rw_counter (read_row rows i 0) + FQ (int (counters_used rows i (2 * k + 1)))"
      using event_rw_counter [OF ok ev t, of "2 * k"] event_rw_counter [OF ok ev t, of "2 * k + 1"] k
      by (simp_all add: read_row_def write_row_def)
    have p: "cc_is_pad (read_row rows i k) = 1 \<longrightarrow> cc_value (read_row rows i k) = 0" using event_pad(2) [OF ok ev k t] by auto
    show ?thesis
      unfolding copies_step_def Let_def
      by (intro conjI c p event_cells [OF ok ev k] event_pad(1,3) [OF ok ev k t] event_value [OF ok ev k])
        (use event_columns [OF ok ev k] in blast)+
  qed
  then show "copies T r rows i n" by (simp add: copies_def)
  show "cc_bytes_left (read_row rows i 0) = FQ (int n)"
    using event_bytes_left [OF ok ev, of "n - 1"] ev by (simp add: copy_event_def)
  show "cc_rwc_inc_left (read_row rows i 0) = FQ (int (counters_used rows i (2 * n)))"
    "cc_tag (write_row rows i 0) = FQ (cd_int CD_RlcAcc) \<longrightarrow> cc_rlc_acc (read_row rows i 0) = copied_rlc r rows i n"
    using event_end [OF ok ev t] by (simp_all add: first)
qed

end
