(* ===== verification/Copy_Sample.thy ===== *)
theory Copy_Sample
  imports Copy_Sound
begin

text \<open>
  A copy of two bytes of memory the second of which is beyond the end of the source, laid out by the
  model of \<open>CopyCircuit.copy\<close>: the table is accepted against the rows that the dictionary recorded.
\<close>

definition copy_sample_args :: copy_args where
  "copy_sample_args = \<lparr>ct_src_id = ValueV 1, ct_src_tag = CD_Memory, ct_dst_id = ValueV (FQ 2), ct_dst_tag = CD_Memory,
     ct_src_addr = 7, ct_src_addr_end = 8, ct_dst_addr = 20, ct_copy_length = 2, ct_log_id = 0\<rparr>"

definition copy_sample_layout :: "copy_layout" where
  "copy_sample_layout =
     (case copy_circuit_copy 0 copy_sample_args [7 \<mapsto> Plain (FQ 33)] \<lparr>cl_rows = [], cl_rw_dict = new_rw_dictionary 5\<rparr> of
        Inl _ \<Rightarrow> \<lparr>cl_rows = [], cl_rw_dict = new_rw_dictionary 0\<rparr> | Inr l \<Rightarrow> l)"

definition copy_sample_rows :: "copy_circuit_row list" where
  "copy_sample_rows = cl_rows copy_sample_layout"

definition copy_sample_tables :: tables where
  "copy_sample_tables = \<lparr>block_table = {}, tx_table = {}, withdrawal_table = {}, bytecode_table = {},
     rw_table = set (rd_rws (cl_rw_dict copy_sample_layout)), copy_table = None, keccak_table = None,
     exp_table = None, sig_table = None, ecc_table = None\<rparr>"

lemmas copy_sample_defs = copy_sample_layout_def copy_circuit_copy_def copy_sample_args_def upto.simps copy_one_def
  copy_read_datum_def copy_append_row_def copy_append_access_def new_rw_dictionary_def rd_memory_read_def
  rd_memory_write_def rd_append_def rd_row_def rw_defaults_def copy_finish_row_def

lemma copy_sample_dictionary:
  "rw_table copy_sample_tables = set (map (\<lambda>(c, rw, i, a, v).
     rd_row c rw T_Memory (rw_defaults\<lparr>rf_id := i, rf_address := a, rf_value := ValueV v\<rparr>))
     [(5, RW_Read, 1, FQ 7, FQ 33), (6, RW_Write, FQ 2, FQ 20, FQ 33), (7, RW_Write, FQ 2, FQ 21, 0)])"
  by (simp add: copy_sample_tables_def copy_sample_defs)

lemma copy_sample_accepted: "verify_copy_table copy_sample_rows copy_sample_tables 0 = Inr ()"
proof -
  have z: "\<exists>x. fq_n x = 0" by (rule exI [of _ 0]) simp
  show ?thesis
    by (simp add: verify_copy_table_def copy_sample_rows_def copy_sample_defs upt_conv_Cons copy_verify_row_def
        copy_row_checks_def copy_flag_check_def copy_step_transition_def copy_row_transition_def copy_rw_diff_def
        copy_verify_step_def copy_read_checks_def copy_lt_def copy_lookups_def copy_rw_check_def copy_rw_query_def
        ok_simps rw_tab.look_iff copy_sample_dictionary rw_matches_def fq_eq_iff fq_n_arith fq_modulus_def Let_def z)
      (rule exI [of _ "FQ 33"], simp add: fq_modulus_def)+
qed

lemma copy_sample_event: "copy_event copy_sample_rows 0 2"
  by (simp add: copy_event_def copy_sample_rows_def copy_sample_defs read_row_def write_row_def less_Suc_eq numeral_2_eq_2)

lemma copy_circuit_sound_witness:
  "copy_event copy_sample_rows 0 2 \<and> copies copy_sample_tables 0 copy_sample_rows 0 2 \<and>
   map cc_value copy_sample_rows = [FQ 33, FQ 33, 0, 0]"
proof (intro conjI copy_sample_event)
  have "cc_tag (read_row copy_sample_rows 0 0) \<noteq> FQ (cd_int CD_TxLog)"
    by (simp add: read_row_def copy_sample_rows_def copy_sample_defs fq_eq_iff fq_modulus_def)
  from copy_circuit_sound [OF copy_sample_accepted copy_sample_event this]
  show "copies copy_sample_tables 0 copy_sample_rows 0 2" by blast
  show "map cc_value copy_sample_rows = [FQ 33, FQ 33, 0, 0]"
    by (simp add: copy_sample_rows_def copy_sample_defs)
qed

end
