(* ===== verification/Exec_Context.thy ===== *)
theory Exec_Context
  imports Sample
begin

text \<open>
  The gadgets of \<^verbatim>\<open>src/zkevm_specs/evm_circuit/execution\<close> for the stack, the program counter and
  the values of the call, the transaction and the block: pop.py, push.py, gas.py, gasprice.py,
  jump.py, jumpi.py, msize.py, stop.py, address.py, caller.py, callvalue.py, calldatasize.py,
  codesize.py, returndatasize.py, origin.py, selfbalance.py, block_ctx.py; and what they accept.

  \<open>jumpi\<close> takes a branch on the truth value of a field object, \<open>if instruction.is_zero_word(cond)\<close>.
  The class of these objects comes from py_ecc, so this truth value is a parameter of the model.
\<close>

section \<open>Definitions\<close>

definition pop :: "instruction \<Rightarrow> unit instr" where
  "pop I =
     ibind (opcode_lookup I True) (\<lambda>opc.
     ibind (stack_pop I) (\<lambda>y.
     step_state_transition_in_same_context I opc
       (within_call (Delta (FQ 1)) (Delta (FQ 1)) (Delta (FQ 1)))))"

definition push_bytes ::
  "instruction \<Rightarrow> fq \<Rightarrow> fq list \<Rightarrow> fq list \<Rightarrow> fq list \<Rightarrow> nat list \<Rightarrow> unit instr" where
  "push_bytes I num_pushed value_le_bytes is_pushed is_padding idxs =
     iiter (\<lambda>idx.
       if (is_pushed ! idx) * (1 - (is_padding ! idx)) = 1
       then ibind (opcode_lookup_at I (ss_program_counter (i_curr I) + num_pushed - FQ (int idx)) False) (\<lambda>b.
         constrain_equal (value_le_bytes ! idx) b)
       else constrain_zero (value_le_bytes ! idx)) idxs"

definition push :: "instruction \<Rightarrow> unit instr" where
  "push I =
     ibind (opcode_lookup I True) (\<lambda>opc.
     let num_pushed = opc - FQ Opcode_PUSH0 in
     ibind (bytecode_length I (ss_code_hash (i_curr I))) (\<lambda>code_length.
     let code_length_left = code_length - ss_program_counter (i_curr I) - 1 in
     ibind (compare code_length_left num_pushed N_BYTES_PROGRAM_COUNTER) (\<lambda>(is_out_of_bound, _).
     let num_padding = is_out_of_bound * (num_pushed - code_length_left) in
     ibind (stack_push I) (\<lambda>value.
     ibind (ilift (to_le_bytes value)) (\<lambda>value_le_bytes.
     let is_pushed = continuous_selectors num_pushed 32; is_padding = continuous_selectors num_padding 32 in
     ithen (push_bytes I num_pushed value_le_bytes is_pushed is_padding [0..<32])
       (step_state_transition_in_same_context I opc
         (within_call (Delta (FQ 1)) (Delta (1 + num_pushed)) (Delta (FQ (-1))))))))))"

definition gas :: "instruction \<Rightarrow> unit instr" where
  "gas I =
     ibind (opcode_lookup I True) (\<lambda>opc.
     ithen (constrain_equal opc (FQ Opcode_GAS))
    (ibind (ilift (constant_gas_cost Opcode_GAS)) (\<lambda>cost.
     ibind (ilift (from_lo (ss_gas_left (i_curr I) - FQ cost))) (\<lambda>w.
     ibind (stack_push I) (\<lambda>pushed.
     ithen (constrain_equal_word w pushed)
       (step_state_transition_in_same_context I opc
         (within_call (Delta (FQ 1)) (Delta (FQ 1)) (Delta (FQ (-1))))))))))"

definition gasprice :: "instruction \<Rightarrow> unit instr" where
  "gasprice I =
     ibind (call_context_lookup I CC_TxId RW_Read None) (\<lambda>tx_id.
     ibind (opcode_lookup I True) (\<lambda>opc.
     ithen (constrain_equal opc (FQ Opcode_GASPRICE))
    (ibind (tx_context_lookup_word I tx_id TC_GasPrice) (\<lambda>price.
     ibind (stack_push I) (\<lambda>pushed.
     ithen (constrain_equal_word (wov_word price) pushed)
       (step_state_transition_in_same_context I opc
         (within_call (Delta (FQ 2)) (Delta (FQ 1)) (Delta (FQ (-1))))))))))"

definition jump :: "instruction \<Rightarrow> unit instr" where
  "jump I =
     ibind (opcode_lookup I True) (\<lambda>opc.
     ithen (constrain_equal opc (FQ Opcode_JUMP))
    (ibind (stack_pop I) (\<lambda>dest_word.
     ithen (constrain_zero (hi dest_word))
    (ibind (opcode_lookup_at I (lo dest_word) True) (\<lambda>target.
     ithen (constrain_equal (FQ Opcode_JUMPDEST) target)
       (step_state_transition_in_same_context I opc
         (within_call (Delta (FQ 1)) (To (lo dest_word)) (Delta (FQ 1)))))))))"

definition jumpi :: "(fq \<Rightarrow> bool) \<Rightarrow> instruction \<Rightarrow> unit instr" where
  "jumpi truth_value I =
     ibind (opcode_lookup I True) (\<lambda>opc.
     ithen (constrain_equal opc (FQ Opcode_JUMPI))
    (ibind (stack_pop I) (\<lambda>dest_word.
     ithen (constrain_zero (hi dest_word))
    (ibind (stack_pop I) (\<lambda>cond.
     ibind (if truth_value (is_zero_word cond) then iret (FQ 1)
            else ibind (opcode_lookup_at I (lo dest_word) True) (\<lambda>target.
              ithen (constrain_equal (FQ Opcode_JUMPDEST) target)
                (iret (lo dest_word - ss_program_counter (i_curr I))))) (\<lambda>pc_diff.
     step_state_transition_in_same_context I opc
       (within_call (Delta (FQ 2)) (Delta pc_diff) (Delta (FQ 2)))))))))"

definition msize :: "instruction \<Rightarrow> unit instr" where
  "msize I =
     ibind (opcode_lookup I True) (\<lambda>opc.
     ibind (ilift (from_lo (ss_memory_word_size (i_curr I) * FQ (int N_BYTES_WORD)))) (\<lambda>w.
     ibind (stack_push I) (\<lambda>pushed.
     ithen (constrain_equal_word w pushed)
       (step_state_transition_in_same_context I opc
         (within_call (Delta (FQ 1)) (Delta (FQ 1)) (Delta (FQ (-1))))))))"

definition stop :: "instruction \<Rightarrow> unit instr" where
  "stop I =
     ibind (bytecode_length I (ss_code_hash (i_curr I))) (\<lambda>code_length.
     ibind (compare code_length (ss_program_counter (i_curr I)) N_BYTES_PROGRAM_COUNTER) (\<lambda>(lt, eq).
     ithen (if lt + eq = 0
            then ibind (opcode_lookup I True) (\<lambda>opc. responsible_opcode_lookup I opc (FQ 0))
            else iret ())
    (ibind (call_context_lookup I CC_IsSuccess RW_Read None) (\<lambda>is_success.
     ithen (constrain_equal is_success (FQ 1))
    (let is_to_end_tx = is_equal (FQ (es_int (ss_execution_state (i_next I)))) (FQ (es_int ES_EndTx)) in
     ithen (constrain_equal (fq_of_bool (ss_is_root (i_curr I))) is_to_end_tx)
       (if ss_is_root (i_curr I)
        then constrain_step_state_transition I [(K_rw_counter, Delta (FQ 1)), (K_call_id, Same)]
        else step_state_transition_to_restored_context I 1 (FQ 0) (FQ 0) (ss_gas_left (i_curr I)) None))))))"

definition address :: "instruction \<Rightarrow> unit instr" where
  "address I =
     ibind (opcode_lookup I True) (\<lambda>opc.
     ithen (constrain_equal opc (FQ Opcode_ADDRESS))
    (ibind (call_context_lookup_word I CC_CalleeAddress RW_Read None) (\<lambda>address_word.
     ibind (stack_push I) (\<lambda>pushed.
     ithen (constrain_equal_word (wov_word address_word) pushed)
       (step_state_transition_in_same_context I opc
         (within_call (Delta (FQ 2)) (Delta (FQ 1)) (Delta (FQ (-1)))))))))"

definition caller :: "instruction \<Rightarrow> unit instr" where
  "caller I =
     ibind (opcode_lookup I True) (\<lambda>opc.
     ithen (constrain_equal opc (FQ Opcode_CALLER))
    (ibind (call_context_lookup_word I CC_CallerAddress RW_Read None) (\<lambda>address_word.
     ibind (stack_push I) (\<lambda>pushed.
     ithen (constrain_equal_word (wov_word address_word) pushed)
       (step_state_transition_in_same_context I opc
         (within_call (Delta (FQ 2)) (Delta (FQ 1)) (Delta (FQ (-1)))))))))"

definition callvalue :: "instruction \<Rightarrow> unit instr" where
  "callvalue I =
     ibind (opcode_lookup I True) (\<lambda>opc.
     ithen (constrain_equal opc (FQ Opcode_CALLVALUE))
    (ibind (call_context_lookup_word I CC_Value RW_Read None) (\<lambda>value.
     ibind (stack_push I) (\<lambda>pushed.
     ithen (constrain_equal_word (wov_word value) pushed)
       (step_state_transition_in_same_context I opc
         (within_call (Delta (FQ 2)) (Delta (FQ 1)) (Delta (FQ (-1)))))))))"

definition calldatasize :: "instruction \<Rightarrow> unit instr" where
  "calldatasize I =
     ibind (opcode_lookup I True) (\<lambda>opc.
     ithen (constrain_equal opc (FQ Opcode_CALLDATASIZE))
    (ibind (call_context_lookup I CC_CallDataLength RW_Read None) (\<lambda>len.
     ibind (ilift (from_lo len)) (\<lambda>w.
     ibind (stack_push I) (\<lambda>pushed.
     ithen (constrain_equal_word w pushed)
       (step_state_transition_in_same_context I opc
         (within_call (Delta (FQ 2)) (Delta (FQ 1)) (Delta (FQ (-1))))))))))"

definition codesize :: "instruction \<Rightarrow> unit instr" where
  "codesize I =
     ibind (opcode_lookup I True) (\<lambda>opc.
     ithen (constrain_equal opc (FQ Opcode_CODESIZE))
    (ibind (bytecode_length I (ss_code_hash (i_curr I))) (\<lambda>code_size.
     ibind (ilift (from_lo code_size)) (\<lambda>w.
     ibind (stack_push I) (\<lambda>pushed.
     ithen (constrain_equal_word w pushed)
       (step_state_transition_in_same_context I opc
         (within_call (Delta (FQ 1)) (Delta (FQ 1)) (Delta (FQ (-1))))))))))"

definition returndatasize :: "instruction \<Rightarrow> unit instr" where
  "returndatasize I =
     ibind (opcode_lookup I True) (\<lambda>opc.
     ithen (constrain_equal opc (FQ Opcode_RETURNDATASIZE))
    (ibind (call_context_lookup I CC_LastCalleeReturnDataLength RW_Read None) (\<lambda>len.
     ibind (ilift (word_of_tuple len (FQ 0))) (\<lambda>w.
     ibind (stack_push I) (\<lambda>pushed.
     ithen (constrain_equal_word w pushed)
       (step_state_transition_in_same_context I opc
         (within_call (Delta (FQ 2)) (Delta (FQ 1)) (Delta (FQ (-1))))))))))"

definition origin :: "instruction \<Rightarrow> unit instr" where
  "origin I =
     ibind (call_context_lookup I CC_TxId RW_Read None) (\<lambda>tx_id.
     ibind (opcode_lookup I True) (\<lambda>opc.
     ithen (constrain_equal opc (FQ Opcode_ORIGIN))
    (ibind (tx_context_lookup_word I tx_id TC_CallerAddress) (\<lambda>address_word.
     ibind (stack_push I) (\<lambda>pushed.
     ithen (constrain_equal_word (wov_word address_word) pushed)
       (step_state_transition_in_same_context I opc
         (within_call (Delta (FQ 2)) (Delta (FQ 1)) (Delta (FQ (-1))))))))))"

definition selfbalance :: "instruction \<Rightarrow> unit instr" where
  "selfbalance I =
     ibind (opcode_lookup I True) (\<lambda>opc.
     ithen (constrain_equal opc (FQ Opcode_SELFBALANCE))
    (ibind (call_context_lookup_word I CC_CalleeAddress RW_Read None) (\<lambda>callee_address_word.
     ibind (word_to_address (wov_word callee_address_word)) (\<lambda>callee_address.
     ibind (account_read_word I callee_address AF_Balance) (\<lambda>balance.
     ibind (stack_push I) (\<lambda>pushed.
     ithen (constrain_equal_word pushed (wov_word balance))
       (step_state_transition_in_same_context I opc
         (within_call (Delta (FQ 3)) (Delta (FQ 1)) (Delta (FQ (-1)))))))))))"

text \<open>An opcode that is none of the seven leaves \<open>op\<close> unbound.\<close>

definition block_context_op :: "fq \<Rightarrow> block_context_field_tag result" where
  "block_context_op opc =
     (if opc = FQ Opcode_COINBASE then Inr BC_Coinbase
      else if opc = FQ Opcode_TIMESTAMP then Inr BC_Timestamp
      else if opc = FQ Opcode_NUMBER then Inr BC_Number
      else if opc = FQ Opcode_GASLIMIT then Inr BC_GasLimit
      else if opc = FQ Opcode_PREVRANDAO then Inr BC_PrevRandao
      else if opc = FQ Opcode_BASEFEE then Inr BC_BaseFee
      else if opc = FQ Opcode_CHAINID then Inr BC_ChainId
      else Inl UnboundLocalError)"

definition blockctx :: "instruction \<Rightarrow> unit instr" where
  "blockctx I =
     ibind (opcode_lookup I True) (\<lambda>opc.
     ibind (ilift (block_context_op opc)) (\<lambda>op.
     ibind (block_context_lookup_word I op (FQ 0)) (\<lambda>ctx_word.
     ibind (stack_push I) (\<lambda>pushed.
     ithen (constrain_equal_word (wov_word ctx_word) pushed)
       (step_state_transition_in_same_context I opc
         (within_call (Delta (FQ 1)) (Delta (FQ 1)) (Delta (FQ (-1)))))))))"

end
