(* ===== verification/Exec_Signed.thy ===== *)
theory Exec_Signed
  imports Exec_MulDiv "HOL-Library.Signed_Division"
begin

text \<open>
  The gadget of SDIV and SMOD (\<^verbatim>\<open>src/zkevm_specs/evm_circuit/execution/sdiv_smod.py\<close>). What it
  accepts is stated over the signed value of the stack words.
\<close>

section \<open>SDIV, SMOD\<close>

definition sdiv_smod_gen_witness ::
  "instruction \<Rightarrow> fq \<Rightarrow> word256 \<Rightarrow> word256 \<Rightarrow> word256 \<Rightarrow>
   (word256 \<times> word256 \<times> word256 \<times> word256) result" where
  "sdiv_smod_gen_witness I opc pop1 pop2 push =
     (let is_sdiv = (FQ Opcode_SMOD - opc) * fq_inv (ext_prime_field_inv (i_ext I)) (FQ 2);
        pop1_abs = get_int_abs (int_value pop1);
        pop2_abs = get_int_abs (int_value pop2);
        push_abs = get_int_abs (int_value push);
        pop1_is_neg = int_is_neg (int_value pop1);
        pop2_is_neg = int_is_neg (int_value pop2) in
      if is_sdiv = 1 then
        rbind (if pop1_is_neg = 0 then word_of_int256 (pop1_abs - push_abs * pop2_abs)
               else word_of_int256 (get_int_neg (pop1_abs - push_abs * pop2_abs))) (\<lambda>remainder.
        Inr (push, pop2, remainder, pop1))
      else
        rbind (if int_value pop2 = 0 then word_of_int256 0
               else if pop1_is_neg = pop2_is_neg then word_of_int256 (pop1_abs div pop2_abs)
               else word_of_int256 (get_int_neg (pop1_abs div pop2_abs))) (\<lambda>quot.
        Inr (quot, pop2, (if int_value pop2 = 0 then pop1 else push), pop1)))"

definition sdiv_smod_check_witness ::
  "instruction \<Rightarrow> word256 \<Rightarrow> word256 \<Rightarrow> word256 \<Rightarrow> word256 \<Rightarrow> unit instr" where
  "sdiv_smod_check_witness I quot divisor remainder dividend =
     ibind (abs_word quot) (\<lambda>(quotient_abs, quotient_is_neg).
     ibind (abs_word divisor) (\<lambda>(divisor_abs, divisor_is_neg).
     ibind (abs_word remainder) (\<lambda>(remainder_abs, remainder_is_neg).
     ibind (abs_word dividend) (\<lambda>(dividend_abs, dividend_is_neg).
     let quotient_is_non_zero = 1 - is_zero_word quot;
       divisor_is_non_zero = 1 - is_zero_word divisor;
       remainder_is_non_zero = 1 - is_zero_word remainder in
     ibind (instr_mul_add_words I quotient_abs divisor_abs remainder_abs dividend_abs) (\<lambda>overflow.
     ithen (constrain_zero overflow)
    (ibind (compare_word remainder_abs divisor_abs) (\<lambda>(remainder_abs_lt_divisor_abs, _).
     ithen (constrain_zero ((1 - remainder_abs_lt_divisor_abs) * divisor_is_non_zero))
    (ithen (constrain_zero ((dividend_is_neg - remainder_is_neg) *
        (quotient_is_non_zero * divisor_is_non_zero * remainder_is_non_zero)))
    (ibind (is_neg_word dividend_abs) (\<lambda>dividend_is_signed_overflow.
     constrain_zero
       ((quotient_is_neg + divisor_is_neg - FQ 2 * quotient_is_neg * divisor_is_neg - dividend_is_neg) *
        (quotient_is_non_zero * divisor_is_non_zero * (1 - dividend_is_signed_overflow)))))))))))))"

definition sdiv_smod :: "instruction \<Rightarrow> unit instr" where
  "sdiv_smod I =
     ibind (opcode_lookup I True) (\<lambda>opc.
     ibind (stack_pop I) (\<lambda>pop1.
     ibind (stack_pop I) (\<lambda>pop2.
     ibind (stack_push I) (\<lambda>push.
     ibind (ilift (sdiv_smod_gen_witness I opc pop1 pop2 push))
       (\<lambda>(quot, divisor, remainder, dividend).
     ithen (sdiv_smod_check_witness I quot divisor remainder dividend)
       (step_state_transition_in_same_context I opc
         (same_context\<lparr>sc_rw_counter := Delta (FQ 3), sc_program_counter := Delta (FQ 1),
            sc_stack_pointer := Delta (FQ 1)\<rparr>)))))))"



section \<open>Signed values\<close>

lemma sint_to_u256:
  assumes ok: "word_ok x"
  shows "sint (to_u256 x) = (if 2 ^ 255 \<le> int_value x then int_value x - 2 ^ 256 else int_value x)"
proof -
  have "odd (v div 2 ^ 255)" if "2 ^ 255 \<le> v" "v < 2 ^ 256" for v :: int
    using that by (subst int_div_pos_eq [of v _ 1 "v - 2 ^ 255"]) simp_all
  moreover have "sint (to_u256 x) = signed_take_bit 255 (int_value x)"
    using uint_to_u256 [OF ok] by (simp add: sint_uint)
  ultimately show ?thesis
    using int_value_nonneg [of x] int_value_lt [OF ok]
    by (simp add: signed_take_bit_eq_take_bit_minus take_bit_int_eq_self bit_iff_odd_drop_bit
        drop_bit_eq_div)
qed

lemma sint_range:
  assumes "word_ok x"
  shows "- (2 ^ 255) \<le> sint (to_u256 x)" "sint (to_u256 x) < 2 ^ 255"
  using int_value_nonneg [of x] int_value_lt [OF assms] by (simp_all add: sint_to_u256 [OF assms])

lemma sint_zero: "word_ok x \<Longrightarrow> sint (to_u256 x) = 0 \<longleftrightarrow> x = WordLH 0 0"
  using int_value_nonneg [of x] int_value_lt [of x] by (auto simp: sint_to_u256 int_value_zero)

text \<open>The absolute value and the sign that the code computes.\<close>

lemma int_is_neg_ok: "word_ok x \<Longrightarrow> int_is_neg (int_value x) = of_bool (sint (to_u256 x) < 0)"
  using int_value_nonneg [of x] int_value_lt [of x] int_div_lt [of "int_value x" 2 "2 ^ 255"]
  by (auto simp: int_is_neg_def drop_bit_eq_div sint_to_u256)

lemma get_int_abs_ok: "word_ok x \<Longrightarrow> get_int_abs (int_value x) = \<bar>sint (to_u256 x)\<bar>"
  using int_value_nonneg [of x] int_value_lt [of x]
  by (simp add: get_int_abs_def get_int_neg_def int_is_neg_ok sint_to_u256)

lemma abs_word_run:
  assumes "word_ok x"
  shows "abs_word x = iret (word_of \<bar>sint (to_u256 x)\<bar>, fq_of_bool (sint (to_u256 x) < 0))"
proof
  fix s
  have "abs_word x s = Inr ((word_of \<bar>sint (to_u256 x)\<bar>, fq_of_bool (sint (to_u256 x) < 0)), s)"
    using int_value_nonneg [of x] int_value_lt [OF assms]
    by (simp add: abs_word_ok [OF assms] sint_to_u256 [OF assms])
  then show "abs_word x s = iret (word_of \<bar>sint (to_u256 x)\<bar>, fq_of_bool (sint (to_u256 x) < 0)) s"
    by (simp add: iret_def)
qed

lemma abs_word_value:
  assumes "word_ok x"
  shows "word_ok (word_of \<bar>sint (to_u256 x)\<bar>)" "int_value (word_of \<bar>sint (to_u256 x)\<bar>) = \<bar>sint (to_u256 x)\<bar>"
  using sint_range [OF assms] word_of_ok [of "\<bar>sint (to_u256 x)\<bar>"] by simp_all

lemma is_neg_abs_run:
  assumes "word_ok x"
  shows "is_neg_word (word_of \<bar>sint (to_u256 x)\<bar>) s = Inr (r, s') \<longleftrightarrow>
    r = fq_of_bool (sint (to_u256 x) = - (2 ^ 255)) \<and> s' = s"
proof -
  note w = abs_word_value [OF assms]
  have "2 ^ 127 \<le> fq_n (hi (word_of \<bar>sint (to_u256 x)\<bar>)) \<longleftrightarrow> sint (to_u256 x) = - (2 ^ 255)"
    unfolding high_bit [OF w(1)] w(2) using sint_range [OF assms] by auto
  then show ?thesis
    using word_halves(4) [OF w(1)] by (simp add: is_neg_word_ok)
qed

lemma sign_xor:
  "(fq_of_bool p + fq_of_bool q - FQ 2 * fq_of_bool p * fq_of_bool q - fq_of_bool r) * (fq_of_bool c) = 0 \<longleftrightarrow>
   (c \<longrightarrow> (p \<noteq> q) = r)"
proof -
  have "FQ 2 = 1 + 1" by (simp add: fq_two del: one_add_one)
  then show ?thesis by (cases p; cases q; cases r; cases c) simp_all
qed

lemma sign_eq: "(fq_of_bool p - fq_of_bool q) * (fq_of_bool c) = 0 \<longleftrightarrow> (c \<longrightarrow> p = q)"
  by (cases p; cases q; cases c) simp_all

text \<open>The checks, over signed values.\<close>

lemma check_witness_ok:
  assumes pfi: "prime_field_inv_spec (ext_prime_field_inv (i_ext I))"
    and ok: "word_ok quot" "word_ok divisor" "word_ok remainder" "word_ok dividend"
  defines "q \<equiv> sint (to_u256 quot)" and "d \<equiv> sint (to_u256 divisor)"
    and "r \<equiv> sint (to_u256 remainder)" and "n \<equiv> sint (to_u256 dividend)"
  shows "sdiv_smod_check_witness I quot divisor remainder dividend s = Inr (u, s') \<longleftrightarrow>
    \<bar>q\<bar> * \<bar>d\<bar> + \<bar>r\<bar> = \<bar>n\<bar> \<and> (d \<noteq> 0 \<longrightarrow> \<bar>r\<bar> < \<bar>d\<bar>) \<and>
    (q \<noteq> 0 \<and> d \<noteq> 0 \<and> r \<noteq> 0 \<longrightarrow> (n < 0) = (r < 0)) \<and>
    (q \<noteq> 0 \<and> d \<noteq> 0 \<and> n \<noteq> - (2 ^ 255) \<longrightarrow> ((q < 0) \<noteq> (d < 0)) = (n < 0)) \<and> s' = s"
proof -
  have z: "is_zero_word w = fq_of_bool (sint (to_u256 w) = 0)" if "word_ok w" for w
    using that by (simp add: is_zero_word_int sint_zero int_value_zero)
  have n: "\<bar>n\<bar> mod 2 ^ 256 = \<bar>n\<bar>" using sint_range [OF ok(4)] by (simp add: n_def)
  note a = abs_word_value [OF ok(1), folded q_def] abs_word_value [OF ok(2), folded d_def]
    abs_word_value [OF ok(3), folded r_def] abs_word_value [OF ok(4), folded n_def]
  have ov: "(\<bar>q\<bar> * \<bar>d\<bar> + \<bar>r\<bar>) mod 2 ^ 256 = \<bar>n\<bar> \<and> product_overflow I (word_of \<bar>q\<bar>) (word_of \<bar>d\<bar>)
      (word_of \<bar>r\<bar>) (word_of \<bar>n\<bar>) = 0 \<longleftrightarrow> \<bar>q\<bar> * \<bar>d\<bar> + \<bar>r\<bar> = \<bar>n\<bar>"
    using product_overflow_zero [OF pfi a(1,3,5,7)] a n by auto
  show ?thesis
    unfolding sdiv_smod_check_witness_def abs_word_run [OF ok(1)] abs_word_run [OF ok(2)]
      abs_word_run [OF ok(3)] abs_word_run [OF ok(4)] z [OF ok(1)] z [OF ok(2)] z [OF ok(3)]
      ibind_simps prod.case Let_def q_def [symmetric] d_def [symmetric] r_def [symmetric] n_def [symmetric]
    using ov
    by (simp add: ok_simps a instr_mul_add_words_ok [OF pfi] sign_xor sign_eq
        is_neg_abs_run [OF ok(4), folded n_def] del: is_neg_word_ok) blast
qed

text \<open>The word of a signed value.\<close>

lemma signed_word:
  assumes "- (2 ^ 255) \<le> v" "v < 2 ^ 255"
  shows "word_ok (word_of (v mod 2 ^ 256))" "sint (to_u256 (word_of (v mod 2 ^ 256))) = v"
proof -
  have r: "0 \<le> v mod 2 ^ 256" "v mod 2 ^ 256 < 2 ^ 256" by simp_all
  note w = word_of_ok [OF r]
  show "word_ok (word_of (v mod 2 ^ 256))" by (rule w)
  have "v mod 2 ^ 256 = (if v < 0 then v + 2 ^ 256 else v)"
    using assms by (auto intro!: int_mod_pos_eq [of _ _ "-1"])
  then show "sint (to_u256 (word_of (v mod 2 ^ 256))) = v"
    unfolding sint_to_u256 [OF w(1)] w(2) using assms by auto
qed

lemma get_int_neg_mod: "0 \<le> x \<Longrightarrow> x < 2 ^ 256 \<Longrightarrow> get_int_neg x = (- x) mod 2 ^ 256"
  by (auto simp: get_int_neg_def intro!: int_mod_pos_eq [symmetric, of _ _ "-1"])

lemma sdiv_flag:
  assumes "prime_field_inv_spec pfi"
  shows "(FQ 7 - FQ 5) * fq_inv pfi (FQ 2) = 1" "(FQ 7 - FQ 7) * fq_inv pfi (FQ 2) = 0"
  using fq_inv_FQ [OF assms, of 1] by (simp_all add: fq_modulus_def flip: FQ_arith(4))

section \<open>The witness\<close>

text \<open>
  For SDIV the quotient is the word pushed and the remainder what is left of the dividend, with
  its sign; for SMOD the quotient is the truncated one and the remainder the word pushed.
\<close>

lemma gen_witness_sdiv:
  assumes pfi: "prime_field_inv_spec (ext_prime_field_inv (i_ext I))"
    and ok: "word_ok x" "word_ok y" "word_ok z"
  defines "a \<equiv> sint (to_u256 x)" and "b \<equiv> sint (to_u256 y)" and "c \<equiv> sint (to_u256 z)"
  shows "sdiv_smod_gen_witness I (FQ 5) x y z = Inr w \<longleftrightarrow>
    0 \<le> \<bar>a\<bar> - \<bar>c\<bar> * \<bar>b\<bar> \<and>
    w = (z, y, word_of ((if a < 0 then - (\<bar>a\<bar> - \<bar>c\<bar> * \<bar>b\<bar>) else \<bar>a\<bar> - \<bar>c\<bar> * \<bar>b\<bar>) mod 2 ^ 256), x)"
proof -
  define v where "v = \<bar>a\<bar> - \<bar>c\<bar> * \<bar>b\<bar>"
  have p: "0 \<le> \<bar>c\<bar> * \<bar>b\<bar>" by simp
  have "\<bar>a\<bar> < 2 ^ 256" using sint_range [OF ok(1)] by (simp add: a_def)
  then have v: "v < 2 ^ 256" unfolding v_def using p by linarith
  have n: "get_int_neg v = (- v) mod 2 ^ 256" if "0 \<le> v" using get_int_neg_mod [OF that v] .
  have n': "\<not> 0 \<le> v \<Longrightarrow> \<not> get_int_neg v < 2 ^ 256"
    by (auto simp: get_int_neg_def)
  show ?thesis
    unfolding sdiv_smod_gen_witness_def sdiv_flag [OF pfi] Let_def get_int_abs_ok [OF ok(1)]
      get_int_abs_ok [OF ok(2)] get_int_abs_ok [OF ok(3)] int_is_neg_ok [OF ok(1)] int_is_neg_ok [OF ok(2)]
      a_def [symmetric] b_def [symmetric] c_def [symmetric] v_def [symmetric]
    using v n n' by (cases "0 \<le> v") (auto simp: rbind_ok word_of_int256_ok)
qed

lemma abs_div_bounds:
  assumes "word_ok x"
  shows "0 \<le> \<bar>sint (to_u256 x)\<bar> div \<bar>b\<bar>" "\<bar>sint (to_u256 x)\<bar> div \<bar>b\<bar> \<le> \<bar>sint (to_u256 x)\<bar>"
  by (cases "b = 0"; simp add: pos_imp_zdiv_nonneg_iff int_div_le)+

lemma gen_witness_smod:
  assumes pfi: "prime_field_inv_spec (ext_prime_field_inv (i_ext I))"
    and ok: "word_ok x" "word_ok y" "word_ok z"
  defines "a \<equiv> sint (to_u256 x)" and "b \<equiv> sint (to_u256 y)"
  shows "sdiv_smod_gen_witness I (FQ 7) x y z = Inr w \<longleftrightarrow>
    w = (word_of ((if (a < 0) = (b < 0) then \<bar>a\<bar> div \<bar>b\<bar> else - (\<bar>a\<bar> div \<bar>b\<bar>)) mod 2 ^ 256),
      y, if b = 0 then x else z, x)"
proof -
  define q where "q = \<bar>a\<bar> div \<bar>b\<bar>"
  have b: "int_value y = 0 \<longleftrightarrow> b = 0"
    by (simp add: b_def sint_zero [OF ok(2)] int_value_zero)
  have q: "0 \<le> q" "q < 2 ^ 256" "q mod 2 ^ 256 = q" "b = 0 \<Longrightarrow> q = 0"
    using abs_div_bounds [OF ok(1), of b] sint_range [OF ok(1)]
    by (simp_all add: q_def a_def)
  have n: "get_int_neg q = (- q) mod 2 ^ 256" using get_int_neg_mod [OF q(1,2)] .
  have w: "word_of_int256 q = Inr (word_of (q mod 2 ^ 256))"
    "word_of_int256 (get_int_neg q) = Inr (word_of ((- q) mod 2 ^ 256))"
    unfolding q(3) n using q by (simp_all add: word_of_int256_ok)
  show ?thesis
    unfolding sdiv_smod_gen_witness_def sdiv_flag [OF pfi] Let_def get_int_abs_ok [OF ok(1)]
      get_int_abs_ok [OF ok(2)] get_int_abs_ok [OF ok(3)] int_is_neg_ok [OF ok(1)] int_is_neg_ok [OF ok(2)]
      a_def [symmetric] b_def [symmetric] q_def [symmetric] b w
    using q(4) by (auto simp: word_of_int256_Inr)
qed

section \<open>Acceptance\<close>

lemma sdiv_signs:
  fixes a b c :: int
  assumes a: "- (2 ^ 255) \<le> a" "a < 2 ^ 255" and c: "- (2 ^ 255) \<le> c" "c < 2 ^ 255" and b: "b \<noteq> 0"
  shows "\<bar>c\<bar> = \<bar>a\<bar> div \<bar>b\<bar> \<and> (c \<noteq> 0 \<and> a \<noteq> - (2 ^ 255) \<longrightarrow> ((c < 0) \<noteq> (b < 0)) = (a < 0)) \<longleftrightarrow>
    c = a sdiv b \<or> a = - (2 ^ 255) \<and> c = - (a sdiv b)"
proof -
  define q where "q = \<bar>a\<bar> div \<bar>b\<bar>"
  have q: "0 \<le> q" "q \<le> \<bar>a\<bar>" unfolding q_def using b by (simp_all add: pos_imp_zdiv_nonneg_iff int_div_le)
  have s: "a sdiv b = sgn a * sgn b * q" by (simp add: signed_divide_int_def q_def)
  show ?thesis
    unfolding s q_def [symmetric] using q a c b
    by (cases "a < 0"; cases "a = 0"; cases "b < 0"; simp add: sgn_if; linarith)
qed

lemma smod_signs:
  fixes a b c :: int
  assumes a: "- (2 ^ 255) \<le> a" "a < 2 ^ 255" and b: "b \<noteq> 0"
  shows "\<bar>a\<bar> div \<bar>b\<bar> * \<bar>b\<bar> + \<bar>c\<bar> = \<bar>a\<bar> \<and> \<bar>c\<bar> < \<bar>b\<bar> \<and> (\<bar>a\<bar> div \<bar>b\<bar> \<noteq> 0 \<and> c \<noteq> 0 \<longrightarrow> (a < 0) = (c < 0)) \<longleftrightarrow>
    c = a smod b \<or> \<bar>a\<bar> < \<bar>b\<bar> \<and> c = - a"
proof -
  define m where "m = \<bar>a\<bar> mod \<bar>b\<bar>"
  have m: "0 \<le> m" "m < \<bar>b\<bar>" "m \<le> \<bar>a\<bar>" "\<bar>a\<bar> div \<bar>b\<bar> * \<bar>b\<bar> = \<bar>a\<bar> - m"
    unfolding m_def using b by (simp_all add: zmod_le_nonneg_dividend minus_mod_eq_div_mult)
  have z: "\<bar>a\<bar> div \<bar>b\<bar> = 0 \<longleftrightarrow> \<bar>a\<bar> < \<bar>b\<bar>" using b by (auto simp: zdiv_eq_0_iff)
  have lt: "\<bar>a\<bar> < \<bar>b\<bar> \<Longrightarrow> m = \<bar>a\<bar>" by (simp add: m_def)
  have s: "a smod b = sgn a * m" by (simp add: signed_modulo_int_def m_def)
  show ?thesis
    unfolding s m(4) z using m(1-3) lt
    by (cases "a < 0"; cases "a = 0"; cases "\<bar>a\<bar> < \<bar>b\<bar>"; simp add: sgn_if; linarith)
qed

lemma opcodes_SDIV_SMOD:
  "opcode_aux_pairs (responsible_opcode ES_SDIV_SMOD) = map (\<lambda>c. (c, 0)) [Opcode_SDIV, Opcode_SMOD]"
  by (simp add: opcode_aux_pairs_def responsible_opcode_def)

lemma cost_SDIV_SMOD:
  "list_all (\<lambda>c. c \<in> set valid_opcodes \<and> constant_gas_cost c = Inr 5) [Opcode_SDIV, Opcode_SMOD]"
  by code_simp

text \<open>A divisor of zero leaves the pushed word free, in both cases.\<close>

lemma sdiv_checks_ok:
  assumes pfi: "prime_field_inv_spec (ext_prime_field_inv (i_ext I))"
    and ok: "word_ok x" "word_ok y" "word_ok z"
  defines "a \<equiv> sint (to_u256 x)" and "b \<equiv> sint (to_u256 y)" and "c \<equiv> sint (to_u256 z)"
  shows "(\<exists>q d r n. sdiv_smod_gen_witness I (FQ 5) x y z = Inr (q, d, r, n) \<and>
      sdiv_smod_check_witness I q d r n s = Inr (u, s')) \<longleftrightarrow>
    (b \<noteq> 0 \<longrightarrow> c = a sdiv b \<or> a = - (2 ^ 255) \<and> c = - (a sdiv b)) \<and> s' = s"
proof -
  define v where "v = \<bar>a\<bar> - \<bar>c\<bar> * \<bar>b\<bar>"
  define r where "r = (if a < 0 then - v else v)"
  have a: "- (2 ^ 255) \<le> a" "a < 2 ^ 255" and c: "- (2 ^ 255) \<le> c" "c < 2 ^ 255"
    unfolding a_def c_def by (rule sint_range [OF ok(1)] sint_range [OF ok(3)])+
  have "0 \<le> \<bar>c\<bar> * \<bar>b\<bar>" by simp
  then have va: "v \<le> \<bar>a\<bar>" unfolding v_def by linarith
  have rr: "- (2 ^ 255) \<le> r" "r < 2 ^ 255" if "0 \<le> v"
    using that va a unfolding r_def by (simp_all split: if_splits; linarith)+
  have "(\<exists>q d w n. sdiv_smod_gen_witness I (FQ 5) x y z = Inr (q, d, w, n) \<and>
      sdiv_smod_check_witness I q d w n s = Inr (u, s')) \<longleftrightarrow>
    0 \<le> v \<and> sdiv_smod_check_witness I z y (word_of (r mod 2 ^ 256)) x s = Inr (u, s')"
    unfolding gen_witness_sdiv [OF pfi ok] r_def v_def a_def b_def c_def by auto
  also have "\<dots> \<longleftrightarrow> 0 \<le> v \<and> (b \<noteq> 0 \<longrightarrow> \<bar>r\<bar> < \<bar>b\<bar>) \<and>
      (c \<noteq> 0 \<and> b \<noteq> 0 \<and> a \<noteq> - (2 ^ 255) \<longrightarrow> ((c < 0) \<noteq> (b < 0)) = (a < 0)) \<and> s' = s"
  proof (rule conj_cong [OF refl])
    assume v: "0 \<le> v"
    note w = signed_word [OF rr [OF v]]
    have "\<bar>c\<bar> * \<bar>b\<bar> + \<bar>r\<bar> = \<bar>a\<bar>" "r \<noteq> 0 \<Longrightarrow> (a < 0) = (r < 0)"
      using v unfolding r_def v_def by auto
    then show "sdiv_smod_check_witness I z y (word_of (r mod 2 ^ 256)) x s = Inr (u, s') \<longleftrightarrow>
        (b \<noteq> 0 \<longrightarrow> \<bar>r\<bar> < \<bar>b\<bar>) \<and>
        (c \<noteq> 0 \<and> b \<noteq> 0 \<and> a \<noteq> - (2 ^ 255) \<longrightarrow> ((c < 0) \<noteq> (b < 0)) = (a < 0)) \<and> s' = s"
      unfolding check_witness_ok [OF pfi ok(3,2) w(1) ok(1)] w(2) a_def [symmetric] b_def [symmetric] c_def [symmetric]
      by blast
  qed
  also have "\<dots> \<longleftrightarrow> (b \<noteq> 0 \<longrightarrow> c = a sdiv b \<or> a = - (2 ^ 255) \<and> c = - (a sdiv b)) \<and> s' = s"
  proof (cases "b = 0")
    case False
    have "\<bar>r\<bar> = \<bar>v\<bar>" by (simp add: r_def)
    then have "0 \<le> v \<and> \<bar>r\<bar> < \<bar>b\<bar> \<longleftrightarrow> 0 \<le> v \<and> v < \<bar>b\<bar>" by auto
    also have "\<dots> \<longleftrightarrow> \<bar>b\<bar> * \<bar>c\<bar> \<le> \<bar>a\<bar> \<and> \<bar>a\<bar> - \<bar>b\<bar> * \<bar>c\<bar> < \<bar>b\<bar>"
      by (simp only: v_def mult.commute diff_ge_0_iff_ge)
    also have "\<dots> \<longleftrightarrow> \<bar>c\<bar> = \<bar>a\<bar> div \<bar>b\<bar>"
      using int_div_unique [of "\<bar>a\<bar>" "\<bar>b\<bar>" "\<bar>c\<bar>"] False by simp
    finally have "0 \<le> v \<and> \<bar>r\<bar> < \<bar>b\<bar> \<longleftrightarrow> \<bar>c\<bar> = \<bar>a\<bar> div \<bar>b\<bar>" .
    then have "0 \<le> v \<and> (b \<noteq> 0 \<longrightarrow> \<bar>r\<bar> < \<bar>b\<bar>) \<and>
        (c \<noteq> 0 \<and> b \<noteq> 0 \<and> a \<noteq> - (2 ^ 255) \<longrightarrow> ((c < 0) \<noteq> (b < 0)) = (a < 0)) \<longleftrightarrow>
        \<bar>c\<bar> = \<bar>a\<bar> div \<bar>b\<bar> \<and> (c \<noteq> 0 \<and> a \<noteq> - (2 ^ 255) \<longrightarrow> ((c < 0) \<noteq> (b < 0)) = (a < 0))"
      using False by (simp only: simp_thms) blast
    also have "\<dots> \<longleftrightarrow> c = a sdiv b \<or> a = - (2 ^ 255) \<and> c = - (a sdiv b)"
      by (rule sdiv_signs [OF a c False])
    finally show ?thesis using False by auto
  qed (simp add: v_def)
  finally show ?thesis .
qed

lemma smod_checks_ok:
  assumes pfi: "prime_field_inv_spec (ext_prime_field_inv (i_ext I))"
    and ok: "word_ok x" "word_ok y" "word_ok z"
  defines "a \<equiv> sint (to_u256 x)" and "b \<equiv> sint (to_u256 y)" and "c \<equiv> sint (to_u256 z)"
  shows "(\<exists>q d r n. sdiv_smod_gen_witness I (FQ 7) x y z = Inr (q, d, r, n) \<and>
      sdiv_smod_check_witness I q d r n s = Inr (u, s')) \<longleftrightarrow>
    (b \<noteq> 0 \<longrightarrow> c = a smod b \<or> \<bar>a\<bar> < \<bar>b\<bar> \<and> c = - a) \<and> s' = s"
proof -
  define t where "t = \<bar>a\<bar> div \<bar>b\<bar>"
  define v where "v = (if (a < 0) = (b < 0) then t else - t)"
  define quot where "quot = word_of (v mod 2 ^ 256)"
  define r where "r = (if b = 0 then x else z)"
  have a: "- (2 ^ 255) \<le> a" "a < 2 ^ 255" unfolding a_def by (rule sint_range [OF ok(1)])+
  have t: "0 \<le> t" "t \<le> \<bar>a\<bar>" unfolding t_def a_def by (rule abs_div_bounds [OF ok(1)])+
  have q: "word_ok quot" "\<bar>sint (to_u256 quot)\<bar> = t"
    "a \<noteq> - (2 ^ 255) \<Longrightarrow> sint (to_u256 quot) = v"
  proof -
    consider "v < 2 ^ 255" | "v = 2 ^ 255" "a = - (2 ^ 255)" using t a by (force simp: v_def split: if_splits)
    then have "word_ok quot \<and> \<bar>sint (to_u256 quot)\<bar> = t \<and> (a \<noteq> - (2 ^ 255) \<longrightarrow> sint (to_u256 quot) = v)"
    proof cases
      case 1
      have "t \<le> 2 ^ 255" using t a by linarith
      then have "- (2 ^ 255) \<le> v" using t by (simp add: v_def)
      then show ?thesis using signed_word [OF _ 1] t by (simp add: quot_def v_def)
    next
      case 2
      have "v mod 2 ^ 256 = (2 :: int) ^ 255" by (simp add: 2)
      moreover have "word_ok (word_of (2 ^ 255))" "int_value (word_of (2 ^ 255)) = 2 ^ 255"
        using word_of_ok [of "2 ^ 255"] by simp_all
      ultimately show ?thesis using 2 t by (auto simp: quot_def sint_to_u256 v_def split: if_splits)
    qed
    then show "word_ok quot" "\<bar>sint (to_u256 quot)\<bar> = t" "a \<noteq> - (2 ^ 255) \<Longrightarrow> sint (to_u256 quot) = v" by auto
  qed
  have r: "word_ok r" using ok by (simp add: r_def)
  have "(\<exists>q d r n. sdiv_smod_gen_witness I (FQ 7) x y z = Inr (q, d, r, n) \<and>
      sdiv_smod_check_witness I q d r n s = Inr (u, s')) \<longleftrightarrow>
    sdiv_smod_check_witness I quot y r x s = Inr (u, s')"
    unfolding gen_witness_smod [OF pfi ok] quot_def v_def t_def r_def a_def b_def by auto
  also have "\<dots> \<longleftrightarrow> t * \<bar>b\<bar> + \<bar>sint (to_u256 r)\<bar> = \<bar>a\<bar> \<and> (b \<noteq> 0 \<longrightarrow> \<bar>sint (to_u256 r)\<bar> < \<bar>b\<bar>) \<and>
      (t \<noteq> 0 \<and> b \<noteq> 0 \<and> sint (to_u256 r) \<noteq> 0 \<longrightarrow> (a < 0) = (sint (to_u256 r) < 0)) \<and> s' = s"
  proof -
    have "sint (to_u256 quot) \<noteq> 0 \<Longrightarrow> a \<noteq> - (2 ^ 255) \<Longrightarrow> ((sint (to_u256 quot) < 0) \<noteq> (b < 0)) = (a < 0)"
      using q(3) t by (auto simp: v_def)
    moreover have "sint (to_u256 quot) \<noteq> 0 \<longleftrightarrow> t \<noteq> 0" using q(2) by auto
    ultimately show ?thesis
      unfolding check_witness_ok [OF pfi q(1) ok(2) r ok(1)] q(2) a_def [symmetric] b_def [symmetric] by blast
  qed
  also have "\<dots> \<longleftrightarrow> (b \<noteq> 0 \<longrightarrow> c = a smod b \<or> \<bar>a\<bar> < \<bar>b\<bar> \<and> c = - a) \<and> s' = s"
  proof (cases "b = 0")
    case True
    then show ?thesis by (simp add: r_def a_def t_def)
  next
    case False
    have "t * \<bar>b\<bar> + \<bar>c\<bar> = \<bar>a\<bar> \<and> \<bar>c\<bar> < \<bar>b\<bar> \<and> (t \<noteq> 0 \<and> c \<noteq> 0 \<longrightarrow> (a < 0) = (c < 0)) \<longleftrightarrow>
        c = a smod b \<or> \<bar>a\<bar> < \<bar>b\<bar> \<and> c = - a"
      unfolding t_def by (rule smod_signs [OF a False])
    moreover have "sint (to_u256 r) = c" using False by (simp add: r_def c_def)
    ultimately show ?thesis using False by (simp only: simp_thms conj_assoc [symmetric])
  qed
  finally show ?thesis .
qed

text \<open>
  C18: What the gadget of SDIV and SMOD accepts on stack rows of 256-bit words: for a
  divisor other than 0 the truncated signed quotient or remainder, and besides it the
  negated quotient of -2^255 and the negated dividend as the remainder of a smaller
  dividend; for divisor 0, where the document and the tests have the result 0, any written
  word.
\<close>

lemma sdiv_smod_accepts:
  assumes es: "ss_execution_state (i_curr I) = ES_SDIV_SMOD" and wf: "stack_words_ok I"
    and pfi: "prime_field_inv_spec (ext_prime_field_inv (i_ext I))"
  shows "accepted (sdiv_smod I) \<longleftrightarrow>
    (\<exists>opc x y z. opcode_at I 0 True opc \<and> stack_value I 0 RW_Read 0 x \<and>
       stack_value I 1 RW_Read 1 y \<and> stack_value I 2 RW_Write 1 z \<and>
       (let a = sint (to_u256 x); b = sint (to_u256 y); c = sint (to_u256 z) in
        opc = FQ Opcode_SDIV \<and> (b \<noteq> 0 \<longrightarrow> c = a sdiv b \<or> a = - (2 ^ 255) \<and> c = - (a sdiv b)) \<or>
        opc = FQ Opcode_SMOD \<and> (b \<noteq> 0 \<longrightarrow> c = a smod b \<or> \<bar>a\<bar> < \<bar>b\<bar> \<and> c = - a)) \<and>
       advances I 5 (within_call (Delta (FQ 3)) (Delta (FQ 1)) (Delta (FQ 1))))"
proof -
  have ctx: "in_same_context I opc (within_call r p q) \<longleftrightarrow>
      (opc = FQ Opcode_SDIV \<or> opc = FQ Opcode_SMOD) \<and> advances I 5 (within_call r p q)" for opc r p q
    using within_call_advances [OF _ cost_SDIV_SMOD, of I] opcodes_SDIV_SMOD by (simp add: es)
  have swap: "(\<exists>q d r n. g = Inr (q, d, r, n) \<and> (\<exists>t. k q d r n t) \<and> P) \<longleftrightarrow>
      (\<exists>t. \<exists>q d r n. g = Inr (q, d, r, n) \<and> k q d r n t) \<and> P" for g k P
    by blast
  have "accepted (sdiv_smod I) \<longleftrightarrow>
    (\<exists>opc. opcode_at I 0 True opc \<and> (\<exists>x. word_ok x \<and> stack_value I 0 RW_Read 0 x \<and>
       (\<exists>y. word_ok y \<and> stack_value I 1 RW_Read 1 y \<and> (\<exists>z. word_ok z \<and> stack_value I 2 RW_Write 1 z \<and>
       (let a = sint (to_u256 x); b = sint (to_u256 y); c = sint (to_u256 z) in
        opc = FQ Opcode_SDIV \<and> (b \<noteq> 0 \<longrightarrow> c = a sdiv b \<or> a = - (2 ^ 255) \<and> c = - (a sdiv b)) \<or>
        opc = FQ Opcode_SMOD \<and> (b \<noteq> 0 \<longrightarrow> c = a smod b \<or> \<bar>a\<bar> < \<bar>b\<bar> \<and> c = - a)) \<and>
       advances I 5 (within_call (Delta (FQ 3)) (Delta (FQ 1)) (Delta (FQ 1)))))))"
    unfolding sdiv_smod_def accepted_opcode Let_def
    by (rule iff_exI, rule conj_cong [OF refl], rename_tac opc, case_tac "opc = FQ 5"; case_tac "opc = FQ 7";
      simp add: ok_simps stack_pop_wf [OF wf] stack_push_wf [OF wf] ctx swap sdiv_checks_ok [OF pfi]
        smod_checks_ok [OF pfi]
        del: stack_pop_ok stack_push_ok cong: conj_cong)
  then show ?thesis using stack_value_word_ok [OF wf] by blast
qed

lemma sdiv_smod_accepts_witness:
  "accepted (sdiv_smod (binary_step ES_SDIV_SMOD Opcode_SMOD (word_of 5) (word_of 7) (word_of (2 ^ 256 - 5)) 5))"
proof -
  note I = binary_step_facts [where es = ES_SDIV_SMOD and opc = Opcode_SMOD
    and a = "word_of 5" and b = "word_of 7" and c = "word_of (2 ^ 256 - 5)" and cost = 5]
  have c: "0 \<le> (5::int)" "5 \<le> (100::int)" by simp_all
  have wf: "word_ok (word_of 5) \<and> word_ok (word_of 7) \<and> word_ok (word_of (2 ^ 256 - 5))" by simp
  have p: "prime_field_inv_spec (ext_prime_field_inv (i_ext (binary_step ES_SDIV_SMOD Opcode_SMOD (word_of 5) (word_of 7) (word_of (2 ^ 256 - 5)) 5)))"
    unfolding I(2) by (rule bezout_inv_spec)
  have "\<bar>sint (to_u256 (word_of 5))\<bar> < \<bar>sint (to_u256 (word_of 7))\<bar> \<and> sint (to_u256 (word_of (2 ^ 256 - 5))) = - sint (to_u256 (word_of 5))" by simp
  with I(4-7) I(8) [OF c] show ?thesis
    unfolding sdiv_smod_accepts [OF I(1) I(3) [THEN iffD2, OF wf] p] by (unfold Let_def, blast)
qed

end
