(* ===== verification/Exec_Memory.thy ===== *)
theory Exec_Memory
  imports Exec_Compare Instruction_Memory
begin

text \<open>
  The gadgets of \<^verbatim>\<open>src/zkevm_specs/evm_circuit/execution\<close> for memory and storage: memory.py and
  storage.py. A \<open>ReversionInfo\<close> is passed to the methods that advance it and taken back from them.
\<close>

section \<open>MLOAD, MSTORE, MSTORE8\<close>

text \<open>
  The bytes looked up are compared with \<open>is_equal\<close>, which returns a flag and constrains nothing, so
  the lookups are all that remains of these lines.
\<close>

definition memory_byte_lookups :: "instruction \<Rightarrow> fq \<Rightarrow> fq \<Rightarrow> fq \<Rightarrow> fq \<Rightarrow> fq list \<Rightarrow> unit instr" where
  "memory_byte_lookups I address is_mstore8 is_not_mstore8 is_store value_le_bytes =
     ithen (if is_mstore8 = FQ 1
            then ibind (memory_lookup I RW_Write address None) (\<lambda>b. let _ = is_equal b (value_le_bytes ! 0) in iret ())
            else iret ())
       (if is_not_mstore8 = FQ 1
        then iiter (\<lambda>idx.
            ibind (memory_lookup I (if is_store = FQ 1 then RW_Write else RW_Read) (address + FQ (int idx)) None) (\<lambda>b.
            let _ = is_equal b (value_le_bytes ! (31 - idx)) in iret ())) [0..<32]
        else iret ())"

definition memory :: "instruction \<Rightarrow> unit instr" where
  "memory I =
     ibind (opcode_lookup I True) (\<lambda>opc.
     ibind (stack_pop I) (\<lambda>address_word.
     ibind (word_to_address address_word) (\<lambda>address.
     let is_mload = is_equal opc (FQ Opcode_MLOAD); is_mstore8 = is_equal opc (FQ Opcode_MSTORE8);
       is_store = FQ 1 - is_mload; is_not_mstore8 = FQ 1 - is_mstore8 in
     ibind (if is_mload = FQ 1 then stack_push I else stack_pop I) (\<lambda>value.
     ibind (ilift (to_le_bytes value)) (\<lambda>value_le_bytes.
     let memory_offset = ss_memory_word_size (i_curr I) in
     ibind (memory_expansion I memory_offset (address + FQ 1 + is_not_mstore8 * FQ 31))
       (\<lambda>(next_memory_size, memory_expansion_gas_cost).
     ithen (memory_byte_lookups I address is_mstore8 is_not_mstore8 is_store value_le_bytes)
       (step_state_transition_in_same_context I opc
         ((within_call (Delta (FQ 34 - is_mstore8 * FQ 31)) (Delta (FQ 1)) (Delta (is_store * FQ 2)))
           \<lparr>sc_memory_word_size := To next_memory_size, sc_dynamic_gas_cost := memory_expansion_gas_cost\<rparr>))))))))"

section \<open>SLOAD\<close>

definition sload :: "instruction \<Rightarrow> unit instr" where
  "sload I =
     ibind (opcode_lookup I True) (\<lambda>opc.
     ithen (constrain_equal opc (FQ Opcode_SLOAD))
    (ibind (call_context_lookup I CC_TxId RW_Read None) (\<lambda>tx_id.
     ibind (instr_reversion_info I None) (\<lambda>rinfo.
     ibind (call_context_lookup_word I CC_CalleeAddress RW_Read None) (\<lambda>callee_address_word.
     ibind (word_to_address (wov_word callee_address_word)) (\<lambda>callee_address.
     ibind (stack_pop I) (\<lambda>storage_key.
     ibind (account_storage_read I callee_address storage_key tx_id) (\<lambda>value.
     ibind (stack_push I) (\<lambda>pushed.
     ithen (constrain_equal_word value pushed)
    (ibind (add_account_storage_to_access_list I tx_id callee_address storage_key (Some rinfo)) (\<lambda>(is_warm, _).
     ibind (select is_warm (FQ WARM_STORAGE_READ_COST) (FQ COLD_SLOAD_COST)) (\<lambda>dynamic_gas_cost.
     step_state_transition_in_same_context I opc
       ((within_call (Delta (FQ 8)) (Delta (FQ 1)) (Delta (FQ 0)))
         \<lparr>sc_reversible_write_counter := Delta (FQ 1), sc_dynamic_gas_cost := dynamic_gas_cost\<rparr>)))))))))))))"

section \<open>SSTORE\<close>

definition sstore_refund :: "word256 \<Rightarrow> word256 \<Rightarrow> word256 \<Rightarrow> fq \<Rightarrow> fq instr" where
  "sstore_refund value value_prev original_value gas_refund_prev =
     ibind (select (is_zero_word value) (gas_refund_prev + FQ SSTORE_CLEARS_SCHEDULE) gas_refund_prev) (\<lambda>r1.
     ibind (select (is_zero_word value_prev) (gas_refund_prev - FQ SSTORE_CLEARS_SCHEDULE) r1) (\<lambda>nz_allne_case_refund.
     ibind (select (1 - is_equal_word original_value value) nz_allne_case_refund
       (nz_allne_case_refund + FQ SSTORE_RESET_GAS - FQ SLOAD_GAS)) (\<lambda>nz_ne_ne_case_refund.
     ibind (select (is_equal_word original_value value) (gas_refund_prev + FQ SSTORE_SET_GAS - FQ SLOAD_GAS)
       gas_refund_prev) (\<lambda>r2.
     ibind (select (1 - is_zero_word original_value) nz_ne_ne_case_refund r2) (\<lambda>ne_ne_case_refund.
     ibind (select ((1 - is_zero_word original_value) * is_zero_word value)
       (gas_refund_prev + FQ SSTORE_CLEARS_SCHEDULE) gas_refund_prev) (\<lambda>r3.
     ibind (select (is_equal_word original_value value_prev) r3 ne_ne_case_refund) (\<lambda>r4.
     select (is_equal_word value_prev value) gas_refund_prev r4)))))))"

definition sstore_warm_gas :: "word256 \<Rightarrow> word256 \<Rightarrow> word256 \<Rightarrow> fq instr" where
  "sstore_warm_gas value value_prev original_value =
     (let eq_prev = is_equal_word value_prev value;
        prev_ne_original = 1 - is_equal_word value_prev original_value in
      ibind (select (is_zero_word original_value) (FQ SSTORE_SET_GAS) (FQ SSTORE_RESET_GAS)) (\<lambda>g.
      select (eq_prev + prev_ne_original - eq_prev * prev_ne_original) (FQ SLOAD_GAS) g))"

definition sstore :: "instruction \<Rightarrow> unit instr" where
  "sstore I =
     ibind (opcode_lookup I True) (\<lambda>opc.
     ithen (constrain_equal opc (FQ Opcode_SSTORE))
    (ibind (call_context_lookup I CC_TxId RW_Read None) (\<lambda>tx_id.
     ibind (call_context_lookup I CC_IsStatic RW_Read None) (\<lambda>is_static.
     ithen (constrain_equal (FQ 0) is_static)
    (ibind (instr_reversion_info I None) (\<lambda>rinfo.
     ibind (call_context_lookup_word I CC_CalleeAddress RW_Read None) (\<lambda>callee_address_word.
     ibind (word_to_address (wov_word callee_address_word)) (\<lambda>callee_address.
     ibind (stack_pop I) (\<lambda>storage_key.
     ibind (stack_pop I) (\<lambda>storage_value.
     ibind (account_storage_write I callee_address storage_key tx_id (Some rinfo))
       (\<lambda>((value, value_prev, original_value), rinfo).
     ithen (constrain_equal_word storage_value value)
    (ibind (add_account_storage_to_access_list I tx_id callee_address storage_key rinfo) (\<lambda>(is_warm, rinfo).
     ibind (tx_refund_write I tx_id rinfo) (\<lambda>((gas_refund, gas_refund_prev), _).
     ibind (sstore_refund value value_prev original_value gas_refund_prev) (\<lambda>gas_refund_new.
     ithen (constrain_equal gas_refund gas_refund_new)
    (ibind (sstore_warm_gas value value_prev original_value) (\<lambda>warm_case_gas.
     ibind (select is_warm warm_case_gas (warm_case_gas + FQ COLD_SLOAD_COST)) (\<lambda>dynamic_gas_cost.
     step_state_transition_in_same_context I opc
       ((within_call (Delta (FQ 10)) (Delta (FQ 1)) (Delta (FQ 2)))
         \<lparr>sc_reversible_write_counter := Delta (FQ 3), sc_dynamic_gas_cost := dynamic_gas_cost\<rparr>)))))))))))))))))))"

end
