(* ===== verification/Exec_Account.thy ===== *)
theory Exec_Account
  imports Exec_Compare
begin

text \<open>
  The gadgets of \<^verbatim>\<open>src/zkevm_specs/evm_circuit/execution\<close> that read accounts and block hashes:
  balance.py, extcodesize.py, extcodehash.py and blockhash.py.
\<close>

section \<open>Definitions\<close>

definition balance :: "instruction \<Rightarrow> unit instr" where
  "balance I =
     ibind (opcode_lookup I True) (\<lambda>opc.
     ithen (constrain_equal opc (FQ Opcode_BALANCE))
    (ibind (stack_pop I) (\<lambda>address_word.
     ibind (word_to_address address_word) (\<lambda>address.
     ibind (call_context_lookup I CC_TxId RW_Read None) (\<lambda>tx_id.
     ibind (instr_reversion_info I None) (\<lambda>rinfo.
     ibind (add_account_to_access_list I tx_id address (Some rinfo)) (\<lambda>(is_warm, _).
     ibind (account_read_word I address AF_CodeHash) (\<lambda>code_hash.
     let exists = FQ 1 - is_zero_word (wov_word code_hash) in
     ibind (if exists = 1
            then ibind (account_read_word I address AF_Balance) (\<lambda>b. iret (wov_word b))
            else ilift (word_of_int256 0)) (\<lambda>balance.
     ibind (ilift (word_of_int256 0)) (\<lambda>zero.
     ibind (select exists balance zero) (\<lambda>expected.
     ibind (stack_push I) (\<lambda>pushed.
     ithen (constrain_equal_word expected pushed)
    (ibind (select is_warm (FQ 0) (FQ EXTRA_GAS_COST_ACCOUNT_COLD_ACCESS)) (\<lambda>dynamic_gas_cost.
     step_state_transition_in_same_context I opc
       ((within_call (Delta (FQ (7 + fq_n exists))) (Delta (FQ 1)) Same)
         \<lparr>sc_dynamic_gas_cost := dynamic_gas_cost\<rparr>)))))))))))))))"

definition extcodesize :: "instruction \<Rightarrow> unit instr" where
  "extcodesize I =
     ibind (opcode_lookup I True) (\<lambda>opc.
     ithen (constrain_equal opc (FQ Opcode_EXTCODESIZE))
    (ibind (stack_pop I) (\<lambda>address_word.
     ibind (word_to_address address_word) (\<lambda>address.
     ibind (call_context_lookup I CC_TxId RW_Read None) (\<lambda>tx_id.
     ibind (instr_reversion_info I None) (\<lambda>rinfo.
     ibind (add_account_to_access_list I tx_id address (Some rinfo)) (\<lambda>(is_warm, _).
     ibind (account_read_word I address AF_CodeHash) (\<lambda>code_hash.
     let exists = FQ 1 - is_zero_word (wov_word code_hash) in
     ibind (if exists = 1 then bytecode_length I (wov_word code_hash) else iret (FQ 0)) (\<lambda>code_size.
     ibind (select exists code_size (FQ 0)) (\<lambda>expected.
     ibind (ilift (from_lo expected)) (\<lambda>expected_word.
     ibind (stack_push I) (\<lambda>pushed.
     ithen (constrain_equal_word expected_word pushed)
    (ibind (select is_warm (FQ 0) (FQ EXTRA_GAS_COST_ACCOUNT_COLD_ACCESS)) (\<lambda>dynamic_gas_cost.
     step_state_transition_in_same_context I opc
       ((within_call (Delta (FQ 7)) (Delta (FQ 1)) Same)
         \<lparr>sc_dynamic_gas_cost := dynamic_gas_cost, sc_reversible_write_counter := Delta (FQ 1)\<rparr>)))))))))))))))"

definition extcodehash :: "instruction \<Rightarrow> unit instr" where
  "extcodehash I =
     ibind (opcode_lookup I True) (\<lambda>opc.
     ithen (constrain_equal opc (FQ Opcode_EXTCODEHASH))
    (ibind (stack_pop I) (\<lambda>address_word.
     ibind (word_to_address address_word) (\<lambda>address.
     ibind (call_context_lookup I CC_TxId RW_Read None) (\<lambda>tx_id.
     ibind (instr_reversion_info I None) (\<lambda>rinfo.
     ibind (add_account_to_access_list I tx_id address (Some rinfo)) (\<lambda>(is_warm, _).
     ibind (account_read_word I address AF_CodeHash) (\<lambda>code_hash.
     ibind (stack_push I) (\<lambda>pushed.
     ithen (constrain_equal_word (wov_word code_hash) pushed)
    (ibind (select is_warm (FQ 0) (FQ EXTRA_GAS_COST_ACCOUNT_COLD_ACCESS)) (\<lambda>dynamic_gas_cost.
     step_state_transition_in_same_context I opc
       ((within_call (Delta (FQ 7)) (Delta (FQ 1)) Same)
         \<lparr>sc_dynamic_gas_cost := dynamic_gas_cost\<rparr>))))))))))))"

definition blockhash :: "instruction \<Rightarrow> unit instr" where
  "blockhash I =
     ibind (opcode_lookup I True) (\<lambda>opc.
     ibind (stack_pop I) (\<lambda>number_word.
     ibind (word_to_u64 number_word) (\<lambda>block_number.
     ibind (block_context_lookup I BC_Number (FQ 0)) (\<lambda>current_block_number.
     ibind (stack_push I) (\<lambda>block_hash.
     ibind (compare block_number current_block_number N_BYTES_U64) (\<lambda>(block_lt, _).
     ibind (compare current_block_number (FQ 256 + block_number) 2) (\<lambda>(diff_lt, _).
     ibind (if is_equal (block_lt * diff_lt) 1 = 1
            then block_context_lookup_word I BC_HistoryHash block_number
            else iret (ValueV (FQ 0))) (\<lambda>expected_block_hash.
     ithen (constrain_equal_word block_hash (wov_word expected_block_hash))
       (step_state_transition_in_same_context I opc
         (within_call (Delta (FQ 2)) (Delta (FQ 1)) Same))))))))))"

end
