(* ===== verification/Exec_Copy.thy ===== *)
theory Exec_Copy
  imports Exec_Compare Instruction_Memory
begin

text \<open>
  The gadgets of \<^verbatim>\<open>src/zkevm_specs/evm_circuit/execution\<close> that copy bytes and look into the copy
  table: calldatacopy.py, codecopy.py, extcodecopy.py, returndatacopy.py, sha3.py, log.py and
  dataCopy.py; and calldataload.py with the class \<open>BufferReaderGadget\<close> of
  \<^verbatim>\<open>evm_circuit/util/memory_gadget.py\<close>.
\<close>

text \<open>The attribute \<open>rw_counter_offset\<close>, and the counter the next row will have.\<close>

definition current_rw_counter_offset :: "int instr" where
  "current_rw_counter_offset = (\<lambda>s. Inr (rw_counter_offset s, s))"

definition next_rw_counter :: "instruction \<Rightarrow> fq instr" where
  "next_rw_counter I = ibind current_rw_counter_offset (\<lambda>k. iret (ss_rw_counter (i_curr I) + FQ k))"

definition copy_bytes ::
  "instruction \<Rightarrow> word_or_value \<Rightarrow> fq \<Rightarrow> word_or_value \<Rightarrow> fq \<Rightarrow> fq \<Rightarrow> fq \<Rightarrow> fq \<Rightarrow> fq \<Rightarrow> fq option \<Rightarrow> (fq \<times> fq) instr" where
  "copy_bytes I src_id src_tag dst_id dst_tag src_addr src_addr_end dst_addr len log_id =
     ibind (next_rw_counter I) (\<lambda>rw_counter.
     copy_lookup I \<lparr>qc_src_id = src_id, qc_src_tag = src_tag, qc_dst_id = dst_id, qc_dst_tag = dst_tag,
       qc_src_addr = src_addr, qc_src_addr_end = src_addr_end, qc_dst_addr = dst_addr, qc_length = len,
       qc_rw_counter = rw_counter\<rparr> log_id)"

abbreviation copy_tag :: "copy_data_type_tag \<Rightarrow> fq" where
  "copy_tag t \<equiv> FQ (cd_int t)"

section \<open>CALLDATACOPY, CODECOPY, EXTCODECOPY, RETURNDATACOPY\<close>

definition calldatacopy :: "instruction \<Rightarrow> unit instr" where
  "calldatacopy I =
     ibind (opcode_lookup I True) (\<lambda>opc.
     ibind (stack_pop I) (\<lambda>memory_offset_word.
     ibind (stack_pop I) (\<lambda>data_offset_word.
     ibind (stack_pop I) (\<lambda>length_word.
     ibind (memory_offset_and_length memory_offset_word length_word) (\<lambda>(memory_offset, len).
     ibind (word_to_fq data_offset_word N_BYTES_MEMORY_ADDRESS) (\<lambda>data_offset.
     ibind (call_context_lookup I (if ss_is_root (i_curr I) then CC_TxId else CC_CallerId) RW_Read None) (\<lambda>src_id.
     ibind (call_context_lookup I CC_CallDataLength RW_Read None) (\<lambda>call_data_length.
     ibind (if ss_is_root (i_curr I) then iret 0 else call_context_lookup I CC_CallDataOffset RW_Read None) (\<lambda>call_data_offset.
     ibind (memory_expansion_dynamic_length I memory_offset len None) (\<lambda>(next_memory_size, memory_expansion_gas_cost).
     ibind (memory_copier_gas_cost len memory_expansion_gas_cost GAS_COST_COPY) (\<lambda>gas_cost.
     ibind (select (fq_of_bool (ss_is_root (i_curr I))) (copy_tag CD_TxCalldata) (copy_tag CD_Memory)) (\<lambda>src_tag.
     ibind (if is_zero len = 0
            then copy_bytes I (ValueV src_id) src_tag (ValueV (ss_call_id (i_curr I))) (copy_tag CD_Memory)
              (call_data_offset + data_offset) (call_data_offset + call_data_length) memory_offset len None
            else iret (FQ 0, FQ 0)) (\<lambda>(copy_rwc_inc, _).
     ibind current_rw_counter_offset (\<lambda>k.
     step_state_transition_in_same_context I opc
       ((within_call (Delta (FQ k + copy_rwc_inc)) (Delta (FQ 1)) (Delta (FQ 3)))
         \<lparr>sc_memory_word_size := To next_memory_size, sc_dynamic_gas_cost := gas_cost\<rparr>)))))))))))))))"

definition codecopy :: "instruction \<Rightarrow> unit instr" where
  "codecopy I =
     ibind (opcode_lookup I True) (\<lambda>opc.
     ibind (stack_pop I) (\<lambda>memory_offset_word.
     ibind (stack_pop I) (\<lambda>code_offset_word.
     ibind (stack_pop I) (\<lambda>size_word.
     ibind (memory_offset_and_length memory_offset_word size_word) (\<lambda>(memory_offset, size).
     ibind (word_to_fq code_offset_word N_BYTES_MEMORY_ADDRESS) (\<lambda>code_offset.
     ibind (bytecode_length I (ss_code_hash (i_curr I))) (\<lambda>code_size.
     ibind (memory_expansion_dynamic_length I memory_offset size None) (\<lambda>(next_memory_size, memory_expansion_gas_cost).
     ibind (memory_copier_gas_cost size memory_expansion_gas_cost GAS_COST_COPY) (\<lambda>gas_cost.
     ibind (if is_zero size = FQ 0
            then copy_bytes I (WordV (ss_code_hash (i_curr I))) (copy_tag CD_Bytecode)
              (ValueV (ss_call_id (i_curr I))) (copy_tag CD_Memory) code_offset code_size memory_offset size None
            else iret (FQ 0, FQ 0)) (\<lambda>(copy_rwc_inc, _).
     ibind current_rw_counter_offset (\<lambda>k.
     step_state_transition_in_same_context I opc
       ((within_call (Delta (FQ k + copy_rwc_inc)) (Delta (FQ 1)) (Delta (FQ 3)))
         \<lparr>sc_memory_word_size := To next_memory_size, sc_dynamic_gas_cost := gas_cost\<rparr>))))))))))))"

definition extcodecopy :: "instruction \<Rightarrow> unit instr" where
  "extcodecopy I =
     ibind (opcode_lookup I True) (\<lambda>opc.
     ibind (stack_pop I) (\<lambda>address_word.
     ibind (word_to_address address_word) (\<lambda>address.
     ibind (stack_pop I) (\<lambda>memory_offset_word.
     ibind (stack_pop I) (\<lambda>code_offset_word.
     ibind (stack_pop I) (\<lambda>size_word.
     ibind (word_to_u64 code_offset_word) (\<lambda>code_offset.
     ibind (memory_offset_and_length memory_offset_word size_word) (\<lambda>(memory_offset, size).
     ibind (call_context_lookup I CC_TxId RW_Read None) (\<lambda>tx_id.
     ibind (instr_reversion_info I None) (\<lambda>rinfo.
     ibind (add_account_to_access_list I tx_id address (Some rinfo)) (\<lambda>(is_warm, _).
     ibind (account_read_word I address AF_CodeHash) (\<lambda>code_hash.
     let exists = FQ 1 - is_zero_word (wov_word code_hash) in
     ibind (if exists = 1 then bytecode_length I (wov_word code_hash) else iret (FQ 0)) (\<lambda>code_size.
     ibind (memory_expansion_dynamic_length I memory_offset size None) (\<lambda>(next_memory_size, memory_expansion_gas_cost).
     ibind (memory_copier_gas_cost size memory_expansion_gas_cost GAS_COST_COPY) (\<lambda>copier_gas_cost.
     ibind (select is_warm (FQ 0) (FQ EXTRA_GAS_COST_ACCOUNT_COLD_ACCESS)) (\<lambda>access_cost.
     ibind (if is_zero size = FQ 0
            then copy_bytes I code_hash (copy_tag CD_Bytecode) (ValueV (ss_call_id (i_curr I)))
              (copy_tag CD_Memory) code_offset code_size memory_offset size None
            else iret (FQ 0, FQ 0)) (\<lambda>(copy_rwc_inc, _).
     ibind current_rw_counter_offset (\<lambda>k.
     step_state_transition_in_same_context I opc
       ((within_call (Delta (FQ k + copy_rwc_inc)) (Delta (FQ 1)) (Delta (FQ 4)))
         \<lparr>sc_memory_word_size := To next_memory_size, sc_dynamic_gas_cost := copier_gas_cost + access_cost\<rparr>)))))))))))))))))))"

definition returndatacopy :: "instruction \<Rightarrow> unit instr" where
  "returndatacopy I =
     ibind (opcode_lookup I True) (\<lambda>opc.
     ibind (stack_pop I) (\<lambda>memory_offset_word.
     ibind (stack_pop I) (\<lambda>offset_word.
     ibind (stack_pop I) (\<lambda>size_word.
     ibind (call_context_lookup I CC_LastCalleeId RW_Read None) (\<lambda>last_callee_id.
     ibind (call_context_lookup I CC_LastCalleeReturnDataLength RW_Read None) (\<lambda>return_data_length.
     ibind (call_context_lookup I CC_LastCalleeReturnDataOffset RW_Read None) (\<lambda>return_data_offset.
     ibind (word_to_fq offset_word 8) (\<lambda>offset.
     ibind (word_to_fq size_word 8) (\<lambda>size64.
     ibind (range_check (return_data_length - (offset + size64)) N_BYTES_MEMORY_WORD_SIZE) (\<lambda>_.
     ibind (memory_offset_and_length memory_offset_word size_word) (\<lambda>(memory_offset, size).
     ibind (memory_expansion_dynamic_length I memory_offset size None) (\<lambda>(next_memory_size, memory_expansion_gas_cost).
     ibind (memory_copier_gas_cost size memory_expansion_gas_cost GAS_COST_COPY) (\<lambda>gas_cost.
     ibind (copy_bytes I (ValueV last_callee_id) (copy_tag CD_Memory) (ValueV (ss_call_id (i_curr I)))
       (copy_tag CD_Memory) return_data_offset (return_data_offset + size) memory_offset size None) (\<lambda>(copy_rwc_inc, _).
     ithen (iassert (copy_rwc_inc = size * FQ 2))
    (ibind current_rw_counter_offset (\<lambda>k.
     step_state_transition_in_same_context I opc
       ((within_call (Delta (FQ k + copy_rwc_inc)) (Delta (FQ 1)) (Delta (FQ 3)))
         \<lparr>sc_memory_word_size := To next_memory_size, sc_dynamic_gas_cost := gas_cost\<rparr>)))))))))))))))))"

section \<open>SHA3\<close>

definition sha3 :: "instruction \<Rightarrow> unit instr" where
  "sha3 I =
     ibind (opcode_lookup I True) (\<lambda>opc.
     ibind (stack_pop I) (\<lambda>offset.
     ibind (stack_pop I) (\<lambda>size.
     ibind (stack_push I) (\<lambda>sha3_value.
     ibind (memory_offset_and_length offset size) (\<lambda>(memory_offset, len).
     ibind (if is_zero len = 0
            then copy_bytes I (ValueV (ss_call_id (i_curr I))) (copy_tag CD_Memory) (ValueV (ss_call_id (i_curr I)))
              (copy_tag CD_RlcAcc) memory_offset (memory_offset + len) 0 len None
            else iret (0, 0)) (\<lambda>(copy_rwc_inc, rlc_acc).
     ibind (keccak_lookup I len rlc_acc) (\<lambda>keccak256_output.
     ithen (constrain_equal_word keccak256_output sha3_value)
    (ibind (memory_expansion_dynamic_length I memory_offset len None) (\<lambda>(next_memory_size, memory_expansion_gas_cost).
     ibind (memory_copier_gas_cost len memory_expansion_gas_cost GAS_COST_COPY_SHA3) (\<lambda>gas_cost.
     ibind current_rw_counter_offset (\<lambda>k.
     step_state_transition_in_same_context I opc
       ((within_call (Delta (FQ k + copy_rwc_inc)) (Delta (FQ 1)) (Delta (FQ 1)))
         \<lparr>sc_memory_word_size := To next_memory_size, sc_dynamic_gas_cost := gas_cost\<rparr>))))))))))))"

section \<open>LOG0 to LOG4\<close>

definition log_topics :: "instruction \<Rightarrow> fq \<Rightarrow> fq \<Rightarrow> int \<Rightarrow> unit instr" where
  "log_topics I tx_id persistent topic_count =
     iiter (\<lambda>i.
       if int i < topic_count then
         ibind (stack_pop I) (\<lambda>topic.
         if is_zero persistent = 0
         then ibind (tx_log_lookup_word I tx_id (ss_log_id (i_curr I) + 1) TL_Topic (int i)) (\<lambda>logged.
           constrain_equal_word topic (wov_word logged))
         else iret ())
       else iret ()) [0..<4]"

text \<open>The selectors are 0 and 1 by construction; the source asserts their number and their order.\<close>

definition log_selectors :: "int \<Rightarrow> unit instr" where
  "log_selectors topic_count =
     (let topic_selectors = map (\<lambda>i. if int i < topic_count then 1 else 0) [0..<4] in
      ithen (iassert (sum_list topic_selectors = topic_count))
        (iiter (\<lambda>i.
           ithen (constrain_bool (FQ (topic_selectors ! i)))
             (if i > 0 then constrain_bool (FQ (topic_selectors ! (i - 1) - topic_selectors ! i)) else iret ())) [0..<4]))"

definition log :: "instruction \<Rightarrow> unit instr" where
  "log I =
     ibind (opcode_lookup I True) (\<lambda>opc.
     ithen (range_lookup (opc - FQ Opcode_LOG0) 5)
    (ibind (stack_pop I) (\<lambda>mstart_word.
     ibind (word_to_fq mstart_word 8) (\<lambda>mstart.
     ibind (stack_pop I) (\<lambda>msize_word.
     ibind (word_to_fq msize_word 8) (\<lambda>msize.
     ibind (call_context_lookup I CC_TxId RW_Read None) (\<lambda>tx_id.
     ibind (call_context_lookup I CC_IsStatic RW_Read None) (\<lambda>is_static.
     ithen (constrain_equal (FQ 0) is_static)
    (ibind (call_context_lookup_word I CC_CalleeAddress RW_Read None) (\<lambda>contract_address_word.
     ibind (call_context_lookup I CC_IsPersistent RW_Read None) (\<lambda>persistent.
     ithen (if is_zero persistent = 0
            then ibind (tx_log_lookup_word I tx_id (ss_log_id (i_curr I) + 1) TL_Address 0) (\<lambda>logged.
              constrain_equal_word (wov_word contract_address_word) (wov_word logged))
            else iret ())
    (let topic_count = fq_n opc - Opcode_LOG0 in
     ithen (log_topics I tx_id persistent topic_count)
    (ithen (log_selectors topic_count)
    (ibind (if is_zero msize = 0 \<and> persistent = 1
            then copy_bytes I (ValueV (ss_call_id (i_curr I))) (copy_tag CD_Memory) (ValueV tx_id) (copy_tag CD_TxLog)
              mstart (mstart + msize) (FQ 0) msize (Some (ss_log_id (i_curr I) + 1))
            else iret (FQ 0, FQ 0)) (\<lambda>(copy_rwc_inc, _).
     ibind (memory_expansion_dynamic_length I mstart msize None) (\<lambda>(next_memory_size, memory_expansion_gas).
     let dynamic_gas = FQ GAS_COST_LOG + FQ GAS_COST_LOG * (opc - FQ Opcode_LOG0) + FQ GAS_COST_LOGDATA * msize
           + memory_expansion_gas in
     ibind current_rw_counter_offset (\<lambda>k.
     step_state_transition_in_same_context I opc
       ((within_call (Delta (FQ k + copy_rwc_inc)) (Delta (FQ 1)) (Delta (FQ 2 + opc - FQ Opcode_LOG0)))
         \<lparr>sc_dynamic_gas_cost := dynamic_gas, sc_memory_word_size := To next_memory_size,
          sc_log_id := Delta persistent\<rparr>))))))))))))))))))"

section \<open>CALLDATALOAD\<close>

record buffer_reader =
  bg_selectors :: "fq list"
  bg_bound_dist :: "fq list"
  bg_bound_dist_is_zero :: "fq list"

definition buffer_reader_gadget :: "nat \<Rightarrow> fq \<Rightarrow> fq \<Rightarrow> fq \<Rightarrow> buffer_reader instr" where
  "buffer_reader_gadget max_bytes addr_start addr_end bytes_left =
     (let selectors = continuous_selectors bytes_left max_bytes;
        bound_dist = map (\<lambda>i. FQ (max 0 (fq_n addr_end - fq_n addr_start - int i))) [0..<max_bytes];
        bound_dist_is_zero = map is_zero bound_dist in
      ibind (instr_min addr_end addr_start N_BYTES_MEMORY_ADDRESS) (\<lambda>m.
      ithen (constrain_equal (bound_dist ! 0) (addr_end - m))
     (ithen (iiter (\<lambda>i.
         let diff = bound_dist ! (i - 1) - bound_dist ! i in
         ibind (select (bound_dist_is_zero ! (i - 1)) 0 1) (\<lambda>expected.
         constrain_equal diff expected)) [1..<max_bytes])
      (iret \<lparr>bg_selectors = selectors, bg_bound_dist = bound_dist, bg_bound_dist_is_zero = bound_dist_is_zero\<rparr>))))"

definition buffer_reader_constrain_byte :: "buffer_reader \<Rightarrow> nat \<Rightarrow> fq \<Rightarrow> unit instr" where
  "buffer_reader_constrain_byte b idx v =
     ithen (constrain_zero (v * (1 - bg_selectors b ! idx)))
       (constrain_zero (v * bg_bound_dist_is_zero b ! idx))"

definition buffer_reader_num_bytes :: "buffer_reader \<Rightarrow> fq" where
  "buffer_reader_num_bytes b = sum_list (bg_selectors b)"

definition buffer_reader_has_data :: "buffer_reader \<Rightarrow> nat \<Rightarrow> fq" where
  "buffer_reader_has_data b idx = bg_selectors b ! idx"

definition buffer_reader_read_flag :: "buffer_reader \<Rightarrow> nat \<Rightarrow> fq" where
  "buffer_reader_read_flag b idx = bg_selectors b ! idx * (1 - bg_bound_dist_is_zero b ! idx)"

text \<open>The bytes are collected in the order of reading; \<open>bytes(..)\<close> refuses a number of 256 and more.\<close>

definition calldata_byte :: "instruction \<Rightarrow> buffer_reader \<Rightarrow> fq \<Rightarrow> fq \<Rightarrow> nat \<Rightarrow> int instr" where
  "calldata_byte I b src_id src_addr idx =
     (if buffer_reader_read_flag b idx = FQ 1 then
        ibind (if ss_is_root (i_curr I)
               then tx_calldata_lookup I src_id (src_addr + FQ (int idx))
               else memory_lookup I RW_Read (src_addr + FQ (int idx)) (Some src_id)) (\<lambda>v.
        ithen (buffer_reader_constrain_byte b idx v)
          (iret (fq_n v)))
      else iret 0)"

definition calldataload :: "instruction \<Rightarrow> unit instr" where
  "calldataload I =
     ibind (opcode_lookup I True) (\<lambda>opc.
     ithen (constrain_equal opc (FQ Opcode_CALLDATALOAD))
    (ibind (stack_pop I) (\<lambda>offset_word.
     ibind (word_to_fq offset_word 8) (\<lambda>offset.
     ibind (call_context_lookup I (if ss_is_root (i_curr I) then CC_TxId else CC_CallerId) RW_Read None) (\<lambda>src_id.
     ibind (call_context_lookup I CC_CallDataLength RW_Read None) (\<lambda>calldata_length.
     ibind (if ss_is_root (i_curr I) then iret (FQ 0) else call_context_lookup I CC_CallDataOffset RW_Read None) (\<lambda>calldata_offset.
     let src_addr = offset + calldata_offset; src_addr_end = calldata_length + calldata_offset in
     ibind (buffer_reader_gadget N_BYTES_WORD src_addr src_addr_end (FQ (int N_BYTES_WORD))) (\<lambda>b.
     ibind (imap (calldata_byte I b src_id src_addr) [0..<N_BYTES_WORD]) (\<lambda>calldata_word.
     ithen (ilift (raise_unless ValueError (list_all (\<lambda>x. x < 256) calldata_word)))
    (ibind (ilift (word_of_bytes calldata_word)) (\<lambda>w.
     ibind (stack_push I) (\<lambda>pushed.
     ithen (constrain_equal_word w pushed)
    (ibind current_rw_counter_offset (\<lambda>k.
     step_state_transition_in_same_context I opc
       (within_call (Delta (FQ k)) (Delta (FQ 1)) Same)))))))))))))))"

section \<open>The identity precompile\<close>

definition dataCopy :: "instruction \<Rightarrow> unit instr" where
  "dataCopy I =
     ibind (call_context_lookup_word I CC_CalleeAddress RW_Read None) (\<lambda>address_word.
     ibind (word_to_address (wov_word address_word)) (\<lambda>address.
     ibind (fixed_lookup F_PrecompileInfo (FQ (es_int (ss_execution_state (i_curr I)))) address (FQ IdentityBaseGas)) (\<lambda>_.
     ibind (call_context_lookup I CC_CallerId RW_Read None) (\<lambda>caller_id.
     ibind (call_context_lookup I CC_CallDataOffset RW_Read None) (\<lambda>call_data_offset.
     ibind (call_context_lookup I CC_CallDataLength RW_Read None) (\<lambda>call_data_length.
     ibind (call_context_lookup I CC_ReturnDataOffset RW_Read None) (\<lambda>return_data_offset.
     ibind (call_context_lookup I CC_ReturnDataLength RW_Read None) (\<lambda>return_data_length.
     let size = call_data_length in
     ibind (memory_copier_gas_cost call_data_length (FQ 0) IdentityPerWordGas) (\<lambda>copier_gas_cost.
     let gas_cost = FQ IdentityBaseGas + copier_gas_cost in
     ibind (copy_bytes I (ValueV caller_id) (copy_tag CD_Memory) (ValueV caller_id) (copy_tag CD_Memory)
       call_data_offset (call_data_offset + size) return_data_offset (return_data_offset + return_data_length) None)
       (\<lambda>(copy_rwc_inc, _).
     ibind (next_rw_counter I) (\<lambda>rw_counter.
     ibind (copy_lookup I \<lparr>qc_src_id = ValueV caller_id, qc_src_tag = copy_tag CD_Memory,
       qc_dst_id = ValueV (ss_call_id (i_curr I)), qc_dst_tag = copy_tag CD_Memory, qc_src_addr = call_data_offset,
       qc_src_addr_end = call_data_offset + size, qc_dst_addr = FQ 0, qc_length = return_data_length,
       qc_rw_counter = rw_counter + copy_rwc_inc\<rparr> None) (\<lambda>_.
     ibind (\<lambda>s. let s' = s\<lparr>rw_counter_offset := rw_counter_offset s + 4 * fq_n size\<rparr> in
       Inr (rw_counter_offset s', s')) (\<lambda>k.
     step_state_transition_to_restored_context I k (FQ 0) size (ss_gas_left (i_curr I) - gas_cost) (Some caller_id))))))))))))))"

end
