(* ===== verification/Call_Gadget.thy ===== *)
theory Call_Gadget
  imports Exec_Copy Hash
begin

text \<open>
  The class \<open>CallGadget\<close> of \<^verbatim>\<open>src/zkevm_specs/evm_circuit/util/call_gadget.py\<close>, which reads the
  operands of the four calls from the stack and checks the result, and the class
  \<open>PrecompileGadget\<close> of \<^verbatim>\<open>evm_circuit/util/precompile_gadget.py\<close>. The constructor of each is a
  definition that returns the object or raises.
\<close>

record call_gadget =
  cg_gas :: fq
  cg_callee_address :: fq
  cg_value :: word256
  cg_cd_offset :: fq
  cg_cd_length :: fq
  cg_rd_offset :: fq
  cg_rd_length :: fq
  cg_is_success :: fq
  cg_is_u64_gas :: fq
  cg_next_memory_size :: fq
  cg_memory_expansion_gas_cost :: fq
  cg_has_value :: fq
  cg_callee_code_hash :: word256
  cg_is_empty_code_hash :: fq
  cg_callee_not_exists :: fq

text \<open>The eight stack rows: seven operands, six without a value, and the result.\<close>

record call_operands =
  co_gas :: word256
  co_callee_address :: word256
  co_value :: word256
  co_cd_offset :: word256
  co_cd_length :: word256
  co_rd_offset :: word256
  co_rd_length :: word256
  co_result :: word256

definition call_gadget_operands :: "instruction \<Rightarrow> fq \<Rightarrow> fq \<Rightarrow> call_operands instr" where
  "call_gadget_operands I is_call is_callcode =
     ibind (stack_pop I) (\<lambda>gas.
     ibind (stack_pop I) (\<lambda>callee_address.
     ibind (if is_call + is_callcode = FQ 1 then stack_pop I else ilift (word_of_int256 0)) (\<lambda>value.
     ibind (stack_pop I) (\<lambda>cd_offset.
     ibind (stack_pop I) (\<lambda>cd_length.
     ibind (stack_pop I) (\<lambda>rd_offset.
     ibind (stack_pop I) (\<lambda>rd_length.
     ibind (stack_push I) (\<lambda>result.
     iret \<lparr>co_gas = gas, co_callee_address = callee_address, co_value = value, co_cd_offset = cd_offset,
       co_cd_length = cd_length, co_rd_offset = rd_offset, co_rd_length = rd_length, co_result = result\<rparr>))))))))"

definition call_gadget_check_result :: "fq \<Rightarrow> word256 \<Rightarrow> fq instr" where
  "call_gadget_check_result is_success_call result =
     (let is_success = lo result in
      ibind (ilift (from_lo is_success)) (\<lambda>w.
      ithen (constrain_equal_word w result)
     (ithen (constrain_bool is_success)
     (ithen (if is_success_call = FQ 0 then constrain_zero is_success else iret ())
      (iret is_success)))))"

definition new_call_gadget :: "instruction \<Rightarrow> fq \<Rightarrow> fq \<Rightarrow> fq \<Rightarrow> fq \<Rightarrow> fq \<Rightarrow> call_gadget instr" where
  "new_call_gadget I is_success_call is_call is_callcode is_delegatecall is_staticcall =
     ithen (constrain_equal (is_call + is_callcode + is_delegatecall + is_staticcall) (FQ 1))
    (ibind (call_gadget_operands I is_call is_callcode) (\<lambda>ops.
     ibind (call_gadget_check_result is_success_call (co_result ops)) (\<lambda>is_success.
     ibind (word_to_fq (co_gas ops) N_BYTES_GAS) (\<lambda>gas.
     ibind (ilift (to_le_bytes (co_gas ops))) (\<lambda>gas_bytes.
     let is_u64_gas = is_zero (sum_values (drop N_BYTES_GAS gas_bytes));
       has_value = (if is_delegatecall + is_staticcall = FQ 1 then FQ 0 else 1 - is_zero_word (co_value ops)) in
     ithen (if is_delegatecall + is_staticcall = FQ 1 then constrain_zero_word (co_value ops) else iret ())
    (ibind (word_to_fq (co_callee_address ops) N_BYTES_ACCOUNT_ADDRESS) (\<lambda>callee_address.
     ibind (memory_offset_and_length (co_cd_offset ops) (co_cd_length ops)) (\<lambda>(cd_offset, cd_length).
     ibind (memory_offset_and_length (co_rd_offset ops) (co_rd_length ops)) (\<lambda>(rd_offset, rd_length).
     ibind (memory_expansion_dynamic_length I cd_offset cd_length (Some (rd_offset, rd_length)))
       (\<lambda>(next_memory_size, memory_expansion_gas_cost).
     ibind (account_read_word I callee_address AF_CodeHash) (\<lambda>code_hash.
     ibind (ilift (word_of_int256 (EMPTY_CODE_HASH (ext_keccak (i_ext I))))) (\<lambda>empty_code_hash.
     iret \<lparr>cg_gas = gas, cg_callee_address = callee_address, cg_value = co_value ops, cg_cd_offset = cd_offset,
       cg_cd_length = cd_length, cg_rd_offset = rd_offset, cg_rd_length = rd_length, cg_is_success = is_success,
       cg_is_u64_gas = is_u64_gas, cg_next_memory_size = next_memory_size,
       cg_memory_expansion_gas_cost = memory_expansion_gas_cost, cg_has_value = has_value,
       cg_callee_code_hash = wov_word code_hash,
       cg_is_empty_code_hash = is_equal_word (wov_word code_hash) empty_code_hash,
       cg_callee_not_exists = is_zero_word (wov_word code_hash)\<rparr>))))))))))))"

definition call_gadget_gas_cost :: "call_gadget \<Rightarrow> fq \<Rightarrow> fq \<Rightarrow> fq instr" where
  "call_gadget_gas_cost c is_warm_access is_call =
     ibind (select is_warm_access (FQ GAS_COST_WARM_ACCESS) (FQ GAS_COST_ACCOUNT_COLD_ACCESS)) (\<lambda>access_cost.
     iret (access_cost
       + cg_has_value c * (FQ GAS_COST_CALL_WITH_VALUE
           + is_call * cg_is_success c * cg_callee_not_exists c * FQ GAS_COST_NEW_ACCOUNT)
       + cg_memory_expansion_gas_cost c))"

definition precompile_gadget :: "instruction \<Rightarrow> fq \<Rightarrow> fq \<Rightarrow> fq \<Rightarrow> unit instr" where
  "precompile_gadget I callee_addr precompile_return_len calldata_len =
     ithen (constrain_equal (precompile callee_addr) 1)
    (ibind (ilift (to_precompile (fq_n callee_addr))) (\<lambda>p.
     if p = PC_DATACOPY then constrain_equal precompile_return_len calldata_len
     else if p = PC_ECRECOVER then
       let is_128 = is_equal precompile_return_len (FQ 32); is_none = is_equal precompile_return_len 0 in
       constrain_equal (is_128 + is_none) 1
     else if p = PC_BN254ADD then constrain_equal calldata_len (FQ 128)
     else if p = PC_BN254SCALARMUL then constrain_equal calldata_len (FQ 96)
     else if p = PC_BN254PAIRING then constrain_equal (FQ (fq_n calldata_len mod 192)) 0
     else iret ()))"

end
