(* ===== verification/Exec_Call.thy ===== *)
theory Exec_Call
  imports Call_Gadget
begin

text \<open>
  The gadget of CALL, CALLCODE, DELEGATECALL and STATICCALL
  (\<^verbatim>\<open>src/zkevm_specs/evm_circuit/execution/callop.py\<close>), in the parts of the source: reversion of
  the callee, the checks before the call, the gas, and the three ways out, no call at all, a
  precompiled contract, and a callee with code.
\<close>

section \<open>Values that are not typed by the source\<close>

text \<open>
  \<open>aux_data[i]\<close>: an object that is no sequence cannot be indexed. A number there is an \<open>int\<close> or a
  field object, and both work in what follows; a word or a field element is used by its attributes.
\<close>

definition aux_nth :: "aux_data \<Rightarrow> nat \<Rightarrow> aux_data result" where
  "aux_nth a i =
     (case a of AuxSeq xs \<Rightarrow> if i < length xs then Inr (xs ! i) else Inl IndexError | _ \<Rightarrow> Inl TypeError)"

definition aux_number :: "aux_data \<Rightarrow> int result" where
  "aux_number a = (case a of AuxInt n \<Rightarrow> Inr n | AuxFQ x \<Rightarrow> Inr (fq_n x) | _ \<Rightarrow> Inl TypeError)"

definition aux_fq :: "aux_data \<Rightarrow> fq result" where
  "aux_fq a = (case a of AuxFQ x \<Rightarrow> Inr x | _ \<Rightarrow> Inl AttributeError)"

definition aux_word :: "aux_data \<Rightarrow> word256 result" where
  "aux_word a = (case a of AuxWord w \<Rightarrow> Inr w | _ \<Rightarrow> Inl AttributeError)"

text \<open>A list of call context rows to write or read, each with the value it must hold.\<close>

definition call_context_equal ::
  "instruction \<Rightarrow> rw \<Rightarrow> fq option \<Rightarrow> (call_context_field_tag \<times> word256) list \<Rightarrow> unit instr" where
  "call_context_equal I rw cid expectations =
     iiter (\<lambda>(field_tag, expected).
       ibind (call_context_lookup_word I field_tag rw cid) (\<lambda>v.
       constrain_equal_word (wov_word v) expected)) expectations"

definition call_context_write_equal ::
  "instruction \<Rightarrow> (call_context_field_tag \<times> fq) list \<Rightarrow> unit instr" where
  "call_context_write_equal I expectations =
     iiter (\<lambda>(field_tag, expected).
       ibind (call_context_lookup I field_tag RW_Write None) (\<lambda>v.
       constrain_equal v expected)) expectations"

text \<open>\<open>WordOrValue\<close> of a field element.\<close>

abbreviation value_word :: "fq \<Rightarrow> word256" where
  "value_word x \<equiv> WordLH x 0"

section \<open>Callee\<close>

record call_frame =
  cl_callee_call_id :: fq
  cl_tx_id :: fq
  cl_is_static :: fq
  cl_depth :: fq
  cl_is_call :: fq
  cl_is_callcode :: fq
  cl_is_delegatecall :: fq
  cl_parent_call_value :: word256
  cl_caller_address :: fq
  cl_caller_address_word :: word256
  cl_callee_address :: fq
  cl_callee_address_word :: word256

text \<open>The rows read before the gadget of the operands.\<close>

definition callop_parent :: "instruction \<Rightarrow> fq \<Rightarrow> (word256 \<times> word256) instr" where
  "callop_parent I is_delegatecall =
     (if is_delegatecall = 1 then
        ibind (call_context_lookup_word I CC_CallerAddress RW_Read None) (\<lambda>parent_caller_address_word.
        ibind (call_context_lookup_word I CC_Value RW_Read None) (\<lambda>parent_call_value.
        iret (wov_word parent_caller_address_word, wov_word parent_call_value)))
      else ibind (ilift (word_of_int256 0)) (\<lambda>zero. iret (zero, zero)))"

definition callop_frame ::
  "instruction \<Rightarrow> fq \<Rightarrow> (call_gadget \<times> call_frame \<times> reversion_info) instr" where
  "callop_frame I opc =
     (let flags = multiple_select opc (map FQ [Opcode_CALL, Opcode_CALLCODE, Opcode_DELEGATECALL, Opcode_STATICCALL]);
        is_call = flags ! 0; is_callcode = flags ! 1; is_delegatecall = flags ! 2; is_staticcall = flags ! 3 in
      ithen (responsible_opcode_lookup I opc (FQ 0))
     (let callee_call_id = ss_rw_counter (i_curr I) in
      ibind (call_context_lookup I CC_TxId RW_Read None) (\<lambda>tx_id.
      ibind (instr_reversion_info I None) (\<lambda>rinfo.
      ibind (call_context_lookup_word I CC_CalleeAddress RW_Read None) (\<lambda>ctx_caller_address_word.
      ibind (word_to_address (wov_word ctx_caller_address_word)) (\<lambda>ctx_caller_address.
      ibind (call_context_lookup I CC_IsStatic RW_Read None) (\<lambda>is_static.
      ibind (call_context_lookup I CC_Depth RW_Read None) (\<lambda>depth.
      ibind (callop_parent I is_delegatecall) (\<lambda>(parent_caller_address_word, parent_call_value).
      ibind (new_call_gadget I (FQ 1) is_call is_callcode is_delegatecall is_staticcall) (\<lambda>call.
      ibind (select (is_callcode + is_delegatecall) ctx_caller_address (cg_callee_address call)) (\<lambda>callee_address.
      ibind (address_to_word callee_address) (\<lambda>callee_address_word.
      ibind (select is_delegatecall parent_caller_address_word (wov_word ctx_caller_address_word)) (\<lambda>caller_address_word.
      ibind (word_to_address caller_address_word) (\<lambda>caller_address.
      iret (call, \<lparr>cl_callee_call_id = callee_call_id, cl_tx_id = tx_id, cl_is_static = is_static, cl_depth = depth,
        cl_is_call = is_call, cl_is_callcode = is_callcode, cl_is_delegatecall = is_delegatecall,
        cl_parent_call_value = parent_call_value, cl_caller_address = caller_address,
        cl_caller_address_word = caller_address_word, cl_callee_address = callee_address,
        cl_callee_address_word = callee_address_word\<rparr>, rinfo)))))))))))))))"

section \<open>Reversion and the checks before the call\<close>

definition callop_reversion ::
  "instruction \<Rightarrow> call_gadget \<Rightarrow> call_frame \<Rightarrow> reversion_info \<Rightarrow> reversion_info instr" where
  "callop_reversion I call f rinfo =
     ibind (instr_reversion_info I (Some (cl_callee_call_id f))) (\<lambda>callee_rinfo.
     ithen (constrain_equal (is_persistent callee_rinfo) (is_persistent rinfo * cg_is_success call))
    (ithen (if cg_is_success call = FQ 1 \<and> is_persistent rinfo = FQ 0
            then constrain_equal (rw_counter_end_of_reversion callee_rinfo) (fst (rw_counter_of_reversion rinfo))
            else iret ())
       (iret callee_rinfo)))"

text \<open>Stack depth and balance; the result says whether both are sufficient.\<close>

definition callop_precheck ::
  "instruction \<Rightarrow> call_gadget \<Rightarrow> call_frame \<Rightarrow> reversion_info \<Rightarrow> bool instr" where
  "callop_precheck I call f callee_rinfo =
     ibind (if cl_is_call f = FQ 1 \<or> cl_is_callcode f = FQ 1
            then ibind (account_read_word I (cl_caller_address f) AF_Balance) (\<lambda>caller_balance.
              ibind (compare_word (wov_word caller_balance) (cg_value call)) (\<lambda>(insufficient_balance, _).
              iret insufficient_balance))
            else iret (FQ 0)) (\<lambda>insufficient_balance.
     ibind (compare (cl_depth f) (FQ 1025) N_BYTES_STACK) (\<lambda>(is_depth_ok, _).
     let is_precheck_ok = (is_depth_ok = FQ 1 \<and> insufficient_balance = FQ 0) in
     ithen (if \<not> is_precheck_ok then constrain_zero (cg_is_success call) else iret ())
    (ithen (if cl_is_call f = FQ 1 \<and> is_precheck_ok
            then ibind (transfer I (cl_caller_address f) (cl_callee_address f) (cg_value call) (Some callee_rinfo))
              (\<lambda>_. iret ())
            else iret ())
    (ithen (if cl_is_callcode f = FQ 1 \<and> cg_is_success call = FQ 1
            then constrain_zero insufficient_balance else iret ())
       (iret is_precheck_ok)))))"

section \<open>Gas\<close>

definition callop_gas :: "instruction \<Rightarrow> call_gadget \<Rightarrow> fq \<Rightarrow> fq \<Rightarrow> (fq \<times> fq) instr" where
  "callop_gas I call is_warm_access is_call =
     ibind (call_gadget_gas_cost call is_warm_access is_call) (\<lambda>gas_cost.
     let gas_available = ss_gas_left (i_curr I) - gas_cost in
     ibind (constant_divmod gas_available (FQ 64) N_BYTES_GAS) (\<lambda>(one_64th_gas, _).
     let all_but_one_64th_gas = gas_available - one_64th_gas in
     ibind (instr_min all_but_one_64th_gas (cg_gas call) N_BYTES_GAS) (\<lambda>capped_gas.
     ibind (select (cg_is_u64_gas call) capped_gas all_but_one_64th_gas) (\<lambda>callee_gas_left.
     iret (gas_cost, callee_gas_left)))))"

section \<open>The three ways out\<close>

definition callop_no_call :: "instruction \<Rightarrow> call_gadget \<Rightarrow> fq \<Rightarrow> fq \<Rightarrow> unit instr" where
  "callop_no_call I call stack_pointer_delta gas_cost =
     ithen (call_context_write_equal I
       [(CC_LastCalleeId, FQ 0), (CC_LastCalleeReturnDataOffset, FQ 0), (CC_LastCalleeReturnDataLength, FQ 0)])
    (ibind current_rw_counter_offset (\<lambda>k.
     constrain_step_state_transition I
       [(K_rw_counter, Delta (FQ k)), (K_program_counter, Delta (FQ 1)),
        (K_stack_pointer, Delta stack_pointer_delta),
        (K_gas_left, Delta (cg_has_value call * FQ GAS_STIPEND_CALL_WITH_VALUE - gas_cost)),
        (K_memory_word_size, To (cg_next_memory_size call)),
        (K_reversible_write_counter, Delta (FQ 3)),
        (K_call_id, Same), (K_is_root, Same), (K_is_create, Same), (K_code_hash, SameWord)]))"

text \<open>The caller's state that both kinds of call save.\<close>

definition saved_caller_fields ::
  "instruction \<Rightarrow> call_gadget \<Rightarrow> fq \<Rightarrow> fq \<Rightarrow> fq \<Rightarrow> (call_context_field_tag \<times> fq) list" where
  "saved_caller_fields I call stack_pointer_delta gas_cost callee_gas_left =
     [(CC_ProgramCounter, ss_program_counter (i_curr I) + 1),
      (CC_StackPointer, ss_stack_pointer (i_curr I) + stack_pointer_delta),
      (CC_GasLeft, ss_gas_left (i_curr I) - gas_cost - callee_gas_left),
      (CC_MemorySize, cg_next_memory_size call),
      (CC_ReversibleWriteCounter, ss_reversible_write_counter (i_curr I) + 1)]"

definition callop_copy ::
  "instruction \<Rightarrow> bool \<Rightarrow> fq \<Rightarrow> fq \<Rightarrow> copy_data_type_tag \<Rightarrow> fq \<Rightarrow> fq \<Rightarrow> fq \<Rightarrow> fq \<Rightarrow> fq \<Rightarrow> fq instr" where
  "callop_copy I needed src_id dst_id dst_type src_addr src_addr_end dst_addr len rw_counter_inc =
     (if needed then
        ibind (copy_lookup I \<lparr>qc_src_id = ValueV src_id, qc_src_tag = copy_tag CD_Memory,
          qc_dst_id = ValueV dst_id, qc_dst_tag = copy_tag dst_type, qc_src_addr = src_addr,
          qc_src_addr_end = src_addr_end, qc_dst_addr = dst_addr, qc_length = len,
          qc_rw_counter = ss_rw_counter (i_curr I) + rw_counter_inc\<rparr> None) (\<lambda>(rwc_inc, _).
        iret (rw_counter_inc + rwc_inc))
      else iret rw_counter_inc)"

definition callop_precompile ::
  "instruction \<Rightarrow> call_gadget \<Rightarrow> call_frame \<Rightarrow> fq \<Rightarrow> fq \<Rightarrow> fq \<Rightarrow> fq \<Rightarrow> fq \<Rightarrow> unit instr" where
  "callop_precompile I call f is_warm_access no_callee_code stack_pointer_delta gas_cost callee_gas_left =
     (let curr = i_curr I; callee_call_id = cl_callee_call_id f in
      ibind (ilift (rbind (aux_nth (ss_aux_data curr) 0) aux_number)) (\<lambda>precompile_input_len.
      ibind (ilift (rbind (aux_nth (ss_aux_data curr) 1) aux_number)) (\<lambda>precompile_return_length.
      let min_rd_copy_size = min precompile_return_length (fq_n (cg_rd_length call));
        returns = (cg_is_success call = FQ 1 \<and> precompile_return_length \<noteq> 0) in
      ithen (constrain_equal no_callee_code (FQ 1))
     (ithen (constrain_equal is_warm_access (FQ 1))
     (ithen (call_context_equal I RW_Write (Some callee_call_id)
        [(CC_IsSuccess, value_word (cg_is_success call)), (CC_CalleeAddress, cl_callee_address_word f),
         (CC_CallerId, value_word (ss_call_id curr)), (CC_CallDataOffset, value_word (cg_cd_offset call)),
         (CC_CallDataLength, value_word (cg_cd_length call)), (CC_ReturnDataOffset, value_word (cg_rd_offset call)),
         (CC_ReturnDataLength, value_word (cg_rd_length call))])
     (ithen (call_context_write_equal I
        (saved_caller_fields I call stack_pointer_delta gas_cost callee_gas_left @
         [(CC_LastCalleeId, callee_call_id), (CC_LastCalleeReturnDataOffset, FQ 0),
          (CC_LastCalleeReturnDataLength, FQ precompile_return_length)]))
     (ibind current_rw_counter_offset (\<lambda>k.
      ibind (callop_copy I (precompile_input_len \<noteq> 0) (ss_call_id curr) callee_call_id CD_RlcAcc
        (cg_cd_offset call) (cg_cd_offset call + FQ precompile_input_len) (FQ 0) (FQ precompile_input_len) (FQ k))
        (\<lambda>inc1.
      ibind (callop_copy I returns callee_call_id callee_call_id CD_RlcAcc
        (FQ 0) (FQ precompile_return_length) (FQ 0) (FQ precompile_return_length) inc1) (\<lambda>inc2.
      ibind (callop_copy I returns callee_call_id (ss_call_id curr) CD_Memory
        (FQ 0) (FQ min_rd_copy_size) (cg_rd_offset call) (FQ min_rd_copy_size) inc2) (\<lambda>rw_counter_inc.
      ibind (constant_divmod (FQ (min_rd_copy_size + 31)) (FQ 32) N_BYTES_MEMORY_WORD_SIZE)
        (\<lambda>(precompile_memory_word_size, _).
      ibind (ilift (word_of_int256 (EMPTY_CODE_HASH (ext_keccak (i_ext I))))) (\<lambda>empty_code_hash.
      ithen (constrain_step_state_transition I
        [(K_rw_counter, Delta rw_counter_inc), (K_call_id, To callee_call_id), (K_is_root, To (FQ 0)),
         (K_is_create, To (FQ 0)), (K_code_hash, ToWord empty_code_hash),
         (K_gas_left, To (callee_gas_left + cg_has_value call * FQ GAS_STIPEND_CALL_WITH_VALUE)),
         (K_reversible_write_counter, To (FQ 2)), (K_program_counter, Delta (FQ 1)), (K_stack_pointer, Same),
         (K_memory_word_size, To precompile_memory_word_size)])
        (precompile_gadget I (cg_callee_address call) (FQ precompile_return_length) (cg_cd_length call)))))))))))))))"

definition callop_callee ::
  "instruction \<Rightarrow> call_gadget \<Rightarrow> call_frame \<Rightarrow> fq \<Rightarrow> fq \<Rightarrow> fq \<Rightarrow> unit instr" where
  "callop_callee I call f stack_pointer_delta gas_cost callee_gas_left =
     ithen (call_context_write_equal I
       (saved_caller_fields I call stack_pointer_delta gas_cost callee_gas_left))
    (ibind (select (cl_is_delegatecall f) (cl_parent_call_value f) (cg_value call)) (\<lambda>call_value.
     ithen (call_context_equal I RW_Read (Some (cl_callee_call_id f))
       [(CC_CallerId, value_word (ss_call_id (i_curr I))), (CC_TxId, value_word (cl_tx_id f)),
        (CC_Depth, value_word (cl_depth f + 1)), (CC_CallerAddress, cl_caller_address_word f),
        (CC_CalleeAddress, cl_callee_address_word f), (CC_CallDataOffset, value_word (cg_cd_offset call)),
        (CC_CallDataLength, value_word (cg_cd_length call)), (CC_ReturnDataOffset, value_word (cg_rd_offset call)),
        (CC_ReturnDataLength, value_word (cg_rd_length call)), (CC_Value, call_value),
        (CC_IsSuccess, value_word (cg_is_success call)), (CC_IsStatic, value_word (cl_is_static f)),
        (CC_LastCalleeId, value_word (FQ 0)), (CC_LastCalleeReturnDataOffset, value_word (FQ 0)),
        (CC_LastCalleeReturnDataLength, value_word (FQ 0)), (CC_IsRoot, value_word (FQ 0)),
        (CC_IsCreate, value_word (FQ 0)), (CC_CodeHash, cg_callee_code_hash call)])
    (ibind current_rw_counter_offset (\<lambda>k.
     step_state_transition_to_new_context I (Delta (FQ k)) (To (cl_callee_call_id f)) (To (FQ 0)) (To (FQ 0))
       (ToWord (cg_callee_code_hash call))
       (To (callee_gas_left + cg_has_value call * FQ GAS_STIPEND_CALL_WITH_VALUE)) (To (FQ 2)) Same))))"

section \<open>The gadget\<close>

definition callop :: "instruction \<Rightarrow> unit instr" where
  "callop I =
     ibind (opcode_lookup I True) (\<lambda>opc.
     ibind (callop_frame I opc) (\<lambda>(call, f, rinfo).
     ibind (add_account_to_access_list I (cl_tx_id f) (cg_callee_address call) (Some rinfo))
       (\<lambda>(is_warm_access, rinfo').
     ithen (constrain_zero (cg_has_value call * cl_is_static f))
    (ibind (callop_reversion I call f (case rinfo' of Some r \<Rightarrow> r | None \<Rightarrow> rinfo)) (\<lambda>callee_rinfo.
     ibind (callop_precheck I call f callee_rinfo) (\<lambda>is_precheck_ok.
     ibind (callop_gas I call is_warm_access (cl_is_call f)) (\<lambda>(gas_cost, callee_gas_left).
     let is_precompile = precompile (cg_callee_address call);
       stack_pointer_delta = FQ 5 + cl_is_call f + cl_is_callcode f;
       no_callee_code = cg_is_empty_code_hash call + cg_callee_not_exists call in
     ithen (constrain_equal is_precompile
       (fq_of_bool (ss_execution_state (i_next I) \<in> set precompile_execution_states)))
    (if \<not> is_precheck_ok \<or> no_callee_code = FQ 1 \<and> is_precompile = FQ 0
     then callop_no_call I call stack_pointer_delta gas_cost
     else if is_precompile = FQ 1
     then callop_precompile I call f is_warm_access no_callee_code stack_pointer_delta gas_cost callee_gas_left
     else callop_callee I call f stack_pointer_delta gas_cost callee_gas_left))))))))"

end
