(* ===== verification/Exec_Create.thy ===== *)
theory Exec_Create
  imports Exec_Call
begin

text \<open>
  The gadgets of CREATE and CREATE2 and of RETURN and REVERT, files create.py and return_revert.py
  of \<^verbatim>\<open>src/zkevm_specs/evm_circuit/execution\<close>.
\<close>

definition add_rw_counter_offset :: "int \<Rightarrow> unit instr" where
  "add_rw_counter_offset n = (\<lambda>s. Inr ((), s\<lparr>rw_counter_offset := rw_counter_offset s + n\<rparr>))"

section \<open>CREATE and CREATE2: what is read before the checks\<close>

record create_frame =
  ct_callee_call_id :: fq
  ct_is_create :: fq
  ct_is_create2 :: fq
  ct_value_word :: word256
  ct_salt_word :: word256
  ct_return_word :: word256
  ct_offset :: fq
  ct_size :: fq
  ct_depth :: fq
  ct_tx_id :: fq
  ct_caller_address_word :: word256
  ct_caller_address :: fq
  ct_nonce :: fq
  ct_nonce_prev :: fq
  ct_balance :: fq
  ct_is_success :: fq
  ct_is_persistent :: fq

text \<open>
  The source computes \<open>is_zero\<close> of \<open>is_static\<close> and drops the result; the write of the caller's
  nonce is looked up, and its two values are not related.
\<close>

definition create_read :: "instruction \<Rightarrow> fq \<Rightarrow> create_frame instr" where
  "create_read I opc =
     (let (is_create, is_create2) = pair_select opc (FQ Opcode_CREATE) (FQ Opcode_CREATE2) in
      ithen (responsible_opcode_lookup I opc (FQ 0))
     (let callee_call_id = ss_rw_counter (i_curr I) in
      ibind (stack_pop I) (\<lambda>value_word.
      ibind (stack_pop I) (\<lambda>offset_word.
      ibind (stack_pop I) (\<lambda>size_word.
      ibind (if is_create2 = FQ 1 then stack_pop I else ilift (word_of_int256 0)) (\<lambda>salt_word.
      ibind (stack_push I) (\<lambda>return_contract_address_word.
      ibind (word_to_fq offset_word N_BYTES_MEMORY_ADDRESS) (\<lambda>offset.
      ibind (word_to_fq size_word N_BYTES_MEMORY_ADDRESS) (\<lambda>size.
      ibind (call_context_lookup I CC_Depth RW_Read None) (\<lambda>depth.
      ibind (call_context_lookup I CC_TxId RW_Read None) (\<lambda>tx_id.
      ibind (call_context_lookup_word I CC_CallerAddress RW_Read None) (\<lambda>caller_address_word.
      ibind (word_to_address (wov_word caller_address_word)) (\<lambda>caller_address.
      ibind (account_write I caller_address AF_Nonce None) (\<lambda>((nonce, nonce_prev), _).
      ibind (account_read I caller_address AF_Balance) (\<lambda>balance.
      ibind (call_context_lookup I CC_IsSuccess RW_Read None) (\<lambda>is_success.
      ibind (call_context_lookup I CC_IsStatic RW_Read None) (\<lambda>is_static.
      ibind (instr_reversion_info I None) (\<lambda>rinfo.
      let _ = is_zero is_static in
      iret \<lparr>ct_callee_call_id = callee_call_id, ct_is_create = is_create, ct_is_create2 = is_create2,
        ct_value_word = value_word, ct_salt_word = salt_word, ct_return_word = return_contract_address_word,
        ct_offset = offset, ct_size = size, ct_depth = depth, ct_tx_id = tx_id,
        ct_caller_address_word = wov_word caller_address_word, ct_caller_address = caller_address,
        ct_nonce = nonce, ct_nonce_prev = nonce_prev, ct_balance = balance, ct_is_success = is_success,
        ct_is_persistent = is_persistent rinfo\<rparr>))))))))))))))))))"

section \<open>Gas\<close>

record create_costs =
  cc_next_memory_size :: fq
  cc_gas_cost :: fq
  cc_callee_gas_left :: fq

definition create_gas :: "instruction \<Rightarrow> create_frame \<Rightarrow> create_costs instr" where
  "create_gas I f =
     ibind (memory_expansion I (ct_offset f) (ct_size f)) (\<lambda>(next_memory_size, memory_expansion_gas_cost).
     ibind (constant_divmod (ct_size f + FQ 31) (FQ 32) N_BYTES_MEMORY_WORD_SIZE) (\<lambda>(word_len, _).
     let gas_left = ss_gas_left (i_curr I);
       gas_cost = FQ GAS_COST_CREATE + memory_expansion_gas_cost + word_len * FQ GAS_COST_INITCODE_WORD;
       gas_cost = (if ct_is_create2 f = FQ 1 then gas_cost + FQ GAS_COST_COPY_SHA3 * word_len else gas_cost);
       gas_available = gas_left - gas_cost in
     ibind (constant_divmod gas_available (FQ 64) N_BYTES_GAS) (\<lambda>(one_64th_gas, _).
     let all_but_one_64th_gas = gas_available - one_64th_gas in
     ibind (ilift (to_le_bytes (value_word gas_left))) (\<lambda>gas_bytes.
     let is_u64_gas = is_zero (sum_values (drop N_BYTES_GAS gas_bytes)) in
     ibind (instr_min all_but_one_64th_gas gas_left N_BYTES_GAS) (\<lambda>capped_gas.
     ibind (select is_u64_gas capped_gas all_but_one_64th_gas) (\<lambda>callee_gas_left.
     iret \<lparr>cc_next_memory_size = next_memory_size, cc_gas_cost = gas_cost,
       cc_callee_gas_left = callee_gas_left\<rparr>))))))"

definition create_precheck :: "instruction \<Rightarrow> create_frame \<Rightarrow> bool instr" where
  "create_precheck I f =
     ibind (compare (ct_depth f) (FQ 1025) N_BYTES_STACK) (\<lambda>(is_depth_ok, _).
     ibind (ilift (word_of_int256 (fq_n (ct_balance f)))) (\<lambda>balance_word.
     ibind (compare_word balance_word (ct_value_word f)) (\<lambda>(is_insufficient_balance, _).
     ibind (compare (ct_nonce_prev f) (FQ MAX_U64) N_BYTES_U64) (\<lambda>(is_nonce_in_range, _).
     iret (is_depth_ok = FQ 1 \<and> is_insufficient_balance = FQ 0 \<and> is_nonce_in_range = FQ 1)))))"

section \<open>A new contract\<close>

text \<open>The hash of the init code; \<open>aux_data\<close> is used by its halves, so anything but a word raises.\<close>

definition create_code_hash :: "instruction \<Rightarrow> create_frame \<Rightarrow> word256 result" where
  "create_code_hash I f =
     (if ct_size f \<noteq> FQ 0 then aux_word (ss_aux_data (i_curr I))
      else word_of_int256 (EMPTY_CODE_HASH (ext_keccak (i_ext I))))"

definition create_init_call ::
  "instruction \<Rightarrow> create_frame \<Rightarrow> create_costs \<Rightarrow> word256 \<Rightarrow> unit instr" where
  "create_init_call I f c contract_address_word =
     (let curr = i_curr I; next_code_hash = ss_code_hash (i_next I); stack_pointer_delta = FQ 2 + ct_is_create2 f in
      ibind (copy_bytes I (ValueV (ss_call_id curr)) (copy_tag CD_Memory) (WordV next_code_hash)
        (copy_tag CD_Bytecode) (ct_offset f) (ct_offset f + ct_size f) (FQ 0) (ct_size f) None) (\<lambda>(copy_rwc_inc, _).
      ithen (add_rw_counter_offset (fq_n copy_rwc_inc))
     (ibind (bytecode_length I next_code_hash) (\<lambda>code_size.
      ithen (constrain_equal code_size (ct_size f))
     (ithen (call_context_write_equal I
        [(CC_ProgramCounter, ss_program_counter curr + 1),
         (CC_StackPointer, ss_stack_pointer curr + stack_pointer_delta),
         (CC_GasLeft, ss_gas_left curr - cc_gas_cost c - cc_callee_gas_left c),
         (CC_MemorySize, cc_next_memory_size c),
         (CC_ReversibleWriteCounter, ss_reversible_write_counter curr + 1)])
     (ithen (call_context_equal I RW_Read (Some (ct_callee_call_id f))
        [(CC_CallerId, value_word (ss_call_id curr)), (CC_TxId, value_word (ct_tx_id f)),
         (CC_Depth, value_word (ct_depth f + 1)), (CC_CallerAddress, ct_caller_address_word f),
         (CC_CalleeAddress, contract_address_word), (CC_IsSuccess, value_word (ct_is_success f)),
         (CC_IsStatic, value_word (FQ 0)), (CC_IsRoot, value_word (FQ 0)), (CC_IsCreate, value_word (FQ 1))])
     (ibind (call_context_lookup_word I CC_CodeHash RW_Read (Some (ct_callee_call_id f))) (\<lambda>callee_code_hash.
      ibind (ilift (create_code_hash I f)) (\<lambda>code_hash.
      ithen (constrain_equal_word (wov_word callee_code_hash) code_hash)
     (ibind current_rw_counter_offset (\<lambda>k.
      step_state_transition_to_new_context I (Delta (FQ k)) (To (ct_callee_call_id f)) (To (FQ 0)) (To (FQ 1))
        (ToWord next_code_hash) (To (cc_callee_gas_left c)) (To (FQ 3)) Same)))))))))))"

definition create_contract_address :: "instruction \<Rightarrow> create_frame \<Rightarrow> fq instr" where
  "create_contract_address I f =
     (if ct_is_create f = 1 then generate_contract_address I (ct_caller_address f) (ct_nonce f)
      else ibind (ilift (create_code_hash I f)) (\<lambda>code_hash.
        generate_CREAET2_contract_address I (ct_caller_address f) (ct_salt_word f) code_hash))"

text \<open>The result says whether the address is free.\<close>

definition create_contract :: "instruction \<Rightarrow> create_frame \<Rightarrow> create_costs \<Rightarrow> bool instr" where
  "create_contract I f c =
     ibind (create_contract_address I f) (\<lambda>contract_address.
     ibind (address_to_word contract_address) (\<lambda>contract_address_word.
     ibind (add_account_to_access_list I (ct_tx_id f) contract_address None) (\<lambda>_.
     ibind (account_read_word I contract_address AF_CodeHash) (\<lambda>callee_code_hash.
     ibind (account_read I contract_address AF_Nonce) (\<lambda>callee_nonce.
     ibind (ilift (word_of_int256 (EMPTY_CODE_HASH (ext_keccak (i_ext I))))) (\<lambda>empty_code_hash.
     ibind (ilift (word_of_int256 0)) (\<lambda>zero.
     let is_zero_nonce = is_zero callee_nonce;
       is_empty_hash = is_equal_word (wov_word callee_code_hash) empty_code_hash;
       is_zero_hash = is_equal_word (wov_word callee_code_hash) zero;
       not_address_collision = (is_zero_nonce = FQ 1 \<and> (is_empty_hash = FQ 1 \<or> is_zero_hash = FQ 1)) in
     ithen (if not_address_collision then
         ibind (word_to_fq (ct_return_word f) N_BYTES_ACCOUNT_ADDRESS) (\<lambda>return_address.
         ithen (constrain_equal return_address (ct_is_success f * contract_address))
        (ibind (instr_reversion_info I (Some (ct_callee_call_id f))) (\<lambda>callee_rinfo.
         ithen (constrain_equal (is_persistent callee_rinfo) (ct_is_persistent f * ct_is_success f))
        (ibind (transfer I (ct_caller_address f) contract_address (ct_value_word f) (Some callee_rinfo)) (\<lambda>_.
         ibind (account_write I contract_address AF_Nonce None) (\<lambda>((new_nonce, _), _).
         ithen (constrain_equal new_nonce (FQ 1))
           (if ct_size f \<noteq> FQ 0 then create_init_call I f c contract_address_word else iret ())))))))
       else iret ())
     (iret not_address_collision))))))))"

section \<open>The gadget of the creations\<close>

definition create_no_call ::
  "instruction \<Rightarrow> create_frame \<Rightarrow> create_costs \<Rightarrow> bool \<Rightarrow> bool \<Rightarrow> unit instr" where
  "create_no_call I f c is_precheck_ok not_address_collision =
     ithen (if \<not> is_precheck_ok \<or> \<not> not_address_collision
            then constrain_equal (ct_is_success f) (FQ 0) else iret ())
    (ithen (call_context_write_equal I
       [(CC_LastCalleeId, FQ 0), (CC_LastCalleeReturnDataOffset, FQ 0), (CC_LastCalleeReturnDataLength, FQ 0)])
    (let reversible_write_counter_delta = (if not_address_collision \<and> ct_size f = FQ 0 then FQ 3 else FQ 0) in
     ibind current_rw_counter_offset (\<lambda>k.
     constrain_step_state_transition I
       [(K_rw_counter, Delta (FQ k)), (K_program_counter, Delta (FQ 1)),
        (K_stack_pointer, Delta (FQ 2 + ct_is_create2 f)),
        (K_reversible_write_counter, Delta reversible_write_counter_delta),
        (K_gas_left, Delta (- cc_gas_cost c)), (K_memory_word_size, To (cc_next_memory_size c)),
        (K_call_id, Same), (K_is_root, Same), (K_is_create, Same), (K_code_hash, SameWord)])))"

definition create :: "instruction \<Rightarrow> unit instr" where
  "create I =
     ibind (opcode_lookup I True) (\<lambda>opc.
     ibind (create_read I opc) (\<lambda>f.
     ibind (create_gas I f) (\<lambda>c.
     ibind (create_precheck I f) (\<lambda>is_precheck_ok.
     ibind (if is_precheck_ok then create_contract I f c else iret False) (\<lambda>not_address_collision.
     if \<not> is_precheck_ok \<or> \<not> not_address_collision \<or> ct_size f = FQ 0
     then create_no_call I f c is_precheck_ok not_address_collision
     else iret ())))))"

section \<open>RETURN and REVERT\<close>

text \<open>
  Two branches of the source test a field object for truth, \<open>curr.is_create and is_success\<close> and
  \<open>not is_return\<close>; the truth value is a parameter as in \<open>jumpi\<close>.
\<close>

definition return_deployment ::
  "instruction \<Rightarrow> fq \<Rightarrow> fq \<Rightarrow> (fq \<times> int) instr" where
  "return_deployment I return_offset return_length =
     ibind (call_context_lookup_word I CC_CalleeAddress RW_Read None) (\<lambda>callee_address_word.
     ibind (word_to_address (wov_word callee_address_word)) (\<lambda>callee_address.
     ibind (account_write_word I callee_address AF_CodeHash None) (\<lambda>((code_hash, code_hash_prev), _).
     ibind (ilift (word_of_int256 (EMPTY_HASH (ext_keccak (i_ext I))))) (\<lambda>empty_hash.
     ithen (constrain_equal_word (wov_word code_hash_prev) empty_hash)
    (ithen (constrain_equal_word (wov_word code_hash) (ss_code_hash (i_curr I)))
    (ithen (range_lookup return_length MAX_CODE_SIZE)
    (let callee_gas_left = ss_gas_left (i_curr I) - return_length * FQ GAS_COST_CODE_DEPOSIT in
     if fq_n return_length > 0 then
       ibind (copy_bytes I (ValueV (ss_call_id (i_curr I))) (copy_tag CD_Memory) code_hash (copy_tag CD_Bytecode)
         return_offset (return_offset + return_length) (FQ 0) return_length None) (\<lambda>(copy_rwc_inc, _).
       ithen (constrain_equal copy_rwc_inc return_length)
      (ithen (add_rw_counter_offset (fq_n copy_rwc_inc))
      (ibind (bytecode_length I (wov_word code_hash)) (\<lambda>code_size.
       ithen (constrain_equal code_size return_length)
         (iret (callee_gas_left, fq_n return_length))))))
     else iret (callee_gas_left, 0))))))))"

text \<open>The bytes copied to the caller; the result is what is added to \<open>rwc_delta\<close>.\<close>

definition return_copy :: "instruction \<Rightarrow> fq \<Rightarrow> fq \<Rightarrow> int instr" where
  "return_copy I return_offset return_length =
     ibind (call_context_lookup I CC_ReturnDataOffset RW_Read None) (\<lambda>caller_return_offset.
     ibind (call_context_lookup I CC_ReturnDataLength RW_Read None) (\<lambda>caller_return_length.
     ibind (instr_min return_length caller_return_length N_BYTES_MEMORY_ADDRESS) (\<lambda>copy_length.
     ibind (copy_bytes I (ValueV (ss_call_id (i_curr I))) (copy_tag CD_Memory) (ValueV (ss_call_id (i_next I)))
       (copy_tag CD_Memory) return_offset (return_offset + return_length) caller_return_offset copy_length None)
       (\<lambda>(copy_rwc_inc, _).
     ithen (constrain_equal copy_rwc_inc (FQ 2 * copy_length))
    (ithen (add_rw_counter_offset (fq_n copy_rwc_inc))
       (iret (2 + 2 * fq_n copy_length)))))))"

definition return_revert :: "(fq \<Rightarrow> bool) \<Rightarrow> instruction \<Rightarrow> unit instr" where
  "return_revert truth_value I =
     (let curr = i_curr I in
      ibind (opcode_lookup I True) (\<lambda>opc.
      let (is_return, _) = pair_select opc (FQ Opcode_RETURN) (FQ Opcode_REVERT) in
      ibind (call_context_lookup I CC_IsSuccess RW_Read None) (\<lambda>is_success.
      ithen (constrain_equal is_success is_return)
     (ibind (stack_pop I) (\<lambda>return_offset_word.
      ibind (stack_pop I) (\<lambda>return_length_word.
      ibind (word_to_fq return_offset_word N_BYTES_MEMORY_ADDRESS) (\<lambda>return_offset.
      ibind (word_to_fq return_length_word N_BYTES_MEMORY_ADDRESS) (\<lambda>return_length.
      ibind (if ss_is_create curr \<and> truth_value is_success
             then return_deployment I return_offset return_length
             else iret (ss_gas_left curr, 0)) (\<lambda>(callee_gas_left, copied).
      ibind (if \<not> ss_is_root curr \<and> \<not> ss_is_create curr
             then return_copy I return_offset return_length else iret 0) (\<lambda>returned.
      let is_to_end_tx = is_equal (FQ (es_int (ss_execution_state (i_next I)))) (FQ (es_int ES_EndTx)) in
      ithen (constrain_equal (fq_of_bool (ss_is_root curr)) is_to_end_tx)
     (ibind (memory_expansion_dynamic_length I return_offset return_length None) (\<lambda>(_, memory_expansion_gas).
      let rwc_delta = 3 + copied + returned
            + (if \<not> truth_value is_return then fq_n (ss_reversible_write_counter curr) else 0) in
      if ss_is_root curr then
        ibind (call_context_lookup I CC_IsPersistent RW_Read None) (\<lambda>persistent.
        ithen (constrain_equal persistent is_return)
          (constrain_step_state_transition I
            [(K_rw_counter, Delta (FQ (rwc_delta + 1))), (K_gas_left, To callee_gas_left), (K_call_id, Same)]))
      else
        step_state_transition_to_restored_context I rwc_delta return_offset return_length
          (callee_gas_left - memory_expansion_gas) None))))))))))))"

end
