(* ===== verification/Exec_Tx.thy ===== *)
theory Exec_Tx
  imports Exec_Create
begin

text \<open>
  The gadgets around a transaction and a block, files begin_tx.py, end_tx.py and end_block.py of
  \<^verbatim>\<open>src/zkevm_specs/evm_circuit/execution\<close>.
\<close>

section \<open>BeginTx: what is read of the transaction\<close>

record tx_frame =
  tf_call_id :: fq
  tf_tx_id :: fq
  tf_coinbase :: fq
  tf_caller_address_word :: word256
  tf_caller_address :: fq
  tf_callee_address_word :: word256
  tf_callee_address :: fq
  tf_is_create :: fq
  tf_value :: word256
  tf_call_data_length :: fq

definition begin_tx_read :: "instruction \<Rightarrow> (tx_frame \<times> reversion_info) instr" where
  "begin_tx_read I =
     (let call_id = ss_rw_counter (i_curr I) in
      ibind (call_context_lookup I CC_TxId RW_Read (Some call_id)) (\<lambda>tx_id.
      ibind (instr_reversion_info I (Some call_id)) (\<lambda>rinfo.
      ibind (call_context_lookup I CC_IsSuccess RW_Read (Some call_id)) (\<lambda>is_success.
      ithen (constrain_equal is_success (is_persistent rinfo))
     (ithen (if i_is_first_step I then constrain_equal tx_id (FQ 1) else iret ())
     (ibind (block_context_lookup_word I BC_Coinbase (FQ 0)) (\<lambda>coinbase_word.
      ibind (word_to_address (wov_word coinbase_word)) (\<lambda>coinbase.
      ibind (tx_context_lookup_word I tx_id TC_CallerAddress) (\<lambda>tx_caller_address_word.
      ibind (word_to_address (wov_word tx_caller_address_word)) (\<lambda>tx_caller_address.
      ibind (tx_context_lookup_word I tx_id TC_CalleeAddress) (\<lambda>tx_callee_address_word.
      ibind (word_to_address (wov_word tx_callee_address_word)) (\<lambda>tx_callee_address.
      ibind (tx_context_lookup I tx_id TC_IsCreate) (\<lambda>tx_is_create.
      ibind (tx_context_lookup_word I tx_id TC_Value) (\<lambda>tx_value.
      ibind (tx_context_lookup I tx_id TC_CallDataLength) (\<lambda>tx_call_data_length.
      ithen (constrain_not_zero tx_caller_address)
        (iret (\<lparr>tf_call_id = call_id, tf_tx_id = tx_id, tf_coinbase = coinbase,
          tf_caller_address_word = wov_word tx_caller_address_word, tf_caller_address = tx_caller_address,
          tf_callee_address_word = wov_word tx_callee_address_word, tf_callee_address = tx_callee_address,
          tf_is_create = tx_is_create, tf_value = wov_word tx_value,
          tf_call_data_length = tx_call_data_length\<rparr>, rinfo)))))))))))))))))"

section \<open>BeginTx: nonce, gas and transfer\<close>

text \<open>The flag of an invalid transaction, its nonce, and whether the nonce is the account's.\<close>

definition begin_tx_nonce :: "instruction \<Rightarrow> tx_frame \<Rightarrow> (fq \<times> fq \<times> fq) instr" where
  "begin_tx_nonce I f =
     ibind (tx_context_lookup I (tf_tx_id f) TC_TxInvalid) (\<lambda>is_tx_invalid.
     ibind (tx_context_lookup I (tf_tx_id f) TC_Nonce) (\<lambda>tx_nonce.
     ibind (account_write I (tf_caller_address f) AF_Nonce None) (\<lambda>((nonce, nonce_prev), _).
     let is_nonce_valid = is_zero (tx_nonce - nonce_prev) in
     ithen (constrain_equal nonce (nonce_prev + 1 - is_tx_invalid))
       (iret (is_tx_invalid, tx_nonce, is_nonce_valid)))))"

text \<open>The fee, the gas left after the intrinsic gas, and whether the gas is below it.\<close>

definition begin_tx_gas :: "instruction \<Rightarrow> tx_frame \<Rightarrow> (word256 \<times> fq \<times> fq) instr" where
  "begin_tx_gas I f =
     ibind (tx_context_lookup I (tf_tx_id f) TC_Gas) (\<lambda>tx_gas.
     ibind (tx_gas_price I (tf_tx_id f)) (\<lambda>gas_price.
     ibind (mul_word_by_u64 gas_price tx_gas) (\<lambda>gas_fee.
     ibind (tx_context_lookup I (tf_tx_id f) TC_CallDataGasCost) (\<lambda>tx_calldata_gas_cost.
     ibind (if tf_is_create f = FQ 1
            then ibind (constant_divmod (tf_call_data_length f + FQ 31) (FQ 32) N_BYTES_U64) (\<lambda>(len_words, _).
              iret (FQ GAS_COST_CREATION_TX + len_words * FQ GAS_COST_INITCODE_WORD))
            else iret (FQ GAS_COST_TX)) (\<lambda>tx_cost_gas.
     ibind (tx_context_lookup I (tf_tx_id f) TC_AccessListGasCost) (\<lambda>tx_accesslist_gas.
     let tx_intrinsic_gas = tx_calldata_gas_cost + tx_cost_gas + tx_accesslist_gas in
     ibind (compare tx_gas tx_intrinsic_gas 31) (\<lambda>(gas_not_enough, _).
     iret (gas_fee, if gas_not_enough = 1 then tx_gas else tx_gas - tx_intrinsic_gas, gas_not_enough))))))))"

definition begin_tx_access_list :: "instruction \<Rightarrow> fq \<Rightarrow> fq list \<Rightarrow> unit instr" where
  "begin_tx_access_list I tx_id addresses =
     iiter (\<lambda>address.
       ibind (add_account_to_access_list I tx_id address None) (\<lambda>(was_warm, _).
       constrain_zero was_warm)) addresses"

definition begin_tx_transfer ::
  "instruction \<Rightarrow> tx_frame \<Rightarrow> reversion_info \<Rightarrow> fq \<Rightarrow> fq \<Rightarrow> word256 \<Rightarrow> fq \<Rightarrow> fq \<Rightarrow> unit instr" where
  "begin_tx_transfer I f rinfo callee_address is_tx_invalid gas_fee gas_not_enough is_nonce_valid =
     ibind (ilift (word_of_int256 0)) (\<lambda>zero.
     ibind (transfer_with_gas_fee I (tf_caller_address f) callee_address
       (if is_tx_invalid = 1 then zero else tf_value f) (if is_tx_invalid = 1 then zero else gas_fee) (Some rinfo))
       (\<lambda>((sender_balance_pair, _), _).
     ibind (word_to_fq (snd sender_balance_pair) 31) (\<lambda>balance_prev.
     ibind (word_to_fq (tf_value f) 31) (\<lambda>value.
     ibind (word_to_fq gas_fee 31) (\<lambda>fee.
     ibind (compare balance_prev (value + fee) 31) (\<lambda>(balance_not_enough, _).
     let invalid_tx = 1 - (1 - balance_not_enough) * (1 - gas_not_enough) * is_nonce_valid in
     constrain_equal is_tx_invalid invalid_tx))))))"

section \<open>BeginTx: the first call\<close>

definition begin_tx_ends :: "instruction \<Rightarrow> tx_frame \<Rightarrow> reversion_info \<Rightarrow> unit instr" where
  "begin_tx_ends I f rinfo =
     ithen (constrain_equal (is_persistent rinfo) (FQ 1))
    (ithen (constrain_equal (FQ (es_int (ss_execution_state (i_next I)))) (FQ (es_int ES_EndTx)))
    (ibind current_rw_counter_offset (\<lambda>k.
     constrain_step_state_transition I [(K_rw_counter, Delta (FQ k)), (K_call_id, To (tf_call_id f))])))"

definition begin_tx_call ::
  "instruction \<Rightarrow> tx_frame \<Rightarrow> word256 \<Rightarrow> bool \<Rightarrow> word256 \<Rightarrow> fq \<Rightarrow> unit instr" where
  "begin_tx_call I f callee_address_word is_create code_hash gas_left =
     ithen (call_context_equal I RW_Read (Some (tf_call_id f))
       [(CC_Depth, value_word (FQ 1)), (CC_CallerAddress, tf_caller_address_word f),
        (CC_CalleeAddress, callee_address_word), (CC_CallDataOffset, value_word (FQ 0)),
        (CC_CallDataLength, value_word (tf_call_data_length f)), (CC_Value, tf_value f),
        (CC_IsStatic, value_word (FQ 0)), (CC_LastCalleeId, value_word (FQ 0)),
        (CC_LastCalleeReturnDataOffset, value_word (FQ 0)), (CC_LastCalleeReturnDataLength, value_word (FQ 0)),
        (CC_IsRoot, value_word (FQ 1)), (CC_IsCreate, value_word (fq_of_bool is_create)), (CC_CodeHash, code_hash)])
    (ibind current_rw_counter_offset (\<lambda>k.
     step_state_transition_to_new_context I (Delta (FQ k)) (To (tf_call_id f)) (To (FQ 1)) (To (fq_of_bool is_create))
       (ToWord code_hash) (To gas_left) (To (FQ 2)) (To (FQ 0))))"

text \<open>The init code of a creation: its hash, and its bytes in the bytecode table.\<close>

definition begin_tx_init_code :: "instruction \<Rightarrow> tx_frame \<Rightarrow> word256 instr" where
  "begin_tx_init_code I f =
     (let len = tf_call_data_length f in
      ibind (copy_bytes I (ValueV (tf_tx_id f)) (copy_tag CD_TxCalldata) (ValueV (tf_call_id f)) (copy_tag CD_RlcAcc)
        (FQ 0) len (FQ 0) len None) (\<lambda>(copy_rwc_inc, tx_calldata_rlc).
      ithen (iassert (copy_rwc_inc = FQ 0))
     (ibind (keccak_lookup I len tx_calldata_rlc) (\<lambda>code_hash.
      ibind (copy_bytes I (ValueV (tf_tx_id f)) (copy_tag CD_TxCalldata) (WordV code_hash) (copy_tag CD_Bytecode)
        (FQ 0) len (FQ 0) len None) (\<lambda>(copy_rwc_inc', _).
      ithen (iassert (copy_rwc_inc' = FQ 0))
        (iret code_hash))))))"

definition begin_tx_first_call ::
  "instruction \<Rightarrow> tx_frame \<Rightarrow> reversion_info \<Rightarrow> word256 \<Rightarrow> fq \<Rightarrow> fq \<Rightarrow> unit instr" where
  "begin_tx_first_call I f rinfo contract_address_word is_tx_invalid gas_left =
     (if tf_is_create f = 1 then
        if is_tx_invalid = FQ 1 \<or> tf_call_data_length f = 0 then begin_tx_ends I f rinfo
        else ibind (begin_tx_init_code I f) (\<lambda>code_hash.
          begin_tx_call I f contract_address_word True code_hash gas_left)
      else if \<exists>p\<in>set valid_precompiles. precompile_int p = fq_n (tf_callee_address f)
      then ilift (Inl NotImplementedError)
      else
        ibind (account_read_word I (tf_callee_address f) AF_CodeHash) (\<lambda>code_hash.
        ibind (ilift (word_of_int256 (EMPTY_CODE_HASH (ext_keccak (i_ext I))))) (\<lambda>empty_code_hash.
        let is_empty_code_hash = is_equal_word (wov_word code_hash) empty_code_hash in
        if is_empty_code_hash = FQ 1 \<or> is_tx_invalid = FQ 1 then begin_tx_ends I f rinfo
        else begin_tx_call I f (tf_callee_address_word f) False (wov_word code_hash) gas_left)))"

definition begin_tx :: "instruction \<Rightarrow> unit instr" where
  "begin_tx I =
     ibind (begin_tx_read I) (\<lambda>(f, rinfo).
     ibind (begin_tx_nonce I f) (\<lambda>(is_tx_invalid, tx_nonce, is_nonce_valid).
     ibind (begin_tx_gas I f) (\<lambda>(gas_fee, gas_left, gas_not_enough).
     ibind (generate_contract_address I (tf_caller_address f) tx_nonce) (\<lambda>contract_address.
     ibind (address_to_word contract_address) (\<lambda>contract_address_word.
     let callee_address = (if tf_is_create f = 1 then contract_address else tf_callee_address f) in
     ithen (begin_tx_access_list I (tf_tx_id f) [tf_coinbase f, tf_caller_address f, callee_address])
    (ithen (begin_tx_transfer I f rinfo callee_address is_tx_invalid gas_fee gas_not_enough is_nonce_valid)
      (begin_tx_first_call I f rinfo contract_address_word is_tx_invalid gas_left)))))))"

section \<open>EndTx\<close>

text \<open>The refund and the gas used; the refund is capped and 0 for an invalid transaction.\<close>

definition end_tx_refund :: "instruction \<Rightarrow> fq \<Rightarrow> fq \<Rightarrow> (fq \<times> fq) instr" where
  "end_tx_refund I tx_id is_tx_invalid =
     ibind (tx_context_lookup I tx_id TC_Gas) (\<lambda>tx_gas.
     let gas_used = tx_gas - ss_gas_left (i_curr I) in
     ibind (constant_divmod gas_used (FQ MAX_REFUND_QUOTIENT_OF_GAS_USED) N_BYTES_GAS) (\<lambda>(max_refund, _).
     ibind (tx_refund_read I tx_id) (\<lambda>refund.
     ibind (instr_min max_refund refund 8) (\<lambda>effective_refund.
     ithen (if is_tx_invalid = 1 then constrain_zero effective_refund else iret ())
       (iret (gas_used, effective_refund))))))"

definition end_tx_balances :: "instruction \<Rightarrow> fq \<Rightarrow> fq \<Rightarrow> fq \<Rightarrow> unit instr" where
  "end_tx_balances I tx_id gas_used effective_refund =
     ibind (tx_gas_price I tx_id) (\<lambda>gas_price.
     ibind (mul_word_by_u64 gas_price (ss_gas_left (i_curr I) + effective_refund)) (\<lambda>value.
     ibind (tx_context_lookup_word I tx_id TC_CallerAddress) (\<lambda>tx_caller_address_word.
     ibind (word_to_address (wov_word tx_caller_address_word)) (\<lambda>tx_caller_address.
     ibind (add_balance I tx_caller_address [value] None) (\<lambda>_.
     ibind (block_context_lookup_word I BC_BaseFee (FQ 0)) (\<lambda>base_fee.
     ibind (sub_word gas_price (wov_word base_fee)) (\<lambda>(effective_tip, _).
     ibind (mul_word_by_u64 effective_tip gas_used) (\<lambda>reward.
     ibind (block_context_lookup_word I BC_Coinbase (FQ 0)) (\<lambda>coinbase_word.
     ibind (word_to_address (wov_word coinbase_word)) (\<lambda>coinbase.
     ibind (add_balance I coinbase [reward] None) (\<lambda>_. iret ())))))))))))"

definition end_tx_receipt :: "instruction \<Rightarrow> fq \<Rightarrow> fq \<Rightarrow> fq \<Rightarrow> fq \<Rightarrow> unit instr" where
  "end_tx_receipt I tx_id persistent is_tx_invalid gas_used =
     ibind (tx_receipt_write I tx_id TR_PostStateOrStatus) (\<lambda>status.
     ithen (constrain_equal ((1 - is_tx_invalid) * persistent) status)
    (ibind (tx_receipt_write I tx_id TR_LogLength) (\<lambda>log_id.
     ithen (constrain_equal log_id (ss_log_id (i_curr I)))
    (ithen (if is_tx_invalid = 1 then constrain_zero log_id else iret ())
    (ibind (if tx_id = 1 then iret (FQ 0)
            else tx_receipt_read I (tx_id - FQ 1) TR_CumulativeGasUsed None) (\<lambda>current_cumulative_gas_used.
     ibind (tx_receipt_write I tx_id TR_CumulativeGasUsed) (\<lambda>cumulative_gas_used.
     constrain_equal (current_cumulative_gas_used + gas_used) cumulative_gas_used)))))))"

definition end_tx :: "instruction \<Rightarrow> unit instr" where
  "end_tx I =
     ibind (call_context_lookup I CC_TxId RW_Read None) (\<lambda>tx_id.
     ibind (call_context_lookup I CC_IsPersistent RW_Read None) (\<lambda>persistent.
     ibind (tx_context_lookup I tx_id TC_TxInvalid) (\<lambda>is_tx_invalid.
     ibind (end_tx_refund I tx_id is_tx_invalid) (\<lambda>(gas_used, effective_refund).
     ithen (end_tx_balances I tx_id gas_used effective_refund)
    (ithen (end_tx_receipt I tx_id persistent is_tx_invalid gas_used)
    (let first = (if tx_id = 1 then 1 else 0) in
     ithen (if ss_execution_state (i_next I) = ES_BeginTx
            then ibind (call_context_lookup I CC_TxId RW_Read (Some (ss_rw_counter (i_next I)))) (\<lambda>next_tx_id.
              ithen (constrain_equal next_tx_id (tx_id + 1))
                (constrain_step_state_transition I [(K_rw_counter, Delta (FQ (10 - first)))]))
            else iret ())
       (if ss_execution_state (i_next I) = ES_EndBlock
        then constrain_step_state_transition I [(K_rw_counter, Delta (FQ (9 - first))), (K_call_id, Same)]
        else iret ())))))))"

section \<open>EndBlock\<close>

definition tx_rows_of :: "instruction \<Rightarrow> tx_context_field_tag \<Rightarrow> tx_row set" where
  "tx_rows_of I tag = Set.filter (\<lambda>r. tx_field_tag r = FQ (tc_int tag)) (tx_table (i_tables I))"

definition get_tx_table_max_txs :: "instruction \<Rightarrow> int" where
  "get_tx_table_max_txs I = int (card (tx_rows_of I TC_CallerAddress))"

definition total_txs_of :: "instruction \<Rightarrow> fq" where
  "total_txs_of I =
     FQ (int (card (Set.filter (\<lambda>r. \<not> (lo (wov_word (tx_value r)) = 0 \<and> hi (wov_word (tx_value r)) = 0))
       (tx_rows_of I TC_CallerAddress))))"

text \<open>The method \<open>value\<close> of a row that holds a word fails its assertion.\<close>

definition total_valid_txs_of :: "instruction \<Rightarrow> fq \<Rightarrow> fq instr" where
  "total_valid_txs_of I total_txs =
     (let invalid = tx_rows_of I TC_TxInvalid in
      ithen (iassert (\<forall>r\<in>invalid. wov_value (tx_value r) \<noteq> Inl AssertionError))
        (iret (total_txs - FQ (int (card (Set.filter (\<lambda>r. wov_value (tx_value r) = Inr (FQ 1)) invalid))))))"

definition total_withdrawals_of :: "instruction \<Rightarrow> fq" where
  "total_withdrawals_of I = FQ (int (card (Set.filter (\<lambda>r. wd_amount r \<noteq> FQ 0) (withdrawal_table (i_tables I)))))"

text \<open>
  The withdrawals in the order of their \<open>id\<close>. \<open>sorted\<close> is stable, so rows with one \<open>id\<close> come in
  the order in which Python iterates over the set, which is a parameter.
\<close>

definition end_block_withdrawals ::
  "(withdrawal_row set \<Rightarrow> withdrawal_row list) \<Rightarrow> instruction \<Rightarrow> int instr" where
  "end_block_withdrawals set_order I =
     ibind (imap (\<lambda>wd.
         if wd_amount wd \<noteq> FQ 0 then
           ibind (ilift (word_of_int256 (fq_n (wd_amount wd) * 1000000000))) (\<lambda>amount.
           ibind (add_balance I (wd_address wd) [amount] None) (\<lambda>_. iret 0))
         else iret 1) (sort_key (\<lambda>wd. fq_n (wd_id wd)) (set_order (withdrawal_table (i_tables I)))))
       (\<lambda>padding. iret (sum_list padding))"

definition end_block_txs ::
  "(withdrawal_row set \<Rightarrow> withdrawal_row list) \<Rightarrow> instruction \<Rightarrow> fq \<Rightarrow> fq \<Rightarrow> unit instr" where
  "end_block_txs set_order I total_txs total_withdrawals =
     ibind (call_context_lookup I CC_TxId RW_Read None) (\<lambda>last_tx_id.
     ithen (constrain_equal last_tx_id total_txs)
    (ibind (block_context_lookup I BC_GasLimit (FQ 0)) (\<lambda>gas_limit.
     ibind (tx_receipt_read I total_txs TR_CumulativeGasUsed None) (\<lambda>cumulative_gas.
     ibind (compare gas_limit cumulative_gas N_BYTES_GAS) (\<lambda>(limit_exceeded, _).
     ithen (constrain_equal limit_exceeded (FQ 0))
    (ibind (end_block_withdrawals set_order I) (\<lambda>padding_wds.
     constrain_equal (FQ padding_wds)
       (FQ (int (card (withdrawal_table (i_tables I)))) - total_withdrawals))))))))"

definition end_block :: "(withdrawal_row set \<Rightarrow> withdrawal_row list) \<Rightarrow> instruction \<Rightarrow> unit instr" where
  "end_block set_order I =
     (let max_txs = get_tx_table_max_txs I; max_rws = int (card (rw_table (i_tables I)));
        total_txs = total_txs_of I in
      ibind (total_valid_txs_of I total_txs) (\<lambda>total_valid_txs.
      let total_withdrawals = total_withdrawals_of I;
        is_empty_block = is_zero (ss_rw_counter (i_curr I) - 1);
        total_rws = (1 - is_empty_block) * (ss_rw_counter (i_curr I) - 1 + FQ 2) in
      if i_is_last_step I then
        ithen (if is_empty_block = FQ 1
               then ithen (constrain_equal total_valid_txs (FQ 0)) (constrain_equal total_withdrawals (FQ 0))
               else end_block_txs set_order I total_txs total_withdrawals)
       (ithen (if fq_n total_txs \<noteq> max_txs
               then ibind (tx_context_lookup_word I (total_txs + 1) TC_CallerAddress) (\<lambda>next_caller.
                 ibind (ilift (word_of_int256 0)) (\<lambda>zero.
                 constrain_equal_word (wov_word next_caller) zero))
               else iret ())
       (ithen (rw_table_start_lookup I (FQ 1))
         (rw_table_start_lookup I (FQ max_rws - total_rws - total_withdrawals))))
      else
        constrain_step_state_transition I [(K_rw_counter, Same), (K_call_id, Same)]))"

end
