(* ===== verification/Exec_Error.thy ===== *)
theory Exec_Error
  imports Call_Gadget
begin

text \<open>
  The gadgets of \<^verbatim>\<open>src/zkevm_specs/evm_circuit/execution\<close> for the failures of a call, the files
  error_*.py but for the precompiles. A gadget shows that the step fails and leaves by
  \<open>constrain_error_state\<close> with the rows it read and the rows that the reversion adds.

  Two of them branch on the truth value of a field object, which is a parameter as in \<open>jumpi\<close>.
\<close>

definition error_exit :: "instruction \<Rightarrow> unit instr" where
  "error_exit I =
     ibind current_rw_counter_offset (\<lambda>k.
     constrain_error_state I (k + fq_n (ss_reversible_write_counter (i_curr I))))"

section \<open>Stack, opcode and jump errors\<close>

definition error_stack :: "instruction \<Rightarrow> unit instr" where
  "error_stack I =
     ibind (opcode_lookup I True) (\<lambda>opc.
     ithen (responsible_opcode_lookup I opc (ss_stack_pointer (i_curr I)))
       (error_exit I))"

definition error_invalid_opcode :: "instruction \<Rightarrow> unit instr" where
  "error_invalid_opcode I =
     ibind (opcode_lookup I True) (\<lambda>opc.
     ithen (responsible_opcode_lookup I opc (FQ 0))
       (error_exit I))"

definition error_invalid_jump :: "instruction \<Rightarrow> unit instr" where
  "error_invalid_jump I =
     ibind (opcode_lookup I True) (\<lambda>opc.
     ithen (constrain_in opc [FQ Opcode_JUMP, FQ Opcode_JUMPI])
    (let (_, is_jumpi) = pair_select opc (FQ Opcode_JUMP) (FQ Opcode_JUMPI) in
     ibind (bytecode_length I (ss_code_hash (i_curr I))) (\<lambda>code_length.
     ibind (stack_pop I) (\<lambda>dest.
     ithen (if is_jumpi = FQ 1
            then ibind (stack_pop I) (\<lambda>cond. constrain_not_zero_word cond)
            else iret ())
    (ibind (word_to_u64 dest) (\<lambda>dest_value.
     ibind (compare dest_value code_length N_BYTES_PROGRAM_COUNTER) (\<lambda>(within_range, _).
     if within_range = FQ 1 then
       ibind (bytecode_lookup_pair I (ss_code_hash (i_curr I)) dest_value) (\<lambda>(value, is_code).
       let is_jump_dest = (value = FQ Opcode_JUMPDEST) in
       ithen (constrain_zero (is_code * fq_of_bool is_jump_dest))
         (error_exit I))
     else iret ())))))))"

definition error_invalid_creation_code :: "instruction \<Rightarrow> unit instr" where
  "error_invalid_creation_code I =
     ibind (opcode_lookup I True) (\<lambda>opc.
     ithen (constrain_equal opc (FQ Opcode_RETURN))
    (ithen (constrain_equal (fq_of_bool (ss_is_create (i_curr I))) (FQ 1))
    (ibind (stack_pop I) (\<lambda>offset_word.
     ibind (word_to_fq offset_word N_BYTES_MEMORY_ADDRESS) (\<lambda>return_offset.
     ibind (memory_lookup I RW_Read return_offset None) (\<lambda>first_byte.
     ithen (constrain_equal first_byte (FQ INVALID_FIRST_BYTE_CONTRACT_CODE))
       (error_exit I)))))))"

definition error_code_store :: "instruction \<Rightarrow> unit instr" where
  "error_code_store I =
     ibind (opcode_lookup I True) (\<lambda>opc.
     ithen (constrain_equal opc (FQ Opcode_RETURN))
    (ithen (constrain_equal (fq_of_bool (ss_is_create (i_curr I))) (FQ 1))
    (ibind (stack_lookup I RW_Read (FQ 1)) (\<lambda>return_length_word.
     ibind (word_to_fq return_length_word N_BYTES_MEMORY_ADDRESS) (\<lambda>return_length.
     ibind (call_context_lookup I CC_IsStatic RW_Read None) (\<lambda>is_static.
     ithen (constrain_equal is_static (FQ 0))
    (ibind (compare (FQ MAX_CODE_SIZE) return_length N_BYTES_STACK) (\<lambda>(over_max_code_size, _).
     let gas_cost_code_store = FQ GAS_COST_CODE_DEPOSIT * return_length in
     ibind (compare (ss_gas_left (i_curr I)) gas_cost_code_store N_BYTES_GAS) (\<lambda>(insufficient_gas, _).
     ithen (constrain_not_zero (insufficient_gas + over_max_code_size))
       (error_exit I))))))))))"

definition error_return_data_out_of_bound :: "instruction \<Rightarrow> unit instr" where
  "error_return_data_out_of_bound I =
     ibind (opcode_lookup I True) (\<lambda>opc.
     ithen (constrain_equal opc (FQ Opcode_RETURNDATACOPY))
    (ibind (stack_lookup I RW_Read (FQ 1)) (\<lambda>offset_word.
     ibind (word_to_fq offset_word MAX_N_BYTES) (\<lambda>data_offset.
     ibind (stack_lookup I RW_Read (FQ 2)) (\<lambda>length_word.
     ibind (word_to_fq length_word MAX_N_BYTES) (\<lambda>len.
     ibind (call_context_lookup I CC_LastCalleeReturnDataLength RW_Read None) (\<lambda>return_data_length.
     let end_addr = data_offset + len;
       is_data_offset_u64_overflow = is_u64_overflow data_offset;
       is_end_u64_overflow = is_u64_overflow end_addr in
     ibind (compare return_data_length end_addr MAX_N_BYTES) (\<lambda>(is_end_over_return_data_len, _).
     ithen (constrain_not_zero (is_data_offset_u64_overflow + is_end_u64_overflow + is_end_over_return_data_len))
       (error_exit I)))))))))"

definition error_write_protection :: "instruction \<Rightarrow> unit instr" where
  "error_write_protection I =
     ibind (opcode_lookup I True) (\<lambda>opc.
     let flags = multiple_select opc (map FQ [Opcode_SSTORE, Opcode_CREATE, Opcode_CREATE2, Opcode_CALL,
           Opcode_SELFDESTRUCT, Opcode_LOG0, Opcode_LOG1, Opcode_LOG2, Opcode_LOG3, Opcode_LOG4]);
       is_call = flags ! 3 in
     ithen (constrain_equal (sum_list flags) (FQ 1))
    (ibind (call_context_lookup I CC_IsStatic RW_Read None) (\<lambda>is_static.
     ithen (constrain_equal is_static (FQ 1))
    (ithen (if is_call = FQ 1
            then ibind (stack_lookup I RW_Read (FQ 2)) (\<lambda>value. constrain_not_zero_word value)
            else iret ())
       (error_exit I)))))"

section \<open>Out of gas\<close>

text \<open>The last steps of these gadgets: the gas left is below the cost.\<close>

definition gas_not_enough :: "instruction \<Rightarrow> fq \<Rightarrow> unit instr" where
  "gas_not_enough I gas_cost =
     ibind (compare (ss_gas_left (i_curr I)) gas_cost N_BYTES_GAS) (\<lambda>(insufficient_gas, _).
     constrain_equal insufficient_gas (FQ 1))"

definition error_oog_constant :: "instruction \<Rightarrow> unit instr" where
  "error_oog_constant I =
     ibind (opcode_lookup I True) (\<lambda>opc.
     ibind (ilift (rbind (to_opcode (fq_n opc)) constant_gas_cost)) (\<lambda>cost.
     ibind (fixed_lookup F_OpcodeConstantGas opc (FQ cost) 0) (\<lambda>const_gas_entry.
     ithen (gas_not_enough I (fx_value1 const_gas_entry))
       (error_exit I))))"

definition error_oog_exp :: "instruction \<Rightarrow> unit instr" where
  "error_oog_exp I =
     ibind (opcode_lookup I True) (\<lambda>opc.
     ithen (constrain_equal opc (FQ Opcode_EXP))
    (ibind (stack_lookup I RW_Read (FQ 1)) (\<lambda>exponent.
     ibind (instr_byte_size exponent) (\<lambda>exponent_byte_size.
     let dynamic_gas_cost = FQ GAS_COST_EXP_PER_BYTE * exponent_byte_size in
     ithen (gas_not_enough I (dynamic_gas_cost + FQ GAS_COST_SLOW))
       (error_exit I)))))"

definition error_oog_account_access :: "instruction \<Rightarrow> unit instr" where
  "error_oog_account_access I =
     ibind (opcode_lookup I True) (\<lambda>opc.
     let flags = multiple_select opc (map FQ [Opcode_BALANCE, Opcode_EXTCODESIZE, Opcode_EXTCODEHASH]) in
     ithen (constrain_equal (sum_list flags) (FQ 1))
    (ibind (stack_pop I) (\<lambda>address_word.
     ibind (word_to_fq address_word N_BYTES_ACCOUNT_ADDRESS) (\<lambda>address.
     ibind (call_context_lookup I CC_TxId RW_Read None) (\<lambda>tx_id.
     ibind (read_account_to_access_list I tx_id address) (\<lambda>is_warm.
     let gas_cost = (if is_warm = FQ 1 then GAS_COST_WARM_ACCESS else GAS_COST_ACCOUNT_COLD_ACCESS) in
     ithen (gas_not_enough I (FQ gas_cost))
       (error_exit I)))))))"

definition error_oog_log :: "instruction \<Rightarrow> unit instr" where
  "error_oog_log I =
     ibind (opcode_lookup I True) (\<lambda>opc.
     ithen (range_lookup (opc - FQ Opcode_LOG0) 5)
    (ibind (stack_pop I) (\<lambda>mstart_word.
     ibind (word_to_fq mstart_word N_BYTES_MEMORY_ADDRESS) (\<lambda>mstart.
     ibind (stack_pop I) (\<lambda>msize_word.
     ibind (word_to_fq msize_word N_BYTES_MEMORY_ADDRESS) (\<lambda>msize.
     ibind (memory_expansion_dynamic_length I mstart msize None) (\<lambda>(_, memory_expansion_gas).
     let gas_cost = FQ GAS_COST_LOG + FQ GAS_COST_LOG * (opc - FQ Opcode_LOG0) + FQ GAS_COST_LOGDATA * msize
           + memory_expansion_gas in
     ithen (gas_not_enough I gas_cost)
       (error_exit I))))))))"

definition error_oog_dynamic_memory_expansion :: "instruction \<Rightarrow> unit instr" where
  "error_oog_dynamic_memory_expansion I =
     ibind (opcode_lookup I True) (\<lambda>opc.
     let flags = multiple_select opc (map FQ [Opcode_RETURN, Opcode_REVERT]) in
     ithen (constrain_equal (sum_list flags) (FQ 1))
    (ibind (stack_pop I) (\<lambda>offset_word.
     ibind (stack_pop I) (\<lambda>size_word.
     ibind (memory_offset_and_length offset_word size_word) (\<lambda>(offset, size).
     ibind (memory_expansion I offset size) (\<lambda>(_, memory_expansion_gas_cost).
     ithen (gas_not_enough I memory_expansion_gas_cost)
       (error_exit I)))))))"

definition error_oog_static_memory_expansion :: "(fq \<Rightarrow> bool) \<Rightarrow> instruction \<Rightarrow> unit instr" where
  "error_oog_static_memory_expansion truth_value I =
     ibind (opcode_lookup I True) (\<lambda>opc.
     let flags = multiple_select opc (map FQ [Opcode_MLOAD, Opcode_MSTORE, Opcode_MSTORE8]);
       is_mstore8 = flags ! 2 in
     ithen (constrain_equal (sum_list flags) (FQ 1))
    (ibind (stack_pop I) (\<lambda>offset_word.
     ibind (word_to_fq offset_word N_BYTES_MEMORY_ADDRESS) (\<lambda>offset.
     let constant_gas = FQ GAS_COST_FASTEST; size = (if truth_value is_mstore8 then 1 else 32) in
     ibind (memory_expansion_dynamic_length I offset (FQ size) None) (\<lambda>(_, memory_expansion_gas).
     ithen (gas_not_enough I (constant_gas + memory_expansion_gas))
       (error_exit I))))))"

definition error_oog_memory_copy :: "instruction \<Rightarrow> unit instr" where
  "error_oog_memory_copy I =
     ibind (opcode_lookup I True) (\<lambda>opc.
     let flags = multiple_select opc (map FQ [Opcode_CALLDATACOPY, Opcode_CODECOPY, Opcode_EXTCODECOPY, Opcode_RETURNDATACOPY]);
       is_ext_code_copy = flags ! 2 in
     ithen (constrain_equal (sum_list flags) (FQ 1))
    (ibind (if is_ext_code_copy = FQ 1 then stack_lookup I RW_Read (FQ 0) else iret (WordLH 0 0)) (\<lambda>external_address.
     let stack_offset = (if is_ext_code_copy = FQ 1 then 1 else 0) in
     ibind (stack_lookup I RW_Read (FQ stack_offset)) (\<lambda>memory_offset_word.
     ibind (stack_lookup I RW_Read (FQ (stack_offset + 2))) (\<lambda>copy_size_word.
     ibind (if is_ext_code_copy = FQ 1
            then ibind (word_to_fq external_address N_BYTES_MEMORY_ADDRESS) (\<lambda>address.
              ibind (call_context_lookup I CC_TxId RW_Read None) (\<lambda>tx_id.
              ibind (read_account_to_access_list I tx_id address) (\<lambda>is_warm.
              iret (if is_warm = FQ 1 then GAS_COST_WARM_ACCESS else GAS_COST_ACCOUNT_COLD_ACCESS))))
            else iret GAS_COST_FASTEST) (\<lambda>constant_gas.
     ibind (memory_offset_and_length memory_offset_word copy_size_word) (\<lambda>(memory_offset, copy_size).
     ibind (memory_expansion_dynamic_length I memory_offset copy_size None) (\<lambda>(_, memory_expansion_gas_cost).
     ibind (memory_copier_gas_cost copy_size memory_expansion_gas_cost GAS_COST_COPY) (\<lambda>dynamic_gas.
     ithen (gas_not_enough I (FQ constant_gas + dynamic_gas))
       (error_exit I))))))))))"

definition error_oog_sha3 :: "instruction \<Rightarrow> unit instr" where
  "error_oog_sha3 I =
     ibind (opcode_lookup I True) (\<lambda>opc.
     ithen (constrain_equal opc (FQ Opcode_SHA3))
    (ibind (stack_pop I) (\<lambda>offset_word.
     ibind (stack_pop I) (\<lambda>size_word.
     ibind (memory_offset_and_length offset_word size_word) (\<lambda>(memory_offset, copy_size).
     ibind (memory_expansion_dynamic_length I memory_offset copy_size None) (\<lambda>(_, memory_expansion_cost).
     ibind (constant_divmod (copy_size + FQ 31) (FQ 32) N_BYTES_MEMORY_WORD_SIZE) (\<lambda>(minimum_word_size, _).
     let dynamic_gas = minimum_word_size * FQ GAS_COST_COPY_SHA3 + memory_expansion_cost in
     ithen (gas_not_enough I (FQ GAS_COST_SHA3 + dynamic_gas))
       (error_exit I))))))))"

definition error_oog_call :: "instruction \<Rightarrow> unit instr" where
  "error_oog_call I =
     ibind (opcode_lookup I True) (\<lambda>opc.
     let flags = multiple_select opc (map FQ [Opcode_CALL, Opcode_CALLCODE, Opcode_DELEGATECALL, Opcode_STATICCALL]) in
     ithen (constrain_equal (sum_list flags) (FQ 1))
    (ibind (call_context_lookup I CC_TxId RW_Read None) (\<lambda>tx_id.
     ibind (new_call_gadget I (FQ 0) (flags ! 0) (flags ! 1) (flags ! 2) (flags ! 3)) (\<lambda>call.
     ibind (read_account_to_access_list I tx_id (cg_callee_address call)) (\<lambda>is_warm_access.
     ibind (call_gadget_gas_cost call is_warm_access (FQ 1)) (\<lambda>gas_cost.
     ithen (gas_not_enough I gas_cost)
       (error_exit I)))))))"

text \<open>\<open>Word(aux_data)\<close>: the constructor takes an integer; the other values fail its assertions.\<close>

definition word_of_aux :: "aux_data \<Rightarrow> word256 result" where
  "word_of_aux a = (case a of AuxInt n \<Rightarrow> word_of_int256 n | _ \<Rightarrow> Inl AssertionError)"

definition oog_sload_sstore_cost ::
  "instruction \<Rightarrow> fq \<Rightarrow> fq \<Rightarrow> fq \<Rightarrow> word256 \<Rightarrow> fq \<Rightarrow> int instr" where
  "oog_sload_sstore_cost I is_sload is_warm callee_address storage_key tx_id =
     (if is_sload = FQ 1
      then iret (if is_warm = FQ 1 then WARM_STORAGE_READ_COST else COLD_SLOAD_COST)
      else ibind (stack_pop I) (\<lambda>value.
        ibind (account_storage_read I callee_address storage_key tx_id) (\<lambda>value_prev.
        ibind (ilift (word_of_aux (ss_aux_data (i_curr I)))) (\<lambda>original_value.
        ibind (ilift (word_of_int256 0)) (\<lambda>zero.
        let gas_cost = (if value = value_prev then SLOAD_GAS
          else if value_prev = original_value
          then (if original_value = zero then SSTORE_SET_GAS else SSTORE_RESET_GAS)
          else SLOAD_GAS) in
        iret (if is_warm = FQ 0 then gas_cost + COLD_SLOAD_COST else gas_cost))))))"

definition error_oog_sload_sstore :: "instruction \<Rightarrow> unit instr" where
  "error_oog_sload_sstore I =
     ibind (opcode_lookup I True) (\<lambda>opc.
     let flags = multiple_select opc (map FQ [Opcode_SSTORE, Opcode_SLOAD]); is_sload = flags ! 1 in
     ithen (constrain_equal (sum_list flags) (FQ 1))
    (ibind (stack_pop I) (\<lambda>storage_key.
     ibind (call_context_lookup I CC_TxId RW_Read None) (\<lambda>tx_id.
     ibind (call_context_lookup_word I CC_CalleeAddress RW_Read None) (\<lambda>callee_address_word.
     ibind (word_to_address (wov_word callee_address_word)) (\<lambda>callee_address.
     ibind (read_account_storage_to_access_list I tx_id callee_address storage_key) (\<lambda>is_warm.
     ibind (oog_sload_sstore_cost I is_sload is_warm callee_address storage_key tx_id) (\<lambda>gas_cost.
     ibind (compare (ss_gas_left (i_curr I)) (FQ gas_cost) N_BYTES_GAS) (\<lambda>(insufficient_gas, _).
     ithen (if is_sload = FQ 1 then constrain_equal insufficient_gas (FQ 1)
            else ibind (compare (ss_gas_left (i_curr I)) (FQ GAS_COST_SSTORE_SENTRY_EIP2200) N_BYTES_GAS) (\<lambda>(lt_gas, eq_gas).
              constrain_not_zero (lt_gas + eq_gas + insufficient_gas)))
       (error_exit I))))))))))"

text \<open>The gas of a creation inside the root call is that of a transaction with the init code as data.\<close>

definition oog_create_cost :: "instruction \<Rightarrow> fq \<Rightarrow> fq \<Rightarrow> fq instr" where
  "oog_create_cost I offset sz =
     ibind (call_context_lookup I CC_IsRoot RW_Read None) (\<lambda>is_root.
     if is_root = FQ 1 then
       ibind (call_context_lookup I CC_TxId RW_Read None) (\<lambda>tx_id.
       ibind (imap (\<lambda>idx. tx_calldata_lookup I tx_id (FQ (int idx))) [0..<nat (fq_n sz)]) (\<lambda>data.
       let nz = int (length (filter (\<lambda>b. b \<noteq> 0) data)); z = int (length data) - nz in
       iret (FQ (GAS_COST_CREATION_TX + nz * GAS_COST_TX_CALL_DATA_PER_NON_ZERO_BYTE
         + z * GAS_COST_TX_CALL_DATA_PER_ZERO_BYTE))))
     else ibind (memory_expansion I offset sz) (\<lambda>(_, memory_expansion_gas_cost).
       iret (FQ GAS_COST_CREATE + memory_expansion_gas_cost)))"

definition error_oog_create :: "instruction \<Rightarrow> unit instr" where
  "error_oog_create I =
     ibind (opcode_lookup I True) (\<lambda>opc.
     let (is_create, is_create2) = pair_select opc (FQ Opcode_CREATE) (FQ Opcode_CREATE2) in
     ithen (constrain_equal (is_create + is_create2) (FQ 1))
    (ibind (stack_lookup I RW_Read (FQ 1)) (\<lambda>offset_word.
     ibind (stack_lookup I RW_Read (FQ 2)) (\<lambda>size_word.
     ibind (memory_offset_and_length offset_word size_word) (\<lambda>(offset, size).
     ibind (oog_create_cost I offset size) (\<lambda>gas_cost.
     ibind (constant_divmod (size + FQ 31) (FQ 32) N_BYTES_MEMORY_WORD_SIZE) (\<lambda>(word_size, _).
     let gas_cost = gas_cost + FQ GAS_COST_INITCODE_WORD * word_size;
       gas_cost = (if is_create2 = FQ 1 then gas_cost + FQ GAS_COST_COPY_SHA3 * word_size else gas_cost) in
     ibind (compare (FQ MAX_INIT_CODE_SIZE) size N_BYTES_U64) (\<lambda>(is_exceed_max_initcode_size, _).
     ibind (compare (ss_gas_left (i_curr I)) gas_cost N_BYTES_GAS) (\<lambda>(insufficient_gas, _).
     ithen (constrain_not_zero (insufficient_gas + is_exceed_max_initcode_size))
       (error_exit I))))))))))"

section \<open>Overflow of a gas computation\<close>

text \<open>
  The intrinsic gas of the data of a root call: the pair of the overflow of the calldata gas and of
  the init code gas. A running total above \<open>MAX_U64\<close> makes the quotient negative, and its field
  element fails the range of the comparison.
\<close>

definition transaction_data_gas_overflow :: "fq \<Rightarrow> fq list \<Rightarrow> (fq \<times> fq) instr" where
  "transaction_data_gas_overflow is_create data =
     (let data_len = int (length data); nz = int (length (filter (\<lambda>b. b \<noteq> 0) data));
        gas = (if is_create = FQ 1 then TxGasContractCreation else TxGas) in
      ibind (compare (FQ ((MAX_U64 - gas) div TxDataNonZeroGasEIP2028)) (FQ nz) N_BYTES_U64)
        (\<lambda>(is_non_zero_calldata_gas_overflow, _).
      let gas = gas + nz * GAS_COST_TX_CALL_DATA_PER_NON_ZERO_BYTE in
      ibind (if is_non_zero_calldata_gas_overflow = FQ 0
             then let z = data_len - nz in
               ibind (compare (FQ ((MAX_U64 - gas) div GAS_COST_TX_CALL_DATA_PER_ZERO_BYTE)) (FQ z) N_BYTES_U64)
                 (\<lambda>(overflow, _). iret (overflow, gas + z * GAS_COST_TX_CALL_DATA_PER_ZERO_BYTE))
             else iret (FQ 0, gas)) (\<lambda>(is_zero_calldata_gas_overflow, gas).
      ibind (if is_create = FQ 1
             then ibind (constant_divmod (FQ data_len + FQ 31) (FQ 32) N_BYTES_U64) (\<lambda>(len_words, _).
               ibind (compare (FQ ((MAX_U64 - gas) div GAS_COST_INITCODE_WORD)) len_words N_BYTES_U64)
                 (\<lambda>(overflow, _). iret overflow))
             else iret (FQ 0)) (\<lambda>is_initcode_gas_overflow.
      iret (is_non_zero_calldata_gas_overflow + is_zero_calldata_gas_overflow, is_initcode_gas_overflow)))))"

definition dynamic_gas_overflow :: "instruction \<Rightarrow> fq \<Rightarrow> (fq \<times> fq) instr" where
  "dynamic_gas_overflow I opc =
     ibind (memory_size I opc) (\<lambda>r.
     case r of
       None \<Rightarrow> ilift (Inl TypeError)
     | Some (mem_size, is_opcode_memory_size_overflow) \<Rightarrow>
         let (_, is_safe_mul_overflow) = safe_mul (to_word_size mem_size) (FQ 32) in
         iret (is_opcode_memory_size_overflow, is_safe_mul_overflow))"

definition error_gas_uint_overflow :: "(fq \<Rightarrow> bool) \<Rightarrow> instruction \<Rightarrow> unit instr" where
  "error_gas_uint_overflow truth_value I =
     ibind (opcode_lookup I True) (\<lambda>opc.
     let flags = multiple_select opc (map FQ [Opcode_CALL, Opcode_CALLCODE, Opcode_DELEGATECALL, Opcode_STATICCALL,
           Opcode_CREATE, Opcode_CREATE2, Opcode_CALLDATACOPY, Opcode_CODECOPY, Opcode_EXTCODECOPY,
           Opcode_RETURNDATACOPY, Opcode_LOG0, Opcode_LOG1, Opcode_LOG2, Opcode_LOG3, Opcode_LOG4, Opcode_SHA3,
           Opcode_MLOAD, Opcode_MSTORE, Opcode_MSTORE8, Opcode_RETURN, Opcode_REVERT]);
       is_create = flags ! 4 + flags ! 5; is_dynamic_gas = sum_list flags in
     ibind (call_context_lookup I CC_CallDataLength RW_Read None) (\<lambda>calldata_length.
     ibind (call_context_lookup I CC_TxId RW_Read None) (\<lambda>tx_id.
     ibind (call_context_lookup I CC_IsRoot RW_Read None) (\<lambda>is_root.
     ibind (if is_root = FQ 1
            then ibind (imap (\<lambda>idx. tx_calldata_lookup I tx_id (FQ (int idx))) [0..<nat (fq_n calldata_length)]) (\<lambda>data.
              if length data > 0 then transaction_data_gas_overflow is_create data else iret (FQ 0, FQ 0))
            else iret (FQ 0, FQ 0)) (\<lambda>(is_calldata_gas_overflow, is_initcode_gas_overflow).
     ibind (if truth_value is_dynamic_gas then dynamic_gas_overflow I opc else iret (FQ 0, FQ 0))
       (\<lambda>(is_opcode_memory_size_overflow, is_safe_mul_overflow).
     let is_overflow = is_opcode_memory_size_overflow + is_safe_mul_overflow + is_calldata_gas_overflow
           + is_initcode_gas_overflow in
     ithen (constrain_not_zero is_overflow)
       (error_exit I)))))))"

end
