(* ===== verification/Exec_Precompile.thy ===== *)
theory Exec_Precompile
  imports Exec_Create Exec_Error
begin

text \<open>
  The gadgets of the precompiled contracts in
  \<^verbatim>\<open>src/zkevm_specs/evm_circuit/execution/precompiles\<close>: ecadd.py, ecmul.py, ecpairing.py, ecrecover.py
  and error_oog_precompile.py (the copy of bytes, dataCopy.py, is in \<open>Exec_Copy\<close>). The points and
  results come from \<open>aux_data\<close> and are checked by a lookup into the table of the curve circuit or
  the signature circuit.
\<close>

section \<open>The first and the last lines of a precompile\<close>

text \<open>The address in the call context is that of the execution state, with its base gas.\<close>

definition precompile_entry :: "instruction \<Rightarrow> int \<Rightarrow> unit instr" where
  "precompile_entry I gas =
     ibind (call_context_lookup_word I CC_CalleeAddress RW_Read None) (\<lambda>address_word.
     ibind (word_to_address (wov_word address_word)) (\<lambda>address.
     ibind (fixed_lookup F_PrecompileInfo (FQ (es_int (ss_execution_state (i_curr I)))) address (FQ gas)) (\<lambda>_.
     iret ())))"

definition precompile_exit :: "instruction \<Rightarrow> fq \<Rightarrow> fq \<Rightarrow> unit instr" where
  "precompile_exit I return_data_length gas_left =
     ibind current_rw_counter_offset (\<lambda>k.
     step_state_transition_to_restored_context I k (FQ 0) return_data_length gas_left None)"

definition aux_word_at :: "instruction \<Rightarrow> nat \<Rightarrow> word256 result" where
  "aux_word_at I i = rbind (aux_nth (ss_aux_data (i_curr I)) i) aux_word"

definition aux_fq_at :: "instruction \<Rightarrow> nat \<Rightarrow> fq result" where
  "aux_fq_at I i = rbind (aux_nth (ss_aux_data (i_curr I)) i) aux_fq"

section \<open>Addition and multiplication on the curve\<close>

definition ecAdd :: "instruction \<Rightarrow> unit instr" where
  "ecAdd I =
     ibind (call_context_lookup I CC_IsSuccess RW_Read None) (\<lambda>is_success.
     ithen (precompile_entry I Bn254AddGas)
    (ibind (ilift (aux_word_at I 0)) (\<lambda>px.
     ibind (ilift (aux_word_at I 1)) (\<lambda>py.
     ibind (ilift (aux_word_at I 2)) (\<lambda>qx.
     ibind (ilift (aux_word_at I 3)) (\<lambda>qy.
     ibind (ilift (aux_fq_at I 4)) (\<lambda>outx.
     ibind (ilift (aux_fq_at I 5)) (\<lambda>outy.
     ithen (if is_success = FQ 0 then ithen (constrain_zero outx) (constrain_zero outy) else iret ())
    (ithen (ecc_lookup I (FQ (ec_int EC_Add)) px py qx qy (FQ 0) outx outy is_success)
    (let gas_left = (if is_success = FQ 1 then ss_gas_left (i_curr I) - FQ Bn254AddGas else FQ 0) in
     precompile_exit I (if is_success = FQ 1 then FQ 64 else FQ 0) gas_left))))))))))"

definition ecMul :: "instruction \<Rightarrow> unit instr" where
  "ecMul I =
     ibind (call_context_lookup I CC_IsSuccess RW_Read None) (\<lambda>is_success.
     ithen (precompile_entry I Bn254ScalarMulGas)
    (ibind (ilift (aux_word_at I 0)) (\<lambda>px.
     ibind (ilift (aux_word_at I 1)) (\<lambda>py.
     ibind (ilift (aux_word_at I 2)) (\<lambda>s.
     ibind (ilift (aux_fq_at I 3)) (\<lambda>outx.
     ibind (ilift (aux_fq_at I 4)) (\<lambda>outy.
     ithen (if is_success = FQ 0 \<or> int_value s = 0 \<or> (int_value px = 0 \<and> int_value py = 0)
            then ithen (constrain_zero outx) (constrain_zero outy) else iret ())
    (ibind (ilift (word_of_int256 0)) (\<lambda>zero.
     ithen (ecc_lookup I (FQ (ec_int EC_Mul)) px py s zero (FQ 0) outx outy is_success)
    (let gas_left = (if is_success = FQ 1 then ss_gas_left (i_curr I) - FQ Bn254ScalarMulGas else FQ 0) in
     precompile_exit I (if is_success = FQ 1 then FQ 64 else FQ 0) gas_left))))))))))"

section \<open>Pairing\<close>

definition BYTES_PER_PAIRING :: int where
  "BYTES_PER_PAIRING = 192"

definition ecPairing :: "instruction \<Rightarrow> unit instr" where
  "ecPairing I =
     ibind (call_context_lookup I CC_IsSuccess RW_Read None) (\<lambda>is_success.
     ibind (call_context_lookup I CC_CallDataLength RW_Read None) (\<lambda>calldata_len.
     ithen (precompile_entry I Bn254PairingBaseGas)
    (ibind (ilift (aux_fq_at I 0)) (\<lambda>input_rlc.
     ibind (ilift (aux_fq_at I 1)) (\<lambda>input_pairs.
     ibind (ilift (aux_fq_at I 2)) (\<lambda>is_valid_input.
     ibind (ilift (aux_fq_at I 3)) (\<lambda>output.
     ithen (constrain_equal is_success is_valid_input)
    (ithen (if fq_n calldata_len mod BYTES_PER_PAIRING \<noteq> 0
            then ithen (constrain_equal output (FQ 0)) (constrain_equal is_valid_input (FQ 0))
            else ithen (constrain_equal calldata_len (FQ (fq_n input_pairs * BYTES_PER_PAIRING)))
              (if calldata_len = FQ 0
               then ithen (constrain_zero input_pairs)
                 (ithen (constrain_zero input_rlc) (constrain_equal output (FQ 1)))
               else iret ()))
    (ibind (ilift (word_of_int256 0)) (\<lambda>zero.
     ithen (ecc_lookup I (FQ (ec_int EC_Pairing)) zero zero zero zero input_rlc (FQ 0) output is_valid_input)
    (let gas_left = (if is_success = FQ 1
           then ss_gas_left (i_curr I) - FQ Bn254PairingBaseGas - FQ (fq_n input_pairs * Bn254PairingPerPointGas)
           else FQ 0) in
     precompile_exit I (if is_valid_input = FQ 1 then FQ 32 else FQ 0) gas_left)))))))))))"

section \<open>Signature recovery\<close>

definition SECP256K1N :: int where
  "SECP256K1N = 0xFFFFFFFFFFFFFFFFFFFFFFFFFFFFFFFEBAAEDCE6AF48A03BBFD25E8CD0364141"

text \<open>The object \<open>PrecompileAuxData\<close> is the sequence of its seven fields in \<open>aux_data[0]\<close>.\<close>

record precompile_aux_data =
  pa_msg_hash :: word256
  pa_sig_v :: word256
  pa_sig_r :: word256
  pa_sig_s :: word256
  pa_recovered_addr :: fq
  pa_input_rlc :: fq
  pa_output_rlc :: fq

definition PrecompileAuxData :: "aux_data \<Rightarrow> precompile_aux_data result" where
  "PrecompileAuxData a =
     (case a of
        AuxSeq xs \<Rightarrow>
          if length xs \<noteq> 7 then Inl AttributeError
          else
            rbind (rmap aux_word (take 4 xs)) (\<lambda>ws.
            rbind (rmap aux_fq (drop 4 xs)) (\<lambda>vs.
            Inr \<lparr>pa_msg_hash = ws ! 0, pa_sig_v = ws ! 1, pa_sig_r = ws ! 2, pa_sig_s = ws ! 3,
              pa_recovered_addr = vs ! 0, pa_input_rlc = vs ! 1, pa_output_rlc = vs ! 2\<rparr>))
      | _ \<Rightarrow> Inl AttributeError)"

text \<open>The two commitments: the little-endian words one after the other, reversed as a whole.\<close>

definition ecRecover_rlcs :: "precompile_aux_data \<Rightarrow> fq \<Rightarrow> unit instr" where
  "ecRecover_rlcs a keccak_randomness =
     ibind (ilift (rmap (\<lambda>w. to_bytes_le (int_value w) 32) [pa_msg_hash a, pa_sig_v a, pa_sig_r a, pa_sig_s a]))
       (\<lambda>input_bytes.
     ibind (ilift (RLC_of_bytes (rev (concat input_bytes)) keccak_randomness 128)) (\<lambda>input_rlc.
     ithen (constrain_equal (pa_input_rlc a) (rlc_value input_rlc))
    (ibind (ilift (to_bytes_le (fq_n (pa_recovered_addr a)) 32)) (\<lambda>output_bytes.
     ibind (ilift (RLC_of_bytes (rev output_bytes) keccak_randomness 32)) (\<lambda>output_rlc.
     constrain_equal (pa_output_rlc a) (rlc_value output_rlc))))))"

definition ecRecover_valid :: "precompile_aux_data \<Rightarrow> (fq \<times> fq) instr" where
  "ecRecover_valid a =
     ibind (ilift (word_of_int256 SECP256K1N)) (\<lambda>n.
     ibind (compare_word (pa_sig_r a) n) (\<lambda>(sig_r_upper_bound, _).
     ibind (compare_word (pa_sig_s a) n) (\<lambda>(sig_s_upper_bound, _).
     let sig_r_is_non_zero = fq_of_bool (is_zero_word (pa_sig_r a) \<noteq> FQ 1);
       sig_s_is_non_zero = fq_of_bool (is_zero_word (pa_sig_s a) \<noteq> FQ 1);
       valid_r_s = is_equal (sig_r_upper_bound + sig_s_upper_bound + sig_r_is_non_zero + sig_s_is_non_zero) (FQ 4) in
     ibind (ilift (word_of_int256 27)) (\<lambda>v27.
     ibind (ilift (word_of_int256 28)) (\<lambda>v28.
     let is_equal_27 = is_equal_word (pa_sig_v a) v27; is_equal_28 = is_equal_word (pa_sig_v a) v28;
       valid_v = is_equal (is_equal_27 + is_equal_28) (FQ 1) in
     iret (valid_r_s, valid_v))))))"

definition ecRecover :: "instruction \<Rightarrow> unit instr" where
  "ecRecover I =
     ibind (call_context_lookup I CC_IsSuccess RW_Read None) (\<lambda>is_success.
     ithen (precompile_entry I EcrecoverGas)
    (ibind (ilift (rbind (aux_nth (ss_aux_data (i_curr I)) 0) PrecompileAuxData)) (\<lambda>a.
     ibind (ilift (aux_fq_at I 1)) (\<lambda>keccak_randomness.
     let is_recovered = fq_of_bool (is_zero (pa_recovered_addr a) \<noteq> FQ 1) in
     ithen (ecRecover_rlcs a keccak_randomness)
    (ithen (constrain_equal is_success (FQ 1))
    (ibind (ecRecover_valid a) (\<lambda>(valid_r_s, valid_v).
     ithen (if valid_r_s + valid_v = FQ 2
            then sig_lookup I (pa_msg_hash a) (lo (pa_sig_v a) - FQ 27) (pa_sig_r a) (pa_sig_s a)
              (pa_recovered_addr a) is_recovered
            else ithen (constrain_zero is_recovered) (constrain_zero (pa_recovered_addr a)))
       (precompile_exit I (if is_recovered = FQ 1 then FQ 32 else FQ 0)
         (ss_gas_left (i_curr I) - FQ EcrecoverGas)))))))))"

section \<open>Out of gas in a precompile\<close>

text \<open>
  The cost is an \<open>int\<close>, and stays one for every contract but the pairing and the copy of bytes,
  which add a field element. The comparison reads the attribute \<open>expr\<close> of the cost, which an \<open>int\<close>
  does not have. The number of pairs is a quotient in the field.
\<close>

datatype int_or_fq = PlainInt int | FieldElement fq

definition oog_precompile_cost :: "instruction \<Rightarrow> precompile \<Rightarrow> fq \<Rightarrow> int_or_fq instr" where
  "oog_precompile_cost I p calldata_len =
     (let gas_cost = pi_base_gas (PRECOMPILE_INFO_MAP p) in
      if p = PC_BN254PAIRING then
        let pairs = fq_div (ext_prime_field_inv (i_ext I)) calldata_len (FQ BYTES_PER_PAIRING) in
        iret (FieldElement (FQ gas_cost + FQ Bn254PairingPerPointGas * pairs))
      else if p = PC_DATACOPY then
        ibind (memory_copier_gas_cost calldata_len (FQ 0) IdentityPerWordGas) (\<lambda>copier_gas_cost.
        iret (FieldElement (FQ gas_cost + copier_gas_cost)))
      else iret (PlainInt gas_cost))"

definition compare_gas_cost :: "fq \<Rightarrow> int_or_fq \<Rightarrow> (fq \<times> fq) instr" where
  "compare_gas_cost gas_left cost =
     (case cost of
        FieldElement c \<Rightarrow> compare gas_left c N_BYTES_GAS
      | PlainInt n \<Rightarrow> ithen (iassert (fq_n gas_left < 256 ^ N_BYTES_GAS)) (ilift (Inl AttributeError)))"

definition error_oog_precompile :: "instruction \<Rightarrow> unit instr" where
  "error_oog_precompile I =
     ibind (call_context_lookup_word I CC_CalleeAddress RW_Read None) (\<lambda>address_word.
     ibind (word_to_address (wov_word address_word)) (\<lambda>address.
     ibind (call_context_lookup I CC_CallDataLength RW_Read None) (\<lambda>calldata_len.
     ithen (constrain_equal (precompile address) (FQ 1))
    (ibind (ilift (to_precompile (fq_n address))) (\<lambda>p.
     ibind (oog_precompile_cost I p calldata_len) (\<lambda>gas_cost.
     ibind (compare_gas_cost (ss_gas_left (i_curr I)) gas_cost) (\<lambda>(insufficient_gas, _).
     ithen (constrain_equal insufficient_gas (FQ 1))
       (error_exit I))))))))"

end
