(* ===== verification/Main_Verify.thy ===== *)
theory Main_Verify
  imports Exec_Context Exec_Shift Exec_Signed Exec_Memory Exec_Account Exec_Tx Exec_Precompile
begin

text \<open>
  The verification of a trace (\<^verbatim>\<open>src/zkevm_specs/evm_circuit/main.py\<close>) and the table
  \<open>EXECUTION_STATE_IMPL\<close> from execution states to gadgets
  (\<^verbatim>\<open>evm_circuit/execution/__init__.py\<close>).

  Two things the gadgets use are settled by neither the source nor its documentation: the truth
  value of a field object, whose class comes from py_ecc, and the order in which Python iterates
  over a set. They are the fields of \<open>runtime\<close>.
\<close>

record runtime =
  rt_truth_value :: "fq \<Rightarrow> bool"
  rt_set_order :: "withdrawal_row set \<Rightarrow> withdrawal_row list"

text \<open>
  The states without an entry: the failures that the gadgets of the calls and creations handle,
  REVERT, PC, JUMPDEST, DUP, SWAP, SELFDESTRUCT and its error, and four precompiles.
\<close>

definition EXECUTION_STATE_IMPL :: "runtime \<Rightarrow> execution_state \<Rightarrow> (instruction \<Rightarrow> unit instr) option" where
  "EXECUTION_STATE_IMPL R = map_of [
     (ES_BeginTx, begin_tx),
     (ES_EndTx, end_tx),
     (ES_EndBlock, end_block (rt_set_order R)),
     (ES_ADD, add_sub),
     (ES_ADDMOD, addmod),
     (ES_ADDRESS, address),
     (ES_MULMOD, mulmod),
     (ES_MUL, mul_div_mod),
     (ES_NOT, not_opcode),
     (ES_ORIGIN, origin),
     (ES_BALANCE, balance),
     (ES_BITWISE, bitwise),
     (ES_CALLER, caller),
     (ES_CALLVALUE, callvalue),
     (ES_CALLDATACOPY, calldatacopy),
     (ES_CALLDATALOAD, calldataload),
     (ES_CALLDATASIZE, calldatasize),
     (ES_CODECOPY, codecopy),
     (ES_CODESIZE, codesize),
     (ES_BlockCtx, blockctx),
     (ES_BLOCKHASH, blockhash),
     (ES_BYTE, byte),
     (ES_JUMP, jump),
     (ES_JUMPI, jumpi (rt_truth_value R)),
     (ES_POP, pop),
     (ES_PUSH, push),
     (ES_RETURNDATASIZE, returndatasize),
     (ES_RETURNDATACOPY, returndatacopy),
     (ES_CMP, cmp),
     (ES_SCMP, scmp),
     (ES_GAS, gas),
     (ES_SHA3, sha3),
     (ES_SLOAD, sload),
     (ES_SSTORE, sstore),
     (ES_SELFBALANCE, selfbalance),
     (ES_SIGNEXTEND, signextend),
     (ES_GASPRICE, gasprice),
     (ES_EXTCODECOPY, extcodecopy),
     (ES_EXTCODEHASH, extcodehash),
     (ES_EXTCODESIZE, extcodesize),
     (ES_EXP, exp_opcode),
     (ES_LOG, log),
     (ES_MEMORY, memory),
     (ES_MSIZE, msize),
     (ES_CALL_OP, callop),
     (ES_ISZERO, iszero),
     (ES_SAR, sar),
     (ES_SDIV_SMOD, sdiv_smod),
     (ES_SHL_SHR, shl_shr),
     (ES_CREATE, create),
     (ES_CREATE2, create),
     (ES_STOP, stop),
     (ES_RETURN, return_revert (rt_truth_value R)),
     (ES_ErrorInvalidJump, error_invalid_jump),
     (ES_ErrorGasUintOverflow, error_gas_uint_overflow (rt_truth_value R)),
     (ES_ErrorOutOfGasCall, error_oog_call),
     (ES_ErrorInvalidOpcode, error_invalid_opcode),
     (ES_ErrorOutOfGasConstant, error_oog_constant),
     (ES_ErrorStack, error_stack),
     (ES_ErrorOutOfGasDynamicMemoryExpansion, error_oog_dynamic_memory_expansion),
     (ES_ErrorOutOfGasMemoryCopy, error_oog_memory_copy),
     (ES_ErrorOutOfGasLOG, error_oog_log),
     (ES_ErrorWriteProtection, error_write_protection),
     (ES_ErrorMaxCodeSizeExceeded, error_code_store),
     (ES_ErrorOutOfGasCodeStore, error_code_store),
     (ES_ErrorOutOfGasEXP, error_oog_exp),
     (ES_ErrorInvalidCreationCode, error_invalid_creation_code),
     (ES_ErrorOutOfGasSHA3, error_oog_sha3),
     (ES_ErrorOutOfGasAccountAccess, error_oog_account_access),
     (ES_ErrorOutOfGasStaticMemoryExpansion, error_oog_static_memory_expansion (rt_truth_value R)),
     (ES_ErrorOutOfGasSloadSstore, error_oog_sload_sstore),
     (ES_ErrorReturnDataOutOfBound, error_return_data_out_of_bound),
     (ES_ErrorOutOfGasCREATE, error_oog_create),
     (ES_ErrorOutOfGasPrecompile, error_oog_precompile),
     (ES_ECRECOVER, ecRecover),
     (ES_DATACOPY, dataCopy),
     (ES_BN254_ADD, ecAdd),
     (ES_BN254_PAIRING, ecPairing),
     (ES_BN254_SCALAR_MUL, ecMul)]"

section \<open>One step\<close>

definition verify_step :: "runtime \<Rightarrow> instruction \<Rightarrow> unit instr" where
  "verify_step R I =
     ithen (if i_is_first_step I then
         ithen (constrain_in (FQ (es_int (ss_execution_state (i_curr I))))
           [FQ (es_int ES_BeginTx), FQ (es_int ES_EndBlock)])
           (constrain_equal (ss_rw_counter (i_curr I)) (FQ 1))
       else iret ())
    (ithen (if i_is_last_step I
            then constrain_equal (FQ (es_int (ss_execution_state (i_curr I)))) (FQ (es_int ES_EndBlock))
            else constrain_execution_state_transition I)
       (case EXECUTION_STATE_IMPL R (ss_execution_state (i_curr I)) of
          Some gadget \<Rightarrow> gadget I
        | None \<Rightarrow> ilift (Inl NotImplementedError)))"

section \<open>A trace\<close>

definition DUMMY_STEP_STATE :: step_state where
  "DUMMY_STEP_STATE = StepState ES_EndBlock (-1)"

definition step_instruction ::
  "tables \<Rightarrow> externals \<Rightarrow> bool \<Rightarrow> bool \<Rightarrow> step_state list \<Rightarrow> nat \<Rightarrow> instruction" where
  "step_instruction T ext begin_with_first_step end_with_last_step steps idx =
     \<lparr>i_tables = T, i_curr = steps ! idx, i_next = steps ! (idx + 1),
      i_is_first_step = (begin_with_first_step \<and> idx = 0),
      i_is_last_step = (end_with_last_step \<and> int idx = int (length steps) - 2), i_ext = ext\<rparr>"

text \<open>
  The loop over the pairs of consecutive steps; it stops at the first exception. The handler
  catches \<open>AssertionError\<close> only, so every other exception leaves \<open>verify_steps\<close> itself.
\<close>

definition verify_pairs ::
  "runtime \<Rightarrow> tables \<Rightarrow> externals \<Rightarrow> bool \<Rightarrow> bool \<Rightarrow> step_state list \<Rightarrow> unit result" where
  "verify_pairs R T ext begin_with_first_step end_with_last_step steps =
     riter (\<lambda>idx.
       rbind (verify_step R (step_instruction T ext begin_with_first_step end_with_last_step steps idx) offsets0)
         (\<lambda>_. Inr ())) [0..<length steps - 1]"

definition verify_steps ::
  "runtime \<Rightarrow> tables \<Rightarrow> externals \<Rightarrow> step_state list \<Rightarrow> bool \<Rightarrow> bool \<Rightarrow> bool \<Rightarrow> unit result" where
  "verify_steps R T ext steps begin_with_first_step end_with_last_step success =
     (let steps' = (if end_with_last_step then steps @ [DUMMY_STEP_STATE] else steps) in
      case verify_pairs R T ext begin_with_first_step end_with_last_step steps' of
        Inr _ \<Rightarrow> assert_that success
      | Inl AssertionError \<Rightarrow> if success then Inl AssertionError else Inr ()
      | Inl e \<Rightarrow> Inl e)"

end
