(* ===== verification/Step_Frame.thy ===== *)
theory Step_Frame
  imports Main_Verify
begin

text \<open>
  What every accepted step of a group of gadgets imposes on the next step, whatever the gadget
  reads: \<open>ensures P m\<close> says that \<open>P\<close> holds once \<open>m\<close> has succeeded, and is proved along the
  sequencing of the gadget with the rules \<open>ensures_intros\<close>.
\<close>

section \<open>What a successful method ensures\<close>

definition ensures :: "bool \<Rightarrow> 'a instr \<Rightarrow> bool" where
  "ensures P m \<longleftrightarrow> (\<forall>s. succeeds m s \<longrightarrow> P)"

named_theorems ensures_intros "rules that follow the sequencing of a gadget"

lemma ensures_bind [ensures_intros]: "(\<And>x. ensures P (f x)) \<Longrightarrow> ensures P (ibind m f)"
  by (auto simp: ensures_def succeeds_simps)

lemma ensures_then [ensures_intros]: "ensures P k \<Longrightarrow> ensures P (ithen m k)"
  by (auto simp: ensures_def succeeds_simps)

lemma ensures_pair [ensures_intros]: "(\<And>x y. ensures P (f x y)) \<Longrightarrow> ensures P (case p of (x, y) \<Rightarrow> f x y)"
  by (cases p) simp

lemma ensures_pair_arg [ensures_intros]:
  "(\<And>x y. ensures P (f x y z)) \<Longrightarrow> ensures P ((case p of (x, y) \<Rightarrow> f x y) z)"
  by (cases p) simp

lemma ensures_let [ensures_intros]: "ensures P (f x) \<Longrightarrow> ensures P (Let x f)"
  by simp

lemma ensures_raise [ensures_intros]: "ensures P (ilift (Inl e))"
  by (simp add: ensures_def succeeds_iff ilift_ok)

lemma ensures_split [ensures_intros]: "ensures P m \<Longrightarrow> ensures P n \<Longrightarrow> ensures P (if b then m else n)"
  by simp

text \<open>The step within a call, and the part of it that all gadgets share.\<close>

definition keeps_call :: "instruction \<Rightarrow> bool" where
  "keeps_call I \<longleftrightarrow>
     ss_call_id (i_next I) = ss_call_id (i_curr I) \<and> ss_is_root (i_next I) = ss_is_root (i_curr I) \<and>
     ss_is_create (i_next I) = ss_is_create (i_curr I) \<and> ss_code_hash (i_next I) = ss_code_hash (i_curr I) \<and>
     fq_n (ss_gas_left (i_next I)) < 2 ^ 64"

lemma ensures_keeps_call [ensures_intros]:
  "ensures (keeps_call I) (step_state_transition_in_same_context I opc args)"
  by (auto simp: ensures_def succeeds_simps in_same_context_def Let_def keeps_call_def)

section \<open>The gadgets that stay within the call\<close>

definition call_states :: "execution_state list" where
  "call_states = [ES_ADD, ES_ADDMOD, ES_ADDRESS, ES_MULMOD, ES_MUL, ES_NOT, ES_ORIGIN, ES_BALANCE, ES_BITWISE,
     ES_CALLER, ES_CALLVALUE, ES_CALLDATACOPY, ES_CALLDATALOAD, ES_CALLDATASIZE, ES_CODECOPY, ES_CODESIZE,
     ES_BlockCtx, ES_BLOCKHASH, ES_BYTE, ES_JUMP, ES_JUMPI, ES_POP, ES_PUSH, ES_RETURNDATASIZE,
     ES_RETURNDATACOPY, ES_CMP, ES_SCMP, ES_GAS, ES_SHA3, ES_SLOAD, ES_SSTORE, ES_SELFBALANCE, ES_SIGNEXTEND,
     ES_GASPRICE, ES_EXTCODECOPY, ES_EXTCODEHASH, ES_EXTCODESIZE, ES_EXP, ES_LOG, ES_MEMORY, ES_MSIZE,
     ES_ISZERO, ES_SAR, ES_SDIV_SMOD, ES_SHL_SHR]"

lemmas compare_gadgets = add_sub_def iszero_def cmp_def scmp_def not_opcode_def bitwise_def byte_def
lemmas muldiv_gadgets = mul_div_mod_def addmod_def addmod_body_def mulmod_def sdiv_smod_def
lemmas context_gadgets = pop_def push_def gas_def gasprice_def jump_def jumpi_def msize_def address_def
  caller_def callvalue_def calldatasize_def codesize_def returndatasize_def origin_def selfbalance_def blockctx_def
lemmas other_gadgets = shl_shr_def sar_def signextend_def exp_opcode_def memory_def sload_def sstore_def
  balance_def extcodesize_def extcodehash_def blockhash_def calldatacopy_def calldataload_def codecopy_def
  extcodecopy_def returndatacopy_def sha3_def log_def

lemma compare_gadgets_keep_call:
  "ensures (keeps_call I) (add_sub I)" "ensures (keeps_call I) (iszero I)" "ensures (keeps_call I) (cmp I)"
  "ensures (keeps_call I) (scmp I)" "ensures (keeps_call I) (not_opcode I)" "ensures (keeps_call I) (bitwise I)"
  "ensures (keeps_call I) (byte I)"
  unfolding compare_gadgets by (intro ensures_intros)+

lemma muldiv_gadgets_keep_call:
  "ensures (keeps_call I) (mul_div_mod I)" "ensures (keeps_call I) (addmod I)" "ensures (keeps_call I) (mulmod I)"
  "ensures (keeps_call I) (sdiv_smod I)"
  unfolding muldiv_gadgets by (intro ensures_intros)+

lemma context_gadgets_keep_call:
  "ensures (keeps_call I) (pop I)" "ensures (keeps_call I) (push I)" "ensures (keeps_call I) (gas I)"
  "ensures (keeps_call I) (gasprice I)" "ensures (keeps_call I) (jump I)" "ensures (keeps_call I) (jumpi t I)"
  "ensures (keeps_call I) (msize I)" "ensures (keeps_call I) (address I)" "ensures (keeps_call I) (caller I)"
  "ensures (keeps_call I) (callvalue I)" "ensures (keeps_call I) (calldatasize I)"
  "ensures (keeps_call I) (codesize I)" "ensures (keeps_call I) (returndatasize I)"
  "ensures (keeps_call I) (origin I)" "ensures (keeps_call I) (selfbalance I)" "ensures (keeps_call I) (blockctx I)"
  unfolding context_gadgets by (intro ensures_intros)+

lemma other_gadgets_keep_call:
  "ensures (keeps_call I) (shl_shr I)" "ensures (keeps_call I) (sar I)" "ensures (keeps_call I) (signextend I)"
  "ensures (keeps_call I) (exp_opcode I)" "ensures (keeps_call I) (memory I)" "ensures (keeps_call I) (sload I)"
  "ensures (keeps_call I) (sstore I)" "ensures (keeps_call I) (balance I)" "ensures (keeps_call I) (extcodesize I)"
  "ensures (keeps_call I) (extcodehash I)" "ensures (keeps_call I) (blockhash I)"
  "ensures (keeps_call I) (calldatacopy I)" "ensures (keeps_call I) (calldataload I)"
  "ensures (keeps_call I) (codecopy I)" "ensures (keeps_call I) (extcodecopy I)"
  "ensures (keeps_call I) (returndatacopy I)" "ensures (keeps_call I) (sha3 I)" "ensures (keeps_call I) (log I)"
  unfolding other_gadgets by (intro ensures_intros)+

lemma implemented_lookup:
  assumes "es \<in> set call_states" "EXECUTION_STATE_IMPL R es = Some gadget"
  shows "ensures (keeps_call I) (gadget I)"
  using assms
  by (auto simp: call_states_def EXECUTION_STATE_IMPL_def compare_gadgets_keep_call muldiv_gadgets_keep_call
      context_gadgets_keep_call other_gadgets_keep_call simp del: neq0_conv)

end
