(* ===== verification/Step_Gas.thy ===== *)
theory Step_Gas
  imports Step_Frame
begin

text \<open>
  Every accepted step within a call pays gas: \<open>pays\<close> follows from the constant cost of the opcode
  and a bound on the dynamic cost, which is a field element. EXP is left out, because its gadget
  charges nothing for the exponent 0.
\<close>

definition pays :: "instruction \<Rightarrow> bool" where
  "pays I \<longleftrightarrow> fq_n (ss_gas_left (i_next I)) < fq_n (ss_gas_left (i_curr I))"

section \<open>Costs of the opcodes\<close>

definition paid_opcode :: "opcode \<Rightarrow> bool" where
  "paid_opcode c \<longleftrightarrow>
     c \<in> set valid_opcodes \<and> (case constant_gas_cost c of Inr k \<Rightarrow> 1 \<le> k | Inl e \<Rightarrow> False)"

definition paid_state :: "execution_state \<Rightarrow> bool" where
  "paid_state es \<longleftrightarrow> list_all (\<lambda>(c, x). paid_opcode c) (opcode_aux_pairs (responsible_opcode es))"

lemma constant_costs_bounded:
  "list_all (\<lambda>c. case constant_gas_cost c of Inr k \<Rightarrow> 0 \<le> k \<and> k < 2 ^ 20 | Inl e \<Rightarrow> True) valid_opcodes"
  by code_simp

lemma constant_cost_bounds:
  assumes "rbind (to_opcode n) constant_gas_cost = Inr k"
  shows "0 \<le> k" "k < 2 ^ 20"
proof -
  have "n \<in> set valid_opcodes" "constant_gas_cost n = Inr k"
    using assms by (auto simp: rbind_ok to_opcode_ok)
  then show "0 \<le> k" "k < 2 ^ 20"
    using constant_costs_bounded by (auto simp: list_all_iff)
qed

text \<open>What a dynamic cost has to be: no wrap-around, and positive where the constant cost is not.\<close>

definition charged :: "instruction \<Rightarrow> fq \<Rightarrow> bool" where
  "charged I d \<longleftrightarrow> fq_n d < 2 ^ 128 \<and> (1 \<le> fq_n d \<or> paid_state (ss_execution_state (i_curr I)))"

lemma in_same_context_pays:
  assumes ctx: "in_same_context I opc args" and d: "charged I (sc_dynamic_gas_cost args)"
  shows "pays I"
proof -
  obtain c x where cx: "(c, x) \<in> set (opcode_aux_pairs (responsible_opcode (ss_execution_state (i_curr I))))"
      "opc = FQ c"
    using ctx by (auto simp: in_same_context_def Let_def)
  obtain cost where cost: "rbind (to_opcode (fq_n opc)) constant_gas_cost = Inr cost"
      "fq_n (ss_gas_left (i_curr I) - (FQ cost + sc_dynamic_gas_cost args)) < 2 ^ 64"
      "ss_gas_left (i_next I) = ss_gas_left (i_curr I) - (FQ cost + sc_dynamic_gas_cost args)"
    using ctx by (auto simp: in_same_context_def Let_def)
  note bounds = constant_cost_bounds [OF cost(1)]
  let ?d = "fq_n (sc_dynamic_gas_cost args)"
  have sum: "FQ cost + sc_dynamic_gas_cost args = FQ (cost + ?d)" by (simp add: FQ_arith)
  have total: "0 \<le> cost + ?d" "cost + ?d < 2 ^ 200"
    using bounds d fq_n_nonneg [of "sc_dynamic_gas_cost args"] by (simp_all add: charged_def)
  have "1 \<le> cost + ?d"
  proof (cases "1 \<le> ?d")
    case True
    then show ?thesis using bounds by simp
  next
    case False
    then have "paid_opcode c" using d cx(1) by (auto simp: charged_def paid_state_def list_all_iff)
    moreover have "fq_n opc = c"
      using \<open>paid_opcode c\<close> valid_opcodes_byte [of c] by (simp add: paid_opcode_def cx(2) fq_modulus_def)
    ultimately have "1 \<le> cost" using cost(1) by (auto simp: paid_opcode_def rbind_ok to_opcode_ok)
    then show ?thesis by (simp add: add_increasing2)
  qed
  then show ?thesis
    using gas_paid [OF total, of "ss_gas_left (i_curr I)" "ss_gas_left (i_next I)"] cost sum
    unfolding pays_def by simp
qed

section \<open>The cost of memory\<close>

lemma fq_n_add_le: "fq_n (a + b) \<le> fq_n a + fq_n b"
  using fq_n_nonneg [of a] fq_n_nonneg [of b] by (simp add: fq_n_arith zmod_le_nonneg_dividend)

lemma fq_n_mult_le: "fq_n (a * b) \<le> fq_n a * fq_n b"
  using fq_n_nonneg [of a] fq_n_nonneg [of b] by (simp add: fq_n_arith zmod_le_nonneg_dividend)

definition memory_cost :: "int \<Rightarrow> int" where
  "memory_cost m = m * m div 512 + 3 * m"

lemma memory_gas_cost_value:
  assumes "fq_n m < 2 ^ 40" "memory_gas_cost m s = Inr (g, t)"
  shows "g = FQ (memory_cost (fq_n m))"
proof -
  have "fq_n m * fq_n m \<le> 2 ^ 40 * 2 ^ 40"
    by (rule mult_mono) (use assms(1) in simp_all)
  then have "fq_n (m * m) = fq_n m * fq_n m"
    by (intro fq_n_mult_small) (simp add: fq_modulus_def)
  then show ?thesis
    using assms(2)
    by (auto simp: memory_gas_cost_def ibind_ok iret_ok constant_divmod_ok memory_cost_def FQ_arith
        fq_modulus_def mult.commute)
qed

lemma memory_cost_mono: "0 \<le> m \<Longrightarrow> m \<le> n \<Longrightarrow> memory_cost m \<le> memory_cost n"
  unfolding memory_cost_def by (intro add_mono zdiv_mono1 mult_mono) simp_all

lemma memory_expansion_to_cost:
  assumes "memory_expansion_to I m s = Inr ((m', g), t)"
    and "fq_n (ss_memory_word_size (i_curr I)) \<le> fq_n m" "fq_n m < 2 ^ 40"
  shows "fq_n g < 2 ^ 100"
proof -
  let ?c = "fq_n (ss_memory_word_size (i_curr I))"
  obtain x y s' where x: "memory_gas_cost (ss_memory_word_size (i_curr I)) s = Inr (x, s')"
      "memory_gas_cost m s' = Inr (y, t)" "g = y - x"
    using assms(1) by (auto simp: memory_expansion_to_def ibind_ok iret_ok)
  have "g = FQ (memory_cost (fq_n m)) - FQ (memory_cost ?c)"
    using memory_gas_cost_value [OF _ x(1)] memory_gas_cost_value [OF _ x(2)] assms(2,3) x(3) by simp
  then have g: "g = FQ (memory_cost (fq_n m) - memory_cost ?c)" by (simp add: FQ_arith)
  have "memory_cost (fq_n m) \<le> memory_cost (2 ^ 40)"
    by (rule memory_cost_mono) (use assms in simp_all)
  moreover have "memory_cost ?c \<le> memory_cost (fq_n m)"
    by (rule memory_cost_mono) (use assms in simp_all)
  moreover have "0 \<le> memory_cost ?c"
    using memory_cost_mono [of 0 ?c] by (simp add: memory_cost_def)
  ultimately have "0 \<le> memory_cost (fq_n m) - memory_cost ?c" "memory_cost (fq_n m) - memory_cost ?c < 2 ^ 100"
    by (simp_all add: memory_cost_def)
  then show ?thesis by (simp add: g fq_modulus_def)
qed

lemma expanded_size:
  assumes "instr_max c x N_BYTES_MEMORY_WORD_SIZE s = Inr (y, t)"
  shows "fq_n c \<le> fq_n y" "fq_n y < 2 ^ 40" "fq_n x \<le> fq_n y"
  using assms by (auto simp: max_ok split: if_splits)

lemma memory_expansion_cost:
  assumes "memory_expansion I off len s = Inr ((m, g), t)"
  shows "fq_n g < 2 ^ 100"
proof -
  obtain x y s1 s2 where x: "instr_max (ss_memory_word_size (i_curr I)) x N_BYTES_MEMORY_WORD_SIZE s1 = Inr (y, s2)"
      "memory_expansion_to I y s2 = Inr ((m, g), t)"
    using assms by (auto simp: memory_expansion_def ibind_ok)
  show ?thesis by (rule memory_expansion_to_cost [OF x(2) expanded_size(1,2) [OF x(1)]])
qed

lemma memory_expansion_dynamic_cost:
  assumes "memory_expansion_dynamic_length I off len rd s = Inr ((m, g), t)"
  shows "fq_n g < 2 ^ 100"
proof -
  obtain x y z s1 s2 s3 where x: "instr_max (ss_memory_word_size (i_curr I)) x N_BYTES_MEMORY_WORD_SIZE s1 = Inr (y, s2)"
      "memory_expansion_to I z s3 = Inr ((m, g), t)"
    and z: "z = y \<or> (\<exists>w s s'. instr_max y w N_BYTES_MEMORY_WORD_SIZE s = Inr (z, s'))"
    using assms by (auto simp: memory_expansion_dynamic_length_def ibind_ok iret_ok split: option.splits prod.splits) blast+
  have "fq_n y \<le> fq_n z \<and> fq_n z < 2 ^ 40"
    using z expanded_size [OF x(1)] expanded_size by blast
  then show ?thesis
    using memory_expansion_to_cost [OF x(2)] expanded_size(1) [OF x(1)] by linarith
qed

section \<open>Gadgets with a dynamic cost\<close>

lemma ensures_pays: "charged I (sc_dynamic_gas_cost args) \<Longrightarrow>
    ensures (pays I) (step_state_transition_in_same_context I opc args)"
  by (auto simp: ensures_def succeeds_simps dest: in_same_context_pays)

end
