(* ===== verification/Step_Pays.thy ===== *)
theory Step_Pays
  imports Step_Gas
begin

text \<open>The gadgets of the steps within a call, EXP apart, pay gas.\<close>

section \<open>Rules that keep what is known of a cost\<close>

named_theorems pays_intros "rules that bound the value a method returns"

lemma pays_select [pays_intros]:
  "(\<And>x. x = a \<or> x = b \<Longrightarrow> ensures P (f x)) \<Longrightarrow> ensures P (ibind (select c a b) f)"
  by (auto simp: ensures_def succeeds_simps select_ok split: if_splits)

lemma pays_expansion [pays_intros]:
  assumes "\<And>m g. fq_n g < 2 ^ 100 \<Longrightarrow> ensures P (f m g)"
  shows "ensures P (ibind (memory_expansion I off len) (\<lambda>(m, g). f m g))"
  unfolding ensures_def succeeds_simps
proof (intro allI impI, elim exE conjE)
  fix s x s'
  assume run: "memory_expansion I off len s = Inr (x, s')" and ok: "succeeds (case x of (m, g) \<Rightarrow> f m g) s'"
  obtain m g where x: "x = (m, g)" by (cases x)
  show P using assms [of g m] memory_expansion_cost [OF run [unfolded x]] ok by (auto simp: x ensures_def)
qed

lemma pays_expansion_dynamic [pays_intros]:
  assumes "\<And>m g. fq_n g < 2 ^ 100 \<Longrightarrow> ensures P (f m g)"
  shows "ensures P (ibind (memory_expansion_dynamic_length I off len rd) (\<lambda>(m, g). f m g))"
  unfolding ensures_def succeeds_simps
proof (intro allI impI, elim exE conjE)
  fix s x s'
  assume run: "memory_expansion_dynamic_length I off len rd s = Inr (x, s')"
    and ok: "succeeds (case x of (m, g) \<Rightarrow> f m g) s'"
  obtain m g where x: "x = (m, g)" by (cases x)
  show P using assms [of g m] memory_expansion_dynamic_cost [OF run [unfolded x]] ok by (auto simp: x ensures_def)
qed

lemma pays_copier [pays_intros]:
  assumes "\<And>g. fq_n g < 2 ^ 100 \<Longrightarrow> ensures P (f g)"
  shows "ensures P (ibind (memory_copier_gas_cost len e k) f)"
  unfolding ensures_def succeeds_simps
proof (intro allI impI, elim exE conjE)
  fix s g s'
  assume run: "memory_copier_gas_cost len e k s = Inr (g, s')" and ok: "succeeds (f g) s'"
  have "fq_n g < 2 ^ 100"
    using run by (auto simp: memory_copier_gas_cost_def ibind_ok iret_ok range_check_ok Let_def split: prod.splits)
  then show P using assms ok by (auto simp: ensures_def)
qed

lemma pays_warm_gas [pays_intros]:
  "(\<And>g. g = FQ SLOAD_GAS \<or> g = FQ SSTORE_SET_GAS \<or> g = FQ SSTORE_RESET_GAS \<Longrightarrow> ensures P (f g)) \<Longrightarrow>
     ensures P (ibind (sstore_warm_gas v v0 v1) f)"
  by (auto simp: ensures_def succeeds_simps sstore_warm_gas_def ibind_ok select_ok Let_def split: if_splits)

lemma pays_word_to_fq [pays_intros]:
  assumes "\<And>x. fq_n x < 2 ^ 64 \<Longrightarrow> ensures P (f x)"
  shows "ensures P (ibind (word_to_fq w 8) f)"
  unfolding ensures_def succeeds_simps
proof (intro allI impI, elim exE conjE)
  fix s x s'
  assume run: "word_to_fq w 8 s = Inr (x, s')" and ok: "succeeds (f x) s'"
  have "fq_n x < 2 ^ 64" using run int_value_nonneg [of w] by (auto simp: word_to_fq_ok fq_modulus_def)
  then show P using assms ok by (auto simp: ensures_def)
qed

lemma pays_range5 [pays_intros]:
  "(fq_n x < 5 \<Longrightarrow> ensures P m) \<Longrightarrow> ensures P (ithen (range_lookup x 5) m)"
  by (auto simp: ensures_def succeeds_simps range_lookup_def ibind_ok ilift_ok iret_ok fixed_lookup_ok fixed_range
      range_table_tag_def simp del: ftag_int.simps)

section \<open>Bounded dynamic costs\<close>

lemma charged_const: "paid_state (ss_execution_state (i_curr I)) \<Longrightarrow> charged I 0"
  by (simp add: charged_def)

lemma charged_bounded:
  "paid_state (ss_execution_state (i_curr I)) \<Longrightarrow> fq_n d < 2 ^ 128 \<Longrightarrow> charged I d"
  by (simp add: charged_def)

lemma plain_gadgets_pay:
  assumes paid: "paid_state (ss_execution_state (i_curr I))"
  shows "ensures (pays I) (add_sub I)" "ensures (pays I) (iszero I)" "ensures (pays I) (cmp I)"
    "ensures (pays I) (scmp I)" "ensures (pays I) (not_opcode I)" "ensures (pays I) (bitwise I)"
    "ensures (pays I) (byte I)"
    "ensures (pays I) (mul_div_mod I)" "ensures (pays I) (addmod I)" "ensures (pays I) (mulmod I)"
    "ensures (pays I) (sdiv_smod I)"
    "ensures (pays I) (pop I)" "ensures (pays I) (push I)" "ensures (pays I) (gas I)"
    "ensures (pays I) (gasprice I)" "ensures (pays I) (jump I)" "ensures (pays I) (jumpi t I)"
    "ensures (pays I) (msize I)" "ensures (pays I) (address I)" "ensures (pays I) (caller I)"
    "ensures (pays I) (callvalue I)" "ensures (pays I) (calldatasize I)"
    "ensures (pays I) (codesize I)" "ensures (pays I) (returndatasize I)"
    "ensures (pays I) (origin I)" "ensures (pays I) (selfbalance I)" "ensures (pays I) (blockctx I)"
    "ensures (pays I) (shl_shr I)" "ensures (pays I) (sar I)" "ensures (pays I) (signextend I)"
    "ensures (pays I) (blockhash I)" "ensures (pays I) (calldataload I)"
  unfolding compare_gadgets muldiv_gadgets context_gadgets shl_shr_def sar_def signextend_def blockhash_def
    calldataload_def
  by ((rule ensures_pays | rule ensures_intros)+, simp add: charged_const [OF paid] within_call_def same_context_def)+

lemma dynamic_gadgets_pay:
  assumes paid: "paid_state (ss_execution_state (i_curr I))"
  shows "ensures (pays I) (memory I)" "ensures (pays I) (balance I)" "ensures (pays I) (extcodesize I)"
    "ensures (pays I) (extcodehash I)" "ensures (pays I) (calldatacopy I)" "ensures (pays I) (codecopy I)"
    "ensures (pays I) (returndatacopy I)" "ensures (pays I) (sha3 I)"
  unfolding memory_def balance_def extcodesize_def extcodehash_def calldatacopy_def codecopy_def
    returndatacopy_def sha3_def
  by ((rule pays_intros | rule ensures_pays | rule ensures_intros)+,
      rule charged_bounded [OF paid], (auto simp: fq_n_arith fq_modulus_def within_call_def same_context_def) [1])+

lemma storage_gadgets_pay: "ensures (pays I) (sload I)" "ensures (pays I) (sstore I)"
  unfolding sload_def sstore_def
  by ((rule pays_intros | rule ensures_pays | rule ensures_intros)+,
      (auto simp: charged_def fq_n_arith fq_modulus_def within_call_def same_context_def) [1])+

lemma charged_sum:
  assumes "paid_state (ss_execution_state (i_curr I))" "fq_n a < 2 ^ 100" "fq_n b < 2 ^ 20"
  shows "charged I (a + b)"
proof -
  have "fq_n a + fq_n b < 2 ^ 128" using assms by simp
  then show ?thesis using fq_n_add_le [of a b] assms(1) by (simp add: charged_def)
qed

lemma extcodecopy_pays:
  assumes paid: "paid_state (ss_execution_state (i_curr I))"
  shows "ensures (pays I) (extcodecopy I)"
  unfolding extcodecopy_def
  by ((rule pays_intros | rule ensures_pays | rule ensures_intros)+)
    (auto simp: within_call_def same_context_def fq_modulus_def intro!: charged_sum [OF paid])

lemma log_charge:
  assumes "fq_n t < 5" "fq_n len < 2 ^ 64" "fq_n m < 2 ^ 100"
  shows "charged I (FQ GAS_COST_LOG + FQ GAS_COST_LOG * t + FQ GAS_COST_LOGDATA * len + m)"
proof -
  let ?d = "GAS_COST_LOG + GAS_COST_LOG * fq_n t + GAS_COST_LOGDATA * fq_n len + fq_n m"
  have "0 < ?d" "?d < 2 ^ 128"
    using assms fq_n_nonneg [of t] fq_n_nonneg [of len] fq_n_nonneg [of m] by (linarith, simp)
  then have "fq_n (FQ ?d) = ?d" by (intro fq_n_FQ_small) (simp_all add: fq_modulus_def)
  moreover have "FQ GAS_COST_LOG + FQ GAS_COST_LOG * t + FQ GAS_COST_LOGDATA * len + m = FQ ?d"
    by (simp add: FQ_arith)
  ultimately show ?thesis using \<open>0 < ?d\<close> \<open>?d < 2 ^ 128\<close> unfolding charged_def by simp
qed

lemma log_pays: "ensures (pays I) (log I)"
  unfolding log_def
  by ((rule pays_intros | rule ensures_pays | rule ensures_intros)+)
    (simp add: within_call_def same_context_def, rule log_charge, simp_all)

section \<open>All gadgets of the steps within a call\<close>

lemma paid_opcodes:
  "list_all paid_opcode ([1..9] @ [11] @ [16..29] @ [32] @ [48..72] @ [80..83] @ [86..90] @ [95..127])"
  by code_simp

lemma responsible_states_paid:
  assumes "es \<in> set call_states" "es \<notin> {ES_EXP, ES_SLOAD, ES_SSTORE, ES_LOG}"
  shows "paid_state es"
proof -
  have "list_all (\<lambda>(c, x). c \<in> set ([1..9] @ [11] @ [16..29] @ [32] @ [48..72] @ [80..83] @ [86..90] @ [95..127]))
      (opcode_aux_pairs (responsible_opcode es))"
    using assms by (auto simp: call_states_def opcode_aux_pairs_def responsible_opcode_def)
  then show ?thesis
    using paid_opcodes unfolding paid_state_def list_all_iff by fastforce
qed

lemma call_state_pays:
  assumes "es \<in> set call_states" "es \<noteq> ES_EXP" "ss_execution_state (i_curr I) = es"
    and "EXECUTION_STATE_IMPL R es = Some gadget"
  shows "ensures (pays I) (gadget I)"
proof (cases "es \<in> {ES_SLOAD, ES_SSTORE, ES_LOG}")
  case True
  then show ?thesis using assms(4) by (auto simp: EXECUTION_STATE_IMPL_def storage_gadgets_pay log_pays)
next
  case False
  then have paid: "paid_state (ss_execution_state (i_curr I))" using responsible_states_paid assms by simp
  show ?thesis
    using assms False
    by (auto simp: call_states_def EXECUTION_STATE_IMPL_def plain_gadgets_pay [OF paid] dynamic_gadgets_pay [OF paid]
        extcodecopy_pays [OF paid])
qed

end
