(* ===== verification/Step_Runs.thy ===== *)
theory Step_Runs
  imports Step_Pays Sample
begin

text \<open>
  Traces that \<open>verify_steps\<close> accepts: the order of their execution states, what a run within a call
  keeps, and how long it can be.
\<close>

section \<open>The pairs of an accepted trace\<close>

lemma verify_pairs_ok:
  "verify_pairs R T ext b e steps = Inr () \<longleftrightarrow>
     (\<forall>idx<length steps - 1. succeeds (verify_step R (step_instruction T ext b e steps idx)) offsets0)"
  unfolding verify_pairs_def riter_ok by (auto simp: rbind_ok succeeds_iff)

lemma verify_steps_ok:
  "verify_steps R T ext steps b e True = Inr () \<longleftrightarrow>
     verify_pairs R T ext b e (if e then steps @ [DUMMY_STEP_STATE] else steps) = Inr ()"
  by (auto simp: verify_steps_def Let_def split: sum.splits error.splits)

lemma verify_step_gadget:
  assumes "succeeds (verify_step R I) s"
  obtains gadget where "EXECUTION_STATE_IMPL R (ss_execution_state (i_curr I)) = Some gadget"
    "\<exists>s'. succeeds (gadget I) s'"
proof (cases "EXECUTION_STATE_IMPL R (ss_execution_state (i_curr I))")
  case None
  then show ?thesis using assms by (auto simp: verify_step_def succeeds_simps) (auto simp: succeeds_iff ilift_ok)
next
  case (Some gadget)
  then show ?thesis using assms that by (auto simp: verify_step_def succeeds_simps)
qed

lemma step_instruction_simps [simp]:
  "i_curr (step_instruction T ext b e steps idx) = steps ! idx"
  "i_next (step_instruction T ext b e steps idx) = steps ! (idx + 1)"
  "i_is_first_step (step_instruction T ext b e steps idx) \<longleftrightarrow> b \<and> idx = 0"
  "i_is_last_step (step_instruction T ext b e steps idx) \<longleftrightarrow> e \<and> int idx = int (length steps) - 2"
  by (simp_all add: step_instruction_def)

section \<open>The order of the execution states\<close>

text \<open>
  The states of a block: transactions, each from BeginTx to EndTx with a halting state before EndTx
  unless the transaction runs no code, and then EndBlock to the end.
\<close>

definition boundary_state :: "execution_state \<Rightarrow> bool" where
  "boundary_state es \<longleftrightarrow> es \<in> {ES_BeginTx, ES_EndTx, ES_EndBlock}"

definition call_body :: "execution_state list \<Rightarrow> bool" where
  "call_body body \<longleftrightarrow>
     list_all (\<lambda>es. \<not> boundary_state es) body \<and> (if body = [] then True else halts (last body))"

inductive block_states :: "execution_state list \<Rightarrow> bool" where
  end_block: "block_states (replicate (Suc k) ES_EndBlock)"
| transaction: "call_body body \<Longrightarrow> block_states ss \<Longrightarrow> block_states (ES_BeginTx # body @ ES_EndTx # ss)"

text \<open>What \<open>constrain_execution_state_transition\<close> asks of two consecutive states.\<close>

definition follows :: "execution_state \<Rightarrow> execution_state \<Rightarrow> bool" where
  "follows a b \<longleftrightarrow>
     (if a = ES_EndTx then b \<in> {ES_BeginTx, ES_EndBlock} else if a = ES_EndBlock then b = ES_EndBlock else True) \<and>
     (if b = ES_BeginTx then a = ES_EndTx
      else if b = ES_EndTx then halts a \<or> a = ES_BeginTx
      else if b = ES_EndBlock then a \<in> {ES_EndTx, ES_EndBlock} else True)"

lemma constrain_execution_state_transition_ok:
  "constrain_execution_state_transition I s = Inr (u, s') \<longleftrightarrow>
     follows (ss_execution_state (i_curr I)) (ss_execution_state (i_next I)) \<and> s' = s"
  by (auto simp: constrain_execution_state_transition_def follows_def Let_def ok_simps)

lemma follows_boundaries:
  "follows ES_EndBlock b \<longleftrightarrow> b = ES_EndBlock"
  "follows ES_EndTx b \<longleftrightarrow> b \<in> {ES_BeginTx, ES_EndBlock}"
  "follows ES_BeginTx b \<longleftrightarrow> b = ES_EndTx \<or> \<not> boundary_state b"
  "\<not> boundary_state a \<Longrightarrow> follows a b \<longleftrightarrow> b = ES_EndTx \<and> halts a \<or> \<not> boundary_state b"
  by (auto simp: follows_def boundary_state_def halts_def halts_in_success_def halts_in_exception_def)

lemma block_of_follows:
  assumes "ss \<noteq> []" "successively follows ss" "last ss = ES_EndBlock"
  shows "hd ss = ES_EndBlock \<Longrightarrow> \<exists>k. ss = replicate (Suc k) ES_EndBlock"
    and "hd ss = ES_BeginTx \<Longrightarrow> block_states ss"
    and "hd ss = ES_EndTx \<Longrightarrow> block_states (tl ss)"
    and "\<not> boundary_state (hd ss) \<Longrightarrow>
      \<exists>body ss'. ss = body @ ES_EndTx # ss' \<and> body \<noteq> [] \<and> call_body body \<and> block_states ss'"
  using assms
proof (induction ss)
  case (Cons a ss)
  {
    case 1
    show ?case
    proof (cases ss)
      case (Cons b ts)
      then have "hd ss = ES_EndBlock" using 1 by (simp add: follows_boundaries)
      with Cons.IH(1) 1 Cons obtain k where "ss = replicate (Suc k) ES_EndBlock" by auto
      then show ?thesis using 1 by (intro exI [of _ "Suc k"]) simp
    qed (use 1 in \<open>auto intro: exI [of _ 0]\<close>)
  next
    case 2
    then obtain b ts where ss: "ss = b # ts" by (cases ss) auto
    then consider "b = ES_EndTx" | "\<not> boundary_state b" using 2 by (auto simp: follows_boundaries)
    then show ?case
    proof cases
      case 1
      then have "block_states ts" using Cons.IH(3) 2 ss by simp
      then show ?thesis
        using block_states.transaction [of "[]" ts] 1 2 ss by (simp add: call_body_def)
    next
      case nb: 2
      then obtain body ss' where "ss = body @ ES_EndTx # ss'" "call_body body" "block_states ss'"
        using Cons.IH(4) 2 ss by auto
      then show ?thesis using block_states.transaction 2 by simp
    qed
  next
    case 3
    then obtain b ts where ss: "ss = b # ts" by (cases ss) auto
    then consider "b = ES_BeginTx" | "b = ES_EndBlock" using 3 by (auto simp: follows_boundaries)
    then show ?case
    proof cases
      case 1
      then show ?thesis using Cons.IH(2) 3 ss by simp
    next
      case 2
      then show ?thesis using Cons.IH(1) 3 ss by (auto intro: block_states.end_block [simplified])
    qed
  next
    case 4
    then obtain b ts where ss: "ss = b # ts" by (cases ss) (auto simp: boundary_state_def)
    then consider "b = ES_EndTx" "halts a" | "\<not> boundary_state b" using 4 by (auto simp: follows_boundaries)
    then show ?case
    proof cases
      case 1
      then have "block_states ts" using Cons.IH(3) 4 ss by simp
      then show ?thesis
        using 1 4 ss by (intro exI [of _ "[a]"] exI [of _ ts]) (simp add: call_body_def)
    next
      case 2
      then obtain body ss' where "ss = body @ ES_EndTx # ss'" "body \<noteq> []" "call_body body" "block_states ss'"
        using Cons.IH(4) 4 ss by auto
      then show ?thesis
        using 4 by (intro exI [of _ "a # body"] exI [of _ ss']) (simp add: call_body_def)
    qed
  }
qed simp_all

lemma es_tag_inject: "FQ (es_int a) = FQ (es_int b) \<longleftrightarrow> a = b"
proof -
  have "0 \<le> es_int a" "es_int a < fq_modulus" "0 \<le> es_int b" "es_int b < fq_modulus"
    using es_int_bounds [of a] es_int_bounds [of b] by (simp_all add: fq_modulus_def)
  then show ?thesis by (metis es_int_inject fq_n_FQ_small)
qed

lemma verify_step_order:
  assumes "succeeds (verify_step R I) s"
  shows "\<not> i_is_last_step I \<Longrightarrow> follows (ss_execution_state (i_curr I)) (ss_execution_state (i_next I))"
    and "i_is_last_step I \<Longrightarrow> ss_execution_state (i_curr I) = ES_EndBlock"
    and "i_is_first_step I \<Longrightarrow> ss_execution_state (i_curr I) \<in> {ES_BeginTx, ES_EndBlock}"
    and "i_is_first_step I \<Longrightarrow> ss_rw_counter (i_curr I) = 1"
  using assms
  by (auto simp: verify_step_def succeeds_simps ithen_ok constrain_execution_state_transition_ok constrain_ok es_tag_inject
      split: if_splits simp del: es_int.simps)

lemma verify_steps_order:
  assumes "verify_steps R T ext steps True True True = Inr ()" "steps \<noteq> []"
  defines "ss \<equiv> map ss_execution_state steps"
  shows "successively follows ss" "last ss = ES_EndBlock" "hd ss \<in> {ES_BeginTx, ES_EndBlock}"
    and "ss_rw_counter (hd steps) = 1"
    and "list_all (\<lambda>es. EXECUTION_STATE_IMPL R es \<noteq> None) ss"
proof -
  let ?I = "\<lambda>idx. step_instruction T ext True True (steps @ [DUMMY_STEP_STATE]) idx"
  have run: "succeeds (verify_step R (?I idx)) offsets0" if "idx < length steps" for idx
    using assms(1) that by (auto simp: verify_steps_ok verify_pairs_ok)
  note order = verify_step_order [OF run]
  have curr: "i_curr (?I idx) = steps ! idx" if "idx < length steps" for idx
    using that by (simp add: nth_append)
  have nxt: "i_next (?I idx) = steps ! (idx + 1)" if "idx + 1 < length steps" for idx
    using that by (simp add: nth_append)
  show "successively follows ss"
    unfolding successively_conv_nth ss_def
    using order(1) curr nxt by (auto simp: step_instruction_simps)
  show "last ss = ES_EndBlock"
    using order(2) [of "length steps - 1"] curr [of "length steps - 1"] assms(2)
    by (simp add: ss_def last_conv_nth last_map of_nat_diff Suc_leI flip: length_greater_0_conv)
  show "hd ss \<in> {ES_BeginTx, ES_EndBlock}" "ss_rw_counter (hd steps) = 1"
    using order(3,4) [of 0] curr [of 0] assms(2) by (auto simp: ss_def hd_conv_nth)
  show "list_all (\<lambda>es. EXECUTION_STATE_IMPL R es \<noteq> None) ss"
    using verify_step_gadget [OF run] curr by (fastforce simp: ss_def list_all_length)
qed

section \<open>The steps within a call\<close>

lemma call_step:
  assumes "succeeds (verify_step R I) s" "ss_execution_state (i_curr I) \<in> set call_states"
  shows "keeps_call I"
  using verify_step_gadget [OF assms(1)] implemented_lookup [OF assms(2)] by (metis ensures_def)

lemma paid_step:
  assumes "succeeds (verify_step R I) s" "ss_execution_state (i_curr I) \<in> set call_states"
    and "ss_execution_state (i_curr I) \<noteq> ES_EXP"
  shows "pays I"
  using verify_step_gadget [OF assms(1)] call_state_pays [OF assms(2,3) refl] by (metis ensures_def)

lemma call_run:
  assumes "verify_steps R T ext steps b False True = Inr ()"
    and "list_all (\<lambda>st. ss_execution_state st \<in> set call_states) (butlast steps)"
  shows "successively (\<lambda>s t. ss_call_id t = ss_call_id s \<and> ss_is_root t = ss_is_root s \<and>
      ss_is_create t = ss_is_create s \<and> ss_code_hash t = ss_code_hash s \<and> fq_n (ss_gas_left t) < 2 ^ 64) steps"
    and "list_all (\<lambda>st. ss_execution_state st \<noteq> ES_EXP) (butlast steps) \<Longrightarrow>
      successively (\<lambda>s t. fq_n (ss_gas_left t) < fq_n (ss_gas_left s)) steps"
proof -
  let ?I = "\<lambda>idx. step_instruction T ext b False steps idx"
  have run: "succeeds (verify_step R (?I idx)) offsets0" if "Suc idx < length steps" for idx
    using assms(1) that by (auto simp: verify_steps_ok verify_pairs_ok)
  have call: "ss_execution_state (i_curr (?I idx)) \<in> set call_states" if "Suc idx < length steps" for idx
    using assms(2) that by (auto simp: list_all_length nth_butlast)
  have "keeps_call (?I idx)" if "Suc idx < length steps" for idx
    by (rule call_step [OF run call]) (use that in simp_all)
  then show "successively (\<lambda>s t. ss_call_id t = ss_call_id s \<and> ss_is_root t = ss_is_root s \<and>
      ss_is_create t = ss_is_create s \<and> ss_code_hash t = ss_code_hash s \<and> fq_n (ss_gas_left t) < 2 ^ 64) steps"
    by (auto simp: successively_conv_nth keeps_call_def)
  assume "list_all (\<lambda>st. ss_execution_state st \<noteq> ES_EXP) (butlast steps)"
  then have "pays (?I idx)" if "Suc idx < length steps" for idx
    using paid_step [OF run call] that by (auto simp: list_all_length nth_butlast)
  then show "successively (\<lambda>s t. fq_n (ss_gas_left t) < fq_n (ss_gas_left s)) steps"
    by (auto simp: successively_conv_nth pays_def)
qed

lemma successively_const:
  "successively (\<lambda>s t. f t = f s \<and> P t) steps \<Longrightarrow> steps \<noteq> [] \<Longrightarrow>
     list_all (\<lambda>s. f s = f (hd steps)) steps \<and> list_all P (tl steps)"
proof (induction steps rule: induct_list012)
  case (3 x y zs)
  then have "f y = f x" "P y" by simp_all
  moreover have "list_all (\<lambda>s. f s = f y) (y # zs) \<and> list_all P zs" using 3 by simp
  ultimately show ?case by simp
qed simp_all

lemma successively_descent:
  fixes f :: "'a \<Rightarrow> int"
  shows "successively (\<lambda>s t. f t < f s) steps \<Longrightarrow> steps \<noteq> [] \<Longrightarrow>
     f (last steps) + int (length steps) \<le> f (hd steps) + 1"
proof (induction steps rule: induct_list012)
  case (3 x y zs)
  then have "f y < f x" "f (last (y # zs)) + int (length (y # zs)) \<le> f y + 1" by simp_all
  then show ?case by simp
qed simp_all

section \<open>Two accepted traces\<close>

text \<open>A block without transactions: one row of the read-write table, the Start row.\<close>

definition start_row :: rw_row where
  "start_row =
     \<lparr>rw_rw_counter = 1, rw_rw = 0, rw_key0 = FQ (target_int T_Start), rw_id = 0, rw_address = 0,
      rw_field_tag = 0, rw_storage_key = WordLH 0 0, rw_value = WordV (WordLH 0 0),
      rw_value_prev = WordV (WordLH 0 0), rw_aux0 = WordLH 0 0\<rparr>"

definition empty_block_tables :: tables where
  "empty_block_tables =
     \<lparr>block_table = {}, tx_table = {}, withdrawal_table = {}, bytecode_table = {},
      rw_table = {start_row}, copy_table = None, keccak_table = None, exp_table = None,
      sig_table = None, ecc_table = None\<rparr>"

lemma start_row_found:
  assumes "i_tables I = empty_block_tables"
  shows "rw_table_start_lookup I 1 s = Inr ((), s)"
  unfolding rw_table_start_lookup_def rw_lookup_def
  by (simp add: ibind_ok ilift_ok iret_ok rw_tab.look_iff Let_def assms empty_block_tables_def rw_matches_def
      rw_query_of_def start_row_def no_args_def)

lemma end_of_empty_block:
  assumes I: "i_tables I = empty_block_tables" "ss_rw_counter (i_curr I) = 1" "i_is_last_step I"
  shows "succeeds (end_block so I) s"
proof -
  have sets: "tx_rows_of I t = {}" "rw_table (i_tables I) = {start_row}" "withdrawal_table (i_tables I) = {}" for t
    by (simp_all add: tx_rows_of_def I empty_block_tables_def)
  show ?thesis
    using start_row_found [OF I(1)]
    by (simp add: end_block_def Let_def I(2,3) sets get_tx_table_max_txs_def total_txs_of_def total_valid_txs_of_def
        total_withdrawals_of_def succeeds_simps ok_simps is_zero_simp) (simp add: succeeds_iff)
qed

lemma empty_block_accepted:
  "verify_steps R empty_block_tables sample_ext [StepState ES_EndBlock 1] True True True = Inr ()"
proof -
  let ?I = "step_instruction empty_block_tables sample_ext True True [StepState ES_EndBlock 1, DUMMY_STEP_STATE] 0"
  have I: "i_tables ?I = empty_block_tables" "ss_rw_counter (i_curr ?I) = 1" "i_is_last_step ?I"
    "ss_execution_state (i_curr ?I) = ES_EndBlock"
    by (simp_all add: step_instruction_def StepState_def)
  have "EXECUTION_STATE_IMPL R ES_EndBlock = Some (end_block (rt_set_order R))"
    by (simp add: EXECUTION_STATE_IMPL_def)
  then have "succeeds (verify_step R ?I) offsets0"
    using end_of_empty_block [OF I(1-3), of "rt_set_order R"] I
    by (simp add: verify_step_def succeeds_simps ithen_ok constrain_ok)
  then show ?thesis by (simp add: verify_steps_ok verify_pairs_ok)
qed

text \<open>One POP, with two gas for it.\<close>

definition pop_step :: instruction where
  "pop_step = sample_step ES_POP Opcode_POP [(RW_Read, 0, word_of 5)] 2 1"

lemma cost_POP: "list_all (\<lambda>c. c \<in> set valid_opcodes \<and> constant_gas_cost c = Inr 2) [Opcode_POP]"
  by code_simp

lemma pop_accepted: "succeeds (pop pop_step) offsets0"
proof -
  have ctx: "in_same_context pop_step opc (within_call r p q) \<longleftrightarrow> opc = FQ Opcode_POP \<and> advances pop_step 2 (within_call r p q)"
    for opc r p q
    by (subst within_call_advances [of _ "[Opcode_POP]" 2])
      (simp_all add: pop_step_def opcode_aux_pairs_def responsible_opcode_def cost_POP [simplified])
  have "opcode_at pop_step 0 True (FQ Opcode_POP)"
    unfolding pop_step_def by (rule sample_opcode)
  moreover have "stack_value pop_step 0 RW_Read 0 (word_of 5)"
    using sample_stack [of 0 "[(RW_Read, 0, word_of 5)]" RW_Read 0 "word_of 5"] by (simp add: pop_step_def)
  moreover have "advances pop_step 2 (within_call (Delta (FQ 1)) (Delta (FQ 1)) (Delta (FQ 1)))"
    using sample_advances [of 2 "[(RW_Read, 0, word_of 5)]" ES_POP Opcode_POP 1] by (simp add: pop_step_def)
  ultimately show ?thesis
    unfolding pop_def by (auto simp: succeeds_simps opcode_lookup_ok stack_pop_ok ctx)
qed

lemma pop_run_accepted:
  "verify_steps R (i_tables pop_step) sample_ext [i_curr pop_step, i_next pop_step] False False True = Inr ()"
proof -
  have I: "step_instruction (i_tables pop_step) sample_ext False False [i_curr pop_step, i_next pop_step] 0 = pop_step"
    by (simp add: step_instruction_def pop_step_def sample_step_def)
  have "EXECUTION_STATE_IMPL R ES_POP = Some pop"
    by (simp add: EXECUTION_STATE_IMPL_def)
  moreover have "ss_execution_state (i_curr pop_step) = ES_POP" "ss_execution_state (i_next pop_step) = ES_STOP"
    "\<not> i_is_first_step pop_step" "\<not> i_is_last_step pop_step"
    by (simp_all add: pop_step_def sample_step_def sample_state_def StepState_def)
  ultimately have "succeeds (verify_step R pop_step) offsets0"
    using pop_accepted
    by (simp add: verify_step_def succeeds_simps ok_simps constrain_execution_state_transition_ok follows_def)
  then show ?thesis by (simp add: verify_steps_ok verify_pairs_ok I)
qed

section \<open>What accepted traces are\<close>

text \<open>
  C1: A trace that verify_steps checks from its first to its last step and accepts runs
  through the states of a block: transactions from BeginTx to EndTx, each with a halting
  state before EndTx unless it runs no code, then EndBlock only; it starts at read-write
  counter 1 and every step has a gadget.
\<close>

theorem trace_is_block:
  assumes "verify_steps R T ext steps True True True = Inr ()" "steps \<noteq> []"
  shows "block_states (map ss_execution_state steps) \<and> ss_rw_counter (hd steps) = 1 \<and>
    list_all (\<lambda>st. EXECUTION_STATE_IMPL R (ss_execution_state st) \<noteq> None) steps"
proof -
  note order = verify_steps_order [OF assms]
  have ss: "map ss_execution_state steps \<noteq> []" using assms(2) by simp
  have "block_states (map ss_execution_state steps)"
    using block_of_follows(1,2) [OF ss order(1,2)] order(3) block_states.end_block by auto
  then show ?thesis using order(4,5) by (simp add: list_all_length)
qed

lemma trace_is_block_witness:
  "block_states (map ss_execution_state [StepState ES_EndBlock 1])"
  using trace_is_block [OF empty_block_accepted] by blast

text \<open>
  C2: Along an accepted run of steps within a call, of any of the 45 gadgets that stay in
  it, the call id, the root and create flags and the code hash stay what they were, and the
  gas left stays a 64-bit number.
\<close>

theorem run_keeps_call:
  assumes "verify_steps R T ext steps b False True = Inr ()" "steps \<noteq> []"
    and "list_all (\<lambda>st. ss_execution_state st \<in> set call_states) (butlast steps)"
  shows "list_all (\<lambda>st. (ss_call_id st, ss_is_root st, ss_is_create st, ss_code_hash st) =
      (ss_call_id (hd steps), ss_is_root (hd steps), ss_is_create (hd steps), ss_code_hash (hd steps))) steps \<and>
    list_all (\<lambda>st. fq_n (ss_gas_left st) < 2 ^ 64) (tl steps)"
  by (rule successively_const [OF _ assms(2)]) (use call_run(1) [OF assms(1,3)] in simp)

lemma pop_is_call_state: "ES_POP \<in> set call_states"
  by (simp add: call_states_def)

lemma pop_run_states:
  "list_all (\<lambda>st. ss_execution_state st = ES_POP) (butlast [i_curr pop_step, i_next pop_step])"
  by (simp add: pop_step_def)

lemma run_keeps_call_witness:
  "ss_call_id (i_next pop_step) = ss_call_id (i_curr pop_step) \<and> fq_n (ss_gas_left (i_next pop_step)) < 2 ^ 64"
  using run_keeps_call [OF pop_run_accepted] pop_run_states by (simp add: pop_is_call_state)

text \<open>
  C3: Execution within a call ends: every gadget but that of EXP charges gas, so an accepted
  run of such steps has no more steps than its first state has gas left.
\<close>

theorem run_is_bounded:
  assumes "verify_steps R T ext steps b False True = Inr ()" "steps \<noteq> []"
    and "list_all (\<lambda>st. ss_execution_state st \<in> set call_states - {ES_EXP}) (butlast steps)"
  shows "int (length steps) - 1 \<le> fq_n (ss_gas_left (hd steps)) - fq_n (ss_gas_left (last steps))"
proof -
  have "successively (\<lambda>s t. fq_n (ss_gas_left t) < fq_n (ss_gas_left s)) steps"
    by (rule call_run(2) [OF assms(1)]) (use assms(3) in \<open>auto simp: list_all_iff\<close>)
  from successively_descent [OF this assms(2)] show ?thesis by linarith
qed

lemma run_is_bounded_witness:
  "1 \<le> fq_n (ss_gas_left (i_curr pop_step)) - fq_n (ss_gas_left (i_next pop_step))"
  using run_is_bounded [OF pop_run_accepted] pop_run_states by (simp add: pop_is_call_state)

end
