(* ===== verification/Sample_Rows.thy ===== *)
theory Sample_Rows
  imports Sample
begin

text \<open>
  Concrete steps over a read-write table given row by row: row k of the list gets the counter
  100 + k, the counter of the lookups of the step. \<open>written\<close> says which row a write at an offset
  finds, whatever its keys.
\<close>

section \<open>Rows found by a write\<close>

definition written :: "instruction \<Rightarrow> int \<Rightarrow> target \<Rightarrow> rw_row \<Rightarrow> bool" where
  "written I k tag row \<longleftrightarrow> (\<exists>args. rw_row_at I (ss_rw_counter (i_curr I) + FQ k) RW_Write tag args row)"

lemma state_write_row:
  "state_write I tag args rinfo s = Inr ((row, rinfo'), s') \<Longrightarrow>
     written I (rw_counter_offset s) tag row \<and> s' = s\<lparr>rw_counter_offset := rw_counter_offset s + 1\<rparr>"
  by (auto simp: state_write_def written_def ok_simps Let_def rw_counter_of_reversion_def
      split: option.splits if_splits prod.splits)

section \<open>A step over given rows\<close>

definition numbered :: "rw_row list \<Rightarrow> rw_row list" where
  "numbered rows = map (\<lambda>k. (rows ! k)\<lparr>rw_rw_counter := FQ (100 + int k)\<rparr>) [0..<length rows]"

definition rows_step :: "execution_state \<Rightarrow> int \<Rightarrow> rw_row list \<Rightarrow> step_state \<Rightarrow> instruction" where
  "rows_step es opc rows nxt =
     \<lparr>i_tables = (sample_tables opc [])\<lparr>rw_table := set (numbered rows)\<rparr>, i_curr = sample_state es,
      i_next = nxt, i_is_first_step = False, i_is_last_step = False, i_ext = sample_ext\<rparr>"

definition plain_row :: "rw \<Rightarrow> target \<Rightarrow> fq \<Rightarrow> fq \<Rightarrow> fq \<Rightarrow> word256 \<Rightarrow> word_or_value \<Rightarrow> word_or_value \<Rightarrow> rw_row" where
  "plain_row rw tag ident address field_tag storage_key value prev =
     \<lparr>rw_rw_counter = 0, rw_rw = FQ (rw_int rw), rw_key0 = FQ (target_int tag), rw_id = ident,
      rw_address = address, rw_field_tag = field_tag, rw_storage_key = storage_key, rw_value = value,
      rw_value_prev = prev, rw_aux0 = WordLH 0 0\<rparr>"

lemma numbered_nth: "k < length rows \<Longrightarrow> numbered rows ! k = (rows ! k)\<lparr>rw_rw_counter := FQ (100 + int k)\<rparr>"
  by (simp add: numbered_def)

lemma rows_step_lookup:
  assumes k: "k < length rows" "length rows < 1000" and c: "q_rw_counter q = FQ (100 + int k)"
  shows "rw_lookup_table (i_tables (rows_step es opc rows nxt)) q = Inr row \<longleftrightarrow>
    row = numbered rows ! k \<and> rw_matches q row"
proof -
  have inj: "FQ (100 + int k) = FQ (100 + int j) \<longleftrightarrow> k = j" if "j < length rows" for j
    using that k by (subst FQ_small_inject) auto
  have "rw_matches q (numbered rows ! j) \<Longrightarrow> j = k" if "j < length rows" for j
    using c inj [OF that] that by (simp add: rw_matches_def numbered_nth)
  moreover have "set (numbered rows) = {numbered rows ! j | j. j < length rows}"
    by (auto simp: set_conv_nth numbered_def)
  ultimately show ?thesis
    using k unfolding rw_tab.look_iff by (auto simp: rows_step_def)
qed

lemma rows_step_row:
  assumes "k < length rows" "length rows < 1000"
  shows "rw_row_at (rows_step es opc rows nxt) (FQ (100 + int k)) rw tag args row \<longleftrightarrow>
    row = numbered rows ! k \<and> rw_matches (rw_query_of (FQ (100 + int k)) rw tag args) row"
  unfolding rw_row_at_def using assms by (intro rows_step_lookup) (simp_all add: rw_query_of_def)

lemma rows_step_simps [simp]:
  "ss_execution_state (i_curr (rows_step es opc rows nxt)) = es"
  "ss_rw_counter (i_curr (rows_step es opc rows nxt)) = FQ 100"
  "ss_call_id (i_curr (rows_step es opc rows nxt)) = 1"
  "ss_stack_pointer (i_curr (rows_step es opc rows nxt)) = FQ 1000"
  "i_next (rows_step es opc rows nxt) = nxt"
  by (simp_all add: rows_step_def sample_state_def StepState_def)

lemma rows_step_opcode: "opcode_at (rows_step es opc rows nxt) 0 True (FQ opc)"
  using sample_opcode [of es opc]
  by (simp add: opcode_at_def code_value_def bytecode_lookup_table_def rows_step_def sample_step_def sample_tables_def)

text \<open>What the lookups of such a step find, and the runs of the methods that make them.\<close>

definition at_offsets :: "int \<Rightarrow> int \<Rightarrow> offsets" where
  "at_offsets k sp = offsets0\<lparr>rw_counter_offset := k, program_counter_offset := 1, stack_pointer_offset := sp\<rparr>"

lemma at_offsets_simps [simp]:
  "rw_counter_offset (at_offsets k sp) = k" "stack_pointer_offset (at_offsets k sp) = sp"
  "(at_offsets k sp)\<lparr>rw_counter_offset := k'\<rparr> = at_offsets k' sp"
  "(at_offsets k sp)\<lparr>stack_pointer_offset := sp'\<rparr> = at_offsets k sp'"
  by (simp_all add: at_offsets_def offsets0_def)

lemma at_offsets_start: "offsets0\<lparr>program_counter_offset := 1\<rparr> = at_offsets 0 0"
  by (simp add: at_offsets_def offsets0_def)

lemma rows_value:
  assumes "k < length rows" "length rows < 1000" "rw_matches (rw_query_of (FQ (100 + int k)) rw tag args) (numbered rows ! k)"
  shows "rw_row_at (rows_step es opc rows nxt) (FQ 100 + FQ (int k)) rw tag args (numbered rows ! k)"
  using rows_step_row [OF assms(1,2)] assms(3) by (simp add: FQ_arith)

lemma rows_context:
  assumes "k < length rows" "length rows < 1000"
    and "rows ! k = plain_row rw T_CallContext cid (FQ (cc_int tag)) 0 (WordLH 0 0) v x"
  shows "context_value (rows_step es opc rows nxt) (int k) rw cid tag v"
proof -
  have "rw_matches (rw_query_of (FQ (100 + int k)) rw T_CallContext
      (no_args\<lparr>a_id := Some cid, a_address := Some (FQ (cc_int tag))\<rparr>)) (numbered rows ! k)"
    by (simp add: rw_matches_def rw_query_of_def no_args_def numbered_nth [OF assms(1)] assms(3) plain_row_def)
  from rows_value [OF assms(1,2) this] show ?thesis
    unfolding context_value_def rw_value_at_def rows_step_simps by (force simp: numbered_nth [OF assms(1)] assms(3) plain_row_def)
qed

lemma rows_stack:
  assumes "k < length rows" "length rows < 1000"
    and "rows ! k = plain_row rw T_Stack 1 (FQ (1000 + p)) 0 (WordLH 0 0) v x"
  shows "stack_value (rows_step es opc rows nxt) (int k) rw p (wov_word v)"
proof -
  have "rw_matches (rw_query_of (FQ (100 + int k)) rw T_Stack
      (no_args\<lparr>a_id := Some 1, a_address := Some (FQ 1000 + FQ p)\<rparr>)) (numbered rows ! k)"
    by (simp add: rw_matches_def rw_query_of_def no_args_def numbered_nth [OF assms(1)] assms(3) plain_row_def FQ_arith)
  from rows_value [OF assms(1,2) this] show ?thesis
    unfolding stack_value_def rw_value_at_def rows_step_simps by (force simp: numbered_nth [OF assms(1)] assms(3) plain_row_def)
qed

lemma rows_write:
  assumes "k < length rows" "length rows < 1000" "write_with_reversion tag" "is_persistent r = 1"
    and "rw_matches (rw_query_of (FQ (100 + int k)) RW_Write tag (args\<lparr>a_rw_counter := None\<rparr>)) (numbered rows ! k)"
  shows "state_write (rows_step es opc rows nxt) tag args (Some r) (at_offsets (int k) sp) =
    Inr ((numbered rows ! k, Some r), at_offsets (int k + 1) sp)"
proof -
  have "rw_lookup (rows_step es opc rows nxt) RW_Write tag (args\<lparr>a_rw_counter := None\<rparr>) (at_offsets (int k) sp) =
      Inr (numbered rows ! k, at_offsets (int k + 1) sp)"
    using rows_value [OF assms(1,2,5)] by (simp add: rw_lookup_ok)
  then show ?thesis using assms(3,4) by (simp add: state_write_def ibind_def ithen_def iassert_def ilift_def iret_def)
qed

lemma rows_reversion_info:
  assumes "context_value I k RW_Read (case cid of None \<Rightarrow> ss_call_id (i_curr I) | Some c \<Rightarrow> c)
      CC_RwCounterEndOfReversion (ValueV x)"
    and "context_value I (k + 1) RW_Read (case cid of None \<Rightarrow> ss_call_id (i_curr I) | Some c \<Rightarrow> c)
      CC_IsPersistent (ValueV 1)"
  shows "\<exists>r. instr_reversion_info I cid (at_offsets k sp) = Inr (r, at_offsets (k + 2) sp) \<and> is_persistent r = 1"
  using assms
  by (intro exI [of _ "\<lparr>rw_counter_end_of_reversion = x, is_persistent = 1, reversible_write_counter =
      (case cid of None \<Rightarrow> ss_reversible_write_counter (i_curr I) | Some c \<Rightarrow> FQ 0)\<rparr>"])
    (simp add: instr_reversion_info_def ok_simps add.commute)

lemma constrain_runs:
  "constrain_equal x x s = Inr ((), s)" "constrain_equal_word w w s = Inr ((), s)" "constrain_zero 0 s = Inr ((), s)"
  "select 1 x y s = Inr (x, s)" "select 0 x y s = Inr (y, s)" "select (fq_of_bool b) x y s = Inr (if b then x else y, s)"
  by (simp_all add: ok_simps)

lemma rows_written:
  assumes "k < length rows" "length rows < 1000" "rw_rw (rows ! k) = FQ (rw_int RW_Write)"
    and "rw_key0 (rows ! k) = FQ (target_int tag)"
  shows "written (rows_step es opc rows nxt) (int k) tag st \<longleftrightarrow> st = numbered rows ! k"
proof
  have "rw_matches (rw_query_of (FQ (100 + int k)) RW_Write tag no_args) (numbered rows ! k)"
    by (simp add: rw_matches_def rw_query_of_def no_args_def numbered_nth assms)
  from rows_value [OF assms(1,2) this]
  have "written (rows_step es opc rows nxt) (int k) tag (numbered rows ! k)"
    unfolding written_def rows_step_simps by blast
  then show "st = numbered rows ! k \<Longrightarrow> written (rows_step es opc rows nxt) (int k) tag st" by simp
  show "written (rows_step es opc rows nxt) (int k) tag st \<Longrightarrow> st = numbered rows ! k"
    unfolding written_def using rows_step_row [OF assms(1,2)] by (auto simp: FQ_arith)
qed

end
