(* ===== verification/Storage_Facts.thy ===== *)
theory Storage_Facts
  imports Exec_Memory Sample_Rows
begin

text \<open>
  SSTORE against the rules of EIP-2200, EIP-2929 and EIP-3529 for its gas and its refund.
\<close>

section \<open>The rules\<close>

text \<open>The gas of a warm slot: the original value, the current one and the new one.\<close>

definition eip2200_gas :: "word256 \<Rightarrow> word256 \<Rightarrow> word256 \<Rightarrow> int" where
  "eip2200_gas original current new =
     (if current = new then SLOAD_GAS
      else if current = original then (if original = WordLH 0 0 then SSTORE_SET_GAS else SSTORE_RESET_GAS)
      else SLOAD_GAS)"

definition eip3529_refund :: "word256 \<Rightarrow> word256 \<Rightarrow> word256 \<Rightarrow> int" where
  "eip3529_refund original current new =
     (if current = new then 0
      else if original = current then
        (if original \<noteq> WordLH 0 0 \<and> new = WordLH 0 0 then SSTORE_CLEARS_SCHEDULE else 0)
      else
        (if original \<noteq> WordLH 0 0 then
           if current = WordLH 0 0 then - SSTORE_CLEARS_SCHEDULE
           else if new = WordLH 0 0 then SSTORE_CLEARS_SCHEDULE else 0
         else 0) +
        (if original = new then
           if original = WordLH 0 0 then SSTORE_SET_GAS - SLOAD_GAS else SSTORE_RESET_GAS - SLOAD_GAS
         else 0))"

section \<open>Words and their sums\<close>

text \<open>
  \<open>is_zero_word\<close> and \<open>is_equal_word\<close> look at the sum of the two halves, so two words with the same
  sum count as equal.
\<close>

definition told_apart :: "word256 list \<Rightarrow> bool" where
  "told_apart ws \<longleftrightarrow>
     list_all (\<lambda>a. list_all (\<lambda>b. if lo a + hi a = lo b + hi b then a = b else True) ws) ws"

lemma is_zero_word_sum: "is_zero_word w = fq_of_bool (lo w + hi w = 0)"
  by (simp add: is_zero_word_def is_zero_simp sum_values_def)

lemma is_equal_word_sum: "is_equal_word v w = fq_of_bool (lo v + hi v = lo w + hi w)"
proof -
  have "lo v - lo w + (hi v - hi w) = lo v + hi v - (lo w + hi w)" by simp
  then show ?thesis by (simp only: is_equal_word_def is_zero_word_sum word256.sel right_minus_eq)
qed

lemma told_apart_iff:
  "told_apart ws \<Longrightarrow> a \<in> set ws \<Longrightarrow> b \<in> set ws \<Longrightarrow> lo a + hi a = lo b + hi b \<longleftrightarrow> a = b"
  unfolding told_apart_def list_all_iff by metis

lemma told_apart_equal:
  "told_apart ws \<Longrightarrow> v \<in> set ws \<Longrightarrow> w \<in> set ws \<Longrightarrow> is_equal_word v w = fq_of_bool (v = w)"
  by (simp only: is_equal_word_sum told_apart_iff)

lemma told_apart_zero:
  "told_apart (WordLH 0 0 # ws) \<Longrightarrow> v \<in> set ws \<Longrightarrow> is_zero_word v = fq_of_bool (v = WordLH 0 0)"
  using told_apart_iff [of "WordLH 0 0 # ws" v "WordLH 0 0"] by (simp add: is_zero_word_sum)

lemma sstore_warm_gas_eip:
  assumes "told_apart [WordLH 0 0, orig, p, v]" "sstore_warm_gas v p orig s = Inr (g, s')"
  shows "g = FQ (eip2200_gas orig p v) \<and> s' = s"
proof -
  note eqs = told_apart_equal [OF assms(1)] told_apart_zero [OF assms(1)]
  have "is_equal_word p v = fq_of_bool (p = v)" "is_equal_word p orig = fq_of_bool (p = orig)"
    "is_zero_word orig = fq_of_bool (orig = WordLH 0 0)"
    by (rule eqs; simp)+
  then show ?thesis
    using assms(2) unfolding sstore_warm_gas_def
    by (cases "p = v"; cases "p = orig"; cases "orig = WordLH 0 0"; simp add: eip2200_gas_def ok_simps Let_def)
qed

lemma sstore_refund_eip:
  assumes "told_apart [WordLH 0 0, orig, p, v]" "sstore_refund v p orig r s = Inr (r', s')"
  shows "r' = r + FQ (eip3529_refund orig p v) \<and> s' = s"
proof -
  note eqs = told_apart_equal [OF assms(1)] told_apart_zero [OF assms(1)]
  have "is_equal_word p v = fq_of_bool (p = v)" "is_equal_word orig p = fq_of_bool (orig = p)"
    "is_equal_word orig v = fq_of_bool (orig = v)" "is_zero_word orig = fq_of_bool (orig = WordLH 0 0)"
    "is_zero_word p = fq_of_bool (p = WordLH 0 0)" "is_zero_word v = fq_of_bool (v = WordLH 0 0)"
    by (rule eqs; simp)+
  moreover have "FQ 20000 - FQ 100 = FQ 19900" "FQ 2900 - FQ 100 = FQ 2800" "FQ 2800 - FQ 4800 = FQ (- 2000)"
    "- FQ 4800 = FQ (- 4800)" "FQ (- 4800) + FQ 2800 = FQ (- 2000)"
    using FQ_arith(3) [of "- 4800" 2800] FQ_arith(4) [of 20000 100] FQ_arith(4) [of 2900 100] FQ_arith(4) [of 2800 4800] FQ_arith(5) [of 4800]
    by simp_all
  ultimately show ?thesis
    using assms(2) unfolding sstore_refund_def
    by (simp add: ok_simps) (auto simp: eip3529_refund_def algebra_simps)
qed

section \<open>The gadget\<close>

lemma instr_reversion_info_state:
  "instr_reversion_info I cid s = Inr (r, s') \<Longrightarrow> s' = s\<lparr>rw_counter_offset := rw_counter_offset s + 2\<rparr>"
  by (auto simp: instr_reversion_info_def ok_simps)

lemma sstore_runs:
  assumes "accepted (sstore I)"
  obtains st ac re warm r r' k where "written I 7 T_AccountStorage st"
    "stack_value I 6 RW_Read 1 (wov_word (rw_value st))"
    "written I 8 T_TxAccessListAccountStorage ac" "rw_value_prev ac = ValueV (fq_of_bool warm)"
    "written I 9 T_TxRefund re" "rw_value re = ValueV r" "rw_value_prev re = ValueV r'"
    "\<exists>s s'. sstore_refund (wov_word (rw_value st)) (wov_word (rw_value_prev st)) (rw_aux0 st) r' s = Inr (r, s')"
    "\<exists>s s'. sstore_warm_gas (wov_word (rw_value st)) (wov_word (rw_value_prev st)) (rw_aux0 st) s = Inr (k, s')"
    "in_same_context I (FQ Opcode_SSTORE) ((within_call (Delta (FQ 10)) (Delta (FQ 1)) (Delta (FQ 2)))
         \<lparr>sc_reversible_write_counter := Delta (FQ 3), sc_dynamic_gas_cost := (if warm then k else k + FQ COLD_SLOAD_COST)\<rparr>)"
proof -
  let ?s = "offsets0\<lparr>program_counter_offset := 1, rw_counter_offset := 2\<rparr>"
  obtain rinfo t args rinfo0 st rinfo1 t1 args1 ac rinfo2 t2 a args2 re rinfo3 t3 r r' k where
    rev: "instr_reversion_info I None ?s = Inr (rinfo, t)"
    and st: "stack_value I (2 + rw_counter_offset t) RW_Read (stack_pointer_offset t + 1) (wov_word (rw_value st))"
      "state_write I T_AccountStorage args rinfo0
         (t\<lparr>rw_counter_offset := 3 + rw_counter_offset t, stack_pointer_offset := 2 + stack_pointer_offset t\<rparr>) =
       Inr ((st, rinfo1), t1)"
    and ac: "state_write I T_TxAccessListAccountStorage args1 rinfo1 t1 = Inr ((ac, rinfo2), t2)"
      "rw_value_prev ac = ValueV a" "is_bool_fq a"
    and re: "state_write I T_TxRefund args2 rinfo2 t2 = Inr ((re, rinfo3), t3)" "rw_value re = ValueV r"
      "rw_value_prev re = ValueV r'"
    and gas: "\<exists>s s'. sstore_refund (wov_word (rw_value st)) (wov_word (rw_value_prev st)) (rw_aux0 st) r' s = Inr (r, s')"
      "\<exists>s s'. sstore_warm_gas (wov_word (rw_value st)) (wov_word (rw_value_prev st)) (rw_aux0 st) s = Inr (k, s')"
    and step: "in_same_context I (FQ Opcode_SSTORE) ((within_call (Delta (FQ 10)) (Delta 1) (Delta (FQ 2)))
         \<lparr>sc_reversible_write_counter := Delta (FQ 3), sc_dynamic_gas_cost := (if a = 1 then k else k + FQ COLD_SLOAD_COST)\<rparr>)"
    using assms
    unfolding accepted_def sstore_def account_storage_write_def add_account_storage_to_access_list_def tx_refund_write_def
    by (simp add: ok_simps Let_def word_to_address_def word_to_fq_ok) (elim exE conjE, hypsubst, rule that,
      (assumption | (rule exI, rule exI, assumption))+)
  have t: "t = ?s\<lparr>rw_counter_offset := 4\<rparr>" using instr_reversion_info_state [OF rev] by simp
  note w1 = state_write_row [OF st(2)]
  note w2 = state_write_row [OF ac(1)]
  note w3 = state_write_row [OF re(1)]
  show ?thesis
  proof (rule that [where warm = "a = 1"])
    show "written I 7 T_AccountStorage st" "stack_value I 6 RW_Read 1 (wov_word (rw_value st))"
      using w1 st(1) by (simp_all add: t)
    show "written I 8 T_TxAccessListAccountStorage ac" "written I 9 T_TxRefund re"
      using w1 w2 w3 by (simp_all add: t)
    show "rw_value_prev ac = ValueV (fq_of_bool (a = 1))" using ac(2,3) by (auto simp: is_bool_fq_def)
  qed (use re gas step in simp_all)
qed

definition storage_told_apart :: "instruction \<Rightarrow> bool" where
  "storage_told_apart I \<longleftrightarrow>
     (\<forall>st. written I 7 T_AccountStorage st \<longrightarrow>
        told_apart [WordLH 0 0, rw_aux0 st, wov_word (rw_value_prev st), wov_word (rw_value st)])"

lemma opcodes_SSTORE: "opcode_aux_pairs (responsible_opcode ES_SSTORE) = map (\<lambda>c. (c, 0)) [Opcode_SSTORE]"
  by (simp add: opcode_aux_pairs_def responsible_opcode_def)

lemma cost_SSTORE: "list_all (\<lambda>c. c \<in> set valid_opcodes \<and> constant_gas_cost c = Inr 0) [Opcode_SSTORE]"
  by code_simp

lemma sstore_advances:
  assumes "ss_execution_state (i_curr I) = ES_SSTORE" "0 \<le> d" "d < 2 ^ 100"
  shows "in_same_context I opc ((within_call r p q)\<lparr>sc_reversible_write_counter := w, sc_dynamic_gas_cost := FQ d\<rparr>) \<longleftrightarrow>
    opc = FQ Opcode_SSTORE \<and> advances I d ((within_call r p q)\<lparr>sc_reversible_write_counter := w\<rparr>)"
proof -
  have "in_same_context I opc ((within_call r p q)\<lparr>sc_reversible_write_counter := w, sc_dynamic_gas_cost := FQ d\<rparr>) \<longleftrightarrow>
    (\<exists>c\<in>set [Opcode_SSTORE]. opc = FQ c) \<and>
      advances I (0 + d) ((within_call r p q)\<lparr>sc_reversible_write_counter := w, sc_dynamic_gas_cost := FQ d\<rparr>)"
    by (rule in_same_context_advances) (use assms cost_SSTORE in \<open>simp_all add: opcodes_SSTORE\<close>)
  then show ?thesis by (simp add: advances_def)
qed

text \<open>
  C5: SSTORE charges and refunds what EIP-2200, EIP-2929 and EIP-3529 say for the original,
  the current and the new value of the slot, when no two of these and zero have the same sum
  of their halves.
\<close>

theorem sstore_follows_eip:
  assumes "ss_execution_state (i_curr I) = ES_SSTORE" "storage_told_apart I" "accepted (sstore I)"
  shows "\<exists>st ac re warm r r'. written I 7 T_AccountStorage st \<and> stack_value I 6 RW_Read 1 (wov_word (rw_value st)) \<and>
    written I 8 T_TxAccessListAccountStorage ac \<and> rw_value_prev ac = ValueV (fq_of_bool warm) \<and>
    written I 9 T_TxRefund re \<and> rw_value re = ValueV r \<and> rw_value_prev re = ValueV r' \<and>
    r = r' + FQ (eip3529_refund (rw_aux0 st) (wov_word (rw_value_prev st)) (wov_word (rw_value st))) \<and>
    advances I (eip2200_gas (rw_aux0 st) (wov_word (rw_value_prev st)) (wov_word (rw_value st)) +
        (if warm then 0 else COLD_SLOAD_COST))
      ((within_call (Delta (FQ 10)) (Delta (FQ 1)) (Delta (FQ 2)))\<lparr>sc_reversible_write_counter := Delta (FQ 3)\<rparr>)"
proof -
  obtain st ac re warm r r' k where rows: "written I 7 T_AccountStorage st"
    "stack_value I 6 RW_Read 1 (wov_word (rw_value st))"
    "written I 8 T_TxAccessListAccountStorage ac" "rw_value_prev ac = ValueV (fq_of_bool warm)"
    "written I 9 T_TxRefund re" "rw_value re = ValueV r" "rw_value_prev re = ValueV r'"
    and refund: "\<exists>s s'. sstore_refund (wov_word (rw_value st)) (wov_word (rw_value_prev st)) (rw_aux0 st) r' s = Inr (r, s')"
    and gas: "\<exists>s s'. sstore_warm_gas (wov_word (rw_value st)) (wov_word (rw_value_prev st)) (rw_aux0 st) s = Inr (k, s')"
    and step: "in_same_context I (FQ Opcode_SSTORE) ((within_call (Delta (FQ 10)) (Delta (FQ 1)) (Delta (FQ 2)))
         \<lparr>sc_reversible_write_counter := Delta (FQ 3), sc_dynamic_gas_cost := (if warm then k else k + FQ COLD_SLOAD_COST)\<rparr>)"
    by (rule sstore_runs [OF assms(3)])
  let ?g = "eip2200_gas (rw_aux0 st) (wov_word (rw_value_prev st)) (wov_word (rw_value st))"
  have told: "told_apart [WordLH 0 0, rw_aux0 st, wov_word (rw_value_prev st), wov_word (rw_value st)]"
    using assms(2) rows(1) by (auto simp: storage_told_apart_def)
  have "k = FQ ?g" using gas sstore_warm_gas_eip [OF told] by blast
  then have d: "(if warm then k else k + FQ COLD_SLOAD_COST) = FQ (?g + (if warm then 0 else COLD_SLOAD_COST))"
    by (simp add: FQ_arith)
  have "advances I (?g + (if warm then 0 else COLD_SLOAD_COST))
      ((within_call (Delta (FQ 10)) (Delta (FQ 1)) (Delta (FQ 2)))\<lparr>sc_reversible_write_counter := Delta (FQ 3)\<rparr>)"
    using step unfolding d by (subst (asm) sstore_advances [OF assms(1)]) (simp_all add: eip2200_gas_def)
  moreover have "r = r' + FQ (eip3529_refund (rw_aux0 st) (wov_word (rw_value_prev st)) (wov_word (rw_value st)))"
    using refund sstore_refund_eip [OF told] by blast
  ultimately show ?thesis using rows by blast
qed

section \<open>Concrete steps\<close>

text \<open>A warm slot of the account 5, with a hundred gas left and no refund.\<close>

definition sstore_rows :: "word256 \<Rightarrow> word256 \<Rightarrow> word256 \<Rightarrow> rw_row list" where
  "sstore_rows orig p v =
     (let context = (\<lambda>tag x. plain_row RW_Read T_CallContext 1 (FQ (cc_int tag)) 0 (WordLH 0 0) x (ValueV 0));
        slot = (\<lambda>tag x y. plain_row RW_Write tag 1 (FQ 5) 0 (word_of 2) x y) in
      [context CC_TxId (ValueV 1), context CC_IsStatic (ValueV 0), context CC_RwCounterEndOfReversion (ValueV 0),
       context CC_IsPersistent (ValueV 1), context CC_CalleeAddress (WordV (word_of 5)),
       plain_row RW_Read T_Stack 1 (FQ 1000) 0 (WordLH 0 0) (WordV (word_of 2)) (ValueV 0),
       plain_row RW_Read T_Stack 1 (FQ 1001) 0 (WordLH 0 0) (WordV v) (ValueV 0),
       (slot T_AccountStorage (WordV v) (WordV p))\<lparr>rw_aux0 := orig\<rparr>,
       slot T_TxAccessListAccountStorage (ValueV 1) (ValueV 1),
       plain_row RW_Write T_TxRefund 1 0 0 (WordLH 0 0) (ValueV 0) (ValueV 0)])"

definition sstore_step :: "word256 \<Rightarrow> word256 \<Rightarrow> word256 \<Rightarrow> instruction" where
  "sstore_step orig p v = rows_step ES_SSTORE Opcode_SSTORE (sstore_rows orig p v)
     ((sample_state ES_STOP)\<lparr>ss_rw_counter := FQ 110, ss_program_counter := 1, ss_stack_pointer := FQ 1002,
        ss_gas_left := 0, ss_reversible_write_counter := FQ 3\<rparr>)"

lemma sstore_step_accepted:
  assumes warm: "\<And>s. sstore_warm_gas v p orig s = Inr (FQ 100, s)"
    and refund: "\<And>s. sstore_refund v p orig 0 s = Inr (0, s)"
  shows "accepted (sstore (sstore_step orig p v))"
proof -
  let ?I = "sstore_step orig p v" and ?rows = "sstore_rows orig p v"
  note fold = sstore_step_def [of orig p v, symmetric]
  have len: "length ?rows = 10" by (simp add: sstore_rows_def Let_def)
  note ctx = rows_context [where rows = ?rows, unfolded len]
  have cc: "context_value ?I 0 RW_Read 1 CC_TxId (ValueV 1)" "context_value ?I 1 RW_Read 1 CC_IsStatic (ValueV 0)"
    "context_value ?I 2 RW_Read 1 CC_RwCounterEndOfReversion (ValueV 0)"
    "context_value ?I 3 RW_Read 1 CC_IsPersistent (ValueV 1)"
    "context_value ?I 4 RW_Read 1 CC_CalleeAddress (WordV (word_of 5))"
    using ctx [of 0] ctx [of 1] ctx [of 2] ctx [of 3] ctx [of 4]
    by (simp_all add: sstore_step_def sstore_rows_def Let_def del: cc_int.simps)
  note stack = rows_stack [where rows = ?rows, unfolded len]
  have st: "stack_value ?I 5 RW_Read 0 (word_of 2)" "stack_value ?I 6 RW_Read 1 v"
    using stack [of 5 RW_Read 0 "WordV (word_of 2)"] stack [of 6 RW_Read 1 "WordV v"]
    by (simp_all add: sstore_step_def sstore_rows_def Let_def)
  obtain r where r: "instr_reversion_info ?I None (at_offsets 2 0) = Inr (r, at_offsets 4 0)" "is_persistent r = 1"
    using rows_reversion_info [of ?I 2 None 0 0] cc(3,4) by (auto simp: sstore_step_def)
  have pop: "stack_pop ?I (at_offsets 5 0) = Inr (word_of 2, at_offsets 6 1)"
    "stack_pop ?I (at_offsets 6 1) = Inr (v, at_offsets 7 2)"
    using st by (simp_all add: stack_pop_ok)
  have read: "opcode_lookup ?I True offsets0 = Inr (FQ Opcode_SSTORE, at_offsets 0 0)"
    "call_context_lookup ?I CC_TxId RW_Read None (at_offsets 0 0) = Inr (1, at_offsets 1 0)"
    "call_context_lookup ?I CC_IsStatic RW_Read None (at_offsets 1 0) = Inr (0, at_offsets 2 0)"
    "call_context_lookup_word ?I CC_CalleeAddress RW_Read None (at_offsets 4 0) = Inr (WordV (word_of 5), at_offsets 5 0)"
    "word_to_address (word_of 5) (at_offsets 5 0) = Inr (FQ 5, at_offsets 5 0)"
    using cc rows_step_opcode [of ES_SSTORE Opcode_SSTORE]
    by (simp_all add: sstore_step_def ok_simps at_offsets_start word_to_address_def word_of_ok)
  note wr = rows_write [where rows = ?rows and es = ES_SSTORE and opc = Opcode_SSTORE, unfolded len, OF _ _ _ r(2)]
  let ?slot = "no_args\<lparr>a_id := Some 1, a_address := Some (FQ 5), a_storage_key := Some (word_of 2)\<rparr>"
  have matches: "rw_matches (rw_query_of (FQ 107) RW_Write T_AccountStorage (?slot\<lparr>a_rw_counter := None\<rparr>)) (numbered ?rows ! 7)"
    "rw_matches (rw_query_of (FQ 108) RW_Write T_TxAccessListAccountStorage
      (?slot\<lparr>a_value := Some (ValueV (FQ 1)), a_rw_counter := None\<rparr>)) (numbered ?rows ! 8)"
    "rw_matches (rw_query_of (FQ 109) RW_Write T_TxRefund (no_args\<lparr>a_id := Some 1, a_rw_counter := None\<rparr>)) (numbered ?rows ! 9)"
    and vals: "rw_value (numbered ?rows ! 7) = WordV v" "rw_value_prev (numbered ?rows ! 7) = WordV p"
    "rw_aux0 (numbered ?rows ! 7) = orig" "rw_value_prev (numbered ?rows ! 8) = ValueV 1"
    "rw_value (numbered ?rows ! 9) = ValueV 0" "rw_value_prev (numbered ?rows ! 9) = ValueV 0"
    by (simp_all add: numbered_nth len sstore_rows_def Let_def plain_row_def rw_matches_def rw_query_of_def no_args_def)
  have "state_write ?I T_AccountStorage ?slot (Some r) (at_offsets 7 2) = Inr ((numbered ?rows ! 7, Some r), at_offsets 8 2)"
    "state_write ?I T_TxAccessListAccountStorage (?slot\<lparr>a_value := Some (ValueV (FQ 1))\<rparr>) (Some r) (at_offsets 8 2) =
      Inr ((numbered ?rows ! 8, Some r), at_offsets 9 2)"
    "state_write ?I T_TxRefund (no_args\<lparr>a_id := Some 1\<rparr>) (Some r) (at_offsets 9 2) = Inr ((numbered ?rows ! 9, Some r), at_offsets 10 2)"
    unfolding sstore_step_def using wr [of 7] wr [of 8] wr [of 9] matches by (simp_all add: write_with_reversion_def)
  then have writes: "account_storage_write ?I (FQ 5) (word_of 2) 1 (Some r) (at_offsets 7 2) = Inr (((v, p, orig), Some r), at_offsets 8 2)"
    "add_account_storage_to_access_list ?I 1 (FQ 5) (word_of 2) (Some r) (at_offsets 8 2) = Inr ((1, Some r), at_offsets 9 2)"
    "tx_refund_write ?I 1 (Some r) (at_offsets 9 2) = Inr (((0, 0), Some r), at_offsets 10 2)"
    by (simp_all add: account_storage_write_def add_account_storage_to_access_list_def tx_refund_write_def vals
        ibind_def ilift_def iret_def)
  have "in_same_context ?I (FQ Opcode_SSTORE) ((within_call (Delta (FQ 10)) (Delta (FQ 1)) (Delta (FQ 2)))
         \<lparr>sc_reversible_write_counter := Delta (FQ 3), sc_dynamic_gas_cost := FQ 100\<rparr>)"
    using FQ_arith(3) [of 100 10] FQ_arith(3) [of 1000 2]
    by (subst sstore_advances)
      (simp_all add: advances_def within_call_def same_context_def sstore_step_def sample_state_def StepState_def
         rows_step_def fq_modulus_def)
  then have step: "step_state_transition_in_same_context ?I (FQ Opcode_SSTORE) ((within_call (Delta (FQ 10)) (Delta (FQ 1)) (Delta (FQ 2)))
         \<lparr>sc_reversible_write_counter := Delta (FQ 3), sc_dynamic_gas_cost := FQ 100\<rparr>) s = Inr ((), s)" for s
    by (simp only: step_state_transition_in_same_context_ok simp_thms)
  show ?thesis
    using r(1) pop read writes step warm refund
    unfolding accepted_def sstore_def
    by (simp add: succeeds_iff ibind_def ithen_def constrain_runs)
qed

lemma sstore_step_row:
  "\<exists>st. (\<forall>x. written (sstore_step orig p v) 7 T_AccountStorage x \<longleftrightarrow> x = st) \<and>
     rw_value st = WordV v \<and> rw_value_prev st = WordV p \<and> rw_aux0 st = orig"
proof (intro exI conjI)
  let ?st = "numbered (sstore_rows orig p v) ! 7"
  have len: "length (sstore_rows orig p v) = 10" by (simp add: sstore_rows_def Let_def)
  show "rw_value ?st = WordV v" "rw_value_prev ?st = WordV p" "rw_aux0 ?st = orig"
    by (simp_all add: numbered_nth len sstore_rows_def Let_def plain_row_def)
  have "written (sstore_step orig p v) (int 7) T_AccountStorage x \<longleftrightarrow> x = ?st" for x
    unfolding sstore_step_def by (rule rows_written) (simp_all add: len, simp_all add: sstore_rows_def Let_def plain_row_def)
  then show "\<forall>x. written (sstore_step orig p v) 7 T_AccountStorage x \<longleftrightarrow> x = ?st" by simp
qed

lemmas sstore_select_simps = sstore_warm_gas_def sstore_refund_def is_equal_word_sum is_zero_word_sum constrain_runs ibind_def

lemma sstore_follows_eip_witness:
  "\<exists>st. written (sstore_step (word_of 3) (word_of 3) (word_of 3)) 7 T_AccountStorage st"
proof -
  let ?w = "word_of 3" and ?I = "sstore_step (word_of 3) (word_of 3) (word_of 3)"
  have w: "?w = WordLH (FQ 3) 0" by (simp add: word_of_def)
  have told: "told_apart [WordLH 0 0, ?w, ?w, ?w]" by (simp add: told_apart_def w)
  obtain st where "\<And>x. written ?I 7 T_AccountStorage x \<longleftrightarrow> x = st" "rw_value st = WordV ?w" "rw_value_prev st = WordV ?w"
    "rw_aux0 st = ?w"
    using sstore_step_row by blast
  then have "storage_told_apart ?I" using told by (simp add: storage_told_apart_def)
  moreover have "accepted (sstore ?I)"
    by (rule sstore_step_accepted) (simp_all add: sstore_select_simps w)
  moreover have "ss_execution_state (i_curr ?I) = ES_SSTORE" by (simp add: sstore_step_def)
  ultimately show ?thesis using sstore_follows_eip [of ?I] by blast
qed

text \<open>
  C10: The gadget of SSTORE takes two words with equal sums of their halves for the same
  word: it accepts the step that stores 1 over 2^128, the original value of the slot, for
  the 100 gas of a write that changes nothing.
\<close>

theorem sstore_equal_sums:
  "\<exists>I st. ss_execution_state (i_curr I) = ES_SSTORE \<and> accepted (sstore I) \<and> written I 7 T_AccountStorage st \<and>
    rw_aux0 st = word_of (2 ^ 128) \<and> rw_value_prev st = WordV (word_of (2 ^ 128)) \<and> rw_value st = WordV (word_of 1) \<and>
    fq_n (ss_gas_left (i_curr I)) = fq_n (ss_gas_left (i_next I)) + 100 \<and>
    eip2200_gas (word_of (2 ^ 128)) (word_of (2 ^ 128)) (word_of 1) = 2900"
proof -
  let ?p = "word_of (2 ^ 128)" and ?v = "word_of 1"
  let ?I = "sstore_step ?p ?p ?v"
  have w: "?p = WordLH 0 1" "?v = WordLH 1 0" by (simp_all add: word_of_def)
  obtain st where st: "written ?I 7 T_AccountStorage st" "rw_value st = WordV ?v" "rw_value_prev st = WordV ?p" "rw_aux0 st = ?p"
    using sstore_step_row by blast
  have "accepted (sstore ?I)"
    unfolding w by (rule sstore_step_accepted) (simp_all add: sstore_select_simps)
  moreover have "ss_execution_state (i_curr ?I) = ES_SSTORE" "fq_n (ss_gas_left (i_curr ?I)) = fq_n (ss_gas_left (i_next ?I)) + 100"
    by (simp_all add: sstore_step_def rows_step_def sample_state_def StepState_def fq_modulus_def)
  moreover have "eip2200_gas ?p ?p ?v = 2900" unfolding w by (simp add: eip2200_gas_def)
  ultimately show ?thesis using st by blast
qed

end
