(* ===== verification/Call_Facts.thy ===== *)
theory Call_Facts
  imports Exec_Call Step_Gas Sample
begin

text \<open>
  The gas of a call: what \<open>CallGadget.gas_cost\<close> charges and how much of the rest the callee gets, by
  the rule of EIP-150.
\<close>

section \<open>What the constructor of the gadget ensures\<close>

definition call_gadget_wf :: "call_gadget \<Rightarrow> bool" where
  "call_gadget_wf call \<longleftrightarrow>
     is_bool_fq (cg_has_value call) \<and> is_bool_fq (cg_is_success call) \<and> is_bool_fq (cg_callee_not_exists call) \<and>
     cg_is_u64_gas call = 1 \<and> fq_n (cg_gas call) < 2 ^ 64 \<and> fq_n (cg_memory_expansion_gas_cost call) < 2 ^ 100"

lemma high_bytes_sum:
  assumes "0 \<le> v" "v < 2 ^ 64"
  shows "is_zero (sum_values (drop 8 (map FQ (le_bytes 32 v)))) = 1"
proof -
  have "v div 256 ^ 8 = 0" using assms by simp
  then have "drop 8 (map FQ (le_bytes 32 v)) = map FQ (le_bytes 24 0)"
    by (simp only: drop_map drop_le_bytes) simp
  then show ?thesis by (simp only: sum_values_def sum_zero_bytes) (simp add: is_zero_simp)
qed

lemma is_zero_bool: "is_bool_fq (is_zero x)" "is_bool_fq (is_zero_word w)" "is_bool_fq (1 - is_zero_word w)"
  by (simp_all add: is_zero_simp is_zero_word_def)

lemma new_call_gadget_wf:
  assumes "new_call_gadget I a b c d e s = Inr (call, s')"
  shows "call_gadget_wf call"
proof -
  obtain ops :: call_operands and t t' is_success cd rd cdl rdl m g s1 s2 code_hash ca where
    result: "call_gadget_check_result a (co_result ops) t = Inr (is_success, t')"
    and gas: "word_ok (co_gas ops)" "int_value (co_gas ops) < 2 ^ 64"
    and mem: "memory_expansion_dynamic_length I cd cdl (Some (rd, rdl)) s1 = Inr ((m, g), s2)"
    and call: "call = \<lparr>cg_gas = FQ (int_value (co_gas ops)), cg_callee_address = ca,
     cg_value = co_value ops, cg_cd_offset = cd, cg_cd_length = cdl, cg_rd_offset = rd, cg_rd_length = rdl,
     cg_is_success = is_success,
     cg_is_u64_gas = is_zero (sum_values (drop 8 (map FQ (le_bytes 32 (int_value (co_gas ops)))))),
     cg_next_memory_size = m, cg_memory_expansion_gas_cost = g,
     cg_has_value = (if d + e = 1 then FQ 0 else 1 - is_zero_word (co_value ops)),
     cg_callee_code_hash = code_hash,
     cg_is_empty_code_hash = is_equal_word code_hash (word_of (EMPTY_CODE_HASH (ext_keccak (i_ext I)))),
     cg_callee_not_exists = is_zero_word code_hash\<rparr>"
    using assms unfolding new_call_gadget_def by (simp add: ok_simps Let_def) (elim exE conjE, rule that, (assumption | simp)+)
  have "is_bool_fq (cg_is_success call)" using result call by (auto simp: call_gadget_check_result_def ok_simps Let_def)
  moreover have "is_bool_fq (cg_has_value call)" "is_bool_fq (cg_callee_not_exists call)"
    by (simp_all add: call is_zero_bool)
  moreover have "fq_n (cg_memory_expansion_gas_cost call) < 2 ^ 100"
    using memory_expansion_dynamic_cost [OF mem] by (simp add: call)
  moreover have "fq_n (cg_gas call) < 2 ^ 64"
    using gas int_value_nonneg [of "co_gas ops"] by (simp add: call fq_modulus_def)
  moreover have "cg_is_u64_gas call = 1"
    using high_bytes_sum [OF int_value_nonneg gas(2)] by (simp add: call)
  ultimately show ?thesis by (simp add: call_gadget_wf_def)
qed

section \<open>The rule\<close>

definition call_cost :: "call_gadget \<Rightarrow> bool \<Rightarrow> bool \<Rightarrow> int" where
  "call_cost call warm is_call =
     (if warm then GAS_COST_WARM_ACCESS else GAS_COST_ACCOUNT_COLD_ACCESS) +
     (if cg_has_value call = 1
      then GAS_COST_CALL_WITH_VALUE +
        (if is_call \<and> cg_is_success call = 1 \<and> cg_callee_not_exists call = 1 then GAS_COST_NEW_ACCOUNT else 0)
      else 0) +
     fq_n (cg_memory_expansion_gas_cost call)"

lemma call_gadget_gas_cost_ok:
  assumes "call_gadget_wf call" "is_bool_fq is_call"
  shows "call_gadget_gas_cost call warm is_call s = Inr (g, s') \<longleftrightarrow>
    is_bool_fq warm \<and> g = FQ (call_cost call (warm = 1) (is_call = 1)) \<and> s' = s"
  using assms
  by (auto simp: call_gadget_gas_cost_def call_gadget_wf_def is_bool_fq_def ok_simps call_cost_def FQ_arith)

text \<open>
  C6: The gas of CALL, CALLCODE, DELEGATECALL and STATICCALL: for a call gadget as its
  constructor makes it (flags of 0 and 1, gas asked for below 2^64, memory cost below
  2^100), is_call of 0 or 1 and gas left below 2^64, the gas part succeeds exactly when the
  cost of the call is covered by the gas left, and gives the callee the gas asked for,
  capped by all but one 64th of what remains. The cost is that of the access, of the
  transfer if there is a value, of the memory, and of a new account only for a CALL that
  succeeds with a value to an account that does not exist; the documents charge the last one
  whatever the opcode and the result.
\<close>

theorem call_gas_eip150:
  assumes "call_gadget_wf call" "is_bool_fq is_call" "fq_n (ss_gas_left (i_curr I)) < 2 ^ 64"
  shows "callop_gas I call warm is_call s = Inr ((cost, callee_gas), s') \<longleftrightarrow>
    (let c = call_cost call (warm = 1) (is_call = 1); available = fq_n (ss_gas_left (i_curr I)) - c in
     is_bool_fq warm \<and> 0 \<le> available \<and> cost = FQ c \<and>
     callee_gas = FQ (min (available - available div 64) (fq_n (cg_gas call))) \<and> s' = s)"
proof -
  let ?c = "call_cost call (warm = 1) (is_call = 1)" and ?g = "fq_n (ss_gas_left (i_curr I))"
  have u64: "cg_is_u64_gas call = 1" and gas: "fq_n (cg_gas call) < 2 ^ 64"
    and mem: "fq_n (cg_memory_expansion_gas_cost call) < 2 ^ 100"
    using assms(1) by (simp_all add: call_gadget_wf_def)
  have c: "0 \<le> ?c" "?c < 2 ^ 101"
    using mem fq_n_nonneg [of "cg_memory_expansion_gas_cost call"] by (auto simp: call_cost_def)
  have g: "0 \<le> ?g" "?g < 2 ^ 64" using assms(3) fq_n_nonneg by auto
  have diff: "ss_gas_left (i_curr I) - FQ ?c = FQ (?g - ?c)" by (simp add: FQ_arith)
  have n64: "fq_n (FQ 64) = 64" by (simp add: fq_modulus_def)
  show ?thesis
  proof (cases "?c \<le> ?g")
    case True
    let ?a = "?g - ?c"
    have a: "0 \<le> ?a" "?a < 2 ^ 64" using True g c by simp_all
    have n: "fq_n (FQ ?a) = ?a" by (rule fq_n_FQ_small) (use a in \<open>simp_all add: fq_modulus_def\<close>)
    have q: "0 \<le> ?a - ?a div 64" "?a - ?a div 64 < 2 ^ 64" "?a div 64 < 2 ^ 64" using a by linarith+
    have rest: "FQ ?a - FQ (?a div 64) = FQ (?a - ?a div 64)" by (simp add: FQ_arith)
    have r: "fq_n (FQ (?a - ?a div 64)) = ?a - ?a div 64"
      by (rule fq_n_FQ_small) (use q in \<open>simp_all add: fq_modulus_def\<close>)
    have capped: "(if fq_n (FQ (?a - ?a div 64)) < fq_n (cg_gas call) then FQ (?a - ?a div 64) else cg_gas call) =
      FQ (min (?a - ?a div 64) (fq_n (cg_gas call)))"
      unfolding r by (simp add: min_def)
    have "callop_gas I call warm is_call s = Inr ((cost, callee_gas), s') \<longleftrightarrow>
      is_bool_fq warm \<and> cost = FQ ?c \<and>
      callee_gas = (if fq_n (FQ (?a - ?a div 64)) < fq_n (cg_gas call) then FQ (?a - ?a div 64) else cg_gas call) \<and> s' = s"
      using n q r gas u64 n64
      by (auto simp: callop_gas_def Let_def ok_simps call_gadget_gas_cost_ok [OF assms(1,2)] diff rest
          simp del: fq_n_FQ)
    then show ?thesis unfolding capped Let_def using a(1) by simp
  next
    case False
    have big: "?c < fq_modulus" and far: "?c + 2 ^ 70 \<le> fq_modulus" using c by (simp_all add: fq_modulus_def)
    have "fq_n (FQ (?g - ?c)) = (?g - ?c + fq_modulus) mod fq_modulus" by simp
    also have "\<dots> = ?g - ?c + fq_modulus"
      using False g(1) c(1) big by (intro mod_pos_pos_trivial) linarith+
    finally have n: "fq_n (FQ (?g - ?c)) = ?g - ?c + fq_modulus" .
    have "2 ^ 70 \<le> ?g - ?c + fq_modulus" using g(1) far by linarith
    then have "2 ^ 64 \<le> (?g - ?c + fq_modulus) div 64" by simp
    then have "\<not> (\<exists>z. constant_divmod (FQ (?g - ?c)) (FQ 64) N_BYTES_GAS s = Inr z)"
      using n n64 by (auto simp: constant_divmod_ok simp del: fq_n_FQ)
    then show ?thesis
      using False by (auto simp: callop_gas_def Let_def ok_simps call_gadget_gas_cost_ok [OF assms(1,2)] diff)
  qed
qed

definition sample_call :: call_gadget where
  "sample_call =
     \<lparr>cg_gas = FQ 70, cg_callee_address = FQ 5, cg_value = WordLH 0 0, cg_cd_offset = 0, cg_cd_length = 0,
      cg_rd_offset = 0, cg_rd_length = 0, cg_is_success = 1, cg_is_u64_gas = 1, cg_next_memory_size = 0,
      cg_memory_expansion_gas_cost = 0, cg_has_value = 0, cg_callee_code_hash = WordLH 7 0,
      cg_is_empty_code_hash = 0, cg_callee_not_exists = 0\<rparr>"

definition sample_caller :: instruction where
  "sample_caller = (sample_step ES_CALL_OP Opcode_CALL [] 0 0)
     \<lparr>i_curr := (sample_state ES_CALL_OP)\<lparr>ss_gas_left := FQ 164\<rparr>\<rparr>"

text \<open>With 164 gas a warm call leaves 64, so the callee that asks for 70 gets 63.\<close>

lemma call_gas_eip150_witness:
  "callop_gas sample_caller sample_call 1 1 offsets0 = Inr ((FQ 100, FQ 63), offsets0)"
proof -
  have g: "fq_n (ss_gas_left (i_curr sample_caller)) = 164" by (simp add: sample_caller_def fq_modulus_def)
  have wf: "call_gadget_wf sample_call" by (simp add: call_gadget_wf_def sample_call_def fq_modulus_def)
  have c: "call_cost sample_call True True = 100" "fq_n (cg_gas sample_call) = 70"
    by (simp_all add: call_cost_def sample_call_def fq_modulus_def)
  show ?thesis
    by (subst call_gas_eip150 [OF wf]) (simp_all add: g c)
qed

end
