(* ===== verification/Tx_Facts.thy ===== *)
theory Tx_Facts
  imports Exec_Tx Exec_Compare Sample_Rows
begin

text \<open>
  The settlement of a transaction by EndTx: what the sender gets back, what the coinbase is paid and
  what the receipt records.
\<close>

section \<open>Arithmetic of balances\<close>

lemma mul_word_by_u64_value:
  assumes "word_ok w" "fq_n m < 2 ^ 70" "mul_word_by_u64 w m s = Inr (r, s')"
  shows "int_value r = int_value w * fq_n m" "word_ok r" "s' = s"
proof -
  let ?m = "fq_n m" and ?l = "fq_n (lo w)" and ?h = "fq_n (hi w)"
  have bounds: "0 \<le> ?m" "0 \<le> ?l" "?l < 2 ^ 128" "0 \<le> ?h" "?h < 2 ^ 128"
    using assms(1) by (simp_all add: word_ok_def)
  have prod: "0 \<le> x * ?m" "x * ?m < 2 ^ 198" if "0 \<le> x" "x < 2 ^ 128" for x
  proof -
    show "0 \<le> x * ?m" using that bounds by simp
    have "x * ?m \<le> (2 ^ 128 - 1) * (2 ^ 70 - 1)" by (rule mult_mono) (use that bounds assms(2) in auto)
    also have "\<dots> < 2 ^ 198" by simp
    finally show "x * ?m < 2 ^ 198" .
  qed
  have lo: "fq_n (lo w * m) = ?l * ?m"
    using prod [OF bounds(2,3)] by (intro fq_n_mult_small) (simp add: fq_modulus_def)
  define q where "q = ?l * ?m div 2 ^ 128"
  have q: "0 \<le> q" "q < 2 ^ 70"
    using prod [OF bounds(2,3)] by (simp_all add: q_def pos_imp_zdiv_nonneg_iff div_less_iff_less_mult)
  have "hi w * m + FQ q = FQ (?h * ?m + q)" by (simp add: FQ_arith)
  moreover have "fq_n (FQ (?h * ?m + q)) = ?h * ?m + q"
    using prod [OF bounds(4,5)] q by (intro fq_n_FQ_small) (simp_all add: fq_modulus_def)
  ultimately have hi: "fq_n (hi w * m + FQ q) = ?h * ?m + q" by simp
  have total: "0 \<le> ?h * ?m + q" "?h * ?m + q < 2 ^ 199" using prod [OF bounds(4,5)] q by simp_all
  have "fq_n (FQ ((?h * ?m + q) div 2 ^ 128)) = (?h * ?m + q) div 2 ^ 128"
    using total by (intro fq_n_FQ_small) (simp_all add: fq_modulus_def pos_imp_zdiv_nonneg_iff div_less_iff_less_mult)
  then have zero: "FQ ((?h * ?m + q) div 2 ^ 128) = 0 \<longleftrightarrow> (?h * ?m + q) div 2 ^ 128 = 0"
    by (auto simp: fq_eq_iff)
  have "(?h * ?m + q) div 2 ^ 128 = 0"
    and r: "word_of_tuple (FQ (?l * ?m mod 2 ^ 128)) (FQ ((?h * ?m + q) mod 2 ^ 128)) = Inr r" and s: "s' = s"
    using assms(3) unfolding mul_word_by_u64_def Let_def lo q_def [symmetric] hi
    by (simp_all only: ok_simps zero) auto
  then have small: "?h * ?m + q < 2 ^ 128" using total by (auto simp: zdiv_eq_0_iff)
  have n: "fq_n (FQ (?l * ?m mod 2 ^ 128)) = ?l * ?m mod 2 ^ 128" "fq_n (FQ ((?h * ?m + q) mod 2 ^ 128)) = ?h * ?m + q"
    using small total by (simp_all add: fq_modulus_def)
  have rv: "r = WordLH (FQ (?l * ?m mod 2 ^ 128)) (FQ ((?h * ?m + q) mod 2 ^ 128))"
    using r by (simp add: word_of_tuple_def rbind_ok)
  show "word_ok r" "s' = s" using n small s by (simp_all add: rv word_ok_def)
  have "int_value r = ?l * ?m mod 2 ^ 128 + (?h * ?m + q) * 2 ^ 128" using n by (simp add: rv int_value_def)
  also have "\<dots> = (?l * ?m mod 2 ^ 128 + q * 2 ^ 128) + ?h * ?m * 2 ^ 128" by (simp add: algebra_simps)
  also have "\<dots> = int_value w * ?m"
    unfolding q_def by (simp only: mod_div_mult_eq) (simp add: int_value_def algebra_simps)
  finally show "int_value r = int_value w * ?m" .
qed

lemma sub_word_value:
  assumes ok: "word_ok a" "word_ok b" and run: "sub_word a b s = Inr ((r, borrow), s')"
  shows "int_value r = (int_value a - int_value b) mod 2 ^ 256" "word_ok r" "s' = s"
proof -
  let ?la = "fq_n (lo a)" and ?lb = "fq_n (lo b)" and ?ha = "fq_n (hi a)" and ?hb = "fq_n (hi b)"
  have bounds: "0 \<le> ?la" "?la < 2 ^ 128" "0 \<le> ?lb" "?lb < 2 ^ 128" "0 \<le> ?ha" "?ha < 2 ^ 128" "0 \<le> ?hb" "?hb < 2 ^ 128"
    using ok by (simp_all add: word_ok_def)
  define bl :: int where "bl = (if ?la < ?lb then 1 else 0)"
  define bh :: int where "bh = (if ?ha < ?hb + bl then 1 else 0)"
  let ?l = "?la - ?lb + bl * 2 ^ 128" and ?h = "?ha - ?hb - bl + bh * 2 ^ 128"
  have l: "0 \<le> ?l" "?l < 2 ^ 128" unfolding bl_def using bounds by (simp_all only: split: if_split) linarith+
  have h: "0 \<le> ?h" "?h < 2 ^ 128" unfolding bl_def bh_def using bounds by (simp_all only: split: if_split) linarith+
  have "r = WordLH (FQ ?l) (FQ ?h)" "s' = s"
    using run unfolding sub_word_def Let_def
    by (auto simp: ok_simps word_of_tuple_def bl_def bh_def FQ_arith split: if_splits)
  moreover have n: "fq_n (FQ ?l) = ?l" "fq_n (FQ ?h) = ?h"
    using l h by (auto intro!: fq_n_FQ_small simp: fq_modulus_def)
  ultimately show w: "word_ok r" "s' = s" using l h by (simp_all add: word_ok_def)
  have "int_value r = ?l + ?h * 2 ^ 128" using \<open>r = _\<close> n by (simp add: int_value_def)
  also have "\<dots> = int_value a - int_value b + bh * 2 ^ 256" by (simp add: int_value_def algebra_simps)
  finally have v: "int_value r = int_value a - int_value b + bh * 2 ^ 256" .
  have "int_value r mod 2 ^ 256 = (int_value a - int_value b) mod 2 ^ 256" unfolding v by simp
  then show "int_value r = (int_value a - int_value b) mod 2 ^ 256"
    using int_value_lt [OF w(1)] int_value_nonneg [of r] by simp
qed

section \<open>Rows\<close>

definition tx_field :: "instruction \<Rightarrow> fq \<Rightarrow> tx_context_field_tag \<Rightarrow> word_or_value \<Rightarrow> bool" where
  "tx_field I tx_id tag v \<longleftrightarrow>
     (\<exists>r. tx_lookup (i_tables I) tx_id (FQ (tc_int tag)) (FQ 0) = Inr r \<and> v = tx_value r)"

definition block_field :: "instruction \<Rightarrow> block_context_field_tag \<Rightarrow> word_or_value \<Rightarrow> bool" where
  "block_field I tag v \<longleftrightarrow>
     (\<exists>r. block_lookup (i_tables I) (FQ (bc_int tag)) (FQ 0) = Inr r \<and> v = bk_value r)"

definition refund_value :: "instruction \<Rightarrow> int \<Rightarrow> fq \<Rightarrow> fq \<Rightarrow> bool" where
  "refund_value I k tx_id x \<longleftrightarrow> rw_value_at I k RW_Read T_TxRefund (no_args\<lparr>a_id := Some tx_id\<rparr>) (ValueV x)"

definition receipt_value :: "instruction \<Rightarrow> int \<Rightarrow> rw \<Rightarrow> fq \<Rightarrow> tx_receipt_field_tag \<Rightarrow> fq \<Rightarrow> bool" where
  "receipt_value I k rw tx_id tag x \<longleftrightarrow>
     rw_value_at I k rw T_TxReceipt
       (no_args\<lparr>a_id := Some tx_id, a_address := Some (FQ 0), a_field_tag := Some (FQ (tr_int tag)),
          a_storage_key := Some (WordLH 0 0)\<rparr>) (ValueV x)"

text \<open>The account of a word that holds an address.\<close>

definition account_of :: "word_or_value \<Rightarrow> fq" where
  "account_of v = FQ (int_value (wov_word v))"

definition is_address :: "word_or_value \<Rightarrow> bool" where
  "is_address v \<longleftrightarrow> int_value (wov_word v) < 2 ^ 160"

text \<open>The row of the balance of an account grows by an amount.\<close>

definition credited :: "instruction \<Rightarrow> int \<Rightarrow> fq \<Rightarrow> int \<Rightarrow> bool" where
  "credited I k account amount \<longleftrightarrow>
     (\<exists>row. rw_row_at I (ss_rw_counter (i_curr I) + FQ k) RW_Write T_Account
          (no_args\<lparr>a_address := Some account, a_field_tag := Some (FQ (af_int AF_Balance))\<rparr>) row \<and>
        int_value (wov_word (rw_value row)) = int_value (wov_word (rw_value_prev row)) + amount)"

lemma tx_context_lookup_word_ok:
  "tx_context_lookup_word I tx_id tag s = Inr (v, s') \<longleftrightarrow> tx_field I tx_id tag v \<and> s' = s"
  by (auto simp: tx_context_lookup_word_def tx_field_def ok_simps simp del: tc_int.simps)

lemma tx_context_lookup_ok:
  "tx_context_lookup I tx_id tag s = Inr (x, s') \<longleftrightarrow> tx_field I tx_id tag (ValueV x) \<and> s' = s"
  by (auto simp: tx_context_lookup_def ok_simps tx_context_lookup_word_ok)

lemma block_context_lookup_word_ok:
  "block_context_lookup_word I tag 0 s = Inr (v, s') \<longleftrightarrow> block_field I tag v \<and> s' = s"
  by (auto simp: block_context_lookup_word_def block_field_def ok_simps simp del: bc_int.simps)

lemma state_write_at:
  "state_write I tag args rinfo s = Inr ((row, rinfo'), s') \<Longrightarrow>
     rw_row_at I (ss_rw_counter (i_curr I) + FQ (rw_counter_offset s)) RW_Write tag args row \<and>
     s' = s\<lparr>rw_counter_offset := rw_counter_offset s + 1\<rparr>"
  by (auto simp: state_write_def rw_row_at_def rw_query_of_def ok_simps Let_def rw_counter_of_reversion_def
      split: option.splits if_splits prod.splits)

lemma receipt_write_row:
  "tx_receipt_write I tx_id tag s = Inr (x, s') \<Longrightarrow>
     receipt_value I (rw_counter_offset s) RW_Write tx_id tag x \<and> s' = s\<lparr>rw_counter_offset := rw_counter_offset s + 1\<rparr>"
  unfolding receipt_value_def rw_value_at_def tx_receipt_write_def by (auto simp: ok_simps simp del: tr_int.simps)

lemma receipt_read_row:
  "tx_receipt_read I tx_id tag None s = Inr (x, s') \<Longrightarrow>
     receipt_value I (rw_counter_offset s) RW_Read tx_id tag x \<and> s' = s\<lparr>rw_counter_offset := rw_counter_offset s + 1\<rparr>"
  unfolding receipt_value_def rw_value_at_def tx_receipt_read_def
  by (auto simp: ok_simps rw_row_at_def rw_query_of_def simp del: tr_int.simps)

lemma refund_read_row:
  "tx_refund_read I tx_id s = Inr (x, s') \<Longrightarrow>
     refund_value I (rw_counter_offset s) tx_id x \<and> s' = s\<lparr>rw_counter_offset := rw_counter_offset s + 1\<rparr>"
  unfolding refund_value_def rw_value_at_def tx_refund_read_def by (auto simp: ok_simps)

lemma word_to_address_account:
  "word_to_address (wov_word v) s = Inr (x, s') \<longleftrightarrow>
     word_ok (wov_word v) \<and> is_address v \<and> x = account_of v \<and> s' = s"
  by (simp add: word_to_address_def word_to_fq_ok account_of_def is_address_def)

text \<open>The rows of accounts hold words.\<close>

definition account_words_ok :: "instruction \<Rightarrow> bool" where
  "account_words_ok I \<longleftrightarrow>
     (\<forall>k row. written I k T_Account row \<longrightarrow> word_ok (wov_word (rw_value_prev row)))"

lemma add_balance_credits:
  assumes ok: "account_words_ok I" "word_ok v" and run: "add_balance I account [v] rinfo s = Inr (b, s')"
  shows "credited I (rw_counter_offset s) account (int_value v)" "s' = s\<lparr>rw_counter_offset := rw_counter_offset s + 1\<rparr>"
proof -
  let ?args = "no_args\<lparr>a_address := Some account, a_field_tag := Some (FQ (af_int AF_Balance))\<rparr>"
  obtain row r t carry where w: "state_write I T_Account ?args rinfo s = Inr ((row, r), t)"
    and sum: "add_words [wov_word (rw_value_prev row), v] = Inr (wov_word (rw_value row), carry)" "carry = 0"
    and t: "s' = t"
    using run unfolding add_balance_def account_write_word_def by (auto simp: ok_simps Let_def simp del: af_int.simps)
  note row = state_write_at [OF w]
  have prev: "word_ok (wov_word (rw_value_prev row))"
    using ok(1) row unfolding account_words_ok_def written_def by blast
  obtain x c where x: "add_words [wov_word (rw_value_prev row), v] = Inr (x, c)"
    "int_value x + fq_n c * 2 ^ 256 = (\<Sum>w\<leftarrow>[wov_word (rw_value_prev row), v]. int_value w)"
    by (rule add_words_value [of "[wov_word (rw_value_prev row), v]"]) (use prev ok(2) in auto)
  then have "int_value (wov_word (rw_value row)) = int_value (wov_word (rw_value_prev row)) + int_value v"
    using sum by auto
  then show "credited I (rw_counter_offset s) account (int_value v)"
    using row unfolding credited_def by blast
  show "s' = s\<lparr>rw_counter_offset := rw_counter_offset s + 1\<rparr>" using row t by simp
qed

section \<open>EndTx\<close>

definition settlement_words_ok :: "instruction \<Rightarrow> bool" where
  "settlement_words_ok I \<longleftrightarrow> account_words_ok I \<and>
     (\<forall>tx_id v. tx_field I tx_id TC_GasPrice v \<longrightarrow> word_ok (wov_word v)) \<and>
     (\<forall>v. block_field I BC_BaseFee v \<longrightarrow> word_ok (wov_word v))"

lemma end_tx_refund_rows:
  assumes "end_tx_refund I tx_id invalid s = Inr ((gas_used, effective_refund), s')"
  obtains tx_gas refund where "tx_field I tx_id TC_Gas (ValueV tx_gas)" "gas_used = tx_gas - ss_gas_left (i_curr I)"
    "fq_n gas_used < 5 * 2 ^ 64" "refund_value I (rw_counter_offset s) tx_id refund"
    "fq_n effective_refund = min (fq_n gas_used div 5) (fq_n refund)" "fq_n effective_refund < 2 ^ 64"
    "s' = s\<lparr>rw_counter_offset := rw_counter_offset s + 1\<rparr>"
proof -
  have five: "fq_n (FQ MAX_REFUND_QUOTIENT_OF_GAS_USED) = 5" by (simp add: fq_modulus_def)
  obtain tx_gas refund t where gas: "tx_field I tx_id TC_Gas (ValueV tx_gas)" "gas_used = tx_gas - ss_gas_left (i_curr I)"
    and read: "tx_refund_read I tx_id s = Inr (refund, t)"
    and q: "fq_n gas_used div 5 < 2 ^ 64" "fq_n refund < 2 ^ 64"
    and eff: "effective_refund = (if fq_n (FQ (fq_n gas_used div 5)) < fq_n refund then FQ (fq_n gas_used div 5) else refund)"
    and t: "s' = t"
    using assms unfolding end_tx_refund_def
    by (cases "invalid = 1") (auto simp: ok_simps tx_context_lookup_ok Let_def five simp del: fq_n_FQ)
  note row = refund_read_row [OF read]
  have "fq_n (FQ (fq_n gas_used div 5)) = fq_n gas_used div 5"
    using q(1) by (intro fq_n_FQ_small) (simp_all add: fq_modulus_def pos_imp_zdiv_nonneg_iff)
  then have m: "fq_n effective_refund = min (fq_n gas_used div 5) (fq_n refund)" using eff by (auto simp: min_def)
  show ?thesis
    by (rule that [OF gas _ row [THEN conjunct1] m]) (use q m row t in \<open>simp_all add: min_less_iff_disj\<close>)
qed

lemma end_tx_balances_rows:
  assumes run: "end_tx_balances I tx_id gas_used effective_refund s = Inr (u, s')" and ok: "settlement_words_ok I"
    and small: "fq_n gas_used < 2 ^ 70" "fq_n (ss_gas_left (i_curr I)) < 2 ^ 64" "fq_n effective_refund < 2 ^ 64"
  obtains price base sender coinbase where "tx_field I tx_id TC_GasPrice price" "block_field I BC_BaseFee base"
    "tx_field I tx_id TC_CallerAddress sender" "is_address sender"
    "block_field I BC_Coinbase coinbase" "is_address coinbase"
    "credited I (rw_counter_offset s) (account_of sender)
      (int_value (wov_word price) * (fq_n (ss_gas_left (i_curr I)) + fq_n effective_refund))"
    "credited I (rw_counter_offset s + 1) (account_of coinbase)
      ((int_value (wov_word price) - int_value (wov_word base)) mod 2 ^ 256 * fq_n gas_used)"
    "s' = s\<lparr>rw_counter_offset := rw_counter_offset s + 2\<rparr>"
proof -
  obtain price base paid tip bo reward a b sender coinbase s1 s2 s3 s4 s5
    where price: "tx_field I tx_id TC_GasPrice price"
    and paid: "mul_word_by_u64 (wov_word price) (ss_gas_left (i_curr I) + effective_refund) s = Inr (paid, s1)"
    and sender: "tx_field I tx_id TC_CallerAddress sender" "is_address sender"
    and add1: "add_balance I (account_of sender) [paid] None s1 = Inr (a, s2)"
    and base: "block_field I BC_BaseFee base"
    and tip: "sub_word (wov_word price) (wov_word base) s2 = Inr ((tip, bo), s3)"
    and reward: "mul_word_by_u64 tip gas_used s3 = Inr (reward, s4)"
    and coinbase: "block_field I BC_Coinbase coinbase" "is_address coinbase"
    and add2: "add_balance I (account_of coinbase) [reward] None s4 = Inr (b, s5)" and s': "s' = s5"
    using run unfolding end_tx_balances_def tx_gas_price_def
    apply (simp add: ok_simps tx_context_lookup_word_ok block_context_lookup_word_ok word_to_address_account)
    apply (elim exE conjE, hypsubst)
    apply (rule that)
    apply (assumption | rule refl)+
    done
  have words: "account_words_ok I" "word_ok (wov_word price)" "word_ok (wov_word base)"
    using ok price base by (auto simp: settlement_words_ok_def)
  have sum: "fq_n (ss_gas_left (i_curr I) + effective_refund) = fq_n (ss_gas_left (i_curr I)) + fq_n effective_refund"
    using small fq_n_nonneg [of "ss_gas_left (i_curr I)"] fq_n_nonneg [of effective_refund]
    by (intro fq_n_add_small) (simp add: fq_modulus_def)
  have "fq_n (ss_gas_left (i_curr I) + effective_refund) < 2 ^ 70" unfolding sum using small(2,3) by simp
  note v = mul_word_by_u64_value [OF words(2) this paid]
  note c1 = add_balance_credits [OF words(1) v(2) add1]
  note t = sub_word_value [OF words(2,3) tip]
  note r = mul_word_by_u64_value [OF t(2) small(1) reward]
  note c2 = add_balance_credits [OF words(1) r(2) add2]
  show ?thesis
    by (rule that [OF price base sender coinbase])
      (use c1 c2 v r t sum s' in \<open>simp_all add: add.assoc\<close>)
qed

lemma end_tx_receipt_rows:
  assumes "end_tx_receipt I tx_id persistent invalid gas_used s = Inr (u, s')"
  obtains before where
    "receipt_value I (rw_counter_offset s + (if tx_id = 1 then 2 else 3)) RW_Write tx_id TR_CumulativeGasUsed (before + gas_used)"
    "if tx_id = 1 then before = 0
     else receipt_value I (rw_counter_offset s + 2) RW_Read (tx_id - FQ 1) TR_CumulativeGasUsed before"
proof -
  obtain status s1 log_id s2 before s3 total s4
    where w1: "tx_receipt_write I tx_id TR_PostStateOrStatus s = Inr (status, s1)"
    and w2: "tx_receipt_write I tx_id TR_LogLength s1 = Inr (log_id, s2)"
    and r: "(if tx_id = 1 then iret (FQ 0) else tx_receipt_read I (tx_id - FQ 1) TR_CumulativeGasUsed None) s2 = Inr (before, s3)"
    and w3: "tx_receipt_write I tx_id TR_CumulativeGasUsed s3 = Inr (total, s4)" and total: "before + gas_used = total"
    using assms unfolding end_tx_receipt_def
    by (cases "invalid = 1") (auto simp: ok_simps simp del: tr_int.simps)
  have s2: "s2 = s\<lparr>rw_counter_offset := rw_counter_offset s + 2\<rparr>"
    using receipt_write_row [OF w1] receipt_write_row [OF w2] by (simp add: add.assoc)
  have row: "receipt_value I (rw_counter_offset s3) RW_Write tx_id TR_CumulativeGasUsed (before + gas_used)"
    using receipt_write_row [OF w3] total by simp
  show ?thesis
  proof (cases "tx_id = 1")
    case True
    then have "before = 0" "s3 = s2" using r by (simp_all add: ok_simps)
    then show ?thesis using True row s2 by (intro that [of before]) simp_all
  next
    case False
    then have "tx_receipt_read I (tx_id - FQ 1) TR_CumulativeGasUsed None s2 = Inr (before, s3)" using r by simp
    from receipt_read_row [OF this] show ?thesis
      using False row s2 by (intro that [of before]) (auto simp: add.assoc)
  qed
qed

text \<open>
  C7: EndTx settles a transaction: if the gas left is below 2^64 and the words of the
  balances, of the gas price and of the base fee have halves below 2^128, an accepted step
  writes the balance of the account whose address the transaction table holds as
  CallerAddress, grown by the price of the gas left and of the refund read for the
  transaction, at most a fifth of the gas used; then the balance of the account whose
  address the block table holds as Coinbase, grown by the tip, price less base fee, for all
  the gas used, the refunded part included; and the cumulative gas in the receipt of the
  transaction is that read from the receipt of the transaction before, or 0 for the first,
  plus the gas used.
\<close>

theorem end_tx_settles:
  assumes "accepted (end_tx I)" "settlement_words_ok I" "fq_n (ss_gas_left (i_curr I)) < 2 ^ 64"
  shows "\<exists>tx_id tx_gas price base sender coinbase refund before.
    context_value I 0 RW_Read (ss_call_id (i_curr I)) CC_TxId (ValueV tx_id) \<and>
    tx_field I tx_id TC_Gas (ValueV tx_gas) \<and> tx_field I tx_id TC_GasPrice price \<and> block_field I BC_BaseFee base \<and>
    tx_field I tx_id TC_CallerAddress sender \<and> is_address sender \<and>
    block_field I BC_Coinbase coinbase \<and> is_address coinbase \<and>
    refund_value I 2 tx_id refund \<and>
    (let left = fq_n (ss_gas_left (i_curr I)); used = fq_n (tx_gas - ss_gas_left (i_curr I)) in
      credited I 3 (account_of sender) (int_value (wov_word price) * (left + min (used div 5) (fq_n refund))) \<and>
      credited I 4 (account_of coinbase) ((int_value (wov_word price) - int_value (wov_word base)) mod 2 ^ 256 * used)) \<and>
    receipt_value I (if tx_id = 1 then 7 else 8) RW_Write tx_id TR_CumulativeGasUsed
      (before + (tx_gas - ss_gas_left (i_curr I))) \<and>
    (if tx_id = 1 then before = 0 else receipt_value I 7 RW_Read (tx_id - FQ 1) TR_CumulativeGasUsed before)"
proof -
  let ?s = "offsets0\<lparr>rw_counter_offset := 2\<rparr>"
  obtain tx_id persistent invalid gas_used eff s1 u s2 v s3
    where id: "context_value I 0 RW_Read (ss_call_id (i_curr I)) CC_TxId (ValueV tx_id)"
    and refund: "end_tx_refund I tx_id invalid ?s = Inr ((gas_used, eff), s1)"
    and balances: "end_tx_balances I tx_id gas_used eff s1 = Inr (u, s2)"
    and receipt: "end_tx_receipt I tx_id persistent invalid gas_used s2 = Inr (v, s3)"
    using assms(1) unfolding accepted_def end_tx_def succeeds_iff
    by (simp add: ok_simps tx_context_lookup_ok offsets0_def) (elim exE conjE, rule that, (assumption | simp add: offsets0_def)+)
  obtain tx_gas r where gas: "tx_field I tx_id TC_Gas (ValueV tx_gas)" "gas_used = tx_gas - ss_gas_left (i_curr I)"
    "fq_n gas_used < 5 * 2 ^ 64" and row: "refund_value I 2 tx_id r"
    and eff: "fq_n eff = min (fq_n gas_used div 5) (fq_n r)" "fq_n eff < 2 ^ 64" and s1: "s1 = offsets0\<lparr>rw_counter_offset := 3\<rparr>"
    using end_tx_refund_rows [OF refund] by auto
  have "fq_n gas_used < 2 ^ 70" using gas(3) by simp
  note rows = end_tx_balances_rows [OF balances assms(2) this assms(3) eff(2)]
  obtain price base sender coinbase where price: "tx_field I tx_id TC_GasPrice price" "block_field I BC_BaseFee base"
    and accounts: "tx_field I tx_id TC_CallerAddress sender" "is_address sender"
      "block_field I BC_Coinbase coinbase" "is_address coinbase"
    and credit: "credited I 3 (account_of sender) (int_value (wov_word price) * (fq_n (ss_gas_left (i_curr I)) + fq_n eff))"
      "credited I 4 (account_of coinbase) ((int_value (wov_word price) - int_value (wov_word base)) mod 2 ^ 256 * fq_n gas_used)"
    and s2: "s2 = offsets0\<lparr>rw_counter_offset := 5\<rparr>"
    by (rule rows, rule that) (simp_all add: s1)
  obtain before where rec: "receipt_value I (if tx_id = 1 then 7 else 8) RW_Write tx_id TR_CumulativeGasUsed (before + gas_used)"
    "if tx_id = 1 then before = 0 else receipt_value I 7 RW_Read (tx_id - FQ 1) TR_CumulativeGasUsed before"
    by (rule end_tx_receipt_rows [OF receipt]) (auto simp: s2 split: if_splits)
  show ?thesis
    unfolding Let_def
    by (intro exI conjI)
      (rule id gas(1) price accounts row credit [unfolded eff(1) gas(2)] rec(1) [unfolded gas(2)] rec(2))+
qed

section \<open>A concrete settlement\<close>

text \<open>
  The first transaction, with 600 gas of which 100 are left and a refund of 40, at a price of 3 over
  a base fee of 2: the sender gets 420 back and the coinbase 500.
\<close>

definition settle_rows :: "rw_row list" where
  "settle_rows =
     (let context = (\<lambda>tag x. plain_row RW_Read T_CallContext 1 (FQ (cc_int tag)) 0 (WordLH 0 0) (ValueV x) (ValueV 0));
        balance = (\<lambda>a x. plain_row RW_Write T_Account 0 a (FQ (af_int AF_Balance)) (WordLH 0 0) (WordV (word_of x)) (WordV (WordLH 0 0)));
        receipt = (\<lambda>tag x. plain_row RW_Write T_TxReceipt 1 0 (FQ (tr_int tag)) (WordLH 0 0) (ValueV x) (ValueV 0)) in
      [context CC_TxId 1, context CC_IsPersistent 1,
       plain_row RW_Read T_TxRefund 1 0 0 (WordLH 0 0) (ValueV (FQ 40)) (ValueV 0),
       balance (FQ 5) 420, balance (FQ 6) 500,
       receipt TR_PostStateOrStatus 1, receipt TR_LogLength 0, receipt TR_CumulativeGasUsed (FQ 500)])"

definition settle_tx :: "tx_row set" where
  "settle_tx = (\<lambda>(tag, v). \<lparr>tx_tx_id = 1, tx_field_tag = FQ (tc_int tag), tx_call_data_index_or_zero = FQ 0, tx_value = v\<rparr>) `
     {(TC_TxInvalid, ValueV 0), (TC_Gas, ValueV (FQ 600)), (TC_GasPrice, WordV (word_of 3)),
      (TC_CallerAddress, WordV (word_of 5))}"

definition settle_block :: "block_row set" where
  "settle_block = (\<lambda>(tag, v). \<lparr>bk_field_tag = FQ (bc_int tag), bk_block_number_or_zero = FQ 0, bk_value = WordV (word_of v)\<rparr>) `
     {(BC_BaseFee, 2), (BC_Coinbase, 6)}"

definition settle_step :: instruction where
  "settle_step =
     (let I = rows_step ES_EndTx 0 settle_rows ((sample_state ES_EndBlock)\<lparr>ss_rw_counter := FQ 108\<rparr>) in
      I\<lparr>i_tables := (i_tables I)\<lparr>tx_table := settle_tx, block_table := settle_block\<rparr>\<rparr>)"

lemma settle_length: "length settle_rows = 8"
  by (simp add: settle_rows_def Let_def)

lemma settle_curr:
  "ss_call_id (i_curr settle_step) = 1" "ss_rw_counter (i_curr settle_step) = FQ 100" "ss_gas_left (i_curr settle_step) = FQ 100"
  "ss_log_id (i_curr settle_step) = 0" "i_next settle_step = (sample_state ES_EndBlock)\<lparr>ss_rw_counter := FQ 108\<rparr>"
  by (simp_all add: settle_step_def rows_step_def sample_state_def StepState_def Let_def)

lemma settle_rw_table: "rw_lookup_table (i_tables settle_step) =
    rw_lookup_table (i_tables (rows_step ES_EndTx 0 settle_rows ((sample_state ES_EndBlock)\<lparr>ss_rw_counter := FQ 108\<rparr>)))"
  by (simp add: fun_eq_iff rw_lookup_table_def settle_step_def Let_def)

abbreviation settle_row :: "nat \<Rightarrow> rw_row" where
  "settle_row k \<equiv> (settle_rows ! k)\<lparr>rw_rw_counter := FQ (100 + int k)\<rparr>"

lemma settle_numbered: "k < 8 \<Longrightarrow> numbered settle_rows ! k = settle_row k"
  by (simp add: numbered_nth settle_length)

lemma settle_lookup:
  assumes "k < 8" "a_rw_counter args = None" "rw_matches (rw_query_of (FQ (100 + int k)) rw tag args) (settle_row k)"
  shows "rw_lookup settle_step rw tag args (offsets0\<lparr>rw_counter_offset := int k\<rparr>) =
    Inr (settle_row k, offsets0\<lparr>rw_counter_offset := int k + 1\<rparr>)"
proof -
  have "rw_row_at settle_step (FQ 100 + FQ (int k)) rw tag args (settle_row k)"
    using rows_value [where rows = settle_rows and k = k, OF _ _ assms(3) [folded settle_numbered [OF assms(1)]]] assms(1)
    unfolding rw_row_at_def settle_rw_table by (simp add: settle_length settle_numbered)
  then show ?thesis by (simp add: rw_lookup_ok assms(2) settle_curr offsets0_def)
qed

lemmas settle_row_simps = settle_rows_def plain_row_def rw_matches_def rw_query_of_def no_args_def Let_def

abbreviation settle_at :: "int \<Rightarrow> offsets" where
  "settle_at k \<equiv> offsets0\<lparr>rw_counter_offset := k\<rparr>"

lemma settle_context:
  "call_context_lookup settle_step CC_TxId RW_Read None (settle_at 0) = Inr (1, settle_at 1)"
  "call_context_lookup settle_step CC_IsPersistent RW_Read None (settle_at 1) = Inr (1, settle_at 2)"
proof -
  have "rw_lookup settle_step RW_Read T_CallContext (no_args\<lparr>a_id := Some 1, a_address := Some (FQ (cc_int CC_TxId))\<rparr>) (settle_at (int 0)) =
      Inr (settle_row 0, settle_at (int 0 + 1))"
    "rw_lookup settle_step RW_Read T_CallContext (no_args\<lparr>a_id := Some 1, a_address := Some (FQ (cc_int CC_IsPersistent))\<rparr>) (settle_at (int 1)) =
      Inr (settle_row 1, settle_at (int 1 + 1))"
    by (rule settle_lookup; simp add: settle_row_simps)+
  then show "call_context_lookup settle_step CC_TxId RW_Read None (settle_at 0) = Inr (1, settle_at 1)"
    "call_context_lookup settle_step CC_IsPersistent RW_Read None (settle_at 1) = Inr (1, settle_at 2)"
    by (simp_all add: call_context_lookup_def call_context_lookup_word_def ibind_def ilift_def iret_def settle_curr settle_row_simps)
qed

lemma settle_refund: "tx_refund_read settle_step 1 (settle_at 2) = Inr (FQ 40, settle_at 3)"
proof -
  have "rw_lookup settle_step RW_Read T_TxRefund (no_args\<lparr>a_id := Some 1\<rparr>) (settle_at (int 2)) =
      Inr (settle_row 2, settle_at (int 2 + 1))"
    by (rule settle_lookup; simp add: settle_row_simps)
  then show ?thesis by (simp add: tx_refund_read_def ibind_def ilift_def settle_row_simps)
qed

lemma settle_receipt:
  "tx_receipt_write settle_step 1 TR_PostStateOrStatus (settle_at 5) = Inr (1, settle_at 6)"
  "tx_receipt_write settle_step 1 TR_LogLength (settle_at 6) = Inr (0, settle_at 7)"
  "tx_receipt_write settle_step 1 TR_CumulativeGasUsed (settle_at 7) = Inr (FQ 500, settle_at 8)"
proof -
  let ?args = "\<lambda>tag. no_args\<lparr>a_id := Some 1, a_address := Some (FQ 0), a_field_tag := Some (FQ (tr_int tag)),
      a_storage_key := Some (WordLH 0 0)\<rparr>"
  have "rw_lookup settle_step RW_Write T_TxReceipt (?args TR_PostStateOrStatus) (settle_at (int 5)) =
      Inr (settle_row 5, settle_at (int 5 + 1))"
    "rw_lookup settle_step RW_Write T_TxReceipt (?args TR_LogLength) (settle_at (int 6)) =
      Inr (settle_row 6, settle_at (int 6 + 1))"
    "rw_lookup settle_step RW_Write T_TxReceipt (?args TR_CumulativeGasUsed) (settle_at (int 7)) =
      Inr (settle_row 7, settle_at (int 7 + 1))"
    by (rule settle_lookup; simp add: settle_row_simps)+
  then show "tx_receipt_write settle_step 1 TR_PostStateOrStatus (settle_at 5) = Inr (1, settle_at 6)"
    "tx_receipt_write settle_step 1 TR_LogLength (settle_at 6) = Inr (0, settle_at 7)"
    "tx_receipt_write settle_step 1 TR_CumulativeGasUsed (settle_at 7) = Inr (FQ 500, settle_at 8)"
    by (simp_all add: tx_receipt_write_def ibind_def ilift_def settle_row_simps)
qed

lemma settle_balance:
  "add_balance settle_step (FQ 5) [word_of 420] None (settle_at 3) = Inr (((word_of 420, WordLH 0 0), None), settle_at 4)"
  "add_balance settle_step (FQ 6) [word_of 500] None (settle_at 4) = Inr (((word_of 500, WordLH 0 0), None), settle_at 5)"
proof -
  let ?args = "\<lambda>a. no_args\<lparr>a_address := Some a, a_field_tag := Some (FQ (af_int AF_Balance)), a_rw_counter := None\<rparr>"
  have rows: "rw_lookup settle_step RW_Write T_Account (?args (FQ 5)) (settle_at (int 3)) =
      Inr (settle_row 3, settle_at (int 3 + 1))"
    "rw_lookup settle_step RW_Write T_Account (?args (FQ 6)) (settle_at (int 4)) =
      Inr (settle_row 4, settle_at (int 4 + 1))"
    by (rule settle_lookup; simp add: settle_row_simps)+
  have sum: "add_words [WordLH 0 0, word_of 420] = Inr (word_of 420, 0)" "add_words [WordLH 0 0, word_of 500] = Inr (word_of 500, 0)"
    by (simp_all add: add_words_def word_of_def word_of_tuple_def rbind_ok rbind_def sum_values_def Let_def fq_modulus_def)
  show "add_balance settle_step (FQ 5) [word_of 420] None (settle_at 3) = Inr (((word_of 420, WordLH 0 0), None), settle_at 4)"
    "add_balance settle_step (FQ 6) [word_of 500] None (settle_at 4) = Inr (((word_of 500, WordLH 0 0), None), settle_at 5)"
    using rows sum
    by (simp_all add: add_balance_def account_write_word_def state_write_def write_with_reversion_def iassert_def ithen_def ibind_def
        ilift_def iret_def constrain_runs settle_row_simps)
qed

lemma settle_table_sets:
  "tx_table (i_tables settle_step) = settle_tx" "block_table (i_tables settle_step) = settle_block"
  by (simp_all add: settle_step_def Let_def)

lemma settle_tx_lookup:
  assumes "(tag, v) \<in> {(TC_TxInvalid, ValueV 0), (TC_Gas, ValueV (FQ 600)), (TC_GasPrice, WordV (word_of 3)),
      (TC_CallerAddress, WordV (word_of 5))}"
  shows "tx_field settle_step i tag w \<longleftrightarrow> i = 1 \<and> w = v"
proof -
  have "tx_lookup (i_tables settle_step) i (FQ (tc_int tag)) (FQ 0) = Inr r \<longleftrightarrow>
      i = 1 \<and> r = \<lparr>tx_tx_id = 1, tx_field_tag = FQ (tc_int tag), tx_call_data_index_or_zero = FQ 0, tx_value = v\<rparr>" for r
    using assms unfolding tx_lookup_def any_table.look_iff settle_table_sets settle_tx_def by fastforce
  then show ?thesis by (simp add: tx_field_def)
qed

lemma settle_block_lookup:
  assumes "(tag, v) \<in> {(BC_BaseFee, 2), (BC_Coinbase, 6)}"
  shows "block_field settle_step tag w \<longleftrightarrow> w = WordV (word_of v)"
proof -
  have "block_lookup (i_tables settle_step) (FQ (bc_int tag)) (FQ 0) = Inr r \<longleftrightarrow>
      r = \<lparr>bk_field_tag = FQ (bc_int tag), bk_block_number_or_zero = FQ 0, bk_value = WordV (word_of v)\<rparr>" for r
    using assms unfolding block_lookup_def any_table.look_iff settle_table_sets settle_block_def by fastforce
  then show ?thesis by (simp add: block_field_def)
qed

lemma settle_tables:
  "tx_field settle_step i TC_TxInvalid w \<longleftrightarrow> i = 1 \<and> w = ValueV 0"
  "tx_field settle_step i TC_Gas w \<longleftrightarrow> i = 1 \<and> w = ValueV (FQ 600)"
  "tx_field settle_step i TC_GasPrice w \<longleftrightarrow> i = 1 \<and> w = WordV (word_of 3)"
  "tx_field settle_step i TC_CallerAddress w \<longleftrightarrow> i = 1 \<and> w = WordV (word_of 5)"
  "block_field settle_step BC_BaseFee w \<longleftrightarrow> w = WordV (word_of 2)"
  "block_field settle_step BC_Coinbase w \<longleftrightarrow> w = WordV (word_of 6)"
  by (rule settle_tx_lookup settle_block_lookup; simp)+

lemma settle_words_ok: "settlement_words_ok settle_step"
proof -
  have "word_ok (wov_word (rw_value_prev row))" if "written settle_step k tag row" for k tag row
  proof -
    have "row \<in> rw_table (i_tables settle_step)"
      using that rw_tab.look_member unfolding written_def rw_row_at_def by blast
    also have "rw_table (i_tables settle_step) = set (numbered settle_rows)"
      by (simp add: settle_step_def rows_step_def Let_def)
    finally obtain j where "j < 8" "row = settle_row j"
      by (auto simp: in_set_conv_nth numbered_def settle_length)
    then show ?thesis
      by (auto simp: settle_rows_def plain_row_def Let_def less_Suc_eq numeral_nat)
  qed
  then show ?thesis
    by (simp add: settlement_words_ok_def account_words_ok_def settle_tables word_of_ok)
qed

lemma settle_accepted: "accepted (end_tx settle_step)"
proof -
  have d: "FQ 600 - FQ 100 = FQ 500" "FQ 100 + FQ 40 = FQ 140" "FQ (3 * 140) = FQ 420"
    "FQ 3 - FQ 2 = 1" "FQ 100 + FQ 8 = FQ 108"
    using FQ_arith(4) [of 600 100] FQ_arith(4) [of 3 2] FQ_arith(3) [of 100 40] FQ_arith(3) [of 100 8] by simp_all
  have gas: "end_tx_refund settle_step 1 0 (settle_at 2) = Inr ((FQ 500, FQ 40), settle_at 3)"
    by (simp add: end_tx_refund_def ok_simps tx_context_lookup_ok settle_refund settle_tables settle_curr Let_def d fq_modulus_def)
  have addr: "word_to_address (word_of 5) s = Inr (FQ 5, s)" "word_to_address (word_of 6) s = Inr (FQ 6, s)" for s
    by (simp_all add: word_to_address_def ok_simps word_of_ok)
  have mul: "mul_word_by_u64 (word_of 3) (FQ 100 + FQ 40) s = Inr (word_of 420, s)" "mul_word_by_u64 (word_of 1) (FQ 500) s = Inr (word_of 500, s)"
    "sub_word (word_of 3) (word_of 2) s = Inr ((word_of 1, 0), s)" for s
    by (simp_all add: d mul_word_by_u64_def sub_word_def word_of_def word_of_tuple_def ok_simps Let_def fq_modulus_def fq_n_arith)
  have "end_tx_balances settle_step 1 (FQ 500) (FQ 40) (settle_at 3) = Inr ((), settle_at 5)"
    by (simp add: end_tx_balances_def tx_gas_price_def ok_simps tx_context_lookup_word_ok block_context_lookup_word_ok
        settle_tables settle_curr mul addr settle_balance)
  moreover have "end_tx_receipt settle_step 1 1 0 (FQ 500) (settle_at 5) = Inr ((), settle_at 8)"
    by (simp add: end_tx_receipt_def ok_simps settle_receipt settle_curr)
  moreover have "tx_context_lookup settle_step 1 TC_TxInvalid s = Inr (0, s)" for s
    by (simp add: tx_context_lookup_ok settle_tables)
  moreover have "constrain_step_state_transition settle_step [(K_rw_counter, Delta (FQ 8)), (K_call_id, Same)] s = Inr ((), s)" for s
    by (simp add: constrain_step_state_transition_ok settle_curr d sample_state_def StepState_def)
  moreover have "ss_execution_state (i_next settle_step) = ES_EndBlock"
    by (simp add: settle_curr sample_state_def StepState_def)
  moreover have "call_context_lookup settle_step CC_TxId RW_Read None offsets0 = Inr (1, settle_at 1)"
    using settle_context(1) by (simp add: offsets0_def)
  ultimately show ?thesis
    using settle_context(2) gas
    unfolding accepted_def succeeds_iff end_tx_def
    by (simp add: ibind_def ithen_def iret_def)
qed

lemma end_tx_settles_witness:
  "\<exists>refund. credited settle_step 3 (FQ 5) (300 + 3 * min 100 refund) \<and> credited settle_step 4 (FQ 6) 500 \<and>
     receipt_value settle_step 7 RW_Write 1 TR_CumulativeGasUsed (FQ 500)"
proof -
  have left: "fq_n (ss_gas_left (i_curr settle_step)) = 100" by (simp add: settle_curr fq_modulus_def)
  have d: "FQ 600 - ss_gas_left (i_curr settle_step) = FQ 500" using FQ_arith(4) [of 600 100] by (simp add: settle_curr)
  have "fq_n (ss_gas_left (i_curr settle_step)) < 2 ^ 64" by (simp add: left)
  from end_tx_settles [OF settle_accepted settle_words_ok this] show ?thesis
    by (simp only: settle_tables left Let_def) (auto simp: d word_of_ok fq_modulus_def account_of_def)
qed

end
