(* ===== verification/Chips.thy ===== *)
theory Chips
  imports Hash Constraint_System
begin

text \<open>
  The chips that stand for foreign field arithmetic (\<^verbatim>\<open>src/zkevm_specs/util/ec.py\<close>), the base
  field \<open>FP\<close> of \<^verbatim>\<open>util/arithmetic.py\<close> and the Keccak table that the row circuits share
  (\<^verbatim>\<open>util/tables.py\<close>). The curve arithmetic is that of py_ecc and the signatures are those of
  eth_keys: parameters, in the records \<open>curve\<close> and \<open>key_api\<close>.
\<close>

section \<open>The base field\<close>

definition fp_modulus :: int where
  "fp_modulus = 21888242871839275222246405745257275088696311157297823662689037894645226208583"

datatype fp = Residue (fp_n: int)

definition FP :: "int \<Rightarrow> fp" where
  "FP v = Residue (v mod fp_modulus)"

text \<open>\<open>FP\<close> of an element of the scalar field keeps its number, which is below both moduli.\<close>

definition fp_of_fq :: "fq \<Rightarrow> fp" where
  "fp_of_fq x = Residue (fq_n x)"

text \<open>
  A column that holds an element of either field, as the outputs of the table of curve operations
  do. A difference has the class of its left operand.
\<close>

datatype field_value = FPV fp | FQV fq

fun field_sub :: "field_value \<Rightarrow> field_value \<Rightarrow> field_value" where
  "field_sub (FPV x) (FPV y) = FPV (FP (fp_n x - fp_n y))"
| "field_sub (FPV x) (FQV y) = FPV (FP (fp_n x - fq_n y))"
| "field_sub (FQV x) (FPV y) = FQV (FQ (fq_n x - fp_n y))"
| "field_sub (FQV x) (FQV y) = FQV (x - y)"

fun field_n :: "field_value \<Rightarrow> int" where
  "field_n (FPV x) = fp_n x"
| "field_n (FQV x) = fq_n x"

section \<open>Lists\<close>

text \<open>Indexing a list, which raises when the index is out of range, and a loop that carries a state.\<close>

definition list_at :: "'a list \<Rightarrow> nat \<Rightarrow> 'a result" where
  "list_at xs i = (if i < length xs then Inr (xs ! i) else Inl IndexError)"

fun rfold :: "('s \<Rightarrow> 'x \<Rightarrow> 's result) \<Rightarrow> 's \<Rightarrow> 'x list \<Rightarrow> 's result" where
  "rfold f s [] = Inr s"
| "rfold f s (x # xs) = rbind (f s x) (\<lambda>t. rfold f t xs)"

lemma list_at_ok [ok_simps]: "list_at xs i = Inr x \<longleftrightarrow> i < length xs \<and> x = xs ! i"
  by (auto simp: list_at_def)

text \<open>An invariant of the step holds after the loop.\<close>

lemma rfold_invariant:
  assumes "rfold f s xs = Inr t" "P s" "\<And>s x t. x \<in> set xs \<Longrightarrow> P s \<Longrightarrow> f s x = Inr t \<Longrightarrow> P t"
  shows "P t"
  using assms by (induction xs arbitrary: s) (auto simp: rbind_ok)

lemma rfold_append: "rfold f s (xs @ ys) = rbind (rfold f s xs) (\<lambda>t. rfold f t ys)"
  by (induction xs arbitrary: s) simp_all

section \<open>Libraries\<close>

type_synonym fp2 = "int \<times> int"
type_synonym g1 = "fp \<times> fp"
type_synonym g2 = "fp2 \<times> fp2"

record 'e curve =
  cv_add :: "g1 option \<Rightarrow> g1 option \<Rightarrow> g1 option"
  cv_multiply :: "g1 option \<Rightarrow> int \<Rightarrow> g1 option"
  cv_multiply2 :: "g2 option \<Rightarrow> int \<Rightarrow> g2 option"
  cv_on_curve :: "g1 option \<Rightarrow> bool"
  cv_on_curve2 :: "g2 option \<Rightarrow> bool"
  cv_eq :: "g1 \<Rightarrow> g1 \<Rightarrow> bool"
  cv_pairing :: "g2 option \<Rightarrow> g1 option \<Rightarrow> 'e result"
  cv_one :: 'e
  cv_times :: "'e \<Rightarrow> 'e \<Rightarrow> 'e"

text \<open>
  eth_keys: verification and recovery on a message hash and the numbers v, r and s; a public key is
  its 64 bytes.
\<close>

record key_api =
  ka_verify :: "int list \<Rightarrow> int \<times> int \<times> int \<Rightarrow> int list \<Rightarrow> bool result"
  ka_recover :: "int list \<Rightarrow> int \<times> int \<times> int \<Rightarrow> int list result"

section \<open>Integers of the wrong field\<close>

text \<open>Limbs of 72, 72, 72 and 40 bits, the lowest first, and the bytes in little-endian order.\<close>

record wrong_field_integer =
  wf_limbs :: "fq \<times> fq \<times> fq \<times> fq"
  wf_le_bytes :: "int list"

definition WrongFieldInteger :: "int \<Rightarrow> wrong_field_integer result" where
  "WrongFieldInteger v =
     (let limb = (\<lambda>k. FQ (v div 2 ^ (k * 72) mod 2 ^ 72)) in
      rbind (to_bytes_le v 32) (\<lambda>bs.
      Inr \<lparr>wf_limbs = (limb 0, limb 1, limb 2, limb 3), wf_le_bytes = bs\<rparr>))"

definition to_int_value :: "wrong_field_integer \<Rightarrow> int" where
  "to_int_value x = (case wf_limbs x of (l0, l1, l2, l3) \<Rightarrow>
     fq_n l0 + fq_n l1 * 2 ^ 72 + fq_n l2 * 2 ^ 144 + fq_n l3 * 2 ^ 216)"

definition wf_to_le_bytes :: "wrong_field_integer \<Rightarrow> int list result" where
  "wf_to_le_bytes x = to_bytes_le (to_int_value x) 32"

definition wf_to_be_bytes :: "wrong_field_integer \<Rightarrow> int list result" where
  "wf_to_be_bytes x = rbind (wf_to_le_bytes x) (\<lambda>bs. Inr (rev bs))"

section \<open>Signatures\<close>

record ecdsa_verify_chip =
  ed_sig_v :: wrong_field_integer
  ed_sig_r :: wrong_field_integer
  ed_sig_s :: wrong_field_integer
  ed_pub_key :: "wrong_field_integer \<times> wrong_field_integer"
  ed_pub_key_x_bytes :: "int list"
  ed_pub_key_y_bytes :: "int list"
  ed_msg_hash :: wrong_field_integer
  ed_msg_hash_bytes :: "int list"

definition ECDSAVerifyChip ::
  "wrong_field_integer \<times> wrong_field_integer \<times> wrong_field_integer \<Rightarrow>
   wrong_field_integer \<times> wrong_field_integer \<Rightarrow> wrong_field_integer \<Rightarrow> ecdsa_verify_chip result" where
  "ECDSAVerifyChip signature pub_key msg_hash =
     rbind (wf_to_le_bytes (fst pub_key)) (\<lambda>x_bytes.
     rbind (wf_to_le_bytes (snd pub_key)) (\<lambda>y_bytes.
     rbind (wf_to_be_bytes msg_hash) (\<lambda>hash_bytes.
     case signature of (v, r, s) \<Rightarrow>
       Inr \<lparr>ed_sig_v = v, ed_sig_r = r, ed_sig_s = s, ed_pub_key = pub_key, ed_pub_key_x_bytes = x_bytes,
            ed_pub_key_y_bytes = y_bytes, ed_msg_hash = msg_hash, ed_msg_hash_bytes = hash_bytes\<rparr>)))"

text \<open>The class method \<open>assign\<close>: a signature is its numbers v, r and s, a public key its 64 bytes.\<close>

definition ecdsa_assign :: "int \<times> int \<times> int \<Rightarrow> int list \<Rightarrow> int list \<Rightarrow> ecdsa_verify_chip result" where
  "ecdsa_assign signature pub_key msg_hash =
     (case signature of (sv, sr, ss) \<Rightarrow>
      rbind (WrongFieldInteger sv) (\<lambda>v.
      rbind (WrongFieldInteger sr) (\<lambda>r.
      rbind (WrongFieldInteger ss) (\<lambda>s.
      rbind (WrongFieldInteger (from_bytes_be (take 32 pub_key))) (\<lambda>x.
      rbind (WrongFieldInteger (from_bytes_be (drop 32 pub_key))) (\<lambda>y.
      rbind (WrongFieldInteger (from_bytes_be msg_hash)) (\<lambda>h.
      ECDSAVerifyChip (v, r, s) (x, y) h)))))))"

definition ecdsa_verify :: "key_api \<Rightarrow> ecdsa_verify_chip \<Rightarrow> bool result" where
  "ecdsa_verify K chip =
     rbind (wf_to_le_bytes (ed_sig_v chip)) (\<lambda>v.
     rbind (wf_to_le_bytes (ed_sig_r chip)) (\<lambda>r.
     rbind (wf_to_le_bytes (ed_sig_s chip)) (\<lambda>s.
     rbind (wf_to_be_bytes (ed_msg_hash chip)) (\<lambda>msg_hash.
     rbind (wf_to_be_bytes (fst (ed_pub_key chip))) (\<lambda>x.
     rbind (wf_to_be_bytes (snd (ed_pub_key chip))) (\<lambda>y.
     ka_verify K msg_hash (le_val v, le_val r, le_val s) (x @ y)))))))"

section \<open>Curve operations\<close>

record ecc_verify_chip =
  ev_p0 :: g1
  ev_p1 :: g1
  ev_output :: g1

text \<open>The pair of zeros stands for the point at infinity.\<close>

definition point_of :: "g1 \<Rightarrow> g1 option" where
  "point_of p = (if fp_n (fst p) = 0 \<and> fp_n (snd p) = 0 then None else Some p)"

definition pair_of :: "g1 option \<Rightarrow> g1" where
  "pair_of p = (case p of None \<Rightarrow> (Residue 0, Residue 0) | Some q \<Rightarrow> q)"

definition verify_add :: "'e curve \<Rightarrow> ecc_verify_chip \<Rightarrow> bool" where
  "verify_add C chip =
     cv_eq C (pair_of (cv_add C (point_of (ev_p0 chip)) (point_of (ev_p1 chip)))) (ev_output chip)"

definition verify_mul :: "'e curve \<Rightarrow> ecc_verify_chip \<Rightarrow> bool" where
  "verify_mul C chip =
     cv_eq C (pair_of (cv_multiply C (point_of (ev_p0 chip)) (fp_n (fst (ev_p1 chip))))) (ev_output chip)"

record ecc_pairing_verify_chip =
  pc_p :: "g1 list"
  pc_q :: "g2 list"
  pc_output :: fq

definition point2_of :: "g2 \<Rightarrow> g2 option" where
  "point2_of q = (if q = ((0, 0), (0, 0)) then None else Some q)"

fun pairing_product :: "'e curve \<Rightarrow> 'e \<Rightarrow> (g1 \<times> g2) list \<Rightarrow> 'e result" where
  "pairing_product C acc [] = Inr acc"
| "pairing_product C acc ((p, q) # pairs) =
     rbind (cv_pairing C (point2_of q) (point_of p)) (\<lambda>x. pairing_product C (cv_times C acc x) pairs)"

definition verify_pairing :: "'e curve \<Rightarrow> ecc_pairing_verify_chip \<Rightarrow> bool result" where
  "verify_pairing C chip =
     rbind (pairing_product C (cv_one C) (zip (pc_p chip) (pc_q chip))) (\<lambda>x. Inr (x = cv_one C))"

section \<open>The Keccak table\<close>

text \<open>The columns are: enabled, linear combination of the input, its length and the output.\<close>

type_synonym keccak_rows = "(fq \<times> fq \<times> fq \<times> word256) set"

definition new_keccak_table :: keccak_rows where
  "new_keccak_table = {(FQ 0, FQ 0, FQ 0, WordLH 0 0)}"

definition keccak_table_add :: "hash_fun \<Rightarrow> nat \<Rightarrow> int list \<Rightarrow> fq \<Rightarrow> keccak_rows \<Rightarrow> keccak_rows result" where
  "keccak_table_add keccak n_bytes input randomness T =
     rbind (RLC_of_bytes (rev input) randomness n_bytes) (\<lambda>r.
     rbind (word_of_bytes (keccak input)) (\<lambda>output.
     Inr (insert (FQ 1, rlc_value r, FQ (int (length input)), output) T)))"

definition keccak_table_lookup :: "keccak_rows \<Rightarrow> fq \<Rightarrow> fq \<Rightarrow> fq \<Rightarrow> word256 \<Rightarrow> unit result" where
  "keccak_table_lookup T is_enabled input_rlc input_len output =
     assert_that ((is_enabled, input_rlc, input_len, output) \<in> T)"

text \<open>The tables that \<open>add\<close> builds.\<close>

inductive keccak_built :: "hash_fun \<Rightarrow> nat \<Rightarrow> fq \<Rightarrow> int list set \<Rightarrow> keccak_rows \<Rightarrow> bool"
  for keccak n r where
  built_new: "keccak_built keccak n r {} new_keccak_table"
| built_add: "keccak_built keccak n r inputs T \<Longrightarrow> keccak_table_add keccak n input r T = Inr T' \<Longrightarrow>
    keccak_built keccak n r (insert input inputs) T'"

text \<open>Every enabled row of such a table is the row of an input.\<close>

lemma keccak_built_row:
  "keccak_built keccak n r inputs T \<Longrightarrow> (e, c, len, out) \<in> T \<Longrightarrow> e = 1 \<Longrightarrow>
    \<exists>input\<in>inputs. \<exists>v. RLC_of_bytes (rev input) r n = Inr v \<and> c = rlc_value v \<and> len = FQ (int (length input)) \<and>
      length input \<le> n \<and> word_of_bytes (keccak input) = Inr out"
proof (induction rule: keccak_built.induct)
  case built_new
  then show ?case by (simp add: new_keccak_table_def)
next
  case (built_add inputs T input T')
  from built_add.hyps(2) obtain v w where v: "RLC_of_bytes (rev input) r n = Inr v" "word_of_bytes (keccak input) = Inr w"
    "T' = insert (FQ 1, rlc_value v, FQ (int (length input)), w) T"
    by (auto simp: keccak_table_add_def rbind_ok)
  then have "length input \<le> n" by (auto simp: RLC_of_bytes_def split: if_splits)
  then show ?case using built_add v by auto
qed

section \<open>Bytes and combinations\<close>

lemma linear_combine_256:
  "(\<And>b. b \<in> set bs \<Longrightarrow> is_byte b) \<Longrightarrow> linear_combine_bytes (map FQ bs) (FQ 256) True = Inr (FQ (le_val bs))"
proof (induction bs)
  case (Cons b bs)
  have "is_byte b" using Cons.prems by simp
  then have "fq_n (FQ b) < 256" by (simp add: is_byte_def fq_modulus_def)
  with Cons show ?case by (simp add: FQ_arith algebra_simps)
qed simp

lemma word_of_bytes_inject:
  assumes "word_of_bytes xs = Inr w" "word_of_bytes ys = Inr w"
    and "\<And>b. b \<in> set xs \<Longrightarrow> is_byte b" "\<And>b. b \<in> set ys \<Longrightarrow> is_byte b"
  shows "xs = ys"
proof -
  have len: "length xs = 32" "length ys = 32" using assms(1,2) by (auto simp: word_of_bytes_def rbind_ok assert_that_ok)
  have small: "0 \<le> le_val us \<and> le_val us < fq_modulus" if "length us = 16" "\<And>b. b \<in> set us \<Longrightarrow> is_byte b" for us
  proof -
    have "le_val us < 256 ^ 16" using le_val_bound [of us] that by simp
    then show ?thesis using le_val_nonneg [of us] that(2) by (simp add: fq_modulus_def)
  qed
  have half: "us = vs" if "FQ (le_val us) = FQ (le_val vs)" "length us = 16" "length vs = 16"
      "\<And>b. b \<in> set us \<Longrightarrow> is_byte b" "\<And>b. b \<in> set vs \<Longrightarrow> is_byte b" for us vs
  proof -
    have "le_val us = le_val vs" using that small by (metis fq_n_FQ_small)
    then show ?thesis using that le_bytes_le_val [of us] le_bytes_le_val [of vs] by auto
  qed
  have "FQ (le_val (take 16 xs)) = FQ (le_val (take 16 ys))" "FQ (le_val (drop 16 xs)) = FQ (le_val (drop 16 ys))"
    using assms(1,2) by (auto simp: word_of_bytes_def rbind_ok bytes_to_fq_ok)
  then have "take 16 xs = take 16 ys" "drop 16 xs = drop 16 ys"
    using len assms(3,4) by (auto intro!: half dest: in_set_takeD in_set_dropD)
  then show ?thesis by (metis append_take_drop_id)
qed

lemma keccak_table_lookup_ok [ok_simps]:
  "keccak_table_lookup T e r l out = Inr u \<longleftrightarrow> (e, r, l, out) \<in> T"
  by (simp add: keccak_table_lookup_def assert_that_ok)

lemma four_limbs:
  fixes b v :: int
  assumes "0 < b"
  shows "v mod b + v div b mod b * b + v div (b * b) mod b * (b * b) + v div (b * b * b) * (b * b * b) = v"
proof -
  have 1: "v mod b + v div b * b = v" by simp
  have 2: "v div b mod b + v div (b * b) * b = v div b"
    using mod_div_mult_eq [of "v div b" b] assms by (simp add: zdiv_zmult2_eq)
  have 3: "v div (b * b) mod b + v div (b * b * b) * b = v div (b * b)"
    using mod_div_mult_eq [of "v div (b * b)" b] zdiv_zmult2_eq [of b v "b * b"] assms by simp
  have "v mod b + v div b mod b * b + v div (b * b) mod b * (b * b) + v div (b * b * b) * (b * b * b) =
      v mod b + (v div b mod b + (v div (b * b) mod b + v div (b * b * b) * b) * b) * b"
    by (simp add: algebra_simps)
  then show ?thesis unfolding 2 3 1 .
qed

lemma wf_round_trip:
  assumes "0 \<le> v" "v < 2 ^ 256"
  obtains x where "WrongFieldInteger v = Inr x" "to_int_value x = v" "wf_le_bytes x = le_bytes 32 v"
    "wf_to_le_bytes x = Inr (le_bytes 32 v)"
proof -
  let ?limb = "\<lambda>k. v div 2 ^ (k * 72) mod 2 ^ 72"
  have n: "fq_n (FQ (y mod 2 ^ 72)) = y mod 2 ^ 72" for y
  proof (rule fq_n_FQ_small)
    have "y mod 2 ^ 72 < 2 ^ 72" by (rule pos_mod_bound) simp
    also have "(2::int) ^ 72 < fq_modulus" by (simp add: fq_modulus_def)
    finally show "y mod 2 ^ 72 < fq_modulus" .
  qed simp
  define x where "x = \<lparr>wf_limbs = (FQ (?limb 0), FQ (?limb 1), FQ (?limb 2), FQ (?limb 3)), wf_le_bytes = le_bytes 32 v\<rparr>"
  have "v div 2 ^ 216 < 2 ^ 40" using assms(2) by (intro int_div_lt) simp_all
  then have top: "v div 2 ^ 216 mod 2 ^ 72 = v div 2 ^ 216"
    using assms by (intro mod_pos_pos_trivial) (simp_all add: pos_imp_zdiv_nonneg_iff)
  have e: "(0::nat) * 72 = 0" "(1::nat) * 72 = 72" "(2::nat) * 72 = 144" "(3::nat) * 72 = 216" by simp_all
  have "to_int_value x = v mod 2 ^ 72 + v div 2 ^ 72 mod 2 ^ 72 * 2 ^ 72 + v div 2 ^ 144 mod 2 ^ 72 * 2 ^ 144 + v div 2 ^ 216 * 2 ^ 216"
    unfolding to_int_value_def x_def wrong_field_integer.simps prod.case by (simp only: n e power_0 div_by_1) (simp only: top)
  also have "\<dots> = v"
  proof -
    have p: "(2::int) ^ 72 * 2 ^ 72 = 2 ^ 144" "(2::int) ^ 144 * 2 ^ 72 = 2 ^ 216" by simp_all
    show ?thesis by (rule four_limbs [of "2 ^ 72" v, unfolded p]) simp
  qed
  finally have val: "to_int_value x = v" .
  have "WrongFieldInteger v = Inr x"
    using assms by (simp add: WrongFieldInteger_def x_def to_bytes_le_def Let_def del: le_bytes.simps)
  moreover have "wf_to_le_bytes x = Inr (le_bytes 32 v)"
    using assms by (simp add: wf_to_le_bytes_def val to_bytes_le_def del: le_bytes.simps)
  moreover have "wf_le_bytes x = le_bytes 32 v" by (simp add: x_def del: le_bytes.simps)
  ultimately show ?thesis using val by (intro that [of x])
qed

end
