(* ===== verification/Tx_Circuit.thy ===== *)
theory Tx_Circuit
  imports Chips Table
begin

text \<open>
  The transaction circuit (\<^verbatim>\<open>src/zkevm_specs/tx_circuit.py\<close>): the rows of the transaction table,
  the chips that verify a signature and tie it to an address, the circuit's checks and the
  generation of its witness. The chip of this file has two numbers in its signature and keeps the
  message hash in little-endian order.
\<close>

section \<open>Rows\<close>

record tx_circuit_row =
  xr_tx_id :: fq
  xr_tag :: fq
  xr_index :: fq
  xr_value :: word_or_value

definition tx_circuit_row_of :: "fq \<Rightarrow> tx_context_field_tag \<Rightarrow> fq \<Rightarrow> word_or_value \<Rightarrow> tx_circuit_row" where
  "tx_circuit_row_of tx_id tag index v =
     \<lparr>xr_tx_id = tx_id, xr_tag = FQ (tc_int tag), xr_index = index, xr_value = v\<rparr>"

section \<open>Chips\<close>

record tx_ecdsa_chip =
  te_signature :: "wrong_field_integer \<times> wrong_field_integer"
  te_pub_key :: "wrong_field_integer \<times> wrong_field_integer"
  te_msg_hash :: wrong_field_integer
  te_pub_key_x_bytes :: "int list"
  te_pub_key_y_bytes :: "int list"
  te_msg_hash_bytes :: "int list"

definition tx_ECDSAVerifyChip ::
  "wrong_field_integer \<times> wrong_field_integer \<Rightarrow> wrong_field_integer \<times> wrong_field_integer \<Rightarrow>
   wrong_field_integer \<Rightarrow> tx_ecdsa_chip result" where
  "tx_ECDSAVerifyChip signature pub_key msg_hash =
     rbind (wf_to_le_bytes (fst pub_key)) (\<lambda>x_bytes.
     rbind (wf_to_le_bytes (snd pub_key)) (\<lambda>y_bytes.
     rbind (wf_to_le_bytes msg_hash) (\<lambda>hash_bytes.
       Inr \<lparr>te_signature = signature, te_pub_key = pub_key, te_msg_hash = msg_hash,
            te_pub_key_x_bytes = x_bytes, te_pub_key_y_bytes = y_bytes, te_msg_hash_bytes = hash_bytes\<rparr>)))"

definition tx_ecdsa_assign :: "int \<times> int \<Rightarrow> int list \<Rightarrow> int list \<Rightarrow> tx_ecdsa_chip result" where
  "tx_ecdsa_assign signature pub_key msg_hash =
     rbind (WrongFieldInteger (fst signature)) (\<lambda>r.
     rbind (WrongFieldInteger (snd signature)) (\<lambda>s.
     rbind (WrongFieldInteger (from_bytes_be (take 32 pub_key))) (\<lambda>x.
     rbind (WrongFieldInteger (from_bytes_be (drop 32 pub_key))) (\<lambda>y.
     rbind (WrongFieldInteger (from_bytes_be msg_hash)) (\<lambda>h.
     tx_ECDSAVerifyChip (r, s) (x, y) h)))))"

definition tx_ecdsa_verify :: "key_api \<Rightarrow> tx_ecdsa_chip \<Rightarrow> unit result" where
  "tx_ecdsa_verify K chip =
     rbind (wf_to_le_bytes (te_msg_hash chip)) (\<lambda>h.
     rbind (wf_to_le_bytes (fst (te_signature chip))) (\<lambda>r.
     rbind (wf_to_le_bytes (snd (te_signature chip))) (\<lambda>s.
     rbind (wf_to_le_bytes (fst (te_pub_key chip))) (\<lambda>x.
     rbind (wf_to_le_bytes (snd (te_pub_key chip))) (\<lambda>y.
     rbind (ka_verify K (rev h) (0, le_val r, le_val s) (rev x @ rev y)) (\<lambda>b. assert_that b))))))"

record sign_verify_chip =
  sv_pub_key_hash :: "int list"
  sv_address :: fq
  sv_msg_hash :: word256
  sv_ecdsa_chip :: tx_ecdsa_chip
  sv_pub_key_x_bytes :: "int list"
  sv_pub_key_y_bytes :: "int list"
  sv_msg_hash_bytes :: "int list"

definition SignVerifyChip :: "int list \<Rightarrow> fq \<Rightarrow> word256 \<Rightarrow> tx_ecdsa_chip \<Rightarrow> sign_verify_chip" where
  "SignVerifyChip pub_key_hash address msg_hash chip =
     \<lparr>sv_pub_key_hash = pub_key_hash, sv_address = address, sv_msg_hash = msg_hash, sv_ecdsa_chip = chip,
      sv_pub_key_x_bytes = te_pub_key_x_bytes chip, sv_pub_key_y_bytes = te_pub_key_y_bytes chip,
      sv_msg_hash_bytes = te_msg_hash_bytes chip\<rparr>"

text \<open>The last twenty bytes of a string, the slice \<open>[-20:]\<close>.\<close>

definition last_20 :: "int list \<Rightarrow> int list" where
  "last_20 bs = drop (length bs - 20) bs"

definition sign_verify_assign :: "hash_fun \<Rightarrow> int \<times> int \<Rightarrow> int list \<Rightarrow> int list \<Rightarrow> sign_verify_chip result" where
  "sign_verify_assign keccak signature pub_key msg_hash =
     (let pub_key_hash = keccak pub_key in
      rbind (word_of_int256 (from_bytes_be msg_hash)) (\<lambda>h.
      rbind (tx_ecdsa_assign signature pub_key msg_hash) (\<lambda>chip.
      Inr (SignVerifyChip pub_key_hash (FQ (from_bytes_be (last_20 pub_key_hash))) h chip))))"

definition sign_verify :: "key_api \<Rightarrow> keccak_rows \<Rightarrow> fq \<Rightarrow> sign_verify_chip \<Rightarrow> unit result" where
  "sign_verify K T randomness chip =
     (let is_not_padding = FQ (1 - (if sv_address chip = 0 then 1 else 0)); ecdsa = sv_ecdsa_chip chip in
      rbind (assert_that (sv_pub_key_x_bytes chip = te_pub_key_x_bytes ecdsa)) (\<lambda>_.
      rbind (assert_that (sv_pub_key_y_bytes chip = te_pub_key_y_bytes ecdsa)) (\<lambda>_.
      rbind (assert_that (sv_msg_hash_bytes chip = te_msg_hash_bytes ecdsa)) (\<lambda>_.
      let pub_key_bytes = rev (sv_pub_key_x_bytes chip) @ rev (sv_pub_key_y_bytes chip) in
      rbind (RLC_of_bytes (rev pub_key_bytes) randomness 64) (\<lambda>key_rlc.
      rbind (word_of_bytes (sv_pub_key_hash chip)) (\<lambda>hash_word.
      rbind (word_select hash_word is_not_padding) (\<lambda>output.
      rbind (keccak_table_lookup T is_not_padding (is_not_padding * rlc_value key_rlc) (is_not_padding * FQ 64) output) (\<lambda>_.
      rbind (linear_combine_bytes (map FQ (rev (last_20 (sv_pub_key_hash chip)))) (FQ (2 ^ 8)) True) (\<lambda>addr_expr.
      rbind (assert_that (addr_expr = sv_address chip)) (\<lambda>_.
      rbind (word_of_bytes (sv_msg_hash_bytes chip)) (\<lambda>msg_hash.
      rbind (word_select msg_hash is_not_padding) (\<lambda>selected.
      rbind (assert_that (selected = sv_msg_hash chip)) (\<lambda>_.
      tx_ecdsa_verify K ecdsa)))))))))))))"

section \<open>The circuit\<close>

record tx_witness =
  tw_rows :: "tx_circuit_row list"
  tw_keccak_table :: keccak_rows
  tw_sign_verifications :: "sign_verify_chip list"

definition verify_tx_index :: "key_api \<Rightarrow> tx_witness \<Rightarrow> fq \<Rightarrow> nat \<Rightarrow> unit result" where
  "verify_tx_index K W randomness tx_index =
     (let tx_row_index = tx_index * nat (tc_int TC_TxSignHash);
          caller_addr_index = tx_row_index + nat (tc_int TC_CallerAddress) - 1;
          tx_sign_hash_index = tx_row_index + nat (tc_int TC_TxSignHash) - 1 in
      rbind (list_at (tw_sign_verifications W) tx_index) (\<lambda>chip.
      rbind (sign_verify K (tw_keccak_table W) randomness chip) (\<lambda>_.
      rbind (list_at (tw_rows W) caller_addr_index) (\<lambda>caller.
      rbind (wov_value (xr_value caller)) (\<lambda>address.
      rbind (assert_that (address = sv_address chip)) (\<lambda>_.
      rbind (list_at (tw_rows W) tx_sign_hash_index) (\<lambda>sign_hash.
      rbind (assert_that (lo (wov_word (xr_value sign_hash)) = lo (sv_msg_hash chip))) (\<lambda>_.
      assert_that (hi (wov_word (xr_value sign_hash)) = hi (sv_msg_hash chip))))))))))"

definition verify_tx_circuit :: "key_api \<Rightarrow> tx_witness \<Rightarrow> nat \<Rightarrow> fq \<Rightarrow> unit result" where
  "verify_tx_circuit K W MAX_TXS keccak_randomness =
     riter (verify_tx_index K W keccak_randomness) [0..<MAX_TXS]"

section \<open>Witness generation\<close>

record signed_tx =
  st_nonce :: int
  st_gas_price :: int
  st_gas :: int
  st_to :: "int option"
  st_value :: int
  st_data :: "int list"
  st_sig_v :: int
  st_sig_r :: int
  st_sig_s :: int

text \<open>RLP is a library call: a function of the encoded items, numbers or byte strings.\<close>

datatype rlp_item = RlpInt int | RlpBytes "int list"

definition encode_to :: "signed_tx \<Rightarrow> int list result" where
  "encode_to tx =
     (case st_to tx of None \<Rightarrow> Inr []
      | Some a \<Rightarrow> rbind (to_bytes_le a 20) (\<lambda>bs. Inr (rev bs)))"

definition padding_tx :: "int \<Rightarrow> tx_circuit_row list" where
  "padding_tx tx_id =
     (let row = (\<lambda>tag v. tx_circuit_row_of (FQ tx_id) tag (FQ 0) v); zero = ValueV (FQ 0); zero_word = WordV (word_of 0) in
      [row TC_Nonce zero, row TC_Gas zero, row TC_GasPrice zero_word, row TC_CallerAddress zero,
       row TC_CalleeAddress zero, row TC_IsCreate zero, row TC_Value zero_word, row TC_CallDataLength zero,
       row TC_CallDataGasCost zero, row TC_TxInvalid zero, row TC_AccessListGasCost zero, row TC_TxSignHash zero])"

definition data_gas_cost :: "int list \<Rightarrow> int" where
  "data_gas_cost bs =
     (\<Sum>byte\<leftarrow>bs. if byte = 0 then GAS_COST_TX_CALL_DATA_PER_ZERO_BYTE else GAS_COST_TX_CALL_DATA_PER_NON_ZERO_BYTE)"

definition tx_fixed_rows :: "fq \<Rightarrow> signed_tx \<Rightarrow> int list \<Rightarrow> word256 \<Rightarrow> word256 \<Rightarrow> word256 \<Rightarrow> tx_circuit_row list" where
  "tx_fixed_rows tx_id tx addr gas_price val sign_hash =
     (let row = (\<lambda>tag v. tx_circuit_row_of tx_id tag (FQ 0) v) in
      [row TC_Nonce (ValueV (FQ (st_nonce tx))), row TC_Gas (ValueV (FQ (st_gas tx))),
       row TC_GasPrice (WordV gas_price), row TC_CallerAddress (ValueV (FQ (from_bytes_be addr))),
       row TC_CalleeAddress (ValueV (FQ (case st_to tx of None \<Rightarrow> 0 | Some a \<Rightarrow> a))),
       row TC_IsCreate (ValueV (if st_to tx = None then FQ 1 else FQ 0)),
       row TC_Value (WordV val), row TC_CallDataLength (ValueV (FQ (int (length (st_data tx))))),
       row TC_CallDataGasCost (ValueV (FQ (data_gas_cost (st_data tx)))),
       row TC_TxInvalid (ValueV (FQ 0)), row TC_AccessListGasCost (ValueV (FQ 0)),
       row TC_TxSignHash (WordV sign_hash)])"

definition tx_data_rows :: "fq \<Rightarrow> signed_tx \<Rightarrow> tx_circuit_row list" where
  "tx_data_rows tx_id tx =
     map (\<lambda>k. tx_circuit_row_of tx_id TC_CallData (FQ (int k)) (ValueV (FQ (st_data tx ! k)))) [0..<length (st_data tx)]"

definition tx2witness ::
  "key_api \<Rightarrow> hash_fun \<Rightarrow> (rlp_item list \<Rightarrow> int list) \<Rightarrow> nat \<Rightarrow> signed_tx \<Rightarrow> int \<Rightarrow> fq \<Rightarrow> keccak_rows \<Rightarrow>
   (tx_circuit_row list \<times> sign_verify_chip \<times> keccak_rows) result" where
  "tx2witness K keccak rlp index tx chain_id randomness T =
     rbind (encode_to tx) (\<lambda>to_bytes.
     let tx_sign_hash = keccak (rlp [RlpInt (st_nonce tx), RlpInt (st_gas_price tx), RlpInt (st_gas tx),
           RlpBytes to_bytes, RlpInt (st_value tx), RlpBytes (st_data tx), RlpInt chain_id, RlpInt 0, RlpInt 0]);
         sig_parity = st_sig_v tx - 35 - chain_id * 2 in
     rbind (ka_recover K tx_sign_hash (sig_parity, st_sig_r tx, st_sig_s tx)) (\<lambda>pk.
     rbind (keccak_table_add keccak 64 pk randomness T) (\<lambda>T'.
     let addr = last_20 (keccak pk) in
     rbind (sign_verify_assign keccak (st_sig_r tx, st_sig_s tx) pk tx_sign_hash) (\<lambda>chip.
     rbind (word_of_int256 (st_gas_price tx)) (\<lambda>gas_price.
     rbind (word_of_int256 (st_value tx)) (\<lambda>val.
     rbind (word_of_int256 (from_bytes_be tx_sign_hash)) (\<lambda>sign_hash.
     let tx_id = FQ (int index + 1) in
     Inr (tx_fixed_rows tx_id tx addr gas_price val sign_hash @ tx_data_rows tx_id tx, chip, T'))))))))"

definition DUMMY_SIGNATURE :: "int \<times> int" where
  "DUMMY_SIGNATURE =
     (0x79BE667EF9DCBBAC55A06295CE870B07029BFCDB2DCE28D959F2815B16F81798,
      0x79BE667EF9DCBBAC55A06295CE870B07029BFCDB2DCE28D959F2815B16F81799)"

definition DUMMY_PUBLIC_KEY :: "int \<times> int" where
  "DUMMY_PUBLIC_KEY =
     (0x79BE667EF9DCBBAC55A06295CE870B07029BFCDB2DCE28D959F2815B16F81798,
      0x483ADA7726A3C4655DA4FBFC0E1108A8FD17B448A68554199C47D08FFB10D4B8)"

definition DUMMY_MSG_HASH :: int where
  "DUMMY_MSG_HASH = 1"

definition dummy_ecdsa_chip :: "tx_ecdsa_chip result" where
  "dummy_ecdsa_chip =
     rbind (WrongFieldInteger (fst DUMMY_SIGNATURE)) (\<lambda>r.
     rbind (WrongFieldInteger (snd DUMMY_SIGNATURE)) (\<lambda>s.
     rbind (WrongFieldInteger (fst DUMMY_PUBLIC_KEY)) (\<lambda>x.
     rbind (WrongFieldInteger (snd DUMMY_PUBLIC_KEY)) (\<lambda>y.
     rbind (WrongFieldInteger DUMMY_MSG_HASH) (\<lambda>h.
     tx_ECDSAVerifyChip (r, s) (x, y) h)))))"

record tx_witness_state =
  xs_keccak_table :: keccak_rows
  xs_sign_verifications :: "sign_verify_chip list"
  xs_fixed_rows :: "tx_circuit_row list"
  xs_dyn_rows :: "tx_circuit_row list"

definition is_call_data :: "tx_circuit_row \<Rightarrow> bool" where
  "is_call_data row \<longleftrightarrow> xr_tag row = FQ (tc_int TC_CallData)"

definition append_tx ::
  "key_api \<Rightarrow> hash_fun \<Rightarrow> (rlp_item list \<Rightarrow> int list) \<Rightarrow> int \<Rightarrow> fq \<Rightarrow> tx_witness_state \<Rightarrow> nat \<times> signed_tx \<Rightarrow>
   tx_witness_state result" where
  "append_tx K keccak rlp chain_id randomness = (\<lambda>s (index, tx).
     rbind (tx2witness K keccak rlp index tx chain_id randomness (xs_keccak_table s)) (\<lambda>(rows, chip, T).
     Inr \<lparr>xs_keccak_table = T, xs_sign_verifications = xs_sign_verifications s @ [chip],
          xs_fixed_rows = xs_fixed_rows s @ filter (\<lambda>row. \<not> is_call_data row) rows,
          xs_dyn_rows = xs_dyn_rows s @ filter is_call_data rows\<rparr>))"

definition txs2witness ::
  "key_api \<Rightarrow> hash_fun \<Rightarrow> (rlp_item list \<Rightarrow> int list) \<Rightarrow> signed_tx list \<Rightarrow> int \<Rightarrow> nat \<Rightarrow> nat \<Rightarrow> fq \<Rightarrow>
   tx_witness result" where
  "txs2witness K keccak rlp txs chain_id MAX_TXS MAX_CALLDATA_BYTES randomness =
     rbind (assert_that (length txs \<le> MAX_TXS)) (\<lambda>_.
     rbind (rfold (append_tx K keccak rlp chain_id randomness)
       \<lparr>xs_keccak_table = new_keccak_table, xs_sign_verifications = [], xs_fixed_rows = [], xs_dyn_rows = []\<rparr>
       (zip [0..<length txs] txs)) (\<lambda>s.
     rbind (assert_that (length (xs_dyn_rows s) \<le> MAX_CALLDATA_BYTES)) (\<lambda>_.
     let padding = concat (map (\<lambda>i. padding_tx (int i + 1)) [length txs..<MAX_TXS]);
         rows = xs_fixed_rows s @ padding @ xs_dyn_rows s @
           replicate (MAX_CALLDATA_BYTES - length (xs_dyn_rows s)) (tx_circuit_row_of (FQ 0) TC_CallData (FQ 0) (ValueV (FQ 0))) in
     rbind dummy_ecdsa_chip (\<lambda>dummy.
     Inr \<lparr>tw_rows = rows, tw_keccak_table = xs_keccak_table s,
          tw_sign_verifications = xs_sign_verifications s @
            replicate (MAX_TXS - length txs) (SignVerifyChip (replicate 32 0) (FQ 0) (word_of 0) dummy)\<rparr>))))"

end
