(* ===== verification/Tx_Circuit_Facts.thy ===== *)
theory Tx_Circuit_Facts
  imports Tx_Circuit
begin

text \<open>
  The transaction circuit ties every sender to a signature, and the witness that the generator makes
  is accepted.
\<close>

section \<open>What the circuit enforces\<close>

text \<open>
  The chips carry the bytes of their keys and messages, as their constructors make them, and a hash
  is made of bytes.
\<close>

definition sign_chip_ok :: "sign_verify_chip \<Rightarrow> bool" where
  "sign_chip_ok chip \<longleftrightarrow>
     (let e = sv_ecdsa_chip chip in
      wf_to_le_bytes (fst (te_pub_key e)) = Inr (te_pub_key_x_bytes e) \<and>
      wf_to_le_bytes (snd (te_pub_key e)) = Inr (te_pub_key_y_bytes e) \<and>
      wf_to_le_bytes (te_msg_hash e) = Inr (te_msg_hash_bytes e) \<and>
      list_all is_byte (sv_pub_key_hash chip))"

definition hash_of_bytes :: "hash_fun \<Rightarrow> bool" where
  "hash_of_bytes keccak \<longleftrightarrow> (\<forall>x. list_all is_byte (keccak x))"

text \<open>
  The message of the hash \<open>h\<close> is signed with a key whose 64 bytes have the linear combination of an
  input of the Keccak table, and the address \<open>a\<close> is what the hash of that input ends with.
\<close>

definition authorised :: "key_api \<Rightarrow> hash_fun \<Rightarrow> fq \<Rightarrow> int list set \<Rightarrow> fq \<Rightarrow> word256 \<Rightarrow> bool" where
  "authorised K keccak randomness inputs a h \<longleftrightarrow>
     (\<exists>msg key sr ss input v v'. ka_verify K msg (0, sr, ss) key = Inr True \<and> word_of_bytes (rev msg) = Inr h \<and>
        length key = 64 \<and> input \<in> inputs \<and> length input = 64 \<and>
        RLC_of_bytes (rev key) randomness 64 = Inr v \<and> RLC_of_bytes (rev input) randomness 64 = Inr v' \<and>
        rlc_value v = rlc_value v' \<and> a = FQ (from_bytes_be (last_20 (keccak input))))"

lemma select_1: "word_select w 1 = Inr v \<longleftrightarrow> v = w \<and> word_ok w"
  by (cases w) (auto simp: word_select_def word_of_tuple_ok)

lemma wf_le_length: "wf_to_le_bytes x = Inr bs \<Longrightarrow> length bs = 32"
  by (auto simp: wf_to_le_bytes_def to_bytes_le_ok simp del: le_bytes.simps)

text \<open>A row of the table for 64 bytes, with the hash \<open>h\<close>, is the row of an input whose hash is \<open>h\<close>.\<close>

lemma hashed_key:
  assumes "keccak_built keccak 64 randomness inputs T" "(1, c, FQ 64, w) \<in> T" "word_of_bytes h = Inr w"
    and "list_all is_byte h" "hash_of_bytes keccak"
  obtains input v where "input \<in> inputs" "length input = 64" "RLC_of_bytes (rev input) randomness 64 = Inr v"
    "c = rlc_value v" "h = keccak input"
proof -
  from keccak_built_row [OF assms(1,2)] obtain input v where input: "input \<in> inputs"
    "RLC_of_bytes (rev input) randomness 64 = Inr v" "c = rlc_value v" "FQ 64 = FQ (int (length input))"
    "length input \<le> 64" "word_of_bytes (keccak input) = Inr w"
    by auto
  have "fq_n (FQ 64) = 64" "fq_n (FQ (int (length input))) = int (length input)"
    using input(5) by (simp_all add: fq_modulus_def)
  then have "length input = 64" using input(4) by simp
  moreover have "h = keccak input"
    using word_of_bytes_inject [OF assms(3) input(6)] assms(4,5) by (simp add: hash_of_bytes_def list_all_iff)
  ultimately show ?thesis using input that by blast
qed

lemma sign_verify_sound:
  assumes run: "sign_verify K T randomness chip = Inr u" and ok: "sign_chip_ok chip" "hash_of_bytes keccak"
    and T: "keccak_built keccak 64 randomness inputs T" and a: "sv_address chip \<noteq> 0"
  shows "authorised K keccak randomness inputs (sv_address chip) (sv_msg_hash chip)"
proof -
  let ?e = "sv_ecdsa_chip chip"
  let ?key = "rev (te_pub_key_x_bytes ?e) @ rev (te_pub_key_y_bytes ?e)"
  obtain v w where same: "sv_msg_hash_bytes chip = te_msg_hash_bytes ?e"
    and v: "RLC_of_bytes (rev ?key) randomness 64 = Inr v"
    and w: "word_of_bytes (sv_pub_key_hash chip) = Inr w"
    and row: "(1, rlc_value v, FQ 64, w) \<in> T"
    and addr: "linear_combine_bytes (map FQ (rev (last_20 (sv_pub_key_hash chip)))) (FQ 256) True = Inr (sv_address chip)"
    and msg: "word_of_bytes (te_msg_hash_bytes ?e) = Inr (sv_msg_hash chip)"
    and ecdsa: "tx_ecdsa_verify K ?e = Inr ()"
    using run a by (auto simp: sign_verify_def Let_def ok_simps select_1)
  have bytes: "list_all is_byte (sv_pub_key_hash chip)" using ok(1) by (simp add: sign_chip_ok_def Let_def)
  obtain input v' where input: "input \<in> inputs" "RLC_of_bytes (rev input) randomness 64 = Inr v'" "rlc_value v = rlc_value v'"
    and len: "length input = 64" and hash: "sv_pub_key_hash chip = keccak input"
    using hashed_key [OF T row w bytes ok(2)] by blast
  have "linear_combine_bytes (map FQ (rev (last_20 (sv_pub_key_hash chip)))) (FQ 256) True =
      Inr (FQ (le_val (rev (last_20 (sv_pub_key_hash chip)))))"
    by (rule linear_combine_256) (use bytes in \<open>auto simp: last_20_def list_all_iff dest: in_set_dropD\<close>)
  then have a': "sv_address chip = FQ (from_bytes_be (last_20 (keccak input)))"
    using addr by (simp add: from_bytes_be_def hash)
  obtain sr ss where sig: "ka_verify K (rev (te_msg_hash_bytes ?e)) (0, sr, ss) ?key = Inr True"
    using ecdsa ok(1) by (auto simp: tx_ecdsa_verify_def sign_chip_ok_def Let_def ok_simps)
  have "length ?key = 64"
    using ok(1) wf_le_length by (auto simp: sign_chip_ok_def Let_def)
  then show ?thesis
    unfolding authorised_def using sig msg v input(1-3) len a' by fastforce
qed

text \<open>
  C8: In an accepted transaction circuit over a Keccak table built by its own add, every
  transaction whose caller address is not zero carries a message hash that is signed by a
  key whose bytes have the linear combination of a hashed input, and the caller address is
  the last 20 bytes of the hash of that input.
\<close>

theorem tx_circuit_sound:
  assumes "verify_tx_circuit K W MAX_TXS randomness = Inr ()" "i < MAX_TXS"
    and "list_all sign_chip_ok (tw_sign_verifications W)" "hash_of_bytes keccak"
    and "keccak_built keccak 64 randomness inputs (tw_keccak_table W)"
    and "xr_value (tw_rows W ! (12 * i + 3)) \<noteq> ValueV 0"
  shows "\<exists>a. xr_value (tw_rows W ! (12 * i + 3)) = ValueV a \<and>
    authorised K keccak randomness inputs a (wov_word (xr_value (tw_rows W ! (12 * i + 11))))"
proof -
  have "verify_tx_index K W randomness i = Inr ()"
    using assms(1,2) by (simp add: verify_tx_circuit_def riter_ok)
  then obtain a where i: "i < length (tw_sign_verifications W)"
    and chip: "sign_verify K (tw_keccak_table W) randomness (tw_sign_verifications W ! i) = Inr ()"
    and a: "xr_value (tw_rows W ! (12 * i + 3)) = ValueV a" "a = sv_address (tw_sign_verifications W ! i)"
    and h: "lo (wov_word (xr_value (tw_rows W ! (12 * i + 11)))) = lo (sv_msg_hash (tw_sign_verifications W ! i))"
      "hi (wov_word (xr_value (tw_rows W ! (12 * i + 11)))) = hi (sv_msg_hash (tw_sign_verifications W ! i))"
    by (auto simp: verify_tx_index_def Let_def ok_simps mult.commute add.commute)
  have word: "wov_word (xr_value (tw_rows W ! (12 * i + 11))) = sv_msg_hash (tw_sign_verifications W ! i)"
    using h by (rule word256.expand [OF conjI])
  have "sign_chip_ok (tw_sign_verifications W ! i)" using assms(3) i by (simp add: list_all_length)
  moreover have "sv_address (tw_sign_verifications W ! i) \<noteq> 0" using a assms(6) by auto
  ultimately show ?thesis
    using sign_verify_sound [OF chip _ assms(4,5)] a word by auto
qed

section \<open>The generated witness\<close>

text \<open>
  The documented behaviour of the libraries: a key recovered from a signature verifies it, has 64
  bytes, and the parity plays no part in the verification; the padding signature of the source
  verifies; a Keccak hash has 32 bytes.
\<close>

definition key_api_spec :: "key_api \<Rightarrow> bool" where
  "key_api_spec K \<longleftrightarrow>
     (\<forall>msg v sr ss pk. ka_recover K msg (v, sr, ss) = Inr pk \<longrightarrow>
        length pk = 64 \<and> list_all is_byte pk \<and> ka_verify K msg (0, sr, ss) pk = Inr True) \<and>
     ka_verify K (rev (le_bytes 32 DUMMY_MSG_HASH)) (0, DUMMY_SIGNATURE)
       (rev (le_bytes 32 (fst DUMMY_PUBLIC_KEY)) @ rev (le_bytes 32 (snd DUMMY_PUBLIC_KEY))) = Inr True"

definition keccak_spec :: "hash_fun \<Rightarrow> bool" where
  "keccak_spec keccak \<longleftrightarrow> (\<forall>x. length (keccak x) = 32 \<and> list_all is_byte (keccak x))"

lemma word_of_bytes_word_ok:
  assumes "word_of_bytes bs = Inr w" "list_all is_byte bs"
  shows "word_ok w"
proof -
  have len: "length bs = 32" and w: "w = WordLH (FQ (le_val (take 16 bs))) (FQ (le_val (drop 16 bs)))"
    using assms(1) by (auto simp: word_of_bytes_def ok_simps)
  have small: "fq_n (FQ (le_val xs)) < 2 ^ 128" if "length xs = 16" "\<And>b. b \<in> set xs \<Longrightarrow> is_byte b" for xs
  proof -
    have v: "0 \<le> le_val xs" "le_val xs < 2 ^ 128" using le_val_nonneg [of xs] le_val_bound [of xs] that by simp_all
    then have "fq_n (FQ (le_val xs)) = le_val xs" by (intro fq_n_FQ_small) (simp_all add: lt_pow128)
    with v show ?thesis by simp
  qed
  have "fq_n (FQ (le_val (take 16 bs))) < 2 ^ 128" "fq_n (FQ (le_val (drop 16 bs))) < 2 ^ 128"
    by (rule small; use len assms(2) in \<open>auto simp: list_all_iff dest: in_set_takeD in_set_dropD\<close>)+
  then show ?thesis by (simp only: w word_ok_def word256.sel simp_thms)
qed

lemma be_round_trip:
  assumes "length bs = 32" "list_all is_byte bs"
  shows "0 \<le> from_bytes_be bs" "from_bytes_be bs < 2 ^ 256" "le_bytes 32 (from_bytes_be bs) = rev bs"
proof -
  have b: "\<And>b. b \<in> set (rev bs) \<Longrightarrow> is_byte b" using assms(2) by (simp add: list_all_iff)
  show "0 \<le> from_bytes_be bs" "from_bytes_be bs < 2 ^ 256"
    unfolding from_bytes_be_def using le_val_nonneg [of "rev bs"] le_val_bound [of "rev bs"] b assms(1) by simp_all
  show "le_bytes 32 (from_bytes_be bs) = rev bs"
    unfolding from_bytes_be_def using le_bytes_le_val [of "rev bs"] b assms(1) by simp
qed

lemma WrongFieldInteger_ok:
  "WrongFieldInteger v = Inr x \<Longrightarrow> 0 \<le> v \<and> v < 2 ^ 256 \<and> wf_to_le_bytes x = Inr (le_bytes 32 v)"
proof -
  assume run: "WrongFieldInteger v = Inr x"
  then have v: "0 \<le> v" "v < 2 ^ 256"
    by (auto simp: WrongFieldInteger_def Let_def ok_simps simp del: le_bytes.simps)
  from wf_round_trip [OF v] obtain y where "WrongFieldInteger v = Inr y" "wf_to_le_bytes y = Inr (le_bytes 32 v)" by blast
  with run v show ?thesis by simp
qed

lemma sign_verify_mono: "sign_verify K T r chip = Inr u \<Longrightarrow> T \<subseteq> T' \<Longrightarrow> sign_verify K T' r chip = Inr u"
  by (auto simp: sign_verify_def Let_def ok_simps subset_iff)

text \<open>The chip that is assigned to a recovered key passes its checks, unless its address is zero.\<close>

lemma assigned_chip_verifies:
  assumes run: "sign_verify_assign keccak (sr, ss) pk msg = Inr chip"
    and pk: "length pk = 64" "list_all is_byte pk" and msg: "length msg = 32" "list_all is_byte msg"
    and sig: "ka_verify K msg (0, sr, ss) pk = Inr True" and keccak: "keccak_spec keccak"
    and add: "keccak_table_add keccak 64 pk r T = Inr T'" and a: "sv_address chip \<noteq> 0"
  shows "sign_verify K T' r chip = Inr ()"
proof -
  obtain v w where v: "RLC_of_bytes (rev pk) r 64 = Inr v" and w: "word_of_bytes (keccak pk) = Inr w"
    and T': "T' = insert (FQ 1, rlc_value v, FQ 64, w) T"
    using add pk(1) by (auto simp: keccak_table_add_def ok_simps)
  have hash: "length (keccak pk) = 32" "list_all is_byte (keccak pk)" using keccak by (simp_all add: keccak_spec_def)
  note w_ok = word_of_bytes_word_ok [OF w hash(2)]
  have halves: "length (take 32 pk) = 32" "list_all is_byte (take 32 pk)" "length (drop 32 pk) = 32" "list_all is_byte (drop 32 pk)"
    using pk by (auto simp: list_all_iff dest: in_set_takeD in_set_dropD)
  note x_be = be_round_trip [OF halves(1,2)] and y_be = be_round_trip [OF halves(3,4)] and h_be = be_round_trip [OF msg]
  obtain h e where h: "word_of_int256 (from_bytes_be msg) = Inr h" and e: "tx_ecdsa_assign (sr, ss) pk msg = Inr e"
    and chip: "chip = SignVerifyChip (keccak pk) (FQ (from_bytes_be (last_20 (keccak pk)))) h e"
    using run by (auto simp: sign_verify_assign_def Let_def ok_simps)
  obtain ri si xi yi hi' where "WrongFieldInteger sr = Inr ri" "WrongFieldInteger ss = Inr si"
    "WrongFieldInteger (from_bytes_be (take 32 pk)) = Inr xi" "WrongFieldInteger (from_bytes_be (drop 32 pk)) = Inr yi"
    "WrongFieldInteger (from_bytes_be msg) = Inr hi'" and mk: "tx_ECDSAVerifyChip (ri, si) (xi, yi) hi' = Inr e"
    using e by (auto simp: tx_ecdsa_assign_def ok_simps)
  note wf = this(1-5) [THEN WrongFieldInteger_ok]
  have bytes: "wf_to_le_bytes xi = Inr (rev (take 32 pk))" "wf_to_le_bytes yi = Inr (rev (drop 32 pk))"
    "wf_to_le_bytes hi' = Inr (rev msg)" "wf_to_le_bytes ri = Inr (le_bytes 32 sr)" "wf_to_le_bytes si = Inr (le_bytes 32 ss)"
    using wf by (simp_all only: x_be y_be h_be)
  have e': "e = \<lparr>te_signature = (ri, si), te_pub_key = (xi, yi), te_msg_hash = hi', te_pub_key_x_bytes = rev (take 32 pk),
      te_pub_key_y_bytes = rev (drop 32 pk), te_msg_hash_bytes = rev msg\<rparr>"
    using mk by (simp add: tx_ECDSAVerifyChip_def bytes)
  have vals: "le_val (le_bytes 32 sr) = sr" "le_val (le_bytes 32 ss) = ss" using wf(1,2) by simp_all
  have ecdsa: "tx_ecdsa_verify K e = Inr ()"
    by (simp add: tx_ecdsa_verify_def e' bytes vals sig del: le_bytes.simps le_val_le_bytes)
  have lin: "linear_combine_bytes (map FQ (rev (last_20 (keccak pk)))) (FQ 256) True = Inr (FQ (from_bytes_be (last_20 (keccak pk))))"
    unfolding from_bytes_be_def
    by (rule linear_combine_256) (use hash(2) in \<open>auto simp: last_20_def list_all_iff dest: in_set_dropD\<close>)
  have "word_of_bytes (rev msg) = Inr h"
    using h h_be by (simp add: word_of_int256_def to_bytes_le_def del: le_bytes.simps)
  moreover have "word_ok h" using h word_of_ok by (auto simp: word_of_int256_ok)
  ultimately have mh: "word_of_bytes (rev msg) = Inr h" "word_select h 1 = Inr h" "word_select w 1 = Inr w"
    using w_ok by (simp_all add: select_1)
  show ?thesis
    using a v w lin mh ecdsa unfolding chip SignVerifyChip_def
    by (simp add: sign_verify_def e' Let_def T' keccak_table_lookup_def)
qed

section \<open>The rows of a transaction\<close>

text \<open>Twelve rows that carry the address and the message hash of the chip.\<close>

definition rows_of_chip :: "tx_circuit_row list \<Rightarrow> sign_verify_chip \<Rightarrow> bool" where
  "rows_of_chip rows chip \<longleftrightarrow> length rows = 12 \<and> list_all (\<lambda>row. \<not> is_call_data row) rows \<and>
     xr_value (rows ! 3) = ValueV (sv_address chip) \<and> wov_word (xr_value (rows ! 11)) = sv_msg_hash chip"

lemma tx_rows_shape:
  "length (tx_fixed_rows tx_id tx addr p v h) = 12" "list_all (\<lambda>row. \<not> is_call_data row) (tx_fixed_rows tx_id tx addr p v h)"
  "xr_value (tx_fixed_rows tx_id tx addr p v h ! 3) = ValueV (FQ (from_bytes_be addr))"
  "wov_word (xr_value (tx_fixed_rows tx_id tx addr p v h ! 11)) = h" "list_all is_call_data (tx_data_rows tx_id tx)"
proof -
  have "FQ (tc_int tag) = FQ (tc_int TC_CallData) \<longleftrightarrow> tag = TC_CallData" for tag
  proof -
    have "fq_n (FQ (tc_int t)) = tc_int t" for t by (cases t) (simp_all add: fq_modulus_def)
    then have "FQ (tc_int tag) = FQ (tc_int TC_CallData) \<longleftrightarrow> tc_int tag = tc_int TC_CallData" by (metis (lifting))
    then show ?thesis by (cases tag) simp_all
  qed
  then show "list_all (\<lambda>row. \<not> is_call_data row) (tx_fixed_rows tx_id tx addr p v h)" "list_all is_call_data (tx_data_rows tx_id tx)"
    by (simp_all add: tx_fixed_rows_def tx_data_rows_def tx_circuit_row_of_def is_call_data_def Let_def list_all_iff
        del: tc_int.simps)
qed (simp_all add: tx_fixed_rows_def tx_circuit_row_of_def Let_def)

lemma tx2witness_rows:
  assumes run: "tx2witness K keccak rlp index tx chain_id r T = Inr (rows, chip, T')"
    and K: "key_api_spec K" and keccak: "keccak_spec keccak"
  obtains fixed dyn where "rows = fixed @ dyn" "rows_of_chip fixed chip" "list_all is_call_data dyn" "T \<subseteq> T'"
    "sv_address chip \<noteq> 0 \<Longrightarrow> sign_verify K T' r chip = Inr ()"
proof -
  obtain h pk gas_price val sign_hash where pk: "ka_recover K h (st_sig_v tx - 35 - chain_id * 2, st_sig_r tx, st_sig_s tx) = Inr pk"
    and h: "h \<in> range keccak" and T': "keccak_table_add keccak 64 pk r T = Inr T'"
    and chip: "sign_verify_assign keccak (st_sig_r tx, st_sig_s tx) pk h = Inr chip"
    and sign_hash: "word_of_int256 (from_bytes_be h) = Inr sign_hash"
    and rows: "rows = tx_fixed_rows (FQ (int index + 1)) tx (last_20 (keccak pk)) gas_price val sign_hash @
        tx_data_rows (FQ (int index + 1)) tx"
    using run unfolding tx2witness_def Let_def
    by (simp only: rbind_ok sum.inject prod.inject) (elim exE conjE, hypsubst, rule that, (assumption | rule rangeI refl)+)
  have "length pk = 64" "list_all is_byte pk" "ka_verify K h (0, st_sig_r tx, st_sig_s tx) pk = Inr True"
    using K pk by (auto simp: key_api_spec_def)
  moreover have "length h = 32" "list_all is_byte h" using keccak h by (auto simp: keccak_spec_def)
  ultimately have ver: "sv_address chip \<noteq> 0 \<Longrightarrow> sign_verify K T' r chip = Inr ()"
    using assigned_chip_verifies [OF chip _ _ _ _ _ keccak T'] by blast
  have "sv_address chip = FQ (from_bytes_be (last_20 (keccak pk)))" "sv_msg_hash chip = sign_hash"
    using chip sign_hash by (auto simp: sign_verify_assign_def Let_def rbind_ok SignVerifyChip_def)
  moreover have "T \<subseteq> T'" using T' by (auto simp: keccak_table_add_def rbind_ok)
  ultimately show ?thesis using ver by (intro that [OF rows]) (auto simp: rows_of_chip_def tx_rows_shape)
qed

section \<open>The rows of all transactions\<close>

definition tx_state_ok :: "key_api \<Rightarrow> fq \<Rightarrow> tx_witness_state \<Rightarrow> bool" where
  "tx_state_ok K r s \<longleftrightarrow>
     length (xs_fixed_rows s) = 12 * length (xs_sign_verifications s) \<and> new_keccak_table \<subseteq> xs_keccak_table s \<and>
     (\<forall>j<length (xs_sign_verifications s). let chip = xs_sign_verifications s ! j in
        xr_value (xs_fixed_rows s ! (12 * j + 3)) = ValueV (sv_address chip) \<and>
        wov_word (xr_value (xs_fixed_rows s ! (12 * j + 11))) = sv_msg_hash chip \<and>
        (sv_address chip \<noteq> 0 \<longrightarrow> sign_verify K (xs_keccak_table s) r chip = Inr ()))"

lemma append_tx_ok:
  assumes run: "append_tx K keccak rlp chain_id r s x = Inr t" and ok: "tx_state_ok K r s"
    and K: "key_api_spec K" and keccak: "keccak_spec keccak"
  shows "tx_state_ok K r t" "length (xs_sign_verifications t) = Suc (length (xs_sign_verifications s))"
proof -
  obtain rows chip T where w: "tx2witness K keccak rlp (fst x) (snd x) chain_id r (xs_keccak_table s) = Inr (rows, chip, T)"
    and t: "t = \<lparr>xs_keccak_table = T, xs_sign_verifications = xs_sign_verifications s @ [chip],
          xs_fixed_rows = xs_fixed_rows s @ filter (\<lambda>row. \<not> is_call_data row) rows,
          xs_dyn_rows = xs_dyn_rows s @ filter is_call_data rows\<rparr>"
    using run by (auto simp: append_tx_def rbind_ok split: prod.splits)
  obtain fixed dyn where split: "rows = fixed @ dyn" and fixed: "rows_of_chip fixed chip" and dyn: "list_all is_call_data dyn"
    and T: "xs_keccak_table s \<subseteq> T" and ver: "sv_address chip \<noteq> 0 \<Longrightarrow> sign_verify K T r chip = Inr ()"
    using tx2witness_rows [OF w K keccak] by blast
  have "filter (\<lambda>row. \<not> is_call_data row) rows = fixed"
    using fixed dyn unfolding split rows_of_chip_def by (simp add: filter_empty_conv filter_id_conv list_all_iff)
  then have t': "xs_fixed_rows t = xs_fixed_rows s @ fixed" "xs_sign_verifications t = xs_sign_verifications s @ [chip]"
    "xs_keccak_table t = T"
    by (simp_all add: t)
  let ?n = "length (xs_sign_verifications s)"
  have len: "length fixed = 12" "length (xs_fixed_rows s) = 12 * ?n"
    using fixed ok by (simp_all add: rows_of_chip_def tx_state_ok_def)
  show "length (xs_sign_verifications t) = Suc ?n" by (simp add: t')
  have "let c = xs_sign_verifications t ! j in
        xr_value (xs_fixed_rows t ! (12 * j + 3)) = ValueV (sv_address c) \<and>
        wov_word (xr_value (xs_fixed_rows t ! (12 * j + 11))) = sv_msg_hash c \<and>
        (sv_address c \<noteq> 0 \<longrightarrow> sign_verify K (xs_keccak_table t) r c = Inr ())" if j: "j < Suc ?n" for j
  proof (cases "j < ?n")
    case True
    then have "12 * j + 11 < 12 * ?n" by linarith
    then show ?thesis
      using True ok sign_verify_mono [OF _ T] by (simp add: t' nth_append len tx_state_ok_def Let_def)
  next
    case False
    then have "j = ?n" using j by simp
    then show ?thesis using fixed ver by (simp add: t' nth_append len rows_of_chip_def Let_def)
  qed
  then show "tx_state_ok K r t"
    using ok T len by (auto simp: tx_state_ok_def t')
qed

lemma append_txs_ok:
  assumes "key_api_spec K" "keccak_spec keccak"
  shows "rfold (append_tx K keccak rlp chain_id r) s xs = Inr t \<Longrightarrow> tx_state_ok K r s \<Longrightarrow>
    tx_state_ok K r t \<and> length (xs_sign_verifications t) = length (xs_sign_verifications s) + length xs"
proof (induction xs arbitrary: s)
  case (Cons x xs)
  then obtain s' where s': "append_tx K keccak rlp chain_id r s x = Inr s'" "rfold (append_tx K keccak rlp chain_id r) s' xs = Inr t"
    by (auto simp: rbind_ok)
  from append_tx_ok [OF s'(1) Cons.prems(2) assms] Cons.IH [OF s'(2)] show ?case by simp
qed simp

lemma padding_rows:
  fixes ks :: "nat list"
  defines "rows \<equiv> concat (map (\<lambda>i. padding_tx (int i + 1)) ks)"
  shows "length rows = 12 * length ks"
    and "j < length ks \<Longrightarrow> xr_value (rows ! (12 * j + 3)) = ValueV 0 \<and> xr_value (rows ! (12 * j + 11)) = ValueV 0"
proof -
  have tx: "length (padding_tx i) = 12" "xr_value (padding_tx i ! 3) = ValueV 0" "xr_value (padding_tx i ! 11) = ValueV 0" for i
    by (simp_all add: padding_tx_def tx_circuit_row_of_def Let_def)
  have "length rows = 12 * length ks \<and> (\<forall>j<length ks. xr_value (rows ! (12 * j + 3)) = ValueV 0 \<and>
      xr_value (rows ! (12 * j + 11)) = ValueV 0)"
    unfolding rows_def
  proof (induction ks)
    case (Cons k ks)
    have "xr_value (concat (map (\<lambda>i. padding_tx (int i + 1)) (k # ks)) ! (12 * j + 3)) = ValueV 0 \<and>
        xr_value (concat (map (\<lambda>i. padding_tx (int i + 1)) (k # ks)) ! (12 * j + 11)) = ValueV 0"
      if "j < Suc (length ks)" for j
      using that Cons by (cases j) (auto simp: nth_append tx add.commute)
    with Cons show ?case by (auto simp: tx)
  qed simp
  then show "length rows = 12 * length ks"
    and "j < length ks \<Longrightarrow> xr_value (rows ! (12 * j + 3)) = ValueV 0 \<and> xr_value (rows ! (12 * j + 11)) = ValueV 0"
    by blast+
qed

text \<open>The chip of a padding transaction: its checks are switched off, but for the signature.\<close>

lemma linear_combine_total:
  "(\<And>b. b \<in> set bs \<Longrightarrow> is_byte b) \<Longrightarrow> \<exists>v. linear_combine_bytes (map FQ bs) r True = Inr v"
proof (induction bs)
  case (Cons b bs)
  have "is_byte b" using Cons.prems by simp
  then have "fq_n (FQ b) < 256" by (simp add: is_byte_def fq_modulus_def)
  with Cons show ?case by auto
qed simp

lemma select_0: "word_select w 0 = Inr (WordLH 0 0)"
  by (simp add: word_select_def word_of_tuple_ok word_ok_def)

lemma padding_chip_verifies:
  assumes "dummy_ecdsa_chip = Inr dummy" "key_api_spec K" "new_keccak_table \<subseteq> T"
  shows "sign_verify K T r (SignVerifyChip (replicate 32 0) (FQ 0) (word_of 0) dummy) = Inr ()"
proof -
  obtain ri si xi yi h where "WrongFieldInteger (fst DUMMY_SIGNATURE) = Inr ri" "WrongFieldInteger (snd DUMMY_SIGNATURE) = Inr si"
    "WrongFieldInteger (fst DUMMY_PUBLIC_KEY) = Inr xi" "WrongFieldInteger (snd DUMMY_PUBLIC_KEY) = Inr yi"
    "WrongFieldInteger DUMMY_MSG_HASH = Inr h" and mk: "tx_ECDSAVerifyChip (ri, si) (xi, yi) h = Inr dummy"
    using assms(1) by (auto simp: dummy_ecdsa_chip_def rbind_ok)
  note wf = this(1-5) [THEN WrongFieldInteger_ok]
  note bytes = wf [THEN conjunct2, THEN conjunct2]
  let ?x = "le_bytes 32 (fst DUMMY_PUBLIC_KEY)" and ?y = "le_bytes 32 (snd DUMMY_PUBLIC_KEY)" and ?h = "le_bytes 32 DUMMY_MSG_HASH"
  have d: "dummy = \<lparr>te_signature = (ri, si), te_pub_key = (xi, yi), te_msg_hash = h, te_pub_key_x_bytes = ?x,
      te_pub_key_y_bytes = ?y, te_msg_hash_bytes = ?h\<rparr>"
    using mk by (simp add: tx_ECDSAVerifyChip_def bytes del: le_bytes.simps)
  have "le_val (le_bytes 32 (fst DUMMY_SIGNATURE)) = fst DUMMY_SIGNATURE" "le_val (le_bytes 32 (snd DUMMY_SIGNATURE)) = snd DUMMY_SIGNATURE"
    using wf(1,2) by simp_all
  then have ecdsa: "tx_ecdsa_verify K dummy = Inr ()"
    using assms(2) by (simp add: tx_ecdsa_verify_def d bytes key_api_spec_def del: le_bytes.simps le_val_le_bytes)
  have "\<exists>v. linear_combine_bytes (map FQ (?y @ ?x)) r True = Inr v"
    by (rule linear_combine_total) (auto simp: le_bytes_is_byte simp del: le_bytes.simps)
  then obtain v where v: "RLC_of_bytes (?y @ ?x) r 64 = Inr v"
    by (auto simp: RLC_of_bytes_def Let_def simp del: le_bytes.simps)
  have zero: "word_of_bytes (replicate 32 0) = Inr (WordLH 0 0)" by (simp add: word_of_bytes_def bytes_to_fq_def numeral_eq_Suc)
  have "\<exists>w. word_of_bytes ?h = Inr w" by (simp add: word_of_bytes_def bytes_to_fq_def del: le_bytes.simps)
  then obtain w where w: "word_of_bytes ?h = Inr w" by blast
  have lin: "linear_combine_bytes (map FQ (rev (last_20 (replicate 32 0)))) (FQ 256) True = Inr 0"
    using linear_combine_256 [of "rev (last_20 (replicate 32 0))"] by (simp add: last_20_def is_byte_def numeral_eq_Suc)
  have "(0, 0, 0, WordLH 0 0) \<in> T" using assms(3) by (auto simp: new_keccak_table_def)
  then show ?thesis
    using ecdsa v zero w lin unfolding d SignVerifyChip_def
    by (simp add: sign_verify_def Let_def keccak_table_lookup_def select_0 word_of_0 del: le_bytes.simps)
qed

text \<open>
  C9: The witness that txs2witness generates for any list of signed transactions is accepted
  by the transaction circuit, padding included, if no sender has the address zero and the
  libraries do what they document.
\<close>

theorem tx_witness_accepted:
  assumes run: "txs2witness K keccak rlp txs chain_id MAX_TXS MAX_CALLDATA_BYTES randomness = Inr W"
    and K: "key_api_spec K" and keccak: "keccak_spec keccak"
    and senders: "\<forall>i<length txs. xr_value (tw_rows W ! (12 * i + 3)) \<noteq> ValueV 0"
  shows "verify_tx_circuit K W MAX_TXS randomness = Inr ()"
proof -
  let ?init = "\<lparr>xs_keccak_table = new_keccak_table, xs_sign_verifications = [], xs_fixed_rows = [], xs_dyn_rows = []\<rparr>"
  let ?padding = "concat (map (\<lambda>i. padding_tx (int i + 1)) [length txs..<MAX_TXS])"
  let ?n = "length txs"
  obtain s dummy where n: "?n \<le> MAX_TXS"
    and s: "rfold (append_tx K keccak rlp chain_id randomness) ?init (zip [0..<?n] txs) = Inr s"
    and dummy: "dummy_ecdsa_chip = Inr dummy"
    and W: "\<exists>rest. tw_rows W = xs_fixed_rows s @ ?padding @ rest" "tw_keccak_table W = xs_keccak_table s"
      "tw_sign_verifications W = xs_sign_verifications s @
         replicate (MAX_TXS - ?n) (SignVerifyChip (replicate 32 0) (FQ 0) (word_of 0) dummy)"
    using run by (auto simp: txs2witness_def rbind_ok assert_that_ok Let_def)
  have "tx_state_ok K randomness ?init" by (simp add: tx_state_ok_def)
  from append_txs_ok [OF K keccak s this] have ok: "tx_state_ok K randomness s" and len: "length (xs_sign_verifications s) = ?n"
    by simp_all
  have fixed: "length (xs_fixed_rows s) = 12 * ?n" using ok len by (simp add: tx_state_ok_def)
  obtain rest where rows: "tw_rows W = xs_fixed_rows s @ ?padding @ rest" using W(1) by blast
  have pad: "length ?padding = 12 * (MAX_TXS - ?n)" using padding_rows(1) [of "[?n..<MAX_TXS]"] by simp
  have "verify_tx_index K W randomness i = Inr ()" if i: "i < MAX_TXS" for i
  proof -
    have bound: "12 * i + 11 < length (tw_rows W)" using i n by (simp add: rows fixed pad)
    obtain chip where chip: "tw_sign_verifications W ! i = chip" "i < length (tw_sign_verifications W)"
      and ver: "sign_verify K (tw_keccak_table W) randomness chip = Inr ()"
      and a: "xr_value (tw_rows W ! (12 * i + 3)) = ValueV (sv_address chip)"
      and h: "wov_word (xr_value (tw_rows W ! (12 * i + 11))) = sv_msg_hash chip"
    proof (cases "i < ?n")
      case True
      then have "12 * i + 11 < 12 * ?n" by linarith
      then have idx: "tw_rows W ! (12 * i + 3) = xs_fixed_rows s ! (12 * i + 3)"
        "tw_rows W ! (12 * i + 11) = xs_fixed_rows s ! (12 * i + 11)"
        by (simp_all add: rows nth_append fixed)
      have c: "tw_sign_verifications W ! i = xs_sign_verifications s ! i" using True by (simp add: W(3) nth_append len)
      show ?thesis
        using that [of "xs_sign_verifications s ! i"] True ok senders idx c W(2) len
        by (auto simp: tx_state_ok_def Let_def W(3))
    next
      case False
      then obtain j where j: "i = ?n + j" "j < MAX_TXS - ?n" using i by (metis add_diff_inverse_nat less_diff_conv2 n not_less add.commute)
      have idx: "tw_rows W ! (12 * i + 3) = ?padding ! (12 * j + 3)" "tw_rows W ! (12 * i + 11) = ?padding ! (12 * j + 11)"
        using j(2) by (simp_all add: rows nth_append fixed pad j(1))
      have "new_keccak_table \<subseteq> tw_keccak_table W" using ok by (simp add: tx_state_ok_def W(2))
      note ver = padding_chip_verifies [OF dummy K this]
      show ?thesis
        by (rule that [OF _ _ ver])
          (use j padding_rows(2) [of j "[?n..<MAX_TXS]"] idx in \<open>simp_all add: W(3) nth_append len SignVerifyChip_def word_of_0\<close>)
    qed
    show ?thesis
      using chip ver a h bound by (simp add: verify_tx_index_def Let_def list_at_def mult.commute add.commute)
  qed
  then show ?thesis by (simp add: verify_tx_circuit_def riter_ok)
qed

section \<open>Concrete libraries\<close>

text \<open>A hash that is always 1, and signatures that always verify, with a key of 64 zeros.\<close>

definition one_hash :: hash_fun where
  "one_hash x = replicate 31 0 @ [1]"

definition zero_keys :: key_api where
  "zero_keys = \<lparr>ka_verify = (\<lambda>msg sig pk. Inr True), ka_recover = (\<lambda>msg sig. Inr (replicate 64 0))\<rparr>"

definition sample_tx :: signed_tx where
  "sample_tx = \<lparr>st_nonce = 0, st_gas_price = 3, st_gas = 21000, st_to = None, st_value = 5, st_data = [0, 7],
     st_sig_v = 37, st_sig_r = 11, st_sig_s = 13\<rparr>"

lemma sample_libraries: "key_api_spec zero_keys" "keccak_spec one_hash" "hash_of_bytes one_hash"
  by (simp_all add: key_api_spec_def zero_keys_def keccak_spec_def one_hash_def hash_of_bytes_def list_all_iff is_byte_def)

lemma WrongFieldInteger_total:
  assumes "0 \<le> v" "v < 2 ^ 256"
  shows "\<exists>x. WrongFieldInteger v = Inr x"
  using wf_round_trip [OF assms] by metis

lemma tx_ecdsa_assign_total:
  assumes "0 \<le> sr" "sr < 2 ^ 256" "0 \<le> ss" "ss < 2 ^ 256"
    and "length pk = 64" "list_all is_byte pk" "length msg = 32" "list_all is_byte msg"
  shows "\<exists>e. tx_ecdsa_assign (sr, ss) pk msg = Inr e"
proof -
  have halves: "length (take 32 pk) = 32" "list_all is_byte (take 32 pk)" "length (drop 32 pk) = 32" "list_all is_byte (drop 32 pk)"
    using assms(5,6) by (auto simp: list_all_iff dest: in_set_takeD in_set_dropD)
  obtain r s x y h where "WrongFieldInteger sr = Inr r" "WrongFieldInteger ss = Inr s"
    "WrongFieldInteger (from_bytes_be (take 32 pk)) = Inr x" "WrongFieldInteger (from_bytes_be (drop 32 pk)) = Inr y"
    "WrongFieldInteger (from_bytes_be msg) = Inr h"
    using WrongFieldInteger_total assms be_round_trip [OF halves(1,2)] be_round_trip [OF halves(3,4)] be_round_trip [OF assms(7,8)]
    by metis
  moreover from this [THEN WrongFieldInteger_ok] have "\<exists>e. tx_ECDSAVerifyChip (r, s) (x, y) h = Inr e"
    by (simp add: tx_ECDSAVerifyChip_def)
  ultimately show ?thesis by (simp add: tx_ecdsa_assign_def)
qed

lemma assigned_chip_ok:
  "sign_verify_assign keccak sig pk msg = Inr chip \<Longrightarrow> list_all is_byte (keccak pk) \<Longrightarrow> sign_chip_ok chip"
  by (auto simp: sign_verify_assign_def tx_ecdsa_assign_def tx_ECDSAVerifyChip_def rbind_ok Let_def sign_chip_ok_def
      SignVerifyChip_def)

lemma sample_chip:
  assumes "0 \<le> sr" "sr < 2 ^ 256" "0 \<le> ss" "ss < 2 ^ 256"
  shows "\<exists>e. sign_verify_assign one_hash (sr, ss) (replicate 64 0) (one_hash x) =
    Inr (SignVerifyChip (one_hash (replicate 64 0)) (FQ 1) (word_of 1) e)"
proof -
  have "from_bytes_be (one_hash x) = 1" "from_bytes_be (last_20 (one_hash x)) = 1" for x
    by (simp_all add: from_bytes_be_def one_hash_def last_20_def numeral_eq_Suc)
  moreover have "\<exists>e. tx_ecdsa_assign (sr, ss) (replicate 64 0) (one_hash x) = Inr e"
    by (rule tx_ecdsa_assign_total) (use assms in \<open>simp_all add: one_hash_def is_byte_def list_all_iff\<close>)
  ultimately show ?thesis by (auto simp: sign_verify_assign_def word_of_int256_Inr Let_def)
qed

lemma sample_keccak: "\<exists>T'. keccak_table_add one_hash 64 (replicate 64 0) r T = Inr T'"
proof -
  obtain v where "linear_combine_bytes (map FQ (replicate 64 0)) r True = Inr v"
    using linear_combine_total [of "replicate 64 0" r] by (auto simp: is_byte_def)
  then show ?thesis
    by (auto simp: keccak_table_add_def RLC_of_bytes_def Let_def one_hash_def word_of_bytes_def bytes_to_fq_def)
qed

lemma dummy_chip_exists: "\<exists>e. dummy_ecdsa_chip = Inr e"
proof -
  obtain r s x y h where "WrongFieldInteger (fst DUMMY_SIGNATURE) = Inr r" "WrongFieldInteger (snd DUMMY_SIGNATURE) = Inr s"
    "WrongFieldInteger (fst DUMMY_PUBLIC_KEY) = Inr x" "WrongFieldInteger (snd DUMMY_PUBLIC_KEY) = Inr y"
    "WrongFieldInteger DUMMY_MSG_HASH = Inr h"
    using WrongFieldInteger_total [of "fst DUMMY_SIGNATURE"] WrongFieldInteger_total [of "snd DUMMY_SIGNATURE"]
      WrongFieldInteger_total [of "fst DUMMY_PUBLIC_KEY"] WrongFieldInteger_total [of "snd DUMMY_PUBLIC_KEY"]
      WrongFieldInteger_total [of DUMMY_MSG_HASH]
    by (auto simp: DUMMY_SIGNATURE_def DUMMY_PUBLIC_KEY_def DUMMY_MSG_HASH_def)
  moreover from this [THEN WrongFieldInteger_ok] have "\<exists>e. tx_ECDSAVerifyChip (r, s) (x, y) h = Inr e"
    by (simp add: tx_ECDSAVerifyChip_def)
  ultimately show ?thesis by (simp add: dummy_ecdsa_chip_def)
qed

lemma tx_circuit_sound_witness:
  "\<exists>T. authorised zero_keys one_hash (FQ 3) {replicate 64 0} 1 (word_of 1) \<and> keccak_built one_hash 64 (FQ 3) {replicate 64 0} T"
proof -
  let ?pk = "replicate 64 (0::int)" and ?zero = "tx_circuit_row_of 1 TC_Nonce 0 (ValueV 0)"
  let ?rows = "replicate 3 ?zero @ [tx_circuit_row_of 1 TC_CallerAddress 0 (ValueV (FQ 1))] @ replicate 7 ?zero @
    [tx_circuit_row_of 1 TC_TxSignHash 0 (WordV (word_of 1))]"
  obtain T where T: "keccak_table_add one_hash 64 ?pk (FQ 3) new_keccak_table = Inr T" using sample_keccak by blast
  obtain e where e: "sign_verify_assign one_hash (11, 13) ?pk (one_hash []) =
      Inr (SignVerifyChip (one_hash ?pk) (FQ 1) (word_of 1) e)" (is "_ = Inr ?chip")
    using sample_chip [of 11 13 "[]"] by auto
  define W where "W = \<lparr>tw_rows = ?rows, tw_keccak_table = T, tw_sign_verifications = [?chip]\<rparr>"
  have built: "keccak_built one_hash 64 (FQ 3) {?pk} (tw_keccak_table W)"
    using built_add [OF built_new T] by (simp add: W_def)
  have "sign_verify zero_keys T (FQ 3) ?chip = Inr ()"
    by (rule assigned_chip_verifies [OF e _ _ _ _ _ sample_libraries(2) T])
      (simp_all add: list_all_iff is_byte_def one_hash_def zero_keys_def SignVerifyChip_def)
  then have run: "verify_tx_circuit zero_keys W 1 (FQ 3) = Inr ()"
    by (simp add: verify_tx_circuit_def verify_tx_index_def W_def list_at_def Let_def SignVerifyChip_def tx_circuit_row_of_def
        numeral_eq_Suc)
  have "sign_chip_ok ?chip" by (rule assigned_chip_ok [OF e]) (simp add: one_hash_def is_byte_def list_all_iff)
  then have "list_all sign_chip_ok (tw_sign_verifications W)" by (simp add: W_def)
  from tx_circuit_sound [OF run _ this sample_libraries(3) built, of 0] built show ?thesis
    by (auto simp: W_def tx_circuit_row_of_def numeral_eq_Suc)
qed

lemma tx_witness_accepted_witness:
  "\<exists>W. txs2witness zero_keys one_hash (\<lambda>_. []) [sample_tx] 1 2 3 (FQ 3) = Inr W \<and>
     verify_tx_circuit zero_keys W 2 (FQ 3) = Inr ()"
proof -
  obtain T where T: "keccak_table_add one_hash 64 (replicate 64 0) (FQ 3) new_keccak_table = Inr T" using sample_keccak by blast
  obtain e where e: "sign_verify_assign one_hash (11, 13) (replicate 64 0) (one_hash []) =
      Inr (SignVerifyChip (one_hash (replicate 64 0)) (FQ 1) (word_of 1) e)"
    using sample_chip [of 11 13 "[]"] by auto
  obtain d where d: "dummy_ecdsa_chip = Inr d" using dummy_chip_exists by blast
  have one: "from_bytes_be (one_hash x) = 1" "from_bytes_be (last_20 (one_hash x)) = 1" for x
    by (simp_all add: from_bytes_be_def one_hash_def last_20_def numeral_eq_Suc)
  let ?chip = "SignVerifyChip (one_hash (replicate 64 0)) (FQ 1) (word_of 1) e"
  let ?fixed = "tx_fixed_rows 1 sample_tx (last_20 (one_hash (replicate 64 0))) (word_of 3) (word_of 5) (word_of 1)"
  let ?s = "\<lparr>xs_keccak_table = T, xs_sign_verifications = [?chip], xs_fixed_rows = ?fixed, xs_dyn_rows = tx_data_rows 1 sample_tx\<rparr>"
  have tx: "tx2witness zero_keys one_hash (\<lambda>_. []) 0 sample_tx 1 (FQ 3) new_keccak_table =
      Inr (?fixed @ tx_data_rows 1 sample_tx, ?chip, T)"
    using T e by (simp add: tx2witness_def encode_to_def zero_keys_def sample_tx_def one word_of_int256_Inr Let_def)
  have "filter (\<lambda>row. \<not> is_call_data row) (?fixed @ tx_data_rows 1 sample_tx) = ?fixed"
    "filter is_call_data (?fixed @ tx_data_rows 1 sample_tx) = tx_data_rows 1 sample_tx"
    using tx_rows_shape(2,5) by (simp_all add: filter_empty_conv filter_id_conv list_all_iff)
  then have "append_tx zero_keys one_hash (\<lambda>_. []) 1 (FQ 3) \<lparr>xs_keccak_table = new_keccak_table, xs_sign_verifications = [],
      xs_fixed_rows = [], xs_dyn_rows = []\<rparr> (0, sample_tx) = Inr ?s"
    by (simp add: append_tx_def tx)
  moreover have "length (tx_data_rows 1 sample_tx) = 2" by (simp add: tx_data_rows_def sample_tx_def)
  ultimately have "\<exists>W. txs2witness zero_keys one_hash (\<lambda>_. []) [sample_tx] 1 2 3 (FQ 3) = Inr W \<and>
      xr_value (tw_rows W ! 3) = ValueV 1"
    by (simp add: txs2witness_def d nth_append tx_rows_shape one)
  then obtain W where W: "txs2witness zero_keys one_hash (\<lambda>_. []) [sample_tx] 1 2 3 (FQ 3) = Inr W"
    and a: "xr_value (tw_rows W ! 3) = ValueV 1"
    by blast
  have "verify_tx_circuit zero_keys W 2 (FQ 3) = Inr ()"
    by (rule tx_witness_accepted [OF W sample_libraries(1,2)]) (simp add: a)
  with W show ?thesis by blast
qed

end
