(* ===== verification/Block_Witness.thy ===== *)
theory Block_Witness
  imports Bytecode_Circuit Tx_Circuit
begin

text \<open>
  The witness of a block (\<^verbatim>\<open>evm_circuit/typing.py\<close>): the classes \<open>Block\<close>, \<open>Transaction\<close> and
  \<open>Withdrawal\<close> with the rows of the tables they assign, the assembler \<open>Bytecode\<close>, and \<open>Account\<close>.
\<close>

section \<open>Block\<close>

record block =
  bl_coinbase :: int
  bl_gas_limit :: int
  bl_number :: int
  bl_timestamp :: int
  bl_prev_randao :: int
  bl_base_fee :: int
  bl_chainid :: int
  bl_withdrawal_root :: int
  bl_history_hashes :: "int list"

definition Block :: "int \<Rightarrow> int \<Rightarrow> int \<Rightarrow> int \<Rightarrow> int \<Rightarrow> int \<Rightarrow> int \<Rightarrow> int \<Rightarrow> int list \<Rightarrow> block result" where
  "Block coinbase gas_limit number timestamp prev_randao base_fee chainid withdrawal_root history_hashes =
     rbind (assert_that (int (length history_hashes) \<le> min 256 number)) (\<lambda>_.
     Inr \<lparr>bl_coinbase = coinbase, bl_gas_limit = gas_limit, bl_number = number, bl_timestamp = timestamp,
          bl_prev_randao = prev_randao, bl_base_fee = base_fee, bl_chainid = chainid,
          bl_withdrawal_root = withdrawal_root, bl_history_hashes = history_hashes\<rparr>)"

definition default_block :: "block result" where
  "default_block = Block 0x10 15000000 0 0 0 1000000000 1 0 []"

text \<open>A column of a row is built from a number, as a value of the field or as a word.\<close>

definition as_value :: "int \<Rightarrow> word_or_value result" where
  "as_value v = Inr (ValueV (FQ v))"

definition as_word :: "int \<Rightarrow> word_or_value result" where
  "as_word w = rbind (word_of_int256 w) (\<lambda>x. Inr (WordV x))"

definition block_row_of :: "block_context_field_tag \<Rightarrow> int \<Rightarrow> word_or_value result \<Rightarrow> block_row result" where
  "block_row_of tag number column =
     rbind column (\<lambda>v. Inr \<lparr>bk_field_tag = FQ (bc_int tag), bk_block_number_or_zero = FQ number, bk_value = v\<rparr>)"

definition block_table_assignments :: "block \<Rightarrow> block_row list result" where
  "block_table_assignments b =
     rmap (\<lambda>row. row)
       ([block_row_of BC_Coinbase 0 (as_word (bl_coinbase b)),
         block_row_of BC_GasLimit 0 (as_value (bl_gas_limit b)),
         block_row_of BC_Number 0 (as_value (bl_number b)),
         block_row_of BC_Timestamp 0 (as_value (bl_timestamp b)),
         block_row_of BC_PrevRandao 0 (as_word (bl_prev_randao b)),
         block_row_of BC_BaseFee 0 (as_word (bl_base_fee b)),
         block_row_of BC_ChainId 0 (as_value (bl_chainid b)),
         block_row_of BC_WithdrawalRoot 0 (as_value (bl_withdrawal_root b))] @
        map (\<lambda>(idx, h). block_row_of BC_HistoryHash (bl_number b - int idx - 1) (as_word h))
          (zip [0..<length (bl_history_hashes b)] (rev (bl_history_hashes b))))"

section \<open>Transactions\<close>

record access_tuple =
  at_address :: int
  at_storage_keys :: "int list"

record transaction =
  tn_id :: int
  tn_nonce :: int
  tn_gas :: int
  tn_gas_price :: int
  tn_caller_address :: int
  tn_callee_address :: "int option"
  tn_value :: int
  tn_call_data :: "int list"
  tn_invalid_tx :: int
  tn_access_list :: "access_tuple list"

definition default_transaction :: transaction where
  "default_transaction =
     \<lparr>tn_id = 1, tn_nonce = 0, tn_gas = 21000, tn_gas_price = 2000000000, tn_caller_address = 0xCAFE,
      tn_callee_address = None, tn_value = 0, tn_call_data = [], tn_invalid_tx = 0, tn_access_list = []\<rparr>"

definition padding_transaction :: "int \<Rightarrow> transaction" where
  "padding_transaction ident =
     \<lparr>tn_id = ident, tn_nonce = 0, tn_gas = 0, tn_gas_price = 0, tn_caller_address = 0,
      tn_callee_address = Some 0, tn_value = 0, tn_call_data = [], tn_invalid_tx = 0, tn_access_list = []\<rparr>"

definition call_data_gas_cost :: "transaction \<Rightarrow> int" where
  "call_data_gas_cost tx =
     foldl (\<lambda>acc byte. acc + (if byte = 0 then GAS_COST_TX_CALL_DATA_PER_ZERO_BYTE
       else GAS_COST_TX_CALL_DATA_PER_NON_ZERO_BYTE)) 0 (tn_call_data tx)"

definition access_list_gas_cost :: "transaction \<Rightarrow> int" where
  "access_list_gas_cost tx =
     (\<Sum>t\<leftarrow>tn_access_list tx. GAS_COST_ACCESS_LIST_ADDRESS + int (length (at_storage_keys t)) * GAS_COST_ACCESS_LIST_STORAGE)"

definition tx_table_row :: "transaction \<Rightarrow> tx_context_field_tag \<Rightarrow> int \<Rightarrow> word_or_value result \<Rightarrow> tx_row result" where
  "tx_table_row tx tag index column =
     rbind column (\<lambda>v. Inr \<lparr>tx_tx_id = FQ (tn_id tx), tx_field_tag = FQ (tc_int tag),
       tx_call_data_index_or_zero = FQ index, tx_value = v\<rparr>)"

definition table_fixed :: "transaction \<Rightarrow> tx_row list result" where
  "table_fixed tx =
     rmap (\<lambda>row. row)
       [tx_table_row tx TC_Nonce 0 (as_value (tn_nonce tx)),
        tx_table_row tx TC_Gas 0 (as_value (tn_gas tx)),
        tx_table_row tx TC_GasPrice 0 (as_word (tn_gas_price tx)),
        tx_table_row tx TC_CallerAddress 0 (as_word (tn_caller_address tx)),
        tx_table_row tx TC_CalleeAddress 0 (as_word (case tn_callee_address tx of None \<Rightarrow> 0 | Some a \<Rightarrow> a)),
        tx_table_row tx TC_IsCreate 0 (as_value (if tn_callee_address tx = None then 1 else 0)),
        tx_table_row tx TC_Value 0 (as_word (tn_value tx)),
        tx_table_row tx TC_CallDataLength 0 (as_value (int (length (tn_call_data tx)))),
        tx_table_row tx TC_CallDataGasCost 0 (as_value (call_data_gas_cost tx)),
        tx_table_row tx TC_TxInvalid 0 (as_value (tn_invalid_tx tx)),
        tx_table_row tx TC_AccessListGasCost 0 (as_value (access_list_gas_cost tx)),
        tx_table_row tx TC_TxSignHash 0 (as_value 1234)]"

definition tx_table_assignments :: "transaction \<Rightarrow> tx_row list result" where
  "tx_table_assignments tx =
     rbind (table_fixed tx) (\<lambda>fixed.
     rbind (rmap (\<lambda>(i, byte). tx_table_row tx TC_CallData (int i) (as_value byte))
       (zip [0..<length (tn_call_data tx)] (tn_call_data tx))) (\<lambda>dyn.
     Inr (fixed @ dyn)))"

section \<open>Withdrawals\<close>

record withdrawal =
  wn_id :: int
  wn_validator_id :: int
  wn_address :: int
  wn_amount :: int

definition default_withdrawal :: withdrawal where
  "default_withdrawal = \<lparr>wn_id = 0, wn_validator_id = 0, wn_address = 0xCAFE, wn_amount = 1000000000\<rparr>"

definition padding_withdrawal :: "int \<Rightarrow> withdrawal" where
  "padding_withdrawal ident = \<lparr>wn_id = ident, wn_validator_id = 0, wn_address = 0, wn_amount = 0\<rparr>"

definition withdrawal_table_assignments :: "withdrawal \<Rightarrow> withdrawal_row list" where
  "withdrawal_table_assignments w =
     [\<lparr>wd_id = FQ (wn_id w), wd_validator_id = FQ (wn_validator_id w), wd_address = FQ (wn_address w),
       wd_amount = FQ (wn_amount w)\<rparr>]"

section \<open>The assembler\<close>

record bytecode =
  bn_code :: "int list"
  bn_is_code :: "bool list"

definition new_bytecode :: "int list option \<Rightarrow> bool list option \<Rightarrow> bytecode" where
  "new_bytecode code is_code =
     (let c = (case code of None \<Rightarrow> [] | Some bs \<Rightarrow> bs) in
      \<lparr>bn_code = c, bn_is_code = (case is_code of None \<Rightarrow> init_is_code c | Some f \<Rightarrow> f)\<rparr>)"

text \<open>
  The values that \<open>push\<close> takes, by their Python type; a string is given by the bytes that
  \<open>bytes.fromhex\<close> reads from it, \<open>None\<close> when it raises.
\<close>

datatype push_value =
    PushInt int
  | PushHex "int list option"
  | PushRLC rlc
  | PushWord word256
  | PushBytes "int list"
  | PushOther

fun push_bytes :: "push_value \<Rightarrow> nat \<Rightarrow> int list result" where
  "push_bytes (PushInt v) n_bytes = rbind (to_bytes_le v n_bytes) (\<lambda>bs. Inr (rev bs))"
| "push_bytes (PushHex h) n_bytes = (case h of None \<Rightarrow> Inl ValueError | Some bs \<Rightarrow> Inr bs)"
| "push_bytes (PushRLC r) n_bytes = Inr (rev (rlc_le_bytes r))"
| "push_bytes (PushWord w) n_bytes = rbind (to_bytes_le (int_value w) n_bytes) (\<lambda>bs. Inr (rev bs))"
| "push_bytes (PushBytes bs) n_bytes = Inr bs"
| "push_bytes PushOther n_bytes = Inl NotImplementedError"

text \<open>Appending a number above 255 to a bytearray raises a ValueError.\<close>

definition push_onto :: "bytecode \<Rightarrow> push_value \<Rightarrow> nat \<Rightarrow> bytecode result" where
  "push_onto b v n_bytes =
     rbind (push_bytes v n_bytes) (\<lambda>bs.
     rbind (assert_that (length bs \<le> n_bytes)) (\<lambda>_.
     rbind (if Opcode_PUSH0 + int n_bytes < 256 then Inr () else Inl ValueError) (\<lambda>_.
     Inr \<lparr>bn_code = bn_code b @ [Opcode_PUSH0 + int n_bytes] @ replicate (n_bytes - length bs) 0 @ bs,
          bn_is_code = bn_is_code b @ [True] @ replicate n_bytes False\<rparr>)))"

definition append_opcode :: "bytecode \<Rightarrow> opcode \<Rightarrow> bytecode" where
  "append_opcode b opc = b\<lparr>bn_code := bn_code b @ [opc], bn_is_code := bn_is_code b @ [True]\<rparr>"

text \<open>The method of an opcode's name: \<open>None\<close> stands for a name that no opcode has.\<close>

definition bytecode_method :: "bytecode \<Rightarrow> opcode option \<times> push_value list \<Rightarrow> bytecode result" where
  "bytecode_method b call =
     (case call of
        (None, args) \<Rightarrow> Inl ValueError
      | (Some opc, args) \<Rightarrow>
          if is_push_with_data opc
          then rbind (assert_that (length args = 1)) (\<lambda>_. push_onto b (hd args) (nat (opc - Opcode_PUSH0)))
          else if is_dup opc \<or> is_swap opc
          then rbind (assert_that (args = [])) (\<lambda>_. Inr (append_opcode b opc))
          else rbind (max_stack_pointer opc) (\<lambda>m.
            rbind (assert_that (int (length args) \<le> 1024 - m)) (\<lambda>_.
            rbind (rfold (\<lambda>c arg. push_onto c arg 32) b (rev args)) (\<lambda>c.
            Inr (append_opcode c opc)))))"

section \<open>Accounts\<close>

record account =
  an_address :: int
  an_nonce :: int
  an_balance :: int
  an_code :: bytecode
  an_storage :: "int \<rightharpoonup> int"

definition default_account :: account where
  "default_account =
     \<lparr>an_address = 0, an_nonce = 0, an_balance = 0, an_code = new_bytecode None None, an_storage = Map.empty\<rparr>"

definition account_code_hash :: "hash_fun \<Rightarrow> account \<Rightarrow> int" where
  "account_code_hash keccak256 a = bytecode_hash keccak256 (bn_code (an_code a))"

definition storage_trie_hash :: "account \<Rightarrow> int result" where
  "storage_trie_hash a = Inl NotImplementedError"

definition account_is_empty :: "hash_fun \<Rightarrow> account \<Rightarrow> bool" where
  "account_is_empty keccak256 a \<longleftrightarrow>
     an_nonce a = 0 \<and> an_balance a = 0 \<and> account_code_hash keccak256 a = EMPTY_CODE_HASH keccak256"

section \<open>The assembler keeps code and data apart\<close>

definition well_assembled :: "bytecode \<Rightarrow> bool" where
  "well_assembled b \<longleftrightarrow> bn_is_code b = init_is_code (bn_code b) \<and> push_left (bn_code b) = 0"

lemma init_is_code_from_append:
  "init_is_code_from left (xs @ ys) =
     init_is_code_from left xs @ init_is_code_from (foldl (\<lambda>l b. if l = 0 then get_push_size b else l - 1) left xs) ys"
  by (induction xs arbitrary: left) simp_all

lemma init_is_code_append:
  "push_left xs = 0 \<Longrightarrow> init_is_code (xs @ ys) = init_is_code xs @ init_is_code ys"
  by (simp add: init_is_code_def init_is_code_from_append push_left_def)

lemma push_left_append: "push_left xs = 0 \<Longrightarrow> push_left (xs @ ys) = push_left ys"
  by (simp add: push_left_def)

lemma push_data_is_data:
  "init_is_code_from (int (length data)) data = replicate (length data) False \<and>
     foldl (\<lambda>l b. if l = 0 then get_push_size b else l - 1) (int (length data)) data = 0"
  by (induction data) simp_all

lemma append_opcode_well:
  "well_assembled b \<Longrightarrow> get_push_size opc = 0 \<Longrightarrow> well_assembled (append_opcode b opc)"
  by (simp add: well_assembled_def append_opcode_def init_is_code_append push_left_append)
    (simp add: init_is_code_def push_left_def)

lemma push_onto_well:
  assumes "push_onto b v n = Inr c" "n \<le> 32" "well_assembled b"
  shows "well_assembled c"
proof -
  obtain bs where bs: "length bs \<le> n" "bn_code c = bn_code b @ (Opcode_PUSH0 + int n) # replicate (n - length bs) 0 @ bs"
    "bn_is_code c = bn_is_code b @ True # replicate n False"
    using assms(1) by (auto simp: push_onto_def rbind_ok assert_that_ok split: if_splits)
  let ?data = "replicate (n - length bs) 0 @ bs"
  have size: "get_push_size (Opcode_PUSH0 + int n) = int (length ?data)"
    using bs(1) assms(2) by (simp add: get_push_size_def)
  have "init_is_code ((Opcode_PUSH0 + int n) # ?data) = True # replicate n False"
    "push_left ((Opcode_PUSH0 + int n) # ?data) = 0"
    using push_data_is_data [of ?data] bs(1) by (simp_all add: init_is_code_def push_left_def size)
  with bs(2,3) assms(3) show ?thesis
    by (simp add: well_assembled_def init_is_code_append push_left_append)
qed

lemma bytecode_method_well:
  assumes "bytecode_method b call = Inr c" "well_assembled b"
  shows "well_assembled c"
proof -
  obtain opc args where call: "call = (Some opc, args)"
    using assms(1) by (cases call; cases "fst call") (auto simp: bytecode_method_def)
  show ?thesis
  proof (cases "is_push_with_data opc")
    case True
    then have "nat (opc - Opcode_PUSH0) \<le> 32" by (simp add: is_push_with_data_def nat_le_iff)
    then show ?thesis
      using assms True push_onto_well by (auto simp: bytecode_method_def call rbind_ok assert_that_ok)
  next
    case False
    then have size: "get_push_size opc = 0" by (simp add: is_push_with_data_def get_push_size_def)
    have args: "well_assembled d" if "rfold (\<lambda>c arg. push_onto c arg 32) b xs = Inr d" for xs d
      using that assms(2) by (rule rfold_invariant) (auto intro: push_onto_well)
    show ?thesis
      using assms False args append_opcode_well [OF _ size]
      by (auto simp: bytecode_method_def call rbind_ok assert_that_ok split: if_splits)
  qed
qed

text \<open>
  The calls by which a test assembles a code: a method of an opcode's name, or \<open>push\<close> itself with a
  number of bytes. \<open>push\<close> does not ask that this number is one of an opcode with data.
\<close>

datatype assembler_call =
    NamedCall "opcode option" "push_value list"
  | PushCall push_value nat

fun assemble :: "bytecode \<Rightarrow> assembler_call \<Rightarrow> bytecode result" where
  "assemble b (NamedCall name args) = bytecode_method b (name, args)"
| "assemble b (PushCall v n_bytes) = push_onto b v n_bytes"

fun at_most_32_bytes :: "assembler_call \<Rightarrow> bool" where
  "at_most_32_bytes (NamedCall name args) \<longleftrightarrow> True"
| "at_most_32_bytes (PushCall v n_bytes) \<longleftrightarrow> n_bytes \<le> 32"

lemma assemble_well:
  "assemble b call = Inr c \<Longrightarrow> at_most_32_bytes call \<Longrightarrow> well_assembled b \<Longrightarrow> well_assembled c"
  by (cases call) (auto intro: bytecode_method_well push_onto_well)

lemma assembled_well:
  "rfold assemble b calls = Inr c \<Longrightarrow> list_all at_most_32_bytes calls \<Longrightarrow> well_assembled b \<Longrightarrow> well_assembled c"
  by (induction calls arbitrary: b) (auto simp: rbind_ok intro: assemble_well)

lemma push_onto_wide:
  assumes "push_onto b v n = Inr c" "32 < n" "well_assembled b"
  shows "bn_is_code c \<noteq> init_is_code (bn_code c)"
proof
  assume same: "bn_is_code c = init_is_code (bn_code c)"
  obtain bs where bs: "length bs \<le> n" "bn_code c = bn_code b @ (Opcode_PUSH0 + int n) # replicate (n - length bs) 0 @ bs"
    "bn_is_code c = bn_is_code b @ True # replicate n False"
    using assms(1) by (auto simp: push_onto_def rbind_ok assert_that_ok split: if_splits)
  obtain d ds where data: "replicate (n - length bs) 0 @ bs = d # ds"
    using bs(1) assms(2) by (cases "replicate (n - length bs) 0 @ bs") auto
  have "get_push_size (Opcode_PUSH0 + int n) = 0" using assms(2) by (simp add: get_push_size_def)
  then have "init_is_code ((Opcode_PUSH0 + int n) # d # ds) ! 1" by (simp add: init_is_code_def)
  moreover have "init_is_code ((Opcode_PUSH0 + int n) # d # ds) = True # replicate n False"
    using same assms(3) unfolding bs(2,3) data by (simp add: well_assembled_def init_is_code_append)
  ultimately show False using assms(2) by simp
qed

text \<open>
  C35: The assembler keeps code and data apart as long as no push asks for more than 32
  bytes: after any calls of the methods named by opcodes and of push with at most 32 bytes
  on an empty Bytecode, its flags are those that the analysis of push data computes from its
  bytes; and a push that succeeds after them keeps this exactly when it asks for at most 32
  bytes.
\<close>

theorem assembled_code_and_data:
  assumes "rfold assemble (new_bytecode None None) calls = Inr b" "list_all at_most_32_bytes calls"
  shows "bn_is_code b = init_is_code (bn_code b) \<and>
    (\<forall>v n c. push_onto b v n = Inr c \<longrightarrow> (bn_is_code c = init_is_code (bn_code c) \<longleftrightarrow> n \<le> 32))"
proof -
  have "well_assembled (new_bytecode None None)"
    by (simp add: well_assembled_def new_bytecode_def init_is_code_def push_left_def)
  with assms have well: "well_assembled b" by (rule assembled_well)
  have "bn_is_code c = init_is_code (bn_code c) \<longleftrightarrow> n \<le> 32" if "push_onto b v n = Inr c" for v n c
    using push_onto_well [OF that _ well] push_onto_wide [OF that _ well] by (cases "n \<le> 32") (auto simp: well_assembled_def)
  with well show ?thesis by (auto simp: well_assembled_def)
qed

text \<open>
  \<open>Bytecode().push1(0x5b).push(7, 2).add(1, 2)\<close>: data that looks like a jump destination is flagged as
  data. A push of 33 bytes after it breaks the flags.
\<close>

lemma assembled_code_and_data_witness:
  "\<exists>b c. rfold assemble (new_bytecode None None)
      [NamedCall (Some Opcode_PUSH1) [PushBytes [0x5b]], PushCall (PushInt 7) 2,
       NamedCall (Some Opcode_ADD) [PushInt 1, PushInt 2]] = Inr b \<and>
    bn_is_code b = init_is_code (bn_code b) \<and> take 6 (bn_is_code b) = [True, False, True, False, False, True] \<and>
    length (bn_code b) = 72 \<and> push_onto b (PushInt 0) 33 = Inr c \<and> bn_is_code c \<noteq> init_is_code (bn_code c)"
proof -
  let ?calls = "[NamedCall (Some Opcode_PUSH1) [PushBytes [0x5b]], PushCall (PushInt 7) 2,
       NamedCall (Some Opcode_ADD) [PushInt 1, PushInt 2]]"
  obtain b where b: "rfold assemble (new_bytecode None None) ?calls = Inr b"
    "take 6 (bn_is_code b) = [True, False, True, False, False, True]" "length (bn_code b) = 72"
    by (simp add: bytecode_method_def push_onto_def append_opcode_def new_bytecode_def init_is_code_def
        is_push_with_data_def is_dup_def is_swap_def max_stack_pointer_def opcode_info_of_def OPCODE_INFO_MAP_def
        OpcodeInfo_def to_bytes_le_def numeral_eq_Suc)
  obtain c where c: "push_onto b (PushInt 0) 33 = Inr c"
    by (simp add: push_onto_def to_bytes_le_def)
  have "list_all at_most_32_bytes ?calls" by simp
  from assembled_code_and_data [OF b(1) this] c have "bn_is_code b = init_is_code (bn_code b)"
    "\<not> bn_is_code c = init_is_code (bn_code c)" by auto
  with b c show ?thesis by blast
qed

end
