(* ===== verification/Withdrawal_Circuit.thy ===== *)
theory Withdrawal_Circuit
  imports Tx_Circuit_Facts Block_Witness Row_Facts
begin

text \<open>
  The withdrawal circuit (\<^verbatim>\<open>src/zkevm_specs/withdrawal_circuit.py\<close>): one row per withdrawal, chained
  through the roots of a Merkle-Patricia trie, from the empty root to the root in the block header.
\<close>

section \<open>Rows and tables\<close>

record withdrawal_circuit_row =
  wr_withdrawal_id :: fq
  wr_validator_id :: fq
  wr_address :: fq
  wr_amount :: fq
  wr_hash :: word256
  wr_root :: word256

text \<open>
  The comparison of a row of the trie table with a query, column by column: all the columns are given.
\<close>

definition withdrawal_mpt_lookup ::
  "mpt_row set \<Rightarrow> fq \<Rightarrow> fq \<Rightarrow> word256 \<Rightarrow> word256 \<Rightarrow> word256 \<Rightarrow> word256 \<Rightarrow> word256 \<Rightarrow> mpt_row result" where
  "withdrawal_mpt_lookup T address proof_type storage_key v v_prev root root_prev =
     lookup (\<lambda>r. mp_address r = address \<and> mp_proof_type r = proof_type \<and> mp_storage_key r = storage_key \<and>
       mp_value r = v \<and> mp_value_prev r = v_prev \<and> mp_root r = root \<and> mp_root_prev r = root_prev) T"

definition block_value_lookup :: "block_row set \<Rightarrow> fq \<Rightarrow> word256 \<Rightarrow> block_row result" where
  "block_value_lookup T field_tag v =
     lookup (\<lambda>r. bk_field_tag r = field_tag \<and> wov_word (bk_value r) = v) T"

record withdrawal_witness =
  ww_rows :: "withdrawal_circuit_row list"
  ww_mpt_table :: "mpt_row set"
  ww_keccak_table :: keccak_rows
  ww_block_table :: "block_row set"

section \<open>The circuit\<close>

definition encoded_withdrawal :: "(rlp_item list \<Rightarrow> int list) \<Rightarrow> withdrawal_circuit_row \<Rightarrow> int list" where
  "encoded_withdrawal rlp row =
     rlp [RlpInt (fq_n (wr_withdrawal_id row)), RlpInt (fq_n (wr_validator_id row)), RlpInt (fq_n (wr_address row)),
       RlpInt (fq_n (wr_amount row))]"

text \<open>The checks of one row, whose trie update starts at \<open>root_prev\<close>; the result is its own root.\<close>

definition verify_withdrawal ::
  "(rlp_item list \<Rightarrow> int list) \<Rightarrow> withdrawal_witness \<Rightarrow> nat \<Rightarrow> fq \<Rightarrow> word256 \<Rightarrow> nat \<Rightarrow> word256 result" where
  "verify_withdrawal rlp W MAX_WITHDRAWALS randomness root_prev row_index =
     rbind (list_at (ww_rows W) row_index) (\<lambda>row.
     let is_not_padding = FQ (if wr_amount row \<noteq> FQ 0 then 1 else 0) in
     rbind (if row_index \<noteq> MAX_WITHDRAWALS - 1
            then rbind (list_at (ww_rows W) (row_index + 1)) (\<lambda>next_row.
              assert_that (wr_withdrawal_id next_row = wr_withdrawal_id row + 1))
            else Inr ()) (\<lambda>_.
     let encoded = encoded_withdrawal rlp row in
     rbind (RLC_of_bytes (rev encoded) randomness (length encoded)) (\<lambda>r.
     rbind (word_select (wr_hash row) is_not_padding) (\<lambda>hash_or_zero.
     rbind (keccak_table_lookup (ww_keccak_table W) is_not_padding (is_not_padding * rlc_value r)
        (is_not_padding * FQ (int (length encoded))) hash_or_zero) (\<lambda>_.
     rbind (word_of_int256 (fq_n (wr_withdrawal_id row))) (\<lambda>key.
     rbind (withdrawal_mpt_lookup (ww_mpt_table W) (wr_address row)
        (is_not_padding * FQ (mpt_int MPT_WithdrawalMod) + (1 - is_not_padding) * FQ (mpt_int MPT_NonExistingAccountProof))
        key (wr_hash row) (word_of 0) (wr_root row) root_prev) (\<lambda>_.
     Inr (wr_root row))))))))"

definition verify_withdrawal_circuit ::
  "(rlp_item list \<Rightarrow> int list) \<Rightarrow> withdrawal_witness \<Rightarrow> nat \<Rightarrow> fq \<Rightarrow> unit result" where
  "verify_withdrawal_circuit rlp W MAX_WITHDRAWALS keccak_randomness =
     rbind (rfold (verify_withdrawal rlp W MAX_WITHDRAWALS keccak_randomness) (word_of 0) [0..<MAX_WITHDRAWALS]) (\<lambda>_.
     rbind (if MAX_WITHDRAWALS = 0 then list_at (rev (ww_rows W)) 0 else list_at (ww_rows W) (MAX_WITHDRAWALS - 1)) (\<lambda>final.
     rbind (block_value_lookup (ww_block_table W) (FQ (bc_int BC_WithdrawalRoot)) (wr_root final)) (\<lambda>_.
     Inr ())))"


section \<open>The Keccak table of the circuit\<close>

text \<open>\<open>add\<close> takes the length of the input for the number of bytes of the combination.\<close>

definition withdrawal_keccak_add :: "hash_fun \<Rightarrow> int list \<Rightarrow> fq \<Rightarrow> keccak_rows \<Rightarrow> keccak_rows result" where
  "withdrawal_keccak_add keccak input randomness T = keccak_table_add keccak (length input) input randomness T"

section \<open>The chain of roots\<close>

lemma rfold_upto:
  "rfold f s [0..<n] = Inr t \<Longrightarrow> \<exists>g. g 0 = s \<and> g n = t \<and> (\<forall>i<n. f (g i) i = Inr (g (Suc i)))"
proof (induction n arbitrary: t)
  case (Suc n)
  then obtain u where u: "rfold f s [0..<n] = Inr u" "f u n = Inr t"
    by (auto simp: rfold_append rbind_ok)
  then obtain g where "g 0 = s" "g n = u" "\<forall>i<n. f (g i) i = Inr (g (Suc i))" using Suc.IH by blast
  with u(2) show ?case by (intro exI [of _ "g(Suc n := t)"]) (auto simp: less_Suc_eq)
qed (auto intro: exI [of _ "\<lambda>_. s"])

text \<open>What one row of an accepted circuit says, its trie update starting at \<open>root_prev\<close>.\<close>

definition withdrawal_update :: "withdrawal_witness \<Rightarrow> withdrawal_circuit_row \<Rightarrow> word256 \<Rightarrow> bool" where
  "withdrawal_update W row root_prev \<longleftrightarrow>
     (\<exists>key. word_of_int256 (fq_n (wr_withdrawal_id row)) = Inr key \<and>
       \<lparr>mp_address = wr_address row,
        mp_proof_type = FQ (mpt_int (if wr_amount row = 0 then MPT_NonExistingAccountProof else MPT_WithdrawalMod)),
        mp_storage_key = key, mp_root = wr_root row, mp_root_prev = root_prev,
        mp_value = wr_hash row, mp_value_prev = word_of 0\<rparr> \<in> ww_mpt_table W)"

definition withdrawal_hashed :: "(rlp_item list \<Rightarrow> int list) \<Rightarrow> withdrawal_witness \<Rightarrow> fq \<Rightarrow> withdrawal_circuit_row \<Rightarrow> bool" where
  "withdrawal_hashed rlp W r row \<longleftrightarrow>
     (let encoded = encoded_withdrawal rlp row in
      \<exists>v. RLC_of_bytes (rev encoded) r (length encoded) = Inr v \<and>
        (1, rlc_value v, FQ (int (length encoded)), wr_hash row) \<in> ww_keccak_table W)"

lemma verify_withdrawal_ok:
  assumes "verify_withdrawal rlp W n r root_prev i = Inr root"
  shows "i < length (ww_rows W)" "root = wr_root (ww_rows W ! i)"
    and "Suc i < n \<Longrightarrow> Suc i < length (ww_rows W) \<and>
      wr_withdrawal_id (ww_rows W ! Suc i) = wr_withdrawal_id (ww_rows W ! i) + 1"
    and "withdrawal_update W (ww_rows W ! i) root_prev"
    and "wr_amount (ww_rows W ! i) \<noteq> 0 \<Longrightarrow> withdrawal_hashed rlp W r (ww_rows W ! i)"
proof -
  define row where "row = ww_rows W ! i"
  define np where "np = FQ (if wr_amount row \<noteq> FQ 0 then 1 else 0)"
  obtain v h key m where i: "i < length (ww_rows W)" and root: "root = wr_root row"
    and succ: "i \<noteq> n - 1 \<Longrightarrow> Suc i < length (ww_rows W) \<and> wr_withdrawal_id (ww_rows W ! Suc i) = wr_withdrawal_id row + 1"
    and v: "RLC_of_bytes (rev (encoded_withdrawal rlp row)) r (length (encoded_withdrawal rlp row)) = Inr v"
    and h: "word_select (wr_hash row) np = Inr h"
    and k: "(np, np * rlc_value v, np * FQ (int (length (encoded_withdrawal rlp row))), h) \<in> ww_keccak_table W"
    and key: "word_of_int256 (fq_n (wr_withdrawal_id row)) = Inr key"
    and m: "withdrawal_mpt_lookup (ww_mpt_table W) (wr_address row)
        (np * FQ (mpt_int MPT_WithdrawalMod) + (1 - np) * FQ (mpt_int MPT_NonExistingAccountProof))
        key (wr_hash row) (word_of 0) (wr_root row) root_prev = Inr m"
    using assms unfolding verify_withdrawal_def Let_def
    by (auto simp: row_def np_def list_at_def ok_simps split: if_splits)
  show "i < length (ww_rows W)" "root = wr_root (ww_rows W ! i)" using i root by (simp_all add: row_def)
  show "Suc i < n \<Longrightarrow> Suc i < length (ww_rows W) \<and> wr_withdrawal_id (ww_rows W ! Suc i) = wr_withdrawal_id (ww_rows W ! i) + 1"
    using succ by (simp add: row_def)
  have np: "np = (if wr_amount row = 0 then 0 else 1)" by (simp add: np_def)
  have "m \<in> ww_mpt_table W \<and> mp_address m = wr_address row \<and>
      mp_proof_type m = FQ (mpt_int (if wr_amount row = 0 then MPT_NonExistingAccountProof else MPT_WithdrawalMod)) \<and>
      mp_storage_key m = key \<and> mp_value m = wr_hash row \<and> mp_value_prev m = word_of 0 \<and>
      mp_root m = wr_root row \<and> mp_root_prev m = root_prev"
    using any_table.look_member [OF m [unfolded withdrawal_mpt_lookup_def]] by (auto simp: np split: if_splits)
  with key show "withdrawal_update W (ww_rows W ! i) root_prev"
    by (cases m) (auto simp: withdrawal_update_def row_def)
  show "withdrawal_hashed rlp W r (ww_rows W ! i)" if "wr_amount (ww_rows W ! i) \<noteq> 0"
    using v h k that by (auto simp: withdrawal_hashed_def Let_def np row_def select_1)
qed

section \<open>Soundness\<close>

text \<open>
  C33: In an accepted withdrawal circuit every row is an update of the trie that starts at
  the root of the row before it (the empty root for the first) and ends at its own, with its
  address, its number and its hash; a row with an amount has its encoding hashed in the
  Keccak table; the numbers count up; and the last root is that of the block.
\<close>

theorem withdrawal_circuit_sound:
  assumes "verify_withdrawal_circuit rlp W n r = Inr ()" "i < n"
  shows "withdrawal_update W (ww_rows W ! i) (if i = 0 then word_of 0 else wr_root (ww_rows W ! (i - 1))) \<and>
    (wr_amount (ww_rows W ! i) \<noteq> 0 \<longrightarrow> withdrawal_hashed rlp W r (ww_rows W ! i)) \<and>
    wr_withdrawal_id (ww_rows W ! i) = wr_withdrawal_id (ww_rows W ! 0) + FQ (int i) \<and>
    (\<exists>b\<in>ww_block_table W. bk_field_tag b = FQ (bc_int BC_WithdrawalRoot) \<and>
      wov_word (bk_value b) = wr_root (ww_rows W ! (n - 1)))"
proof -
  obtain t b where run: "rfold (verify_withdrawal rlp W n r) (word_of 0) [0..<n] = Inr t"
    and b: "block_value_lookup (ww_block_table W) (FQ (bc_int BC_WithdrawalRoot)) (wr_root (ww_rows W ! (n - 1))) = Inr b"
    using assms by (auto simp: verify_withdrawal_circuit_def list_at_def ok_simps split: if_splits)
  obtain g where g: "g 0 = word_of 0" "\<And>j. j < n \<Longrightarrow> verify_withdrawal rlp W n r (g j) j = Inr (g (Suc j))"
    using rfold_upto [OF run] by blast
  have prev: "g i = (if i = 0 then word_of 0 else wr_root (ww_rows W ! (i - 1)))"
    using g(1) verify_withdrawal_ok(2) [OF g(2) [of "i - 1"]] assms(2) by (cases i) auto
  have "wr_withdrawal_id (ww_rows W ! j) = wr_withdrawal_id (ww_rows W ! 0) + FQ (int j)" if "j < n" for j
    using that
  proof (induction j)
    case (Suc j)
    then show ?case using verify_withdrawal_ok(3) [OF g(2) [of j]] by (simp add: FQ_arith algebra_simps)
  qed simp
  moreover have "b \<in> ww_block_table W \<and> bk_field_tag b = FQ (bc_int BC_WithdrawalRoot) \<and>
      wov_word (bk_value b) = wr_root (ww_rows W ! (n - 1))"
    using any_table.look_member [OF b [unfolded block_value_lookup_def]] by blast
  ultimately show ?thesis
    using verify_withdrawal_ok(4,5) [OF g(2) [OF assms(2)]] assms(2) unfolding prev by blast
qed

section \<open>The root in the block table\<close>

text \<open>
  The row of the withdrawal root in the block table of \<open>Block.table_assignments\<close> holds a field
  element, not a word, so that its high half is zero.
\<close>

lemma assigned_withdrawal_root:
  assumes "block_table_assignments b = Inr rows" "row \<in> set rows" "bk_field_tag row = FQ (bc_int BC_WithdrawalRoot)"
  shows "row = \<lparr>bk_field_tag = FQ (bc_int BC_WithdrawalRoot), bk_block_number_or_zero = FQ 0,
    bk_value = ValueV (FQ (bl_withdrawal_root b))\<rparr>"
proof -
  have rmap: "rmap (\<lambda>row. row) xs = Inr ys \<Longrightarrow> xs = map Inr ys" for xs :: "'a result list" and ys
    by (induction xs arbitrary: ys) (auto simp: rbind_ok)
  from rmap [OF assms(1) [unfolded block_table_assignments_def]] assms(2)
  have "Inr row \<in> set ([block_row_of BC_Coinbase 0 (as_word (bl_coinbase b)),
         block_row_of BC_GasLimit 0 (as_value (bl_gas_limit b)),
         block_row_of BC_Number 0 (as_value (bl_number b)),
         block_row_of BC_Timestamp 0 (as_value (bl_timestamp b)),
         block_row_of BC_PrevRandao 0 (as_word (bl_prev_randao b)),
         block_row_of BC_BaseFee 0 (as_word (bl_base_fee b)),
         block_row_of BC_ChainId 0 (as_value (bl_chainid b)),
         block_row_of BC_WithdrawalRoot 0 (as_value (bl_withdrawal_root b))] @
        map (\<lambda>(idx, h). block_row_of BC_HistoryHash (bl_number b - int idx - 1) (as_word h))
          (zip [0..<length (bl_history_hashes b)] (rev (bl_history_hashes b))))"
    by simp
  with assms(3) show ?thesis
    by (auto simp: block_row_of_def as_word_def as_value_def rbind_ok FQ_small_inject dest!: sym [of "Inr row"])
qed

text \<open>
  C34: Over the block table that Block.table_assignments makes, the withdrawal circuit
  accepts one final root only: the field element of the withdrawal root of the block with
  the high half zero, since the row of the root holds a field element and not a word.
\<close>

theorem withdrawal_root_hidden:
  assumes "block_table_assignments b = Inr rows" "ww_block_table W = set rows"
    and "verify_withdrawal_circuit rlp W (Suc n) r = Inr ()"
  shows "wr_root (ww_rows W ! n) = WordLH (FQ (bl_withdrawal_root b)) 0"
proof -
  obtain x where x: "block_value_lookup (set rows) (FQ (bc_int BC_WithdrawalRoot)) (wr_root (ww_rows W ! n)) = Inr x"
    using assms(2,3) by (auto simp: verify_withdrawal_circuit_def list_at_def ok_simps split: if_splits)
  then have "x \<in> set rows" "bk_field_tag x = FQ (bc_int BC_WithdrawalRoot)" "wov_word (bk_value x) = wr_root (ww_rows W ! n)"
    using any_table.look_member [OF x [unfolded block_value_lookup_def]] by auto
  with assigned_withdrawal_root [OF assms(1)] show ?thesis by fastforce
qed

section \<open>A block with one withdrawal\<close>

definition sample_withdrawal_row :: withdrawal_circuit_row where
  "sample_withdrawal_row = \<lparr>wr_withdrawal_id = FQ 4, wr_validator_id = FQ 1, wr_address = FQ 2, wr_amount = FQ 7,
     wr_hash = word_of 9, wr_root = word_of 5\<rparr>"

definition sample_withdrawals :: "block_row set \<Rightarrow> withdrawal_witness" where
  "sample_withdrawals B =
     \<lparr>ww_rows = [sample_withdrawal_row],
      ww_mpt_table = {\<lparr>mp_address = FQ 2, mp_proof_type = FQ (mpt_int MPT_WithdrawalMod), mp_storage_key = word_of 4,
        mp_root = word_of 5, mp_root_prev = word_of 0, mp_value = word_of 9, mp_value_prev = word_of 0\<rparr>},
      ww_keccak_table = {(1, FQ 3, 1, word_of 9)}, ww_block_table = B\<rparr>"

definition sample_block :: block where
  "sample_block = \<lparr>bl_coinbase = 16, bl_gas_limit = 15000000, bl_number = 0, bl_timestamp = 0, bl_prev_randao = 0,
     bl_base_fee = 1000000000, bl_chainid = 1, bl_withdrawal_root = 5, bl_history_hashes = []\<rparr>"

lemma sample_block_table:
  obtains rows where "block_table_assignments sample_block = Inr rows"
    "\<lparr>bk_field_tag = FQ (bc_int BC_WithdrawalRoot), bk_block_number_or_zero = 0, bk_value = ValueV (FQ 5)\<rparr> \<in> set rows"
proof -
  have w: "word_of_int256 16 = Inr (word_of 16)" "word_of_int256 0 = Inr (word_of 0)"
    "word_of_int256 1000000000 = Inr (word_of 1000000000)"
    by (simp_all add: word_of_int256_Inr)
  show ?thesis
    using that by (simp add: block_table_assignments_def sample_block_def block_row_of_def as_word_def as_value_def w)
qed

lemma sample_withdrawal_accepted:
  assumes "block_table_assignments sample_block = Inr rows"
    "\<lparr>bk_field_tag = FQ (bc_int BC_WithdrawalRoot), bk_block_number_or_zero = 0, bk_value = ValueV (FQ 5)\<rparr> \<in> set rows"
  shows "verify_withdrawal_circuit (\<lambda>_. [3]) (sample_withdrawals (set rows)) (Suc 0) (FQ 3) = Inr ()"
proof -
  let ?root = "\<lparr>bk_field_tag = FQ (bc_int BC_WithdrawalRoot), bk_block_number_or_zero = 0, bk_value = ValueV (FQ 5)\<rparr>"
  have w: "word_of_int256 4 = Inr (word_of 4)" "word_of 5 = WordLH (FQ 5) 0" "word_ok (word_of 9)"
    by (simp_all add: word_of_int256_Inr word_of_def word_ok_def fq_modulus_def)
  have m: "(3::int) mod fq_modulus = 3" "(4::int) mod fq_modulus = 4" by (simp_all add: fq_modulus_def)
  have sel: "word_select (word_of 9) 1 = Inr (word_of 9)" using w(3) by (simp add: select_1)
  have mpt: "withdrawal_mpt_lookup {\<lparr>mp_address = a, mp_proof_type = p, mp_storage_key = k, mp_root = t, mp_root_prev = u,
      mp_value = v, mp_value_prev = z\<rparr>} a p k v z t u = Inr \<lparr>mp_address = a, mp_proof_type = p, mp_storage_key = k, mp_root = t,
      mp_root_prev = u, mp_value = v, mp_value_prev = z\<rparr>" for a p k v z t u
    by (simp add: withdrawal_mpt_lookup_def any_table.look_iff)
  have row: "verify_withdrawal (\<lambda>_. [3]) (sample_withdrawals (set rows)) (Suc 0) (FQ 3) (word_of 0) 0 = Inr (word_of 5)"
    by (simp add: verify_withdrawal_def sample_withdrawals_def sample_withdrawal_row_def list_at_def encoded_withdrawal_def
        RLC_of_bytes_def keccak_table_lookup_def mpt w(1) m sel Let_def)
  have "lookup (\<lambda>r. bk_field_tag r = FQ (bc_int BC_WithdrawalRoot) \<and> wov_word (bk_value r) = word_of 5) (set rows) = Inr ?root"
  proof -
    have only: "x = ?root" if "x \<in> set rows" "bk_field_tag x = FQ (bc_int BC_WithdrawalRoot)" for x
      using assigned_withdrawal_root [OF assms(1) that] by (simp add: sample_block_def)
    have root: "bk_field_tag ?root = FQ (bc_int BC_WithdrawalRoot)" "wov_word (bk_value ?root) = word_of 5"
      unfolding w(2) by simp_all
    show ?thesis
      unfolding any_table.look_iff using assms(2) root only by blast
  qed
  then show ?thesis
    by (simp add: verify_withdrawal_circuit_def row block_value_lookup_def)
      (simp add: sample_withdrawals_def sample_withdrawal_row_def list_at_def)
qed

lemma withdrawal_circuit_sound_witness:
  "\<exists>W. verify_withdrawal_circuit (\<lambda>_. [3]) W (Suc 0) (FQ 3) = Inr () \<and>
     withdrawal_update W sample_withdrawal_row (word_of 0) \<and> withdrawal_hashed (\<lambda>_. [3]) W (FQ 3) sample_withdrawal_row"
proof -
  obtain rows where r: "block_table_assignments sample_block = Inr rows"
    "\<lparr>bk_field_tag = FQ (bc_int BC_WithdrawalRoot), bk_block_number_or_zero = 0, bk_value = ValueV (FQ 5)\<rparr> \<in> set rows"
    by (rule sample_block_table)
  note run = sample_withdrawal_accepted [OF r]
  have "wr_amount sample_withdrawal_row \<noteq> 0"
    using FQ_small_inject [of 7 0] by (simp add: sample_withdrawal_row_def)
  then show ?thesis
    using withdrawal_circuit_sound [OF run, of 0] run by (auto simp: sample_withdrawals_def)
qed

lemma withdrawal_root_hidden_witness:
  "\<exists>rows. block_table_assignments sample_block = Inr rows \<and>
     verify_withdrawal_circuit (\<lambda>_. [3]) (sample_withdrawals (set rows)) (Suc 0) (FQ 3) = Inr () \<and>
     wr_root sample_withdrawal_row = WordLH (FQ (bl_withdrawal_root sample_block)) 0"
proof -
  obtain rows where r: "block_table_assignments sample_block = Inr rows"
    "\<lparr>bk_field_tag = FQ (bc_int BC_WithdrawalRoot), bk_block_number_or_zero = 0, bk_value = ValueV (FQ 5)\<rparr> \<in> set rows"
    by (rule sample_block_table)
  have "ww_block_table (sample_withdrawals (set rows)) = set rows" by (simp add: sample_withdrawals_def)
  from withdrawal_root_hidden [OF r(1) this sample_withdrawal_accepted [OF r]] r sample_withdrawal_accepted [OF r]
  show ?thesis by (auto simp: sample_withdrawals_def)
qed

end
