(* ===== verification/Sig_Circuit.thy ===== *)
theory Sig_Circuit
  imports Tx_Circuit_Facts
begin

text \<open>
  The signature circuit (\<^verbatim>\<open>src/zkevm_specs/sig_circuit.py\<close>): every row claims that a message hash is
  signed by an address, or that it is not.
\<close>

record sig_circuit_row =
  sg_msg_hash :: word256
  sg_sig_v :: fq
  sg_sig_r :: word256
  sg_sig_s :: word256
  sg_recovered_addr :: fq
  sg_is_valid :: bool
  sg_ecdsa_chip :: ecdsa_verify_chip
  sg_pub_key_hash :: "int list"
  sg_pub_key_x_bytes :: "int list"
  sg_pub_key_y_bytes :: "int list"
  sg_msg_hash_bytes :: "int list"

definition new_sig_row :: "int list \<Rightarrow> fq \<Rightarrow> word256 \<Rightarrow> ecdsa_verify_chip \<Rightarrow> bool \<Rightarrow> sig_circuit_row result" where
  "new_sig_row pub_key_hash address msg_hash chip is_valid =
     rbind (word_of_int256 (le_val (wf_le_bytes (ed_sig_r chip)))) (\<lambda>r.
     rbind (word_of_int256 (le_val (wf_le_bytes (ed_sig_s chip)))) (\<lambda>s.
     Inr \<lparr>sg_msg_hash = msg_hash, sg_sig_v = FQ (le_val (wf_le_bytes (ed_sig_v chip))), sg_sig_r = r, sg_sig_s = s,
          sg_recovered_addr = address, sg_is_valid = is_valid, sg_ecdsa_chip = chip, sg_pub_key_hash = pub_key_hash,
          sg_pub_key_x_bytes = ed_pub_key_x_bytes chip, sg_pub_key_y_bytes = ed_pub_key_y_bytes chip,
          sg_msg_hash_bytes = ed_msg_hash_bytes chip\<rparr>))"

definition sig_assign :: "hash_fun \<Rightarrow> int \<times> int \<times> int \<Rightarrow> int list \<Rightarrow> int list \<Rightarrow> bool \<Rightarrow> sig_circuit_row result" where
  "sig_assign keccak signature pub_key msg_hash is_valid =
     (let pub_key_hash = keccak pub_key in
      rbind (word_of_int256 (from_bytes_be msg_hash)) (\<lambda>h.
      rbind (ecdsa_assign signature pub_key msg_hash) (\<lambda>chip.
      new_sig_row pub_key_hash (FQ (from_bytes_be (last_20 pub_key_hash))) h chip is_valid)))"

text \<open>The enabling column of the lookup is \<open>True\<close>, which equals the field element 1.\<close>

definition sig_verify :: "key_api \<Rightarrow> keccak_rows \<Rightarrow> fq \<Rightarrow> sig_circuit_row \<Rightarrow> unit result" where
  "sig_verify K T randomness row =
     (let chip = sg_ecdsa_chip row in
      rbind (assert_that (sg_pub_key_x_bytes row = ed_pub_key_x_bytes chip)) (\<lambda>_.
      rbind (assert_that (sg_pub_key_y_bytes row = ed_pub_key_y_bytes chip)) (\<lambda>_.
      rbind (assert_that (sg_msg_hash_bytes row = ed_msg_hash_bytes chip)) (\<lambda>_.
      rbind (assert_that (int_value (sg_sig_r row) = le_val (wf_le_bytes (ed_sig_r chip)))) (\<lambda>_.
      rbind (assert_that (int_value (sg_sig_s row) = le_val (wf_le_bytes (ed_sig_s chip)))) (\<lambda>_.
      rbind (assert_that (sg_sig_v row = 0 \<or> sg_sig_v row = 1)) (\<lambda>_.
      let pub_key_bytes = rev (sg_pub_key_x_bytes row) @ rev (sg_pub_key_y_bytes row) in
      rbind (RLC_of_bytes (rev pub_key_bytes) randomness 64) (\<lambda>key_rlc.
      rbind (word_of_bytes (sg_pub_key_hash row)) (\<lambda>hash_word.
      rbind (keccak_table_lookup T 1 (rlc_value key_rlc) (FQ 64) hash_word) (\<lambda>_.
      rbind (assert_that (FQ (from_bytes_be (last_20 (sg_pub_key_hash row))) = sg_recovered_addr row)) (\<lambda>_.
      rbind (word_of_bytes (sg_msg_hash_bytes row)) (\<lambda>msg_hash.
      rbind (assert_that (msg_hash = sg_msg_hash row)) (\<lambda>_.
      rbind (ecdsa_verify K chip) (\<lambda>is_valid.
      assert_that (is_valid = sg_is_valid row)))))))))))))))"

record sig_witness =
  sw_rows :: "sig_circuit_row list"
  sw_keccak_table :: keccak_rows

definition verify_sig_circuit :: "key_api \<Rightarrow> sig_witness \<Rightarrow> fq \<Rightarrow> unit result" where
  "verify_sig_circuit K W keccak_randomness =
     riter (sig_verify K (sw_keccak_table W) keccak_randomness) (sw_rows W)"

section \<open>What the circuit enforces\<close>

text \<open>The integers of a chip have the bytes of their limbs, as their constructors make them, and a hash is made of bytes.\<close>

definition sig_row_ok :: "sig_circuit_row \<Rightarrow> bool" where
  "sig_row_ok row \<longleftrightarrow>
     (let e = sg_ecdsa_chip row in
      wf_to_le_bytes (ed_sig_r e) = Inr (wf_le_bytes (ed_sig_r e)) \<and>
      wf_to_le_bytes (ed_sig_s e) = Inr (wf_le_bytes (ed_sig_s e)) \<and>
      wf_to_le_bytes (fst (ed_pub_key e)) = Inr (ed_pub_key_x_bytes e) \<and>
      wf_to_le_bytes (snd (ed_pub_key e)) = Inr (ed_pub_key_y_bytes e) \<and>
      wf_to_be_bytes (ed_msg_hash e) = Inr (ed_msg_hash_bytes e) \<and>
      list_all is_byte (sg_pub_key_hash row))"

text \<open>
  The flag of the row is the verdict of the library on the message whose bytes make its hash, on the
  numbers r and s of the row and on a key whose bytes have the linear combination of an input of the
  Keccak table; the address is what the hash of that input ends with. The number v of the row is not
  compared with that of the chip.
\<close>

definition sig_claimed :: "key_api \<Rightarrow> hash_fun \<Rightarrow> fq \<Rightarrow> int list set \<Rightarrow> sig_circuit_row \<Rightarrow> bool" where
  "sig_claimed K keccak randomness inputs row \<longleftrightarrow>
     (\<exists>msg key sv input v v'.
        ka_verify K msg (sv, int_value (sg_sig_r row), int_value (sg_sig_s row)) key = Inr (sg_is_valid row) \<and>
        word_of_bytes msg = Inr (sg_msg_hash row) \<and> length key = 64 \<and> input \<in> inputs \<and> length input = 64 \<and>
        RLC_of_bytes (rev key) randomness 64 = Inr v \<and> RLC_of_bytes (rev input) randomness 64 = Inr v' \<and>
        rlc_value v = rlc_value v' \<and> sg_recovered_addr row = FQ (from_bytes_be (last_20 (keccak input))))"

text \<open>
  C31: In an accepted signature circuit over a Keccak table built by its own add, the flag
  of a row is the verdict of the signature library on a message with the hash of the row, on
  the numbers r and s of the row and on a key whose bytes have the linear combination of a
  hashed input, and the address of the row is the last 20 bytes of the hash of that input.
\<close>

theorem sig_circuit_sound:
  assumes "verify_sig_circuit K W randomness = Inr ()" "row \<in> set (sw_rows W)" "sig_row_ok row" "hash_of_bytes keccak"
    and "keccak_built keccak 64 randomness inputs (sw_keccak_table W)"
  shows "sig_claimed K keccak randomness inputs row"
proof -
  let ?e = "sg_ecdsa_chip row"
  let ?key = "rev (ed_pub_key_x_bytes ?e) @ rev (ed_pub_key_y_bytes ?e)"
  have "sig_verify K (sw_keccak_table W) randomness row = Inr ()"
    using assms(1,2) by (simp add: verify_sig_circuit_def riter_ok)
  then obtain v w where r: "int_value (sg_sig_r row) = le_val (wf_le_bytes (ed_sig_r ?e))"
      "int_value (sg_sig_s row) = le_val (wf_le_bytes (ed_sig_s ?e))"
    and v: "RLC_of_bytes (rev ?key) randomness 64 = Inr v"
    and w: "word_of_bytes (sg_pub_key_hash row) = Inr w"
    and t: "(1, rlc_value v, FQ 64, w) \<in> sw_keccak_table W"
    and addr: "FQ (from_bytes_be (last_20 (sg_pub_key_hash row))) = sg_recovered_addr row"
    and msg: "word_of_bytes (ed_msg_hash_bytes ?e) = Inr (sg_msg_hash row)"
    and ecdsa: "ecdsa_verify K ?e = Inr (sg_is_valid row)"
    by (auto simp: sig_verify_def Let_def ok_simps)
  have "list_all is_byte (sg_pub_key_hash row)" using assms(3) by (simp add: sig_row_ok_def Let_def)
  then obtain input v' where input: "input \<in> inputs" "RLC_of_bytes (rev input) randomness 64 = Inr v'" "rlc_value v = rlc_value v'"
    and len: "length input = 64" and hash: "sg_pub_key_hash row = keccak input"
    using hashed_key [OF assms(5) t w _ assms(4)] by blast
  obtain sv where sig: "ka_verify K (ed_msg_hash_bytes ?e) (sv, int_value (sg_sig_r row), int_value (sg_sig_s row)) ?key =
      Inr (sg_is_valid row)"
    using ecdsa assms(3) by (auto simp: ecdsa_verify_def sig_row_ok_def Let_def ok_simps r wf_to_be_bytes_def)
  have "length ?key = 64"
    using assms(3) wf_le_length by (auto simp: sig_row_ok_def Let_def)
  then show ?thesis
    unfolding sig_claimed_def using sig msg v input(1-3) len addr hash by fastforce
qed

section \<open>The order of the bytes of a message hash\<close>

text \<open>
  The class method \<open>assign\<close> reads the message hash as a big-endian number, and the check builds the
  word from the same bytes in little-endian order.
\<close>

text \<open>
  C36: The row that Row.assign makes is refused for every message hash that is not the same
  when its bytes are reversed: it reads the hash as a big-endian number, and the check makes
  the word from the bytes in little-endian order.
\<close>

theorem sig_assign_refused:
  assumes "sig_assign keccak signature pub_key msg_hash is_valid = Inr row"
    and "length msg_hash = 32" "list_all is_byte msg_hash" "rev msg_hash \<noteq> msg_hash"
  shows "verify_sig_circuit K \<lparr>sw_rows = [row], sw_keccak_table = T\<rparr> randomness \<noteq> Inr ()"
proof
  assume "verify_sig_circuit K \<lparr>sw_rows = [row], sw_keccak_table = T\<rparr> randomness = Inr ()"
  then have word: "word_of_bytes (sg_msg_hash_bytes row) = Inr (sg_msg_hash row)"
    by (auto simp: verify_sig_circuit_def sig_verify_def Let_def ok_simps)
  note be = be_round_trip [OF assms(2,3)]
  have "word_of_int256 (from_bytes_be msg_hash) = Inr (sg_msg_hash row)"
    using assms(1) by (auto simp: sig_assign_def new_sig_row_def Let_def rbind_ok)
  then have swapped: "word_of_bytes (rev msg_hash) = Inr (sg_msg_hash row)"
    using be by (simp add: word_of_int256_def to_bytes_le_def del: le_bytes.simps)
  obtain h where h: "WrongFieldInteger (from_bytes_be msg_hash) = Inr h" "wf_to_be_bytes h = Inr (sg_msg_hash_bytes row)"
    using assms(1) by (auto simp: sig_assign_def new_sig_row_def ecdsa_assign_def ECDSAVerifyChip_def Let_def rbind_ok split: prod.splits)
  then have "sg_msg_hash_bytes row = msg_hash"
    using WrongFieldInteger_ok [OF h(1)] be by (simp add: wf_to_be_bytes_def)
  then have "msg_hash = rev msg_hash"
    using word_of_bytes_inject [OF word, of "rev msg_hash"] swapped assms(3) by (simp add: list_all_iff)
  then show False using assms(4) by simp
qed

section \<open>Sample rows\<close>

lemma zeros_combine: "\<exists>x. RLC_of_bytes (replicate 64 0) r 64 = Inr x \<and> rlc_value x = 0"
proof -
  have "linear_combine_bytes (replicate n 0) r True = Inr 0" for n by (induction n) simp_all
  then show ?thesis by (simp add: RLC_of_bytes_def Let_def)
qed

lemma sample_sig_row:
  assumes msg: "from_bytes_be msg = m" "0 \<le> m" "m < 2 ^ 256"
  obtains row where "sig_assign one_hash (0, 11, 13) (replicate 64 0) msg True = Inr row" "sig_row_ok row"
    "word_of_bytes (rev (le_bytes 32 m)) = Inr (word_of m) \<Longrightarrow>
      (1, 0, FQ 64, w) \<in> T \<Longrightarrow> word_of_bytes (one_hash []) = Inr w \<Longrightarrow> sig_verify zero_keys T (FQ 3) row = Inr ()"
proof -
  obtain z where z: "WrongFieldInteger 0 = Inr z" "wf_le_bytes z = le_bytes 32 0" "wf_to_le_bytes z = Inr (le_bytes 32 0)"
    by (rule wf_round_trip [of 0]) simp_all
  obtain r where r: "WrongFieldInteger 11 = Inr r" "wf_le_bytes r = le_bytes 32 11" "wf_to_le_bytes r = Inr (le_bytes 32 11)"
    by (rule wf_round_trip [of 11]) simp_all
  obtain s where s: "WrongFieldInteger 13 = Inr s" "wf_le_bytes s = le_bytes 32 13" "wf_to_le_bytes s = Inr (le_bytes 32 13)"
    by (rule wf_round_trip [of 13]) simp_all
  obtain h where h: "WrongFieldInteger m = Inr h" "wf_le_bytes h = le_bytes 32 m" "wf_to_le_bytes h = Inr (le_bytes 32 m)"
    by (rule wf_round_trip [OF msg(2,3)])
  have zero: "le_bytes 32 0 = replicate 32 (0::int)" by (simp add: numeral_eq_Suc)
  define e where "e = \<lparr>ed_sig_v = z, ed_sig_r = r, ed_sig_s = s, ed_pub_key = (z, z), ed_pub_key_x_bytes = replicate 32 0,
    ed_pub_key_y_bytes = replicate 32 0, ed_msg_hash = h, ed_msg_hash_bytes = rev (le_bytes 32 m)\<rparr>"
  have b: "from_bytes_be (one_hash x) = 1" "from_bytes_be (replicate 32 0) = 0" "from_bytes_be (last_20 (one_hash x)) = 1" for x
    by (simp_all add: from_bytes_be_def one_hash_def last_20_def numeral_eq_Suc)
  have e: "ecdsa_assign (0, 11, 13) (replicate 64 0) msg = Inr e"
    by (simp add: ecdsa_assign_def b msg(1) z r s h ECDSAVerifyChip_def wf_to_be_bytes_def e_def zero del: le_bytes.simps)
  have vals: "le_val (le_bytes 32 0) = 0" "le_val (le_bytes 32 11) = 11" "le_val (le_bytes 32 13) = 13" by simp_all
  define row where "row = \<lparr>sg_msg_hash = word_of m, sg_sig_v = 0, sg_sig_r = word_of 11, sg_sig_s = word_of 13,
    sg_recovered_addr = 1, sg_is_valid = True, sg_ecdsa_chip = e, sg_pub_key_hash = one_hash [],
    sg_pub_key_x_bytes = replicate 32 0, sg_pub_key_y_bytes = replicate 32 0, sg_msg_hash_bytes = rev (le_bytes 32 m)\<rparr>"
  have "sig_assign one_hash (0, 11, 13) (replicate 64 0) msg True = Inr row"
    using msg by (simp add: sig_assign_def new_sig_row_def e b Let_def word_of_int256_Inr row_def)
      (simp add: e_def z(2) r(2) s(2) vals word_of_int256_Inr one_hash_def del: le_bytes.simps le_val_le_bytes)
  moreover have "sig_row_ok row"
    by (simp add: sig_row_ok_def row_def e_def z r s h zero wf_to_be_bytes_def one_hash_def list_all_iff is_byte_def del: le_bytes.simps)
  moreover have "sig_verify zero_keys T (FQ 3) row = Inr ()"
    if "word_of_bytes (rev (le_bytes 32 m)) = Inr (word_of m)" "(1, 0, FQ 64, w) \<in> T" "word_of_bytes (one_hash []) = Inr w"
  proof -
    have v: "int_value (word_of 11) = 11" "int_value (word_of 13) = 13" by (simp_all add: word_of_ok)
    have ver: "ecdsa_verify zero_keys e = Inr True"
      by (simp add: ecdsa_verify_def e_def z r s h wf_to_be_bytes_def zero_keys_def del: le_bytes.simps)
    have one: "FQ (from_bytes_be (last_20 (one_hash []))) = 1" by (simp add: b)
    obtain x where x: "RLC_of_bytes (replicate 64 0) (FQ 3) 64 = Inr x" "rlc_value x = 0"
      using zeros_combine by blast
    show ?thesis
      by (simp add: sig_verify_def row_def Let_def v one that(1,3) ver del: le_bytes.simps le_val_le_bytes)
        (simp add: e_def r s vals x keccak_table_lookup_def that(2) flip: replicate_add del: le_bytes.simps le_val_le_bytes)
  qed
  ultimately show ?thesis using that by blast
qed

lemma sig_circuit_sound_witness:
  "\<exists>row T. verify_sig_circuit zero_keys \<lparr>sw_rows = [row], sw_keccak_table = T\<rparr> (FQ 3) = Inr () \<and>
     sig_claimed zero_keys one_hash (FQ 3) {replicate 64 0} row"
proof -
  obtain T where T: "keccak_table_add one_hash 64 (replicate 64 0) (FQ 3) new_keccak_table = Inr T" using sample_keccak by blast
  obtain w where w: "word_of_bytes (one_hash []) = Inr w" "(1, 0, FQ 64, w) \<in> T"
    using T zeros_combine [of "FQ 3"] by (auto simp: keccak_table_add_def rbind_ok one_hash_def)
  have "word_of_bytes (rev (le_bytes 32 0)) = Inr (word_of 0)"
    by (simp add: word_of_bytes_def bytes_to_fq_def word_of_def numeral_eq_Suc)
  moreover have "from_bytes_be [] = 0" by (simp add: from_bytes_be_def)
  ultimately obtain row where row: "sig_row_ok row" "sig_verify zero_keys T (FQ 3) row = Inr ()"
    using w sample_sig_row [of "[]" 0 w T] by auto
  then have run: "verify_sig_circuit zero_keys \<lparr>sw_rows = [row], sw_keccak_table = T\<rparr> (FQ 3) = Inr ()"
    by (simp add: verify_sig_circuit_def)
  have "keccak_built one_hash 64 (FQ 3) {replicate 64 0} T" using built_add [OF built_new T] by simp
  with sig_circuit_sound [OF run _ row(1) sample_libraries(3)] run show ?thesis by auto
qed

lemma sig_assign_refused_witness:
  "\<exists>row. sig_assign one_hash (0, 11, 13) (replicate 64 0) (one_hash []) True = Inr row \<and>
     verify_sig_circuit zero_keys \<lparr>sw_rows = [row], sw_keccak_table = new_keccak_table\<rparr> (FQ 3) \<noteq> Inr ()"
proof -
  have one: "from_bytes_be (one_hash []) = 1" by (simp add: from_bytes_be_def one_hash_def numeral_eq_Suc)
  obtain row where row: "sig_assign one_hash (0, 11, 13) (replicate 64 0) (one_hash []) True = Inr row"
    by (rule sample_sig_row [OF one]) simp_all
  have "rev (one_hash []) \<noteq> one_hash []" by (simp add: one_hash_def numeral_eq_Suc)
  with row sig_assign_refused [OF row, of zero_keys new_keccak_table "FQ 3"] show ?thesis
    by (auto simp: one_hash_def list_all_iff is_byte_def)
qed

end
