(* ===== verification/Ecc_Circuit.thy ===== *)
theory Ecc_Circuit
  imports Chips Table
begin

text \<open>
  The elliptic curve circuit (\<^verbatim>\<open>src/zkevm_specs/ecc_circuit.py\<close>): rows that claim additions, scalar
  multiplications and pairings on the curve BN254. The rows are laid out from the operations and
  checked one by one.
\<close>

section \<open>Rows\<close>

text \<open>
  A row of the table with its chips. The outputs of an addition or a multiplication are elements of
  the base field, those of a pairing elements of the scalar field.
\<close>

record ecc_circuit_row =
  er_op_type :: fq
  er_px :: word256
  er_py :: word256
  er_qx :: word256
  er_qy :: word256
  er_input_rlc :: fq
  er_out_x :: field_value
  er_out_y :: field_value
  er_is_valid :: fq
  er_ecc_chip :: "ecc_verify_chip option"
  er_pairing_chip :: "ecc_pairing_verify_chip option"

text \<open>\<open>constrain_equal\<close> on elements of either field.\<close>

definition cs_constrain_equal_field :: "constraint_system \<Rightarrow> field_value \<Rightarrow> field_value \<Rightarrow> unit result" where
  "cs_constrain_equal_field cs x y =
     (case cs_cond cs of
        None \<Rightarrow> assert_that (field_n (field_sub x y) = 0)
      | Some c \<Rightarrow> assert_that (c * FQ (field_n (field_sub x y)) = 0))"

definition check_fq :: "int \<Rightarrow> bool" where
  "check_fq v \<longleftrightarrow> v < fp_modulus"

text \<open>The pair of zeros stands for the point at infinity.\<close>

definition point_of_ints :: "int \<Rightarrow> int \<Rightarrow> g1 option" where
  "point_of_ints x y = (if x = 0 \<and> y = 0 then None else Some (FP x, FP y))"

definition ecc_assign_add ::
  "'e curve \<Rightarrow> word256 \<times> word256 \<Rightarrow> word256 \<times> word256 \<Rightarrow> fp \<times> fp \<Rightarrow> ecc_circuit_row result" where
  "ecc_assign_add C p0 p1 out =
     (let p0_x = int_value (fst p0); p0_y = int_value (snd p0); p1_x = int_value (fst p1); p1_y = int_value (snd p1);
        is_valid_points = (cv_on_curve C (point_of_ints p0_x p0_y) \<and> cv_on_curve C (point_of_ints p1_x p1_y));
        is_valid = (check_fq p0_x \<and> check_fq p0_y \<and> check_fq p1_x \<and> check_fq p1_y \<and> is_valid_points) in
      rbind (word_of_int256 p0_x) (\<lambda>px.
      rbind (word_of_int256 p0_y) (\<lambda>py.
      rbind (word_of_int256 p1_x) (\<lambda>qx.
      rbind (word_of_int256 p1_y) (\<lambda>qy.
      Inr \<lparr>er_op_type = FQ (ec_int EC_Add), er_px = px, er_py = py, er_qx = qx, er_qy = qy, er_input_rlc = FQ 0,
           er_out_x = FPV (fst out), er_out_y = FPV (snd out), er_is_valid = fq_of_bool is_valid,
           er_ecc_chip = Some \<lparr>ev_p0 = (FP p0_x, FP p0_y), ev_p1 = (FP p1_x, FP p1_y), ev_output = out\<rparr>,
           er_pairing_chip = None\<rparr>)))))"

definition ecc_assign_mul ::
  "'e curve \<Rightarrow> word256 \<times> word256 \<Rightarrow> word256 \<times> word256 \<Rightarrow> fp \<times> fp \<Rightarrow> ecc_circuit_row result" where
  "ecc_assign_mul C p0 p1 out =
     (let p_x = int_value (fst p0); p_y = int_value (snd p0); s = int_value (fst p1);
        is_valid = (cv_on_curve C (point_of_ints p_x p_y) \<and> int_value (snd p1) = 0 \<and> check_fq p_x \<and> check_fq p_y) in
      rbind (word_of_int256 p_x) (\<lambda>px.
      rbind (word_of_int256 p_y) (\<lambda>py.
      rbind (word_of_int256 s) (\<lambda>qx.
      rbind (word_of_int256 0) (\<lambda>qy.
      Inr \<lparr>er_op_type = FQ (ec_int EC_Mul), er_px = px, er_py = py, er_qx = qx, er_qy = qy, er_input_rlc = FQ 0,
           er_out_x = FPV (fst out), er_out_y = FPV (snd out), er_is_valid = fq_of_bool is_valid,
           er_ecc_chip = Some \<lparr>ev_p0 = (FP p_x, FP p_y), ev_p1 = (FP s, FP 0), ev_output = out\<rparr>,
           er_pairing_chip = None\<rparr>)))))"

definition ecc_assign ::
  "'e curve \<Rightarrow> ecc_op_tag \<Rightarrow> (word256 \<times> word256) list \<Rightarrow> fp \<times> fp \<Rightarrow> ecc_circuit_row result" where
  "ecc_assign C op_type p out =
     (if op_type = EC_Add then rbind (list_at p 0) (\<lambda>p0. rbind (list_at p 1) (\<lambda>p1. ecc_assign_add C p0 p1 out))
      else if op_type = EC_Mul then rbind (list_at p 0) (\<lambda>p0. rbind (list_at p 1) (\<lambda>p1. ecc_assign_mul C p0 p1 out))
      else Inl TypeError)"

section \<open>Pairings\<close>

type_synonym pairing_words = "word256 \<times> word256 \<times> word256 \<times> word256 \<times> word256 \<times> word256"

definition fp2_of :: "int \<Rightarrow> int \<Rightarrow> fp2" where
  "fp2_of a b = (a mod fp_modulus, b mod fp_modulus)"

text \<open>
  The coordinates of the points of a pair: x and y of the first, and the two coefficients of x and of
  y of the second, which the words give with the second coefficient first.
\<close>

definition pairing_ints :: "pairing_words \<Rightarrow> int list" where
  "pairing_ints p = (case p of (w0, w1, w2, w3, w4, w5) \<Rightarrow>
     [int_value w0, int_value w1, int_value w3, int_value w2, int_value w5, int_value w4])"

definition pairing_g1 :: "pairing_words \<Rightarrow> g1" where
  "pairing_g1 p = (FP (pairing_ints p ! 0), FP (pairing_ints p ! 1))"

definition pairing_g2 :: "pairing_words \<Rightarrow> g2" where
  "pairing_g2 p = (fp2_of (pairing_ints p ! 2) (pairing_ints p ! 3), fp2_of (pairing_ints p ! 4) (pairing_ints p ! 5))"

definition pairing_pair_valid :: "'e curve \<Rightarrow> int \<Rightarrow> pairing_words \<Rightarrow> bool" where
  "pairing_pair_valid C curve_order p \<longleftrightarrow>
     (let point1_g1 = point_of_ints (pairing_ints p ! 0) (pairing_ints p ! 1);
        point2_g2 = (if list_all (\<lambda>v. v = 0) (drop 2 (pairing_ints p)) then None else Some (pairing_g2 p));
        valid_p = (cv_multiply C point1_g1 curve_order = None);
        valid_q = (cv_multiply2 C point2_g2 curve_order = None) in
      list_all check_fq (pairing_ints p) \<and>
      (cv_on_curve C point1_g1 \<and> cv_on_curve2 C point2_g2 \<and> valid_p \<and> valid_q))"

definition ecc_assign_pairing ::
  "'e curve \<Rightarrow> int \<Rightarrow> pairing_words list \<Rightarrow> word256 \<Rightarrow> fq \<Rightarrow> ecc_circuit_row result" where
  "ecc_assign_pairing C curve_order pts out keccak_randomness =
     rbind (rmap (\<lambda>v. to_bytes_le v 32) (concat (map pairing_ints pts))) (\<lambda>chunks.
     rbind (word_of_int256 0) (\<lambda>zero_word.
     rbind (RLC_of_bytes (rev (concat chunks)) keccak_randomness (length pts * 192)) (\<lambda>rlc.
     Inr \<lparr>er_op_type = FQ (ec_int EC_Pairing), er_px = zero_word, er_py = zero_word, er_qx = zero_word, er_qy = zero_word,
          er_input_rlc = rlc_value rlc, er_out_x = FQV (hi out), er_out_y = FQV (lo out),
          er_is_valid = fq_of_bool (list_all (pairing_pair_valid C curve_order) pts), er_ecc_chip = None,
          er_pairing_chip = Some \<lparr>pc_p = map pairing_g1 pts, pc_q = map pairing_g2 pts, pc_output = lo out\<rparr>\<rparr>)))"

section \<open>The checks of a row\<close>

definition ecc_verify_add :: "'e curve \<Rightarrow> constraint_system \<Rightarrow> ecc_circuit_row \<Rightarrow> unit result" where
  "ecc_verify_add C cs row =
     rbind (attribute (er_ecc_chip row)) (\<lambda>chip.
     cs_constrain_equal cs (fq_of_bool (verify_add C chip)) (er_is_valid row))"

definition ecc_verify_mul :: "'e curve \<Rightarrow> constraint_system \<Rightarrow> ecc_circuit_row \<Rightarrow> unit result" where
  "ecc_verify_mul C cs row =
     rbind (cs_constrain_zero_word cs (er_qy row)) (\<lambda>_.
     rbind (attribute (er_ecc_chip row)) (\<lambda>chip.
     cs_constrain_equal cs (fq_of_bool (verify_mul C chip)) (er_is_valid row)))"

text \<open>Both points of a pair have the order of the curve; the result is the bytes of their coordinates.\<close>

definition ecc_verify_pair :: "'e curve \<Rightarrow> int \<Rightarrow> constraint_system \<Rightarrow> g1 \<times> g2 \<Rightarrow> int list result" where
  "ecc_verify_pair C curve_order cs pair =
     (case pair of (p, q) \<Rightarrow>
      let valid_p = fq_of_bool (cv_multiply C (point_of p) curve_order = None);
        valid_q = fq_of_bool (cv_multiply2 C (point2_of q) curve_order = None) in
      rbind (cs_constrain_equal cs (valid_p + valid_q) (FQ 2)) (\<lambda>_.
      rbind (rmap (\<lambda>v. to_bytes_le v 32)
        [fp_n (fst p), fp_n (snd p), fst (fst q), snd (fst q), fst (snd q), snd (snd q)]) (\<lambda>chunks.
      Inr (concat chunks))))"

definition ecc_verify_pairing :: "'e curve \<Rightarrow> int \<Rightarrow> constraint_system \<Rightarrow> fq \<Rightarrow> ecc_circuit_row \<Rightarrow> unit result" where
  "ecc_verify_pairing C curve_order cs keccak_randomness row =
     rbind (cs_constrain_equal_field cs (er_out_x row) (FQV 0)) (\<lambda>_.
     rbind (attribute (er_pairing_chip row)) (\<lambda>chip.
     rbind (cs_constrain_equal_field cs (FQV (pc_output chip)) (er_out_y row)) (\<lambda>_.
     let pairs = zip (pc_p chip) (pc_q chip) in
     rbind (rmap (ecc_verify_pair C curve_order cs) pairs) (\<lambda>inputs.
     rbind (RLC_of_bytes (rev (concat inputs)) keccak_randomness (length pairs * 192)) (\<lambda>inputs_rlc.
     rbind (cs_constrain_equal cs (er_input_rlc row) (rlc_value inputs_rlc)) (\<lambda>_.
     rbind (verify_pairing C chip) (\<lambda>good.
     cs_constrain_equal_field cs (FQV (fq_of_bool good)) (er_out_y row))))))))"

text \<open>The copy constraints between the row and its chip.\<close>

definition copy_word :: "constraint_system \<Rightarrow> int \<Rightarrow> word256 \<Rightarrow> unit result" where
  "copy_word cs v cell = rbind (word_of_int256 v) (\<lambda>w. cs_constrain_equal_word cs w cell)"

definition ecc_copy_constraints :: "constraint_system \<Rightarrow> ecc_circuit_row \<Rightarrow> unit result" where
  "ecc_copy_constraints cs row =
     rbind (attribute (er_ecc_chip row)) (\<lambda>chip.
     rbind (copy_word cs (fp_n (fst (ev_p0 chip))) (er_px row)) (\<lambda>_.
     rbind (copy_word cs (fp_n (snd (ev_p0 chip))) (er_py row)) (\<lambda>_.
     rbind (copy_word cs (fp_n (fst (ev_p1 chip))) (er_qx row)) (\<lambda>_.
     rbind (copy_word cs (fp_n (snd (ev_p1 chip))) (er_qy row)) (\<lambda>_.
     rbind (cs_constrain_equal_field cs (FPV (fst (ev_output chip))) (er_out_x row)) (\<lambda>_.
     rbind (cs_constrain_equal_field cs (FPV (snd (ev_output chip))) (er_out_y row)) (\<lambda>_.
     cs_constrain_zero cs (er_input_rlc row))))))))"

record ecc_limits =
  max_add_ops :: int
  max_mul_ops :: int
  max_pairing_ops :: int

text \<open>The three counters are local to the method: each is 1 when it is compared with its limit.\<close>

definition ecc_verify :: "'e curve \<Rightarrow> int \<Rightarrow> constraint_system \<Rightarrow> ecc_limits \<Rightarrow> fq \<Rightarrow> ecc_circuit_row \<Rightarrow> unit result" where
  "ecc_verify C curve_order cs limits keccak_randomness row =
     (let is_add = cs_is_equal (er_op_type row) (FQ (ec_int EC_Add));
        is_mul = cs_is_equal (er_op_type row) (FQ (ec_int EC_Mul));
        is_pairing = cs_is_equal (er_op_type row) (FQ (ec_int EC_Pairing)) in
      rbind (cs_constrain_equal cs (is_add + is_mul + is_pairing) (FQ 1)) (\<lambda>_.
      rbind (if is_add = 1 \<or> is_mul = 1 then ecc_copy_constraints cs row
             else rbind (cs_constrain_zero_word cs (er_px row)) (\<lambda>_.
               rbind (cs_constrain_zero_word cs (er_py row)) (\<lambda>_.
               rbind (cs_constrain_zero_word cs (er_qx row)) (\<lambda>_.
               cs_constrain_zero_word cs (er_qy row))))) (\<lambda>_.
      rbind (cs_constrain_bool cs (er_is_valid row)) (\<lambda>_.
      rbind (if is_add = FQ 1 then rbind (assert_that (1 \<le> max_add_ops limits)) (\<lambda>_. ecc_verify_add C cs row) else Inr ()) (\<lambda>_.
      rbind (if is_mul = FQ 1 then rbind (assert_that (1 \<le> max_mul_ops limits)) (\<lambda>_. ecc_verify_mul C cs row) else Inr ()) (\<lambda>_.
      if is_pairing = FQ 1
      then rbind (assert_that (1 \<le> max_pairing_ops limits)) (\<lambda>_. ecc_verify_pairing C curve_order cs keccak_randomness row)
      else Inr ()))))))"

section \<open>The circuit\<close>

record ec_add =
  ea_p :: "int \<times> int"
  ea_q :: "int \<times> int"
  ea_out :: "int \<times> int"

record ec_mul =
  em_p :: "int \<times> int"
  em_s :: int
  em_out :: "int \<times> int"

record ec_pairing =
  ep_g1_pts :: "(int \<times> int) list"
  ep_g2_pts :: "(int \<times> int \<times> int \<times> int) list"
  ep_out :: int

record ecc_circuit = ecc_limits +
  add_ops :: "ec_add list"
  mul_ops :: "ec_mul list"
  pairing_ops :: "ec_pairing list"

definition new_ecc_circuit :: "int \<Rightarrow> int \<Rightarrow> int \<Rightarrow> ecc_circuit" where
  "new_ecc_circuit a m p =
     \<lparr>max_add_ops = a, max_mul_ops = m, max_pairing_ops = p, add_ops = [], mul_ops = [], pairing_ops = []\<rparr>"

definition append_add :: "ec_add \<Rightarrow> ecc_circuit \<Rightarrow> ecc_circuit" where
  "append_add oper c = c\<lparr>add_ops := add_ops c @ [oper]\<rparr>"

definition append_mul :: "ec_mul \<Rightarrow> ecc_circuit \<Rightarrow> ecc_circuit" where
  "append_mul oper c = c\<lparr>mul_ops := mul_ops c @ [oper]\<rparr>"

definition append_pairing :: "ec_pairing \<Rightarrow> ecc_circuit \<Rightarrow> ecc_circuit" where
  "append_pairing oper c = c\<lparr>pairing_ops := pairing_ops c @ [oper]\<rparr>"

definition add_row :: "'e curve \<Rightarrow> ec_add \<Rightarrow> ecc_circuit_row result" where
  "add_row C oper =
     rbind (word_of_int256 (fst (ea_p oper))) (\<lambda>px.
     rbind (word_of_int256 (snd (ea_p oper))) (\<lambda>py.
     rbind (word_of_int256 (fst (ea_q oper))) (\<lambda>qx.
     rbind (word_of_int256 (snd (ea_q oper))) (\<lambda>qy.
     ecc_assign C EC_Add [(px, py), (qx, qy)] (FP (fst (ea_out oper)), FP (snd (ea_out oper)))))))"

definition mul_row :: "'e curve \<Rightarrow> ec_mul \<Rightarrow> ecc_circuit_row result" where
  "mul_row C oper =
     rbind (word_of_int256 (fst (em_p oper))) (\<lambda>px.
     rbind (word_of_int256 (snd (em_p oper))) (\<lambda>py.
     rbind (word_of_int256 (em_s oper)) (\<lambda>s.
     rbind (word_of_int256 0) (\<lambda>zero_word.
     ecc_assign C EC_Mul [(px, py), (s, zero_word)] (FP (fst (em_out oper)), FP (snd (em_out oper)))))))"

definition pairing_row :: "'e curve \<Rightarrow> int \<Rightarrow> fq \<Rightarrow> ec_pairing \<Rightarrow> ecc_circuit_row result" where
  "pairing_row C curve_order randomness oper =
     rbind (rmap (\<lambda>((a0, a1), b0, b1, b2, b3).
         rbind (word_of_int256 a0) (\<lambda>w0. rbind (word_of_int256 a1) (\<lambda>w1.
         rbind (word_of_int256 b0) (\<lambda>w2. rbind (word_of_int256 b1) (\<lambda>w3.
         rbind (word_of_int256 b2) (\<lambda>w4. rbind (word_of_int256 b3) (\<lambda>w5.
         Inr (w0, w1, w2, w3, w4, w5)))))))) (zip (ep_g1_pts oper) (ep_g2_pts oper))) (\<lambda>points.
     rbind (word_of_int256 (ep_out oper)) (\<lambda>out.
     ecc_assign_pairing C curve_order points out randomness))"

definition circuit2rows :: "'e curve \<Rightarrow> int \<Rightarrow> ecc_circuit \<Rightarrow> fq \<Rightarrow> ecc_circuit_row list result" where
  "circuit2rows C curve_order circuit randomness =
     rbind (rmap (add_row C) (add_ops circuit)) (\<lambda>adds.
     rbind (rmap (mul_row C) (mul_ops circuit)) (\<lambda>muls.
     rbind (rmap (pairing_row C curve_order randomness) (pairing_ops circuit)) (\<lambda>pairings.
     Inr (adds @ muls @ pairings))))"

definition verify_ecc_circuit :: "'e curve \<Rightarrow> int \<Rightarrow> ecc_circuit \<Rightarrow> fq \<Rightarrow> unit result" where
  "verify_ecc_circuit C curve_order circuit randomness =
     rbind (circuit2rows C curve_order circuit randomness) (\<lambda>rows.
     riter (ecc_verify C curve_order new_constraint_system (ecc_limits.truncate circuit) randomness) rows)"

section \<open>What the circuit accepts\<close>

text \<open>
  An addition is right when its coordinates are below the modulus of the base field, and its output
  is the sum exactly if both points are on the curve; likewise for a multiplication, whose scalar is
  below that modulus too.
\<close>

definition in_field :: "int \<times> int \<Rightarrow> bool" where
  "in_field p \<longleftrightarrow> 0 \<le> fst p \<and> fst p < fp_modulus \<and> 0 \<le> snd p \<and> snd p < fp_modulus"

definition output_is :: "'e curve \<Rightarrow> g1 option \<Rightarrow> int \<times> int \<Rightarrow> bool" where
  "output_is C p out \<longleftrightarrow> cv_eq C (pair_of p) (FP (fst out), FP (snd out))"

definition add_op_right :: "'e curve \<Rightarrow> ec_add \<Rightarrow> bool" where
  "add_op_right C oper \<longleftrightarrow>
     (let p = point_of_ints (fst (ea_p oper)) (snd (ea_p oper)); q = point_of_ints (fst (ea_q oper)) (snd (ea_q oper)) in
      in_field (ea_p oper) \<and> in_field (ea_q oper) \<and>
      (output_is C (cv_add C p q) (ea_out oper) \<longleftrightarrow> cv_on_curve C p \<and> cv_on_curve C q))"

definition mul_op_right :: "'e curve \<Rightarrow> ec_mul \<Rightarrow> bool" where
  "mul_op_right C oper \<longleftrightarrow>
     (let p = point_of_ints (fst (em_p oper)) (snd (em_p oper)) in
      in_field (em_p oper) \<and> 0 \<le> em_s oper \<and> em_s oper < fp_modulus \<and>
      (output_is C (cv_multiply C p (em_s oper)) (em_out oper) \<longleftrightarrow> cv_on_curve C p))"

lemma fp_modulus_bounds: "0 < fp_modulus" "fp_modulus < 2 ^ 256"
  by (simp_all add: fp_modulus_def)

lemma FP_mod: "fp_n (FP x) = x mod fp_modulus"
  by (simp add: FP_def)

lemma word_of_inject:
  assumes "0 \<le> x" "x < 2 ^ 256" "0 \<le> y" "y < 2 ^ 256"
  shows "word_of x = word_of y \<longleftrightarrow> x = y"
  using word_of_ok(2) assms by metis

text \<open>The copy of a coordinate: the element of the base field gives back the word when it was not reduced.\<close>

lemma copied_coordinate:
  assumes "0 \<le> x" "x < 2 ^ 256"
  shows "copy_word new_constraint_system (x mod fp_modulus) (word_of x) = Inr u \<longleftrightarrow> x < fp_modulus"
proof -
  have m: "0 \<le> x mod fp_modulus" "x mod fp_modulus < 2 ^ 256"
    using fp_modulus_bounds pos_mod_bound [of fp_modulus x] by (simp_all add: pos_mod_sign del: pos_mod_bound)
  have "copy_word new_constraint_system (x mod fp_modulus) (word_of x) = Inr u \<longleftrightarrow> word_of (x mod fp_modulus) = word_of x"
    by (auto simp: copy_word_def word_of_int256_Inr [OF m] ok_simps word256.expand)
  also have "\<dots> \<longleftrightarrow> x < fp_modulus"
    unfolding word_of_inject [OF m assms] using assms(1) fp_modulus_bounds(1)
    by (metis mod_pos_pos_trivial pos_mod_bound)
  finally show ?thesis .
qed

lemma point_of_FP: "in_field p \<Longrightarrow> point_of (FP (fst p), FP (snd p)) = point_of_ints (fst p) (snd p)"
  by (simp add: in_field_def point_of_def point_of_ints_def FP_def)

lemma ec_int_inject: "FQ (ec_int a) = FQ (ec_int b) \<longleftrightarrow> a = b"
proof -
  have "0 \<le> ec_int c \<and> ec_int c < fq_modulus" for c by (cases c) (simp_all add: fq_modulus_def)
  then have "FQ (ec_int a) = FQ (ec_int b) \<longleftrightarrow> ec_int a = ec_int b" by (intro FQ_inject) auto
  then show ?thesis by (cases a; cases b) simp_all
qed

text \<open>The check of the copied cells, and of the whole row of an addition or a multiplication.\<close>

lemma field_equal_same [simp]: "cs_constrain_equal_field new_constraint_system v v = Inr ()"
  by (cases v) (simp_all add: cs_constrain_equal_field_def new_constraint_system_def FP_def)

lemma add_row_accepts:
  "(\<exists>row. add_row C oper = Inr row \<and> ecc_verify C n new_constraint_system L r row = Inr ()) \<longleftrightarrow>
     1 \<le> max_add_ops L \<and> add_op_right C oper"
proof -
  obtain x y z w out where oper: "ea_p oper = (x, y)" "ea_q oper = (z, w)" "ea_out oper = out"
    by (metis surj_pair)
  let ?range = "\<lambda>v. 0 \<le> v \<and> v < (2::int) ^ 256"
  show ?thesis
  proof (cases "?range x \<and> ?range y \<and> ?range z \<and> ?range w")
    case False
    then have "add_row C oper \<noteq> Inr row" for row
      by (auto simp: add_row_def oper rbind_ok word_of_int256_ok)
    moreover have "\<not> (in_field (x, y) \<and> in_field (z, w))"
      using False fp_modulus_bounds(2) by (auto simp: in_field_def)
    ultimately show ?thesis by (auto simp: add_op_right_def oper Let_def)
  next
    case True
    let ?p = "point_of_ints x y" and ?q = "point_of_ints z w"
    let ?chip = "\<lparr>ev_p0 = (FP x, FP y), ev_p1 = (FP z, FP w), ev_output = (FP (fst out), FP (snd out))\<rparr>"
    let ?valid = "check_fq x \<and> check_fq y \<and> check_fq z \<and> check_fq w \<and> cv_on_curve C ?p \<and> cv_on_curve C ?q"
    let ?row = "\<lparr>er_op_type = FQ (ec_int EC_Add), er_px = word_of x, er_py = word_of y, er_qx = word_of z, er_qy = word_of w,
      er_input_rlc = FQ 0, er_out_x = FPV (FP (fst out)), er_out_y = FPV (FP (snd out)), er_is_valid = fq_of_bool ?valid,
      er_ecc_chip = Some ?chip, er_pairing_chip = None\<rparr>"
    have row: "add_row C oper = Inr ?row"
      using True by (simp add: add_row_def oper word_of_int256_Inr ecc_assign_def list_at_def ecc_assign_add_def word_of_ok Let_def)
    have "ecc_verify C n new_constraint_system L r ?row = Inr () \<longleftrightarrow>
        (x < fp_modulus \<and> y < fp_modulus \<and> z < fp_modulus \<and> w < fp_modulus) \<and> 1 \<le> max_add_ops L \<and>
        (verify_add C ?chip \<longleftrightarrow> ?valid)"
      using True
      by (simp add: ecc_verify_def ec_int_inject ecc_copy_constraints_def attribute_def FP_mod copied_coordinate
          ecc_verify_add_def rbind_ok Let_def cs_constrain_ok assert_that_ok del: ec_int.simps)
    also have "\<dots> \<longleftrightarrow> 1 \<le> max_add_ops L \<and> add_op_right C oper"
      using True point_of_FP [of "(x, y)"] point_of_FP [of "(z, w)"]
      by (auto simp: add_op_right_def oper Let_def in_field_def check_fq_def verify_add_def output_is_def)
    finally show ?thesis by (simp add: row)
  qed
qed

lemma mul_row_accepts:
  "(\<exists>row. mul_row C oper = Inr row \<and> ecc_verify C n new_constraint_system L r row = Inr ()) \<longleftrightarrow>
     1 \<le> max_mul_ops L \<and> mul_op_right C oper"
proof -
  obtain x y s out where oper: "em_p oper = (x, y)" "em_s oper = s" "em_out oper = out"
    by (metis surj_pair)
  let ?range = "\<lambda>v. 0 \<le> v \<and> v < (2::int) ^ 256"
  show ?thesis
  proof (cases "?range x \<and> ?range y \<and> ?range s")
    case False
    then have "mul_row C oper \<noteq> Inr row" for row
      by (auto simp: mul_row_def oper rbind_ok word_of_int256_ok)
    moreover have "\<not> (in_field (x, y) \<and> 0 \<le> s \<and> s < fp_modulus)"
      using False fp_modulus_bounds(2) by (auto simp: in_field_def)
    ultimately show ?thesis by (auto simp: mul_op_right_def oper Let_def)
  next
    case True
    let ?p = "point_of_ints x y"
    let ?chip = "\<lparr>ev_p0 = (FP x, FP y), ev_p1 = (FP s, FP 0), ev_output = (FP (fst out), FP (snd out))\<rparr>"
    let ?valid = "cv_on_curve C ?p \<and> check_fq x \<and> check_fq y"
    let ?row = "\<lparr>er_op_type = FQ (ec_int EC_Mul), er_px = word_of x, er_py = word_of y, er_qx = word_of s, er_qy = word_of 0,
      er_input_rlc = FQ 0, er_out_x = FPV (FP (fst out)), er_out_y = FPV (FP (snd out)), er_is_valid = fq_of_bool ?valid,
      er_ecc_chip = Some ?chip, er_pairing_chip = None\<rparr>"
    have row: "mul_row C oper = Inr ?row"
      using True by (simp add: mul_row_def oper word_of_int256_Inr ecc_assign_def list_at_def ecc_assign_mul_def word_of_ok Let_def)
    have zero: "copy_word new_constraint_system 0 (word_of 0) = Inr ()" "cs_constrain_zero_word new_constraint_system (word_of 0) = Inr ()"
      by (simp_all add: copy_word_def word_of_int256_Inr cs_constrain_equal_word_def cs_constrain_zero_word_def word_of_0)
    have "ecc_verify C n new_constraint_system L r ?row = Inr () \<longleftrightarrow>
        (x < fp_modulus \<and> y < fp_modulus \<and> s < fp_modulus) \<and> 1 \<le> max_mul_ops L \<and> (verify_mul C ?chip \<longleftrightarrow> ?valid)"
      using True
      by (simp add: ecc_verify_def ec_int_inject ecc_copy_constraints_def attribute_def FP_mod copied_coordinate zero
          ecc_verify_mul_def rbind_ok Let_def cs_constrain_ok assert_that_ok del: ec_int.simps)
    also have "\<dots> \<longleftrightarrow> 1 \<le> max_mul_ops L \<and> mul_op_right C oper"
      using True point_of_FP [of "(x, y)"]
      by (auto simp: mul_op_right_def oper Let_def in_field_def check_fq_def verify_mul_def output_is_def FP_mod)
    finally show ?thesis by (simp add: row)
  qed
qed

lemma rmap_riter:
  "(\<exists>rows. rmap f xs = Inr rows \<and> riter g rows = Inr ()) \<longleftrightarrow> (\<forall>x\<in>set xs. \<exists>row. f x = Inr row \<and> g row = Inr ())"
  by (induction xs) (auto simp: rbind_ok)

lemma riter_append: "riter g (xs @ ys) = rbind (riter g xs) (\<lambda>_. riter g ys)"
  by (induction xs) simp_all

text \<open>
  C32: A curve circuit without pairings is accepted exactly when its limits are at least one
  where there are operations, every coordinate and every scalar is below the modulus of the
  base field, and the output of each operation is the sum or the multiple exactly if its
  points are on the curve: the number of operations does not matter, and a scalar of modulus
  size is refused.
\<close>

theorem ecc_circuit_accepts:
  assumes "pairing_ops circuit = []"
  shows "verify_ecc_circuit C n circuit r = Inr () \<longleftrightarrow>
    (add_ops circuit \<noteq> [] \<longrightarrow> 1 \<le> max_add_ops circuit) \<and> (mul_ops circuit \<noteq> [] \<longrightarrow> 1 \<le> max_mul_ops circuit) \<and>
    list_all (add_op_right C) (add_ops circuit) \<and> list_all (mul_op_right C) (mul_ops circuit)"
proof -
  let ?L = "ecc_limits.truncate circuit"
  let ?v = "ecc_verify C n new_constraint_system ?L r"
  have "verify_ecc_circuit C n circuit r = Inr () \<longleftrightarrow>
      (\<exists>rows. rmap (add_row C) (add_ops circuit) = Inr rows \<and> riter ?v rows = Inr ()) \<and>
      (\<exists>rows. rmap (mul_row C) (mul_ops circuit) = Inr rows \<and> riter ?v rows = Inr ())"
    by (auto simp: verify_ecc_circuit_def circuit2rows_def assms rbind_ok riter_append)
  also have "\<dots> \<longleftrightarrow> (\<forall>oper\<in>set (add_ops circuit). 1 \<le> max_add_ops circuit \<and> add_op_right C oper) \<and>
      (\<forall>oper\<in>set (mul_ops circuit). 1 \<le> max_mul_ops circuit \<and> mul_op_right C oper)"
    unfolding rmap_riter add_row_accepts mul_row_accepts by (simp add: ecc_limits.truncate_def)
  also have "\<dots> \<longleftrightarrow> (add_ops circuit \<noteq> [] \<longrightarrow> 1 \<le> max_add_ops circuit) \<and> (mul_ops circuit \<noteq> [] \<longrightarrow> 1 \<le> max_mul_ops circuit) \<and>
      list_all (add_op_right C) (add_ops circuit) \<and> list_all (mul_op_right C) (mul_ops circuit)"
    by (cases "add_ops circuit"; cases "mul_ops circuit") (auto simp: list_all_iff)
  finally show ?thesis .
qed

text \<open>The trivial group: the point at infinity and the point with coordinates 1 and 2, of order two.\<close>

definition two_points :: "unit curve" where
  "two_points =
     \<lparr>cv_add = (\<lambda>p q. if p = None then q else if q = None then p else None),
      cv_multiply = (\<lambda>p n. if even n then None else p), cv_multiply2 = (\<lambda>p n. None),
      cv_on_curve = (\<lambda>p. p = None \<or> p = Some (FP 1, FP 2)), cv_on_curve2 = (\<lambda>p. p = None),
      cv_eq = (=), cv_pairing = (\<lambda>q p. Inr ()), cv_one = (), cv_times = (\<lambda>_ _. ())\<rparr>"

text \<open>Two additions, with a limit of one, and a multiplication: one output is wrong, and its point is not on the curve.\<close>

lemma ecc_circuit_accepts_witness:
  "verify_ecc_circuit two_points 2
     (append_mul \<lparr>em_p = (1, 2), em_s = 3, em_out = (1, 2)\<rparr>
       (append_add \<lparr>ea_p = (1, 2), ea_q = (1, 2), ea_out = (0, 0)\<rparr>
         (append_add \<lparr>ea_p = (1, 1), ea_q = (0, 0), ea_out = (0, 0)\<rparr> (new_ecc_circuit 1 1 0)))) (FQ 3) = Inr ()"
proof -
  have fp: "FP 1 = Residue 1" "FP 2 = Residue 2" "FP 0 = Residue 0" "3 < fp_modulus"
    by (simp_all add: FP_def fp_modulus_def)
  show ?thesis
    by (subst ecc_circuit_accepts)
      (use fp in \<open>simp_all add: append_mul_def append_add_def new_ecc_circuit_def add_op_right_def mul_op_right_def
        output_is_def two_points_def point_of_ints_def in_field_def pair_of_def Let_def\<close>)
qed

end
