(* ===== verification/Pi_Circuit.thy ===== *)
theory Pi_Circuit
  imports Chips Table Row_Chain
begin

text \<open>
  The constraints of the public input circuit (\<^verbatim>\<open>src/zkevm_specs/pi_circuit.py\<close>): one row per byte of
  the raw public inputs, whose digest is the public input of the proof; beside the bytes the rows
  carry the transaction table with the gas of the call data, and the withdrawal table. The layout
  of the witness is in the theory Pi_Witness.
\<close>

section \<open>Tables and rows\<close>

record pi_tx_row =
  pt_tx_id :: fq
  pt_tag :: fq
  pt_index :: fq
  pt_value :: word_or_value

record pi_withdrawal_row =
  pw_id :: fq
  pw_validator_id :: fq
  pw_address :: word256
  pw_amount :: fq

record calldata_gas_row =
  gr_tx_id :: fq
  gr_is_final :: fq
  gr_gas_cost_acc :: fq

definition fixed_u16_table :: "fq set" where
  "fixed_u16_table = set (map (\<lambda>i. FQ (int i)) [0..<2 ^ 16])"

definition pi_keccak_add :: "hash_fun \<Rightarrow> int list \<Rightarrow> fq \<Rightarrow> keccak_rows \<Rightarrow> keccak_rows result" where
  "pi_keccak_add keccak input keccak_randomness T = keccak_table_add keccak (length input) input keccak_randomness T"

record pi_row =
  pr_q_bytes_last :: fq
  pr_q_tx_table :: fq
  pr_q_tx_calldata :: fq
  pr_q_tx_calldata_start :: fq
  pr_q_rpi_keccak_lookup :: fq
  pr_q_rpi_value_start :: fq
  pr_tx_id_inv :: fq
  pr_tx_value_lo_inv :: fq
  pr_tx_id_diff_inv :: fq
  pr_calldata_gas_cost :: fq
  pr_is_final :: fq
  pr_q_withdrawal_table :: fq
  pr_rpi_bytes :: fq
  pr_rpi_bytes_keccakrlc :: fq
  pr_rpi_value_lc :: fq
  pr_rpi_digest_word :: word256
  pr_q_rpi_byte_enable :: fq
  pr_tx_table :: pi_tx_row
  pr_withdrawal_table :: pi_withdrawal_row

record public_inputs =
  pi_keccak :: word256
  pi_block_hash :: word256
  pi_state_root :: word256
  pi_state_root_prev :: word256

definition byte_pow_base :: fq where "byte_pow_base = FQ 255"
definition evm_rand :: fq where "evm_rand = FQ 255"
definition keccak_rand :: fq where "keccak_rand = FQ 255"

text \<open>The low half of the value column of a row of the transaction table.\<close>

definition pr_value_lo :: "pi_row \<Rightarrow> fq" where
  "pr_value_lo row = lo (wov_word (pt_value (pr_tx_table row)))"

section \<open>The gates\<close>

text \<open>Gates 1 to 4: the two accumulators over the bytes.\<close>

definition pi_byte_gates :: "pi_row \<Rightarrow> pi_row \<Rightarrow> unit result" where
  "pi_byte_gates row row_next =
     rbind (assert_that (pr_q_rpi_byte_enable row * pr_q_bytes_last row *
       (pr_rpi_bytes_keccakrlc row - pr_rpi_bytes row) = 0)) (\<lambda>_.
     rbind (assert_that (pr_q_rpi_byte_enable row * (1 - pr_q_bytes_last row) *
       (pr_rpi_bytes_keccakrlc row - (pr_rpi_bytes_keccakrlc row_next * keccak_rand + pr_rpi_bytes row)) = 0)) (\<lambda>_.
     rbind (assert_that (pr_q_rpi_byte_enable row * (1 - pr_q_rpi_value_start row) *
       (pr_rpi_value_lc row - (pr_rpi_value_lc row_next * byte_pow_base + pr_rpi_bytes row)) = 0)) (\<lambda>_.
     assert_that (pr_q_rpi_byte_enable row * pr_q_rpi_value_start row * (pr_rpi_value_lc row - pr_rpi_bytes row) = 0))))"

text \<open>Gate 5: the digest of the bytes.\<close>

definition pi_digest_gate :: "keccak_rows \<Rightarrow> int \<Rightarrow> pi_row \<Rightarrow> unit result" where
  "pi_digest_gate T circuit_len row =
     rbind (word_select (pr_rpi_digest_word row) (pr_q_rpi_keccak_lookup row)) (\<lambda>selected.
     keccak_table_lookup T (pr_q_rpi_keccak_lookup row) (pr_q_rpi_keccak_lookup row * pr_rpi_bytes_keccakrlc row)
       (pr_q_rpi_keccak_lookup row * FQ circuit_len) selected)"

text \<open>The rows of the call data: consecutive bytes of a transaction, or the first of a later one.\<close>

definition pi_calldata_defaults :: "pi_row \<Rightarrow> pi_row \<Rightarrow> unit result" where
  "pi_calldata_defaults row row_next =
     (let tx_id = pt_tx_id (pr_tx_table row); tx_id_next = pt_tx_id (pr_tx_table row_next);
        is_tx_id_zero = 1 - tx_id * pr_tx_id_inv row in
      rbind (assert_that (tx_id * (1 - pr_tx_id_inv row * tx_id) = 0)) (\<lambda>_.
      rbind (assert_that (pr_value_lo row * (1 - pr_tx_value_lo_inv row * pr_value_lo row) = 0)) (\<lambda>_.
      rbind (assert_that ((tx_id_next - tx_id) * (1 - pr_tx_id_diff_inv row * (tx_id_next - tx_id)) = 0)) (\<lambda>_.
      riter (\<lambda>cons. assert_that (cons = 0))
        [is_tx_id_zero * tx_id, is_tx_id_zero * tx_id_next, is_tx_id_zero * pr_is_final row,
         is_tx_id_zero * pr_calldata_gas_cost row]))))"

definition byte_gas :: "pi_row \<Rightarrow> fq" where
  "byte_gas row =
     (let is_byte_nonzero = pr_value_lo row * pr_tx_value_lo_inv row in
      FQ GAS_COST_TX_CALL_DATA_PER_NON_ZERO_BYTE * is_byte_nonzero +
      FQ GAS_COST_TX_CALL_DATA_PER_ZERO_BYTE * (1 - is_byte_nonzero))"

definition pi_calldata_gates :: "pi_row \<Rightarrow> pi_row \<Rightarrow> unit result" where
  "pi_calldata_gates row row_next =
     (let tx_id = pt_tx_id (pr_tx_table row); tx_id_next = pt_tx_id (pr_tx_table row_next);
        index = pt_index (pr_tx_table row); index_next = pt_index (pr_tx_table row_next);
        is_tx_id_nonzero = tx_id * pr_tx_id_inv row;
        is_tx_id_next_nonzero = tx_id_next * pr_tx_id_inv row_next;
        is_tx_id_next_zero = 1 - is_tx_id_next_nonzero;
        tx_id_not_equal_to_next = (tx_id_next - tx_id) * pr_tx_id_diff_inv row;
        tx_id_equal_to_next = 1 - tx_id_not_equal_to_next;
        gas_cost = byte_gas row; gas_cost_next = byte_gas row_next in
      rbind (pi_calldata_defaults row row_next) (\<lambda>_.
      rbind (lookup (\<lambda>v. v = tx_id_not_equal_to_next * is_tx_id_next_nonzero * (tx_id_next - tx_id - 1)) fixed_u16_table) (\<lambda>_.
      rbind (riter (\<lambda>cons. assert_that (cons = 0))
        [is_tx_id_nonzero * (tx_id_equal_to_next * (index_next - index - 1)),
         is_tx_id_nonzero * ((tx_id_next - tx_id) * index_next),
         is_tx_id_nonzero * (tx_id_equal_to_next * (pr_calldata_gas_cost row_next - pr_calldata_gas_cost row - gas_cost_next)),
         is_tx_id_nonzero * (is_tx_id_next_nonzero * (tx_id_next - tx_id) * (pr_calldata_gas_cost row_next - gas_cost_next)),
         is_tx_id_nonzero * (is_tx_id_next_zero * pr_calldata_gas_cost row_next),
         is_tx_id_nonzero * (tx_id_equal_to_next * pr_is_final row),
         is_tx_id_nonzero * ((tx_id_next - tx_id) * (pr_is_final row - 1))]) (\<lambda>_.
      rbind (assert_that (pr_q_tx_calldata_start row * is_tx_id_nonzero * index = 0)) (\<lambda>_.
      assert_that (pr_q_tx_calldata_start row * is_tx_id_nonzero * (pr_calldata_gas_cost row - gas_cost) = 0))))))"

text \<open>The rows of the transactions: the row after a length of call data holds their gas.\<close>

definition pi_tx_gates :: "calldata_gas_row set \<Rightarrow> pi_row \<Rightarrow> pi_row \<Rightarrow> unit result" where
  "pi_tx_gates calldata_gas_cost_table row row_next =
     (let row_is_cdl = pt_tag (pr_tx_table row) - FQ (tc_int TC_CallDataLength);
        is_calldata_length_row = 1 - row_is_cdl * pr_tx_id_inv row;
        is_calldata_length_nonzero = pr_value_lo row * pr_tx_value_lo_inv row;
        is_calldata_length_zero = 1 - is_calldata_length_nonzero;
        calldata_cost = pr_value_lo row_next;
        query_condition = is_calldata_length_row * is_calldata_length_nonzero in
      rbind (assert_that (row_is_cdl * (1 - pr_tx_id_inv row * row_is_cdl) = 0)) (\<lambda>_.
      rbind (assert_that (pr_value_lo row * (1 - pr_tx_value_lo_inv row * pr_value_lo row) = 0)) (\<lambda>_.
      rbind (assert_that (is_calldata_length_row * is_calldata_length_zero * calldata_cost = 0)) (\<lambda>_.
      rbind (lookup (\<lambda>g. gr_tx_id g = pt_tx_id (pr_tx_table row) * query_condition \<and>
          gr_is_final g = 1 * query_condition \<and> gr_gas_cost_acc g = calldata_cost * query_condition)
        calldata_gas_cost_table) (\<lambda>_. Inr ())))))"

definition pi_withdrawal_gates :: "pi_row \<Rightarrow> pi_row \<Rightarrow> unit result" where
  "pi_withdrawal_gates row row_next =
     rbind (if pr_q_withdrawal_table row_next \<noteq> 0
            then assert_that (pw_id (pr_withdrawal_table row_next) = pw_id (pr_withdrawal_table row) + 1)
            else Inr ()) (\<lambda>_.
     assert_that (pw_amount (pr_withdrawal_table row) \<noteq> 0))"

definition check_pi_row :: "calldata_gas_row set \<Rightarrow> keccak_rows \<Rightarrow> int \<Rightarrow> pi_row \<Rightarrow> pi_row \<Rightarrow> unit result" where
  "check_pi_row calldata_gas_cost_table T circuit_len row row_next =
     rbind (pi_byte_gates row row_next) (\<lambda>_.
     rbind (pi_digest_gate T circuit_len row) (\<lambda>_.
     rbind (if pr_q_tx_calldata row \<noteq> 0 then pi_calldata_gates row row_next else Inr ()) (\<lambda>_.
     rbind (if pr_q_tx_table row \<noteq> 0 then pi_tx_gates calldata_gas_cost_table row row_next else Inr ()) (\<lambda>_.
     if pr_q_withdrawal_table row \<noteq> 0 then pi_withdrawal_gates row row_next else Inr ()))))"

section \<open>The copy constraints\<close>

text \<open>The values still to be copied, taken from the front, each reversed.\<close>

definition pop_le :: "int list list \<Rightarrow> (int list \<times> int list list) result" where
  "pop_le copies = (case copies of [] \<Rightarrow> Inl IndexError | bs # rest \<Rightarrow> Inr (rev bs, rest))"

definition copy_fq :: "fq \<Rightarrow> int list list \<Rightarrow> int list list result" where
  "copy_fq v copies =
     rbind (pop_le copies) (\<lambda>(lo_le, rest).
     rbind (bytes_to_fq lo_le) (\<lambda>l.
     rbind (assert_that (v = l)) (\<lambda>_. Inr rest)))"

definition is_word :: "word_or_value \<Rightarrow> bool" where
  "is_word v = (case v of WordV _ \<Rightarrow> True | ValueV _ \<Rightarrow> False)"

definition copy_value :: "word_or_value \<Rightarrow> int list list \<Rightarrow> int list list result" where
  "copy_value v copies =
     rbind (pop_le copies) (\<lambda>(lo_le, rest).
     rbind (if is_word v then pop_le rest else Inr ([], rest)) (\<lambda>(hi_le, rest').
     rbind (bytes_to_fq lo_le) (\<lambda>l.
     rbind (assert_that (lo (wov_word v) = l)) (\<lambda>_.
     rbind (bytes_to_fq hi_le) (\<lambda>h.
     rbind (assert_that (hi (wov_word v) = h)) (\<lambda>_. Inr rest'))))))"

record pi_tables =
  pi_block_table :: "word_or_value list"
  pi_tx_table :: "pi_tx_row list"
  pi_withdrawal_table :: "pi_withdrawal_row list"
  pi_copy_constrains :: "int list list"

record pi_witness = pi_tables +
  pi_rows :: "pi_row list"
  pi_public_inputs :: public_inputs
  pi_calldata_gas_cost_table :: "calldata_gas_row set"
  pi_keccak_table :: keccak_rows
  pi_circuit_len :: int

definition copy_block_table :: "word_or_value list \<Rightarrow> int list list \<Rightarrow> int list list result" where
  "copy_block_table table copies =
     rfold (\<lambda>rest i. rbind (list_at table i) (\<lambda>v. copy_value v rest)) copies
       [0..<nat (PUBLIC_INPUTS_BLOCK_LEN div 2 + 1)]"

definition copy_roots :: "public_inputs \<Rightarrow> int list list \<Rightarrow> int list list result" where
  "copy_roots p copies =
     rbind (copy_value (WordV (pi_block_hash p)) copies) (\<lambda>rest.
     rbind (copy_value (WordV (pi_state_root p)) rest) (\<lambda>rest.
     copy_value (WordV (pi_state_root_prev p)) rest))"

definition tx_table_len :: "nat \<Rightarrow> nat" where
  "tx_table_len MAX_TXS = nat PUBLIC_INPUTS_TX_LEN * MAX_TXS + 1"

definition copy_tx_table :: "pi_tx_row list \<Rightarrow> nat \<Rightarrow> int list list \<Rightarrow> int list list result" where
  "copy_tx_table table MAX_TXS copies =
     rfold (\<lambda>rest i. rbind (list_at table i) (\<lambda>row.
       rbind (copy_fq (pt_tx_id row) rest) (\<lambda>rest.
       rbind (copy_fq (pt_index row) rest) (\<lambda>rest.
       copy_value (pt_value row) rest)))) copies [0..<tx_table_len MAX_TXS]"

definition copy_calldata :: "pi_tx_row list \<Rightarrow> nat \<Rightarrow> nat \<Rightarrow> int list list \<Rightarrow> int list list result" where
  "copy_calldata table MAX_TXS MAX_CALLDATA_BYTES copies =
     rfold (\<lambda>rest i. rbind (list_at table (tx_table_len MAX_TXS + i)) (\<lambda>row. copy_value (pt_value row) rest)) copies
       [0..<MAX_CALLDATA_BYTES]"

definition copy_withdrawals :: "pi_withdrawal_row list \<Rightarrow> nat \<Rightarrow> int list list \<Rightarrow> int list list result" where
  "copy_withdrawals table MAX_WITHDRAWALS copies =
     rfold (\<lambda>rest i. rbind (list_at table i) (\<lambda>row.
       rbind (copy_fq (pw_id row) rest) (\<lambda>rest.
       rbind (copy_fq (pw_validator_id row) rest) (\<lambda>rest.
       rbind (copy_value (WordV (pw_address row)) rest) (\<lambda>rest.
       copy_fq (pw_amount row) rest))))) copies [0..<MAX_WITHDRAWALS]"

section \<open>The circuit\<close>

definition pi_copies :: "pi_tables \<Rightarrow> public_inputs \<Rightarrow> nat \<Rightarrow> nat \<Rightarrow> nat \<Rightarrow> int list list result" where
  "pi_copies tables p MAX_TXS MAX_CALLDATA_BYTES MAX_WITHDRAWALS =
     rbind (copy_block_table (pi_block_table tables) (pi_copy_constrains tables)) (\<lambda>rest.
     rbind (copy_roots p rest) (\<lambda>rest.
     rbind (copy_tx_table (pi_tx_table tables) MAX_TXS rest) (\<lambda>rest.
     rbind (copy_calldata (pi_tx_table tables) MAX_TXS MAX_CALLDATA_BYTES rest) (\<lambda>rest.
     copy_withdrawals (pi_withdrawal_table tables) MAX_WITHDRAWALS rest))))"

definition verify_pi_circuit :: "pi_witness \<Rightarrow> nat \<Rightarrow> nat \<Rightarrow> nat \<Rightarrow> unit result" where
  "verify_pi_circuit W MAX_TXS MAX_CALLDATA_BYTES MAX_WITHDRAWALS =
     rbind (list_at (pi_rows W) 0) (\<lambda>first.
     rbind (assert_that (pr_rpi_digest_word first = pi_keccak (pi_public_inputs W))) (\<lambda>_.
     rbind (pi_copies (pi_tables.truncate W) (pi_public_inputs W) MAX_TXS MAX_CALLDATA_BYTES MAX_WITHDRAWALS) (\<lambda>_.
     riter (\<lambda>i. check_pi_row (pi_calldata_gas_cost_table W) (pi_keccak_table W) (pi_circuit_len W)
         (pi_rows W ! i) (pi_rows W ! ((i + 1) mod length (pi_rows W))))
       [0..<length (pi_rows W)])))"

end
