(* ===== verification/Pi_Witness.thy ===== *)
theory Pi_Witness
  imports Pi_Circuit Block_Witness
begin

text \<open>
  The layout of the public input circuit (\<^verbatim>\<open>src/zkevm_specs/pi_circuit.py\<close>): the public data of a
  block, the columns and the raw bytes of its tables, and the rows that \<open>public_data2witness\<close> makes
  from them.
\<close>

section \<open>Bytes\<close>

definition be_bytes :: "int \<Rightarrow> nat \<Rightarrow> int list result" where
  "be_bytes v n = rbind (to_bytes_le v n) (\<lambda>bs. Inr (rev bs))"

text \<open>\<open>Word(v).to_lo_hi()\<close>, each half as 16 big-endian bytes.\<close>

definition word_raw :: "int \<Rightarrow> (int list \<times> int list) result" where
  "word_raw v =
     rbind (word_of_int256 v) (\<lambda>w.
     rbind (be_bytes (fq_n (lo w)) 16) (\<lambda>l.
     rbind (be_bytes (fq_n (hi w)) 16) (\<lambda>h. Inr (l, h))))"

text \<open>A list of raw values, built from computations of one or more of them.\<close>

definition raw_list :: "int list list result list \<Rightarrow> int list list result" where
  "raw_list parts = rbind (rmap (\<lambda>x. x) parts) (\<lambda>xs. Inr (concat xs))"

definition raw_one :: "int \<Rightarrow> nat \<Rightarrow> int list list result" where
  "raw_one v n = rbind (be_bytes v n) (\<lambda>bs. Inr [bs])"

definition raw_word :: "int \<Rightarrow> int list list result" where
  "raw_word v = rbind (word_raw v) (\<lambda>(l, h). Inr [l, h])"

section \<open>Public data\<close>

record pi_block =
  pb_hash :: int
  pb_parent_hash :: int
  pb_uncle_hash :: int
  pb_coinbase :: int
  pb_state_root :: int
  pb_tx_hash :: int
  pb_receipt_hash :: int
  pb_bloom :: "int list"
  pb_prev_randao :: int
  pb_number :: int
  pb_gas_limit :: int
  pb_gas_used :: int
  pb_time :: int
  pb_extra :: "int list"
  pb_mix_digest :: int
  pb_nonce :: int
  pb_base_fee :: int
  pb_withdrawals_root :: int

record pi_transaction =
  pq_nonce :: int
  pq_gas_price :: int
  pq_gas :: int
  pq_from_addr :: int
  pq_to_addr :: "int option"
  pq_value :: int
  pq_data :: "int list"
  pq_tx_sign_hash :: int

definition default_pi_transaction :: pi_transaction where
  "default_pi_transaction =
     \<lparr>pq_nonce = 0, pq_gas_price = 0, pq_gas = 0, pq_from_addr = 0, pq_to_addr = Some 0, pq_value = 0, pq_data = [],
      pq_tx_sign_hash = 0\<rparr>"

text \<open>\<open>to_addr or 0\<close>\<close>

definition to_addr_or_0 :: "pi_transaction \<Rightarrow> int" where
  "to_addr_or_0 tx = (case pq_to_addr tx of None \<Rightarrow> 0 | Some a \<Rightarrow> a)"

definition pi_call_data_gas_cost :: "int list \<Rightarrow> int" where
  "pi_call_data_gas_cost data =
     (\<Sum>byte\<leftarrow>data. if byte = 0 then GAS_COST_TX_CALL_DATA_PER_ZERO_BYTE else GAS_COST_TX_CALL_DATA_PER_NON_ZERO_BYTE)"

definition tx_table_value_column :: "pi_transaction \<Rightarrow> word_or_value list result" where
  "tx_table_value_column tx =
     rmap (\<lambda>x. x)
       [as_value (pq_nonce tx), as_value (pq_gas tx), as_word (pq_gas_price tx), as_value (pq_from_addr tx),
        as_value (to_addr_or_0 tx), as_value (if pq_to_addr tx = None then 1 else 0), as_word (pq_value tx),
        as_value (int (length (pq_data tx))), as_value (pi_call_data_gas_cost (pq_data tx)),
        as_word (pq_tx_sign_hash tx)]"

definition append_raw_byte_with_id_index :: "int \<Rightarrow> int list list result \<Rightarrow> int list list result" where
  "append_raw_byte_with_id_index tx_id vals = raw_list [raw_one tx_id 8, raw_one 0 8, vals]"

definition tx_raw_bytes :: "pi_transaction \<Rightarrow> int \<Rightarrow> int list list result" where
  "tx_raw_bytes tx tx_id =
     raw_list (map (append_raw_byte_with_id_index tx_id)
       [raw_one (pq_nonce tx) 8, raw_one (pq_gas tx) 8, raw_word (pq_gas_price tx), raw_one (pq_from_addr tx) 20,
        raw_one (to_addr_or_0 tx) 20, raw_one (if pq_to_addr tx = None then 1 else 0) 8, raw_word (pq_value tx),
        raw_one (int (length (pq_data tx))) 8, raw_one (pi_call_data_gas_cost (pq_data tx)) 8,
        raw_word (pq_tx_sign_hash tx)])"

type_synonym tx_cols = "fq list \<times> fq list \<times> word_or_value list"

definition tx_table_tx_fields :: "pi_transaction \<Rightarrow> int \<Rightarrow> tx_cols result" where
  "tx_table_tx_fields tx tx_id =
     rbind (tx_table_value_column tx) (\<lambda>value_col.
     rbind (assert_that (int (length value_col) = PUBLIC_INPUTS_TX_LEN)) (\<lambda>_.
     Inr (replicate (nat PUBLIC_INPUTS_TX_LEN) (FQ (tx_id + 1)), replicate (nat PUBLIC_INPUTS_TX_LEN) (FQ 0), value_col)))"

record pi_withdrawal =
  pv_id :: int
  pv_validator_id :: int
  pv_address :: int
  pv_amount :: int

definition default_pi_withdrawal :: pi_withdrawal where
  "default_pi_withdrawal = \<lparr>pv_id = 0, pv_validator_id = 0, pv_address = 0, pv_amount = 0\<rparr>"

definition withdrawal_raw_bytes :: "pi_withdrawal \<Rightarrow> int \<Rightarrow> int list list result" where
  "withdrawal_raw_bytes w ident =
     raw_list [raw_one ident 8, raw_one (pv_validator_id w) 8, raw_word (pv_address w), raw_one (pv_amount w) 8]"

record public_data =
  pd_chain_id :: int
  pd_block :: pi_block
  pd_state_root_prev :: int
  pd_block_hashes :: "int list"
  pd_txs :: "pi_transaction list"
  pd_withdrawals :: "pi_withdrawal list"

section \<open>Columns and raw bytes\<close>

definition block_table_value_column :: "public_data \<Rightarrow> word_or_value list result" where
  "block_table_value_column d =
     (let b = pd_block d in
      rbind (rmap (\<lambda>x. x)
        [as_value 0, as_value (pb_coinbase b), as_value (pb_gas_limit b), as_value (pb_number b), as_value (pb_time b),
         as_word (pb_prev_randao b), as_word (pb_base_fee b), as_value (pd_chain_id d), as_word (pb_withdrawals_root b)]) (\<lambda>fields.
      rbind (assert_that (length (pd_block_hashes d) = 256)) (\<lambda>_.
      rbind (rmap as_word (pd_block_hashes d)) (\<lambda>hashes. Inr (fields @ hashes)))))"

definition block_table_raw_byte_values :: "public_data \<Rightarrow> int list list result" where
  "block_table_raw_byte_values d =
     (let b = pd_block d in
      rbind (raw_list
        [raw_one 0 1, raw_one (pb_coinbase b) 20, raw_one (pb_gas_limit b) 8, raw_one (pb_number b) 8,
         raw_one (pb_time b) 8, raw_word (pb_prev_randao b), raw_word (pb_base_fee b), raw_one (pd_chain_id d) 8,
         raw_word (pb_withdrawals_root b)]) (\<lambda>fields.
      rbind (assert_that (length (pd_block_hashes d) = 256)) (\<lambda>_.
      rbind (raw_list (map raw_word (pd_block_hashes d))) (\<lambda>hashes. Inr (fields @ hashes)))))"

definition withdrawal_at :: "public_data \<Rightarrow> nat \<Rightarrow> pi_withdrawal" where
  "withdrawal_at d i = (if i < length (pd_withdrawals d) then pd_withdrawals d ! i else default_pi_withdrawal)"

definition withdrawal_table_raw_bytes :: "public_data \<Rightarrow> nat \<Rightarrow> int list list result" where
  "withdrawal_table_raw_bytes d MAX_WITHDRAWALS =
     rbind (assert_that (0 < length (pd_withdrawals d))) (\<lambda>_.
     rbind (assert_that (length (pd_withdrawals d) \<le> MAX_WITHDRAWALS)) (\<lambda>_.
     raw_list (map (\<lambda>i. withdrawal_raw_bytes (withdrawal_at d i) (int i)) [0..<MAX_WITHDRAWALS])))"

definition withdrawal_table_cols :: "public_data \<Rightarrow> nat \<Rightarrow> pi_withdrawal_row list result" where
  "withdrawal_table_cols d MAX_WITHDRAWALS =
     rbind (assert_that (length (pd_withdrawals d) \<le> MAX_WITHDRAWALS)) (\<lambda>_.
     rmap (\<lambda>i. let w = withdrawal_at d i in
         rbind (word_of_int256 (pv_address w)) (\<lambda>address.
         Inr \<lparr>pw_id = FQ (pv_id w), pw_validator_id = FQ (pv_validator_id w), pw_address = address,
              pw_amount = FQ (pv_amount w)\<rparr>))
       [0..<MAX_WITHDRAWALS])"

definition tx_at :: "public_data \<Rightarrow> nat \<Rightarrow> pi_transaction" where
  "tx_at d i = (if i < length (pd_txs d) then pd_txs d ! i else default_pi_transaction)"

definition tx_table_raw_bytes :: "public_data \<Rightarrow> nat \<Rightarrow> int list list result" where
  "tx_table_raw_bytes d MAX_TXS =
     rbind (assert_that (0 < length (pd_txs d))) (\<lambda>_.
     rbind (assert_that (length (pd_txs d) \<le> MAX_TXS)) (\<lambda>_.
     raw_list ([raw_one 0 8, raw_one 0 8, raw_one 0 1] @ map (\<lambda>i. tx_raw_bytes (tx_at d i) (int i + 1)) [0..<MAX_TXS])))"

definition tx_table_calldata_raw_bytes :: "public_data \<Rightarrow> nat \<Rightarrow> int list list result" where
  "tx_table_calldata_raw_bytes d MAX_CALLDATA_BYTES =
     (let bytes = concat (map pq_data (pd_txs d)) in
      rbind (raw_list (map (\<lambda>byte. raw_one byte 1) bytes)) (\<lambda>raw.
      rbind (assert_that (length bytes \<le> MAX_CALLDATA_BYTES)) (\<lambda>_.
      Inr (raw @ replicate (MAX_CALLDATA_BYTES - length bytes) [0]))))"

definition tx_table_tx_cols :: "public_data \<Rightarrow> nat \<Rightarrow> tx_cols result" where
  "tx_table_tx_cols d MAX_TXS =
     rbind (assert_that (length (pd_txs d) \<le> MAX_TXS)) (\<lambda>_.
     rfold (\<lambda>(ids, idxs, vals) i.
         rbind (tx_table_tx_fields (tx_at d i) (int i)) (\<lambda>(tx_id_col, index_col, value_col).
         Inr (ids @ tx_id_col, idxs @ index_col, vals @ value_col)))
       ([], [], []) [0..<MAX_TXS])"

text \<open>
  The rows of the call data of one transaction, with the gas spent so far and the flag of the last
  byte: id, index, value, gas and flag.
\<close>

type_synonym calldata_col = "fq \<times> fq \<times> word_or_value \<times> fq \<times> fq"

definition calldata_rows :: "nat \<Rightarrow> int list \<Rightarrow> calldata_col list" where
  "calldata_rows i data =
     map (\<lambda>byte_index. (FQ (int i + 1), FQ (int byte_index), ValueV (FQ (data ! byte_index)),
         FQ (pi_call_data_gas_cost (take (Suc byte_index) data)), FQ (if byte_index = length data - 1 then 1 else 0)))
       [0..<length data]"

definition tx_table_tx_calldata_cols :: "public_data \<Rightarrow> nat \<Rightarrow> calldata_col list result" where
  "tx_table_tx_calldata_cols d MAX_CALLDATA_BYTES =
     (let rows = concat (map (\<lambda>i. calldata_rows i (pq_data (pd_txs d ! i))) [0..<length (pd_txs d)]) in
      rbind (assert_that (length rows \<le> MAX_CALLDATA_BYTES)) (\<lambda>_.
      Inr (rows @ replicate (MAX_CALLDATA_BYTES - length rows) (FQ 0, FQ 0, ValueV (FQ 0), FQ 0, FQ 0))))"

definition tx_table_cols :: "public_data \<Rightarrow> nat \<Rightarrow> nat \<Rightarrow> tx_cols result" where
  "tx_table_cols d MAX_TXS MAX_CALLDATA_BYTES =
     rbind (tx_table_tx_cols d MAX_TXS) (\<lambda>(ids, idxs, vals).
     rbind (tx_table_tx_calldata_cols d MAX_CALLDATA_BYTES) (\<lambda>cd.
     Inr (FQ 0 # ids @ map fst cd, FQ 0 # idxs @ map (fst \<circ> snd) cd,
          ValueV (FQ 0) # vals @ map (fst \<circ> snd \<circ> snd) cd)))"

section \<open>Sizes\<close>

definition N_BYTES_ONE :: int where "N_BYTES_ONE = 1"
definition N_BYTES_TX :: int where "N_BYTES_TX = 176"
definition N_BYTES_WITHDRAWAL :: int where "N_BYTES_WITHDRAWAL = 56"
definition N_BYTES_BLOCK :: int where "N_BYTES_BLOCK = 20 + 8 + 8 + 8 + 32 + 32 + 8 + 32 + 32 * 256"
definition N_BYTES_EXTRA_VALUE :: int where "N_BYTES_EXTRA_VALUE = int N_BYTES_WORD * 3"

definition flatten_len :: "int list list \<Rightarrow> int" where
  "flatten_len a = int (length (concat a))"

section \<open>The rows\<close>

text \<open>
  What the loop over the bytes reads: the columns of the tables, and the position from which each
  kind of row starts. Rows are made from the last to the first, \<open>i\<close> counting down.
\<close>

record pi_columns =
  co_circuit_len :: int
  co_MAX_TXS :: nat
  co_MAX_CALLDATA_BYTES :: nat
  co_MAX_WITHDRAWALS :: nat
  co_block_values :: "word_or_value list"
  co_block_hash :: word256
  co_state_root :: word256
  co_state_root_prev :: word256
  co_tx_cols :: tx_cols
  co_calldata :: "calldata_col list"
  co_withdrawals :: "pi_withdrawal_row list"

text \<open>Tags over the rows of the transactions: ten in a cycle.\<close>

definition pi_tag :: "nat \<Rightarrow> int \<Rightarrow> fq" where
  "pi_tag MAX_TXS i =
     (if i = 0 then FQ 0
      else if i < int (tx_table_len MAX_TXS)
      then if i mod PUBLIC_INPUTS_TX_LEN = 0 then FQ PUBLIC_INPUTS_TX_LEN else FQ (i mod PUBLIC_INPUTS_TX_LEN)
      else FQ (tc_int TC_CallData))"

definition empty_pi_row :: pi_row where
  "empty_pi_row =
     \<lparr>pr_q_bytes_last = FQ 0, pr_q_tx_table = FQ 0, pr_q_tx_calldata = FQ 0, pr_q_tx_calldata_start = FQ 0,
      pr_q_rpi_keccak_lookup = FQ 0, pr_q_rpi_value_start = FQ 0, pr_tx_id_inv = FQ 0, pr_tx_value_lo_inv = FQ 0,
      pr_tx_id_diff_inv = FQ 0, pr_calldata_gas_cost = FQ 0, pr_is_final = FQ 0, pr_q_withdrawal_table = FQ 0,
      pr_rpi_bytes = FQ 0, pr_rpi_bytes_keccakrlc = FQ 0, pr_rpi_value_lc = FQ 0, pr_rpi_digest_word = WordLH 0 0,
      pr_q_rpi_byte_enable = FQ 1,
      pr_tx_table = \<lparr>pt_tx_id = FQ 0, pt_tag = FQ 0, pt_index = FQ 0, pt_value = ValueV (FQ 0)\<rparr>,
      pr_withdrawal_table = \<lparr>pw_id = FQ 0, pw_validator_id = FQ 0, pw_address = WordLH 0 0, pw_amount = FQ 0\<rparr>\<rparr>"

record pi_layout =
  ly_i :: int
  ly_rlc :: fq
  ly_value_lc :: fq
  ly_rows :: "pi_row list"
  ly_block_table :: "word_or_value list"
  ly_tx_table :: "pi_tx_row list"
  ly_withdrawals :: "pi_withdrawal_row list"
  ly_gas_table :: "calldata_gas_row list"

text \<open>The columns of the bytes.\<close>

definition layout_byte :: "pi_columns \<Rightarrow> pi_layout \<Rightarrow> nat \<times> int \<Rightarrow> pi_row" where
  "layout_byte c s b =
     (case b of (byte_index, byte) \<Rightarrow>
      empty_pi_row\<lparr>
        pr_q_bytes_last := FQ (if ly_rows s = [] then 1 else 0),
        pr_q_rpi_keccak_lookup := FQ (if ly_i s = 0 then 1 else 0),
        pr_q_rpi_value_start := FQ (if byte_index = 0 then 1 else 0),
        pr_rpi_bytes := FQ byte,
        pr_rpi_bytes_keccakrlc :=
          (if ly_i s = co_circuit_len c - 1 then FQ byte else ly_rlc s * keccak_rand + FQ byte),
        pr_rpi_value_lc := (if byte_index = 0 then FQ byte else ly_value_lc s * byte_pow_base + FQ byte)\<rparr>)"

text \<open>The block table: the values of the block, and after them the three roots.\<close>

definition layout_block :: "pi_columns \<Rightarrow> int \<Rightarrow> word_or_value list result" where
  "layout_block c i =
     rbind (if i < PUBLIC_INPUTS_BLOCK_LEN div 2 + 1
            then rbind (assert_that (i < int (length (co_block_values c)))) (\<lambda>_.
              rbind (list_at (co_block_values c) (nat i)) (\<lambda>v. Inr [v]))
            else Inr []) (\<lambda>values.
     Inr (values @
       (if i = PUBLIC_INPUTS_BLOCK_LEN div 2 + 1 then [WordV (co_block_hash c)] else []) @
       (if i = PUBLIC_INPUTS_BLOCK_LEN div 2 + 2 then [WordV (co_state_root c)] else []) @
       (if i = PUBLIC_INPUTS_BLOCK_LEN div 2 + 3 then [WordV (co_state_root_prev c)] else [])))"

text \<open>
  The transaction table and the call data: the row with these columns, the rows for the table and
  for the table of the gas.
\<close>

definition layout_tx ::
  "(int \<Rightarrow> int \<Rightarrow> int) \<Rightarrow> pi_columns \<Rightarrow> int \<Rightarrow> pi_row \<Rightarrow> (pi_row \<times> pi_tx_row list \<times> calldata_gas_row list) result" where
  "layout_tx prime_field_inv c i row =
     (let table_len = int (tx_table_len (co_MAX_TXS c)); all_len = table_len + int (co_MAX_CALLDATA_BYTES c) in
      if i \<ge> all_len then Inr (row, [], []) else
      case co_tx_cols c of (ids, idxs, vals) \<Rightarrow>
      rbind (list_at ids (nat i)) (\<lambda>tx_id.
      rbind (list_at idxs (nat i)) (\<lambda>index.
      rbind (list_at vals (nat i)) (\<lambda>v.
      let tag = pi_tag (co_MAX_TXS c) i;
        tx_row = \<lparr>pt_tx_id = tx_id, pt_tag = tag, pt_index = index, pt_value = v\<rparr>;
        value_inv = fq_inv prime_field_inv (lo (wov_word v)) in
      if i < table_len
      then Inr (row\<lparr>pr_q_tx_table := FQ 1, pr_tx_id_inv := fq_inv prime_field_inv (tag - FQ (tc_int TC_CallDataLength)),
          pr_tx_value_lo_inv := value_inv, pr_tx_table := tx_row\<rparr>, [tx_row], [])
      else
        rbind (if i < all_len - 1 then list_at ids (nat (i + 1)) else Inr (FQ 0)) (\<lambda>tx_id_next.
        rbind (list_at (co_calldata c) (nat (i - table_len))) (\<lambda>(_, _, _, gas, final).
        Inr (row\<lparr>pr_q_tx_calldata := FQ 1, pr_q_tx_calldata_start := FQ (if i = table_len then 1 else 0),
            pr_tx_id_inv := fq_inv prime_field_inv tx_id, pr_tx_value_lo_inv := value_inv,
            pr_tx_id_diff_inv := fq_inv prime_field_inv (tx_id_next - tx_id), pr_calldata_gas_cost := gas,
            pr_is_final := final, pr_tx_table := tx_row\<rparr>,
          [tx_row], [\<lparr>gr_tx_id = tx_id, gr_is_final = final, gr_gas_cost_acc = gas\<rparr>])))))))"

definition layout_withdrawal :: "pi_columns \<Rightarrow> int \<Rightarrow> pi_row \<Rightarrow> (pi_row \<times> pi_withdrawal_row list) result" where
  "layout_withdrawal c i row =
     (let start = int (tx_table_len (co_MAX_TXS c)) + int (co_MAX_CALLDATA_BYTES c) in
      if i \<ge> start \<and> i < start + int (co_MAX_WITHDRAWALS c)
      then rbind (list_at (co_withdrawals c) (nat (i - start))) (\<lambda>wd_row.
        Inr (row\<lparr>pr_q_withdrawal_table := FQ 1, pr_withdrawal_table := wd_row\<rparr>, [wd_row]))
      else Inr (row, []))"

definition layout_step :: "(int \<Rightarrow> int \<Rightarrow> int) \<Rightarrow> pi_columns \<Rightarrow> pi_layout \<Rightarrow> nat \<times> int \<Rightarrow> pi_layout result" where
  "layout_step prime_field_inv c s b =
     (let row = layout_byte c s b in
      rbind (layout_block c (ly_i s)) (\<lambda>block_values.
      rbind (layout_tx prime_field_inv c (ly_i s) row) (\<lambda>(row, tx_rows, gas_rows).
      rbind (layout_withdrawal c (ly_i s) row) (\<lambda>(row, wd_rows).
      Inr \<lparr>ly_i = ly_i s - 1, ly_rlc = pr_rpi_bytes_keccakrlc row, ly_value_lc = pr_rpi_value_lc row,
           ly_rows = ly_rows s @ [row], ly_block_table = ly_block_table s @ block_values,
           ly_tx_table = ly_tx_table s @ tx_rows, ly_withdrawals = ly_withdrawals s @ wd_rows,
           ly_gas_table = ly_gas_table s @ gas_rows\<rparr>))))"

section \<open>The witness\<close>

text \<open>The raw values, with the length of the circuit that they have to have.\<close>

definition raw_public_inputs :: "public_data \<Rightarrow> nat \<Rightarrow> nat \<Rightarrow> nat \<Rightarrow> (int list list \<times> int) result" where
  "raw_public_inputs d MAX_TXS MAX_CALLDATA_BYTES MAX_WITHDRAWALS =
     rbind (block_table_raw_byte_values d) (\<lambda>block_raw.
     rbind (raw_list [raw_word (pb_hash (pd_block d)), raw_word (pb_state_root (pd_block d)),
       raw_word (pd_state_root_prev d)]) (\<lambda>extra_raw.
     rbind (assert_that (flatten_len (block_raw @ extra_raw) = N_BYTES_ONE + N_BYTES_BLOCK + N_BYTES_EXTRA_VALUE)) (\<lambda>_.
     rbind (tx_table_raw_bytes d MAX_TXS) (\<lambda>tx_raw.
     let circuit_len = N_BYTES_ONE + N_BYTES_BLOCK + N_BYTES_EXTRA_VALUE +
         int N_BYTES_U64 * PUBLIC_INPUTS_TX_LEN * int MAX_TXS + int N_BYTES_U64 +
         int N_BYTES_U64 * PUBLIC_INPUTS_TX_LEN * int MAX_TXS + int N_BYTES_U64 +
         N_BYTES_TX * int MAX_TXS + N_BYTES_ONE in
     rbind (assert_that (flatten_len (block_raw @ extra_raw @ tx_raw) = circuit_len)) (\<lambda>_.
     rbind (tx_table_calldata_raw_bytes d MAX_CALLDATA_BYTES) (\<lambda>calldata_raw.
     let circuit_len = circuit_len + int MAX_CALLDATA_BYTES in
     rbind (assert_that (flatten_len (block_raw @ extra_raw @ tx_raw @ calldata_raw) = circuit_len)) (\<lambda>_.
     rbind (withdrawal_table_raw_bytes d MAX_WITHDRAWALS) (\<lambda>withdrawal_raw.
     let circuit_len = circuit_len + N_BYTES_WITHDRAWAL * int MAX_WITHDRAWALS;
       raw = block_raw @ extra_raw @ tx_raw @ calldata_raw @ withdrawal_raw in
     rbind (assert_that (flatten_len raw = circuit_len)) (\<lambda>_.
     Inr (raw, circuit_len))))))))))"

text \<open>The bytes from the last value to the first, each with its place in its value.\<close>

definition layout_bytes :: "int list list \<Rightarrow> (nat \<times> int) list" where
  "layout_bytes raw = concat (map (\<lambda>v. zip [0..<length v] v) (rev raw))"

definition pi_columns_of :: "public_data \<Rightarrow> int \<Rightarrow> nat \<Rightarrow> nat \<Rightarrow> nat \<Rightarrow> pi_columns result" where
  "pi_columns_of d circuit_len MAX_TXS MAX_CALLDATA_BYTES MAX_WITHDRAWALS =
     rbind (block_table_value_column d) (\<lambda>block_values.
     rbind (tx_table_cols d MAX_TXS MAX_CALLDATA_BYTES) (\<lambda>cols.
     rbind (tx_table_tx_calldata_cols d MAX_CALLDATA_BYTES) (\<lambda>cd.
     rbind (withdrawal_table_cols d MAX_WITHDRAWALS) (\<lambda>wds.
     rbind (word_of_int256 (pb_hash (pd_block d))) (\<lambda>h.
     rbind (word_of_int256 (pb_state_root (pd_block d))) (\<lambda>root.
     rbind (word_of_int256 (pd_state_root_prev d)) (\<lambda>prev.
     Inr \<lparr>co_circuit_len = circuit_len, co_MAX_TXS = MAX_TXS, co_MAX_CALLDATA_BYTES = MAX_CALLDATA_BYTES,
          co_MAX_WITHDRAWALS = MAX_WITHDRAWALS, co_block_values = block_values, co_block_hash = h, co_state_root = root,
          co_state_root_prev = prev, co_tx_cols = cols, co_calldata = cd, co_withdrawals = wds\<rparr>)))))))"

definition new_layout :: "int \<Rightarrow> pi_layout" where
  "new_layout circuit_len =
     \<lparr>ly_i = circuit_len - 1, ly_rlc = FQ 0, ly_value_lc = FQ 0, ly_rows = [], ly_block_table = [], ly_tx_table = [],
      ly_withdrawals = [], ly_gas_table = [\<lparr>gr_tx_id = FQ 0, gr_is_final = FQ 0, gr_gas_cost_acc = FQ 0\<rparr>]\<rparr>"

definition public_data2witness ::
  "(int \<Rightarrow> int \<Rightarrow> int) \<Rightarrow> hash_fun \<Rightarrow> public_data \<Rightarrow> nat \<Rightarrow> nat \<Rightarrow> nat \<Rightarrow> pi_witness result" where
  "public_data2witness prime_field_inv keccak d MAX_TXS MAX_CALLDATA_BYTES MAX_WITHDRAWALS =
     rbind (raw_public_inputs d MAX_TXS MAX_CALLDATA_BYTES MAX_WITHDRAWALS) (\<lambda>(raw, circuit_len).
     rbind (pi_columns_of d circuit_len MAX_TXS MAX_CALLDATA_BYTES MAX_WITHDRAWALS) (\<lambda>c.
     rbind (rfold (layout_step prime_field_inv c) (new_layout circuit_len) (layout_bytes raw)) (\<lambda>s.
     let rpi_bytes = map snd (layout_bytes raw); output_digest = keccak rpi_bytes in
     rbind (assert_that (length output_digest = 32)) (\<lambda>_.
     rbind (word_of_bytes output_digest) (\<lambda>digest.
     rbind (list_at (rev (ly_rows s)) 0) (\<lambda>first.
     rbind (pi_keccak_add keccak rpi_bytes keccak_rand new_keccak_table) (\<lambda>T.
     Inr \<lparr>pi_block_table = rev (ly_block_table s), pi_tx_table = rev (ly_tx_table s),
          pi_withdrawal_table = rev (ly_withdrawals s), pi_copy_constrains = raw,
          pi_rows = first\<lparr>pr_rpi_digest_word := digest\<rparr> # tl (rev (ly_rows s)),
          pi_public_inputs = \<lparr>pi_keccak = digest, pi_block_hash = co_block_hash c, pi_state_root = co_state_root c,
            pi_state_root_prev = co_state_root_prev c\<rparr>,
          pi_calldata_gas_cost_table = set (ly_gas_table s), pi_keccak_table = T,
          pi_circuit_len = circuit_len\<rparr>)))))))"

end
