(* ===== verification/Pi_Facts.thy ===== *)
theory Pi_Facts
  imports Pi_Witness Tx_Circuit_Facts
begin

text \<open>
  What the public input circuit enforces of its rows whatever they are: the digest covers their
  bytes.
\<close>

section \<open>The digest\<close>

text \<open>The fixed columns: every row holds a byte, the last one starts the combination, the first looks it up.\<close>

definition pi_selectors :: "pi_row list \<Rightarrow> bool" where
  "pi_selectors rows \<longleftrightarrow>
     (\<forall>i<length rows. pr_q_rpi_byte_enable (rows ! i) = 1 \<and>
        pr_q_bytes_last (rows ! i) = fq_of_bool (i = length rows - 1) \<and>
        pr_q_rpi_keccak_lookup (rows ! i) = fq_of_bool (i = 0))"

inductive pi_keccak_built :: "hash_fun \<Rightarrow> int list set \<Rightarrow> keccak_rows \<Rightarrow> bool" for keccak where
  pi_built_new: "pi_keccak_built keccak {} new_keccak_table"
| pi_built_add: "pi_keccak_built keccak inputs T \<Longrightarrow> pi_keccak_add keccak input keccak_rand T = Inr T' \<Longrightarrow>
    pi_keccak_built keccak (insert input inputs) T'"

lemma pi_keccak_built_row:
  "pi_keccak_built keccak inputs T \<Longrightarrow> (e, c, len, out) \<in> T \<Longrightarrow> e = 1 \<Longrightarrow>
    \<exists>input\<in>inputs. \<exists>v. RLC_of_bytes (rev input) keccak_rand (length input) = Inr v \<and> c = rlc_value v \<and>
      len = FQ (int (length input)) \<and> word_of_bytes (keccak input) = Inr out"
proof (induction rule: pi_keccak_built.induct)
  case pi_built_new
  then show ?case by (simp add: new_keccak_table_def)
next
  case (pi_built_add inputs T input T')
  from pi_built_add.hyps(2) obtain v w where "RLC_of_bytes (rev input) keccak_rand (length input) = Inr v"
    "word_of_bytes (keccak input) = Inr w" "T' = insert (FQ 1, rlc_value v, FQ (int (length input)), w) T"
    by (auto simp: pi_keccak_add_def keccak_table_add_def rbind_ok)
  then show ?case using pi_built_add by auto
qed

definition bytes_combined :: "pi_row list \<Rightarrow> fq" where
  "bytes_combined rows = foldr (\<lambda>row acc. acc * keccak_rand + pr_rpi_bytes row) rows 0"

lemma accumulated_bytes:
  assumes "pi_selectors rows" "\<And>i. i < length rows \<Longrightarrow> pi_byte_gates (rows ! i) (rows ! ((i + 1) mod length rows)) = Inr ()"
    and "i < length rows"
  shows "pr_rpi_bytes_keccakrlc (rows ! i) = bytes_combined (drop i rows)"
  using assms(3)
proof (induction "length rows - Suc i" arbitrary: i)
  case 0
  then have i: "i = length rows - 1" "drop i rows = [rows ! i]"
    using Cons_nth_drop_Suc [OF 0(2)] by simp_all
  then show ?case
    using assms(1) assms(2) [OF 0(2)] 0(2) by (simp add: pi_selectors_def pi_byte_gates_def bytes_combined_def ok_simps)
next
  case (Suc k)
  then have i: "Suc i < length rows" by simp
  then have "pr_rpi_bytes_keccakrlc (rows ! i) = pr_rpi_bytes_keccakrlc (rows ! Suc i) * keccak_rand + pr_rpi_bytes (rows ! i)"
    using assms(1) assms(2) [of i] by (simp add: pi_selectors_def pi_byte_gates_def ok_simps)
  also have "pr_rpi_bytes_keccakrlc (rows ! Suc i) = bytes_combined (drop (Suc i) rows)"
    using Suc i by simp
  finally show ?case
    using Cons_nth_drop_Suc [of i rows] i by (simp add: bytes_combined_def flip: Cons_nth_drop_Suc)
qed

lemma pi_accepted:
  assumes "verify_pi_circuit W t c w = Inr ()"
  shows "pi_rows W \<noteq> []" "pr_rpi_digest_word (pi_rows W ! 0) = pi_keccak (pi_public_inputs W)"
    and "\<And>i. i < length (pi_rows W) \<Longrightarrow>
      check_pi_row (pi_calldata_gas_cost_table W) (pi_keccak_table W) (pi_circuit_len W) (pi_rows W ! i)
        (pi_rows W ! ((i + 1) mod length (pi_rows W))) = Inr ()"
  using assms by (auto simp: verify_pi_circuit_def ok_simps)

text \<open>
  C37: In an accepted public input circuit whose rows have the fixed columns, over a Keccak
  table built by its own add, the digest among the public inputs is the hash of an input
  whose linear combination is that of the bytes of the rows and whose length is the claimed
  one.
\<close>

theorem pi_digest_sound:
  assumes "verify_pi_circuit W t c w = Inr ()" "pi_selectors (pi_rows W)"
    and "pi_keccak_built keccak inputs (pi_keccak_table W)"
  shows "\<exists>input\<in>inputs. \<exists>v. word_of_bytes (keccak input) = Inr (pi_keccak (pi_public_inputs W)) \<and>
    RLC_of_bytes (rev input) keccak_rand (length input) = Inr v \<and> rlc_value v = bytes_combined (pi_rows W) \<and>
    FQ (int (length input)) = FQ (pi_circuit_len W)"
proof -
  note acc = pi_accepted [OF assms(1)]
  have gates: "pi_byte_gates (pi_rows W ! i) (pi_rows W ! ((i + 1) mod length (pi_rows W))) = Inr ()"
    if "i < length (pi_rows W)" for i
    using acc(3) [OF that] by (auto simp: check_pi_row_def ok_simps)
  have zero: "0 < length (pi_rows W)" using acc(1) by simp
  have rlc: "pr_rpi_bytes_keccakrlc (pi_rows W ! 0) = bytes_combined (pi_rows W)"
    using accumulated_bytes [OF assms(2) gates zero] by simp
  have "pi_digest_gate (pi_keccak_table W) (pi_circuit_len W) (pi_rows W ! 0) = Inr ()"
    using acc(3) [OF zero] by (auto simp: check_pi_row_def ok_simps)
  moreover have "pr_q_rpi_keccak_lookup (pi_rows W ! 0) = 1" using assms(2) zero by (simp add: pi_selectors_def)
  ultimately have "(1, bytes_combined (pi_rows W), FQ (pi_circuit_len W), pi_keccak (pi_public_inputs W)) \<in> pi_keccak_table W"
    by (auto simp: pi_digest_gate_def ok_simps select_1 acc(2) rlc)
  from pi_keccak_built_row [OF assms(3) this] show ?thesis by fastforce
qed

section \<open>A circuit of one row\<close>

text \<open>The single byte 7 and tables of zeros, with the index of the empty transaction row to be chosen.\<close>

definition one_byte_row :: "word256 \<Rightarrow> pi_row" where
  "one_byte_row digest =
     empty_pi_row\<lparr>pr_q_bytes_last := 1, pr_q_rpi_keccak_lookup := 1, pr_q_rpi_value_start := 1, pr_rpi_bytes := FQ 7,
       pr_rpi_bytes_keccakrlc := FQ 7, pr_rpi_value_lc := FQ 7, pr_rpi_digest_word := digest\<rparr>"

definition one_byte_witness :: "int \<Rightarrow> word256 \<Rightarrow> keccak_rows \<Rightarrow> pi_witness" where
  "one_byte_witness k digest T =
     \<lparr>pi_block_table = replicate 265 (ValueV 0),
      pi_tx_table = [\<lparr>pt_tx_id = 0, pt_tag = 0, pt_index = FQ k, pt_value = ValueV 0\<rparr>], pi_withdrawal_table = [],
      pi_copy_constrains = replicate 265 [] @ replicate 6 [] @ [[], [k], []], pi_rows = [one_byte_row digest],
      pi_public_inputs = \<lparr>pi_keccak = digest, pi_block_hash = WordLH 0 0, pi_state_root = WordLH 0 0,
        pi_state_root_prev = WordLH 0 0\<rparr>,
      pi_calldata_gas_cost_table = {}, pi_keccak_table = T, pi_circuit_len = 1\<rparr>"

lemma copy_zero: "copy_value (ValueV 0) ([] # rest) = Inr rest" "copy_value (WordV (WordLH 0 0)) ([] # [] # rest) = Inr rest"
  by (simp_all add: copy_value_def pop_le_def is_word_def bytes_to_fq_def)

lemma copy_zeros:
  "list_all (\<lambda>i. i < m) is \<Longrightarrow>
    rfold (\<lambda>rest i. rbind (list_at (replicate m (ValueV 0)) i) (\<lambda>v. copy_value v rest)) (replicate (length is) [] @ rest) is = Inr rest"
  by (induction "is") (simp_all add: list_at_def copy_zero)

lemma one_byte_keccak:
  obtains T w where "pi_keccak_add one_hash [7] keccak_rand new_keccak_table = Inr T" "word_of_bytes (one_hash [7]) = Inr w"
    "(1, FQ 7, 1, w) \<in> T" "word_ok w"
proof -
  obtain w where w: "word_of_bytes (one_hash [7]) = Inr w" by (simp add: word_of_bytes_def one_hash_def bytes_to_fq_def)
  moreover have "word_ok w" using word_of_bytes_word_ok [OF w] by (simp add: one_hash_def is_byte_def list_all_iff)
  moreover have "RLC_of_bytes [7] keccak_rand 1 = Inr \<lparr>rlc_int_value = 7, rlc_value = FQ 7, rlc_le_bytes = [7]\<rparr>"
    by (simp add: RLC_of_bytes_def fq_modulus_def)
  ultimately show ?thesis
    using that [of "insert (1, FQ 7, 1, w) new_keccak_table" w] by (simp add: pi_keccak_add_def keccak_table_add_def)
qed

lemma one_byte_accepted:
  assumes "(1, FQ 7, 1, w) \<in> T" "word_ok w" "0 \<le> k" "k < 256"
  shows "verify_pi_circuit (one_byte_witness k w T) 0 0 0 = Inr ()"
proof -
  have "copy_block_table (replicate 265 (ValueV 0)) (replicate 265 [] @ rest) = Inr rest" for rest
    using copy_zeros [of 265 "[0..<265]" rest] by (simp add: copy_block_table_def list_all_iff del: upt_Suc)
  moreover have "copy_fq 0 ([] # rest) = Inr rest" "copy_fq (FQ k) ([k] # rest) = Inr rest" for rest
    by (simp_all add: copy_fq_def pop_le_def bytes_to_fq_def)
  moreover have "check_pi_row {} T 1 (one_byte_row w) (one_byte_row w) = Inr ()"
    using assms(1) select_1 [of w w] assms(2)
    by (simp add: check_pi_row_def pi_byte_gates_def pi_digest_gate_def one_byte_row_def empty_pi_row_def keccak_table_lookup_def)
  ultimately show ?thesis
    by (simp add: verify_pi_circuit_def one_byte_witness_def list_at_def one_byte_row_def pi_copies_def copy_roots_def copy_zero
        copy_tx_table_def tx_table_len_def copy_calldata_def copy_withdrawals_def pi_tables.truncate_def numeral_eq_Suc)
qed

lemma pi_digest_sound_witness:
  "\<exists>W. verify_pi_circuit W 0 0 0 = Inr () \<and> word_of_bytes (one_hash [7]) = Inr (pi_keccak (pi_public_inputs W)) \<and>
     bytes_combined (pi_rows W) = FQ 7"
proof -
  obtain T w where T: "pi_keccak_add one_hash [7] keccak_rand new_keccak_table = Inr T" "word_of_bytes (one_hash [7]) = Inr w"
    "(1, FQ 7, 1, w) \<in> T" "word_ok w"
    by (rule one_byte_keccak)
  have run: "verify_pi_circuit (one_byte_witness 0 w T) 0 0 0 = Inr ()" by (rule one_byte_accepted [OF T(3,4)]) simp_all
  have sel: "pi_selectors (pi_rows (one_byte_witness 0 w T))"
    by (simp add: pi_selectors_def one_byte_witness_def one_byte_row_def empty_pi_row_def)
  have "pi_keccak_built one_hash {[7]} (pi_keccak_table (one_byte_witness 0 w T))"
    using pi_built_add [OF pi_built_new T(1)] by (simp add: one_byte_witness_def)
  from pi_digest_sound [OF run sel this] run show ?thesis
    by (intro exI [of _ "one_byte_witness 0 w T"]) (auto simp: one_byte_witness_def bytes_combined_def one_byte_row_def)
qed

end
