(* ===== verification/Pi_Layout.thy ===== *)
theory Pi_Layout
  imports Pi_Facts
begin

text \<open>
  The layout of the public input circuit succeeds: for public data in range every raw value has its
  size, the lengths asserted on the way hold, and the loop over the bytes finds its columns.
\<close>

section \<open>Data in range\<close>

definition fits :: "nat \<Rightarrow> int \<Rightarrow> bool" where
  "fits n v \<longleftrightarrow> 0 \<le> v \<and> v < 256 ^ n"

definition pi_block_ok :: "pi_block \<Rightarrow> bool" where
  "pi_block_ok b \<longleftrightarrow> fits 20 (pb_coinbase b) \<and> list_all (fits 8) [pb_gas_limit b, pb_number b, pb_time b] \<and>
     list_all (fits 32) [pb_prev_randao b, pb_base_fee b, pb_withdrawals_root b, pb_hash b, pb_state_root b]"

definition pi_tx_ok :: "pi_transaction \<Rightarrow> bool" where
  "pi_tx_ok tx \<longleftrightarrow>
     list_all (fits 8) [pq_nonce tx, pq_gas tx, int (length (pq_data tx)), pi_call_data_gas_cost (pq_data tx)] \<and>
     list_all (fits 20) [pq_from_addr tx, to_addr_or_0 tx] \<and>
     list_all (fits 32) [pq_gas_price tx, pq_value tx, pq_tx_sign_hash tx] \<and> list_all is_byte (pq_data tx)"

definition pi_withdrawal_ok :: "pi_withdrawal \<Rightarrow> bool" where
  "pi_withdrawal_ok w \<longleftrightarrow> list_all (fits 8) [pv_validator_id w, pv_amount w] \<and> fits 32 (pv_address w)"

definition public_data_ok :: "public_data \<Rightarrow> nat \<Rightarrow> nat \<Rightarrow> nat \<Rightarrow> bool" where
  "public_data_ok d t c w \<longleftrightarrow>
     pi_block_ok (pd_block d) \<and> fits 8 (pd_chain_id d) \<and> fits 32 (pd_state_root_prev d) \<and>
     length (pd_block_hashes d) = 256 \<and> list_all (fits 32) (pd_block_hashes d) \<and>
     0 < length (pd_txs d) \<and> length (pd_txs d) \<le> t \<and> fits 8 (int t) \<and> list_all pi_tx_ok (pd_txs d) \<and>
     length (concat (map pq_data (pd_txs d))) \<le> c \<and>
     0 < length (pd_withdrawals d) \<and> length (pd_withdrawals d) \<le> w \<and> fits 8 (int w) \<and>
     list_all pi_withdrawal_ok (pd_withdrawals d)"

section \<open>Computations that succeed\<close>

lemma rmap_total:
  "(\<And>x. x \<in> set xs \<Longrightarrow> \<exists>y. f x = Inr y) \<Longrightarrow> \<exists>ys. rmap f xs = Inr ys \<and> length ys = length xs"
proof (induction xs)
  case (Cons x xs)
  then obtain y ys where "f x = Inr y" "rmap f xs = Inr ys" "length ys = length xs" by (metis list.set_intros)
  then show ?case by simp
qed simp

lemma rfold_total:
  assumes "P 0 s" "\<And>k s. k < length xs \<Longrightarrow> P k s \<Longrightarrow> \<exists>t. f s (xs ! k) = Inr t \<and> P (Suc k) t"
  shows "\<exists>t. rfold f s xs = Inr t \<and> P (length xs) t"
  using assms
proof (induction xs arbitrary: P s)
  case (Cons x xs)
  obtain u where "f s x = Inr u" "P (Suc 0) u" using Cons.prems(1) Cons.prems(2) [of 0 s] by auto
  moreover have "\<exists>t. rfold f u xs = Inr t \<and> P (Suc (length xs)) t"
    using calculation(2) Cons.prems(2) [of "Suc _"] by (intro Cons.IH [of "\<lambda>k. P (Suc k)"]) auto
  ultimately show ?case by simp
qed simp

text \<open>A computation of raw values with \<open>n\<close> bytes.\<close>

definition raw_ok :: "int list list result \<Rightarrow> int \<Rightarrow> bool" where
  "raw_ok m n \<longleftrightarrow> (\<exists>xs. m = Inr xs \<and> flatten_len xs = n \<and> list_all is_byte (concat xs))"

lemma flatten_len_simps [simp]:
  "flatten_len [] = 0" "flatten_len (x # xs) = int (length x) + flatten_len xs" "flatten_len (xs @ ys) = flatten_len xs + flatten_len ys"
  by (simp_all add: flatten_len_def)

lemma be_bytes_fits: "fits n v \<Longrightarrow> be_bytes v n = Inr (rev (le_bytes n v))"
  by (simp add: be_bytes_def to_bytes_le_def fits_def)

lemma le_bytes_all: "list_all is_byte (le_bytes n v)"
  by (induction n arbitrary: v) simp_all

lemma raw_one_ok: "fits n v \<Longrightarrow> raw_ok (raw_one v n) (int n)"
  using le_bytes_all by (simp add: raw_ok_def raw_one_def be_bytes_fits list_all_rev del: le_bytes.simps)

lemma raw_word_ok:
  assumes "fits 32 v"
  shows "raw_ok (raw_word v) 32"
proof -
  have v: "0 \<le> v" "v < 2 ^ 256" using assms by (simp_all add: fits_def)
  have "fits 16 (fq_n (lo (word_of v)))" "fits 16 (fq_n (hi (word_of v)))"
    using word_of_ok [OF v] by (simp_all add: fits_def word_ok_def)
  note halves = this [THEN be_bytes_fits]
  have "raw_word v = Inr [rev (le_bytes 16 (fq_n (lo (word_of v)))), rev (le_bytes 16 (fq_n (hi (word_of v))))]"
    using v by (simp add: raw_word_def word_raw_def word_of_int256_Inr halves del: le_bytes.simps)
  then show ?thesis using le_bytes_all by (simp add: raw_ok_def list_all_rev del: le_bytes.simps)
qed

lemma raw_list_nil: "raw_ok (raw_list []) 0"
  by (simp add: raw_ok_def raw_list_def)

lemma raw_list_cons: "raw_ok p a \<Longrightarrow> raw_ok (raw_list ps) b \<Longrightarrow> m = a + b \<Longrightarrow> raw_ok (raw_list (p # ps)) m"
  by (auto simp: raw_ok_def raw_list_def rbind_ok)

lemma raw_list_map:
  "(\<And>x. x \<in> set xs \<Longrightarrow> raw_ok (f x) n) \<Longrightarrow> m = n * int (length xs) \<Longrightarrow> raw_ok (raw_list (map f xs)) m"
proof (induction xs arbitrary: m)
  case (Cons x xs)
  have "raw_ok (raw_list (map f xs)) (n * int (length xs))" using Cons by simp
  then show ?case using raw_list_cons [of "f x" n "map f xs" "n * int (length xs)" m] Cons.prems by (simp add: algebra_simps)
qed (simp add: raw_list_nil)

lemma fits_small: "0 \<le> v \<Longrightarrow> v < 256 \<Longrightarrow> 0 < n \<Longrightarrow> fits n v"
  unfolding fits_def by (cases n) (auto intro: order.strict_trans2 [of v 256])

lemma raw_ok_size: "raw_ok p m \<Longrightarrow> m = n \<Longrightarrow> raw_ok p n"
  by simp

lemmas raw_intros = raw_list_cons [OF _ _ refl] raw_list_nil raw_one_ok raw_word_ok

section \<open>The raw values\<close>

lemma raw_append:
  assumes "fits 8 i" "raw_ok vals n"
  shows "raw_ok (append_raw_byte_with_id_index i vals) (16 + n)"
  unfolding append_raw_byte_with_id_index_def
  by (rule raw_ok_size, (rule raw_intros assms | (simp add: fits_def; fail))+)

lemma raw_tx:
  assumes "pi_tx_ok tx" "fits 8 i"
  shows "raw_ok (tx_raw_bytes tx i) 336"
  unfolding tx_raw_bytes_def list.map
  by (rule raw_ok_size, (rule raw_intros raw_append assms(2) |
      (use assms(1) in \<open>simp add: pi_tx_ok_def fits_def; fail\<close>))+)

lemma raw_withdrawal:
  assumes "pi_withdrawal_ok v" "fits 8 i"
  shows "raw_ok (withdrawal_raw_bytes v i) 56"
  unfolding withdrawal_raw_bytes_def
  by (rule raw_ok_size, (rule raw_intros assms(2) |
      (use assms(1) in \<open>simp add: pi_withdrawal_ok_def fits_def; fail\<close>))+)

lemma tx_at_ok:
  assumes "public_data_ok d t c w"
  shows "pi_tx_ok (tx_at d i)"
proof -
  have "pi_tx_ok default_pi_transaction"
    by (simp add: pi_tx_ok_def default_pi_transaction_def fits_def pi_call_data_gas_cost_def to_addr_or_0_def)
  then show ?thesis using assms by (auto simp: tx_at_def public_data_ok_def list_all_length)
qed

lemma withdrawal_at_ok:
  assumes "public_data_ok d t c w"
  shows "pi_withdrawal_ok (withdrawal_at d i)"
proof -
  have "pi_withdrawal_ok default_pi_withdrawal" by (simp add: pi_withdrawal_ok_def default_pi_withdrawal_def fits_def)
  then show ?thesis using assms by (auto simp: withdrawal_at_def public_data_ok_def list_all_length)
qed

lemma raw_block:
  assumes "public_data_ok d t c w"
  shows "raw_ok (block_table_raw_byte_values d) 8341"
proof -
  note ok = assms [unfolded public_data_ok_def pi_block_ok_def, simplified]
  have "raw_ok (raw_list [raw_one 0 1, raw_one (pb_coinbase (pd_block d)) 20, raw_one (pb_gas_limit (pd_block d)) 8,
      raw_one (pb_number (pd_block d)) 8, raw_one (pb_time (pd_block d)) 8, raw_word (pb_prev_randao (pd_block d)),
      raw_word (pb_base_fee (pd_block d)), raw_one (pd_chain_id d) 8, raw_word (pb_withdrawals_root (pd_block d))]) 149"
    by (rule raw_ok_size, (rule raw_intros | (use ok in \<open>simp add: fits_def; fail\<close>))+)
  moreover have "raw_ok (raw_list (map raw_word (pd_block_hashes d))) 8192"
    using ok by (intro raw_list_map [where n = 32] raw_word_ok) (auto simp: list_all_iff)
  ultimately show ?thesis
    using ok by (auto simp: block_table_raw_byte_values_def Let_def raw_ok_def assert_that_def raise_unless_def)
qed

lemma raw_txs:
  assumes "public_data_ok d t c w"
  shows "raw_ok (tx_table_raw_bytes d t) (17 + 336 * int t)"
proof -
  have t: "fits 8 (int t)" "0 < length (pd_txs d)" "length (pd_txs d) \<le> t" using assms by (auto simp: public_data_ok_def)
  have "raw_ok (raw_list (map (\<lambda>i. tx_raw_bytes (tx_at d i) (int i + 1)) [0..<t])) (336 * int t)"
    using t(1) by (intro raw_list_map [where n = 336] raw_tx tx_at_ok [OF assms]) (auto simp: fits_def)
  note rows = this
  have "raw_ok (raw_list ([raw_one 0 8, raw_one 0 8, raw_one 0 1] @ map (\<lambda>i. tx_raw_bytes (tx_at d i) (int i + 1)) [0..<t])) (17 + 336 * int t)"
    unfolding append.simps by (rule raw_ok_size, (rule rows raw_intros | (simp add: fits_def; fail))+)
  then show ?thesis using t by (simp add: tx_table_raw_bytes_def assert_that_def raise_unless_def)
qed

lemma raw_calldata:
  assumes "public_data_ok d t c w"
  shows "raw_ok (tx_table_calldata_raw_bytes d c) (int c)"
proof -
  let ?bs = "concat (map pq_data (pd_txs d))"
  have ok: "length ?bs \<le> c" "list_all pi_tx_ok (pd_txs d)" using assms by (auto simp: public_data_ok_def)
  have "raw_ok (raw_list (map (\<lambda>byte. raw_one byte 1) ?bs)) (int (length ?bs))"
    using ok(2) by (intro raw_list_map [where n = 1] raw_ok_size [OF raw_one_ok]) (auto simp: list_all_iff pi_tx_ok_def is_byte_def fits_def)
  moreover have "flatten_len (replicate n [0]) = int n" "list_all is_byte (concat (replicate n [0]))" for n
    by (induction n) (simp_all add: is_byte_def)
  ultimately show ?thesis
    using ok(1) by (auto simp: tx_table_calldata_raw_bytes_def Let_def raw_ok_def assert_that_def raise_unless_def)
qed

lemma raw_withdrawals:
  assumes "public_data_ok d t c w"
  shows "raw_ok (withdrawal_table_raw_bytes d w) (56 * int w)"
proof -
  have w: "fits 8 (int w)" "0 < length (pd_withdrawals d)" "length (pd_withdrawals d) \<le> w"
    using assms by (auto simp: public_data_ok_def)
  have "raw_ok (raw_list (map (\<lambda>i. withdrawal_raw_bytes (withdrawal_at d i) (int i)) [0..<w])) (56 * int w)"
    using w(1) by (intro raw_list_map [where n = 56] raw_withdrawal withdrawal_at_ok [OF assms]) (auto simp: fits_def)
  then show ?thesis using w by (simp add: withdrawal_table_raw_bytes_def assert_that_def raise_unless_def)
qed

lemma raw_public_inputs_total:
  assumes "public_data_ok d t c w"
  obtains raw where "raw_public_inputs d t c w = Inr (raw, flatten_len raw)" "list_all is_byte (concat raw)"
proof -
  have words: "fits 32 (pb_hash (pd_block d))" "fits 32 (pb_state_root (pd_block d))" "fits 32 (pd_state_root_prev d)"
    using assms by (simp_all add: public_data_ok_def pi_block_ok_def)
  have "raw_ok (raw_list [raw_word (pb_hash (pd_block d)), raw_word (pb_state_root (pd_block d)), raw_word (pd_state_root_prev d)]) 96"
    by (rule raw_ok_size, (rule raw_intros words)+) simp
  with raw_block [OF assms] raw_txs [OF assms] raw_calldata [OF assms] raw_withdrawals [OF assms]
  obtain b e x cd wd where parts: "block_table_raw_byte_values d = Inr b"
    "raw_list [raw_word (pb_hash (pd_block d)), raw_word (pb_state_root (pd_block d)), raw_word (pd_state_root_prev d)] = Inr e"
    "tx_table_raw_bytes d t = Inr x" "tx_table_calldata_raw_bytes d c = Inr cd" "withdrawal_table_raw_bytes d w = Inr wd"
    and len: "flatten_len b = 8341" "flatten_len e = 96" "flatten_len x = 17 + 336 * int t" "flatten_len cd = int c"
      "flatten_len wd = 56 * int w"
    and bytes: "list_all is_byte (concat (b @ e @ x @ cd @ wd))"
    unfolding raw_ok_def by (elim exE conjE) simp
  note sizes = N_BYTES_ONE_def N_BYTES_BLOCK_def N_BYTES_EXTRA_VALUE_def N_BYTES_TX_def N_BYTES_WITHDRAWAL_def
  have "raw_public_inputs d t c w = Inr (b @ e @ x @ cd @ wd, flatten_len (b @ e @ x @ cd @ wd))"
    unfolding raw_public_inputs_def parts by (simp add: Let_def sizes len assert_that_def raise_unless_def)
  then show ?thesis using that bytes by blast
qed

section \<open>The columns\<close>

lemma as_word_total: "fits 32 v \<Longrightarrow> \<exists>x. as_word v = Inr x"
  by (simp add: as_word_def fits_def word_of_int256_Inr)

lemma as_value_total: "\<exists>x. as_value v = Inr x"
  by (simp add: as_value_def)

lemma block_values_total:
  assumes "public_data_ok d t c w"
  shows "\<exists>vs. block_table_value_column d = Inr vs \<and> length vs = 265"
proof -
  note ok = assms [unfolded public_data_ok_def pi_block_ok_def, simplified]
  let ?b = "pd_block d"
  obtain x y z where "as_word (pb_prev_randao ?b) = Inr x" "as_word (pb_base_fee ?b) = Inr y" "as_word (pb_withdrawals_root ?b) = Inr z"
    using ok as_word_total [of "pb_prev_randao ?b"] as_word_total [of "pb_base_fee ?b"] as_word_total [of "pb_withdrawals_root ?b"] by auto
  moreover have "\<exists>ys. rmap as_word (pd_block_hashes d) = Inr ys \<and> length ys = 256"
    using rmap_total [of "pd_block_hashes d" as_word] ok by (auto simp: list_all_iff as_word_total)
  ultimately show ?thesis
    using ok by (auto simp: block_table_value_column_def as_value_def Let_def assert_that_def raise_unless_def)
qed

lemma tx_fields_total:
  assumes "pi_tx_ok tx"
  shows "\<exists>vs. tx_table_tx_fields tx i = Inr (replicate 10 (FQ (i + 1)), replicate 10 (FQ 0), vs) \<and> length vs = 10"
proof -
  obtain x y z where "as_word (pq_gas_price tx) = Inr x" "as_word (pq_value tx) = Inr y" "as_word (pq_tx_sign_hash tx) = Inr z"
    using assms as_word_total [of "pq_gas_price tx"] as_word_total [of "pq_value tx"] as_word_total [of "pq_tx_sign_hash tx"]
    by (auto simp: pi_tx_ok_def)
  then show ?thesis
    by (simp add: tx_table_tx_fields_def tx_table_value_column_def as_value_def assert_that_def raise_unless_def)
qed

definition tx_cols_len :: "tx_cols \<Rightarrow> nat \<Rightarrow> bool" where
  "tx_cols_len cols n \<longleftrightarrow> (case cols of (ids, idxs, vals) \<Rightarrow> length ids = n \<and> length idxs = n \<and> length vals = n)"

lemma tx_cols_total:
  assumes "public_data_ok d t c w"
  shows "\<exists>cols. tx_table_tx_cols d t = Inr cols \<and> tx_cols_len cols (10 * t)"
proof -
  have "\<exists>cols. rfold (\<lambda>(ids, idxs, vals) i. rbind (tx_table_tx_fields (tx_at d i) (int i)) (\<lambda>(tx_id_col, index_col, value_col).
         Inr (ids @ tx_id_col, idxs @ index_col, vals @ value_col))) ([], [], []) [0..<t] = Inr cols \<and>
      tx_cols_len cols (10 * length [0..<t])"
  proof (rule rfold_total [where P = "\<lambda>k cols. tx_cols_len cols (10 * k)"])
    fix k s
    assume "k < length [0..<t]" "tx_cols_len s (10 * k)"
    then show "\<exists>u. (\<lambda>(ids, idxs, vals) i. rbind (tx_table_tx_fields (tx_at d i) (int i)) (\<lambda>(tx_id_col, index_col, value_col).
         Inr (ids @ tx_id_col, idxs @ index_col, vals @ value_col))) s ([0..<t] ! k) = Inr u \<and> tx_cols_len u (10 * Suc k)"
      using tx_fields_total [OF tx_at_ok [OF assms, of k], of "int k"] by (auto simp: tx_cols_len_def)
  qed (simp add: tx_cols_len_def)
  moreover have "length (pd_txs d) \<le> t" using assms by (simp add: public_data_ok_def)
  ultimately show ?thesis by (simp add: tx_table_tx_cols_def assert_that_def raise_unless_def)
qed

lemma map_nth_all: "map (\<lambda>i. f (xs ! i)) [0..<length xs] = map f xs"
  by (rule nth_equalityI) simp_all

lemma calldata_total:
  assumes "public_data_ok d t c w"
  shows "\<exists>cd. tx_table_tx_calldata_cols d c = Inr cd \<and> length cd = c"
proof -
  have "length (concat (map (\<lambda>i. calldata_rows i (pq_data (pd_txs d ! i))) [0..<length (pd_txs d)])) =
      sum_list (map (\<lambda>i. length (pq_data (pd_txs d ! i))) [0..<length (pd_txs d)])"
    by (simp add: length_concat calldata_rows_def comp_def)
  also have "\<dots> = length (concat (map pq_data (pd_txs d)))"
    by (simp add: length_concat comp_def map_nth_all [where f = "\<lambda>tx. length (pq_data tx)"])
  also have "\<dots> \<le> c" using assms by (simp add: public_data_ok_def)
  finally show ?thesis by (simp add: tx_table_tx_calldata_cols_def Let_def assert_that_def raise_unless_def)
qed

lemma withdrawal_cols_total:
  assumes "public_data_ok d t c w"
  shows "\<exists>wds. withdrawal_table_cols d w = Inr wds \<and> length wds = w"
proof -
  have address: "\<exists>x. word_of_int256 (pv_address (withdrawal_at d i)) = Inr x" for i
    using withdrawal_at_ok [OF assms, of i] by (simp add: pi_withdrawal_ok_def fits_def word_of_int256_Inr)
  have "\<exists>wds. rmap (\<lambda>i. let w = withdrawal_at d i in
         rbind (word_of_int256 (pv_address w)) (\<lambda>address.
         Inr \<lparr>pw_id = FQ (pv_id w), pw_validator_id = FQ (pv_validator_id w), pw_address = address,
              pw_amount = FQ (pv_amount w)\<rparr>)) [0..<w] = Inr wds \<and> length wds = length [0..<w]"
  proof (rule rmap_total)
    fix i
    obtain x where "word_of_int256 (pv_address (withdrawal_at d i)) = Inr x" using address by blast
    then show "\<exists>y. (let w = withdrawal_at d i in
         rbind (word_of_int256 (pv_address w)) (\<lambda>address.
         Inr \<lparr>pw_id = FQ (pv_id w), pw_validator_id = FQ (pv_validator_id w), pw_address = address,
              pw_amount = FQ (pv_amount w)\<rparr>)) = Inr y"
      by (simp add: Let_def)
  qed
  then show ?thesis using assms by (simp add: withdrawal_table_cols_def public_data_ok_def assert_that_def raise_unless_def)
qed

text \<open>The columns have a value for every position that the loop reads.\<close>

definition columns_fit :: "pi_columns \<Rightarrow> bool" where
  "columns_fit co \<longleftrightarrow> 265 \<le> length (co_block_values co) \<and>
     tx_cols_len (co_tx_cols co) (tx_table_len (co_MAX_TXS co) + co_MAX_CALLDATA_BYTES co) \<and>
     length (co_calldata co) = co_MAX_CALLDATA_BYTES co \<and> length (co_withdrawals co) = co_MAX_WITHDRAWALS co"

lemma pi_columns_total:
  assumes "public_data_ok d t c w"
  obtains co where "pi_columns_of d n t c w = Inr co" "columns_fit co"
proof -
  obtain vs cols cd wds where cols: "block_table_value_column d = Inr vs" "length vs = 265" "tx_table_tx_cols d t = Inr cols"
    "tx_cols_len cols (10 * t)" "tx_table_tx_calldata_cols d c = Inr cd" "length cd = c"
    "withdrawal_table_cols d w = Inr wds" "length wds = w"
    using block_values_total [OF assms] tx_cols_total [OF assms] calldata_total [OF assms] withdrawal_cols_total [OF assms] by blast
  obtain h r p where words: "word_of_int256 (pb_hash (pd_block d)) = Inr h" "word_of_int256 (pb_state_root (pd_block d)) = Inr r"
    "word_of_int256 (pd_state_root_prev d) = Inr p"
    using assms by (simp add: public_data_ok_def pi_block_ok_def fits_def word_of_int256_Inr)
  obtain ids idxs vals where split: "cols = (ids, idxs, vals)" by (metis prod_cases3)
  show ?thesis
    using that cols
    by (simp add: pi_columns_of_def tx_table_cols_def split words columns_fit_def tx_cols_len_def tx_table_len_def)
qed

lemma layout_step_total:
  fixes s :: pi_layout
  assumes "columns_fit co" "0 \<le> ly_i s"
  shows "\<exists>u. layout_step pfi co s b = Inr u \<and> ly_i u = ly_i s - 1"
proof -
  let ?i = "ly_i s"
  have "\<exists>vs. layout_block co ?i = Inr vs"
    using assms by (auto simp: layout_block_def columns_fit_def list_at_def assert_that_def raise_unless_def)
  moreover have "\<exists>row tx_rows gas_rows. layout_tx pfi co ?i r = Inr (row, tx_rows, gas_rows)" for r
    using assms by (auto simp: layout_tx_def columns_fit_def tx_cols_len_def list_at_def Let_def nat_less_iff split: prod.splits)
  moreover have "\<exists>row wd_rows. layout_withdrawal co ?i r = Inr (row, wd_rows)" for r
    using assms by (auto simp: layout_withdrawal_def columns_fit_def list_at_def Let_def nat_less_iff)
  ultimately obtain vs row txs gas row' wds where "layout_block co ?i = Inr vs"
    "layout_tx pfi co ?i (layout_byte co s b) = Inr (row, txs, gas)" "layout_withdrawal co ?i row = Inr (row', wds)" by metis
  then show ?thesis by (simp add: layout_step_def)
qed

lemma layout_total:
  assumes "columns_fit co" "n = int (length bs)"
  obtains s where "rfold (layout_step pfi co) (new_layout n) bs = Inr s"
proof -
  have "\<exists>s. rfold (layout_step pfi co) (new_layout n) bs = Inr s \<and> ly_i s = n - 1 - int (length bs)"
  proof (rule rfold_total [where P = "\<lambda>k (s :: pi_layout). ly_i s = n - 1 - int k"])
    fix k and s :: pi_layout
    assume "k < length bs" "ly_i s = n - 1 - int k"
    then show "\<exists>u. layout_step pfi co s (bs ! k) = Inr u \<and> ly_i u = n - 1 - int (Suc k)"
      using layout_step_total [OF assms(1), of s pfi "bs ! k"] assms(2) by auto
  qed (simp add: new_layout_def)
  then show ?thesis using that by blast
qed

end
