(* ===== verification/Pi_Built.thy ===== *)
theory Pi_Built
  imports Pi_Layout
begin

text \<open>
  The rows that the layout of the public input circuit makes: it succeeds for data in range, its
  rows have the fixed columns, the bytes of the raw public inputs and the withdrawals, and the places
  that a block leaves without a withdrawal are refused.
\<close>

section \<open>The rows that the layout makes\<close>

lemma rfold_steps:
  "rfold f s xs = Inr t \<Longrightarrow> \<exists>g. g 0 = s \<and> g (length xs) = t \<and> (\<forall>k<length xs. f (g k) (xs ! k) = Inr (g (Suc k)))"
proof (induction xs arbitrary: s)
  case (Cons x xs)
  then obtain u where u: "f s x = Inr u" "rfold f u xs = Inr t" by (auto simp: rbind_ok)
  then obtain g where "g 0 = u" "g (length xs) = t" "\<forall>k<length xs. f (g k) (xs ! k) = Inr (g (Suc k))"
    using Cons.IH by blast
  with u(1) show ?case by (intro exI [of _ "case_nat s g"]) (auto split: nat.splits)
qed auto

definition withdrawals_start :: "pi_columns \<Rightarrow> int" where
  "withdrawals_start c = int (tx_table_len (co_MAX_TXS c)) + int (co_MAX_CALLDATA_BYTES c)"

text \<open>What a step adds: one row, with the fixed columns of its place and, in its range, a withdrawal.\<close>

lemma layout_step_row:
  assumes "layout_step pfi c s b = Inr t"
  obtains row where "ly_rows t = ly_rows s @ [row]" "ly_i t = ly_i s - 1"
    and "pr_q_bytes_last row = fq_of_bool (ly_rows s = [])" "pr_q_rpi_keccak_lookup row = fq_of_bool (ly_i s = 0)"
      "pr_q_rpi_byte_enable row = 1" "pr_rpi_bytes row = FQ (snd b)"
    and "withdrawals_start c \<le> ly_i s \<Longrightarrow> ly_i s < withdrawals_start c + int (co_MAX_WITHDRAWALS c) \<Longrightarrow>
      pr_q_withdrawal_table row = 1 \<and> pr_withdrawal_table row = co_withdrawals c ! nat (ly_i s - withdrawals_start c)"
proof -
  obtain row1 tx_rows gas_rows row2 wd_rows bv where
    tx: "layout_tx pfi c (ly_i s) (layout_byte c s b) = Inr (row1, tx_rows, gas_rows)"
    and wd: "layout_withdrawal c (ly_i s) row1 = Inr (row2, wd_rows)"
    and t: "ly_rows t = ly_rows s @ [row2]" "ly_i t = ly_i s - 1"
    using assms by (auto simp: layout_step_def Let_def rbind_ok)
  have row1: "pr_q_bytes_last row1 = pr_q_bytes_last (layout_byte c s b)" "pr_q_rpi_keccak_lookup row1 = pr_q_rpi_keccak_lookup (layout_byte c s b)"
    "pr_q_rpi_byte_enable row1 = pr_q_rpi_byte_enable (layout_byte c s b)" "pr_rpi_bytes row1 = pr_rpi_bytes (layout_byte c s b)"
    using tx by (auto simp: layout_tx_def Let_def rbind_ok split: if_splits prod.splits)
  have "pr_q_bytes_last row2 = pr_q_bytes_last row1" "pr_q_rpi_keccak_lookup row2 = pr_q_rpi_keccak_lookup row1"
    "pr_q_rpi_byte_enable row2 = pr_q_rpi_byte_enable row1" "pr_rpi_bytes row2 = pr_rpi_bytes row1"
    using wd by (auto simp: layout_withdrawal_def Let_def rbind_ok split: if_splits)
  moreover have "pr_q_withdrawal_table row2 = 1 \<and> pr_withdrawal_table row2 = co_withdrawals c ! nat (ly_i s - withdrawals_start c)"
    if "withdrawals_start c \<le> ly_i s" "ly_i s < withdrawals_start c + int (co_MAX_WITHDRAWALS c)"
    using wd that by (auto simp: layout_withdrawal_def Let_def ok_simps withdrawals_start_def)
  ultimately show ?thesis
    using t row1 by (intro that [of row2]) (simp_all add: layout_byte_def empty_pi_row_def fq_of_bool_def split: prod.splits)
qed

lemma layout_rows:
  assumes "rfold (layout_step pfi c) (new_layout n) bs = Inr t" "n = int (length bs)"
  shows "length (ly_rows t) = length bs"
    and "k < length bs \<Longrightarrow> pr_q_bytes_last (ly_rows t ! k) = fq_of_bool (k = 0) \<and>
      pr_q_rpi_keccak_lookup (ly_rows t ! k) = fq_of_bool (Suc k = length bs) \<and>
      pr_q_rpi_byte_enable (ly_rows t ! k) = 1 \<and> pr_rpi_bytes (ly_rows t ! k) = FQ (snd (bs ! k))"
    and "k < length bs \<Longrightarrow> withdrawals_start c \<le> n - 1 - int k \<Longrightarrow>
      n - 1 - int k < withdrawals_start c + int (co_MAX_WITHDRAWALS c) \<Longrightarrow>
      pr_q_withdrawal_table (ly_rows t ! k) = 1 \<and>
      pr_withdrawal_table (ly_rows t ! k) = co_withdrawals c ! nat (n - 1 - int k - withdrawals_start c)"
proof -
  obtain g where g: "g 0 = new_layout n" "g (length bs) = t" "\<And>k. k < length bs \<Longrightarrow> layout_step pfi c (g k) (bs ! k) = Inr (g (Suc k))"
    using rfold_steps [OF assms(1)] by blast
  have counts: "ly_i (g k) = n - 1 - int k \<and> length (ly_rows (g k)) = k" if "k \<le> length bs" for k
    using that
  proof (induction k)
    case (Suc k)
    then have "k < length bs" by simp
    then obtain row where "ly_rows (g (Suc k)) = ly_rows (g k) @ [row]" "ly_i (g (Suc k)) = ly_i (g k) - 1"
      using layout_step_row [OF g(3)] by metis
    with Suc show ?case by simp
  qed (simp add: g(1) new_layout_def)
  have prefix: "ly_rows (g j) = take j (ly_rows t)" if "j \<le> length bs" for j
    using that
  proof (induction "length bs - j" arbitrary: j)
    case 0
    then show ?case using g(2) counts [of j] by simp
  next
    case (Suc m)
    then have "j < length bs" "ly_rows (g (Suc j)) = take (Suc j) (ly_rows t)" by simp_all
    moreover obtain row where "ly_rows (g (Suc j)) = ly_rows (g j) @ [row]"
      using layout_step_row [OF g(3) [of j]] calculation(1) by metis
    moreover have "length (ly_rows (g j)) = j" using counts calculation(1) by simp
    ultimately have "ly_rows (g j) = take j (take (Suc j) (ly_rows t))" by (metis append_eq_conv_conj)
    then show ?case by simp
  qed
  show "length (ly_rows t) = length bs" using counts [of "length bs"] g(2) by simp
  have at: "ly_rows t ! k = row" if "k < length bs" "ly_rows (g (Suc k)) = ly_rows (g k) @ [row]" for k row
  proof -
    have "ly_rows t ! k = ly_rows (g (Suc k)) ! k" using prefix [of "Suc k"] that(1) by simp
    also have "\<dots> = row" using that counts [of k] by (simp add: nth_append)
    finally show ?thesis .
  qed
  show "pr_q_bytes_last (ly_rows t ! k) = fq_of_bool (k = 0) \<and>
      pr_q_rpi_keccak_lookup (ly_rows t ! k) = fq_of_bool (Suc k = length bs) \<and>
      pr_q_rpi_byte_enable (ly_rows t ! k) = 1 \<and> pr_rpi_bytes (ly_rows t ! k) = FQ (snd (bs ! k))" if k: "k < length bs"
  proof -
    obtain row where row: "ly_rows (g (Suc k)) = ly_rows (g k) @ [row]" "pr_q_bytes_last row = fq_of_bool (ly_rows (g k) = [])"
      "pr_q_rpi_keccak_lookup row = fq_of_bool (ly_i (g k) = 0)" "pr_q_rpi_byte_enable row = 1" "pr_rpi_bytes row = FQ (snd (bs ! k))"
      by (rule layout_step_row [OF g(3) [OF k]])
    have "ly_rows (g k) = [] \<longleftrightarrow> k = 0" "ly_i (g k) = 0 \<longleftrightarrow> Suc k = length bs" using counts [of k] k assms(2) by auto
    with row at [OF k row(1)] show ?thesis by simp
  qed
  show "pr_q_withdrawal_table (ly_rows t ! k) = 1 \<and>
      pr_withdrawal_table (ly_rows t ! k) = co_withdrawals c ! nat (n - 1 - int k - withdrawals_start c)"
    if k: "k < length bs" and r: "withdrawals_start c \<le> n - 1 - int k" "n - 1 - int k < withdrawals_start c + int (co_MAX_WITHDRAWALS c)"
    using counts [of k] k r at [OF k] by (auto intro: layout_step_row [OF g(3) [OF k]])
qed

section \<open>The witness\<close>

lemma length_layout_bytes: "int (length (layout_bytes raw)) = flatten_len raw"
  by (induction raw) (simp_all add: layout_bytes_def flatten_len_def)

lemma public_data2witness_ok:
  assumes "public_data2witness pfi keccak d MAX_TXS MAX_CALLDATA_BYTES MAX_WITHDRAWALS = Inr W"
  obtains raw n c s digest where "raw_public_inputs d MAX_TXS MAX_CALLDATA_BYTES MAX_WITHDRAWALS = Inr (raw, n)"
    "pi_columns_of d n MAX_TXS MAX_CALLDATA_BYTES MAX_WITHDRAWALS = Inr c"
    "rfold (layout_step pfi c) (new_layout n) (layout_bytes raw) = Inr s" "ly_rows s \<noteq> []"
    "pi_rows W = (last (ly_rows s))\<lparr>pr_rpi_digest_word := digest\<rparr> # tl (rev (ly_rows s))" "pi_copy_constrains W = raw"
    "word_of_bytes (keccak (map snd (layout_bytes raw))) = Inr digest" "pi_keccak (pi_public_inputs W) = digest"
    "pi_circuit_len W = n" "pi_keccak_add keccak (map snd (layout_bytes raw)) keccak_rand new_keccak_table = Inr (pi_keccak_table W)"
    "pi_block_table W = rev (ly_block_table s)" "pi_tx_table W = rev (ly_tx_table s)"
    "pi_withdrawal_table W = rev (ly_withdrawals s)" "pi_calldata_gas_cost_table W = set (ly_gas_table s)"
    "pi_public_inputs W = \<lparr>pi_keccak = digest, pi_block_hash = co_block_hash c, pi_state_root = co_state_root c,
       pi_state_root_prev = co_state_root_prev c\<rparr>"
  using assms unfolding public_data2witness_def Let_def
  by (auto simp: ok_simps rev_nth last_conv_nth)

lemma raw_public_inputs_len:
  assumes "raw_public_inputs d t c w = Inr (raw, n)"
  shows "n = flatten_len raw" "int (tx_table_len t) + int c + int w \<le> n" "0 < length (pd_withdrawals d)"
    "length (pd_withdrawals d) \<le> w" "268 \<le> n"
proof -
  have "n = flatten_len raw \<and> n = N_BYTES_ONE + N_BYTES_BLOCK + N_BYTES_EXTRA_VALUE +
      int N_BYTES_U64 * PUBLIC_INPUTS_TX_LEN * int t + int N_BYTES_U64 + int N_BYTES_U64 * PUBLIC_INPUTS_TX_LEN * int t +
      int N_BYTES_U64 + N_BYTES_TX * int t + N_BYTES_ONE + int c + N_BYTES_WITHDRAWAL * int w \<and>
      0 < length (pd_withdrawals d) \<and> length (pd_withdrawals d) \<le> w"
    using assms unfolding raw_public_inputs_def withdrawal_table_raw_bytes_def Let_def rbind_ok assert_that_ok by force
  then show "n = flatten_len raw" "int (tx_table_len t) + int c + int w \<le> n" "0 < length (pd_withdrawals d)"
    "length (pd_withdrawals d) \<le> w" "268 \<le> n"
    by (simp_all add: N_BYTES_ONE_def N_BYTES_BLOCK_def N_BYTES_EXTRA_VALUE_def N_BYTES_TX_def N_BYTES_WITHDRAWAL_def tx_table_len_def)
qed

lemma layout_bytes_all:
  "list_all is_byte (concat raw) \<Longrightarrow> list_all is_byte (map snd (layout_bytes raw))"
  by (auto simp: layout_bytes_def list_all_iff dest!: set_zip_rightD)

lemma pi_keccak_add_total:
  assumes "list_all is_byte bs" "word_of_bytes (keccak bs) = Inr digest"
  obtains T where "pi_keccak_add keccak bs r new_keccak_table = Inr T"
proof -
  obtain v where "linear_combine_bytes (map FQ (rev bs)) r True = Inr v"
    using linear_combine_total [of "rev bs" r] assms(1) by (auto simp: list_all_iff)
  then show ?thesis
    using that assms(2) by (simp add: pi_keccak_add_def keccak_table_add_def RLC_of_bytes_def Let_def)
qed

lemma pi_witness_total:
  assumes keccak: "keccak_spec keccak" and ok: "public_data_ok d t c w"
  obtains W where "public_data2witness pfi keccak d t c w = Inr W"
proof -
  obtain raw where raw: "raw_public_inputs d t c w = Inr (raw, flatten_len raw)" "list_all is_byte (concat raw)"
    using raw_public_inputs_total [OF ok] by blast
  obtain co where co: "pi_columns_of d (flatten_len raw) t c w = Inr co" "columns_fit co"
    using pi_columns_total [OF ok] by blast
  obtain s where s: "rfold (layout_step pfi co) (new_layout (flatten_len raw)) (layout_bytes raw) = Inr s"
    by (rule layout_total [OF co(2) length_layout_bytes [symmetric]])
  have "ly_rows s \<noteq> []"
    using layout_rows(1) [OF s length_layout_bytes [symmetric]] length_layout_bytes [of raw] raw_public_inputs_len(2) [OF raw(1)]
    by (auto simp: tx_table_len_def)
  then obtain first where first: "list_at (rev (ly_rows s)) 0 = Inr first" by (simp add: list_at_def)
  let ?bs = "map snd (layout_bytes raw)"
  have len: "length (keccak ?bs) = 32" using keccak by (simp add: keccak_spec_def)
  then obtain digest where digest: "word_of_bytes (keccak ?bs) = Inr digest"
    by (auto simp: word_of_bytes_def bytes_to_fq_def assert_that_def raise_unless_def)
  obtain T where T: "pi_keccak_add keccak ?bs keccak_rand new_keccak_table = Inr T"
    by (rule pi_keccak_add_total [where bs = ?bs and keccak = keccak, OF layout_bytes_all [OF raw(2)] digest])
  show ?thesis
    using that by (simp add: public_data2witness_def raw co s Let_def len digest first T assert_that_def raise_unless_def)
qed

lemma rmap_nth: "rmap f xs = Inr ys \<Longrightarrow> i < length xs \<Longrightarrow> f (xs ! i) = Inr (ys ! i)"
  by (induction xs arbitrary: ys i) (auto simp: rbind_ok nth_Cons split: nat.splits)

lemma pi_columns_of_ok:
  assumes "pi_columns_of d n t c w = Inr co"
  shows "co_MAX_WITHDRAWALS co = w" "withdrawals_start co = int (tx_table_len t) + int c"
    and "j < w \<Longrightarrow> pw_id (co_withdrawals co ! j) = FQ (pv_id (withdrawal_at d j)) \<and>
      pw_amount (co_withdrawals co ! j) = FQ (pv_amount (withdrawal_at d j))"
proof -
  obtain wds where wds: "withdrawal_table_cols d w = Inr wds" and co: "co_withdrawals co = wds" "co_MAX_WITHDRAWALS co = w"
    "co_MAX_TXS co = t" "co_MAX_CALLDATA_BYTES co = c"
    using assms by (auto simp: pi_columns_of_def rbind_ok)
  show "co_MAX_WITHDRAWALS co = w" "withdrawals_start co = int (tx_table_len t) + int c"
    using co by (simp_all add: withdrawals_start_def)
  show "pw_id (co_withdrawals co ! j) = FQ (pv_id (withdrawal_at d j)) \<and>
      pw_amount (co_withdrawals co ! j) = FQ (pv_amount (withdrawal_at d j))" if "j < w"
  proof -
    obtain address where "\<lparr>pw_id = FQ (pv_id (withdrawal_at d j)), pw_validator_id = FQ (pv_validator_id (withdrawal_at d j)),
        pw_address = address, pw_amount = FQ (pv_amount (withdrawal_at d j))\<rparr> = wds ! j"
      using wds \<open>j < w\<close> by (auto simp: withdrawal_table_cols_def rbind_ok Let_def dest!: rmap_nth [where i = j])
    note row = this [symmetric]
    show ?thesis unfolding co(1) row by simp
  qed
qed

text \<open>Row \<open>i\<close> of the witness, for the places of the withdrawals.\<close>

lemma witness_withdrawal_rows:
  assumes W: "public_data2witness pfi keccak d t c w = Inr W" and j: "j < w"
  shows "tx_table_len t + c + j < length (pi_rows W)"
    and "pr_q_withdrawal_table (pi_rows W ! (tx_table_len t + c + j)) = 1"
    and "pw_id (pr_withdrawal_table (pi_rows W ! (tx_table_len t + c + j))) = FQ (pv_id (withdrawal_at d j))"
    and "pw_amount (pr_withdrawal_table (pi_rows W ! (tx_table_len t + c + j))) = FQ (pv_amount (withdrawal_at d j))"
proof -
  obtain raw n co s digest where raw: "raw_public_inputs d t c w = Inr (raw, n)"
    and co: "pi_columns_of d n t c w = Inr co"
    and run: "rfold (layout_step pfi co) (new_layout n) (layout_bytes raw) = Inr s"
    and rows: "pi_rows W = (last (ly_rows s))\<lparr>pr_rpi_digest_word := digest\<rparr> # tl (rev (ly_rows s))"
    by (rule public_data2witness_ok [OF W])
  note len = raw_public_inputs_len [OF raw] and cols = pi_columns_of_ok [OF co]
  let ?i = "tx_table_len t + c + j"
  let ?bs = "layout_bytes raw"
  have n: "n = int (length ?bs)" using len(1) length_layout_bytes by simp
  note layout = layout_rows [OF run n]
  have i: "?i < length ?bs" "0 < ?i" using len(2) n j by (simp_all add: tx_table_len_def)
  let ?k = "length ?bs - 1 - ?i"
  have k: "?k < length ?bs" "n - 1 - int ?k = int ?i" using i n by simp_all
  have at: "pi_rows W ! ?i = ly_rows s ! ?k"
  proof -
    obtain m where m: "?i = Suc m" by (rule exE [OF gr0_implies_Suc [OF i(2)]], rule that)
    have "m < length (tl (rev (ly_rows s)))" using i(1) layout(1) m by simp
    then have "pi_rows W ! ?i = rev (ly_rows s) ! ?i" unfolding m rows nth_Cons_Suc by (rule nth_tl)
    also have "\<dots> = ly_rows s ! ?k" using i(1) layout(1) by (simp add: rev_nth)
    finally show ?thesis .
  qed
  have "pr_q_withdrawal_table (ly_rows s ! ?k) = 1 \<and> pr_withdrawal_table (ly_rows s ! ?k) = co_withdrawals co ! j"
    using layout(3) [OF k(1)] j unfolding k(2) cols(1,2) by simp
  then show "pr_q_withdrawal_table (pi_rows W ! ?i) = 1"
    "pw_id (pr_withdrawal_table (pi_rows W ! ?i)) = FQ (pv_id (withdrawal_at d j))"
    "pw_amount (pr_withdrawal_table (pi_rows W ! ?i)) = FQ (pv_amount (withdrawal_at d j))"
    using cols(3) [OF j] by (simp_all add: at)
  show "?i < length (pi_rows W)" using i(1) layout(1) by (cases "rev (ly_rows s)") (auto simp: rows)
qed

lemma rows_of_layout:
  "xs \<noteq> [] \<Longrightarrow> f x = f (last xs) \<Longrightarrow> map f (x # tl (rev xs)) = rev (map f xs)"
  by (cases xs rule: rev_cases) (simp_all add: rev_map)

definition fixed_columns :: "pi_row \<Rightarrow> fq \<times> fq \<times> fq \<times> fq" where
  "fixed_columns r = (pr_q_rpi_byte_enable r, pr_q_bytes_last r, pr_q_rpi_keccak_lookup r, pr_rpi_bytes r)"

lemma witness_rows:
  assumes run: "rfold (layout_step pfi co) (new_layout n) bs = Inr s" and n: "n = int (length bs)" and ne: "ly_rows s \<noteq> []"
    and rows: "pi_rows W = (last (ly_rows s))\<lparr>pr_rpi_digest_word := digest\<rparr> # tl (rev (ly_rows s))"
  shows "length (pi_rows W) = length bs"
    and "i < length bs \<Longrightarrow> fixed_columns (pi_rows W ! i) =
      (1, fq_of_bool (i = length bs - 1), fq_of_bool (i = 0), FQ (snd (bs ! (length bs - 1 - i))))"
proof -
  note layout = layout_rows [OF run n]
  have "map fixed_columns (pi_rows W) = rev (map fixed_columns (ly_rows s))"
    unfolding rows by (rule rows_of_layout [OF ne]) (simp add: fixed_columns_def)
  also have "map fixed_columns (ly_rows s) =
      map (\<lambda>k. (1, fq_of_bool (k = 0), fq_of_bool (Suc k = length bs), FQ (snd (bs ! k)))) [0..<length bs]"
    using layout(1,2) by (intro nth_equalityI) (auto simp: fixed_columns_def)
  finally have all: "map fixed_columns (pi_rows W) =
      rev (map (\<lambda>k. (1, fq_of_bool (k = 0), fq_of_bool (Suc k = length bs), FQ (snd (bs ! k)))) [0..<length bs])" .
  then show "length (pi_rows W) = length bs" by (auto dest: arg_cong [where f = length])
  then have length: "length (pi_rows W) = length bs" by (auto dest: arg_cong [where f = length])
  show "fixed_columns (pi_rows W ! i) = (1, fq_of_bool (i = length bs - 1), fq_of_bool (i = 0), FQ (snd (bs ! (length bs - 1 - i))))"
    if i: "i < length bs"
  proof -
    have eqs: "length bs - 1 - i = 0 \<longleftrightarrow> i = length bs - 1" "Suc (length bs - 1 - i) = length bs \<longleftrightarrow> i = 0"
      using i by linarith+
    have "fixed_columns (pi_rows W ! i) = map fixed_columns (pi_rows W) ! i" using i length by simp
    also have "\<dots> = map (\<lambda>k. (1, fq_of_bool (k = 0), fq_of_bool (Suc k = length bs), FQ (snd (bs ! k)))) [0..<length bs] !
        (length bs - 1 - i)"
      unfolding all using i by (simp only: rev_nth length_map length_upt) simp
    also have "\<dots> = (1, fq_of_bool (length bs - 1 - i = 0), fq_of_bool (Suc (length bs - 1 - i) = length bs),
        FQ (snd (bs ! (length bs - 1 - i))))"
      using i by (subst nth_map) simp_all
    finally show ?thesis unfolding eqs .
  qed
qed

lemma witness_bytes:
  assumes W: "public_data2witness pfi keccak d t c w = Inr W"
  shows "\<exists>raw. raw_public_inputs d t c w = Inr (raw, pi_circuit_len W) \<and> pi_copy_constrains W = raw \<and>
    pi_selectors (pi_rows W) \<and> map pr_rpi_bytes (pi_rows W) = rev (map (FQ \<circ> snd) (layout_bytes raw)) \<and>
    int (length (pi_rows W)) = pi_circuit_len W \<and>
    word_of_bytes (keccak (map snd (layout_bytes raw))) = Inr (pi_keccak (pi_public_inputs W)) \<and>
    pi_keccak_built keccak {map snd (layout_bytes raw)} (pi_keccak_table W) \<and>
    pr_rpi_digest_word (pi_rows W ! 0) = pi_keccak (pi_public_inputs W)"
proof -
  obtain raw n co s digest where raw: "raw_public_inputs d t c w = Inr (raw, n)"
    and run: "rfold (layout_step pfi co) (new_layout n) (layout_bytes raw) = Inr s" and ne: "ly_rows s \<noteq> []"
    and rows: "pi_rows W = (last (ly_rows s))\<lparr>pr_rpi_digest_word := digest\<rparr> # tl (rev (ly_rows s))"
    and copies: "pi_copy_constrains W = raw"
    and digest: "word_of_bytes (keccak (map snd (layout_bytes raw))) = Inr digest" "pi_keccak (pi_public_inputs W) = digest"
    and len: "pi_circuit_len W = n"
    and T: "pi_keccak_add keccak (map snd (layout_bytes raw)) keccak_rand new_keccak_table = Inr (pi_keccak_table W)"
    by (rule public_data2witness_ok [OF W])
  let ?bs = "layout_bytes raw"
  have n: "n = int (length ?bs)" using raw_public_inputs_len(1) [OF raw] length_layout_bytes by simp
  have len_rows: "length (pi_rows W) = length ?bs" and at: "\<And>i. i < length ?bs \<Longrightarrow> fixed_columns (pi_rows W ! i) =
      (1, fq_of_bool (i = length ?bs - 1), fq_of_bool (i = 0), FQ (snd (?bs ! (length ?bs - 1 - i))))"
    using witness_rows [OF run n ne rows] by blast+
  have "pi_selectors (pi_rows W)" using at by (auto simp: pi_selectors_def fixed_columns_def len_rows)
  moreover have "map pr_rpi_bytes (pi_rows W) = rev (map (FQ \<circ> snd) ?bs)"
    using at by (intro nth_equalityI) (auto simp: fixed_columns_def len_rows rev_nth)
  moreover have "pi_keccak_built keccak {map snd ?bs} (pi_keccak_table W)" using pi_built_add [OF pi_built_new T] by simp
  moreover have "pr_rpi_digest_word (pi_rows W ! 0) = digest" by (simp add: rows)
  ultimately show ?thesis using raw copies digest len n len_rows by auto
qed

text \<open>
  For data in range the layout succeeds and its rows have the fixed columns under which the circuit
  covers its bytes: they hold the raw public inputs, from the last row to the first, the digest is
  that of these bytes, and the Keccak table has their row.
\<close>

text \<open>
  C39: For public data in range public_data2witness succeeds: the raw public inputs have the
  length of the circuit, the rows hold their bytes from the last to the first under the
  fixed columns that the soundness of the digest needs, and the digest is that of these
  bytes.
\<close>

theorem pi_layout_built:
  assumes "keccak_spec keccak" "public_data_ok d t c w"
  shows "\<exists>W raw. public_data2witness pfi keccak d t c w = Inr W \<and>
    raw_public_inputs d t c w = Inr (raw, pi_circuit_len W) \<and> pi_copy_constrains W = raw \<and>
    pi_selectors (pi_rows W) \<and> map pr_rpi_bytes (pi_rows W) = rev (map (FQ \<circ> snd) (layout_bytes raw)) \<and>
    int (length (pi_rows W)) = pi_circuit_len W \<and>
    word_of_bytes (keccak (map snd (layout_bytes raw))) = Inr (pi_keccak (pi_public_inputs W)) \<and>
    pi_keccak_built keccak {map snd (layout_bytes raw)} (pi_keccak_table W)"
proof -
  obtain W where W: "public_data2witness pfi keccak d t c w = Inr W" by (rule pi_witness_total [OF assms])
  with witness_bytes [OF W] show ?thesis by blast
qed

text \<open>
  The gates of the withdrawals demand an amount at every place, and numbers that count up: a block
  that leaves a place empty has no accepted witness.
\<close>

text \<open>
  C40: The witness that public_data2witness makes for a block with fewer withdrawals than
  places is refused: the places left are filled with the default withdrawal, and every row
  of a withdrawal has to have an amount.
\<close>

theorem pi_padding_refused:
  assumes "public_data2witness pfi keccak d t c w = Inr W" "length (pd_withdrawals d) < w"
  shows "verify_pi_circuit W t c w \<noteq> Inr ()"
proof
  assume run: "verify_pi_circuit W t c w = Inr ()"
  let ?i = "tx_table_len t + c + length (pd_withdrawals d)"
  note row = witness_withdrawal_rows [OF assms]
  have "pi_withdrawal_gates (pi_rows W ! ?i) (pi_rows W ! ((?i + 1) mod length (pi_rows W))) = Inr ()"
    using pi_accepted(3) [OF run row(1)] row(2) by (auto simp: check_pi_row_def ok_simps)
  then have "pw_amount (pr_withdrawal_table (pi_rows W ! ?i)) \<noteq> 0"
    by (auto simp: pi_withdrawal_gates_def ok_simps)
  then show False using row(4) by (simp add: withdrawal_at_def default_pi_withdrawal_def)
qed

section \<open>Sample data\<close>

text \<open>A transaction with two bytes of call data and a withdrawal, with two places for withdrawals or one.\<close>

definition sample_public_data :: public_data where
  "sample_public_data =
     \<lparr>pd_chain_id = 1, pd_block = \<lparr>pb_hash = 0, pb_parent_hash = 0, pb_uncle_hash = 0, pb_coinbase = 0, pb_state_root = 0,
        pb_tx_hash = 0, pb_receipt_hash = 0, pb_bloom = [], pb_prev_randao = 0, pb_number = 5, pb_gas_limit = 7, pb_gas_used = 0,
        pb_time = 0, pb_extra = [], pb_mix_digest = 0, pb_nonce = 0, pb_base_fee = 0, pb_withdrawals_root = 0\<rparr>,
      pd_state_root_prev = 0, pd_block_hashes = replicate 256 0,
      pd_txs = [default_pi_transaction\<lparr>pq_data := [0, 9]\<rparr>],
      pd_withdrawals = [\<lparr>pv_id = 0, pv_validator_id = 3, pv_address = 4, pv_amount = 6\<rparr>]\<rparr>"

lemma sample_public_data_ok: "public_data_ok sample_public_data 1 2 2" "public_data_ok sample_public_data 1 2 1"
proof -
  have "list_all (fits 32) (replicate 256 0)" by (simp add: list_all_length fits_def)
  then show "public_data_ok sample_public_data 1 2 2" "public_data_ok sample_public_data 1 2 1"
    by (simp_all add: public_data_ok_def sample_public_data_def pi_block_ok_def pi_tx_ok_def pi_withdrawal_ok_def
        default_pi_transaction_def to_addr_or_0_def pi_call_data_gas_cost_def fits_def is_byte_def)
qed

lemma pi_padding_refused_witness:
  "\<exists>W. public_data2witness (\<lambda>_ _. 0) one_hash sample_public_data 1 2 2 = Inr W \<and> verify_pi_circuit W 1 2 2 \<noteq> Inr ()"
proof -
  obtain W where W: "public_data2witness (\<lambda>_ _. 0) one_hash sample_public_data 1 2 2 = Inr W"
    by (rule pi_witness_total [OF sample_libraries(2) sample_public_data_ok(1)])
  moreover have "length (pd_withdrawals sample_public_data) < 2" by (simp add: sample_public_data_def)
  ultimately show ?thesis using pi_padding_refused by blast
qed

lemma pi_layout_built_witness:
  "\<exists>W raw. public_data2witness (\<lambda>_ _. 0) one_hash sample_public_data 1 2 2 = Inr W \<and>
     raw_public_inputs sample_public_data 1 2 2 = Inr (raw, pi_circuit_len W) \<and> pi_selectors (pi_rows W) \<and>
     word_of_bytes (one_hash (map snd (layout_bytes raw))) = Inr (pi_keccak (pi_public_inputs W))"
  using pi_layout_built [OF sample_libraries(2) sample_public_data_ok(1), of "\<lambda>_ _. 0"] by blast

end
