(* ===== verification/Pi_Rows.thy ===== *)
theory Pi_Rows
  imports Pi_Built
begin

text \<open>
  The rows and the tables of the witness of the public input circuit, index by index: an invariant of
  the loop over the bytes, in which the index of the row counts down.
\<close>

section \<open>One step\<close>

definition tx_len_of :: "pi_columns \<Rightarrow> nat" where
  "tx_len_of co = tx_table_len (co_MAX_TXS co)"

definition tx_end_of :: "pi_columns \<Rightarrow> nat" where
  "tx_end_of co = tx_len_of co + co_MAX_CALLDATA_BYTES co"

definition tx_row_at :: "pi_columns \<Rightarrow> nat \<Rightarrow> pi_tx_row" where
  "tx_row_at co i = (case co_tx_cols co of (ids, idxs, vals) \<Rightarrow>
     \<lparr>pt_tx_id = ids ! i, pt_tag = pi_tag (co_MAX_TXS co) (int i), pt_index = idxs ! i, pt_value = vals ! i\<rparr>)"

definition gas_of :: "calldata_col \<Rightarrow> fq" where "gas_of cell = fst (snd (snd (snd cell)))"
definition final_of :: "calldata_col \<Rightarrow> fq" where "final_of cell = snd (snd (snd (snd cell)))"

definition gas_row_at :: "pi_columns \<Rightarrow> nat \<Rightarrow> calldata_gas_row" where
  "gas_row_at co i = (let cell = co_calldata co ! (i - tx_len_of co) in
     \<lparr>gr_tx_id = pt_tx_id (tx_row_at co i), gr_is_final = final_of cell, gr_gas_cost_acc = gas_of cell\<rparr>)"

definition block_values_at :: "pi_columns \<Rightarrow> nat \<Rightarrow> word_or_value" where
  "block_values_at co i =
     (if i < 265 then co_block_values co ! i else if i = 265 then WordV (co_block_hash co)
      else if i = 266 then WordV (co_state_root co) else WordV (co_state_root_prev co))"

text \<open>What the columns of row \<open>i\<close> hold beside the bytes.\<close>

definition tx_columns :: "(int \<Rightarrow> int \<Rightarrow> int) \<Rightarrow> pi_columns \<Rightarrow> nat \<Rightarrow> pi_row \<Rightarrow> bool" where
  "tx_columns pfi co i r \<longleftrightarrow>
     pr_q_tx_table r = fq_of_bool (i < tx_len_of co) \<and>
     pr_q_tx_calldata r = fq_of_bool (tx_len_of co \<le> i \<and> i < tx_end_of co) \<and>
     pr_q_tx_calldata_start r = fq_of_bool (i = tx_len_of co \<and> i < tx_end_of co) \<and>
     (if i < tx_end_of co then pr_tx_table r = tx_row_at co i \<and> pr_tx_value_lo_inv r = fq_inv pfi (pr_value_lo r)
      else pr_tx_table r = pr_tx_table empty_pi_row \<and> pr_tx_id_inv r = 0 \<and> pr_tx_value_lo_inv r = 0 \<and>
        pr_calldata_gas_cost r = 0 \<and> pr_is_final r = 0) \<and>
     (i < tx_len_of co \<longrightarrow> pr_tx_id_inv r = fq_inv pfi (pt_tag (tx_row_at co i) - FQ (tc_int TC_CallDataLength))) \<and>
     (tx_len_of co \<le> i \<and> i < tx_end_of co \<longrightarrow>
        pr_tx_id_inv r = fq_inv pfi (pt_tx_id (tx_row_at co i)) \<and>
        pr_tx_id_diff_inv r = fq_inv pfi
          ((if Suc i < tx_end_of co then pt_tx_id (tx_row_at co (Suc i)) else 0) - pt_tx_id (tx_row_at co i)) \<and>
        pr_calldata_gas_cost r = gas_of (co_calldata co ! (i - tx_len_of co)) \<and>
        pr_is_final r = final_of (co_calldata co ! (i - tx_len_of co)))"

definition withdrawal_columns :: "pi_columns \<Rightarrow> nat \<Rightarrow> pi_row \<Rightarrow> bool" where
  "withdrawal_columns co i r \<longleftrightarrow>
     pr_q_withdrawal_table r = fq_of_bool (tx_end_of co \<le> i \<and> i < tx_end_of co + co_MAX_WITHDRAWALS co) \<and>
     (tx_end_of co \<le> i \<and> i < tx_end_of co + co_MAX_WITHDRAWALS co \<longrightarrow>
        pr_withdrawal_table r = co_withdrawals co ! (i - tx_end_of co))"

text \<open>The three ranges of the transactions, their call data and the rest.\<close>

lemma layout_tx_ranges:
  assumes "layout_tx pfi co (int i) row = Inr (r, tx_rows, gas_rows)"
  shows "i < tx_len_of co \<Longrightarrow> r = row\<lparr>pr_q_tx_table := 1,
      pr_tx_id_inv := fq_inv pfi (pt_tag (tx_row_at co i) - FQ (tc_int TC_CallDataLength)),
      pr_tx_value_lo_inv := fq_inv pfi (lo (wov_word (pt_value (tx_row_at co i)))), pr_tx_table := tx_row_at co i\<rparr> \<and>
      tx_rows = [tx_row_at co i] \<and> gas_rows = []"
    and "tx_len_of co \<le> i \<Longrightarrow> i < tx_end_of co \<Longrightarrow> r = row\<lparr>pr_q_tx_calldata := 1,
      pr_q_tx_calldata_start := fq_of_bool (i = tx_len_of co), pr_tx_id_inv := fq_inv pfi (pt_tx_id (tx_row_at co i)),
      pr_tx_value_lo_inv := fq_inv pfi (lo (wov_word (pt_value (tx_row_at co i)))),
      pr_tx_id_diff_inv := fq_inv pfi
        ((if Suc i < tx_end_of co then pt_tx_id (tx_row_at co (Suc i)) else 0) - pt_tx_id (tx_row_at co i)),
      pr_calldata_gas_cost := gas_of (co_calldata co ! (i - tx_len_of co)),
      pr_is_final := final_of (co_calldata co ! (i - tx_len_of co)), pr_tx_table := tx_row_at co i\<rparr> \<and>
      tx_rows = [tx_row_at co i] \<and> gas_rows = [gas_row_at co i]"
    and "tx_end_of co \<le> i \<Longrightarrow> r = row \<and> tx_rows = [] \<and> gas_rows = []"
proof -
  obtain ids idxs vals where cols: "co_tx_cols co = (ids, idxs, vals)" by (metis prod_cases3)
  note defs = layout_tx_def cols Let_def tx_row_at_def tx_end_of_def tx_len_of_def
  show "i < tx_len_of co \<Longrightarrow> r = row\<lparr>pr_q_tx_table := 1,
      pr_tx_id_inv := fq_inv pfi (pt_tag (tx_row_at co i) - FQ (tc_int TC_CallDataLength)),
      pr_tx_value_lo_inv := fq_inv pfi (lo (wov_word (pt_value (tx_row_at co i)))), pr_tx_table := tx_row_at co i\<rparr> \<and>
      tx_rows = [tx_row_at co i] \<and> gas_rows = []"
    using assms by (simp add: defs ok_simps)
  show "tx_end_of co \<le> i \<Longrightarrow> r = row \<and> tx_rows = [] \<and> gas_rows = []"
    using assms by (simp add: defs)
  assume i: "tx_len_of co \<le> i" "i < tx_end_of co"
  obtain id idx v gas final where cell: "co_calldata co ! (i - tx_len_of co) = (id, idx, v, gas, final)" by (metis prod_cases5)
  have n: "nat (int i - int (tx_len_of co)) = i - tx_len_of co" "nat (int i + 1) = Suc i" using i by simp_all
  show "r = row\<lparr>pr_q_tx_calldata := 1,
      pr_q_tx_calldata_start := fq_of_bool (i = tx_len_of co), pr_tx_id_inv := fq_inv pfi (pt_tx_id (tx_row_at co i)),
      pr_tx_value_lo_inv := fq_inv pfi (lo (wov_word (pt_value (tx_row_at co i)))),
      pr_tx_id_diff_inv := fq_inv pfi
        ((if Suc i < tx_end_of co then pt_tx_id (tx_row_at co (Suc i)) else 0) - pt_tx_id (tx_row_at co i)),
      pr_calldata_gas_cost := gas_of (co_calldata co ! (i - tx_len_of co)),
      pr_is_final := final_of (co_calldata co ! (i - tx_len_of co)), pr_tx_table := tx_row_at co i\<rparr> \<and>
      tx_rows = [tx_row_at co i] \<and> gas_rows = [gas_row_at co i]"
    using assms i cell n
    by (simp add: layout_tx_def cols Let_def tx_row_at_def tx_end_of_def gas_row_at_def gas_of_def final_of_def ok_simps
        flip: tx_len_of_def split: if_splits)
qed

lemma layout_withdrawal_ranges:
  assumes "layout_withdrawal co (int i) row = Inr (r, wd_rows)"
  shows "tx_end_of co \<le> i \<and> i < tx_end_of co + co_MAX_WITHDRAWALS co \<Longrightarrow>
      r = row\<lparr>pr_q_withdrawal_table := 1, pr_withdrawal_table := co_withdrawals co ! (i - tx_end_of co)\<rparr> \<and>
      wd_rows = [co_withdrawals co ! (i - tx_end_of co)]"
    and "\<not> (tx_end_of co \<le> i \<and> i < tx_end_of co + co_MAX_WITHDRAWALS co) \<Longrightarrow> r = row \<and> wd_rows = []"
proof -
  have start: "int (tx_table_len (co_MAX_TXS co)) + int (co_MAX_CALLDATA_BYTES co) = int (tx_end_of co)"
    by (simp add: tx_end_of_def tx_len_of_def)
  show "r = row\<lparr>pr_q_withdrawal_table := 1, pr_withdrawal_table := co_withdrawals co ! (i - tx_end_of co)\<rparr> \<and>
      wd_rows = [co_withdrawals co ! (i - tx_end_of co)]" if "tx_end_of co \<le> i \<and> i < tx_end_of co + co_MAX_WITHDRAWALS co"
  proof -
    have "nat (int i - int (tx_end_of co)) = i - tx_end_of co" using that by simp
    with assms that show ?thesis by (simp add: layout_withdrawal_def Let_def start ok_simps)
  qed
  show "\<not> (tx_end_of co \<le> i \<and> i < tx_end_of co + co_MAX_WITHDRAWALS co) \<Longrightarrow> r = row \<and> wd_rows = []"
    using assms by (auto simp: layout_withdrawal_def Let_def start)
qed

lemma layout_block_values:
  "layout_block co (int i) = Inr vs \<Longrightarrow> vs = (if i < 268 then [block_values_at co i] else [])"
  by (auto simp: layout_block_def ok_simps block_values_at_def split: if_splits)

definition columns_at :: "(int \<Rightarrow> int \<Rightarrow> int) \<Rightarrow> pi_columns \<Rightarrow> nat \<Rightarrow> pi_row \<Rightarrow> bool" where
  "columns_at pfi co i r \<longleftrightarrow> tx_columns pfi co i r \<and> withdrawal_columns co i r"

text \<open>The columns that the two accumulators read and write.\<close>

definition byte_columns :: "pi_row \<Rightarrow> fq \<times> fq \<times> fq \<times> fq \<times> fq \<times> fq" where
  "byte_columns r = (pr_q_rpi_byte_enable r, pr_q_bytes_last r, pr_q_rpi_value_start r, pr_rpi_bytes r,
     pr_rpi_bytes_keccakrlc r, pr_rpi_value_lc r)"

lemma layout_step_columns:
  assumes "layout_step pfi co s b = Inr u" "ly_i s = int i"
  obtains r where "ly_rows u = ly_rows s @ [r]" "ly_i u = int i - 1" "columns_at pfi co i r"
    "byte_columns r = byte_columns (layout_byte co s b)" "ly_rlc u = pr_rpi_bytes_keccakrlc r" "ly_value_lc u = pr_rpi_value_lc r"
    "ly_block_table u = ly_block_table s @ (if i < 268 then [block_values_at co i] else [])"
    "ly_tx_table u = ly_tx_table s @ (if i < tx_end_of co then [tx_row_at co i] else [])"
    "ly_withdrawals u = ly_withdrawals s @ (if tx_end_of co \<le> i \<and> i < tx_end_of co + co_MAX_WITHDRAWALS co
      then [co_withdrawals co ! (i - tx_end_of co)] else [])"
    "ly_gas_table u = ly_gas_table s @ (if tx_len_of co \<le> i \<and> i < tx_end_of co then [gas_row_at co i] else [])"
proof -
  let ?row = "layout_byte co s b"
  obtain bv row1 tx_rows gas_rows row2 wd_rows where parts: "layout_block co (int i) = Inr bv"
    "layout_tx pfi co (int i) ?row = Inr (row1, tx_rows, gas_rows)" "layout_withdrawal co (int i) row1 = Inr (row2, wd_rows)"
    and u: "u = \<lparr>ly_i = int i - 1, ly_rlc = pr_rpi_bytes_keccakrlc row2, ly_value_lc = pr_rpi_value_lc row2,
           ly_rows = ly_rows s @ [row2], ly_block_table = ly_block_table s @ bv,
           ly_tx_table = ly_tx_table s @ tx_rows, ly_withdrawals = ly_withdrawals s @ wd_rows,
           ly_gas_table = ly_gas_table s @ gas_rows\<rparr>"
    using assms by (auto simp: layout_step_def Let_def rbind_ok)
  note tx = layout_tx_ranges [OF parts(2)] and wd = layout_withdrawal_ranges [OF parts(3)]
  have le: "tx_len_of co \<le> tx_end_of co" by (simp add: tx_end_of_def)
  have plain: "pr_q_tx_table ?row = 0" "pr_q_tx_calldata ?row = 0" "pr_q_tx_calldata_start ?row = 0" "pr_tx_id_inv ?row = 0"
    "pr_tx_value_lo_inv ?row = 0" "pr_calldata_gas_cost ?row = 0" "pr_is_final ?row = 0" "pr_q_withdrawal_table ?row = 0"
    "pr_tx_table ?row = pr_tx_table empty_pi_row"
    by (simp_all add: layout_byte_def empty_pi_row_def split: prod.splits)
  have row1: "tx_columns pfi co i row1 \<and> byte_columns row1 = byte_columns ?row \<and> pr_q_withdrawal_table row1 = 0 \<and>
      tx_rows = (if i < tx_end_of co then [tx_row_at co i] else []) \<and>
      gas_rows = (if tx_len_of co \<le> i \<and> i < tx_end_of co then [gas_row_at co i] else [])"
  proof (cases "i < tx_len_of co")
    case True
    then show ?thesis
      unfolding tx_columns_def byte_columns_def pr_value_lo_def using tx(1) le
      by (simp add: plain)
  next
    case head: False
    show ?thesis
    proof (cases "i < tx_end_of co")
      case True
      with head show ?thesis
        unfolding tx_columns_def byte_columns_def pr_value_lo_def using tx(2) le
        by (simp add: plain)
    next
      case False
      with head show ?thesis
        unfolding tx_columns_def byte_columns_def pr_value_lo_def using tx(3) le
        by (simp add: plain)
    qed
  qed
  have row2: "columns_at pfi co i row2 \<and> byte_columns row2 = byte_columns row1 \<and>
      wd_rows = (if tx_end_of co \<le> i \<and> i < tx_end_of co + co_MAX_WITHDRAWALS co then [co_withdrawals co ! (i - tx_end_of co)] else [])"
  proof (cases "tx_end_of co \<le> i \<and> i < tx_end_of co + co_MAX_WITHDRAWALS co")
    case True
    with row1 wd(1) show ?thesis
      by (auto simp: columns_at_def withdrawal_columns_def byte_columns_def tx_columns_def pr_value_lo_def)
  next
    case False
    with row1 wd(2) show ?thesis by (auto simp: columns_at_def withdrawal_columns_def)
  qed
  show ?thesis
    by (rule that [of row2]) (use row1 row2 u layout_block_values [OF parts(1)] in simp_all)
qed

section \<open>The loop\<close>

text \<open>Rows from index \<open>m\<close> on: each with its columns, and the accumulators of the gates of the bytes.\<close>

primrec laid_rows :: "(nat \<Rightarrow> pi_row \<Rightarrow> bool) \<Rightarrow> nat \<Rightarrow> pi_row list \<Rightarrow> bool" where
  "laid_rows P m [] \<longleftrightarrow> True"
| "laid_rows P m (r # rs) \<longleftrightarrow> P m r \<and>
     (if rs = [] then \<forall>next. pi_byte_gates r next = Inr () else pi_byte_gates r (hd rs) = Inr ()) \<and> laid_rows P (Suc m) rs"

lemma laid_rows_nth:
  "laid_rows P m rs \<Longrightarrow> i < length rs \<Longrightarrow> P (m + i) (rs ! i) \<and> pi_byte_gates (rs ! i) (rs ! (Suc i mod length rs)) = Inr ()"
proof (induction rs arbitrary: m i)
  case (Cons r rs)
  show ?case
  proof (cases i)
    case 0
    with Cons.prems show ?thesis by (cases rs) auto
  next
    case (Suc j)
    then have j: "j < length rs" using Cons.prems(2) by simp
    have IH: "P (Suc m + j) (rs ! j) \<and> pi_byte_gates (rs ! j) (rs ! (Suc j mod length rs)) = Inr ()"
      using Cons.IH [of "Suc m" j] Cons.prems(1) j by simp
    show ?thesis
    proof (cases "Suc j < length rs")
      case True
      with IH Suc show ?thesis by simp
    next
      case False
      then have "j = length rs - 1" "rs \<noteq> []" using j by auto
      then have "rs ! j = last rs" "rs \<noteq> []" by (simp_all add: last_conv_nth)
      moreover have "\<forall>next. pi_byte_gates (last rs) next = Inr ()" if "laid_rows P k rs" "rs \<noteq> []" for k
        using that by (induction rs arbitrary: k) (auto split: if_splits)
      ultimately show ?thesis using IH Suc Cons.prems(1) by auto
    qed
  qed
qed simp

lemma rfold_counted:
  assumes "rfold f s xs = Inr t" "P 0 s"
    and "\<And>k s u. k < length xs \<Longrightarrow> P k s \<Longrightarrow> f s (xs ! k) = Inr u \<Longrightarrow> P (Suc k) u"
  shows "P (length xs) t"
  using assms
proof (induction xs arbitrary: P s)
  case (Cons x xs)
  obtain u where u: "f s x = Inr u" "rfold f u xs = Inr t" using Cons.prems(1) by (auto simp: rbind_ok)
  have "P (Suc 0) u" using Cons.prems(2) Cons.prems(3) [of 0 s u] u(1) by simp
  then show ?case
    using Cons.IH [of u "\<lambda>k. P (Suc k)"] u(2) Cons.prems(3) [of "Suc _"] by simp
qed simp

text \<open>The state when the rows from index \<open>m\<close> on are laid: the tables hold their part, in reverse.\<close>

definition layout_at :: "(int \<Rightarrow> int \<Rightarrow> int) \<Rightarrow> pi_columns \<Rightarrow> nat \<Rightarrow> pi_layout \<Rightarrow> bool" where
  "layout_at pfi co m s \<longleftrightarrow> ly_i s = int m - 1 \<and> laid_rows (columns_at pfi co) m (rev (ly_rows s)) \<and>
     (ly_rows s \<noteq> [] \<longrightarrow> ly_rlc s = pr_rpi_bytes_keccakrlc (last (ly_rows s)) \<and> ly_value_lc s = pr_rpi_value_lc (last (ly_rows s))) \<and>
     rev (ly_block_table s) = map (block_values_at co) [m..<268] \<and>
     rev (ly_tx_table s) = map (tx_row_at co) [m..<tx_end_of co] \<and>
     rev (ly_withdrawals s) = map (\<lambda>i. co_withdrawals co ! (i - tx_end_of co))
       [max m (tx_end_of co)..<tx_end_of co + co_MAX_WITHDRAWALS co] \<and>
     set (ly_gas_table s) = insert \<lparr>gr_tx_id = 0, gr_is_final = 0, gr_gas_cost_acc = 0\<rparr>
       (gas_row_at co ` {max m (tx_len_of co)..<tx_end_of co})"

lemma map_upt_step: "rev xs = map f [Suc m..<n] \<Longrightarrow> rev (xs @ (if m < n then [f m] else [])) = map f [m..<n]"
  by (simp add: upt_conv_Cons)

lemma layout_at_step:
  assumes inv: "layout_at pfi co (Suc m) s" and step: "layout_step pfi co s b = Inr u"
    and first: "ly_rows s = [] \<longleftrightarrow> int m = co_circuit_len co - 1" "ly_rows s = [] \<Longrightarrow> fst b = 0"
  shows "layout_at pfi co m u"
proof -
  have i: "ly_i s = int m" using inv by (simp add: layout_at_def)
  obtain r where r: "ly_rows u = ly_rows s @ [r]" "ly_i u = int m - 1" "columns_at pfi co m r"
    "byte_columns r = byte_columns (layout_byte co s b)" "ly_rlc u = pr_rpi_bytes_keccakrlc r" "ly_value_lc u = pr_rpi_value_lc r"
    and tables: "ly_block_table u = ly_block_table s @ (if m < 268 then [block_values_at co m] else [])"
    "ly_tx_table u = ly_tx_table s @ (if m < tx_end_of co then [tx_row_at co m] else [])"
    "ly_withdrawals u = ly_withdrawals s @ (if tx_end_of co \<le> m \<and> m < tx_end_of co + co_MAX_WITHDRAWALS co
      then [co_withdrawals co ! (m - tx_end_of co)] else [])"
    "ly_gas_table u = ly_gas_table s @ (if tx_len_of co \<le> m \<and> m < tx_end_of co then [gas_row_at co m] else [])"
    by (rule layout_step_columns [OF step i])
  have gates: "if ly_rows s = [] then \<forall>next. pi_byte_gates r next = Inr () else pi_byte_gates r (hd (rev (ly_rows s))) = Inr ()"
    using r(4) first inv i
    by (auto simp: byte_columns_def layout_byte_def empty_pi_row_def pi_byte_gates_def layout_at_def hd_rev split: prod.splits)
  have wd: "rev (ly_withdrawals u) = map (\<lambda>i. co_withdrawals co ! (i - tx_end_of co))
       [max m (tx_end_of co)..<tx_end_of co + co_MAX_WITHDRAWALS co]"
  proof (cases "tx_end_of co \<le> m")
    case True
    then show ?thesis
      using map_upt_step [of "ly_withdrawals s" "\<lambda>i. co_withdrawals co ! (i - tx_end_of co)" m] inv tables(3)
      by (simp add: layout_at_def max_def)
  next
    case False
    then show ?thesis using inv tables(3) by (auto simp: layout_at_def max_def)
  qed
  have "{max m (tx_len_of co)..<tx_end_of co} =
      (if tx_len_of co \<le> m \<and> m < tx_end_of co then {m} else {}) \<union> {max (Suc m) (tx_len_of co)..<tx_end_of co}"
    by auto
  then have gas: "set (ly_gas_table u) = insert \<lparr>gr_tx_id = 0, gr_is_final = 0, gr_gas_cost_acc = 0\<rparr>
       (gas_row_at co ` {max m (tx_len_of co)..<tx_end_of co})"
    using inv tables(4) by (auto simp: layout_at_def)
  show ?thesis
    unfolding layout_at_def
    using r inv gates wd gas map_upt_step [of "ly_block_table s"] map_upt_step [of "ly_tx_table s"] tables(1,2)
    by (simp add: layout_at_def)
qed

lemma layout_bytes_first: "layout_bytes raw \<noteq> [] \<Longrightarrow> fst (layout_bytes raw ! 0) = 0"
proof -
  have "concat (map (\<lambda>v. zip [0..<length v] v) vs) \<noteq> [] \<Longrightarrow> fst (concat (map (\<lambda>v. zip [0..<length v] v) vs) ! 0) = 0" for vs :: "int list list"
  proof (induction vs)
    case (Cons v vs)
    then show ?case by (cases "v = []") (simp_all add: nth_append)
  qed simp
  then show "layout_bytes raw \<noteq> [] \<Longrightarrow> fst (layout_bytes raw ! 0) = 0" by (simp add: layout_bytes_def)
qed

lemma layout_loop:
  assumes run: "rfold (layout_step pfi co) (new_layout n) (layout_bytes raw) = Inr s" and n: "n = int (length (layout_bytes raw))"
    and co: "co_circuit_len co = n" and big: "268 \<le> n" "int (tx_end_of co + co_MAX_WITHDRAWALS co) \<le> n"
  shows "layout_at pfi co 0 s"
proof -
  let ?bs = "layout_bytes raw"
  have "layout_at pfi co (length ?bs - length ?bs) s \<and> length (ly_rows s) = length ?bs"
  proof (rule rfold_counted [OF run, where P = "\<lambda>k s. layout_at pfi co (length ?bs - k) s \<and> length (ly_rows s) = k"])
    show "layout_at pfi co (length ?bs - 0) (new_layout n) \<and> length (ly_rows (new_layout n)) = 0"
      using n big by (auto simp: layout_at_def new_layout_def)
  next
    fix k and s u :: pi_layout
    assume k: "k < length ?bs" and inv: "layout_at pfi co (length ?bs - k) s \<and> length (ly_rows s) = k"
      and step: "layout_step pfi co s (?bs ! k) = Inr u"
    have "length ?bs - k = Suc (length ?bs - Suc k)" using k by simp
    then have inv': "layout_at pfi co (Suc (length ?bs - Suc k)) s" using inv by simp
    have empty: "ly_rows s = [] \<longleftrightarrow> k = 0" using inv by auto
    moreover have "k = 0 \<longleftrightarrow> int (length ?bs - Suc k) = co_circuit_len co - 1" using co n k by auto
    moreover have "fst (?bs ! k) = 0" if "k = 0" using layout_bytes_first [of raw] k that by auto
    ultimately have "layout_at pfi co (length ?bs - Suc k) u" using layout_at_step [OF inv' step] by metis
    moreover obtain r where "ly_rows u = ly_rows s @ [r]" using layout_step_row [OF step] by metis
    ultimately show "layout_at pfi co (length ?bs - Suc k) u \<and> length (ly_rows u) = Suc k" using inv by simp
  qed
  then show ?thesis by simp
qed

lemma laid_rows_digest:
  "laid_rows (columns_at pfi co) m (r # rs) \<Longrightarrow> laid_rows (columns_at pfi co) m (r\<lparr>pr_rpi_digest_word := x\<rparr> # rs)"
  by (auto simp: columns_at_def tx_columns_def withdrawal_columns_def pr_value_lo_def pi_byte_gates_def)

text \<open>The witness, index by index.\<close>

lemma witness_laid:
  assumes W: "public_data2witness pfi keccak d t c w = Inr W"
  obtains raw co where "raw_public_inputs d t c w = Inr (raw, pi_circuit_len W)" "pi_columns_of d (pi_circuit_len W) t c w = Inr co"
    "tx_end_of co + w \<le> length (pi_rows W)"
    "\<forall>i<length (pi_rows W). columns_at pfi co i (pi_rows W ! i) \<and>
      pi_byte_gates (pi_rows W ! i) (pi_rows W ! (Suc i mod length (pi_rows W))) = Inr ()"
    "pi_block_table W = map (block_values_at co) [0..<268]" "pi_tx_table W = map (tx_row_at co) [0..<tx_end_of co]"
    "pi_withdrawal_table W = map (\<lambda>j. co_withdrawals co ! j) [0..<w]"
    "pi_calldata_gas_cost_table W = insert \<lparr>gr_tx_id = 0, gr_is_final = 0, gr_gas_cost_acc = 0\<rparr>
      (gas_row_at co ` {tx_len_of co..<tx_end_of co})"
    "pi_block_hash (pi_public_inputs W) = co_block_hash co" "pi_state_root (pi_public_inputs W) = co_state_root co"
    "pi_state_root_prev (pi_public_inputs W) = co_state_root_prev co" "pi_copy_constrains W = raw"
    "pi_keccak_add keccak (map snd (layout_bytes raw)) keccak_rand new_keccak_table = Inr (pi_keccak_table W)"
proof -
  obtain raw n co s digest where raw: "raw_public_inputs d t c w = Inr (raw, n)" and co: "pi_columns_of d n t c w = Inr co"
    and run: "rfold (layout_step pfi co) (new_layout n) (layout_bytes raw) = Inr s" and ne: "ly_rows s \<noteq> []"
    and rows: "pi_rows W = (last (ly_rows s))\<lparr>pr_rpi_digest_word := digest\<rparr> # tl (rev (ly_rows s))"
    and len: "pi_circuit_len W = n"
    and W_eqs: "pi_copy_constrains W = raw" "pi_block_table W = rev (ly_block_table s)" "pi_tx_table W = rev (ly_tx_table s)"
    "pi_withdrawal_table W = rev (ly_withdrawals s)" "pi_calldata_gas_cost_table W = set (ly_gas_table s)"
    "pi_public_inputs W = \<lparr>pi_keccak = digest, pi_block_hash = co_block_hash co, pi_state_root = co_state_root co,
       pi_state_root_prev = co_state_root_prev co\<rparr>"
    "pi_keccak_add keccak (map snd (layout_bytes raw)) keccak_rand new_keccak_table = Inr (pi_keccak_table W)"
    by (rule public_data2witness_ok [OF W])
  have n: "n = int (length (layout_bytes raw))" using raw_public_inputs_len(1) [OF raw] length_layout_bytes by simp
  have sizes: "co_circuit_len co = n" "co_MAX_WITHDRAWALS co = w" "tx_end_of co = tx_table_len t + c"
    using co by (auto simp: pi_columns_of_def rbind_ok tx_end_of_def tx_len_of_def)
  have big: "268 \<le> n" "int (tx_end_of co + co_MAX_WITHDRAWALS co) \<le> n"
    using raw_public_inputs_len(2,5) [OF raw] by (simp_all add: sizes)
  note inv = layout_loop [OF run n sizes(1) big, unfolded layout_at_def]
  obtain r rs where rev: "rev (ly_rows s) = r # rs" using ne by (cases "rev (ly_rows s)") auto
  then have "last (ly_rows s) = r" by (metis hd_rev list.sel(1))
  then have "laid_rows (columns_at pfi co) 0 (pi_rows W)"
    using inv laid_rows_digest [of pfi co 0 r rs digest] unfolding rows rev by simp
  note nth = laid_rows_nth [OF this, simplified]
  have "length (pi_rows W) = length (layout_bytes raw)" by (rule witness_rows(1) [OF run n ne rows])
  then have "tx_end_of co + w \<le> length (pi_rows W)" using big(2) n sizes(2) by simp
  moreover have "rev (ly_withdrawals s) = map (\<lambda>j. co_withdrawals co ! j) [0..<w]"
  proof -
    have "map (\<lambda>i. co_withdrawals co ! (i - tx_end_of co)) [tx_end_of co..<tx_end_of co + w] = map (\<lambda>j. co_withdrawals co ! j) [0..<w]"
      by (rule nth_equalityI) simp_all
    then show ?thesis using inv sizes(2) by (simp add: max_def)
  qed
  ultimately show ?thesis
    using that [of raw co] raw co len W_eqs inv nth by simp
qed

end
