(* ===== verification/Pi_Gates.thy ===== *)
theory Pi_Gates
  imports Pi_Rows Lookup
begin

text \<open>
  The gates of the public input circuit on rows that are laid out right: for the rows of the
  transactions and for neighbouring cells of the call data.
\<close>

section \<open>Inverses\<close>

text \<open>What the library promises of the inverse of an element that is asked for.\<close>

definition inverts :: "(int \<Rightarrow> int \<Rightarrow> int) \<Rightarrow> fq \<Rightarrow> bool" where
  "inverts pfi x \<longleftrightarrow> x = 0 \<or> fq_inv pfi x * x = 1"

lemma inverts_nonzero: "inverts pfi x \<Longrightarrow> x \<noteq> 0 \<Longrightarrow> x * fq_inv pfi x = 1" "inverts pfi x \<Longrightarrow> x \<noteq> 0 \<Longrightarrow> fq_inv pfi x * x = 1"
  by (simp_all add: inverts_def mult.commute)

lemma inverts_gate: "inverts pfi x \<Longrightarrow> x * (1 - fq_inv pfi x * x) = 0"
  by (auto simp: inverts_def)

definition byte_cost :: "fq \<Rightarrow> fq" where
  "byte_cost v = (if v = 0 then FQ GAS_COST_TX_CALL_DATA_PER_ZERO_BYTE else FQ GAS_COST_TX_CALL_DATA_PER_NON_ZERO_BYTE)"

lemma byte_gas_cost:
  assumes "pr_tx_value_lo_inv r = fq_inv pfi (pr_value_lo r)" "inverts pfi (pr_value_lo r)"
  shows "byte_gas r = byte_cost (pr_value_lo r)"
  using inverts_nonzero(1) [OF assms(2)] by (cases "pr_value_lo r = 0") (simp_all add: byte_gas_def byte_cost_def assms(1))

lemma lookup_gas:
  assumes "\<lparr>gr_tx_id = a, gr_is_final = b, gr_gas_cost_acc = c\<rparr> \<in> G"
  shows "lookup (\<lambda>g. gr_tx_id g = a \<and> gr_is_final g = b \<and> gr_gas_cost_acc g = c) G =
    Inr \<lparr>gr_tx_id = a, gr_is_final = b, gr_gas_cost_acc = c\<rparr>"
proof -
  have "{x \<in> G. gr_tx_id x = a \<and> gr_is_final x = b \<and> gr_gas_cost_acc x = c} = {\<lparr>gr_tx_id = a, gr_is_final = b, gr_gas_cost_acc = c\<rparr>}"
    using assms by auto
  then show ?thesis by (simp add: lookup_found)
qed

section \<open>Transactions\<close>

lemma tx_gates_pass:
  assumes inv: "pr_tx_id_inv r = fq_inv pfi (pt_tag (pr_tx_table r) - FQ (tc_int TC_CallDataLength))"
      "inverts pfi (pt_tag (pr_tx_table r) - FQ (tc_int TC_CallDataLength))"
      "pr_tx_value_lo_inv r = fq_inv pfi (pr_value_lo r)" "inverts pfi (pr_value_lo r)"
    and zero: "\<lparr>gr_tx_id = 0, gr_is_final = 0, gr_gas_cost_acc = 0\<rparr> \<in> G"
    and len: "pt_tag (pr_tx_table r) = FQ (tc_int TC_CallDataLength) \<Longrightarrow>
      (if pr_value_lo r = 0 then pr_value_lo r' = 0
       else \<lparr>gr_tx_id = pt_tx_id (pr_tx_table r), gr_is_final = 1, gr_gas_cost_acc = pr_value_lo r'\<rparr> \<in> G)"
  shows "pi_tx_gates G r r' = Inr ()"
proof -
  let ?c = "pt_tag (pr_tx_table r) - FQ (tc_int TC_CallDataLength)"
  have gates: "?c * (1 - pr_tx_id_inv r * ?c) = 0" "pr_value_lo r * (1 - pr_tx_value_lo_inv r * pr_value_lo r) = 0"
    unfolding inv(1,3) by (rule inverts_gate, rule inv)+
  show ?thesis
  proof (cases "?c = 0")
    case False
    then have "1 - ?c * pr_tx_id_inv r = 0" using inverts_nonzero(1) [OF inv(2)] inv(1) by simp
    then show ?thesis
      unfolding pi_tx_gates_def Let_def using gates lookup_gas [OF zero] by simp
  next
    case True
    note len = len [OF True [unfolded right_minus_eq]]
    show ?thesis
    proof (cases "pr_value_lo r = 0")
      case zero_len: True
      then show ?thesis
        unfolding pi_tx_gates_def Let_def using True gates lookup_gas [OF zero] len by simp
    next
      case False
      then have "pr_value_lo r * pr_tx_value_lo_inv r = 1" using inverts_nonzero(1) [OF inv(4)] inv(3) by simp
      then show ?thesis
        unfolding pi_tx_gates_def Let_def using True gates lookup_gas len False by simp
    qed
  qed
qed

section \<open>Call data\<close>

definition zero_cell :: calldata_col where "zero_cell = (0, 0, ValueV 0, 0, 0)"

definition id_of :: "calldata_col \<Rightarrow> fq" where "id_of cell = fst cell"
definition index_of :: "calldata_col \<Rightarrow> fq" where "index_of cell = fst (snd cell)"
definition value_of :: "calldata_col \<Rightarrow> fq" where "value_of cell = lo (wov_word (fst (snd (snd cell))))"

text \<open>Padding, the next byte of the same transaction, the first byte of a later one, the end.\<close>

definition follows_cell :: "calldata_col \<Rightarrow> calldata_col \<Rightarrow> bool" where
  "follows_cell a b \<longleftrightarrow>
     (if id_of a = 0 then a = zero_cell \<and> b = zero_cell
      else if id_of b = id_of a then index_of b = index_of a + 1 \<and> final_of a = 0 \<and> gas_of b = gas_of a + byte_cost (value_of b)
      else index_of b = 0 \<and> final_of a = 1 \<and>
        (if id_of b = 0 then b = zero_cell else gas_of b = byte_cost (value_of b) \<and> id_of b - id_of a - 1 \<in> fixed_u16_table))"

definition holds_cell :: "pi_row \<Rightarrow> calldata_col \<Rightarrow> bool" where
  "holds_cell r cell \<longleftrightarrow> pt_tx_id (pr_tx_table r) = id_of cell \<and> pt_index (pr_tx_table r) = index_of cell \<and>
     pr_value_lo r = value_of cell \<and> pr_calldata_gas_cost r = gas_of cell \<and> pr_is_final r = final_of cell"

lemma zero_in_u16: "0 \<in> fixed_u16_table"
  by (auto simp: fixed_u16_table_def intro!: image_eqI [where x = 0])

lemma lookup_u16: "x \<in> fixed_u16_table \<Longrightarrow> lookup (\<lambda>v. v = x) fixed_u16_table = Inr x"
  by (subst lookup_found) auto

lemma calldata_gates_pass:
  assumes r: "holds_cell r a" "pr_tx_id_inv r = fq_inv pfi (id_of a)" "inverts pfi (id_of a)"
      "pr_tx_value_lo_inv r = fq_inv pfi (value_of a)" "inverts pfi (value_of a)"
    and r': "holds_cell r' b" "id_of b * pr_tx_id_inv r' = (if id_of b = 0 then 0 else 1)"
      "id_of b \<noteq> 0 \<Longrightarrow> byte_gas r' = byte_cost (value_of b)"
    and diff: "pr_tx_id_diff_inv r = fq_inv pfi (id_of b - id_of a)" "inverts pfi (id_of b - id_of a)"
    and step: "follows_cell a b"
    and start: "pr_q_tx_calldata_start r = 0 \<or> id_of a = 0 \<or> index_of a = 0 \<and> gas_of a = byte_cost (value_of a)"
  shows "pi_calldata_gates r r' = Inr ()"
proof -
  have eqs: "pt_tx_id (pr_tx_table r) = id_of a" "pt_index (pr_tx_table r) = index_of a" "pr_value_lo r = value_of a"
    "pr_calldata_gas_cost r = gas_of a" "pr_is_final r = final_of a"
    "pt_tx_id (pr_tx_table r') = id_of b" "pt_index (pr_tx_table r') = index_of b"
    "pr_calldata_gas_cost r' = gas_of b"
    using r(1) r'(1) by (simp_all add: holds_cell_def)
  have gas: "byte_gas r = byte_cost (value_of a)" using byte_gas_cost [of r pfi] r(4,5) eqs(3) by simp
  have id: "id_of a * pr_tx_id_inv r = (if id_of a = 0 then 0 else 1)" "pr_tx_id_inv r * id_of a = (if id_of a = 0 then 0 else 1)"
    using inverts_nonzero [OF r(3)] r(2) by simp_all
  have ne: "(id_of b - id_of a) * pr_tx_id_diff_inv r = (if id_of b = id_of a then 0 else 1)"
    using inverts_nonzero(1) [OF diff(2)] diff(1) by simp
  have gates: "id_of a * (1 - pr_tx_id_inv r * id_of a) = 0" "value_of a * (1 - pr_tx_value_lo_inv r * value_of a) = 0"
    "(id_of b - id_of a) * (1 - pr_tx_id_diff_inv r * (id_of b - id_of a)) = 0"
    unfolding r(2,4) diff(1) by (rule inverts_gate, rule r(3,5) diff(2))+
  have default: "pi_calldata_defaults r r' = Inr ()"
    unfolding pi_calldata_defaults_def Let_def eqs using gates id step
    by (simp add: follows_cell_def zero_cell_def id_of_def final_of_def gas_of_def split: if_splits)
  show ?thesis
  proof (cases "id_of a = 0")
    case True
    then have "id_of b = 0" using step by (simp add: follows_cell_def zero_cell_def id_of_def)
    with True show ?thesis
      unfolding pi_calldata_gates_def Let_def eqs default ne id r'(2) using lookup_u16 [OF zero_in_u16] by simp
  next
    case False
    note st = start step [unfolded follows_cell_def]
    consider (same) "id_of b = id_of a" | (other) "id_of b \<noteq> id_of a" "id_of b \<noteq> 0" | (last) "id_of b \<noteq> id_of a" "id_of b = 0" by blast
    then show ?thesis
    proof cases
      case same
      with False st r'(3) show ?thesis
        unfolding pi_calldata_gates_def Let_def eqs default ne id r'(2) gas using lookup_u16 [OF zero_in_u16] by auto
    next
      case other
      with False st r'(3) lookup_u16 [of "id_of b - id_of a - 1"] show ?thesis
        unfolding pi_calldata_gates_def Let_def eqs default ne id r'(2) gas by auto
    next
      case last
      with False st lookup_u16 [OF zero_in_u16] show ?thesis
        unfolding pi_calldata_gates_def Let_def eqs default ne id r'(2) gas
        by (auto simp: zero_cell_def gas_of_def index_of_def)
    qed
  qed
qed

end
