(* ===== verification/Pi_Cells.thy ===== *)
theory Pi_Cells
  imports Pi_Gates
begin

text \<open>
  What the columns of the public data hold: the fields of the transactions, ten rows each, and the
  cells of the call data, in which every cell is followed by what the gates expect.
\<close>

section \<open>The fields of the transactions\<close>

definition tx_values :: "pi_transaction \<Rightarrow> word_or_value list" where
  "tx_values tx =
     [ValueV (FQ (pq_nonce tx)), ValueV (FQ (pq_gas tx)), WordV (word_of (pq_gas_price tx)), ValueV (FQ (pq_from_addr tx)),
      ValueV (FQ (to_addr_or_0 tx)), ValueV (FQ (if pq_to_addr tx = None then 1 else 0)), WordV (word_of (pq_value tx)),
      ValueV (FQ (int (length (pq_data tx)))), ValueV (FQ (pi_call_data_gas_cost (pq_data tx))),
      WordV (word_of (pq_tx_sign_hash tx))]"

lemma tx_values_column: "pi_tx_ok tx \<Longrightarrow> tx_table_value_column tx = Inr (tx_values tx)"
  by (simp add: tx_table_value_column_def tx_values_def as_value_def as_word_def pi_tx_ok_def fits_def word_of_int256_Inr)

lemma length_tx_values [simp]: "length (tx_values tx) = 10"
  by (simp add: tx_values_def)

lemma concat_nth10:
  "(\<And>x. x \<in> set xs \<Longrightarrow> length (f x) = 10) \<Longrightarrow> j < length xs \<Longrightarrow> r < 10 \<Longrightarrow> concat (map f xs) ! (10 * j + r) = f (xs ! j) ! r"
proof (induction xs arbitrary: j)
  case (Cons x xs)
  then show ?case by (cases j) (simp_all add: nth_append)
qed simp

lemma length_concat10: "(\<And>x. x \<in> set xs \<Longrightarrow> length (f x) = 10) \<Longrightarrow> length (concat (map f xs)) = 10 * length xs"
  by (induction xs) simp_all

definition tx_ids :: "nat \<Rightarrow> fq list" where
  "tx_ids t = concat (map (\<lambda>i. replicate 10 (FQ (int i + 1))) [0..<t])"

lemma tx_cols_eq:
  assumes "public_data_ok d t c w"
  shows "tx_table_tx_cols d t = Inr (tx_ids t, replicate (10 * t) 0, concat (map (\<lambda>i. tx_values (tx_at d i)) [0..<t]))"
proof -
  let ?f = "\<lambda>(ids, idxs, vals) i. rbind (tx_table_tx_fields (tx_at d i) (int i)) (\<lambda>(tx_id_col, index_col, value_col).
         Inr (ids @ tx_id_col, idxs @ index_col, vals @ value_col))"
  obtain cols where cols: "tx_table_tx_cols d t = Inr cols" using tx_cols_total [OF assms] by blast
  then have run: "rfold ?f ([], [], []) [0..<t] = Inr cols" by (auto simp: tx_table_tx_cols_def rbind_ok)
  have "cols = (tx_ids (length [0..<t]), replicate (10 * length [0..<t]) 0,
      concat (map (\<lambda>i. tx_values (tx_at d i)) [0..<length [0..<t]]))"
  proof (rule rfold_counted [OF run, where P = "\<lambda>k s. s = (tx_ids k, replicate (10 * k) 0, concat (map (\<lambda>i. tx_values (tx_at d i)) [0..<k]))"])
    fix k s u
    assume k: "k < length [0..<t]" and s: "s = (tx_ids k, replicate (10 * k) 0, concat (map (\<lambda>i. tx_values (tx_at d i)) [0..<k]))"
      and u: "?f s ([0..<t] ! k) = Inr u"
    have "replicate (10 * k) (0::fq) @ replicate 10 0 = replicate (10 * Suc k) 0" by (simp flip: replicate_add)
    with u k show "u = (tx_ids (Suc k), replicate (10 * Suc k) 0, concat (map (\<lambda>i. tx_values (tx_at d i)) [0..<Suc k]))"
      by (simp add: s tx_table_tx_fields_def tx_values_column [OF tx_at_ok [OF assms]] tx_ids_def assert_that_def raise_unless_def)
  qed (simp add: tx_ids_def)
  with cols show ?thesis by simp
qed

section \<open>The cells of the call data\<close>

lemma follows_zero: "follows_cell zero_cell zero_cell"
  by (simp add: follows_cell_def zero_cell_def id_of_def)

primrec cells_follow :: "calldata_col list \<Rightarrow> calldata_col \<Rightarrow> bool" where
  "cells_follow [] z \<longleftrightarrow> True"
| "cells_follow (x # xs) z \<longleftrightarrow> follows_cell x (hd (xs @ [z])) \<and> cells_follow xs z"

lemma cells_follow_append: "cells_follow (xs @ ys) z \<longleftrightarrow> cells_follow xs (hd (ys @ [z])) \<and> cells_follow ys z"
proof (induction xs)
  case (Cons x xs)
  then show ?case by (cases xs) auto
qed simp

lemma cells_follow_nth:
  "cells_follow xs z \<longleftrightarrow> (\<forall>p<length xs. follows_cell (xs ! p) (if Suc p < length xs then xs ! Suc p else z))"
proof (induction xs)
  case (Cons x xs)
  have "hd (xs @ [z]) = (if 0 < length xs then xs ! 0 else z)" by (cases xs) simp_all
  with Cons show ?case by (simp add: All_less_Suc2)
qed simp

lemma cells_follow_zeros: "cells_follow (replicate n zero_cell) zero_cell"
proof (induction n)
  case (Suc n)
  have "hd (replicate n zero_cell @ [zero_cell]) = zero_cell" by (cases n) simp_all
  with Suc show ?case using follows_zero by simp
qed simp

text \<open>What may follow the last byte of transaction \<open>i\<close>: padding, or the first byte of a later one.\<close>

definition opens_after :: "nat \<Rightarrow> calldata_col \<Rightarrow> bool" where
  "opens_after i z \<longleftrightarrow> z = zero_cell \<or>
     (\<exists>k. i < k \<and> k < 2 ^ 16 \<and> id_of z = FQ (int k + 1) \<and> index_of z = 0 \<and> gas_of z = byte_cost (value_of z))"

lemma FQ_small_eq: "0 \<le> a \<Longrightarrow> a < 2 ^ 128 \<Longrightarrow> 0 \<le> b \<Longrightarrow> b < 2 ^ 128 \<Longrightarrow> FQ a = FQ b \<longleftrightarrow> a = b"
  by (rule FQ_inject) (simp_all add: fq_modulus_def)

lemma FQ_small_0: "0 \<le> a \<Longrightarrow> a < 2 ^ 128 \<Longrightarrow> FQ a = 0 \<longleftrightarrow> a = 0"
  using FQ_small_eq [of a 0] by simp

lemma pi_call_data_gas_cost_snoc:
  "pi_call_data_gas_cost (bs @ [b]) = pi_call_data_gas_cost bs +
     (if b = 0 then GAS_COST_TX_CALL_DATA_PER_ZERO_BYTE else GAS_COST_TX_CALL_DATA_PER_NON_ZERO_BYTE)"
  by (simp add: pi_call_data_gas_cost_def)

lemma gas_take_Suc:
  assumes "list_all is_byte data" "p < length data"
  shows "FQ (pi_call_data_gas_cost (take (Suc p) data)) = FQ (pi_call_data_gas_cost (take p data)) + byte_cost (FQ (data ! p))"
proof -
  have "is_byte (data ! p)" using assms by (simp add: list_all_length)
  then have "FQ (data ! p) = 0 \<longleftrightarrow> data ! p = 0" by (intro FQ_small_0) (auto simp: is_byte_def)
  then show ?thesis
    using assms(2) by (simp add: take_Suc_conv_app_nth pi_call_data_gas_cost_snoc byte_cost_def FQ_of_int)
qed

lemma cell_fields:
  assumes "p < length data"
  shows "id_of (calldata_rows i data ! p) = FQ (int i + 1)" "index_of (calldata_rows i data ! p) = FQ (int p)"
    "value_of (calldata_rows i data ! p) = FQ (data ! p)"
    "gas_of (calldata_rows i data ! p) = FQ (pi_call_data_gas_cost (take (Suc p) data))"
    "final_of (calldata_rows i data ! p) = fq_of_bool (p = length data - 1)"
  using assms by (simp_all add: calldata_rows_def id_of_def index_of_def value_of_def gas_of_def final_of_def fq_of_bool_def)

lemma length_calldata_rows [simp]: "length (calldata_rows i data) = length data"
  by (simp add: calldata_rows_def)

lemma u16_step:
  assumes "i < k" "k < 2 ^ 16"
  shows "FQ (int k + 1) - FQ (int i + 1) - 1 \<in> fixed_u16_table"
proof -
  have "FQ (int k + 1) - FQ (int i + 1) - 1 = FQ (int (k - i - 1))"
    using assms(1) by (simp add: FQ_of_int of_nat_diff)
  moreover have "k - i - 1 < 2 ^ 16" using assms by simp
  ultimately show ?thesis by (simp add: fixed_u16_table_def)
qed

lemma cells_of_tx:
  assumes data: "list_all is_byte data" "i < 2 ^ 16" and z: "opens_after i z"
  shows "cells_follow (calldata_rows i data) z"
  unfolding cells_follow_nth
proof (intro allI impI)
  fix p
  assume p: "p < length (calldata_rows i data)"
  have id: "FQ (int i + 1) \<noteq> 0" using data(2) by (subst FQ_small_0) simp_all
  show "follows_cell (calldata_rows i data ! p) (if Suc p < length (calldata_rows i data) then calldata_rows i data ! Suc p else z)"
  proof (cases "Suc p < length data")
    case True
    then show ?thesis
      using gas_take_Suc [OF data(1) True] id by (auto simp: follows_cell_def cell_fields FQ_of_int)
  next
    case False
    then have last: "p = length data - 1" "p < length data" using p by auto
    show ?thesis
    proof (cases "z = zero_cell")
      case True
      with last id show ?thesis by (simp add: follows_cell_def cell_fields) (simp add: zero_cell_def id_of_def index_of_def)
    next
      case False
      then obtain k where k: "i < k" "k < 2 ^ 16" "id_of z = FQ (int k + 1)" "index_of z = 0" "gas_of z = byte_cost (value_of z)"
        using z by (auto simp: opens_after_def)
      have "FQ (int k + 1) \<noteq> FQ (int i + 1)" "FQ (int k + 1) \<noteq> 0"
        using k(1,2) data(2) by (subst FQ_small_eq FQ_small_0; simp)+
      with last id k u16_step [OF k(1,2)] show ?thesis by (simp add: follows_cell_def cell_fields)
    qed
  qed
qed

lemma first_cell_opens:
  assumes "list_all is_byte data" "data \<noteq> []" "i < k" "k < 2 ^ 16"
  shows "opens_after i (calldata_rows k data ! 0)"
  using assms gas_take_Suc [OF assms(1), of 0] by (auto simp: opens_after_def cell_fields pi_call_data_gas_cost_def intro!: exI [of _ k])

lemma cells_of_txs:
  assumes data: "\<And>i. i < n \<Longrightarrow> list_all is_byte (data i)" "n \<le> 2 ^ 16" and k: "k \<le> n"
  shows "cells_follow (concat (map (\<lambda>i. calldata_rows i (data i)) [k..<n]) @ replicate m zero_cell) zero_cell \<and>
    (\<forall>i<k. opens_after i (hd (concat (map (\<lambda>i. calldata_rows i (data i)) [k..<n]) @ replicate m zero_cell @ [zero_cell])))"
  using k
proof (induction rule: inc_induct)
  case base
  have "hd (replicate m zero_cell @ [zero_cell]) = zero_cell" by (cases m) simp_all
  then show ?case using cells_follow_zeros by (simp add: opens_after_def)
next
  case (step k)
  let ?rest = "concat (map (\<lambda>i. calldata_rows i (data i)) [Suc k..<n]) @ replicate m zero_cell"
  have split: "concat (map (\<lambda>i. calldata_rows i (data i)) [k..<n]) @ replicate m zero_cell = calldata_rows k (data k) @ ?rest"
    using step.hyps by (simp add: upt_conv_Cons)
  have IH: "cells_follow ?rest zero_cell" "\<And>i. i < Suc k \<Longrightarrow> opens_after i (hd (?rest @ [zero_cell]))"
    using step.IH by simp_all
  have bytes: "list_all is_byte (data k)" using data(1) step.hyps by simp
  have "cells_follow (calldata_rows k (data k)) (hd (?rest @ [zero_cell]))"
    using IH(2) [of k] step.hyps data(2) by (intro cells_of_tx bytes) simp_all
  moreover have "opens_after i (hd (calldata_rows k (data k) @ ?rest @ [zero_cell]))" if "i < k" for i
  proof (cases "data k = []")
    case True
    then have "calldata_rows k (data k) = []" by (simp add: calldata_rows_def)
    with IH(2) [of i] that show ?thesis by simp
  next
    case False
    then have "calldata_rows k (data k) \<noteq> []" by (metis length_calldata_rows length_0_conv)
    then have "hd (calldata_rows k (data k) @ ?rest @ [zero_cell]) = calldata_rows k (data k) ! 0" by (simp add: hd_append hd_conv_nth)
    then show ?thesis using first_cell_opens [OF bytes False that] step.hyps data(2) by simp
  qed
  ultimately show ?case using IH(1) split by (simp add: cells_follow_append)
qed

end
