(* ===== verification/Pi_Accept.thy ===== *)
theory Pi_Accept
  imports Pi_Cells
begin

text \<open>
  Which witnesses of the public input circuit are accepted: for public data in range exactly those of
  blocks that fill every place of the withdrawals, with numbers that count up from zero and amounts
  other than zero.
\<close>

section \<open>The columns\<close>

definition data_cells :: "public_data \<Rightarrow> calldata_col list" where
  "data_cells d = concat (map (\<lambda>i. calldata_rows i (pq_data (pd_txs d ! i))) [0..<length (pd_txs d)])"

definition cells :: "public_data \<Rightarrow> nat \<Rightarrow> calldata_col list" where
  "cells d c = data_cells d @ replicate (c - length (data_cells d)) zero_cell"

lemma calldata_cols_eq:
  assumes "public_data_ok d t c w"
  shows "tx_table_tx_calldata_cols d c = Inr (cells d c)" "length (cells d c) = c"
proof -
  obtain cd where cd: "tx_table_tx_calldata_cols d c = Inr cd" "length cd = c" using calldata_total [OF assms] by blast
  have "cd = cells d c"
    using cd(1) by (auto simp: tx_table_tx_calldata_cols_def Let_def rbind_ok cells_def data_cells_def zero_cell_def)
  with cd show "tx_table_tx_calldata_cols d c = Inr (cells d c)" "length (cells d c) = c" by simp_all
qed

lemma columns_contents:
  assumes ok: "public_data_ok d t c w" and co: "pi_columns_of d n t c w = Inr co"
  shows "tx_len_of co = 10 * t + 1" "tx_end_of co = 10 * t + 1 + c" "co_MAX_WITHDRAWALS co = w" "co_calldata co = cells d c"
    and "tx_row_at co 0 = \<lparr>pt_tx_id = 0, pt_tag = 0, pt_index = 0, pt_value = ValueV 0\<rparr>"
    and "j < t \<Longrightarrow> q < 10 \<Longrightarrow> tx_row_at co (10 * j + q + 1) =
      \<lparr>pt_tx_id = FQ (int j + 1), pt_tag = FQ (int q + 1), pt_index = 0, pt_value = tx_values (tx_at d j) ! q\<rparr>"
    and "p < c \<Longrightarrow> tx_row_at co (10 * t + 1 + p) =
      \<lparr>pt_tx_id = id_of (cells d c ! p), pt_tag = FQ (tc_int TC_CallData), pt_index = index_of (cells d c ! p),
       pt_value = fst (snd (snd (cells d c ! p)))\<rparr>"
proof -
  note cd = calldata_cols_eq [OF ok]
  let ?vals = "concat (map (\<lambda>i. tx_values (tx_at d i)) [0..<t])"
  have "tx_table_cols d t c = Inr (0 # tx_ids t @ map fst (cells d c), 0 # replicate (10 * t) 0 @ map (fst \<circ> snd) (cells d c),
      ValueV 0 # ?vals @ map (fst \<circ> snd \<circ> snd) (cells d c))"
    by (simp add: tx_table_cols_def tx_cols_eq [OF ok] cd)
  then have cols: "co_tx_cols co = (0 # tx_ids t @ map fst (cells d c), 0 # replicate (10 * t) 0 @ map (fst \<circ> snd) (cells d c),
      ValueV 0 # ?vals @ map (fst \<circ> snd \<circ> snd) (cells d c))" "co_calldata co = cells d c" "co_MAX_TXS co = t"
      "co_MAX_CALLDATA_BYTES co = c" "co_MAX_WITHDRAWALS co = w"
    using co cd by (auto simp: pi_columns_of_def rbind_ok)
  then show len: "tx_len_of co = 10 * t + 1" "tx_end_of co = 10 * t + 1 + c" "co_MAX_WITHDRAWALS co = w" "co_calldata co = cells d c"
    by (simp_all add: tx_len_of_def tx_end_of_def tx_table_len_def)
  have lens: "length (tx_ids t) = 10 * t" "length ?vals = 10 * t"
    unfolding tx_ids_def by (subst length_concat10; simp)+
  show "tx_row_at co 0 = \<lparr>pt_tx_id = 0, pt_tag = 0, pt_index = 0, pt_value = ValueV 0\<rparr>"
    by (simp add: tx_row_at_def cols pi_tag_def)
  show "tx_row_at co (10 * j + q + 1) =
      \<lparr>pt_tx_id = FQ (int j + 1), pt_tag = FQ (int q + 1), pt_index = 0, pt_value = tx_values (tx_at d j) ! q\<rparr>"
    if j: "j < t" "q < 10"
  proof -
    have "10 * j + q < 10 * t" using j by linarith
    moreover have "tx_ids t ! (10 * j + q) = FQ (int j + 1)" "?vals ! (10 * j + q) = tx_values (tx_at d j) ! q"
      unfolding tx_ids_def using j by (subst concat_nth10; simp)+
    moreover have "pi_tag t (int (10 * j + q + 1)) = FQ (int q + 1)"
    proof -
      have "int (10 * j + q + 1) mod 10 = (int q + 1) mod 10" by presburger
      moreover have "q = 9 \<or> (int q + 1) mod 10 = int q + 1" "(int q + 1) mod 10 = 0 \<longleftrightarrow> q = 9" using j by presburger+
      ultimately show ?thesis
        using \<open>10 * j + q < 10 * t\<close> by (auto simp: pi_tag_def tx_table_len_def)
    qed
    ultimately show ?thesis using lens by (simp add: tx_row_at_def cols nth_append)
  qed
  show "tx_row_at co (10 * t + 1 + p) =
      \<lparr>pt_tx_id = id_of (cells d c ! p), pt_tag = FQ (tc_int TC_CallData), pt_index = index_of (cells d c ! p),
       pt_value = fst (snd (snd (cells d c ! p)))\<rparr>" if "p < c"
    using that lens cd(2) by (simp add: tx_row_at_def cols nth_append id_of_def index_of_def pi_tag_def tx_table_len_def)
qed

section \<open>The elements that are inverted\<close>

definition pi_inverted :: "public_data \<Rightarrow> nat \<Rightarrow> fq list" where
  "pi_inverted d t = map (\<lambda>k. FQ (int k) - FQ 8) [0..<11] @
     concat (map (\<lambda>a. map (\<lambda>b. FQ (int a) - FQ (int b)) [0..<Suc t]) [0..<Suc t]) @
     concat (map (\<lambda>tx. map (\<lambda>v. lo (wov_word v)) (tx_values tx) @ map FQ (pq_data tx)) (pd_txs d))"

lemma inverted_members:
  assumes "list_all (inverts pfi) (pi_inverted d t)"
  shows "k \<le> 10 \<Longrightarrow> inverts pfi (FQ (int k) - FQ 8)"
    and "a \<le> t \<Longrightarrow> b \<le> t \<Longrightarrow> inverts pfi (FQ (int a) - FQ (int b))"
    and "q < 10 \<Longrightarrow> inverts pfi (lo (wov_word (tx_values (tx_at d j) ! q)))"
    and "tx \<in> set (pd_txs d) \<Longrightarrow> byte \<in> set (pq_data tx) \<Longrightarrow> inverts pfi (FQ byte)"
proof -
  note all = assms [unfolded list_all_iff pi_inverted_def]
  show "inverts pfi (FQ (int k) - FQ 8)" if "k \<le> 10"
    using all that by (auto simp del: upt_Suc)
  show "inverts pfi (FQ (int a) - FQ (int b))" if "a \<le> t" "b \<le> t"
  proof -
    have "FQ (int a) - FQ (int b) \<in> (\<Union>a\<in>{0..<Suc t}. (\<lambda>b. FQ (int a) - FQ (int b)) ` {0..<Suc t})"
      using that by (intro UN_I [of a] image_eqI [of _ _ b]) simp_all
    with all show ?thesis by (auto simp del: upt_Suc)
  qed
  have fields: "\<And>x. x \<in> (\<Union>tx\<in>set (pd_txs d). (\<lambda>v. lo (wov_word v)) ` set (tx_values tx) \<union> FQ ` set (pq_data tx)) \<Longrightarrow> inverts pfi x"
    using all by (auto simp del: upt_Suc)
  show "inverts pfi (FQ byte)" if "tx \<in> set (pd_txs d)" "byte \<in> set (pq_data tx)"
    using that by (intro fields UN_I [of tx] UnI2 imageI)
  show "inverts pfi (lo (wov_word (tx_values (tx_at d j) ! q)))" if q: "q < 10"
  proof (cases "j < length (pd_txs d)")
    case True
    then have "tx_at d j \<in> set (pd_txs d)" by (simp add: tx_at_def)
    moreover have "tx_values (tx_at d j) ! q \<in> set (tx_values (tx_at d j))" using q by simp
    ultimately show ?thesis by (intro fields UN_I [of "tx_at d j"] UnI1 imageI)
  next
    case False
    have "\<forall>v\<in>set (tx_values default_pi_transaction). lo (wov_word v) = 0"
      by (simp add: tx_values_def default_pi_transaction_def to_addr_or_0_def pi_call_data_gas_cost_def word_of_0)
    moreover have "tx_values (tx_at d j) ! q \<in> set (tx_values default_pi_transaction)"
      using False q by (simp add: tx_at_def)
    ultimately show ?thesis by (simp add: inverts_def)
  qed
qed

lemma cell_members:
  assumes "cell \<in> set (cells d c)"
  shows "cell = zero_cell \<or> (\<exists>i b. i < length (pd_txs d) \<and> b \<in> set (pq_data (pd_txs d ! i)) \<and>
    id_of cell = FQ (int (Suc i)) \<and> value_of cell = FQ b)"
proof (cases "cell \<in> set (data_cells d)")
  case True
  then obtain i where i: "i < length (pd_txs d)" "cell \<in> set (calldata_rows i (pq_data (pd_txs d ! i)))"
    by (auto simp: data_cells_def)
  then obtain p where "p < length (pq_data (pd_txs d ! i))" "cell = calldata_rows i (pq_data (pd_txs d ! i)) ! p"
    by (metis in_set_conv_nth length_calldata_rows)
  with i(1) show ?thesis
    by (intro disjI2 exI [of _ i] exI [of _ "pq_data (pd_txs d ! i) ! p"]) (simp add: cell_fields add.commute)
next
  case False
  with assms show ?thesis by (auto simp: cells_def)
qed

lemma cell_inverts:
  assumes ok: "public_data_ok d t c w" and inv: "list_all (inverts pfi) (pi_inverted d t)"
    and cell: "a = zero_cell \<or> a \<in> set (cells d c)" "b = zero_cell \<or> b \<in> set (cells d c)"
  shows "inverts pfi (value_of a)" "inverts pfi (id_of a)" "inverts pfi (id_of b - id_of a)"
proof -
  have ids: "\<exists>i\<le>t. id_of x = FQ (int i)" if x: "x = zero_cell \<or> x \<in> set (cells d c)" for x
  proof (cases "x = zero_cell")
    case True
    then show ?thesis by (intro exI [of _ 0]) (simp add: zero_cell_def id_of_def)
  next
    case False
    then obtain i where "i < length (pd_txs d)" "id_of x = FQ (int (Suc i))" using cell_members x by blast
    moreover have "length (pd_txs d) \<le> t" using ok by (simp add: public_data_ok_def)
    ultimately show ?thesis by (intro exI [of _ "Suc i"]) simp
  qed
  show "inverts pfi (value_of a)"
  proof (cases "a = zero_cell")
    case True
    then show ?thesis by (simp add: inverts_def zero_cell_def value_of_def)
  next
    case False
    then show ?thesis using cell_members cell(1) inverted_members(4) [OF inv] by (metis nth_mem)
  qed
  obtain i j where i: "i \<le> t" "id_of a = FQ (int i)" and j: "j \<le> t" "id_of b = FQ (int j)" using ids [OF cell(1)] ids [OF cell(2)] by blast
  show "inverts pfi (id_of a)" using inverted_members(2) [OF inv i(1), of 0] i(2) by simp
  show "inverts pfi (id_of b - id_of a)" using inverted_members(2) [OF inv j(1) i(1)] i(2) j(2) by simp
qed

lemma cells_chain:
  assumes ok: "public_data_ok d t c w" and len: "length (pd_txs d) \<le> 2 ^ 16" and p: "p < c"
  shows "follows_cell (cells d c ! p) (if Suc p < c then cells d c ! Suc p else zero_cell)"
proof -
  have "list_all is_byte (pq_data (pd_txs d ! i))" if "i < length (pd_txs d)" for i
    using ok that by (auto simp: public_data_ok_def list_all_length pi_tx_ok_def)
  then have "cells_follow (cells d c) zero_cell"
    using cells_of_txs [of "length (pd_txs d)" "\<lambda>i. pq_data (pd_txs d ! i)" 0] len by (simp add: cells_def data_cells_def)
  then show ?thesis using p calldata_cols_eq(2) [OF ok] by (simp add: cells_follow_nth)
qed

lemma first_of_txs:
  "concat (map (\<lambda>i. calldata_rows i (data i)) xs) \<noteq> [] \<Longrightarrow>
    \<exists>i\<in>set xs. data i \<noteq> [] \<and> concat (map (\<lambda>i. calldata_rows i (data i)) xs) ! 0 = calldata_rows i (data i) ! 0"
proof (induction xs)
  case (Cons x xs)
  show ?case
  proof (cases "data x = []")
    case True
    then have "calldata_rows x (data x) = []" by (simp add: calldata_rows_def)
    with Cons show ?thesis by auto
  next
    case False
    then have "0 < length (calldata_rows x (data x))" by simp
    with False show ?thesis by (intro bexI [of _ x]) (simp_all add: nth_append)
  qed
qed simp

lemma first_cell:
  assumes ok: "public_data_ok d t c w" and c: "0 < c"
  shows "id_of (cells d c ! 0) = 0 \<or> index_of (cells d c ! 0) = 0 \<and> gas_of (cells d c ! 0) = byte_cost (value_of (cells d c ! 0))"
proof (cases "data_cells d = []")
  case True
  then show ?thesis using c by (simp add: cells_def zero_cell_def id_of_def)
next
  case False
  then obtain i where i: "i < length (pd_txs d)" "pq_data (pd_txs d ! i) \<noteq> []"
    "data_cells d ! 0 = calldata_rows i (pq_data (pd_txs d ! i)) ! 0"
    using first_of_txs [of "\<lambda>i. pq_data (pd_txs d ! i)"] unfolding data_cells_def by fastforce
  have "list_all is_byte (pq_data (pd_txs d ! i))"
    using ok i(1) by (auto simp: public_data_ok_def list_all_length pi_tx_ok_def)
  then show ?thesis
    using gas_take_Suc [of "pq_data (pd_txs d ! i)" 0] i(2,3) False
    by (simp add: cells_def nth_append cell_fields pi_call_data_gas_cost_def)
qed

section \<open>The gates\<close>

abbreviation gas_table :: "pi_columns \<Rightarrow> calldata_gas_row set" where
  "gas_table co \<equiv> insert \<lparr>gr_tx_id = 0, gr_is_final = 0, gr_gas_cost_acc = 0\<rparr> (gas_row_at co ` {tx_len_of co..<tx_end_of co})"

lemma final_gas_row:
  assumes ok: "public_data_ok d t c w" and co: "pi_columns_of d n t c w = Inr co"
    and j: "j < length (pd_txs d)" "pq_data (pd_txs d ! j) \<noteq> []"
  shows "\<lparr>gr_tx_id = FQ (int j + 1), gr_is_final = 1, gr_gas_cost_acc = FQ (pi_call_data_gas_cost (pq_data (pd_txs d ! j)))\<rparr> \<in> gas_table co"
proof -
  note cols = columns_contents [OF ok co]
  let ?data = "pq_data (pd_txs d ! j)"
  let ?cell = "calldata_rows j ?data ! (length ?data - 1)"
  have last: "length ?data - 1 < length ?data" using j(2) by simp
  have "?cell \<in> set (calldata_rows j ?data)" using last by (intro nth_mem) simp
  then have "?cell \<in> set (cells d c)" using j(1) by (auto simp: cells_def data_cells_def)
  then obtain p where p: "p < c" "cells d c ! p = ?cell" using calldata_cols_eq(2) [OF ok] by (metis in_set_conv_nth)
  have "take (Suc (length ?data - 1)) ?data = ?data" using j(2) by simp
  then have "gas_row_at co (10 * t + 1 + p) =
      \<lparr>gr_tx_id = FQ (int j + 1), gr_is_final = 1, gr_gas_cost_acc = FQ (pi_call_data_gas_cost ?data)\<rparr>"
    using cols(7) [OF p(1)] p(2) cell_fields [OF last, of j] cols(1,4) by (simp add: gas_row_at_def)
  moreover have "10 * t + 1 + p \<in> {tx_len_of co..<tx_end_of co}" using p(1) cols(1,2) by simp
  ultimately show ?thesis by (metis image_eqI insertI2)
qed

lemma tx_gates_at:
  assumes ok: "public_data_ok d t c w" and co: "pi_columns_of d n t c w = Inr co" and inv: "list_all (inverts pfi) (pi_inverted d t)"
    and i: "i < tx_len_of co" and r: "tx_columns pfi co i r" and r': "tx_columns pfi co (Suc i) r'"
  shows "pi_tx_gates (gas_table co) r r' = Inr ()"
proof -
  note cols = columns_contents [OF ok co]
  have row: "pr_tx_table r = tx_row_at co i" "pr_tx_id_inv r = fq_inv pfi (pt_tag (pr_tx_table r) - FQ (tc_int TC_CallDataLength))"
    "pr_tx_value_lo_inv r = fq_inv pfi (pr_value_lo r)"
    using r i cols(1,2) by (simp_all add: tx_columns_def)
  show ?thesis
  proof (cases "i = 0")
    case True
    have "inverts pfi (FQ (int 0) - FQ 8)" by (rule inverted_members(1) [OF inv]) simp
    moreover have "FQ 8 \<noteq> 0" by (subst FQ_small_0) simp_all
    ultimately show ?thesis
      using row cols(5) True by (intro tx_gates_pass [of r pfi]) (simp_all add: pr_value_lo_def inverts_def)
  next
    case False
    define j q where "j = (i - 1) div 10" and "q = (i - 1) mod 10"
    have jq: "i = 10 * j + q + 1" "q < 10" "j < t" using False i cols(1) by (simp_all add: j_def q_def)
    have at: "tx_row_at co i = \<lparr>pt_tx_id = FQ (int j + 1), pt_tag = FQ (int q + 1), pt_index = 0, pt_value = tx_values (tx_at d j) ! q\<rparr>"
      unfolding jq(1) by (rule cols(6) [OF jq(3,2)])
    have "inverts pfi (FQ (int (q + 1)) - FQ 8)" using jq(2) by (intro inverted_members(1) [OF inv]) simp
    then have tag: "inverts pfi (pt_tag (pr_tx_table r) - FQ (tc_int TC_CallDataLength))" by (simp add: row(1) at add.commute)
    have val: "inverts pfi (pr_value_lo r)"
      using inverted_members(3) [OF inv jq(2)] by (simp add: pr_value_lo_def row(1) at)
    show ?thesis
    proof (rule tx_gates_pass [OF row(2) tag row(3) val])
      show "\<lparr>gr_tx_id = 0, gr_is_final = 0, gr_gas_cost_acc = 0\<rparr> \<in> gas_table co" by simp
      assume "pt_tag (pr_tx_table r) = FQ (tc_int TC_CallDataLength)"
      then have "FQ (int q + 1) = FQ 8" by (simp add: row(1) at)
      then have q: "q = 7" using jq(2) by (subst (asm) FQ_small_eq) simp_all
      let ?data = "pq_data (tx_at d j)"
      have here: "pr_value_lo r = FQ (int (length ?data))" "pt_tx_id (pr_tx_table r) = FQ (int j + 1)"
        by (simp_all add: pr_value_lo_def row(1) at q tx_values_def)
      have "Suc i = 10 * j + 8 + 1" "Suc i < tx_end_of co" using jq q cols(2) by simp_all
      then have "pr_tx_table r' = tx_row_at co (10 * j + 8 + 1)" using r' by (simp add: tx_columns_def)
      then have there: "pr_value_lo r' = FQ (pi_call_data_gas_cost ?data)"
        by (simp only: pr_value_lo_def cols(6) [OF jq(3), of 8]) (simp add: tx_values_def)
      show "if pr_value_lo r = 0 then pr_value_lo r' = 0
        else \<lparr>gr_tx_id = pt_tx_id (pr_tx_table r), gr_is_final = 1, gr_gas_cost_acc = pr_value_lo r'\<rparr> \<in> gas_table co"
      proof (cases "?data = []")
        case True
        then show ?thesis by (simp add: here there pi_call_data_gas_cost_def)
      next
        case False
        then have j: "j < length (pd_txs d)" by (auto simp: tx_at_def default_pi_transaction_def split: if_splits)
        then have "pi_tx_ok (pd_txs d ! j)" using ok by (simp add: public_data_ok_def list_all_length)
        then have "int (length ?data) < 2 ^ 64" using j by (simp add: tx_at_def pi_tx_ok_def fits_def)
        then have "FQ (int (length ?data)) \<noteq> 0" using False by (subst FQ_small_0) simp_all
        then show ?thesis using final_gas_row [OF ok co j] False j by (simp add: here there tx_at_def)
      qed
    qed
  qed
qed

lemma calldata_gates_at:
  assumes ok: "public_data_ok d t c w" and co: "pi_columns_of d n t c w = Inr co" and inv: "list_all (inverts pfi) (pi_inverted d t)"
    and len: "length (pd_txs d) \<le> 2 ^ 16"
    and i: "tx_len_of co \<le> i" "i < tx_end_of co" and r: "tx_columns pfi co i r" and r': "tx_columns pfi co (Suc i) r'"
  shows "pi_calldata_gates r r' = Inr ()"
proof -
  note cols = columns_contents [OF ok co]
  define p where "p = i - tx_len_of co"
  have p: "i = 10 * t + 1 + p" "p < c" using i cols(1,2) by (simp_all add: p_def)
  let ?a = "cells d c ! p"
  let ?b = "if Suc p < c then cells d c ! Suc p else zero_cell"
  have in_cells: "q < c \<Longrightarrow> cells d c ! q \<in> set (cells d c)" for q using calldata_cols_eq(2) [OF ok] by (metis nth_mem)
  have a: "?a = zero_cell \<or> ?a \<in> set (cells d c)" and b: "?b = zero_cell \<or> ?b \<in> set (cells d c)"
    using in_cells p(2) by auto
  note a_inv = cell_inverts [OF ok inv a b] and b_inv = cell_inverts [OF ok inv b a]
  have holds: "holds_cell r ?a"
    using r i p cols(1,4) cols(7) [OF p(2)] by (simp add: tx_columns_def holds_cell_def pr_value_lo_def value_of_def)
  then have a_val: "pr_value_lo r = value_of ?a" "pt_tx_id (pr_tx_table r) = id_of ?a" by (simp_all add: holds_cell_def)
  have next_row: "holds_cell r' ?b \<and> id_of ?b * pr_tx_id_inv r' = (if id_of ?b = 0 then 0 else 1) \<and>
      (id_of ?b \<noteq> 0 \<longrightarrow> byte_gas r' = byte_cost (value_of ?b)) \<and>
      pr_tx_id_diff_inv r = fq_inv pfi (id_of ?b - id_of ?a)"
  proof (cases "Suc p < c")
    case True
    then have i': "Suc i = 10 * t + 1 + Suc p" "tx_len_of co \<le> Suc i" "Suc i < tx_end_of co" using p cols(1,2) by simp_all
    note row = r' [unfolded tx_columns_def]
    have cell: "holds_cell r' (cells d c ! Suc p)"
      using row i' cols(1,4) cols(7) [OF True] by (simp add: holds_cell_def pr_value_lo_def value_of_def)
    moreover have "pr_tx_id_inv r' = fq_inv pfi (id_of (cells d c ! Suc p))" "pr_tx_value_lo_inv r' = fq_inv pfi (pr_value_lo r')"
      using row i' cols(7) [OF True] by simp_all
    moreover have "inverts pfi (pr_value_lo r')" using b_inv(1) cell True by (simp add: holds_cell_def)
    moreover have "pr_tx_id_diff_inv r = fq_inv pfi (id_of (cells d c ! Suc p) - id_of ?a)"
      using r i i' p cols(7) [OF True] cols(7) [OF p(2)] by (simp add: tx_columns_def)
    ultimately show ?thesis
      using True inverts_nonzero(1) [OF b_inv(2)] byte_gas_cost [of r' pfi] by (simp add: holds_cell_def)
  next
    case False
    then have "tx_end_of co \<le> Suc i" "\<not> Suc i < tx_end_of co" using p cols(2) by simp_all
    then show ?thesis
      using False r r' i p cols(1) cols(7) [OF p(2)]
      by (simp add: tx_columns_def holds_cell_def empty_pi_row_def pr_value_lo_def)
        (simp add: zero_cell_def id_of_def index_of_def value_of_def gas_of_def final_of_def)
  qed
  show ?thesis
  proof (rule calldata_gates_pass [where a = ?a and b = ?b and pfi = pfi])
    show "holds_cell r ?a" by (rule holds)
    show "pr_tx_id_inv r = fq_inv pfi (id_of ?a)" "pr_tx_value_lo_inv r = fq_inv pfi (value_of ?a)"
      using r i p cols(7) [OF p(2)] a_val(1) by (simp_all add: tx_columns_def)
    show "follows_cell ?a ?b" by (rule cells_chain [OF ok len p(2)])
    show "pr_q_tx_calldata_start r = 0 \<or> id_of ?a = 0 \<or> index_of ?a = 0 \<and> gas_of ?a = byte_cost (value_of ?a)"
    proof (cases "p = 0")
      case False
      then show ?thesis using r p cols(1) by (simp add: tx_columns_def)
    next
      case True
      then show ?thesis using first_cell [OF ok] p(2) by simp
    qed
  qed (use next_row a_inv in simp_all)
qed

end
