(* ===== verification/Pi_Copies.thy ===== *)
theory Pi_Copies
  imports Pi_Accept
begin

text \<open>
  The copy constraints of the public input circuit on a witness that is laid out from data in range:
  every value of the tables is copied from its raw bytes, but for the number of a withdrawal, whose
  raw bytes hold its place.
\<close>

section \<open>Copying\<close>

definition be :: "nat \<Rightarrow> int \<Rightarrow> int list" where
  "be n v = rev (le_bytes n v)"

definition word_be :: "int \<Rightarrow> int list list" where
  "word_be v = [be 16 (fq_n (lo (word_of v))), be 16 (fq_n (hi (word_of v)))]"

lemma raw_one_be: "fits n v \<Longrightarrow> raw_one v n = Inr [be n v]"
  by (simp add: raw_one_def be_bytes_fits be_def del: le_bytes.simps)

lemma raw_word_be:
  assumes "fits 32 v"
  shows "raw_word v = Inr (word_be v)"
proof -
  have v: "0 \<le> v" "v < 2 ^ 256" using assms by (simp_all add: fits_def)
  have "fits 16 (fq_n (lo (word_of v)))" "fits 16 (fq_n (hi (word_of v)))"
    using word_of_ok [OF v] by (simp_all add: fits_def word_ok_def)
  note halves = this [THEN be_bytes_fits]
  show ?thesis
    using v by (simp add: raw_word_def word_raw_def word_of_int256_Inr halves word_be_def be_def del: le_bytes.simps)
qed

lemma pop_be: "pop_le (be n v # rest) = Inr (le_bytes n v, rest)"
  by (simp add: pop_le_def be_def del: le_bytes.simps)

lemma be_to_fq: "fits n v \<Longrightarrow> n \<le> 31 \<Longrightarrow> bytes_to_fq (le_bytes n v) = Inr (FQ v)"
  unfolding fits_def by (simp add: bytes_to_fq_ok mod_pos_pos_trivial del: le_bytes.simps)

lemma fq_of_no_bytes: "bytes_to_fq [] = Inr 0"
  by (simp add: bytes_to_fq_ok)

definition copies :: "word_or_value \<Rightarrow> int list list \<Rightarrow> bool" where
  "copies v raws \<longleftrightarrow> (\<forall>rest. copy_value v (raws @ rest) = Inr rest)"

lemma copies_value: "fits n v \<Longrightarrow> n \<le> 31 \<Longrightarrow> copies (ValueV (FQ v)) [be n v]"
  by (simp add: copies_def copy_value_def pop_be is_word_def be_to_fq fq_of_no_bytes assert_that_def raise_unless_def del: le_bytes.simps)

lemma copies_word:
  assumes "fits 32 v"
  shows "copies (WordV (word_of v)) (word_be v)"
proof -
  have "word_ok (word_of v)" using assms by (simp add: fits_def word_of_ok)
  then have halves: "fits 16 (fq_n (lo (word_of v)))" "fits 16 (fq_n (hi (word_of v)))" by (simp_all add: fits_def word_ok_def)
  show ?thesis
    by (simp add: copies_def copy_value_def word_be_def pop_be is_word_def halves be_to_fq assert_that_def raise_unless_def del: le_bytes.simps)
qed

lemma copy_fq_be: "fits n v \<Longrightarrow> n \<le> 31 \<Longrightarrow> copy_fq x (be n v # rest) = (if x = FQ v then Inr rest else Inl AssertionError)"
  by (simp add: copy_fq_def pop_be be_to_fq assert_that_def raise_unless_def del: le_bytes.simps)

lemma rfold_copies:
  fixes f :: "'x \<Rightarrow> int list list \<Rightarrow> int list list result"
  assumes step: "\<And>i rest. i < m \<Longrightarrow> f (xs ! (off + i)) (parts i @ rest) = (if good i then Inr rest else Inl AssertionError)"
    and len: "off + m \<le> length xs" and k: "k \<le> m"
  shows "rfold (\<lambda>rest i. rbind (list_at xs (off + i)) (\<lambda>x. f x rest)) (concat (map parts [k..<m]) @ rest) [k..<m] =
    (if \<forall>i\<in>{k..<m}. good i then Inr rest else Inl AssertionError)"
  using k
proof (induction rule: inc_induct)
  case (step k)
  have "{k..<m} = insert k {Suc k..<m}" using step.hyps by auto
  then show ?case
    using step.hyps step.IH assms(1) [of k] len by (simp add: upt_conv_Cons list_at_def)
qed simp

lemma rfold_copies_all:
  fixes f :: "'x \<Rightarrow> int list list \<Rightarrow> int list list result"
  assumes "\<And>i rest. i < m \<Longrightarrow> f (xs ! (off + i)) (parts i @ rest) = Inr rest" "off + m \<le> length xs"
  shows "rfold (\<lambda>rest i. rbind (list_at xs (off + i)) (\<lambda>x. f x rest)) (concat (map parts [0..<m]) @ rest) [0..<m] = Inr rest"
  using rfold_copies [where f = f and xs = xs and off = off and parts = parts and good = "\<lambda>_. True" and k = 0] assms by simp

lemma raw_list_map_Inr:
  "(\<And>x. x \<in> set xs \<Longrightarrow> f x = Inr (g x)) \<Longrightarrow> raw_list (map f xs) = Inr (concat (map g xs))"
proof (induction xs)
  case (Cons x xs)
  then show ?case by (auto simp: raw_list_def rbind_ok)
qed (simp add: raw_list_def)

lemma raw_list_Inr: "raw_list (map Inr xs) = Inr (concat xs)"
  using raw_list_map_Inr [of xs Inr "\<lambda>x. x"] by simp

section \<open>The block\<close>

definition block_values :: "public_data \<Rightarrow> word_or_value list" where
  "block_values d = (let b = pd_block d in
     [ValueV 0, ValueV (FQ (pb_coinbase b)), ValueV (FQ (pb_gas_limit b)), ValueV (FQ (pb_number b)), ValueV (FQ (pb_time b)),
      WordV (word_of (pb_prev_randao b)), WordV (word_of (pb_base_fee b)), ValueV (FQ (pd_chain_id d)),
      WordV (word_of (pb_withdrawals_root b))] @ map (\<lambda>h. WordV (word_of h)) (pd_block_hashes d))"

definition block_parts :: "public_data \<Rightarrow> int list list list" where
  "block_parts d = (let b = pd_block d in
     [[be 1 0], [be 20 (pb_coinbase b)], [be 8 (pb_gas_limit b)], [be 8 (pb_number b)], [be 8 (pb_time b)],
      word_be (pb_prev_randao b), word_be (pb_base_fee b), [be 8 (pd_chain_id d)],
      word_be (pb_withdrawals_root b)] @ map word_be (pd_block_hashes d))"

lemma as_word_fits: "fits 32 v \<Longrightarrow> as_word v = Inr (WordV (word_of v))"
  by (simp add: as_word_def fits_def word_of_int256_Inr)

lemma rmap_Inr: "(\<And>x. x \<in> set xs \<Longrightarrow> f x = Inr (g x)) \<Longrightarrow> rmap f xs = Inr (map g xs)"
  by (induction xs) simp_all

lemma block_contents:
  assumes "public_data_ok d t c w"
  shows "block_table_value_column d = Inr (block_values d)" "block_table_raw_byte_values d = Inr (concat (block_parts d))"
    "list_all2 copies (block_values d) (block_parts d)" "length (block_values d) = 265"
proof -
  note ok = assms [unfolded public_data_ok_def pi_block_ok_def, simplified]
  have hashes: "rmap as_word (pd_block_hashes d) = Inr (map (\<lambda>h. WordV (word_of h)) (pd_block_hashes d))"
    "raw_list (map raw_word (pd_block_hashes d)) = Inr (concat (map word_be (pd_block_hashes d)))"
    using ok by (auto simp: list_all_iff as_word_fits raw_word_be intro!: rmap_Inr raw_list_map_Inr)
  show "block_table_value_column d = Inr (block_values d)"
    using ok hashes(1) by (simp add: block_table_value_column_def block_values_def as_value_def as_word_fits Let_def assert_that_def raise_unless_def)
  have zero: "fits 1 0" by (simp add: fits_def)
  show "block_table_raw_byte_values d = Inr (concat (block_parts d))"
    using ok hashes(2) raw_one_be [OF zero]
    by (simp add: block_table_raw_byte_values_def block_parts_def raw_one_be raw_word_be Let_def assert_that_def raise_unless_def raw_list_def)
  show "length (block_values d) = 265" using ok by (simp add: block_values_def Let_def)
  have "list_all2 copies (map (\<lambda>h. WordV (word_of h)) (pd_block_hashes d)) (map word_be (pd_block_hashes d))"
    using ok by (auto simp: list_all2_conv_all_nth list_all_length copies_word)
  then show "list_all2 copies (block_values d) (block_parts d)"
    using ok copies_value [OF zero] by (simp add: block_values_def block_parts_def Let_def copies_value copies_word)
qed

lemma block_copied:
  assumes "list_all2 copies (block_values d) (block_parts d)" "length (block_values d) = 265"
    and "265 \<le> length table" "\<And>i. i < 265 \<Longrightarrow> table ! i = block_values d ! i"
  shows "copy_block_table table (concat (block_parts d) @ rest) = Inr rest"
proof -
  have len: "length (block_parts d) = 265" using assms(1,2) by (simp add: list_all2_conv_all_nth)
  have "map (\<lambda>i. block_parts d ! i) [0..<265] = block_parts d" using map_nth [of "block_parts d"] len by simp
  moreover have "rfold (\<lambda>rest i. rbind (list_at table (0 + i)) (\<lambda>x. copy_value x rest))
      (concat (map (\<lambda>i. block_parts d ! i) [0..<265]) @ rest) [0..<265] = Inr rest"
  proof (rule rfold_copies_all)
    fix i rest
    assume "i < (265::nat)"
    then show "copy_value (table ! (0 + i)) (block_parts d ! i @ rest) = Inr rest"
      using assms(1,2,4) by (simp add: list_all2_conv_all_nth copies_def)
  qed (use assms(3) in simp)
  ultimately show ?thesis by (simp add: copy_block_table_def del: upt_Suc)
qed

section \<open>The transactions\<close>

definition field_parts :: "pi_transaction \<Rightarrow> int list list list" where
  "field_parts tx =
     [[be 8 (pq_nonce tx)], [be 8 (pq_gas tx)], word_be (pq_gas_price tx), [be 20 (pq_from_addr tx)], [be 20 (to_addr_or_0 tx)],
      [be 8 (if pq_to_addr tx = None then 1 else 0)], word_be (pq_value tx), [be 8 (int (length (pq_data tx)))],
      [be 8 (pi_call_data_gas_cost (pq_data tx))], word_be (pq_tx_sign_hash tx)]"

lemma length_field_parts: "length (field_parts tx) = 10"
  by (simp add: field_parts_def)

lemma field_copies:
  assumes "pi_tx_ok tx"
  shows "list_all2 copies (tx_values tx) (field_parts tx)"
proof -
  have "fits 8 (if pq_to_addr tx = None then 1 else 0)" by (simp add: fits_def)
  note bool = copies_value [OF this]
  show ?thesis
    using assms bool by (simp add: tx_values_def field_parts_def pi_tx_ok_def copies_value copies_word)
qed

lemma tx_raw_eq:
  assumes "pi_tx_ok tx" "fits 8 i"
  shows "tx_raw_bytes tx i = Inr (concat (map (\<lambda>q. [be 8 i, be 8 0] @ field_parts tx ! q) [0..<10]))"
proof -
  have zero: "fits 8 0" "fits 8 1" by (simp_all add: fits_def)
  have "tx_raw_bytes tx i = raw_list (map (append_raw_byte_with_id_index i) (map Inr (field_parts tx)))"
    using assms(1) zero
    by (simp add: tx_raw_bytes_def field_parts_def pi_tx_ok_def raw_one_be raw_word_be)
  also have "\<dots> = raw_list (map (\<lambda>vals. append_raw_byte_with_id_index i (Inr vals)) (field_parts tx))"
    by (simp add: comp_def)
  also have "\<dots> = Inr (concat (map (\<lambda>vals. [be 8 i, be 8 0] @ vals) (field_parts tx)))"
    by (rule raw_list_map_Inr) (simp add: append_raw_byte_with_id_index_def raw_list_def raw_one_be assms(2) zero)
  also have "map (\<lambda>vals. [be 8 i, be 8 0] @ vals) (field_parts tx) = map (\<lambda>q. [be 8 i, be 8 0] @ field_parts tx ! q) [0..<length (field_parts tx)]"
    by (rule map_nth_all [symmetric])
  finally show ?thesis by (simp only: length_field_parts)
qed

definition tx_part :: "public_data \<Rightarrow> nat \<Rightarrow> int list list" where
  "tx_part d i = (if i = 0 then [be 8 0, be 8 0, be 1 0]
     else [be 8 (int ((i - 1) div 10) + 1), be 8 0] @ field_parts (tx_at d ((i - 1) div 10)) ! ((i - 1) mod 10))"

lemma concat_tens: "concat (map h [0..<10 * t]) = concat (map (\<lambda>j. concat (map (\<lambda>q. h (10 * j + q)) [0..<10])) [0..<t])"
proof (induction t)
  case (Suc t)
  have "[0..<10 * Suc t] = [0..<10 * t] @ [10 * t..<10 * t + 10]" using upt_add_eq_append [of 0 "10 * t" 10] by (simp add: add.commute)
  moreover have "map h [10 * t..<10 * t + 10] = map (\<lambda>q. h (10 * t + q)) [0..<10]" by (rule nth_equalityI) simp_all
  moreover have "[0..<Suc t] = [0..<t] @ [t]" by simp
  ultimately show ?case using Suc by (simp del: upt_Suc)
qed simp

lemma tx_raw_parts:
  assumes "public_data_ok d t c w"
  shows "tx_table_raw_bytes d t = Inr (concat (map (tx_part d) [0..<10 * t + 1]))"
proof -
  have t: "fits 8 (int t)" "0 < length (pd_txs d)" "length (pd_txs d) \<le> t" using assms by (auto simp: public_data_ok_def)
  let ?row = "\<lambda>j. concat (map (\<lambda>q. tx_part d (Suc (10 * j + q))) [0..<10])"
  have "tx_raw_bytes (tx_at d j) (int j + 1) = Inr (?row j)" if "j < t" for j
  proof -
    have "fits 8 (int j + 1)" using t(1) that by (simp add: fits_def)
    moreover have "map (\<lambda>q. [be 8 (int j + 1), be 8 0] @ field_parts (tx_at d j) ! q) [0..<10] = map (\<lambda>q. tx_part d (Suc (10 * j + q))) [0..<10]"
      by (rule map_cong) (auto simp: tx_part_def)
    ultimately show ?thesis using tx_raw_eq [OF tx_at_ok [OF assms]] by metis
  qed
  then have rows: "raw_list (map (\<lambda>i. tx_raw_bytes (tx_at d i) (int i + 1)) [0..<t]) = Inr (concat (map ?row [0..<t]))"
    by (intro raw_list_map_Inr) simp
  have zero: "fits 8 0" "fits 1 0" by (simp_all add: fits_def)
  have "raw_list ([raw_one 0 8, raw_one 0 8, raw_one 0 1] @ map (\<lambda>i. tx_raw_bytes (tx_at d i) (int i + 1)) [0..<t]) =
      Inr ([be 8 0, be 8 0, be 1 0] @ concat (map ?row [0..<t]))"
    using rows raw_one_be [OF zero(1)] raw_one_be [OF zero(2)] by (auto simp: raw_list_def rbind_ok)
  moreover have "concat (map (tx_part d) [0..<10 * t + 1]) = [be 8 0, be 8 0, be 1 0] @ concat (map ?row [0..<t])"
  proof -
    have "map (tx_part d) [0..<10 * t + 1] = tx_part d 0 # map (\<lambda>i. tx_part d (Suc i)) [0..<10 * t]"
      by (simp add: upt_conv_Cons map_Suc_upt [symmetric] comp_def del: upt_Suc)
    then show ?thesis using concat_tens [of "\<lambda>i. tx_part d (Suc i)" t] by (simp add: tx_part_def [of d 0] del: upt_Suc)
  qed
  ultimately show ?thesis using t by (simp add: tx_table_raw_bytes_def assert_that_def raise_unless_def del: upt_Suc)
qed

lemma tx_copied:
  assumes ok: "public_data_ok d t c w" and co: "pi_columns_of d n t c w = Inr co"
    and table: "10 * t + 1 \<le> length table" "\<And>i. i < 10 * t + 1 \<Longrightarrow> table ! i = tx_row_at co i"
  shows "copy_tx_table table t (concat (map (tx_part d) [0..<10 * t + 1]) @ rest) = Inr rest"
proof -
  note cols = columns_contents [OF ok co]
  let ?f = "\<lambda>row rest. rbind (copy_fq (pt_tx_id row) rest) (\<lambda>rest.
       rbind (copy_fq (pt_index row) rest) (\<lambda>rest. copy_value (pt_value row) rest))"
  have zero: "fits 8 0" "fits 1 0" by (simp_all add: fits_def)
  have "rfold (\<lambda>rest i. rbind (list_at table (0 + i)) (\<lambda>row. ?f row rest)) (concat (map (tx_part d) [0..<10 * t + 1]) @ rest) [0..<10 * t + 1] = Inr rest"
  proof (rule rfold_copies_all)
    fix i rest
    assume i: "i < 10 * t + 1"
    show "?f (table ! (0 + i)) (tx_part d i @ rest) = Inr rest"
    proof (cases "i = 0")
      case True
      then show ?thesis
        using table(2) [OF i] cols(5) copies_value [OF zero(2)] zero(1)
        by (simp add: tx_part_def copy_fq_be copies_def)
    next
      case False
      define j q where "j = (i - 1) div 10" and "q = (i - 1) mod 10"
      have jq: "i = 10 * j + q + 1" "q < 10" "j < t" using False i by (simp_all add: j_def q_def)
      have "table ! i = \<lparr>pt_tx_id = FQ (int j + 1), pt_tag = FQ (int q + 1), pt_index = 0, pt_value = tx_values (tx_at d j) ! q\<rparr>"
        unfolding table(2) [OF i] unfolding jq(1) by (rule cols(6) [OF jq(3,2)])
      moreover have "tx_part d i = [be 8 (int j + 1), be 8 0] @ field_parts (tx_at d j) ! q"
        using False by (simp add: tx_part_def j_def q_def)
      moreover have "fits 8 (int j + 1)" using ok jq(3) by (simp add: public_data_ok_def fits_def)
      moreover have "copies (tx_values (tx_at d j) ! q) (field_parts (tx_at d j) ! q)"
        using field_copies [OF tx_at_ok [OF ok]] jq(2) by (simp add: list_all2_conv_all_nth)
      ultimately show ?thesis using zero(1) by (simp add: copy_fq_be copies_def)
    qed
  qed (use table(1) in simp)
  then show ?thesis by (simp add: copy_tx_table_def tx_table_len_def del: upt_Suc)
qed

section \<open>The call data\<close>

definition data_bytes :: "public_data \<Rightarrow> nat \<Rightarrow> int list" where
  "data_bytes d c = concat (map pq_data (pd_txs d)) @ replicate (c - length (concat (map pq_data (pd_txs d)))) 0"

lemma cell_values:
  assumes "public_data_ok d t c w"
  shows "map (fst \<circ> snd \<circ> snd) (cells d c) = map (\<lambda>b. ValueV (FQ b)) (data_bytes d c)" "length (data_bytes d c) = c"
proof -
  have rows: "map (fst \<circ> snd \<circ> snd) (calldata_rows i data) = map (\<lambda>b. ValueV (FQ b)) data" for i data
    by (rule nth_equalityI) (simp_all add: calldata_rows_def)
  have "map (fst \<circ> snd \<circ> snd) (data_cells d) =
      concat (map (\<lambda>i. map (\<lambda>b. ValueV (FQ b)) (pq_data (pd_txs d ! i))) [0..<length (pd_txs d)])"
    by (simp add: data_cells_def map_concat rows comp_def [of "map _"] del: map_map) (simp add: rows [unfolded comp_def] comp_def)
  also have "\<dots> = map (\<lambda>b. ValueV (FQ b)) (concat (map pq_data (pd_txs d)))"
    by (simp add: map_nth_all [where f = "\<lambda>tx. map (\<lambda>b. ValueV (FQ b)) (pq_data tx)"] map_concat comp_def)
  finally have data: "map (fst \<circ> snd \<circ> snd) (data_cells d) = map (\<lambda>b. ValueV (FQ b)) (concat (map pq_data (pd_txs d)))" .
  from arg_cong [OF this, of length] have "length (data_cells d) = length (concat (map pq_data (pd_txs d)))" by simp
  then show "map (fst \<circ> snd \<circ> snd) (cells d c) = map (\<lambda>b. ValueV (FQ b)) (data_bytes d c)"
    by (simp add: cells_def data_bytes_def data zero_cell_def del: map_map)
  show "length (data_bytes d c) = c" using assms by (simp add: data_bytes_def public_data_ok_def)
qed

lemma data_bytes_fit:
  assumes "public_data_ok d t c w" "p < c"
  shows "fits 1 (data_bytes d c ! p)"
proof -
  have "data_bytes d c ! p \<in> set (data_bytes d c)" using cell_values(2) [OF assms(1)] assms(2) by simp
  then show ?thesis
    using assms(1) by (auto simp: data_bytes_def public_data_ok_def pi_tx_ok_def list_all_iff is_byte_def fits_def)
qed

lemma calldata_raw_parts:
  assumes ok: "public_data_ok d t c w"
  shows "tx_table_calldata_raw_bytes d c = Inr (concat (map (\<lambda>p. [be 1 (data_bytes d c ! p)]) [0..<c]))"
proof -
  let ?bs = "concat (map pq_data (pd_txs d))"
  have bytes: "fits 1 b" if "b \<in> set ?bs" for b
    using ok that by (auto simp: public_data_ok_def pi_tx_ok_def list_all_iff is_byte_def fits_def)
  have "raw_list (map (\<lambda>byte. raw_one byte 1) ?bs) = Inr (concat (map (\<lambda>b. [be 1 b]) ?bs))"
    by (rule raw_list_map_Inr) (simp only: raw_one_be [OF bytes])
  moreover have "be 1 0 = [0]" by (simp add: be_def)
  moreover have "length ?bs \<le> c" using ok by (simp add: public_data_ok_def)
  ultimately have "tx_table_calldata_raw_bytes d c = Inr (concat (map (\<lambda>b. [be 1 b]) (data_bytes d c)))"
    by (simp add: tx_table_calldata_raw_bytes_def Let_def data_bytes_def assert_that_def raise_unless_def map_replicate_const)
  also have "map (\<lambda>b. [be 1 b]) (data_bytes d c) = map (\<lambda>p. [be 1 (data_bytes d c ! p)]) [0..<length (data_bytes d c)]"
    by (rule map_nth_all [symmetric])
  finally show ?thesis by (simp add: cell_values(2) [OF ok])
qed

lemma calldata_copied:
  assumes ok: "public_data_ok d t c w" and co: "pi_columns_of d n t c w = Inr co"
    and table: "10 * t + 1 + c \<le> length table" "\<And>i. i < 10 * t + 1 + c \<Longrightarrow> table ! i = tx_row_at co i"
  shows "copy_calldata table t c (concat (map (\<lambda>p. [be 1 (data_bytes d c ! p)]) [0..<c]) @ rest) = Inr rest"
proof -
  note cols = columns_contents [OF ok co]
  have "rfold (\<lambda>rest i. rbind (list_at table (10 * t + 1 + i)) (\<lambda>row. copy_value (pt_value row) rest))
      (concat (map (\<lambda>p. [be 1 (data_bytes d c ! p)]) [0..<c]) @ rest) [0..<c] = Inr rest"
  proof (rule rfold_copies_all)
    fix p rest
    assume p: "p < c"
    have "fst (snd (snd (cells d c ! p))) = ValueV (FQ (data_bytes d c ! p))"
      using arg_cong [OF cell_values(1) [OF ok], of "\<lambda>xs. xs ! p"] p calldata_cols_eq(2) [OF ok] cell_values(2) [OF ok] by simp
    then have "pt_value (table ! (10 * t + 1 + p)) = ValueV (FQ (data_bytes d c ! p))"
      using table(2) [of "10 * t + 1 + p"] cols(7) [OF p] p by simp
    then show "copy_value (pt_value (table ! (10 * t + 1 + p))) ([be 1 (data_bytes d c ! p)] @ rest) = Inr rest"
      using copies_value [OF data_bytes_fit [OF ok p]] by (simp add: copies_def)
  qed (use table(1) in simp)
  then show ?thesis by (simp add: copy_calldata_def tx_table_len_def)
qed

end
