(* ===== verification/Pi_Verdict.thy ===== *)
theory Pi_Verdict
  imports Pi_Copies
begin

text \<open>
  The verdict of the public input circuit on the witness that is laid out from data in range: it
  depends on the withdrawals only.
\<close>

section \<open>The withdrawals\<close>

definition withdrawal_part :: "public_data \<Rightarrow> nat \<Rightarrow> int list list" where
  "withdrawal_part d i = (let v = withdrawal_at d i in
     [be 8 (int i), be 8 (pv_validator_id v)] @ word_be (pv_address v) @ [be 8 (pv_amount v)])"

definition withdrawal_cell :: "public_data \<Rightarrow> nat \<Rightarrow> pi_withdrawal_row" where
  "withdrawal_cell d i = (let v = withdrawal_at d i in
     \<lparr>pw_id = FQ (pv_id v), pw_validator_id = FQ (pv_validator_id v), pw_address = word_of (pv_address v),
      pw_amount = FQ (pv_amount v)\<rparr>)"

lemma withdrawal_contents:
  assumes ok: "public_data_ok d t c w"
  shows "withdrawal_table_raw_bytes d w = Inr (concat (map (withdrawal_part d) [0..<w]))"
    and "pi_columns_of d n t c w = Inr co \<Longrightarrow> j < w \<Longrightarrow> co_withdrawals co ! j = withdrawal_cell d j"
proof -
  have w: "fits 8 (int w)" "0 < length (pd_withdrawals d)" "length (pd_withdrawals d) \<le> w"
    using ok by (auto simp: public_data_ok_def)
  have v: "fits 8 (pv_validator_id (withdrawal_at d i))" "fits 8 (pv_amount (withdrawal_at d i))" "fits 32 (pv_address (withdrawal_at d i))" for i
    using withdrawal_at_ok [OF ok, of i] by (simp_all add: pi_withdrawal_ok_def)
  have "withdrawal_raw_bytes (withdrawal_at d i) (int i) = Inr (withdrawal_part d i)" if "i < w" for i
  proof -
    have "fits 8 (int i)" using w(1) that by (simp add: fits_def)
    then show ?thesis
      using v by (simp add: withdrawal_raw_bytes_def withdrawal_part_def raw_list_def raw_one_be raw_word_be Let_def)
  qed
  then have "raw_list (map (\<lambda>i. withdrawal_raw_bytes (withdrawal_at d i) (int i)) [0..<w]) = Inr (concat (map (withdrawal_part d) [0..<w]))"
    by (intro raw_list_map_Inr) simp
  then show "withdrawal_table_raw_bytes d w = Inr (concat (map (withdrawal_part d) [0..<w]))"
    using w by (simp add: withdrawal_table_raw_bytes_def assert_that_def raise_unless_def)
  have "withdrawal_table_cols d w = Inr (map (withdrawal_cell d) [0..<w])"
    using w(3) v(3) unfolding withdrawal_table_cols_def
    by (simp add: assert_that_def raise_unless_def) (rule rmap_Inr, simp add: withdrawal_cell_def fits_def word_of_int256_Inr Let_def)
  then show "pi_columns_of d n t c w = Inr co \<Longrightarrow> j < w \<Longrightarrow> co_withdrawals co ! j = withdrawal_cell d j"
    by (auto simp: pi_columns_of_def rbind_ok)
qed

text \<open>The number is copied from the place.\<close>

lemma withdrawals_copied:
  assumes ok: "public_data_ok d t c w" and table: "w \<le> length table" "\<And>i. i < w \<Longrightarrow> table ! i = withdrawal_cell d i"
  shows "copy_withdrawals table w (concat (map (withdrawal_part d) [0..<w])) =
    (if \<forall>i\<in>{0..<w}. FQ (pv_id (withdrawal_at d i)) = FQ (int i) then Inr [] else Inl AssertionError)"
proof -
  let ?f = "\<lambda>row rest. rbind (copy_fq (pw_id row) rest) (\<lambda>rest. rbind (copy_fq (pw_validator_id row) rest) (\<lambda>rest.
       rbind (copy_value (WordV (pw_address row)) rest) (\<lambda>rest. copy_fq (pw_amount row) rest)))"
  have "rfold (\<lambda>rest i. rbind (list_at table (0 + i)) (\<lambda>row. ?f row rest)) (concat (map (withdrawal_part d) [0..<w]) @ []) [0..<w] =
    (if \<forall>i\<in>{0..<w}. FQ (pv_id (withdrawal_at d i)) = FQ (int i) then Inr [] else Inl AssertionError)"
  proof (rule rfold_copies)
    fix i rest
    assume i: "i < w"
    have v: "fits 8 (pv_validator_id (withdrawal_at d i))" "fits 8 (pv_amount (withdrawal_at d i))" "fits 32 (pv_address (withdrawal_at d i))"
      using withdrawal_at_ok [OF ok, of i] by (simp_all add: pi_withdrawal_ok_def)
    have "fits 8 (int i)" using ok i by (simp add: public_data_ok_def fits_def)
    then show "?f (table ! (0 + i)) (withdrawal_part d i @ rest) =
        (if FQ (pv_id (withdrawal_at d i)) = FQ (int i) then Inr rest else Inl AssertionError)"
      using table(2) [OF i] v(1,2) copies_word [OF v(3)]
      by (simp add: withdrawal_part_def withdrawal_cell_def Let_def copy_fq_be copies_def)
  qed (use table(1) in simp_all)
  then show ?thesis by (simp add: copy_withdrawals_def)
qed

section \<open>All copies\<close>

lemma extra_copied:
  assumes "public_data_ok d t c w" and co: "pi_columns_of d n t c w = Inr co"
    and p: "pi_block_hash p = co_block_hash co" "pi_state_root p = co_state_root co" "pi_state_root_prev p = co_state_root_prev co"
  shows "raw_list [raw_word (pb_hash (pd_block d)), raw_word (pb_state_root (pd_block d)), raw_word (pd_state_root_prev d)] =
      Inr (word_be (pb_hash (pd_block d)) @ word_be (pb_state_root (pd_block d)) @ word_be (pd_state_root_prev d))"
    and "copy_roots p (word_be (pb_hash (pd_block d)) @ word_be (pb_state_root (pd_block d)) @ word_be (pd_state_root_prev d) @ rest) = Inr rest"
proof -
  have words: "fits 32 (pb_hash (pd_block d))" "fits 32 (pb_state_root (pd_block d))" "fits 32 (pd_state_root_prev d)"
    using assms(1) by (simp_all add: public_data_ok_def pi_block_ok_def)
  then show "raw_list [raw_word (pb_hash (pd_block d)), raw_word (pb_state_root (pd_block d)), raw_word (pd_state_root_prev d)] =
      Inr (word_be (pb_hash (pd_block d)) @ word_be (pb_state_root (pd_block d)) @ word_be (pd_state_root_prev d))"
    by (simp add: raw_list_def raw_word_be)
  have "co_block_hash co = word_of (pb_hash (pd_block d))" "co_state_root co = word_of (pb_state_root (pd_block d))"
    "co_state_root_prev co = word_of (pd_state_root_prev d)"
    using co by (auto simp: pi_columns_of_def ok_simps)
  then show "copy_roots p (word_be (pb_hash (pd_block d)) @ word_be (pb_state_root (pd_block d)) @ word_be (pd_state_root_prev d) @ rest) = Inr rest"
    using words [THEN copies_word] by (simp add: copy_roots_def p copies_def)
qed

lemma witness_copies:
  assumes ok: "public_data_ok d t c w" and W: "public_data2witness pfi keccak d t c w = Inr W"
  shows "pi_copies (pi_tables.truncate W) (pi_public_inputs W) t c w =
    (if \<forall>i\<in>{0..<w}. FQ (pv_id (withdrawal_at d i)) = FQ (int i) then Inr [] else Inl AssertionError)"
proof -
  obtain raw co where raw: "raw_public_inputs d t c w = Inr (raw, pi_circuit_len W)"
    and co: "pi_columns_of d (pi_circuit_len W) t c w = Inr co"
    and tables: "pi_block_table W = map (block_values_at co) [0..<268]" "pi_tx_table W = map (tx_row_at co) [0..<tx_end_of co]"
    "pi_withdrawal_table W = map (\<lambda>j. co_withdrawals co ! j) [0..<w]"
    and roots: "pi_block_hash (pi_public_inputs W) = co_block_hash co" "pi_state_root (pi_public_inputs W) = co_state_root co"
    "pi_state_root_prev (pi_public_inputs W) = co_state_root_prev co" and copies: "pi_copy_constrains W = raw"
    by (rule witness_laid [OF W])
  note cols = columns_contents [OF ok co] and block = block_contents [OF ok] and extra = extra_copied [OF ok co roots]
  have raw_eq: "raw = concat (block_parts d) @
      (word_be (pb_hash (pd_block d)) @ word_be (pb_state_root (pd_block d)) @ word_be (pd_state_root_prev d)) @
      concat (map (tx_part d) [0..<10 * t + 1]) @ concat (map (\<lambda>p. [be 1 (data_bytes d c ! p)]) [0..<c]) @
      concat (map (withdrawal_part d) [0..<w])"
    using raw unfolding raw_public_inputs_def block(2) extra(1) tx_raw_parts [OF ok] calldata_raw_parts [OF ok] withdrawal_contents(1) [OF ok]
    by (simp add: Let_def rbind_ok del: upt_Suc)
  have vals_eq: "co_block_values co = block_values d" using co block(1) by (auto simp: pi_columns_of_def rbind_ok)
  have 1: "copy_block_table (pi_block_table W) (concat (block_parts d) @ rest) = Inr rest" for rest
    by (rule block_copied [OF block(3,4)]) (simp_all add: tables block_values_at_def vals_eq del: upt_Suc)
  have 2: "copy_tx_table (pi_tx_table W) t (concat (map (tx_part d) [0..<10 * t + 1]) @ rest) = Inr rest" for rest
    by (rule tx_copied [OF ok co]) (simp_all add: tables cols(2) del: upt_Suc)
  have 3: "copy_calldata (pi_tx_table W) t c (concat (map (\<lambda>p. [be 1 (data_bytes d c ! p)]) [0..<c]) @ rest) = Inr rest" for rest
    by (rule calldata_copied [OF ok co]) (simp_all add: tables cols(2) del: upt_Suc)
  have 4: "copy_withdrawals (pi_withdrawal_table W) w (concat (map (withdrawal_part d) [0..<w])) =
      (if \<forall>i\<in>{0..<w}. FQ (pv_id (withdrawal_at d i)) = FQ (int i) then Inr [] else Inl AssertionError)"
    by (rule withdrawals_copied [OF ok]) (simp_all add: tables withdrawal_contents(2) [OF ok co])
  show ?thesis
    unfolding pi_copies_def by (simp only: pi_tables.truncate_def pi_tables.simps copies raw_eq 1 append_assoc extra(2) rbind_simps 2 3 4)
qed

section \<open>The gates\<close>

lemma linear_combine_foldr: "linear_combine_bytes xs r b = Inr v \<Longrightarrow> v = foldr (\<lambda>x acc. acc * r + x) xs 0"
  by (induction xs arbitrary: v) (auto simp: rbind_ok)

lemma witness_digest_gate:
  assumes keccak: "keccak_spec keccak" and W: "public_data2witness pfi keccak d t c w = Inr W"
    and gates: "\<And>i. i < length (pi_rows W) \<Longrightarrow> pi_byte_gates (pi_rows W ! i) (pi_rows W ! ((i + 1) mod length (pi_rows W))) = Inr ()"
    and i: "i < length (pi_rows W)"
  shows "pi_digest_gate (pi_keccak_table W) (pi_circuit_len W) (pi_rows W ! i) = Inr ()"
proof -
  obtain raw where raw: "pi_selectors (pi_rows W)" "map pr_rpi_bytes (pi_rows W) = rev (map (FQ \<circ> snd) (layout_bytes raw))"
    "int (length (pi_rows W)) = pi_circuit_len W" "word_of_bytes (keccak (map snd (layout_bytes raw))) = Inr (pi_keccak (pi_public_inputs W))"
    "pr_rpi_digest_word (pi_rows W ! 0) = pi_keccak (pi_public_inputs W)" "raw_public_inputs d t c w = Inr (raw, pi_circuit_len W)"
    using witness_bytes [OF W] by blast
  obtain raw' where T: "pi_keccak_add keccak (map snd (layout_bytes raw')) keccak_rand new_keccak_table = Inr (pi_keccak_table W)"
    "raw_public_inputs d t c w = Inr (raw', pi_circuit_len W)"
    using witness_laid [OF W] by metis
  then have T': "pi_keccak_add keccak (map snd (layout_bytes raw)) keccak_rand new_keccak_table = Inr (pi_keccak_table W)"
    using raw(6) by simp
  let ?bs = "map snd (layout_bytes raw)"
  obtain v where v: "RLC_of_bytes (rev ?bs) keccak_rand (length ?bs) = Inr v"
    and T: "pi_keccak_table W = insert (1, rlc_value v, FQ (int (length ?bs)), pi_keccak (pi_public_inputs W)) new_keccak_table"
    using T' raw(4) by (auto simp: pi_keccak_add_def keccak_table_add_def rbind_ok)
  show ?thesis
  proof (cases "i = 0")
    case False
    then have "pr_q_rpi_keccak_lookup (pi_rows W ! i) = 0" using raw(1) i by (simp add: pi_selectors_def)
    then show ?thesis
      by (simp add: pi_digest_gate_def word_select_def word_of_tuple_def keccak_table_lookup_def T new_keccak_table_def assert_that_def raise_unless_def)
  next
    case True
    have rows: "0 < length (pi_rows W)" using i True by simp
    have "rlc_value v = foldr (\<lambda>x acc. acc * keccak_rand + x) (map FQ (rev ?bs)) 0"
      using v linear_combine_foldr by (auto simp: RLC_of_bytes_def Let_def rbind_ok)
    also have "map FQ (rev ?bs) = map pr_rpi_bytes (pi_rows W)" by (simp add: raw(2) rev_map comp_def)
    finally have "rlc_value v = bytes_combined (pi_rows W)" by (simp add: bytes_combined_def foldr_map comp_def)
    also have "\<dots> = pr_rpi_bytes_keccakrlc (pi_rows W ! 0)"
      using accumulated_bytes [OF raw(1) gates rows] by simp
    finally have rlc: "pr_rpi_bytes_keccakrlc (pi_rows W ! 0) = rlc_value v" by simp
    have lookup: "pr_q_rpi_keccak_lookup (pi_rows W ! 0) = 1" using raw(1) rows by (simp add: pi_selectors_def)
    have len: "FQ (pi_circuit_len W) = FQ (int (length ?bs))"
      using raw(2,3) by (metis length_map length_rev)
    have "word_ok (pi_keccak (pi_public_inputs W))"
      using word_of_bytes_word_ok [OF raw(4)] keccak by (simp add: keccak_spec_def)
    then have "word_select (pi_keccak (pi_public_inputs W)) 1 = Inr (pi_keccak (pi_public_inputs W))" by (simp add: select_1)
    then show ?thesis
      by (simp add: True pi_digest_gate_def lookup raw(5) rlc len T keccak_table_lookup_def assert_that_def raise_unless_def)
  qed
qed

lemma fits_FQ_eq: "fits 8 a \<Longrightarrow> fits 8 b \<Longrightarrow> FQ a = FQ b \<longleftrightarrow> a = b"
  by (rule FQ_small_eq) (simp_all add: fits_def)

definition withdrawals_filled :: "public_data \<Rightarrow> nat \<Rightarrow> bool" where
  "withdrawals_filled d w \<longleftrightarrow> length (pd_withdrawals d) = w \<and>
     (\<forall>i\<in>{0..<w}. pv_id (pd_withdrawals d ! i) = int i \<and> pv_amount (pd_withdrawals d ! i) \<noteq> 0)"

lemma rows_pass:
  assumes keccak: "keccak_spec keccak" and ok: "public_data_ok d t c w" and len: "length (pd_txs d) \<le> 2 ^ 16"
    and inv: "list_all (inverts pfi) (pi_inverted d t)" and W: "public_data2witness pfi keccak d t c w = Inr W"
    and filled: "withdrawals_filled d w" and i: "i < length (pi_rows W)"
  shows "check_pi_row (pi_calldata_gas_cost_table W) (pi_keccak_table W) (pi_circuit_len W) (pi_rows W ! i)
      (pi_rows W ! ((i + 1) mod length (pi_rows W))) = Inr ()"
proof -
  obtain raw co where raw: "raw_public_inputs d t c w = Inr (raw, pi_circuit_len W)"
    and co: "pi_columns_of d (pi_circuit_len W) t c w = Inr co" and size: "tx_end_of co + w \<le> length (pi_rows W)"
    and rows: "\<forall>i<length (pi_rows W). columns_at pfi co i (pi_rows W ! i) \<and>
      pi_byte_gates (pi_rows W ! i) (pi_rows W ! (Suc i mod length (pi_rows W))) = Inr ()"
    and gas: "pi_calldata_gas_cost_table W = gas_table co"
    by (rule witness_laid [OF W])
  note at = rows [rule_format] and cols = columns_contents [OF ok co]
  let ?r = "pi_rows W ! i" and ?r' = "pi_rows W ! (Suc i mod length (pi_rows W))"
  have w: "0 < w" using filled ok by (auto simp: withdrawals_filled_def public_data_ok_def)
  have here: "tx_columns pfi co i ?r" "withdrawal_columns co i ?r" using at [OF i] by (simp_all add: columns_at_def)
  have nxt: "tx_columns pfi co (Suc i) ?r'" if "Suc i < length (pi_rows W)" using at [OF that] that by (simp add: columns_at_def)
  have sel: "pr_q_tx_table ?r = fq_of_bool (i < tx_len_of co)" "pr_q_tx_calldata ?r = fq_of_bool (tx_len_of co \<le> i \<and> i < tx_end_of co)"
    "pr_q_withdrawal_table ?r = fq_of_bool (tx_end_of co \<le> i \<and> i < tx_end_of co + w)"
    using here cols(3) by (auto simp: tx_columns_def withdrawal_columns_def)
  have calldata: "pr_q_tx_calldata ?r \<noteq> 0 \<Longrightarrow> pi_calldata_gates ?r ?r' = Inr ()"
  proof -
    assume "pr_q_tx_calldata ?r \<noteq> 0"
    then have "tx_len_of co \<le> i" "i < tx_end_of co" by (auto simp: sel)
    moreover have "Suc i < length (pi_rows W)" using calculation size w by simp
    ultimately show "pi_calldata_gates ?r ?r' = Inr ()" by (intro calldata_gates_at [OF ok co inv len _ _ here(1) nxt])
  qed
  have tx: "pr_q_tx_table ?r \<noteq> 0 \<Longrightarrow> pi_tx_gates (gas_table co) ?r ?r' = Inr ()"
  proof -
    assume "pr_q_tx_table ?r \<noteq> 0"
    then have i': "i < tx_len_of co" by (auto simp: sel)
    have "Suc i < length (pi_rows W)" using i' size w by (simp add: tx_end_of_def)
    then show "pi_tx_gates (gas_table co) ?r ?r' = Inr ()" by (intro tx_gates_at [OF ok co inv i' here(1) nxt])
  qed
  have withdrawal: "pr_q_withdrawal_table ?r \<noteq> 0 \<Longrightarrow> pi_withdrawal_gates ?r ?r' = Inr ()"
  proof -
    assume "pr_q_withdrawal_table ?r \<noteq> 0"
    then have i': "tx_end_of co \<le> i" "i < tx_end_of co + w" by (auto simp: sel)
    define j where "j = i - tx_end_of co"
    have j: "j < w" "i = tx_end_of co + j" using i' by (simp_all add: j_def)
    have cell: "pr_withdrawal_table ?r = withdrawal_cell d j"
      using here(2) i' cols(3) withdrawal_contents(2) [OF ok co j(1)] by (simp add: withdrawal_columns_def j_def)
    have at_j: "withdrawal_at d j = pd_withdrawals d ! j" "pv_amount (withdrawal_at d j) \<noteq> 0" "pv_id (withdrawal_at d j) = int j"
      using filled j(1) by (simp_all add: withdrawals_filled_def withdrawal_at_def)
    have "fits 8 (pv_amount (withdrawal_at d j))" using withdrawal_at_ok [OF ok] by (simp add: pi_withdrawal_ok_def)
    then have "FQ (pv_amount (withdrawal_at d j)) \<noteq> FQ 0" using at_j(2) by (subst fits_FQ_eq) (simp_all add: fits_def)
    then have amount: "pw_amount (pr_withdrawal_table ?r) \<noteq> 0" by (simp add: cell withdrawal_cell_def Let_def)
    have "pw_id (pr_withdrawal_table ?r') = pw_id (pr_withdrawal_table ?r) + 1" if q: "pr_q_withdrawal_table ?r' \<noteq> 0"
    proof (cases "Suc i < length (pi_rows W)")
      case False
      then have "Suc i = length (pi_rows W)" using i by simp
      then have "Suc i mod length (pi_rows W) = 0" by simp
      moreover have "0 < length (pi_rows W)" using i by linarith
      ultimately have "withdrawal_columns co 0 ?r'" using at [of 0] by (simp only: columns_at_def)
      then show ?thesis using q cols(1) by (simp add: withdrawal_columns_def tx_end_of_def)
    next
      case True
      then have "withdrawal_columns co (Suc i) ?r'" using at [of "Suc i"] by (simp add: columns_at_def)
      then have j': "Suc j < w" "pr_withdrawal_table ?r' = co_withdrawals co ! Suc j"
        using q i' cols(3) by (auto simp: withdrawal_columns_def j_def Suc_diff_le split: if_splits)
      then have "pr_withdrawal_table ?r' = withdrawal_cell d (Suc j)" using withdrawal_contents(2) [OF ok co] by simp
      moreover have "pv_id (withdrawal_at d (Suc j)) = int j + 1" using filled j'(1) by (simp add: withdrawals_filled_def withdrawal_at_def)
      ultimately show ?thesis by (simp add: cell withdrawal_cell_def Let_def at_j(3) FQ_arith(3))
    qed
    then show "pi_withdrawal_gates ?r ?r' = Inr ()"
      using amount by (simp add: pi_withdrawal_gates_def assert_that_def raise_unless_def)
  qed
  have "pi_digest_gate (pi_keccak_table W) (pi_circuit_len W) ?r = Inr ()"
    by (rule witness_digest_gate [OF keccak W _ i]) (use at in simp)
  then show ?thesis
    using at [OF i] calldata tx withdrawal by (simp add: check_pi_row_def gas)
qed

lemma riter_pass: "(\<And>x. x \<in> set xs \<Longrightarrow> f x = Inr ()) \<Longrightarrow> riter f xs = Inr ()"
  by (induction xs) simp_all

lemma accepted_amount:
  assumes W: "public_data2witness pfi keccak d t c w = Inr W" and run: "verify_pi_circuit W t c w = Inr ()" and i: "i < w"
  shows "pv_amount (withdrawal_at d i) \<noteq> 0"
proof -
  note row = witness_withdrawal_rows [OF W i]
  have "pw_amount (pr_withdrawal_table (pi_rows W ! (tx_table_len t + c + i))) \<noteq> 0"
    using pi_accepted(3) [OF run row(1)] row(2) by (auto simp: check_pi_row_def pi_withdrawal_gates_def ok_simps)
  then show ?thesis using row(4) by auto
qed

section \<open>The verdict\<close>

text \<open>
  For public data in range, of at most 65536 transactions and with inverses for the elements that the
  layout inverts, the circuit accepts the witness exactly when every place of the withdrawals is
  filled, with numbers that count up from zero and amounts other than zero.
\<close>

text \<open>
  C38: The verdict of the public input circuit on its own witness: for public data in range
  (fields of their widths, 256 block hashes, at least one transaction and one withdrawal, no
  more transactions, bytes of call data and withdrawals than places), of at most 65536
  transactions and with withdrawal numbers of 64 bits, with a documented Keccak and inverses
  for the field elements that the layout inverts, public_data2witness succeeds, and the
  circuit accepts its witness exactly when the block fills every place for withdrawals, with
  numbers that count up from zero and amounts other than zero: all gates and all copies of
  the block, transaction, call data and withdrawal tables hold on the rows laid out,
  whatever the rest of the data.
\<close>

theorem pi_witness_verdict:
  assumes "keccak_spec keccak" "public_data_ok d t c w" "length (pd_txs d) \<le> 2 ^ 16"
    and "list_all (inverts pfi) (pi_inverted d t)" "list_all (\<lambda>v. fits 8 (pv_id v)) (pd_withdrawals d)"
  shows "\<exists>W. public_data2witness pfi keccak d t c w = Inr W \<and>
    (verify_pi_circuit W t c w = Inr () \<longleftrightarrow> withdrawals_filled d w)"
proof -
  note ok = assms(2)
  obtain W where W: "public_data2witness pfi keccak d t c w = Inr W" by (rule pi_witness_total [OF assms(1,2)])
  have ids: "FQ (pv_id (withdrawal_at d i)) = FQ (int i) \<longleftrightarrow> pv_id (withdrawal_at d i) = int i" if "i < w" for i
  proof (rule fits_FQ_eq)
    show "fits 8 (pv_id (withdrawal_at d i))"
      using assms(5) by (auto simp: withdrawal_at_def default_pi_withdrawal_def fits_def list_all_length)
    show "fits 8 (int i)" using ok that by (simp add: public_data_ok_def fits_def)
  qed
  note copies = witness_copies [OF ok W]
  show ?thesis
  proof (intro exI conjI iffI)
    show "public_data2witness pfi keccak d t c w = Inr W" by (rule W)
    assume run: "verify_pi_circuit W t c w = Inr ()"
    then have "\<forall>i\<in>{0..<w}. FQ (pv_id (withdrawal_at d i)) = FQ (int i)"
      using copies by (auto simp: verify_pi_circuit_def ok_simps split: if_splits)
    then have id: "pv_id (withdrawal_at d i) = int i" if "i < w" for i using ids that by simp
    note amount = accepted_amount [OF W run]
    have "length (pd_withdrawals d) = w"
    proof (rule ccontr)
      assume "length (pd_withdrawals d) \<noteq> w"
      then have "length (pd_withdrawals d) < w" using ok by (simp add: public_data_ok_def)
      from amount [OF this] show False by (simp add: withdrawal_at_def default_pi_withdrawal_def)
    qed
    with id amount show "withdrawals_filled d w" by (auto simp: withdrawals_filled_def withdrawal_at_def)
  next
    assume filled: "withdrawals_filled d w"
    then have "\<forall>i\<in>{0..<w}. FQ (pv_id (withdrawal_at d i)) = FQ (int i)"
      by (auto simp: withdrawals_filled_def withdrawal_at_def)
    then have copied: "pi_copies (pi_tables.truncate W) (pi_public_inputs W) t c w = Inr []" using copies by simp
    obtain raw where "pr_rpi_digest_word (pi_rows W ! 0) = pi_keccak (pi_public_inputs W)" "int (length (pi_rows W)) = pi_circuit_len W"
      "raw_public_inputs d t c w = Inr (raw, pi_circuit_len W)"
      using witness_bytes [OF W] by blast
    moreover from this have "0 < length (pi_rows W)" using raw_public_inputs_len(5) by force
    ultimately show "verify_pi_circuit W t c w = Inr ()"
      using copied rows_pass [OF assms(1) ok assms(3,4) W filled]
      by (simp add: verify_pi_circuit_def list_at_def assert_that_def raise_unless_def) (rule riter_pass, simp)
  qed
qed

lemma inverts_coprime: "coprime k fq_modulus \<Longrightarrow> inverts bezout_inv (FQ k)"
proof -
  assume "coprime k fq_modulus"
  then have "gcd (k mod fq_modulus) fq_modulus = 1" by (metis coprime_iff_gcd_eq_1 gcd.commute gcd_red_int)
  then show ?thesis
    using fq_inv_mult [OF bezout_inv_spec, of "FQ k"] by (simp add: inverts_def coprime_iff_gcd_eq_1)
qed

lemma sample_inverted:
  "pi_inverted sample_public_data 1 =
     map FQ [-8, -7, -6, -5, -4, -3, -2, -1, 0, 1, 2, 0, -1, 1, 0, 0, 0, 0, 0, 0, 0, 0, 2, 20, 0, 0, 9]"
  by (simp add: pi_inverted_def sample_public_data_def default_pi_transaction_def tx_values_def to_addr_or_0_def
      pi_call_data_gas_cost_def word_of_0 numeral_eq_Suc flip: FQ_arith(4))

lemma sample_inverts: "list_all (inverts bezout_inv) (pi_inverted sample_public_data 1)"
proof -
  have "list_all (\<lambda>k. k = 0 \<or> coprime k fq_modulus)
      [-8, -7, -6, -5, -4, -3, -2, -1, 0, 1, 2, 0, -1, 1, 0, 0, 0, 0, 0, 0, 0, 0, 2, 20, 0, 0, 9]"
    unfolding fq_modulus_def by code_simp
  moreover have "inverts bezout_inv (FQ k)" if "k = 0 \<or> coprime k fq_modulus" for k
    using that inverts_coprime by (auto simp: inverts_def)
  ultimately show ?thesis
    unfolding sample_inverted list.pred_map comp_def by (rule list.pred_mono_strong)
qed

lemma pi_witness_verdict_witness:
  "\<exists>W W'. public_data2witness bezout_inv one_hash sample_public_data 1 2 1 = Inr W \<and> verify_pi_circuit W 1 2 1 = Inr () \<and>
     public_data2witness bezout_inv one_hash sample_public_data 1 2 2 = Inr W' \<and> verify_pi_circuit W' 1 2 2 \<noteq> Inr ()"
proof -
  have small: "length (pd_txs sample_public_data) \<le> 2 ^ 16" "list_all (\<lambda>v. fits 8 (pv_id v)) (pd_withdrawals sample_public_data)"
    by (simp_all add: sample_public_data_def fits_def)
  have "withdrawals_filled sample_public_data 1" "\<not> withdrawals_filled sample_public_data 2"
    by (simp_all add: withdrawals_filled_def sample_public_data_def)
  then show ?thesis
    using pi_witness_verdict [OF sample_libraries(2) sample_public_data_ok(1) small(1) sample_inverts small(2)]
      pi_witness_verdict [OF sample_libraries(2) sample_public_data_ok(2) small(1) sample_inverts small(2)] by blast
qed

end
