(* ===== verification/Spec2Isabelle.thy ===== *)
theory Spec2Isabelle
  imports Exp_Compose State_Sample Bytecode_Sample Copy_Sample Step_Runs Storage_Facts Call_Facts Tx_Facts
    Tx_Circuit_Facts Withdrawal_Circuit Sig_Circuit Ecc_Circuit Pi_Verdict
begin

text \<open>
  A model of the executable specification of the zkEVM circuits, the package
  \<^verbatim>\<open>src/zkevm_specs\<close>, with the theorems that make its circuits correct.

  The program. A zkEVM proves the execution of a block by tables of field elements. The
  specification is a set of Python functions that accept or refuse such tables: a function that
  returns accepts, one that raises refuses. The EVM circuit (\<^verbatim>\<open>evm_circuit\<close>) checks a list of step
  states, each with its successor: \<open>verify_steps\<close> calls for every step the gadget of its execution
  state, and the gadget looks up the rows of the tables (read-write, bytecode, transaction, block,
  copy, exponentiation and others) that justify the step. Other circuits check that these tables
  are right: the state circuit the order and the consistency of the read-write table, the bytecode
  circuit the unrolled codes, the copy circuit the copies, the exponentiation circuit the powers,
  the transaction circuit the signatures of the senders, the signature and the curve circuit what the
  precompiled contracts claim, the withdrawal circuit the trie of the withdrawals, and the public
  input circuit the digest of the data of the block.

  The model. Definitions keep the names of the source where HOL allows it. A raised exception is a
  value of type \<open>error\<close>, and a function that may raise returns \<open>error + 'a\<close> (\<open>'a result\<close>). A gadget
  is a function of an \<open>instruction\<close>, the constant part of the object of class \<open>Instruction\<close>
  (tables, current and next step, the two position flags), into the type \<open>instr\<close>, which threads
  the attributes that its methods assign, such as \<open>rw_counter_offset\<close>, and may raise. Field elements
  are the type \<open>fq\<close>, integers below the modulus of BN254 with the ring operations of the class FQ;
  words of the EVM are pairs of halves of 128 bits, as in the source. Python integers are \<open>int\<close>,
  bytes are lists of integers, tables are sets of records. \<open>with cs.condition(c)\<close> multiplies the
  constraints of its block by \<open>c\<close>, as the class ConstraintSystem does.

  The theories.
    \<^item> Prelude: errors, sequencing, little-endian bytes, the collections of facts. Field, Arithmetic,
      Hash, Params: \<^verbatim>\<open>util/arithmetic.py\<close>, \<^verbatim>\<open>util/hash.py\<close>, \<^verbatim>\<open>util/param.py\<close>. Combine_Bytes and
      Word_Results: lemmas on limbs and words.
    \<^item> Opcode, Execution_State, Precompile, Tags, Table, Step: the enumerations, the rows and lookups of
      class Tables and the step state. Lookup: the contract of a lookup as a locale.
    \<^item> Instruction, Instruction_Lookup, Instruction_Memory: every method of class Instruction.
      Instruction_Facts, Row_Facts and Word_Gadgets, Mul_Add: what a successful call of each means;
      \<open>succeeds\<close> reduces the acceptance of a gadget to its lookups and equations.
    \<^item> Exec_Compare, Exec_MulDiv, Exec_Signed, Exec_Shift, Exec_Context, Exec_Memory, Exec_Account,
      Exec_Copy, Call_Gadget, Exec_Call, Exec_Create, Exec_Tx, Exec_Error, Exec_Precompile: the gadgets of
      \<^verbatim>\<open>evm_circuit/execution\<close>, one definition per function of a file. Main_Verify: \<^verbatim>\<open>main.py\<close> and the
      dispatch on the execution state.
    \<^item> Exec_Compare, Exec_MulDiv and Exec_Signed also hold theorems of the form "accepted exactly when"
      for the gadgets of arithmetic, comparison and bitwise logic. Storage_Facts: the gas and refund
      of SSTORE against the EIPs. Call_Facts: the gas of calls. Tx_Facts: the settlement of a
      transaction. Step_Frame, Step_Gas, Step_Pays, Step_Runs: what accepted steps do to the state of a
      call, by rules that follow the structure of a gadget; the order of the states of a trace; the
      bound on the length of a run by its gas. Exp_Compose: EXP together with the circuit behind its
      table.
    \<^item> Constraint_System and Exp_Circuit, Copy_Circuit and Copy_Sound, Bytecode_Circuit, State_Circuit,
      State_Assign, State_Order, State_Consistency: the row circuits, their layouts and their soundness.
      Row_Chain: the locales \<open>backward_run\<close> and \<open>forward_run\<close>, which turn a check of neighbouring rows
      into a property of a run; Access_Log: the locale of a log of reads and writes grouped by cell. The
      circuits interpret them. Rw_Dictionary: the generator of read-write rows.
    \<^item> Chips: the stand-ins for foreign field arithmetic (\<^verbatim>\<open>util/ec.py\<close>, the class FP) and the Keccak table
      (\<^verbatim>\<open>util/tables.py\<close>). Tx_Circuit and Tx_Circuit_Facts, Sig_Circuit, Ecc_Circuit, Withdrawal_Circuit:
      the circuits of \<^verbatim>\<open>tx_circuit.py\<close>, \<^verbatim>\<open>sig_circuit.py\<close>, \<^verbatim>\<open>ecc_circuit.py\<close> and
      \<^verbatim>\<open>withdrawal_circuit.py\<close>, their witnesses and what they enforce. Block_Witness: the classes of
      \<^verbatim>\<open>evm_circuit/typing.py\<close> that describe a block (Block, Transaction, Withdrawal, Bytecode, Account)
      and the rows that they assign.
    \<^item> Pi_Circuit, Pi_Witness: \<^verbatim>\<open>pi_circuit.py\<close>, the constraints and the layout \<open>public_data2witness\<close>.
      Pi_Facts: what the digest covers, for any witness. The other theories follow the witness that the
      layout makes. Pi_Layout, Pi_Built: it succeeds for data in range (\<open>public_data_ok\<close>), by sizes of
      raw values (\<open>raw_ok\<close>), and its rows have the fixed columns and the bytes. Pi_Rows: the invariant
      \<open>layout_at\<close> of the loop over the bytes, which gives every column of every row. Pi_Gates: when the gates
      of the transactions and the call data pass. Pi_Cells, Pi_Accept: the columns of these tables and
      that they pass. Pi_Copies: the values of the tables are those of the raw bytes. Pi_Verdict:
      the circuit accepts the witness exactly when the places for withdrawals are filled.
    \<^item> Sample, Sample_Rows, State_Sample, Bytecode_Sample, Copy_Sample: concrete tables, which the circuits
      accept, for the witnesses of the theorems and for the weaknesses that modelling showed.

  What the theorems show. Sound and complete gadgets: for words in range a step is accepted exactly
  when the opcode, the rows and the transition are those of the EVM, or of what the code accepts
  where it differs. Soundness of the circuits: consistency of memory and stack, unrolled codes,
  copies, powers, signatures, withdrawals, the digest of the public inputs. Runs: the order of states,
  the frame of a call, termination by gas. Layout: generated tables are accepted, for the public
  inputs exactly when the block fills its places for withdrawals, and rows read back give the
  operations. The theorems also
  state where the code accepts more or less than it means to: the words with equal sums of halves, the
  parity overflow, the conversion of the exponentiation table, the ordering key of the state circuit,
  the field tag of the reversible write counter, the tag of a bytecode row, division by zero in SDIV and
  SMOD, the places without a withdrawal, and others.

  Bounds and loops. Loops over rows are recursions on the list of rows, loops with a counter are folds
  over a list of indices; \<open>_exp_by_squaring\<close> recurses on the exponent with a measure. No definition uses
  fuel. Widths are those of \<^verbatim>\<open>util/param.py\<close>. Theorems on tables assume of a word of a row what the
  constructor of Word checks, that its halves are below 2 to the 128.

  Parameters. The modular inverse of py_ecc, Keccak-256, RLP, the signature library eth_keys and the
  curve arithmetic of py_ecc are not under src; they are arguments of the definitions, grouped in the
  records \<open>externals\<close>, \<open>key_api\<close> and \<open>curve\<close>, and their documented behaviour is a named hypothesis of the
  theorems that need it. So is the truth value of an FQ object, on which some gadgets branch: the
  class that decides it is in py_ecc. The order in which Python iterates over a set of withdrawals
  is a parameter too.

  Not modelled: printing and hashing of objects, type aliases and protocols, the decorator
  \<open>is_circuit_code\<close> (it returns its function), the text form of the arguments of \<open>Bytecode.push\<close>, the
  test drivers and the documents.
\<close>

end
